(* ===== verification/Go_Prelude.thy ===== *)
theory Go_Prelude
  imports Main "HOL-Library.Word" "HOL-Library.Monad_Syntax"
begin

text \<open>
  The Go fragment every component relies on: fixed-width integers, byte slices with their
  bounds checks, the \<open>encoding/binary\<close> accessors, \<open>copy\<close>, and the alignment
  helpers of \<open>internal/smb2/util.go\<close>.

  A run-time panic is \<open>None\<close>: every slice expression and index of the source is
  checked against the length of the slice it is applied to. A Go slice may also carry spare
  capacity behind its length; a model that faults at the length faults whenever the code
  faults, and the buffers the server allocates itself (\<open>make([]byte, n)\<close>) have none.
  A method that fills a buffer in place is a \<open>writer\<close>: it takes the buffer and returns
  the buffer after the call.
\<close>

unbundle bit_operations_syntax

type_synonym byte = "8 word"
type_synonym bytes = "byte list"
type_synonym u8 = "8 word"
type_synonym u16 = "16 word"
type_synonym u32 = "32 word"
type_synonym u64 = "64 word"
type_synonym writer = "bytes \<Rightarrow> bytes option"

named_theorems go_buf \<open>reading over writing in byte buffers\<close>
named_theorems go_run \<open>unfolding the writers of an encoder\<close>

section \<open>Slices\<close>

definition go_slice :: "'a list \<Rightarrow> nat \<Rightarrow> nat \<Rightarrow> 'a list option" where
  "go_slice p a b = (if a \<le> b \<and> b \<le> length p then Some (take (b - a) (drop a p)) else None)"

definition go_slice_from :: "'a list \<Rightarrow> nat \<Rightarrow> 'a list option" where
  "go_slice_from p a = (if a \<le> length p then Some (drop a p) else None)"

definition index_at :: "'a list \<Rightarrow> nat \<Rightarrow> 'a option" where
  "index_at p i = (if i < length p then Some (p ! i) else None)"

text \<open>The \<open>k\<close> bytes at offset \<open>n\<close>, for use where they are known to exist.\<close>

definition rd :: "nat \<Rightarrow> nat \<Rightarrow> 'a list \<Rightarrow> 'a list" where
  "rd n k p = take k (drop n p)"

lemma go_slice_eq_rd: "go_slice p a b = (if a \<le> b \<and> b \<le> length p then Some (rd a (b - a) p) else None)"
  by (simp add: go_slice_def rd_def)

lemma go_slice_Some_length: "go_slice p a b = Some s \<Longrightarrow> length s = b - a \<and> a \<le> b \<and> b \<le> length p"
  by (auto simp: go_slice_def split: if_splits)

lemma length_rd [simp]: "n + k \<le> length p \<Longrightarrow> length (rd n k p) = k"
  by (simp add: rd_def)

lemma rd_append_left [go_buf]: "m + k \<le> length xs \<Longrightarrow> rd m k (xs @ ys) = rd m k xs"
  by (simp add: rd_def)

lemma rd_append_right [go_buf]: "length xs \<le> m \<Longrightarrow> rd m k (xs @ ys) = rd (m - length xs) k ys"
  by (simp add: rd_def)

lemma rd_take [go_buf]: "m + k \<le> n \<Longrightarrow> rd m k (take n p) = rd m k p"
  by (simp add: rd_def drop_take min_def)

lemma rd_drop [go_buf]: "rd m k (drop n p) = rd (n + m) k p"
  by (simp add: rd_def add.commute)

lemma rd_split: "rd n (k + j) p = rd n k p @ rd (n + k) j p"
  by (simp add: rd_def take_add add.commute [of n k])

lemma rd_replicate: "n + k \<le> m \<Longrightarrow> rd n k (replicate m x) = replicate k x"
  by (simp add: rd_def)

lemma rd_0_all: "length p = k \<Longrightarrow> rd 0 k p = p"
  by (simp add: rd_def)

lemma rd_concat:
  assumes "\<And>x. length (f x) = k"
  shows "i < length xs \<Longrightarrow> rd (k * i) k (concat (map f xs) @ r) = f (xs ! i)"
proof (induction xs arbitrary: i)
  case Nil
  then show ?case by simp
next
  case (Cons x xs)
  then show ?case
    by (cases i) (simp_all add: assms rd_append_left rd_append_right rd_0_all)
qed

section \<open>Words and bytes: \<open>binary.LittleEndian\<close> and \<open>binary.BigEndian\<close>\<close>

text \<open>\<open>uint16(b[0]) | uint16(b[1])<<8 | ...\<close>, least significant byte first.\<close>

primrec word_of_le :: "bytes \<Rightarrow> 'a::len word" where
  "word_of_le [] = 0"
| "word_of_le (b # bs) = ucast b OR push_bit 8 (word_of_le bs)"

text \<open>\<open>b[i] = byte(v >> (8*i))\<close> for \<open>i < n\<close>.\<close>

definition le_of_word :: "nat \<Rightarrow> 'a::len word \<Rightarrow> bytes" where
  "le_of_word n w = map (\<lambda>i. ucast (drop_bit (8 * i) w)) [0..<n]"

lemma length_le_of_word [simp]: "length (le_of_word n w) = n"
  by (simp add: le_of_word_def)

lemma le_of_word_0 [simp]: "le_of_word 0 w = []"
  by (simp add: le_of_word_def)

lemma le_of_word_Suc: "le_of_word (Suc n) w = ucast w # le_of_word n (drop_bit 8 w)"
proof -
  have "map (\<lambda>i. ucast (drop_bit (8 * i) w) :: byte) [0..<Suc n] =
        map (\<lambda>i. ucast (drop_bit (8 * i) w)) (0 # map Suc [0..<n])"
    by (simp add: upt_conv_Cons map_Suc_upt del: upt_Suc)
  also have "\<dots> = ucast w # map (\<lambda>i. ucast (drop_bit (8 * i) (drop_bit 8 w))) [0..<n]"
    by (simp add: add.commute)
  finally show ?thesis by (simp only: le_of_word_def)
qed

lemma bit_word_of_le_Cons:
  "bit (word_of_le (b # bs) :: 'a::len word) i \<longleftrightarrow>
     i < LENGTH('a) \<and> (bit b i \<or> 8 \<le> i \<and> bit (word_of_le bs :: 'a word) (i - 8))"
  by (auto simp: bit_or_iff bit_unsigned_iff bit_push_bit_iff dest: bit_imp_le_length)

lemma bit_word_of_le:
  "bit (word_of_le bs :: 'a::len word) i \<longleftrightarrow>
     i < LENGTH('a) \<and> i div 8 < length bs \<and> bit (bs ! (i div 8)) (i mod 8)"
proof (induction bs arbitrary: i)
  case Nil
  then show ?case by simp
next
  case (Cons b bs)
  show ?case
  proof (cases "i < 8")
    case True
    then show ?thesis by (simp add: bit_word_of_le_Cons del: word_of_le.simps)
  next
    case False
    then have b: "\<not> bit b i" by (auto dest: bit_imp_le_length)
    obtain j where j: "i = j + 8" using False by (metis add.commute le_Suc_ex not_less)
    have d: "(j + 8) div 8 = Suc (j div 8)" by simp
    show ?thesis
      using b Cons.IH [of j] d by (auto simp: bit_word_of_le_Cons j simp del: word_of_le.simps)
  qed
qed

lemma bit_le_of_word: "k < n \<Longrightarrow> bit (le_of_word n w ! k) j \<longleftrightarrow> j < 8 \<and> bit w (8 * k + j)"
  by (simp add: le_of_word_def bit_simps)

lemma word_of_le_ucast:
  assumes "LENGTH('a) \<le> 8 * n \<or> LENGTH('b) \<le> 8 * n"
  shows "(word_of_le (le_of_word n (w :: 'a::len word)) :: 'b::len word) = ucast w"
proof (rule bit_word_eqI)
  fix i assume i: "i < LENGTH('b)"
  have e: "8 * (i div 8) + i mod 8 = i" by simp
  show "bit (word_of_le (le_of_word n w) :: 'b word) i \<longleftrightarrow> bit (ucast w :: 'b word) i"
  proof (cases "i div 8 < n")
    case True
    then show ?thesis
      using i by (simp add: bit_word_of_le bit_le_of_word e bit_unsigned_iff)
  next
    case False
    then have "\<not> bit w i" using assms i by (auto dest: bit_imp_le_length)
    then show ?thesis using False by (simp add: bit_word_of_le bit_unsigned_iff)
  qed
qed

lemma word_of_le_of_word [simp]:
  "LENGTH('a) \<le> 8 * n \<Longrightarrow> word_of_le (le_of_word n (w :: 'a::len word)) = w"
  by (simp add: word_of_le_ucast)

lemma word_of_le_append:
  "(word_of_le (xs @ ys) :: 'a::len word) = word_of_le xs OR push_bit (8 * length xs) (word_of_le ys)"
  by (induction xs) (simp_all add: push_bit_or or.assoc)

lemma word_of_le_zeros [simp]: "word_of_le (replicate n 0) = 0"
  by (induction n) simp_all

lemma rd_le_of_word: "m + k \<le> n \<Longrightarrow> rd m k (le_of_word n w) = le_of_word k (drop_bit (8 * m) w)"
  by (rule nth_equalityI) (simp_all add: rd_def le_of_word_def add.commute distrib_left)

lemma le_of_word_of_le:
  assumes "length bs = n" and "8 * n \<le> LENGTH('a)"
  shows "le_of_word n (word_of_le bs :: 'a::len word) = bs"
proof (rule nth_equalityI)
  show "length (le_of_word n (word_of_le bs :: 'a word)) = length bs" using assms by simp
next
  fix k assume "k < length (le_of_word n (word_of_le bs :: 'a word))"
  then have k: "k < n" by simp
  show "le_of_word n (word_of_le bs :: 'a word) ! k = bs ! k"
  proof (rule bit_word_eqI)
    fix j assume j: "j < LENGTH(8)"
    have "8 * k + j < LENGTH('a)" using j k assms(2) by simp
    then show "bit (le_of_word n (word_of_le bs :: 'a word) ! k) j \<longleftrightarrow> bit (bs ! k) j"
      using j k assms(1) by (simp add: bit_le_of_word bit_word_of_le)
  qed
qed

lemma word_of_le_inject:
  assumes "length xs = n" "length ys = n" "8 * n \<le> LENGTH('a)"
    and "(word_of_le xs :: 'a::len word) = word_of_le ys"
  shows "xs = ys"
  using assms le_of_word_of_le by metis

section \<open>Big-endian numbers\<close>

definition be_of_word :: "nat \<Rightarrow> 'a::len word \<Rightarrow> bytes" where
  "be_of_word n w = rev (le_of_word n w)"

definition word_of_be :: "bytes \<Rightarrow> 'a::len word" where
  "word_of_be bs = word_of_le (rev bs)"

lemma length_be_of_word [simp]: "length (be_of_word n w) = n"
  by (simp add: be_of_word_def)

lemma word_of_be_of_word [simp]: "8 * n = LENGTH('a::len) \<Longrightarrow> word_of_be (be_of_word n (w :: 'a word)) = w"
  by (simp add: be_of_word_def word_of_be_def)

section \<open>Fallible accessors\<close>

text \<open>
  \<open>le.Uint16(p[a:a+2])\<close> and its kin: the slice expression faults when it leaves the
  buffer. \<open>le.Uint16(p[a:])\<close> faults in the same cases, inside \<open>Uint16\<close>.
\<close>

definition u8_at :: "bytes \<Rightarrow> nat \<Rightarrow> u8 option" where
  "u8_at p a = index_at p a"

definition u16_at :: "bytes \<Rightarrow> nat \<Rightarrow> u16 option" where
  "u16_at p a = map_option word_of_le (go_slice p a (a + 2))"

definition u32_at :: "bytes \<Rightarrow> nat \<Rightarrow> u32 option" where
  "u32_at p a = map_option word_of_le (go_slice p a (a + 4))"

definition u64_at :: "bytes \<Rightarrow> nat \<Rightarrow> u64 option" where
  "u64_at p a = map_option word_of_le (go_slice p a (a + 8))"

lemmas un_at_defs = u8_at_def u16_at_def u32_at_def u64_at_def

lemma u8_at_eq: "u8_at p a = (if a < length p then Some (hd (rd a 1 p)) else None)"
  by (simp add: u8_at_def index_at_def rd_def hd_drop_conv_nth take_Suc)

lemma u16_at_eq: "u16_at p a = (if a + 2 \<le> length p then Some (word_of_le (rd a 2 p)) else None)"
  by (simp add: u16_at_def go_slice_eq_rd)

lemma u32_at_eq: "u32_at p a = (if a + 4 \<le> length p then Some (word_of_le (rd a 4 p)) else None)"
  by (simp add: u32_at_def go_slice_eq_rd)

lemma u64_at_eq: "u64_at p a = (if a + 8 \<le> length p then Some (word_of_le (rd a 8 p)) else None)"
  by (simp add: u64_at_def go_slice_eq_rd)

lemmas un_at_eqs = u8_at_eq u16_at_eq u32_at_eq u64_at_eq

section \<open>Writers\<close>

text \<open>Overwriting the bytes at offset \<open>n\<close>; the buffer keeps its length.\<close>

definition upd :: "nat \<Rightarrow> bytes \<Rightarrow> bytes \<Rightarrow> bytes" where
  "upd n bs p = take n p @ take (length p - n) bs @ drop (n + length bs) p"

definition put :: "nat \<Rightarrow> bytes \<Rightarrow> writer" where
  "put n bs p = (if n + length bs \<le> length p then Some (upd n bs p) else None)"

definition put8 :: "nat \<Rightarrow> u8 \<Rightarrow> writer" where
  "put8 n w = put n [w]"

definition put16 :: "nat \<Rightarrow> u16 \<Rightarrow> writer" where
  "put16 n w = put n (le_of_word 2 w)"

definition put32 :: "nat \<Rightarrow> u32 \<Rightarrow> writer" where
  "put32 n w = put n (le_of_word 4 w)"

definition put64 :: "nat \<Rightarrow> u64 \<Rightarrow> writer" where
  "put64 n w = put n (le_of_word 8 w)"

text \<open>\<open>copy(p[a:b], src)\<close> and \<open>copy(p[a:], src)\<close> copy as much as fits.\<close>

definition copy_slice :: "nat \<Rightarrow> nat \<Rightarrow> bytes \<Rightarrow> writer" where
  "copy_slice a b src p =
     (if a \<le> b \<and> b \<le> length p then put a (take (b - a) src) p else None)"

definition copy_from :: "nat \<Rightarrow> bytes \<Rightarrow> writer" where
  "copy_from a src p = (if a \<le> length p then put a (take (length p - a) src) p else None)"

text \<open>Statements in sequence, and a method called on a subslice of the buffer.\<close>

primrec writes :: "writer list \<Rightarrow> writer" where
  "writes [] p = Some p"
| "writes (w # ws) p = (case w p of None \<Rightarrow> None | Some q \<Rightarrow> writes ws q)"

definition on_from :: "nat \<Rightarrow> writer \<Rightarrow> writer" where
  "on_from a w p =
     (if a \<le> length p then map_option (\<lambda>q. take a p @ q) (w (drop a p)) else None)"

definition on_slice :: "nat \<Rightarrow> nat \<Rightarrow> writer \<Rightarrow> writer" where
  "on_slice a b w p =
     (if a \<le> b \<and> b \<le> length p
      then map_option (\<lambda>q. take a p @ q @ drop b p) (w (take (b - a) (drop a p))) else None)"

definition when_w :: "bool \<Rightarrow> writer \<Rightarrow> writer" where
  "when_w c w = (if c then w else Some)"

lemma length_upd [simp]: "length (upd n bs p) = length p"
  by (simp add: upd_def min_def)

lemma upd_Nil [simp]: "upd n [] p = p"
  by (simp add: upd_def)

lemma rd_upd_same [go_buf]: "length bs = k \<Longrightarrow> n + k \<le> length p \<Longrightarrow> rd n k (upd n bs p) = bs"
  by (simp add: rd_def upd_def)

lemma rd_upd_before [go_buf]: "m + k \<le> n \<Longrightarrow> rd m k (upd n bs p) = rd m k p"
proof -
  assume le: "m + k \<le> n"
  then have "take (m + k) (upd n bs p) = take (m + k) p"
    by (simp add: upd_def min_def)
  then show ?thesis
    by (metis rd_take order_refl)
qed

lemma rd_upd_after [go_buf]: "n + length bs \<le> m \<Longrightarrow> rd m k (upd n bs p) = rd m k p"
  by (auto simp: rd_def upd_def min_def)

lemma rd_upd_within [go_buf]:
  "n \<le> m \<Longrightarrow> m + k \<le> n + length bs \<Longrightarrow> n + length bs \<le> length p \<Longrightarrow>
     rd m k (upd n bs p) = rd (m - n) k bs"
  by (simp add: rd_def upd_def)

lemma rd_upd_extend:
  "length bs \<le> k \<Longrightarrow> n + k \<le> length p \<Longrightarrow>
     rd n k (upd n bs p) = bs @ rd (n + length bs) (k - length bs) p"
  by (simp add: rd_def upd_def)

lemma upd_upd_adjacent:
  "n + length xs + length ys \<le> length p \<Longrightarrow> upd (n + length xs) ys (upd n xs p) = upd n (xs @ ys) p"
  by (simp add: upd_def add.commute [of "length ys"] add.assoc)

lemma upd_merge:
  "m = n + length xs \<Longrightarrow> m + length ys \<le> length p \<Longrightarrow> upd m ys (upd n xs p) = upd n (xs @ ys) p"
  using upd_upd_adjacent by blast

lemma nth_upd:
  "i < length p \<Longrightarrow> upd n bs p ! i = (if n \<le> i \<and> i < n + length bs then bs ! (i - n) else p ! i)"
  by (auto simp: upd_def nth_append min_def)

lemma upd_commute: "n + length xs \<le> m \<Longrightarrow> upd n xs (upd m ys p) = upd m ys (upd n xs p)"
  by (rule nth_equalityI) (auto simp: nth_upd)

lemma upd_upd_cover:
  "length ys \<le> length xs \<Longrightarrow> n + length xs \<le> length p \<Longrightarrow> upd n xs (upd n ys p) = upd n xs p"
  by (rule nth_equalityI) (auto simp: nth_upd)

lemma upd_zeros:
  assumes "rd n k p = replicate k 0"
  shows "upd n (replicate k 0) p = p"
proof (rule nth_equalityI)
  show "length (upd n (replicate k 0) p) = length p" by simp
  have "p ! i = 0" if "n \<le> i" "i < n + k" "i < length p" for i
  proof -
    have "rd n k p ! (i - n) = p ! i" using that by (simp add: rd_def)
    then show ?thesis using assms that by simp
  qed
  then show "upd n (replicate k 0) p ! i = p ! i" if "i < length (upd n (replicate k 0) p)" for i
    using that by (auto simp: nth_upd)
qed

lemma upd_append:
  "n + length xs + length ys \<le> length p \<Longrightarrow> upd n (xs @ ys) p = upd (n + length xs) ys (upd n xs p)"
  by (simp add: upd_upd_adjacent)

lemma upd_0_all: "length bs = length p \<Longrightarrow> upd 0 bs p = bs"
  by (simp add: upd_def)

lemma upd_append_left: "n + length bs \<le> length p \<Longrightarrow> upd n bs (p @ q) = upd n bs p @ q"
  by (simp add: upd_def)

lemma take_upd: "m \<le> n \<Longrightarrow> take m (upd n bs p) = take m p"
  by (simp add: upd_def min_def)

lemma drop_upd: "n + length bs \<le> m \<Longrightarrow> drop m (upd n bs p) = drop m p"
  by (auto simp: upd_def min_def)

section \<open>Writers that never fault\<close>

text \<open>
  \<open>safe_w n w\<close>: on every buffer of at least \<open>n\<close> bytes the writer \<open>w\<close>
  returns, and it keeps the length of the buffer.
\<close>

definition safe_w :: "nat \<Rightarrow> writer \<Rightarrow> bool" where
  "safe_w n w \<longleftrightarrow> (\<forall>p. n \<le> length p \<longrightarrow> (\<exists>q. w p = Some q \<and> length q = length p))"

named_theorems go_safe \<open>writers that never fault\<close>

lemma safe_wD: "safe_w n w \<Longrightarrow> n \<le> length p \<Longrightarrow> \<exists>q. w p = Some q \<and> length q = length p"
  by (simp add: safe_w_def)

lemma safe_wI:
  "(\<And>p. n \<le> length p \<Longrightarrow> \<exists>q. w p = Some q \<and> length q = length p) \<Longrightarrow> safe_w n w"
  by (simp add: safe_w_def)

lemma safe_wE:
  assumes "safe_w n w" "n \<le> length p"
  obtains q where "w p = Some q" "length q = length p"
  using assms safe_wD by blast

lemma safe_w_mono: "safe_w m w \<Longrightarrow> m \<le> n \<Longrightarrow> safe_w n w"
  by (simp add: safe_w_def)

lemma safe_Some [go_safe]: "safe_w n Some"
  by (simp add: safe_w_def)

lemma safe_put [go_safe]: "n + length bs \<le> k \<Longrightarrow> safe_w k (put n bs)"
  by (simp add: safe_w_def put_def)

lemma safe_put8 [go_safe]: "n + 1 \<le> k \<Longrightarrow> safe_w k (put8 n w)"
  by (simp add: put8_def safe_put)

lemma safe_put16 [go_safe]: "n + 2 \<le> k \<Longrightarrow> safe_w k (put16 n w)"
  by (simp add: put16_def safe_put)

lemma safe_put32 [go_safe]: "n + 4 \<le> k \<Longrightarrow> safe_w k (put32 n w)"
  by (simp add: put32_def safe_put)

lemma safe_put64 [go_safe]: "n + 8 \<le> k \<Longrightarrow> safe_w k (put64 n w)"
  by (simp add: put64_def safe_put)

lemma safe_copy_slice [go_safe]: "a \<le> b \<Longrightarrow> b \<le> k \<Longrightarrow> safe_w k (copy_slice a b src)"
  by (auto simp: safe_w_def copy_slice_def put_def)

lemma safe_copy_from [go_safe]: "a \<le> k \<Longrightarrow> safe_w k (copy_from a src)"
  by (auto simp: safe_w_def copy_from_def put_def)

lemma safe_writes_Nil [go_safe]: "safe_w k (writes [])"
  by (simp add: safe_w_def)

lemma safe_writes_Cons [go_safe]: "safe_w k w \<Longrightarrow> safe_w k (writes ws) \<Longrightarrow> safe_w k (writes (w # ws))"
proof (rule safe_wI)
  fix p :: bytes assume "safe_w k w" "safe_w k (writes ws)" and p: "k \<le> length p"
  then obtain q where q: "w p = Some q" "length q = length p" by (blast elim: safe_wE)
  then obtain r where "writes ws q = Some r" "length r = length q"
    using \<open>safe_w k (writes ws)\<close> p by (metis safe_wE)
  with q show "\<exists>q. writes (w # ws) p = Some q \<and> length q = length p" by simp
qed

lemma safe_on_from [go_safe]: "a \<le> k \<Longrightarrow> safe_w (k - a) w \<Longrightarrow> safe_w k (on_from a w)"
proof (rule safe_wI)
  fix p :: bytes assume a: "a \<le> k" and w: "safe_w (k - a) w" and p: "k \<le> length p"
  have "k - a \<le> length (drop a p)" using p by simp
  with w obtain q where "w (drop a p) = Some q" "length q = length (drop a p)" by (rule safe_wE)
  then show "\<exists>q. on_from a w p = Some q \<and> length q = length p"
    using a p by (simp add: on_from_def)
qed

lemma safe_on_slice [go_safe]: "a \<le> b \<Longrightarrow> b \<le> k \<Longrightarrow> safe_w (b - a) w \<Longrightarrow> safe_w k (on_slice a b w)"
proof (rule safe_wI)
  fix p :: bytes assume a: "a \<le> b" "b \<le> k" and w: "safe_w (b - a) w" and p: "k \<le> length p"
  have "b - a \<le> length (take (b - a) (drop a p))" using a p by simp
  with w obtain q where "w (take (b - a) (drop a p)) = Some q"
      "length q = length (take (b - a) (drop a p))" by (rule safe_wE)
  then show "\<exists>q. on_slice a b w p = Some q \<and> length q = length p"
    using a p by (simp add: on_slice_def)
qed

lemma safe_when_w [go_safe]: "(c \<Longrightarrow> safe_w k w) \<Longrightarrow> safe_w k (when_w c w)"
  by (simp add: when_w_def safe_Some)

lemma writes_append: "writes (xs @ ys) p = (case writes xs p of None \<Rightarrow> None | Some q \<Rightarrow> writes ys q)"
  by (induction xs arbitrary: p) (auto split: option.splits)

lemmas go_run_defs [go_run] = put8_def put16_def put32_def put64_def put_def
  copy_slice_def copy_from_def on_from_def on_slice_def when_w_def

section \<open>What a writer leaves in a zeroed buffer\<close>

text \<open>
  \<open>zimg w bs\<close>: where the first \<open>length bs\<close> bytes of the buffer are zero,
  the writer \<open>w\<close> replaces exactly these by \<open>bs\<close>. Go zeroes what
  \<open>make\<close> returns, and an encoder may leave reserved bytes alone.
\<close>

definition zimg :: "writer \<Rightarrow> bytes \<Rightarrow> bool" where
  "zimg w bs \<longleftrightarrow>
     (\<forall>p. length bs \<le> length p \<and> rd 0 (length bs) p = replicate (length bs) 0 \<longrightarrow>
        w p = Some (upd 0 bs p))"

lemma zimgD:
  "zimg w bs \<Longrightarrow> length bs \<le> length p \<Longrightarrow> rd 0 (length bs) p = replicate (length bs) 0 \<Longrightarrow>
     w p = Some (upd 0 bs p)"
  by (simp add: zimg_def)

lemma zimg_replicate: "zimg w bs \<Longrightarrow> length bs = n \<Longrightarrow> w (replicate n 0) = Some bs"
  by (simp add: zimg_def rd_replicate upd_0_all)

lemma zimg_on_from:
  assumes "zimg w bs" "a + length bs \<le> length p" "rd a (length bs) p = replicate (length bs) 0"
  shows "on_from a w p = Some (upd a bs p)"
proof -
  have "w (drop a p) = Some (upd 0 bs (drop a p))"
    using assms by (intro zimgD) (simp_all add: rd_drop)
  then show ?thesis
    using assms(2) by (simp add: on_from_def upd_def add.commute)
qed

lemma zimg_on_slice:
  assumes "zimg w bs" "a \<le> b" "b \<le> length p" "a + length bs \<le> b"
    "rd a (length bs) p = replicate (length bs) 0"
  shows "on_slice a b w p = Some (upd a bs p)"
proof -
  have "w (take (b - a) (drop a p)) = Some (upd 0 bs (take (b - a) (drop a p)))"
    using assms by (intro zimgD) (simp_all add: rd_drop rd_take)
  moreover have "drop (a + length bs) p = drop (a + length bs) (take b p) @ drop b p"
    using drop_append [of "a + length bs" "take b p" "drop b p"] assms(3,4) by simp
  ultimately show ?thesis
    using assms(2-4) by (simp add: on_slice_def upd_def drop_take) (simp add: take_drop add.commute)
qed

lemma zimg_writes:
  assumes "\<And>p. length bs \<le> length p \<Longrightarrow> rd 0 (length bs) p = replicate (length bs) 0 \<Longrightarrow>
    w p = Some (upd 0 bs p)"
  shows "zimg w bs"
  using assms by (simp add: zimg_def)

lemma rd_zero_part: "rd 0 n p = replicate n 0 \<Longrightarrow> a + k \<le> n \<Longrightarrow> rd a k p = replicate k 0"
  using rd_take [of a k n p] by (simp add: rd_def [of 0] rd_replicate)

text \<open>Encoding the items of a list one behind the other.\<close>

lemma writes_enumerate:
  assumes "\<And>w. length (f w) = k"
  shows "writes (map (\<lambda>(i, w). put (b + k * i) (f w)) (enumerate 0 ws)) p =
    (if ws = [] \<or> b + k * length ws \<le> length p then Some (upd b (concat (map f ws)) p) else None)"
proof (induction ws rule: rev_induct)
  case Nil
  then show ?case by simp
next
  case (snoc w ws)
  have l: "length (concat (map f ws)) = k * length ws"
    by (induction ws) (simp_all add: assms)
  have "writes (map (\<lambda>(i, w). put (b + k * i) (f w)) (enumerate 0 (ws @ [w]))) p =
    (case writes (map (\<lambda>(i, w). put (b + k * i) (f w)) (enumerate 0 ws)) p of
       None \<Rightarrow> None | Some q \<Rightarrow> put (b + k * length ws) (f w) q)"
    by (simp add: enumerate_append_eq writes_append split: option.split)
  also have "\<dots> = (if b + k * length (ws @ [w]) \<le> length p
      then Some (upd b (concat (map f (ws @ [w]))) p) else None)"
    using upd_upd_adjacent [of b "concat (map f ws)" "f w" p]
    unfolding snoc.IH by (auto simp: put_def assms l)
  finally show ?case by simp
qed

lemma rd_rd: "m + k \<le> n \<Longrightarrow> rd m k (rd a n p) = rd (a + m) k p"
  by (simp add: rd_def [of a] rd_take rd_drop)

lemma rd_zeros_sub:
  "rd a n p = replicate n 0 \<Longrightarrow> a \<le> b \<Longrightarrow> b + k \<le> a + n \<Longrightarrow> rd b k p = replicate k 0"
  using rd_rd [of "b - a" k n a p] by (simp add: rd_replicate)

lemma le_of_word_zero [simp]: "le_of_word n 0 = replicate n 0"
  by (simp add: le_of_word_def map_replicate_const)

lemma put_rd:
  "put n bs p = Some q \<Longrightarrow> m + k \<le> n \<or> n + length bs \<le> m \<Longrightarrow> rd m k q = rd m k p"
  by (auto simp: put_def rd_upd_before rd_upd_after split: if_splits)

lemma on_from_rd: "on_from a w p = Some q \<Longrightarrow> m + k \<le> a \<Longrightarrow> rd m k q = rd m k p"
  by (auto simp: on_from_def rd_append_left rd_take split: if_splits)

section \<open>The \<open>Encoder\<close> interface (\<open>internal/smb2/iface.go\<close>)\<close>

text \<open>
  A value of the Go interface type \<open>Encoder\<close> is its two methods. What its users rely
  on is that \<open>Encode\<close> does not fault on a buffer of \<open>Size()\<close> bytes.
\<close>

record encoder =
  enc_Size :: nat
  enc_Encode :: writer

definition encoder_ok :: "encoder \<Rightarrow> bool" where
  "encoder_ok e \<longleftrightarrow> safe_w (enc_Size e) (enc_Encode e)"

section \<open>Alignment (\<open>internal/smb2/util.go\<close>)\<close>

definition Roundup :: "nat \<Rightarrow> nat \<Rightarrow> nat" where
  "Roundup x align = nat ((int x + (int align - 1)) AND NOT (int align - 1))"

definition Align :: "nat \<Rightarrow> nat \<Rightarrow> nat" where
  "Align n a = nat ((int n + int a - 1) AND NOT (int a - 1))"

lemma and_not_mask_int: "(x :: int) AND NOT (2 ^ k - 1) = (x div 2 ^ k) * 2 ^ k"
proof -
  have "x AND NOT (mask k) = push_bit k (drop_bit k x)"
    by (rule bit_eqI) (auto simp: bit_simps)
  then show ?thesis
    by (simp add: mask_eq_exp_minus_1 push_bit_eq_mult drop_bit_eq_div)
qed

lemma Roundup_8: "Roundup x 8 = (x + 7) div 8 * 8"
proof -
  have "(int x + 7) AND NOT 7 = (int x + 7) div 8 * 8"
    using and_not_mask_int [of "int x + 7" 3] by simp
  then show ?thesis
    by (simp add: Roundup_def nat_mult_distrib nat_div_distrib)
qed

lemma Align_eq_Roundup: "Align n a = Roundup n a"
  by (simp only: Align_def Roundup_def add_diff_eq)

lemma Roundup_8_ge: "x \<le> Roundup x 8" and Roundup_8_lt: "Roundup x 8 < x + 8"
  and Roundup_8_dvd: "8 dvd Roundup x 8"
  using div_mult_mod_eq [of "x + 7" 8] mod_less_divisor [of 8 "x + 7"] unfolding Roundup_8
  by (linarith, linarith, simp)

lemma Roundup_8_id: "8 dvd x \<Longrightarrow> Roundup x 8 = x"
  by (auto simp: Roundup_8 elim!: dvdE)

lemma Roundup_8_mono: "x \<le> y \<Longrightarrow> Roundup x 8 \<le> Roundup y 8"
  by (simp add: Roundup_8 div_le_mono)

lemma Roundup_8_add: "8 dvd x \<Longrightarrow> Roundup (x + y) 8 = x + Roundup y 8"
  by (auto simp: Roundup_8 add.assoc elim!: dvdE)

section \<open>Low bits\<close>

lemma and_7_eq_0_iff: "(w :: 'a::len word) AND 7 = 0 \<longleftrightarrow> 8 dvd unat w"
proof -
  have "w AND 7 = take_bit 3 w"
    by (simp add: take_bit_eq_mask mask_eq_exp_minus_1)
  moreover have "take_bit 3 w = 0 \<longleftrightarrow> unat (take_bit 3 w) = 0"
    by (simp add: unat_eq_zero)
  moreover have "unat (take_bit 3 w) = unat w mod 8"
    unfolding unsigned_take_bit_eq by (simp add: take_bit_eq_mod)
  ultimately show ?thesis by (auto simp: dvd_eq_mod_eq_0)
qed

lemma unat_of_nat_u8: "x < 256 \<Longrightarrow> unat (of_nat x :: u8) = x"
  by (simp add: unat_of_nat)

lemma unat_of_nat_u16: "x < 65536 \<Longrightarrow> unat (of_nat x :: u16) = x"
  by (simp add: unat_of_nat)

lemma unat_of_nat_u32: "x < 4294967296 \<Longrightarrow> unat (of_nat x :: u32) = x"
  by (simp add: unat_of_nat)

lemma unat_num_of_nat_u16: "numeral k + x < 65536 \<Longrightarrow> unat (numeral k + of_nat x :: u16) = numeral k + x"
  using unat_of_nat_u16 [of "numeral k + x"] by simp

lemma unat_num_of_nat_u32: "numeral k + x < 4294967296 \<Longrightarrow> unat (numeral k + of_nat x :: u32) = numeral k + x"
  using unat_of_nat_u32 [of "numeral k + x"] by simp

lemma uint_num_of_nat_u16: "numeral k + x < 65536 \<Longrightarrow> uint (numeral k + of_nat x :: u16) = numeral k + int x"
  using unat_num_of_nat_u16 [of k x] by (simp add: uint_nat)

lemma uint_num_of_nat_u32: "numeral k + x < 4294967296 \<Longrightarrow> uint (numeral k + of_nat x :: u32) = numeral k + int x"
  using unat_num_of_nat_u32 [of k x] by (simp add: uint_nat)

lemmas num_of_nat = unat_num_of_nat_u16 unat_num_of_nat_u32 uint_num_of_nat_u16 uint_num_of_nat_u32
  unat_of_nat_u8 unat_of_nat_u16 unat_of_nat_u32

section \<open>Optional values\<close>

lemma those_map_Some: "(\<And>x. x \<in> set xs \<Longrightarrow> f x = Some (g x)) \<Longrightarrow> those (map f xs) = Some (map g xs)"
  by (induction xs) auto

lemma those_eq_None_iff: "those xs = None \<longleftrightarrow> None \<in> set xs"
  by (induction xs) (auto split: option.splits)

end
