(* ===== verification/Smb2_Packet.thy ===== *)
theory Smb2_Packet
  imports Go_Prelude
begin

text \<open>
  The packet header of \<open>internal/smb2/packet.go\<close>: the struct \<open>PacketHeader\<close> and
  its encoder, the byte-slice views \<open>PacketCodec\<close> (the 64-byte SMB2 header) and
  \<open>TransformCodec\<close> (the 52-byte SMB3 transform header), and the constants of
  \<open>internal/smb2/const.go\<close> they use. The lemmas show that encoding a header never
  faults on a 64-byte buffer and is read back field by field, and that the validity check
  of a received packet makes every accessor total.
\<close>

section \<open>Constants (\<open>internal/smb2/const.go\<close>)\<close>

definition MAGIC :: bytes where "MAGIC = [0xfe, 0x53, 0x4d, 0x42]"
definition MAGIC2 :: bytes where "MAGIC2 = [0xfd, 0x53, 0x4d, 0x42]"

abbreviation (input) "SMB2_NEGOTIATE \<equiv> (0 :: u16)"
abbreviation (input) "SMB2_SESSION_SETUP \<equiv> (1 :: u16)"
abbreviation (input) "SMB2_LOGOFF \<equiv> (2 :: u16)"
abbreviation (input) "SMB2_TREE_CONNECT \<equiv> (3 :: u16)"
abbreviation (input) "SMB2_TREE_DISCONNECT \<equiv> (4 :: u16)"
abbreviation (input) "SMB2_CREATE \<equiv> (5 :: u16)"
abbreviation (input) "SMB2_CLOSE \<equiv> (6 :: u16)"
abbreviation (input) "SMB2_FLUSH \<equiv> (7 :: u16)"
abbreviation (input) "SMB2_READ \<equiv> (8 :: u16)"
abbreviation (input) "SMB2_WRITE \<equiv> (9 :: u16)"
abbreviation (input) "SMB2_LOCK \<equiv> (10 :: u16)"
abbreviation (input) "SMB2_IOCTL \<equiv> (11 :: u16)"
abbreviation (input) "SMB2_CANCEL \<equiv> (12 :: u16)"
abbreviation (input) "SMB2_ECHO \<equiv> (13 :: u16)"
abbreviation (input) "SMB2_QUERY_DIRECTORY \<equiv> (14 :: u16)"
abbreviation (input) "SMB2_CHANGE_NOTIFY \<equiv> (15 :: u16)"
abbreviation (input) "SMB2_QUERY_INFO \<equiv> (16 :: u16)"
abbreviation (input) "SMB2_SET_INFO \<equiv> (17 :: u16)"
abbreviation (input) "SMB2_OPLOCK_BREAK \<equiv> (18 :: u16)"
abbreviation (input) "SMB_COM_NEGOTIATE \<equiv> (0x72 :: u16)"

abbreviation (input) "SMB2_FLAGS_SERVER_TO_REDIR \<equiv> (1 :: u32)"
abbreviation (input) "SMB2_FLAGS_ASYNC_COMMAND \<equiv> (2 :: u32)"
abbreviation (input) "SMB2_FLAGS_RELATED_OPERATIONS \<equiv> (4 :: u32)"
abbreviation (input) "SMB2_FLAGS_SIGNED \<equiv> (8 :: u32)"
abbreviation (input) "SMB2_FLAGS_PRIORITY_MASK \<equiv> (0x70 :: u32)"
abbreviation (input) "Encrypted \<equiv> (1 :: u16)"

section \<open>The header struct and its encoder\<close>

record PacketHeader =
  hdr_CreditCharge :: u16
  hdr_ChannelSequence :: u16
  hdr_Status :: u32
  hdr_Command :: u16
  hdr_CreditRequestResponse :: u16
  hdr_Flags :: u32
  hdr_NextCommand :: u32
  hdr_MessageId :: u64
  hdr_AsyncId :: u64
  hdr_TreeId :: u32
  hdr_SessionId :: u64

definition PacketCodec_SetProtocolId :: writer where
  "PacketCodec_SetProtocolId = copy_from 0 MAGIC"

definition PacketCodec_SetStructureSize :: writer where
  "PacketCodec_SetStructureSize = put16 4 64"

definition PacketCodec_SetCreditCharge :: "u16 \<Rightarrow> writer" where
  "PacketCodec_SetCreditCharge u = put16 6 u"

definition PacketCodec_SetStatus :: "u32 \<Rightarrow> writer" where
  "PacketCodec_SetStatus u = put32 8 u"

definition PacketCodec_SetChannelSequence :: "u16 \<Rightarrow> writer" where
  "PacketCodec_SetChannelSequence u = put16 8 u"

definition PacketCodec_SetCommand :: "u16 \<Rightarrow> writer" where
  "PacketCodec_SetCommand u = put16 12 u"

definition PacketCodec_SetCreditRequest :: "u16 \<Rightarrow> writer" where
  "PacketCodec_SetCreditRequest u = put16 14 u"

definition PacketCodec_SetCreditResponse :: "u16 \<Rightarrow> writer" where
  "PacketCodec_SetCreditResponse u = put16 14 u"

definition PacketCodec_SetFlags :: "u32 \<Rightarrow> writer" where
  "PacketCodec_SetFlags u = put32 16 u"

definition PacketCodec_SetNextCommand :: "u32 \<Rightarrow> writer" where
  "PacketCodec_SetNextCommand u = put32 20 u"

definition PacketCodec_SetMessageId :: "u64 \<Rightarrow> writer" where
  "PacketCodec_SetMessageId u = put64 24 u"

definition PacketCodec_SetAsyncId :: "u64 \<Rightarrow> writer" where
  "PacketCodec_SetAsyncId u = put64 32 u"

definition PacketCodec_SetTreeId :: "u32 \<Rightarrow> writer" where
  "PacketCodec_SetTreeId u = put32 36 u"

definition PacketCodec_SetSessionId :: "u64 \<Rightarrow> writer" where
  "PacketCodec_SetSessionId u = put64 40 u"

definition PacketCodec_SetSignature :: "bytes \<Rightarrow> writer" where
  "PacketCodec_SetSignature bs = copy_slice 48 64 bs"

lemmas PacketCodec_setters [go_run] = PacketCodec_SetProtocolId_def
  PacketCodec_SetStructureSize_def PacketCodec_SetCreditCharge_def PacketCodec_SetStatus_def
  PacketCodec_SetChannelSequence_def PacketCodec_SetCommand_def PacketCodec_SetCreditRequest_def
  PacketCodec_SetCreditResponse_def PacketCodec_SetFlags_def PacketCodec_SetNextCommand_def
  PacketCodec_SetMessageId_def PacketCodec_SetAsyncId_def PacketCodec_SetTreeId_def
  PacketCodec_SetSessionId_def PacketCodec_SetSignature_def

definition encodeHeader :: "PacketHeader \<Rightarrow> writer" where
  "encodeHeader hdr = writes [
     PacketCodec_SetProtocolId,
     PacketCodec_SetStructureSize,
     PacketCodec_SetCreditCharge (hdr_CreditCharge hdr),
     (if hdr_ChannelSequence hdr \<noteq> 0 then PacketCodec_SetChannelSequence (hdr_ChannelSequence hdr)
      else if hdr_Status hdr \<noteq> 0 then PacketCodec_SetStatus (hdr_Status hdr)
      else Some),
     PacketCodec_SetCommand (hdr_Command hdr),
     PacketCodec_SetCreditRequest (hdr_CreditRequestResponse hdr),
     PacketCodec_SetFlags (hdr_Flags hdr),
     PacketCodec_SetNextCommand (hdr_NextCommand hdr),
     PacketCodec_SetMessageId (hdr_MessageId hdr),
     (if hdr_AsyncId hdr \<noteq> 0 then PacketCodec_SetAsyncId (hdr_AsyncId hdr)
      else if hdr_TreeId hdr \<noteq> 0 then PacketCodec_SetTreeId (hdr_TreeId hdr)
      else Some),
     PacketCodec_SetSessionId (hdr_SessionId hdr)]"

section \<open>The \<open>PacketCodec\<close> view\<close>

definition PacketCodec_ProtocolId :: "bytes \<Rightarrow> bytes option" where
  "PacketCodec_ProtocolId p = (if length p < 4 then Some [] else go_slice p 0 4)"

definition PacketCodec_IsSmb1 :: "bytes \<Rightarrow> bool" where
  "PacketCodec_IsSmb1 p =
     (if length p < 4 then False
      else if p ! 0 \<noteq> 0xff then False
      else if p ! 1 \<noteq> 0x53 then False
      else if p ! 2 \<noteq> 0x4d then False
      else if p ! 3 \<noteq> 0x42 then False
      else True)"

definition PacketCodec_StructureSize :: "bytes \<Rightarrow> u16 option" where
  "PacketCodec_StructureSize p = u16_at p 4"

definition PacketCodec_CreditCharge :: "bytes \<Rightarrow> u16 option" where
  "PacketCodec_CreditCharge p = u16_at p 6"

definition PacketCodec_Status :: "bytes \<Rightarrow> u32 option" where
  "PacketCodec_Status p = u32_at p 8"

definition PacketCodec_Command :: "bytes \<Rightarrow> u16 option" where
  "PacketCodec_Command p =
     (if PacketCodec_IsSmb1 p then map_option ucast (index_at p 4) else u16_at p 12)"

definition PacketCodec_CreditRequest :: "bytes \<Rightarrow> u16 option" where
  "PacketCodec_CreditRequest p = u16_at p 14"

definition PacketCodec_CreditResponse :: "bytes \<Rightarrow> u16 option" where
  "PacketCodec_CreditResponse p = u16_at p 14"

definition PacketCodec_Flags :: "bytes \<Rightarrow> u32 option" where
  "PacketCodec_Flags p = u32_at p 16"

definition PacketCodec_NextCommand :: "bytes \<Rightarrow> u32 option" where
  "PacketCodec_NextCommand p = u32_at p 20"

definition PacketCodec_MessageId :: "bytes \<Rightarrow> u64 option" where
  "PacketCodec_MessageId p =
     (if PacketCodec_IsSmb1 p then Some 0xFFFFFFFFFFFFFFFF else u64_at p 24)"

definition PacketCodec_AsyncId :: "bytes \<Rightarrow> u64 option" where
  "PacketCodec_AsyncId p = u64_at p 32"

definition PacketCodec_TreeId :: "bytes \<Rightarrow> u32 option" where
  "PacketCodec_TreeId p = u32_at p 36"

definition PacketCodec_SessionId :: "bytes \<Rightarrow> u64 option" where
  "PacketCodec_SessionId p = u64_at p 40"

definition PacketCodec_Signature :: "bytes \<Rightarrow> bytes option" where
  "PacketCodec_Signature p = go_slice p 48 64"

definition PacketCodec_Data :: "bytes \<Rightarrow> bytes option" where
  "PacketCodec_Data p = go_slice_from p 64"

definition PacketCodec_ChannelSequence :: "bytes \<Rightarrow> u16 option" where
  "PacketCodec_ChannelSequence p = u16_at p 8"

definition PacketCodec_IsInvalid :: "bytes \<Rightarrow> bool option" where
  "PacketCodec_IsInvalid p =
     (if length p < 4 then Some True
      else if PacketCodec_IsSmb1 p then Some (length p < 5 \<or> p ! 4 \<noteq> 0x72)
      else if length p < 64 then Some True
      else if p ! 0 \<noteq> 0xfe then Some True
      else if p ! 1 \<noteq> 0x53 then Some True
      else if p ! 2 \<noteq> 0x4d then Some True
      else if p ! 3 \<noteq> 0x42 then Some True
      else do {
        ss \<leftarrow> PacketCodec_StructureSize p;
        if ss \<noteq> 64 then Some True else do {
          nc \<leftarrow> PacketCodec_NextCommand p;
          if nc AND 7 \<noteq> 0 then Some True
          else if unat nc \<ge> length p then Some True
          else Some False } })"

definition PacketCodec_IsCompound :: "bytes \<Rightarrow> bool option" where
  "PacketCodec_IsCompound p = do {
     fl \<leftarrow> PacketCodec_Flags p;
     if fl AND SMB2_FLAGS_RELATED_OPERATIONS = SMB2_FLAGS_RELATED_OPERATIONS then Some True
     else do { nc \<leftarrow> PacketCodec_NextCommand p; Some (nc \<noteq> 0) } }"

definition PacketCodec_IsCompoundFirst :: "bytes \<Rightarrow> bool option" where
  "PacketCodec_IsCompoundFirst p = do {
     fl \<leftarrow> PacketCodec_Flags p;
     if fl AND SMB2_FLAGS_RELATED_OPERATIONS = 0
     then do { nc \<leftarrow> PacketCodec_NextCommand p; Some (nc \<noteq> 0) }
     else Some False }"

definition PacketCodec_IsCompoundLast :: "bytes \<Rightarrow> bool option" where
  "PacketCodec_IsCompoundLast p = do {
     fl \<leftarrow> PacketCodec_Flags p;
     if fl AND SMB2_FLAGS_RELATED_OPERATIONS = SMB2_FLAGS_RELATED_OPERATIONS
     then do { nc \<leftarrow> PacketCodec_NextCommand p; Some (nc = 0) }
     else Some False }"

lemmas PacketCodec_getters = PacketCodec_ProtocolId_def PacketCodec_StructureSize_def
  PacketCodec_CreditCharge_def PacketCodec_Status_def PacketCodec_CreditRequest_def
  PacketCodec_CreditResponse_def PacketCodec_Flags_def PacketCodec_NextCommand_def
  PacketCodec_AsyncId_def PacketCodec_TreeId_def PacketCodec_SessionId_def
  PacketCodec_Signature_def PacketCodec_Data_def PacketCodec_ChannelSequence_def

section \<open>Header round trip\<close>

lemma length_MAGIC [simp]: "length MAGIC = 4"
  by (simp add: MAGIC_def)

lemma length_MAGIC2 [simp]: "length MAGIC2 = 4"
  by (simp add: MAGIC2_def)

lemma safe_encodeHeader [go_safe]: "64 \<le> k \<Longrightarrow> safe_w k (encodeHeader hdr)"
  by (auto simp: encodeHeader_def PacketCodec_setters intro!: go_safe)

lemma list_eq_4: "length xs = 4 \<Longrightarrow> xs = [xs ! 0, xs ! 1, xs ! 2, xs ! 3]"
  by (auto simp: numeral_eq_Suc length_Suc_conv)

lemma take_4_eq: "take 4 p = [a, b, c, d] \<longleftrightarrow>
    4 \<le> length p \<and> p ! 0 = a \<and> p ! 1 = b \<and> p ! 2 = c \<and> p ! 3 = d"
proof (cases "4 \<le> length p")
  case True
  then have "take 4 p = [p ! 0, p ! 1, p ! 2, p ! 3]"
    using list_eq_4 [of "take 4 p"] by simp
  then show ?thesis using True by simp
next
  case False
  then have "length (take 4 p) \<noteq> length [a, b, c, d]" by simp
  then show ?thesis using False by metis
qed

lemma PacketCodec_IsSmb1_iff: "PacketCodec_IsSmb1 p \<longleftrightarrow> rd 0 4 p = [0xff, 0x53, 0x4d, 0x42]"
  by (auto simp: PacketCodec_IsSmb1_def rd_def take_4_eq)

text \<open>What a reader finds in a zeroed buffer after \<open>encodeHeader\<close>.\<close>

definition header_reads :: "PacketHeader \<Rightarrow> bytes \<Rightarrow> bool" where
  "header_reads hdr q \<longleftrightarrow>
     take 4 q = MAGIC \<and>
     PacketCodec_StructureSize q = Some 64 \<and>
     PacketCodec_CreditCharge q = Some (hdr_CreditCharge hdr) \<and>
     PacketCodec_Status q =
       Some (if hdr_ChannelSequence hdr \<noteq> 0 then ucast (hdr_ChannelSequence hdr) else hdr_Status hdr) \<and>
     PacketCodec_Command q = Some (hdr_Command hdr) \<and>
     PacketCodec_CreditRequest q = Some (hdr_CreditRequestResponse hdr) \<and>
     PacketCodec_Flags q = Some (hdr_Flags hdr) \<and>
     PacketCodec_NextCommand q = Some (hdr_NextCommand hdr) \<and>
     PacketCodec_MessageId q = Some (hdr_MessageId hdr) \<and>
     PacketCodec_TreeId q =
       Some (if hdr_AsyncId hdr \<noteq> 0 then ucast (drop_bit 32 (hdr_AsyncId hdr)) else hdr_TreeId hdr) \<and>
     (hdr_AsyncId hdr \<noteq> 0 \<longrightarrow> PacketCodec_AsyncId q = Some (hdr_AsyncId hdr)) \<and>
     PacketCodec_SessionId q = Some (hdr_SessionId hdr) \<and>
     PacketCodec_Signature q = Some (replicate 16 0)"

lemma encodeHeader_eq:
  assumes "64 \<le> length p"
  shows "encodeHeader hdr p = Some
    (upd 40 (le_of_word 8 (hdr_SessionId hdr))
    ((if hdr_AsyncId hdr \<noteq> 0 then upd 32 (le_of_word 8 (hdr_AsyncId hdr))
      else if hdr_TreeId hdr \<noteq> 0 then upd 36 (le_of_word 4 (hdr_TreeId hdr)) else id)
    (upd 24 (le_of_word 8 (hdr_MessageId hdr))
    (upd 20 (le_of_word 4 (hdr_NextCommand hdr))
    (upd 16 (le_of_word 4 (hdr_Flags hdr))
    (upd 14 (le_of_word 2 (hdr_CreditRequestResponse hdr))
    (upd 12 (le_of_word 2 (hdr_Command hdr))
    ((if hdr_ChannelSequence hdr \<noteq> 0 then upd 8 (le_of_word 2 (hdr_ChannelSequence hdr))
      else if hdr_Status hdr \<noteq> 0 then upd 8 (le_of_word 4 (hdr_Status hdr)) else id)
    (upd 6 (le_of_word 2 (hdr_CreditCharge hdr))
    (upd 4 (le_of_word 2 (64 :: u16))
    (upd 0 MAGIC p)))))))))))"
  using assms by (simp add: encodeHeader_def go_run MAGIC_def)

theorem encodeHeader_reads:
  assumes "64 \<le> n"
  shows "\<exists>q. encodeHeader hdr (replicate n 0) = Some q \<and> length q = n \<and> header_reads hdr q"
proof -
  have l: "64 \<le> length (replicate n (0 :: byte))" using assms by simp
  have t4: "take 4 p = rd 0 4 p" for p :: bytes by (simp add: rd_def)
  show ?thesis
    unfolding encodeHeader_eq [OF l] header_reads_def t4
    using assms
    by (cases "hdr_AsyncId hdr = 0"; cases "hdr_TreeId hdr = 0";
        cases "hdr_ChannelSequence hdr = 0"; cases "hdr_Status hdr = 0")
      (simp_all add: PacketCodec_getters PacketCodec_Command_def PacketCodec_MessageId_def
        PacketCodec_IsSmb1_iff un_at_eqs go_slice_eq_rd go_buf rd_replicate MAGIC_def
        rd_upd_extend rd_le_of_word word_of_le_append word_of_le_ucast)
qed

section \<open>Validity\<close>

lemma PacketCodec_IsInvalid_total: "PacketCodec_IsInvalid p \<noteq> None"
  by (simp add: PacketCodec_IsInvalid_def PacketCodec_StructureSize_def PacketCodec_NextCommand_def
      un_at_eqs del: not_None_eq)

definition smb2_header_ok :: "bytes \<Rightarrow> bool" where
  "smb2_header_ok p \<longleftrightarrow>
     64 \<le> length p \<and> take 4 p = MAGIC \<and> word_of_le (rd 4 2 p) = (64 :: u16) \<and>
     8 dvd unat (word_of_le (rd 20 4 p) :: u32) \<and> unat (word_of_le (rd 20 4 p) :: u32) < length p"

lemma PacketCodec_valid_iff:
  "PacketCodec_IsInvalid p = Some False \<longleftrightarrow>
     (PacketCodec_IsSmb1 p \<and> 5 \<le> length p \<and> p ! 4 = 0x72) \<or> smb2_header_ok p"
proof (cases "PacketCodec_IsSmb1 p")
  case True
  then have l: "4 \<le> length p" and m: "take 4 p = [0xff, 0x53, 0x4d, 0x42]"
    by (auto simp: PacketCodec_IsSmb1_def take_4_eq split: if_splits)
  have "\<not> smb2_header_ok p" using m by (simp add: smb2_header_ok_def MAGIC_def)
  then show ?thesis using True l by (auto simp: PacketCodec_IsInvalid_def)
next
  case False
  then show ?thesis
    by (auto simp: PacketCodec_IsInvalid_def smb2_header_ok_def PacketCodec_getters un_at_eqs
        and_7_eq_0_iff MAGIC_def take_4_eq)
qed

lemma smb2_header_okD:
  assumes "smb2_header_ok p"
  shows "64 \<le> length p" "\<not> PacketCodec_IsSmb1 p"
  using assms by (auto simp: smb2_header_ok_def PacketCodec_IsSmb1_iff rd_def MAGIC_def)

text \<open>The accessors the receive loop calls after a packet passed the check.\<close>

lemma smb2_header_accessors:
  assumes "smb2_header_ok p"
  shows "PacketCodec_Command p = Some (word_of_le (rd 12 2 p))"
    and "PacketCodec_CreditRequest p = Some (word_of_le (rd 14 2 p))"
    and "PacketCodec_Status p = Some (word_of_le (rd 8 4 p))"
    and "PacketCodec_Flags p = Some (word_of_le (rd 16 4 p))"
    and "PacketCodec_NextCommand p = Some (word_of_le (rd 20 4 p))"
    and "PacketCodec_MessageId p = Some (word_of_le (rd 24 8 p))"
    and "PacketCodec_TreeId p = Some (word_of_le (rd 36 4 p))"
    and "PacketCodec_SessionId p = Some (word_of_le (rd 40 8 p))"
    and "PacketCodec_Signature p = Some (rd 48 16 p)"
    and "PacketCodec_Data p = Some (drop 64 p)"
  using smb2_header_okD [OF assms]
  by (simp_all add: PacketCodec_getters PacketCodec_Command_def PacketCodec_MessageId_def
      un_at_eqs go_slice_eq_rd go_slice_from_def)

lemma encodeHeader_header_ok:
  assumes "header_reads hdr q" "64 \<le> length q" "8 dvd unat (hdr_NextCommand hdr)"
    "unat (hdr_NextCommand hdr) < length q"
  shows "smb2_header_ok q"
  using assms
  by (auto simp: header_reads_def smb2_header_ok_def PacketCodec_getters un_at_eqs split: if_splits)

lemma header_readsI_append:
  assumes "header_reads hdr q" "64 \<le> length q"
  shows "header_reads hdr (take 64 q @ r)"
proof -
  have "rd 0 4 q = MAGIC" using assms by (simp add: header_reads_def rd_def)
  then show ?thesis
    using assms by (simp add: header_reads_def PacketCodec_getters PacketCodec_Command_def
        PacketCodec_MessageId_def PacketCodec_IsSmb1_iff un_at_eqs go_slice_eq_rd go_buf MAGIC_def)
qed

section \<open>The \<open>TransformCodec\<close> view\<close>

definition TransformCodec_IsInvalid :: "bytes \<Rightarrow> bool" where
  "TransformCodec_IsInvalid p =
     (if length p < 52 then True
      else if p ! 0 \<noteq> 0xfd then True
      else if p ! 1 \<noteq> 0x53 then True
      else if p ! 2 \<noteq> 0x4d then True
      else if p ! 3 \<noteq> 0x42 then True
      else False)"

definition TransformCodec_ProtocolId :: "bytes \<Rightarrow> bytes option" where
  "TransformCodec_ProtocolId p = go_slice p 0 4"

definition TransformCodec_SetProtocolId :: writer where
  "TransformCodec_SetProtocolId = copy_slice 0 4 MAGIC2"

definition TransformCodec_Signature :: "bytes \<Rightarrow> bytes option" where
  "TransformCodec_Signature p = go_slice p 4 20"

definition TransformCodec_SetSignature :: "bytes \<Rightarrow> writer" where
  "TransformCodec_SetSignature bs = copy_slice 4 20 bs"

definition TransformCodec_Nonce :: "bytes \<Rightarrow> bytes option" where
  "TransformCodec_Nonce p = go_slice p 20 36"

definition TransformCodec_SetNonce :: "bytes \<Rightarrow> writer" where
  "TransformCodec_SetNonce bs = copy_slice 20 36 bs"

definition TransformCodec_OriginalMessageSize :: "bytes \<Rightarrow> u32 option" where
  "TransformCodec_OriginalMessageSize p = u32_at p 36"

definition TransformCodec_SetOriginalMessageSize :: "u32 \<Rightarrow> writer" where
  "TransformCodec_SetOriginalMessageSize u = put32 36 u"

definition TransformCodec_EncryptionAlgorithm :: "bytes \<Rightarrow> u16 option" where
  "TransformCodec_EncryptionAlgorithm p = u16_at p 42"

definition TransformCodec_SetEncryptionAlgorithm :: "u16 \<Rightarrow> writer" where
  "TransformCodec_SetEncryptionAlgorithm u = put16 42 u"

definition TransformCodec_SessionId :: "bytes \<Rightarrow> u64 option" where
  "TransformCodec_SessionId p = u64_at p 44"

definition TransformCodec_SetSessionId :: "u64 \<Rightarrow> writer" where
  "TransformCodec_SetSessionId u = put64 44 u"

definition TransformCodec_AssociatedData :: "bytes \<Rightarrow> bytes option" where
  "TransformCodec_AssociatedData p = go_slice p 20 52"

definition TransformCodec_EncryptedData :: "bytes \<Rightarrow> bytes option" where
  "TransformCodec_EncryptedData p = go_slice_from p 52"

definition TransformCodec_Flags :: "bytes \<Rightarrow> u16 option" where
  "TransformCodec_Flags t = u16_at t 42"

definition TransformCodec_SetFlags :: "u16 \<Rightarrow> writer" where
  "TransformCodec_SetFlags u = put16 42 u"

lemmas TransformCodec_getters = TransformCodec_ProtocolId_def TransformCodec_Signature_def
  TransformCodec_Nonce_def TransformCodec_OriginalMessageSize_def
  TransformCodec_EncryptionAlgorithm_def TransformCodec_SessionId_def
  TransformCodec_AssociatedData_def TransformCodec_EncryptedData_def TransformCodec_Flags_def

lemmas TransformCodec_setters [go_run] = TransformCodec_SetProtocolId_def
  TransformCodec_SetSignature_def TransformCodec_SetNonce_def
  TransformCodec_SetOriginalMessageSize_def TransformCodec_SetEncryptionAlgorithm_def
  TransformCodec_SetSessionId_def TransformCodec_SetFlags_def

lemma TransformCodec_valid_iff: "\<not> TransformCodec_IsInvalid p \<longleftrightarrow> 52 \<le> length p \<and> take 4 p = MAGIC2"
  by (auto simp: TransformCodec_IsInvalid_def take_4_eq MAGIC2_def)

lemma TransformCodec_accessors:
  assumes "\<not> TransformCodec_IsInvalid p"
  shows "TransformCodec_Signature p = Some (rd 4 16 p)"
    and "TransformCodec_Nonce p = Some (rd 20 16 p)"
    and "TransformCodec_Flags p = Some (word_of_le (rd 42 2 p))"
    and "TransformCodec_SessionId p = Some (word_of_le (rd 44 8 p))"
    and "TransformCodec_AssociatedData p = Some (rd 20 32 p)"
    and "TransformCodec_EncryptedData p = Some (drop 52 p)"
  using assms by (simp_all add: TransformCodec_valid_iff TransformCodec_getters un_at_eqs
      go_slice_eq_rd go_slice_from_def)

text \<open>A transform header is never taken for a plain packet, and conversely.\<close>

lemma transform_not_packet:
  assumes "\<not> TransformCodec_IsInvalid p"
  shows "PacketCodec_IsInvalid p = Some True"
proof -
  obtain b where b: "PacketCodec_IsInvalid p = Some b" using PacketCodec_IsInvalid_total by blast
  have "PacketCodec_IsInvalid p \<noteq> Some False"
    using assms by (auto simp: TransformCodec_valid_iff PacketCodec_valid_iff smb2_header_ok_def
        MAGIC_def MAGIC2_def PacketCodec_IsSmb1_iff rd_def)
  with b show ?thesis by simp
qed

end
