(* ===== verification/Block_Cipher.thy ===== *)
theory Block_Cipher
  imports Go_Prelude
begin

text \<open>
  What the message authentication codes of \<open>internal/crypto\<close> share. A \<open>cipher.Block\<close>
  comes from the Go library; its \<open>Encrypt\<close> writes exactly one block, so a cipher is a function on
  bytes whose result is cut to the block size. \<open>chain_write\<close> is the loop both codes use to absorb
  bytes; it is compared with cipher block chaining over whole blocks.
\<close>

type_synonym block_fn = "bytes \<Rightarrow> bytes"

definition Encrypt :: "nat \<Rightarrow> block_fn \<Rightarrow> bytes \<Rightarrow> bytes" where
  "Encrypt n c src = take n (c src @ replicate n 0)"

lemma length_Encrypt [simp]: "length (Encrypt n c src) = n"
  by (simp add: Encrypt_def)

text \<open>Exclusive or of a prefix: \<open>dst[i] ^= b[i]\<close> for the bytes \<open>b\<close> has.\<close>

definition xor_bytes :: "bytes \<Rightarrow> bytes \<Rightarrow> bytes" where
  "xor_bytes a b = map2 (XOR) a b"

definition xor_prefix :: "bytes \<Rightarrow> bytes \<Rightarrow> bytes" where
  "xor_prefix x r = map2 (XOR) x r @ drop (length r) x"

lemma length_xor_bytes [simp]: "length (xor_bytes a b) = min (length a) (length b)"
  by (simp add: xor_bytes_def)

lemma length_xor_prefix [simp]: "length r \<le> length x \<Longrightarrow> length (xor_prefix x r) = length x"
  by (simp add: xor_prefix_def)

lemma nth_xor_prefix: "length r \<le> length x \<Longrightarrow> i < length x \<Longrightarrow>
    xor_prefix x r ! i = (if i < length r then x ! i XOR r ! i else x ! i)"
  by (auto simp: xor_prefix_def nth_append)

lemma xor_prefix_Nil [simp]: "xor_prefix x [] = x"
  by (simp add: xor_prefix_def)

lemma xor_prefix_full: "length r = length x \<Longrightarrow> xor_prefix x r = xor_bytes x r"
  by (simp add: xor_prefix_def xor_bytes_def)

lemma xor_bytes_cancel: "length a = length b \<Longrightarrow> xor_bytes (xor_bytes a b) b = a"
  by (rule nth_equalityI) (auto simp: xor_bytes_def xor.assoc)

lemma xor_bytes_commute: "xor_bytes a b = xor_bytes b a"
  by (rule nth_equalityI) (auto simp: xor_bytes_def ac_simps)

text \<open>The state of a code that absorbs bytes: the current block and the position in it.\<close>

type_synonym chain = "bytes \<times> nat"

fun chain_write :: "block_fn \<Rightarrow> chain \<Rightarrow> bytes \<Rightarrow> chain" where
  "chain_write c (ci, p) [] = (ci, p)"
| "chain_write c (ci, p) (b # bs) =
     (let (ci, p) = (if p \<ge> length ci then (Encrypt (length ci) c ci, 0) else (ci, p))
      in chain_write c (ci[p := (ci ! p) XOR b], p + 1) bs)"

lemma chain_write_append: "chain_write c s (xs @ ys) = chain_write c (chain_write c s xs) ys"
  by (induction c s xs rule: chain_write.induct) (auto simp: Let_def split: if_splits)

section \<open>Cipher block chaining\<close>

fun cbc :: "nat \<Rightarrow> block_fn \<Rightarrow> bytes \<Rightarrow> bytes list \<Rightarrow> bytes" where
  "cbc n c x [] = x"
| "cbc n c x (b # bs) = cbc n c (Encrypt n c (xor_bytes x b)) bs"

lemma cbc_append: "cbc n c x (as @ bs) = cbc n c (cbc n c x as) bs"
  by (induction as arbitrary: x) auto

lemma length_cbc: "length x = n \<Longrightarrow> length (cbc n c x bs) = n"
  by (induction bs arbitrary: x) auto

fun chunks :: "nat \<Rightarrow> bytes \<Rightarrow> bytes list" where
  "chunks n [] = []"
| "chunks n (b # bs) = take (Suc (n - 1)) (b # bs) # chunks n (drop (n - 1) bs)"

definition pad0 :: "nat \<Rightarrow> bytes \<Rightarrow> bytes" where
  "pad0 n xs = xs @ replicate ((n - length xs mod n) mod n) 0"

lemma chunks_block: "length b = n \<Longrightarrow> 0 < n \<Longrightarrow> chunks n (b @ bs) = b # chunks n bs"
  by (cases b) auto

lemma chunks_concat: "0 < n \<Longrightarrow> list_all (\<lambda>b. length b = n) Bs \<Longrightarrow> chunks n (concat Bs @ r) = Bs @ chunks n r"
  by (induction Bs) (auto simp: chunks_block)

lemma chunks_short: "r \<noteq> [] \<Longrightarrow> length r \<le> n \<Longrightarrow> chunks n r = [r]"
  by (cases r) auto

lemma pad0_concat: "list_all (\<lambda>b. length b = n) Bs \<Longrightarrow> pad0 n (concat Bs @ r) = concat Bs @ pad0 n r"
  by (induction Bs) (auto simp: pad0_def)

lemma pad0_short: "0 < length r \<Longrightarrow> length r \<le> n \<Longrightarrow> pad0 n r = r @ replicate (n - length r) 0"
  by (cases "length r = n") (auto simp: pad0_def)

lemma pad0_dvd:
  assumes "0 < n" shows "n dvd length (pad0 n xs)"
proof (cases "length xs mod n = 0")
  case True
  then show ?thesis by (simp add: pad0_def mod_eq_0_iff_dvd)
next
  case False
  have "length xs mod n < n" using assms by simp
  then have "length (pad0 n xs) = n * (length xs div n) + n"
    using False mult_div_mod_eq [of n "length xs"] unfolding pad0_def length_append length_replicate
    by (subst mod_less) linarith+
  then show ?thesis by simp
qed

text \<open>Every non-empty message is whole blocks and a last part of one to \<open>n\<close> bytes.\<close>

lemma split_blocks:
  assumes "0 < n" "M \<noteq> []"
  obtains Bs r where "M = concat Bs @ r" "list_all (\<lambda>b. length b = n) Bs" "0 < length r" "length r \<le> n"
  using assms(2)
proof (induction "length M" arbitrary: M thesis rule: less_induct)
  case less
  show ?case
  proof (cases "length M \<le> n")
    case True
    then show ?thesis using less(2) [of "[]" M] less(3) by simp
  next
    case False
    have "length (drop n M) < length M" "drop n M \<noteq> []" using False assms(1) by auto
    from less(1) [OF this(1) _ this(2)] obtain Bs r where
      "drop n M = concat Bs @ r" "list_all (\<lambda>b. length b = n) Bs" "0 < length r" "length r \<le> n" by blast
    then show ?thesis
      using less(2) [of "take n M # Bs" r] False append_take_drop_id [of n M] by simp
  qed
qed

section \<open>The loop absorbs a message block by block\<close>

lemma chain_write_within:
  assumes "p + length r \<le> length x" "p \<le> length x"
  shows "chain_write c (x, p) r = (take p x @ xor_prefix (drop p x) r, p + length r)"
  using assms
proof (induction r arbitrary: x p)
  case Nil
  then show ?case by simp
next
  case (Cons b r)
  let ?x = "x[p := (x ! p) XOR b]"
  have "chain_write c (x, p) (b # r) = chain_write c (?x, Suc p) r"
    using Cons(2) by simp
  also have "\<dots> = (take (Suc p) ?x @ xor_prefix (drop (Suc p) ?x) r, Suc p + length r)"
    using Cons by simp
  also have "take (Suc p) ?x @ xor_prefix (drop (Suc p) ?x) r = take p x @ xor_prefix (drop p x) (b # r)"
    using Cons(2) by (simp add: take_Suc_conv_app_nth xor_prefix_def flip: Cons_nth_drop_Suc)
  finally show ?case by simp
qed

lemma chain_write_block:
  "length x = n \<Longrightarrow> length b = n \<Longrightarrow> chain_write c (x, 0) b = (xor_bytes x b, n)"
  using chain_write_within [of 0 b x c] by (simp add: xor_prefix_full)

lemma chain_write_full:
  assumes "length x = n" "0 < n" "r \<noteq> []"
  shows "chain_write c (x, n) r = chain_write c (Encrypt n c x, 0) r"
  using assms by (cases r) (simp_all add: Let_def)

lemma chain_write_blocks:
  assumes "0 < n" "length x = n" "list_all (\<lambda>b. length b = n) Bs" "0 < length r" "length r \<le> n"
  shows "chain_write c (x, 0) (concat Bs @ r) = (xor_prefix (cbc n c x Bs) r, length r)"
  using assms
proof (induction Bs arbitrary: x)
  case Nil
  then show ?case using chain_write_within [of 0 r x c] by simp
next
  case (Cons b Bs)
  have "chain_write c (x, 0) (concat (b # Bs) @ r) = chain_write c (xor_bytes x b, n) (concat Bs @ r)"
    using Cons by (simp add: chain_write_append [of _ _ b] chain_write_block)
  also have "\<dots> = chain_write c (Encrypt n c (xor_bytes x b), 0) (concat Bs @ r)"
    using Cons by (intro chain_write_full) auto
  finally show ?case using Cons by simp
qed

lemma length_chain_write:
  "p \<le> length ci \<Longrightarrow> ci \<noteq> [] \<Longrightarrow> chain_write c (ci, p) bs = (ci', p') \<Longrightarrow>
     length ci' = length ci \<and> p' \<le> length ci'"
proof (induction bs arbitrary: ci p)
  case Nil
  then show ?case by simp
next
  case (Cons b bs)
  define x where "x = (if p \<ge> length ci then (Encrypt (length ci) c ci, 0) else (ci, p))"
  have x: "length (fst x) = length ci" "snd x < length (fst x)"
    using Cons(2,3) by (auto simp: x_def)
  have "chain_write c ((fst x)[snd x := (fst x ! snd x) XOR b], snd x + 1) bs = (ci', p')"
    using Cons(4) by (simp add: x_def Let_def case_prod_beta)
  moreover have "fst x \<noteq> []" using x by auto
  ultimately show ?case using Cons(1) x by (metis Suc_eq_plus1 Suc_leI length_list_update list_update_nonempty)
qed

end
