(* ===== verification/Ccm.thy ===== *)
theory Ccm
  imports Block_Cipher
begin

text \<open>
  \<open>internal/crypto/ccm\<close>: counter mode with CBC-MAC over a 128-bit block cipher
  (\<open>ccm.go\<close>) and the incremental CBC-MAC it uses (\<open>cbc_mac.go\<close>). \<open>Seal\<close> and
  \<open>Open\<close> append to \<open>dst\<close>; a panic is \<open>None\<close> and a nil result of
  \<open>Seal\<close> is the empty list. The counter keystream is \<open>cipher.NewCTR\<close> of the Go library: the
  encryptions of successive big-endian counter blocks. The reference is the formatting of
  NIST SP 800-38C, appendix A, over whole blocks.
\<close>

section \<open>\<open>cbc_mac.go\<close>\<close>

record mac =
  mac_ci :: bytes
  mac_p :: nat
  mac_c :: block_fn

definition newMAC :: "block_fn \<Rightarrow> mac" where
  "newMAC c = \<lparr>mac_ci = replicate 16 0, mac_p = 0, mac_c = c\<rparr>"

definition mac_Reset :: "mac \<Rightarrow> mac" where
  "mac_Reset m = m\<lparr>mac_ci := map (\<lambda>_. 0) (mac_ci m), mac_p := 0\<rparr>"

definition mac_Write :: "bytes \<Rightarrow> mac \<Rightarrow> mac" where
  "mac_Write p m = (let (ci, q) = chain_write (mac_c m) (mac_ci m, mac_p m) p in m\<lparr>mac_ci := ci, mac_p := q\<rparr>)"

definition mac_PadZero :: "mac \<Rightarrow> mac" where
  "mac_PadZero m =
     (if mac_p m \<noteq> 0 then m\<lparr>mac_ci := Encrypt (length (mac_ci m)) (mac_c m) (mac_ci m), mac_p := 0\<rparr> else m)"

definition mac_Sum :: "bytes \<Rightarrow> mac \<Rightarrow> bytes" where
  "mac_Sum in' m = in' @ mac_ci m"

definition mac_Size :: "mac \<Rightarrow> nat" where
  "mac_Size m = length (mac_ci m)"

section \<open>\<open>ccm.go\<close>\<close>

record ccm =
  ccm_c :: block_fn
  ccm_mac :: mac
  ccm_nonceSize :: nat
  ccm_tagSize :: nat

datatype ccm_error = CCM_block_size | CCM_nonce_size | CCM_tag_size | CCM_payload_size | CCM_auth

definition NewCCMWithNonceAndTagSizes :: "block_fn \<Rightarrow> nat \<Rightarrow> nat \<Rightarrow> nat \<Rightarrow> ccm_error + ccm" where
  "NewCCMWithNonceAndTagSizes c blockSize nonceSize tagSize =
     (if blockSize \<noteq> 16 then Inl CCM_block_size
      else if \<not> (7 \<le> nonceSize \<and> nonceSize \<le> 13) then Inl CCM_nonce_size
      else if \<not> (4 \<le> tagSize \<and> tagSize \<le> 16 \<and> even tagSize) then Inl CCM_tag_size
      else Inr \<lparr>ccm_c = c, ccm_mac = newMAC c, ccm_nonceSize = nonceSize, ccm_tagSize = tagSize\<rparr>)"

definition maxUvarint :: "nat \<Rightarrow> u64" where
  "maxUvarint n = push_bit (n * 8) 1 - 1"

text \<open>\<open>putUvarint(bs, u)\<close> fills \<open>bs\<close> with the big-endian bytes of \<open>u\<close>.\<close>

definition putUvarint :: "bytes \<Rightarrow> u64 \<Rightarrow> bytes" where
  "putUvarint bs u = map (\<lambda>i. ucast (drop_bit (8 * (length bs - 1 - i)) u)) [0..<length bs]"

definition getTag :: "ccm \<Rightarrow> bytes \<Rightarrow> bytes \<Rightarrow> bytes \<Rightarrow> bytes" where
  "getTag ccm Ctr data plaintext =
     (let m = mac_Reset (ccm_mac ccm);
          n = ccm_nonceSize ccm;
          B = Ctr[0 := (Ctr ! 0) OR (push_bit 3 (of_nat ((ccm_tagSize ccm - 2) div 2)))];
          B = take (1 + n) B @ putUvarint (drop (1 + n) B) (of_nat (length plaintext));
          m = (if length data > 0 then
                 let B = B[0 := (B ! 0) OR 0x40];
                     m = mac_Write B m;
                     m = (if length data < 2 ^ 15 - 2 ^ 7 then
                            mac_Write (putUvarint (take 2 B) (of_nat (length data))) m
                          else if length data \<le> 2 ^ 31 - 1 then
                            mac_Write ([0xff, 0xfe] @ putUvarint (rd 2 4 B) (of_nat (length data))) m
                          else
                            mac_Write ([0xff, 0xff] @ putUvarint (rd 2 8 B) (of_nat (length data))) m);
                     m = mac_Write data m
                 in mac_PadZero m
               else mac_Write B m);
          m = mac_PadZero (mac_Write plaintext m)
      in mac_Sum [] m)"

definition ctr_block :: "block_fn \<Rightarrow> bytes \<Rightarrow> nat \<Rightarrow> bytes" where
  "ctr_block c iv i = Encrypt 16 c (be_of_word 16 (word_of_be iv + of_nat i :: 128 word))"

definition XORKeyStream :: "block_fn \<Rightarrow> bytes \<Rightarrow> bytes \<Rightarrow> bytes" where
  "XORKeyStream c iv src = xor_bytes src (concat (map (ctr_block c iv) [0..<(length src + 15) div 16]))"

definition ccm_Ctr0 :: "ccm \<Rightarrow> bytes \<Rightarrow> bytes" where
  "ccm_Ctr0 ccm nonce =
     upd 1 nonce ((replicate 16 0) [0 := of_nat (15 - ccm_nonceSize ccm - 1)])"

text \<open>\<open>Seal\<close> writes behind \<open>dst\<close> and returns a slice of the result; the first
  component is what it writes, the second the returned slice.\<close>

definition ccm_Seal :: "ccm \<Rightarrow> bytes \<Rightarrow> bytes \<Rightarrow> bytes \<Rightarrow> bytes \<Rightarrow> (bytes \<times> bytes) option" where
  "ccm_Seal ccm dst nonce plaintext data =
     (if length nonce \<noteq> ccm_nonceSize ccm then None
      else if maxUvarint (15 - ccm_nonceSize ccm) < of_nat (length plaintext) then Some ([], [])
      else
        let Ctr = ccm_Ctr0 ccm nonce;
            S0 = Encrypt 16 (ccm_c ccm) Ctr;
            Ctr = Ctr[15 := 1];
            ciphertext = XORKeyStream (ccm_c ccm) Ctr plaintext;
            T = getTag ccm Ctr data plaintext;
            tail = ciphertext @ xor_bytes S0 T
        in Some (tail, take (length plaintext + ccm_tagSize ccm) (dst @ tail)))"

definition ccm_Open :: "ccm \<Rightarrow> bytes \<Rightarrow> bytes \<Rightarrow> bytes \<Rightarrow> bytes \<Rightarrow> (ccm_error + bytes) option" where
  "ccm_Open ccm dst nonce ciphertext data =
     (if length nonce \<noteq> ccm_nonceSize ccm then None
      else if length ciphertext \<le> ccm_tagSize ccm then None
      else if maxUvarint (15 - ccm_nonceSize ccm) < of_nat (length ciphertext - ccm_tagSize ccm)
      then Some (Inl CCM_payload_size)
      else
        let k = length ciphertext - ccm_tagSize ccm;
            Ctr = ccm_Ctr0 ccm nonce;
            S0 = Encrypt 16 (ccm_c ccm) Ctr;
            Ctr = Ctr[15 := 1];
            plaintext = XORKeyStream (ccm_c ccm) Ctr (take k ciphertext);
            T = xor_bytes (getTag ccm Ctr data plaintext) S0
        in if take (ccm_tagSize ccm) T \<noteq> drop k ciphertext then Some (Inl CCM_auth)
           else Some (Inr (dst @ plaintext)))"

section \<open>The incremental code is CBC-MAC over padded blocks\<close>

lemma xor_prefix_pad:
  "length r \<le> length x \<Longrightarrow> xor_prefix x r = xor_bytes x (r @ replicate (length x - length r) 0)"
  by (rule nth_equalityI) (auto simp: nth_xor_prefix xor_bytes_def nth_append)

definition mac_fin :: "block_fn \<Rightarrow> chain \<Rightarrow> bytes" where
  "mac_fin c s = (if snd s \<noteq> 0 then Encrypt (length (fst s)) c (fst s) else fst s)"

lemma mac_fin_chain_write:
  assumes "length x = n" "0 < n"
  shows "mac_fin c (chain_write c (x, 0) xs) = cbc n c x (chunks n (pad0 n xs))"
proof (cases "xs = []")
  case True
  then show ?thesis by (simp add: mac_fin_def pad0_def)
next
  case False
  then obtain Bs r where xs: "xs = concat Bs @ r" and b: "list_all (\<lambda>b. length b = n) Bs"
    and r: "0 < length r" "length r \<le> n"
    using split_blocks [OF assms(2)] by metis
  let ?y = "cbc n c x Bs"
  have y: "length ?y = n" using assms(1) by (rule length_cbc)
  have "chunks n (pad0 n xs) = Bs @ [r @ replicate (n - length r) 0]"
    using xs b r assms(2) by (simp add: pad0_concat pad0_short chunks_concat chunks_short)
  then show ?thesis
    using chain_write_blocks [OF assms(2,1) b r] xs y r
    by (simp add: mac_fin_def cbc_append xor_prefix_pad)
qed

lemma mac_PadZero_Write:
  assumes "length (mac_ci m) = 16" "mac_p m = 0"
  shows "mac_PadZero (mac_Write xs m) =
    m\<lparr>mac_ci := cbc 16 (mac_c m) (mac_ci m) (chunks 16 (pad0 16 xs)), mac_p := 0\<rparr>"
proof -
  obtain ci q where w: "chain_write (mac_c m) (mac_ci m, 0) xs = (ci, q)" by (rule prod.exhaust)
  have "mac_fin (mac_c m) (ci, q) = cbc 16 (mac_c m) (mac_ci m) (chunks 16 (pad0 16 xs))"
    using mac_fin_chain_write [of "mac_ci m" 16 "mac_c m" xs] assms w by simp
  then show ?thesis
    using w assms by (auto simp: mac_PadZero_def mac_Write_def mac_fin_def)
qed

lemma mac_Write_append: "mac_Write ys (mac_Write xs m) = mac_Write (xs @ ys) m"
  by (simp add: mac_Write_def chain_write_append case_prod_beta)

lemma mac_Reset_eq: "length (mac_ci m) = 16 \<Longrightarrow> mac_Reset m = m\<lparr>mac_ci := replicate 16 0, mac_p := 0\<rparr>"
  by (simp add: mac_Reset_def map_replicate_const)

section \<open>The formatting of SP 800-38C\<close>

definition ccm_wf :: "ccm \<Rightarrow> bool" where
  "ccm_wf ccm \<longleftrightarrow> 7 \<le> ccm_nonceSize ccm \<and> ccm_nonceSize ccm \<le> 13 \<and>
     4 \<le> ccm_tagSize ccm \<and> ccm_tagSize ccm \<le> 16 \<and> even (ccm_tagSize ccm) \<and>
     length (mac_ci (ccm_mac ccm)) = 16 \<and> mac_c (ccm_mac ccm) = ccm_c ccm"

lemma NewCCM_wf: "NewCCMWithNonceAndTagSizes c bsz n t = Inr ccm \<Longrightarrow> ccm_wf ccm"
  by (auto simp: NewCCMWithNonceAndTagSizes_def ccm_wf_def newMAC_def split: if_splits)

text \<open>The first block: flags, nonce, payload length in the remaining \<open>15 - n\<close> bytes.\<close>

definition sp800_B0 :: "nat \<Rightarrow> bytes \<Rightarrow> bool \<Rightarrow> nat \<Rightarrow> bytes" where
  "sp800_B0 t N adata plen =
     of_nat ((if adata then 64 else 0) + 8 * ((t - 2) div 2) + (15 - length N - 1))
     # N @ be_of_word (15 - length N) (of_nat plen :: u64)"

definition sp800_aad_len :: "nat \<Rightarrow> bytes" where
  "sp800_aad_len a =
     (if a < 2 ^ 16 - 2 ^ 8 then be_of_word 2 (of_nat a :: u64)
      else if a < 2 ^ 32 then [0xff, 0xfe] @ be_of_word 4 (of_nat a :: u64)
      else [0xff, 0xff] @ be_of_word 8 (of_nat a :: u64))"

text \<open>What the code writes for the length instead.\<close>

definition ccm_aad_len :: "nat \<Rightarrow> bytes" where
  "ccm_aad_len a =
     (if a < 2 ^ 15 - 2 ^ 7 then be_of_word 2 (of_nat a :: u64)
      else if a \<le> 2 ^ 31 - 1 then [0xff, 0xfe] @ be_of_word 4 (of_nat a :: u64)
      else [0xff, 0xff] @ be_of_word 8 (of_nat a :: u64))"

definition sp800_tag :: "block_fn \<Rightarrow> (nat \<Rightarrow> bytes) \<Rightarrow> nat \<Rightarrow> bytes \<Rightarrow> bytes \<Rightarrow> bytes \<Rightarrow> bytes" where
  "sp800_tag c aad_len t N data P =
     cbc 16 c (replicate 16 0)
       (chunks 16 (sp800_B0 t N (data \<noteq> []) (length P) @
          (if data = [] then [] else pad0 16 (aad_len (length data) @ data)) @ pad0 16 P))"

lemma ccm_aad_len_standard: "a < 32640 \<or> 65280 \<le> a \<and> a < 2 ^ 31 \<or> 2 ^ 32 \<le> a \<Longrightarrow> ccm_aad_len a = sp800_aad_len a"
  by (auto simp: ccm_aad_len_def sp800_aad_len_def)

lemma ccm_aad_len_differs: "32640 \<le> a \<Longrightarrow> a < 65280 \<Longrightarrow> length (ccm_aad_len a) \<noteq> length (sp800_aad_len a)"
  by (simp add: ccm_aad_len_def sp800_aad_len_def)

lemma putUvarint_eq: "putUvarint bs u = be_of_word (length bs) u"
proof (rule nth_equalityI)
  fix i assume "i < length (putUvarint bs u)"
  then have "i < length bs" by (simp add: putUvarint_def)
  moreover from this have "[0..<length bs] ! (length bs - Suc i) = length bs - Suc i" by (subst nth_upt) auto
  ultimately show "putUvarint bs u ! i = be_of_word (length bs) u ! i"
    by (simp add: putUvarint_def be_of_word_def le_of_word_def rev_nth)
qed (simp add: putUvarint_def)

lemma ccm_Ctr0_eq:
  assumes "length nonce = ccm_nonceSize ccm" "ccm_wf ccm"
  shows "ccm_Ctr0 ccm nonce = of_nat (15 - length nonce - 1) # nonce @ replicate (15 - length nonce) 0"
proof -
  have "(replicate 16 0 :: bytes) [0 := x] = x # replicate 15 0" for x by (simp add: numeral_eq_Suc)
  then show ?thesis
    using assms by (simp add: ccm_Ctr0_def upd_def ccm_wf_def)
qed

lemma ccm_flags:
  assumes "7 \<le> n" "n \<le> 13" "4 \<le> t" "t \<le> 16" "even t"
  shows "(of_nat (15 - n - 1) :: u8) OR push_bit 3 (of_nat ((t - 2) div 2)) = of_nat (8 * ((t - 2) div 2) + (15 - n - 1))"
    and "(of_nat (8 * ((t - 2) div 2) + (15 - n - 1)) :: u8) OR 0x40
      = of_nat (64 + 8 * ((t - 2) div 2) + (15 - n - 1))"
proof -
  have n: "n \<in> {7, 8, 9, 10, 11, 12, 13}" and t: "t \<in> {4, 6, 8, 10, 12, 14, 16}"
    using assms by (auto elim!: evenE)
  show "(of_nat (15 - n - 1) :: u8) OR push_bit 3 (of_nat ((t - 2) div 2)) = of_nat (8 * ((t - 2) div 2) + (15 - n - 1))"
    "(of_nat (8 * ((t - 2) div 2) + (15 - n - 1)) :: u8) OR 0x40
      = of_nat (64 + 8 * ((t - 2) div 2) + (15 - n - 1))"
    using n t by (elim insertE emptyE; simp)+
qed

lemma chunks_pad0_append:
  assumes "0 < n" shows "chunks n (pad0 n xs @ ys) = chunks n (pad0 n xs) @ chunks n ys"
proof (cases "xs = []")
  case True
  then show ?thesis by (simp add: pad0_def)
next
  case False
  then obtain Bs r where xs: "xs = concat Bs @ r" and b: "list_all (\<lambda>b. length b = n) Bs"
    and r: "0 < length r" "length r \<le> n" using split_blocks [OF assms] by metis
  let ?Cs = "Bs @ [r @ replicate (n - length r) 0]"
  have "pad0 n xs = concat ?Cs" using xs b r by (simp add: pad0_concat pad0_short)
  moreover have "list_all (\<lambda>b. length b = n) ?Cs" using b r by simp
  ultimately show ?thesis
    using chunks_concat [OF assms, of ?Cs ys] chunks_concat [OF assms, of ?Cs "[]"] by simp
qed

text \<open>The tag is the standard's over the length encoding of the code. The associated data of
  SMB has 32 bytes, where the encodings agree.\<close>

lemma getTag_eq:
  assumes wf: "ccm_wf ccm" and n: "length nonce = ccm_nonceSize ccm"
  shows "getTag ccm ((ccm_Ctr0 ccm nonce)[15 := 1]) data P =
    sp800_tag (ccm_c ccm) ccm_aad_len (ccm_tagSize ccm) nonce data P"
proof -
  define m where "m = mac_Reset (ccm_mac ccm)"
  let ?c = "ccm_c ccm" and ?t = "ccm_tagSize ccm"
  let ?B = "\<lambda>a. sp800_B0 ?t nonce a (length P)"
  have m: "mac_ci m = replicate 16 0" "mac_p m = 0" "mac_c m = ?c"
    using wf by (simp_all add: m_def mac_Reset_eq ccm_wf_def)
  have l: "7 \<le> length nonce" "length nonce \<le> 13" using wf n by (simp_all add: ccm_wf_def)
  have c1: "(ccm_Ctr0 ccm nonce)[15 := 1] = of_nat (15 - length nonce - 1) # nonce @ (replicate (15 - length nonce) 0)[14 - length nonce := 1]"
    using l by (simp add: ccm_Ctr0_eq [OF n wf] list_update_append numeral_eq_Suc)
  note f = ccm_flags [OF l, of ?t]
  let ?C = "(ccm_Ctr0 ccm nonce)[15 := 1]"
  let ?C1 = "?C[0 := (?C ! 0) OR push_bit 3 (of_nat ((?t - 2) div 2))]"
  have b1: "take (1 + ccm_nonceSize ccm) ?C1 @ putUvarint (drop (1 + ccm_nonceSize ccm) ?C1) (of_nat (length P)) = ?B False"
    using wf l f(1) by (simp add: c1 putUvarint_eq sp800_B0_def ccm_wf_def flip: n del: of_nat_diff of_nat_add)
  have b2: "(?B False)[0 := (?B False ! 0) OR 0x40] = ?B True"
    using wf f(2) by (simp add: sp800_B0_def ccm_wf_def del: of_nat_diff of_nat_add)
  have lB: "length (?B a) = 16" for a using l by (simp add: sp800_B0_def)
  have fin: "mac_PadZero (mac_Write xs (mac_PadZero (mac_Write ys m))) =
      m\<lparr>mac_ci := cbc 16 ?c (cbc 16 ?c (replicate 16 0) (chunks 16 (pad0 16 ys))) (chunks 16 (pad0 16 xs)), mac_p := 0\<rparr>"
    for xs ys
    using m by (simp add: mac_PadZero_Write length_cbc)
  have pB: "pad0 16 (?B a @ xs) = ?B a @ pad0 16 xs" for a xs
    using pad0_concat [of 16 "[?B a]" xs] lB by simp
  have cB: "chunks 16 (?B a @ xs) = ?B a # chunks 16 xs" for a xs using lB by (simp add: chunks_block)
  show ?thesis
  proof (cases "data = []")
    case True
    have "getTag ccm ((ccm_Ctr0 ccm nonce)[15 := 1]) [] P = mac_ci (mac_PadZero (mac_Write (?B False @ P) m))"
      unfolding getTag_def Let_def b1 m_def [symmetric] by (simp add: mac_Sum_def mac_Write_append)
    then show ?thesis
      using True m by (simp add: mac_PadZero_Write pB cB sp800_tag_def)
  next
    case False
    have "getTag ccm ((ccm_Ctr0 ccm nonce)[15 := 1]) data P =
        mac_ci (mac_PadZero (mac_Write P (mac_PadZero (mac_Write (?B True @ ccm_aad_len (length data) @ data) m))))"
      unfolding getTag_def Let_def b1 b2 m_def [symmetric]
      using False by (simp add: putUvarint_eq mac_Sum_def mac_Write_append ccm_aad_len_def lB)
    also have "\<dots> = cbc 16 ?c (cbc 16 ?c (replicate 16 0) (?B True # chunks 16 (pad0 16 (ccm_aad_len (length data) @ data))))
        (chunks 16 (pad0 16 P))"
      by (simp add: fin pB cB)
    finally show ?thesis
      using False by (simp add: sp800_tag_def cB chunks_pad0_append flip: cbc_append)
  qed
qed

corollary getTag_standard:
  assumes "ccm_wf ccm" "length nonce = ccm_nonceSize ccm" "length data < 32640"
  shows "getTag ccm ((ccm_Ctr0 ccm nonce)[15 := 1]) data P =
    sp800_tag (ccm_c ccm) sp800_aad_len (ccm_tagSize ccm) nonce data P"
  using assms by (simp add: getTag_eq sp800_tag_def ccm_aad_len_standard)

section \<open>Sealing and opening\<close>

lemma length_getTag:
  assumes "ccm_wf ccm" "length nonce = ccm_nonceSize ccm"
  shows "length (getTag ccm ((ccm_Ctr0 ccm nonce)[15 := 1]) data P) = 16"
  using assms by (simp add: getTag_eq sp800_tag_def length_cbc)

lemma xor_bytes_cancel_long: "length a \<le> length b \<Longrightarrow> xor_bytes (xor_bytes a b) b = a"
  by (rule nth_equalityI) (auto simp: xor_bytes_def xor.assoc)

lemma length_keystream: "k \<le> length (concat (map (ctr_block c iv) [0..<(k + 15) div 16]))"
proof -
  have "length (concat (map (ctr_block c iv) xs)) = 16 * length xs" for xs
    by (induction xs) (auto simp: ctr_block_def)
  then show ?thesis by simp
qed

lemma length_XORKeyStream [simp]: "length (XORKeyStream c iv p) = length p"
  using length_keystream [of "length p" c iv] by (simp add: XORKeyStream_def)

lemma XORKeyStream_XORKeyStream: "XORKeyStream c iv (XORKeyStream c iv p) = p"
  using length_keystream [of "length p" c iv]
  by (simp add: XORKeyStream_def [of c iv "XORKeyStream c iv p"])
    (simp add: XORKeyStream_def xor_bytes_cancel_long)

definition ccm_max :: "ccm \<Rightarrow> nat" where
  "ccm_max ccm = unat (maxUvarint (15 - ccm_nonceSize ccm))"

text \<open>What \<open>Seal\<close> sends for a payload: the ciphertext and the tag.\<close>

definition ccm_sealed :: "ccm \<Rightarrow> bytes \<Rightarrow> bytes \<Rightarrow> bytes \<Rightarrow> bytes" where
  "ccm_sealed ccm nonce P data =
     XORKeyStream (ccm_c ccm) ((ccm_Ctr0 ccm nonce)[15 := 1]) P @
     take (ccm_tagSize ccm) (xor_bytes (Encrypt 16 (ccm_c ccm) (ccm_Ctr0 ccm nonce))
       (sp800_tag (ccm_c ccm) ccm_aad_len (ccm_tagSize ccm) nonce data P))"

lemma ccm_Seal_eq:
  assumes "ccm_wf ccm" "length nonce = ccm_nonceSize ccm" "of_nat (length P) \<le> maxUvarint (15 - ccm_nonceSize ccm)"
  obtains tail where "ccm_Seal ccm dst nonce P data = Some (tail, take (length P + ccm_tagSize ccm) (dst @ tail))"
    "take (length P + ccm_tagSize ccm) tail = ccm_sealed ccm nonce P data" "length tail = length P + 16"
proof -
  let ?tail = "XORKeyStream (ccm_c ccm) ((ccm_Ctr0 ccm nonce)[15 := 1]) P @
    xor_bytes (Encrypt 16 (ccm_c ccm) (ccm_Ctr0 ccm nonce))
      (sp800_tag (ccm_c ccm) ccm_aad_len (ccm_tagSize ccm) nonce data P)"
  have "length ?tail = length P + 16"
    using length_getTag [OF assms(1,2), of data P] by (simp add: getTag_eq [OF assms(1,2)])
  moreover have "ccm_Seal ccm dst nonce P data = Some (?tail, take (length P + ccm_tagSize ccm) (dst @ ?tail))"
    using assms by (simp add: ccm_Seal_def Let_def getTag_eq [OF assms(1,2)] not_less [symmetric])
  ultimately show ?thesis using that [of ?tail] by (simp add: ccm_sealed_def)
qed

lemma length_ccm_sealed:
  "ccm_wf ccm \<Longrightarrow> length nonce = ccm_nonceSize ccm \<Longrightarrow> length (ccm_sealed ccm nonce P data) = length P + ccm_tagSize ccm"
  using length_getTag [of ccm nonce data P] by (simp add: ccm_sealed_def getTag_eq ccm_wf_def)

text \<open>\<open>Open\<close> accepts exactly the sealed payloads.\<close>

lemma ccm_Open_iff:
  assumes wf: "ccm_wf ccm" and n: "length nonce = ccm_nonceSize ccm"
  shows "ccm_Open ccm dst nonce ct data = Some (Inr out) \<longleftrightarrow>
    (\<exists>P. P \<noteq> [] \<and> of_nat (length P) \<le> maxUvarint (15 - ccm_nonceSize ccm) \<and>
       ct = ccm_sealed ccm nonce P data \<and> out = dst @ P)"
proof -
  let ?c = "ccm_c ccm" and ?iv = "(ccm_Ctr0 ccm nonce)[15 := 1]" and ?t = "ccm_tagSize ccm"
  let ?k = "length ct - ?t"
  let ?P = "XORKeyStream ?c ?iv (take ?k ct)"
  have o: "ccm_Open ccm dst nonce ct data = Some (Inr out) \<longleftrightarrow>
      ?t < length ct \<and> of_nat ?k \<le> maxUvarint (15 - ccm_nonceSize ccm) \<and> out = dst @ ?P \<and>
      drop ?k ct = take ?t (xor_bytes (Encrypt 16 ?c (ccm_Ctr0 ccm nonce)) (sp800_tag ?c ccm_aad_len ?t nonce data ?P))"
    using n by (auto simp: ccm_Open_def Let_def getTag_eq [OF wf n] xor_bytes_commute not_less not_le)
  show ?thesis
  proof
    assume "ccm_Open ccm dst nonce ct data = Some (Inr out)"
    with o have k: "?t < length ct" "of_nat ?k \<le> maxUvarint (15 - ccm_nonceSize ccm)" "out = dst @ ?P"
      "drop ?k ct = take ?t (xor_bytes (Encrypt 16 ?c (ccm_Ctr0 ccm nonce)) (sp800_tag ?c ccm_aad_len ?t nonce data ?P))"
      by blast+
    have "ct = take ?k ct @ drop ?k ct" by simp
    also have "\<dots> = ccm_sealed ccm nonce ?P data"
      unfolding ccm_sealed_def XORKeyStream_XORKeyStream k(4) by (rule refl)
    finally show "\<exists>P. P \<noteq> [] \<and> of_nat (length P) \<le> maxUvarint (15 - ccm_nonceSize ccm) \<and>
        ct = ccm_sealed ccm nonce P data \<and> out = dst @ P"
      using k length_XORKeyStream [of ?c ?iv "take ?k ct"]
      by (intro exI [of _ ?P]) (auto simp del: length_XORKeyStream)
  next
    assume "\<exists>P. P \<noteq> [] \<and> of_nat (length P) \<le> maxUvarint (15 - ccm_nonceSize ccm) \<and>
        ct = ccm_sealed ccm nonce P data \<and> out = dst @ P"
    then obtain P where P: "P \<noteq> []" "of_nat (length P) \<le> maxUvarint (15 - ccm_nonceSize ccm)"
      "ct = ccm_sealed ccm nonce P data" "out = dst @ P" by blast
    have l: "?k = length P" "?t < length ct" using P length_ccm_sealed [OF wf n] by simp_all
    have "take ?k ct = XORKeyStream ?c ?iv P" "?P = P"
      unfolding l(1) by (simp_all add: P(3) ccm_sealed_def XORKeyStream_XORKeyStream)
    moreover have "drop ?k ct = take ?t (xor_bytes (Encrypt 16 ?c (ccm_Ctr0 ccm nonce)) (sp800_tag ?c ccm_aad_len ?t nonce data P))"
      unfolding l(1) by (simp add: P(3) ccm_sealed_def)
    ultimately show "ccm_Open ccm dst nonce ct data = Some (Inr out)"
      using o P l by simp
  qed
qed

end
