(* ===== verification/Cmac.thy ===== *)
theory Cmac
  imports Block_Cipher
begin

text \<open>
  \<open>internal/crypto/cmac/cmac.go\<close>: the CMAC message authentication code. The object is its
  two subkeys, the chaining block with its position and a scratch digest. The reference is
  NIST SP 800-38B (RFC 4493): subkeys by doubling in the field, whole blocks through CBC, the last
  block masked with one of the subkeys. The last section states what the users of a
  \<open>hash.Hash\<close> rely on as a locale and interprets it on this code.
\<close>

record cmac =
  cmac_k1 :: bytes
  cmac_k2 :: bytes
  cmac_ci :: bytes
  cmac_digest :: bytes
  cmac_p :: nat
  cmac_c :: block_fn

text \<open>\<open>shift1(src, dst)\<close>: the carry out of the most significant bit, and what \<open>dst\<close> becomes.\<close>

definition shift1 :: "bytes \<Rightarrow> u8 \<times> bytes" where
  "shift1 src = foldr (\<lambda>s (b, dst). (drop_bit 7 s, (push_bit 1 s OR b) # dst)) src (0, [])"

definition cmac_subkey :: "nat \<Rightarrow> u8 \<Rightarrow> bytes \<Rightarrow> bytes" where
  "cmac_subkey n r k =
     (let (b, k') = shift1 k in if b \<noteq> 0 then k'[n - 1 := (k' ! (n - 1)) XOR r] else k')"

definition cmac_New :: "nat \<Rightarrow> block_fn \<Rightarrow> cmac option" where
  "cmac_New n c =
     (if n \<noteq> 8 \<and> n \<noteq> 16 then None
      else
        let r = (if n = 8 then 0x1b else 0x87);
            k1 = cmac_subkey n r (Encrypt n c (replicate n 0));
            k2 = cmac_subkey n r k1
        in Some \<lparr>cmac_k1 = k1, cmac_k2 = k2, cmac_ci = replicate n 0, cmac_digest = replicate n 0,
                 cmac_p = 0, cmac_c = c\<rparr>)"

definition cmac_Reset :: "cmac \<Rightarrow> cmac" where
  "cmac_Reset d = d\<lparr>cmac_ci := map (\<lambda>_. 0) (cmac_ci d), cmac_p := 0\<rparr>"

definition cmac_Write :: "bytes \<Rightarrow> cmac \<Rightarrow> cmac" where
  "cmac_Write p d =
     (let (ci, q) = chain_write (cmac_c d) (cmac_ci d, cmac_p d) p in d\<lparr>cmac_ci := ci, cmac_p := q\<rparr>)"

definition cmac_Sum :: "bytes \<Rightarrow> cmac \<Rightarrow> bytes \<times> cmac" where
  "cmac_Sum in' d =
     (let n = length (cmac_digest d);
          k = (if cmac_p d < n then cmac_k2 d else cmac_k1 d);
          digest = xor_bytes (cmac_ci d) k;
          digest = (if cmac_p d < n then digest[cmac_p d := (digest ! cmac_p d) XOR 0x80] else digest);
          digest = Encrypt n (cmac_c d) digest
      in (in' @ digest, d\<lparr>cmac_digest := digest\<rparr>))"

definition cmac_Size :: "cmac \<Rightarrow> nat" where
  "cmac_Size d = length (cmac_digest d)"

section \<open>The reference\<close>

definition gf_double :: "'a::len word \<Rightarrow> 'a word \<Rightarrow> 'a word" where
  "gf_double r x = (if bit x (LENGTH('a) - 1) then push_bit 1 x XOR r else push_bit 1 x)"

definition cmac_spec :: "nat \<Rightarrow> block_fn \<Rightarrow> bytes \<Rightarrow> bytes \<Rightarrow> bytes \<Rightarrow> bytes" where
  "cmac_spec n c k1 k2 M =
     (let q = length M div n * n; bs = chunks n M in
      if M \<noteq> [] \<and> n dvd length M
      then cbc n c (replicate n 0) (butlast bs @ [xor_bytes (last bs) k1])
      else cbc n c (replicate n 0) (chunks n (take q M) @
             [xor_bytes (drop q M @ 0x80 # replicate (n - (length M - q) - 1) 0) k2]))"

section \<open>Subkeys\<close>

lemma shift1_Cons:
  "shift1 (s # src) = (drop_bit 7 s, (push_bit 1 s OR fst (shift1 src)) # snd (shift1 src))"
  by (simp add: shift1_def case_prod_beta)

lemma length_shift1: "length (snd (shift1 src)) = length src"
  by (induction src) (simp_all add: shift1_Cons, simp add: shift1_def)

lemma fst_shift1: "fst (shift1 src) = (if src = [] then 0 else drop_bit 7 (hd src))"
  by (cases src) (simp_all add: shift1_Cons, simp add: shift1_def)

lemma nth_shift1:
  "i < length src \<Longrightarrow> snd (shift1 src) ! i =
     push_bit 1 (src ! i) OR (if Suc i < length src then drop_bit 7 (src ! Suc i) else 0)"
proof (induction src arbitrary: i)
  case Nil
  then show ?case by simp
next
  case (Cons s src)
  then show ?case
    by (cases i) (auto simp: shift1_Cons fst_shift1 hd_conv_nth)
qed

lemma bit_push1: "bit (push_bit 1 x) i \<longleftrightarrow> 0 < i \<and> i < LENGTH('a) \<and> bit x (i - 1)" for x :: "'a::len word"
  using bit_push_bit_iff [of 1 x i] by (auto simp: Suc_le_eq dest: bit_imp_le_length)

lemma bit_drop7: "bit (drop_bit 7 s) i \<longleftrightarrow> i = 0 \<and> bit s 7" for s :: u8
proof -
  have "bit s (7 + i) \<Longrightarrow> i = 0" using bit_imp_le_length [of s "7 + i"] by simp
  then show ?thesis by (auto simp: bit_drop_bit_eq)
qed

lemma bit_word_of_be:
  assumes "8 * length bs = LENGTH('a::len)" "i < 8 * length bs"
  shows "bit (word_of_be bs :: 'a word) i \<longleftrightarrow> bit (bs ! (length bs - 1 - i div 8)) (i mod 8)"
  using assms by (auto simp: word_of_be_def bit_word_of_le rev_nth)

lemma pred_div_mod_8:
  fixes i :: nat
  shows "i mod 8 \<noteq> 0 \<Longrightarrow> (i - 1) div 8 = i div 8 \<and> (i - 1) mod 8 = i mod 8 - 1 \<and> i \<noteq> 0"
    and "i mod 8 = 0 \<Longrightarrow> i \<noteq> 0 \<Longrightarrow> (i - 1) div 8 = i div 8 - 1 \<and> (i - 1) mod 8 = 7 \<and> 0 < i div 8"
  by (cases i; simp add: div_Suc mod_Suc split: if_splits)+

lemma Suc_mirror: "0 < a \<Longrightarrow> a < n \<Longrightarrow> b = a - 1 \<Longrightarrow> Suc (n - 1 - a) = n - 1 - b" for n :: nat
  by simp

lemma word_of_be_shift1:
  assumes "8 * length src = LENGTH('a::len)"
  shows "word_of_be (snd (shift1 src)) = push_bit 1 (word_of_be src :: 'a word)"
proof (rule bit_word_eqI)
  fix i assume i: "i < LENGTH('a)"
  let ?n = "length src" and ?k = "length src - 1 - i div 8"
  have k: "?k < ?n" "i div 8 < ?n" using i assms by auto
  have "bit (word_of_be (snd (shift1 src)) :: 'a word) i \<longleftrightarrow> bit (snd (shift1 src) ! ?k) (i mod 8)"
    using assms i by (subst bit_word_of_be) (simp_all add: length_shift1)
  also have "\<dots> \<longleftrightarrow> (i mod 8 \<noteq> 0 \<and> bit (src ! ?k) (i mod 8 - 1)) \<or>
      (i mod 8 = 0 \<and> Suc ?k < ?n \<and> bit (src ! Suc ?k) 7)"
    using k unfolding nth_shift1 [OF k(1)] by (auto simp: bit_or_iff bit_push1 bit_drop7 simp del: One_nat_def)
  also have "\<dots> \<longleftrightarrow> bit (push_bit 1 (word_of_be src :: 'a word)) i"
  proof (cases "i mod 8 = 0")
    case False
    then have "(i - 1) div 8 = i div 8" "(i - 1) mod 8 = i mod 8 - 1" "i \<noteq> 0"
      using pred_div_mod_8(1) by blast+
    then show ?thesis
      using bit_word_of_be [OF assms, of "i - 1"] i assms False unfolding bit_push1 by auto
  next
    case True
    show ?thesis
    proof (cases "i = 0")
      case True
      then show ?thesis using k unfolding bit_push1 by simp
    next
      case False
      then have "(i - 1) div 8 = i div 8 - 1" "(i - 1) mod 8 = 7" "0 < i div 8"
        using pred_div_mod_8(2) [OF True False] by simp_all
      moreover from this have "Suc ?k = ?n - 1 - (i - 1) div 8" by (intro Suc_mirror k(2))
      ultimately show ?thesis
        using bit_word_of_be [OF assms, of "i - 1"] i assms False True k unfolding bit_push1 by auto
    qed
  qed
  finally show "bit (word_of_be (snd (shift1 src)) :: 'a word) i \<longleftrightarrow> bit (push_bit 1 (word_of_be src :: 'a word)) i" .
qed

lemma word_of_be_xor_last:
  assumes "8 * length k = LENGTH('a::len)"
  shows "word_of_be (k[length k - 1 := (k ! (length k - 1)) XOR r]) = (word_of_be k XOR ucast r :: 'a word)"
proof (rule bit_word_eqI)
  fix i assume i: "i < LENGTH('a)"
  let ?j = "length k - 1 - i div 8"
  have j: "?j < length k" "i div 8 < length k" using i assms by auto
  have "bit (word_of_be (k[length k - 1 := (k ! (length k - 1)) XOR r]) :: 'a word) i \<longleftrightarrow>
      bit (k[length k - 1 := (k ! (length k - 1)) XOR r] ! ?j) (i mod 8)"
    using assms i by (subst bit_word_of_be) simp_all
  also have "\<dots> \<longleftrightarrow> bit (k ! ?j) (i mod 8) \<noteq> (i div 8 = 0 \<and> bit r i)"
    using j by (cases "i div 8 = 0") (auto simp: bit_xor_iff)
  also have "\<dots> \<longleftrightarrow> bit (word_of_be k XOR ucast r :: 'a word) i"
    using assms i bit_word_of_be [OF assms, of i]
    by (auto simp: bit_xor_iff bit_ucast_iff dest: bit_imp_le_length)
  finally show "bit (word_of_be (k[length k - 1 := (k ! (length k - 1)) XOR r]) :: 'a word) i \<longleftrightarrow>
    bit (word_of_be k XOR ucast r :: 'a word) i" .
qed

lemma length_cmac_subkey [simp]: "length (cmac_subkey n r k) = length k"
  using length_shift1 [of k] by (simp add: cmac_subkey_def case_prod_beta Let_def)

lemma drop_bit_7_eq_0: "drop_bit 7 s = 0 \<longleftrightarrow> \<not> bit s 7" for s :: u8
  using bit_drop7 [of s] by (metis bit_0_eq bit_eqI bot_apply bot_bool_def)

lemma word_of_be_subkey:
  assumes "8 * length k = LENGTH('a::len)" "k \<noteq> []"
  shows "word_of_be (cmac_subkey (length k) r k) = gf_double (ucast r) (word_of_be k :: 'a word)"
proof -
  have "bit (word_of_be k :: 'a word) (LENGTH('a) - 1) \<longleftrightarrow> bit (hd k) 7"
  proof -
    have "(8 * length k - 1) div 8 = length k - 1" "(8 * length k - 1) mod 8 = 7"
      using assms(2) by (cases k; simp)+
    then show ?thesis
      using bit_word_of_be [OF assms(1), of "8 * length k - 1"] assms by (simp add: hd_conv_nth)
  qed
  then show ?thesis
    using word_of_be_xor_last [where 'a = 'a, of "snd (shift1 k)" r] word_of_be_shift1 [OF assms(1)] assms
    by (auto simp: cmac_subkey_def gf_double_def case_prod_beta Let_def length_shift1 fst_shift1 drop_bit_7_eq_0)
qed

section \<open>The incremental code is CMAC\<close>

definition cmac_wf :: "nat \<Rightarrow> cmac \<Rightarrow> bool" where
  "cmac_wf n d \<longleftrightarrow> 0 < n \<and> length (cmac_k1 d) = n \<and> length (cmac_k2 d) = n \<and>
     length (cmac_ci d) = n \<and> length (cmac_digest d) = n \<and> cmac_p d \<le> n"

lemma cmac_New_wf: "cmac_New n c = Some d \<Longrightarrow> cmac_wf n d"
  by (auto simp: cmac_New_def cmac_wf_def Let_def split: if_splits)

lemma cmac_wf_ops:
  assumes "cmac_wf n d"
  shows "cmac_wf n (cmac_Reset d)" "cmac_wf n (cmac_Write p d)" "cmac_wf n (snd (cmac_Sum in' d))"
proof -
  show "cmac_wf n (cmac_Reset d)" "cmac_wf n (snd (cmac_Sum in' d))"
    using assms by (simp_all add: cmac_wf_def cmac_Reset_def cmac_Sum_def Let_def)
  obtain ci q where "chain_write (cmac_c d) (cmac_ci d, cmac_p d) p = (ci, q)" by (rule prod.exhaust)
  moreover have "cmac_ci d \<noteq> []" using assms by (auto simp: cmac_wf_def)
  ultimately show "cmac_wf n (cmac_Write p d)"
    using assms length_chain_write [of "cmac_p d" "cmac_ci d" "cmac_c d" p ci q]
    by (auto simp: cmac_wf_def cmac_Write_def)
qed

lemma cmac_Write_append: "cmac_Write q (cmac_Write p d) = cmac_Write (p @ q) d"
  by (simp add: cmac_Write_def chain_write_append case_prod_beta)

lemma xor_bytes_assoc: "xor_bytes (xor_bytes a b) c = xor_bytes a (xor_bytes b c)"
  by (rule nth_equalityI) (auto simp: xor_bytes_def xor.assoc)

lemma cmac_mask_partial:
  assumes "length y = n" "length k = n" "length r < n"
  shows "(xor_bytes (xor_prefix y r) k)[length r := (xor_bytes (xor_prefix y r) k ! length r) XOR 0x80] =
    xor_bytes y (xor_bytes (r @ 0x80 # replicate (n - length r - 1) 0) k)"
  using assms
  by (intro nth_equalityI) (auto simp: xor_bytes_def nth_xor_prefix nth_list_update nth_append nth_Cons' ac_simps)

text \<open>The keys are those of the object; the digest does not depend on what was absorbed before
  the reset nor on how the message is cut into writes.\<close>

theorem cmac_Sum_Write_Reset:
  assumes "cmac_wf n d"
  shows "fst (cmac_Sum [] (cmac_Write M (cmac_Reset d))) = cmac_spec n (cmac_c d) (cmac_k1 d) (cmac_k2 d) M"
proof -
  let ?c = "cmac_c d" and ?z = "replicate n 0 :: bytes"
  have n: "0 < n" and l: "length (cmac_k1 d) = n" "length (cmac_k2 d) = n" "length (cmac_digest d) = n"
    and ci: "map (\<lambda>_. 0) (cmac_ci d) = ?z"
    using assms by (simp_all add: cmac_wf_def map_replicate_const)
  have sum: "fst (cmac_Sum [] (cmac_Write M (cmac_Reset d))) =
      (if q < n then Encrypt n ?c ((xor_bytes x (cmac_k2 d))[q := (xor_bytes x (cmac_k2 d) ! q) XOR 0x80])
       else Encrypt n ?c (xor_bytes x (cmac_k1 d)))"
    if "chain_write ?c (?z, 0) M = (x, q)" for x q
    using that l ci by (simp add: cmac_Sum_def cmac_Write_def cmac_Reset_def Let_def)
  obtain Bs r where M: "M = concat Bs @ r" and b: "list_all (\<lambda>b. length b = n) Bs" and r: "length r \<le> n"
    and e: "r = [] \<longrightarrow> M = [] \<and> Bs = []"
  proof (cases "M = []")
    case True
    from that [of "[]" "[]"] True show ?thesis by simp
  next
    case False
    from split_blocks [OF n False] that show ?thesis by (metis less_numeral_extra(3) list.size(3))
  qed
  let ?y = "cbc n ?c ?z Bs"
  have y: "length ?y = n" by (simp add: length_cbc)
  have w: "chain_write ?c (?z, 0) M = (xor_prefix ?y r, length r)"
    using chain_write_blocks [OF n _ b, of ?z r ?c] e r M by (cases "r = []") auto
  have lM: "length M = n * length Bs + length r"
    using M b by (induction Bs arbitrary: M) (auto simp: algebra_simps)
  show ?thesis
  proof (cases "length r = n")
    case True
    then have "r \<noteq> []" using n by auto
    moreover have "chunks n M = Bs @ [r]" using M b r \<open>r \<noteq> []\<close> n by (simp add: chunks_concat chunks_short)
    moreover have "M \<noteq> []" "n dvd length M" using M \<open>r \<noteq> []\<close> lM True by auto
    ultimately show ?thesis
      using sum [OF w] True y by (simp add: cmac_spec_def Let_def cbc_append xor_prefix_full xor_bytes_assoc)
  next
    case False
    then have rn: "length r < n" using r by simp
    have q: "length M div n * n = n * length Bs" using lM rn by (simp add: mult.commute)
    have "length (concat Bs) = n * length Bs" using lM M by simp
    then have t: "take (n * length Bs) M = concat Bs" "drop (n * length Bs) M = r" using M by simp_all
    have d: "length M - n * length Bs = length r" using lM by simp
    have "\<not> (M \<noteq> [] \<and> n dvd length M)"
      using e lM rn by (auto simp: dvd_add_right_iff dest: dvd_imp_le)
    then have "cmac_spec n ?c (cmac_k1 d) (cmac_k2 d) M =
        cbc n ?c ?z (Bs @ [xor_bytes (r @ 0x80 # replicate (n - length r - 1) 0) (cmac_k2 d)])"
      unfolding cmac_spec_def Let_def q t d using chunks_concat [OF n b, of "[]"] by auto
    then show ?thesis
      using sum [OF w] rn cmac_mask_partial [OF y l(2) rn] by (simp add: cbc_append)
  qed
qed

lemma cmac_fold_Write:
  assumes "cmac_wf n d"
  shows "cmac_wf n (fold cmac_Write ws d)" "cmac_k1 (fold cmac_Write ws d) = cmac_k1 d"
    "cmac_k2 (fold cmac_Write ws d) = cmac_k2 d" "cmac_c (fold cmac_Write ws d) = cmac_c d"
proof -
  have key: "cmac_k1 (cmac_Write p d) = cmac_k1 d" "cmac_k2 (cmac_Write p d) = cmac_k2 d" "cmac_c (cmac_Write p d) = cmac_c d"
    for p d by (simp_all add: cmac_Write_def Let_def case_prod_beta)
  have "cmac_wf n (fold cmac_Write ws d) \<and> cmac_k1 (fold cmac_Write ws d) = cmac_k1 d \<and>
      cmac_k2 (fold cmac_Write ws d) = cmac_k2 d \<and> cmac_c (fold cmac_Write ws d) = cmac_c d"
    using assms by (induction ws arbitrary: d) (simp_all add: cmac_wf_ops key)
  then show "cmac_wf n (fold cmac_Write ws d)" "cmac_k1 (fold cmac_Write ws d) = cmac_k1 d"
    "cmac_k2 (fold cmac_Write ws d) = cmac_k2 d" "cmac_c (fold cmac_Write ws d) = cmac_c d" by simp_all
qed

text \<open>The subkeys of a fresh object, as field elements.\<close>

lemma cmac_New_keys:
  assumes "cmac_New 16 c = Some d"
  shows "(word_of_be (cmac_k1 d) :: 128 word) = gf_double 0x87 (word_of_be (Encrypt 16 c (replicate 16 0)))"
    and "(word_of_be (cmac_k2 d) :: 128 word) = gf_double 0x87 (word_of_be (cmac_k1 d))"
    and "cmac_c d = c"
proof -
  have k: "cmac_k1 d = cmac_subkey 16 0x87 (Encrypt 16 c (replicate 16 0))"
    "cmac_k2 d = cmac_subkey 16 0x87 (cmac_k1 d)" "cmac_c d = c"
    using assms by (auto simp: cmac_New_def Let_def)
  have sub: "(word_of_be (cmac_subkey 16 0x87 x) :: 128 word) = gf_double 0x87 (word_of_be x)"
    if "length x = 16" for x
  proof -
    have "x \<noteq> []" using that by auto
    then show ?thesis using word_of_be_subkey [where 'a = 128, of x "0x87"] that by simp
  qed
  show "(word_of_be (cmac_k1 d) :: 128 word) = gf_double 0x87 (word_of_be (Encrypt 16 c (replicate 16 0)))"
    unfolding k(1) by (rule sub) simp
  show "(word_of_be (cmac_k2 d) :: 128 word) = gf_double 0x87 (word_of_be (cmac_k1 d))"
    unfolding k(2) by (rule sub) (simp add: k(1))
  show "cmac_c d = c" by (rule k(3))
qed

section \<open>What a user of \<open>hash.Hash\<close> relies on\<close>

text \<open>A keyed hash object in a state that satisfies its invariant computes one fixed function of
  the bytes written since the last reset, and stays usable. \<open>key\<close> is what the operations do
  not change.\<close>

locale keyed_hash =
  fixes inv :: "'s \<Rightarrow> bool"
    and key :: "'s \<Rightarrow> 'k"
    and reset :: "'s \<Rightarrow> 's"
    and "write" :: "bytes \<Rightarrow> 's \<Rightarrow> 's"
    and sum :: "bytes \<Rightarrow> 's \<Rightarrow> bytes \<times> 's"
    and digest :: "'k \<Rightarrow> bytes \<Rightarrow> bytes"
  assumes inv_reset: "inv s \<Longrightarrow> inv (reset s)"
    and inv_write: "inv s \<Longrightarrow> inv (write p s)"
    and inv_sum: "inv s \<Longrightarrow> inv (snd (sum in' s))"
    and key_reset: "inv s \<Longrightarrow> key (reset s) = key s"
    and key_write: "inv s \<Longrightarrow> key (write p s) = key s"
    and key_sum: "inv s \<Longrightarrow> key (snd (sum in' s)) = key s"
    and sum_reset: "inv s \<Longrightarrow> fst (sum [] (write p (reset s))) = digest (key s) p"
begin

text \<open>\<open>h.Reset(); h.Write(p); h.Sum(nil)\<close> as \<open>sign\<close> and \<open>verify\<close> use it.\<close>

definition mac_of :: "bytes \<Rightarrow> 's \<Rightarrow> bytes \<times> 's" where
  "mac_of p s = sum [] (write p (reset s))"

lemma mac_of_digest: "inv s \<Longrightarrow> fst (mac_of p s) = digest (key s) p"
  by (simp add: mac_of_def sum_reset)

lemma mac_of_inv: "inv s \<Longrightarrow> inv (snd (mac_of p s))"
  by (simp add: mac_of_def inv_reset inv_write inv_sum)

lemma mac_of_key: "inv s \<Longrightarrow> key (snd (mac_of p s)) = key s"
  by (simp add: mac_of_def inv_reset inv_write key_reset key_write key_sum)

text \<open>The second use of an object gives the same result as the first.\<close>

lemma mac_of_again: "inv s \<Longrightarrow> fst (mac_of p (snd (mac_of q s))) = fst (mac_of p s)"
  by (simp add: mac_of_digest mac_of_inv mac_of_key)

end

interpretation cmac: keyed_hash "cmac_wf n" "\<lambda>d. (cmac_c d, cmac_k1 d, cmac_k2 d)" cmac_Reset cmac_Write cmac_Sum
  "\<lambda>(c, k1, k2) M. cmac_spec n c k1 k2 M" for n
proof unfold_locales
  fix s :: cmac and p in' :: bytes
  assume wf: "cmac_wf n s"
  show "cmac_wf n (cmac_Reset s)" "cmac_wf n (cmac_Write p s)" "cmac_wf n (snd (cmac_Sum in' s))"
    using wf by (rule cmac_wf_ops)+
  show "(cmac_c (cmac_Reset s), cmac_k1 (cmac_Reset s), cmac_k2 (cmac_Reset s)) = (cmac_c s, cmac_k1 s, cmac_k2 s)"
    "(cmac_c (cmac_Write p s), cmac_k1 (cmac_Write p s), cmac_k2 (cmac_Write p s)) = (cmac_c s, cmac_k1 s, cmac_k2 s)"
    "(cmac_c (snd (cmac_Sum in' s)), cmac_k1 (snd (cmac_Sum in' s)), cmac_k2 (snd (cmac_Sum in' s))) =
      (cmac_c s, cmac_k1 s, cmac_k2 s)"
    by (simp_all add: cmac_Reset_def cmac_Write_def cmac_Sum_def Let_def case_prod_beta)
  show "fst (cmac_Sum [] (cmac_Write p (cmac_Reset s))) =
      (\<lambda>(c, k1, k2) M. cmac_spec n c k1 k2 M) (cmac_c s, cmac_k1 s, cmac_k2 s) p"
    using cmac_Sum_Write_Reset [OF wf] by simp
qed

end
