(* ===== verification/Session.thy ===== *)
theory Session
  imports Smb2_Packet Ccm Cmac
begin

text \<open>
  \<open>server/session.go\<close> and \<open>server/kdf.go\<close>: signing, verification, encryption and decryption of
  packets, and key derivation. The keyed hashes are functions of the bytes written since the last
  reset, which is what the contract of \<open>hash.Hash\<close> in theory \<open>Cmac\<close> gives; a cipher
  in an AEAD mode is a record of its operations with its own contract, interpreted here on
  CCM with the sizes the server uses (nonce 11, tag 16). HMAC-SHA256, AES and GCM are library
  code and parameters. \<open>None\<close> is a panic (a nil signer, a slice out of range).
\<close>

abbreviation (input) "SMB2_SESSION_FLAG_IS_GUEST \<equiv> (1 :: u16)"
abbreviation (input) "SMB2_SESSION_FLAG_IS_NULL \<equiv> (2 :: u16)"
abbreviation (input) "SMB2_SESSION_FLAG_ENCRYPT_DATA \<equiv> (4 :: u16)"

text \<open>\<open>cipher.AEAD\<close>: \<open>Seal\<close> gives what it writes behind \<open>dst\<close> and the slice it
  returns; \<open>Open\<close> is only used with an empty \<open>dst\<close>.\<close>

record aead =
  aead_NonceSize :: nat
  aead_Seal :: "bytes \<Rightarrow> bytes \<Rightarrow> bytes \<Rightarrow> bytes \<Rightarrow> (bytes \<times> bytes) option"
  aead_Open :: "bytes \<Rightarrow> bytes \<Rightarrow> bytes \<Rightarrow> (ccm_error + bytes) option"

record session =
  session_flags :: u16
  session_id :: u64
  session_preauth :: bytes
  session_trees :: "u32 \<Rightarrow> u32 option"
  session_signer :: "(bytes \<Rightarrow> bytes) option"
  session_verifier :: "(bytes \<Rightarrow> bytes) option"
  session_encrypter :: "aead option"
  session_decrypter :: "aead option"

definition session_anonymous :: "session \<Rightarrow> bool" where
  "session_anonymous s \<longleftrightarrow> session_flags s AND (SMB2_SESSION_FLAG_IS_GUEST OR SMB2_SESSION_FLAG_IS_NULL) \<noteq> 0"

definition session_sign :: "session \<Rightarrow> bytes \<Rightarrow> bytes option" where
  "session_sign s pkt = do {
     flags \<leftarrow> PacketCodec_Flags pkt;
     pkt \<leftarrow> PacketCodec_SetFlags (flags OR SMB2_FLAGS_SIGNED) pkt;
     h \<leftarrow> session_signer s;
     PacketCodec_SetSignature (h pkt) pkt }"

text \<open>Verification works in place: the second component is the packet as it is handed on.\<close>

definition session_verify :: "session \<Rightarrow> bytes \<Rightarrow> (bool \<times> bytes) option" where
  "session_verify s pkt = do {
     signature \<leftarrow> PacketCodec_Signature pkt;
     pkt \<leftarrow> PacketCodec_SetSignature (replicate 16 0) pkt;
     pkt \<leftarrow> (if \<not> session_anonymous s then do {
                h \<leftarrow> session_verifier s;
                PacketCodec_SetSignature (h pkt) pkt }
             else Some pkt);
     sig \<leftarrow> PacketCodec_Signature pkt;
     Some (signature = sig, pkt) }"

text \<open>The nonce is what \<open>rand.Read\<close> filled the buffer with. \<open>Seal(c[:52], ...)\<close> writes into
  \<open>c\<close> when the result fits its capacity and leaves it alone otherwise.\<close>

definition session_encrypt :: "session \<Rightarrow> bytes \<Rightarrow> bytes \<Rightarrow> bytes option" where
  "session_encrypt s nonce pkt = do {
     e \<leftarrow> session_encrypter s;
     c \<leftarrow> writes [
       TransformCodec_SetProtocolId,
       TransformCodec_SetNonce nonce,
       TransformCodec_SetOriginalMessageSize (of_nat (length pkt)),
       TransformCodec_SetFlags Encrypted,
       TransformCodec_SetSessionId (session_id s)] (replicate (52 + length pkt + 16) 0);
     ad \<leftarrow> TransformCodec_AssociatedData c;
     (app, _) \<leftarrow> aead_Seal e (take 52 c) nonce pkt ad;
     let c = (if 52 + length app \<le> length c then upd 52 app c else c);
     c \<leftarrow> TransformCodec_SetSignature (drop (length c - 16) c) c;
     Some (take (length c - 16) c) }"

definition session_decrypt :: "session \<Rightarrow> bytes \<Rightarrow> (ccm_error + bytes) option" where
  "session_decrypt s pkt = do {
     ed \<leftarrow> TransformCodec_EncryptedData pkt;
     sig \<leftarrow> TransformCodec_Signature pkt;
     d \<leftarrow> session_decrypter s;
     nonce \<leftarrow> TransformCodec_Nonce pkt;
     n \<leftarrow> go_slice nonce 0 (aead_NonceSize d);
     ad \<leftarrow> TransformCodec_AssociatedData pkt;
     aead_Open d n (ed @ sig) ad }"

definition kdf :: "(bytes \<Rightarrow> bytes \<Rightarrow> bytes) \<Rightarrow> bytes \<Rightarrow> bytes \<Rightarrow> bytes \<Rightarrow> bytes option" where
  "kdf hmac ki label context = go_slice (hmac ki ([0, 0, 0, 1] @ label @ [0] @ context @ [0, 0, 0, 0x80])) 0 16"

definition aead_of_ccm :: "ccm \<Rightarrow> aead" where
  "aead_of_ccm ccm = \<lparr>aead_NonceSize = ccm_nonceSize ccm, aead_Seal = ccm_Seal ccm, aead_Open = ccm_Open ccm []\<rparr>"

section \<open>Signing\<close>

lemma session_sign_eq:
  assumes "64 \<le> length pkt" "session_signer s = Some h"
  shows "session_sign s pkt =
    (let p = upd 16 (le_of_word 4 (word_of_le (rd 16 4 pkt) OR SMB2_FLAGS_SIGNED :: u32)) pkt
     in Some (upd 48 (take 16 (h p)) p))"
  using assms by (simp add: session_sign_def PacketCodec_Flags_def un_at_eqs go_run Let_def)

lemma session_sign_nil: "session_signer s = None \<Longrightarrow> session_sign s pkt = None"
  by (simp add: session_sign_def split: Option.bind_splits)

text \<open>The signature in the packet is compared with the authentication code of the packet with a
  zero signature.\<close>

definition packet_mac :: "(bytes \<Rightarrow> bytes) \<Rightarrow> bytes \<Rightarrow> bytes" where
  "packet_mac h pkt = rd 48 16 (let p = upd 48 (replicate 16 0) pkt in upd 48 (take 16 (h p)) p)"

lemma session_verify_eq:
  assumes "64 \<le> length pkt" "\<not> session_anonymous s" "session_verifier s = Some h"
  shows "\<exists>p. session_verify s pkt = Some (rd 48 16 pkt = packet_mac h pkt, p) \<and> length p = length pkt \<and>
    take 48 p = take 48 pkt \<and> drop 64 p = drop 64 pkt"
proof -
  let ?z = "upd 48 (replicate 16 0) pkt"
  let ?p = "upd 48 (take 16 (h ?z)) ?z"
  have "take 48 ?p = take 48 pkt" "drop 64 ?p = drop 64 pkt"
    by (simp_all add: take_upd drop_upd)
  then show ?thesis
    using assms by (intro exI [of _ ?p]) (simp add: session_verify_def PacketCodec_Signature_def
        go_slice_eq_rd go_run packet_mac_def Let_def)
qed

lemma session_verify_anonymous:
  assumes "64 \<le> length pkt" "session_anonymous s"
  shows "session_verify s pkt = Some (rd 48 16 pkt = replicate 16 0, upd 48 (replicate 16 0) pkt)"
  using assms by (simp add: session_verify_def PacketCodec_Signature_def go_slice_eq_rd go_run rd_upd_same)

text \<open>A packet whose signature field is zero, as the encoder leaves it, verifies once it is signed.\<close>

lemma session_sign_verify:
  assumes "64 \<le> length pkt" "rd 48 16 pkt = replicate 16 0"
    and "session_signer s = Some h" "session_verifier t = Some h" "\<not> session_anonymous t"
  shows "\<exists>p q. session_sign s pkt = Some p \<and> session_verify t p = Some (True, q)"
proof -
  let ?f = "upd 16 (le_of_word 4 (word_of_le (rd 16 4 pkt) OR SMB2_FLAGS_SIGNED :: u32)) pkt"
  let ?p = "upd 48 (take 16 (h ?f)) ?f"
  have z: "rd 48 16 ?f = replicate 16 0" using assms(2) by (simp add: rd_upd_after)
  have l: "64 \<le> length ?p" using assms(1) by simp
  have "upd 48 (replicate 16 0) ?p = upd 48 (replicate 16 0) ?f"
    using assms(1) by (intro upd_upd_cover) auto
  also have "\<dots> = ?f" using z assms(1) upd_zeros [of 48 16 ?f] by simp
  finally have "packet_mac h ?p = rd 48 16 ?p" by (simp add: packet_mac_def Let_def)
  then show ?thesis
    using session_sign_eq [OF assms(1,3)] session_verify_eq [OF l assms(5,4)] by (simp add: Let_def) metis
qed

section \<open>Encryption\<close>

text \<open>The 32 bytes of the transform header that are authenticated: nonce, message size, reserved,
  flags and session id.\<close>

definition transform_ad :: "bytes \<Rightarrow> bytes \<Rightarrow> u64 \<Rightarrow> bytes" where
  "transform_ad nonce pkt sid = nonce @ replicate (16 - length nonce) 0 @
     le_of_word 4 (of_nat (length pkt) :: u32) @ replicate 2 0 @ le_of_word 2 Encrypted @ le_of_word 8 sid"

lemma length_transform_ad: "length nonce \<le> 16 \<Longrightarrow> length (transform_ad nonce pkt sid) = 32"
  by (simp add: transform_ad_def)

lemma upd_mid: "length a = n \<Longrightarrow> length x = length b \<Longrightarrow> upd n b (a @ x @ r) = a @ b @ r"
  by (simp add: upd_def)

lemma encrypt_header:
  assumes "length nonce \<le> 16"
  shows "writes [TransformCodec_SetProtocolId, TransformCodec_SetNonce nonce,
       TransformCodec_SetOriginalMessageSize (of_nat (length pkt)), TransformCodec_SetFlags Encrypted,
       TransformCodec_SetSessionId sid] (replicate (52 + length pkt + 16) 0) =
     Some (MAGIC2 @ replicate 16 0 @ transform_ad nonce pkt sid @ replicate (length pkt + 16) 0)"
proof -
  let ?L = "52 + length pkt + 16" and ?sz = "le_of_word 4 (of_nat (length pkt) :: u32)"
  let ?r = "replicate (length pkt + 16) 0 :: bytes" and ?z = "\<lambda>k. replicate k 0 :: bytes"
  let ?n = "length nonce"
  have z: "?z ?L = ?z 4 @ ?z 16 @ ?z ?n @ ?z (16 - ?n) @ ?z 4 @ ?z 2 @ ?z 2 @ ?z 8 @ ?r"
    using assms by (simp flip: replicate_add)
  have "writes [TransformCodec_SetProtocolId, TransformCodec_SetNonce nonce,
       TransformCodec_SetOriginalMessageSize (of_nat (length pkt)), TransformCodec_SetFlags Encrypted,
       TransformCodec_SetSessionId sid] (?z ?L) =
     Some (upd 44 (le_of_word 8 sid) (upd 42 (le_of_word 2 Encrypted) (upd 36 ?sz (upd 20 nonce (upd 0 MAGIC2 (?z ?L))))))"
    using assms by (simp add: go_run)
  also have "upd 0 MAGIC2 (?z ?L) = MAGIC2 @ ?z 16 @ ?z ?n @ ?z (16 - ?n) @ ?z 4 @ ?z 2 @ ?z 2 @ ?z 8 @ ?r"
    unfolding z using upd_mid [of "[]" 0 "?z 4" MAGIC2] by simp
  also have "upd 20 nonce \<dots> = (MAGIC2 @ ?z 16 @ nonce @ ?z (16 - ?n)) @ ?z 4 @ ?z 2 @ ?z 2 @ ?z 8 @ ?r"
    using upd_mid [of "MAGIC2 @ ?z 16" 20 "?z ?n" nonce] by simp
  also have "upd 36 ?sz \<dots> = (MAGIC2 @ ?z 16 @ nonce @ ?z (16 - ?n) @ ?sz @ ?z 2) @ ?z 2 @ ?z 8 @ ?r"
    using assms by (subst upd_mid) simp_all
  also have "upd 42 (le_of_word 2 Encrypted) \<dots> =
      (MAGIC2 @ ?z 16 @ nonce @ ?z (16 - ?n) @ ?sz @ ?z 2 @ le_of_word 2 Encrypted) @ ?z 8 @ ?r"
    using assms by (subst upd_mid) simp_all
  also have "upd 44 (le_of_word 8 sid) \<dots> = MAGIC2 @ ?z 16 @ transform_ad nonce pkt sid @ ?r"
    using assms by (subst upd_mid) (simp_all add: transform_ad_def)
  finally show ?thesis .
qed

text \<open>The tag behind the ciphertext becomes the signature of the header.\<close>

lemma encrypt_frame:
  assumes "length ad = 32" "length ct = k + 16"
  shows "TransformCodec_SetSignature (drop (52 + k) (upd 52 ct (MAGIC2 @ replicate 16 0 @ ad @ replicate (k + 16) 0)))
      (upd 52 ct (MAGIC2 @ replicate 16 0 @ ad @ replicate (k + 16) 0)) =
    Some (MAGIC2 @ drop k ct @ ad @ ct)"
proof -
  have u: "upd 52 ct (MAGIC2 @ replicate 16 0 @ ad @ replicate (k + 16) 0) = MAGIC2 @ replicate 16 0 @ ad @ ct"
    using upd_mid [of "MAGIC2 @ replicate 16 0 @ ad" 52 "replicate (k + 16) 0" ct "[]"] assms by simp
  have "upd 4 (drop k ct) (MAGIC2 @ replicate 16 0 @ ad @ ct) = MAGIC2 @ drop k ct @ ad @ ct"
    using assms by (intro upd_mid) simp_all
  then show ?thesis
    unfolding u using assms by (simp add: TransformCodec_SetSignature_def go_run)
qed

lemma frame_parts:
  assumes "length m = 4" "length sg = 16" "length ad = 32"
  shows "rd 4 16 (m @ sg @ ad @ x) = sg" "rd 20 32 (m @ sg @ ad @ x) = ad" "drop 52 (m @ sg @ ad @ x) = x"
  using assms by (simp_all add: rd_def)

lemma transform_ad_parts:
  assumes "length nonce \<le> 16"
  shows "rd 0 (length nonce) (transform_ad nonce pkt sid) = nonce"
    "rd 22 2 (transform_ad nonce pkt sid) = le_of_word 2 Encrypted"
    "rd 24 8 (transform_ad nonce pkt sid) = le_of_word 8 sid"
  using assms by (simp_all add: transform_ad_def rd_def)

text \<open>What the session relies on of an AEAD mode: with a nonce of its size it seals every payload
  that fits into as many bytes and a tag of 16, opens it again under the same nonce and associated
  data, and opens nothing else.\<close>

locale aead_scheme =
  fixes A :: aead and fits :: "bytes \<Rightarrow> bool"
  assumes nonce_size: "aead_NonceSize A \<le> 16"
    and seal: "length n = aead_NonceSize A \<Longrightarrow> fits p \<Longrightarrow>
      \<exists>ct ret. aead_Seal A dst n p a = Some (ct, ret) \<and> length ct = length p + 16 \<and> aead_Open A n ct a = Some (Inr p)"
    and open_sealed: "length n = aead_NonceSize A \<Longrightarrow> aead_Open A n ct a = Some (Inr p) \<Longrightarrow>
      fits p \<and> (\<exists>ret. aead_Seal A dst n p a = Some (ct, ret))"
begin

text \<open>Two payloads never share a ciphertext.\<close>

lemma seal_inject:
  assumes "length n = aead_NonceSize A" "fits p" "fits q"
    and "aead_Seal A dst n p a = Some (ct, r)" "aead_Seal A dst n q a = Some (ct, r')"
  shows "p = q"
proof -
  have o: "aead_Open A n ct a = Some (Inr x)" if "fits x" "aead_Seal A dst n x a = Some (ct, r)" for x r
    using seal [OF assms(1) that(1), of dst a] that(2) by auto
  from o [OF assms(2,4)] o [OF assms(3,5)] show ?thesis by simp
qed

lemma encrypt_eq:
  assumes e: "session_encrypter s = Some A" and n: "length nonce = aead_NonceSize A" and f: "fits pkt"
  obtains ct ret where "aead_Seal A dst nonce pkt (transform_ad nonce pkt (session_id s)) = Some (ct, ret)"
    and "length ct = length pkt + 16"
    and "session_encrypt s nonce pkt =
      Some (MAGIC2 @ drop (length pkt) ct @ transform_ad nonce pkt (session_id s) @ take (length pkt) ct)"
proof -
  let ?th = "transform_ad nonce pkt (session_id s)"
  have n16: "length nonce \<le> 16" using n nonce_size by simp
  obtain ct ret where s: "aead_Seal A (MAGIC2 @ replicate 16 0 @ ?th) nonce pkt ?th = Some (ct, ret)"
    and l: "length ct = length pkt + 16"
    using seal [OF n f] by blast
  obtain ret' where s': "aead_Seal A dst nonce pkt ?th = Some (ct, ret')"
    using seal [OF n f, of "MAGIC2 @ replicate 16 0 @ ?th" ?th] open_sealed [OF n, of ct ?th pkt dst] s by auto
  have "session_encrypt s nonce pkt =
      Some (MAGIC2 @ drop (length pkt) ct @ ?th @ take (length pkt) ct)"
    using e s l n16 encrypt_header [OF n16, of pkt "session_id s"]
      encrypt_frame [OF length_transform_ad [OF n16] l] length_transform_ad [OF n16]
    by (simp add: session_encrypt_def TransformCodec_AssociatedData_def go_slice_def)
  with s' l show ?thesis using that by blast
qed

text \<open>The receiver opens the ciphertext under the nonce and associated data of the header.\<close>

lemma decrypt_eq:
  assumes "session_decrypter t = Some A" "\<not> TransformCodec_IsInvalid p"
  shows "session_decrypt t p = aead_Open A (rd 20 (aead_NonceSize A) p) (drop 52 p @ rd 4 16 p) (rd 20 32 p)"
  using assms nonce_size TransformCodec_accessors [OF assms(2)]
  by (simp add: session_decrypt_def go_slice_eq_rd rd_rd TransformCodec_valid_iff)

lemma decrypt_encrypt:
  assumes e: "session_encrypter s = Some A" and d: "session_decrypter t = Some A"
    and n: "length nonce = aead_NonceSize A" and f: "fits pkt"
  shows "\<exists>c. session_encrypt s nonce pkt = Some c \<and> \<not> TransformCodec_IsInvalid c \<and>
    length c = 52 + length pkt \<and> TransformCodec_Flags c = Some Encrypted \<and>
    TransformCodec_SessionId c = Some (session_id s) \<and> session_decrypt t c = Some (Inr pkt)"
proof -
  let ?ad = "transform_ad nonce pkt (session_id s)"
  have n16: "length nonce \<le> 16" using n nonce_size by simp
  have lad: "length ?ad = 32" using n16 by (rule length_transform_ad)
  obtain ct ret where s: "aead_Seal A [] nonce pkt ?ad = Some (ct, ret)" and l: "length ct = length pkt + 16"
    and c: "session_encrypt s nonce pkt = Some (MAGIC2 @ drop (length pkt) ct @ ?ad @ take (length pkt) ct)"
    by (rule encrypt_eq [OF e n f])
  let ?c = "MAGIC2 @ drop (length pkt) ct @ ?ad @ take (length pkt) ct"
  have v: "\<not> TransformCodec_IsInvalid ?c" using l lad by (simp add: TransformCodec_valid_iff)
  have r: "rd 4 16 ?c = drop (length pkt) ct" "rd 20 32 ?c = ?ad" "drop 52 ?c = take (length pkt) ct"
    using frame_parts [of MAGIC2 "drop (length pkt) ct" ?ad] l lad by simp_all
  have rn: "rd 20 (aead_NonceSize A) ?c = nonce"
    using rd_rd [of 0 "aead_NonceSize A" 32 20 ?c] transform_ad_parts(1) [OF n16, of pkt "session_id s"]
      n n16 unfolding r(2) by simp
  have fl: "rd 42 2 ?c = le_of_word 2 Encrypted" "rd 44 8 ?c = le_of_word 8 (session_id s)"
    using rd_rd [of 22 2 32 20 ?c] rd_rd [of 24 8 32 20 ?c] transform_ad_parts(2,3) [OF n16, of pkt "session_id s"]
    unfolding r(2) by simp_all
  have "aead_Open A nonce ct ?ad = Some (Inr pkt)" using seal [OF n f, of "[]" ?ad] s by simp
  then have "session_decrypt t ?c = Some (Inr pkt)"
    unfolding decrypt_eq [OF d v] r rn by simp
  moreover have "TransformCodec_Flags ?c = Some Encrypted" "TransformCodec_SessionId ?c = Some (session_id s)"
    unfolding TransformCodec_accessors [OF v] fl by simp_all
  ultimately show ?thesis using c v l lad by (intro exI [of _ ?c]) simp
qed

text \<open>A transform packet opens to \<open>p\<close> only if it carries exactly what sealing \<open>p\<close> under
  its own header gives: neither the header nor the ciphertext nor the tag can be changed.\<close>

lemma decrypt_authentic:
  assumes d: "session_decrypter t = Some A" and v: "\<not> TransformCodec_IsInvalid c"
    and o: "session_decrypt t c = Some (Inr p)"
  shows "fits p \<and> (\<exists>ret. aead_Seal A dst (rd 20 (aead_NonceSize A) c) p (rd 20 32 c) = Some (drop 52 c @ rd 4 16 c, ret))"
proof -
  have "length (rd 20 (aead_NonceSize A) c) = aead_NonceSize A"
    using v nonce_size by (simp add: TransformCodec_valid_iff)
  from open_sealed [OF this] o show ?thesis unfolding decrypt_eq [OF d v] by blast
qed

end

section \<open>CCM as the server sets it up\<close>

definition server_ccm :: "block_fn \<Rightarrow> ccm" where
  "server_ccm c = \<lparr>ccm_c = c, ccm_mac = newMAC c, ccm_nonceSize = 11, ccm_tagSize = 16\<rparr>"

lemma server_ccm_New: "NewCCMWithNonceAndTagSizes c 16 11 16 = Inr (server_ccm c)"
  by (simp add: NewCCMWithNonceAndTagSizes_def server_ccm_def)

definition ccm_fits :: "bytes \<Rightarrow> bool" where
  "ccm_fits p \<longleftrightarrow> p \<noteq> [] \<and> (of_nat (length p) :: u64) \<le> 0xffffffff"

lemma ccm_Seal_server:
  assumes "length n = 11" "(of_nat (length p) :: u64) \<le> 0xffffffff"
  shows "\<exists>ret. ccm_Seal (server_ccm c) dst n p a = Some (ccm_sealed (server_ccm c) n p a, ret)"
    and "length (ccm_sealed (server_ccm c) n p a) = length p + 16"
proof -
  have wf: "ccm_wf (server_ccm c)" by (rule NewCCM_wf [OF server_ccm_New])
  have z: "ccm_nonceSize (server_ccm c) = 11" "ccm_tagSize (server_ccm c) = 16" by (simp_all add: server_ccm_def)
  have m: "maxUvarint (15 - ccm_nonceSize (server_ccm c)) = 0xffffffff" by (simp add: z maxUvarint_def)
  show "length (ccm_sealed (server_ccm c) n p a) = length p + 16"
    using length_ccm_sealed [OF wf] assms z by simp
  obtain tail where "ccm_Seal (server_ccm c) dst n p a = Some (tail, take (length p + 16) (dst @ tail))"
    "take (length p + 16) tail = ccm_sealed (server_ccm c) n p a" "length tail = length p + 16"
    using ccm_Seal_eq [OF wf, of n p dst a] assms m z by auto
  then show "\<exists>ret. ccm_Seal (server_ccm c) dst n p a = Some (ccm_sealed (server_ccm c) n p a, ret)" by auto
qed

interpretation ccm: aead_scheme "aead_of_ccm (server_ccm c)" ccm_fits for c
proof unfold_locales
  let ?A = "aead_of_ccm (server_ccm c)"
  have wf: "ccm_wf (server_ccm c)" by (rule NewCCM_wf [OF server_ccm_New])
  have ns: "aead_NonceSize ?A = 11" "ccm_nonceSize (server_ccm c) = 11"
    by (simp_all add: aead_of_ccm_def server_ccm_def)
  have m: "maxUvarint (15 - ccm_nonceSize (server_ccm c)) = 0xffffffff" by (simp add: ns maxUvarint_def)
  show "aead_NonceSize ?A \<le> 16" by (simp add: ns)
  fix n p dst a ct :: bytes
  assume n: "length n = aead_NonceSize ?A"
  show "\<exists>ct ret. aead_Seal ?A dst n p a = Some (ct, ret) \<and> length ct = length p + 16 \<and> aead_Open ?A n ct a = Some (Inr p)"
    if "ccm_fits p"
    using that n ns m ccm_Open_iff [OF wf, of n "[]" "ccm_sealed (server_ccm c) n p a" a p] ccm_Seal_server(1) [of n p c dst a]
      ccm_Seal_server(2) [of n p c a]
    by (auto simp: aead_of_ccm_def ccm_fits_def)
  show "ccm_fits p \<and> (\<exists>ret. aead_Seal ?A dst n p a = Some (ct, ret))" if "aead_Open ?A n ct a = Some (Inr p)"
    using that n ns m ccm_Open_iff [OF wf, of n "[]" ct a p] ccm_Seal_server(1) [of n p c dst a]
      ccm_Seal_server(2) [of n p c a]
    by (auto simp: aead_of_ccm_def ccm_fits_def)
qed

end
