(* ===== verification/Utf16le.thy ===== *)
theory Utf16le
  imports Go_Prelude
begin

text \<open>
  The string conversions of \<open>internal/utf16le/utf16le.go\<close>, with what they use of Go's
  strings and of \<open>unicode/utf16\<close>. A Go string is its bytes; \<open>[]rune(s)\<close> decodes
  UTF-8 and reads every malformed byte as U+FFFD; \<open>utf16.Encode\<close> and
  \<open>utf16.Decode\<close> work on 16-bit units with surrogate pairs. The lemmas show that
  \<open>EncodedStringLen\<close> predicts exactly what \<open>EncodeString\<close> writes, and that
  decoding what was encoded gives the string back.
\<close>

type_synonym go_string = bytes
type_synonym rune = nat

section \<open>UTF-8, as Go's \<open>range\<close> and \<open>[]rune\<close> read it\<close>

definition RuneError :: rune where "RuneError = 0xFFFD"

definition cont :: "byte \<Rightarrow> bool" where
  "cont b \<longleftrightarrow> 0x80 \<le> unat b \<and> unat b \<le> 0xBF"

text \<open>The range of the second byte, by the first (\<open>utf8.acceptRanges\<close>).\<close>

definition accept2 :: "nat \<Rightarrow> nat \<Rightarrow> bool" where
  "accept2 b0 b1 \<longleftrightarrow>
     (if b0 = 0xE0 then 0xA0 \<le> b1 \<and> b1 \<le> 0xBF
      else if b0 = 0xED then 0x80 \<le> b1 \<and> b1 \<le> 0x9F
      else if b0 = 0xF0 then 0x90 \<le> b1 \<and> b1 \<le> 0xBF
      else if b0 = 0xF4 then 0x80 \<le> b1 \<and> b1 \<le> 0x8F
      else 0x80 \<le> b1 \<and> b1 \<le> 0xBF)"

text \<open>One decoding step: the rune and the bytes left (\<open>utf8.DecodeRune\<close>).\<close>

fun decodeRune :: "byte \<Rightarrow> bytes \<Rightarrow> rune \<times> bytes" where
  "decodeRune b0 s =
     (let n0 = unat b0 in
      if n0 < 0x80 then (n0, s)
      else if 0xC2 \<le> n0 \<and> n0 \<le> 0xDF then
        (case s of
           b1 # s1 \<Rightarrow>
             if accept2 n0 (unat b1) then ((n0 - 0xC0) * 64 + (unat b1 - 0x80), s1) else (RuneError, s)
         | [] \<Rightarrow> (RuneError, s))
      else if 0xE0 \<le> n0 \<and> n0 \<le> 0xEF then
        (case s of
           b1 # b2 # s2 \<Rightarrow>
             if accept2 n0 (unat b1) \<and> cont b2
             then ((n0 - 0xE0) * 4096 + (unat b1 - 0x80) * 64 + (unat b2 - 0x80), s2)
             else (RuneError, s)
         | _ \<Rightarrow> (RuneError, s))
      else if 0xF0 \<le> n0 \<and> n0 \<le> 0xF4 then
        (case s of
           b1 # b2 # b3 # s3 \<Rightarrow>
             if accept2 n0 (unat b1) \<and> cont b2 \<and> cont b3
             then ((n0 - 0xF0) * 262144 + (unat b1 - 0x80) * 4096 + (unat b2 - 0x80) * 64
                     + (unat b3 - 0x80), s3)
             else (RuneError, s)
         | _ \<Rightarrow> (RuneError, s))
      else (RuneError, s))"

lemma decodeRune_shorter: "decodeRune b s = (r, s') \<Longrightarrow> length s' \<le> length s"
  by (auto simp: Let_def split: if_splits list.splits)

function runes :: "go_string \<Rightarrow> rune list" where
  "runes [] = []"
| "runes (b # s) = (case decodeRune b s of (r, s') \<Rightarrow> r # runes s')"
  by pat_completeness auto
termination
  by (relation "measure length") (auto dest!: decodeRune_shorter [OF sym] simp del: decodeRune.simps)

declare decodeRune.simps [simp del]

text \<open>\<open>string(rs)\<close>: UTF-8 encoding; what is no Unicode scalar value becomes U+FFFD.\<close>

definition scalar :: "rune \<Rightarrow> bool" where
  "scalar r \<longleftrightarrow> r < 0xD800 \<or> 0xE000 \<le> r \<and> r \<le> 0x10FFFF"

definition encodeRune :: "rune \<Rightarrow> bytes" where
  "encodeRune r0 =
     (let r = (if scalar r0 then r0 else RuneError) in
      if r < 0x80 then [of_nat r]
      else if r < 0x800 then [of_nat (0xC0 + r div 64), of_nat (0x80 + r mod 64)]
      else if r < 0x10000 then
        [of_nat (0xE0 + r div 4096), of_nat (0x80 + r div 64 mod 64), of_nat (0x80 + r mod 64)]
      else
        [of_nat (0xF0 + r div 262144), of_nat (0x80 + r div 4096 mod 64),
         of_nat (0x80 + r div 64 mod 64), of_nat (0x80 + r mod 64)])"

definition string_of_runes :: "rune list \<Rightarrow> go_string" where
  "string_of_runes rs = concat (map encodeRune rs)"

section \<open>UTF-16 (\<open>unicode/utf16\<close>)\<close>

definition utf16_units :: "rune \<Rightarrow> u16 list" where
  "utf16_units v =
     (if v < 0xD800 \<or> 0xE000 \<le> v \<and> v < 0x10000 then [of_nat v]
      else if 0x10000 \<le> v \<and> v \<le> 0x10FFFF then
        [of_nat (0xD800 + (v - 0x10000) div 1024 mod 1024), of_nat (0xDC00 + (v - 0x10000) mod 1024)]
      else [0xFFFD])"

definition utf16_Encode :: "rune list \<Rightarrow> u16 list" where
  "utf16_Encode rs = concat (map utf16_units rs)"

fun utf16_Decode :: "u16 list \<Rightarrow> rune list" where
  "utf16_Decode [] = []"
| "utf16_Decode (w # ws) =
     (let r = unat w in
      if r < 0xD800 \<or> 0xE000 \<le> r then r # utf16_Decode ws
      else if r < 0xDC00 then
        (case ws of
           w2 # ws2 \<Rightarrow>
             if 0xDC00 \<le> unat w2 \<and> unat w2 < 0xE000
             then ((r - 0xD800) * 1024 + (unat w2 - 0xDC00) + 0x10000) # utf16_Decode ws2
             else RuneError # utf16_Decode ws
         | [] \<Rightarrow> [RuneError])
      else RuneError # utf16_Decode ws)"

section \<open>\<open>utf16le.go\<close>\<close>

definition EncodedStringLen :: "go_string \<Rightarrow> nat" where
  "EncodedStringLen s =
     foldl (\<lambda>l r. if 0x10000 \<le> r \<and> r \<le> 0x10FFFF then l + 4 else l + 2) 0 (runes s)"

text \<open>\<open>for i, w := range ws { le.PutUint16(dst[2*i:2*i+2], w) }\<close>\<close>

definition put16s :: "u16 list \<Rightarrow> writer" where
  "put16s ws = writes (map (\<lambda>(i, w). put16 (2 * i) w) (enumerate 0 ws))"

text \<open>The buffer after \<open>EncodeString(dst, src)\<close>, and the number it returns.\<close>

definition EncodeString :: "go_string \<Rightarrow> writer" where
  "EncodeString src dst = put16s (utf16_Encode (runes src)) dst"

definition EncodeString_n :: "go_string \<Rightarrow> nat" where
  "EncodeString_n src = length (utf16_Encode (runes src)) * 2"

definition EncodeStringToBytes :: "go_string \<Rightarrow> bytes option" where
  "EncodeStringToBytes s =
     (if length s = 0 then Some []
      else let ws = utf16_Encode (runes s) in put16s ws (replicate (length ws * 2) 0))"

text \<open>\<open>ws[i] = le.Uint16(bs[2*i:2*i+2])\<close> for \<open>i < n\<close>.\<close>

definition get16s :: "nat \<Rightarrow> bytes \<Rightarrow> u16 list option" where
  "get16s n bs = those (map (\<lambda>i. u16_at bs (2 * i)) [0..<n])"

definition DecodeToString :: "bytes \<Rightarrow> go_string option" where
  "DecodeToString bs =
     (if length bs = 0 then Some []
      else do {
        ws \<leftarrow> get16s (length bs div 2) bs;
        let ws = (if length ws > 0 \<and> last ws = 0 then butlast ws else ws);
        Some (string_of_runes (utf16_Decode ws)) })"

section \<open>Lists of 16-bit units in a buffer\<close>

definition le16s :: "u16 list \<Rightarrow> bytes" where
  "le16s ws = concat (map (le_of_word 2) ws)"

lemma le16s_simps [simp]:
  "le16s [] = []" "le16s (w # ws) = le_of_word 2 w @ le16s ws" "le16s (xs @ ys) = le16s xs @ le16s ys"
  by (simp_all add: le16s_def)

lemma length_le16s [simp]: "length (le16s ws) = 2 * length ws"
  by (induction ws) simp_all

lemma rd_le16s: "i < length ws \<Longrightarrow> rd (2 * i) 2 (le16s ws @ r) = le_of_word 2 (ws ! i)"
proof (induction ws arbitrary: i)
  case Nil
  then show ?case by simp
next
  case (Cons w ws)
  then show ?case
    by (cases i) (simp_all add: rd_append_left rd_append_right rd_0_all)
qed

lemma put16s_eq:
  "put16s ws p = (if 2 * length ws \<le> length p then Some (upd 0 (le16s ws) p) else None)"
proof (induction ws rule: rev_induct)
  case Nil
  then show ?case by (simp add: put16s_def)
next
  case (snoc w ws)
  have "put16s (ws @ [w]) p = (case put16s ws p of None \<Rightarrow> None | Some q \<Rightarrow> put16 (2 * length ws) w q)"
    by (simp add: put16s_def enumerate_append_eq writes_append split: option.split)
  also have "\<dots> = (if 2 * length (ws @ [w]) \<le> length p then Some (upd 0 (le16s (ws @ [w])) p) else None)"
    using upd_upd_adjacent [of 0 "le16s ws" "le_of_word 2 w" p]
    by (auto simp: snoc.IH put16_def put_def)
  finally show ?case .
qed

lemma safe_put16s [go_safe]: "2 * length ws \<le> k \<Longrightarrow> safe_w k (put16s ws)"
  by (simp add: safe_w_def put16s_eq)

lemma get16s_eq:
  "2 * n \<le> length bs \<Longrightarrow> get16s n bs = Some (map (\<lambda>i. word_of_le (rd (2 * i) 2 bs)) [0..<n])"
  unfolding get16s_def by (rule those_map_Some) (simp add: u16_at_eq)

lemma get16s_le16s: "get16s (length ws) (le16s ws @ r) = Some ws"
  by (auto simp: get16s_eq rd_le16s intro!: nth_equalityI)

section \<open>Sizes\<close>

lemma length_utf16_units: "length (utf16_units v) = (if 0x10000 \<le> v \<and> v \<le> 0x10FFFF then 2 else 1)"
  by (simp add: utf16_units_def)

lemma EncodedStringLen_eq: "EncodedStringLen s = EncodeString_n s"
proof -
  have "foldl (\<lambda>l r. if 0x10000 \<le> r \<and> r \<le> 0x10FFFF then l + 4 else l + 2) k rs
      = k + 2 * length (utf16_Encode rs)" for k and rs :: "rune list"
    by (induction rs arbitrary: k) (simp_all add: utf16_Encode_def length_utf16_units)
  then show ?thesis by (simp add: EncodedStringLen_def EncodeString_n_def)
qed

lemma safe_EncodeString [go_safe]: "EncodedStringLen src \<le> k \<Longrightarrow> safe_w k (EncodeString src)"
  unfolding EncodeString_def [abs_def]
  by (simp add: EncodedStringLen_eq EncodeString_n_def safe_put16s)

lemma EncodeString_eq:
  "EncodeString_n src \<le> length p \<Longrightarrow>
     EncodeString src p = Some (upd 0 (le16s (utf16_Encode (runes src))) p)"
  by (simp add: EncodeString_def put16s_eq EncodeString_n_def)

section \<open>Round trips\<close>

lemma utf16_Decode_units:
  assumes "scalar r"
  shows "utf16_Decode (utf16_units r @ ws) = r # utf16_Decode ws"
proof (cases "r < 0x10000")
  case True
  then have "unat (of_nat r :: u16) = r" by (simp add: unat_of_nat)
  then show ?thesis using True assms by (auto simp: utf16_units_def scalar_def)
next
  case False
  define v where "v = r - 0x10000"
  have v: "v div 1024 < 1024" and r: "r = v + 0x10000"
    using assms False by (auto simp: v_def scalar_def)
  have u1: "unat (of_nat (0xD800 + v div 1024 mod 1024) :: u16) = 0xD800 + v div 1024"
    by (subst unat_of_nat_u16) (use v in auto)
  have u2: "unat (of_nat (0xDC00 + v mod 1024) :: u16) = 0xDC00 + v mod 1024"
    by (rule unat_of_nat_u16) simp
  have e: "v div 1024 * 1024 + v mod 1024 = v" by simp
  have "utf16_units r = [of_nat (0xD800 + v div 1024 mod 1024), of_nat (0xDC00 + v mod 1024)]"
    using assms False by (simp add: utf16_units_def scalar_def v_def)
  then show ?thesis using v u1 u2 e by (simp add: r)
qed

lemma utf16_Decode_Encode: "list_all scalar rs \<Longrightarrow> utf16_Decode (utf16_Encode rs) = rs"
  by (induction rs) (simp_all add: utf16_Encode_def utf16_Decode_units)

lemma unat_byte: "x < 256 \<Longrightarrow> unat (of_nat x :: byte) = x"
  by (rule unat_of_nat_u8)

lemma decodeRune_1: "r < 0x80 \<Longrightarrow> decodeRune (of_nat r) s = (r, s)"
  by (simp add: decodeRune.simps unat_byte)

lemma decodeRune_2:
  assumes "0x80 \<le> r" "r < 0x800"
  shows "decodeRune (of_nat (0xC0 + r div 64)) (of_nat (0x80 + r mod 64) # s) = (r, s)"
proof -
  have d: "2 \<le> r div 64" "r div 64 < 32" using assms by auto
  have m: "r mod 64 < 64" by simp
  have e: "r div 64 * 64 + r mod 64 = r" by simp
  show ?thesis
    unfolding decodeRune.simps
    using d m e by (simp add: unat_byte accept2_def del: of_nat_add of_nat_numeral)
qed

lemma decodeRune_3:
  assumes "0x800 \<le> r" "r < 0x10000" "scalar r"
  shows "decodeRune (of_nat (0xE0 + r div 4096))
           (of_nat (0x80 + r div 64 mod 64) # of_nat (0x80 + r mod 64) # s) = (r, s)"
proof -
  define t where "t = r div 64"
  define q where "q = t div 64"
  define m where "m = t mod 64"
  define n where "n = r mod 64"
  have r: "r = t * 64 + n" and t: "t = q * 64 + m" and b: "m < 64" "n < 64"
    by (simp_all add: t_def q_def m_def n_def)
  have q: "r div 4096 = q" by (simp add: q_def t_def div_mult2_eq [symmetric])
  have qb: "q < 16" using assms(2) r t by linarith
  have m0: "32 \<le> m" if "q = 0" using that assms(1) r t b by linarith
  have m13: "m < 32" if "q = 13" using that assms(2,3) r t b by (auto simp: scalar_def)
  have a: "accept2 (0xE0 + q) (0x80 + m)"
    using b qb m0 m13 by (auto simp: accept2_def)
  have "q * 4096 + m * 64 + n = r" using r t by simp
  then show ?thesis
    unfolding decodeRune.simps q t_def [symmetric] m_def [symmetric] n_def [symmetric]
    using qb b a by (simp add: unat_byte cont_def del: of_nat_add of_nat_numeral)
qed

lemma decodeRune_4:
  assumes "0x10000 \<le> r" "r \<le> 0x10FFFF"
  shows "decodeRune (of_nat (0xF0 + r div 262144))
           (of_nat (0x80 + r div 4096 mod 64) # of_nat (0x80 + r div 64 mod 64) #
            of_nat (0x80 + r mod 64) # s) = (r, s)"
proof -
  define t where "t = r div 64"
  define u where "u = t div 64"
  define q where "q = u div 64"
  define l where "l = u mod 64"
  define m where "m = t mod 64"
  define n where "n = r mod 64"
  have r: "r = t * 64 + n" and t: "t = u * 64 + m" and u: "u = q * 64 + l"
    and b: "l < 64" "m < 64" "n < 64"
    by (simp_all add: t_def u_def q_def l_def m_def n_def)
  have ud: "r div 4096 = u" by (simp add: u_def t_def div_mult2_eq [symmetric])
  have qd: "r div 262144 = q" by (simp add: q_def u_def t_def div_mult2_eq [symmetric])
  have qb: "q \<le> 4" using assms(2) r t u by linarith
  have l0: "16 \<le> l" if "q = 0" using that assms(1) r t u b by linarith
  have l4: "l < 16" if "q = 4" using that assms(2) r t u b by linarith
  have a: "accept2 (0xF0 + q) (0x80 + l)"
    using b qb l0 l4 by (auto simp: accept2_def)
  have e: "q * 262144 + l * 4096 + m * 64 + n = r" using r t u by simp
  have bytes: "unat (of_nat (0xF0 + q) :: byte) = 0xF0 + q" "unat (of_nat (0x80 + l) :: byte) = 0x80 + l"
    "unat (of_nat (0x80 + m) :: byte) = 0x80 + m" "unat (of_nat (0x80 + n) :: byte) = 0x80 + n"
    using qb b by (simp_all add: unat_byte del: of_nat_add of_nat_numeral)
  have c: "\<not> 0xF0 + q < 0x80" "\<not> 0xF0 + q \<le> 0xDF" "\<not> 0xF0 + q \<le> 0xEF" "0xF0 + q \<le> 0xF4"
    "0x80 + m \<le> 0xBF" "0x80 + n \<le> 0xBF"
    using qb b by linarith+
  show ?thesis
    unfolding ud qd t_def [symmetric] m_def [symmetric] n_def [symmetric] l_def [symmetric]
      decodeRune.simps cont_def bytes Let_def
    using a c e by (simp add: bytes del: of_nat_add of_nat_numeral)
qed

lemma runes_encodeRune: "scalar r \<Longrightarrow> runes (encodeRune r @ s) = r # runes s"
  using decodeRune_1 [of r s] decodeRune_2 [of r s] decodeRune_3 [of r s] decodeRune_4 [of r s]
  by (auto simp: encodeRune_def scalar_def not_less simp del: of_nat_add of_nat_numeral)

text \<open>A well-formed Go string is the UTF-8 of a list of scalar values.\<close>

lemma runes_string_of_runes: "list_all scalar rs \<Longrightarrow> runes (string_of_runes rs) = rs"
  by (induction rs) (simp_all add: string_of_runes_def runes_encodeRune)

lemma EncodeStringToBytes_eq: "EncodeStringToBytes s = Some (le16s (utf16_Encode (runes s)))"
  by (cases s) (simp_all add: EncodeStringToBytes_def put16s_eq Let_def upd_0_all
      utf16_Encode_def del: runes.simps(2))

lemma utf16_Encode_Nil_iff: "utf16_Encode rs = [] \<longleftrightarrow> rs = []"
  by (cases rs) (auto simp: utf16_Encode_def utf16_units_def)

lemma of_nat_u16_eq_0: "v < 65536 \<Longrightarrow> (of_nat v :: u16) = 0 \<longleftrightarrow> v = 0"
  using unat_of_nat_u16 [of v] unat_eq_zero [of "of_nat v :: u16"] by simp

lemma last_utf16_units: "scalar r \<Longrightarrow> last (utf16_units r) = 0 \<longleftrightarrow> r = 0"
proof -
  assume r: "scalar r"
  have "(r - 0x10000) mod 1024 < 1024" by simp
  then have "0xDC00 + (r - 0x10000) mod 1024 < 65536" by linarith
  then show ?thesis
    using r by (auto simp: utf16_units_def scalar_def of_nat_u16_eq_0 simp del: of_nat_add of_nat_numeral)
qed

lemma last_utf16_Encode:
  "rs \<noteq> [] \<Longrightarrow> last (utf16_Encode rs) = last (utf16_units (last rs))"
  by (induction rs rule: rev_induct) (auto simp: utf16_Encode_def utf16_units_def)

lemma DecodeToString_le16s:
  "DecodeToString (le16s ws) =
     Some (string_of_runes (utf16_Decode (if ws \<noteq> [] \<and> last ws = 0 then butlast ws else ws)))"
  using get16s_le16s [of ws "[]"]
  by (cases "ws = []") (auto simp: DecodeToString_def string_of_runes_def)

theorem DecodeToString_EncodeStringToBytes:
  assumes "list_all scalar rs" and "rs \<noteq> [] \<longrightarrow> last rs \<noteq> 0"
  shows "EncodeStringToBytes (string_of_runes rs) \<bind> DecodeToString = Some (string_of_runes rs)"
proof -
  have "rs \<noteq> [] \<Longrightarrow> last (utf16_Encode rs) \<noteq> 0"
    using assms by (simp add: last_utf16_Encode last_utf16_units list_all_iff)
  then show ?thesis
    using assms(1)
    by (auto simp: EncodeStringToBytes_eq DecodeToString_le16s runes_string_of_runes
        utf16_Decode_Encode utf16_Encode_Nil_iff)
qed

text \<open>The Go strings that survive the trip over the wire, as a check.\<close>

definition wf_string :: "go_string \<Rightarrow> bool" where
  "wf_string s \<longleftrightarrow> list_all scalar (runes s) \<and> string_of_runes (runes s) = s \<and>
     (runes s \<noteq> [] \<longrightarrow> last (runes s) \<noteq> 0)"

abbreviation utf16_bytes :: "go_string \<Rightarrow> bytes" where
  "utf16_bytes s \<equiv> le16s (utf16_Encode (runes s))"

lemma DecodeToString_wf: "wf_string s \<Longrightarrow> DecodeToString (utf16_bytes s) = Some s"
  using DecodeToString_EncodeStringToBytes [of "runes s"]
  by (simp add: wf_string_def EncodeStringToBytes_eq)

lemma EncodeString_n_eq: "EncodeString_n s = length (utf16_bytes s)"
  by (simp add: EncodeString_n_def)

lemma EncodedStringLen_Nil [simp]: "EncodedStringLen [] = 0"
  by (simp add: EncodedStringLen_def)

lemma on_from_EncodeString:
  "a + length (utf16_bytes s) \<le> length p \<Longrightarrow>
     on_from a (EncodeString s) p = Some (upd a (utf16_bytes s) p)"
  by (simp add: on_from_def EncodeString_def put16s_eq upd_def add.commute)

section \<open>ASCII\<close>

text \<open>Strings of ASCII characters without NUL.\<close>

definition ascii_string :: "go_string \<Rightarrow> bool" where
  "ascii_string s \<longleftrightarrow> list_all (\<lambda>b. 0 < unat b \<and> unat b < 128) s"

lemma runes_ascii: "ascii_string s \<Longrightarrow> runes s = map unat s"
proof (induction s)
  case (Cons b s)
  have "decodeRune (of_nat (unat b)) s = (unat b, s)"
    using Cons.prems by (intro decodeRune_1) (simp add: ascii_string_def)
  then show ?case using Cons by (simp add: ascii_string_def)
qed simp

lemma encodeRune_ascii: "unat b < 128 \<Longrightarrow> encodeRune (unat b) = [b]" for b :: u8
  by (simp add: encodeRune_def scalar_def)

lemma ascii_wf: "ascii_string s \<Longrightarrow> wf_string s"
proof -
  assume a: "ascii_string s"
  have "string_of_runes (map unat s) = s" using a
    by (induction s) (simp_all add: string_of_runes_def ascii_string_def encodeRune_ascii)
  moreover have "list_all scalar (map unat s)" using a
    by (auto simp: ascii_string_def list_all_iff scalar_def)
  moreover have "s \<noteq> [] \<Longrightarrow> unat (last s) \<noteq> 0" using a last_in_set [of s]
    by (auto simp: ascii_string_def list_all_iff)
  ultimately show ?thesis by (simp add: wf_string_def runes_ascii [OF a] last_map)
qed

lemma EncodedStringLen_ascii: "ascii_string s \<Longrightarrow> EncodedStringLen s = 2 * length s"
proof -
  assume a: "ascii_string s"
  have "length (utf16_Encode (map unat s)) = length s" using a
    by (induction s) (simp_all add: utf16_Encode_def ascii_string_def length_utf16_units)
  then show ?thesis by (simp add: EncodedStringLen_eq EncodeString_n_def runes_ascii [OF a])
qed

end
