(* ===== verification/Smb2_Types.thy ===== *)
theory Smb2_Types
  imports Smb2_Packet Utf16le "HOL-Library.Signed_Division"
begin

text \<open>
  The data types the messages are built from: \<open>FileId\<close> and the negotiate contexts of
  \<open>internal/smb2/smb2.go\<close>, \<open>Filetime\<close> and \<open>Sid\<close> of
  \<open>internal/smb2/dtyp.go\<close>, and the response preparation and handle identifiers of
  \<open>internal/smb2/util.go\<close>. The lemmas give the round trips of each encoder with its
  decoder, the panic-freedom of a decoder after its \<open>IsInvalid\<close>, and where the 16-bit
  arithmetic of a decoder wraps.
\<close>

text \<open>\<open>copy(dst, src)\<close> on whole arrays.\<close>

definition go_copy :: "bytes \<Rightarrow> bytes \<Rightarrow> bytes" where
  "go_copy dst src = take (length dst) src @ drop (length src) dst"

section \<open>\<open>FileId\<close>\<close>

record FileId =
  FileId_Persistent :: bytes
  FileId_Volatile :: bytes

text \<open>Both fields are \<open>[8]byte\<close>; \<open>*FileId\<close> may be nil.\<close>

definition fileid_ok :: "FileId \<Rightarrow> bool" where
  "fileid_ok fd \<longleftrightarrow> length (FileId_Persistent fd) = 8 \<and> length (FileId_Volatile fd) = 8"

text \<open>\<open>ToUUID\<close>: the receiver after the call, and the result.\<close>

definition FileId_ToUUID :: "FileId \<Rightarrow> FileId \<times> bytes" where
  "FileId_ToUUID fd =
     (let uuid = replicate 16 0 in
      (fd\<lparr>FileId_Persistent := go_copy (FileId_Persistent fd) uuid,
          FileId_Volatile := go_copy (FileId_Volatile fd) (drop 8 uuid)\<rparr>, uuid))"

definition FileId_IsZero :: "FileId option \<Rightarrow> bool" where
  "FileId_IsZero fd =
     (case fd of None \<Rightarrow> True
      | Some fd \<Rightarrow> list_all (\<lambda>b. b = 0) (FileId_Persistent fd) \<and>
                   list_all (\<lambda>b. b = 0) (FileId_Volatile fd))"

definition FileId_Size :: "FileId option \<Rightarrow> nat" where
  "FileId_Size fd = 16"

definition FileId_Encode :: "FileId option \<Rightarrow> writer" where
  "FileId_Encode fd =
     (case fd of None \<Rightarrow> copy_slice 0 16 (replicate 16 0)
      | Some fd \<Rightarrow> writes [copy_slice 0 8 (FileId_Persistent fd), copy_slice 8 16 (FileId_Volatile fd)])"

definition FileIdDecoder_Persistent :: "bytes \<Rightarrow> bytes option" where
  "FileIdDecoder_Persistent fd = go_slice fd 0 8"

definition FileIdDecoder_Volatile :: "bytes \<Rightarrow> bytes option" where
  "FileIdDecoder_Volatile fd = go_slice fd 8 16"

definition FileIdDecoder_Decode :: "bytes \<Rightarrow> FileId option" where
  "FileIdDecoder_Decode fd = do {
     a \<leftarrow> go_slice fd 0 8;
     b \<leftarrow> go_slice fd 8 16;
     Some \<lparr>FileId_Persistent = a, FileId_Volatile = b\<rparr> }"

definition FileId_HandleId :: "FileId \<Rightarrow> u64" where
  "FileId_HandleId f = word_of_le (FileId_Volatile f)"

definition FileId_SetHandleId :: "u64 \<Rightarrow> FileId \<Rightarrow> FileId" where
  "FileId_SetHandleId n f = f\<lparr>FileId_Volatile := le_of_word 8 n\<rparr>"

definition FileId_NodeId :: "FileId \<Rightarrow> u64" where
  "FileId_NodeId f = word_of_le (FileId_Persistent f)"

definition FileId_SetNodeId :: "u64 \<Rightarrow> FileId \<Rightarrow> FileId" where
  "FileId_SetNodeId n f = f\<lparr>FileId_Persistent := le_of_word 8 n\<rparr>"

definition IsInvalidFileId :: "FileId option \<Rightarrow> bool" where
  "IsInvalidFileId f =
     (case f of None \<Rightarrow> True
      | Some f \<Rightarrow> FileId_Persistent f = replicate 8 0xff \<and> FileId_Volatile f = replicate 8 0xff)"

lemma safe_FileId_Encode [go_safe]: "16 \<le> k \<Longrightarrow> safe_w k (FileId_Encode fd)"
  by (auto simp: FileId_Encode_def intro!: go_safe split: option.split)

definition fileid_bytes :: "FileId option \<Rightarrow> bytes" where
  "fileid_bytes fd = (case fd of None \<Rightarrow> replicate 16 0
      | Some fd \<Rightarrow> FileId_Persistent fd @ FileId_Volatile fd)"

lemma length_fileid_bytes: "pred_option fileid_ok fd \<Longrightarrow> length (fileid_bytes fd) = 16"
  by (cases fd) (simp_all add: fileid_bytes_def fileid_ok_def)

lemma FileId_Encode_eq:
  assumes "pred_option fileid_ok fd" "16 \<le> length p"
  shows "FileId_Encode fd p = Some (upd 0 (fileid_bytes fd) p)"
proof (cases fd)
  case None
  then show ?thesis using assms(2) by (simp add: FileId_Encode_def go_run fileid_bytes_def)
next
  case (Some f)
  then have "length (FileId_Persistent f) = 8" "length (FileId_Volatile f) = 8"
    using assms(1) by (simp_all add: fileid_ok_def)
  then show ?thesis
    using assms(2) Some upd_upd_adjacent [of 0 "FileId_Persistent f" "FileId_Volatile f" p]
    by (simp add: FileId_Encode_def go_run fileid_bytes_def)
qed

lemma on_slice_FileId:
  assumes "pred_option fileid_ok fd" "b = a + 16" "b \<le> length p"
  shows "on_slice a b (FileId_Encode fd) p = Some (upd a (fileid_bytes fd) p)"
proof -
  have d: "drop (a + 16) p = drop b p" using assms(2) by simp
  have "FileId_Encode fd (take (b - a) (drop a p)) = Some (upd 0 (fileid_bytes fd) (take (b - a) (drop a p)))"
    using assms by (intro FileId_Encode_eq) simp_all
  then show ?thesis
    using assms length_fileid_bytes [OF assms(1)]
    by (simp add: on_slice_def upd_def)
qed

lemma FileIdDecoder_Decode_eq:
  "16 \<le> length p \<Longrightarrow>
     FileIdDecoder_Decode p = Some \<lparr>FileId_Persistent = rd 0 8 p, FileId_Volatile = rd 8 8 p\<rparr>"
  by (simp add: FileIdDecoder_Decode_def go_slice_eq_rd)

lemma FileIdDecoder_Decode_ok: "FileIdDecoder_Decode p = Some f \<Longrightarrow> fileid_ok f"
  by (auto simp: FileIdDecoder_Decode_def fileid_ok_def split: bind_splits dest: go_slice_Some_length)

lemma FileId_Decode_bytes:
  "fileid_ok f \<Longrightarrow> FileIdDecoder_Decode (fileid_bytes (Some f) @ r) = Some f"
  by (simp add: FileIdDecoder_Decode_def fileid_bytes_def fileid_ok_def go_slice_def)

lemma FileId_handle_node:
  assumes "fileid_ok f"
  shows "FileId_HandleId (FileId_SetHandleId n f) = n" "FileId_NodeId (FileId_SetNodeId n f) = n"
    "FileId_NodeId (FileId_SetHandleId n f) = FileId_NodeId f"
    "FileId_HandleId (FileId_SetNodeId n f) = FileId_HandleId f"
    "fileid_ok (FileId_SetHandleId n f)" "fileid_ok (FileId_SetNodeId n f)"
  using assms by (simp_all add: FileId_HandleId_def FileId_SetHandleId_def FileId_NodeId_def
      FileId_SetNodeId_def fileid_ok_def)

lemma FileId_eqI:
  assumes "fileid_ok f" "fileid_ok g" "FileId_HandleId f = FileId_HandleId g"
    "FileId_NodeId f = FileId_NodeId g"
  shows "f = g"
  using assms word_of_le_inject [of _ 8, where 'a = 64]
  by (auto simp: FileId_HandleId_def FileId_NodeId_def fileid_ok_def intro!: FileId.equality)

text \<open>\<open>ToUUID\<close> copies in the wrong direction: it clears its receiver.\<close>

lemma FileId_ToUUID_clears:
  assumes "fileid_ok fd"
  shows "FileId_ToUUID fd = (\<lparr>FileId_Persistent = replicate 8 0, FileId_Volatile = replicate 8 0\<rparr>, replicate 16 0)"
  using assms by (simp add: FileId_ToUUID_def go_copy_def fileid_ok_def)

section \<open>\<open>Filetime\<close>\<close>

record Filetime =
  Filetime_LowDateTime :: u32
  Filetime_HighDateTime :: u32

definition Filetime_Size :: "Filetime \<Rightarrow> nat" where
  "Filetime_Size ft = 8"

definition Filetime_Encode :: "Filetime \<Rightarrow> writer" where
  "Filetime_Encode ft = writes [put32 0 (Filetime_LowDateTime ft), put32 4 (Filetime_HighDateTime ft)]"

text \<open>An \<open>int64\<close> is kept as its 64 bits; \<open>sint\<close> reads it.\<close>

definition filetime_nsec :: "u32 \<Rightarrow> u32 \<Rightarrow> u64" where
  "filetime_nsec low high =
     (let nsec = push_bit 32 (ucast high) + ucast low in
      if nsec = 0 then 0 else (nsec - 116444736000000000) * 100)"

definition Filetime_Nanoseconds :: "Filetime \<Rightarrow> u64" where
  "Filetime_Nanoseconds ft = filetime_nsec (Filetime_LowDateTime ft) (Filetime_HighDateTime ft)"

definition NsecToFiletime :: "u64 \<Rightarrow> Filetime" where
  "NsecToFiletime nsec =
     (let nsec = (word_of_int (sint nsec sdiv 100) :: u64);
          nsec = nsec + 116444736000000000 in
      \<lparr>Filetime_LowDateTime = ucast (nsec AND 0xffffffff),
       Filetime_HighDateTime = ucast (signed_drop_bit 32 nsec AND 0xffffffff)\<rparr>)"

definition FiletimeDecoder_LowDateTime :: "bytes \<Rightarrow> u32 option" where
  "FiletimeDecoder_LowDateTime ft = u32_at ft 0"

definition FiletimeDecoder_HighDateTime :: "bytes \<Rightarrow> u32 option" where
  "FiletimeDecoder_HighDateTime ft = u32_at ft 4"

definition FiletimeDecoder_Nanoseconds :: "bytes \<Rightarrow> u64 option" where
  "FiletimeDecoder_Nanoseconds ft = do {
     high \<leftarrow> FiletimeDecoder_HighDateTime ft;
     low \<leftarrow> FiletimeDecoder_LowDateTime ft;
     Some (filetime_nsec low high) }"

definition FiletimeDecoder_Decode :: "bytes \<Rightarrow> Filetime option" where
  "FiletimeDecoder_Decode ft = do {
     low \<leftarrow> FiletimeDecoder_LowDateTime ft;
     high \<leftarrow> FiletimeDecoder_HighDateTime ft;
     Some \<lparr>Filetime_LowDateTime = low, Filetime_HighDateTime = high\<rparr> }"

lemma safe_Filetime_Encode [go_safe]: "8 \<le> k \<Longrightarrow> safe_w k (Filetime_Encode ft)"
  by (auto simp: Filetime_Encode_def intro!: go_safe)

definition filetime_bytes :: "Filetime \<Rightarrow> bytes" where
  "filetime_bytes ft = le_of_word 4 (Filetime_LowDateTime ft) @ le_of_word 4 (Filetime_HighDateTime ft)"

lemma length_filetime_bytes [simp]: "length (filetime_bytes ft) = 8"
  by (simp add: filetime_bytes_def)

lemma Filetime_Encode_eq:
  "8 \<le> length p \<Longrightarrow> Filetime_Encode ft p = Some (upd 0 (filetime_bytes ft) p)"
  using upd_upd_adjacent [of 0 "le_of_word 4 (Filetime_LowDateTime ft)"
      "le_of_word 4 (Filetime_HighDateTime ft)" p]
  by (simp add: Filetime_Encode_def go_run filetime_bytes_def)

lemma FiletimeDecoder_Decode_bytes:
  "FiletimeDecoder_Decode (filetime_bytes ft @ r) = Some ft"
  by (simp add: FiletimeDecoder_Decode_def FiletimeDecoder_LowDateTime_def
      FiletimeDecoder_HighDateTime_def un_at_eqs filetime_bytes_def go_buf rd_0_all)

lemma FiletimeDecoder_Nanoseconds_Decode:
  "FiletimeDecoder_Nanoseconds p = map_option Filetime_Nanoseconds (FiletimeDecoder_Decode p)"
  by (auto simp: FiletimeDecoder_Nanoseconds_def FiletimeDecoder_Decode_def
      FiletimeDecoder_LowDateTime_def FiletimeDecoder_HighDateTime_def un_at_eqs
      Filetime_Nanoseconds_def)

lemma split_halves: "push_bit 32 (ucast (ucast (signed_drop_bit 32 n AND 0xffffffff) :: u32))
    + ucast (ucast (n AND 0xffffffff) :: u32) = (n :: u64)"
proof -
  have m: "(0xffffffff :: u64) = mask 32" by (simp add: mask_eq_exp_minus_1)
  have disj: "push_bit 32 (ucast (ucast (signed_drop_bit 32 n AND mask 32) :: u32))
      AND ucast (ucast (n AND mask 32) :: u32) = (0 :: u64)"
    by (rule bit_word_eqI) (auto simp: bit_simps dest: bit_imp_le_length)
  have "push_bit 32 (ucast (ucast (signed_drop_bit 32 n AND mask 32) :: u32))
      OR ucast (ucast (n AND mask 32) :: u32) = n"
    by (rule bit_word_eqI) (auto simp: bit_simps intro: ccontr dest: add_diff_inverse_nat)
  then show ?thesis unfolding m using disj by (simp add: disjunctive_add_eq_or)
qed

text \<open>
  A time stamp survives the conversion to a \<open>Filetime\<close> and back up to the 100 ns unit of
  the format, for every \<open>int64\<close>: neither the scaling nor the epoch shift overflows, and
  the special value 0 is never hit.
\<close>

lemma Filetime_Nanoseconds_NsecToFiletime:
  "sint (Filetime_Nanoseconds (NsecToFiletime n)) = (sint n sdiv 100) * 100"
proof -
  define q where "q = sint n sdiv 100"
  define k :: u64 where "k = word_of_int q + 116444736000000000"
  have b: "- (2 ^ 63) \<le> sint n" "sint n < 2 ^ 63"
    using sint_greater_eq [of n] sint_less [of n] by simp_all
  have q: "q = sgn (sint n) * (\<bar>sint n\<bar> div 100)"
    by (simp add: q_def signed_divide_int_def sgn_if)
  have qb: "\<bar>q\<bar> \<le> 92233720368547758"
  proof -
    have "\<bar>sint n\<bar> div 100 \<le> (2 ^ 63) div (100 :: int)"
      using b by (intro zdiv_mono1) auto
    then show ?thesis unfolding q by (auto simp: sgn_if)
  qed
  have k: "k = word_of_int (q + 116444736000000000)" by (simp add: k_def)
  have "uint k = q + 116444736000000000"
    unfolding k uint_word_of_int using qb by simp
  then have "k \<noteq> 0" using qb by (auto simp: word_eq_iff_unsigned)
  then have "Filetime_Nanoseconds (NsecToFiletime n) = (k - 116444736000000000) * 100"
    unfolding Filetime_Nanoseconds_def NsecToFiletime_def filetime_nsec_def Let_def
      q_def [symmetric] k_def [symmetric]
    by (simp add: split_halves)
  also have "\<dots> = word_of_int (q * 100)" by (simp add: k)
  also have "sint \<dots> = q * 100"
    unfolding sint_sbintrunc' using qb by (auto simp: signed_take_bit_int_eq_self_iff abs_le_iff)
  finally show ?thesis by (simp add: q_def)
qed

section \<open>\<open>Sid\<close>\<close>

record Sid =
  Sid_Revision :: u8
  Sid_IdentifierAuthority :: u64
  Sid_SubAuthority :: "u32 list"

definition Sid_Size :: "Sid \<Rightarrow> nat" where
  "Sid_Size sid = 8 + length (Sid_SubAuthority sid) * 4"

definition Sid_Encode :: "Sid \<Rightarrow> writer" where
  "Sid_Encode sid = writes [
     put8 0 (Sid_Revision sid),
     put8 1 (of_nat (length (Sid_SubAuthority sid))),
     writes (map (\<lambda>j. put8 (2 + j) (ucast (drop_bit (8 * (6 - j)) (Sid_IdentifierAuthority sid)))) [0..<6]),
     writes (map (\<lambda>(i, u). put32 (8 + 4 * i) u) (enumerate 0 (Sid_SubAuthority sid)))]"

definition SidDecoder_Revision :: "bytes \<Rightarrow> u8 option" where
  "SidDecoder_Revision c = u8_at c 0"

definition SidDecoder_SubAuthorityCount :: "bytes \<Rightarrow> u8 option" where
  "SidDecoder_SubAuthorityCount c = u8_at c 1"

definition SidDecoder_IsInvalid :: "bytes \<Rightarrow> bool option" where
  "SidDecoder_IsInvalid c =
     (if length c < 8 then Some True
      else do {
        n \<leftarrow> SidDecoder_SubAuthorityCount c;
        Some (length c < 8 + unat n * 4) })"

definition SidDecoder_IdentifierAuthority :: "bytes \<Rightarrow> u64 option" where
  "SidDecoder_IdentifierAuthority c = do {
     bs \<leftarrow> those (map (\<lambda>j. u8_at c (7 - j)) [0..<6]);
     Some (\<Sum>(j, b) \<leftarrow> enumerate 0 bs. push_bit (8 * j) (ucast b)) }"

definition SidDecoder_SubAuthority :: "bytes \<Rightarrow> u32 list option" where
  "SidDecoder_SubAuthority c = do {
     count \<leftarrow> SidDecoder_SubAuthorityCount c;
     those (map (\<lambda>i. u32_at c (8 + 4 * i)) [0..<unat count]) }"

definition SidDecoder_Decode :: "bytes \<Rightarrow> Sid option" where
  "SidDecoder_Decode c = do {
     r \<leftarrow> SidDecoder_Revision c;
     ia \<leftarrow> SidDecoder_IdentifierAuthority c;
     sa \<leftarrow> SidDecoder_SubAuthority c;
     Some \<lparr>Sid_Revision = r, Sid_IdentifierAuthority = ia, Sid_SubAuthority = sa\<rparr> }"

lemma safe_writes_all: "(\<And>w. w \<in> set ws \<Longrightarrow> safe_w k w) \<Longrightarrow> safe_w k (writes ws)"
  by (induction ws) (simp_all add: safe_writes_Nil safe_writes_Cons)

lemma safe_Sid_Encode [go_safe]: "Sid_Size sid \<le> k \<Longrightarrow> safe_w k (Sid_Encode sid)"
  unfolding Sid_Encode_def Sid_Size_def
  by (intro go_safe safe_writes_all) (auto simp: in_set_enumerate_eq intro!: go_safe)

lemma SidDecoder_valid:
  assumes "SidDecoder_IsInvalid c = Some False"
  shows "SidDecoder_Decode c \<noteq> None"
proof -
  have l: "8 \<le> length c" and n: "8 + unat (hd (rd 1 1 c)) * 4 \<le> length c"
    using assms by (auto simp: SidDecoder_IsInvalid_def SidDecoder_SubAuthorityCount_def un_at_eqs
        not_less split: if_splits)
  have "those (map (\<lambda>i. u32_at c (8 + 4 * i)) [0..<unat (hd (rd 1 1 c))]) \<noteq> None"
    using n by (auto simp: those_eq_None_iff u32_at_eq)
  moreover have "those (map (\<lambda>j. u8_at c (7 - j)) [0..<6]) \<noteq> None"
    using l by (auto simp: those_eq_None_iff u8_at_eq)
  ultimately show ?thesis
    using l by (auto simp: SidDecoder_Decode_def SidDecoder_Revision_def un_at_eqs
        SidDecoder_IdentifierAuthority_def SidDecoder_SubAuthority_def
        SidDecoder_SubAuthorityCount_def)
qed

text \<open>
  The image of \<open>Sid.Encode\<close>. The shift by \<open>8*(6-j)\<close> drops the low byte of the
  authority; the decoder reads the six bytes as they stand.
\<close>

definition be48 :: "u64 \<Rightarrow> bytes" where
  "be48 ia = map (\<lambda>j. ucast (drop_bit (8 * (5 - j)) ia)) [0..<6]"

definition le32s :: "u32 list \<Rightarrow> bytes" where
  "le32s ws = concat (map (le_of_word 4) ws)"

lemma length_le32s [simp]: "length (le32s ws) = 4 * length ws"
  by (induction ws) (simp_all add: le32s_def)

definition sid_bytes :: "u8 \<Rightarrow> u64 \<Rightarrow> u32 list \<Rightarrow> bytes" where
  "sid_bytes r ia sa = [r, of_nat (length sa)] @ be48 ia @ le32s sa"

lemma length_sid_bytes [simp]: "length (sid_bytes r ia sa) = 8 + 4 * length sa"
  by (simp add: sid_bytes_def be48_def)

lemma Sid_Encode_eq:
  assumes "Sid_Size sid \<le> length p"
  shows "Sid_Encode sid p = Some (upd 0 (sid_bytes (Sid_Revision sid)
           (drop_bit 8 (Sid_IdentifierAuthority sid)) (Sid_SubAuthority sid)) p)"
proof -
  have w: "writes (map (\<lambda>(i, u). put32 (8 + 4 * i) u) (enumerate 0 us)) q = Some (upd 8 (le32s us) q)"
    if "8 + 4 * length us \<le> length q" for us and q :: bytes
    using that writes_enumerate [of "le_of_word 4" 4 8 us q] by (simp add: put32_def le32s_def)
  have "8 + 4 * length (Sid_SubAuthority sid) \<le> length p" using assms by (simp add: Sid_Size_def)
  then show ?thesis
    by (simp add: Sid_Encode_def put8_def put_def w upd_merge upt_rec sid_bytes_def be48_def)
qed

lemma word_of_le_Cons_add:
  "(word_of_le (b # bs) :: 'a::len word) = ucast b + push_bit 8 (word_of_le bs)"
proof -
  have "(ucast b :: 'a word) AND push_bit 8 (word_of_le bs) = 0"
    by (rule bit_word_eqI) (auto simp: bit_simps dest: bit_imp_le_length)
  then show ?thesis by (simp add: disjunctive_add_eq_or)
qed

lemma sum_enumerate_word_of_le:
  "(\<Sum>(j, b) \<leftarrow> enumerate n bs. push_bit (8 * j) (ucast b)) = push_bit (8 * n) (word_of_le bs :: 'a::len word)"
proof (induction bs arbitrary: n)
  case Nil
  then show ?case by simp
next
  case (Cons b bs)
  then show ?case
    by (simp add: word_of_le_Cons_add push_bit_add add.commute [of 8] del: word_of_le.simps)
qed

lemma word_of_le_take_bit: "word_of_le (le_of_word n w) = take_bit (8 * n) w"
proof (rule bit_word_eqI)
  fix i assume "i < LENGTH('a)"
  have e: "8 * (i div 8) + i mod 8 = i" by simp
  have "i div 8 < n \<longleftrightarrow> i < 8 * n" by (auto simp: less_mult_imp_div_less mult.commute)
  then show "bit (word_of_le (le_of_word n w) :: 'a word) i \<longleftrightarrow> bit (take_bit (8 * n) w) i"
    by (auto simp: bit_word_of_le bit_le_of_word e bit_take_bit_iff dest: bit_imp_le_length)
qed

lemma rev_be48: "rev (be48 ia) = le_of_word 6 ia"
  by (simp add: be48_def le_of_word_def upt_rec)

lemma SidDecoder_Decode_bytes:
  assumes "length sa < 256"
  shows "SidDecoder_Decode (sid_bytes r ia sa @ rest) =
    Some \<lparr>Sid_Revision = r, Sid_IdentifierAuthority = take_bit 48 ia, Sid_SubAuthority = sa\<rparr>"
proof -
  define c where "c = sid_bytes r ia sa @ rest"
  have l: "length c = 8 + 4 * length sa + length rest" by (simp add: c_def)
  have n: "u8_at c 1 = Some (of_nat (length sa))" and r: "u8_at c 0 = Some r"
    by (simp_all add: c_def sid_bytes_def u8_at_def index_at_def)
  have "those (map (\<lambda>j. u8_at c (7 - j)) [0..<6]) = Some (rev (be48 ia))"
    by (simp add: c_def sid_bytes_def be48_def u8_at_def index_at_def upt_rec)
  then have "those (map (\<lambda>j. u8_at c (7 - j)) [0..<6]) = Some (le_of_word 6 ia)"
    by (simp only: rev_be48)
  then have ia: "SidDecoder_IdentifierAuthority c = Some (take_bit 48 ia)"
    using word_of_le_take_bit [of 6 ia] sum_enumerate_word_of_le [of 0 "le_of_word 6 ia", where 'a = 64]
    by (simp add: SidDecoder_IdentifierAuthority_def)
  have "u32_at c (8 + 4 * i) = Some (sa ! i)" if "i < length sa" for i
  proof -
    have "c = ([r, of_nat (length sa)] @ be48 ia) @ (le32s sa @ rest)" by (simp add: c_def sid_bytes_def)
    then have "rd (8 + 4 * i) 4 c = rd (4 * i) 4 (le32s sa @ rest)"
      using rd_append_right [of "[r, of_nat (length sa)] @ be48 ia" "8 + 4 * i" 4 "le32s sa @ rest"]
      by (simp add: be48_def)
    then show ?thesis
      using that l rd_concat [of "le_of_word 4 :: u32 \<Rightarrow> _" 4 i sa rest]
      by (simp add: u32_at_eq le32s_def)
  qed
  then have "those (map (\<lambda>i. u32_at c (8 + 4 * i)) [0..<length sa]) = Some (map (\<lambda>i. sa ! i) [0..<length sa])"
    by (intro those_map_Some) simp
  then have "SidDecoder_SubAuthority c = Some sa"
    using assms n by (simp add: SidDecoder_SubAuthority_def SidDecoder_SubAuthorityCount_def
        unat_of_nat_u8 map_nth)
  then show ?thesis
    using r ia by (simp add: SidDecoder_Decode_def SidDecoder_Revision_def c_def [symmetric])
qed

lemma SidDecoder_sid_bytes_valid:
  "length sa < 256 \<Longrightarrow> SidDecoder_IsInvalid (sid_bytes r ia sa @ rest) = Some False"
  by (simp add: SidDecoder_IsInvalid_def SidDecoder_SubAuthorityCount_def u8_at_def index_at_def
      unat_of_nat_u8) (simp add: sid_bytes_def unat_of_nat_u8)

section \<open>Negotiate contexts\<close>

abbreviation (input) "SMB2_PREAUTH_INTEGRITY_CAPABILITIES \<equiv> (1 :: u16)"
abbreviation (input) "SMB2_ENCRYPTION_CAPABILITIES \<equiv> (2 :: u16)"
abbreviation (input) "SMB2_COMPRESSION_CAPABILITIES \<equiv> (3 :: u16)"
abbreviation (input) "SMB3_POSIX_EXTENSIONS_AVAILABLE \<equiv> (0x100 :: u16)"
abbreviation (input) "SHA512 \<equiv> (1 :: u16)"
abbreviation (input) "AES128CCM \<equiv> (1 :: u16)"
abbreviation (input) "AES128GCM \<equiv> (2 :: u16)"

definition SMB3PosixExtensionsTag :: bytes where
  "SMB3PosixExtensionsTag = [0x93, 0xad, 0x25, 0x50, 0x9c, 0xb4, 0x11, 0xe7,
     0xb4, 0x23, 0x83, 0xde, 0x96, 0x8b, 0xcd, 0x7c]"

definition NegotiateContextDecoder_ContextType :: "bytes \<Rightarrow> u16 option" where
  "NegotiateContextDecoder_ContextType ctx = u16_at ctx 0"

definition NegotiateContextDecoder_DataLength :: "bytes \<Rightarrow> u16 option" where
  "NegotiateContextDecoder_DataLength ctx = u16_at ctx 2"

definition NegotiateContextDecoder_IsInvalid :: "bytes \<Rightarrow> bool option" where
  "NegotiateContextDecoder_IsInvalid ctx =
     (if length ctx < 8 then Some True
      else do {
        n \<leftarrow> NegotiateContextDecoder_DataLength ctx;
        Some (length ctx < 8 + unat n) })"

text \<open>\<open>ctx[8 : 8+len]\<close> with \<open>len\<close> a \<open>uint16\<close>: the end wraps.\<close>

definition NegotiateContextDecoder_Data :: "bytes \<Rightarrow> bytes option" where
  "NegotiateContextDecoder_Data ctx = do {
     n \<leftarrow> NegotiateContextDecoder_DataLength ctx;
     go_slice ctx 8 (unat (8 + n)) }"

definition NegotiateContextDecoder_IsSMB3Posix :: "bytes \<Rightarrow> bool option" where
  "NegotiateContextDecoder_IsSMB3Posix ctx = do {
     data \<leftarrow> NegotiateContextDecoder_Data ctx;
     t \<leftarrow> NegotiateContextDecoder_ContextType ctx;
     Some (t = SMB3_POSIX_EXTENSIONS_AVAILABLE \<and> length data = length SMB3PosixExtensionsTag \<and>
           data = SMB3PosixExtensionsTag) }"

definition NegotiateContextDecoder_Next :: "bytes \<Rightarrow> nat option" where
  "NegotiateContextDecoder_Next ctx = do {
     n \<leftarrow> NegotiateContextDecoder_DataLength ctx;
     Some (Roundup (8 + unat n) 8) }"

text \<open>A writer applied to \<open>NegotiateContextDecoder(p).Data()\<close>.\<close>

definition on_context_data :: "writer \<Rightarrow> writer" where
  "on_context_data w p = do {
     n \<leftarrow> NegotiateContextDecoder_DataLength p;
     on_slice 8 (unat (8 + n)) w p }"

record HashContext =
  HashContext_HashAlgorithms :: "u16 list"
  HashContext_HashSalt :: bytes

definition HashContext_Size :: "HashContext \<Rightarrow> nat" where
  "HashContext_Size c = 8 + 4 + length (HashContext_HashAlgorithms c) * 2 + length (HashContext_HashSalt c)"

definition HashContext_Encode :: "HashContext \<Rightarrow> writer" where
  "HashContext_Encode c =
     (let algs = HashContext_HashAlgorithms c; salt = HashContext_HashSalt c in
      writes [
        put16 0 SMB2_PREAUTH_INTEGRITY_CAPABILITIES,
        put16 2 (of_nat (4 + length algs * 2 + length salt)),
        on_context_data (writes [
          on_from 4 (put16s algs),
          put16 0 (of_nat (length algs)),
          copy_from (4 + length algs * 2) salt,
          put16 2 (of_nat (length salt))])])"

record CipherContext =
  CipherContext_Ciphers :: "u16 list"

definition CipherContext_Size :: "CipherContext \<Rightarrow> nat" where
  "CipherContext_Size c = 8 + 2 + length (CipherContext_Ciphers c) * 2"

definition CipherContext_Encode :: "CipherContext \<Rightarrow> writer" where
  "CipherContext_Encode c =
     (let cs = CipherContext_Ciphers c in
      writes [
        put16 0 SMB2_ENCRYPTION_CAPABILITIES,
        put16 2 (of_nat (2 + length cs * 2)),
        on_context_data (writes [
          on_from 2 (put16s cs),
          put16 0 (of_nat (length cs))])])"

record CompressionContext =
  CompressionContext_Compressions :: "u16 list"
  CompressionContext_Flags :: u32

definition CompressionContext_Size :: "CompressionContext \<Rightarrow> nat" where
  "CompressionContext_Size c = 16 + length (CompressionContext_Compressions c) * 2"

definition CompressionContext_Encode :: "CompressionContext \<Rightarrow> writer" where
  "CompressionContext_Encode c =
     (let cs = CompressionContext_Compressions c in
      writes [
        put16 0 SMB2_COMPRESSION_CAPABILITIES,
        put16 2 (of_nat (8 + length cs * 2)),
        on_context_data (writes [
          on_from 8 (put16s cs),
          put16 0 (of_nat (length cs)),
          put32 4 (CompressionContext_Flags c)])])"

definition PosixContext_Size :: nat where
  "PosixContext_Size = 8 + length SMB3PosixExtensionsTag"

definition PosixContext_Encode :: writer where
  "PosixContext_Encode = writes [
     put16 0 SMB3_POSIX_EXTENSIONS_AVAILABLE,
     put16 2 (of_nat (length SMB3PosixExtensionsTag)),
     on_context_data (copy_from 0 SMB3PosixExtensionsTag)]"

definition HashContextDataDecoder_HashAlgorithmCount :: "bytes \<Rightarrow> u16 option" where
  "HashContextDataDecoder_HashAlgorithmCount h = u16_at h 0"

definition HashContextDataDecoder_SaltLength :: "bytes \<Rightarrow> u16 option" where
  "HashContextDataDecoder_SaltLength h = u16_at h 2"

definition HashContextDataDecoder_IsInvalid :: "bytes \<Rightarrow> bool option" where
  "HashContextDataDecoder_IsInvalid h =
     (if length h < 4 then Some True
      else do {
        n \<leftarrow> HashContextDataDecoder_HashAlgorithmCount h;
        s \<leftarrow> HashContextDataDecoder_SaltLength h;
        Some (length h < 4 + unat n * 2 + unat s) })"

definition HashContextDataDecoder_HashAlgorithms :: "bytes \<Rightarrow> u16 list option" where
  "HashContextDataDecoder_HashAlgorithms h = do {
     bs \<leftarrow> go_slice_from h 4;
     n \<leftarrow> HashContextDataDecoder_HashAlgorithmCount h;
     get16s (unat n) bs }"

text \<open>The offset \<open>4 + count*2\<close> and the end are computed in \<open>uint16\<close>.\<close>

definition HashContextDataDecoder_Salt :: "bytes \<Rightarrow> bytes option" where
  "HashContextDataDecoder_Salt h = do {
     n \<leftarrow> HashContextDataDecoder_HashAlgorithmCount h;
     s \<leftarrow> HashContextDataDecoder_SaltLength h;
     go_slice h (unat (4 + n * 2)) (unat (4 + n * 2 + s)) }"

definition CipherContextDataDecoder_CipherCount :: "bytes \<Rightarrow> u16 option" where
  "CipherContextDataDecoder_CipherCount c = u16_at c 0"

definition CipherContextDataDecoder_IsInvalid :: "bytes \<Rightarrow> bool option" where
  "CipherContextDataDecoder_IsInvalid c =
     (if length c < 2 then Some True
      else do {
        n \<leftarrow> CipherContextDataDecoder_CipherCount c;
        Some (length c < 2 + unat n * 2) })"

definition CipherContextDataDecoder_Ciphers :: "bytes \<Rightarrow> u16 list option" where
  "CipherContextDataDecoder_Ciphers c = do {
     bs \<leftarrow> go_slice_from c 2;
     n \<leftarrow> CipherContextDataDecoder_CipherCount c;
     get16s (unat n) bs }"

section \<open>Contexts: images and round trips\<close>

definition context_bytes :: "u16 \<Rightarrow> bytes \<Rightarrow> bytes" where
  "context_bytes t d = le_of_word 2 t @ le_of_word 2 (of_nat (length d) :: u16) @ replicate 4 0 @ d"

lemma length_context_bytes [simp]: "length (context_bytes t d) = 8 + length d"
  by (simp add: context_bytes_def)

lemma unat_8_plus: "length d < 65528 \<Longrightarrow> unat (8 + of_nat (length d) :: u16) = 8 + length d"
  using unat_of_nat_u16 [of "8 + length d"] by simp

lemma on_context_data_eq:
  assumes "zimg w d" "length d < 65528" "word_of_le (rd 2 2 p) = (of_nat (length d) :: u16)"
    "8 + length d \<le> length p" "rd 8 (length d) p = replicate (length d) 0"
  shows "on_context_data w p = Some (upd 8 d p)"
  using assms zimg_on_slice [of w d 8 "8 + length d" p]
  by (simp add: on_context_data_def NegotiateContextDecoder_DataLength_def u16_at_eq unat_8_plus)

lemma zimg_context:
  assumes w: "zimg w d" and l: "length d < 65528"
  shows "zimg (writes [put16 0 t, put16 2 (of_nat (length d)), on_context_data w]) (context_bytes t d)"
proof (rule zimg_writes)
  fix p :: bytes
  assume p: "length (context_bytes t d) \<le> length p"
    and z: "rd 0 (length (context_bytes t d)) p = replicate (length (context_bytes t d)) 0"
  have z4: "rd 4 4 p = replicate 4 0" and zd: "rd 8 (length d) p = replicate (length d) 0"
    using z by (auto intro: rd_zero_part)
  let ?q = "upd 0 (le_of_word 2 t @ le_of_word 2 (of_nat (length d) :: u16)) p"
  have "on_context_data w ?q = Some (upd 8 d ?q)"
    using w l p zd by (intro on_context_data_eq) (simp_all add: go_buf rd_0_all)
  moreover have "upd 0 (context_bytes t d) p = upd 8 d ?q"
  proof -
    have "?q = upd 4 (replicate 4 0) ?q"
      using z4 by (subst upd_zeros) (simp_all add: rd_upd_after)
    also have "\<dots> = upd 0 (le_of_word 2 t @ le_of_word 2 (of_nat (length d) :: u16) @ replicate 4 0) p"
      using p by (simp add: upd_merge)
    finally show ?thesis
      using p by (simp add: context_bytes_def upd_merge)
  qed
  ultimately show "writes [put16 0 t, put16 2 (of_nat (length d)), on_context_data w] p
      = Some (upd 0 (context_bytes t d) p)"
    using p by (simp add: put16_def put_def upd_merge)
qed

lemma NegotiateContextDecoder_bytes:
  assumes "length d < 65528"
  shows "NegotiateContextDecoder_IsInvalid (context_bytes t d @ r) = Some False"
    "NegotiateContextDecoder_ContextType (context_bytes t d @ r) = Some t"
    "NegotiateContextDecoder_DataLength (context_bytes t d @ r) = Some (of_nat (length d))"
    "NegotiateContextDecoder_Data (context_bytes t d @ r) = Some d"
    "NegotiateContextDecoder_Next (context_bytes t d @ r) = Some (Roundup (8 + length d) 8)"
proof -
  show dl: "NegotiateContextDecoder_DataLength (context_bytes t d @ r) = Some (of_nat (length d))"
    by (simp add: NegotiateContextDecoder_DataLength_def u16_at_eq context_bytes_def go_buf rd_0_all)
  have "rd 8 (length d) (context_bytes t d @ r) = d"
    by (simp add: context_bytes_def go_buf rd_0_all)
  then show "NegotiateContextDecoder_IsInvalid (context_bytes t d @ r) = Some False"
    "NegotiateContextDecoder_Next (context_bytes t d @ r) = Some (Roundup (8 + length d) 8)"
    "NegotiateContextDecoder_Data (context_bytes t d @ r) = Some d"
    using assms by (simp_all add: NegotiateContextDecoder_IsInvalid_def dl unat_of_nat_u16
        NegotiateContextDecoder_Next_def NegotiateContextDecoder_Data_def unat_8_plus
        go_slice_eq_rd)
  show "NegotiateContextDecoder_ContextType (context_bytes t d @ r) = Some t"
    by (simp add: NegotiateContextDecoder_ContextType_def u16_at_eq context_bytes_def go_buf rd_0_all)
qed

text \<open>
  After \<open>IsInvalid\<close> said no, \<open>Data\<close> still panics on the eight largest lengths: the
  check adds in \<open>int\<close>, the slice expression in \<open>uint16\<close>.
\<close>

lemma NegotiateContextDecoder_Data_panics_iff:
  assumes "NegotiateContextDecoder_IsInvalid ctx = Some False"
  shows "NegotiateContextDecoder_Data ctx = None \<longleftrightarrow>
    (\<exists>n. NegotiateContextDecoder_DataLength ctx = Some n \<and> 65528 \<le> unat n)"
proof -
  obtain n where l: "8 \<le> length ctx" and n: "NegotiateContextDecoder_DataLength ctx = Some n"
    and ln: "8 + unat n \<le> length ctx"
    using assms by (auto simp: NegotiateContextDecoder_IsInvalid_def not_less split: if_splits bind_splits)
  have "unat (8 + n) = (8 + unat n) mod 65536" by (simp add: unat_word_ariths)
  moreover have "unat n < 65536" using unsigned_less [of n] by simp
  ultimately have "8 \<le> unat (8 + n) \<longleftrightarrow> unat n < 65528" and "unat (8 + n) \<le> length ctx"
    using ln by (auto simp: mod_if)
  then show ?thesis
    using n by (auto simp: NegotiateContextDecoder_Data_def go_slice_eq_rd)
qed

definition hash_data :: "HashContext \<Rightarrow> bytes" where
  "hash_data c = le_of_word 2 (of_nat (length (HashContext_HashAlgorithms c)) :: u16)
     @ le_of_word 2 (of_nat (length (HashContext_HashSalt c)) :: u16)
     @ le16s (HashContext_HashAlgorithms c) @ HashContext_HashSalt c"

lemma on_from_put16s:
  "a + 2 * length ws \<le> length p \<Longrightarrow> on_from a (put16s ws) p = Some (upd a (le16s ws) p)"
  by (simp add: on_from_def put16s_eq upd_def add.commute)

lemma HashContext_Encode_zimg:
  assumes "HashContext_Size c < 65536"
  shows "zimg (HashContext_Encode c) (context_bytes SMB2_PREAUTH_INTEGRITY_CAPABILITIES (hash_data c))"
proof -
  have l: "length (hash_data c) = 4 + length (HashContext_HashAlgorithms c) * 2 + length (HashContext_HashSalt c)"
    by (simp add: hash_data_def)
  have "zimg (writes [on_from 4 (put16s (HashContext_HashAlgorithms c)),
      put16 0 (of_nat (length (HashContext_HashAlgorithms c))),
      copy_from (4 + length (HashContext_HashAlgorithms c) * 2) (HashContext_HashSalt c),
      put16 2 (of_nat (length (HashContext_HashSalt c)))]) (hash_data c)"
    by (rule zimg_writes)
      (simp add: l on_from_put16s put16_def put_def copy_from_def upd_commute [of 0] upd_commute [of 2] upd_merge hash_data_def)
  then show ?thesis
    using zimg_context [of _ "hash_data c"] assms
    by (simp add: HashContext_Encode_def l HashContext_Size_def Let_def)
qed

lemma HashContextDataDecoder_bytes:
  assumes "HashContext_Size c < 65536"
  shows "HashContextDataDecoder_IsInvalid (hash_data c) = Some False"
    "HashContextDataDecoder_HashAlgorithms (hash_data c) = Some (HashContext_HashAlgorithms c)"
    "HashContextDataDecoder_Salt (hash_data c) = Some (HashContext_HashSalt c)"
proof -
  let ?n = "length (HashContext_HashAlgorithms c)" and ?s = "length (HashContext_HashSalt c)"
  have b: "4 + ?n * 2 + ?s < 65528" using assms by (simp add: HashContext_Size_def)
  have l: "length (hash_data c) = 4 + ?n * 2 + ?s" by (simp add: hash_data_def)
  have n: "HashContextDataDecoder_HashAlgorithmCount (hash_data c) = Some (of_nat ?n)"
    and s: "HashContextDataDecoder_SaltLength (hash_data c) = Some (of_nat ?s)"
    by (simp_all add: HashContextDataDecoder_HashAlgorithmCount_def
        HashContextDataDecoder_SaltLength_def u16_at_eq hash_data_def go_buf rd_0_all)
  have "(4 + of_nat ?n * 2 :: u16) = of_nat (4 + ?n * 2)"
    "(4 + of_nat ?n * 2 + of_nat ?s :: u16) = of_nat (4 + ?n * 2 + ?s)" by simp_all
  then have u: "unat (4 + of_nat ?n * 2 :: u16) = 4 + ?n * 2"
    "unat (4 + of_nat ?n * 2 + of_nat ?s :: u16) = 4 + ?n * 2 + ?s"
    using b by (simp_all add: unat_of_nat_u16 del: of_nat_add of_nat_mult of_nat_numeral)
  show "HashContextDataDecoder_IsInvalid (hash_data c) = Some False"
    using b by (simp add: HashContextDataDecoder_IsInvalid_def l n s unat_of_nat_u16)
  show "HashContextDataDecoder_HashAlgorithms (hash_data c) = Some (HashContext_HashAlgorithms c)"
    using b get16s_le16s [of "HashContext_HashAlgorithms c" "HashContext_HashSalt c"]
    by (simp add: HashContextDataDecoder_HashAlgorithms_def n go_slice_from_def l unat_of_nat_u16)
      (simp add: hash_data_def)
  show "HashContextDataDecoder_Salt (hash_data c) = Some (HashContext_HashSalt c)"
    by (simp add: HashContextDataDecoder_Salt_def n s u go_slice_eq_rd l)
      (simp add: hash_data_def go_buf rd_0_all)
qed

definition cipher_data :: "CipherContext \<Rightarrow> bytes" where
  "cipher_data c = le_of_word 2 (of_nat (length (CipherContext_Ciphers c)) :: u16)
     @ le16s (CipherContext_Ciphers c)"

lemma CipherContext_Encode_zimg:
  assumes "CipherContext_Size c < 65536"
  shows "zimg (CipherContext_Encode c) (context_bytes SMB2_ENCRYPTION_CAPABILITIES (cipher_data c))"
proof -
  have l: "length (cipher_data c) = 2 + length (CipherContext_Ciphers c) * 2"
    by (simp add: cipher_data_def)
  have "zimg (writes [on_from 2 (put16s (CipherContext_Ciphers c)),
      put16 0 (of_nat (length (CipherContext_Ciphers c)))]) (cipher_data c)"
    by (rule zimg_writes)
      (simp add: l on_from_put16s put16_def put_def upd_commute [of 0] upd_merge cipher_data_def)
  then show ?thesis
    using zimg_context [of _ "cipher_data c"] assms
    by (simp add: CipherContext_Encode_def l CipherContext_Size_def Let_def)
qed

lemma CipherContextDataDecoder_bytes:
  assumes "CipherContext_Size c < 65536"
  shows "CipherContextDataDecoder_IsInvalid (cipher_data c) = Some False"
    "CipherContextDataDecoder_Ciphers (cipher_data c) = Some (CipherContext_Ciphers c)"
proof -
  let ?n = "length (CipherContext_Ciphers c)"
  have b: "?n < 65536" using assms by (simp add: CipherContext_Size_def)
  have n: "CipherContextDataDecoder_CipherCount (cipher_data c) = Some (of_nat ?n)"
    by (simp add: CipherContextDataDecoder_CipherCount_def u16_at_eq cipher_data_def go_buf rd_0_all)
  then show "CipherContextDataDecoder_IsInvalid (cipher_data c) = Some False"
    using b by (simp add: CipherContextDataDecoder_IsInvalid_def unat_of_nat_u16)
      (simp add: cipher_data_def)
  show "CipherContextDataDecoder_Ciphers (cipher_data c) = Some (CipherContext_Ciphers c)"
    using b n get16s_le16s [of "CipherContext_Ciphers c" "[]"]
    by (simp add: CipherContextDataDecoder_Ciphers_def go_slice_from_def unat_of_nat_u16)
      (simp add: cipher_data_def)
qed

definition compression_data :: "CompressionContext \<Rightarrow> bytes" where
  "compression_data c = le_of_word 2 (of_nat (length (CompressionContext_Compressions c)) :: u16)
     @ replicate 2 0 @ le_of_word 4 (CompressionContext_Flags c) @ le16s (CompressionContext_Compressions c)"

lemma length_SMB3PosixExtensionsTag [simp]: "length SMB3PosixExtensionsTag = 16"
  by (simp add: SMB3PosixExtensionsTag_def)

lemma PosixContext_Encode_zimg:
  "zimg PosixContext_Encode (context_bytes SMB3_POSIX_EXTENSIONS_AVAILABLE SMB3PosixExtensionsTag)"
proof -
  have "zimg (copy_from 0 SMB3PosixExtensionsTag) SMB3PosixExtensionsTag"
    by (rule zimg_writes) (simp add: copy_from_def put_def)
  then show ?thesis
    using zimg_context [of _ SMB3PosixExtensionsTag SMB3_POSIX_EXTENSIONS_AVAILABLE]
    by (simp add: PosixContext_Encode_def)
qed

lemma PosixContext_recognised:
  "NegotiateContextDecoder_IsSMB3Posix
     (context_bytes SMB3_POSIX_EXTENSIONS_AVAILABLE SMB3PosixExtensionsTag @ r) = Some True"
  by (simp add: NegotiateContextDecoder_IsSMB3Posix_def NegotiateContextDecoder_bytes)

lemma CompressionContext_Encode_zimg:
  assumes "CompressionContext_Size c < 65536"
  shows "zimg (CompressionContext_Encode c)
    (context_bytes SMB2_COMPRESSION_CAPABILITIES (compression_data c))"
proof -
  let ?cs = "CompressionContext_Compressions c"
  have l: "length (compression_data c) = 8 + length ?cs * 2"
    by (simp add: compression_data_def)
  have "zimg (writes [on_from 8 (put16s ?cs), put16 0 (of_nat (length ?cs)),
      put32 4 (CompressionContext_Flags c)]) (compression_data c)"
  proof (rule zimg_writes)
    fix p :: bytes
    let ?n = "le_of_word 2 (of_nat (length ?cs) :: u16)"
    assume p: "length (compression_data c) \<le> length p"
      and "rd 0 (length (compression_data c)) p = replicate (length (compression_data c)) 0"
    then have "rd 2 2 p = replicate 2 0" by (auto simp: l intro: rd_zero_part)
    then have "upd 0 ?n p = upd 2 (replicate 2 0) (upd 0 ?n p)"
      by (subst upd_zeros) (simp_all add: rd_upd_after)
    also have "\<dots> = upd 0 (?n @ replicate 2 0) p" using p by (simp add: l upd_merge)
    finally have z: "upd 0 ?n p = upd 0 (?n @ replicate 2 0) p" .
    show "writes [on_from 8 (put16s ?cs), put16 0 (of_nat (length ?cs)),
        put32 4 (CompressionContext_Flags c)] p = Some (upd 0 (compression_data c) p)"
      using p by (simp add: l on_from_put16s put16_def put32_def put_def upd_commute [of 0]
          upd_commute [of 4] z upd_merge)
        (simp add: compression_data_def)
  qed
  then show ?thesis
    using zimg_context [of _ "compression_data c"] assms
    by (simp add: CompressionContext_Encode_def l CompressionContext_Size_def Let_def)
qed

section \<open>\<open>QueryQuotaInfo\<close>\<close>

record QueryQuotaInfo =
  QueryQuotaInfo_ReturnSingle :: bool
  QueryQuotaInfo_RestartScan :: bool
  QueryQuotaInfo_Sids :: "Sid list"

definition QueryQuotaInfo_Size :: "QueryQuotaInfo \<Rightarrow> nat" where
  "QueryQuotaInfo_Size q =
     (case QueryQuotaInfo_Sids q of
        [] \<Rightarrow> 16
      | [sid] \<Rightarrow> 16 + Sid_Size sid
      | sids \<Rightarrow> foldl (\<lambda>l sid. l + (8 + Sid_Size sid)) 16 sids)"

text \<open>The loop over several SIDs, with the running offset.\<close>

fun QueryQuotaInfo_Encode_loop :: "nat \<Rightarrow> Sid list \<Rightarrow> writer" where
  "QueryQuotaInfo_Encode_loop off [] = Some"
| "QueryQuotaInfo_Encode_loop off (sid # sids) = writes [
     on_from (off + 8) (Sid_Encode sid),
     put32 off (of_nat (off + Sid_Size sid)),
     put32 (off + 4) (of_nat (Sid_Size sid)),
     QueryQuotaInfo_Encode_loop (off + (8 + Sid_Size sid)) sids]"

definition QueryQuotaInfo_Encode :: "QueryQuotaInfo \<Rightarrow> writer" where
  "QueryQuotaInfo_Encode q = writes [
     when_w (QueryQuotaInfo_ReturnSingle q) (put8 0 1),
     when_w (QueryQuotaInfo_RestartScan q) (put8 1 1),
     (case QueryQuotaInfo_Sids q of
        [] \<Rightarrow> Some
      | [sid] \<Rightarrow> writes [on_from 16 (Sid_Encode sid), put32 8 (of_nat (Sid_Size sid)), put32 12 0]
      | sids \<Rightarrow> writes [put32 4 1, QueryQuotaInfo_Encode_loop 16 sids])]"

lemma foldl_add_size: "foldl (\<lambda>l x. l + f x) m xs = m + sum_list (map f xs)" for m :: nat
  by (induction xs arbitrary: m) simp_all

lemma safe_QueryQuotaInfo_Encode_loop:
  "foldl (\<lambda>l sid. l + (8 + Sid_Size sid)) off sids \<le> k \<Longrightarrow> safe_w k (QueryQuotaInfo_Encode_loop off sids)"
proof (induction off sids rule: QueryQuotaInfo_Encode_loop.induct)
  case (1 off)
  then show ?case by (simp add: safe_Some)
next
  case (2 off sid sids)
  have "off + (8 + Sid_Size sid) \<le> k" using 2(2) by (simp add: foldl_add_size)
  then show ?case
    unfolding QueryQuotaInfo_Encode_loop.simps using 2 by (intro go_safe) auto
qed

lemma safe_QueryQuotaInfo_Encode [go_safe]:
  assumes "QueryQuotaInfo_Size q \<le> k"
  shows "safe_w k (QueryQuotaInfo_Encode q)"
proof -
  have k: "16 \<le> k"
    using assms by (auto simp: QueryQuotaInfo_Size_def foldl_add_size split: list.splits)
  show ?thesis
    using assms k unfolding QueryQuotaInfo_Encode_def QueryQuotaInfo_Size_def
    by (auto intro!: go_safe safe_QueryQuotaInfo_Encode_loop split: list.split simp del: QueryQuotaInfo_Encode_loop.simps)
qed

section \<open>Response headers (\<open>internal/smb2/util.go\<close>)\<close>

definition PrepareResponse :: "PacketHeader \<Rightarrow> bytes \<Rightarrow> u32 \<Rightarrow> PacketHeader option" where
  "PrepareResponse rsp req status = do {
     c \<leftarrow> PacketCodec_Command req;
     cr \<leftarrow> PacketCodec_CreditRequest req;
     m \<leftarrow> PacketCodec_MessageId req;
     fl \<leftarrow> PacketCodec_Flags req;
     Some (rsp\<lparr>hdr_Command := c, hdr_CreditRequestResponse := cr, hdr_MessageId := m,
               hdr_Flags := 1 OR (fl AND SMB2_FLAGS_PRIORITY_MASK), hdr_Status := status\<rparr>) }"

definition PrepareAsyncResponse :: "PacketHeader \<Rightarrow> bytes \<Rightarrow> u64 \<Rightarrow> u32 \<Rightarrow> PacketHeader option" where
  "PrepareAsyncResponse rsp req asyncId status = do {
     c \<leftarrow> PacketCodec_Command req;
     rsp \<leftarrow> (if status \<noteq> 0
       then do { cr \<leftarrow> PacketCodec_CreditRequest req; Some (rsp\<lparr>hdr_CreditRequestResponse := cr\<rparr>) }
       else Some rsp);
     m \<leftarrow> PacketCodec_MessageId req;
     let fl = (if asyncId \<noteq> 0 then SMB2_FLAGS_SERVER_TO_REDIR OR SMB2_FLAGS_ASYNC_COMMAND
               else SMB2_FLAGS_SERVER_TO_REDIR);
     Some (rsp\<lparr>hdr_Command := c, hdr_MessageId := m, hdr_Flags := fl,
               hdr_Status := status, hdr_AsyncId := asyncId\<rparr>) }"

text \<open>A prepared response answers its request: same command and message id, the
  server-to-client bit set, no other flag than the priority.\<close>

lemma PrepareResponse_answers:
  assumes "smb2_header_ok req"
  shows "\<exists>h. PrepareResponse rsp req status = Some h \<and>
    Some (hdr_Command h) = PacketCodec_Command req \<and>
    Some (hdr_MessageId h) = PacketCodec_MessageId req \<and>
    Some (hdr_CreditRequestResponse h) = PacketCodec_CreditRequest req \<and>
    hdr_Status h = status \<and>
    hdr_Flags h AND SMB2_FLAGS_SERVER_TO_REDIR = SMB2_FLAGS_SERVER_TO_REDIR \<and>
    hdr_Flags h AND NOT (SMB2_FLAGS_SERVER_TO_REDIR OR SMB2_FLAGS_PRIORITY_MASK) = 0"
proof -
  have "(a OR (fl AND b)) AND a = a" "(a OR (fl AND b)) AND NOT (a OR b) = 0" for a b fl :: u32
    by (rule bit_word_eqI, auto simp: bit_simps)+
  from this [of 1 _ "0x70"] show ?thesis
    using smb2_header_accessors [OF assms] by (simp add: PrepareResponse_def)
qed

end
