(* ===== verification/Compound.thy ===== *)
theory Compound
  imports Smb2_Types
begin

text \<open>
  \<open>server/compound.go\<close>: the responses collected for one compound request. Every response
  but the last is padded to a multiple of eight bytes.
\<close>

record compoundContext =
  comp_treeId :: u64
  comp_sessionId :: u64
  comp_fileId :: "FileId option"
  comp_lastStatus :: u32
  comp_lastMsgId :: u64
  comp_rsp :: "bytes list"

definition compoundContext_isEmpty :: "compoundContext \<Rightarrow> bool" where
  "compoundContext_isEmpty ctx \<longleftrightarrow> length (comp_rsp ctx) = 0"

definition compoundContext_addResponse :: "bytes \<Rightarrow> compoundContext \<Rightarrow> compoundContext" where
  "compoundContext_addResponse pkt ctx = ctx\<lparr>comp_rsp := comp_rsp ctx @ [pkt]\<rparr>"

fun compoundContext_Size_loop :: "nat \<Rightarrow> nat \<Rightarrow> nat \<Rightarrow> bytes list \<Rightarrow> nat" where
  "compoundContext_Size_loop n i s [] = s"
| "compoundContext_Size_loop n i s (pkt # pkts) =
     compoundContext_Size_loop n (i + 1) (if int i \<noteq> int n - 1 then s + Align (length pkt) 8 else s + length pkt) pkts"

definition compoundContext_Size :: "compoundContext \<Rightarrow> nat" where
  "compoundContext_Size ctx = compoundContext_Size_loop (length (comp_rsp ctx)) 0 0 (comp_rsp ctx)"

fun compoundContext_Encode_loop :: "nat \<Rightarrow> bytes list \<Rightarrow> writer" where
  "compoundContext_Encode_loop off [] = Some"
| "compoundContext_Encode_loop off (p # ps) =
     writes [copy_from off p, compoundContext_Encode_loop (off + Align (length p) 8) ps]"

definition compoundContext_Encode :: "compoundContext \<Rightarrow> writer" where
  "compoundContext_Encode ctx = compoundContext_Encode_loop 0 (comp_rsp ctx)"

section \<open>The encoded compound\<close>

definition pad8 :: "bytes \<Rightarrow> bytes" where
  "pad8 p = p @ replicate (Roundup (length p) 8 - length p) 0"

fun compound_bytes :: "bytes list \<Rightarrow> bytes" where
  "compound_bytes [] = []"
| "compound_bytes [p] = p"
| "compound_bytes (p # q # ps) = pad8 p @ compound_bytes (q # ps)"

lemma length_pad8 [simp]: "length (pad8 p) = Roundup (length p) 8"
  using Roundup_8_ge [of "length p"] by (simp add: pad8_def)

lemma compoundContext_Size_loop_eq:
  "i + length ps = n \<Longrightarrow> compoundContext_Size_loop n i s ps = s + length (compound_bytes ps)"
proof (induction ps arbitrary: i s rule: compound_bytes.induct)
  case (3 p q ps)
  then show ?case using 3(1) [of "i + 1" "s + Roundup (length p) 8"] by (simp add: Align_eq_Roundup)
qed simp_all

lemma compoundContext_Size_eq: "compoundContext_Size ctx = length (compound_bytes (comp_rsp ctx))"
  by (simp add: compoundContext_Size_def compoundContext_Size_loop_eq)

lemma compoundContext_Encode_loop_eq:
  "compoundContext_Encode_loop (length a) ps (a @ replicate (length (compound_bytes ps)) 0) = Some (a @ compound_bytes ps)"
proof (induction ps arbitrary: a rule: compound_bytes.induct)
  case 1
  then show ?case by simp
next
  case (2 p)
  have "upd (length a) p (a @ replicate (length p) 0) = a @ p" by (simp add: upd_def)
  then show ?case by (simp add: copy_from_def put_def)
next
  case (3 p q ps)
  let ?r = "replicate (length (compound_bytes (q # ps))) 0" and ?k = "Roundup (length p) 8"
  have k: "length p \<le> ?k" by (rule Roundup_8_ge)
  have "a @ replicate (length (compound_bytes (p # q # ps))) 0 = a @ replicate ?k 0 @ ?r"
    by (simp add: replicate_add)
  moreover have "copy_from (length a) p (a @ replicate ?k 0 @ ?r) = Some ((a @ pad8 p) @ ?r)"
    using k by (simp add: copy_from_def put_def upd_def pad8_def)
  ultimately show ?case
    using 3 [of "a @ pad8 p"] by (simp add: Align_eq_Roundup)
qed

lemma compoundContext_Encode_eq:
  "compoundContext_Encode ctx (replicate (compoundContext_Size ctx) 0) = Some (compound_bytes (comp_rsp ctx))"
  using compoundContext_Encode_loop_eq [of "[]" "comp_rsp ctx"]
  by (simp add: compoundContext_Encode_def compoundContext_Size_eq)

text \<open>Splitting a frame at its \<open>NextCommand\<close> offsets.\<close>

lemma compound_bytes_Cons: "ps \<noteq> [] \<Longrightarrow> compound_bytes (p # ps) = pad8 p @ compound_bytes ps"
  by (cases ps) auto

lemma pad8_id: "8 dvd length p \<Longrightarrow> pad8 p = p"
  by (simp add: pad8_def Roundup_8_id)

end
