(* ===== verification/Credit.thy ===== *)
theory Credit
  imports Go_Prelude
begin

text \<open>
  \<open>server/credit.go\<close>: the credit account of a connection. The buffered channel
  \<open>balance chan struct{}\<close> carries no data, so it is its capacity and its length; a
  channel operation that cannot proceed has no result (\<open>None\<close>, the goroutine blocks),
  and a \<open>select\<close> is resolved by naming the case that fires.
\<close>

record account =
  account_cap :: nat
  account_balance :: nat
  account_opening :: u16

definition chan_recv :: "account \<Rightarrow> account option" where
  "chan_recv a = (if 0 < account_balance a then Some (a\<lparr>account_balance := account_balance a - 1\<rparr>) else None)"

definition chan_send :: "account \<Rightarrow> account option" where
  "chan_send a = (if account_balance a < account_cap a
     then Some (a\<lparr>account_balance := account_balance a + 1\<rparr>) else None)"

definition openAccount :: "u16 \<Rightarrow> account option" where
  "openAccount maxCreditBalance =
     chan_send \<lparr>account_cap = unat maxCreditBalance, account_balance = 0, account_opening = 0\<rparr>"

definition initRequest :: "account \<Rightarrow> u16" where
  "initRequest a = of_nat (account_cap a - account_balance a)"

datatype loan_case = Loan_recv | Loan_done

datatype loan_result = Loaned u16 bool | Loan_ContextError

lemma unat_u16_less: "unat (c :: u16) < 65536"
  by (rule order.strict_trans2 [OF unsigned_less]) simp

lemma u16_less_Suc: "i < c \<Longrightarrow> unat (i + 1) = Suc (unat i)" for i c :: u16
  using word_less_nat_alt [of i c] unat_u16_less [of c] by (simp add: unat_word_ariths(1))

text \<open>The loop \<open>for i := uint16(1); i < creditCharge; i++\<close>, whose inner \<open>select\<close>
  has a default.\<close>

function loan_loop :: "u16 \<Rightarrow> u16 \<Rightarrow> account \<Rightarrow> loan_result \<times> account" where
  "loan_loop i creditCharge a =
     (if i < creditCharge then
        (case chan_recv a of
           None \<Rightarrow> (Loaned i False, a)
         | Some a' \<Rightarrow> loan_loop (i + 1) creditCharge a')
      else (Loaned creditCharge True, a))"
  by auto
termination
  by (relation "measure (\<lambda>(i, c, a). unat c - unat i)") (auto simp: u16_less_Suc word_less_nat_alt)

declare loan_loop.simps [simp del]

definition loan :: "u16 \<Rightarrow> loan_case \<Rightarrow> account \<Rightarrow> (loan_result \<times> account) option" where
  "loan creditCharge sel a =
     (case sel of
        Loan_recv \<Rightarrow> map_option (loan_loop 1 creditCharge) (chan_recv a)
      | Loan_done \<Rightarrow> Some (Loan_ContextError, a))"

definition account_take_opening :: "account \<Rightarrow> u16 \<times> account" where
  "account_take_opening a = (account_opening a, a\<lparr>account_opening := 0\<rparr>)"

function charge_loop :: "u16 \<Rightarrow> u16 \<Rightarrow> account \<Rightarrow> account" where
  "charge_loop i granted a =
     (if i < granted then
        (case chan_send a of
           None \<Rightarrow> a
         | Some a' \<Rightarrow> charge_loop (i + 1) granted a')
      else a)"
  by auto
termination
  by (relation "measure (\<lambda>(i, c, a). unat c - unat i)") (auto simp: u16_less_Suc word_less_nat_alt)

declare charge_loop.simps [simp del]

definition charge :: "u16 \<Rightarrow> u16 \<Rightarrow> account \<Rightarrow> account" where
  "charge granted requested a =
     (if granted = 0 \<and> requested = 0 then a
      else
        let a = (if granted < requested then a\<lparr>account_opening := account_opening a + (requested - granted)\<rparr> else a)
        in charge_loop 0 granted a)"

section \<open>The account is a bounded counter\<close>

definition account_wf :: "account \<Rightarrow> bool" where
  "account_wf a \<longleftrightarrow> account_balance a \<le> account_cap a \<and> account_cap a < 2 ^ 16"

lemma openAccount_eq:
  "openAccount m = (if m = 0 then None
     else Some \<lparr>account_cap = unat m, account_balance = 1, account_opening = 0\<rparr>)"
  by (simp add: openAccount_def chan_send_def unat_gt_0)

lemma openAccount_wf: "openAccount m = Some a \<Longrightarrow> account_wf a"
  using unat_u16_less [of m] unat_gt_0 [of m]
  by (auto simp: openAccount_eq account_wf_def Suc_le_eq split: if_splits)

lemma loan_loop_eq:
  assumes "i \<le> c"
  shows "loan_loop i c a =
    (if unat c - unat i \<le> account_balance a
     then (Loaned c True, a\<lparr>account_balance := account_balance a - (unat c - unat i)\<rparr>)
     else (Loaned (i + of_nat (account_balance a)) False, a\<lparr>account_balance := 0\<rparr>))"
  using assms
proof (induction i c a rule: loan_loop.induct)
  case (1 i c a)
  show ?case
  proof (cases "i < c \<and> 0 < account_balance a")
    case True
    then have r: "chan_recv a = Some (a\<lparr>account_balance := account_balance a - 1\<rparr>)"
      and n: "unat (i + 1) = Suc (unat i)" and l: "i + 1 \<le> c"
      using u16_less_Suc [of i c] by (auto simp: chan_recv_def inc_le)
    have "unat i < unat c" using True by (simp add: word_less_nat_alt)
    moreover have "i + 1 + of_nat (account_balance a - 1) = i + of_nat (account_balance a)"
      using True by (cases "account_balance a") auto
    ultimately show ?thesis
      using 1(1) [OF _ r l] True n r by (subst loan_loop.simps) auto
  next
    case False
    then show ?thesis
      using "1.prems" by (subst loan_loop.simps) (auto simp: chan_recv_def word_less_nat_alt word_le_nat_alt)
  qed
qed

lemma charge_loop_eq:
  assumes "i \<le> g" "account_balance a \<le> account_cap a"
  shows "charge_loop i g a = a\<lparr>account_balance := min (account_cap a) (account_balance a + (unat g - unat i))\<rparr>"
  using assms
proof (induction i g a rule: charge_loop.induct)
  case (1 i g a)
  show ?case
  proof (cases "i < g \<and> account_balance a < account_cap a")
    case True
    then have r: "chan_send a = Some (a\<lparr>account_balance := account_balance a + 1\<rparr>)"
      and n: "unat (i + 1) = Suc (unat i)" and l: "i + 1 \<le> g"
      using u16_less_Suc [of i g] by (auto simp: chan_send_def inc_le)
    have "unat i < unat g" using True by (simp add: word_less_nat_alt)
    then show ?thesis
      using 1(1) [OF _ r l] True n r by (subst charge_loop.simps) (auto simp: min_def)
  next
    case False
    have e: "a\<lparr>account_balance := account_balance a\<rparr> = a" by simp
    from False show ?thesis
      using "1.prems" by (subst charge_loop.simps) (auto simp: chan_send_def word_less_nat_alt word_le_nat_alt min_def e)
  qed
qed

text \<open>A loan that is not interrupted takes what it reports, at least one credit and never more than
  it was asked for, and it is complete exactly when it reports so.\<close>

lemma loan_recv:
  assumes "c \<noteq> 0" "loan c Loan_recv a = Some (res, a')"
  obtains n ok where "res = Loaned n ok" "account_balance a' + unat n = account_balance a"
    "1 \<le> unat n" "n \<le> c" "ok \<longleftrightarrow> n = c" "ok \<or> account_balance a' = 0"
    "account_cap a' = account_cap a" "account_opening a' = account_opening a"
proof -
  define b where "b = a\<lparr>account_balance := account_balance a - 1\<rparr>"
  have p: "0 < account_balance a" and l: "loan_loop 1 c b = (res, a')"
    using assms(2) by (auto simp: loan_def chan_recv_def b_def split: if_splits)
  have c: "1 \<le> c" "1 \<le> unat c" using assms(1) by (auto simp: word_le_nat_alt unat_gt_0 Suc_le_eq)
  show ?thesis
  proof (cases "unat c - 1 \<le> account_balance b")
    case True
    then have "res = Loaned c True" "a' = b\<lparr>account_balance := account_balance b - (unat c - 1)\<rparr>"
      using l loan_loop_eq [OF c(1), of b] by auto
    then show ?thesis using that [of c True] p True c by (auto simp: b_def)
  next
    case False
    then have r: "res = Loaned (1 + of_nat (account_balance b)) False" "a' = b\<lparr>account_balance := 0\<rparr>"
      using l loan_loop_eq [OF c(1), of b] by auto
    have s: "1 + account_balance b < unat c" using False by simp
    then have "1 + account_balance b < 65536" using unat_u16_less [of c] by simp
    then have u: "unat (1 + of_nat (account_balance b) :: u16) = 1 + account_balance b"
      using unat_num_of_nat_u16 [of num.One "account_balance b"] by simp
    show ?thesis
      using r s u p by (intro that [of "1 + of_nat (account_balance b)" False])
        (auto simp: b_def word_le_nat_alt simp del: of_nat_diff)
  qed
qed

lemma charge_eq:
  assumes "account_wf a"
  shows "charge g r a = a\<lparr>account_balance := min (account_cap a) (account_balance a + unat g),
    account_opening := (if g < r then account_opening a + (r - g) else account_opening a)\<rparr>"
proof -
  have "charge_loop 0 g b = b\<lparr>account_balance := min (account_cap b) (account_balance b + unat g)\<rparr>"
    if "account_wf b" for b
    using charge_loop_eq [of 0 g b] that by (simp add: account_wf_def)
  moreover have "account_wf (a\<lparr>account_opening := x\<rparr>)" for x using assms by (simp add: account_wf_def)
  ultimately show ?thesis
    using assms by (auto simp: charge_def Let_def account_wf_def min_def)
qed

lemma loan_wf: "loan c sel a = Some (res, a') \<Longrightarrow> account_wf a \<Longrightarrow> account_wf a'"
proof (cases sel)
  case Loan_done
  then show "loan c sel a = Some (res, a') \<Longrightarrow> account_wf a \<Longrightarrow> account_wf a'" by (auto simp: loan_def)
next
  case Loan_recv
  assume l: "loan c sel a = Some (res, a')" and wf: "account_wf a"
  show "account_wf a'"
  proof (cases "c = 0")
    case True
    then show ?thesis using l wf Loan_recv
      by (auto simp: loan_def chan_recv_def loan_loop.simps [of 1 0] account_wf_def split: if_splits)
  next
    case False
    from l Loan_recv have "loan c Loan_recv a = Some (res, a')" by simp
    from loan_recv [OF False this]
    have "account_balance a' \<le> account_balance a" "account_cap a' = account_cap a"
      by (metis le_add1, metis)
    then show ?thesis using wf by (simp add: account_wf_def)
  qed
qed

lemma charge_wf: "account_wf a \<Longrightarrow> account_wf (charge g r a)"
  by (simp add: charge_eq account_wf_def)

lemma account_take_opening_wf: "account_wf a \<Longrightarrow> account_wf (snd (account_take_opening a))"
  by (simp add: account_take_opening_def account_wf_def)

lemma initRequest_eq: "account_wf a \<Longrightarrow> unat (initRequest a) = account_cap a - account_balance a"
  unfolding initRequest_def account_wf_def by (subst unat_of_nat_u16) auto

section \<open>Goroutines sharing an account\<close>

text \<open>Every channel operation is one atomic step. \<open>taken\<close> counts the credits the loans of
  all goroutines hold, \<open>dropped\<close> what charges could not put back.\<close>

datatype account_op = Op_recv | Op_send | Op_send_full | Op_open u16 | Op_take_opening

inductive account_step :: "account \<Rightarrow> account_op \<Rightarrow> account \<Rightarrow> bool" where
  recv: "chan_recv a = Some a' \<Longrightarrow> account_step a Op_recv a'"
| send: "chan_send a = Some a' \<Longrightarrow> account_step a Op_send a'"
| full: "chan_send a = None \<Longrightarrow> account_step a Op_send_full a"
| opened: "account_step a (Op_open d) (a\<lparr>account_opening := account_opening a + d\<rparr>)"
| taken: "account_step a Op_take_opening (snd (account_take_opening a))"

inductive account_run :: "account \<Rightarrow> account_op list \<Rightarrow> account \<Rightarrow> bool" where
  Nil: "account_run a [] a"
| Cons: "account_step a e b \<Longrightarrow> account_run b es c \<Longrightarrow> account_run a (e # es) c"

inductive_cases account_runE: "account_run a (e # es) c"

text \<open>Whatever the interleaving, credits are neither lost nor invented: what is in the channel and
  what has been taken is what was put in, and the channel never holds more than its capacity.\<close>

lemma account_run_conserves:
  assumes "account_run a es b" "account_wf a"
  shows "account_wf b \<and> account_cap b = account_cap a \<and>
    account_balance b + count_list es Op_recv = account_balance a + count_list es Op_send"
  using assms
proof (induction rule: account_run.induct)
  case (Nil a)
  then show ?case by simp
next
  case (Cons a e b es c)
  from Cons(1) Cons(4) have "account_wf b \<and> account_cap b = account_cap a \<and>
      account_balance b + (if e = Op_recv then 1 else 0) = account_balance a + (if e = Op_send then 1 else 0)"
    by (cases rule: account_step.cases)
      (auto simp: chan_recv_def chan_send_def account_wf_def account_take_opening_def split: if_splits)
  with Cons(3) show ?case by (auto split: if_splits)
qed

text \<open>The sequential operations are runs of these steps.\<close>

lemma account_run_append: "account_run a es b \<Longrightarrow> account_run b fs c \<Longrightarrow> account_run a (es @ fs) c"
  by (induction rule: account_run.induct) (auto intro: account_run.Cons)

lemma loan_loop_run: "\<exists>es. account_run a es (snd (loan_loop i c a)) \<and> set es \<subseteq> {Op_recv}"
proof (induction i c a rule: loan_loop.induct)
  case (1 i c a)
  show ?case
  proof (cases "i < c")
    case True
    show ?thesis
    proof (cases "chan_recv a")
      case None
      then show ?thesis using True by (auto simp: loan_loop.simps [of i] intro!: exI [of _ "[]"] account_run.Nil)
    next
      case (Some b)
      from 1 [OF True Some] obtain es where "account_run b es (snd (loan_loop (i + 1) c b))" "set es \<subseteq> {Op_recv}"
        by blast
      then show ?thesis using True Some
        by (auto simp: loan_loop.simps [of i] intro!: exI [of _ "Op_recv # es"] account_run.Cons account_step.recv)
    qed
  next
    case False
    then show ?thesis by (auto simp: loan_loop.simps [of i] intro!: exI [of _ "[]"] account_run.Nil)
  qed
qed

lemma charge_loop_run: "\<exists>es. account_run a es (charge_loop i c a) \<and> set es \<subseteq> {Op_send, Op_send_full}"
proof (induction i c a rule: charge_loop.induct)
  case (1 i c a)
  show ?case
  proof (cases "i < c \<and> chan_send a \<noteq> None")
    case True
    then obtain b where b: "i < c" "chan_send a = Some b" by auto
    from 1 [OF b] obtain es where "account_run b es (charge_loop (i + 1) c b)" "set es \<subseteq> {Op_send, Op_send_full}"
      by blast
    then show ?thesis using b
      by (auto simp: charge_loop.simps [of i] intro!: exI [of _ "Op_send # es"] account_run.Cons account_step.send)
  next
    case False
    then show ?thesis by (auto simp: charge_loop.simps [of i] intro!: exI [of _ "[]"] account_run.Nil)
  qed
qed

end
