(* ===== verification/Transport.thy ===== *)
theory Transport
  imports Go_Prelude
begin

text \<open>
  \<open>server/transport.go\<close>: direct TCP framing. A connection is the bytes that are still to
  arrive, the bytes sent so far and the number of bytes it still accepts (\<open>net.Conn.Write\<close>
  sends everything or reports an error after a prefix; \<open>io.ReadFull\<close> fills the buffer or
  reports an error after consuming what was there).
\<close>

record tcp_conn =
  tcp_in :: bytes
  tcp_out :: bytes
  tcp_room :: nat

datatype transport_error = TE_max_size | TE_io | TE_format | TE_zero_length

type_synonym 'a tres = "transport_error + 'a"

definition net_Write :: "bytes \<Rightarrow> tcp_conn \<Rightarrow> nat tres \<times> tcp_conn" where
  "net_Write p c =
     (if length p \<le> tcp_room c
      then (Inr (length p), c\<lparr>tcp_out := tcp_out c @ p, tcp_room := tcp_room c - length p\<rparr>)
      else (Inl TE_io, c\<lparr>tcp_out := tcp_out c @ take (tcp_room c) p, tcp_room := 0\<rparr>))"

definition io_ReadFull :: "nat \<Rightarrow> tcp_conn \<Rightarrow> bytes tres \<times> tcp_conn" where
  "io_ReadFull n c =
     (if n \<le> length (tcp_in c) then (Inr (take n (tcp_in c)), c\<lparr>tcp_in := drop n (tcp_in c)\<rparr>)
      else (Inl TE_io, c\<lparr>tcp_in := []\<rparr>))"

definition maxDirectTCPSize :: nat where
  "maxDirectTCPSize = 0xffffff"

definition directTCP_Write :: "bytes \<Rightarrow> tcp_conn \<Rightarrow> nat tres \<times> tcp_conn" where
  "directTCP_Write p c =
     (if length p > maxDirectTCPSize then (Inl TE_max_size, c)
      else case net_Write (be_of_word 4 (of_nat (length p) :: u32)) c of
        (Inl e, c) \<Rightarrow> (Inl e, c)
      | (Inr _, c) \<Rightarrow> (case net_Write p c of
           (Inl e, c) \<Rightarrow> (Inl e, c)
         | (Inr n, c) \<Rightarrow> (Inr (n + 4), c)))"

definition directTCP_ReadSize :: "tcp_conn \<Rightarrow> nat tres \<times> tcp_conn" where
  "directTCP_ReadSize c =
     (case io_ReadFull 4 c of
        (Inl e, c) \<Rightarrow> (Inl e, c)
      | (Inr bs, c) \<Rightarrow>
          if bs ! 0 \<noteq> 0 then (Inl TE_format, c)
          else let sz = unat (word_of_be bs :: u32) in
            if sz = 0 then (Inl TE_zero_length, c) else (Inr sz, c))"

definition directTCP_Read :: "nat \<Rightarrow> tcp_conn \<Rightarrow> bytes tres \<times> tcp_conn" where
  "directTCP_Read n c = io_ReadFull n c"

text \<open>One packet as the receiver of \<open>server/conn.go\<close> reads it: the size, then exactly as
  many bytes.\<close>

definition read_frame :: "tcp_conn \<Rightarrow> bytes tres \<times> tcp_conn" where
  "read_frame c =
     (case directTCP_ReadSize c of
        (Inl e, c) \<Rightarrow> (Inl e, c)
      | (Inr n, c) \<Rightarrow> directTCP_Read n c)"

lemma read_frame_consumes:
  "read_frame c = (Inr p, c') \<Longrightarrow> length (tcp_in c) = length (tcp_in c') + 4 + length p"
  by (auto simp: read_frame_def directTCP_ReadSize_def directTCP_Read_def io_ReadFull_def Let_def
      split: if_splits)

text \<open>Packets until the first error.\<close>

function read_frames :: "tcp_conn \<Rightarrow> bytes list" where
  "read_frames c = (case read_frame c of (Inl e, c') \<Rightarrow> [] | (Inr p, c') \<Rightarrow> p # read_frames c')"
  by auto
termination
  by (relation "measure (\<lambda>c. length (tcp_in c))") (auto dest: read_frame_consumes [OF sym])

declare read_frames.simps [simp del]

section \<open>Framing round trip\<close>

lemma be_of_word_first: "unat (w :: u32) \<le> 0xffffff \<Longrightarrow> be_of_word 4 w ! 0 = 0"
proof -
  assume w: "unat w \<le> 0xffffff"
  have "be_of_word 4 w ! 0 = le_of_word 4 w ! 3" by (simp add: be_of_word_def rev_nth)
  also have "\<dots> = ucast (drop_bit 24 w)" by (simp add: le_of_word_def)
  also have "drop_bit 24 w = 0"
    using w by (simp add: drop_bit_eq_div unat_div flip: unat_eq_zero)
  finally show ?thesis by simp
qed

definition frame_ok :: "bytes \<Rightarrow> bool" where
  "frame_ok p \<longleftrightarrow> p \<noteq> [] \<and> length p \<le> maxDirectTCPSize"

definition frame :: "bytes \<Rightarrow> bytes" where
  "frame p = be_of_word 4 (of_nat (length p) :: u32) @ p"

lemma directTCP_Write_ok:
  assumes "length p \<le> maxDirectTCPSize" "length p + 4 \<le> tcp_room c"
  shows "directTCP_Write p c = (Inr (length p + 4),
    c\<lparr>tcp_out := tcp_out c @ frame p, tcp_room := tcp_room c - (length p + 4)\<rparr>)"
  using assms by (simp add: directTCP_Write_def net_Write_def frame_def)

lemma read_frame_frame:
  assumes "frame_ok p" "tcp_in c = frame p @ rest"
  shows "read_frame c = (Inr p, c\<lparr>tcp_in := rest\<rparr>)"
proof -
  have u: "unat (of_nat (length p) :: u32) = length p"
    using assms(1) by (intro unat_of_nat_u32) (simp add: frame_ok_def maxDirectTCPSize_def)
  then have "be_of_word 4 (of_nat (length p) :: u32) ! 0 = 0"
    using assms(1) by (intro be_of_word_first) (simp add: frame_ok_def maxDirectTCPSize_def)
  then show ?thesis
    using assms u by (simp add: read_frame_def directTCP_ReadSize_def directTCP_Read_def io_ReadFull_def
        frame_def frame_ok_def)
qed

text \<open>A zero-length packet is written as a frame of its own, which stops the reader.\<close>

lemma read_frame_empty: "tcp_in c = frame [] @ rest \<Longrightarrow> fst (read_frame c) = Inl TE_zero_length"
  by (simp add: read_frame_def directTCP_ReadSize_def io_ReadFull_def frame_def be_of_word_def word_of_be_def)

lemma read_frames_frames:
  "list_all frame_ok ps \<Longrightarrow> tcp_in c = concat (map frame ps) @ rest \<Longrightarrow>
     read_frames c = ps @ read_frames (c\<lparr>tcp_in := rest\<rparr>)"
proof (induction ps arbitrary: c)
  case Nil
  then have "c\<lparr>tcp_in := rest\<rparr> = c" by simp
  then show ?case by simp
next
  case (Cons p ps)
  then have "read_frame c = (Inr p, c\<lparr>tcp_in := concat (map frame ps) @ rest\<rparr>)"
    by (intro read_frame_frame) auto
  then show ?case
    using Cons by (subst read_frames.simps) simp
qed

lemma read_frames_end: "length (tcp_in c) < 4 \<Longrightarrow> read_frames c = []"
  by (subst read_frames.simps) (simp add: read_frame_def directTCP_ReadSize_def io_ReadFull_def)

text \<open>Sending a list of packets through one connection.\<close>

fun write_frames :: "bytes list \<Rightarrow> tcp_conn \<Rightarrow> tcp_conn" where
  "write_frames [] c = c"
| "write_frames (p # ps) c = write_frames ps (snd (directTCP_Write p c))"

lemma write_frames_out:
  "list_all frame_ok ps \<Longrightarrow> sum_list (map (\<lambda>p. length p + 4) ps) \<le> tcp_room c \<Longrightarrow>
     tcp_out (write_frames ps c) = tcp_out c @ concat (map frame ps)"
  by (induction ps arbitrary: c) (auto simp: directTCP_Write_ok frame_ok_def)

end
