(* ===== verification/Smb2_Message.thy ===== *)
theory Smb2_Message
  imports Smb2_Types
begin

text \<open>
  What all message encoders share. A message (\<open>Packet\<close>: \<open>Encoder\<close> plus
  \<open>Header\<close>) is the packet header followed by a body; \<open>Encode\<close> sets the command
  of the header, writes the header and fills \<open>pkt[64:]\<close>. The locale
  \<open>smb2_message\<close> is that contract; the request and response theories interpret it for
  every message. The second half lays out lists of nested encoders behind one another.
\<close>

section \<open>Items behind one another\<close>

text \<open>The end offset after \<open>off += e.Size()\<close> for every item, and the same with
  \<open>off = Roundup(off, 8)\<close> before each.\<close>

fun items_end :: "nat \<Rightarrow> encoder list \<Rightarrow> nat" where
  "items_end off [] = off"
| "items_end off (e # es) = items_end (off + enc_Size e) es"

fun items8_end :: "nat \<Rightarrow> encoder list \<Rightarrow> nat" where
  "items8_end off [] = off"
| "items8_end off (e # es) = items8_end (Roundup off 8 + enc_Size e) es"

lemma items_end_eq: "items_end off es = off + sum_list (map enc_Size es)"
  by (induction es arbitrary: off) simp_all

lemma items_end_ge: "off \<le> items_end off es"
  by (simp add: items_end_eq)

lemma items8_end_ge: "off \<le> items8_end off es"
proof (induction es arbitrary: off)
  case Nil
  then show ?case by simp
next
  case (Cons e es)
  have "off \<le> Roundup off 8 + enc_Size e" using Roundup_8_ge [of off] by simp
  then show ?case using Cons [of "Roundup off 8 + enc_Size e"] by simp
qed

lemma items8_end_add: "8 dvd a \<Longrightarrow> items8_end (a + off) es = a + items8_end off es"
  by (induction es arbitrary: off) (simp_all add: Roundup_8_add add.assoc)

lemma items_end_add: "items_end (a + off) es = a + items_end off es"
  by (simp add: items_end_eq)

section \<open>A message is a header and a body\<close>

lemma encodeHeader_tail:
  assumes "64 \<le> length p"
  shows "\<exists>q. encodeHeader hdr p = Some q \<and> length q = length p \<and> drop 64 q = drop 64 p"
  unfolding encodeHeader_eq [OF assms] by (simp add: drop_upd)

locale smb2_message =
  fixes hdr :: "'m \<Rightarrow> PacketHeader"
    and msize :: "'m \<Rightarrow> nat"
    and encode body :: "'m \<Rightarrow> writer"
    and ok :: "'m \<Rightarrow> bool"
  assumes size: "64 \<le> msize m"
    and encode: "encode m = writes [encodeHeader (hdr m), on_from 64 (body m)]"
    and body_safe: "ok m \<Longrightarrow> safe_w (msize m - 64) (body m)"
begin

lemma encode_safe: "ok m \<Longrightarrow> safe_w (msize m) (encode m)"
  unfolding encode using size by (intro go_safe body_safe) simp_all

lemma encode_frame:
  assumes "ok m" and "msize m \<le> n"
  shows "\<exists>q. encode m (replicate n 0) = Some q \<and> length q = n \<and> header_reads (hdr m) q \<and>
    body m (replicate (n - 64) 0) = Some (drop 64 q)"
proof -
  have n: "64 \<le> n" using size [of m] assms(2) by simp
  obtain q where q: "encodeHeader (hdr m) (replicate n 0) = Some q" "length q = n" "header_reads (hdr m) q"
    using encodeHeader_reads [OF n] by blast
  then have d: "drop 64 q = replicate (n - 64) 0"
    using encodeHeader_tail [of "replicate n 0" "hdr m"] n by auto
  have "safe_w (n - 64) (body m)"
    using assms(2) by (intro safe_w_mono [OF body_safe [OF assms(1)]]) simp
  then obtain r where r: "body m (replicate (n - 64) 0) = Some r" "length r = n - 64"
    by (rule safe_wE [where p = "replicate (n - 64) 0"]) auto
  have "encode m (replicate n 0) = Some (take 64 q @ r)"
    using q r d n by (simp add: encode on_from_def)
  moreover have "header_reads (hdr m) (take 64 q @ r)"
    using q(2,3) n by (intro header_readsI_append) simp_all
  ultimately show ?thesis using q r n by simp
qed

text \<open>With a zero \<open>NextCommand\<close>, the encoded message passes the packet check of the receiver.\<close>

lemma encode_valid:
  assumes "ok m" and "hdr_NextCommand (hdr m) = 0"
  shows "\<exists>q. encode m (replicate (msize m) 0) = Some q \<and> length q = msize m \<and> smb2_header_ok q \<and>
    PacketCodec_IsInvalid q = Some False \<and> PacketCodec_Command q = Some (hdr_Command (hdr m))"
proof -
  obtain q where q: "encode m (replicate (msize m) 0) = Some q" "length q = msize m" "header_reads (hdr m) q"
    using encode_frame [OF assms(1) order_refl] by blast
  then have "smb2_header_ok q"
    using assms(2) size [of m] by (intro encodeHeader_header_ok [OF q(3)]) auto
  then show ?thesis using q by (auto simp: PacketCodec_valid_iff header_reads_def)
qed

end

text \<open>All messages but the error response set their command.\<close>

locale smb2_command =
  smb2_message "\<lambda>m. header m\<lparr>hdr_Command := command\<rparr>" msize encode body ok
  for header :: "'m \<Rightarrow> PacketHeader" and command :: u16 and msize :: "'m \<Rightarrow> nat"
    and encode body :: "'m \<Rightarrow> writer" and ok :: "'m \<Rightarrow> bool"
begin

lemma encode_command:
  assumes "ok m" and "hdr_NextCommand (header m) = 0"
  shows "\<exists>q. encode m (replicate (msize m) 0) = Some q \<and> PacketCodec_IsInvalid q = Some False \<and>
    PacketCodec_Command q = Some command \<and> PacketCodec_MessageId q = Some (hdr_MessageId (header m))"
proof -
  obtain q where q: "encode m (replicate (msize m) 0) = Some q" "PacketCodec_IsInvalid q = Some False"
    "PacketCodec_Command q = Some command"
    using encode_valid [OF assms(1)] assms(2) by auto
  moreover have "PacketCodec_MessageId q = Some (hdr_MessageId (header m))"
    using encode_frame [OF assms(1) order_refl] q(1) by (auto simp: header_reads_def)
  ultimately show ?thesis by blast
qed

end

end
