(* ===== verification/Smb2_Response.thy ===== *)
theory Smb2_Response
  imports Smb2_Message
begin

text \<open>
  \<open>internal/smb2/response.go\<close> and \<open>internal/smb2/oplock.go\<close>: every response and
  notification the server sends with its encoder, the decoders of the responses, and the create
  contexts. The conventions are those of the request theory.
\<close>

abbreviation (input) "IO_REPARSE_TAG_SYMLINK \<equiv> (0xA000000C :: u32)"
abbreviation (input) "SMB202 \<equiv> (0x202 :: u16)"
abbreviation (input) "SMB210 \<equiv> (0x210 :: u16)"
abbreviation (input) "SMB300 \<equiv> (0x300 :: u16)"
abbreviation (input) "SMB302 \<equiv> (0x302 :: u16)"
abbreviation (input) "SMB311 \<equiv> (0x311 :: u16)"

section \<open>\<open>response.go\<close>\<close>

record ErrorContextResponse =
  ErrorContextResponse_ErrorId :: u32
  ErrorContextResponse_ErrorData :: encoder

definition ErrorContextResponse_Size :: "ErrorContextResponse \<Rightarrow> nat" where
  "ErrorContextResponse_Size c = 8 + enc_Size (ErrorContextResponse_ErrorData c)"

definition ErrorContextResponse_Encode :: "ErrorContextResponse \<Rightarrow> writer" where
  "ErrorContextResponse_Encode c = writes [
     put32 0 (of_nat (enc_Size (ErrorContextResponse_ErrorData c))),
     put32 4 (ErrorContextResponse_ErrorId c),
     on_from 8 (enc_Encode (ErrorContextResponse_ErrorData c))]"

fun ErrorContextListResponse_Size_loop :: "nat \<Rightarrow> ErrorContextResponse list \<Rightarrow> nat" where
  "ErrorContextListResponse_Size_loop sz [] = sz"
| "ErrorContextListResponse_Size_loop sz (ec # c) =
     ErrorContextListResponse_Size_loop (Roundup sz 8 + ErrorContextResponse_Size ec) c"

definition ErrorContextListResponse_Size :: "ErrorContextResponse list \<Rightarrow> nat" where
  "ErrorContextListResponse_Size c = ErrorContextListResponse_Size_loop 0 c"

fun ErrorContextListResponse_Encode_loop :: "nat \<Rightarrow> ErrorContextResponse list \<Rightarrow> writer" where
  "ErrorContextListResponse_Encode_loop off [] = Some"
| "ErrorContextListResponse_Encode_loop off (ec # c) =
     (let off = Roundup off 8 in
      writes [
        on_from off (ErrorContextResponse_Encode ec),
        ErrorContextListResponse_Encode_loop (off + ErrorContextResponse_Size ec) c])"

definition ErrorContextListResponse_Encode :: "ErrorContextResponse list \<Rightarrow> writer" where
  "ErrorContextListResponse_Encode c = ErrorContextListResponse_Encode_loop 0 c"

text \<open>The dynamic type of the field matters: a context list also stores its length.\<close>

datatype error_data = ED_ContextList "ErrorContextResponse list" | ED_Other encoder

record ErrorResponse =
  ErrorResponse_Header :: PacketHeader
  ErrorResponse_ErrorData :: "error_data option"

definition error_data_Size :: "error_data \<Rightarrow> nat" where
  "error_data_Size d = (case d of ED_ContextList c \<Rightarrow> ErrorContextListResponse_Size c | ED_Other e \<Rightarrow> enc_Size e)"

definition error_data_Encode :: "error_data \<Rightarrow> writer" where
  "error_data_Encode d = (case d of ED_ContextList c \<Rightarrow> ErrorContextListResponse_Encode c | ED_Other e \<Rightarrow> enc_Encode e)"

definition ErrorResponse_Size :: "ErrorResponse \<Rightarrow> nat" where
  "ErrorResponse_Size c =
     (case ErrorResponse_ErrorData c of None \<Rightarrow> 64 + 8 + 1 | Some d \<Rightarrow> 64 + 8 + error_data_Size d)"

definition ErrorResponse_body :: "ErrorResponse \<Rightarrow> writer" where
  "ErrorResponse_body c = writes [
     put16 0 9,
     (case ErrorResponse_ErrorData c of
        None \<Rightarrow> Some
      | Some d \<Rightarrow> writes [
          put16 2 (of_nat (error_data_Size d)),
          on_from 8 (error_data_Encode d),
          (case d of ED_ContextList e \<Rightarrow> put8 2 (of_nat (length e)) | ED_Other _ \<Rightarrow> Some)])]"

definition ErrorResponse_Encode :: "ErrorResponse \<Rightarrow> writer" where
  "ErrorResponse_Encode c = writes [
     encodeHeader (ErrorResponse_Header c),
     on_from 64 (ErrorResponse_body c)]"

definition ErrorResponseDecoder_StructureSize :: "bytes \<Rightarrow> u16 option" where
  "ErrorResponseDecoder_StructureSize r = u16_at r 0"

definition ErrorResponseDecoder_ErrorContextCount :: "bytes \<Rightarrow> u8 option" where
  "ErrorResponseDecoder_ErrorContextCount r = u8_at r 2"

definition ErrorResponseDecoder_ByteCount :: "bytes \<Rightarrow> u32 option" where
  "ErrorResponseDecoder_ByteCount r = u32_at r 4"

definition ErrorResponseDecoder_IsInvalid :: "bytes \<Rightarrow> bool option" where
  "ErrorResponseDecoder_IsInvalid r =
     (if length r < 8 then Some True
      else do {
        ss \<leftarrow> ErrorResponseDecoder_StructureSize r;
        if ss \<noteq> 9 then Some True else do {
          bc \<leftarrow> ErrorResponseDecoder_ByteCount r;
          Some (of_nat (length r) < 8 + bc) } })"

definition ErrorResponseDecoder_ErrorData :: "bytes \<Rightarrow> bytes option" where
  "ErrorResponseDecoder_ErrorData r = do {
     bc \<leftarrow> ErrorResponseDecoder_ByteCount r;
     go_slice r 8 (unat (8 + bc)) }"

definition ErrorContextResponseDecoder_ErrorDataLength :: "bytes \<Rightarrow> u32 option" where
  "ErrorContextResponseDecoder_ErrorDataLength ctx = u32_at ctx 0"

definition ErrorContextResponseDecoder_ErrorId :: "bytes \<Rightarrow> u32 option" where
  "ErrorContextResponseDecoder_ErrorId ctx = u32_at ctx 4"

definition ErrorContextResponseDecoder_IsInvalid :: "bytes \<Rightarrow> bool option" where
  "ErrorContextResponseDecoder_IsInvalid ctx =
     (if length ctx < 8 then Some True
      else do {
        n \<leftarrow> ErrorContextResponseDecoder_ErrorDataLength ctx;
        Some (of_nat (length ctx) < 8 + n) })"

definition ErrorContextResponseDecoder_ErrorContextData :: "bytes \<Rightarrow> bytes option" where
  "ErrorContextResponseDecoder_ErrorContextData ctx = do {
     n \<leftarrow> ErrorContextResponseDecoder_ErrorDataLength ctx;
     go_slice ctx 8 (unat (8 + n)) }"

definition ErrorContextResponseDecoder_Next :: "bytes \<Rightarrow> nat option" where
  "ErrorContextResponseDecoder_Next ctx = do {
     n \<leftarrow> ErrorContextResponseDecoder_ErrorDataLength ctx;
     Some (8 + Roundup (unat n) 8) }"

record SmallBufferErrorResponse =
  SmallBufferErrorResponse_RequiredBufferLength :: u32

definition SmallBufferErrorResponse_Size :: "SmallBufferErrorResponse \<Rightarrow> nat" where
  "SmallBufferErrorResponse_Size c = 4"

definition SmallBufferErrorResponse_Encode :: "SmallBufferErrorResponse \<Rightarrow> writer" where
  "SmallBufferErrorResponse_Encode c = writes [
     put32 0 (SmallBufferErrorResponse_RequiredBufferLength c)]"

definition SmallBufferErrorResponseDecoder_IsInvalid :: "bytes \<Rightarrow> bool option" where
  "SmallBufferErrorResponseDecoder_IsInvalid r = Some (length r \<noteq> 4)"

definition SmallBufferErrorResponseDecoder_RequiredBufferLength :: "bytes \<Rightarrow> u32 option" where
  "SmallBufferErrorResponseDecoder_RequiredBufferLength r = u32_at r 0"

record SymbolicLinkErrorResponse =
  SymbolicLinkErrorResponse_UnparsedPathLength :: u16
  SymbolicLinkErrorResponse_Flags :: u32
  SymbolicLinkErrorResponse_SubstituteName :: go_string
  SymbolicLinkErrorResponse_PrintName :: go_string

definition SymbolicLinkErrorResponse_Size :: "SymbolicLinkErrorResponse \<Rightarrow> nat" where
  "SymbolicLinkErrorResponse_Size c =
     28 + EncodedStringLen (SymbolicLinkErrorResponse_SubstituteName c)
        + EncodedStringLen (SymbolicLinkErrorResponse_PrintName c)"

definition SymbolicLinkErrorResponse_Encode :: "SymbolicLinkErrorResponse \<Rightarrow> writer" where
  "SymbolicLinkErrorResponse_Encode c p =
     (let slen = EncodeString_n (SymbolicLinkErrorResponse_SubstituteName c);
          plen = EncodeString_n (SymbolicLinkErrorResponse_PrintName c) in
      writes [
        on_from 24 (EncodeString (SymbolicLinkErrorResponse_SubstituteName c)),
        on_from (24 + slen) (EncodeString (SymbolicLinkErrorResponse_PrintName c)),
        put32 0 (of_nat (length p - 4)),
        put32 4 0x4c4d5953,
        put32 8 IO_REPARSE_TAG_SYMLINK,
        put16 14 (SymbolicLinkErrorResponse_UnparsedPathLength c),
        put32 24 (SymbolicLinkErrorResponse_Flags c),
        put16 12 (of_nat (length p - 12)),
        put16 16 0,
        put16 18 (of_nat slen),
        put16 20 (of_nat slen),
        put16 22 (of_nat plen)] p)"

definition SymbolicLinkErrorResponseDecoder_SymLinkLength :: "bytes \<Rightarrow> u32 option" where
  "SymbolicLinkErrorResponseDecoder_SymLinkLength r = u32_at r 0"

definition SymbolicLinkErrorResponseDecoder_SymLinkErrorTag :: "bytes \<Rightarrow> u32 option" where
  "SymbolicLinkErrorResponseDecoder_SymLinkErrorTag r = u32_at r 4"

definition SymbolicLinkErrorResponseDecoder_ReparseTag :: "bytes \<Rightarrow> u32 option" where
  "SymbolicLinkErrorResponseDecoder_ReparseTag r = u32_at r 8"

definition SymbolicLinkErrorResponseDecoder_ReparseDataLength :: "bytes \<Rightarrow> u16 option" where
  "SymbolicLinkErrorResponseDecoder_ReparseDataLength r = u16_at r 12"

definition SymbolicLinkErrorResponseDecoder_UnparsedPathLength :: "bytes \<Rightarrow> u16 option" where
  "SymbolicLinkErrorResponseDecoder_UnparsedPathLength r = u16_at r 14"

definition SymbolicLinkErrorResponseDecoder_SubstituteNameOffset :: "bytes \<Rightarrow> u16 option" where
  "SymbolicLinkErrorResponseDecoder_SubstituteNameOffset r = u16_at r 16"

definition SymbolicLinkErrorResponseDecoder_SubstituteNameLength :: "bytes \<Rightarrow> u16 option" where
  "SymbolicLinkErrorResponseDecoder_SubstituteNameLength r = u16_at r 18"

definition SymbolicLinkErrorResponseDecoder_PrintNameOffset :: "bytes \<Rightarrow> u16 option" where
  "SymbolicLinkErrorResponseDecoder_PrintNameOffset r = u16_at r 20"

definition SymbolicLinkErrorResponseDecoder_PrintNameLength :: "bytes \<Rightarrow> u16 option" where
  "SymbolicLinkErrorResponseDecoder_PrintNameLength r = u16_at r 22"

definition SymbolicLinkErrorResponseDecoder_Flags :: "bytes \<Rightarrow> u32 option" where
  "SymbolicLinkErrorResponseDecoder_Flags r = u32_at r 24"

definition SymbolicLinkErrorResponseDecoder_PathBuffer :: "bytes \<Rightarrow> bytes option" where
  "SymbolicLinkErrorResponseDecoder_PathBuffer r = go_slice_from r 28"

definition SymbolicLinkErrorResponseDecoder_IsInvalid :: "bytes \<Rightarrow> bool option" where
  "SymbolicLinkErrorResponseDecoder_IsInvalid r =
     (if length r < 28 then Some True
      else do {
        tag \<leftarrow> SymbolicLinkErrorResponseDecoder_SymLinkErrorTag r;
        if tag \<noteq> 0x4c4d5953 then Some True else do {
          rtag \<leftarrow> SymbolicLinkErrorResponseDecoder_ReparseTag r;
          if rtag \<noteq> IO_REPARSE_TAG_SYMLINK then Some True else do {
            tlen \<leftarrow> map_option unat (SymbolicLinkErrorResponseDecoder_SymLinkLength r);
            rlen \<leftarrow> map_option unat (SymbolicLinkErrorResponseDecoder_ReparseDataLength r);
            soff \<leftarrow> map_option unat (SymbolicLinkErrorResponseDecoder_SubstituteNameOffset r);
            slen \<leftarrow> map_option unat (SymbolicLinkErrorResponseDecoder_SubstituteNameLength r);
            poff \<leftarrow> map_option unat (SymbolicLinkErrorResponseDecoder_PrintNameOffset r);
            plen \<leftarrow> map_option unat (SymbolicLinkErrorResponseDecoder_PrintNameLength r);
            if odd soff \<or> odd poff then Some True
            else if length r < 4 + tlen then Some True
            else if tlen < 12 + rlen then Some True
            else Some (rlen < 12 + soff + slen \<or> rlen < 12 + poff + plen) } } })"

definition SymbolicLinkErrorResponseDecoder_SubstituteName :: "bytes \<Rightarrow> go_string option" where
  "SymbolicLinkErrorResponseDecoder_SubstituteName r = do {
     off \<leftarrow> SymbolicLinkErrorResponseDecoder_SubstituteNameOffset r;
     len \<leftarrow> SymbolicLinkErrorResponseDecoder_SubstituteNameLength r;
     buf \<leftarrow> SymbolicLinkErrorResponseDecoder_PathBuffer r;
     bs \<leftarrow> go_slice buf (unat off) (unat (off + len));
     DecodeToString bs }"

definition SymbolicLinkErrorResponseDecoder_PrintName :: "bytes \<Rightarrow> go_string option" where
  "SymbolicLinkErrorResponseDecoder_PrintName r = do {
     off \<leftarrow> SymbolicLinkErrorResponseDecoder_PrintNameOffset r;
     len \<leftarrow> SymbolicLinkErrorResponseDecoder_PrintNameLength r;
     buf \<leftarrow> SymbolicLinkErrorResponseDecoder_PathBuffer r;
     bs \<leftarrow> go_slice buf (unat off) (unat (off + len));
     DecodeToString bs }"

definition SymbolicLinkErrorResponseDecoder_SplitUnparsedPath :: "bytes \<Rightarrow> go_string \<Rightarrow> (go_string \<times> go_string) option" where
  "SymbolicLinkErrorResponseDecoder_SplitUnparsedPath r name = do {
     let ws = utf16_Encode (runes name);
     ulen \<leftarrow> map_option unat (SymbolicLinkErrorResponseDecoder_UnparsedPathLength r);
     if ulen div 2 > length ws then Some ([], [])
     else do {
       a \<leftarrow> go_slice ws 0 (length ws - ulen div 2);
       b \<leftarrow> go_slice_from ws (length ws - ulen div 2);
       Some (string_of_runes (utf16_Decode a), string_of_runes (utf16_Decode b)) } }"

record NegotiateResponse =
  NegotiateResponse_Header :: PacketHeader
  NegotiateResponse_SecurityMode :: u16
  NegotiateResponse_DialectRevision :: u16
  NegotiateResponse_ServerGuid :: bytes
  NegotiateResponse_Capabilities :: u32
  NegotiateResponse_MaxTransactSize :: u32
  NegotiateResponse_MaxReadSize :: u32
  NegotiateResponse_MaxWriteSize :: u32
  NegotiateResponse_SystemTime :: "Filetime option"
  NegotiateResponse_ServerStartTime :: "Filetime option"
  NegotiateResponse_SecurityBuffer :: bytes
  NegotiateResponse_Contexts :: "encoder list"

definition NegotiateResponse_Size :: "NegotiateResponse \<Rightarrow> nat" where
  "NegotiateResponse_Size c =
     (let sz = items8_end (64 + length (NegotiateResponse_SecurityBuffer c)) (NegotiateResponse_Contexts c) in
      if sz = 64 then 64 + 64 + 1 else 64 + sz)"

fun NegotiateResponse_body_loop :: "nat \<Rightarrow> nat \<Rightarrow> encoder list \<Rightarrow> writer" where
  "NegotiateResponse_body_loop i off [] = Some"
| "NegotiateResponse_body_loop i off (cc # ccs) =
     (let off = Roundup off 8 in
      writes [
        when_w (i = 0) (put32 60 (of_nat (off + 64))),
        on_from off (enc_Encode cc),
        NegotiateResponse_body_loop (i + 1) (off + enc_Size cc) ccs])"

text \<open>\<open>ft.Encode\<close> through a nil pointer panics.\<close>

definition Filetime_Encode_ptr :: "Filetime option \<Rightarrow> writer" where
  "Filetime_Encode_ptr ft = (case ft of None \<Rightarrow> (\<lambda>p. None) | Some ft \<Rightarrow> Filetime_Encode ft)"

definition NegotiateResponse_body :: "NegotiateResponse \<Rightarrow> writer" where
  "NegotiateResponse_body c = writes [
     put16 0 65,
     put16 2 (NegotiateResponse_SecurityMode c),
     put16 4 (NegotiateResponse_DialectRevision c),
     copy_slice 8 24 (NegotiateResponse_ServerGuid c),
     put32 24 (NegotiateResponse_Capabilities c),
     put32 28 (NegotiateResponse_MaxTransactSize c),
     put32 32 (NegotiateResponse_MaxReadSize c),
     put32 36 (NegotiateResponse_MaxWriteSize c),
     on_slice 40 48 (Filetime_Encode_ptr (NegotiateResponse_SystemTime c)),
     on_slice 48 56 (Filetime_Encode_ptr (NegotiateResponse_ServerStartTime c)),
     copy_from 64 (NegotiateResponse_SecurityBuffer c),
     put16 56 (64 + 64),
     put16 58 (of_nat (length (NegotiateResponse_SecurityBuffer c))),
     NegotiateResponse_body_loop 0 (64 + length (NegotiateResponse_SecurityBuffer c)) (NegotiateResponse_Contexts c),
     put16 6 (of_nat (length (NegotiateResponse_Contexts c)))]"

definition NegotiateResponse_Encode :: "NegotiateResponse \<Rightarrow> writer" where
  "NegotiateResponse_Encode c = writes [
     encodeHeader (NegotiateResponse_Header c\<lparr>hdr_Command := SMB2_NEGOTIATE\<rparr>),
     on_from 64 (NegotiateResponse_body c)]"

definition NegotiateResponseDecoder_StructureSize :: "bytes \<Rightarrow> u16 option" where
  "NegotiateResponseDecoder_StructureSize r = u16_at r 0"

definition NegotiateResponseDecoder_SecurityMode :: "bytes \<Rightarrow> u16 option" where
  "NegotiateResponseDecoder_SecurityMode r = u16_at r 2"

definition NegotiateResponseDecoder_DialectRevision :: "bytes \<Rightarrow> u16 option" where
  "NegotiateResponseDecoder_DialectRevision r = u16_at r 4"

definition NegotiateResponseDecoder_ServerGuid :: "bytes \<Rightarrow> bytes option" where
  "NegotiateResponseDecoder_ServerGuid r = go_slice r 8 24"

definition NegotiateResponseDecoder_Capabilities :: "bytes \<Rightarrow> u32 option" where
  "NegotiateResponseDecoder_Capabilities r = u32_at r 24"

definition NegotiateResponseDecoder_MaxTransactSize :: "bytes \<Rightarrow> u32 option" where
  "NegotiateResponseDecoder_MaxTransactSize r = u32_at r 28"

definition NegotiateResponseDecoder_MaxReadSize :: "bytes \<Rightarrow> u32 option" where
  "NegotiateResponseDecoder_MaxReadSize r = u32_at r 32"

definition NegotiateResponseDecoder_MaxWriteSize :: "bytes \<Rightarrow> u32 option" where
  "NegotiateResponseDecoder_MaxWriteSize r = u32_at r 36"

definition NegotiateResponseDecoder_SystemTime :: "bytes \<Rightarrow> bytes option" where
  "NegotiateResponseDecoder_SystemTime r = go_slice r 40 48"

definition NegotiateResponseDecoder_ServerStartTime :: "bytes \<Rightarrow> bytes option" where
  "NegotiateResponseDecoder_ServerStartTime r = go_slice r 48 56"

definition NegotiateResponseDecoder_SecurityBufferOffset :: "bytes \<Rightarrow> u16 option" where
  "NegotiateResponseDecoder_SecurityBufferOffset r = u16_at r 56"

definition NegotiateResponseDecoder_SecurityBufferLength :: "bytes \<Rightarrow> u16 option" where
  "NegotiateResponseDecoder_SecurityBufferLength r = u16_at r 58"

definition NegotiateResponseDecoder_NegotiateContextCount :: "bytes \<Rightarrow> u16 option" where
  "NegotiateResponseDecoder_NegotiateContextCount r = u16_at r 6"

definition NegotiateResponseDecoder_NegotiateContextOffset :: "bytes \<Rightarrow> u32 option" where
  "NegotiateResponseDecoder_NegotiateContextOffset r = u32_at r 60"

definition NegotiateResponseDecoder_IsInvalid :: "bytes \<Rightarrow> bool option" where
  "NegotiateResponseDecoder_IsInvalid r =
     (if length r < 64 then Some True
      else do {
        ss \<leftarrow> NegotiateResponseDecoder_StructureSize r;
        if ss \<noteq> 65 then Some True else do {
          off \<leftarrow> NegotiateResponseDecoder_SecurityBufferOffset r;
          len \<leftarrow> NegotiateResponseDecoder_SecurityBufferLength r;
          if int (length r) < uint (off + len) - 64 then Some True else do {
            d \<leftarrow> NegotiateResponseDecoder_DialectRevision r;
            if d = SMB311 then do {
              noff \<leftarrow> NegotiateResponseDecoder_NegotiateContextOffset r;
              if noff AND 7 \<noteq> 0 then Some True else Some (int (length r) < uint noff - 64) }
            else Some False } } })"

definition NegotiateResponseDecoder_SecurityBuffer :: "bytes \<Rightarrow> bytes option" where
  "NegotiateResponseDecoder_SecurityBuffer r = do {
     off \<leftarrow> NegotiateResponseDecoder_SecurityBufferOffset r;
     if off < 64 + 64 then Some [] else do {
       let off = off - 64;
       len \<leftarrow> NegotiateResponseDecoder_SecurityBufferLength r;
       go_slice r (unat off) (unat (off + len)) } }"

definition NegotiateResponseDecoder_NegotiateContextList :: "bytes \<Rightarrow> bytes option" where
  "NegotiateResponseDecoder_NegotiateContextList r = do {
     off \<leftarrow> NegotiateResponseDecoder_NegotiateContextOffset r;
     if off < 64 then Some [] else go_slice_from r (unat (off - 64)) }"

record SessionSetupResponse =
  SessionSetupResponse_Header :: PacketHeader
  SessionSetupResponse_SessionFlags :: u16
  SessionSetupResponse_SecurityBuffer :: bytes

definition SessionSetupResponse_Size :: "SessionSetupResponse \<Rightarrow> nat" where
  "SessionSetupResponse_Size c =
     (if length (SessionSetupResponse_SecurityBuffer c) = 0 then 64 + 8 + 1
      else 64 + 8 + length (SessionSetupResponse_SecurityBuffer c))"

definition SessionSetupResponse_body :: "SessionSetupResponse \<Rightarrow> writer" where
  "SessionSetupResponse_body c = writes [
     put16 0 9,
     put16 2 (SessionSetupResponse_SessionFlags c),
     when_w (length (SessionSetupResponse_SecurityBuffer c) \<noteq> 0) (writes [
       put16 4 (8 + 64),
       copy_from 8 (SessionSetupResponse_SecurityBuffer c),
       put16 6 (of_nat (length (SessionSetupResponse_SecurityBuffer c)))])]"

definition SessionSetupResponse_Encode :: "SessionSetupResponse \<Rightarrow> writer" where
  "SessionSetupResponse_Encode c = writes [
     encodeHeader (SessionSetupResponse_Header c\<lparr>hdr_Command := SMB2_SESSION_SETUP\<rparr>),
     on_from 64 (SessionSetupResponse_body c)]"

definition SessionSetupResponseDecoder_StructureSize :: "bytes \<Rightarrow> u16 option" where
  "SessionSetupResponseDecoder_StructureSize r = u16_at r 0"

definition SessionSetupResponseDecoder_SessionFlags :: "bytes \<Rightarrow> u16 option" where
  "SessionSetupResponseDecoder_SessionFlags r = u16_at r 2"

definition SessionSetupResponseDecoder_SecurityBufferOffset :: "bytes \<Rightarrow> u16 option" where
  "SessionSetupResponseDecoder_SecurityBufferOffset r = u16_at r 4"

definition SessionSetupResponseDecoder_SecurityBufferLength :: "bytes \<Rightarrow> u16 option" where
  "SessionSetupResponseDecoder_SecurityBufferLength r = u16_at r 6"

definition SessionSetupResponseDecoder_IsInvalid :: "bytes \<Rightarrow> bool option" where
  "SessionSetupResponseDecoder_IsInvalid r =
     (if length r < 8 then Some True
      else do {
        ss \<leftarrow> SessionSetupResponseDecoder_StructureSize r;
        if ss \<noteq> 9 then Some True else do {
          off \<leftarrow> SessionSetupResponseDecoder_SecurityBufferOffset r;
          len \<leftarrow> SessionSetupResponseDecoder_SecurityBufferLength r;
          Some (int (length r) < uint (off + len) - 64) } })"

definition SessionSetupResponseDecoder_SecurityBuffer :: "bytes \<Rightarrow> bytes option" where
  "SessionSetupResponseDecoder_SecurityBuffer r = do {
     off \<leftarrow> SessionSetupResponseDecoder_SecurityBufferOffset r;
     if off < 8 + 64 then Some [] else do {
       let off = off - 64;
       len \<leftarrow> SessionSetupResponseDecoder_SecurityBufferLength r;
       go_slice r (unat off) (unat (off + len)) } }"

record LogoffResponse =
  LogoffResponse_Header :: PacketHeader

definition LogoffResponse_Size :: "LogoffResponse \<Rightarrow> nat" where
  "LogoffResponse_Size c = 64 + 4"

definition LogoffResponse_body :: "LogoffResponse \<Rightarrow> writer" where
  "LogoffResponse_body c = writes [
     put16 0 4]"

definition LogoffResponse_Encode :: "LogoffResponse \<Rightarrow> writer" where
  "LogoffResponse_Encode c = writes [
     encodeHeader (LogoffResponse_Header c\<lparr>hdr_Command := SMB2_LOGOFF\<rparr>),
     on_from 64 (LogoffResponse_body c)]"

definition LogoffResponseDecoder_StructureSize :: "bytes \<Rightarrow> u16 option" where
  "LogoffResponseDecoder_StructureSize r = u16_at r 0"

definition LogoffResponseDecoder_IsInvalid :: "bytes \<Rightarrow> bool option" where
  "LogoffResponseDecoder_IsInvalid r =
     (if length r < 4 then Some True
      else do {
        ss \<leftarrow> LogoffResponseDecoder_StructureSize r;
        if ss \<noteq> 4 then Some True else Some False })"

record TreeConnectResponse =
  TreeConnectResponse_Header :: PacketHeader
  TreeConnectResponse_ShareType :: u8
  TreeConnectResponse_ShareFlags :: u32
  TreeConnectResponse_Capabilities :: u32
  TreeConnectResponse_MaximalAccess :: u32

definition TreeConnectResponse_Size :: "TreeConnectResponse \<Rightarrow> nat" where
  "TreeConnectResponse_Size c = 64 + 16"

definition TreeConnectResponse_body :: "TreeConnectResponse \<Rightarrow> writer" where
  "TreeConnectResponse_body c = writes [
     put16 0 16,
     put8 2 (TreeConnectResponse_ShareType c),
     put32 4 (TreeConnectResponse_ShareFlags c),
     put32 8 (TreeConnectResponse_Capabilities c),
     put32 12 (TreeConnectResponse_MaximalAccess c)]"

definition TreeConnectResponse_Encode :: "TreeConnectResponse \<Rightarrow> writer" where
  "TreeConnectResponse_Encode c = writes [
     encodeHeader (TreeConnectResponse_Header c\<lparr>hdr_Command := SMB2_TREE_CONNECT\<rparr>),
     on_from 64 (TreeConnectResponse_body c)]"

definition TreeConnectResponseDecoder_StructureSize :: "bytes \<Rightarrow> u16 option" where
  "TreeConnectResponseDecoder_StructureSize r = u16_at r 0"

definition TreeConnectResponseDecoder_ShareType :: "bytes \<Rightarrow> u8 option" where
  "TreeConnectResponseDecoder_ShareType r = u8_at r 2"

definition TreeConnectResponseDecoder_ShareFlags :: "bytes \<Rightarrow> u32 option" where
  "TreeConnectResponseDecoder_ShareFlags r = u32_at r 4"

definition TreeConnectResponseDecoder_Capabilities :: "bytes \<Rightarrow> u32 option" where
  "TreeConnectResponseDecoder_Capabilities r = u32_at r 8"

definition TreeConnectResponseDecoder_MaximalAccess :: "bytes \<Rightarrow> u32 option" where
  "TreeConnectResponseDecoder_MaximalAccess r = u32_at r 12"

definition TreeConnectResponseDecoder_IsInvalid :: "bytes \<Rightarrow> bool option" where
  "TreeConnectResponseDecoder_IsInvalid r =
     (if length r < 16 then Some True
      else do {
        ss \<leftarrow> TreeConnectResponseDecoder_StructureSize r;
        if ss \<noteq> 16 then Some True else Some False })"

record TreeDisconnectResponse =
  TreeDisconnectResponse_Header :: PacketHeader

definition TreeDisconnectResponse_Size :: "TreeDisconnectResponse \<Rightarrow> nat" where
  "TreeDisconnectResponse_Size c = 4 + 64"

definition TreeDisconnectResponse_body :: "TreeDisconnectResponse \<Rightarrow> writer" where
  "TreeDisconnectResponse_body c = writes [
     put16 0 4]"

definition TreeDisconnectResponse_Encode :: "TreeDisconnectResponse \<Rightarrow> writer" where
  "TreeDisconnectResponse_Encode c = writes [
     encodeHeader (TreeDisconnectResponse_Header c\<lparr>hdr_Command := SMB2_TREE_DISCONNECT\<rparr>),
     on_from 64 (TreeDisconnectResponse_body c)]"

definition TreeDisconnectResponseDecoder_StructureSize :: "bytes \<Rightarrow> u16 option" where
  "TreeDisconnectResponseDecoder_StructureSize r = u16_at r 0"

definition TreeDisconnectResponseDecoder_IsInvalid :: "bytes \<Rightarrow> bool option" where
  "TreeDisconnectResponseDecoder_IsInvalid r =
     (if length r < 4 then Some True
      else do {
        ss \<leftarrow> TreeDisconnectResponseDecoder_StructureSize r;
        if ss \<noteq> 4 then Some True else Some False })"

record CreateResponse =
  CreateResponse_Header :: PacketHeader
  CreateResponse_OplockLevel :: u8
  CreateResponse_RspFlags :: u8
  CreateResponse_CreateAction :: u32
  CreateResponse_CreationTime :: "Filetime option"
  CreateResponse_LastAccessTime :: "Filetime option"
  CreateResponse_LastWriteTime :: "Filetime option"
  CreateResponse_ChangeTime :: "Filetime option"
  CreateResponse_AllocationSize :: u64
  CreateResponse_EndofFile :: u64
  CreateResponse_FileAttributes :: u32
  CreateResponse_FileId :: "FileId option"
  CreateResponse_Contexts :: "encoder list"

definition CreateResponse_Size :: "CreateResponse \<Rightarrow> nat" where
  "CreateResponse_Size c =
     (if length (CreateResponse_Contexts c) = 0 then 64 + 88 + 1
      else items8_end (64 + 88) (CreateResponse_Contexts c))"

fun CreateResponse_body_loop :: "nat option \<Rightarrow> nat \<Rightarrow> encoder list \<Rightarrow> writer" where
  "CreateResponse_body_loop prev off [] = Some"
| "CreateResponse_body_loop prev off (c # cs) =
     (let off = Roundup off 8 in
      writes [
        (case prev of
           None \<Rightarrow> put32 80 (of_nat (64 + off))
         | Some ctxOff \<Rightarrow> put32 ctxOff (of_nat (off - ctxOff))),
        on_from off (enc_Encode c),
        CreateResponse_body_loop (Some off) (off + enc_Size c) cs])"

text \<open>\<open>if t != nil { t.Encode(res[a:a+8]) }\<close>\<close>

definition opt_time :: "nat \<Rightarrow> Filetime option \<Rightarrow> writer" where
  "opt_time a t = (case t of None \<Rightarrow> Some | Some t \<Rightarrow> on_slice a (a + 8) (Filetime_Encode t))"

definition CreateResponse_body :: "CreateResponse \<Rightarrow> writer" where
  "CreateResponse_body c =
     (let off = items8_end 88 (CreateResponse_Contexts c);
          firstCtxOff = (if CreateResponse_Contexts c = [] then 0 else Roundup 88 8) in
      writes [
        put16 0 89,
        put8 2 (CreateResponse_OplockLevel c),
        put8 3 (CreateResponse_RspFlags c),
        put32 4 (CreateResponse_CreateAction c),
        opt_time 8 (CreateResponse_CreationTime c),
        opt_time 16 (CreateResponse_LastAccessTime c),
        opt_time 24 (CreateResponse_LastWriteTime c),
        opt_time 32 (CreateResponse_ChangeTime c),
        put64 40 (CreateResponse_AllocationSize c),
        put64 48 (CreateResponse_EndofFile c),
        put32 56 (CreateResponse_FileAttributes c),
        on_slice 64 80 (FileId_Encode (CreateResponse_FileId c)),
        CreateResponse_body_loop None 88 (CreateResponse_Contexts c),
        when_w (firstCtxOff \<noteq> 0) (put32 84 (of_nat (off - firstCtxOff)))])"

definition CreateResponse_Encode :: "CreateResponse \<Rightarrow> writer" where
  "CreateResponse_Encode c = writes [
     encodeHeader (CreateResponse_Header c\<lparr>hdr_Command := SMB2_CREATE\<rparr>),
     on_from 64 (CreateResponse_body c)]"

definition CreateResponseDecoder_StructureSize :: "bytes \<Rightarrow> u16 option" where
  "CreateResponseDecoder_StructureSize r = u16_at r 0"

definition CreateResponseDecoder_OplockLevel :: "bytes \<Rightarrow> u8 option" where
  "CreateResponseDecoder_OplockLevel r = u8_at r 2"

definition CreateResponseDecoder_Flags :: "bytes \<Rightarrow> u8 option" where
  "CreateResponseDecoder_Flags r = u8_at r 3"

definition CreateResponseDecoder_CreateAction :: "bytes \<Rightarrow> u32 option" where
  "CreateResponseDecoder_CreateAction r = u32_at r 4"

definition CreateResponseDecoder_CreationTime :: "bytes \<Rightarrow> bytes option" where
  "CreateResponseDecoder_CreationTime r = go_slice r 8 16"

definition CreateResponseDecoder_LastAccessTime :: "bytes \<Rightarrow> bytes option" where
  "CreateResponseDecoder_LastAccessTime r = go_slice r 16 24"

definition CreateResponseDecoder_LastWriteTime :: "bytes \<Rightarrow> bytes option" where
  "CreateResponseDecoder_LastWriteTime r = go_slice r 24 32"

definition CreateResponseDecoder_ChangeTime :: "bytes \<Rightarrow> bytes option" where
  "CreateResponseDecoder_ChangeTime r = go_slice r 32 40"

definition CreateResponseDecoder_AllocationSize :: "bytes \<Rightarrow> u64 option" where
  "CreateResponseDecoder_AllocationSize r = u64_at r 40"

definition CreateResponseDecoder_EndofFile :: "bytes \<Rightarrow> u64 option" where
  "CreateResponseDecoder_EndofFile r = u64_at r 48"

definition CreateResponseDecoder_FileAttributes :: "bytes \<Rightarrow> u32 option" where
  "CreateResponseDecoder_FileAttributes r = u32_at r 56"

definition CreateResponseDecoder_FileId :: "bytes \<Rightarrow> bytes option" where
  "CreateResponseDecoder_FileId r = go_slice r 64 80"

definition CreateResponseDecoder_CreateContextsOffset :: "bytes \<Rightarrow> u32 option" where
  "CreateResponseDecoder_CreateContextsOffset r = u32_at r 80"

definition CreateResponseDecoder_CreateContextsLength :: "bytes \<Rightarrow> u32 option" where
  "CreateResponseDecoder_CreateContextsLength r = u32_at r 84"

definition CreateResponseDecoder_IsInvalid :: "bytes \<Rightarrow> bool option" where
  "CreateResponseDecoder_IsInvalid r =
     (if length r < 88 then Some True
      else do {
        ss \<leftarrow> CreateResponseDecoder_StructureSize r;
        if ss \<noteq> 89 then Some True else do {
          coff \<leftarrow> CreateResponseDecoder_CreateContextsOffset r;
          if coff AND 7 \<noteq> 0 then Some True else do {
            clen \<leftarrow> CreateResponseDecoder_CreateContextsLength r;
            Some (int (length r) < uint (coff + clen) - 64) } } })"

definition CreateResponseDecoder_CreateContexts :: "bytes \<Rightarrow> bytes option" where
  "CreateResponseDecoder_CreateContexts r = do {
     off \<leftarrow> CreateResponseDecoder_CreateContextsOffset r;
     if off < 88 + 64 then Some [] else do {
       let off = off - 64;
       len \<leftarrow> CreateResponseDecoder_CreateContextsLength r;
       go_slice r (unat off) (unat (off + len)) } }"

record CreateContext =
  CreateContext_Name :: go_string
  CreateContext_Data :: encoder

definition CreateContext_Size :: "CreateContext \<Rightarrow> nat" where
  "CreateContext_Size r = Roundup (16 + length (CreateContext_Name r)) 8 + enc_Size (CreateContext_Data r)"

definition CreateContext_Encode :: "CreateContext \<Rightarrow> writer" where
  "CreateContext_Encode r =
     (let off = Roundup (16 + length (CreateContext_Name r)) 8 in
      writes [
        put16 4 16,
        put16 6 (of_nat (length (CreateContext_Name r))),
        put16 10 (of_nat off),
        put32 12 (of_nat (enc_Size (CreateContext_Data r))),
        copy_from 16 (CreateContext_Name r),
        on_from off (enc_Encode (CreateContext_Data r))])"

record CreateContextMaximalAccessResponse =
  CreateContextMaximalAccessResponse_QueryStatus :: u32
  CreateContextMaximalAccessResponse_MaximalAccess :: u32

definition CreateContextMaximalAccessResponse_Size :: "CreateContextMaximalAccessResponse \<Rightarrow> nat" where
  "CreateContextMaximalAccessResponse_Size r = 8"

definition CreateContextMaximalAccessResponse_Encode :: "CreateContextMaximalAccessResponse \<Rightarrow> writer" where
  "CreateContextMaximalAccessResponse_Encode r = writes [
     put32 0 (CreateContextMaximalAccessResponse_QueryStatus r),
     put32 4 (CreateContextMaximalAccessResponse_MaximalAccess r)]"

record CloseResponse =
  CloseResponse_Header :: PacketHeader
  CloseResponse_CloseFlags :: u16
  CloseResponse_CreationTime :: "Filetime option"
  CloseResponse_LastAccessTime :: "Filetime option"
  CloseResponse_LastWriteTime :: "Filetime option"
  CloseResponse_ChangeTime :: "Filetime option"
  CloseResponse_AllocationSize :: u64
  CloseResponse_EndofFile :: u64
  CloseResponse_FileAttributes :: u32

definition CloseResponse_Size :: "CloseResponse \<Rightarrow> nat" where
  "CloseResponse_Size c = 64 + 60"

definition CloseResponse_body :: "CloseResponse \<Rightarrow> writer" where
  "CloseResponse_body c = writes [
        put16 0 60,
        put16 2 (CloseResponse_CloseFlags c),
        opt_time 8 (CloseResponse_CreationTime c),
        opt_time 16 (CloseResponse_LastAccessTime c),
        opt_time 24 (CloseResponse_LastWriteTime c),
        opt_time 32 (CloseResponse_ChangeTime c),
        put64 40 (CloseResponse_AllocationSize c),
        put64 48 (CloseResponse_EndofFile c),
        put32 56 (CloseResponse_FileAttributes c)]"

definition CloseResponse_Encode :: "CloseResponse \<Rightarrow> writer" where
  "CloseResponse_Encode c = writes [
     encodeHeader (CloseResponse_Header c\<lparr>hdr_Command := SMB2_CLOSE\<rparr>),
     on_from 64 (CloseResponse_body c)]"

definition CloseResponseDecoder_StructureSize :: "bytes \<Rightarrow> u16 option" where
  "CloseResponseDecoder_StructureSize r = u16_at r 0"

definition CloseResponseDecoder_Flags :: "bytes \<Rightarrow> u16 option" where
  "CloseResponseDecoder_Flags r = u16_at r 2"

definition CloseResponseDecoder_CreationTime :: "bytes \<Rightarrow> bytes option" where
  "CloseResponseDecoder_CreationTime r = go_slice r 8 16"

definition CloseResponseDecoder_LastAccessTime :: "bytes \<Rightarrow> bytes option" where
  "CloseResponseDecoder_LastAccessTime r = go_slice r 16 24"

definition CloseResponseDecoder_LastWriteTime :: "bytes \<Rightarrow> bytes option" where
  "CloseResponseDecoder_LastWriteTime r = go_slice r 24 32"

definition CloseResponseDecoder_ChangeTime :: "bytes \<Rightarrow> bytes option" where
  "CloseResponseDecoder_ChangeTime r = go_slice r 32 40"

definition CloseResponseDecoder_AllocationSize :: "bytes \<Rightarrow> u64 option" where
  "CloseResponseDecoder_AllocationSize r = u64_at r 40"

definition CloseResponseDecoder_EndofFile :: "bytes \<Rightarrow> u64 option" where
  "CloseResponseDecoder_EndofFile r = u64_at r 48"

definition CloseResponseDecoder_FileAttributes :: "bytes \<Rightarrow> u32 option" where
  "CloseResponseDecoder_FileAttributes r = u32_at r 56"

definition CloseResponseDecoder_IsInvalid :: "bytes \<Rightarrow> bool option" where
  "CloseResponseDecoder_IsInvalid r =
     (if length r < 60 then Some True
      else do {
        ss \<leftarrow> CloseResponseDecoder_StructureSize r;
        if ss \<noteq> 60 then Some True else Some False })"

record FlushResponse =
  FlushResponse_Header :: PacketHeader

definition FlushResponse_Size :: "FlushResponse \<Rightarrow> nat" where
  "FlushResponse_Size c = 64 + 4"

definition FlushResponse_body :: "FlushResponse \<Rightarrow> writer" where
  "FlushResponse_body c = writes [
     put16 0 4]"

definition FlushResponse_Encode :: "FlushResponse \<Rightarrow> writer" where
  "FlushResponse_Encode c = writes [
     encodeHeader (FlushResponse_Header c\<lparr>hdr_Command := SMB2_FLUSH\<rparr>),
     on_from 64 (FlushResponse_body c)]"

definition FlushResponseDecoder_StructureSize :: "bytes \<Rightarrow> u16 option" where
  "FlushResponseDecoder_StructureSize r = u16_at r 0"

definition FlushResponseDecoder_IsInvalid :: "bytes \<Rightarrow> bool option" where
  "FlushResponseDecoder_IsInvalid r =
     (if length r < 4 then Some True
      else do {
        ss \<leftarrow> FlushResponseDecoder_StructureSize r;
        if ss \<noteq> 4 then Some True else Some False })"

record ReadResponse =
  ReadResponse_Header :: PacketHeader
  ReadResponse_Data :: bytes
  ReadResponse_DataRemaining :: u32

definition ReadResponse_Size :: "ReadResponse \<Rightarrow> nat" where
  "ReadResponse_Size c =
     (if length (ReadResponse_Data c) = 0 then 64 + 16 + 1 else 64 + 16 + length (ReadResponse_Data c))"

definition ReadResponse_body :: "ReadResponse \<Rightarrow> writer" where
  "ReadResponse_body c = writes [
     put16 0 17,
     put8 2 (16 + 64),
     copy_from 16 (ReadResponse_Data c),
     put32 4 (of_nat (length (ReadResponse_Data c))),
     put32 8 (ReadResponse_DataRemaining c)]"

definition ReadResponse_Encode :: "ReadResponse \<Rightarrow> writer" where
  "ReadResponse_Encode c = writes [
     encodeHeader (ReadResponse_Header c\<lparr>hdr_Command := SMB2_READ\<rparr>),
     on_from 64 (ReadResponse_body c)]"

definition ReadResponseDecoder_StructureSize :: "bytes \<Rightarrow> u16 option" where
  "ReadResponseDecoder_StructureSize r = u16_at r 0"

definition ReadResponseDecoder_DataOffset :: "bytes \<Rightarrow> u8 option" where
  "ReadResponseDecoder_DataOffset r = u8_at r 2"

definition ReadResponseDecoder_DataLength :: "bytes \<Rightarrow> u32 option" where
  "ReadResponseDecoder_DataLength r = u32_at r 4"

definition ReadResponseDecoder_DataRemaining :: "bytes \<Rightarrow> u32 option" where
  "ReadResponseDecoder_DataRemaining r = u32_at r 8"

definition ReadResponseDecoder_IsInvalid :: "bytes \<Rightarrow> bool option" where
  "ReadResponseDecoder_IsInvalid r =
     (if length r < 16 then Some True
      else do {
        ss \<leftarrow> ReadResponseDecoder_StructureSize r;
        if ss \<noteq> 17 then Some True else do {
          off \<leftarrow> ReadResponseDecoder_DataOffset r;
          len \<leftarrow> ReadResponseDecoder_DataLength r;
          Some (int (length r) < uint (ucast off + len) - 64) } })"

definition ReadResponseDecoder_Data :: "bytes \<Rightarrow> bytes option" where
  "ReadResponseDecoder_Data r = do {
     off \<leftarrow> ReadResponseDecoder_DataOffset r;
     if off < 16 + 64 then Some [] else do {
       let off = off - 64;
       len \<leftarrow> ReadResponseDecoder_DataLength r;
       go_slice r (unat off) (unat (ucast off + len)) } }"

record WriteResponse =
  WriteResponse_Header :: PacketHeader
  WriteResponse_Count :: u32
  WriteResponse_Remaining :: u32

definition WriteResponse_Size :: "WriteResponse \<Rightarrow> nat" where
  "WriteResponse_Size c = 64 + 16 + 1"

definition WriteResponse_body :: "WriteResponse \<Rightarrow> writer" where
  "WriteResponse_body c = writes [
     put16 0 17,
     put32 4 (WriteResponse_Count c),
     put32 8 (WriteResponse_Remaining c)]"

definition WriteResponse_Encode :: "WriteResponse \<Rightarrow> writer" where
  "WriteResponse_Encode c = writes [
     encodeHeader (WriteResponse_Header c\<lparr>hdr_Command := SMB2_WRITE\<rparr>),
     on_from 64 (WriteResponse_body c)]"

definition WriteResponseDecoder_StructureSize :: "bytes \<Rightarrow> u16 option" where
  "WriteResponseDecoder_StructureSize r = u16_at r 0"

definition WriteResponseDecoder_Count :: "bytes \<Rightarrow> u32 option" where
  "WriteResponseDecoder_Count r = u32_at r 4"

definition WriteResponseDecoder_Remaining :: "bytes \<Rightarrow> u32 option" where
  "WriteResponseDecoder_Remaining r = u32_at r 8"

definition WriteResponseDecoder_WriteChannelInfoOffset :: "bytes \<Rightarrow> u16 option" where
  "WriteResponseDecoder_WriteChannelInfoOffset r = u16_at r 12"

definition WriteResponseDecoder_WriteChannelInfoLength :: "bytes \<Rightarrow> u16 option" where
  "WriteResponseDecoder_WriteChannelInfoLength r = u16_at r 14"

definition WriteResponseDecoder_IsInvalid :: "bytes \<Rightarrow> bool option" where
  "WriteResponseDecoder_IsInvalid r =
     (if length r < 16 then Some True
      else do {
        ss \<leftarrow> WriteResponseDecoder_StructureSize r;
        if ss \<noteq> 17 then Some True else Some False })"

record LockResponse =
  LockResponse_Header :: PacketHeader

definition LockResponse_Size :: "LockResponse \<Rightarrow> nat" where
  "LockResponse_Size c = 64 + 4"

definition LockResponse_body :: "LockResponse \<Rightarrow> writer" where
  "LockResponse_body c = writes [
     put16 0 4,
     put16 2 0]"

definition LockResponse_Encode :: "LockResponse \<Rightarrow> writer" where
  "LockResponse_Encode c = writes [
     encodeHeader (LockResponse_Header c\<lparr>hdr_Command := SMB2_LOCK\<rparr>),
     on_from 64 (LockResponse_body c)]"

record EchoResponse =
  EchoResponse_Header :: PacketHeader

definition EchoResponse_Size :: "EchoResponse \<Rightarrow> nat" where
  "EchoResponse_Size c = 64 + 4"

definition EchoResponse_body :: "EchoResponse \<Rightarrow> writer" where
  "EchoResponse_body c = writes [
     put16 0 4,
     put16 2 0]"

definition EchoResponse_Encode :: "EchoResponse \<Rightarrow> writer" where
  "EchoResponse_Encode c = writes [
     encodeHeader (EchoResponse_Header c\<lparr>hdr_Command := SMB2_ECHO\<rparr>),
     on_from 64 (EchoResponse_body c)]"

record IoctlResponse =
  IoctlResponse_Header :: PacketHeader
  IoctlResponse_CtlCode :: u32
  IoctlResponse_FileId :: "FileId option"
  IoctlResponse_Flags2 :: u32
  IoctlResponse_Input :: "encoder option"
  IoctlResponse_Output :: "encoder option"

definition IoctlResponse_Size :: "IoctlResponse \<Rightarrow> nat" where
  "IoctlResponse_Size c =
     (if IoctlResponse_Input c = None \<and> IoctlResponse_Output c = None then 64 + 48 + 1
      else 64 + 48 + (case IoctlResponse_Input c of None \<Rightarrow> 0 | Some e \<Rightarrow> enc_Size e)
                   + (case IoctlResponse_Output c of None \<Rightarrow> 0 | Some e \<Rightarrow> enc_Size e))"

definition IoctlResponse_body :: "IoctlResponse \<Rightarrow> writer" where
  "IoctlResponse_body c =
     (let off = 48 + (case IoctlResponse_Input c of None \<Rightarrow> 0 | Some e \<Rightarrow> enc_Size e) in
      writes [
        put16 0 49,
        put32 4 (IoctlResponse_CtlCode c),
        on_slice 8 24 (FileId_Encode (IoctlResponse_FileId c)),
        put32 40 (IoctlResponse_Flags2 c),
        (case IoctlResponse_Input c of
           None \<Rightarrow> Some
         | Some e \<Rightarrow> writes [put32 24 (48 + 64), on_from 48 (enc_Encode e), put32 28 (of_nat (enc_Size e))]),
        (case IoctlResponse_Output c of
           None \<Rightarrow> Some
         | Some e \<Rightarrow> writes [put32 32 (of_nat (off + 64)), on_from off (enc_Encode e), put32 36 (of_nat (enc_Size e))])])"

definition IoctlResponse_Encode :: "IoctlResponse \<Rightarrow> writer" where
  "IoctlResponse_Encode c = writes [
     encodeHeader (IoctlResponse_Header c\<lparr>hdr_Command := SMB2_IOCTL\<rparr>),
     on_from 64 (IoctlResponse_body c)]"

definition IoctlResponseDecoder_StructureSize :: "bytes \<Rightarrow> u16 option" where
  "IoctlResponseDecoder_StructureSize r = u16_at r 0"

definition IoctlResponseDecoder_CtlCode :: "bytes \<Rightarrow> u32 option" where
  "IoctlResponseDecoder_CtlCode r = u32_at r 4"

definition IoctlResponseDecoder_FileId :: "bytes \<Rightarrow> bytes option" where
  "IoctlResponseDecoder_FileId r = go_slice r 8 24"

definition IoctlResponseDecoder_InputOffset :: "bytes \<Rightarrow> u32 option" where
  "IoctlResponseDecoder_InputOffset r = u32_at r 24"

definition IoctlResponseDecoder_InputCount :: "bytes \<Rightarrow> u32 option" where
  "IoctlResponseDecoder_InputCount r = u32_at r 28"

definition IoctlResponseDecoder_OutputOffset :: "bytes \<Rightarrow> u32 option" where
  "IoctlResponseDecoder_OutputOffset r = u32_at r 32"

definition IoctlResponseDecoder_OutputCount :: "bytes \<Rightarrow> u32 option" where
  "IoctlResponseDecoder_OutputCount r = u32_at r 36"

definition IoctlResponseDecoder_Flags :: "bytes \<Rightarrow> u32 option" where
  "IoctlResponseDecoder_Flags r = u32_at r 40"

definition IoctlResponseDecoder_IsInvalid :: "bytes \<Rightarrow> bool option" where
  "IoctlResponseDecoder_IsInvalid r =
     (if length r < 48 then Some True
      else do {
        ss \<leftarrow> IoctlResponseDecoder_StructureSize r;
        if ss \<noteq> 49 then Some True else do {
          ioff \<leftarrow> IoctlResponseDecoder_InputOffset r;
          ilen \<leftarrow> IoctlResponseDecoder_InputCount r;
          if int (length r) < uint (ioff + ilen) - 64 then Some True else do {
            ooff \<leftarrow> IoctlResponseDecoder_OutputOffset r;
            olen \<leftarrow> IoctlResponseDecoder_OutputCount r;
            Some (int (length r) < uint (ooff + olen) - 64) } } })"

definition IoctlResponseDecoder_Input :: "bytes \<Rightarrow> bytes option" where
  "IoctlResponseDecoder_Input r = do {
     off \<leftarrow> IoctlResponseDecoder_InputOffset r;
     if off < 64 + 48 then Some [] else do {
       let off = off - 64;
       len \<leftarrow> IoctlResponseDecoder_InputCount r;
       go_slice r (unat off) (unat (off + len)) } }"

definition IoctlResponseDecoder_Output :: "bytes \<Rightarrow> bytes option" where
  "IoctlResponseDecoder_Output r = do {
     off \<leftarrow> IoctlResponseDecoder_OutputOffset r;
     if off < 64 + 48 then Some [] else do {
       let off = off - 64;
       len \<leftarrow> IoctlResponseDecoder_OutputCount r;
       go_slice r (unat off) (unat (off + len)) } }"

record QueryDirectoryResponse =
  QueryDirectoryResponse_Header :: PacketHeader
  QueryDirectoryResponse_Output :: "encoder option"

definition QueryDirectoryResponse_Size :: "QueryDirectoryResponse \<Rightarrow> nat" where
  "QueryDirectoryResponse_Size c = (case QueryDirectoryResponse_Output c of None \<Rightarrow> 64 + 8 + 1 | Some e \<Rightarrow> 64 + 8 + enc_Size e)"

definition QueryDirectoryResponse_body :: "QueryDirectoryResponse \<Rightarrow> writer" where
  "QueryDirectoryResponse_body c = writes [
     put16 0 9,
     (case QueryDirectoryResponse_Output c of
        None \<Rightarrow> Some
      | Some e \<Rightarrow> writes [put16 2 (8 + 64), on_from 8 (enc_Encode e), put32 4 (of_nat (enc_Size e))])]"

definition QueryDirectoryResponse_Encode :: "QueryDirectoryResponse \<Rightarrow> writer" where
  "QueryDirectoryResponse_Encode c = writes [
     encodeHeader (QueryDirectoryResponse_Header c\<lparr>hdr_Command := SMB2_QUERY_DIRECTORY\<rparr>),
     on_from 64 (QueryDirectoryResponse_body c)]"

definition QueryDirectoryResponseDecoder_StructureSize :: "bytes \<Rightarrow> u16 option" where
  "QueryDirectoryResponseDecoder_StructureSize r = u16_at r 0"

definition QueryDirectoryResponseDecoder_OutputBufferOffset :: "bytes \<Rightarrow> u16 option" where
  "QueryDirectoryResponseDecoder_OutputBufferOffset r = u16_at r 2"

definition QueryDirectoryResponseDecoder_OutputBufferLength :: "bytes \<Rightarrow> u32 option" where
  "QueryDirectoryResponseDecoder_OutputBufferLength r = u32_at r 4"

definition QueryDirectoryResponseDecoder_IsInvalid :: "bytes \<Rightarrow> bool option" where
  "QueryDirectoryResponseDecoder_IsInvalid r =
     (if length r < 8 then Some True
      else do {
        ss \<leftarrow> QueryDirectoryResponseDecoder_StructureSize r;
        if ss \<noteq> 9 then Some True else do {
          off \<leftarrow> QueryDirectoryResponseDecoder_OutputBufferOffset r;
          len \<leftarrow> QueryDirectoryResponseDecoder_OutputBufferLength r;
          Some (int (length r) < uint (ucast off + len) - 64) } })"

definition QueryDirectoryResponseDecoder_OutputBuffer :: "bytes \<Rightarrow> bytes option" where
  "QueryDirectoryResponseDecoder_OutputBuffer r = do {
     off \<leftarrow> QueryDirectoryResponseDecoder_OutputBufferOffset r;
     if off < 64 + 8 then Some [] else do {
       let off = off - 64;
       len \<leftarrow> QueryDirectoryResponseDecoder_OutputBufferLength r;
       go_slice r (unat off) (unat (ucast off + len)) } }"

record QueryInfoResponse =
  QueryInfoResponse_Header :: PacketHeader
  QueryInfoResponse_Output :: "encoder option"

definition QueryInfoResponse_Size :: "QueryInfoResponse \<Rightarrow> nat" where
  "QueryInfoResponse_Size c = (case QueryInfoResponse_Output c of None \<Rightarrow> 64 + 8 + 1 | Some e \<Rightarrow> 64 + 8 + enc_Size e)"

definition QueryInfoResponse_body :: "QueryInfoResponse \<Rightarrow> writer" where
  "QueryInfoResponse_body c = writes [
     put16 0 9,
     (case QueryInfoResponse_Output c of
        None \<Rightarrow> Some
      | Some e \<Rightarrow> writes [put16 2 (8 + 64), on_from 8 (enc_Encode e), put32 4 (of_nat (enc_Size e))])]"

definition QueryInfoResponse_Encode :: "QueryInfoResponse \<Rightarrow> writer" where
  "QueryInfoResponse_Encode c = writes [
     encodeHeader (QueryInfoResponse_Header c\<lparr>hdr_Command := SMB2_QUERY_INFO\<rparr>),
     on_from 64 (QueryInfoResponse_body c)]"

definition QueryInfoResponseDecoder_StructureSize :: "bytes \<Rightarrow> u16 option" where
  "QueryInfoResponseDecoder_StructureSize r = u16_at r 0"

definition QueryInfoResponseDecoder_OutputBufferOffset :: "bytes \<Rightarrow> u16 option" where
  "QueryInfoResponseDecoder_OutputBufferOffset r = u16_at r 2"

definition QueryInfoResponseDecoder_OutputBufferLength :: "bytes \<Rightarrow> u32 option" where
  "QueryInfoResponseDecoder_OutputBufferLength r = u32_at r 4"

definition QueryInfoResponseDecoder_IsInvalid :: "bytes \<Rightarrow> bool option" where
  "QueryInfoResponseDecoder_IsInvalid r =
     (if length r < 8 then Some True
      else do {
        ss \<leftarrow> QueryInfoResponseDecoder_StructureSize r;
        if ss \<noteq> 9 then Some True else do {
          off \<leftarrow> QueryInfoResponseDecoder_OutputBufferOffset r;
          len \<leftarrow> QueryInfoResponseDecoder_OutputBufferLength r;
          Some (int (length r) < uint (ucast off + len) - 64) } })"

definition QueryInfoResponseDecoder_OutputBuffer :: "bytes \<Rightarrow> bytes option" where
  "QueryInfoResponseDecoder_OutputBuffer r = do {
     off \<leftarrow> QueryInfoResponseDecoder_OutputBufferOffset r;
     if off < 64 + 8 then Some [] else do {
       let off = off - 64;
       len \<leftarrow> QueryInfoResponseDecoder_OutputBufferLength r;
       go_slice r (unat off) (unat (ucast off + len)) } }"

record SetInfoResponse =
  SetInfoResponse_Header :: PacketHeader

definition SetInfoResponse_Size :: "SetInfoResponse \<Rightarrow> nat" where
  "SetInfoResponse_Size c = 64 + 2"

definition SetInfoResponse_body :: "SetInfoResponse \<Rightarrow> writer" where
  "SetInfoResponse_body c = writes [
     put16 0 2]"

definition SetInfoResponse_Encode :: "SetInfoResponse \<Rightarrow> writer" where
  "SetInfoResponse_Encode c = writes [
     encodeHeader (SetInfoResponse_Header c\<lparr>hdr_Command := SMB2_SET_INFO\<rparr>),
     on_from 64 (SetInfoResponse_body c)]"

definition SetInfoResponseDecoder_StructureSize :: "bytes \<Rightarrow> u16 option" where
  "SetInfoResponseDecoder_StructureSize r = u16_at r 0"

definition SetInfoResponseDecoder_IsInvalid :: "bytes \<Rightarrow> bool option" where
  "SetInfoResponseDecoder_IsInvalid r =
     (if length r < 2 then Some True
      else do {
        ss \<leftarrow> SetInfoResponseDecoder_StructureSize r;
        if ss \<noteq> 2 then Some True else Some False })"

record ChangeNotifyResponse =
  ChangeNotifyResponse_Header :: PacketHeader
  ChangeNotifyResponse_Output :: "encoder option"

definition ChangeNotifyResponse_Size :: "ChangeNotifyResponse \<Rightarrow> nat" where
  "ChangeNotifyResponse_Size c = (case ChangeNotifyResponse_Output c of None \<Rightarrow> 64 + 8 + 1 | Some e \<Rightarrow> 64 + 8 + enc_Size e)"

definition ChangeNotifyResponse_body :: "ChangeNotifyResponse \<Rightarrow> writer" where
  "ChangeNotifyResponse_body c = writes [
     put16 0 9,
     (case ChangeNotifyResponse_Output c of
        None \<Rightarrow> Some
      | Some e \<Rightarrow> writes [put16 2 (8 + 64), on_from 8 (enc_Encode e), put32 4 (of_nat (enc_Size e))])]"

definition ChangeNotifyResponse_Encode :: "ChangeNotifyResponse \<Rightarrow> writer" where
  "ChangeNotifyResponse_Encode c = writes [
     encodeHeader (ChangeNotifyResponse_Header c\<lparr>hdr_Command := SMB2_CHANGE_NOTIFY\<rparr>),
     on_from 64 (ChangeNotifyResponse_body c)]"

record AAPLServerQueryResponse =
  AAPLServerQueryResponse_CommandCode :: u32
  AAPLServerQueryResponse_Reserved :: u32
  AAPLServerQueryResponse_ReplyBitmap :: u64
  AAPLServerQueryResponse_ServerCaps :: u64
  AAPLServerQueryResponse_VolumeCaps :: u64
  AAPLServerQueryResponse_ModelString :: go_string

definition AAPLServerQueryResponse_Size :: "AAPLServerQueryResponse \<Rightarrow> nat" where
  "AAPLServerQueryResponse_Size r = Roundup (40 + EncodedStringLen (AAPLServerQueryResponse_ModelString r)) 8"

definition AAPLServerQueryResponse_Encode :: "AAPLServerQueryResponse \<Rightarrow> writer" where
  "AAPLServerQueryResponse_Encode r = writes [
     put32 0 (AAPLServerQueryResponse_CommandCode r),
     put64 8 (AAPLServerQueryResponse_ReplyBitmap r),
     put64 16 (AAPLServerQueryResponse_ServerCaps r),
     put64 24 (AAPLServerQueryResponse_VolumeCaps r),
     put32 36 (of_nat (EncodedStringLen (AAPLServerQueryResponse_ModelString r))),
     on_from 40 (EncodeString (AAPLServerQueryResponse_ModelString r))]"

record DurableHandleResponse2 =
  DurableHandleResponse2_Timeout :: u32
  DurableHandleResponse2_Flags :: u32

definition DurableHandleResponse2_Size :: "DurableHandleResponse2 \<Rightarrow> nat" where
  "DurableHandleResponse2_Size r = 8"

definition DurableHandleResponse2_Encode :: "DurableHandleResponse2 \<Rightarrow> writer" where
  "DurableHandleResponse2_Encode r = writes [
     put32 0 (DurableHandleResponse2_Timeout r),
     put32 4 (DurableHandleResponse2_Flags r)]"

record LeaseResponse =
  LeaseResponse_LeaseKey :: bytes
  LeaseResponse_LeaseState :: u32
  LeaseResponse_LeaseFlags :: u32
  LeaseResponse_LeaseDuration :: u64

definition LeaseResponse_Size :: "LeaseResponse \<Rightarrow> nat" where
  "LeaseResponse_Size r = 32"

definition LeaseResponse_Encode :: "LeaseResponse \<Rightarrow> writer" where
  "LeaseResponse_Encode r = writes [
     copy_from 0 (LeaseResponse_LeaseKey r),
     put32 16 (LeaseResponse_LeaseState r),
     put32 20 (LeaseResponse_LeaseFlags r),
     put64 24 (LeaseResponse_LeaseDuration r)]"

record LeaseResponse2 =
  LeaseResponse2_LeaseResponse :: LeaseResponse
  LeaseResponse2_ParentLeaseKey :: bytes
  LeaseResponse2_Epoch :: u16

definition LeaseResponse2_Size :: "LeaseResponse2 \<Rightarrow> nat" where
  "LeaseResponse2_Size r = 52"

definition LeaseResponse2_Encode :: "LeaseResponse2 \<Rightarrow> writer" where
  "LeaseResponse2_Encode r = writes [
     LeaseResponse_Encode (LeaseResponse2_LeaseResponse r),
     copy_from 32 (LeaseResponse2_ParentLeaseKey r),
     put16 48 (LeaseResponse2_Epoch r)]"

record DiskIdResponse =
  DiskIdResponse_DiskFileId :: u64
  DiskIdResponse_VolumeId :: u64

definition DiskIdResponse_Size :: "DiskIdResponse \<Rightarrow> nat" where
  "DiskIdResponse_Size r = 32"

definition DiskIdResponse_Encode :: "DiskIdResponse \<Rightarrow> writer" where
  "DiskIdResponse_Encode r = writes [
     put64 0 (DiskIdResponse_DiskFileId r),
     put64 8 (DiskIdResponse_VolumeId r)]"


section \<open>\<open>oplock.go\<close>\<close>

record OplockBreakNotification =
  OplockBreakNotification_Header :: PacketHeader
  OplockBreakNotification_OplockLevel :: u8
  OplockBreakNotification_FileId :: "FileId option"

definition OplockBreakNotification_Size :: "OplockBreakNotification \<Rightarrow> nat" where
  "OplockBreakNotification_Size c = 64 + 24"

definition OplockBreakNotification_body :: "OplockBreakNotification \<Rightarrow> writer" where
  "OplockBreakNotification_body c = writes [
     put16 0 24,
     put8 2 (OplockBreakNotification_OplockLevel c),
     put8 3 0,
     put32 4 0,
     on_slice 8 24 (FileId_Encode (OplockBreakNotification_FileId c))]"

definition OplockBreakNotification_Encode :: "OplockBreakNotification \<Rightarrow> writer" where
  "OplockBreakNotification_Encode c = writes [
     encodeHeader (OplockBreakNotification_Header c\<lparr>hdr_Command := SMB2_OPLOCK_BREAK\<rparr>),
     on_from 64 (OplockBreakNotification_body c)]"

definition OplockBreakAcknowledgmentDecoder_StructureSize :: "bytes \<Rightarrow> u16 option" where
  "OplockBreakAcknowledgmentDecoder_StructureSize r = u16_at r 0"

definition OplockBreakAcknowledgmentDecoder_OplockLevel :: "bytes \<Rightarrow> u8 option" where
  "OplockBreakAcknowledgmentDecoder_OplockLevel r = u8_at r 2"

definition OplockBreakAcknowledgmentDecoder_FileId :: "bytes \<Rightarrow> bytes option" where
  "OplockBreakAcknowledgmentDecoder_FileId r = go_slice r 8 24"

definition OplockBreakAcknowledgmentDecoder_IsInvalid :: "bytes \<Rightarrow> bool option" where
  "OplockBreakAcknowledgmentDecoder_IsInvalid r =
     (if length r < 24 then Some True
      else do { ss \<leftarrow> OplockBreakAcknowledgmentDecoder_StructureSize r; Some (ss \<noteq> 24) })"

definition LeaseBreakNotificationDecoder_StructureSize :: "bytes \<Rightarrow> u16 option" where
  "LeaseBreakNotificationDecoder_StructureSize r = u16_at r 0"

definition LeaseBreakNotificationDecoder_NewEpoch :: "bytes \<Rightarrow> u16 option" where
  "LeaseBreakNotificationDecoder_NewEpoch r = u16_at r 2"

definition LeaseBreakNotificationDecoder_Flags :: "bytes \<Rightarrow> u32 option" where
  "LeaseBreakNotificationDecoder_Flags r = u32_at r 4"

definition LeaseBreakNotificationDecoder_LeaseKey :: "bytes \<Rightarrow> bytes option" where
  "LeaseBreakNotificationDecoder_LeaseKey r = map_option (go_copy (replicate 16 0)) (go_slice r 8 24)"

definition LeaseBreakNotificationDecoder_CurrentLeaseState :: "bytes \<Rightarrow> u32 option" where
  "LeaseBreakNotificationDecoder_CurrentLeaseState r = u32_at r 24"

definition LeaseBreakNotificationDecoder_NewLeaseState :: "bytes \<Rightarrow> u32 option" where
  "LeaseBreakNotificationDecoder_NewLeaseState r = u32_at r 28"

definition LeaseBreakNotificationDecoder_IsInvalid :: "bytes \<Rightarrow> bool option" where
  "LeaseBreakNotificationDecoder_IsInvalid r =
     (if length r < 44 then Some True
      else do { ss \<leftarrow> LeaseBreakNotificationDecoder_StructureSize r; Some (ss \<noteq> 44) })"

record OplockBreakResponse =
  OplockBreakResponse_Header :: PacketHeader
  OplockBreakResponse_OplockLevel :: u8
  OplockBreakResponse_FileId :: "FileId option"

definition OplockBreakResponse_Size :: "OplockBreakResponse \<Rightarrow> nat" where
  "OplockBreakResponse_Size c = 64 + 24"

definition OplockBreakResponse_body :: "OplockBreakResponse \<Rightarrow> writer" where
  "OplockBreakResponse_body c = writes [
     put16 0 24,
     put8 2 (OplockBreakResponse_OplockLevel c),
     put8 3 0,
     put32 4 0,
     on_slice 8 24 (FileId_Encode (OplockBreakResponse_FileId c))]"

definition OplockBreakResponse_Encode :: "OplockBreakResponse \<Rightarrow> writer" where
  "OplockBreakResponse_Encode c = writes [
     encodeHeader (OplockBreakResponse_Header c\<lparr>hdr_Command := SMB2_OPLOCK_BREAK\<rparr>),
     on_from 64 (OplockBreakResponse_body c)]"

record LeaseBreakNotification =
  LeaseBreakNotification_Header :: PacketHeader
  LeaseBreakNotification_NewEpoch :: u16
  LeaseBreakNotification_Flags :: u32
  LeaseBreakNotification_LeaseKey :: bytes
  LeaseBreakNotification_CurrentLeaseState :: u32
  LeaseBreakNotification_NewLeaseState :: u32
  LeaseBreakNotification_BreakReason :: u32
  LeaseBreakNotification_AccessMaskHint :: u32
  LeaseBreakNotification_ShareMaskHint :: u32

definition LeaseBreakNotification_Size :: "LeaseBreakNotification \<Rightarrow> nat" where
  "LeaseBreakNotification_Size c = 64 + 44"

definition LeaseBreakNotification_body :: "LeaseBreakNotification \<Rightarrow> writer" where
  "LeaseBreakNotification_body c = writes [
     put16 0 44,
     put16 2 (LeaseBreakNotification_NewEpoch c),
     put32 4 (LeaseBreakNotification_Flags c),
     copy_slice 8 24 (LeaseBreakNotification_LeaseKey c),
     put32 24 (LeaseBreakNotification_CurrentLeaseState c),
     put32 28 (LeaseBreakNotification_NewLeaseState c),
     put32 32 (LeaseBreakNotification_BreakReason c),
     put32 36 (LeaseBreakNotification_AccessMaskHint c),
     put32 40 (LeaseBreakNotification_ShareMaskHint c)]"

definition LeaseBreakNotification_Encode :: "LeaseBreakNotification \<Rightarrow> writer" where
  "LeaseBreakNotification_Encode c = writes [
     encodeHeader (LeaseBreakNotification_Header c\<lparr>hdr_Command := SMB2_OPLOCK_BREAK\<rparr>),
     on_from 64 (LeaseBreakNotification_body c)]"

definition LeaseBreakAcknowledgmentDecoder_StructureSize :: "bytes \<Rightarrow> u16 option" where
  "LeaseBreakAcknowledgmentDecoder_StructureSize r = u16_at r 0"

definition LeaseBreakAcknowledgmentDecoder_LeaseKey :: "bytes \<Rightarrow> bytes option" where
  "LeaseBreakAcknowledgmentDecoder_LeaseKey r = map_option (go_copy (replicate 16 0)) (go_slice r 8 24)"

definition LeaseBreakAcknowledgmentDecoder_LeaseState :: "bytes \<Rightarrow> u32 option" where
  "LeaseBreakAcknowledgmentDecoder_LeaseState r = u32_at r 24"

definition LeaseBreakAcknowledgmentDecoder_IsInvalid :: "bytes \<Rightarrow> bool option" where
  "LeaseBreakAcknowledgmentDecoder_IsInvalid r =
     (if length r < 36 then Some True
      else do { ss \<leftarrow> LeaseBreakAcknowledgmentDecoder_StructureSize r; Some (ss \<noteq> 36) })"

record LeaseBreakResponse =
  LeaseBreakResponse_Header :: PacketHeader
  LeaseBreakResponse_LeaseKey :: bytes
  LeaseBreakResponse_LeaseState :: u32
  LeaseBreakResponse_LeaseDuration :: u64

definition LeaseBreakResponse_Size :: "LeaseBreakResponse \<Rightarrow> nat" where
  "LeaseBreakResponse_Size c = 64 + 36"

definition LeaseBreakResponse_body :: "LeaseBreakResponse \<Rightarrow> writer" where
  "LeaseBreakResponse_body c = writes [
     put16 0 36,
     put16 2 0,
     put32 4 0,
     copy_slice 8 24 (LeaseBreakResponse_LeaseKey c),
     put32 24 (LeaseBreakResponse_LeaseState c),
     put64 28 (LeaseBreakResponse_LeaseDuration c)]"

definition LeaseBreakResponse_Encode :: "LeaseBreakResponse \<Rightarrow> writer" where
  "LeaseBreakResponse_Encode c = writes [
     encodeHeader (LeaseBreakResponse_Header c\<lparr>hdr_Command := SMB2_OPLOCK_BREAK\<rparr>),
     on_from 64 (LeaseBreakResponse_body c)]"


section \<open>The accessors of each decoder\<close>

lemmas ErrorResponseDecoder_defs = ErrorResponseDecoder_StructureSize_def
  ErrorResponseDecoder_ErrorContextCount_def ErrorResponseDecoder_ByteCount_def
  ErrorResponseDecoder_IsInvalid_def ErrorResponseDecoder_ErrorData_def

lemmas ErrorContextResponseDecoder_defs = ErrorContextResponseDecoder_ErrorDataLength_def
  ErrorContextResponseDecoder_ErrorId_def ErrorContextResponseDecoder_IsInvalid_def
  ErrorContextResponseDecoder_ErrorContextData_def ErrorContextResponseDecoder_Next_def

lemmas SmallBufferErrorResponseDecoder_defs = SmallBufferErrorResponseDecoder_IsInvalid_def
  SmallBufferErrorResponseDecoder_RequiredBufferLength_def

lemmas SymbolicLinkErrorResponseDecoder_defs = SymbolicLinkErrorResponseDecoder_SymLinkLength_def
  SymbolicLinkErrorResponseDecoder_SymLinkErrorTag_def
  SymbolicLinkErrorResponseDecoder_ReparseTag_def
  SymbolicLinkErrorResponseDecoder_ReparseDataLength_def
  SymbolicLinkErrorResponseDecoder_UnparsedPathLength_def
  SymbolicLinkErrorResponseDecoder_SubstituteNameOffset_def
  SymbolicLinkErrorResponseDecoder_SubstituteNameLength_def
  SymbolicLinkErrorResponseDecoder_PrintNameOffset_def
  SymbolicLinkErrorResponseDecoder_PrintNameLength_def SymbolicLinkErrorResponseDecoder_Flags_def
  SymbolicLinkErrorResponseDecoder_PathBuffer_def SymbolicLinkErrorResponseDecoder_IsInvalid_def
  SymbolicLinkErrorResponseDecoder_SubstituteName_def
  SymbolicLinkErrorResponseDecoder_PrintName_def
  SymbolicLinkErrorResponseDecoder_SplitUnparsedPath_def

lemmas NegotiateResponseDecoder_defs = NegotiateResponseDecoder_StructureSize_def
  NegotiateResponseDecoder_SecurityMode_def NegotiateResponseDecoder_DialectRevision_def
  NegotiateResponseDecoder_ServerGuid_def NegotiateResponseDecoder_Capabilities_def
  NegotiateResponseDecoder_MaxTransactSize_def NegotiateResponseDecoder_MaxReadSize_def
  NegotiateResponseDecoder_MaxWriteSize_def NegotiateResponseDecoder_SystemTime_def
  NegotiateResponseDecoder_ServerStartTime_def NegotiateResponseDecoder_SecurityBufferOffset_def
  NegotiateResponseDecoder_SecurityBufferLength_def
  NegotiateResponseDecoder_NegotiateContextCount_def
  NegotiateResponseDecoder_NegotiateContextOffset_def NegotiateResponseDecoder_IsInvalid_def
  NegotiateResponseDecoder_SecurityBuffer_def NegotiateResponseDecoder_NegotiateContextList_def

lemmas SessionSetupResponseDecoder_defs = SessionSetupResponseDecoder_StructureSize_def
  SessionSetupResponseDecoder_SessionFlags_def
  SessionSetupResponseDecoder_SecurityBufferOffset_def
  SessionSetupResponseDecoder_SecurityBufferLength_def SessionSetupResponseDecoder_IsInvalid_def
  SessionSetupResponseDecoder_SecurityBuffer_def

lemmas LogoffResponseDecoder_defs = LogoffResponseDecoder_StructureSize_def
  LogoffResponseDecoder_IsInvalid_def

lemmas TreeConnectResponseDecoder_defs = TreeConnectResponseDecoder_StructureSize_def
  TreeConnectResponseDecoder_ShareType_def TreeConnectResponseDecoder_ShareFlags_def
  TreeConnectResponseDecoder_Capabilities_def TreeConnectResponseDecoder_MaximalAccess_def
  TreeConnectResponseDecoder_IsInvalid_def

lemmas TreeDisconnectResponseDecoder_defs = TreeDisconnectResponseDecoder_StructureSize_def
  TreeDisconnectResponseDecoder_IsInvalid_def

lemmas CreateResponseDecoder_defs = CreateResponseDecoder_StructureSize_def
  CreateResponseDecoder_OplockLevel_def CreateResponseDecoder_Flags_def
  CreateResponseDecoder_CreateAction_def CreateResponseDecoder_CreationTime_def
  CreateResponseDecoder_LastAccessTime_def CreateResponseDecoder_LastWriteTime_def
  CreateResponseDecoder_ChangeTime_def CreateResponseDecoder_AllocationSize_def
  CreateResponseDecoder_EndofFile_def CreateResponseDecoder_FileAttributes_def
  CreateResponseDecoder_FileId_def CreateResponseDecoder_CreateContextsOffset_def
  CreateResponseDecoder_CreateContextsLength_def CreateResponseDecoder_IsInvalid_def
  CreateResponseDecoder_CreateContexts_def

lemmas CloseResponseDecoder_defs = CloseResponseDecoder_StructureSize_def
  CloseResponseDecoder_Flags_def CloseResponseDecoder_CreationTime_def
  CloseResponseDecoder_LastAccessTime_def CloseResponseDecoder_LastWriteTime_def
  CloseResponseDecoder_ChangeTime_def CloseResponseDecoder_AllocationSize_def
  CloseResponseDecoder_EndofFile_def CloseResponseDecoder_FileAttributes_def
  CloseResponseDecoder_IsInvalid_def

lemmas FlushResponseDecoder_defs = FlushResponseDecoder_StructureSize_def
  FlushResponseDecoder_IsInvalid_def

lemmas ReadResponseDecoder_defs = ReadResponseDecoder_StructureSize_def
  ReadResponseDecoder_DataOffset_def ReadResponseDecoder_DataLength_def
  ReadResponseDecoder_DataRemaining_def ReadResponseDecoder_IsInvalid_def
  ReadResponseDecoder_Data_def

lemmas WriteResponseDecoder_defs = WriteResponseDecoder_StructureSize_def
  WriteResponseDecoder_Count_def WriteResponseDecoder_Remaining_def
  WriteResponseDecoder_WriteChannelInfoOffset_def WriteResponseDecoder_WriteChannelInfoLength_def
  WriteResponseDecoder_IsInvalid_def

lemmas IoctlResponseDecoder_defs = IoctlResponseDecoder_StructureSize_def
  IoctlResponseDecoder_CtlCode_def IoctlResponseDecoder_FileId_def
  IoctlResponseDecoder_InputOffset_def IoctlResponseDecoder_InputCount_def
  IoctlResponseDecoder_OutputOffset_def IoctlResponseDecoder_OutputCount_def
  IoctlResponseDecoder_Flags_def IoctlResponseDecoder_IsInvalid_def IoctlResponseDecoder_Input_def
  IoctlResponseDecoder_Output_def

lemmas QueryDirectoryResponseDecoder_defs = QueryDirectoryResponseDecoder_StructureSize_def
  QueryDirectoryResponseDecoder_OutputBufferOffset_def
  QueryDirectoryResponseDecoder_OutputBufferLength_def QueryDirectoryResponseDecoder_IsInvalid_def
  QueryDirectoryResponseDecoder_OutputBuffer_def

lemmas QueryInfoResponseDecoder_defs = QueryInfoResponseDecoder_StructureSize_def
  QueryInfoResponseDecoder_OutputBufferOffset_def QueryInfoResponseDecoder_OutputBufferLength_def
  QueryInfoResponseDecoder_IsInvalid_def QueryInfoResponseDecoder_OutputBuffer_def

lemmas SetInfoResponseDecoder_defs = SetInfoResponseDecoder_StructureSize_def
  SetInfoResponseDecoder_IsInvalid_def

lemmas OplockBreakAcknowledgmentDecoder_defs = OplockBreakAcknowledgmentDecoder_StructureSize_def
  OplockBreakAcknowledgmentDecoder_OplockLevel_def OplockBreakAcknowledgmentDecoder_FileId_def
  OplockBreakAcknowledgmentDecoder_IsInvalid_def

lemmas LeaseBreakNotificationDecoder_defs = LeaseBreakNotificationDecoder_StructureSize_def
  LeaseBreakNotificationDecoder_NewEpoch_def LeaseBreakNotificationDecoder_Flags_def
  LeaseBreakNotificationDecoder_LeaseKey_def LeaseBreakNotificationDecoder_CurrentLeaseState_def
  LeaseBreakNotificationDecoder_NewLeaseState_def LeaseBreakNotificationDecoder_IsInvalid_def

lemmas LeaseBreakAcknowledgmentDecoder_defs = LeaseBreakAcknowledgmentDecoder_StructureSize_def
  LeaseBreakAcknowledgmentDecoder_LeaseKey_def LeaseBreakAcknowledgmentDecoder_LeaseState_def
  LeaseBreakAcknowledgmentDecoder_IsInvalid_def

end
