(* ===== verification/Smb2_Request.thy ===== *)
theory Smb2_Request
  imports Smb2_Message
begin

text \<open>
  \<open>internal/smb2/request.go\<close>: every request message, its encoder and its decoder. A
  struct is a record whose \<open>_Header\<close> field is the embedded \<open>PacketHeader\<close>;
  \<open>X_body\<close> is what \<open>X.Encode\<close> writes behind the header; a decoder works on
  the packet behind its header. A slice expression whose bounds the source computes in
  \<open>uint16\<close> or \<open>uint32\<close> has them computed in words here.
\<close>

record NegotiateRequest =
  NegotiateRequest_Header :: PacketHeader
  NegotiateRequest_SecurityMode :: u16
  NegotiateRequest_Capabilities :: u32
  NegotiateRequest_ClientGuid :: bytes
  NegotiateRequest_Dialects :: "u16 list"
  NegotiateRequest_Contexts :: "encoder list"

definition NegotiateRequest_Size :: "NegotiateRequest \<Rightarrow> nat" where
  "NegotiateRequest_Size c = 64 + items8_end (36 + length (NegotiateRequest_Dialects c) * 2) (NegotiateRequest_Contexts c)"

fun NegotiateRequest_body_loop :: "nat \<Rightarrow> nat \<Rightarrow> encoder list \<Rightarrow> writer" where
  "NegotiateRequest_body_loop i off [] = Some"
| "NegotiateRequest_body_loop i off (cc # ccs) =
     (let off = Roundup off 8 in
      writes [
        when_w (i = 0) (put32 28 (of_nat (off + 64))),
        on_from off (enc_Encode cc),
        NegotiateRequest_body_loop (i + 1) (off + enc_Size cc) ccs])"

definition NegotiateRequest_body :: "NegotiateRequest \<Rightarrow> writer" where
  "NegotiateRequest_body c = writes [
     put16 0 36,
     put16 4 (NegotiateRequest_SecurityMode c),
     put32 8 (NegotiateRequest_Capabilities c),
     copy_slice 12 28 (NegotiateRequest_ClientGuid c),
     on_from 36 (put16s (NegotiateRequest_Dialects c)),
     put16 2 (of_nat (length (NegotiateRequest_Dialects c))),
     NegotiateRequest_body_loop 0 (36 + length (NegotiateRequest_Dialects c) * 2) (NegotiateRequest_Contexts c),
     put16 32 (of_nat (length (NegotiateRequest_Contexts c)))]"

definition NegotiateRequest_Encode :: "NegotiateRequest \<Rightarrow> writer" where
  "NegotiateRequest_Encode c = writes [
     encodeHeader (NegotiateRequest_Header c\<lparr>hdr_Command := SMB2_NEGOTIATE\<rparr>),
     on_from 64 (NegotiateRequest_body c)]"

definition NegotiateRequestDecoder_StructureSize :: "bytes \<Rightarrow> u16 option" where
  "NegotiateRequestDecoder_StructureSize r = u16_at r 0"

definition NegotiateRequestDecoder_DialectCount :: "bytes \<Rightarrow> u16 option" where
  "NegotiateRequestDecoder_DialectCount r = u16_at r 2"

definition NegotiateRequestDecoder_SecurityMode :: "bytes \<Rightarrow> u16 option" where
  "NegotiateRequestDecoder_SecurityMode r = u16_at r 4"

definition NegotiateRequestDecoder_Capabilities :: "bytes \<Rightarrow> u32 option" where
  "NegotiateRequestDecoder_Capabilities r = u32_at r 8"

definition NegotiateRequestDecoder_ClientGuid :: "bytes \<Rightarrow> bytes option" where
  "NegotiateRequestDecoder_ClientGuid r = go_slice r 12 28"

definition NegotiateRequestDecoder_ClientStartTime :: "bytes \<Rightarrow> bytes option" where
  "NegotiateRequestDecoder_ClientStartTime r = go_slice r 28 36"

definition NegotiateRequestDecoder_NegotiateContextOffset :: "bytes \<Rightarrow> u32 option" where
  "NegotiateRequestDecoder_NegotiateContextOffset r = u32_at r 28"

definition NegotiateRequestDecoder_NegotiateContextCount :: "bytes \<Rightarrow> u16 option" where
  "NegotiateRequestDecoder_NegotiateContextCount r = u16_at r 32"

definition NegotiateRequestDecoder_IsInvalid :: "bytes \<Rightarrow> bool option" where
  "NegotiateRequestDecoder_IsInvalid r =
     (if length r < 36 then Some True
      else do {
        ss \<leftarrow> NegotiateRequestDecoder_StructureSize r;
        if ss \<noteq> 36 then Some True else do {
          noff \<leftarrow> NegotiateRequestDecoder_NegotiateContextOffset r;
          if noff AND 7 \<noteq> 0 then Some True
          else Some (int (length r) < uint noff - 36) } })"

text \<open>\<open>r[36 : 36+2*r.DialectCount()]\<close>, the end computed in \<open>uint16\<close>.\<close>

definition NegotiateRequestDecoder_Dialects :: "bytes \<Rightarrow> u16 list option" where
  "NegotiateRequestDecoder_Dialects r = do {
     n \<leftarrow> NegotiateRequestDecoder_DialectCount r;
     bs \<leftarrow> go_slice r 36 (unat (36 + 2 * n));
     get16s (length bs div 2) bs }"

definition NegotiateRequestDecoder_NegotiateContextList :: "bytes \<Rightarrow> bytes option" where
  "NegotiateRequestDecoder_NegotiateContextList r = do {
     off \<leftarrow> NegotiateRequestDecoder_NegotiateContextOffset r;
     if off < 64 then Some [] else go_slice_from r (unat (off - 64)) }"

record SessionSetupRequest =
  SessionSetupRequest_Header :: PacketHeader
  SessionSetupRequest_Flags :: u8
  SessionSetupRequest_SecurityMode :: u8
  SessionSetupRequest_Capabilities :: u32
  SessionSetupRequest_Channel :: u32
  SessionSetupRequest_SecurityBuffer :: bytes
  SessionSetupRequest_PreviousSessionId :: u64

definition SessionSetupRequest_Size :: "SessionSetupRequest \<Rightarrow> nat" where
  "SessionSetupRequest_Size c =
     (if length (SessionSetupRequest_SecurityBuffer c) = 0 then 64 + 24 + 1
      else 64 + 24 + length (SessionSetupRequest_SecurityBuffer c))"

definition SessionSetupRequest_body :: "SessionSetupRequest \<Rightarrow> writer" where
  "SessionSetupRequest_body c = writes [
     put16 0 25,
     put8 2 (SessionSetupRequest_Flags c),
     put8 3 (SessionSetupRequest_SecurityMode c),
     put32 4 (SessionSetupRequest_Capabilities c),
     put32 8 (SessionSetupRequest_Channel c),
     put64 16 (SessionSetupRequest_PreviousSessionId c),
     copy_from 24 (SessionSetupRequest_SecurityBuffer c),
     put16 12 (64 + 24),
     put16 14 (of_nat (length (SessionSetupRequest_SecurityBuffer c)))]"

definition SessionSetupRequest_Encode :: "SessionSetupRequest \<Rightarrow> writer" where
  "SessionSetupRequest_Encode c = writes [
     encodeHeader (SessionSetupRequest_Header c\<lparr>hdr_Command := SMB2_SESSION_SETUP\<rparr>),
     on_from 64 (SessionSetupRequest_body c)]"

definition SessionSetupRequestDecoder_StructureSize :: "bytes \<Rightarrow> u16 option" where
  "SessionSetupRequestDecoder_StructureSize r = u16_at r 0"

definition SessionSetupRequestDecoder_Flags :: "bytes \<Rightarrow> u8 option" where
  "SessionSetupRequestDecoder_Flags r = u8_at r 2"

definition SessionSetupRequestDecoder_SecurityMode :: "bytes \<Rightarrow> u8 option" where
  "SessionSetupRequestDecoder_SecurityMode r = u8_at r 3"

definition SessionSetupRequestDecoder_Capabilities :: "bytes \<Rightarrow> u32 option" where
  "SessionSetupRequestDecoder_Capabilities r = u32_at r 4"

definition SessionSetupRequestDecoder_Channel :: "bytes \<Rightarrow> u32 option" where
  "SessionSetupRequestDecoder_Channel r = u32_at r 8"

definition SessionSetupRequestDecoder_PreviousSessionId :: "bytes \<Rightarrow> u64 option" where
  "SessionSetupRequestDecoder_PreviousSessionId r = u64_at r 16"

definition SessionSetupRequestDecoder_SecurityBufferOffset :: "bytes \<Rightarrow> u16 option" where
  "SessionSetupRequestDecoder_SecurityBufferOffset r = u16_at r 12"

definition SessionSetupRequestDecoder_SecurityBufferLength :: "bytes \<Rightarrow> u16 option" where
  "SessionSetupRequestDecoder_SecurityBufferLength r = u16_at r 14"

definition SessionSetupRequestDecoder_IsInvalid :: "bytes \<Rightarrow> bool option" where
  "SessionSetupRequestDecoder_IsInvalid r =
     (if length r < 24 then Some True
      else do {
        ss \<leftarrow> SessionSetupRequestDecoder_StructureSize r;
        if ss \<noteq> 25 then Some True else do {
          off \<leftarrow> SessionSetupRequestDecoder_SecurityBufferOffset r;
          len \<leftarrow> SessionSetupRequestDecoder_SecurityBufferLength r;
          Some (int (length r) < uint (off + len) - 64) } })"

definition SessionSetupRequestDecoder_SecurityBuffer :: "bytes \<Rightarrow> bytes option" where
  "SessionSetupRequestDecoder_SecurityBuffer r = do {
     off \<leftarrow> SessionSetupRequestDecoder_SecurityBufferOffset r;
     if off < 64 + 24 then Some [] else do {
       let off = off - 64;
       len \<leftarrow> SessionSetupRequestDecoder_SecurityBufferLength r;
       go_slice r (unat off) (unat (off + len)) } }"

record LogoffRequest =
  LogoffRequest_Header :: PacketHeader

definition LogoffRequest_Size :: "LogoffRequest \<Rightarrow> nat" where
  "LogoffRequest_Size c = 64 + 4"

definition LogoffRequest_body :: "LogoffRequest \<Rightarrow> writer" where
  "LogoffRequest_body c = writes [
     put16 0 4]"

definition LogoffRequest_Encode :: "LogoffRequest \<Rightarrow> writer" where
  "LogoffRequest_Encode c = writes [
     encodeHeader (LogoffRequest_Header c\<lparr>hdr_Command := SMB2_LOGOFF\<rparr>),
     on_from 64 (LogoffRequest_body c)]"

definition LogoffRequestDecoder_StructureSize :: "bytes \<Rightarrow> u16 option" where
  "LogoffRequestDecoder_StructureSize r = u16_at r 0"

definition LogoffRequestDecoder_IsInvalid :: "bytes \<Rightarrow> bool option" where
  "LogoffRequestDecoder_IsInvalid r =
     (if length r < 4 then Some True
      else do {
        ss \<leftarrow> LogoffRequestDecoder_StructureSize r;
        if ss \<noteq> 4 then Some True else Some False })"

record TreeConnectRequest =
  TreeConnectRequest_Header :: PacketHeader
  TreeConnectRequest_Flags :: u16
  TreeConnectRequest_Path :: go_string

definition TreeConnectRequest_Size :: "TreeConnectRequest \<Rightarrow> nat" where
  "TreeConnectRequest_Size c =
     (if length (TreeConnectRequest_Path c) = 0 then 64 + 8 + 1
      else 64 + 8 + EncodedStringLen (TreeConnectRequest_Path c))"

definition TreeConnectRequest_body :: "TreeConnectRequest \<Rightarrow> writer" where
  "TreeConnectRequest_body c = writes [
     put16 0 9,
     put16 2 (TreeConnectRequest_Flags c),
     on_from 8 (EncodeString (TreeConnectRequest_Path c)),
     put16 4 (8 + 64),
     put16 6 (of_nat (EncodeString_n (TreeConnectRequest_Path c)))]"

definition TreeConnectRequest_Encode :: "TreeConnectRequest \<Rightarrow> writer" where
  "TreeConnectRequest_Encode c = writes [
     encodeHeader (TreeConnectRequest_Header c\<lparr>hdr_Command := SMB2_TREE_CONNECT\<rparr>),
     on_from 64 (TreeConnectRequest_body c)]"

definition TreeConnectRequestDecoder_StructureSize :: "bytes \<Rightarrow> u16 option" where
  "TreeConnectRequestDecoder_StructureSize r = u16_at r 0"

definition TreeConnectRequestDecoder_Flags :: "bytes \<Rightarrow> u16 option" where
  "TreeConnectRequestDecoder_Flags r = u16_at r 2"

definition TreeConnectRequestDecoder_PathOffset :: "bytes \<Rightarrow> u16 option" where
  "TreeConnectRequestDecoder_PathOffset r = u16_at r 4"

definition TreeConnectRequestDecoder_PathLength :: "bytes \<Rightarrow> u16 option" where
  "TreeConnectRequestDecoder_PathLength r = u16_at r 6"

definition TreeConnectRequestDecoder_IsInvalid :: "bytes \<Rightarrow> bool option" where
  "TreeConnectRequestDecoder_IsInvalid r =
     (if length r < 8 then Some True
      else do {
        ss \<leftarrow> TreeConnectRequestDecoder_StructureSize r;
        if ss \<noteq> 9 then Some True else do {
          off \<leftarrow> TreeConnectRequestDecoder_PathOffset r;
          len \<leftarrow> TreeConnectRequestDecoder_PathLength r;
          Some (int (length r) < uint (off + len) - 64) } })"

definition TreeConnectRequestDecoder_Path :: "bytes \<Rightarrow> go_string option" where
  "TreeConnectRequestDecoder_Path r = do {
     off \<leftarrow> TreeConnectRequestDecoder_PathOffset r;
     if off < 64 + 8 then Some [] else do {
       let off = off - 64;
       len \<leftarrow> TreeConnectRequestDecoder_PathLength r;
       do { bs \<leftarrow> go_slice r (unat off) (unat (off + len)); DecodeToString bs } } }"

record TreeDisconnectRequest =
  TreeDisconnectRequest_Header :: PacketHeader

definition TreeDisconnectRequest_Size :: "TreeDisconnectRequest \<Rightarrow> nat" where
  "TreeDisconnectRequest_Size c = 64 + 4"

definition TreeDisconnectRequest_body :: "TreeDisconnectRequest \<Rightarrow> writer" where
  "TreeDisconnectRequest_body c = writes [
     put16 0 4]"

definition TreeDisconnectRequest_Encode :: "TreeDisconnectRequest \<Rightarrow> writer" where
  "TreeDisconnectRequest_Encode c = writes [
     encodeHeader (TreeDisconnectRequest_Header c\<lparr>hdr_Command := SMB2_TREE_DISCONNECT\<rparr>),
     on_from 64 (TreeDisconnectRequest_body c)]"

definition TreeDisconnectRequestDecoder_StructureSize :: "bytes \<Rightarrow> u16 option" where
  "TreeDisconnectRequestDecoder_StructureSize r = u16_at r 0"

definition TreeDisconnectRequestDecoder_IsInvalid :: "bytes \<Rightarrow> bool option" where
  "TreeDisconnectRequestDecoder_IsInvalid r =
     (if length r < 4 then Some True
      else do {
        ss \<leftarrow> TreeDisconnectRequestDecoder_StructureSize r;
        if ss \<noteq> 4 then Some True else Some False })"

record CreateRequest =
  CreateRequest_Header :: PacketHeader
  CreateRequest_SecurityFlags :: u8
  CreateRequest_RequestedOplockLevel :: u8
  CreateRequest_ImpersonationLevel :: u32
  CreateRequest_SmbCreateFlags :: u64
  CreateRequest_DesiredAccess :: u32
  CreateRequest_FileAttributes :: u32
  CreateRequest_ShareAccess :: u32
  CreateRequest_CreateDisposition :: u32
  CreateRequest_CreateOptions :: u32
  CreateRequest_Name :: go_string
  CreateRequest_Contexts :: "encoder list"

definition CreateRequest_Size :: "CreateRequest \<Rightarrow> nat" where
  "CreateRequest_Size c =
     (if length (CreateRequest_Name c) = 0 \<and> length (CreateRequest_Contexts c) = 0 then 64 + 56 + 1
      else items8_end (64 + 56 + EncodedStringLen (CreateRequest_Name c)) (CreateRequest_Contexts c))"

text \<open>The loop over the contexts; \<open>prev\<close> is the offset of the context before, none at first.\<close>

fun CreateRequest_body_loop :: "nat option \<Rightarrow> nat \<Rightarrow> encoder list \<Rightarrow> writer" where
  "CreateRequest_body_loop prev off [] = Some"
| "CreateRequest_body_loop prev off (c # cs) =
     (let off = Roundup off 8 in
      writes [
        (case prev of
           None \<Rightarrow> put32 48 (of_nat (64 + off))
         | Some ctxOff \<Rightarrow> put32 ctxOff (of_nat (off - ctxOff))),
        on_from off (enc_Encode c),
        CreateRequest_body_loop (Some off) (off + enc_Size c) cs])"

definition CreateRequest_body :: "CreateRequest \<Rightarrow> writer" where
  "CreateRequest_body c =
     (let nlen = EncodeString_n (CreateRequest_Name c);
          off = items8_end (56 + nlen) (CreateRequest_Contexts c);
          firstCtxOff = (if CreateRequest_Contexts c = [] then 0 else Roundup (56 + nlen) 8) in
      writes [
        put16 0 57,
        put8 2 (CreateRequest_SecurityFlags c),
        put8 3 (CreateRequest_RequestedOplockLevel c),
        put32 4 (CreateRequest_ImpersonationLevel c),
        put64 8 (CreateRequest_SmbCreateFlags c),
        put32 24 (CreateRequest_DesiredAccess c),
        put32 28 (CreateRequest_FileAttributes c),
        put32 32 (CreateRequest_ShareAccess c),
        put32 36 (CreateRequest_CreateDisposition c),
        put32 40 (CreateRequest_CreateOptions c),
        on_from 56 (EncodeString (CreateRequest_Name c)),
        put16 44 (56 + 64),
        put16 46 (of_nat nlen),
        CreateRequest_body_loop None (56 + nlen) (CreateRequest_Contexts c),
        when_w (firstCtxOff \<noteq> 0) (put32 52 (of_nat (off - firstCtxOff)))])"

definition CreateRequest_Encode :: "CreateRequest \<Rightarrow> writer" where
  "CreateRequest_Encode c = writes [
     encodeHeader (CreateRequest_Header c\<lparr>hdr_Command := SMB2_CREATE\<rparr>),
     on_from 64 (CreateRequest_body c)]"

definition CreateRequestDecoder_StructureSize :: "bytes \<Rightarrow> u16 option" where
  "CreateRequestDecoder_StructureSize r = u16_at r 0"

definition CreateRequestDecoder_SecurityFlags :: "bytes \<Rightarrow> u8 option" where
  "CreateRequestDecoder_SecurityFlags r = u8_at r 2"

definition CreateRequestDecoder_RequestedOplockLevel :: "bytes \<Rightarrow> u8 option" where
  "CreateRequestDecoder_RequestedOplockLevel r = u8_at r 3"

definition CreateRequestDecoder_ImpersonationLevel :: "bytes \<Rightarrow> u32 option" where
  "CreateRequestDecoder_ImpersonationLevel r = u32_at r 4"

definition CreateRequestDecoder_SmbCreateFlags :: "bytes \<Rightarrow> u64 option" where
  "CreateRequestDecoder_SmbCreateFlags r = u64_at r 8"

definition CreateRequestDecoder_DesiredAccess :: "bytes \<Rightarrow> u32 option" where
  "CreateRequestDecoder_DesiredAccess r = u32_at r 24"

definition CreateRequestDecoder_FileAttributes :: "bytes \<Rightarrow> u32 option" where
  "CreateRequestDecoder_FileAttributes r = u32_at r 28"

definition CreateRequestDecoder_ShareAccess :: "bytes \<Rightarrow> u32 option" where
  "CreateRequestDecoder_ShareAccess r = u32_at r 32"

definition CreateRequestDecoder_CreateDisposition :: "bytes \<Rightarrow> u32 option" where
  "CreateRequestDecoder_CreateDisposition r = u32_at r 36"

definition CreateRequestDecoder_CreateOptions :: "bytes \<Rightarrow> u32 option" where
  "CreateRequestDecoder_CreateOptions r = u32_at r 40"

definition CreateRequestDecoder_NameOffset :: "bytes \<Rightarrow> u16 option" where
  "CreateRequestDecoder_NameOffset r = u16_at r 44"

definition CreateRequestDecoder_NameLength :: "bytes \<Rightarrow> u16 option" where
  "CreateRequestDecoder_NameLength r = u16_at r 46"

definition CreateRequestDecoder_CreateContextsOffset :: "bytes \<Rightarrow> u32 option" where
  "CreateRequestDecoder_CreateContextsOffset r = u32_at r 48"

definition CreateRequestDecoder_CreateContextsLength :: "bytes \<Rightarrow> u32 option" where
  "CreateRequestDecoder_CreateContextsLength r = u32_at r 52"

definition CreateRequestDecoder_IsInvalid :: "bytes \<Rightarrow> bool option" where
  "CreateRequestDecoder_IsInvalid r =
     (if length r < 56 then Some True
      else do {
        ss \<leftarrow> CreateRequestDecoder_StructureSize r;
        if ss \<noteq> 57 then Some True else do {
          noff \<leftarrow> CreateRequestDecoder_NameOffset r;
          if noff AND 7 \<noteq> 0 then Some True else do {
            nlen \<leftarrow> CreateRequestDecoder_NameLength r;
            if int (length r) < uint (noff + nlen) - 64 then Some True else do {
              coff \<leftarrow> CreateRequestDecoder_CreateContextsOffset r;
              if coff AND 7 \<noteq> 0 then Some True else do {
                clen \<leftarrow> CreateRequestDecoder_CreateContextsLength r;
                Some (int (length r) < uint (coff + clen) - 64) } } } } })"

definition CreateRequestDecoder_Name :: "bytes \<Rightarrow> go_string option" where
  "CreateRequestDecoder_Name r = do {
     off \<leftarrow> CreateRequestDecoder_NameOffset r;
     len \<leftarrow> CreateRequestDecoder_NameLength r;
     let off = off - 64;
     bs \<leftarrow> go_slice r (unat off) (unat (off + len));
     DecodeToString bs }"

definition CreateRequestDecoder_CreateContexts :: "bytes \<Rightarrow> bytes option" where
  "CreateRequestDecoder_CreateContexts r = do {
     len \<leftarrow> CreateRequestDecoder_CreateContextsLength r;
     if len = 0 then Some [] else do {
       off \<leftarrow> CreateRequestDecoder_CreateContextsOffset r;
       let off = off - 64;
       go_slice r (unat off) (unat (off + len)) } }"

definition CreateContextDecoder_Next :: "bytes \<Rightarrow> u32 option" where
  "CreateContextDecoder_Next r = u32_at r 0"

definition CreateContextDecoder_NameOffset :: "bytes \<Rightarrow> u16 option" where
  "CreateContextDecoder_NameOffset r = u16_at r 4"

definition CreateContextDecoder_NameLength :: "bytes \<Rightarrow> u16 option" where
  "CreateContextDecoder_NameLength r = u16_at r 6"

definition CreateContextDecoder_DataOffset :: "bytes \<Rightarrow> u16 option" where
  "CreateContextDecoder_DataOffset r = u16_at r 10"

definition CreateContextDecoder_DataLength :: "bytes \<Rightarrow> u32 option" where
  "CreateContextDecoder_DataLength r = u32_at r 12"

definition CreateContextDecoder_Buffer :: "bytes \<Rightarrow> bytes option" where
  "CreateContextDecoder_Buffer r = do {
     off \<leftarrow> CreateContextDecoder_DataOffset r;
     len \<leftarrow> CreateContextDecoder_DataLength r;
     go_slice r (unat off) (unat (off + ucast len)) }"

definition CreateContextDecoder_Name :: "bytes \<Rightarrow> go_string option" where
  "CreateContextDecoder_Name r = do {
     off \<leftarrow> CreateContextDecoder_NameOffset r;
     len \<leftarrow> CreateContextDecoder_NameLength r;
     go_slice r (unat off) (unat (off + len)) }"

record CloseRequest =
  CloseRequest_Header :: PacketHeader
  CloseRequest_Flags :: u16
  CloseRequest_FileId :: "FileId option"

definition CloseRequest_Size :: "CloseRequest \<Rightarrow> nat" where
  "CloseRequest_Size c = 64 + 24"

definition CloseRequest_body :: "CloseRequest \<Rightarrow> writer" where
  "CloseRequest_body c = writes [
     put16 0 24,
     put16 2 (CloseRequest_Flags c),
     on_slice 8 24 (FileId_Encode (CloseRequest_FileId c))]"

definition CloseRequest_Encode :: "CloseRequest \<Rightarrow> writer" where
  "CloseRequest_Encode c = writes [
     encodeHeader (CloseRequest_Header c\<lparr>hdr_Command := SMB2_CLOSE\<rparr>),
     on_from 64 (CloseRequest_body c)]"

definition CloseRequestDecoder_StructureSize :: "bytes \<Rightarrow> u16 option" where
  "CloseRequestDecoder_StructureSize r = u16_at r 0"

definition CloseRequestDecoder_Flags :: "bytes \<Rightarrow> u16 option" where
  "CloseRequestDecoder_Flags r = u16_at r 2"

definition CloseRequestDecoder_FileId :: "bytes \<Rightarrow> bytes option" where
  "CloseRequestDecoder_FileId r = go_slice r 8 24"

definition CloseRequestDecoder_IsInvalid :: "bytes \<Rightarrow> bool option" where
  "CloseRequestDecoder_IsInvalid r =
     (if length r < 24 then Some True
      else do {
        ss \<leftarrow> CloseRequestDecoder_StructureSize r;
        if ss \<noteq> 24 then Some True else Some False })"

record FlushRequest =
  FlushRequest_Header :: PacketHeader
  FlushRequest_FileId :: "FileId option"

definition FlushRequest_Size :: "FlushRequest \<Rightarrow> nat" where
  "FlushRequest_Size c = 64 + 24"

definition FlushRequest_body :: "FlushRequest \<Rightarrow> writer" where
  "FlushRequest_body c = writes [
     put16 0 24,
     on_slice 8 24 (FileId_Encode (FlushRequest_FileId c))]"

definition FlushRequest_Encode :: "FlushRequest \<Rightarrow> writer" where
  "FlushRequest_Encode c = writes [
     encodeHeader (FlushRequest_Header c\<lparr>hdr_Command := SMB2_FLUSH\<rparr>),
     on_from 64 (FlushRequest_body c)]"

definition FlushRequestDecoder_StructureSize :: "bytes \<Rightarrow> u16 option" where
  "FlushRequestDecoder_StructureSize r = u16_at r 0"

definition FlushRequestDecoder_FileId :: "bytes \<Rightarrow> bytes option" where
  "FlushRequestDecoder_FileId r = go_slice r 8 24"

definition FlushRequestDecoder_IsInvalid :: "bytes \<Rightarrow> bool option" where
  "FlushRequestDecoder_IsInvalid r =
     (if length r < 24 then Some True
      else do {
        ss \<leftarrow> FlushRequestDecoder_StructureSize r;
        if ss \<noteq> 24 then Some True else Some False })"

record ReadRequest =
  ReadRequest_Header :: PacketHeader
  ReadRequest_Padding :: u8
  ReadRequest_Flags :: u8
  ReadRequest_Length :: u32
  ReadRequest_Offset :: u64
  ReadRequest_FileId :: "FileId option"
  ReadRequest_MinimumCount :: u32
  ReadRequest_Channel :: u32
  ReadRequest_RemainingBytes :: u32
  ReadRequest_ReadChannelInfo :: "encoder list"

definition ReadRequest_Size :: "ReadRequest \<Rightarrow> nat" where
  "ReadRequest_Size c =
     (if length (ReadRequest_ReadChannelInfo c) = 0 then 64 + 48 + 1
      else items_end (64 + 48) (ReadRequest_ReadChannelInfo c))"

fun ReadRequest_body_loop :: "nat \<Rightarrow> nat \<Rightarrow> encoder list \<Rightarrow> writer" where
  "ReadRequest_body_loop i off [] = Some"
| "ReadRequest_body_loop i off (r # rs) = writes [
     when_w (i = 0) (put16 44 (of_nat (64 + off))),
     on_from off (enc_Encode r),
     ReadRequest_body_loop (i + 1) (off + enc_Size r) rs]"

definition ReadRequest_body :: "ReadRequest \<Rightarrow> writer" where
  "ReadRequest_body c = writes [
     put16 0 49,
     put8 2 (ReadRequest_Padding c),
     put8 3 (ReadRequest_Flags c),
     put32 4 (ReadRequest_Length c),
     put64 8 (ReadRequest_Offset c),
     on_slice 16 32 (FileId_Encode (ReadRequest_FileId c)),
     put32 32 (ReadRequest_MinimumCount c),
     put32 36 (ReadRequest_Channel c),
     put32 40 (ReadRequest_RemainingBytes c),
     ReadRequest_body_loop 0 48 (ReadRequest_ReadChannelInfo c),
     put16 46 (of_nat (items_end 48 (ReadRequest_ReadChannelInfo c) - 48))]"

definition ReadRequest_Encode :: "ReadRequest \<Rightarrow> writer" where
  "ReadRequest_Encode c = writes [
     encodeHeader (ReadRequest_Header c\<lparr>hdr_Command := SMB2_READ\<rparr>),
     on_from 64 (ReadRequest_body c)]"

definition ReadRequestDecoder_StructureSize :: "bytes \<Rightarrow> u16 option" where
  "ReadRequestDecoder_StructureSize r = u16_at r 0"

definition ReadRequestDecoder_Padding :: "bytes \<Rightarrow> u8 option" where
  "ReadRequestDecoder_Padding r = u8_at r 2"

definition ReadRequestDecoder_Flags :: "bytes \<Rightarrow> u8 option" where
  "ReadRequestDecoder_Flags r = u8_at r 3"

definition ReadRequestDecoder_Length :: "bytes \<Rightarrow> u32 option" where
  "ReadRequestDecoder_Length r = u32_at r 4"

definition ReadRequestDecoder_Offset :: "bytes \<Rightarrow> u64 option" where
  "ReadRequestDecoder_Offset r = u64_at r 8"

definition ReadRequestDecoder_FileId :: "bytes \<Rightarrow> bytes option" where
  "ReadRequestDecoder_FileId r = go_slice r 16 32"

definition ReadRequestDecoder_MinimumCount :: "bytes \<Rightarrow> u32 option" where
  "ReadRequestDecoder_MinimumCount r = u32_at r 32"

definition ReadRequestDecoder_Channel :: "bytes \<Rightarrow> u32 option" where
  "ReadRequestDecoder_Channel r = u32_at r 36"

definition ReadRequestDecoder_RemainingBytes :: "bytes \<Rightarrow> u32 option" where
  "ReadRequestDecoder_RemainingBytes r = u32_at r 40"

definition ReadRequestDecoder_ReadChannelInfoOffset :: "bytes \<Rightarrow> u16 option" where
  "ReadRequestDecoder_ReadChannelInfoOffset r = u16_at r 44"

definition ReadRequestDecoder_ReadChannelInfoLength :: "bytes \<Rightarrow> u16 option" where
  "ReadRequestDecoder_ReadChannelInfoLength r = u16_at r 46"

definition ReadRequestDecoder_IsInvalid :: "bytes \<Rightarrow> bool option" where
  "ReadRequestDecoder_IsInvalid r =
     (if length r < 48 then Some True
      else do {
        ss \<leftarrow> ReadRequestDecoder_StructureSize r;
        if ss \<noteq> 49 then Some True else do {
          off \<leftarrow> ReadRequestDecoder_ReadChannelInfoOffset r;
          len \<leftarrow> ReadRequestDecoder_ReadChannelInfoLength r;
          Some (int (length r) < uint (off + len)) } })"

record WriteRequest =
  WriteRequest_Header :: PacketHeader
  WriteRequest_FileId :: "FileId option"
  WriteRequest_Flags :: u32
  WriteRequest_Channel :: u32
  WriteRequest_RemainingBytes :: u32
  WriteRequest_Offset :: u64
  WriteRequest_WriteChannelInfo :: "encoder list"
  WriteRequest_Data :: bytes

definition WriteRequest_Size :: "WriteRequest \<Rightarrow> nat" where
  "WriteRequest_Size c =
     (if length (WriteRequest_Data c) = 0 \<and> length (WriteRequest_WriteChannelInfo c) = 0 then 64 + 48 + 1
      else items_end (64 + 48) (WriteRequest_WriteChannelInfo c) + length (WriteRequest_Data c))"

fun WriteRequest_body_loop :: "nat \<Rightarrow> nat \<Rightarrow> encoder list \<Rightarrow> writer" where
  "WriteRequest_body_loop i off [] = Some"
| "WriteRequest_body_loop i off (w # ws) = writes [
     when_w (i = 0) (put16 40 (of_nat (64 + off))),
     on_from off (enc_Encode w),
     WriteRequest_body_loop (i + 1) (off + enc_Size w) ws]"

definition WriteRequest_body :: "WriteRequest \<Rightarrow> writer" where
  "WriteRequest_body c =
     (let off = items_end 48 (WriteRequest_WriteChannelInfo c) in
      writes [
        put16 0 49,
        put64 8 (WriteRequest_Offset c),
        on_slice 16 32 (FileId_Encode (WriteRequest_FileId c)),
        put32 32 (WriteRequest_Channel c),
        put32 36 (WriteRequest_RemainingBytes c),
        put32 44 (WriteRequest_Flags c),
        WriteRequest_body_loop 0 48 (WriteRequest_WriteChannelInfo c),
        put16 42 (of_nat (off - 48)),
        put16 2 (of_nat (64 + off)),
        copy_from off (WriteRequest_Data c),
        put32 4 (of_nat (length (WriteRequest_Data c)))])"

definition WriteRequest_Encode :: "WriteRequest \<Rightarrow> writer" where
  "WriteRequest_Encode c = writes [
     encodeHeader (WriteRequest_Header c\<lparr>hdr_Command := SMB2_WRITE\<rparr>),
     on_from 64 (WriteRequest_body c)]"

definition WriteRequestDecoder_StructureSize :: "bytes \<Rightarrow> u16 option" where
  "WriteRequestDecoder_StructureSize r = u16_at r 0"

definition WriteRequestDecoder_DataOffset :: "bytes \<Rightarrow> u16 option" where
  "WriteRequestDecoder_DataOffset r = u16_at r 2"

definition WriteRequestDecoder_Length :: "bytes \<Rightarrow> u32 option" where
  "WriteRequestDecoder_Length r = u32_at r 4"

definition WriteRequestDecoder_Offset :: "bytes \<Rightarrow> u64 option" where
  "WriteRequestDecoder_Offset r = u64_at r 8"

definition WriteRequestDecoder_FileId :: "bytes \<Rightarrow> bytes option" where
  "WriteRequestDecoder_FileId r = go_slice r 16 32"

definition WriteRequestDecoder_Channel :: "bytes \<Rightarrow> u32 option" where
  "WriteRequestDecoder_Channel r = u32_at r 32"

definition WriteRequestDecoder_RemainingBytes :: "bytes \<Rightarrow> u32 option" where
  "WriteRequestDecoder_RemainingBytes r = u32_at r 36"

definition WriteRequestDecoder_WriteChannelInfoOffset :: "bytes \<Rightarrow> u16 option" where
  "WriteRequestDecoder_WriteChannelInfoOffset r = u16_at r 40"

definition WriteRequestDecoder_WriteChannelInfoLength :: "bytes \<Rightarrow> u16 option" where
  "WriteRequestDecoder_WriteChannelInfoLength r = u16_at r 42"

definition WriteRequestDecoder_Flags :: "bytes \<Rightarrow> u32 option" where
  "WriteRequestDecoder_Flags r = u32_at r 44"

definition WriteRequestDecoder_IsInvalid :: "bytes \<Rightarrow> bool option" where
  "WriteRequestDecoder_IsInvalid r =
     (if length r < 48 then Some True
      else do {
        ss \<leftarrow> WriteRequestDecoder_StructureSize r;
        if ss \<noteq> 49 then Some True else do {
          coff \<leftarrow> WriteRequestDecoder_WriteChannelInfoOffset r;
          clen \<leftarrow> WriteRequestDecoder_WriteChannelInfoLength r;
          if int (length r) < uint (coff + clen) - 64 then Some True else do {
            off \<leftarrow> WriteRequestDecoder_DataOffset r;
            len \<leftarrow> WriteRequestDecoder_Length r;
            Some (int (length r) < uint (ucast off + len) - 64) } } })"

definition WriteRequestDecoder_Data :: "bytes \<Rightarrow> bytes option" where
  "WriteRequestDecoder_Data r = do {
     len \<leftarrow> WriteRequestDecoder_Length r;
     go_slice r 48 (unat (48 + len)) }"

record CancelRequest =
  CancelRequest_Header :: PacketHeader

definition CancelRequest_Size :: "CancelRequest \<Rightarrow> nat" where
  "CancelRequest_Size c = 64 + 4"

definition CancelRequest_body :: "CancelRequest \<Rightarrow> writer" where
  "CancelRequest_body c = writes [
     put16 0 4]"

definition CancelRequest_Encode :: "CancelRequest \<Rightarrow> writer" where
  "CancelRequest_Encode c = writes [
     encodeHeader (CancelRequest_Header c\<lparr>hdr_Command := SMB2_CANCEL\<rparr>),
     on_from 64 (CancelRequest_body c)]"

definition CancelRequestDecoder_StructureSize :: "bytes \<Rightarrow> u16 option" where
  "CancelRequestDecoder_StructureSize r = u16_at r 0"

definition CancelRequestDecoder_IsInvalid :: "bytes \<Rightarrow> bool option" where
  "CancelRequestDecoder_IsInvalid r =
     (if length r < 4 then Some True
      else do {
        ss \<leftarrow> CancelRequestDecoder_StructureSize r;
        if ss \<noteq> 4 then Some True else Some False })"

record IoctlRequest =
  IoctlRequest_Header :: PacketHeader
  IoctlRequest_CtlCode :: u32
  IoctlRequest_FileId :: "FileId option"
  IoctlRequest_OutputOffset :: u32
  IoctlRequest_OutputCount :: u32
  IoctlRequest_MaxInputResponse :: u32
  IoctlRequest_MaxOutputResponse :: u32
  IoctlRequest_Flags :: u32
  IoctlRequest_Input :: "encoder option"

definition IoctlRequest_Size :: "IoctlRequest \<Rightarrow> nat" where
  "IoctlRequest_Size c = (case IoctlRequest_Input c of None \<Rightarrow> 64 + 56 + 1 | Some e \<Rightarrow> 64 + 56 + enc_Size e)"

definition IoctlRequest_body :: "IoctlRequest \<Rightarrow> writer" where
  "IoctlRequest_body c = writes [
     put16 0 57,
     put32 4 (IoctlRequest_CtlCode c),
     on_slice 8 24 (FileId_Encode (IoctlRequest_FileId c)),
     put32 32 (IoctlRequest_MaxInputResponse c),
     put32 36 (IoctlRequest_OutputOffset c),
     put32 40 (IoctlRequest_OutputCount c),
     put32 44 (IoctlRequest_MaxOutputResponse c),
     put32 48 (IoctlRequest_Flags c),
     (case IoctlRequest_Input c of
        None \<Rightarrow> Some
      | Some e \<Rightarrow> writes [put32 24 (56 + 64), on_from 56 (enc_Encode e), put32 28 (of_nat (enc_Size e))])]"

definition IoctlRequest_Encode :: "IoctlRequest \<Rightarrow> writer" where
  "IoctlRequest_Encode c = writes [
     encodeHeader (IoctlRequest_Header c\<lparr>hdr_Command := SMB2_IOCTL\<rparr>),
     on_from 64 (IoctlRequest_body c)]"

definition IoctlRequestDecoder_StructureSize :: "bytes \<Rightarrow> u16 option" where
  "IoctlRequestDecoder_StructureSize r = u16_at r 0"

definition IoctlRequestDecoder_CtlCode :: "bytes \<Rightarrow> u32 option" where
  "IoctlRequestDecoder_CtlCode r = u32_at r 4"

definition IoctlRequestDecoder_FileId :: "bytes \<Rightarrow> bytes option" where
  "IoctlRequestDecoder_FileId r = go_slice r 8 24"

definition IoctlRequestDecoder_InputOffset :: "bytes \<Rightarrow> u32 option" where
  "IoctlRequestDecoder_InputOffset r = u32_at r 24"

definition IoctlRequestDecoder_InputCount :: "bytes \<Rightarrow> u32 option" where
  "IoctlRequestDecoder_InputCount r = u32_at r 28"

definition IoctlRequestDecoder_MaxInputResponse :: "bytes \<Rightarrow> u32 option" where
  "IoctlRequestDecoder_MaxInputResponse r = u32_at r 32"

definition IoctlRequestDecoder_OutputOffset :: "bytes \<Rightarrow> u32 option" where
  "IoctlRequestDecoder_OutputOffset r = u32_at r 36"

definition IoctlRequestDecoder_OutputCount :: "bytes \<Rightarrow> u32 option" where
  "IoctlRequestDecoder_OutputCount r = u32_at r 40"

definition IoctlRequestDecoder_MaxOutputResponse :: "bytes \<Rightarrow> u32 option" where
  "IoctlRequestDecoder_MaxOutputResponse r = u32_at r 44"

definition IoctlRequestDecoder_Flags :: "bytes \<Rightarrow> u32 option" where
  "IoctlRequestDecoder_Flags r = u32_at r 48"

definition IoctlRequestDecoder_Data :: "bytes \<Rightarrow> bytes option" where
  "IoctlRequestDecoder_Data r = go_slice_from r 56"

definition IoctlRequestDecoder_IsInvalid :: "bytes \<Rightarrow> bool option" where
  "IoctlRequestDecoder_IsInvalid r =
     (if length r < 56 then Some True
      else do {
        ss \<leftarrow> IoctlRequestDecoder_StructureSize r;
        if ss \<noteq> 57 then Some True else do {
          off \<leftarrow> IoctlRequestDecoder_InputOffset r;
          len \<leftarrow> IoctlRequestDecoder_InputCount r;
          Some (int (length r) < uint (off + len) - 64) } })"

record QueryDirectoryRequest =
  QueryDirectoryRequest_Header :: PacketHeader
  QueryDirectoryRequest_FileInfoClass :: u8
  QueryDirectoryRequest_Flags :: u8
  QueryDirectoryRequest_FileIndex :: u32
  QueryDirectoryRequest_FileId :: "FileId option"
  QueryDirectoryRequest_OutputBufferLength :: u32
  QueryDirectoryRequest_FileName :: go_string

definition QueryDirectoryRequest_Size :: "QueryDirectoryRequest \<Rightarrow> nat" where
  "QueryDirectoryRequest_Size c =
     (if length (QueryDirectoryRequest_FileName c) = 0 then 64 + 32 + 1
      else 64 + 32 + EncodedStringLen (QueryDirectoryRequest_FileName c))"

definition QueryDirectoryRequest_body :: "QueryDirectoryRequest \<Rightarrow> writer" where
  "QueryDirectoryRequest_body c = writes [
     put16 0 33,
     put8 2 (QueryDirectoryRequest_FileInfoClass c),
     put8 3 (QueryDirectoryRequest_Flags c),
     put32 4 (QueryDirectoryRequest_FileIndex c),
     on_slice 8 24 (FileId_Encode (QueryDirectoryRequest_FileId c)),
     put32 28 (QueryDirectoryRequest_OutputBufferLength c),
     put16 24 (32 + 64),
     on_from 32 (EncodeString (QueryDirectoryRequest_FileName c)),
     put16 26 (of_nat (EncodeString_n (QueryDirectoryRequest_FileName c)))]"

definition QueryDirectoryRequest_Encode :: "QueryDirectoryRequest \<Rightarrow> writer" where
  "QueryDirectoryRequest_Encode c = writes [
     encodeHeader (QueryDirectoryRequest_Header c\<lparr>hdr_Command := SMB2_QUERY_DIRECTORY\<rparr>),
     on_from 64 (QueryDirectoryRequest_body c)]"

definition QueryDirectoryRequestDecoder_StructureSize :: "bytes \<Rightarrow> u16 option" where
  "QueryDirectoryRequestDecoder_StructureSize r = u16_at r 0"

definition QueryDirectoryRequestDecoder_FileInfoClass :: "bytes \<Rightarrow> u8 option" where
  "QueryDirectoryRequestDecoder_FileInfoClass r = u8_at r 2"

definition QueryDirectoryRequestDecoder_Flags :: "bytes \<Rightarrow> u8 option" where
  "QueryDirectoryRequestDecoder_Flags r = u8_at r 3"

definition QueryDirectoryRequestDecoder_FileIndex :: "bytes \<Rightarrow> u32 option" where
  "QueryDirectoryRequestDecoder_FileIndex r = u32_at r 4"

definition QueryDirectoryRequestDecoder_FileId :: "bytes \<Rightarrow> bytes option" where
  "QueryDirectoryRequestDecoder_FileId r = go_slice r 8 24"

definition QueryDirectoryRequestDecoder_FileNameOffset :: "bytes \<Rightarrow> u16 option" where
  "QueryDirectoryRequestDecoder_FileNameOffset r = u16_at r 24"

definition QueryDirectoryRequestDecoder_FileNameLength :: "bytes \<Rightarrow> u16 option" where
  "QueryDirectoryRequestDecoder_FileNameLength r = u16_at r 26"

definition QueryDirectoryRequestDecoder_OutputBufferLength :: "bytes \<Rightarrow> u32 option" where
  "QueryDirectoryRequestDecoder_OutputBufferLength r = u32_at r 28"

definition QueryDirectoryRequestDecoder_IsInvalid :: "bytes \<Rightarrow> bool option" where
  "QueryDirectoryRequestDecoder_IsInvalid r =
     (if length r < 32 then Some True
      else do {
        ss \<leftarrow> QueryDirectoryRequestDecoder_StructureSize r;
        if ss \<noteq> 33 then Some True else do {
          off \<leftarrow> QueryDirectoryRequestDecoder_FileNameOffset r;
          len \<leftarrow> QueryDirectoryRequestDecoder_FileNameLength r;
          Some (int (length r) < uint (off + len) - 64) } })"

definition QueryDirectoryRequestDecoder_FileName :: "bytes \<Rightarrow> go_string option" where
  "QueryDirectoryRequestDecoder_FileName r = do {
     foff \<leftarrow> QueryDirectoryRequestDecoder_FileNameOffset r;
     let off = foff - 64;
     len \<leftarrow> QueryDirectoryRequestDecoder_FileNameLength r;
     bs \<leftarrow> go_slice r (unat off) (unat (off + len));
     DecodeToString bs }"

record ChangeNotifyRequest =
  ChangeNotifyRequest_Header :: PacketHeader

definition ChangeNotifyRequest_Size :: "ChangeNotifyRequest \<Rightarrow> nat" where
  "ChangeNotifyRequest_Size c = 64 * 2"

definition ChangeNotifyRequestDecoder_StructureSize :: "bytes \<Rightarrow> u16 option" where
  "ChangeNotifyRequestDecoder_StructureSize r = u16_at r 0"

definition ChangeNotifyRequestDecoder_Flags :: "bytes \<Rightarrow> u16 option" where
  "ChangeNotifyRequestDecoder_Flags r = u16_at r 2"

definition ChangeNotifyRequestDecoder_FileId :: "bytes \<Rightarrow> bytes option" where
  "ChangeNotifyRequestDecoder_FileId r = go_slice r 8 24"

definition ChangeNotifyRequestDecoder_OutputBufferLength :: "bytes \<Rightarrow> u32 option" where
  "ChangeNotifyRequestDecoder_OutputBufferLength r = u32_at r 4"

definition ChangeNotifyRequestDecoder_CompletionFilter :: "bytes \<Rightarrow> u32 option" where
  "ChangeNotifyRequestDecoder_CompletionFilter r = u32_at r 24"

definition ChangeNotifyRequestDecoder_IsInvalid :: "bytes \<Rightarrow> bool option" where
  "ChangeNotifyRequestDecoder_IsInvalid r =
     (if length r \<noteq> 32 then Some True
      else do {
        ss \<leftarrow> ChangeNotifyRequestDecoder_StructureSize r;
        if ss \<noteq> 32 then Some True else Some False })"

record QueryInfoRequest =
  QueryInfoRequest_Header :: PacketHeader
  QueryInfoRequest_InfoType :: u8
  QueryInfoRequest_FileInfoClass :: u8
  QueryInfoRequest_OutputBufferLength :: u32
  QueryInfoRequest_AdditionalInformation :: u32
  QueryInfoRequest_Flags :: u32
  QueryInfoRequest_FileId :: "FileId option"
  QueryInfoRequest_Input :: "encoder option"

definition QueryInfoRequest_Size :: "QueryInfoRequest \<Rightarrow> nat" where
  "QueryInfoRequest_Size c = (case QueryInfoRequest_Input c of None \<Rightarrow> 64 + 40 + 1 | Some e \<Rightarrow> 64 + 40 + enc_Size e)"

definition QueryInfoRequest_body :: "QueryInfoRequest \<Rightarrow> writer" where
  "QueryInfoRequest_body c = writes [
     put16 0 41,
     put8 2 (QueryInfoRequest_InfoType c),
     put8 3 (QueryInfoRequest_FileInfoClass c),
     put32 4 (QueryInfoRequest_OutputBufferLength c),
     put32 16 (QueryInfoRequest_AdditionalInformation c),
     put32 20 (QueryInfoRequest_Flags c),
     on_slice 24 40 (FileId_Encode (QueryInfoRequest_FileId c)),
     (case QueryInfoRequest_Input c of
        None \<Rightarrow> Some
      | Some e \<Rightarrow> writes [put16 8 (40 + 64), on_from 40 (enc_Encode e), put32 12 (of_nat (enc_Size e))])]"

definition QueryInfoRequest_Encode :: "QueryInfoRequest \<Rightarrow> writer" where
  "QueryInfoRequest_Encode c = writes [
     encodeHeader (QueryInfoRequest_Header c\<lparr>hdr_Command := SMB2_QUERY_INFO\<rparr>),
     on_from 64 (QueryInfoRequest_body c)]"

definition QueryInfoRequestDecoder_StructureSize :: "bytes \<Rightarrow> u16 option" where
  "QueryInfoRequestDecoder_StructureSize r = u16_at r 0"

definition QueryInfoRequestDecoder_InfoType :: "bytes \<Rightarrow> u8 option" where
  "QueryInfoRequestDecoder_InfoType r = u8_at r 2"

definition QueryInfoRequestDecoder_FileInfoClass :: "bytes \<Rightarrow> u8 option" where
  "QueryInfoRequestDecoder_FileInfoClass r = u8_at r 3"

definition QueryInfoRequestDecoder_OutputBufferLength :: "bytes \<Rightarrow> u32 option" where
  "QueryInfoRequestDecoder_OutputBufferLength r = u32_at r 4"

definition QueryInfoRequestDecoder_InputBufferOffset :: "bytes \<Rightarrow> u16 option" where
  "QueryInfoRequestDecoder_InputBufferOffset r = u16_at r 8"

definition QueryInfoRequestDecoder_InputBufferLength :: "bytes \<Rightarrow> u32 option" where
  "QueryInfoRequestDecoder_InputBufferLength r = u32_at r 12"

definition QueryInfoRequestDecoder_AdditionalInformation :: "bytes \<Rightarrow> u32 option" where
  "QueryInfoRequestDecoder_AdditionalInformation r = u32_at r 16"

definition QueryInfoRequestDecoder_Flags :: "bytes \<Rightarrow> u32 option" where
  "QueryInfoRequestDecoder_Flags r = u32_at r 20"

definition QueryInfoRequestDecoder_FileId :: "bytes \<Rightarrow> bytes option" where
  "QueryInfoRequestDecoder_FileId r = go_slice r 24 40"

definition QueryInfoRequestDecoder_IsInvalid :: "bytes \<Rightarrow> bool option" where
  "QueryInfoRequestDecoder_IsInvalid r =
     (if length r < 40 then Some True
      else do {
        ss \<leftarrow> QueryInfoRequestDecoder_StructureSize r;
        if ss \<noteq> 41 then Some True else do {
          off \<leftarrow> QueryInfoRequestDecoder_InputBufferOffset r;
          len \<leftarrow> QueryInfoRequestDecoder_InputBufferLength r;
          Some (int (length r) < uint (ucast off + len) - 64) } })"

record SetInfoRequest =
  SetInfoRequest_Header :: PacketHeader
  SetInfoRequest_InfoType :: u8
  SetInfoRequest_FileInfoClass :: u8
  SetInfoRequest_AdditionalInformation :: u32
  SetInfoRequest_FileId :: "FileId option"
  SetInfoRequest_Input :: "encoder option"

definition SetInfoRequest_Size :: "SetInfoRequest \<Rightarrow> nat" where
  "SetInfoRequest_Size c = (case SetInfoRequest_Input c of None \<Rightarrow> 64 + 32 + 1 | Some e \<Rightarrow> 64 + 32 + enc_Size e)"

definition SetInfoRequest_body :: "SetInfoRequest \<Rightarrow> writer" where
  "SetInfoRequest_body c = writes [
     put16 0 33,
     put8 2 (SetInfoRequest_InfoType c),
     put8 3 (SetInfoRequest_FileInfoClass c),
     put32 12 (SetInfoRequest_AdditionalInformation c),
     on_slice 16 32 (FileId_Encode (SetInfoRequest_FileId c)),
     (case SetInfoRequest_Input c of
        None \<Rightarrow> Some
      | Some e \<Rightarrow> writes [put16 8 (32 + 64), on_from 32 (enc_Encode e), put32 4 (of_nat (enc_Size e))])]"

definition SetInfoRequest_Encode :: "SetInfoRequest \<Rightarrow> writer" where
  "SetInfoRequest_Encode c = writes [
     encodeHeader (SetInfoRequest_Header c\<lparr>hdr_Command := SMB2_SET_INFO\<rparr>),
     on_from 64 (SetInfoRequest_body c)]"

definition SetInfoRequestDecoder_StructureSize :: "bytes \<Rightarrow> u16 option" where
  "SetInfoRequestDecoder_StructureSize r = u16_at r 0"

definition SetInfoRequestDecoder_InfoType :: "bytes \<Rightarrow> u8 option" where
  "SetInfoRequestDecoder_InfoType r = u8_at r 2"

definition SetInfoRequestDecoder_FileInfoClass :: "bytes \<Rightarrow> u8 option" where
  "SetInfoRequestDecoder_FileInfoClass r = u8_at r 3"

definition SetInfoRequestDecoder_BufferLength :: "bytes \<Rightarrow> u32 option" where
  "SetInfoRequestDecoder_BufferLength r = u32_at r 4"

definition SetInfoRequestDecoder_BufferOffset :: "bytes \<Rightarrow> u16 option" where
  "SetInfoRequestDecoder_BufferOffset r = u16_at r 8"

definition SetInfoRequestDecoder_AdditionalInformation :: "bytes \<Rightarrow> u32 option" where
  "SetInfoRequestDecoder_AdditionalInformation r = u32_at r 12"

definition SetInfoRequestDecoder_FileId :: "bytes \<Rightarrow> bytes option" where
  "SetInfoRequestDecoder_FileId r = go_slice r 16 32"

definition SetInfoRequestDecoder_Buffer :: "bytes \<Rightarrow> bytes option" where
  "SetInfoRequestDecoder_Buffer r = go_slice_from r 32"

definition SetInfoRequestDecoder_IsInvalid :: "bytes \<Rightarrow> bool option" where
  "SetInfoRequestDecoder_IsInvalid r =
     (if length r < 32 then Some True
      else do {
        ss \<leftarrow> SetInfoRequestDecoder_StructureSize r;
        if ss \<noteq> 33 then Some True else do {
          off \<leftarrow> SetInfoRequestDecoder_BufferOffset r;
          len \<leftarrow> SetInfoRequestDecoder_BufferLength r;
          Some (int (length r) < uint (ucast off + len) - 64) } })"

record AAPLServerQueryRequest =
  AAPLServerQueryRequest_CommandCode :: u32
  AAPLServerQueryRequest_Reserved :: u32
  AAPLServerQueryRequest_RequestBitmap :: u64
  AAPLServerQueryRequest_ClientCaps :: u64

definition AAPLServerQueryRequestDecoder_CommandCode :: "bytes \<Rightarrow> u32 option" where
  "AAPLServerQueryRequestDecoder_CommandCode r = u32_at r 0"

definition AAPLServerQueryRequestDecoder_RequestBitmap :: "bytes \<Rightarrow> u64 option" where
  "AAPLServerQueryRequestDecoder_RequestBitmap r = u64_at r 8"

definition AAPLServerQueryRequestDecoder_ClientCaps :: "bytes \<Rightarrow> u64 option" where
  "AAPLServerQueryRequestDecoder_ClientCaps r = u64_at r 16"

record DurableHandleRequest2 =
  DurableHandleRequest2_Timeout :: u32
  DurableHandleRequest2_Flags :: u32
  DurableHandleRequest2_CreateGuid :: bytes

definition DurableHandleRequest2Decoder_Timeout :: "bytes \<Rightarrow> u32 option" where
  "DurableHandleRequest2Decoder_Timeout r = u32_at r 0"

definition DurableHandleRequest2Decoder_Flags :: "bytes \<Rightarrow> u32 option" where
  "DurableHandleRequest2Decoder_Flags r = u32_at r 4"

definition DurableHandleRequest2Decoder_CreateGuid :: "bytes \<Rightarrow> bytes option" where
  "DurableHandleRequest2Decoder_CreateGuid r = go_slice r 16 32"

record LeaseRequest =
  LeaseRequest_LeaseKey :: bytes
  LeaseRequest_LeaseState :: u32
  LeaseRequest_LeaseFlags :: u32
  LeaseRequest_LeaseDuration :: u64

definition LeaseRequestDecoder_LeaseKey :: "bytes \<Rightarrow> bytes option" where
  "LeaseRequestDecoder_LeaseKey r = Some (go_copy (replicate 16 0) r)"

definition LeaseRequestDecoder_LeaseState :: "bytes \<Rightarrow> u32 option" where
  "LeaseRequestDecoder_LeaseState r = u32_at r 16"

definition LeaseRequestDecoder_LeaseFlags :: "bytes \<Rightarrow> u32 option" where
  "LeaseRequestDecoder_LeaseFlags r = u32_at r 20"

definition LeaseRequestDecoder_LeaseDuration :: "bytes \<Rightarrow> u64 option" where
  "LeaseRequestDecoder_LeaseDuration r = u64_at r 24"

record LeaseRequest2 =
  LeaseRequest2_LeaseReq :: LeaseRequest
  LeaseRequest2_ParentLeaseKey :: bytes
  LeaseRequest2_Epoch :: u16

definition LeaseRequest2Decoder_LeaseKey :: "bytes \<Rightarrow> bytes option" where
  "LeaseRequest2Decoder_LeaseKey r = Some (go_copy (replicate 16 0) r)"

definition LeaseRequest2Decoder_LeaseState :: "bytes \<Rightarrow> u32 option" where
  "LeaseRequest2Decoder_LeaseState r = u32_at r 16"

definition LeaseRequest2Decoder_LeaseFlags :: "bytes \<Rightarrow> u32 option" where
  "LeaseRequest2Decoder_LeaseFlags r = u32_at r 20"

definition LeaseRequest2Decoder_LeaseDuration :: "bytes \<Rightarrow> u64 option" where
  "LeaseRequest2Decoder_LeaseDuration r = u64_at r 24"

definition LeaseRequest2Decoder_ParentLeaseKey :: "bytes \<Rightarrow> bytes option" where
  "LeaseRequest2Decoder_ParentLeaseKey r = map_option (go_copy (replicate 16 0)) (go_slice r 32 48)"

definition LeaseRequest2Decoder_Epoch :: "bytes \<Rightarrow> u16 option" where
  "LeaseRequest2Decoder_Epoch r = u16_at r 48"


section \<open>The accessors of each decoder\<close>

lemmas NegotiateRequestDecoder_defs = NegotiateRequestDecoder_StructureSize_def
  NegotiateRequestDecoder_DialectCount_def NegotiateRequestDecoder_SecurityMode_def
  NegotiateRequestDecoder_Capabilities_def NegotiateRequestDecoder_ClientGuid_def
  NegotiateRequestDecoder_ClientStartTime_def NegotiateRequestDecoder_NegotiateContextOffset_def
  NegotiateRequestDecoder_NegotiateContextCount_def NegotiateRequestDecoder_IsInvalid_def
  NegotiateRequestDecoder_Dialects_def NegotiateRequestDecoder_NegotiateContextList_def

lemmas SessionSetupRequestDecoder_defs = SessionSetupRequestDecoder_StructureSize_def
  SessionSetupRequestDecoder_Flags_def SessionSetupRequestDecoder_SecurityMode_def
  SessionSetupRequestDecoder_Capabilities_def SessionSetupRequestDecoder_Channel_def
  SessionSetupRequestDecoder_PreviousSessionId_def
  SessionSetupRequestDecoder_SecurityBufferOffset_def
  SessionSetupRequestDecoder_SecurityBufferLength_def SessionSetupRequestDecoder_IsInvalid_def
  SessionSetupRequestDecoder_SecurityBuffer_def

lemmas LogoffRequestDecoder_defs = LogoffRequestDecoder_StructureSize_def
  LogoffRequestDecoder_IsInvalid_def

lemmas TreeConnectRequestDecoder_defs = TreeConnectRequestDecoder_StructureSize_def
  TreeConnectRequestDecoder_Flags_def TreeConnectRequestDecoder_PathOffset_def
  TreeConnectRequestDecoder_PathLength_def TreeConnectRequestDecoder_IsInvalid_def
  TreeConnectRequestDecoder_Path_def

lemmas TreeDisconnectRequestDecoder_defs = TreeDisconnectRequestDecoder_StructureSize_def
  TreeDisconnectRequestDecoder_IsInvalid_def

lemmas CreateRequestDecoder_defs = CreateRequestDecoder_StructureSize_def
  CreateRequestDecoder_SecurityFlags_def CreateRequestDecoder_RequestedOplockLevel_def
  CreateRequestDecoder_ImpersonationLevel_def CreateRequestDecoder_SmbCreateFlags_def
  CreateRequestDecoder_DesiredAccess_def CreateRequestDecoder_FileAttributes_def
  CreateRequestDecoder_ShareAccess_def CreateRequestDecoder_CreateDisposition_def
  CreateRequestDecoder_CreateOptions_def CreateRequestDecoder_NameOffset_def
  CreateRequestDecoder_NameLength_def CreateRequestDecoder_CreateContextsOffset_def
  CreateRequestDecoder_CreateContextsLength_def CreateRequestDecoder_IsInvalid_def
  CreateRequestDecoder_Name_def CreateRequestDecoder_CreateContexts_def

lemmas CreateContextDecoder_defs = CreateContextDecoder_Next_def
  CreateContextDecoder_NameOffset_def CreateContextDecoder_NameLength_def
  CreateContextDecoder_DataOffset_def CreateContextDecoder_DataLength_def
  CreateContextDecoder_Buffer_def CreateContextDecoder_Name_def

lemmas CloseRequestDecoder_defs = CloseRequestDecoder_StructureSize_def
  CloseRequestDecoder_Flags_def CloseRequestDecoder_FileId_def CloseRequestDecoder_IsInvalid_def

lemmas FlushRequestDecoder_defs = FlushRequestDecoder_StructureSize_def
  FlushRequestDecoder_FileId_def FlushRequestDecoder_IsInvalid_def

lemmas ReadRequestDecoder_defs = ReadRequestDecoder_StructureSize_def
  ReadRequestDecoder_Padding_def ReadRequestDecoder_Flags_def ReadRequestDecoder_Length_def
  ReadRequestDecoder_Offset_def ReadRequestDecoder_FileId_def ReadRequestDecoder_MinimumCount_def
  ReadRequestDecoder_Channel_def ReadRequestDecoder_RemainingBytes_def
  ReadRequestDecoder_ReadChannelInfoOffset_def ReadRequestDecoder_ReadChannelInfoLength_def
  ReadRequestDecoder_IsInvalid_def

lemmas WriteRequestDecoder_defs = WriteRequestDecoder_StructureSize_def
  WriteRequestDecoder_DataOffset_def WriteRequestDecoder_Length_def WriteRequestDecoder_Offset_def
  WriteRequestDecoder_FileId_def WriteRequestDecoder_Channel_def
  WriteRequestDecoder_RemainingBytes_def WriteRequestDecoder_WriteChannelInfoOffset_def
  WriteRequestDecoder_WriteChannelInfoLength_def WriteRequestDecoder_Flags_def
  WriteRequestDecoder_IsInvalid_def WriteRequestDecoder_Data_def

lemmas CancelRequestDecoder_defs = CancelRequestDecoder_StructureSize_def
  CancelRequestDecoder_IsInvalid_def

lemmas IoctlRequestDecoder_defs = IoctlRequestDecoder_StructureSize_def
  IoctlRequestDecoder_CtlCode_def IoctlRequestDecoder_FileId_def
  IoctlRequestDecoder_InputOffset_def IoctlRequestDecoder_InputCount_def
  IoctlRequestDecoder_MaxInputResponse_def IoctlRequestDecoder_OutputOffset_def
  IoctlRequestDecoder_OutputCount_def IoctlRequestDecoder_MaxOutputResponse_def
  IoctlRequestDecoder_Flags_def IoctlRequestDecoder_Data_def IoctlRequestDecoder_IsInvalid_def

lemmas QueryDirectoryRequestDecoder_defs = QueryDirectoryRequestDecoder_StructureSize_def
  QueryDirectoryRequestDecoder_FileInfoClass_def QueryDirectoryRequestDecoder_Flags_def
  QueryDirectoryRequestDecoder_FileIndex_def QueryDirectoryRequestDecoder_FileId_def
  QueryDirectoryRequestDecoder_FileNameOffset_def QueryDirectoryRequestDecoder_FileNameLength_def
  QueryDirectoryRequestDecoder_OutputBufferLength_def QueryDirectoryRequestDecoder_IsInvalid_def
  QueryDirectoryRequestDecoder_FileName_def

lemmas ChangeNotifyRequestDecoder_defs = ChangeNotifyRequestDecoder_StructureSize_def
  ChangeNotifyRequestDecoder_Flags_def ChangeNotifyRequestDecoder_FileId_def
  ChangeNotifyRequestDecoder_OutputBufferLength_def
  ChangeNotifyRequestDecoder_CompletionFilter_def ChangeNotifyRequestDecoder_IsInvalid_def

lemmas QueryInfoRequestDecoder_defs = QueryInfoRequestDecoder_StructureSize_def
  QueryInfoRequestDecoder_InfoType_def QueryInfoRequestDecoder_FileInfoClass_def
  QueryInfoRequestDecoder_OutputBufferLength_def QueryInfoRequestDecoder_InputBufferOffset_def
  QueryInfoRequestDecoder_InputBufferLength_def QueryInfoRequestDecoder_AdditionalInformation_def
  QueryInfoRequestDecoder_Flags_def QueryInfoRequestDecoder_FileId_def
  QueryInfoRequestDecoder_IsInvalid_def

lemmas SetInfoRequestDecoder_defs = SetInfoRequestDecoder_StructureSize_def
  SetInfoRequestDecoder_InfoType_def SetInfoRequestDecoder_FileInfoClass_def
  SetInfoRequestDecoder_BufferLength_def SetInfoRequestDecoder_BufferOffset_def
  SetInfoRequestDecoder_AdditionalInformation_def SetInfoRequestDecoder_FileId_def
  SetInfoRequestDecoder_Buffer_def SetInfoRequestDecoder_IsInvalid_def

lemmas AAPLServerQueryRequestDecoder_defs = AAPLServerQueryRequestDecoder_CommandCode_def
  AAPLServerQueryRequestDecoder_RequestBitmap_def AAPLServerQueryRequestDecoder_ClientCaps_def

lemmas DurableHandleRequest2Decoder_defs = DurableHandleRequest2Decoder_Timeout_def
  DurableHandleRequest2Decoder_Flags_def DurableHandleRequest2Decoder_CreateGuid_def

lemmas LeaseRequestDecoder_defs = LeaseRequestDecoder_LeaseKey_def
  LeaseRequestDecoder_LeaseState_def LeaseRequestDecoder_LeaseFlags_def
  LeaseRequestDecoder_LeaseDuration_def

lemmas LeaseRequest2Decoder_defs = LeaseRequest2Decoder_LeaseKey_def
  LeaseRequest2Decoder_LeaseState_def LeaseRequest2Decoder_LeaseFlags_def
  LeaseRequest2Decoder_LeaseDuration_def LeaseRequest2Decoder_ParentLeaseKey_def
  LeaseRequest2Decoder_Epoch_def

end
