(* ===== verification/Smb2_Request_Codec.thy ===== *)
theory Smb2_Request_Codec
  imports Smb2_Request
begin

text \<open>
  The requests of \<open>internal/smb2/request.go\<close> as messages: every encoder keeps inside a
  buffer of its \<open>Size()\<close> (the interpretations of \<open>smb2_command\<close>), what a decoder
  reads back from an encoded request, and which accessors can panic on a request that passed its
  \<open>IsInvalid\<close>.
\<close>

section \<open>Nested encoders\<close>

lemma safe_enc_Encode: "encoder_ok e \<Longrightarrow> enc_Size e \<le> k \<Longrightarrow> safe_w k (enc_Encode e)"
  by (auto simp: encoder_ok_def intro: safe_w_mono)

lemma safe_NegotiateRequest_body_loop:
  "list_all encoder_ok ccs \<Longrightarrow> items8_end off ccs \<le> k \<Longrightarrow> 32 \<le> k \<Longrightarrow>
     safe_w k (NegotiateRequest_body_loop i off ccs)"
proof (induction i off ccs rule: NegotiateRequest_body_loop.induct)
  case (1 i off)
  then show ?case by (simp add: safe_Some)
next
  case (2 i off cc ccs)
  have e: "Roundup off 8 + enc_Size cc \<le> k"
    using 2(3) items8_end_ge [of "Roundup off 8 + enc_Size cc" ccs] by simp
  show ?case
    unfolding NegotiateRequest_body_loop.simps Let_def
    using 2 e by (intro go_safe safe_enc_Encode) auto
qed

lemma safe_CreateRequest_body_loop:
  "list_all encoder_ok cs \<Longrightarrow> items8_end off cs \<le> k \<Longrightarrow> 52 \<le> k \<Longrightarrow>
     pred_option (\<lambda>c. c + 4 \<le> k) prev \<Longrightarrow> list_all (\<lambda>e. 4 \<le> enc_Size e) cs \<Longrightarrow>
     safe_w k (CreateRequest_body_loop prev off cs)"
proof (induction prev off cs rule: CreateRequest_body_loop.induct)
  case (1 prev off)
  then show ?case by (simp add: safe_Some)
next
  case (2 prev off c cs)
  have e: "Roundup off 8 + enc_Size c \<le> k"
    using 2(3) items8_end_ge [of "Roundup off 8 + enc_Size c" cs] by simp
  have p: "safe_w k (case prev of None \<Rightarrow> put32 48 (of_nat (64 + Roundup off 8))
      | Some ctxOff \<Rightarrow> put32 ctxOff (of_nat (Roundup off 8 - ctxOff)))"
    using 2(4,5) by (cases prev) (auto intro: go_safe)
  show ?case
    unfolding CreateRequest_body_loop.simps Let_def
    using 2 e p by (intro go_safe safe_enc_Encode) auto
qed

lemma safe_ReadRequest_body_loop:
  "list_all encoder_ok rs \<Longrightarrow> items_end off rs \<le> k \<Longrightarrow> 46 \<le> k \<Longrightarrow> safe_w k (ReadRequest_body_loop i off rs)"
proof (induction i off rs rule: ReadRequest_body_loop.induct)
  case (1 i off)
  then show ?case by (simp add: safe_Some)
next
  case (2 i off r rs)
  then show ?case
    unfolding ReadRequest_body_loop.simps items_end_eq
    by (intro go_safe safe_enc_Encode) (auto simp: items_end_eq)
qed

lemma safe_WriteRequest_body_loop:
  "list_all encoder_ok ws \<Longrightarrow> items_end off ws \<le> k \<Longrightarrow> 46 \<le> k \<Longrightarrow> safe_w k (WriteRequest_body_loop i off ws)"
proof (induction i off ws rule: WriteRequest_body_loop.induct)
  case (1 i off)
  then show ?case by (simp add: safe_Some)
next
  case (2 i off w ws)
  then show ?case
    unfolding WriteRequest_body_loop.simps items_end_eq
    by (intro go_safe safe_enc_Encode) (auto simp: items_end_eq)
qed

section \<open>Every request is a message\<close>

interpretation NegotiateRequest: smb2_command NegotiateRequest_Header SMB2_NEGOTIATE
  NegotiateRequest_Size NegotiateRequest_Encode NegotiateRequest_body
  "\<lambda>c. list_all encoder_ok (NegotiateRequest_Contexts c)"
proof unfold_locales
  fix m :: NegotiateRequest
  show "64 \<le> NegotiateRequest_Size m" by (simp add: NegotiateRequest_Size_def)
  show "NegotiateRequest_Encode m = writes [encodeHeader (NegotiateRequest_Header m\<lparr>hdr_Command := SMB2_NEGOTIATE\<rparr>),
      on_from 64 (NegotiateRequest_body m)]" by (simp add: NegotiateRequest_Encode_def)
  assume ok: "list_all encoder_ok (NegotiateRequest_Contexts m)"
  have "36 + length (NegotiateRequest_Dialects m) * 2 \<le> NegotiateRequest_Size m - 64"
    using items8_end_ge by (simp add: NegotiateRequest_Size_def)
  then show "safe_w (NegotiateRequest_Size m - 64) (NegotiateRequest_body m)"
    unfolding NegotiateRequest_body_def using ok
    by (intro go_safe safe_NegotiateRequest_body_loop) (auto simp: NegotiateRequest_Size_def)
qed

interpretation SessionSetupRequest: smb2_command SessionSetupRequest_Header SMB2_SESSION_SETUP
  SessionSetupRequest_Size SessionSetupRequest_Encode SessionSetupRequest_body "\<lambda>c. True"
  by unfold_locales (auto simp: SessionSetupRequest_Size_def SessionSetupRequest_Encode_def
      SessionSetupRequest_body_def intro!: go_safe)

interpretation LogoffRequest: smb2_command LogoffRequest_Header SMB2_LOGOFF
  LogoffRequest_Size LogoffRequest_Encode LogoffRequest_body "\<lambda>c. True"
  by unfold_locales (auto simp: LogoffRequest_Size_def LogoffRequest_Encode_def
      LogoffRequest_body_def intro!: go_safe)

interpretation TreeConnectRequest: smb2_command TreeConnectRequest_Header SMB2_TREE_CONNECT
  TreeConnectRequest_Size TreeConnectRequest_Encode TreeConnectRequest_body "\<lambda>c. True"
  by unfold_locales (auto simp: TreeConnectRequest_Size_def TreeConnectRequest_Encode_def
      TreeConnectRequest_body_def intro!: go_safe)

interpretation TreeDisconnectRequest: smb2_command TreeDisconnectRequest_Header SMB2_TREE_DISCONNECT
  TreeDisconnectRequest_Size TreeDisconnectRequest_Encode TreeDisconnectRequest_body "\<lambda>c. True"
  by unfold_locales (auto simp: TreeDisconnectRequest_Size_def TreeDisconnectRequest_Encode_def
      TreeDisconnectRequest_body_def intro!: go_safe)

text \<open>A create context is at least as long as its \<open>Next\<close> field.\<close>

definition create_ctxs_ok :: "encoder list \<Rightarrow> bool" where
  "create_ctxs_ok cs \<longleftrightarrow> list_all encoder_ok cs \<and> list_all (\<lambda>e. 4 \<le> enc_Size e) cs"

lemma CreateRequest_Size_ge:
  "64 + items8_end (56 + EncodeString_n (CreateRequest_Name c)) (CreateRequest_Contexts c) \<le> CreateRequest_Size c"
  using items8_end_add [of 64 "56 + EncodeString_n (CreateRequest_Name c)" "CreateRequest_Contexts c"]
  by (auto simp: CreateRequest_Size_def EncodedStringLen_eq EncodeString_n_def utf16_Encode_def)

interpretation CreateRequest: smb2_command CreateRequest_Header SMB2_CREATE
  CreateRequest_Size CreateRequest_Encode CreateRequest_body
  "\<lambda>c. create_ctxs_ok (CreateRequest_Contexts c)"
proof unfold_locales
  fix m :: CreateRequest
  let ?n = "EncodeString_n (CreateRequest_Name m)" and ?cs = "CreateRequest_Contexts m"
  have s: "64 + items8_end (56 + ?n) ?cs \<le> CreateRequest_Size m" by (rule CreateRequest_Size_ge)
  have k: "56 + ?n \<le> items8_end (56 + ?n) ?cs" by (rule items8_end_ge)
  show "64 \<le> CreateRequest_Size m" using s k by linarith
  show "CreateRequest_Encode m = writes [encodeHeader (CreateRequest_Header m\<lparr>hdr_Command := SMB2_CREATE\<rparr>),
      on_from 64 (CreateRequest_body m)]" by (simp add: CreateRequest_Encode_def)
  assume "create_ctxs_ok ?cs"
  then show "safe_w (CreateRequest_Size m - 64) (CreateRequest_body m)"
    unfolding CreateRequest_body_def Let_def create_ctxs_ok_def using s k
    by (intro go_safe safe_CreateRequest_body_loop) (auto simp: EncodedStringLen_eq)
qed

interpretation CloseRequest: smb2_command CloseRequest_Header SMB2_CLOSE
  CloseRequest_Size CloseRequest_Encode CloseRequest_body "\<lambda>c. True"
  by unfold_locales (auto simp: CloseRequest_Size_def CloseRequest_Encode_def
      CloseRequest_body_def intro!: go_safe)

interpretation FlushRequest: smb2_command FlushRequest_Header SMB2_FLUSH
  FlushRequest_Size FlushRequest_Encode FlushRequest_body "\<lambda>c. True"
  by unfold_locales (auto simp: FlushRequest_Size_def FlushRequest_Encode_def
      FlushRequest_body_def intro!: go_safe)

interpretation ReadRequest: smb2_command ReadRequest_Header SMB2_READ
  ReadRequest_Size ReadRequest_Encode ReadRequest_body
  "\<lambda>c. list_all encoder_ok (ReadRequest_ReadChannelInfo c)"
  by unfold_locales (auto simp: ReadRequest_Size_def ReadRequest_Encode_def items_end_eq
      ReadRequest_body_def intro!: go_safe safe_ReadRequest_body_loop)

interpretation WriteRequest: smb2_command WriteRequest_Header SMB2_WRITE
  WriteRequest_Size WriteRequest_Encode WriteRequest_body
  "\<lambda>c. list_all encoder_ok (WriteRequest_WriteChannelInfo c)"
  by unfold_locales (auto simp: WriteRequest_Size_def WriteRequest_Encode_def items_end_eq Let_def
      WriteRequest_body_def intro!: go_safe safe_WriteRequest_body_loop)

interpretation CancelRequest: smb2_command CancelRequest_Header SMB2_CANCEL
  CancelRequest_Size CancelRequest_Encode CancelRequest_body "\<lambda>c. True"
  by unfold_locales (auto simp: CancelRequest_Size_def CancelRequest_Encode_def
      CancelRequest_body_def intro!: go_safe)

interpretation IoctlRequest: smb2_command IoctlRequest_Header SMB2_IOCTL
  IoctlRequest_Size IoctlRequest_Encode IoctlRequest_body
  "\<lambda>c. pred_option encoder_ok (IoctlRequest_Input c)"
  by unfold_locales (auto simp: IoctlRequest_Size_def IoctlRequest_Encode_def
      IoctlRequest_body_def intro!: go_safe safe_enc_Encode split: option.splits)

interpretation QueryDirectoryRequest: smb2_command QueryDirectoryRequest_Header SMB2_QUERY_DIRECTORY
  QueryDirectoryRequest_Size QueryDirectoryRequest_Encode QueryDirectoryRequest_body "\<lambda>c. True"
  by unfold_locales (auto simp: QueryDirectoryRequest_Size_def QueryDirectoryRequest_Encode_def
      QueryDirectoryRequest_body_def intro!: go_safe)

interpretation QueryInfoRequest: smb2_command QueryInfoRequest_Header SMB2_QUERY_INFO
  QueryInfoRequest_Size QueryInfoRequest_Encode QueryInfoRequest_body
  "\<lambda>c. pred_option encoder_ok (QueryInfoRequest_Input c)"
  by unfold_locales (auto simp: QueryInfoRequest_Size_def QueryInfoRequest_Encode_def
      QueryInfoRequest_body_def intro!: go_safe safe_enc_Encode split: option.splits)

interpretation SetInfoRequest: smb2_command SetInfoRequest_Header SMB2_SET_INFO
  SetInfoRequest_Size SetInfoRequest_Encode SetInfoRequest_body
  "\<lambda>c. pred_option encoder_ok (SetInfoRequest_Input c)"
  by unfold_locales (auto simp: SetInfoRequest_Size_def SetInfoRequest_Encode_def
      SetInfoRequest_body_def intro!: go_safe safe_enc_Encode split: option.splits)

section \<open>Reading back an encoded request\<close>

lemma WriteRequest_body_loop_rd:
  "WriteRequest_body_loop i off ws p = Some q \<Longrightarrow> m + k \<le> off \<Longrightarrow>
     i = 0 \<longrightarrow> m + k \<le> 40 \<or> 42 \<le> m \<Longrightarrow> rd m k q = rd m k p"
proof (induction i off ws arbitrary: p rule: WriteRequest_body_loop.induct)
  case (1 i off)
  then show ?case by simp
next
  case (2 i off w ws)
  obtain p1 p2 where p: "when_w (i = 0) (put16 40 (of_nat (64 + off))) p = Some p1"
    "on_from off (enc_Encode w) p1 = Some p2"
    "WriteRequest_body_loop (i + 1) (off + enc_Size w) ws p2 = Some q"
    using 2(2) by (auto split: option.splits)
  have "rd m k p1 = rd m k p"
    using p(1) 2(4) put_rd [of 40 _ p p1 m k] by (auto simp: when_w_def put16_def split: if_splits)
  then show ?case
    using 2(1) [OF p(3)] 2(3) on_from_rd [OF p(2)] by simp
qed

lemma ReadRequest_body_loop_rd:
  "ReadRequest_body_loop i off ws p = Some q \<Longrightarrow> m + k \<le> off \<Longrightarrow>
     i = 0 \<longrightarrow> m + k \<le> 44 \<or> 46 \<le> m \<Longrightarrow> rd m k q = rd m k p"
proof (induction i off ws arbitrary: p rule: ReadRequest_body_loop.induct)
  case (1 i off)
  then show ?case by simp
next
  case (2 i off w ws)
  obtain p1 p2 where p: "when_w (i = 0) (put16 44 (of_nat (64 + off))) p = Some p1"
    "on_from off (enc_Encode w) p1 = Some p2"
    "ReadRequest_body_loop (i + 1) (off + enc_Size w) ws p2 = Some q"
    using 2(2) by (auto split: option.splits)
  have "rd m k p1 = rd m k p"
    using p(1) 2(4) put_rd [of 44 _ p p1 m k] by (auto simp: when_w_def put16_def split: if_splits)
  then show ?case
    using 2(1) [OF p(3)] 2(3) on_from_rd [OF p(2)] by simp
qed

lemma NegotiateRequest_body_loop_rd:
  "NegotiateRequest_body_loop i off ws p = Some q \<Longrightarrow> m + k \<le> off \<Longrightarrow>
     i = 0 \<longrightarrow> m + k \<le> 28 \<or> 32 \<le> m \<Longrightarrow> rd m k q = rd m k p"
proof (induction i off ws arbitrary: p rule: NegotiateRequest_body_loop.induct)
  case (1 i off)
  then show ?case by simp
next
  case (2 i off w ws)
  let ?o = "Roundup off 8"
  obtain p1 p2 where p: "when_w (i = 0) (put32 28 (of_nat (?o + 64))) p = Some p1"
    "on_from ?o (enc_Encode w) p1 = Some p2"
    "NegotiateRequest_body_loop (i + 1) (?o + enc_Size w) ws p2 = Some q"
    using 2(2) by (auto simp: Let_def split: option.splits)
  have o: "off \<le> ?o" by (rule Roundup_8_ge)
  have "rd m k p1 = rd m k p"
    using p(1) 2(4) put_rd [of 28 _ p p1 m k] by (auto simp: when_w_def put32_def split: if_splits)
  then show ?case
    using 2(1) [OF refl p(3)] 2(3) o on_from_rd [OF p(2), of m k] by simp
qed

lemma CreateRequest_body_loop_rd:
  "CreateRequest_body_loop prev off ws p = Some q \<Longrightarrow> m + k \<le> off \<Longrightarrow>
     (case prev of None \<Rightarrow> m + k \<le> 48 \<or> 52 \<le> m | Some c \<Rightarrow> m + k \<le> c) \<Longrightarrow> rd m k q = rd m k p"
proof (induction prev off ws arbitrary: p rule: CreateRequest_body_loop.induct)
  case (1 prev off)
  then show ?case by simp
next
  case (2 prev off w ws)
  let ?o = "Roundup off 8"
  obtain p1 p2 where p: "(case prev of None \<Rightarrow> put32 48 (of_nat (64 + ?o))
         | Some ctxOff \<Rightarrow> put32 ctxOff (of_nat (?o - ctxOff))) p = Some p1"
    "on_from ?o (enc_Encode w) p1 = Some p2"
    "CreateRequest_body_loop (Some ?o) (?o + enc_Size w) ws p2 = Some q"
    using 2(2) by (auto simp: Let_def split: option.splits)
  have o: "off \<le> ?o" by (rule Roundup_8_ge)
  have "rd m k p1 = rd m k p"
    using p(1) 2(4) put_rd [of _ _ p p1 m k] by (auto simp: put32_def split: option.splits)
  then show ?case
    using 2(1) [OF refl p(3)] 2(3) o on_from_rd [OF p(2), of m k] by simp
qed

lemma CreateRequest_body_loop_first:
  assumes "52 \<le> off" "CreateRequest_body_loop None off cs p = Some q"
  shows "rd 48 4 q = (if cs = [] then rd 48 4 p else le_of_word 4 (of_nat (64 + Roundup off 8) :: u32))"
proof (cases cs)
  case Nil
  then show ?thesis using assms by simp
next
  case (Cons w ws)
  let ?o = "Roundup off 8"
  obtain p1 p2 where p: "put32 48 (of_nat (64 + ?o)) p = Some p1" "on_from ?o (enc_Encode w) p1 = Some p2"
    "CreateRequest_body_loop (Some ?o) (?o + enc_Size w) ws p2 = Some q"
    using assms(2) Cons by (auto simp: Let_def split: option.splits)
  have o: "52 \<le> ?o" using assms(1) Roundup_8_ge [of off] by simp
  have "rd 48 4 p1 = le_of_word 4 (of_nat (64 + ?o) :: u32)"
    using p(1) by (auto simp: put32_def put_def rd_upd_same split: if_splits)
  then show ?thesis
    using Cons o on_from_rd [OF p(2), of 48 4] CreateRequest_body_loop_rd [OF p(3), of 48 4] by simp
qed

lemma SessionSetupRequest_body_reads:
  assumes "24 + length (SessionSetupRequest_SecurityBuffer c) \<le> length p"
    and "SessionSetupRequest_body c p = Some r"
    and "length (SessionSetupRequest_SecurityBuffer c) < 65448"
  shows "SessionSetupRequestDecoder_IsInvalid r = Some False"
    and "SessionSetupRequestDecoder_Flags r = Some (SessionSetupRequest_Flags c)"
    and "SessionSetupRequestDecoder_SecurityMode r = Some (SessionSetupRequest_SecurityMode c)"
    and "SessionSetupRequestDecoder_Capabilities r = Some (SessionSetupRequest_Capabilities c)"
    and "SessionSetupRequestDecoder_Channel r = Some (SessionSetupRequest_Channel c)"
    and "SessionSetupRequestDecoder_PreviousSessionId r = Some (SessionSetupRequest_PreviousSessionId c)"
    and "SessionSetupRequestDecoder_SecurityBuffer r = Some (SessionSetupRequest_SecurityBuffer c)"
  using assms
  by (clarsimp simp: SessionSetupRequest_body_def go_run;
      simp add: SessionSetupRequestDecoder_defs un_at_eqs go_buf go_slice_eq_rd num_of_nat)+

lemma TreeConnectRequest_body_reads:
  assumes "8 + length (utf16_bytes (TreeConnectRequest_Path c)) \<le> length p"
    and "TreeConnectRequest_body c p = Some r"
    and "length (utf16_bytes (TreeConnectRequest_Path c)) < 65464"
    and "wf_string (TreeConnectRequest_Path c)"
  shows "TreeConnectRequestDecoder_IsInvalid r = Some False"
    and "TreeConnectRequestDecoder_Flags r = Some (TreeConnectRequest_Flags c)"
    and "TreeConnectRequestDecoder_Path r = Some (TreeConnectRequest_Path c)"
  using assms
  by (clarsimp simp: TreeConnectRequest_body_def on_from_EncodeString EncodeString_n_eq put16_def
      put_def simp del: length_le16s;
      simp add: TreeConnectRequestDecoder_defs un_at_eqs go_buf go_slice_eq_rd num_of_nat
      DecodeToString_wf del: length_le16s)+

lemma CloseRequest_body_reads:
  assumes "24 \<le> length p" and "CloseRequest_body c p = Some r"
    and "pred_option fileid_ok (CloseRequest_FileId c)"
  shows "CloseRequestDecoder_IsInvalid r = Some False"
    and "CloseRequestDecoder_Flags r = Some (CloseRequest_Flags c)"
    and "CloseRequestDecoder_FileId r = Some (fileid_bytes (CloseRequest_FileId c))"
  using assms length_fileid_bytes [OF assms(3)]
  by (clarsimp simp: CloseRequest_body_def on_slice_FileId put16_def put_def;
      simp add: CloseRequestDecoder_defs un_at_eqs go_buf go_slice_eq_rd)+

lemma FlushRequest_body_reads:
  assumes "24 \<le> length p" and "FlushRequest_body c p = Some r"
    and "pred_option fileid_ok (FlushRequest_FileId c)"
  shows "FlushRequestDecoder_IsInvalid r = Some False"
    and "FlushRequestDecoder_FileId r = Some (fileid_bytes (FlushRequest_FileId c))"
  using assms length_fileid_bytes [OF assms(3)]
  by (clarsimp simp: FlushRequest_body_def on_slice_FileId put16_def put_def;
      simp add: FlushRequestDecoder_defs un_at_eqs go_buf go_slice_eq_rd)+

lemma QueryDirectoryRequest_body_reads:
  assumes "32 + length (utf16_bytes (QueryDirectoryRequest_FileName c)) \<le> length p"
    and "QueryDirectoryRequest_body c p = Some r"
    and "length (utf16_bytes (QueryDirectoryRequest_FileName c)) < 65440"
    and "wf_string (QueryDirectoryRequest_FileName c)"
    and "pred_option fileid_ok (QueryDirectoryRequest_FileId c)"
  shows "QueryDirectoryRequestDecoder_IsInvalid r = Some False"
    and "QueryDirectoryRequestDecoder_FileInfoClass r = Some (QueryDirectoryRequest_FileInfoClass c)"
    and "QueryDirectoryRequestDecoder_Flags r = Some (QueryDirectoryRequest_Flags c)"
    and "QueryDirectoryRequestDecoder_FileIndex r = Some (QueryDirectoryRequest_FileIndex c)"
    and "QueryDirectoryRequestDecoder_FileId r = Some (fileid_bytes (QueryDirectoryRequest_FileId c))"
    and "QueryDirectoryRequestDecoder_OutputBufferLength r = Some (QueryDirectoryRequest_OutputBufferLength c)"
    and "QueryDirectoryRequestDecoder_FileName r = Some (QueryDirectoryRequest_FileName c)"
  using assms length_fileid_bytes [OF assms(5)]
  by (clarsimp simp: QueryDirectoryRequest_body_def on_slice_FileId on_from_EncodeString
      EncodeString_n_eq put8_def put16_def put32_def put_def simp del: length_le16s;
      simp add: QueryDirectoryRequestDecoder_defs un_at_eqs go_buf go_slice_eq_rd num_of_nat
      DecodeToString_wf del: length_le16s)+

text \<open>With its data behind the channel information, which the server does not use: the data
  accessor reads at offset 48 whatever the offset field says.\<close>

lemma WriteRequest_body_reads:
  assumes p: "items_end 48 (WriteRequest_WriteChannelInfo c) + length (WriteRequest_Data c) \<le> length p"
    and b: "WriteRequest_body c p = Some r"
    and f: "pred_option fileid_ok (WriteRequest_FileId c)"
    and ok: "list_all encoder_ok (WriteRequest_WriteChannelInfo c)"
    and l: "length (WriteRequest_Data c) < 4294901760"
    and z: "rd 40 2 p = replicate 2 0"
  shows "WriteRequestDecoder_Length r = Some (of_nat (length (WriteRequest_Data c)))"
    and "WriteRequestDecoder_Offset r = Some (WriteRequest_Offset c)"
    and "WriteRequestDecoder_FileId r = Some (fileid_bytes (WriteRequest_FileId c))"
    and "WriteRequestDecoder_Channel r = Some (WriteRequest_Channel c)"
    and "WriteRequestDecoder_RemainingBytes r = Some (WriteRequest_RemainingBytes c)"
    and "WriteRequestDecoder_Flags r = Some (WriteRequest_Flags c)"
    and "WriteRequest_WriteChannelInfo c = [] \<Longrightarrow> WriteRequestDecoder_IsInvalid r = Some False"
    and "WriteRequest_WriteChannelInfo c = [] \<Longrightarrow> WriteRequestDecoder_Data r = Some (WriteRequest_Data c)"
proof -
  let ?ws = "WriteRequest_WriteChannelInfo c" and ?d = "WriteRequest_Data c"
  have o: "48 \<le> items_end 48 ?ws" by (rule items_end_ge)
  define p1 where "p1 = upd 44 (le_of_word 4 (WriteRequest_Flags c))
    (upd 36 (le_of_word 4 (WriteRequest_RemainingBytes c)) (upd 32 (le_of_word 4 (WriteRequest_Channel c))
    (upd 16 (fileid_bytes (WriteRequest_FileId c)) (upd 8 (le_of_word 8 (WriteRequest_Offset c))
    (upd 0 (le_of_word 2 (49 :: u16)) p)))))"
  have lp: "length p1 = length p" by (simp add: p1_def)
  have "safe_w (length p) (WriteRequest_body_loop 0 48 ?ws)"
    using ok p o by (intro safe_WriteRequest_body_loop) auto
  then obtain p2 where p2: "WriteRequest_body_loop 0 48 ?ws p1 = Some p2" and l2: "length p2 = length p"
    by (rule safe_wE [where p = p1]) (auto simp: lp)
  have r: "r = upd 4 (le_of_word 4 (of_nat (length ?d) :: u32)) (upd (items_end 48 ?ws) ?d
      (upd 2 (le_of_word 2 (of_nat (64 + items_end 48 ?ws) :: u16))
      (upd 42 (le_of_word 2 (of_nat (items_end 48 ?ws - 48) :: u16)) p2)))"
    using b p o p2 l2 f unfolding WriteRequest_body_def Let_def
    by (simp add: on_slice_FileId put16_def put32_def put64_def put_def copy_from_def
        p1_def [symmetric] del: of_nat_add)
  have rd2: "m + k \<le> 48 \<Longrightarrow> m + k \<le> 40 \<or> 42 \<le> m \<Longrightarrow> rd m k p2 = rd m k p1" for m k
    using WriteRequest_body_loop_rd [OF p2, of m k] by simp
  note len = l2 lp p o length_fileid_bytes [OF f]
  show "WriteRequestDecoder_Length r = Some (of_nat (length ?d))"
    "WriteRequestDecoder_Offset r = Some (WriteRequest_Offset c)"
    "WriteRequestDecoder_FileId r = Some (fileid_bytes (WriteRequest_FileId c))"
    "WriteRequestDecoder_Channel r = Some (WriteRequest_Channel c)"
    "WriteRequestDecoder_RemainingBytes r = Some (WriteRequest_RemainingBytes c)"
    "WriteRequestDecoder_Flags r = Some (WriteRequest_Flags c)"
    using len by (simp_all add: r WriteRequestDecoder_defs un_at_eqs go_buf go_slice_eq_rd rd2 p1_def)
  assume ws: "?ws = []"
  then have "p2 = p1" using p2 by simp
  then show "WriteRequestDecoder_IsInvalid r = Some False" "WriteRequestDecoder_Data r = Some ?d"
    using len l z ws by (simp_all add: r WriteRequestDecoder_defs un_at_eqs go_buf go_slice_eq_rd p1_def num_of_nat)
qed

text \<open>Where the contexts of a create request start and where it ends, behind the header.\<close>

definition create_ctx_off :: "CreateRequest \<Rightarrow> nat" where
  "create_ctx_off c = Roundup (56 + length (utf16_bytes (CreateRequest_Name c))) 8"

definition create_end :: "CreateRequest \<Rightarrow> nat" where
  "create_end c = items8_end (56 + length (utf16_bytes (CreateRequest_Name c))) (CreateRequest_Contexts c)"

lemma create_end_ge: "56 + length (utf16_bytes (CreateRequest_Name c)) \<le> create_end c"
  unfolding create_end_def by (rule items8_end_ge)

lemma create_ctx_off_less:
  assumes "create_ctxs_ok (CreateRequest_Contexts c)" "CreateRequest_Contexts c \<noteq> []"
  shows "create_ctx_off c < create_end c"
proof -
  from assms(2) obtain x xs where cs: "CreateRequest_Contexts c = x # xs" by (auto simp: neq_Nil_conv)
  then have "create_ctx_off c + enc_Size x \<le> create_end c"
    using items8_end_ge by (simp add: create_end_def create_ctx_off_def)
  then show ?thesis using assms(1) cs by (simp add: create_ctxs_ok_def)
qed

lemma CreateRequest_body_fields:
  assumes p: "create_end c \<le> length p" and b: "CreateRequest_body c p = Some r"
    and ok: "create_ctxs_ok (CreateRequest_Contexts c)" and z: "rd 48 8 p = replicate 8 0"
  shows "length r = length p" "u16_at r 0 = Some 57"
    "u8_at r 3 = Some (CreateRequest_RequestedOplockLevel c)"
    "u32_at r 4 = Some (CreateRequest_ImpersonationLevel c)"
    "u32_at r 24 = Some (CreateRequest_DesiredAccess c)"
    "u32_at r 28 = Some (CreateRequest_FileAttributes c)"
    "u32_at r 32 = Some (CreateRequest_ShareAccess c)"
    "u32_at r 36 = Some (CreateRequest_CreateDisposition c)"
    "u32_at r 40 = Some (CreateRequest_CreateOptions c)"
    "u16_at r 44 = Some 120" "u16_at r 46 = Some (of_nat (length (utf16_bytes (CreateRequest_Name c))))"
    "rd 56 (length (utf16_bytes (CreateRequest_Name c))) r = utf16_bytes (CreateRequest_Name c)"
    "u32_at r 48 = Some (if CreateRequest_Contexts c = [] then 0 else of_nat (64 + create_ctx_off c))"
    "u32_at r 52 = Some (if CreateRequest_Contexts c = [] then 0 else of_nat (create_end c - create_ctx_off c))"
proof -
  define u where "u = utf16_bytes (CreateRequest_Name c)"
  define cs where "cs = CreateRequest_Contexts c"
  define g where "g = create_end c - create_ctx_off c"
  have n: "EncodeString_n (CreateRequest_Name c) = length u" by (simp only: EncodeString_n_eq u_def)
  have e: "56 + length u \<le> create_end c" unfolding u_def by (rule create_end_ge)
  have f: "56 + length u \<le> create_ctx_off c" by (simp add: create_ctx_off_def u_def Roundup_8_ge del: length_le16s)
  note lp = p
  define p1 where "p1 = upd 46 (le_of_word 2 (of_nat (length u) :: u16)) (upd 44 (le_of_word 2 (120 :: u16))
    (upd 56 u
    (upd 40 (le_of_word 4 (CreateRequest_CreateOptions c))
    (upd 36 (le_of_word 4 (CreateRequest_CreateDisposition c))
    (upd 32 (le_of_word 4 (CreateRequest_ShareAccess c))
    (upd 28 (le_of_word 4 (CreateRequest_FileAttributes c))
    (upd 24 (le_of_word 4 (CreateRequest_DesiredAccess c))
    (upd 8 (le_of_word 8 (CreateRequest_SmbCreateFlags c))
    (upd 4 (le_of_word 4 (CreateRequest_ImpersonationLevel c))
    (upd 3 [CreateRequest_RequestedOplockLevel c]
    (upd 2 [CreateRequest_SecurityFlags c]
    (upd 0 (le_of_word 2 (57 :: u16)) p))))))))))))"
  have lp1: "length p1 = length p" by (simp add: p1_def)
  have "safe_w (length p) (CreateRequest_body_loop None (56 + length u) cs)"
    using ok lp e by (intro safe_CreateRequest_body_loop)
      (auto simp: create_ctxs_ok_def cs_def create_end_def u_def)
  then obtain p2 where p2: "CreateRequest_body_loop None (56 + length u) cs p1 = Some p2"
    and l2: "length p2 = length p"
    by (rule safe_wE [where p = p1]) (auto simp: lp1)
  have r: "r = (if cs = [] then p2 else upd 52 (le_of_word 4 (of_nat g :: u32)) p2)"
    using b p2 l2 lp e f
    unfolding CreateRequest_body_def Let_def n cs_def [symmetric] create_end_def create_ctx_off_def u_def [symmetric]
    by (simp add: g_def create_end_def create_ctx_off_def cs_def [symmetric] on_from_EncodeString u_def [symmetric]
        put8_def put16_def put32_def put64_def put_def when_w_def p1_def [symmetric] split: if_splits)
  have rd2: "m + k \<le> 56 + length u \<Longrightarrow> m + k \<le> 48 \<or> 52 \<le> m \<Longrightarrow> rd m k p2 = rd m k p1" for m k
    using CreateRequest_body_loop_rd [OF p2, of m k] by simp
  have z1: "rd 48 4 p1 = replicate 4 0" "rd 52 4 p1 = replicate 4 0"
    using rd_zeros_sub [OF z, of 48 4] rd_zeros_sub [OF z, of 52 4]
    by (simp_all add: p1_def rd_upd_before rd_upd_after)
  have rdr: "m + k \<le> 56 + length u \<Longrightarrow> m + k \<le> 52 \<or> 56 \<le> m \<Longrightarrow> rd m k r = rd m k p2" for m k
    by (auto simp: r rd_upd_before rd_upd_after)
  show lr: "length r = length p" by (simp add: r l2)
  have "rd 48 4 r = le_of_word 4 (if cs = [] then 0 else of_nat (64 + create_ctx_off c) :: u32)"
    "rd 52 4 r = le_of_word 4 (if cs = [] then 0 else of_nat g :: u32)"
    using CreateRequest_body_loop_first [OF _ p2] z1 rdr [of 48 4] rd2 [of 52 4] e lp l2
    by (simp_all add: create_ctx_off_def u_def r rd_upd_same)
  then show "u32_at r 48 = Some (if CreateRequest_Contexts c = [] then 0 else of_nat (64 + create_ctx_off c))"
    "u32_at r 52 = Some (if CreateRequest_Contexts c = [] then 0 else of_nat (create_end c - create_ctx_off c))"
    using lp e lr unfolding cs_def [symmetric] g_def [symmetric] by (simp_all add: un_at_eqs)
  show "u16_at r 0 = Some 57" "u8_at r 3 = Some (CreateRequest_RequestedOplockLevel c)"
    "u32_at r 4 = Some (CreateRequest_ImpersonationLevel c)" "u32_at r 24 = Some (CreateRequest_DesiredAccess c)"
    "u32_at r 28 = Some (CreateRequest_FileAttributes c)" "u32_at r 32 = Some (CreateRequest_ShareAccess c)"
    "u32_at r 36 = Some (CreateRequest_CreateDisposition c)" "u32_at r 40 = Some (CreateRequest_CreateOptions c)"
    "u16_at r 44 = Some 120" "u16_at r 46 = Some (of_nat (length (utf16_bytes (CreateRequest_Name c))))"
    "rd 56 (length (utf16_bytes (CreateRequest_Name c))) r = utf16_bytes (CreateRequest_Name c)"
    unfolding u_def [symmetric] using lp e lr by (simp_all add: un_at_eqs rdr rd2 p1_def go_buf)
qed

lemma CreateRequest_ctx_words:
  assumes "create_ctxs_ok (CreateRequest_Contexts c)" "CreateRequest_Contexts c \<noteq> []"
    and "create_end c < 4294967232"
  shows "unat (of_nat (create_ctx_off c) + of_nat (create_end c - create_ctx_off c) :: u32) = create_end c"
    and "unat (of_nat (create_ctx_off c) :: u32) = create_ctx_off c"
    and "of_nat (create_end c - create_ctx_off c) \<noteq> (0 :: u32)"
    and "(64 + of_nat (create_ctx_off c) :: u32) AND 7 = 0"
    and "uint (64 + of_nat (create_ctx_off c) + of_nat (create_end c - create_ctx_off c) :: u32) = 64 + int (create_end c)"
proof -
  define f where "f = create_ctx_off c"
  define g where "g = create_end c - f"
  have g: "create_end c = f + g" "0 < g" "f + g < 4294967232"
    using create_ctx_off_less [OF assms(1,2)] assms(3) by (simp_all add: f_def g_def)
  have "(of_nat f + of_nat g :: u32) = of_nat (f + g)" "(64 + of_nat f + of_nat g :: u32) = 64 + of_nat (f + g)"
    by simp_all
  moreover have "unat (of_nat (f + g) :: u32) = f + g" "uint (64 + of_nat (f + g) :: u32) = 64 + int (f + g)"
    "unat (of_nat g :: u32) = g" "unat (64 + of_nat f :: u32) = 64 + f" "unat (of_nat f :: u32) = f"
    using g by (simp_all add: num_of_nat del: of_nat_add)
  moreover have "8 dvd 64 + f" using Roundup_8_dvd by (simp add: f_def create_ctx_off_def)
  ultimately have "unat (of_nat f + of_nat g :: u32) = f + g" "unat (of_nat f :: u32) = f"
    "of_nat g \<noteq> (0 :: u32)" "(64 + of_nat f :: u32) AND 7 = 0"
    "uint (64 + of_nat f + of_nat g :: u32) = 64 + int (f + g)"
    using g(2) by (auto simp only: and_7_eq_0_iff unat_0)
  then show "unat (of_nat (create_ctx_off c) + of_nat (create_end c - create_ctx_off c) :: u32) = create_end c"
    and "unat (of_nat (create_ctx_off c) :: u32) = create_ctx_off c"
    and "of_nat (create_end c - create_ctx_off c) \<noteq> (0 :: u32)"
    and "(64 + of_nat (create_ctx_off c) :: u32) AND 7 = 0"
    and "uint (64 + of_nat (create_ctx_off c) + of_nat (create_end c - create_ctx_off c) :: u32) = 64 + int (create_end c)"
    unfolding f_def [symmetric] g_def [symmetric] by (simp_all only: g(1) not_False_eq_True)
qed

lemma CreateRequest_body_reads:
  assumes p: "create_end c \<le> length p" and b: "CreateRequest_body c p = Some r"
    and ok: "create_ctxs_ok (CreateRequest_Contexts c)" and z: "rd 48 8 p = replicate 8 0"
    and wf: "wf_string (CreateRequest_Name c)"
    and nl: "length (utf16_bytes (CreateRequest_Name c)) < 65416" and cl: "create_end c < 4294967232"
  shows "CreateRequestDecoder_IsInvalid r = Some False"
    and "CreateRequestDecoder_RequestedOplockLevel r = Some (CreateRequest_RequestedOplockLevel c)"
    and "CreateRequestDecoder_ImpersonationLevel r = Some (CreateRequest_ImpersonationLevel c)"
    and "CreateRequestDecoder_DesiredAccess r = Some (CreateRequest_DesiredAccess c)"
    and "CreateRequestDecoder_FileAttributes r = Some (CreateRequest_FileAttributes c)"
    and "CreateRequestDecoder_ShareAccess r = Some (CreateRequest_ShareAccess c)"
    and "CreateRequestDecoder_CreateDisposition r = Some (CreateRequest_CreateDisposition c)"
    and "CreateRequestDecoder_CreateOptions r = Some (CreateRequest_CreateOptions c)"
    and "CreateRequestDecoder_Name r = Some (CreateRequest_Name c)"
    and "CreateRequestDecoder_CreateContexts r = Some (if CreateRequest_Contexts c = [] then []
      else rd (create_ctx_off c) (create_end c - create_ctx_off c) r)"
proof -
  note fields = CreateRequest_body_fields [OF p b ok z]
  note ge = create_end_ge [of c]
  have bu: "uint (120 + of_nat (length (utf16_bytes (CreateRequest_Name c))) :: u16)
      = 120 + int (length (utf16_bytes (CreateRequest_Name c)))"
    using nl by (intro uint_num_of_nat_u16) simp
  show "CreateRequestDecoder_IsInvalid r = Some False"
    using p ge bu fields(1) CreateRequest_ctx_words [OF ok _ cl]
    by (cases "CreateRequest_Contexts c = []")
      (simp_all add: CreateRequestDecoder_defs fields del: length_le16s of_nat_diff)
  show "CreateRequestDecoder_RequestedOplockLevel r = Some (CreateRequest_RequestedOplockLevel c)"
    "CreateRequestDecoder_ImpersonationLevel r = Some (CreateRequest_ImpersonationLevel c)"
    "CreateRequestDecoder_DesiredAccess r = Some (CreateRequest_DesiredAccess c)"
    "CreateRequestDecoder_FileAttributes r = Some (CreateRequest_FileAttributes c)"
    "CreateRequestDecoder_ShareAccess r = Some (CreateRequest_ShareAccess c)"
    "CreateRequestDecoder_CreateDisposition r = Some (CreateRequest_CreateDisposition c)"
    "CreateRequestDecoder_CreateOptions r = Some (CreateRequest_CreateOptions c)"
    by (simp_all add: CreateRequestDecoder_defs fields)
  show "CreateRequestDecoder_Name r = Some (CreateRequest_Name c)"
    using p ge nl DecodeToString_wf [OF wf]
    by (simp add: CreateRequestDecoder_defs fields go_slice_eq_rd num_of_nat del: length_le16s)
  show "CreateRequestDecoder_CreateContexts r = Some (if CreateRequest_Contexts c = [] then []
      else rd (create_ctx_off c) (create_end c - create_ctx_off c) r)"
    using p CreateRequest_ctx_words [OF ok _ cl] create_ctx_off_less [OF ok]
    by (cases "CreateRequest_Contexts c = []")
      (simp_all add: CreateRequestDecoder_defs fields go_slice_eq_rd del: of_nat_diff)
qed

text \<open>The bytes an optional nested encoder stands for.\<close>

definition input_img :: "encoder option \<Rightarrow> bytes \<Rightarrow> bool" where
  "input_img e bs \<longleftrightarrow> (case e of None \<Rightarrow> bs = [] | Some e \<Rightarrow> zimg (enc_Encode e) bs \<and> length bs = enc_Size e)"

lemma IoctlRequest_body_reads:
  assumes "56 + length bs \<le> n" and "IoctlRequest_body c (replicate n 0) = Some r"
    and "pred_option fileid_ok (IoctlRequest_FileId c)"
    and "input_img (IoctlRequest_Input c) bs" and "length bs < 4294967176"
  shows "IoctlRequestDecoder_IsInvalid r = Some False"
    and "IoctlRequestDecoder_CtlCode r = Some (IoctlRequest_CtlCode c)"
    and "IoctlRequestDecoder_FileId r = Some (fileid_bytes (IoctlRequest_FileId c))"
    and "IoctlRequestDecoder_InputCount r = Some (of_nat (length bs))"
    and "IoctlRequestDecoder_MaxOutputResponse r = Some (IoctlRequest_MaxOutputResponse c)"
    and "IoctlRequestDecoder_Flags r = Some (IoctlRequest_Flags c)"
    and "map_option (take (length bs)) (IoctlRequestDecoder_Data r) = Some bs"
  using assms length_fileid_bytes [OF assms(3)]
  by (cases "IoctlRequest_Input c";
      clarsimp simp: IoctlRequest_body_def input_img_def on_slice_FileId put16_def put32_def put_def
      zimg_on_from go_buf rd_replicate;
      simp add: IoctlRequestDecoder_defs un_at_eqs go_buf go_slice_eq_rd go_slice_from_def
      rd_replicate num_of_nat rd_def [symmetric] rd_append_left)+

lemma QueryInfoRequest_body_reads:
  assumes "40 + length bs \<le> n" and "QueryInfoRequest_body c (replicate n 0) = Some r"
    and "pred_option fileid_ok (QueryInfoRequest_FileId c)"
    and "input_img (QueryInfoRequest_Input c) bs" and "length bs < 4294967192"
  shows "QueryInfoRequestDecoder_IsInvalid r = Some False"
    and "QueryInfoRequestDecoder_InfoType r = Some (QueryInfoRequest_InfoType c)"
    and "QueryInfoRequestDecoder_FileInfoClass r = Some (QueryInfoRequest_FileInfoClass c)"
    and "QueryInfoRequestDecoder_OutputBufferLength r = Some (QueryInfoRequest_OutputBufferLength c)"
    and "QueryInfoRequestDecoder_AdditionalInformation r = Some (QueryInfoRequest_AdditionalInformation c)"
    and "QueryInfoRequestDecoder_Flags r = Some (QueryInfoRequest_Flags c)"
    and "QueryInfoRequestDecoder_FileId r = Some (fileid_bytes (QueryInfoRequest_FileId c))"
  using assms length_fileid_bytes [OF assms(3)]
  by (cases "QueryInfoRequest_Input c";
      clarsimp simp: QueryInfoRequest_body_def input_img_def on_slice_FileId put8_def put16_def put32_def
      put_def zimg_on_from go_buf rd_replicate;
      simp add: QueryInfoRequestDecoder_defs un_at_eqs go_buf go_slice_eq_rd rd_replicate num_of_nat)+

lemma SetInfoRequest_body_reads:
  assumes "32 + length bs \<le> n" and "SetInfoRequest_body c (replicate n 0) = Some r"
    and "pred_option fileid_ok (SetInfoRequest_FileId c)"
    and "input_img (SetInfoRequest_Input c) bs" and "length bs < 4294967200"
  shows "SetInfoRequestDecoder_IsInvalid r = Some False"
    and "SetInfoRequestDecoder_InfoType r = Some (SetInfoRequest_InfoType c)"
    and "SetInfoRequestDecoder_FileInfoClass r = Some (SetInfoRequest_FileInfoClass c)"
    and "SetInfoRequestDecoder_BufferLength r = Some (of_nat (length bs))"
    and "SetInfoRequestDecoder_AdditionalInformation r = Some (SetInfoRequest_AdditionalInformation c)"
    and "SetInfoRequestDecoder_FileId r = Some (fileid_bytes (SetInfoRequest_FileId c))"
    and "map_option (take (length bs)) (SetInfoRequestDecoder_Buffer r) = Some bs"
  using assms length_fileid_bytes [OF assms(3)]
  by (cases "SetInfoRequest_Input c";
      clarsimp simp: SetInfoRequest_body_def input_img_def on_slice_FileId put8_def put16_def put32_def
      put_def zimg_on_from go_buf rd_replicate;
      simp add: SetInfoRequestDecoder_defs un_at_eqs go_buf go_slice_eq_rd go_slice_from_def
      rd_replicate num_of_nat rd_def [symmetric] rd_append_left)+

lemma ReadRequest_body_reads:
  assumes p: "items_end 48 (ReadRequest_ReadChannelInfo c) \<le> length p" "48 \<le> length p"
    and b: "ReadRequest_body c p = Some r"
    and f: "pred_option fileid_ok (ReadRequest_FileId c)"
    and ok: "list_all encoder_ok (ReadRequest_ReadChannelInfo c)"
  shows "ReadRequestDecoder_StructureSize r = Some 49"
    and "ReadRequestDecoder_Flags r = Some (ReadRequest_Flags c)"
    and "ReadRequestDecoder_Length r = Some (ReadRequest_Length c)"
    and "ReadRequestDecoder_Offset r = Some (ReadRequest_Offset c)"
    and "ReadRequestDecoder_FileId r = Some (fileid_bytes (ReadRequest_FileId c))"
    and "ReadRequestDecoder_MinimumCount r = Some (ReadRequest_MinimumCount c)"
    and "ReadRequestDecoder_RemainingBytes r = Some (ReadRequest_RemainingBytes c)"
proof -
  let ?ws = "ReadRequest_ReadChannelInfo c"
  define p1 where "p1 = upd 40 (le_of_word 4 (ReadRequest_RemainingBytes c))
    (upd 36 (le_of_word 4 (ReadRequest_Channel c)) (upd 32 (le_of_word 4 (ReadRequest_MinimumCount c))
    (upd 16 (fileid_bytes (ReadRequest_FileId c)) (upd 8 (le_of_word 8 (ReadRequest_Offset c))
    (upd 4 (le_of_word 4 (ReadRequest_Length c)) (upd 3 [ReadRequest_Flags c]
    (upd 2 [ReadRequest_Padding c] (upd 0 (le_of_word 2 (49 :: u16)) p))))))))"
  have lp: "length p1 = length p" by (simp add: p1_def)
  have "safe_w (length p) (ReadRequest_body_loop 0 48 ?ws)"
    using ok p by (intro safe_ReadRequest_body_loop) auto
  then obtain p2 where p2: "ReadRequest_body_loop 0 48 ?ws p1 = Some p2" and l2: "length p2 = length p"
    by (rule safe_wE [where p = p1]) (auto simp: lp)
  have r: "r = upd 46 (le_of_word 2 (of_nat (items_end 48 ?ws - 48) :: u16)) p2"
    using b p p2 l2 f unfolding ReadRequest_body_def
    by (simp add: on_slice_FileId put8_def put16_def put32_def put64_def put_def p1_def [symmetric])
  have rd2: "m + k \<le> 44 \<Longrightarrow> rd m k p2 = rd m k p1" for m k
    using ReadRequest_body_loop_rd [OF p2, of m k] by simp
  show "ReadRequestDecoder_StructureSize r = Some 49"
    "ReadRequestDecoder_Flags r = Some (ReadRequest_Flags c)"
    "ReadRequestDecoder_Length r = Some (ReadRequest_Length c)"
    "ReadRequestDecoder_Offset r = Some (ReadRequest_Offset c)"
    "ReadRequestDecoder_FileId r = Some (fileid_bytes (ReadRequest_FileId c))"
    "ReadRequestDecoder_MinimumCount r = Some (ReadRequest_MinimumCount c)"
    "ReadRequestDecoder_RemainingBytes r = Some (ReadRequest_RemainingBytes c)"
    using l2 lp p length_fileid_bytes [OF f]
    by (simp_all add: r ReadRequestDecoder_defs un_at_eqs go_buf go_slice_eq_rd rd2 p1_def)
qed

lemma NegotiateRequest_body_reads:
  assumes p: "items8_end (36 + length (NegotiateRequest_Dialects c) * 2) (NegotiateRequest_Contexts c) \<le> length p"
    and b: "NegotiateRequest_body c p = Some r"
    and ok: "list_all encoder_ok (NegotiateRequest_Contexts c)"
    and d: "length (NegotiateRequest_Dialects c) < 32750"
    and g: "length (NegotiateRequest_ClientGuid c) = 16"
  shows "NegotiateRequestDecoder_StructureSize r = Some 36"
    and "NegotiateRequestDecoder_SecurityMode r = Some (NegotiateRequest_SecurityMode c)"
    and "NegotiateRequestDecoder_Capabilities r = Some (NegotiateRequest_Capabilities c)"
    and "NegotiateRequestDecoder_ClientGuid r = Some (NegotiateRequest_ClientGuid c)"
    and "NegotiateRequestDecoder_Dialects r = Some (NegotiateRequest_Dialects c)"
    and "NegotiateRequestDecoder_NegotiateContextCount r = Some (of_nat (length (NegotiateRequest_Contexts c)))"
proof -
  let ?ds = "NegotiateRequest_Dialects c" and ?cs = "NegotiateRequest_Contexts c"
  let ?o = "36 + length ?ds * 2"
  have o: "?o \<le> items8_end ?o ?cs" by (rule items8_end_ge)
  define p1 where "p1 = upd 2 (le_of_word 2 (of_nat (length ?ds) :: u16)) (upd 36 (le16s ?ds)
    (upd 12 (NegotiateRequest_ClientGuid c) (upd 8 (le_of_word 4 (NegotiateRequest_Capabilities c))
    (upd 4 (le_of_word 2 (NegotiateRequest_SecurityMode c)) (upd 0 (le_of_word 2 (36 :: u16)) p)))))"
  have lp: "length p1 = length p" by (simp add: p1_def)
  have "safe_w (length p) (NegotiateRequest_body_loop 0 ?o ?cs)"
    using ok p o by (intro safe_NegotiateRequest_body_loop) auto
  then obtain p2 where p2: "NegotiateRequest_body_loop 0 ?o ?cs p1 = Some p2" and l2: "length p2 = length p"
    by (rule safe_wE [where p = p1]) (auto simp: lp)
  have r: "r = upd 32 (le_of_word 2 (of_nat (length ?cs) :: u16)) p2"
    using b p o p2 l2 g unfolding NegotiateRequest_body_def
    by (simp add: on_from_put16s put16_def put32_def copy_slice_def put_def p1_def [symmetric])
  have rd2: "m + k \<le> ?o \<Longrightarrow> m + k \<le> 28 \<or> 32 \<le> m \<Longrightarrow> rd m k p2 = rd m k p1" for m k
    using NegotiateRequest_body_loop_rd [OF p2, of m k] by simp
  have lr: "length r = length p" by (simp add: r l2)
  show "NegotiateRequestDecoder_StructureSize r = Some 36"
    "NegotiateRequestDecoder_SecurityMode r = Some (NegotiateRequest_SecurityMode c)"
    "NegotiateRequestDecoder_Capabilities r = Some (NegotiateRequest_Capabilities c)"
    "NegotiateRequestDecoder_ClientGuid r = Some (NegotiateRequest_ClientGuid c)"
    "NegotiateRequestDecoder_NegotiateContextCount r = Some (of_nat (length ?cs))"
    using l2 lp p o g
    by (simp_all add: r NegotiateRequestDecoder_defs un_at_eqs go_buf go_slice_eq_rd rd2 p1_def)
  have n: "u16_at r 2 = Some (of_nat (length ?ds))" and ds: "rd 36 (2 * length ?ds) r = le16s ?ds"
    using l2 lp p o by (simp_all add: r un_at_eqs go_buf rd2 p1_def)
  have "unat (36 + 2 * of_nat (length ?ds) :: u16) = 36 + 2 * length ?ds"
    using d unat_num_of_nat_u16 [of _ "2 * length ?ds"] by simp
  then show "NegotiateRequestDecoder_Dialects r = Some ?ds"
    using p o lr n ds get16s_le16s [of ?ds "[]"] by (simp add: NegotiateRequestDecoder_defs go_slice_eq_rd)
qed

section \<open>Which accessors can panic\<close>

text \<open>The bounds \<open>off-k\<close> and \<open>off-k+len\<close>, when the sum does not wrap.\<close>

lemma go_slice_words:
  fixes off len k :: "'a::len word"
  assumes "k \<le> off" "unat off + unat len < 2 ^ LENGTH('a)" "uint (off + len) - uint k \<le> int (length r)"
  shows "go_slice r (unat (off - k)) (unat (off - k + len)) = Some (rd (unat off - unat k) (unat len) r)"
proof -
  have s: "unat (off - k) = unat off - unat k" and kl: "unat k \<le> unat off"
    using assms(1) by (simp_all add: unat_sub word_le_nat_alt)
  have a: "unat (off + len) = unat off + unat len"
    using assms(2) by (simp add: unat_word_ariths(1))
  have "unat (off - k + len) = unat off - unat k + unat len"
    using assms(2) s by (simp add: unat_word_ariths(1) s)
  moreover have "unat off - unat k + unat len \<le> length r"
    using assms(3) kl unfolding uint_nat a by linarith
  ultimately show ?thesis using s by (simp add: go_slice_eq_rd)
qed

lemma unat_ucast_u16_u32 [simp]: "unat (ucast (w :: u16) :: u32) = unat w"
proof -
  have "unat w < 65536" using unsigned_less [of w] by simp
  then show ?thesis by (simp add: unsigned_ucast_eq take_bit_nat_eq_self_iff)
qed

lemma DecodeToString_total: "DecodeToString bs \<noteq> None"
  using get16s_eq [of "length bs div 2" bs] by (simp add: DecodeToString_def)

text \<open>No validity check panics.\<close>

lemma NegotiateRequestDecoder_IsInvalid_total: "NegotiateRequestDecoder_IsInvalid r \<noteq> None"
  by (simp add: NegotiateRequestDecoder_defs un_at_eqs not_less del: not_None_eq)

lemma SessionSetupRequestDecoder_IsInvalid_total: "SessionSetupRequestDecoder_IsInvalid r \<noteq> None"
  by (simp add: SessionSetupRequestDecoder_defs un_at_eqs not_less del: not_None_eq)

lemma LogoffRequestDecoder_IsInvalid_total: "LogoffRequestDecoder_IsInvalid r \<noteq> None"
  by (simp add: LogoffRequestDecoder_defs un_at_eqs not_less del: not_None_eq)

lemma TreeConnectRequestDecoder_IsInvalid_total: "TreeConnectRequestDecoder_IsInvalid r \<noteq> None"
  by (simp add: TreeConnectRequestDecoder_defs un_at_eqs not_less del: not_None_eq)

lemma TreeDisconnectRequestDecoder_IsInvalid_total: "TreeDisconnectRequestDecoder_IsInvalid r \<noteq> None"
  by (simp add: TreeDisconnectRequestDecoder_defs un_at_eqs not_less del: not_None_eq)

lemma CreateRequestDecoder_IsInvalid_total: "CreateRequestDecoder_IsInvalid r \<noteq> None"
  by (simp add: CreateRequestDecoder_defs un_at_eqs not_less del: not_None_eq)

lemma CloseRequestDecoder_IsInvalid_total: "CloseRequestDecoder_IsInvalid r \<noteq> None"
  by (simp add: CloseRequestDecoder_defs un_at_eqs not_less del: not_None_eq)

lemma FlushRequestDecoder_IsInvalid_total: "FlushRequestDecoder_IsInvalid r \<noteq> None"
  by (simp add: FlushRequestDecoder_defs un_at_eqs not_less del: not_None_eq)

lemma ReadRequestDecoder_IsInvalid_total: "ReadRequestDecoder_IsInvalid r \<noteq> None"
  by (simp add: ReadRequestDecoder_defs un_at_eqs not_less del: not_None_eq)

lemma WriteRequestDecoder_IsInvalid_total: "WriteRequestDecoder_IsInvalid r \<noteq> None"
  by (simp add: WriteRequestDecoder_defs un_at_eqs not_less del: not_None_eq)

lemma CancelRequestDecoder_IsInvalid_total: "CancelRequestDecoder_IsInvalid r \<noteq> None"
  by (simp add: CancelRequestDecoder_defs un_at_eqs not_less del: not_None_eq)

lemma IoctlRequestDecoder_IsInvalid_total: "IoctlRequestDecoder_IsInvalid r \<noteq> None"
  by (simp add: IoctlRequestDecoder_defs un_at_eqs not_less del: not_None_eq)

lemma QueryDirectoryRequestDecoder_IsInvalid_total: "QueryDirectoryRequestDecoder_IsInvalid r \<noteq> None"
  by (simp add: QueryDirectoryRequestDecoder_defs un_at_eqs not_less del: not_None_eq)

lemma ChangeNotifyRequestDecoder_IsInvalid_total: "ChangeNotifyRequestDecoder_IsInvalid r \<noteq> None"
  by (simp add: ChangeNotifyRequestDecoder_defs un_at_eqs not_less del: not_None_eq)

lemma QueryInfoRequestDecoder_IsInvalid_total: "QueryInfoRequestDecoder_IsInvalid r \<noteq> None"
  by (simp add: QueryInfoRequestDecoder_defs un_at_eqs not_less del: not_None_eq)

lemma SetInfoRequestDecoder_IsInvalid_total: "SetInfoRequestDecoder_IsInvalid r \<noteq> None"
  by (simp add: SetInfoRequestDecoder_defs un_at_eqs not_less del: not_None_eq)

lemma SessionSetupRequestDecoder_validD:
  assumes "SessionSetupRequestDecoder_IsInvalid r = Some False"
  shows "24 \<le> length r"
    "uint (word_of_le (rd 12 2 r) + word_of_le (rd 14 2 r) :: u16) - 64 \<le> int (length r)"
  using assms
  by (simp_all add: SessionSetupRequestDecoder_defs un_at_eqs not_less split: if_splits)

lemma SessionSetupRequestDecoder_accessors:
  assumes "SessionSetupRequestDecoder_IsInvalid r = Some False"
  shows "SessionSetupRequestDecoder_Flags r \<noteq> None" "SessionSetupRequestDecoder_SecurityMode r \<noteq> None"
    "SessionSetupRequestDecoder_Capabilities r \<noteq> None" "SessionSetupRequestDecoder_Channel r \<noteq> None"
    "SessionSetupRequestDecoder_PreviousSessionId r \<noteq> None"
    and "SessionSetupRequestDecoder_SecurityBufferOffset r = Some off \<Longrightarrow>
      SessionSetupRequestDecoder_SecurityBufferLength r = Some len \<Longrightarrow> unat off + unat len < 65536 \<Longrightarrow>
      SessionSetupRequestDecoder_SecurityBuffer r \<noteq> None"
proof -
  note v = SessionSetupRequestDecoder_validD [OF assms]
  show "SessionSetupRequestDecoder_Flags r \<noteq> None" "SessionSetupRequestDecoder_SecurityMode r \<noteq> None"
    "SessionSetupRequestDecoder_Capabilities r \<noteq> None" "SessionSetupRequestDecoder_Channel r \<noteq> None"
    "SessionSetupRequestDecoder_PreviousSessionId r \<noteq> None"
    using v(1) by (simp_all add: SessionSetupRequestDecoder_defs un_at_eqs)
  assume "SessionSetupRequestDecoder_SecurityBufferOffset r = Some off"
      "SessionSetupRequestDecoder_SecurityBufferLength r = Some len" "unat off + unat len < 65536"
  then show "SessionSetupRequestDecoder_SecurityBuffer r \<noteq> None"
    using v go_slice_words [of 64 off len r]
    by (simp add: SessionSetupRequestDecoder_SecurityBuffer_def SessionSetupRequestDecoder_SecurityBufferOffset_def
        SessionSetupRequestDecoder_SecurityBufferLength_def u16_at_eq not_less Let_def word_le_nat_alt
        del: not_None_eq split: if_splits)
qed

lemma TreeConnectRequestDecoder_accessors:
  assumes "TreeConnectRequestDecoder_IsInvalid r = Some False"
  shows "TreeConnectRequestDecoder_Flags r \<noteq> None"
    and "TreeConnectRequestDecoder_PathOffset r = Some off \<Longrightarrow> TreeConnectRequestDecoder_PathLength r = Some len \<Longrightarrow>
      unat off + unat len < 65536 \<Longrightarrow> TreeConnectRequestDecoder_Path r \<noteq> None"
proof -
  have v: "8 \<le> length r" "uint (word_of_le (rd 4 2 r) + word_of_le (rd 6 2 r) :: u16) - 64 \<le> int (length r)"
    using assms by (simp_all add: TreeConnectRequestDecoder_defs un_at_eqs not_less split: if_splits)
  then show "TreeConnectRequestDecoder_Flags r \<noteq> None"
    by (simp add: TreeConnectRequestDecoder_defs un_at_eqs)
  assume "TreeConnectRequestDecoder_PathOffset r = Some off" "TreeConnectRequestDecoder_PathLength r = Some len"
      "unat off + unat len < 65536"
  then show "TreeConnectRequestDecoder_Path r \<noteq> None"
    using v go_slice_words [of 64 off len r] DecodeToString_total
    by (simp add: TreeConnectRequestDecoder_Path_def TreeConnectRequestDecoder_PathOffset_def
        TreeConnectRequestDecoder_PathLength_def u16_at_eq not_less Let_def word_le_nat_alt
        del: not_None_eq split: if_splits)
qed

lemma CreateRequestDecoder_validD:
  assumes "CreateRequestDecoder_IsInvalid r = Some False"
  shows "56 \<le> length r" "uint (word_of_le (rd 44 2 r) + word_of_le (rd 46 2 r) :: u16) - 64 \<le> int (length r)"
    "uint (word_of_le (rd 48 4 r) + word_of_le (rd 52 4 r) :: u32) - 64 \<le> int (length r)"
  using assms by (simp_all add: CreateRequestDecoder_defs un_at_eqs not_less split: if_splits)

lemma CreateRequestDecoder_accessors:
  assumes "CreateRequestDecoder_IsInvalid r = Some False"
  shows "CreateRequestDecoder_RequestedOplockLevel r \<noteq> None" "CreateRequestDecoder_ImpersonationLevel r \<noteq> None"
    "CreateRequestDecoder_DesiredAccess r \<noteq> None" "CreateRequestDecoder_FileAttributes r \<noteq> None"
    "CreateRequestDecoder_ShareAccess r \<noteq> None" "CreateRequestDecoder_CreateDisposition r \<noteq> None"
    "CreateRequestDecoder_CreateOptions r \<noteq> None"
    and "CreateRequestDecoder_NameOffset r = Some off \<Longrightarrow> CreateRequestDecoder_NameLength r = Some len \<Longrightarrow>
      64 \<le> off \<Longrightarrow> unat off + unat len < 65536 \<Longrightarrow> CreateRequestDecoder_Name r \<noteq> None"
    and "CreateRequestDecoder_CreateContextsOffset r = Some coff \<Longrightarrow>
      CreateRequestDecoder_CreateContextsLength r = Some clen \<Longrightarrow>
      64 \<le> coff \<Longrightarrow> unat coff + unat clen < 4294967296 \<Longrightarrow> CreateRequestDecoder_CreateContexts r \<noteq> None"
proof -
  note v = CreateRequestDecoder_validD [OF assms]
  show "CreateRequestDecoder_RequestedOplockLevel r \<noteq> None" "CreateRequestDecoder_ImpersonationLevel r \<noteq> None"
    "CreateRequestDecoder_DesiredAccess r \<noteq> None" "CreateRequestDecoder_FileAttributes r \<noteq> None"
    "CreateRequestDecoder_ShareAccess r \<noteq> None" "CreateRequestDecoder_CreateDisposition r \<noteq> None"
    "CreateRequestDecoder_CreateOptions r \<noteq> None"
    using v(1) by (simp_all add: CreateRequestDecoder_defs un_at_eqs)
  show "CreateRequestDecoder_Name r \<noteq> None"
    if "CreateRequestDecoder_NameOffset r = Some off" "CreateRequestDecoder_NameLength r = Some len"
      "64 \<le> off" "unat off + unat len < 65536"
    using that v go_slice_words [of 64 off len r] DecodeToString_total
    by (simp add: CreateRequestDecoder_Name_def CreateRequestDecoder_NameOffset_def
        CreateRequestDecoder_NameLength_def u16_at_eq Let_def del: not_None_eq split: if_splits)
  show "CreateRequestDecoder_CreateContexts r \<noteq> None"
    if "CreateRequestDecoder_CreateContextsOffset r = Some coff"
      "CreateRequestDecoder_CreateContextsLength r = Some clen" "64 \<le> coff" "unat coff + unat clen < 4294967296"
    using that v go_slice_words [of 64 coff clen r]
    by (simp add: CreateRequestDecoder_CreateContexts_def CreateRequestDecoder_CreateContextsOffset_def
        CreateRequestDecoder_CreateContextsLength_def u32_at_eq Let_def del: not_None_eq split: if_splits)
qed

lemma QueryDirectoryRequestDecoder_accessors:
  assumes "QueryDirectoryRequestDecoder_IsInvalid r = Some False"
  shows "QueryDirectoryRequestDecoder_FileInfoClass r \<noteq> None" "QueryDirectoryRequestDecoder_Flags r \<noteq> None"
    "QueryDirectoryRequestDecoder_FileIndex r \<noteq> None" "QueryDirectoryRequestDecoder_FileId r \<noteq> None"
    "QueryDirectoryRequestDecoder_OutputBufferLength r \<noteq> None"
    and "QueryDirectoryRequestDecoder_FileNameOffset r = Some off \<Longrightarrow>
      QueryDirectoryRequestDecoder_FileNameLength r = Some len \<Longrightarrow> 64 \<le> off \<Longrightarrow>
      unat off + unat len < 65536 \<Longrightarrow> QueryDirectoryRequestDecoder_FileName r \<noteq> None"
proof -
  have v: "32 \<le> length r" "uint (word_of_le (rd 24 2 r) + word_of_le (rd 26 2 r) :: u16) - 64 \<le> int (length r)"
    using assms by (simp_all add: QueryDirectoryRequestDecoder_defs un_at_eqs not_less split: if_splits)
  then show "QueryDirectoryRequestDecoder_FileInfoClass r \<noteq> None" "QueryDirectoryRequestDecoder_Flags r \<noteq> None"
    "QueryDirectoryRequestDecoder_FileIndex r \<noteq> None" "QueryDirectoryRequestDecoder_FileId r \<noteq> None"
    "QueryDirectoryRequestDecoder_OutputBufferLength r \<noteq> None"
    by (simp_all add: QueryDirectoryRequestDecoder_defs un_at_eqs go_slice_eq_rd)
  assume "QueryDirectoryRequestDecoder_FileNameOffset r = Some off"
      "QueryDirectoryRequestDecoder_FileNameLength r = Some len" "64 \<le> off" "unat off + unat len < 65536"
  then show "QueryDirectoryRequestDecoder_FileName r \<noteq> None"
    using v go_slice_words [of 64 off len r] DecodeToString_total
    by (simp add: QueryDirectoryRequestDecoder_FileName_def QueryDirectoryRequestDecoder_FileNameOffset_def
        QueryDirectoryRequestDecoder_FileNameLength_def u16_at_eq Let_def del: not_None_eq split: if_splits)
qed

text \<open>The data of a write starts at offset 48 of the request whatever \<open>DataOffset\<close> says: it is
  inside the packet when \<open>DataOffset\<close> is the canonical 112 or more and nothing wraps.\<close>

lemma WriteRequestDecoder_Data_ok:
  assumes "WriteRequestDecoder_IsInvalid r = Some False"
    and "WriteRequestDecoder_DataOffset r = Some off" "WriteRequestDecoder_Length r = Some len"
    and "112 \<le> off" "unat off + unat len < 4294967296"
  shows "WriteRequestDecoder_Data r = Some (rd 48 (unat len) r)"
proof -
  have v: "48 \<le> length r" "uint (ucast (word_of_le (rd 2 2 r) :: u16) + word_of_le (rd 4 4 r) :: u32) - 64 \<le> int (length r)"
    using assms(1) by (simp_all add: WriteRequestDecoder_defs un_at_eqs not_less split: if_splits)
  have o: "off = word_of_le (rd 2 2 r)" and l: "len = word_of_le (rd 4 4 r)"
    using assms(2,3) v(1) by (simp_all add: WriteRequestDecoder_defs un_at_eqs)
  have "unat (ucast off + len :: u32) = unat off + unat len"
    using assms(5) by (simp add: unat_word_ariths(1))
  then have "unat off + unat len \<le> length r + 64"
    using v(2) unfolding o [symmetric] l [symmetric] uint_nat by linarith
  moreover have "112 \<le> unat off" using assms(4) by (simp add: word_le_nat_alt)
  moreover have "unat (48 + len) = 48 + unat len"
    using assms(5) \<open>112 \<le> unat off\<close> by (simp add: unat_word_ariths(1))
  ultimately show ?thesis
    using assms(3) by (simp add: WriteRequestDecoder_Data_def go_slice_eq_rd)
qed

text \<open>
  Requests that pass \<open>IsInvalid\<close> and make an accessor panic: one dialect announced and
  none sent; a security buffer whose end wraps; a name offset below the header size.
\<close>

lemma NegotiateRequestDecoder_Dialects_panic:
  "NegotiateRequestDecoder_IsInvalid ([36, 0, 1, 0] @ replicate 32 0) = Some False \<and>
   NegotiateRequestDecoder_Dialects ([36, 0, 1, 0] @ replicate 32 0) = None"
  by (simp add: NegotiateRequestDecoder_defs un_at_eqs rd_def go_slice_def)

lemma SessionSetupRequestDecoder_SecurityBuffer_panic:
  "SessionSetupRequestDecoder_IsInvalid ([25, 0] @ replicate 10 0 @ [0xff, 0xff, 65, 0] @ replicate 8 0) = Some False \<and>
   SessionSetupRequestDecoder_SecurityBuffer ([25, 0] @ replicate 10 0 @ [0xff, 0xff, 65, 0] @ replicate 8 0) = None"
  by (simp add: SessionSetupRequestDecoder_defs un_at_eqs rd_def go_slice_def)

lemma CreateRequestDecoder_Name_panic:
  "CreateRequestDecoder_IsInvalid (57 # replicate 55 0) = Some False \<and>
   CreateRequestDecoder_Name (57 # replicate 55 0) = None"
  by (simp add: CreateRequestDecoder_defs un_at_eqs rd_def go_slice_def)

end
