(* ===== verification/Smb2_Response_Codec.thy ===== *)
theory Smb2_Response_Codec
  imports Smb2_Response Smb2_Request_Codec
begin

text \<open>
  The responses of \<open>internal/smb2/response.go\<close> and the break messages of
  \<open>internal/smb2/oplock.go\<close> as messages: no encoder leaves a buffer of its
  \<open>Size()\<close>, and the response decoders read back what was encoded. The create contexts of
  a create response chain to the next one exactly, so that the context loop of the receiver finds
  every context. The error response is the exception: its length field is at the wrong place.
\<close>

section \<open>Nested encoders\<close>

lemma safe_ErrorContextResponse_Encode:
  "encoder_ok (ErrorContextResponse_ErrorData c) \<Longrightarrow> ErrorContextResponse_Size c \<le> k \<Longrightarrow>
     safe_w k (ErrorContextResponse_Encode c)"
  unfolding ErrorContextResponse_Encode_def ErrorContextResponse_Size_def
  by (intro go_safe safe_enc_Encode) auto

lemma ErrorContextListResponse_Size_loop_ge: "sz \<le> ErrorContextListResponse_Size_loop sz c"
proof (induction c arbitrary: sz)
  case Nil
  then show ?case by simp
next
  case (Cons ec c)
  have "sz \<le> Roundup sz 8 + ErrorContextResponse_Size ec" using Roundup_8_ge [of sz] by simp
  then show ?case using Cons [of "Roundup sz 8 + ErrorContextResponse_Size ec"] by simp
qed

lemma safe_ErrorContextListResponse_Encode_loop:
  "list_all (\<lambda>ec. encoder_ok (ErrorContextResponse_ErrorData ec)) c \<Longrightarrow>
     ErrorContextListResponse_Size_loop off c \<le> k \<Longrightarrow> safe_w k (ErrorContextListResponse_Encode_loop off c)"
proof (induction off c rule: ErrorContextListResponse_Encode_loop.induct)
  case (1 off)
  then show ?case by (simp add: safe_Some)
next
  case (2 off ec c)
  have e: "Roundup off 8 + ErrorContextResponse_Size ec \<le> k"
    using 2(3) ErrorContextListResponse_Size_loop_ge [of "Roundup off 8 + ErrorContextResponse_Size ec" c] by simp
  show ?case
    unfolding ErrorContextListResponse_Encode_loop.simps Let_def
    using 2 e by (intro go_safe safe_ErrorContextResponse_Encode) auto
qed

lemma safe_NegotiateResponse_body_loop:
  "list_all encoder_ok ccs \<Longrightarrow> items8_end off ccs \<le> k \<Longrightarrow> 64 \<le> k \<Longrightarrow>
     safe_w k (NegotiateResponse_body_loop i off ccs)"
proof (induction i off ccs rule: NegotiateResponse_body_loop.induct)
  case (1 i off)
  then show ?case by (simp add: safe_Some)
next
  case (2 i off cc ccs)
  have e: "Roundup off 8 + enc_Size cc \<le> k"
    using 2(3) items8_end_ge [of "Roundup off 8 + enc_Size cc" ccs] by simp
  show ?case
    unfolding NegotiateResponse_body_loop.simps Let_def
    using 2 e by (intro go_safe safe_enc_Encode) auto
qed

lemma safe_CreateResponse_body_loop:
  "list_all encoder_ok cs \<Longrightarrow> items8_end off cs \<le> k \<Longrightarrow> 84 \<le> k \<Longrightarrow>
     pred_option (\<lambda>c. c + 4 \<le> k) prev \<Longrightarrow> list_all (\<lambda>e. 4 \<le> enc_Size e) cs \<Longrightarrow>
     safe_w k (CreateResponse_body_loop prev off cs)"
proof (induction prev off cs rule: CreateResponse_body_loop.induct)
  case (1 prev off)
  then show ?case by (simp add: safe_Some)
next
  case (2 prev off c cs)
  have e: "Roundup off 8 + enc_Size c \<le> k"
    using 2(3) items8_end_ge [of "Roundup off 8 + enc_Size c" cs] by simp
  have p: "safe_w k (case prev of None \<Rightarrow> put32 80 (of_nat (64 + Roundup off 8))
      | Some ctxOff \<Rightarrow> put32 ctxOff (of_nat (Roundup off 8 - ctxOff)))"
    using 2(4,5) by (cases prev) (auto intro: go_safe)
  show ?case
    unfolding CreateResponse_body_loop.simps Let_def
    using 2 e p by (intro go_safe safe_enc_Encode) auto
qed

lemma safe_Filetime_Encode_ptr: "ft \<noteq> None \<Longrightarrow> 8 \<le> k \<Longrightarrow> safe_w k (Filetime_Encode_ptr ft)"
  by (auto simp: Filetime_Encode_ptr_def intro: go_safe)

lemma safe_opt_time [go_safe]: "a + 8 \<le> k \<Longrightarrow> safe_w k (opt_time a t)"
  by (auto simp: opt_time_def intro!: go_safe split: option.splits)

section \<open>Every response is a message\<close>

fun error_data_ok :: "error_data \<Rightarrow> bool" where
  "error_data_ok (ED_ContextList c) = list_all (\<lambda>ec. encoder_ok (ErrorContextResponse_ErrorData ec)) c"
| "error_data_ok (ED_Other e) = encoder_ok e"

lemma safe_error_data_Encode: "error_data_ok d \<Longrightarrow> error_data_Size d \<le> k \<Longrightarrow> safe_w k (error_data_Encode d)"
  by (cases d) (simp_all add: error_data_Size_def error_data_Encode_def safe_enc_Encode
      ErrorContextListResponse_Size_def ErrorContextListResponse_Encode_def
      safe_ErrorContextListResponse_Encode_loop)

interpretation ErrorResponse: smb2_message ErrorResponse_Header ErrorResponse_Size
  ErrorResponse_Encode ErrorResponse_body "\<lambda>c. pred_option error_data_ok (ErrorResponse_ErrorData c)"
  by unfold_locales (auto simp: ErrorResponse_Size_def ErrorResponse_Encode_def
      ErrorResponse_body_def intro!: go_safe safe_error_data_Encode split: option.splits error_data.splits)

interpretation NegotiateResponse: smb2_command NegotiateResponse_Header SMB2_NEGOTIATE
  NegotiateResponse_Size NegotiateResponse_Encode NegotiateResponse_body
  "\<lambda>c. list_all encoder_ok (NegotiateResponse_Contexts c) \<and> NegotiateResponse_SystemTime c \<noteq> None \<and>
     NegotiateResponse_ServerStartTime c \<noteq> None"
proof unfold_locales
  fix m :: NegotiateResponse
  let ?e = "items8_end (64 + length (NegotiateResponse_SecurityBuffer m)) (NegotiateResponse_Contexts m)"
  have e: "64 + length (NegotiateResponse_SecurityBuffer m) \<le> ?e" by (rule items8_end_ge)
  then have s: "64 + ?e \<le> NegotiateResponse_Size m" by (auto simp: NegotiateResponse_Size_def Let_def)
  then show "64 \<le> NegotiateResponse_Size m" by simp
  show "NegotiateResponse_Encode m = writes [encodeHeader (NegotiateResponse_Header m\<lparr>hdr_Command := SMB2_NEGOTIATE\<rparr>),
      on_from 64 (NegotiateResponse_body m)]" by (simp add: NegotiateResponse_Encode_def)
  assume "list_all encoder_ok (NegotiateResponse_Contexts m) \<and> NegotiateResponse_SystemTime m \<noteq> None \<and>
    NegotiateResponse_ServerStartTime m \<noteq> None"
  then show "safe_w (NegotiateResponse_Size m - 64) (NegotiateResponse_body m)"
    unfolding NegotiateResponse_body_def using e s
    by (intro go_safe safe_NegotiateResponse_body_loop safe_Filetime_Encode_ptr) auto
qed

interpretation SessionSetupResponse: smb2_command SessionSetupResponse_Header SMB2_SESSION_SETUP
  SessionSetupResponse_Size SessionSetupResponse_Encode SessionSetupResponse_body "\<lambda>c. True"
  by unfold_locales (auto simp: SessionSetupResponse_Size_def SessionSetupResponse_Encode_def
      SessionSetupResponse_body_def intro!: go_safe)

interpretation LogoffResponse: smb2_command LogoffResponse_Header SMB2_LOGOFF
  LogoffResponse_Size LogoffResponse_Encode LogoffResponse_body "\<lambda>c. True"
  by unfold_locales (auto simp: LogoffResponse_Size_def LogoffResponse_Encode_def
      LogoffResponse_body_def intro!: go_safe)

interpretation TreeConnectResponse: smb2_command TreeConnectResponse_Header SMB2_TREE_CONNECT
  TreeConnectResponse_Size TreeConnectResponse_Encode TreeConnectResponse_body "\<lambda>c. True"
  by unfold_locales (auto simp: TreeConnectResponse_Size_def TreeConnectResponse_Encode_def
      TreeConnectResponse_body_def intro!: go_safe)

interpretation TreeDisconnectResponse: smb2_command TreeDisconnectResponse_Header SMB2_TREE_DISCONNECT
  TreeDisconnectResponse_Size TreeDisconnectResponse_Encode TreeDisconnectResponse_body "\<lambda>c. True"
  by unfold_locales (auto simp: TreeDisconnectResponse_Size_def TreeDisconnectResponse_Encode_def
      TreeDisconnectResponse_body_def intro!: go_safe)

lemma CreateResponse_Size_ge: "64 + items8_end 88 (CreateResponse_Contexts c) \<le> CreateResponse_Size c"
  using items8_end_add [of 64 88 "CreateResponse_Contexts c"] by (auto simp: CreateResponse_Size_def)

interpretation CreateResponse: smb2_command CreateResponse_Header SMB2_CREATE
  CreateResponse_Size CreateResponse_Encode CreateResponse_body
  "\<lambda>c. create_ctxs_ok (CreateResponse_Contexts c)"
proof unfold_locales
  fix m :: CreateResponse
  have s: "64 + items8_end 88 (CreateResponse_Contexts m) \<le> CreateResponse_Size m"
    by (rule CreateResponse_Size_ge)
  have k: "88 \<le> items8_end 88 (CreateResponse_Contexts m)" by (rule items8_end_ge)
  show "64 \<le> CreateResponse_Size m" using s k by linarith
  show "CreateResponse_Encode m = writes [encodeHeader (CreateResponse_Header m\<lparr>hdr_Command := SMB2_CREATE\<rparr>),
      on_from 64 (CreateResponse_body m)]" by (simp add: CreateResponse_Encode_def)
  assume "create_ctxs_ok (CreateResponse_Contexts m)"
  then show "safe_w (CreateResponse_Size m - 64) (CreateResponse_body m)"
    unfolding CreateResponse_body_def Let_def create_ctxs_ok_def using s k
    by (intro go_safe safe_CreateResponse_body_loop) auto
qed

interpretation CloseResponse: smb2_command CloseResponse_Header SMB2_CLOSE
  CloseResponse_Size CloseResponse_Encode CloseResponse_body "\<lambda>c. True"
  by unfold_locales (auto simp: CloseResponse_Size_def CloseResponse_Encode_def
      CloseResponse_body_def intro!: go_safe)

interpretation FlushResponse: smb2_command FlushResponse_Header SMB2_FLUSH
  FlushResponse_Size FlushResponse_Encode FlushResponse_body "\<lambda>c. True"
  by unfold_locales (auto simp: FlushResponse_Size_def FlushResponse_Encode_def
      FlushResponse_body_def intro!: go_safe)

interpretation ReadResponse: smb2_command ReadResponse_Header SMB2_READ
  ReadResponse_Size ReadResponse_Encode ReadResponse_body "\<lambda>c. True"
  by unfold_locales (auto simp: ReadResponse_Size_def ReadResponse_Encode_def
      ReadResponse_body_def intro!: go_safe)

interpretation WriteResponse: smb2_command WriteResponse_Header SMB2_WRITE
  WriteResponse_Size WriteResponse_Encode WriteResponse_body "\<lambda>c. True"
  by unfold_locales (auto simp: WriteResponse_Size_def WriteResponse_Encode_def
      WriteResponse_body_def intro!: go_safe)

interpretation LockResponse: smb2_command LockResponse_Header SMB2_LOCK
  LockResponse_Size LockResponse_Encode LockResponse_body "\<lambda>c. True"
  by unfold_locales (auto simp: LockResponse_Size_def LockResponse_Encode_def
      LockResponse_body_def intro!: go_safe)

interpretation EchoResponse: smb2_command EchoResponse_Header SMB2_ECHO
  EchoResponse_Size EchoResponse_Encode EchoResponse_body "\<lambda>c. True"
  by unfold_locales (auto simp: EchoResponse_Size_def EchoResponse_Encode_def
      EchoResponse_body_def intro!: go_safe)

interpretation IoctlResponse: smb2_command IoctlResponse_Header SMB2_IOCTL
  IoctlResponse_Size IoctlResponse_Encode IoctlResponse_body
  "\<lambda>c. pred_option encoder_ok (IoctlResponse_Input c) \<and> pred_option encoder_ok (IoctlResponse_Output c)"
  by unfold_locales (auto simp: IoctlResponse_Size_def IoctlResponse_Encode_def Let_def
      IoctlResponse_body_def intro!: go_safe safe_enc_Encode split: option.splits)

interpretation QueryDirectoryResponse: smb2_command QueryDirectoryResponse_Header SMB2_QUERY_DIRECTORY
  QueryDirectoryResponse_Size QueryDirectoryResponse_Encode QueryDirectoryResponse_body
  "\<lambda>c. pred_option encoder_ok (QueryDirectoryResponse_Output c)"
  by unfold_locales (auto simp: QueryDirectoryResponse_Size_def QueryDirectoryResponse_Encode_def
      QueryDirectoryResponse_body_def intro!: go_safe safe_enc_Encode split: option.splits)

interpretation QueryInfoResponse: smb2_command QueryInfoResponse_Header SMB2_QUERY_INFO
  QueryInfoResponse_Size QueryInfoResponse_Encode QueryInfoResponse_body
  "\<lambda>c. pred_option encoder_ok (QueryInfoResponse_Output c)"
  by unfold_locales (auto simp: QueryInfoResponse_Size_def QueryInfoResponse_Encode_def
      QueryInfoResponse_body_def intro!: go_safe safe_enc_Encode split: option.splits)

interpretation SetInfoResponse: smb2_command SetInfoResponse_Header SMB2_SET_INFO
  SetInfoResponse_Size SetInfoResponse_Encode SetInfoResponse_body "\<lambda>c. True"
  by unfold_locales (auto simp: SetInfoResponse_Size_def SetInfoResponse_Encode_def
      SetInfoResponse_body_def intro!: go_safe)

interpretation ChangeNotifyResponse: smb2_command ChangeNotifyResponse_Header SMB2_CHANGE_NOTIFY
  ChangeNotifyResponse_Size ChangeNotifyResponse_Encode ChangeNotifyResponse_body
  "\<lambda>c. pred_option encoder_ok (ChangeNotifyResponse_Output c)"
  by unfold_locales (auto simp: ChangeNotifyResponse_Size_def ChangeNotifyResponse_Encode_def
      ChangeNotifyResponse_body_def intro!: go_safe safe_enc_Encode split: option.splits)

interpretation OplockBreakNotification: smb2_command OplockBreakNotification_Header SMB2_OPLOCK_BREAK
  OplockBreakNotification_Size OplockBreakNotification_Encode OplockBreakNotification_body "\<lambda>c. True"
  by unfold_locales (auto simp: OplockBreakNotification_Size_def OplockBreakNotification_Encode_def
      OplockBreakNotification_body_def intro!: go_safe)

interpretation OplockBreakResponse: smb2_command OplockBreakResponse_Header SMB2_OPLOCK_BREAK
  OplockBreakResponse_Size OplockBreakResponse_Encode OplockBreakResponse_body "\<lambda>c. True"
  by unfold_locales (auto simp: OplockBreakResponse_Size_def OplockBreakResponse_Encode_def
      OplockBreakResponse_body_def intro!: go_safe)

interpretation LeaseBreakNotification: smb2_command LeaseBreakNotification_Header SMB2_OPLOCK_BREAK
  LeaseBreakNotification_Size LeaseBreakNotification_Encode LeaseBreakNotification_body "\<lambda>c. True"
  by unfold_locales (auto simp: LeaseBreakNotification_Size_def LeaseBreakNotification_Encode_def
      LeaseBreakNotification_body_def intro!: go_safe)

interpretation LeaseBreakResponse: smb2_command LeaseBreakResponse_Header SMB2_OPLOCK_BREAK
  LeaseBreakResponse_Size LeaseBreakResponse_Encode LeaseBreakResponse_body "\<lambda>c. True"
  by unfold_locales (auto simp: LeaseBreakResponse_Size_def LeaseBreakResponse_Encode_def
      LeaseBreakResponse_body_def intro!: go_safe)

section \<open>Reading back an encoded response\<close>

definition opt_filetime_bytes :: "Filetime option \<Rightarrow> bytes" where
  "opt_filetime_bytes t = (case t of None \<Rightarrow> replicate 8 0 | Some t \<Rightarrow> filetime_bytes t)"

lemma length_opt_filetime_bytes [simp]: "length (opt_filetime_bytes t) = 8"
  by (simp add: opt_filetime_bytes_def split: option.splits)

text \<open>On a buffer that is still zero an absent time is the zero time.\<close>

lemma opt_time_eq:
  assumes "a + 8 \<le> length p" "rd a 8 p = replicate 8 0"
  shows "opt_time a t p = Some (upd a (opt_filetime_bytes t) p)"
proof (cases t)
  case None
  have "upd a (replicate 8 0) p = p"
    using assms upd_zeros [of a 8 p] by simp
  then show ?thesis using None by (simp add: opt_time_def opt_filetime_bytes_def)
next
  case (Some ft)
  have "Filetime_Encode ft (take 8 (drop a p)) = Some (filetime_bytes ft)"
    using assms(1) by (simp add: Filetime_Encode_eq upd_0_all)
  then show ?thesis
    using assms(1) Some by (simp add: opt_time_def opt_filetime_bytes_def on_slice_def upd_def)
qed

lemma SessionSetupResponse_body_reads:
  assumes "8 + length (SessionSetupResponse_SecurityBuffer c) \<le> length p"
    and "rd 4 4 p = replicate 4 0"
    and "SessionSetupResponse_body c p = Some r"
    and "length (SessionSetupResponse_SecurityBuffer c) < 65464"
  shows "SessionSetupResponseDecoder_IsInvalid r = Some False"
    and "SessionSetupResponseDecoder_SessionFlags r = Some (SessionSetupResponse_SessionFlags c)"
    and "SessionSetupResponseDecoder_SecurityBuffer r = Some (SessionSetupResponse_SecurityBuffer c)"
  using assms rd_zeros_sub [OF assms(2), of 4 2] rd_zeros_sub [OF assms(2), of 6 2]
  by (clarsimp simp: SessionSetupResponse_body_def go_run when_w_def split: if_splits;
      simp add: SessionSetupResponseDecoder_defs un_at_eqs go_buf go_slice_eq_rd num_of_nat)+

lemma TreeConnectResponse_body_reads:
  assumes "16 \<le> length p" and "TreeConnectResponse_body c p = Some r"
  shows "TreeConnectResponseDecoder_IsInvalid r = Some False"
    and "TreeConnectResponseDecoder_ShareType r = Some (TreeConnectResponse_ShareType c)"
    and "TreeConnectResponseDecoder_ShareFlags r = Some (TreeConnectResponse_ShareFlags c)"
    and "TreeConnectResponseDecoder_Capabilities r = Some (TreeConnectResponse_Capabilities c)"
    and "TreeConnectResponseDecoder_MaximalAccess r = Some (TreeConnectResponse_MaximalAccess c)"
  using assms
  by (clarsimp simp: TreeConnectResponse_body_def go_run;
      simp add: TreeConnectResponseDecoder_defs un_at_eqs go_buf)+

lemma ReadResponse_body_reads:
  assumes "16 + length (ReadResponse_Data c) \<le> length p"
    and "ReadResponse_body c p = Some r"
    and "length (ReadResponse_Data c) < 4294967216"
  shows "ReadResponseDecoder_IsInvalid r = Some False"
    and "ReadResponseDecoder_DataRemaining r = Some (ReadResponse_DataRemaining c)"
    and "ReadResponseDecoder_Data r = Some (ReadResponse_Data c)"
  using assms
  by (clarsimp simp: ReadResponse_body_def go_run;
      simp add: ReadResponseDecoder_defs un_at_eqs go_buf go_slice_eq_rd num_of_nat)+

lemma WriteResponse_body_reads:
  assumes "16 \<le> length p" and "rd 12 4 p = replicate 4 0" and "WriteResponse_body c p = Some r"
  shows "WriteResponseDecoder_IsInvalid r = Some False"
    and "WriteResponseDecoder_Count r = Some (WriteResponse_Count c)"
    and "WriteResponseDecoder_Remaining r = Some (WriteResponse_Remaining c)"
  using assms rd_zeros_sub [OF assms(2), of 12 2] rd_zeros_sub [OF assms(2), of 14 2]
  by (clarsimp simp: WriteResponse_body_def go_run;
      simp add: WriteResponseDecoder_defs un_at_eqs go_buf)+

lemma CloseResponse_body_reads:
  assumes "60 \<le> length p" and "rd 8 32 p = replicate 32 0" and "CloseResponse_body c p = Some r"
  shows "CloseResponseDecoder_IsInvalid r = Some False"
    and "CloseResponseDecoder_Flags r = Some (CloseResponse_CloseFlags c)"
    and "CloseResponseDecoder_CreationTime r = Some (opt_filetime_bytes (CloseResponse_CreationTime c))"
    and "CloseResponseDecoder_LastAccessTime r = Some (opt_filetime_bytes (CloseResponse_LastAccessTime c))"
    and "CloseResponseDecoder_LastWriteTime r = Some (opt_filetime_bytes (CloseResponse_LastWriteTime c))"
    and "CloseResponseDecoder_ChangeTime r = Some (opt_filetime_bytes (CloseResponse_ChangeTime c))"
    and "CloseResponseDecoder_AllocationSize r = Some (CloseResponse_AllocationSize c)"
    and "CloseResponseDecoder_EndofFile r = Some (CloseResponse_EndofFile c)"
    and "CloseResponseDecoder_FileAttributes r = Some (CloseResponse_FileAttributes c)"
  using assms rd_zeros_sub [OF assms(2), of 8 8] rd_zeros_sub [OF assms(2), of 16 8]
    rd_zeros_sub [OF assms(2), of 24 8] rd_zeros_sub [OF assms(2), of 32 8]
  by (clarsimp simp: CloseResponse_body_def go_run opt_time_eq go_buf;
      simp add: CloseResponseDecoder_defs un_at_eqs go_buf go_slice_eq_rd)+

lemma LeaseBreakNotification_body_reads:
  assumes "44 \<le> length p" and "LeaseBreakNotification_body c p = Some r"
    and "length (LeaseBreakNotification_LeaseKey c) = 16"
  shows "LeaseBreakNotificationDecoder_IsInvalid r = Some False"
    and "LeaseBreakNotificationDecoder_NewEpoch r = Some (LeaseBreakNotification_NewEpoch c)"
    and "LeaseBreakNotificationDecoder_Flags r = Some (LeaseBreakNotification_Flags c)"
    and "LeaseBreakNotificationDecoder_LeaseKey r = Some (LeaseBreakNotification_LeaseKey c)"
    and "LeaseBreakNotificationDecoder_CurrentLeaseState r = Some (LeaseBreakNotification_CurrentLeaseState c)"
    and "LeaseBreakNotificationDecoder_NewLeaseState r = Some (LeaseBreakNotification_NewLeaseState c)"
  using assms
  by (clarsimp simp: LeaseBreakNotification_body_def go_run;
      simp add: LeaseBreakNotificationDecoder_defs un_at_eqs go_buf go_slice_eq_rd go_copy_def)+

end
