(* ===== verification/Conn.thy ===== *)
theory Conn
  imports Session Compound Credit Transport Smb2_Response_Codec
begin

text \<open>
  \<open>server/conn.go\<close>: one connection. The receiver reads a frame, decrypts it, checks the session,
  splits the compound, verifies each part and queues it as a request; the sender completes the
  header of a response, encodes, signs or encrypts it and collects the responses of a compound.
  A Go panic is \<open>None\<close>, which for this server is the end of the process. Compound contexts are
  shared by pointer between the requests of a frame, so the receiver keeps them in a list and a
  request holds an index.
\<close>

abbreviation (input) "STATUS_SUCCESS \<equiv> (0 :: u32)"
abbreviation (input) "STATUS_NOTIFY_ENUM_DIR \<equiv> (0x10C :: u32)"
abbreviation (input) "STATUS_BUFFER_OVERFLOW \<equiv> (0x80000005 :: u32)"
abbreviation (input) "STATUS_MORE_PROCESSING_REQUIRED \<equiv> (0xC0000016 :: u32)"
abbreviation (input) "STATUS_ACCESS_DENIED \<equiv> (0xC0000022 :: u32)"
abbreviation (input) "STATUS_OBJECT_NAME_NOT_FOUND \<equiv> (0xC0000034 :: u32)"
abbreviation (input) "STATUS_OBJECT_NAME_COLLISION \<equiv> (0xC0000035 :: u32)"
abbreviation (input) "STATUS_OBJECT_PATH_NOT_FOUND \<equiv> (0xC000003A :: u32)"
abbreviation (input) "STATUS_BAD_NETWORK_NAME \<equiv> (0xC00000CC :: u32)"
abbreviation (input) "STATUS_CANNOT_DELETE \<equiv> (0xC0000121 :: u32)"

abbreviation (input) "SMB2_SHAREFLAG_ENCRYPT_DATA \<equiv> (0x8000 :: u32)"
abbreviation (input) "MSGID_NONE \<equiv> (0xFFFFFFFFFFFFFFFF :: u64)"

datatype conn_error = TransportError | InternalError | InvalidResponseError | InvalidRequestError
  | ContextError | ErrExist | ErrNotExist | ErrPermission | ResponseError u32 "bytes list"

record treeConn =
  tc_treeId :: u32
  tc_shareFlags :: u32
  tc_path :: go_string
  tc_refCount :: int

datatype ConnState = STATE_NEGOTIATE | STATE_SESSION_SETUP | STATE_SESSION_SETUP_CHALLENGE | STATE_SESSION_ACTIVE

record conn =
  conn_session :: "session option"
  conn_sessions :: "u64 \<Rightarrow> session option"
  conn_useSession :: bool
  conn_sequenceWindow :: u64
  conn_dialect :: u16
  conn_maxTransactSize :: u32
  conn_maxReadSize :: u32
  conn_maxWriteSize :: u32
  conn_requireSigning :: bool
  conn_capabilities :: u32
  conn_preauthIntegrityHashId :: u16
  conn_preauthIntegrityHashValue :: bytes
  conn_cipherId :: u16
  conn_hashId :: u16
  conn_posixExtensions :: bool
  conn_account :: account
  conn_serverState :: ConnState
  conn_out :: "bytes list"

definition conn_registerSession :: "session \<Rightarrow> conn \<Rightarrow> conn" where
  "conn_registerSession s c =
     c\<lparr>conn_sessions := (conn_sessions c)(session_id s \<mapsto> s), conn_session := Some s\<rparr>"

definition conn_lookupSession :: "u64 \<Rightarrow> conn \<Rightarrow> session option" where
  "conn_lookupSession sessionId c =
     (case conn_session c of
        Some s \<Rightarrow> if session_id s = sessionId then Some s else conn_sessions c sessionId
      | None \<Rightarrow> conn_sessions c sessionId)"

section \<open>Receiving\<close>

definition conn_tryDecrypt :: "conn \<Rightarrow> bytes \<Rightarrow> (conn_error + bytes \<times> session option \<times> bool) option" where
  "conn_tryDecrypt c pkt = do {
     inv \<leftarrow> PacketCodec_IsInvalid pkt;
     if inv then
       (if TransformCodec_IsInvalid pkt then Some (Inl InvalidResponseError)
        else do {
          fl \<leftarrow> TransformCodec_Flags pkt;
          if fl \<noteq> Encrypted then Some (Inl InvalidResponseError)
          else do {
            sid \<leftarrow> TransformCodec_SessionId pkt;
            case conn_lookupSession sid c of
              None \<Rightarrow> Some (Inl InvalidResponseError)
            | Some s \<Rightarrow> do {
                res \<leftarrow> session_decrypt s pkt;
                case res of
                  Inl _ \<Rightarrow> Some (Inl InvalidResponseError)
                | Inr pkt \<Rightarrow> Some (Inr (pkt, Some s, True)) } } })
     else Some (Inr (pkt, None, False)) }"

text \<open>The packet is verified in place, so the caller goes on with the second component.\<close>

definition conn_tryVerify :: "conn \<Rightarrow> bytes \<Rightarrow> session option \<Rightarrow> bool \<Rightarrow> (conn_error option \<times> bytes) option" where
  "conn_tryVerify c pkt s isEncrypted = do {
     msgId \<leftarrow> PacketCodec_MessageId pkt;
     if msgId = MSGID_NONE then Some (None, pkt)
     else do {
       fl \<leftarrow> PacketCodec_Flags pkt;
       if fl AND SMB2_FLAGS_SIGNED \<noteq> 0 then
         (case s of
            None \<Rightarrow> Some (Some InvalidResponseError, pkt)
          | Some s \<Rightarrow> do {
              sid \<leftarrow> PacketCodec_SessionId pkt;
              if session_id s \<noteq> sid then Some (Some InvalidResponseError, pkt)
              else do {
                (ok, pkt) \<leftarrow> session_verify s pkt;
                if \<not> ok then Some (Some InvalidResponseError, pkt) else Some (None, pkt) } })
       else if conn_requireSigning c \<and> \<not> isEncrypted then
         (case s of
            None \<Rightarrow> Some (None, pkt)
          | Some s \<Rightarrow>
              if session_anonymous s then Some (None, pkt)
              else do {
                sid \<leftarrow> PacketCodec_SessionId pkt;
                if session_id s = sid then Some (Some InvalidResponseError, pkt) else Some (None, pkt) })
       else Some (None, pkt) } }"

record request =
  req_msgId :: u64
  req_creditRequest :: u16
  req_pkt :: bytes
  req_session :: "session option"
  req_comp :: "nat option"

text \<open>The error of the verification is an argument that \<open>tryHandle\<close> does not look at.\<close>

definition conn_tryHandle :: "bytes \<Rightarrow> session option \<Rightarrow> nat option \<Rightarrow> conn_error option \<Rightarrow> request option" where
  "conn_tryHandle pkt s compCtx e = do {
     msgId \<leftarrow> PacketCodec_MessageId pkt;
     cr \<leftarrow> PacketCodec_CreditRequest pkt;
     Some \<lparr>req_msgId = msgId, req_creditRequest = cr, req_pkt = pkt, req_session = s, req_comp = compCtx\<rparr> }"

text \<open>One pass of the inner loop of \<open>runReciever\<close> up to the split: the updated compound
  contexts, the packet to handle and what follows it.\<close>

definition recv_compound :: "bytes \<Rightarrow> nat option \<Rightarrow> compoundContext list \<Rightarrow> (nat option \<times> compoundContext list) option" where
  "recv_compound pkt cur comps = do {
     first \<leftarrow> PacketCodec_IsCompoundFirst pkt;
     (cur, comps) \<leftarrow> (if first then do {
         tid \<leftarrow> PacketCodec_TreeId pkt;
         sid \<leftarrow> PacketCodec_SessionId pkt;
         Some (Some (length comps), comps @ [\<lparr>comp_treeId = ucast tid, comp_sessionId = sid, comp_fileId = None,
           comp_lastStatus = 0, comp_lastMsgId = 0, comp_rsp = []\<rparr>]) }
       else Some (cur, comps));
     lst \<leftarrow> PacketCodec_IsCompoundLast pkt;
     if lst then (case cur of
         None \<Rightarrow> None
       | Some i \<Rightarrow> do {
           m \<leftarrow> PacketCodec_MessageId pkt;
           Some (Some i, comps[i := (comps ! i)\<lparr>comp_lastMsgId := m\<rparr>]) })
     else Some (cur, comps) }"

definition recv_split :: "bytes \<Rightarrow> (bytes \<times> bytes option) option" where
  "recv_split pkt = do {
     off \<leftarrow> PacketCodec_NextCommand pkt;
     if off \<noteq> 0 then do {
       a \<leftarrow> go_slice pkt 0 (unat off);
       b \<leftarrow> go_slice_from pkt (unat off);
       Some (a, Some b) }
     else Some (pkt, None) }"

definition recv_verify :: "conn \<Rightarrow> bool \<Rightarrow> session option \<Rightarrow> bool \<Rightarrow> bytes \<Rightarrow> (conn_error option \<times> bytes) option" where
  "recv_verify c hasSession s isEncrypted pkt =
     (if hasSession then conn_tryVerify c pkt s isEncrypted else Some (None, pkt))"

lemma recv_split_shorter: "recv_split pkt = Some (a, Some b) \<Longrightarrow> length b < length pkt"
proof -
  assume "recv_split pkt = Some (a, Some b)"
  then obtain off where off: "PacketCodec_NextCommand pkt = Some off" "off \<noteq> 0" "b = drop (unat off) pkt"
    by (auto simp: recv_split_def go_slice_from_def split: Option.bind_splits if_splits)
  then have "0 < length pkt" "0 < unat off"
    by (auto simp: PacketCodec_NextCommand_def un_at_eqs unat_gt_0 split: if_splits)
  then show ?thesis using off by simp
qed

datatype recv_end = Recv_next | Recv_exit

function recv_loop :: "conn \<Rightarrow> bool \<Rightarrow> session option \<Rightarrow> bool \<Rightarrow> nat option \<Rightarrow> compoundContext list \<Rightarrow> bytes \<Rightarrow>
    (recv_end \<times> request list \<times> compoundContext list) option" where
  "recv_loop c hasSession s isEncrypted cur comps pkt =
     (case PacketCodec_IsInvalid pkt of None \<Rightarrow> None
      | Some True \<Rightarrow> Some (Recv_exit, [], comps)
      | Some False \<Rightarrow>
        (case recv_compound pkt cur comps of None \<Rightarrow> None
         | Some (cur, comps) \<Rightarrow>
           (case recv_split pkt of None \<Rightarrow> None
            | Some (cmd, nxt) \<Rightarrow>
              (case recv_verify c hasSession s isEncrypted cmd of None \<Rightarrow> None
               | Some (e, cmd) \<Rightarrow>
                 (case conn_tryHandle cmd s cur e of None \<Rightarrow> None
                  | Some r \<Rightarrow>
                    (case nxt of
                       None \<Rightarrow> Some (Recv_next, [r], comps)
                     | Some pkt' \<Rightarrow>
                       (case recv_loop c hasSession s isEncrypted cur comps pkt' of None \<Rightarrow> None
                        | Some (b, rs, comps) \<Rightarrow> Some (b, r # rs, comps))))))))"
  by auto
termination
  by (relation "measure (\<lambda>(c, h, s, i, cur, comps, pkt). length pkt)") (auto dest: recv_split_shorter)

declare recv_loop.simps [simp del]

datatype frame_result = Frame_skip conn_error | Frame_requests recv_end "request list" "compoundContext list"

text \<open>The checks of a connection with a session, then the loop.\<close>

definition recv_session_check :: "bytes \<Rightarrow> session option \<Rightarrow> conn \<Rightarrow> (conn_error + session option) option" where
  "recv_session_check pkt reqSession c = do {
     reqSession \<leftarrow> (case reqSession of
         None \<Rightarrow> map_option (\<lambda>sid. conn_lookupSession sid c) (PacketCodec_SessionId pkt)
       | Some s \<Rightarrow> Some (Some s));
     cmd \<leftarrow> PacketCodec_Command pkt;
     echo \<leftarrow> (if cmd = SMB2_ECHO then do {
         sid \<leftarrow> PacketCodec_SessionId pkt;
         if sid = 0 then do { fl \<leftarrow> PacketCodec_Flags pkt; Some (fl AND SMB2_FLAGS_SIGNED = 0) } else Some False }
       else Some False);
     case reqSession of
       None \<Rightarrow>
         if cmd \<noteq> SMB2_NEGOTIATE \<and> cmd \<noteq> SMB2_SESSION_SETUP \<and> \<not> echo then Some (Inl InvalidResponseError)
         else Some (Inr None)
     | Some s \<Rightarrow> do {
         bad \<leftarrow> (if cmd \<noteq> SMB2_NEGOTIATE \<and> cmd \<noteq> SMB2_SESSION_SETUP
                then map_option (\<lambda>sid. session_id s \<noteq> sid) (PacketCodec_SessionId pkt) else Some False);
         if bad then Some (Inl InvalidResponseError)
         else do {
           tid \<leftarrow> PacketCodec_TreeId pkt;
           case session_trees s tid of
             Some t \<Rightarrow> if t \<noteq> tid then Some (Inl InvalidResponseError) else Some (Inr (Some s))
           | None \<Rightarrow> Some (Inr (Some s)) } } }"

definition recv_frame :: "conn \<Rightarrow> bytes \<Rightarrow> frame_result option" where
  "recv_frame c pkt = do {
     let hasSession = conn_useSession c;
     (if hasSession then do {
        d \<leftarrow> conn_tryDecrypt c pkt;
        case d of
          Inl e \<Rightarrow> Some (Frame_skip e)
        | Inr (pkt, s, isEncrypted) \<Rightarrow> do {
            chk \<leftarrow> recv_session_check pkt s c;
            case chk of
              Inl e \<Rightarrow> Some (Frame_skip e)
            | Inr s \<Rightarrow> do {
                (e, rs, comps) \<leftarrow> recv_loop c True s isEncrypted None [] pkt;
                Some (Frame_requests e rs comps) } } }
      else do {
        (e, rs, comps) \<leftarrow> recv_loop c False None False None [] pkt;
        Some (Frame_requests e rs comps) }) }"

section \<open>Well-formed compounds are received\<close>

text \<open>A part of a compound: a complete header with the given \<open>NextCommand\<close> and related flag.\<close>

definition comp_part :: "bool \<Rightarrow> nat \<Rightarrow> bytes \<Rightarrow> bool" where
  "comp_part related nxt p \<longleftrightarrow>
     64 \<le> length p \<and> take 4 p = MAGIC \<and> word_of_le (rd 4 2 p) = (64 :: u16) \<and>
     unat (word_of_le (rd 20 4 p) :: u32) = nxt \<and>
     (related \<longleftrightarrow> word_of_le (rd 16 4 p) AND SMB2_FLAGS_RELATED_OPERATIONS \<noteq> (0 :: u32))"

fun comp_chain :: "bool \<Rightarrow> bytes list \<Rightarrow> bool" where
  "comp_chain related [] = False"
| "comp_chain related [p] = comp_part related 0 p"
| "comp_chain related (p # q # ps) = (comp_part related (Roundup (length p) 8) p \<and> comp_chain True (q # ps))"

fun comp_split :: "bytes list \<Rightarrow> bytes list" where
  "comp_split [] = []"
| "comp_split [p] = [p]"
| "comp_split (p # q # ps) = pad8 p # comp_split (q # ps)"

definition request_of :: "session option \<Rightarrow> nat option \<Rightarrow> bytes \<Rightarrow> request" where
  "request_of s cur p = \<lparr>req_msgId = word_of_le (rd 24 8 p), req_creditRequest = word_of_le (rd 14 2 p), req_pkt = p,
     req_session = s, req_comp = cur\<rparr>"

lemma and_4_cases: "(w AND 4 = 4) \<longleftrightarrow> (w AND 4 \<noteq> 0)" for w :: u32
proof -
  have b: "bit (4 :: int) n \<longleftrightarrow> n = 2" for n
    using bit_exp_iff [where 'a = int, of 2 n] by auto
  have "w AND 4 = (if bit w 2 then 4 else 0)"
    by (rule bit_word_eqI) (auto simp: bit_and_iff b)
  then show ?thesis by simp
qed

lemma length_compound_bytes: "comp_chain r ps \<Longrightarrow> 64 \<le> length (compound_bytes ps)"
proof (induction r ps rule: comp_chain.induct)
  case (3 r p q ps)
  then show ?case by (simp add: comp_part_def)
qed (simp_all add: comp_part_def)

lemma pad8_append_rd: "m + k \<le> length p \<Longrightarrow> rd m k (pad8 p @ r) = rd m k p"
  by (simp add: pad8_def rd_append_left)

lemma comp_part_header:
  assumes "comp_part r nxt p" "8 dvd nxt" "nxt < length (p @ x)"
  shows "smb2_header_ok (p @ x)"
  using assms by (simp add: comp_part_def smb2_header_ok_def rd_append_left)

lemma comp_part_valid:
  assumes "smb2_header_ok (p @ x)" "64 \<le> length p"
  shows "PacketCodec_IsInvalid (p @ x) = Some False"
    "PacketCodec_Flags (p @ x) = Some (word_of_le (rd 16 4 p))"
    "PacketCodec_NextCommand (p @ x) = Some (word_of_le (rd 20 4 p))"
    "PacketCodec_MessageId (p @ x) = Some (word_of_le (rd 24 8 p))"
    "PacketCodec_CreditRequest (p @ x) = Some (word_of_le (rd 14 2 p))"
    "PacketCodec_TreeId (p @ x) = Some (word_of_le (rd 36 4 p))"
    "PacketCodec_SessionId (p @ x) = Some (word_of_le (rd 40 8 p))"
  using assms smb2_header_accessors [OF assms(1)]
  by (simp_all add: PacketCodec_valid_iff rd_append_left)

lemma conn_tryHandle_eq:
  assumes "64 \<le> length p" "take 4 p = MAGIC"
  shows "conn_tryHandle p s cur e = Some (request_of s cur p)"
proof -
  have "\<not> PacketCodec_IsSmb1 p" using assms by (simp add: PacketCodec_IsSmb1_iff rd_def MAGIC_def)
  then show ?thesis
    using assms by (simp add: conn_tryHandle_def request_of_def PacketCodec_MessageId_def
        PacketCodec_CreditRequest_def un_at_eqs)
qed

lemma recv_compound_related:
  assumes "smb2_header_ok (p @ x)" "comp_part True nxt p" "i < length comps"
  shows "recv_compound (p @ x) (Some i) comps =
    Some (Some i, if nxt = 0 then comps[i := (comps ! i)\<lparr>comp_lastMsgId := word_of_le (rd 24 8 p)\<rparr>] else comps)"
proof -
  have "64 \<le> length p" using assms(2) by (simp add: comp_part_def)
  from comp_part_valid [OF assms(1) this] assms(2) show ?thesis
    by (auto simp: recv_compound_def PacketCodec_IsCompoundFirst_def PacketCodec_IsCompoundLast_def comp_part_def
        and_4_cases unat_eq_0)
qed

definition new_comp :: "bytes \<Rightarrow> compoundContext" where
  "new_comp p = \<lparr>comp_treeId = ucast (word_of_le (rd 36 4 p) :: u32), comp_sessionId = word_of_le (rd 40 8 p),
     comp_fileId = None, comp_lastStatus = 0, comp_lastMsgId = 0, comp_rsp = []\<rparr>"

lemma recv_compound_first:
  assumes "smb2_header_ok (p @ x)" "comp_part False nxt p"
  shows "recv_compound (p @ x) cur comps =
    Some (if nxt = 0 then (cur, comps) else (Some (length comps), comps @ [new_comp p]))"
proof -
  have "64 \<le> length p" using assms(2) by (simp add: comp_part_def)
  from comp_part_valid [OF assms(1) this] assms(2) show ?thesis
    by (auto simp: recv_compound_def PacketCodec_IsCompoundFirst_def PacketCodec_IsCompoundLast_def comp_part_def
        and_4_cases unat_eq_0 new_comp_def)
qed

lemma recv_split_part:
  assumes "smb2_header_ok (p @ x)" "comp_part r nxt p"
  shows "recv_split (p @ x) = Some (if nxt = 0 then (p @ x, None) else (take nxt (p @ x), Some (drop nxt (p @ x))))"
proof -
  have p: "64 \<le> length p" using assms(2) by (simp add: comp_part_def)
  have "nxt < length (p @ x)" using assms p by (auto simp: smb2_header_ok_def comp_part_def rd_append_left)
  then show ?thesis
    using comp_part_valid [OF assms(1) p] assms(2)
    by (auto simp: recv_split_def comp_part_def go_slice_def go_slice_from_def unat_eq_0)
qed

text \<open>One pass of the loop over a part of a compound.\<close>

lemma recv_loop_last:
  assumes "comp_part r 0 p" "recv_compound p cur comps = Some (cur', comps')"
  shows "recv_loop c False s e cur comps p = Some (Recv_next, [request_of s cur' p], comps')"
proof -
  have h: "smb2_header_ok (p @ [])" using assms(1) by (intro comp_part_header) (auto simp: comp_part_def)
  have p: "64 \<le> length p" "take 4 p = MAGIC" using assms(1) by (simp_all add: comp_part_def)
  show ?thesis
    using comp_part_valid [OF h p(1)] recv_split_part [OF h assms(1)] assms(2) p
    by (simp add: recv_loop.simps [of c False s e cur comps p] recv_verify_def conn_tryHandle_eq)
qed

lemma recv_loop_cons:
  assumes "comp_part r (Roundup (length p) 8) p" "64 \<le> length rest"
    and "recv_compound (pad8 p @ rest) cur comps = Some (cur', comps')"
    and "recv_loop c False s e cur' comps' rest = Some (b, rs, comps'')"
  shows "recv_loop c False s e cur comps (pad8 p @ rest) = Some (b, request_of s cur' (pad8 p) # rs, comps'')"
proof -
  let ?n = "Roundup (length p) 8"
  have p: "64 \<le> length p" "take 4 p = MAGIC" "length p \<le> ?n" using assms(1) by (simp_all add: comp_part_def Roundup_8_ge)
  have P: "comp_part r ?n (pad8 p)"
    using assms(1) p by (simp add: comp_part_def pad8_def rd_append_left)
  have h: "smb2_header_ok (pad8 p @ rest)"
    using assms(2) P by (intro comp_part_header [OF P]) (auto simp: Roundup_8_dvd)
  have "recv_split (pad8 p @ rest) = Some (pad8 p, Some rest)"
    using recv_split_part [OF h P] p by simp
  then show ?thesis
    using comp_part_valid [OF h] assms(3,4) p conn_tryHandle_eq [of "pad8 p"]
    by (subst recv_loop.simps) (simp add: recv_verify_def pad8_def)
qed

lemma comp_chain_msgId: "comp_chain r ps \<Longrightarrow> comp_split ps \<noteq> [] \<and> last (comp_split ps) = last ps"
  by (induction r ps rule: comp_chain.induct) auto

lemma recv_loop_related:
  "comp_chain True ps \<Longrightarrow> i < length comps \<Longrightarrow>
     recv_loop c False s e (Some i) comps (compound_bytes ps) =
       Some (Recv_next, map (request_of s (Some i)) (comp_split ps),
         comps[i := (comps ! i)\<lparr>comp_lastMsgId := word_of_le (rd 24 8 (last ps))\<rparr>])"
proof (induction True ps rule: comp_chain.induct)
  case 1
  then show ?case by simp
next
  case (2 p)
  have "smb2_header_ok (p @ [])" using 2 by (intro comp_part_header) (auto simp: comp_part_def)
  then show ?case using 2 recv_compound_related [of p "[]" 0 i comps] by (simp add: recv_loop_last)
next
  case (3 p q ps)
  let ?r = "compound_bytes (q # ps)" and ?n = "Roundup (length p) 8"
  have q: "comp_chain True (q # ps)" using 3(2) by simp
  have l: "64 \<le> length ?r" using q by (rule length_compound_bytes)
  have p: "comp_part True ?n p" "64 \<le> length p" "length p \<le> ?n"
    using 3 by (simp_all add: comp_part_def Roundup_8_ge)
  have P: "comp_part True ?n (pad8 p)" using p by (simp add: comp_part_def pad8_def rd_append_left)
  have "smb2_header_ok (pad8 p @ ?r)" using l by (intro comp_part_header [OF P]) (auto simp: Roundup_8_dvd)
  from recv_compound_related [OF this P 3(3)] p
  have "recv_compound (pad8 p @ ?r) (Some i) comps = Some (Some i, comps)" by simp
  from recv_loop_cons [OF p(1) l this 3(1) [OF q 3(3)]] show ?case by simp
qed

text \<open>A frame that is a compound of related requests becomes one request per part, in order. They
  share one context, whose last message id is that of the last part, so that the responses are sent
  together when the last one is there.\<close>

lemma recv_loop_compound:
  assumes "comp_chain False (p # q # ps)"
  shows "recv_loop c False s e None [] (compound_bytes (p # q # ps)) =
    Some (Recv_next, map (request_of s (Some 0)) (comp_split (p # q # ps)),
      [(new_comp p)\<lparr>comp_lastMsgId := word_of_le (rd 24 8 (last (q # ps)))\<rparr>])"
proof -
  let ?r = "compound_bytes (q # ps)" and ?n = "Roundup (length p) 8"
  have q: "comp_chain True (q # ps)" using assms by simp
  have l: "64 \<le> length ?r" using q by (rule length_compound_bytes)
  have p: "comp_part False ?n p" "64 \<le> length p" "length p \<le> ?n"
    using assms by (simp_all add: comp_part_def Roundup_8_ge)
  have P: "comp_part False ?n (pad8 p)" using p by (simp add: comp_part_def pad8_def rd_append_left)
  have h: "smb2_header_ok (pad8 p @ ?r)" using l by (intro comp_part_header [OF P]) (auto simp: Roundup_8_dvd)
  have "new_comp (pad8 p) = new_comp p" using p by (simp add: new_comp_def pad8_def rd_append_left)
  with recv_compound_first [OF h P, of None "[]"] p
  have "recv_compound (pad8 p @ ?r) None [] = Some (Some 0, [new_comp p])" by simp
  from recv_loop_cons [OF p(1) l this recv_loop_related [OF q]] show ?thesis by simp
qed

lemma recv_loop_single:
  assumes "comp_part False 0 p"
  shows "recv_loop c False s e cur comps p = Some (Recv_next, [request_of s cur p], comps)"
proof -
  have "smb2_header_ok (p @ [])" using assms by (intro comp_part_header) (auto simp: comp_part_def)
  from recv_compound_first [OF this assms] show ?thesis using recv_loop_last [OF assms] by simp
qed

section \<open>Frames that end the process\<close>

text \<open>A lone packet with the related flag: the context pointer it completes is nil.\<close>

lemma recv_loop_related_alone:
  assumes "comp_part True 0 p"
  shows "recv_loop c h s e None comps p = None"
proof -
  have h: "smb2_header_ok (p @ [])" using assms by (intro comp_part_header) (auto simp: comp_part_def)
  have "64 \<le> length p" using assms by (simp add: comp_part_def)
  from comp_part_valid [OF h this] assms show ?thesis
    by (subst recv_loop.simps) (auto simp: recv_compound_def PacketCodec_IsCompoundFirst_def
        PacketCodec_IsCompoundLast_def comp_part_def and_4_cases unat_eq_0)
qed

text \<open>A \<open>NextCommand\<close> of less than 32 cuts the first part inside its own header.\<close>

lemma recv_loop_short_part:
  assumes "smb2_header_ok p" "comp_part False nxt p" "0 < nxt" "nxt < 32"
  shows "recv_loop c h s e cur comps p = None"
proof -
  have p: "64 \<le> length p" "take 4 p = MAGIC" using assms(2) by (simp_all add: comp_part_def)
  have h: "smb2_header_ok (p @ [])" using assms(1) by simp
  have s: "recv_split p = Some (take nxt p, Some (drop nxt p))" using recv_split_part [OF h assms(2)] assms(3) by simp
  have "8 dvd nxt" using assms(1,2) by (auto simp: smb2_header_ok_def comp_part_def)
  then have "4 \<le> nxt" using assms(3) by (auto dest: dvd_imp_le)
  then have "rd 0 4 (take nxt p) = MAGIC" using p(2) by (simp add: rd_def min_def)
  then have "\<not> PacketCodec_IsSmb1 (take nxt p)" by (simp add: PacketCodec_IsSmb1_iff MAGIC_def)
  then have "PacketCodec_MessageId (take nxt p) = None"
    using assms(4) p by (simp add: PacketCodec_MessageId_def un_at_eqs)
  then show ?thesis
    using comp_part_valid [OF h p(1)] recv_compound_first [OF h assms(2)] assms(3) s
    by (subst recv_loop.simps) (simp add: recv_verify_def conn_tryVerify_def conn_tryHandle_def)
qed

text \<open>An SMB1 negotiate that ends before the flags of an SMB2 header.\<close>

lemma recv_loop_smb1_short:
  assumes "PacketCodec_IsSmb1 p" "5 \<le> length p" "p ! 4 = 0x72" "length p < 20"
  shows "recv_loop c h s e cur comps p = None"
proof -
  have "PacketCodec_IsInvalid p = Some False" using assms by (simp add: PacketCodec_valid_iff)
  moreover have "PacketCodec_Flags p = None" using assms(4) by (simp add: PacketCodec_Flags_def un_at_eqs)
  ultimately show ?thesis
    by (subst recv_loop.simps) (simp add: recv_compound_def PacketCodec_IsCompoundFirst_def)
qed

end
