(* ===== verification/Conn_Send.thy ===== *)
theory Conn_Send
  imports Conn
begin

text \<open>
  \<open>server/conn.go\<close>, the sending side and the interpretation of responses: \<open>encodePacket\<close>
  completes the header, encodes and protects a packet; \<open>sendPacket\<close> collects the responses of a
  compound and hands the result to the writer; \<open>accept\<close> and \<open>acceptError\<close> map a
  response to its data or an error. A \<open>Packet\<close> of the Go code is a record of its header, its size
  and its encoder as a function of the completed header. The nonce of an encryption, the hash
  function and the outcome of the channel operations are arguments.
\<close>

datatype packet_kind = PK_Cancel | PK_Echo | PK_SessionSetupRequest | PK_Other

record packet =
  pkt_Header :: PacketHeader
  pkt_kind :: packet_kind
  pkt_Size :: nat
  pkt_Encode :: "PacketHeader \<Rightarrow> writer"

text \<open>The header as \<open>encodePacket\<close> completes it, and the connection after it.\<close>

definition encodePacket_hdr :: "conn \<Rightarrow> packet \<Rightarrow> treeConn option \<Rightarrow> PacketHeader \<times> conn" where
  "encodePacket_hdr c req tc =
     (let hdr = pkt_Header req;
          isNotification = (hdr_MessageId hdr = MSGID_NONE);
          (hdr, c) = (if pkt_kind req \<noteq> PK_Cancel \<and> \<not> isNotification then
              let creditCharge = hdr_CreditCharge hdr;
                  c = c\<lparr>conn_sequenceWindow := conn_sequenceWindow c + ucast creditCharge\<rparr>;
                  hdr = (if hdr_CreditRequestResponse hdr = 0 then hdr\<lparr>hdr_CreditRequestResponse := creditCharge\<rparr> else hdr);
                  (o', acc) = account_take_opening (conn_account c)
              in (hdr\<lparr>hdr_CreditRequestResponse := hdr_CreditRequestResponse hdr + o'\<rparr>, c\<lparr>conn_account := acc\<rparr>)
            else (hdr, c));
          s = (if pkt_kind req = PK_Echo \<and> hdr_SessionId hdr = 0 then None else conn_session c)
      in case s of
           None \<Rightarrow> (hdr, c)
         | Some s \<Rightarrow>
             if conn_useSession c then
               (let hdr = hdr\<lparr>hdr_SessionId := session_id s\<rparr> in
                case tc of None \<Rightarrow> (hdr, c) | Some t \<Rightarrow> (hdr\<lparr>hdr_TreeId := tc_treeId t\<rparr>, c))
             else (hdr, c))"

definition encodePacket_session :: "conn \<Rightarrow> packet \<Rightarrow> session option" where
  "encodePacket_session c req =
     (if pkt_kind req = PK_Echo \<and> hdr_SessionId (pkt_Header req) = 0 then None else conn_session c)"

text \<open>Protecting the encoded packet: encryption for sessions or shares that ask for it, otherwise a
  signature unless the session is anonymous.\<close>

definition encodePacket_protect :: "session \<Rightarrow> treeConn option \<Rightarrow> bytes \<Rightarrow> bytes \<Rightarrow> bytes option" where
  "encodePacket_protect s tc nonce pkt =
     (if session_flags s AND SMB2_SESSION_FLAG_ENCRYPT_DATA \<noteq> 0 \<or>
         (case tc of None \<Rightarrow> False | Some t \<Rightarrow> tc_shareFlags t AND SMB2_SHAREFLAG_ENCRYPT_DATA \<noteq> 0)
      then session_encrypt s nonce pkt
      else if \<not> session_anonymous s then session_sign s pkt
      else Some pkt)"

definition conn_encodePacket :: "conn \<Rightarrow> bytes \<Rightarrow> packet \<Rightarrow> treeConn option \<Rightarrow> (bytes \<times> PacketHeader \<times> conn) option" where
  "conn_encodePacket c nonce req tc = do {
     let (hdr, c') = encodePacket_hdr c req tc;
     pkt \<leftarrow> pkt_Encode req hdr (replicate (pkt_Size req) 0);
     pkt \<leftarrow> (case encodePacket_session c req of
               None \<Rightarrow> Some pkt
             | Some s \<Rightarrow> if pkt_kind req = PK_SessionSetupRequest then Some pkt else encodePacket_protect s tc nonce pkt);
     Some (pkt, hdr, c') }"

definition conn_calcPreauthHash :: "(bytes \<Rightarrow> bytes) \<Rightarrow> bytes \<Rightarrow> conn \<Rightarrow> conn" where
  "conn_calcPreauthHash sha512 pkt c =
     (if conn_dialect c = SMB311 \<and> conn_preauthIntegrityHashId c = SHA512
      then c\<lparr>conn_preauthIntegrityHashValue := sha512 (conn_preauthIntegrityHashValue c @ pkt)\<rparr>
      else c)"

datatype send_io = Sent | Sent_error | Sent_ctx_done | Ctx_done

definition send_result :: "send_io \<Rightarrow> bytes \<Rightarrow> conn \<Rightarrow> conn \<times> conn_error option" where
  "send_result io pkt c =
     (case io of
        Sent \<Rightarrow> (c\<lparr>conn_out := conn_out c @ [pkt]\<rparr>, None)
      | Sent_error \<Rightarrow> (c\<lparr>conn_out := conn_out c @ [pkt]\<rparr>, Some TransportError)
      | Sent_ctx_done \<Rightarrow> (c\<lparr>conn_out := conn_out c @ [pkt]\<rparr>, Some ContextError)
      | Ctx_done \<Rightarrow> (c, Some ContextError))"

text \<open>What \<open>sendPacket\<close> changes in the header before it encodes.\<close>

definition sendPacket_prepare :: "packet \<Rightarrow> compoundContext option \<Rightarrow> packet" where
  "sendPacket_prepare req compCtx =
     (case compCtx of
        None \<Rightarrow> req
      | Some ctx \<Rightarrow>
          let req = (if \<not> compoundContext_isEmpty ctx
                     then req\<lparr>pkt_Header := (pkt_Header req)\<lparr>hdr_Flags := hdr_Flags (pkt_Header req) OR SMB2_FLAGS_RELATED_OPERATIONS\<rparr>\<rparr>
                     else req)
          in if hdr_MessageId (pkt_Header req) \<noteq> comp_lastMsgId ctx
             then req\<lparr>pkt_Header := (pkt_Header req)\<lparr>hdr_NextCommand := of_nat (Align (pkt_Size req) 8)\<rparr>\<rparr>
             else req)"

definition conn_sendPacket :: "(bytes \<Rightarrow> bytes) \<Rightarrow> send_io \<Rightarrow> bytes \<Rightarrow> conn \<Rightarrow> packet \<Rightarrow> treeConn option \<Rightarrow>
    compoundContext option \<Rightarrow> (conn \<times> compoundContext option \<times> conn_error option) option" where
  "conn_sendPacket sha512 io nonce c req tc compCtx = do {
     let req = sendPacket_prepare req compCtx;
     (pkt, hdr, c) \<leftarrow> conn_encodePacket c nonce req tc;
     (case compCtx of
        None \<Rightarrow>
          (let c = (if conn_serverState c = STATE_SESSION_ACTIVE then c else conn_calcPreauthHash sha512 pkt c);
               (c, e) = send_result io pkt c
           in Some (c, None, e))
      | Some ctx \<Rightarrow>
          (let ctx = compoundContext_addResponse pkt (ctx\<lparr>comp_lastStatus := hdr_Status hdr\<rparr>) in
           if hdr_MessageId hdr \<noteq> comp_lastMsgId ctx then Some (c, Some ctx, None)
           else do {
             pkt \<leftarrow> compoundContext_Encode ctx (replicate (compoundContext_Size ctx) 0);
             let c = (if conn_serverState c = STATE_SESSION_ACTIVE then c else conn_calcPreauthHash sha512 pkt c);
             let (c, e) = send_result io pkt c;
             Some (c, Some ctx, e) })) }"

section \<open>Responses as results\<close>

fun acceptError_loop :: "nat \<Rightarrow> bytes \<Rightarrow> (conn_error + bytes list) option" where
  "acceptError_loop 0 eData = Some (Inr [])"
| "acceptError_loop (Suc n) eData = do {
     inv \<leftarrow> ErrorContextResponseDecoder_IsInvalid eData;
     if inv then Some (Inl InvalidResponseError)
     else do {
       d \<leftarrow> ErrorContextResponseDecoder_ErrorContextData eData;
       nxt \<leftarrow> ErrorContextResponseDecoder_Next eData;
       if length eData < nxt then Some (Inl InvalidResponseError)
       else do {
         r \<leftarrow> acceptError_loop n (drop nxt eData);
         Some (case r of Inl e \<Rightarrow> Inl e | Inr ds \<Rightarrow> Inr (d # ds)) } } }"

definition acceptError :: "u32 \<Rightarrow> bytes \<Rightarrow> conn_error option" where
  "acceptError status res = do {
     inv \<leftarrow> ErrorResponseDecoder_IsInvalid res;
     if inv then Some InvalidResponseError
     else do {
       eData \<leftarrow> ErrorResponseDecoder_ErrorData res;
       count \<leftarrow> ErrorResponseDecoder_ErrorContextCount res;
       if count \<noteq> 0 then do {
         r \<leftarrow> acceptError_loop (unat count) eData;
         Some (case r of Inl e \<Rightarrow> e | Inr data \<Rightarrow> ResponseError status data) }
       else Some (ResponseError status [eData]) } }"

text \<open>The data and the error are returned together; for an overflowing ioctl both are present.\<close>

definition accept :: "u16 \<Rightarrow> bytes \<Rightarrow> (bytes option \<times> conn_error option) option" where
  "accept cmd pkt = do {
     command \<leftarrow> PacketCodec_Command pkt;
     if cmd \<noteq> command then Some (None, Some InvalidResponseError)
     else do {
       fl \<leftarrow> PacketCodec_Flags pkt;
       if fl AND SMB2_FLAGS_SERVER_TO_REDIR = 0 then do { d \<leftarrow> PacketCodec_Data pkt; Some (Some d, None) }
       else do {
         status \<leftarrow> PacketCodec_Status pkt;
         if status = STATUS_SUCCESS then do { d \<leftarrow> PacketCodec_Data pkt; Some (Some d, None) }
         else if status = STATUS_OBJECT_NAME_COLLISION then Some (None, Some ErrExist)
         else if status = STATUS_OBJECT_NAME_NOT_FOUND \<or> status = STATUS_OBJECT_PATH_NOT_FOUND then Some (None, Some ErrNotExist)
         else if status = STATUS_ACCESS_DENIED \<or> status = STATUS_CANNOT_DELETE then Some (None, Some ErrPermission)
         else if cmd = SMB2_SESSION_SETUP \<and> status = STATUS_MORE_PROCESSING_REQUIRED then
           do { d \<leftarrow> PacketCodec_Data pkt; Some (Some d, None) }
         else if cmd = SMB2_QUERY_INFO \<and> status = STATUS_BUFFER_OVERFLOW then Some (None, Some (ResponseError status []))
         else do {
           d \<leftarrow> PacketCodec_Data pkt;
           inv \<leftarrow> (if cmd = SMB2_IOCTL \<and> status = STATUS_BUFFER_OVERFLOW then IoctlResponseDecoder_IsInvalid d else Some True);
           if \<not> inv then Some (Some d, Some (ResponseError status []))
           else if cmd = SMB2_READ \<and> status = STATUS_BUFFER_OVERFLOW then Some (None, Some (ResponseError status []))
           else if cmd = SMB2_CHANGE_NOTIFY \<and> status = STATUS_NOTIFY_ENUM_DIR then Some (None, Some (ResponseError status []))
           else do { e \<leftarrow> acceptError status d; Some (None, Some e) } } } } }"

section \<open>Packets that encode\<close>

text \<open>A packet as the connection relies on it: its encoder fills a zeroed buffer of its size and
  writes the completed header, with the command of the message.\<close>

definition packet_ok :: "packet \<Rightarrow> bool" where
  "packet_ok req \<longleftrightarrow> 64 \<le> pkt_Size req \<and>
     (\<forall>h. \<exists>cmd q. pkt_Encode req h (replicate (pkt_Size req) 0) = Some q \<and> length q = pkt_Size req \<and>
        header_reads (h\<lparr>hdr_Command := cmd\<rparr>) q)"

definition packet_of :: "('m \<Rightarrow> PacketHeader) \<Rightarrow> (PacketHeader \<Rightarrow> 'm \<Rightarrow> 'm) \<Rightarrow> ('m \<Rightarrow> nat) \<Rightarrow> ('m \<Rightarrow> writer) \<Rightarrow>
    packet_kind \<Rightarrow> 'm \<Rightarrow> packet" where
  "packet_of header set_header msize encode kind m =
     \<lparr>pkt_Header = header m, pkt_kind = kind, pkt_Size = msize m, pkt_Encode = \<lambda>h. encode (set_header h m)\<rparr>"

text \<open>A message whose header can be completed without touching the rest is such a packet.\<close>

locale smb2_packet = smb2_command header command msize encode body ok
  for header :: "'m \<Rightarrow> PacketHeader" and command :: u16 and msize :: "'m \<Rightarrow> nat"
    and encode body :: "'m \<Rightarrow> writer" and ok :: "'m \<Rightarrow> bool" +
  fixes set_header :: "PacketHeader \<Rightarrow> 'm \<Rightarrow> 'm"
  assumes header_set: "header (set_header h m) = h"
    and size_set: "msize (set_header h m) = msize m"
    and ok_set: "ok m \<Longrightarrow> ok (set_header h m)"
begin

lemma packet_of_ok:
  assumes "ok m"
  shows "packet_ok (packet_of header set_header msize encode kind m)"
  unfolding packet_ok_def
proof (intro conjI allI)
  show "64 \<le> pkt_Size (packet_of header set_header msize encode kind m)"
    using size by (simp add: packet_of_def)
next
  fix h
  obtain q where "encode (set_header h m) (replicate (msize m) 0) = Some q" "length q = msize m"
    "header_reads (h\<lparr>hdr_Command := command\<rparr>) q"
    using encode_frame [OF ok_set [OF assms, of h], of "msize m"] size_set [of h m] header_set [of h m] by auto
  then show "\<exists>cmd q. pkt_Encode (packet_of header set_header msize encode kind m) h
      (replicate (pkt_Size (packet_of header set_header msize encode kind m)) 0) = Some q \<and>
    length q = pkt_Size (packet_of header set_header msize encode kind m) \<and> header_reads (h\<lparr>hdr_Command := cmd\<rparr>) q"
    by (auto simp: packet_of_def)
qed

end

text \<open>The responses and notifications of the server as packets.\<close>

abbreviation NegotiateResponse_packet :: "NegotiateResponse \<Rightarrow> packet" where
  "NegotiateResponse_packet \<equiv> packet_of NegotiateResponse_Header (\<lambda>h. NegotiateResponse_Header_update (\<lambda>_. h)) NegotiateResponse_Size NegotiateResponse_Encode PK_Other"

abbreviation SessionSetupResponse_packet :: "SessionSetupResponse \<Rightarrow> packet" where
  "SessionSetupResponse_packet \<equiv> packet_of SessionSetupResponse_Header (\<lambda>h. SessionSetupResponse_Header_update (\<lambda>_. h)) SessionSetupResponse_Size SessionSetupResponse_Encode PK_Other"

abbreviation LogoffResponse_packet :: "LogoffResponse \<Rightarrow> packet" where
  "LogoffResponse_packet \<equiv> packet_of LogoffResponse_Header (\<lambda>h. LogoffResponse_Header_update (\<lambda>_. h)) LogoffResponse_Size LogoffResponse_Encode PK_Other"

abbreviation TreeConnectResponse_packet :: "TreeConnectResponse \<Rightarrow> packet" where
  "TreeConnectResponse_packet \<equiv> packet_of TreeConnectResponse_Header (\<lambda>h. TreeConnectResponse_Header_update (\<lambda>_. h)) TreeConnectResponse_Size TreeConnectResponse_Encode PK_Other"

abbreviation TreeDisconnectResponse_packet :: "TreeDisconnectResponse \<Rightarrow> packet" where
  "TreeDisconnectResponse_packet \<equiv> packet_of TreeDisconnectResponse_Header (\<lambda>h. TreeDisconnectResponse_Header_update (\<lambda>_. h)) TreeDisconnectResponse_Size TreeDisconnectResponse_Encode PK_Other"

abbreviation CreateResponse_packet :: "CreateResponse \<Rightarrow> packet" where
  "CreateResponse_packet \<equiv> packet_of CreateResponse_Header (\<lambda>h. CreateResponse_Header_update (\<lambda>_. h)) CreateResponse_Size CreateResponse_Encode PK_Other"

abbreviation CloseResponse_packet :: "CloseResponse \<Rightarrow> packet" where
  "CloseResponse_packet \<equiv> packet_of CloseResponse_Header (\<lambda>h. CloseResponse_Header_update (\<lambda>_. h)) CloseResponse_Size CloseResponse_Encode PK_Other"

abbreviation FlushResponse_packet :: "FlushResponse \<Rightarrow> packet" where
  "FlushResponse_packet \<equiv> packet_of FlushResponse_Header (\<lambda>h. FlushResponse_Header_update (\<lambda>_. h)) FlushResponse_Size FlushResponse_Encode PK_Other"

abbreviation ReadResponse_packet :: "ReadResponse \<Rightarrow> packet" where
  "ReadResponse_packet \<equiv> packet_of ReadResponse_Header (\<lambda>h. ReadResponse_Header_update (\<lambda>_. h)) ReadResponse_Size ReadResponse_Encode PK_Other"

abbreviation WriteResponse_packet :: "WriteResponse \<Rightarrow> packet" where
  "WriteResponse_packet \<equiv> packet_of WriteResponse_Header (\<lambda>h. WriteResponse_Header_update (\<lambda>_. h)) WriteResponse_Size WriteResponse_Encode PK_Other"

abbreviation LockResponse_packet :: "LockResponse \<Rightarrow> packet" where
  "LockResponse_packet \<equiv> packet_of LockResponse_Header (\<lambda>h. LockResponse_Header_update (\<lambda>_. h)) LockResponse_Size LockResponse_Encode PK_Other"

abbreviation EchoResponse_packet :: "EchoResponse \<Rightarrow> packet" where
  "EchoResponse_packet \<equiv> packet_of EchoResponse_Header (\<lambda>h. EchoResponse_Header_update (\<lambda>_. h)) EchoResponse_Size EchoResponse_Encode PK_Echo"

abbreviation IoctlResponse_packet :: "IoctlResponse \<Rightarrow> packet" where
  "IoctlResponse_packet \<equiv> packet_of IoctlResponse_Header (\<lambda>h. IoctlResponse_Header_update (\<lambda>_. h)) IoctlResponse_Size IoctlResponse_Encode PK_Other"

abbreviation QueryDirectoryResponse_packet :: "QueryDirectoryResponse \<Rightarrow> packet" where
  "QueryDirectoryResponse_packet \<equiv> packet_of QueryDirectoryResponse_Header (\<lambda>h. QueryDirectoryResponse_Header_update (\<lambda>_. h)) QueryDirectoryResponse_Size QueryDirectoryResponse_Encode PK_Other"

abbreviation QueryInfoResponse_packet :: "QueryInfoResponse \<Rightarrow> packet" where
  "QueryInfoResponse_packet \<equiv> packet_of QueryInfoResponse_Header (\<lambda>h. QueryInfoResponse_Header_update (\<lambda>_. h)) QueryInfoResponse_Size QueryInfoResponse_Encode PK_Other"

abbreviation SetInfoResponse_packet :: "SetInfoResponse \<Rightarrow> packet" where
  "SetInfoResponse_packet \<equiv> packet_of SetInfoResponse_Header (\<lambda>h. SetInfoResponse_Header_update (\<lambda>_. h)) SetInfoResponse_Size SetInfoResponse_Encode PK_Other"

abbreviation ChangeNotifyResponse_packet :: "ChangeNotifyResponse \<Rightarrow> packet" where
  "ChangeNotifyResponse_packet \<equiv> packet_of ChangeNotifyResponse_Header (\<lambda>h. ChangeNotifyResponse_Header_update (\<lambda>_. h)) ChangeNotifyResponse_Size ChangeNotifyResponse_Encode PK_Other"

abbreviation OplockBreakNotification_packet :: "OplockBreakNotification \<Rightarrow> packet" where
  "OplockBreakNotification_packet \<equiv> packet_of OplockBreakNotification_Header (\<lambda>h. OplockBreakNotification_Header_update (\<lambda>_. h)) OplockBreakNotification_Size OplockBreakNotification_Encode PK_Other"

abbreviation OplockBreakResponse_packet :: "OplockBreakResponse \<Rightarrow> packet" where
  "OplockBreakResponse_packet \<equiv> packet_of OplockBreakResponse_Header (\<lambda>h. OplockBreakResponse_Header_update (\<lambda>_. h)) OplockBreakResponse_Size OplockBreakResponse_Encode PK_Other"

abbreviation LeaseBreakNotification_packet :: "LeaseBreakNotification \<Rightarrow> packet" where
  "LeaseBreakNotification_packet \<equiv> packet_of LeaseBreakNotification_Header (\<lambda>h. LeaseBreakNotification_Header_update (\<lambda>_. h)) LeaseBreakNotification_Size LeaseBreakNotification_Encode PK_Other"

abbreviation LeaseBreakResponse_packet :: "LeaseBreakResponse \<Rightarrow> packet" where
  "LeaseBreakResponse_packet \<equiv> packet_of LeaseBreakResponse_Header (\<lambda>h. LeaseBreakResponse_Header_update (\<lambda>_. h)) LeaseBreakResponse_Size LeaseBreakResponse_Encode PK_Other"

abbreviation ErrorResponse_packet :: "ErrorResponse \<Rightarrow> packet" where
  "ErrorResponse_packet \<equiv> packet_of ErrorResponse_Header (\<lambda>h. ErrorResponse_Header_update (\<lambda>_. h)) ErrorResponse_Size ErrorResponse_Encode PK_Other"

interpretation NegotiateResponse_pkt: smb2_packet NegotiateResponse_Header SMB2_NEGOTIATE NegotiateResponse_Size NegotiateResponse_Encode NegotiateResponse_body
  "\<lambda>c. list_all encoder_ok (NegotiateResponse_Contexts c) \<and> NegotiateResponse_SystemTime c \<noteq> None \<and>
     NegotiateResponse_ServerStartTime c \<noteq> None" "\<lambda>h. NegotiateResponse_Header_update (\<lambda>_. h)"
  by unfold_locales (simp_all add: NegotiateResponse_Size_def)

interpretation SessionSetupResponse_pkt: smb2_packet SessionSetupResponse_Header SMB2_SESSION_SETUP SessionSetupResponse_Size SessionSetupResponse_Encode SessionSetupResponse_body
  "\<lambda>c. True" "\<lambda>h. SessionSetupResponse_Header_update (\<lambda>_. h)"
  by unfold_locales (simp_all add: SessionSetupResponse_Size_def)

interpretation LogoffResponse_pkt: smb2_packet LogoffResponse_Header SMB2_LOGOFF LogoffResponse_Size LogoffResponse_Encode LogoffResponse_body
  "\<lambda>c. True" "\<lambda>h. LogoffResponse_Header_update (\<lambda>_. h)"
  by unfold_locales (simp_all add: LogoffResponse_Size_def)

interpretation TreeConnectResponse_pkt: smb2_packet TreeConnectResponse_Header SMB2_TREE_CONNECT TreeConnectResponse_Size TreeConnectResponse_Encode TreeConnectResponse_body
  "\<lambda>c. True" "\<lambda>h. TreeConnectResponse_Header_update (\<lambda>_. h)"
  by unfold_locales (simp_all add: TreeConnectResponse_Size_def)

interpretation TreeDisconnectResponse_pkt: smb2_packet TreeDisconnectResponse_Header SMB2_TREE_DISCONNECT TreeDisconnectResponse_Size TreeDisconnectResponse_Encode TreeDisconnectResponse_body
  "\<lambda>c. True" "\<lambda>h. TreeDisconnectResponse_Header_update (\<lambda>_. h)"
  by unfold_locales (simp_all add: TreeDisconnectResponse_Size_def)

interpretation CreateResponse_pkt: smb2_packet CreateResponse_Header SMB2_CREATE CreateResponse_Size CreateResponse_Encode CreateResponse_body
  "\<lambda>c. create_ctxs_ok (CreateResponse_Contexts c)" "\<lambda>h. CreateResponse_Header_update (\<lambda>_. h)"
  by unfold_locales (simp_all add: CreateResponse_Size_def)

interpretation CloseResponse_pkt: smb2_packet CloseResponse_Header SMB2_CLOSE CloseResponse_Size CloseResponse_Encode CloseResponse_body
  "\<lambda>c. True" "\<lambda>h. CloseResponse_Header_update (\<lambda>_. h)"
  by unfold_locales (simp_all add: CloseResponse_Size_def)

interpretation FlushResponse_pkt: smb2_packet FlushResponse_Header SMB2_FLUSH FlushResponse_Size FlushResponse_Encode FlushResponse_body
  "\<lambda>c. True" "\<lambda>h. FlushResponse_Header_update (\<lambda>_. h)"
  by unfold_locales (simp_all add: FlushResponse_Size_def)

interpretation ReadResponse_pkt: smb2_packet ReadResponse_Header SMB2_READ ReadResponse_Size ReadResponse_Encode ReadResponse_body
  "\<lambda>c. True" "\<lambda>h. ReadResponse_Header_update (\<lambda>_. h)"
  by unfold_locales (simp_all add: ReadResponse_Size_def)

interpretation WriteResponse_pkt: smb2_packet WriteResponse_Header SMB2_WRITE WriteResponse_Size WriteResponse_Encode WriteResponse_body
  "\<lambda>c. True" "\<lambda>h. WriteResponse_Header_update (\<lambda>_. h)"
  by unfold_locales (simp_all add: WriteResponse_Size_def)

interpretation LockResponse_pkt: smb2_packet LockResponse_Header SMB2_LOCK LockResponse_Size LockResponse_Encode LockResponse_body
  "\<lambda>c. True" "\<lambda>h. LockResponse_Header_update (\<lambda>_. h)"
  by unfold_locales (simp_all add: LockResponse_Size_def)

interpretation EchoResponse_pkt: smb2_packet EchoResponse_Header SMB2_ECHO EchoResponse_Size EchoResponse_Encode EchoResponse_body
  "\<lambda>c. True" "\<lambda>h. EchoResponse_Header_update (\<lambda>_. h)"
  by unfold_locales (simp_all add: EchoResponse_Size_def)

interpretation IoctlResponse_pkt: smb2_packet IoctlResponse_Header SMB2_IOCTL IoctlResponse_Size IoctlResponse_Encode IoctlResponse_body
  "\<lambda>c. pred_option encoder_ok (IoctlResponse_Input c) \<and> pred_option encoder_ok (IoctlResponse_Output c)" "\<lambda>h. IoctlResponse_Header_update (\<lambda>_. h)"
  by unfold_locales (simp_all add: IoctlResponse_Size_def)

interpretation QueryDirectoryResponse_pkt: smb2_packet QueryDirectoryResponse_Header SMB2_QUERY_DIRECTORY QueryDirectoryResponse_Size QueryDirectoryResponse_Encode QueryDirectoryResponse_body
  "\<lambda>c. pred_option encoder_ok (QueryDirectoryResponse_Output c)" "\<lambda>h. QueryDirectoryResponse_Header_update (\<lambda>_. h)"
  by unfold_locales (simp_all add: QueryDirectoryResponse_Size_def)

interpretation QueryInfoResponse_pkt: smb2_packet QueryInfoResponse_Header SMB2_QUERY_INFO QueryInfoResponse_Size QueryInfoResponse_Encode QueryInfoResponse_body
  "\<lambda>c. pred_option encoder_ok (QueryInfoResponse_Output c)" "\<lambda>h. QueryInfoResponse_Header_update (\<lambda>_. h)"
  by unfold_locales (simp_all add: QueryInfoResponse_Size_def)

interpretation SetInfoResponse_pkt: smb2_packet SetInfoResponse_Header SMB2_SET_INFO SetInfoResponse_Size SetInfoResponse_Encode SetInfoResponse_body
  "\<lambda>c. True" "\<lambda>h. SetInfoResponse_Header_update (\<lambda>_. h)"
  by unfold_locales (simp_all add: SetInfoResponse_Size_def)

interpretation ChangeNotifyResponse_pkt: smb2_packet ChangeNotifyResponse_Header SMB2_CHANGE_NOTIFY ChangeNotifyResponse_Size ChangeNotifyResponse_Encode ChangeNotifyResponse_body
  "\<lambda>c. pred_option encoder_ok (ChangeNotifyResponse_Output c)" "\<lambda>h. ChangeNotifyResponse_Header_update (\<lambda>_. h)"
  by unfold_locales (simp_all add: ChangeNotifyResponse_Size_def)

interpretation OplockBreakNotification_pkt: smb2_packet OplockBreakNotification_Header SMB2_OPLOCK_BREAK OplockBreakNotification_Size OplockBreakNotification_Encode OplockBreakNotification_body
  "\<lambda>c. True" "\<lambda>h. OplockBreakNotification_Header_update (\<lambda>_. h)"
  by unfold_locales (simp_all add: OplockBreakNotification_Size_def)

interpretation OplockBreakResponse_pkt: smb2_packet OplockBreakResponse_Header SMB2_OPLOCK_BREAK OplockBreakResponse_Size OplockBreakResponse_Encode OplockBreakResponse_body
  "\<lambda>c. True" "\<lambda>h. OplockBreakResponse_Header_update (\<lambda>_. h)"
  by unfold_locales (simp_all add: OplockBreakResponse_Size_def)

interpretation LeaseBreakNotification_pkt: smb2_packet LeaseBreakNotification_Header SMB2_OPLOCK_BREAK LeaseBreakNotification_Size LeaseBreakNotification_Encode LeaseBreakNotification_body
  "\<lambda>c. True" "\<lambda>h. LeaseBreakNotification_Header_update (\<lambda>_. h)"
  by unfold_locales (simp_all add: LeaseBreakNotification_Size_def)

interpretation LeaseBreakResponse_pkt: smb2_packet LeaseBreakResponse_Header SMB2_OPLOCK_BREAK LeaseBreakResponse_Size LeaseBreakResponse_Encode LeaseBreakResponse_body
  "\<lambda>c. True" "\<lambda>h. LeaseBreakResponse_Header_update (\<lambda>_. h)"
  by unfold_locales (simp_all add: LeaseBreakResponse_Size_def)


lemma ErrorResponse_packet_ok:
  assumes "pred_option error_data_ok (ErrorResponse_ErrorData m)"
  shows "packet_ok (ErrorResponse_packet m)"
proof -
  have "\<exists>q. ErrorResponse_Encode (m\<lparr>ErrorResponse_Header := h\<rparr>) (replicate (ErrorResponse_Size m) 0) = Some q \<and>
      length q = ErrorResponse_Size m \<and> header_reads h q" for h
    using ErrorResponse.encode_frame [of "m\<lparr>ErrorResponse_Header := h\<rparr>" "ErrorResponse_Size m"] assms
    by (auto simp: ErrorResponse_Size_def)
  then have "\<exists>cmd q. ErrorResponse_Encode (m\<lparr>ErrorResponse_Header := h\<rparr>) (replicate (ErrorResponse_Size m) 0) = Some q \<and>
      length q = ErrorResponse_Size m \<and> header_reads (h\<lparr>hdr_Command := cmd\<rparr>) q" for h
    by (intro exI [of _ "hdr_Command h"]) simp
  then show ?thesis using ErrorResponse.size [of m] by (simp add: packet_ok_def packet_of_def)
qed

section \<open>What is sent\<close>

text \<open>The header fields that completing it leaves alone, and what it leaves of the connection.\<close>

definition same_conn :: "conn \<Rightarrow> conn \<Rightarrow> bool" where
  "same_conn c c' \<longleftrightarrow> conn_session c' = conn_session c \<and> conn_serverState c' = conn_serverState c \<and>
     conn_out c' = conn_out c \<and> conn_useSession c' = conn_useSession c"

lemma encodePacket_hdr_frame:
  assumes "encodePacket_hdr c req tc = (hdr, c')"
  shows "hdr_Flags hdr = hdr_Flags (pkt_Header req)" "hdr_NextCommand hdr = hdr_NextCommand (pkt_Header req)"
    "hdr_MessageId hdr = hdr_MessageId (pkt_Header req)" "hdr_Status hdr = hdr_Status (pkt_Header req)" "same_conn c c'"
  using assms by (auto simp: encodePacket_hdr_def same_conn_def Let_def split: if_splits prod.splits option.splits)

lemma header_reads_part:
  assumes "header_reads h q" "64 \<le> length q"
  shows "comp_part (hdr_Flags h AND SMB2_FLAGS_RELATED_OPERATIONS \<noteq> 0) (unat (hdr_NextCommand h)) q"
    "word_of_le (rd 24 8 q) = hdr_MessageId h" "rd 48 16 q = replicate 16 0"
proof -
  have "\<not> PacketCodec_IsSmb1 q" using assms by (simp add: header_reads_def PacketCodec_IsSmb1_iff rd_def MAGIC_def)
  then show "comp_part (hdr_Flags h AND SMB2_FLAGS_RELATED_OPERATIONS \<noteq> 0) (unat (hdr_NextCommand h)) q"
    "word_of_le (rd 24 8 q) = hdr_MessageId h" "rd 48 16 q = replicate 16 0"
    using assms by (auto simp: header_reads_def comp_part_def PacketCodec_getters PacketCodec_MessageId_def
        un_at_eqs go_slice_eq_rd split: if_splits)
qed

lemma and_or_4: "(w OR 8) AND 4 = w AND 4" for w :: u32
proof -
  have "(8 :: u32) AND 4 = 0" by simp
  then show ?thesis by (simp add: bit.conj_disj_distrib2)
qed

lemma comp_part_sign:
  assumes "comp_part r n p" "session_sign s p = Some q"
  shows "comp_part r n q" "length q = length p" "rd 24 8 q = rd 24 8 p"
proof -
  have l: "64 \<le> length p" using assms(1) by (simp add: comp_part_def)
  obtain h where h: "session_signer s = Some h"
    using assms(2) session_sign_nil by (cases "session_signer s") auto
  let ?f = "upd 16 (le_of_word 4 (word_of_le (rd 16 4 p) OR SMB2_FLAGS_SIGNED :: u32)) p"
  have q: "q = upd 48 (take 16 (h ?f)) ?f"
    using assms(2) session_sign_eq [OF l h] by (simp add: Let_def)
  have "rd 16 4 q = le_of_word 4 (word_of_le (rd 16 4 p) OR SMB2_FLAGS_SIGNED :: u32)"
    using l by (simp add: q rd_upd_before rd_upd_same)
  then show "comp_part r n q" "length q = length p" "rd 24 8 q = rd 24 8 p"
    using assms(1) l by (simp_all add: q comp_part_def take_upd rd_upd_before rd_upd_after and_or_4)
qed

text \<open>A packet that is not encrypted: the message with a completed header, signed if the session
  is authenticated.\<close>

definition sends_plain :: "conn \<Rightarrow> treeConn option \<Rightarrow> bool" where
  "sends_plain c tc \<longleftrightarrow>
     (\<forall>s. conn_session c = Some s \<longrightarrow> session_flags s AND SMB2_SESSION_FLAG_ENCRYPT_DATA = 0 \<and>
        (session_anonymous s \<or> session_signer s \<noteq> None)) \<and>
     (\<forall>t. tc = Some t \<longrightarrow> tc_shareFlags t AND SMB2_SHAREFLAG_ENCRYPT_DATA = 0)"

lemma sends_plain_same: "same_conn c c' \<Longrightarrow> sends_plain c' tc = sends_plain c tc"
  by (simp add: same_conn_def sends_plain_def)

lemma session_sign_Some: "64 \<le> length p \<Longrightarrow> session_signer s \<noteq> None \<Longrightarrow> \<exists>q. session_sign s p = Some q"
  by (auto simp: session_sign_eq Let_def)

lemma encodePacket_plain:
  assumes "packet_ok req" "sends_plain c tc"
  shows "\<exists>p hdr c'. conn_encodePacket c nonce req tc = Some (p, hdr, c') \<and> same_conn c c' \<and>
    hdr_MessageId hdr = hdr_MessageId (pkt_Header req) \<and> hdr_Status hdr = hdr_Status (pkt_Header req) \<and>
    comp_part (hdr_Flags (pkt_Header req) AND SMB2_FLAGS_RELATED_OPERATIONS \<noteq> 0)
      (unat (hdr_NextCommand (pkt_Header req))) p \<and>
    length p = pkt_Size req \<and> word_of_le (rd 24 8 p) = hdr_MessageId (pkt_Header req)"
proof -
  obtain hdr c' where h: "encodePacket_hdr c req tc = (hdr, c')" by fastforce
  note f = encodePacket_hdr_frame [OF h]
  obtain cmd q where q: "pkt_Encode req hdr (replicate (pkt_Size req) 0) = Some q" "length q = pkt_Size req"
    "header_reads (hdr\<lparr>hdr_Command := cmd\<rparr>) q" "64 \<le> length q"
    using assms(1) unfolding packet_ok_def by metis
  note r = header_reads_part [OF q(3,4)]
  let ?P = "\<lambda>p. comp_part (hdr_Flags (pkt_Header req) AND SMB2_FLAGS_RELATED_OPERATIONS \<noteq> 0)
      (unat (hdr_NextCommand (pkt_Header req))) p \<and>
    length p = pkt_Size req \<and> word_of_le (rd 24 8 p) = hdr_MessageId (pkt_Header req)"
  have P: "?P q" using r q(2) f by simp
  have S: "?P p" if "session_sign s q = Some p" for s p
    using comp_part_sign [OF _ that] P by auto
  have E: "\<exists>p. encodePacket_protect s tc nonce q = Some p \<and> ?P p" if cs: "conn_session c = Some s" for s
  proof (cases "session_anonymous s")
    case True
    then show ?thesis using assms(2) cs P by (auto simp: encodePacket_protect_def sends_plain_def split: option.splits)
  next
    case False
    then obtain p where "session_sign s q = Some p"
      using assms(2) cs session_sign_Some [OF q(4)] by (auto simp: sends_plain_def)
    then show ?thesis using assms(2) cs False S
      by (auto simp: encodePacket_protect_def sends_plain_def split: option.splits)
  qed
  have "\<exists>p. conn_encodePacket c nonce req tc = Some (p, hdr, c') \<and> ?P p"
    using E P q(1) h by (auto simp: conn_encodePacket_def encodePacket_session_def split: option.splits)
  then show ?thesis using f by auto
qed

text \<open>What an authenticated session sends carries a signature its peer accepts.\<close>

lemma encodePacket_signed:
  assumes "packet_ok req" "encodePacket_session c req = Some s" "pkt_kind req \<noteq> PK_SessionSetupRequest"
    and "session_flags s AND SMB2_SESSION_FLAG_ENCRYPT_DATA = 0"
    and "\<forall>t. tc = Some t \<longrightarrow> tc_shareFlags t AND SMB2_SHAREFLAG_ENCRYPT_DATA = 0"
    and "\<not> session_anonymous s" "session_signer s = Some h"
    and "session_verifier peer = Some h" "\<not> session_anonymous peer"
  shows "\<exists>p hdr c' q. conn_encodePacket c nonce req tc = Some (p, hdr, c') \<and> session_verify peer p = Some (True, q)"
proof -
  obtain hdr c' where h: "encodePacket_hdr c req tc = (hdr, c')" by fastforce
  obtain cmd q where q: "pkt_Encode req hdr (replicate (pkt_Size req) 0) = Some q"
    "header_reads (hdr\<lparr>hdr_Command := cmd\<rparr>) q" "64 \<le> length q"
    using assms(1) unfolding packet_ok_def by metis
  obtain p r where "session_sign s q = Some p" "session_verify peer p = Some (True, r)"
    using session_sign_verify [OF q(3) header_reads_part(3) [OF q(2,3)] assms(7,8,9)] by blast
  moreover have "encodePacket_protect s tc nonce q = session_sign s q"
    using assms(4,5,6) by (auto simp: encodePacket_protect_def split: option.splits)
  ultimately show ?thesis using h q(1) assms(2,3) by (simp add: conn_encodePacket_def)
qed

section \<open>A compound of responses\<close>

text \<open>The responses of one compound, sent in order.\<close>

fun send_responses :: "(bytes \<Rightarrow> bytes) \<Rightarrow> bytes \<Rightarrow> conn \<Rightarrow> (packet \<times> treeConn option) list \<Rightarrow> compoundContext \<Rightarrow>
    (conn \<times> compoundContext) option" where
  "send_responses sha512 nonce c [] ctx = Some (c, ctx)"
| "send_responses sha512 nonce c ((req, tc) # reqs) ctx = do {
     (c, ctx', _) \<leftarrow> conn_sendPacket sha512 Sent nonce c req tc (Some ctx);
     ctx \<leftarrow> ctx';
     send_responses sha512 nonce c reqs ctx }"

text \<open>The responses that \<open>recv_loop\<close>'s context expects: only the last has the last message id.\<close>

fun response_ids :: "u64 \<Rightarrow> (packet \<times> treeConn option) list \<Rightarrow> bool" where
  "response_ids m [] = False"
| "response_ids m [(req, _)] = (hdr_MessageId (pkt_Header req) = m)"
| "response_ids m ((req, _) # reqs) = (hdr_MessageId (pkt_Header req) \<noteq> m \<and> response_ids m reqs)"

definition response_ok :: "conn \<Rightarrow> packet \<times> treeConn option \<Rightarrow> bool" where
  "response_ok c r \<longleftrightarrow> packet_ok (fst r) \<and> sends_plain c (snd r) \<and> pkt_Size (fst r) < 2 ^ 32 - 8 \<and>
     hdr_Flags (pkt_Header (fst r)) AND SMB2_FLAGS_RELATED_OPERATIONS = 0 \<and> hdr_NextCommand (pkt_Header (fst r)) = 0"

lemma response_ok_same: "same_conn c c' \<Longrightarrow> response_ok c' r = response_ok c r"
  by (simp add: response_ok_def sends_plain_same)

lemma or_4_and: "(w OR 4) AND 4 = 4" for w :: u32
  by (rule bit_word_eqI) (auto simp: bit_and_iff bit_or_iff)

lemma unat_Align_8:
  assumes "n < 2 ^ 32 - 8"
  shows "unat (of_nat (Align n 8) :: u32) = Roundup n 8"
proof -
  have "Roundup n 8 < n + 8" by (simp add: Roundup_8_lt)
  then show ?thesis using assms by (simp add: Align_eq_Roundup unat_of_nat take_bit_nat_eq_self)
qed

text \<open>One response of a compound: it is kept in the context until the last one is there, then all
  are sent as one frame.\<close>

lemma sendPacket_compound:
  fixes ctx :: compoundContext
  assumes "response_ok c (req, tc)"
  defines "final \<equiv> hdr_MessageId (pkt_Header req) = comp_lastMsgId ctx"
  obtains p c' ctx' where "conn_sendPacket sha512 Sent nonce c req tc (Some ctx) = Some (c', Some ctx', None)"
    and "comp_part (comp_rsp ctx \<noteq> []) (if final then 0 else Roundup (length p) 8) p"
    and "word_of_le (rd 24 8 p) = hdr_MessageId (pkt_Header req)"
    and "comp_rsp ctx' = comp_rsp ctx @ [p]" "comp_lastMsgId ctx' = comp_lastMsgId ctx"
    and "\<not> final \<Longrightarrow> same_conn c c'" "final \<Longrightarrow> conn_out c' = conn_out c @ [compound_bytes (comp_rsp ctx @ [p])]"
proof -
  let ?r = "sendPacket_prepare req (Some ctx)"
  have R: "hdr_Flags (pkt_Header req) AND 4 = 0" "hdr_NextCommand (pkt_Header req) = 0" "pkt_Size req < 2 ^ 32 - 8"
    using assms(1) by (simp_all add: response_ok_def)
  have "packet_ok ?r" using assms(1) by (auto simp: response_ok_def packet_ok_def sendPacket_prepare_def Let_def)
  moreover have "sends_plain c tc" using assms(1) by (simp add: response_ok_def)
  ultimately obtain p hdr c1 where e: "conn_encodePacket c nonce ?r tc = Some (p, hdr, c1)" "same_conn c c1"
    and h: "hdr_MessageId hdr = hdr_MessageId (pkt_Header req)"
    and pt: "comp_part (hdr_Flags (pkt_Header ?r) AND 4 \<noteq> 0) (unat (hdr_NextCommand (pkt_Header ?r))) p"
    and l: "length p = pkt_Size req" and m: "word_of_le (rd 24 8 p) = hdr_MessageId (pkt_Header req)"
    using encodePacket_plain [of ?r c tc nonce] by (auto simp: sendPacket_prepare_def Let_def)
  have "comp_part (comp_rsp ctx \<noteq> []) (if final then 0 else Roundup (length p) 8) p"
    using pt R l by (auto simp: sendPacket_prepare_def Let_def compoundContext_isEmpty_def or_4_and final_def unat_Align_8
        split: if_splits)
  moreover define ctx' where "ctx' = compoundContext_addResponse p (ctx\<lparr>comp_lastStatus := hdr_Status hdr\<rparr>)"
  ultimately show ?thesis
    using that [of _ ctx' p] e h m compoundContext_Encode_eq [of ctx']
    by (cases final) (auto simp: conn_sendPacket_def final_def Let_def send_result_def same_conn_def
        compoundContext_addResponse_def conn_calcPreauthHash_def ctx'_def)
qed

lemma send_responses_chain:
  "response_ids (comp_lastMsgId ctx) reqs \<Longrightarrow> list_all (response_ok c) reqs \<Longrightarrow>
   \<exists>ps c' ctx'. send_responses sha512 nonce c reqs ctx = Some (c', ctx') \<and>
     conn_out c' = conn_out c @ [compound_bytes (comp_rsp ctx @ ps)] \<and> comp_chain (comp_rsp ctx \<noteq> []) ps \<and>
     map (\<lambda>p. word_of_le (rd 24 8 p)) ps = map (\<lambda>r. hdr_MessageId (pkt_Header (fst r))) reqs"
proof (induction reqs arbitrary: c ctx)
  case Nil
  then show ?case by simp
next
  case (Cons r reqs)
  obtain req tc where r: "r = (req, tc)" by fastforce
  have ok: "response_ok c (req, tc)" using Cons.prems(2) r by simp
  obtain p c1 ctx1 where s: "conn_sendPacket sha512 Sent nonce c req tc (Some ctx) = Some (c1, Some ctx1, None)"
    and pt: "comp_part (comp_rsp ctx \<noteq> [])
      (if hdr_MessageId (pkt_Header req) = comp_lastMsgId ctx then 0 else Roundup (length p) 8) p"
    and m: "word_of_le (rd 24 8 p) = hdr_MessageId (pkt_Header req)"
    and x: "comp_rsp ctx1 = comp_rsp ctx @ [p]" "comp_lastMsgId ctx1 = comp_lastMsgId ctx"
    and sc: "hdr_MessageId (pkt_Header req) \<noteq> comp_lastMsgId ctx \<Longrightarrow> same_conn c c1"
    and o: "hdr_MessageId (pkt_Header req) = comp_lastMsgId ctx \<Longrightarrow>
      conn_out c1 = conn_out c @ [compound_bytes (comp_rsp ctx @ [p])]"
    using sendPacket_compound [OF ok, of sha512 nonce ctx] by blast
  show ?case
  proof (cases reqs)
    case Nil
    then show ?thesis using Cons.prems s pt m o r by (intro exI [of _ "[p]"]) auto
  next
    case (Cons r' reqs')
    then have ids: "hdr_MessageId (pkt_Header req) \<noteq> comp_lastMsgId ctx" "response_ids (comp_lastMsgId ctx1) reqs"
      using Cons.prems(1) r x by simp_all
    have "list_all (response_ok c1) reqs"
      using Cons.prems(2) response_ok_same [OF sc [OF ids(1)]] by (simp add: list_all_iff)
    from Cons.IH [OF ids(2) this] obtain ps c' ctx' where
      "send_responses sha512 nonce c1 reqs ctx1 = Some (c', ctx')"
      "conn_out c' = conn_out c1 @ [compound_bytes (comp_rsp ctx @ p # ps)]" "comp_chain True ps"
      "map (\<lambda>p. word_of_le (rd 24 8 p)) ps = map (\<lambda>r. hdr_MessageId (pkt_Header (fst r))) reqs"
      using x by auto
    moreover from this Cons obtain q qs where "ps = q # qs" by (cases ps) auto
    ultimately show ?thesis
      using s pt m ids(1) sc r by (intro exI [of _ "p # ps"]) (auto simp: same_conn_def)
  qed
qed

lemma comp_split_msgIds:
  "comp_chain r ps \<Longrightarrow> map (req_msgId \<circ> request_of s i) (comp_split ps) = map (\<lambda>p. word_of_le (rd 24 8 p)) ps"
  by (induction r ps rule: comp_chain.induct) (auto simp: request_of_def pad8_def rd_append_left comp_part_def)

text \<open>The frame that a compound of at least two responses becomes is received as that many packets
  with their message ids, in order.\<close>

lemma send_responses_received:
  assumes "response_ids (comp_lastMsgId ctx) reqs" "list_all (response_ok c) reqs" "2 \<le> length reqs" "comp_rsp ctx = []"
  shows "\<exists>c' ctx' frame rs cs. send_responses sha512 nonce c reqs ctx = Some (c', ctx') \<and>
    conn_out c' = conn_out c @ [frame] \<and> recv_loop peer False s e None [] frame = Some (Recv_next, rs, cs) \<and>
    map req_msgId rs = map (\<lambda>r. hdr_MessageId (pkt_Header (fst r))) reqs"
proof -
  obtain ps c' ctx' where s: "send_responses sha512 nonce c reqs ctx = Some (c', ctx')"
    "conn_out c' = conn_out c @ [compound_bytes ps]" "comp_chain False ps"
    "map (\<lambda>p. word_of_le (rd 24 8 p)) ps = map (\<lambda>r. hdr_MessageId (pkt_Header (fst r))) reqs"
    using send_responses_chain [OF assms(1,2), of sha512 nonce] assms(4) by auto
  have "2 \<le> length ps" using map_eq_imp_length_eq [OF s(4)] assms(3) by simp
  then obtain p q qs where ps: "ps = p # q # qs" by (metis Suc_le_length_iff numeral_2_eq_2)
  have "map (req_msgId \<circ> request_of s (Some 0)) (comp_split ps) = map (\<lambda>p. word_of_le (rd 24 8 p)) ps"
    using s(3) by (rule comp_split_msgIds)
  then show ?thesis using s recv_loop_compound [of p q qs peer s e] unfolding ps by auto
qed

section \<open>A response sent alone\<close>

lemma encodePacket_hdr_conn:
  assumes "encodePacket_hdr c req tc = (hdr, c')"
  obtains a w where "c' = c\<lparr>conn_sequenceWindow := w, conn_account := a\<rparr>"
  using assms that [of "conn_account c'" "conn_sequenceWindow c'"]
  by (auto simp: encodePacket_hdr_def Let_def split: if_splits prod.splits option.splits intro!: conn.equality)

text \<open>The packet on the wire: the encoded message, of which signing only touches the flags and the signature.\<close>

definition wire_of :: "bytes \<Rightarrow> bytes \<Rightarrow> bool" where
  "wire_of q p \<longleftrightarrow> length p = length q \<and> take 16 p = take 16 q \<and> rd 20 28 p = rd 20 28 q \<and> drop 64 p = drop 64 q \<and>
     word_of_le (rd 16 4 p) OR (8 :: u32) = word_of_le (rd 16 4 q) OR 8"

lemma wire_of_refl [simp]: "wire_of q q"
  by (simp add: wire_of_def)

lemma wire_of_sign:
  assumes "64 \<le> length q" "session_sign s q = Some p"
  shows "wire_of q p"
proof -
  obtain h where h: "session_signer s = Some h"
    using assms(2) session_sign_nil by (cases "session_signer s") auto
  let ?f = "upd 16 (le_of_word 4 (word_of_le (rd 16 4 q) OR SMB2_FLAGS_SIGNED :: u32)) q"
  have p: "p = upd 48 (take 16 (h ?f)) ?f"
    using assms(2) session_sign_eq [OF assms(1) h] by (simp add: Let_def)
  have "rd 16 4 p = le_of_word 4 (word_of_le (rd 16 4 q) OR SMB2_FLAGS_SIGNED :: u32)"
    using assms(1) by (simp add: p rd_upd_before rd_upd_same)
  then show ?thesis
    using assms(1) by (simp add: p wire_of_def take_upd drop_upd rd_upd_before rd_upd_after)
qed

lemma sendPacket_single:
  assumes "packet_ok req" "sends_plain c tc"
  obtains p q hdr w a where
    "encodePacket_hdr c req tc = (hdr, c\<lparr>conn_sequenceWindow := w, conn_account := a\<rparr>)"
    "pkt_Encode req hdr (replicate (pkt_Size req) 0) = Some q" "length q = pkt_Size req" "64 \<le> length q" "wire_of q p"
    "conn_sendPacket sha512 io nonce c req tc None =
       (let c = c\<lparr>conn_sequenceWindow := w, conn_account := a\<rparr>;
            c = (if conn_serverState c = STATE_SESSION_ACTIVE then c else conn_calcPreauthHash sha512 p c);
            (c, e) = send_result io p c
        in Some (c, None, e))"
proof -
  obtain hdr c' where h: "encodePacket_hdr c req tc = (hdr, c')" by fastforce
  obtain w a where c': "c' = c\<lparr>conn_sequenceWindow := w, conn_account := a\<rparr>" using h by (rule encodePacket_hdr_conn)
  obtain cmd q where q: "pkt_Encode req hdr (replicate (pkt_Size req) 0) = Some q" "length q = pkt_Size req" "64 \<le> length q"
    using assms(1) unfolding packet_ok_def by metis
  have "\<exists>p. encodePacket_protect s tc nonce q = Some p \<and> wire_of q p" if cs: "conn_session c = Some s" for s
    using assms(2) cs session_sign_Some [OF q(3), of s] wire_of_sign [OF q(3), of s]
    by (cases "session_anonymous s") (auto simp: encodePacket_protect_def sends_plain_def split: option.splits)
  then obtain p where p: "wire_of q p" "(case encodePacket_session c req of None \<Rightarrow> Some q
      | Some s \<Rightarrow> if pkt_kind req = PK_SessionSetupRequest then Some q else encodePacket_protect s tc nonce q) = Some p"
    by (cases "encodePacket_session c req"; cases "pkt_kind req = PK_SessionSetupRequest")
      (auto simp: encodePacket_session_def split: if_splits)
  then have "conn_encodePacket c nonce req tc = Some (p, hdr, c')"
    using h q(1) by (simp add: conn_encodePacket_def)
  then show ?thesis
    using that [OF h [unfolded c'] q p(1)] by (simp add: conn_sendPacket_def sendPacket_prepare_def c')
qed

section \<open>New connections\<close>

text \<open>A connection as \<open>ServeListener\<close> makes it.\<close>

definition new_conn :: "account \<Rightarrow> conn" where
  "new_conn a = \<lparr>conn_session = None, conn_sessions = (\<lambda>_. None), conn_useSession = False, conn_sequenceWindow = 0,
     conn_dialect = 0, conn_maxTransactSize = 0, conn_maxReadSize = 0, conn_maxWriteSize = 0,
     conn_requireSigning = False, conn_capabilities = 0, conn_preauthIntegrityHashId = 0,
     conn_preauthIntegrityHashValue = replicate 64 0, conn_cipherId = AES128GCM, conn_hashId = SHA512,
     conn_posixExtensions = False, conn_account = a, conn_serverState = STATE_NEGOTIATE, conn_out = []\<rparr>"

definition zero_header :: PacketHeader where
  "zero_header = \<lparr>hdr_CreditCharge = 0, hdr_ChannelSequence = 0, hdr_Status = 0, hdr_Command = 0,
     hdr_CreditRequestResponse = 0, hdr_Flags = 0, hdr_NextCommand = 0, hdr_MessageId = 0, hdr_AsyncId = 0,
     hdr_TreeId = 0, hdr_SessionId = 0\<rparr>"

lemma sends_plain_new [simp]: "sends_plain (new_conn a) None"
  by (simp add: sends_plain_def new_conn_def)

end
