(* ===== verification/Path.thy ===== *)
theory Path
  imports Go_Prelude
begin

text \<open>
  \<open>server/path.go\<close>: backslash-separated paths. Strings are their bytes; the functions
  only ever look at ASCII bytes, so no decoding is involved. The backward loops
  \<open>for j > 0 && P(path[j-1]) { j-- }\<close> are \<open>skip_back\<close>. The components of a
  path are the reference the functions are compared with.
\<close>

abbreviation (input) "BSLASH \<equiv> (0x5c :: u8)"
abbreviation (input) "SLASH \<equiv> (0x2f :: u8)"
abbreviation (input) "DOT \<equiv> (0x2e :: u8)"

definition NORMALIZE_PATH :: bool where
  "NORMALIZE_PATH = True"

definition IsPathSeparator :: "u8 \<Rightarrow> bool" where
  "IsPathSeparator c \<longleftrightarrow> c = BSLASH"

fun skip_back :: "(u8 \<Rightarrow> bool) \<Rightarrow> bytes \<Rightarrow> nat \<Rightarrow> nat" where
  "skip_back P s 0 = 0"
| "skip_back P s (Suc j) = (if P (s ! j) then skip_back P s j else Suc j)"

definition path_base :: "bytes \<Rightarrow> bytes" where
  "path_base path =
     (let j = skip_back IsPathSeparator path (length path) in
      if j = 0 then []
      else let i = skip_back (\<lambda>c. \<not> IsPathSeparator c) path (j - 1) in rd i (j - i) path)"

definition path_dir :: "bytes \<Rightarrow> bytes" where
  "path_dir path =
     (if path = [] then []
      else let i = skip_back IsPathSeparator path (length path) in
        if i = 0 then [BSLASH]
        else let i = skip_back (\<lambda>c. \<not> IsPathSeparator c) path (i - 1) in
          if i = 0 then []
          else let i = skip_back IsPathSeparator path (i - 1) in
            if i = 0 then [BSLASH] else take i path)"

datatype path_error = PathErr_slash | PathErr_leading | PathErr_mount

definition validatePath :: "bytes \<Rightarrow> bool \<Rightarrow> path_error option" where
  "validatePath path allowAbs =
     (if path = [] then None
      else if \<not> NORMALIZE_PATH \<and> SLASH \<in> set path then Some PathErr_slash
      else if \<not> allowAbs \<and> path ! 0 = BSLASH then Some PathErr_leading
      else None)"

text \<open>The regular expression \<open>^\\[^\/]+\[^\/]+$\<close> (with the backslashes of the
  pattern doubled in the source).\<close>

definition mountPathPattern :: "bytes \<Rightarrow> bool" where
  "mountPathPattern path \<longleftrightarrow>
     (let plain = (\<lambda>c. c \<noteq> BSLASH \<and> c \<noteq> SLASH);
          rest = drop 2 path;
          srv = takeWhile plain rest;
          shr = dropWhile plain rest in
      take 2 path = [BSLASH, BSLASH] \<and> srv \<noteq> [] \<and> shr \<noteq> [] \<and> hd shr = BSLASH \<and>
      tl shr \<noteq> [] \<and> list_all plain (tl shr))"

definition validateMountPath :: "bytes \<Rightarrow> path_error option" where
  "validateMountPath path = (if mountPathPattern path then None else Some PathErr_mount)"

definition replace_slash :: "bytes \<Rightarrow> bytes" where
  "replace_slash path = map (\<lambda>c. if c = SLASH then BSLASH else c) path"

fun strip_dot :: "bytes \<Rightarrow> bytes" where
  "strip_dot (c # d # path) = (if c = DOT \<and> d = BSLASH then strip_dot path else c # d # path)"
| "strip_dot path = path"

definition normPath :: "bytes \<Rightarrow> bytes" where
  "normPath path =
     (if \<not> NORMALIZE_PATH then path
      else let path = strip_dot (replace_slash path) in if path = [DOT] then [] else path)"

definition normPattern :: "bytes \<Rightarrow> bytes" where
  "normPattern pattern = (if \<not> NORMALIZE_PATH then pattern else strip_dot (replace_slash pattern))"

fun strings_Join :: "bytes list \<Rightarrow> bytes \<Rightarrow> bytes" where
  "strings_Join [] sep = []"
| "strings_Join [a] sep = a"
| "strings_Join (a # b # as) sep = a @ sep @ strings_Join (b # as) sep"

definition path_join :: "bytes list \<Rightarrow> bytes" where
  "path_join elem = normPath (strings_Join elem [BSLASH])"

definition path_split :: "bytes \<Rightarrow> bytes \<times> bytes" where
  "path_split path =
     (let i = skip_back (\<lambda>c. \<not> IsPathSeparator c) path (length path) in (take i path, drop i path))"

section \<open>The backward loop\<close>

lemma skip_back_le: "skip_back P s j \<le> j"
  by (induction j) auto

lemma skip_back_stop: "0 < skip_back P s j \<Longrightarrow> \<not> P (s ! (skip_back P s j - 1))"
  by (induction j) (auto split: if_splits)

lemma skip_back_all: "skip_back P s j \<le> k \<Longrightarrow> k < j \<Longrightarrow> P (s ! k)"
proof (induction j)
  case 0
  then show ?case by simp
next
  case (Suc j)
  then show ?case by (cases "k = j") (auto split: if_splits)
qed

text \<open>What the loop leaves: the text up to the last byte that fails the test.\<close>

lemma skip_back_append:
  assumes "list_all P t" "s = [] \<or> \<not> P (last s)"
  shows "skip_back P (s @ t @ u) (length s + length t) = length s"
  using assms(1)
proof (induction t arbitrary: u rule: rev_induct)
  case Nil
  then show ?case
    using assms(2) by (cases s rule: rev_cases) (auto simp: nth_append)
next
  case (snoc x t)
  then show ?case using snoc(1) [of "x # u"] by (simp add: nth_append)
qed

section \<open>Splitting\<close>

lemma path_split_eq: "path_split path = (d, f) \<Longrightarrow> d @ f = path"
  by (auto simp: path_split_def Let_def)

lemma path_split_file: "path_split path = (d, f) \<Longrightarrow> BSLASH \<notin> set f"
proof
  let ?i = "skip_back (\<lambda>c. \<not> IsPathSeparator c) path (length path)"
  assume s: "path_split path = (d, f)" and "BSLASH \<in> set f"
  then obtain k where "k < length (drop ?i path)" "drop ?i path ! k = BSLASH"
    by (auto simp: path_split_def Let_def in_set_conv_nth)
  then show False
    using skip_back_all [of "\<lambda>c. \<not> IsPathSeparator c" path "length path" "?i + k"]
    by (simp add: IsPathSeparator_def less_diff_conv add.commute)
qed

lemma path_split_dir: "path_split path = (d, f) \<Longrightarrow> d = [] \<or> last d = BSLASH"
proof -
  let ?i = "skip_back (\<lambda>c. \<not> IsPathSeparator c) path (length path)"
  assume "path_split path = (d, f)"
  then have d: "d = take ?i path" by (simp add: path_split_def Let_def)
  have l: "?i \<le> length path" by (rule skip_back_le)
  show ?thesis
  proof (cases "?i = 0")
    case False
    then have "last (take ?i path) = path ! (?i - 1)" using l by (subst last_conv_nth) auto
    then show ?thesis
      using d False skip_back_stop [of "\<lambda>c. \<not> IsPathSeparator c" path "length path"] by (simp add: IsPathSeparator_def)
  qed (simp add: d)
qed

section \<open>Base and directory\<close>

text \<open>Every path is a directory part, separators, a last component and trailing separators. The
  base is that component and the directory is the part in front, whatever the number of
  separators.\<close>

abbreviation (input) "seps n \<equiv> replicate n BSLASH"

definition path_parts :: "bytes \<Rightarrow> nat \<Rightarrow> bytes \<Rightarrow> nat \<Rightarrow> bytes" where
  "path_parts d n b t = d @ seps n @ b @ seps t"

lemma seps_all: "list_all IsPathSeparator (seps n)"
  by (simp add: list_all_iff IsPathSeparator_def)

lemma no_sep_all: "BSLASH \<notin> set b \<Longrightarrow> list_all (\<lambda>c. \<not> IsPathSeparator c) b"
  by (auto simp: list_all_iff IsPathSeparator_def)

lemma last_no_sep: "b \<noteq> [] \<Longrightarrow> BSLASH \<notin> set b \<Longrightarrow> \<not> IsPathSeparator (last b)"
  unfolding IsPathSeparator_def by (metis last_in_set)

lemma skip_trailing:
  assumes "b \<noteq> []" "BSLASH \<notin> set b"
  shows "skip_back IsPathSeparator (x @ b @ seps t) (length (x @ b @ seps t)) = length x + length b"
  using skip_back_append [of IsPathSeparator "seps t" "x @ b" "[]"] assms seps_all last_no_sep
  by (simp add: last_append add.assoc)

lemma skip_component:
  assumes "b \<noteq> []" "BSLASH \<notin> set b" "x = [] \<or> last x = BSLASH"
  shows "skip_back (\<lambda>c. \<not> IsPathSeparator c) (x @ b @ y) (length x + length b - 1) = length x"
proof -
  from assms(1) obtain b' c where b: "b = b' @ [c]" by (cases b rule: rev_cases) auto
  have "list_all (\<lambda>c. \<not> IsPathSeparator c) b'" using assms(2) b no_sep_all [of b'] by simp
  then show ?thesis
    using skip_back_append [of "\<lambda>c. \<not> IsPathSeparator c" b' x "c # y"] assms(3) b
    by (auto simp: IsPathSeparator_def)
qed

lemma path_base_parts:
  assumes "b \<noteq> []" "BSLASH \<notin> set b" "n = 0 \<longrightarrow> d = []"
  shows "path_base (path_parts d n b t) = b"
proof -
  let ?x = "d @ seps n"
  have x: "?x = [] \<or> last ?x = BSLASH" using assms(3) by (cases n) (auto simp: last_append)
  have p: "path_parts d n b t = ?x @ b @ seps t" by (simp add: path_parts_def)
  show ?thesis
    unfolding path_base_def Let_def p skip_trailing [OF assms(1,2)]
    using assms(1) skip_component [OF assms(1,2) x, of "seps t"] by (simp add: rd_def)
qed

lemma path_dir_parts:
  assumes b: "b \<noteq> []" "BSLASH \<notin> set b" and n: "n = 0 \<longrightarrow> d = []" and d: "d \<noteq> [] \<longrightarrow> last d \<noteq> BSLASH"
  shows "path_dir (path_parts d n b t) = (if n = 0 then [] else if d = [] then [BSLASH] else d)"
proof -
  let ?x = "d @ seps n"
  have x: "?x = [] \<or> last ?x = BSLASH" using n by (cases n) (auto simp: last_append)
  have p: "path_parts d n b t = ?x @ b @ seps t" by (simp add: path_parts_def)
  have e: "skip_back IsPathSeparator (?x @ b @ seps t) (length ?x - 1) = length d" if "n \<noteq> 0"
  proof -
    have s: "seps n = seps (n - 1) @ [BSLASH]"
      using that by (cases n) (auto simp: replicate_append_same)
    show ?thesis
      using skip_back_append [of IsPathSeparator "seps (n - 1)" d "BSLASH # b @ seps t"] seps_all d that s
      by (auto simp: IsPathSeparator_def)
  qed
  show ?thesis
    unfolding path_dir_def Let_def p skip_trailing [OF b]
    using b(1) n skip_component [OF b x, of "seps t"] e by (cases "n = 0") auto
qed

lemma path_all_seps: "path_base (seps n) = []" "path_dir (seps n) = (if n = 0 then [] else [BSLASH])"
proof -
  have "skip_back IsPathSeparator (seps n) n = 0"
    using skip_back_append [of IsPathSeparator "seps n" "[]" "[]"] seps_all by simp
  then show "path_base (seps n) = []" "path_dir (seps n) = (if n = 0 then [] else [BSLASH])"
    by (simp_all add: path_base_def path_dir_def)
qed

text \<open>Every path is one of these.\<close>

lemma strip_trailing_seps:
  obtains s t where "p = s @ seps t" "s = [] \<or> last s \<noteq> BSLASH"
proof (induction p arbitrary: thesis rule: rev_induct)
  case Nil
  then show ?case by (metis append_Nil2 replicate_empty)
next
  case (snoc x p)
  show ?case
  proof (cases "x = BSLASH")
    case True
    from snoc(1) obtain s t where st: "p = s @ seps t" "s = [] \<or> last s \<noteq> BSLASH" by blast
    then have "p @ [x] = s @ seps (Suc t)" using True by (simp add: replicate_append_same)
    then show ?thesis using snoc(2) st by blast
  next
    case False
    then show ?thesis using snoc(2) [of "p @ [x]" 0] by simp
  qed
qed

lemma split_last_component:
  obtains x b where "s = x @ b" "x = [] \<or> last x = BSLASH" "BSLASH \<notin> set b"
  using path_split_eq path_split_file path_split_dir by (cases "path_split s") metis

lemma path_cases:
  obtains (seps) n where "p = seps n"
  | (parts) d n b t where "p = path_parts d n b t" "b \<noteq> []" "BSLASH \<notin> set b"
      "n = 0 \<longrightarrow> d = []" "d \<noteq> [] \<longrightarrow> last d \<noteq> BSLASH"
proof -
  obtain s t where p: "p = s @ seps t" and s: "s = [] \<or> last s \<noteq> BSLASH" by (rule strip_trailing_seps)
  obtain x b where x: "s = x @ b" "x = [] \<or> last x = BSLASH" "BSLASH \<notin> set b" by (rule split_last_component)
  show thesis
  proof (cases "s = []")
    case True
    then show ?thesis using p seps by simp
  next
    case False
    then have b: "b \<noteq> []" using x s by auto
    obtain d n where d: "x = d @ seps n" "d = [] \<or> last d \<noteq> BSLASH" by (rule strip_trailing_seps)
    have "n = 0 \<longrightarrow> d = []" using x(2) d by auto
    then show ?thesis using parts [of d n b t] p x d b by (auto simp: path_parts_def)
  qed
qed

lemma path_base_no_sep: "BSLASH \<notin> set (path_base p)"
proof (cases p rule: path_cases)
  case (seps n)
  then show ?thesis by (simp add: path_all_seps)
next
  case (parts d n b t)
  then show ?thesis by (simp add: path_base_parts)
qed

section \<open>Normalisation\<close>

lemma strip_dot_idem: "strip_dot (strip_dot p) = strip_dot p"
  by (induction p rule: strip_dot.induct) auto

lemma strip_dot_suffix: "set (strip_dot p) \<subseteq> set p"
  by (induction p rule: strip_dot.induct) (auto split: if_splits)

lemma replace_slash_no_slash: "SLASH \<notin> set (replace_slash p)"
  by (auto simp: replace_slash_def)

lemma replace_slash_id: "SLASH \<notin> set p \<Longrightarrow> replace_slash p = p"
  by (induction p) (auto simp: replace_slash_def)

lemma normPath_no_slash: "SLASH \<notin> set (normPath p)"
  using strip_dot_suffix [of "replace_slash p"] replace_slash_no_slash [of p]
  by (auto simp: normPath_def NORMALIZE_PATH_def Let_def)

lemma normPath_idem: "normPath (normPath p) = normPath p"
  using normPath_no_slash [of p]
  by (auto simp: normPath_def NORMALIZE_PATH_def Let_def replace_slash_id strip_dot_idem split: if_splits)

lemma normPath_not_relative: "normPath p \<noteq> [DOT]" "take 2 (normPath p) \<noteq> [DOT, BSLASH]"
proof -
  have "take 2 (strip_dot q) \<noteq> [DOT, BSLASH]" for q by (induction q rule: strip_dot.induct) auto
  then show "normPath p \<noteq> [DOT]" "take 2 (normPath p) \<noteq> [DOT, BSLASH]"
    by (auto simp: normPath_def NORMALIZE_PATH_def Let_def)
qed

lemma mountPathPattern_iff:
  "mountPathPattern p \<longleftrightarrow> (\<exists>srv shr. p = [BSLASH, BSLASH] @ srv @ [BSLASH] @ shr \<and> srv \<noteq> [] \<and> shr \<noteq> [] \<and>
     (\<forall>c \<in> set (srv @ shr). c \<noteq> BSLASH \<and> c \<noteq> SLASH))"
proof
  let ?plain = "\<lambda>c. c \<noteq> BSLASH \<and> c \<noteq> SLASH"
  assume m: "mountPathPattern p"
  let ?srv = "takeWhile ?plain (drop 2 p)" and ?r = "dropWhile ?plain (drop 2 p)"
  have r: "?r = BSLASH # tl ?r" using m by (cases ?r) (auto simp: mountPathPattern_def Let_def)
  have "p = take 2 p @ ?srv @ ?r" by simp
  also have "take 2 p = [BSLASH, BSLASH]" using m by (simp add: mountPathPattern_def Let_def)
  also have "?r = [BSLASH] @ tl ?r" using r by simp
  finally have "p = [BSLASH, BSLASH] @ ?srv @ [BSLASH] @ tl ?r" .
  moreover have "?srv \<noteq> []" "tl ?r \<noteq> []" "\<forall>c \<in> set (tl ?r). ?plain c"
    using m unfolding mountPathPattern_def Let_def list_all_iff by blast+
  moreover have "\<forall>c \<in> set ?srv. ?plain c" by (blast dest: set_takeWhileD)
  ultimately show "\<exists>srv shr. p = [BSLASH, BSLASH] @ srv @ [BSLASH] @ shr \<and> srv \<noteq> [] \<and> shr \<noteq> [] \<and>
     (\<forall>c \<in> set (srv @ shr). ?plain c)"
    unfolding set_append by blast
next
  assume "\<exists>srv shr. p = [BSLASH, BSLASH] @ srv @ [BSLASH] @ shr \<and> srv \<noteq> [] \<and> shr \<noteq> [] \<and>
     (\<forall>c \<in> set (srv @ shr). c \<noteq> BSLASH \<and> c \<noteq> SLASH)"
  then obtain srv shr where p: "p = [BSLASH, BSLASH] @ srv @ [BSLASH] @ shr" "srv \<noteq> []" "shr \<noteq> []"
    "\<forall>c \<in> set (srv @ shr). c \<noteq> BSLASH \<and> c \<noteq> SLASH" by blast
  then have "takeWhile (\<lambda>c. c \<noteq> BSLASH \<and> c \<noteq> SLASH) (srv @ BSLASH # shr) = srv"
    "dropWhile (\<lambda>c. c \<noteq> BSLASH \<and> c \<noteq> SLASH) (srv @ BSLASH # shr) = BSLASH # shr"
    by (auto simp: takeWhile_append dropWhile_append)
  then show "mountPathPattern p"
    using p by (auto simp: mountPathPattern_def Let_def list_all_iff)
qed

end
