(* ===== verification/Vfs.thy ===== *)
theory Vfs
  imports Path Smb2_Types
begin

text \<open>
  Package \<open>vfs\<close> and the attribute helpers of \<open>internal/smb2/util.go\<close>: file attributes with
  their presence mask, permissions, the file system interface the server calls, and what the
  server derives from attributes. A mandatory attribute that is absent makes its getter panic
  (\<open>None\<close>). A \<open>time.Time\<close> is its \<open>UnixNano()\<close>.
\<close>

type_synonym gotime = u64

section \<open>Attributes (\<open>vfs/attributes.go\<close>)\<close>

datatype FileType = FileTypeRegularFile | FileTypeDirectory | FileTypeSymlink | FileTypeBlockDevice
  | FileTypeCharacterDevice | FileTypeFIFO | FileTypeSocket | FileTypeNamedAttributeDir
  | FileTypeNamedAttribute | FileTypeOther

record Attributes =
  Attributes_fieldsPresent :: u32
  Attributes_changeID :: u64
  Attributes_deviceNumber :: u64
  Attributes_fileHandle :: u64
  Attributes_fileType :: FileType
  Attributes_inodeNumber :: u64
  Attributes_mTime :: gotime
  Attributes_aTime :: gotime
  Attributes_cTime :: gotime
  Attributes_bTime :: gotime
  Attributes_linkCount :: u32
  Attributes_permissions :: u8
  Attributes_sizeBytes :: u64
  Attributes_diskSize :: u64
  Attributes_uid :: u32
  Attributes_gid :: u32
  Attributes_unixMode :: u32

text \<open>\<open>new(Attributes)\<close>\<close>

definition Attributes_new :: Attributes where
  "Attributes_new = \<lparr>Attributes_fieldsPresent = 0, Attributes_changeID = 0, Attributes_deviceNumber = 0, Attributes_fileHandle = 0,
     Attributes_fileType = FileTypeRegularFile, Attributes_inodeNumber = 0, Attributes_mTime = 0,
     Attributes_aTime = 0, Attributes_cTime = 0, Attributes_bTime = 0,
     Attributes_linkCount = 0, Attributes_permissions = 0, Attributes_sizeBytes = 0,
     Attributes_diskSize = 0, Attributes_uid = 0, Attributes_gid = 0,
     Attributes_unixMode = 0\<rparr>"

definition Attributes_has :: "u32 \<Rightarrow> Attributes \<Rightarrow> bool" where
  "Attributes_has m a \<longleftrightarrow> Attributes_fieldsPresent a AND m \<noteq> 0"

definition Attributes_GetChangeID :: "Attributes \<Rightarrow> u64 option" where
  "Attributes_GetChangeID a = (if Attributes_has 0x1 a then Some (Attributes_changeID a) else None)"

definition Attributes_SetChangeID :: "u64 \<Rightarrow> Attributes \<Rightarrow> Attributes" where
  "Attributes_SetChangeID v a = a\<lparr>Attributes_changeID := v, Attributes_fieldsPresent := Attributes_fieldsPresent a OR 0x1\<rparr>"

definition Attributes_GetDeviceNumber :: "Attributes \<Rightarrow> u64 \<times> bool" where
  "Attributes_GetDeviceNumber a = (Attributes_deviceNumber a, Attributes_has 0x2 a)"

definition Attributes_SetDeviceNumber :: "u64 \<Rightarrow> Attributes \<Rightarrow> Attributes" where
  "Attributes_SetDeviceNumber v a = a\<lparr>Attributes_deviceNumber := v, Attributes_fieldsPresent := Attributes_fieldsPresent a OR 0x2\<rparr>"

definition Attributes_GetFileHandle :: "Attributes \<Rightarrow> u64 option" where
  "Attributes_GetFileHandle a = (if Attributes_has 0x4 a then Some (Attributes_fileHandle a) else None)"

definition Attributes_SetFileHandle :: "u64 \<Rightarrow> Attributes \<Rightarrow> Attributes" where
  "Attributes_SetFileHandle v a = a\<lparr>Attributes_fileHandle := v, Attributes_fieldsPresent := Attributes_fieldsPresent a OR 0x4\<rparr>"

definition Attributes_GetFileType :: "Attributes \<Rightarrow> FileType option" where
  "Attributes_GetFileType a = (if Attributes_has 0x8 a then Some (Attributes_fileType a) else None)"

definition Attributes_SetFileType :: "FileType \<Rightarrow> Attributes \<Rightarrow> Attributes" where
  "Attributes_SetFileType v a = a\<lparr>Attributes_fileType := v, Attributes_fieldsPresent := Attributes_fieldsPresent a OR 0x8\<rparr>"

definition Attributes_GetInodeNumber :: "Attributes \<Rightarrow> u64 option" where
  "Attributes_GetInodeNumber a = (if Attributes_has 0x10 a then Some (Attributes_inodeNumber a) else None)"

definition Attributes_SetInodeNumber :: "u64 \<Rightarrow> Attributes \<Rightarrow> Attributes" where
  "Attributes_SetInodeNumber v a = a\<lparr>Attributes_inodeNumber := v, Attributes_fieldsPresent := Attributes_fieldsPresent a OR 0x10\<rparr>"

definition Attributes_GetLastDataModificationTime :: "Attributes \<Rightarrow> gotime \<times> bool" where
  "Attributes_GetLastDataModificationTime a = (Attributes_mTime a, Attributes_has 0x20 a)"

definition Attributes_SetLastDataModificationTime :: "gotime \<Rightarrow> Attributes \<Rightarrow> Attributes" where
  "Attributes_SetLastDataModificationTime v a = a\<lparr>Attributes_mTime := v, Attributes_fieldsPresent := Attributes_fieldsPresent a OR 0x20\<rparr>"

definition Attributes_GetAccessTime :: "Attributes \<Rightarrow> gotime \<times> bool" where
  "Attributes_GetAccessTime a = (Attributes_aTime a, Attributes_has 0x40 a)"

definition Attributes_SetAccessTime :: "gotime \<Rightarrow> Attributes \<Rightarrow> Attributes" where
  "Attributes_SetAccessTime v a = a\<lparr>Attributes_aTime := v, Attributes_fieldsPresent := Attributes_fieldsPresent a OR 0x40\<rparr>"

definition Attributes_GetLastStatusChangeTime :: "Attributes \<Rightarrow> gotime \<times> bool" where
  "Attributes_GetLastStatusChangeTime a = (Attributes_cTime a, Attributes_has 0x80 a)"

definition Attributes_SetLastStatusChangeTime :: "gotime \<Rightarrow> Attributes \<Rightarrow> Attributes" where
  "Attributes_SetLastStatusChangeTime v a = a\<lparr>Attributes_cTime := v, Attributes_fieldsPresent := Attributes_fieldsPresent a OR 0x80\<rparr>"

definition Attributes_GetBirthTime :: "Attributes \<Rightarrow> gotime \<times> bool" where
  "Attributes_GetBirthTime a = (Attributes_bTime a, Attributes_has 0x100 a)"

definition Attributes_SetBirthTime :: "gotime \<Rightarrow> Attributes \<Rightarrow> Attributes" where
  "Attributes_SetBirthTime v a = a\<lparr>Attributes_bTime := v, Attributes_fieldsPresent := Attributes_fieldsPresent a OR 0x100\<rparr>"

definition Attributes_GetLinkCount :: "Attributes \<Rightarrow> u32 option" where
  "Attributes_GetLinkCount a = (if Attributes_has 0x200 a then Some (Attributes_linkCount a) else None)"

definition Attributes_SetLinkCount :: "u32 \<Rightarrow> Attributes \<Rightarrow> Attributes" where
  "Attributes_SetLinkCount v a = a\<lparr>Attributes_linkCount := v, Attributes_fieldsPresent := Attributes_fieldsPresent a OR 0x200\<rparr>"

definition Attributes_GetPermissions :: "Attributes \<Rightarrow> u8 \<times> bool" where
  "Attributes_GetPermissions a = (Attributes_permissions a, Attributes_has 0x400 a)"

definition Attributes_SetPermissions :: "u8 \<Rightarrow> Attributes \<Rightarrow> Attributes" where
  "Attributes_SetPermissions v a = a\<lparr>Attributes_permissions := v, Attributes_fieldsPresent := Attributes_fieldsPresent a OR 0x400\<rparr>"

definition Attributes_GetSizeBytes :: "Attributes \<Rightarrow> u64 \<times> bool" where
  "Attributes_GetSizeBytes a = (Attributes_sizeBytes a, Attributes_has 0x800 a)"

definition Attributes_SetSizeBytes :: "u64 \<Rightarrow> Attributes \<Rightarrow> Attributes" where
  "Attributes_SetSizeBytes v a = a\<lparr>Attributes_sizeBytes := v, Attributes_fieldsPresent := Attributes_fieldsPresent a OR 0x800\<rparr>"

definition Attributes_GetDiskSizeBytes :: "Attributes \<Rightarrow> u64 \<times> bool" where
  "Attributes_GetDiskSizeBytes a = (Attributes_diskSize a, Attributes_has 0x1000 a)"

definition Attributes_SetDiskSizeBytes :: "u64 \<Rightarrow> Attributes \<Rightarrow> Attributes" where
  "Attributes_SetDiskSizeBytes v a = a\<lparr>Attributes_diskSize := v, Attributes_fieldsPresent := Attributes_fieldsPresent a OR 0x1000\<rparr>"

definition Attributes_GetUID :: "Attributes \<Rightarrow> u32 \<times> bool" where
  "Attributes_GetUID a = (Attributes_uid a, Attributes_has 0x2000 a)"

definition Attributes_SetUID :: "u32 \<Rightarrow> Attributes \<Rightarrow> Attributes" where
  "Attributes_SetUID v a = a\<lparr>Attributes_uid := v, Attributes_fieldsPresent := Attributes_fieldsPresent a OR 0x2000\<rparr>"

definition Attributes_GetGID :: "Attributes \<Rightarrow> u32 \<times> bool" where
  "Attributes_GetGID a = (Attributes_gid a, Attributes_has 0x4000 a)"

definition Attributes_SetGID :: "u32 \<Rightarrow> Attributes \<Rightarrow> Attributes" where
  "Attributes_SetGID v a = a\<lparr>Attributes_gid := v, Attributes_fieldsPresent := Attributes_fieldsPresent a OR 0x4000\<rparr>"

definition Attributes_GetUnixMode :: "Attributes \<Rightarrow> u32 \<times> bool" where
  "Attributes_GetUnixMode a = (Attributes_unixMode a, Attributes_has 0x8000 a)"

definition Attributes_SetUnixMode :: "u32 \<Rightarrow> Attributes \<Rightarrow> Attributes" where
  "Attributes_SetUnixMode v a = a\<lparr>Attributes_unixMode := v AND 0xFFF, Attributes_fieldsPresent := Attributes_fieldsPresent a OR 0x8000\<rparr>"

lemmas Attributes_get_defs = Attributes_GetChangeID_def
  Attributes_GetDeviceNumber_def
  Attributes_GetFileHandle_def
  Attributes_GetFileType_def
  Attributes_GetInodeNumber_def
  Attributes_GetLastDataModificationTime_def
  Attributes_GetAccessTime_def
  Attributes_GetLastStatusChangeTime_def
  Attributes_GetBirthTime_def
  Attributes_GetLinkCount_def
  Attributes_GetPermissions_def
  Attributes_GetSizeBytes_def
  Attributes_GetDiskSizeBytes_def
  Attributes_GetUID_def
  Attributes_GetGID_def
  Attributes_GetUnixMode_def

lemmas Attributes_set_defs = Attributes_SetChangeID_def
  Attributes_SetDeviceNumber_def
  Attributes_SetFileHandle_def
  Attributes_SetFileType_def
  Attributes_SetInodeNumber_def
  Attributes_SetLastDataModificationTime_def
  Attributes_SetAccessTime_def
  Attributes_SetLastStatusChangeTime_def
  Attributes_SetBirthTime_def
  Attributes_SetLinkCount_def
  Attributes_SetPermissions_def
  Attributes_SetSizeBytes_def
  Attributes_SetDiskSizeBytes_def
  Attributes_SetUID_def
  Attributes_SetGID_def
  Attributes_SetUnixMode_def

section \<open>Permissions (\<open>vfs/permissions.go\<close>)\<close>

abbreviation (input) "PermissionsRead \<equiv> (1 :: u8)"
abbreviation (input) "PermissionsWrite \<equiv> (2 :: u8)"
abbreviation (input) "PermissionsExecute \<equiv> (4 :: u8)"

definition NewPermissionsFromMode :: "u32 \<Rightarrow> u8" where
  "NewPermissionsFromMode m =
     (if m AND 0x124 \<noteq> 0 then PermissionsRead else 0) OR
     (if m AND 0x92 \<noteq> 0 then PermissionsWrite else 0) OR
     (if m AND 0x49 \<noteq> 0 then PermissionsExecute else 0)"

definition Permissions_ToMode :: "u8 \<Rightarrow> u32" where
  "Permissions_ToMode p =
     (if p AND PermissionsRead \<noteq> 0 then 0x124 else 0) OR
     (if p AND PermissionsWrite \<noteq> 0 then 0x80 else 0) OR
     (if p AND PermissionsExecute \<noteq> 0 then 0x49 else 0)"

section \<open>File system attributes (\<open>vfs/fs_attributes.go\<close>)\<close>

record FSAttributes =
  FSAttributes_fieldsPresent :: u32
  FSAttributes_bsize :: u64
  FSAttributes_iosize :: u64
  FSAttributes_blocks :: u64
  FSAttributes_bfree :: u64
  FSAttributes_bavail :: u64
  FSAttributes_files :: u64
  FSAttributes_ffree :: u64

definition FSAttributes_GetBlockSize :: "FSAttributes \<Rightarrow> u64 \<times> bool" where
  "FSAttributes_GetBlockSize a = (FSAttributes_bsize a, FSAttributes_fieldsPresent a AND 0x1 \<noteq> 0)"

definition FSAttributes_SetBlockSize :: "u64 \<Rightarrow> FSAttributes \<Rightarrow> FSAttributes" where
  "FSAttributes_SetBlockSize v a = a\<lparr>FSAttributes_bsize := v, FSAttributes_fieldsPresent := FSAttributes_fieldsPresent a OR 0x1\<rparr>"

definition FSAttributes_GetIOkSize :: "FSAttributes \<Rightarrow> u64 \<times> bool" where
  "FSAttributes_GetIOkSize a = (FSAttributes_iosize a, FSAttributes_fieldsPresent a AND 0x2 \<noteq> 0)"

definition FSAttributes_SetIOSize :: "u64 \<Rightarrow> FSAttributes \<Rightarrow> FSAttributes" where
  "FSAttributes_SetIOSize v a = a\<lparr>FSAttributes_iosize := v, FSAttributes_fieldsPresent := FSAttributes_fieldsPresent a OR 0x2\<rparr>"

definition FSAttributes_GetBlocks :: "FSAttributes \<Rightarrow> u64 \<times> bool" where
  "FSAttributes_GetBlocks a = (FSAttributes_blocks a, FSAttributes_fieldsPresent a AND 0x4 \<noteq> 0)"

definition FSAttributes_SetBlocks :: "u64 \<Rightarrow> FSAttributes \<Rightarrow> FSAttributes" where
  "FSAttributes_SetBlocks v a = a\<lparr>FSAttributes_blocks := v, FSAttributes_fieldsPresent := FSAttributes_fieldsPresent a OR 0x4\<rparr>"

definition FSAttributes_GetFreeBlocks :: "FSAttributes \<Rightarrow> u64 \<times> bool" where
  "FSAttributes_GetFreeBlocks a = (FSAttributes_bfree a, FSAttributes_fieldsPresent a AND 0x8 \<noteq> 0)"

definition FSAttributes_SetFreeBlocks :: "u64 \<Rightarrow> FSAttributes \<Rightarrow> FSAttributes" where
  "FSAttributes_SetFreeBlocks v a = a\<lparr>FSAttributes_bfree := v, FSAttributes_fieldsPresent := FSAttributes_fieldsPresent a OR 0x8\<rparr>"

definition FSAttributes_GetAvailableBlocks :: "FSAttributes \<Rightarrow> u64 \<times> bool" where
  "FSAttributes_GetAvailableBlocks a = (FSAttributes_bavail a, FSAttributes_fieldsPresent a AND 0x10 \<noteq> 0)"

definition FSAttributes_SetAvailableBlocks :: "u64 \<Rightarrow> FSAttributes \<Rightarrow> FSAttributes" where
  "FSAttributes_SetAvailableBlocks v a = a\<lparr>FSAttributes_bavail := v, FSAttributes_fieldsPresent := FSAttributes_fieldsPresent a OR 0x10\<rparr>"

definition FSAttributes_GetFiles :: "FSAttributes \<Rightarrow> u64 \<times> bool" where
  "FSAttributes_GetFiles a = (FSAttributes_files a, FSAttributes_fieldsPresent a AND 0x20 \<noteq> 0)"

definition FSAttributes_SetFiles :: "u64 \<Rightarrow> FSAttributes \<Rightarrow> FSAttributes" where
  "FSAttributes_SetFiles v a = a\<lparr>FSAttributes_files := v, FSAttributes_fieldsPresent := FSAttributes_fieldsPresent a OR 0x20\<rparr>"

definition FSAttributes_GetFreeFiles :: "FSAttributes \<Rightarrow> u64 \<times> bool" where
  "FSAttributes_GetFreeFiles a = (FSAttributes_ffree a, FSAttributes_fieldsPresent a AND 0x40 \<noteq> 0)"

definition FSAttributes_SetFreeFiles :: "u64 \<Rightarrow> FSAttributes \<Rightarrow> FSAttributes" where
  "FSAttributes_SetFreeFiles v a = a\<lparr>FSAttributes_ffree := v, FSAttributes_fieldsPresent := FSAttributes_fieldsPresent a OR 0x40\<rparr>"

section \<open>The file system interface (\<open>vfs/vfs.go\<close>)\<close>

text \<open>The classes of errors the server tells apart.\<close>

datatype vfs_error = VE_EOF | VE_NoSpace | VE_NotExist | VE_Exist | VE_Permission | VE_BadHandle | VE_Other

record DirInfo =
  DirInfo_Name :: go_string
  DirInfo_Attributes :: Attributes

abbreviation (input) "ReadDirContinue \<equiv> (0 :: nat)"
abbreviation (input) "ReadDirRestart \<equiv> (1 :: nat)"

text \<open>A \<open>VFSFileSystem\<close>: its methods on a state of type \<open>'f\<close>. Attributes are present exactly when
  there is no error. A method that fills a buffer gets the buffer's length (for \<open>Getxattr\<close> none when the
  buffer is nil) and returns how much it reports and what it wrote. \<open>Rename\<close> may panic (\<open>None\<close>).\<close>

record 'f vfs =
  vfs_GetAttr :: "u64 \<Rightarrow> 'f \<Rightarrow> (vfs_error + Attributes) \<times> 'f"
  vfs_SetAttr :: "u64 \<Rightarrow> Attributes \<Rightarrow> 'f \<Rightarrow> (vfs_error + Attributes) \<times> 'f"
  vfs_StatFS :: "u64 \<Rightarrow> 'f \<Rightarrow> (vfs_error + FSAttributes option) \<times> 'f"
  vfs_Flush :: "u64 \<Rightarrow> 'f \<Rightarrow> vfs_error option \<times> 'f"
  vfs_Open :: "go_string \<Rightarrow> u32 \<Rightarrow> u32 \<Rightarrow> 'f \<Rightarrow> (vfs_error + u64) \<times> 'f"
  vfs_Close :: "u64 \<Rightarrow> 'f \<Rightarrow> vfs_error option \<times> 'f"
  vfs_Lookup :: "u64 \<Rightarrow> go_string \<Rightarrow> 'f \<Rightarrow> (vfs_error + Attributes) \<times> 'f"
  vfs_Mkdir :: "go_string \<Rightarrow> u32 \<Rightarrow> 'f \<Rightarrow> (vfs_error + Attributes) \<times> 'f"
  vfs_Read :: "u64 \<Rightarrow> nat \<Rightarrow> u64 \<Rightarrow> 'f \<Rightarrow> (bytes \<times> vfs_error option) \<times> 'f"
  vfs_Write :: "u64 \<Rightarrow> bytes \<Rightarrow> u64 \<Rightarrow> u32 \<Rightarrow> 'f \<Rightarrow> (nat \<times> vfs_error option) \<times> 'f"
  vfs_OpenDir :: "go_string \<Rightarrow> 'f \<Rightarrow> (vfs_error + u64) \<times> 'f"
  vfs_ReadDir :: "u64 \<Rightarrow> nat \<Rightarrow> nat \<Rightarrow> 'f \<Rightarrow> (vfs_error + DirInfo list) \<times> 'f"
  vfs_Readlink :: "u64 \<Rightarrow> 'f \<Rightarrow> (vfs_error + go_string) \<times> 'f"
  vfs_Unlink :: "u64 \<Rightarrow> 'f \<Rightarrow> vfs_error option \<times> 'f"
  vfs_Truncate :: "u64 \<Rightarrow> u64 \<Rightarrow> 'f \<Rightarrow> vfs_error option \<times> 'f"
  vfs_Rename :: "u64 \<Rightarrow> go_string \<Rightarrow> u8 \<Rightarrow> 'f \<Rightarrow> vfs_error option option \<times> 'f"
  vfs_Symlink :: "u64 \<Rightarrow> go_string \<Rightarrow> u32 \<Rightarrow> 'f \<Rightarrow> (vfs_error + Attributes) \<times> 'f"
  vfs_Listxattr :: "u64 \<Rightarrow> 'f \<Rightarrow> (vfs_error + go_string list) \<times> 'f"
  vfs_Getxattr :: "u64 \<Rightarrow> go_string \<Rightarrow> nat option \<Rightarrow> 'f \<Rightarrow> ((nat \<times> bytes) \<times> vfs_error option) \<times> 'f"
  vfs_Setxattr :: "u64 \<Rightarrow> go_string \<Rightarrow> bytes \<Rightarrow> 'f \<Rightarrow> vfs_error option \<times> 'f"
  vfs_Removexattr :: "u64 \<Rightarrow> go_string \<Rightarrow> 'f \<Rightarrow> vfs_error option \<times> 'f"

section \<open>What the server derives from attributes (\<open>internal/smb2/util.go\<close>)\<close>

abbreviation (input) "FILE_ATTRIBUTE_READONLY \<equiv> (0x1 :: u32)"
abbreviation (input) "FILE_ATTRIBUTE_HIDDEN \<equiv> (0x2 :: u32)"
abbreviation (input) "FILE_ATTRIBUTE_DIRECTORY \<equiv> (0x10 :: u32)"
abbreviation (input) "FILE_ATTRIBUTE_ARCHIVE \<equiv> (0x20 :: u32)"
abbreviation (input) "FILE_ATTRIBUTE_NORMAL \<equiv> (0x80 :: u32)"
abbreviation (input) "FILE_ATTRIBUTE_REPARSE_POINT \<equiv> (0x400 :: u32)"

abbreviation (input) "FILE_READ_DATA \<equiv> (0x1 :: u32)"
abbreviation (input) "FILE_WRITE_DATA \<equiv> (0x2 :: u32)"
abbreviation (input) "FILE_APPEND_DATA \<equiv> (0x4 :: u32)"
abbreviation (input) "FILE_READ_EA \<equiv> (0x8 :: u32)"
abbreviation (input) "FILE_WRITE_EA \<equiv> (0x10 :: u32)"
abbreviation (input) "FILE_EXECUTE \<equiv> (0x20 :: u32)"
abbreviation (input) "FILE_DELETE_CHILD \<equiv> (0x40 :: u32)"
abbreviation (input) "FILE_READ_ATTRIBUTES \<equiv> (0x80 :: u32)"
abbreviation (input) "FILE_WRITE_ATTRIBUTES \<equiv> (0x100 :: u32)"
abbreviation (input) "DELETE \<equiv> (0x10000 :: u32)"
abbreviation (input) "READ_CONTROL \<equiv> (0x20000 :: u32)"
abbreviation (input) "WRITE_DAC \<equiv> (0x40000 :: u32)"
abbreviation (input) "WRITE_OWNER \<equiv> (0x80000 :: u32)"
abbreviation (input) "SYNCHRONIZE \<equiv> (0x100000 :: u32)"
abbreviation (input) "GENERIC_WRITE \<equiv> (0x40000000 :: u32)"

definition time_from_vfs :: "gotime \<times> bool \<Rightarrow> Filetime" where
  "time_from_vfs t = (if snd t then NsecToFiletime (fst t) else \<lparr>Filetime_LowDateTime = 0, Filetime_HighDateTime = 0\<rparr>)"

definition BirthTimeFromVfs :: "Attributes \<Rightarrow> Filetime" where
  "BirthTimeFromVfs a = time_from_vfs (Attributes_GetBirthTime a)"

definition AccessTimeFromVfs :: "Attributes \<Rightarrow> Filetime" where
  "AccessTimeFromVfs a = time_from_vfs (Attributes_GetAccessTime a)"

definition ModifiedTimeFromVfs :: "Attributes \<Rightarrow> Filetime" where
  "ModifiedTimeFromVfs a = time_from_vfs (Attributes_GetLastDataModificationTime a)"

definition ChangeTimeFromVfs :: "Attributes \<Rightarrow> Filetime" where
  "ChangeTimeFromVfs a = time_from_vfs (Attributes_GetLastStatusChangeTime a)"

definition SizeFromVfs :: "Attributes \<Rightarrow> u64" where
  "SizeFromVfs a = (case Attributes_GetSizeBytes a of (s, ok) \<Rightarrow> if ok then s else 0)"

definition DiskSizeFromVfs :: "Attributes \<Rightarrow> u64" where
  "DiskSizeFromVfs a = (case Attributes_GetDiskSizeBytes a of (s, ok) \<Rightarrow> if ok then s else SizeFromVfs a)"

definition UnixModeFromVfs :: "Attributes \<Rightarrow> u16 option" where
  "UnixModeFromVfs a = do {
     let m = (case Attributes_GetUnixMode a of (s, ok) \<Rightarrow> if ok then ucast s else (0x1FF :: u16));
     t \<leftarrow> Attributes_GetFileType a;
     Some (case t of FileTypeDirectory \<Rightarrow> m OR 0x4000 | FileTypeRegularFile \<Rightarrow> m OR 0x8000
             | FileTypeSymlink \<Rightarrow> m OR 0xa000 | _ \<Rightarrow> m) }"

text \<open>\<open>filepath.Base\<close>: trailing slashes off, then what follows the last slash.\<close>

definition filepath_Base :: "go_string \<Rightarrow> go_string" where
  "filepath_Base p =
     (if p = [] then [DOT]
      else let q = rev (dropWhile (\<lambda>c. c = SLASH) (rev p)) in
           let b = rev (takeWhile (\<lambda>c. c \<noteq> SLASH) (rev q)) in
           if b = [] then [SLASH] else b)"

definition PermissionsFromVfs :: "Attributes \<Rightarrow> go_string \<Rightarrow> u32 option" where
  "PermissionsFromVfs a path = do {
     let name = filepath_Base path;
     let perm = (if length name > 0 \<and> name ! 0 = DOT then FILE_ATTRIBUTE_HIDDEN OR FILE_ATTRIBUTE_ARCHIVE else 0);
     let perm = (case Attributes_GetPermissions a of (p, ok) \<Rightarrow>
         if ok then
           (if p AND PermissionsWrite = 0 \<and> p AND PermissionsRead = 0 \<and> p AND PermissionsExecute = 0 then FILE_ATTRIBUTE_HIDDEN
            else if p AND PermissionsWrite = 0 then FILE_ATTRIBUTE_READONLY
            else perm)
         else perm);
     t \<leftarrow> Attributes_GetFileType a;
     let perm = (if t = FileTypeRegularFile then perm OR FILE_ATTRIBUTE_ARCHIVE else perm);
     let perm = (if t = FileTypeDirectory then perm OR FILE_ATTRIBUTE_DIRECTORY else perm);
     let perm = (if t = FileTypeSymlink then perm OR FILE_ATTRIBUTE_REPARSE_POINT else perm);
     Some (if perm = 0 then FILE_ATTRIBUTE_NORMAL else perm) }"

definition MaxAccessFromVfs :: "Attributes \<Rightarrow> u32" where
  "MaxAccessFromVfs a =
     (let unixMode = (case Attributes_GetUnixMode a of (m, ok) \<Rightarrow> if ok then m else 0x1FF);
          acc = SYNCHRONIZE;
          acc = (if unixMode AND 0x104 \<noteq> 0 then
                   (let acc = acc OR FILE_READ_ATTRIBUTES OR FILE_READ_DATA OR FILE_READ_EA in
                    if unixMode AND 0x100 \<noteq> 0 then acc OR READ_CONTROL else acc)
                 else acc);
          acc = (if unixMode AND 0x82 \<noteq> 0 then
                   (let acc = acc OR FILE_WRITE_ATTRIBUTES OR FILE_WRITE_DATA OR FILE_WRITE_EA OR FILE_APPEND_DATA in
                    if unixMode AND 0x80 \<noteq> 0 then acc OR WRITE_DAC OR WRITE_OWNER OR DELETE OR FILE_DELETE_CHILD else acc)
                 else acc)
      in if unixMode AND 0x41 \<noteq> 0 then acc OR FILE_EXECUTE else acc)"

definition ContainsWildcard :: "go_string \<Rightarrow> bool" where
  "ContainsWildcard s \<longleftrightarrow> 0x2A \<in> set s \<or> 0x3F \<in> set s"

text \<open>\<open>strings.ReplaceAll\<close> for a single byte.\<close>

definition replace_byte :: "byte \<Rightarrow> bytes \<Rightarrow> go_string \<Rightarrow> go_string" where
  "replace_byte b r s = concat (map (\<lambda>c. if c = b then r else [c]) s)"

definition wildcardToRegexp :: "go_string \<Rightarrow> go_string" where
  "wildcardToRegexp pattern = [0x5E] @ replace_byte 0x2A [0x2E, 0x2A] (replace_byte 0x3F [0x2E] pattern) @ [0x24]"

text \<open>Package \<open>regexp\<close> is an argument: \<open>None\<close> where \<open>Compile\<close> fails, otherwise whether the
  expression matches.\<close>

definition MatchWildcard :: "(go_string \<Rightarrow> go_string \<Rightarrow> bool option) \<Rightarrow> go_string \<Rightarrow> go_string \<Rightarrow> bool" where
  "MatchWildcard re s pattern = (case re (wildcardToRegexp pattern) s of None \<Rightarrow> False | Some b \<Rightarrow> b)"

abbreviation (input) "COLON \<equiv> (0x3A :: byte)"

definition IsEA :: "go_string \<Rightarrow> bool" where
  "IsEA p \<longleftrightarrow> COLON \<in> set p"

text \<open>\<open>strings.Split\<close> at a single byte.\<close>

fun split_byte :: "byte \<Rightarrow> go_string \<Rightarrow> go_string list" where
  "split_byte b [] = [[]]"
| "split_byte b (c # s) = (if c = b then [] # split_byte b s
     else case split_byte b s of [] \<Rightarrow> [[c]] | x # xs \<Rightarrow> (c # x) # xs)"

definition SplitEA :: "go_string \<Rightarrow> (go_string \<times> go_string) option" where
  "SplitEA p = (let a = split_byte COLON p in do { x \<leftarrow> index_at a 0; y \<leftarrow> index_at a 1; Some (x, y) })"

section \<open>Properties\<close>

text \<open>Setting an attribute makes it readable and leaves the others alone.\<close>

lemma Attributes_has_or: "Attributes_has m (a\<lparr>Attributes_fieldsPresent := Attributes_fieldsPresent a OR k\<rparr>) \<longleftrightarrow>
    Attributes_has m a \<or> k AND m \<noteq> 0"
proof -
  have "(x OR k) AND m = 0 \<longleftrightarrow> x AND m = 0 \<and> k AND m = 0" for x :: u32
    by (auto simp: bit_eq_iff bit_simps)
  then show ?thesis by (simp add: Attributes_has_def)
qed

lemma SetUnixMode_get: "Attributes_GetUnixMode (Attributes_SetUnixMode m a) = (m AND 0xFFF, True)"
  by (simp add: Attributes_GetUnixMode_def Attributes_SetUnixMode_def Attributes_has_def bit.conj_disj_distrib2)

lemma SetUnixMode_frame:
  "Attributes_GetFileType (Attributes_SetUnixMode m a) = Attributes_GetFileType a"
  "Attributes_GetInodeNumber (Attributes_SetUnixMode m a) = Attributes_GetInodeNumber a"
  "Attributes_GetSizeBytes (Attributes_SetUnixMode m a) = Attributes_GetSizeBytes a"
  "Attributes_GetAccessTime (Attributes_SetUnixMode m a) = Attributes_GetAccessTime a"
  by (simp_all add: Attributes_get_defs Attributes_SetUnixMode_def Attributes_has_def bit.conj_disj_distrib2)

lemma split_byte_Nil [simp]: "split_byte b s \<noteq> []"
  by (cases s) (auto split: list.splits)

lemma split_byte_part: "x \<in> set (split_byte b s) \<Longrightarrow> b \<notin> set x"
  by (induction s arbitrary: x) (auto split: if_splits list.splits)

lemma split_byte_length: "length (split_byte b s) = Suc (count_list s b)"
  by (induction s) (auto split: list.splits)

lemma split_byte_join: "b \<notin> set x \<Longrightarrow> split_byte b (x @ b # s) = x # split_byte b s"
  by (induction x) auto

lemma SplitEA_total: "IsEA p \<Longrightarrow> \<exists>n k. SplitEA p = Some (n, k) \<and> COLON \<notin> set n \<and> COLON \<notin> set k"
proof -
  assume "IsEA p"
  then have l: "2 \<le> length (split_byte COLON p)"
    by (simp add: IsEA_def split_byte_length count_list_0_iff Suc_le_eq neq0_conv [symmetric] del: neq0_conv)
  then have "COLON \<notin> set (split_byte COLON p ! 0)" "COLON \<notin> set (split_byte COLON p ! 1)"
    using split_byte_part [of _ COLON p] nth_mem [of 0 "split_byte COLON p"] nth_mem [of 1 "split_byte COLON p"] by auto
  then show ?thesis using l by (simp add: SplitEA_def index_at_def Let_def)
qed

text \<open>Every attribute word the server sends has a bit set.\<close>

lemma PermissionsFromVfs_nonzero: "PermissionsFromVfs a p = Some w \<Longrightarrow> w \<noteq> 0"
  by (auto simp: PermissionsFromVfs_def Let_def split: Option.bind_splits if_splits prod.splits)

lemma PermissionsFromVfs_Some: "Attributes_GetFileType a = Some t \<Longrightarrow> \<exists>w. PermissionsFromVfs a p = Some w"
  by (simp add: PermissionsFromVfs_def Let_def)

lemma MaxAccess_write_iff:
  "MaxAccessFromVfs a AND FILE_WRITE_DATA \<noteq> 0 \<longleftrightarrow>
     (case Attributes_GetUnixMode a of (m, ok) \<Rightarrow> ok \<longrightarrow> m AND 0x82 \<noteq> 0)"
  by (auto simp: MaxAccessFromVfs_def Let_def split: prod.split)

lemma MaxAccess_read_iff:
  "MaxAccessFromVfs a AND FILE_READ_DATA \<noteq> 0 \<longleftrightarrow>
     (case Attributes_GetUnixMode a of (m, ok) \<Rightarrow> ok \<longrightarrow> m AND 0x104 \<noteq> 0)"
  by (auto simp: MaxAccessFromVfs_def Let_def split: prod.split)

end
