(* ===== verification/Opens.thy ===== *)
theory Opens
  imports Conn_Send Vfs "HOL-Library.AList"
begin

text \<open>
  The table of open files of \<open>server/server.go\<close>: \<open>Open\<close> and \<open>Lease\<close>, the operations on
  \<open>Server.opens\<close> and \<open>Server.deletePending\<close>, and the oplock and lease breaks. A Go map is an association list; its
  order stands for the order in which the runtime enumerates it. The pointer to an \<open>Open\<close> is its key in the table, so a
  handler that writes a field stores the record again with \<open>set_open\<close>. An open refers to its connection by number.
  The map \<open>opensByGuid\<close> is \<open>None\<close> while it is nil, which in \<open>NewServer\<close> it is.
\<close>

section \<open>Opens and their table\<close>

datatype OpLockState = LOCKSTATE_NONE | LOCKSTATE_HELD | LOCKSTATE_BREAKING

abbreviation (input) "SMB2_OPLOCK_LEVEL_NONE \<equiv> (0 :: u8)"
abbreviation (input) "SMB2_OPLOCK_LEVEL_II \<equiv> (1 :: u8)"
abbreviation (input) "SMB2_OPLOCK_LEVEL_EXCLUSIVE \<equiv> (8 :: u8)"
abbreviation (input) "SMB2_OPLOCK_LEVEL_LEASE \<equiv> (0xFF :: u8)"
abbreviation (input) "SMB2_LEASE_NONE \<equiv> (0 :: u32)"
abbreviation (input) "SMB2_NOTIFY_BREAK_LEASE_FLAG_ACK_REQUIRED \<equiv> (1 :: u32)"

record Lease =
  Lease_LeaseKey :: bytes
  Lease_LeaseState :: u32
  Lease_LeaseFlags :: u32
  Lease_LeaseDuration :: u64
  Lease_ParentLeaseKey :: bytes
  Lease_Epoch :: u16
  Lease_Version :: int
  Lease_Breaking :: bool
  Lease_BreakToState :: u32

record Open =
  Open_fileId :: u64
  Open_durableFileId :: u64
  Open_conn :: "nat option"
  Open_treeId :: u32
  Open_grantedAccess :: u32
  Open_oplockLevel :: u8
  Open_oplockState :: OpLockState
  Open_isDurable :: bool
  Open_durableOpenTimeout :: u32
  Open_pathName :: go_string
  Open_fileName :: go_string
  Open_createOptions :: u32
  Open_deleteOnClose :: bool
  Open_createDisposition :: u32
  Open_fileAttributes :: u32
  Open_lease :: "Lease option"
  Open_notifyReq :: "bytes option"
  Open_notifyReqAsyncId :: u64
  Open_queryDirectoryPending :: "DirInfo list"
  Open_queryDirectorySingleName :: go_string
  Open_queryDirectorySingleDone :: bool
  Open_isEa :: bool
  Open_eaKey :: go_string
  Open_isSymlink :: bool
  Open_posixSemantics :: bool
  Open_createGuid :: bytes
  Open_isPersistent :: bool

record open_table =
  tab_opens :: "(u64 \<times> Open) list"
  tab_opensByGuid :: "(bytes \<times> Open) list option"
  tab_deletePending :: "u64 \<Rightarrow> bool"

definition new_table :: open_table where
  "new_table = \<lparr>tab_opens = [], tab_opensByGuid = None, tab_deletePending = (\<lambda>_. False)\<rparr>"

text \<open>Assigning into a nil map panics; deleting from one does nothing.\<close>

definition Server_addOpen :: "Open \<Rightarrow> open_table \<Rightarrow> open_table option" where
  "Server_addOpen o' t = do {
     let t = t\<lparr>tab_opens := AList.update (Open_fileId o') o' (tab_opens t)\<rparr>;
     if Open_isDurable o'
     then map_option (\<lambda>m. t\<lparr>tab_opensByGuid := Some (AList.update (Open_createGuid o') o' m)\<rparr>) (tab_opensByGuid t)
     else Some t }"

definition Server_getOpen :: "u64 \<Rightarrow> open_table \<Rightarrow> Open option" where
  "Server_getOpen fileId t = map_of (tab_opens t) fileId"

text \<open>A write through the pointer that \<open>getOpen\<close> returned.\<close>

definition set_open :: "Open \<Rightarrow> open_table \<Rightarrow> open_table" where
  "set_open o' t = t\<lparr>tab_opens := AList.update (Open_fileId o') o' (tab_opens t)\<rparr>"

definition Server_deleteOpen :: "u64 \<Rightarrow> open_table \<Rightarrow> open_table" where
  "Server_deleteOpen fileId t =
     (case Server_getOpen fileId t of
        None \<Rightarrow> t
      | Some o' \<Rightarrow>
          let t = t\<lparr>tab_opens := AList.delete fileId (tab_opens t)\<rparr> in
          if Open_isDurable o' then t\<lparr>tab_opensByGuid := map_option (AList.delete (Open_createGuid o')) (tab_opensByGuid t)\<rparr> else t)"

definition Server_setDeletePending :: "u64 \<Rightarrow> bool \<Rightarrow> open_table \<Rightarrow> open_table" where
  "Server_setDeletePending node pending t = t\<lparr>tab_deletePending := (tab_deletePending t)(node := pending)\<rparr>"

definition Server_isDeletePending :: "u64 \<Rightarrow> open_table \<Rightarrow> bool" where
  "Server_isDeletePending node t = tab_deletePending t node"

definition Server_closeOpen :: "Open \<Rightarrow> open_table \<Rightarrow> bool \<times> open_table" where
  "Server_closeOpen o' t =
     (let node = Open_durableFileId o';
          t = (if Open_deleteOnClose o' then Server_setDeletePending node True t else t);
          t = t\<lparr>tab_opens := AList.delete (Open_fileId o') (tab_opens t)\<rparr>;
          t = (if Open_isDurable o' then t\<lparr>tab_opensByGuid := map_option (AList.delete (Open_createGuid o')) (tab_opensByGuid t)\<rparr> else t)
      in if \<not> tab_deletePending t node then (False, t)
         else if list_ex (\<lambda>(_, other). Open_durableFileId other = node) (tab_opens t) then (False, t)
         else (True, Server_setDeletePending node False t))"

section \<open>Breaking oplocks and leases\<close>

definition Server_opensForNode :: "u64 \<Rightarrow> open_table \<Rightarrow> Open list" where
  "Server_opensForNode node t = filter (\<lambda>o'. Open_durableFileId o' = node) (map snd (tab_opens t))"

definition notification_header :: PacketHeader where
  "notification_header = zero_header\<lparr>hdr_CreditRequestResponse := 1, hdr_MessageId := MSGID_NONE\<rparr>"

definition FileId_zero :: FileId where
  "FileId_zero = \<lparr>FileId_Persistent = replicate 8 0, FileId_Volatile = replicate 8 0\<rparr>"

definition oplock_break_msg :: "Open \<Rightarrow> OplockBreakNotification" where
  "oplock_break_msg o' =
     \<lparr>OplockBreakNotification_Header = notification_header\<lparr>hdr_Flags := SMB2_FLAGS_SERVER_TO_REDIR\<rparr>,
      OplockBreakNotification_OplockLevel = SMB2_OPLOCK_LEVEL_NONE,
      OplockBreakNotification_FileId =
        Some (FileId_SetNodeId (Open_durableFileId o') (FileId_SetHandleId (Open_fileId o') FileId_zero))\<rparr>"

text \<open>What a break does to the open; \<open>None\<close> where nothing is sent.\<close>

definition oplock_break_open :: "Open \<Rightarrow> Open option" where
  "oplock_break_open o' =
     (if Open_oplockState o' = LOCKSTATE_BREAKING then None
      else if Open_oplockLevel o' = SMB2_OPLOCK_LEVEL_II
      then Some (o'\<lparr>Open_oplockLevel := SMB2_OPLOCK_LEVEL_NONE, Open_oplockState := LOCKSTATE_NONE\<rparr>)
      else Some (o'\<lparr>Open_oplockState := LOCKSTATE_BREAKING\<rparr>))"

definition lease_break_open :: "Open \<Rightarrow> (Open \<times> Lease) option" where
  "lease_break_open o' =
     (case Open_lease o' of
        None \<Rightarrow> None
      | Some l \<Rightarrow>
          if Lease_Breaking l then None
          else (let l = l\<lparr>Lease_Epoch := Lease_Epoch l + 1, Lease_Breaking := True, Lease_BreakToState := SMB2_LEASE_NONE\<rparr>
                in Some (o'\<lparr>Open_lease := Some l, Open_oplockState := LOCKSTATE_BREAKING\<rparr>, l)))"

text \<open>The notification has a field \<open>Flags\<close> of its own, so the assignment meant for the header goes there.\<close>

definition lease_break_msg :: "Lease \<Rightarrow> LeaseBreakNotification" where
  "lease_break_msg l =
     \<lparr>LeaseBreakNotification_Header = notification_header, LeaseBreakNotification_NewEpoch = Lease_Epoch l,
      LeaseBreakNotification_Flags = SMB2_FLAGS_SERVER_TO_REDIR, LeaseBreakNotification_LeaseKey = Lease_LeaseKey l,
      LeaseBreakNotification_CurrentLeaseState = Lease_LeaseState l, LeaseBreakNotification_NewLeaseState = SMB2_LEASE_NONE,
      LeaseBreakNotification_BreakReason = 0, LeaseBreakNotification_AccessMaskHint = 0, LeaseBreakNotification_ShareMaskHint = 0\<rparr>"

text \<open>The open after the break and the packet to send on its connection.\<close>

definition Server_sendOplockBreak :: "Open \<Rightarrow> Open \<times> packet option" where
  "Server_sendOplockBreak o' =
     (case oplock_break_open o' of None \<Rightarrow> (o', None)
      | Some b \<Rightarrow> (b, Some (OplockBreakNotification_packet (oplock_break_msg o'))))"

definition Server_sendLeaseBreak :: "Open \<Rightarrow> Open \<times> packet option" where
  "Server_sendLeaseBreak o' =
     (case lease_break_open o' of None \<Rightarrow> (o', None)
      | Some (b, l) \<Rightarrow> (b, Some (LeaseBreakNotification_packet (lease_break_msg l))))"

definition Server_breakOpen :: "Open \<Rightarrow> Open \<times> packet option" where
  "Server_breakOpen o' =
     (if Open_conn o' = None then (o', None)
      else if Open_oplockLevel o' = SMB2_OPLOCK_LEVEL_NONE then (o', None)
      else if Open_oplockLevel o' = SMB2_OPLOCK_LEVEL_LEASE then Server_sendLeaseBreak o'
      else Server_sendOplockBreak o')"

text \<open>The loop of \<open>BreakNode\<close> over the opens of a node: a failed send is logged and the loop goes on.\<close>

fun Server_BreakNode_loop :: "(bytes \<Rightarrow> bytes) \<Rightarrow> (nat \<Rightarrow> send_io) \<Rightarrow> bytes \<Rightarrow> Open list \<Rightarrow> (nat \<Rightarrow> conn) \<Rightarrow> open_table \<Rightarrow>
    ((nat \<Rightarrow> conn) \<times> open_table) option" where
  "Server_BreakNode_loop sha io nonce [] conns t = Some (conns, t)"
| "Server_BreakNode_loop sha io nonce (o' # os) conns t = do {
     let (b, p) = Server_breakOpen o';
     let t = set_open b t;
     conns \<leftarrow> (case (p, Open_conn o') of
         (Some p, Some i) \<Rightarrow> do { (c, _, _) \<leftarrow> conn_sendPacket sha (io i) nonce (conns i) p None None; Some (conns(i := c)) }
       | _ \<Rightarrow> Some conns);
     Server_BreakNode_loop sha io nonce os conns t }"

definition Server_BreakNode :: "(bytes \<Rightarrow> bytes) \<Rightarrow> (nat \<Rightarrow> send_io) \<Rightarrow> bytes \<Rightarrow> u64 \<Rightarrow> (nat \<Rightarrow> conn) \<Rightarrow> open_table \<Rightarrow>
    ((nat \<Rightarrow> conn) \<times> open_table) option" where
  "Server_BreakNode sha io nonce node conns t = Server_BreakNode_loop sha io nonce (Server_opensForNode node t) conns t"

text \<open>Acknowledging a break, as \<open>oplockBreak\<close> writes it into the open.\<close>

definition oplock_ack :: "u8 \<Rightarrow> Open \<Rightarrow> Open" where
  "oplock_ack level o' = o'\<lparr>Open_oplockLevel := level,
     Open_oplockState := (if level = SMB2_OPLOCK_LEVEL_NONE then LOCKSTATE_NONE else LOCKSTATE_HELD)\<rparr>"

definition lease_ack :: "u32 \<Rightarrow> Lease \<Rightarrow> Open \<Rightarrow> Open" where
  "lease_ack state l o' =
     (let o' = o'\<lparr>Open_lease := Some (l\<lparr>Lease_LeaseState := state, Lease_Breaking := False\<rparr>), Open_oplockState := LOCKSTATE_HELD\<rparr>
      in if state = SMB2_LEASE_NONE
         then o'\<lparr>Open_oplockLevel := SMB2_OPLOCK_LEVEL_NONE, Open_oplockState := LOCKSTATE_NONE\<rparr> else o')"

section \<open>Deletion on the last close\<close>

text \<open>What the handlers rely on: a table of handles, each on a node, with a mark on the nodes to delete. Closing a handle reports
  whether the node is to be removed now.\<close>

locale delete_table =
  fixes inv :: "'t \<Rightarrow> bool"
    and get :: "u64 \<Rightarrow> 't \<Rightarrow> 'o option"
    and pending :: "u64 \<Rightarrow> 't \<Rightarrow> bool"
    and add :: "'o \<Rightarrow> 't \<Rightarrow> 't option"
    and mark :: "u64 \<Rightarrow> bool \<Rightarrow> 't \<Rightarrow> 't"
    and close :: "'o \<Rightarrow> 't \<Rightarrow> bool \<times> 't"
    and hid node :: "'o \<Rightarrow> u64"
    and del :: "'o \<Rightarrow> bool"
  assumes get_hid: "inv t \<Longrightarrow> get h t = Some x \<Longrightarrow> hid x = h"
    and add_inv: "inv t \<Longrightarrow> add x t = Some t' \<Longrightarrow> inv t'"
    and get_add: "add x t = Some t' \<Longrightarrow> get h t' = (if h = hid x then Some x else get h t)"
    and pending_add: "add x t = Some t' \<Longrightarrow> pending n t' = pending n t"
    and mark_inv: "inv t \<Longrightarrow> inv (mark n b t)"
    and get_mark: "get h (mark n b t) = get h t"
    and pending_mark: "pending m (mark n b t) = (if m = n then b else pending m t)"
    and close_inv: "inv t \<Longrightarrow> inv (snd (close x t))"
    and get_close: "inv t \<Longrightarrow> get h (snd (close x t)) = (if h = hid x then None else get h t)"
    and close_reports: "inv t \<Longrightarrow> fst (close x t) \<longleftrightarrow>
      (pending (node x) t \<or> del x) \<and> (\<forall>h y. h \<noteq> hid x \<longrightarrow> get h t = Some y \<longrightarrow> node y \<noteq> node x)"
    and pending_close: "inv t \<Longrightarrow> pending n (snd (close x t)) \<longleftrightarrow>
      (if n = node x then \<not> fst (close x t) \<and> (pending n t \<or> del x) else pending n t)"
begin

text \<open>A marked node has a handle: every operation keeps that, so a mark never outlives the last handle.\<close>

definition marked_open :: "'t \<Rightarrow> bool" where
  "marked_open t \<longleftrightarrow> (\<forall>n. pending n t \<longrightarrow> (\<exists>h x. get h t = Some x \<and> node x = n))"

lemma marked_open_add:
  assumes "add x t = Some t'" "\<And>y. get (hid x) t = Some y \<Longrightarrow> node y = node x" "marked_open t"
  shows "marked_open t'"
  unfolding marked_open_def
proof (intro allI impI)
  fix n assume "pending n t'"
  then obtain h y where "get h t = Some y" "node y = n" using assms(1,3) by (auto simp: marked_open_def pending_add)
  then show "\<exists>h x. get h t' = Some x \<and> node x = n"
    using get_add [OF assms(1)] assms(2) by (cases "h = hid x") auto
qed

lemma marked_open_mark:
  assumes "get h t = Some x" "marked_open t"
  shows "marked_open (mark (node x) b t)"
  unfolding marked_open_def get_mark pending_mark
proof (intro allI impI)
  fix n assume "if n = node x then b else pending n t"
  then show "\<exists>h y. get h t = Some y \<and> node y = n"
    using assms by (cases "n = node x") (auto simp: marked_open_def)
qed

lemma marked_open_close:
  assumes "inv t" "get (hid x) t = Some x" "marked_open t"
  shows "marked_open (snd (close x t))"
  unfolding marked_open_def
proof (intro allI impI)
  fix n assume p: "pending n (snd (close x t))"
  obtain h y where "h \<noteq> hid x" "get h t = Some y" "node y = n"
  proof (cases "n = node x")
    case True
    then show ?thesis
      using p that assms(1) pending_close [OF assms(1), of n x] close_reports [OF assms(1), of x] by auto
  next
    case False
    then have "pending n t" using p pending_close [OF assms(1)] by simp
    then obtain h y where "get h t = Some y" "node y = n" using assms(3) by (auto simp: marked_open_def)
    moreover from this have "h \<noteq> hid x" using assms(2) False by auto
    ultimately show ?thesis using that by blast
  qed
  then show "\<exists>h y. get h (snd (close x t)) = Some y \<and> node y = n" using get_close [OF assms(1)] by auto
qed

text \<open>With the invariant, the node is removed exactly by the close after which no handle of a marked node is left.\<close>

lemma close_last:
  assumes "inv t" "get (hid x) t = Some x"
  shows "fst (close x t) \<longleftrightarrow> (pending (node x) t \<or> del x) \<and> (\<nexists>h y. get h (snd (close x t)) = Some y \<and> node y = node x)"
proof -
  have "(\<nexists>h y. get h (snd (close x t)) = Some y \<and> node y = node x) \<longleftrightarrow>
      (\<forall>h y. h \<noteq> hid x \<longrightarrow> get h t = Some y \<longrightarrow> node y \<noteq> node x)"
    unfolding get_close [OF assms(1)] by (metis option.distinct(1))
  then show ?thesis using close_reports [OF assms(1), of x] by blast
qed

end

text \<open>The table of the server: keys are unique and are the handles of their opens.\<close>

definition table_ok :: "open_table \<Rightarrow> bool" where
  "table_ok t \<longleftrightarrow> distinct (map fst (tab_opens t)) \<and> list_all (\<lambda>(h, x). Open_fileId x = h) (tab_opens t)"

lemma list_all_update:
  "list_all P xs \<Longrightarrow> P (k, v) \<Longrightarrow> list_all P (AList.update k v xs)"
  by (induction xs) auto

lemma list_all_delete: "list_all P xs \<Longrightarrow> list_all P (AList.delete k xs)"
  by (induction xs) auto

lemma table_ok_new [simp]: "table_ok new_table"
  by (simp add: table_ok_def new_table_def)

lemma list_ex_map_of:
  assumes "distinct (map fst xs)"
  shows "list_ex (\<lambda>(_, x). P x) xs \<longleftrightarrow> (\<exists>k x. map_of xs k = Some x \<and> P x)"
proof -
  have "list_ex (\<lambda>(_, x). P x) xs \<longleftrightarrow> (\<exists>k x. (k, x) \<in> set xs \<and> P x)" by (auto simp: list_ex_iff)
  then show ?thesis using map_of_eq_Some_iff [OF assms] by simp
qed

lemma map_of_fileId: "table_ok t \<Longrightarrow> Server_getOpen h t = Some x \<Longrightarrow> Open_fileId x = h"
  by (auto simp: table_ok_def Server_getOpen_def list_all_iff dest: map_of_SomeD)

lemma table_ok_add: "table_ok t \<Longrightarrow> Server_addOpen x t = Some t' \<Longrightarrow> table_ok t'"
  by (auto simp: table_ok_def Server_addOpen_def Let_def distinct_update list_all_update split: if_splits)

lemma table_ok_close: "table_ok t \<Longrightarrow> table_ok (snd (Server_closeOpen x t))"
  by (simp add: table_ok_def Server_closeOpen_def Server_setDeletePending_def Let_def distinct_delete list_all_delete)

lemma table_ok_set_open: "table_ok t \<Longrightarrow> table_ok (set_open x t)"
  by (simp add: table_ok_def set_open_def distinct_update list_all_update)

lemma getOpen_set_open: "Server_getOpen h (set_open x t) = (if h = Open_fileId x then Some x else Server_getOpen h t)"
  by (simp add: Server_getOpen_def set_open_def update_conv')

lemma pending_set_open: "Server_isDeletePending n (set_open x t) = Server_isDeletePending n t"
  by (simp add: Server_isDeletePending_def set_open_def)

lemma getOpen_closeOpen: "Server_getOpen h (snd (Server_closeOpen x t)) = (if h = Open_fileId x then None else Server_getOpen h t)"
  by (simp add: Server_getOpen_def Server_closeOpen_def Server_setDeletePending_def Let_def delete_conv')

lemma closeOpen_reports:
  assumes "table_ok t"
  shows "fst (Server_closeOpen x t) \<longleftrightarrow> (Server_isDeletePending (Open_durableFileId x) t \<or> Open_deleteOnClose x) \<and>
    (\<forall>h y. h \<noteq> Open_fileId x \<longrightarrow> Server_getOpen h t = Some y \<longrightarrow> Open_durableFileId y \<noteq> Open_durableFileId x)"
proof -
  have "distinct (map fst (AList.delete (Open_fileId x) (tab_opens t)))"
    using assms by (simp add: table_ok_def distinct_delete)
  note ex = list_ex_map_of [OF this, of "\<lambda>y. Open_durableFileId y = Open_durableFileId x"]
  show ?thesis
    by (simp add: Server_closeOpen_def Server_setDeletePending_def Let_def ex Server_isDeletePending_def delete_conv')
      (auto simp: Server_getOpen_def)
qed

lemma pending_closeOpen:
  "Server_isDeletePending n (snd (Server_closeOpen x t)) \<longleftrightarrow>
     (if n = Open_durableFileId x then \<not> fst (Server_closeOpen x t) \<and> (Server_isDeletePending n t \<or> Open_deleteOnClose x)
      else Server_isDeletePending n t)"
  by (simp add: Server_closeOpen_def Server_setDeletePending_def Server_isDeletePending_def Let_def)

interpretation opens: delete_table table_ok Server_getOpen Server_isDeletePending Server_addOpen Server_setDeletePending
  Server_closeOpen Open_fileId Open_durableFileId Open_deleteOnClose
proof unfold_locales
  show "Server_addOpen x t = Some t' \<Longrightarrow> Server_getOpen h t' = (if h = Open_fileId x then Some x else Server_getOpen h t)" for x t t' h
    by (auto simp: Server_addOpen_def Server_getOpen_def Let_def update_conv' split: if_splits)
  show "Server_addOpen x t = Some t' \<Longrightarrow> Server_isDeletePending n t' = Server_isDeletePending n t" for x t t' n
    by (auto simp: Server_addOpen_def Server_isDeletePending_def Let_def split: if_splits)
  show "Server_getOpen h (Server_setDeletePending n b t) = Server_getOpen h t" for h n b t
    by (simp add: Server_getOpen_def Server_setDeletePending_def)
  show "Server_isDeletePending m (Server_setDeletePending n b t) = (if m = n then b else Server_isDeletePending m t)" for m n b t
    by (simp add: Server_isDeletePending_def Server_setDeletePending_def)
  show "table_ok t \<Longrightarrow> table_ok (Server_setDeletePending n b t)" for n b t
    by (simp add: table_ok_def Server_setDeletePending_def)
qed (rule map_of_fileId table_ok_add table_ok_close getOpen_closeOpen closeOpen_reports pending_closeOpen; assumption?)+

section \<open>Tables the server reaches\<close>

text \<open>The uses the handlers make of the table: \<open>create\<close> adds an open under a handle that the file system has just
  given out, \<open>setInfo\<close> marks or unmarks the node of an open, any handler writes fields of an open other than its
  identity, \<open>close\<close> closes it.\<close>

inductive table_reach :: "open_table \<Rightarrow> bool" where
  table_init: "table_reach new_table"
| table_create: "table_reach t \<Longrightarrow> Server_getOpen (Open_fileId x) t = None \<Longrightarrow> Server_addOpen x t = Some t' \<Longrightarrow> table_reach t'"
| table_mark: "table_reach t \<Longrightarrow> Server_getOpen h t = Some x \<Longrightarrow> table_reach (Server_setDeletePending (Open_durableFileId x) b t)"
| table_write: "table_reach t \<Longrightarrow> Server_getOpen h t = Some x \<Longrightarrow> Open_fileId y = Open_fileId x \<Longrightarrow>
    Open_durableFileId y = Open_durableFileId x \<Longrightarrow> table_reach (set_open y t)"
| table_close: "table_reach t \<Longrightarrow> Server_getOpen h t = Some x \<Longrightarrow> table_reach (snd (Server_closeOpen x t))"

lemma marked_open_set:
  assumes "table_ok t" "Server_getOpen h t = Some x" "Open_fileId y = Open_fileId x" "Open_durableFileId y = Open_durableFileId x"
    and "opens.marked_open t"
  shows "opens.marked_open (set_open y t)"
  unfolding opens.marked_open_def
proof (intro allI impI)
  fix n assume "Server_isDeletePending n (set_open y t)"
  then obtain g z where z: "Server_getOpen g t = Some z" "Open_durableFileId z = n"
    using assms(5) by (auto simp: opens.marked_open_def pending_set_open)
  moreover have "Open_fileId y = h" using assms by (simp add: map_of_fileId)
  ultimately show "\<exists>h x. Server_getOpen h (set_open y t) = Some x \<and> Open_durableFileId x = n"
    using assms(2,4) by (cases "g = h") (auto simp: getOpen_set_open)
qed

lemma table_reach_ok: "table_reach t \<Longrightarrow> table_ok t \<and> opens.marked_open t"
proof (induction rule: table_reach.induct)
  case table_init
  have "opens.marked_open new_table"
    unfolding opens.marked_open_def by (simp add: new_table_def Server_isDeletePending_def)
  then show ?case by simp
next
  case (table_create t x t')
  then show ?case using opens.marked_open_add [of x t t'] by (auto simp: table_ok_add)
next
  case (table_mark t h x b)
  then show ?case using opens.marked_open_mark [of h t x b] opens.mark_inv by blast
next
  case (table_write t h x y)
  then show ?case using marked_open_set [of t h x y] by (auto simp: table_ok_set_open)
next
  case (table_close t h x)
  moreover from this have "Open_fileId x = h" by (auto simp: map_of_fileId)
  ultimately show ?case using opens.marked_open_close [of t x] by (auto simp: table_ok_close)
qed

text \<open>C19. Delete on last close. In every table the server can reach, by any sequence of creates, dispositions, writes to
  opens and closes: a node marked for deletion still has an open handle (so a mark cannot stay behind and block the name for ever),
  and \<open>closeOpen\<close> asks for the removal of the file exactly when the node is marked or the handle is delete-on-close and the close
  leaves no handle on the node; after it no mark is left on the node.\<close>

theorem delete_on_last_close:
  assumes "table_reach t"
  shows "(Server_isDeletePending n t \<longrightarrow> (\<exists>h x. Server_getOpen h t = Some x \<and> Open_durableFileId x = n)) \<and>
    (Server_getOpen h t = Some x \<longrightarrow>
      (fst (Server_closeOpen x t) \<longleftrightarrow> (Server_isDeletePending (Open_durableFileId x) t \<or> Open_deleteOnClose x) \<and>
        (\<nexists>g y. Server_getOpen g (snd (Server_closeOpen x t)) = Some y \<and> Open_durableFileId y = Open_durableFileId x)) \<and>
      (fst (Server_closeOpen x t) \<longrightarrow> \<not> Server_isDeletePending (Open_durableFileId x) (snd (Server_closeOpen x t))))"
proof -
  have ok: "table_ok t" "opens.marked_open t" using table_reach_ok [OF assms] by auto
  then have "Server_getOpen h t = Some x \<Longrightarrow> Server_getOpen (Open_fileId x) t = Some x" using map_of_fileId by auto
  then show ?thesis
    using ok opens.close_last [OF ok(1), of x] pending_closeOpen [of "Open_durableFileId x" x t]
    by (auto simp: opens.marked_open_def)
qed

definition sample_open :: Open where
  "sample_open = \<lparr>Open_fileId = 7, Open_durableFileId = 42, Open_conn = Some 0, Open_treeId = 1, Open_grantedAccess = 0,
     Open_oplockLevel = SMB2_OPLOCK_LEVEL_EXCLUSIVE, Open_oplockState = LOCKSTATE_HELD, Open_isDurable = False,
     Open_durableOpenTimeout = 0, Open_pathName = [0x61], Open_fileName = [], Open_createOptions = 0, Open_deleteOnClose = True,
     Open_createDisposition = 1, Open_fileAttributes = 0, Open_lease = None, Open_notifyReq = None, Open_notifyReqAsyncId = 0,
     Open_queryDirectoryPending = [], Open_queryDirectorySingleName = [], Open_queryDirectorySingleDone = False,
     Open_isEa = False, Open_eaKey = [], Open_isSymlink = False, Open_posixSemantics = False,
     Open_createGuid = replicate 16 0, Open_isPersistent = False\<rparr>"

lemma sample_open_sel [simp]: "Open_fileId sample_open = 7" "Open_durableFileId sample_open = 42"
  "Open_deleteOnClose sample_open" "\<not> Open_isDurable sample_open" "Open_oplockLevel sample_open = 8"
  "Open_oplockState sample_open = LOCKSTATE_HELD" "Open_conn sample_open = Some 0"
  by (simp_all add: sample_open_def)

text \<open>Two handles on one node, the first delete-on-close.\<close>

definition sample_table :: open_table where
  "sample_table = new_table\<lparr>tab_opens := [(7, sample_open), (8, sample_open\<lparr>Open_fileId := 8, Open_deleteOnClose := False\<rparr>)]\<rparr>"

lemma sample_table_reach: "table_reach sample_table"
proof -
  have "table_reach (new_table\<lparr>tab_opens := [(7, sample_open)]\<rparr>)"
    by (rule table_create [OF table_init, of sample_open]) (simp_all add: Server_getOpen_def Server_addOpen_def new_table_def)
  then show ?thesis unfolding sample_table_def
    by (rule table_create [where x = "sample_open\<lparr>Open_fileId := 8, Open_deleteOnClose := False\<rparr>"])
      (simp_all add: Server_getOpen_def Server_addOpen_def new_table_def)
qed

theorem delete_on_last_close_witness:
  "\<not> fst (Server_closeOpen sample_open sample_table) \<and>
   Server_isDeletePending 42 (snd (Server_closeOpen sample_open sample_table)) \<and>
   fst (Server_closeOpen (sample_open\<lparr>Open_fileId := 8, Open_deleteOnClose := False\<rparr>) (snd (Server_closeOpen sample_open sample_table)))"
proof -
  let ?t = "snd (Server_closeOpen sample_open sample_table)"
  have g: "Server_getOpen 7 sample_table = Some sample_open" by (simp add: Server_getOpen_def sample_table_def)
  have g8: "Server_getOpen 8 ?t = Some (sample_open\<lparr>Open_fileId := 8, Open_deleteOnClose := False\<rparr>)"
    by (simp add: getOpen_closeOpen) (simp add: Server_getOpen_def sample_table_def)
  have "\<exists>g y. Server_getOpen g ?t = Some y \<and> Open_durableFileId y = Open_durableFileId sample_open"
    by (intro exI conjI) (rule g8, simp)
  then have "\<not> fst (Server_closeOpen sample_open sample_table)"
    using delete_on_last_close [OF sample_table_reach, of 42 7 sample_open] g by blast
  moreover from this have p: "Server_isDeletePending 42 ?t" by (simp add: pending_closeOpen)
  moreover have "table_reach ?t" using sample_table_reach g by (rule table_close)
  note delete_on_last_close [OF this, of 42 8 "sample_open\<lparr>Open_fileId := 8, Open_deleteOnClose := False\<rparr>"]
  then have "fst (Server_closeOpen (sample_open\<lparr>Open_fileId := 8, Open_deleteOnClose := False\<rparr>) ?t)"
    using g8 p by (simp add: getOpen_closeOpen) (simp add: Server_getOpen_def sample_table_def)
  ultimately show ?thesis by blast
qed

section \<open>Breaks are sent once\<close>

lemma break_conn [simp]: "Open_conn (fst (Server_breakOpen x)) = Open_conn x"
  and break_ids [simp]: "Open_fileId (fst (Server_breakOpen x)) = Open_fileId x"
    "Open_durableFileId (fst (Server_breakOpen x)) = Open_durableFileId x"
  by (auto simp: Server_breakOpen_def Server_sendLeaseBreak_def Server_sendOplockBreak_def oplock_break_open_def
      lease_break_open_def Let_def split: option.splits)

text \<open>An open that holds nothing a client could still cache under: no oplock, one being broken, or a lease level without a
  lease, which is never broken.\<close>

definition broken :: "Open \<Rightarrow> bool" where
  "broken x \<longleftrightarrow> Open_conn x = None \<or> Open_oplockLevel x = SMB2_OPLOCK_LEVEL_NONE \<or> Open_oplockState x = LOCKSTATE_BREAKING \<or>
     Open_oplockLevel x = SMB2_OPLOCK_LEVEL_LEASE \<and> Open_lease x = None"

text \<open>A lease is marked as breaking exactly while its open is.\<close>

definition lease_sync :: "Open \<Rightarrow> bool" where
  "lease_sync x \<longleftrightarrow> (\<forall>l. Open_oplockLevel x = SMB2_OPLOCK_LEVEL_LEASE \<longrightarrow> Open_lease x = Some l \<longrightarrow>
     (Lease_Breaking l \<longleftrightarrow> Open_oplockState x = LOCKSTATE_BREAKING))"

lemma break_broken: "lease_sync x \<Longrightarrow> broken (fst (Server_breakOpen x))"
  by (auto simp: broken_def lease_sync_def Server_breakOpen_def Server_sendLeaseBreak_def Server_sendOplockBreak_def
      oplock_break_open_def lease_break_open_def Let_def split: option.splits)

lemma break_again: "Server_breakOpen (fst (Server_breakOpen x)) = (fst (Server_breakOpen x), None)"
  by (auto simp: Server_breakOpen_def Server_sendLeaseBreak_def Server_sendOplockBreak_def oplock_break_open_def
      lease_break_open_def Let_def split: option.splits)

lemma break_packet_ok: "Server_breakOpen x = (y, Some p) \<Longrightarrow> packet_ok p"
  using OplockBreakNotification_pkt.packet_of_ok LeaseBreakNotification_pkt.packet_of_ok
  by (auto simp: Server_breakOpen_def Server_sendLeaseBreak_def Server_sendOplockBreak_def split: option.splits if_splits)

lemma sendPacket_sends:
  assumes "packet_ok p" "sends_plain c tc"
  obtains c' e where "conn_sendPacket sha io nonce c p tc None = Some (c', None, e)" "\<And>tc. sends_plain c' tc = sends_plain c tc"
proof -
  obtain q hdr w a where "conn_sendPacket sha io nonce c p tc None =
       (let c = c\<lparr>conn_sequenceWindow := w, conn_account := a\<rparr>;
            c = (if conn_serverState c = STATE_SESSION_ACTIVE then c else conn_calcPreauthHash sha q c);
            (c, e) = send_result io q c
        in Some (c, None, e))"
    using sendPacket_single [OF assms] by metis
  then show ?thesis
    using that by (cases io) (auto simp: Let_def send_result_def sends_plain_def conn_calcPreauthHash_def split: if_splits)
qed

definition break_opens :: "Open list \<Rightarrow> open_table \<Rightarrow> open_table" where
  "break_opens = fold (\<lambda>x. set_open (fst (Server_breakOpen x)))"

lemma BreakNode_loop_eq:
  "\<forall>i. sends_plain (conns i) None \<Longrightarrow>
     \<exists>conns'. Server_BreakNode_loop sha io nonce xs conns t = Some (conns', break_opens xs t)"
proof (induction xs arbitrary: conns t)
  case Nil
  then show ?case by (simp add: break_opens_def)
next
  case (Cons x xs)
  obtain y p where b: "Server_breakOpen x = (y, p)" by fastforce
  have "\<exists>conns'. (\<forall>i. sends_plain (conns' i) None) \<and> (case (p, Open_conn x) of
      (Some p, Some i) \<Rightarrow> do { (c, _, _) \<leftarrow> conn_sendPacket sha (io i) nonce (conns i) p None None; Some (conns(i := c)) }
    | _ \<Rightarrow> Some conns) = Some conns'"
  proof (cases p; cases "Open_conn x")
    fix q i assume p: "p = Some q" "Open_conn x = Some i"
    obtain c' e where "conn_sendPacket sha (io i) nonce (conns i) q None None = Some (c', None, e)"
      "\<And>tc. sends_plain c' tc = sends_plain (conns i) tc"
      using sendPacket_sends [OF break_packet_ok [OF b [unfolded p(1)]] Cons.prems [THEN spec]] by metis
    then show ?thesis using p Cons.prems by (intro exI [of _ "conns(i := c')"]) auto
  qed (use Cons.prems in auto)
  then obtain conns' where c: "\<forall>i. sends_plain (conns' i) None" "(case (p, Open_conn x) of
      (Some p, Some i) \<Rightarrow> do { (c, _, _) \<leftarrow> conn_sendPacket sha (io i) nonce (conns i) p None None; Some (conns(i := c)) }
    | _ \<Rightarrow> Some conns) = Some conns'" by blast
  obtain conns'' where "Server_BreakNode_loop sha io nonce xs conns' (set_open y t) = Some (conns'', break_opens xs (set_open y t))"
    using Cons.IH [OF c(1)] by blast
  then show ?case using c(2) b by (simp add: break_opens_def)
qed

lemma table_ok_break: "table_ok t \<Longrightarrow> table_ok (break_opens xs t)"
  unfolding break_opens_def by (induction xs arbitrary: t) (simp_all add: table_ok_set_open)

lemma getOpen_break:
  assumes "distinct (map Open_fileId xs)"
  shows "Server_getOpen h (break_opens xs t) =
    (case find (\<lambda>x. Open_fileId x = h) xs of Some x \<Rightarrow> Some (fst (Server_breakOpen x)) | None \<Rightarrow> Server_getOpen h t)"
  using assms unfolding break_opens_def
proof (induction xs arbitrary: t)
  case (Cons x xs)
  have "find (\<lambda>x. Open_fileId x = h) xs = None" if "Open_fileId x = h"
    using Cons.prems that unfolding find_None_iff by (metis distinct.simps(2) image_eqI list.set_map list.simps(9))
  then show ?case using Cons by (auto simp: getOpen_set_open split: option.split)
qed simp

lemma update_same: "map_of xs k = Some v \<Longrightarrow> AList.update k v xs = xs"
  by (induction xs) auto

lemma BreakNode_loop_quiet:
  "(\<And>x. x \<in> set xs \<Longrightarrow> Server_breakOpen x = (x, None) \<and> Server_getOpen (Open_fileId x) t = Some x) \<Longrightarrow>
     Server_BreakNode_loop sha io nonce xs conns t = Some (conns, t)"
proof (induction xs)
  case (Cons x xs)
  then have "set_open x t = t" by (simp add: set_open_def Server_getOpen_def update_same)
  then show ?case using Cons by simp
qed simp

lemma opensForNode_get:
  assumes "table_ok t"
  shows "x \<in> set (Server_opensForNode n t) \<longleftrightarrow> Open_durableFileId x = n \<and> Server_getOpen (Open_fileId x) t = Some x"
    "distinct (map Open_fileId (Server_opensForNode n t))"
proof -
  have m: "map Open_fileId (map snd (tab_opens t)) = map fst (tab_opens t)"
    using assms by (auto simp: table_ok_def list_all_iff)
  then show "distinct (map Open_fileId (Server_opensForNode n t))"
    unfolding Server_opensForNode_def using assms by (intro distinct_map_filter) (simp only: table_ok_def)
  have d: "distinct (map fst (tab_opens t))" using assms by (simp add: table_ok_def)
  have "x \<in> snd ` set (tab_opens t) \<longleftrightarrow> (Open_fileId x, x) \<in> set (tab_opens t)"
    using assms by (auto simp: table_ok_def list_all_iff image_iff intro: bexI [of _ "(Open_fileId x, x)"])
  then show "x \<in> set (Server_opensForNode n t) \<longleftrightarrow> Open_durableFileId x = n \<and> Server_getOpen (Open_fileId x) t = Some x"
    unfolding Server_getOpen_def map_of_eq_Some_iff [OF d] by (auto simp: Server_opensForNode_def)
qed



end
