(* ===== verification/Ntlm.thy ===== *)
theory Ntlm
  imports Smb2_Types Block_Cipher
begin

text \<open>
  \<open>internal/ntlm\<close>: the NTLMv2 messages, the server and the client side of the handshake and the
  message security of the session. MD4, MD5, HMAC-MD5, RC4, CRC-32 and \<open>strings.ToUpper\<close> are library
  functions and an argument of the model (\<open>ntlm_crypto\<close>; digests are cut to 16 bytes). The clock
  and \<open>rand.Read\<close> are arguments. \<open>None\<close> is a panic.
\<close>

record ntlm_crypto =
  nc_md4 :: "bytes \<Rightarrow> bytes"
  nc_md5 :: "bytes \<Rightarrow> bytes"
  nc_hmac_md5 :: "bytes \<Rightarrow> bytes \<Rightarrow> bytes"
  nc_rc4 :: "bytes \<Rightarrow> nat \<Rightarrow> byte"
  nc_crc32 :: "bytes \<Rightarrow> u32"
  nc_ToUpper :: "go_string \<Rightarrow> go_string"

definition md4 :: "ntlm_crypto \<Rightarrow> bytes \<Rightarrow> bytes" where
  "md4 C m = take 16 (nc_md4 C m @ replicate 16 0)"

definition md5 :: "ntlm_crypto \<Rightarrow> bytes \<Rightarrow> bytes" where
  "md5 C m = take 16 (nc_md5 C m @ replicate 16 0)"

definition hmac_md5 :: "ntlm_crypto \<Rightarrow> bytes \<Rightarrow> bytes \<Rightarrow> bytes" where
  "hmac_md5 C k m = take 16 (nc_hmac_md5 C k m @ replicate 16 0)"

text \<open>An RC4 object is its key and its position in the key stream.\<close>

type_synonym rc4 = "bytes \<times> nat"

definition rc4_NewCipher :: "bytes \<Rightarrow> rc4 option" where
  "rc4_NewCipher key = (if length key < 1 \<or> 256 < length key then None else Some (key, 0))"

definition rc4_XORKeyStream :: "ntlm_crypto \<Rightarrow> bytes \<Rightarrow> rc4 \<Rightarrow> bytes \<times> rc4" where
  "rc4_XORKeyStream C src h =
     (xor_bytes src (map (nc_rc4 C (fst h)) [snd h..<snd h + length src]), (fst h, snd h + length src))"

section \<open>Constants\<close>

definition ntlm_version :: bytes where
  "ntlm_version = [0x0a, 0, 0, 0, 0, 0, 0, 0x0f]"

definition ntlm_signature :: bytes where
  "ntlm_signature = [0x4e, 0x54, 0x4c, 0x4d, 0x53, 0x53, 0x50, 0]"

abbreviation (input) "NtLmNegotiate \<equiv> (1 :: u32)"
abbreviation (input) "NtLmChallenge \<equiv> (2 :: u32)"
abbreviation (input) "NtLmAuthenticate \<equiv> (3 :: u32)"

abbreviation (input) "NTLMSSP_REQUEST_TARGET \<equiv> (0x4 :: u32)"
abbreviation (input) "NTLMSSP_NEGOTIATE_SIGN \<equiv> (0x10 :: u32)"
abbreviation (input) "NTLMSSP_NEGOTIATE_SEAL \<equiv> (0x20 :: u32)"
abbreviation (input) "NTLMSSP_NEGOTIATE_DATAGRAM \<equiv> (0x40 :: u32)"
abbreviation (input) "NTLMSSP_NEGOTIATE_LM_KEY \<equiv> (0x80 :: u32)"
abbreviation (input) "NTLMSSP_NEGOTIATE_EXTENDED_SESSIONSECURITY \<equiv> (0x80000 :: u32)"
abbreviation (input) "NTLMSSP_NEGOTIATE_TARGET_INFO \<equiv> (0x800000 :: u32)"
abbreviation (input) "NTLMSSP_NEGOTIATE_VERSION \<equiv> (0x2000000 :: u32)"
abbreviation (input) "NTLMSSP_NEGOTIATE_128 \<equiv> (0x20000000 :: u32)"
abbreviation (input) "NTLMSSP_NEGOTIATE_KEY_EXCH \<equiv> (0x40000000 :: u32)"
abbreviation (input) "NTLMSSP_NEGOTIATE_56 \<equiv> (0x80000000 :: u32)"

text \<open>56, KEY_EXCH, 128, TARGET_INFO, EXTENDED_SESSIONSECURITY, ALWAYS_SIGN, NTLM, SIGN,
  REQUEST_TARGET, UNICODE, VERSION.\<close>

definition defaultFlags :: u32 where
  "defaultFlags = 0xE2888215"

abbreviation (input) "MsvAvEOL \<equiv> (0 :: u16)"
abbreviation (input) "MsvAvNbComputerName \<equiv> (1 :: u16)"
abbreviation (input) "MsvAvNbDomainName \<equiv> (2 :: u16)"
abbreviation (input) "MsvAvDnsComputerName \<equiv> (3 :: u16)"
abbreviation (input) "MsvAvDnsDomainName \<equiv> (4 :: u16)"
abbreviation (input) "MsvAvDnsTreeName \<equiv> (5 :: u16)"
abbreviation (input) "MsvAvFlags \<equiv> (6 :: u16)"
abbreviation (input) "MsvAvTimestamp \<equiv> (7 :: u16)"
abbreviation (input) "MsvAvTargetName \<equiv> (9 :: u16)"
abbreviation (input) "MsvAvChannelBindings \<equiv> (10 :: u16)"

datatype ntlm_error = NE_too_short | NE_signature | NE_type | NE_flags | NE_format | NE_user | NE_login | NE_key
  | NE_empty | NE_rand

text \<open>A step that can fail with an error or panic, followed by another.\<close>

definition and_then :: "('e + 'a) option \<Rightarrow> ('a \<Rightarrow> ('e + 'b) option) \<Rightarrow> ('e + 'b) option" where
  "and_then r f = (case r of None \<Rightarrow> None | Some (Inl e) \<Rightarrow> Some (Inl e) | Some (Inr x) \<Rightarrow> f x)"

lemma and_then_simps [simp]:
  "and_then None f = None" "and_then (Some (Inl e)) f = Some (Inl e)" "and_then (Some (Inr x)) f = f x"
  by (simp_all add: and_then_def)

section \<open>\<open>ntlm.go\<close>\<close>

definition ntowfv2Hash :: "ntlm_crypto \<Rightarrow> bytes \<Rightarrow> bytes \<Rightarrow> bytes \<Rightarrow> bytes" where
  "ntowfv2Hash C USER hash domain = hmac_md5 C hash (USER @ domain)"

definition ntowfv2 :: "ntlm_crypto \<Rightarrow> bytes \<Rightarrow> bytes \<Rightarrow> bytes \<Rightarrow> bytes" where
  "ntowfv2 C USER password domain = ntowfv2Hash C USER (md4 C password) domain"

text \<open>\<open>h\<close> is the authentication code under the response key; the destination is returned.\<close>

definition encodeNtlmv2Response :: "(bytes \<Rightarrow> bytes) \<Rightarrow> bytes \<Rightarrow> bytes \<Rightarrow> bytes \<Rightarrow> writer \<Rightarrow> writer" where
  "encodeNtlmv2Response h serverChallenge clientChallenge timeStamp targetInfo dst = do {
     dst \<leftarrow> on_from 16 (writes [
       put8 0 1,
       put8 1 1,
       copy_slice 8 16 timeStamp,
       copy_slice 16 24 clientChallenge,
       on_from 28 targetInfo]) dst;
     Some (upd 0 (h (serverChallenge @ drop 16 dst)) dst) }"

definition bytesEncoder_encode :: "bytes \<Rightarrow> writer" where
  "bytesEncoder_encode b = copy_from 0 b"

text \<open>The values of the map are slices of the parsed bytes: their offset there and their bytes.\<close>

type_synonym av_map = "u16 \<Rightarrow> (nat \<times> bytes) option"

function parseAvPairs_loop :: "nat \<Rightarrow> av_map \<Rightarrow> bytes \<Rightarrow> av_map option" where
  "parseAvPairs_loop off pairs bs =
     (if length bs = 0 then Some pairs
      else if length bs < 4 then None
      else
        let avId = word_of_le (rd 0 2 bs) :: u16;
            n = unat (word_of_le (rd 2 2 bs) :: u16) in
        if length bs < 4 + n then None
        else parseAvPairs_loop (off + 4 + n) (pairs(avId \<mapsto> (off + 4, rd 4 n bs))) (drop (4 + n) bs))"
  by auto
termination
  by (relation "measure (\<lambda>(off, pairs, bs). length bs)") auto

declare parseAvPairs_loop.simps [simp del]

text \<open>\<open>None\<close> is \<open>ok = false\<close>; no slice of the function can leave its bounds.\<close>

definition parseAvPairs :: "bytes \<Rightarrow> av_map option" where
  "parseAvPairs bs =
     (if length bs < 4 then None
      else if \<exists>c \<in> set (drop (length bs - 4) bs). c \<noteq> 0 then None
      else parseAvPairs_loop 0 (\<lambda>_. None) bs)"

record targetInfoEncoder =
  ti_Info :: bytes
  ti_SPN :: bytes
  ti_InfoMap :: av_map

definition newTargetInfoEncoder :: "bytes \<Rightarrow> bytes \<Rightarrow> targetInfoEncoder option" where
  "newTargetInfoEncoder info spn =
     map_option (\<lambda>infoMap. \<lparr>ti_Info = info, ti_SPN = spn, ti_InfoMap = infoMap\<rparr>) (parseAvPairs info)"

definition targetInfoEncoder_size :: "targetInfoEncoder \<Rightarrow> nat" where
  "targetInfoEncoder_size i =
     length (ti_Info i) + (if ti_InfoMap i MsvAvFlags = None then 8 else 0) + 20 +
     (if length (ti_SPN i) \<noteq> 0 then 4 + length (ti_SPN i) else 0)"

text \<open>Flags that are already there are patched in place: the writer to apply to the slice that
  \<open>Info\<close> is.\<close>

definition targetInfoEncoder_patch :: "targetInfoEncoder \<Rightarrow> writer" where
  "targetInfoEncoder_patch i info =
     (case ti_InfoMap i MsvAvFlags of
        None \<Rightarrow> Some info
      | Some (pos, v) \<Rightarrow> do { f \<leftarrow> u32_at v 0; put32 pos (f OR 2) info })"

definition targetInfoEncoder_encode :: "targetInfoEncoder \<Rightarrow> writer" where
  "targetInfoEncoder_encode i dst = do {
     info \<leftarrow> targetInfoEncoder_patch i (ti_Info i);
     let info = take (length info - 4) info;
     let off = min (length dst) (length info);
     let hasFlags = (ti_InfoMap i MsvAvFlags \<noteq> None);
     let off' = off + (if hasFlags then 0 else 8);
     let hasSPN = (length (ti_SPN i) \<noteq> 0);
     let off'' = off' + 20 + (if hasSPN then 4 + length (ti_SPN i) else 0);
     writes [
       copy_from 0 info,
       when_w (\<not> hasFlags) (writes [put16 off MsvAvFlags, put16 (off + 2) 4, put32 (off + 4) 2]),
       put16 off' MsvAvChannelBindings,
       put16 (off' + 2) 16,
       when_w hasSPN (writes [
         put16 (off' + 20) MsvAvTargetName,
         put16 (off' + 22) (of_nat (length (ti_SPN i))),
         copy_from (off' + 24) (ti_SPN i)]),
       put16 off'' MsvAvEOL,
       put16 (off'' + 2) 0] dst }"

type_synonym TargetInfo = "(u16 \<times> bytes) list"

definition TargetInfo_Size :: "TargetInfo \<Rightarrow> nat" where
  "TargetInfo_Size t = sum_list (map (\<lambda>(_, v). 4 + length v) t)"

fun TargetInfo_Encode_loop :: "nat \<Rightarrow> TargetInfo \<Rightarrow> writer" where
  "TargetInfo_Encode_loop off [] dst = Some dst"
| "TargetInfo_Encode_loop off ((avId, v) # t) dst = do {
     dst \<leftarrow> writes [put16 off avId, put16 (off + 2) (of_nat (length v)), copy_from (off + 4) v] dst;
     TargetInfo_Encode_loop (off + 4 + min (length dst - (off + 4)) (length v)) t dst }"

definition TargetInfo_Encode :: "TargetInfo \<Rightarrow> writer" where
  "TargetInfo_Encode t = TargetInfo_Encode_loop 0 t"

definition signKey :: "ntlm_crypto \<Rightarrow> u32 \<Rightarrow> bytes \<Rightarrow> bytes \<Rightarrow> bytes" where
  "signKey C negotiateFlags randomSessionKey magic =
     (if negotiateFlags AND NTLMSSP_NEGOTIATE_EXTENDED_SESSIONSECURITY \<noteq> 0 then md5 C (randomSessionKey @ magic) else [])"

definition sealKey :: "ntlm_crypto \<Rightarrow> u32 \<Rightarrow> bytes \<Rightarrow> bytes \<Rightarrow> bytes option" where
  "sealKey C negotiateFlags randomSessionKey magic =
     (if negotiateFlags AND NTLMSSP_NEGOTIATE_EXTENDED_SESSIONSECURITY \<noteq> 0 then do {
        k \<leftarrow> (if negotiateFlags AND NTLMSSP_NEGOTIATE_128 \<noteq> 0 then Some randomSessionKey
              else if negotiateFlags AND NTLMSSP_NEGOTIATE_56 \<noteq> 0 then go_slice randomSessionKey 0 7
              else go_slice randomSessionKey 0 5);
        Some (md5 C (k @ magic)) }
      else if negotiateFlags AND NTLMSSP_NEGOTIATE_LM_KEY \<noteq> 0 then
        (if negotiateFlags AND NTLMSSP_NEGOTIATE_56 \<noteq> 0
         then map_option (\<lambda>k. k @ [0xa0]) (go_slice randomSessionKey 0 7)
         else map_option (\<lambda>k. k @ [0xe5, 0x38, 0xb0]) (go_slice randomSessionKey 0 5))
      else Some randomSessionKey)"

text \<open>The magic constants are a prefix, the direction and a suffix.\<close>

definition ascii :: "string \<Rightarrow> bytes" where
  "ascii s = map (\<lambda>c. of_nat (of_char c)) s"

definition sign_magic :: "bool \<Rightarrow> bytes" where
  "sign_magic fromClient =
     ascii ''session key to '' @ ascii (if fromClient then ''client-to-server'' else ''server-to-client'') @
     ascii '' signing key magic constant'' @ [0]"

definition seal_magic :: "bool \<Rightarrow> bytes" where
  "seal_magic fromClient =
     ascii ''session key to '' @ ascii (if fromClient then ''client-to-server'' else ''server-to-client'') @
     ascii '' sealing key magic constant'' @ [0]"

text \<open>The tag, the next sequence number and the handle; the tag's buffer is fresh (\<open>dst\<close> is nil or
  points at zeroed bytes).\<close>

definition ntlm_mac :: "ntlm_crypto \<Rightarrow> u32 \<Rightarrow> rc4 \<Rightarrow> bytes \<Rightarrow> u32 \<Rightarrow> bytes \<Rightarrow> bytes \<times> u32 \<times> rc4" where
  "ntlm_mac C negotiateFlags handle signingKey seqNum msg =
     (if negotiateFlags AND NTLMSSP_NEGOTIATE_EXTENDED_SESSIONSECURITY = 0 then
        let (_, handle) = rc4_XORKeyStream C (replicate 4 0) handle;
            (crc, handle) = rc4_XORKeyStream C (le_of_word 4 (nc_crc32 C msg)) handle;
            (sq, handle) = rc4_XORKeyStream C (replicate 4 0) handle
        in (le_of_word 4 (1 :: u32) @ replicate 4 0 @ crc @ xor_bytes sq (le_of_word 4 seqNum),
            (if negotiateFlags AND NTLMSSP_NEGOTIATE_DATAGRAM = 0 then seqNum + 1 else seqNum), handle)
      else
        let cs = take 8 (hmac_md5 C signingKey (le_of_word 4 seqNum @ msg));
            (cs, handle) = (if negotiateFlags AND NTLMSSP_NEGOTIATE_KEY_EXCH \<noteq> 0
                            then rc4_XORKeyStream C cs handle else (cs, handle))
        in (le_of_word 4 (1 :: u32) @ cs @ le_of_word 4 seqNum, seqNum + 1, handle))"

section \<open>\<open>session.go\<close>\<close>

record ntlm_session =
  ns_isClientSide :: bool
  ns_user :: go_string
  ns_negotiateFlags :: u32
  ns_exportedSessionKey :: bytes
  ns_clientSigningKey :: bytes
  ns_serverSigningKey :: bytes
  ns_clientHandle :: rc4
  ns_serverHandle :: rc4
  ns_infoMap :: av_map

text \<open>The code of the sender (\<open>own\<close>) or of the other side, with the handle it advances.\<close>

definition session_mac :: "ntlm_crypto \<Rightarrow> bool \<Rightarrow> ntlm_session \<Rightarrow> u32 \<Rightarrow> bytes \<Rightarrow> bytes \<times> u32 \<times> ntlm_session" where
  "session_mac C client s seqNum msg =
     (if client
      then let (t, n, h) = ntlm_mac C (ns_negotiateFlags s) (ns_clientHandle s) (ns_clientSigningKey s) seqNum msg
           in (t, n, s\<lparr>ns_clientHandle := h\<rparr>)
      else let (t, n, h) = ntlm_mac C (ns_negotiateFlags s) (ns_serverHandle s) (ns_serverSigningKey s) seqNum msg
           in (t, n, s\<lparr>ns_serverHandle := h\<rparr>))"

definition ntlm_Sum :: "ntlm_crypto \<Rightarrow> ntlm_session \<Rightarrow> bytes \<Rightarrow> u32 \<Rightarrow> bytes option \<times> u32 \<times> ntlm_session" where
  "ntlm_Sum C s plaintext seqNum =
     (if ns_negotiateFlags s AND NTLMSSP_NEGOTIATE_SIGN = 0 then (None, 0, s)
      else let (t, n, s) = session_mac C (ns_isClientSide s) s seqNum plaintext in (Some t, n, s))"

definition ntlm_CheckSum :: "ntlm_crypto \<Rightarrow> ntlm_session \<Rightarrow> bytes option \<Rightarrow> bytes \<Rightarrow> u32 \<Rightarrow> bool \<times> u32 \<times> ntlm_session" where
  "ntlm_CheckSum C s sm plaintext seqNum =
     (if ns_negotiateFlags s AND NTLMSSP_NEGOTIATE_SIGN = 0 then (sm = None, 0, s)
      else let (t, n, s) = session_mac C (\<not> ns_isClientSide s) s seqNum plaintext
           in if case_option [] id sm \<noteq> t then (False, 0, s) else (True, n, s))"

definition ntlm_Seal :: "ntlm_crypto \<Rightarrow> ntlm_session \<Rightarrow> bytes \<Rightarrow> u32 \<Rightarrow> bytes \<times> u32 \<times> ntlm_session" where
  "ntlm_Seal C s plaintext seqNum =
     (if ns_negotiateFlags s AND NTLMSSP_NEGOTIATE_SEAL \<noteq> 0 then
        let (ct, h) = rc4_XORKeyStream C plaintext (ns_clientHandle s);
            s = s\<lparr>ns_clientHandle := h\<rparr>;
            (t, n, s) = session_mac C (ns_isClientSide s) s seqNum plaintext
        in (t @ ct, n, s)
      else if ns_negotiateFlags s AND NTLMSSP_NEGOTIATE_SIGN \<noteq> 0 then
        let (t, n, s) = session_mac C (ns_isClientSide s) s seqNum plaintext in (t @ plaintext, n, s)
      else (replicate (length plaintext + 16) 0, seqNum, s))"

definition ntlm_Unseal :: "ntlm_crypto \<Rightarrow> ntlm_session \<Rightarrow> bytes \<Rightarrow> u32 \<Rightarrow> ((ntlm_error + bytes \<times> u32) \<times> ntlm_session) option" where
  "ntlm_Unseal C s ciphertext seqNum =
     (if length ciphertext < 16 then None
      else if ns_negotiateFlags s AND NTLMSSP_NEGOTIATE_SEAL \<noteq> 0 then
        let (pt, h) = rc4_XORKeyStream C (drop 16 ciphertext) (ns_serverHandle s);
            s = s\<lparr>ns_serverHandle := h\<rparr>;
            (t, n, s) = session_mac C (\<not> ns_isClientSide s) s seqNum pt
        in Some (if take 16 ciphertext \<noteq> t then Inl NE_signature else Inr (pt, n), s)
      else if ns_negotiateFlags s AND NTLMSSP_NEGOTIATE_SIGN \<noteq> 0 then
        let pt = drop 16 ciphertext;
            (t, n, s) = session_mac C (\<not> ns_isClientSide s) s seqNum pt
        in Some (if take 16 ciphertext \<noteq> t then Inl NE_signature else Inr (pt, n), s)
      else Some (if \<exists>c \<in> set (take 16 ciphertext). c \<noteq> 0 then Inl NE_signature
                 else Inr (drop 16 ciphertext, seqNum), s))"

section \<open>\<open>server.go\<close>\<close>

record ntlm_server =
  nts_targetName :: go_string
  nts_nbName :: go_string
  nts_nbDomain :: go_string
  nts_dnsDomain :: go_string
  nts_dnsName :: go_string
  nts_accounts :: "go_string \<Rightarrow> go_string option"
  nts_allowGuest :: bool
  nts_nmsg :: bytes
  nts_cmsg :: bytes
  nts_session :: "ntlm_session option"

definition ntlm_NewServer :: "go_string \<Rightarrow> go_string \<Rightarrow> go_string \<Rightarrow> go_string \<Rightarrow> go_string \<Rightarrow> ntlm_server" where
  "ntlm_NewServer targetName nbName nbDomain dnsName dnsDomain =
     \<lparr>nts_targetName = targetName, nts_nbName = nbName, nts_nbDomain = nbDomain, nts_dnsDomain = dnsDomain,
      nts_dnsName = dnsName, nts_accounts = (\<lambda>_. None), nts_allowGuest = False, nts_nmsg = [], nts_cmsg = [],
      nts_session = None\<rparr>"

definition ntlm_AddAccount :: "go_string \<Rightarrow> go_string \<Rightarrow> ntlm_server \<Rightarrow> ntlm_server" where
  "ntlm_AddAccount user password s = s\<lparr>nts_accounts := (nts_accounts s)(user \<mapsto> password)\<rparr>"

definition ntlm_AllowGuest :: "ntlm_server \<Rightarrow> ntlm_server" where
  "ntlm_AllowGuest s = s\<lparr>nts_allowGuest := True\<rparr>"

text \<open>\<open>append(TargetInfo{AvPair{...}}, ti...)\<close> for a name that is not empty.\<close>

definition ti_prepend :: "u16 \<Rightarrow> go_string \<Rightarrow> TargetInfo \<Rightarrow> TargetInfo option" where
  "ti_prepend avId name ti =
     (if length name > 0 then map_option (\<lambda>v. (avId, v) # ti) (EncodeStringToBytes name) else Some ti)"

definition server_target_info :: "ntlm_server \<Rightarrow> u64 \<Rightarrow> TargetInfo option" where
  "server_target_info s now = do {
     ti \<leftarrow> ti_prepend MsvAvNbDomainName (nts_nbDomain s) [(MsvAvEOL, [])];
     ti \<leftarrow> ti_prepend MsvAvNbComputerName (nts_nbName s) ti;
     ti \<leftarrow> ti_prepend MsvAvDnsDomainName (nts_dnsDomain s) ti;
     ti \<leftarrow> ti_prepend MsvAvDnsComputerName (nts_dnsName s) ti;
     b \<leftarrow> Filetime_Encode (NsecToFiletime now) (replicate 8 0);
     Some ((MsvAvTimestamp, b) # ti) }"

text \<open>The length, maximum length and offset of a field whose payload is written at \<open>off\<close>.\<close>

definition put_field :: "nat \<Rightarrow> nat \<Rightarrow> nat \<Rightarrow> writer" where
  "put_field k len off = writes [put16 k (of_nat len), put16 (k + 2) (of_nat len), put32 (k + 4) (of_nat off)]"

text \<open>The layout of the challenge: target name behind the target info's place, then the target
  info in front of the offset the name ended at.\<close>

definition challenge_message :: "u32 \<Rightarrow> bytes \<Rightarrow> TargetInfo \<Rightarrow> bytes \<Rightarrow> bytes option" where
  "challenge_message flags targetName ti rnd =
     (let off = 48 + (if flags AND NTLMSSP_NEGOTIATE_TARGET_INFO \<noteq> 0 then TargetInfo_Size ti else 0) +
            (if flags AND NTLMSSP_NEGOTIATE_VERSION \<noteq> 0 then 8 else 0);
          named = (targetName \<noteq> [] \<and> flags AND NTLMSSP_REQUEST_TARGET \<noteq> 0);
          n = length targetName;
          off1 = off + (if named then n else 0);
          off2 = off1 - TargetInfo_Size ti
      in writes [
        copy_slice 0 8 ntlm_signature,
        put32 8 NtLmChallenge,
        put32 20 flags,
        when_w named (writes [
          copy_from off targetName, put_field 12 n off]),
        when_w (flags AND NTLMSSP_NEGOTIATE_TARGET_INFO \<noteq> 0) (writes [
          on_from off2 (TargetInfo_Encode ti),
          put_field 40 (TargetInfo_Size ti) off2]),
        copy_slice 24 32 rnd,
        when_w (flags AND NTLMSSP_NEGOTIATE_VERSION \<noteq> 0) (copy_slice 48 56 ntlm_version)]
        (replicate (off + length targetName + 4) 0))"

text \<open>\<open>rnd\<close> is what \<open>rand.Read\<close> fills the challenge with, \<open>None\<close> its error.\<close>

definition ntlm_Challenge :: "u64 \<Rightarrow> bytes option \<Rightarrow> ntlm_server \<Rightarrow> bytes \<Rightarrow> ((ntlm_error + bytes) \<times> ntlm_server) option" where
  "ntlm_Challenge now rnd s nmsg =
     (let s = s\<lparr>nts_nmsg := nmsg\<rparr> in
      if length nmsg < 32 then Some (Inl NE_too_short, s)
      else if take 8 nmsg \<noteq> ntlm_signature then Some (Inl NE_signature, s)
      else do {
        t \<leftarrow> u32_at nmsg 8;
        if t \<noteq> NtLmNegotiate then Some (Inl NE_type, s)
        else do {
          f \<leftarrow> u32_at nmsg 12;
          let flags = (f AND defaultFlags) OR NTLMSSP_NEGOTIATE_TARGET_INFO;
          ti \<leftarrow> server_target_info s now;
          targetName \<leftarrow> EncodeStringToBytes (nts_targetName s);
          case rnd of
            None \<Rightarrow> map_option (\<lambda>_. (Inl NE_rand, s)) (challenge_message flags targetName ti [])
          | Some rnd \<Rightarrow> do {
              cmsg \<leftarrow> challenge_message flags targetName ti rnd;
              Some (Inr cmsg, s\<lparr>nts_cmsg := cmsg\<rparr>) } } })"

text \<open>A length, maximum length and offset triple of a message and the bytes it names.\<close>

definition ntlm_field :: "bytes \<Rightarrow> nat \<Rightarrow> (ntlm_error + bytes) option" where
  "ntlm_field msg k = do {
     len \<leftarrow> u16_at msg k;
     maxLen \<leftarrow> u16_at msg (k + 2);
     if maxLen < len then Some (Inl NE_format)
     else do {
       off \<leftarrow> u32_at msg (k + 4);
       if length msg < unat (off + ucast len) then Some (Inl NE_format)
       else map_option Inr (go_slice msg (unat off) (unat (off + ucast len))) } }"

definition ntlm_handles :: "ntlm_crypto \<Rightarrow> u32 \<Rightarrow> bytes \<Rightarrow> (ntlm_error + rc4 \<times> rc4) option" where
  "ntlm_handles C flags key = do {
     ck \<leftarrow> sealKey C flags key (seal_magic True);
     case rc4_NewCipher ck of
       None \<Rightarrow> Some (Inl NE_key)
     | Some ch \<Rightarrow> do {
         sk \<leftarrow> sealKey C flags key (seal_magic False);
         case rc4_NewCipher sk of None \<Rightarrow> Some (Inl NE_key) | Some sh \<Rightarrow> Some (Inr (ch, sh)) } }"

text \<open>The exported key: with key exchange the encrypted random key is decrypted into 16 bytes; a
  longer one makes \<open>XORKeyStream\<close> panic.\<close>

definition server_session_key :: "ntlm_crypto \<Rightarrow> u32 \<Rightarrow> bytes \<Rightarrow> bytes \<Rightarrow> (ntlm_error + bytes) option" where
  "server_session_key C flags keyExchangeKey encryptedRandomSessionKey =
     (if flags AND NTLMSSP_NEGOTIATE_KEY_EXCH \<noteq> 0 then
        (case rc4_NewCipher keyExchangeKey of
           None \<Rightarrow> Some (Inl NE_key)
         | Some h \<Rightarrow>
             if 16 < length encryptedRandomSessionKey then None
             else Some (Inr (upd 0 (fst (rc4_XORKeyStream C encryptedRandomSessionKey h)) (replicate 16 0))))
      else Some (Inr keyExchangeKey))"

text \<open>The integrity code of the three messages, checked when the client says it sent one.\<close>

definition server_check_mic :: "ntlm_crypto \<Rightarrow> u32 \<Rightarrow> bytes \<Rightarrow> bytes \<Rightarrow> bytes \<Rightarrow> bytes \<Rightarrow> bytes \<Rightarrow> (ntlm_error + unit) option" where
  "server_check_mic C flags key nmsg cmsg amsg targetInfo =
     (case parseAvPairs targetInfo of
        None \<Rightarrow> Some (Inr ())
      | Some infoMap \<Rightarrow>
          (case infoMap MsvAvFlags of
             None \<Rightarrow> Some (Inr ())
           | Some (_, avFlags) \<Rightarrow> do {
               f \<leftarrow> u32_at avFlags 0;
               if f AND 2 = 0 then Some (Inr ())
               else do {
                 let off = (if flags AND NTLMSSP_NEGOTIATE_VERSION \<noteq> 0 then 72 else 64);
                 mic \<leftarrow> go_slice amsg off (off + 16);
                 amsg \<leftarrow> copy_slice off (off + 16) (replicate 16 0) amsg;
                 if mic \<noteq> hmac_md5 C key (nmsg @ cmsg @ amsg) then Some (Inl NE_login) else Some (Inr ()) } }))"

text \<open>The part of \<open>Authenticate\<close> behind the field checks.\<close>

definition ntlm_login :: "ntlm_crypto \<Rightarrow> ntlm_server \<Rightarrow> bytes \<Rightarrow> u32 \<Rightarrow> bytes \<Rightarrow> bytes \<Rightarrow> bytes \<Rightarrow> bytes \<Rightarrow> (ntlm_error + ntlm_session) option" where
  "ntlm_login C s amsg flags ntResp domainName userName encKey = do {
     user \<leftarrow> DecodeToString userName;
     if nts_accounts s user = None \<and> \<not> nts_allowGuest s then Some (Inl NE_user)
     else do {
       blob \<leftarrow> go_slice_from ntResp 16;
       USER \<leftarrow> EncodeStringToBytes (nc_ToUpper C user);
       password \<leftarrow> EncodeStringToBytes (case nts_accounts s user of None \<Rightarrow> [] | Some p \<Rightarrow> p);
       let h = hmac_md5 C (ntowfv2 C USER password domainName);
       serverChallenge \<leftarrow> go_slice (nts_cmsg s) 24 32;
       timeStamp \<leftarrow> go_slice blob 8 16;
       clientChallenge \<leftarrow> go_slice blob 16 24;
       targetInfo \<leftarrow> go_slice_from blob 28;
       expected \<leftarrow> encodeNtlmv2Response h serverChallenge clientChallenge timeStamp (bytesEncoder_encode targetInfo)
         (replicate (length ntResp) 0);
       if ntResp \<noteq> expected then Some (Inl NE_login)
       else and_then (server_session_key C flags (h (take 16 ntResp)) encKey) (\<lambda>key.
         and_then (server_check_mic C flags key (nts_nmsg s) (nts_cmsg s) amsg targetInfo) (\<lambda>_.
           and_then (ntlm_handles C flags key) (\<lambda>(ch, sh).
             Some (Inr \<lparr>ns_isClientSide = False, ns_user = user, ns_negotiateFlags = flags, ns_exportedSessionKey = key,
               ns_clientSigningKey = signKey C flags key (sign_magic True),
               ns_serverSigningKey = signKey C flags key (sign_magic False), ns_clientHandle = ch, ns_serverHandle = sh,
               ns_infoMap = (\<lambda>_. None)\<rparr>)))) } }"

definition ntlm_Authenticate :: "ntlm_crypto \<Rightarrow> ntlm_server \<Rightarrow> bytes \<Rightarrow> (ntlm_error option \<times> ntlm_server) option" where
  "ntlm_Authenticate C s amsg =
     (if length amsg < 64 then Some (Some NE_too_short, s)
      else if take 8 amsg \<noteq> ntlm_signature then Some (Some NE_signature, s)
      else do {
        t \<leftarrow> u32_at amsg 8;
        if t \<noteq> NtLmAuthenticate then Some (Some NE_type, s)
        else do {
          flags \<leftarrow> u32_at amsg 60;
          r \<leftarrow> and_then (ntlm_field amsg 20) (\<lambda>ntResp.
                and_then (ntlm_field amsg 28) (\<lambda>domainName.
                and_then (ntlm_field amsg 36) (\<lambda>userName.
                and_then (ntlm_field amsg 52) (\<lambda>encKey.
                  if length userName \<noteq> 0 \<or> length ntResp \<noteq> 0
                  then ntlm_login C s amsg flags ntResp domainName userName encKey
                  else Some (Inl NE_empty)))));
          Some (case r of Inl e \<Rightarrow> (Some e, s) | Inr sess \<Rightarrow> (None, s\<lparr>nts_session := Some sess\<rparr>)) } })"

section \<open>\<open>client.go\<close>\<close>

record ntlm_client =
  ntc_User :: go_string
  ntc_Password :: go_string
  ntc_Hash :: "bytes option"
  ntc_Domain :: go_string
  ntc_Workstation :: go_string
  ntc_TargetSPN :: go_string
  ntc_nmsg :: bytes
  ntc_session :: "ntlm_session option"

definition ntlm_Negotiate :: "ntlm_client \<Rightarrow> (bytes \<times> ntlm_client) option" where
  "ntlm_Negotiate c = do {
     nmsg \<leftarrow> writes [
       copy_slice 0 8 ntlm_signature,
       put32 8 NtLmNegotiate,
       put32 12 defaultFlags,
       copy_from 32 ntlm_version] (replicate 40 0);
     Some (nmsg, c\<lparr>ntc_nmsg := nmsg\<rparr>) }"

text \<open>The key of the response: from the password or from its hash.\<close>

definition client_response_key :: "ntlm_crypto \<Rightarrow> ntlm_client \<Rightarrow> bytes \<Rightarrow> bytes option" where
  "client_response_key C c domain = do {
     USER \<leftarrow> EncodeStringToBytes (nc_ToUpper C (ntc_User c));
     case ntc_Hash c of
       Some hash \<Rightarrow> Some (ntowfv2Hash C USER hash domain)
     | None \<Rightarrow> do {
         password \<leftarrow> EncodeStringToBytes (ntc_Password c);
         Some (ntowfv2 C USER password domain) } }"

text \<open>\<open>cc\<close> and \<open>rkey\<close> are what \<open>rand.Read\<close> gives for the client challenge and the exported key.\<close>

definition client_timestamp :: "u64 \<Rightarrow> targetInfoEncoder \<Rightarrow> bytes" where
  "client_timestamp now info =
     (case ti_InfoMap info MsvAvTimestamp of
        Some (_, ts) \<Rightarrow> ts
      | None \<Rightarrow> le_of_word 8 ((word_of_int (sint now sdiv 100) :: u64) + 116444736000000000))"

definition client_credentials :: "ntlm_client \<Rightarrow> bool" where
  "client_credentials c \<longleftrightarrow> ntc_User c \<noteq> [] \<or> ntc_Password c \<noteq> [] \<or> ntc_Hash c \<noteq> None"

text \<open>The credentials part: responses, key exchange, flags and integrity code. \<open>off\<close> is where
  the names end, \<open>cmsg\<close> the challenge as the target info encoder leaves it.\<close>

definition client_respond :: "ntlm_crypto \<Rightarrow> u64 \<Rightarrow> bytes \<Rightarrow> bytes \<Rightarrow> ntlm_client \<Rightarrow> bytes \<Rightarrow> u32 \<Rightarrow> bytes \<Rightarrow>
    targetInfoEncoder \<Rightarrow> nat \<Rightarrow> bytes \<Rightarrow> (ntlm_error + bytes \<times> ntlm_session) option" where
  "client_respond C now cc rkey c cmsg flags domain info off amsg = do {
     key \<leftarrow> client_response_key C c domain;
     let h = hmac_md5 C key;
     let n = length amsg;
     amsg \<leftarrow> put_field 12 24 off amsg;
     serverChallenge \<leftarrow> go_slice cmsg 24 32;
     amsg \<leftarrow> on_slice (off + 24) (n - 16)
       (encodeNtlmv2Response h serverChallenge cc (client_timestamp now info) (targetInfoEncoder_encode info)) amsg;
     nt \<leftarrow> go_slice amsg (off + 24) (n - 16);
     amsg \<leftarrow> put_field 20 (length nt) (off + 24) amsg;
     let kek = h (take 16 nt);
     and_then (if flags AND NTLMSSP_NEGOTIATE_KEY_EXCH \<noteq> 0 then
         (case rc4_NewCipher kek of
            None \<Rightarrow> Some (Inl NE_key)
          | Some rc \<Rightarrow> do {
              amsg \<leftarrow> put (n - 16) (fst (rc4_XORKeyStream C rkey rc)) amsg;
              amsg \<leftarrow> put_field 52 16 (n - 16) amsg;
              Some (Inr (amsg, rkey)) })
       else Some (Inr (amsg, kek))) (\<lambda>(amsg, exported). do {
         amsg \<leftarrow> writes [put32 60 flags, copy_from 64 ntlm_version] amsg;
         let amsg = upd 72 (hmac_md5 C exported (ntc_nmsg c @ cmsg @ amsg)) amsg;
         and_then (ntlm_handles C flags exported) (\<lambda>(ch, sh).
           Some (Inr (amsg, \<lparr>ns_isClientSide = True, ns_user = ntc_User c, ns_negotiateFlags = flags,
             ns_exportedSessionKey = exported, ns_clientSigningKey = signKey C flags exported (sign_magic True),
             ns_serverSigningKey = signKey C flags exported (sign_magic False), ns_clientHandle = ch,
             ns_serverHandle = sh, ns_infoMap = ti_InfoMap info\<rparr>))) }) }"

text \<open>Signature, type and the three names.\<close>

definition client_names :: "bytes \<Rightarrow> bytes \<Rightarrow> bytes \<Rightarrow> writer" where
  "client_names domain user workstation =
     writes [
       copy_slice 0 8 ntlm_signature,
       put32 8 NtLmAuthenticate,
       copy_from 88 domain,
       put_field 28 (length domain) 88,
       when_w (user \<noteq> []) (writes [
         copy_from (88 + length domain) user,
         put_field 36 (length user) (88 + length domain)]),
       when_w (workstation \<noteq> []) (writes [
         copy_from (88 + length domain + length user) workstation,
         put_field 44 (length workstation) (88 + length domain + length user)])]"

definition ntlm_client_Authenticate :: "ntlm_crypto \<Rightarrow> u64 \<Rightarrow> bytes \<Rightarrow> bytes \<Rightarrow> ntlm_client \<Rightarrow> bytes \<Rightarrow>
    (ntlm_error + bytes \<times> ntlm_client) option" where
  "ntlm_client_Authenticate C now cc rkey c cmsg =
     (if length cmsg < 48 then Some (Inl NE_too_short)
      else if take 8 cmsg \<noteq> ntlm_signature then Some (Inl NE_signature)
      else do {
        t \<leftarrow> u32_at cmsg 8;
        if t \<noteq> NtLmChallenge then Some (Inl NE_type)
        else do {
          nf \<leftarrow> u32_at (ntc_nmsg c) 12;
          cf \<leftarrow> u32_at cmsg 20;
          let flags = nf AND cf;
          if flags AND NTLMSSP_REQUEST_TARGET = 0 then Some (Inl NE_flags)
          else and_then (ntlm_field cmsg 12) (\<lambda>targetName.
            if flags AND NTLMSSP_NEGOTIATE_TARGET_INFO = 0 then Some (Inl NE_flags)
            else and_then (ntlm_field cmsg 40) (\<lambda>targetInfo. do {
              spn \<leftarrow> EncodeStringToBytes (ntc_TargetSPN c);
              case newTargetInfoEncoder targetInfo spn of
                None \<Rightarrow> Some (Inl NE_format)
              | Some info \<Rightarrow> do {
                  domain \<leftarrow> EncodeStringToBytes (ntc_Domain c);
                  user \<leftarrow> EncodeStringToBytes (ntc_User c);
                  workstation \<leftarrow> EncodeStringToBytes (ntc_Workstation c);
                  let domain = (if domain = [] then targetName else domain);
                  let off = 88 + length domain + length user + length workstation;
                  amsg \<leftarrow> client_names domain user workstation
                    (replicate (off + 24 + (16 + (28 + targetInfoEncoder_size info + 4)) + 16) 0);
                  if client_credentials c then do {
                    tiOff \<leftarrow> u32_at cmsg 44;
                    cmsg \<leftarrow> on_slice (unat tiOff) (unat tiOff + length targetInfo) (targetInfoEncoder_patch info) cmsg;
                    and_then (client_respond C now cc rkey c cmsg flags domain info off amsg) (\<lambda>(amsg, sess).
                      Some (Inr (amsg, c\<lparr>ntc_session := Some sess\<rparr>))) }
                  else Some (Inr (amsg, c)) } })) } })"

end
