(* ===== verification/Ntlm_Handshake.thy ===== *)
theory Ntlm_Handshake
  imports Ntlm
begin

text \<open>
  The NTLMv2 handshake of \<open>internal/ntlm\<close>: what the messages contain, that the server accepts what
  the client sends for a known account with both ends holding the same session key, and that it
  accepts nothing without the proof of the password.
\<close>

lemma length_digests [simp]: "length (md4 C m) = 16" "length (md5 C m) = 16" "length (hmac_md5 C k m) = 16"
  by (simp_all add: md4_def md5_def hmac_md5_def)

lemma digest_not_Nil [simp]: "md5 C m \<noteq> []" "hmac_md5 C k m \<noteq> []"
  by (simp_all flip: length_greater_0_conv)

lemma length_constants [simp]: "length ntlm_signature = 8" "length ntlm_version = 8"
  by (simp_all add: ntlm_signature_def ntlm_version_def)

section \<open>Attribute-value pairs\<close>

definition av_bytes :: "u16 \<times> bytes \<Rightarrow> bytes" where
  "av_bytes p = le_of_word 2 (fst p) @ le_of_word 2 (of_nat (length (snd p)) :: u16) @ snd p"

definition avs_bytes :: "TargetInfo \<Rightarrow> bytes" where
  "avs_bytes t = concat (map av_bytes t)"

lemma length_av_bytes [simp]: "length (av_bytes p) = 4 + length (snd p)"
  by (simp add: av_bytes_def)

lemma avs_bytes_simps [simp]:
  "avs_bytes [] = []" "avs_bytes (p # t) = av_bytes p @ avs_bytes t" "avs_bytes (t @ u) = avs_bytes t @ avs_bytes u"
  by (simp_all add: avs_bytes_def)

lemma length_avs_bytes: "length (avs_bytes t) = TargetInfo_Size t"
  by (induction t) (auto simp: TargetInfo_Size_def)

lemma TargetInfo_Encode_loop_eq:
  "off + TargetInfo_Size t \<le> length dst \<Longrightarrow> TargetInfo_Encode_loop off t dst = Some (upd off (avs_bytes t) dst)"
proof (induction off t dst rule: TargetInfo_Encode_loop.induct)
  case (1 off dst)
  then show ?case by (simp add: upd_def)
next
  case (2 off avId v t dst)
  have l: "off + 4 + length v + TargetInfo_Size t \<le> length dst" using 2(2) by (simp add: TargetInfo_Size_def)
  have w: "writes [put16 off avId, put16 (off + 2) (of_nat (length v)), copy_from (off + 4) v] dst =
      Some (upd off (av_bytes (avId, v)) dst)"
    using l by (simp add: put16_def put_def copy_from_def upd_merge av_bytes_def)
  have "upd (off + 4 + length v) (avs_bytes t) (upd off (av_bytes (avId, v)) dst) =
      upd off (av_bytes (avId, v) @ avs_bytes t) dst"
    using l upd_merge [of "off + 4 + length v" off "av_bytes (avId, v)" "avs_bytes t" dst]
    by (simp add: length_avs_bytes add.assoc)
  then show ?case using 2(1) [OF w] l w by simp
qed

fun av_map_of :: "nat \<Rightarrow> av_map \<Rightarrow> TargetInfo \<Rightarrow> av_map" where
  "av_map_of off m [] = m"
| "av_map_of off m (p # t) = av_map_of (off + 4 + length (snd p)) (m(fst p \<mapsto> (off + 4, snd p))) t"

definition avs_ok :: "TargetInfo \<Rightarrow> bool" where
  "avs_ok t \<longleftrightarrow> list_all (\<lambda>p. length (snd p) < 65536) t"

lemma parseAvPairs_loop_avs: "avs_ok t \<Longrightarrow> parseAvPairs_loop off m (avs_bytes t) = Some (av_map_of off m t)"
proof (induction off m t rule: av_map_of.induct)
  case (1 off m)
  then show ?case by (simp add: parseAvPairs_loop.simps)
next
  case (2 off m p t)
  let ?b = "avs_bytes (p # t)"
  have l: "length (snd p) < 65536" using 2(2) by (simp add: avs_ok_def)
  have f: "word_of_le (rd 0 2 ?b) = fst p" "word_of_le (rd 2 2 ?b) = (of_nat (length (snd p)) :: u16)"
    "rd 4 (length (snd p)) ?b = snd p" "drop (4 + length (snd p)) ?b = avs_bytes t"
    by (simp_all add: av_bytes_def rd_def)
  have u: "unat (of_nat (length (snd p)) :: u16) = length (snd p)" using l by (simp add: unat_of_nat_u16)
  have n: "\<not> length ?b = 0" "\<not> length ?b < 4" "\<not> length ?b < 4 + length (snd p)" by simp_all
  have "parseAvPairs_loop off m ?b =
      parseAvPairs_loop (off + 4 + length (snd p)) (m(fst p \<mapsto> (off + 4, snd p))) (avs_bytes t)"
    by (subst parseAvPairs_loop.simps) (simp only: n if_False Let_def f u)
  also have "\<dots> = Some (av_map_of (off + 4 + length (snd p)) (m(fst p \<mapsto> (off + 4, snd p))) t)"
    using 2 by (intro 2(1)) (simp add: avs_ok_def)
  finally show ?case by simp
qed

lemma av_map_of_values:
  "map_option snd (av_map_of off m t k) = (case map_of (rev t) k of None \<Rightarrow> map_option snd (m k) | Some v \<Rightarrow> Some v)"
proof (induction t arbitrary: off m)
  case (Cons p t)
  have "map_of (rev (p # t)) k = (case map_of (rev t) k of None \<Rightarrow> if k = fst p then Some (snd p) else None | Some v \<Rightarrow> Some v)"
    by (cases p) (simp add: map_add_def split: option.split)
  moreover have "map_option snd (av_map_of off m (p # t) k) =
      (case map_of (rev t) k of None \<Rightarrow> if k = fst p then Some (snd p) else map_option snd (m k) | Some v \<Rightarrow> Some v)"
    unfolding av_map_of.simps Cons by (simp split: option.split)
  ultimately show ?case by (simp split: option.split)
qed simp

text \<open>A list that ends with the end marker parses.\<close>

lemma parseAvPairs_avs:
  assumes "avs_ok (t @ [(MsvAvEOL, [])])"
  shows "parseAvPairs (avs_bytes (t @ [(MsvAvEOL, [])])) = Some (av_map_of 0 (\<lambda>_. None) (t @ [(MsvAvEOL, [])]))"
proof -
  have "drop (length (avs_bytes (t @ [(MsvAvEOL, [])])) - 4) (avs_bytes (t @ [(MsvAvEOL, [])])) = replicate 4 0"
    by (simp add: av_bytes_def) (simp add: le_of_word_def upt_rec numeral_eq_Suc)
  then show ?thesis
    unfolding parseAvPairs_def using parseAvPairs_loop_avs [OF assms] by (simp add: length_avs_bytes TargetInfo_Size_def)
qed

lemma av_map_None: "k \<notin> fst ` set t \<Longrightarrow> av_map_of off (\<lambda>_. None) t k = None"
  using av_map_of_values [of off "\<lambda>_. None" t k] map_of_eq_None_iff [of "rev t" k] by simp

lemma av_map_Some:
  assumes "map_of (rev t) k = Some v"
  obtains pos where "av_map_of off (\<lambda>_. None) t k = Some (pos, v)"
proof -
  have "map_option snd (av_map_of off (\<lambda>_. None) t k) = Some v" using assms by (simp add: av_map_of_values)
  then show ?thesis using that by auto
qed

section \<open>The response\<close>

definition ntlm_blob :: "bytes \<Rightarrow> bytes \<Rightarrow> bytes \<Rightarrow> bytes" where
  "ntlm_blob ts cc ti = [1, 1] @ replicate 6 0 @ ts @ cc @ replicate 4 0 @ ti"

lemma length_ntlm_blob [simp]: "length (ntlm_blob ts cc ti) = 12 + length ts + length cc + length ti"
  by (simp add: ntlm_blob_def)

lemma encodeNtlmv2Response_eq:
  assumes "length ts = 8" "length cc = 8" "w (replicate k 0) = Some ti" "length ti = k" "\<And>m. length (h m) = 16"
  shows "encodeNtlmv2Response h sc cc ts w (replicate (44 + k) 0) = Some (h (sc @ ntlm_blob ts cc ti) @ ntlm_blob ts cc ti)"
proof -
  let ?z = "\<lambda>n. replicate n 0 :: bytes"
  have z: "?z (28 + k) = ?z 1 @ ?z 1 @ ?z 6 @ ?z 8 @ ?z 8 @ ?z 4 @ ?z k" by (simp only: replicate_add [symmetric]) simp
  have "writes [put8 0 1, put8 1 1, copy_slice 8 16 ts, copy_slice 16 24 cc] (?z (28 + k)) =
      Some (upd 16 cc (upd 8 ts (upd 1 [1] (upd 0 [1] (?z (28 + k))))))"
    using assms(1,2) by (simp add: put8_def put_def copy_slice_def)
  also have "upd 0 [1] (?z (28 + k)) = [1] @ ?z 1 @ ?z 6 @ ?z 8 @ ?z 8 @ ?z 4 @ ?z k"
    unfolding z by (simp add: upd_def)
  also have "upd 1 [1] \<dots> = ([1, 1] @ ?z 6) @ ?z 8 @ ?z 8 @ ?z 4 @ ?z k"
    by (simp add: upd_def)
  also have "upd 8 ts \<dots> = ([1, 1] @ ?z 6 @ ts) @ ?z 8 @ ?z 4 @ ?z k"
    using assms(1) by (simp add: upd_def)
  also have "upd 16 cc \<dots> = ([1, 1] @ ?z 6 @ ts @ cc @ ?z 4) @ ?z k"
    using assms(1,2) by (simp add: upd_def)
  finally have w4: "writes [put8 0 1, put8 1 1, copy_slice 8 16 ts, copy_slice 16 24 cc] (?z (28 + k)) =
      Some (([1, 1] @ ?z 6 @ ts @ cc @ ?z 4) @ ?z k)" .
  have "on_from 28 w (([1, 1] @ ?z 6 @ ts @ cc @ ?z 4) @ ?z k) = Some (ntlm_blob ts cc ti)"
    using assms by (simp add: on_from_def ntlm_blob_def)
  then have "writes [put8 0 1, put8 1 1, copy_slice 8 16 ts, copy_slice 16 24 cc, on_from 28 w] (?z (28 + k)) =
      Some (ntlm_blob ts cc ti)"
    using w4 writes_append [of "[put8 0 1, put8 1 1, copy_slice 8 16 ts, copy_slice 16 24 cc]" "[on_from 28 w]" "?z (28 + k)"]
    by simp
  then have "on_from 16 (writes [put8 0 1, put8 1 1, copy_slice 8 16 ts, copy_slice 16 24 cc, on_from 28 w]) (?z (44 + k)) =
      Some (?z 16 @ ntlm_blob ts cc ti)"
    by (simp add: on_from_def)
  then show ?thesis
    using assms(5) by (simp add: encodeNtlmv2Response_def upd_def)
qed

lemma encodeNtlmv2Response_proof:
  assumes "encodeNtlmv2Response h sc cc ts w dst = Some e" "\<And>m. length (h m) = 16" "16 \<le> length dst"
  shows "take 16 e = h (sc @ drop 16 e)"
proof -
  obtain q where e: "e = upd 0 (h (sc @ q)) (take 16 dst @ q)"
    using assms(1,3) by (auto simp: encodeNtlmv2Response_def on_from_def split: Option.bind_splits if_splits)
  have "e = h (sc @ q) @ q" using assms(2,3) by (simp add: e upd_def)
  then show ?thesis using assms(2) by simp
qed

section \<open>The server accepts only with proof of the password\<close>

lemma and_then_Inr_iff: "and_then r f = Some (Inr y) \<longleftrightarrow> (\<exists>x. r = Some (Inr x) \<and> f x = Some (Inr y))"
  by (auto simp: and_then_def split: option.splits sum.splits)

text \<open>The key of the NT response of an account, a guest's being that of the empty password.\<close>

definition account_key :: "ntlm_crypto \<Rightarrow> ntlm_server \<Rightarrow> go_string \<Rightarrow> bytes \<Rightarrow> bytes" where
  "account_key C s user domain =
     ntowfv2 C (utf16_bytes (nc_ToUpper C user)) (utf16_bytes (case nts_accounts s user of None \<Rightarrow> [] | Some p \<Rightarrow> p)) domain"

lemma ntlm_login_sound:
  assumes "ntlm_login C s amsg flags ntResp domain userName encKey = Some (Inr sess)"
  shows "nts_accounts s (ns_user sess) \<noteq> None \<or> nts_allowGuest s" "DecodeToString userName = Some (ns_user sess)"
    "take 16 ntResp = hmac_md5 C (account_key C s (ns_user sess) domain) (rd 24 8 (nts_cmsg s) @ drop 16 ntResp)"
proof -
  obtain user cc ts ti where u: "DecodeToString userName = Some user" "nts_accounts s user \<noteq> None \<or> nts_allowGuest s"
    and e: "encodeNtlmv2Response (hmac_md5 C (account_key C s user domain)) (rd 24 8 (nts_cmsg s)) cc ts
      (bytesEncoder_encode ti) (replicate (length ntResp) 0) = Some ntResp" and l: "16 \<le> length ntResp"
    and n: "ns_user sess = user"
    using assms
    by (auto simp: ntlm_login_def and_then_Inr_iff EncodeStringToBytes_eq account_key_def go_slice_eq_rd
        go_slice_from_def Let_def split: Option.bind_splits if_splits)
  show "nts_accounts s (ns_user sess) \<noteq> None \<or> nts_allowGuest s" "DecodeToString userName = Some (ns_user sess)"
    using u n by simp_all
  show "take 16 ntResp = hmac_md5 C (account_key C s (ns_user sess) domain) (rd 24 8 (nts_cmsg s) @ drop 16 ntResp)"
    using e l n by (auto intro: encodeNtlmv2Response_proof)
qed

lemma ntlm_Authenticate_sound:
  assumes "ntlm_Authenticate C s amsg = Some (None, s')"
  obtains sess ntResp domain where "nts_session s' = Some sess"
    "nts_accounts s (ns_user sess) \<noteq> None \<or> nts_allowGuest s"
    "ntlm_field amsg 20 = Some (Inr ntResp)" "ntlm_field amsg 28 = Some (Inr domain)"
    "take 16 ntResp = hmac_md5 C (account_key C s (ns_user sess) domain) (rd 24 8 (nts_cmsg s) @ drop 16 ntResp)"
proof -
  obtain flags ntResp domain userName encKey sess where f: "ntlm_field amsg 20 = Some (Inr ntResp)"
    "ntlm_field amsg 28 = Some (Inr domain)" and s': "s' = s\<lparr>nts_session := Some sess\<rparr>"
    and g: "ntlm_login C s amsg flags ntResp domain userName encKey = Some (Inr sess)"
    using assms by (auto simp: ntlm_Authenticate_def and_then_Inr_iff split: Option.bind_splits if_splits sum.splits)
  show ?thesis using that [OF _ _ f] ntlm_login_sound [OF g] s' by simp
qed

section \<open>The challenge\<close>

definition opt_av :: "u16 \<Rightarrow> go_string \<Rightarrow> TargetInfo" where
  "opt_av avId name = (if name = [] then [] else [(avId, utf16_bytes name)])"

definition server_avs :: "ntlm_server \<Rightarrow> u64 \<Rightarrow> TargetInfo" where
  "server_avs s now = (MsvAvTimestamp, filetime_bytes (NsecToFiletime now)) # opt_av MsvAvDnsComputerName (nts_dnsName s) @
     opt_av MsvAvDnsDomainName (nts_dnsDomain s) @ opt_av MsvAvNbComputerName (nts_nbName s) @
     opt_av MsvAvNbDomainName (nts_nbDomain s)"

lemma server_target_info_eq: "server_target_info s now = Some (server_avs s now @ [(MsvAvEOL, [])])"
  by (simp add: server_target_info_def server_avs_def ti_prepend_def opt_av_def EncodeStringToBytes_eq Filetime_Encode_eq
      upd_0_all)

lemma server_avs_ids: "MsvAvFlags \<notin> fst ` set (server_avs s now)"
  "map_of (rev (server_avs s now @ [(MsvAvEOL, [])])) MsvAvTimestamp = Some (filetime_bytes (NsecToFiletime now))"
  by (simp_all add: server_avs_def opt_av_def)

definition field_bytes :: "nat \<Rightarrow> nat \<Rightarrow> bytes" where
  "field_bytes len off = le_of_word 2 (of_nat len :: u16) @ le_of_word 2 (of_nat len :: u16) @ le_of_word 4 (of_nat off :: u32)"

lemma length_field_bytes [simp]: "length (field_bytes len off) = 8"
  by (simp add: field_bytes_def)

lemma field_bytes_parts:
  "rd 0 2 (field_bytes len off) = le_of_word 2 (of_nat len :: u16)"
  "rd 2 2 (field_bytes len off) = le_of_word 2 (of_nat len :: u16)"
  "rd 4 4 (field_bytes len off) = le_of_word 4 (of_nat off :: u32)"
  by (simp_all add: field_bytes_def rd_def)

lemma field_bytes_zero [simp]: "field_bytes 0 0 = replicate 8 0"
  by (simp add: field_bytes_def flip: replicate_add)

lemma put_field_eq: "k + 8 \<le> length p \<Longrightarrow> put_field k len off p = Some (upd k (field_bytes len off) p)"
  by (simp add: put_field_def put16_def put32_def put_def upd_merge field_bytes_def)

lemma ntlm_field_eq:
  assumes "rd k 8 msg = field_bytes len off" "k + 8 \<le> length msg" "len < 65536" "off + len \<le> length msg"
    "length msg < 4294967296"
  shows "ntlm_field msg k = Some (Inr (rd off len msg))"
proof -
  have r: "rd k 2 msg = le_of_word 2 (of_nat len :: u16)" "rd (k + 2) 2 msg = le_of_word 2 (of_nat len :: u16)"
    "rd (k + 4) 4 msg = le_of_word 4 (of_nat off :: u32)"
    using rd_rd [of 0 2 8 k msg] rd_rd [of 2 2 8 k msg] rd_rd [of 4 4 8 k msg]
    unfolding assms(1) field_bytes_parts by simp_all
  have "(of_nat off + ucast (of_nat len :: u16) :: u32) = of_nat (off + len)"
    using assms(3) by (simp add: unsigned_of_nat take_bit_nat_eq_self)
  moreover have "unat (of_nat (off + len) :: u32) = off + len" "unat (of_nat off :: u32) = off"
    using assms(4,5) by (simp_all add: unat_of_nat take_bit_nat_eq_self del: of_nat_add)
  ultimately show ?thesis
    using assms(2,4) r by (simp add: ntlm_field_def un_at_eqs go_slice_eq_rd)
qed

text \<open>The parts of a challenge with the default flags that the client reads. The target name comes
  back with the right length only: the target info is written over its end.\<close>

lemma challenge_message_reads:
  assumes "length rnd = 8" "length tn < 65536" "TargetInfo_Size ti < 65536"
  obtains cmsg name where "challenge_message defaultFlags tn ti rnd = Some cmsg"
    "length cmsg = 60 + TargetInfo_Size ti + length tn" "take 8 cmsg = ntlm_signature" "u32_at cmsg 8 = Some NtLmChallenge"
    "u32_at cmsg 20 = Some defaultFlags" "rd 24 8 cmsg = rnd" "ntlm_field cmsg 12 = Some (Inr name)"
    "length name = length tn" "ntlm_field cmsg 40 = Some (Inr (avs_bytes ti))" "u32_at cmsg 44 = Some (of_nat (56 + length tn))"
proof -
  let ?T = "TargetInfo_Size ti" and ?n = "length tn"
  let ?N = "60 + ?T + ?n"
  have fl: "defaultFlags AND NTLMSSP_NEGOTIATE_TARGET_INFO \<noteq> 0" "defaultFlags AND NTLMSSP_NEGOTIATE_VERSION \<noteq> 0"
    "defaultFlags AND NTLMSSP_REQUEST_TARGET \<noteq> 0" by (simp_all add: defaultFlags_def)
  define z where "z = upd 20 (le_of_word 4 defaultFlags) (upd 8 (le_of_word 4 NtLmChallenge) (upd 0 ntlm_signature (replicate ?N 0)))"
  define y where "y = (if tn = [] then z else upd 12 (field_bytes ?n (56 + ?T)) (upd (56 + ?T) tn z))"
  define x where "x = upd 40 (field_bytes ?T (56 + ?n)) (upd (56 + ?n) (avs_bytes ti) y)"
  define cmsg where "cmsg = upd 48 ntlm_version (upd 24 rnd x)"
  have len: "length z = ?N" "length y = ?N" "length x = ?N" "length cmsg = ?N"
    by (simp_all add: z_def y_def x_def cmsg_def)
  have e: "on_from a (TargetInfo_Encode ti) p = Some (upd a (avs_bytes ti) p)" if "a + ?T \<le> length p" for a p
    using that TargetInfo_Encode_loop_eq [of 0 ti "drop a p"]
    by (simp add: on_from_def TargetInfo_Encode_def upd_def length_avs_bytes add.commute)
  have "challenge_message defaultFlags tn ti rnd = Some cmsg"
    using assms(1) fl len e [of "56 + ?n"] unfolding challenge_message_def Let_def cmsg_def x_def y_def z_def
    by (cases "tn = []") (simp_all add: put_field_eq copy_slice_def copy_from_def put32_def put_def when_w_def add.assoc)
  moreover have "take 8 cmsg = ntlm_signature"
    by (auto simp: cmsg_def x_def y_def z_def take_upd upd_def [of 0])
  moreover have "u32_at cmsg 8 = Some NtLmChallenge" "u32_at cmsg 20 = Some defaultFlags" "rd 24 8 cmsg = rnd"
    using len assms(1) by (auto simp: un_at_eqs cmsg_def x_def y_def z_def go_buf)
  moreover have f40: "rd 40 8 cmsg = field_bytes ?T (56 + ?n)"
    using len assms(1) by (simp add: cmsg_def x_def go_buf)
  have "rd 44 4 cmsg = le_of_word 4 (of_nat (56 + ?n) :: u32)"
    using rd_rd [of 4 4 8 40 cmsg, symmetric] unfolding f40 field_bytes_parts by simp
  then have "u32_at cmsg 44 = Some (of_nat (56 + ?n))"
    using len by (simp add: u32_at_eq)
  moreover have "rd (56 + ?n) ?T cmsg = avs_bytes ti"
    using len assms(1) by (simp add: cmsg_def x_def go_buf length_avs_bytes)
  then have "ntlm_field cmsg 40 = Some (Inr (avs_bytes ti))"
    using ntlm_field_eq [OF f40] assms(2,3) len by simp
  moreover define off where "off = (if tn = [] then 0 else 56 + ?T)"
  have "rd 12 8 cmsg = field_bytes ?n off" "off + ?n \<le> ?N"
    using len assms(1) by (simp_all add: off_def cmsg_def x_def y_def z_def go_buf rd_replicate)
  then have "ntlm_field cmsg 12 = Some (Inr (rd off ?n cmsg))" "length (rd off ?n cmsg) = ?n"
    using ntlm_field_eq [of 12 cmsg ?n off] assms(2,3) len by simp_all
  ultimately show ?thesis using that len by blast
qed

section \<open>The client's target info\<close>

definition client_avs :: "TargetInfo \<Rightarrow> bytes \<Rightarrow> TargetInfo" where
  "client_avs t spn = t @ [(MsvAvFlags, [2, 0, 0, 0]), (MsvAvChannelBindings, replicate 16 0)] @
     (if spn = [] then [] else [(MsvAvTargetName, spn)]) @ [(MsvAvEOL, []), (MsvAvEOL, [])]"

lemma av_bytes_EOL [simp]: "av_bytes (MsvAvEOL, []) = replicate 4 0"
  by (simp add: av_bytes_def flip: replicate_add)

lemma upd_prefix: "length a = n \<Longrightarrow> length x = length b \<Longrightarrow> upd n b (a @ x @ r) = a @ b @ r"
  by (simp add: upd_def)

lemma put_prefix:
  "length a = n \<Longrightarrow> put n b (a @ replicate (length b + k) 0) = Some ((a @ b) @ replicate k 0)"
  by (simp add: put_def replicate_add upd_prefix)

lemma le_of_2: "le_of_word 4 (2 :: u32) = [2, 0, 0, 0]"
  by (simp add: le_of_word_def upt_rec)

text \<open>An attribute-value pair written behind \<open>a\<close> into zeros.\<close>

lemma put_av:
  assumes "length a = n"
  shows "writes [put16 n avId, put16 (n + 2) (of_nat (length v)), put (n + 4) v] (a @ replicate (4 + length v + k) 0) =
    Some ((a @ av_bytes (avId, v)) @ replicate k 0)"
    "writes [put16 n avId, put16 (n + 2) (of_nat (length v)), copy_from (n + 4) v] (a @ replicate (4 + length v + k) 0) =
    Some ((a @ av_bytes (avId, v)) @ replicate k 0)"
proof -
  have r: "4 + length v + k = 2 + (2 + (length v + k))" by simp
  show "writes [put16 n avId, put16 (n + 2) (of_nat (length v)), put (n + 4) v] (a @ replicate (4 + length v + k) 0) =
      Some ((a @ av_bytes (avId, v)) @ replicate k 0)"
    "writes [put16 n avId, put16 (n + 2) (of_nat (length v)), copy_from (n + 4) v] (a @ replicate (4 + length v + k) 0) =
      Some ((a @ av_bytes (avId, v)) @ replicate k 0)"
    unfolding r
    using assms put_prefix [of a n "le_of_word 2 avId" "2 + (length v + k)"]
      put_prefix [of "a @ le_of_word 2 avId" "n + 2" "le_of_word 2 (of_nat (length v) :: u16)" "length v + k"]
      put_prefix [of "a @ le_of_word 2 avId @ le_of_word 2 (of_nat (length v) :: u16)" "n + 4" v k]
    by (simp_all add: put16_def av_bytes_def copy_from_def)
qed

lemma put_av_zeros:
  assumes "length a = n"
  shows "writes [put16 n avId, put16 (n + 2) (of_nat m)] (a @ replicate (4 + m + k) 0) =
    Some ((a @ av_bytes (avId, replicate m 0)) @ replicate k 0)"
proof -
  have r: "4 + m + k = 2 + (2 + (m + k))" by simp
  show ?thesis
    unfolding r
    using assms put_prefix [of a n "le_of_word 2 avId" "2 + (m + k)"]
      put_prefix [of "a @ le_of_word 2 avId" "n + 2" "le_of_word 2 (of_nat m :: u16)" "m + k"]
    by (simp add: put16_def av_bytes_def replicate_add)
qed

lemma put_zeros: "n + k \<le> m \<Longrightarrow> put (length a + n) (replicate k 0) (a @ replicate m 0) = Some (a @ replicate m 0)"
  using upd_zeros [of "length a + n" k "a @ replicate m 0"] by (simp add: put_def rd_append_right rd_replicate)

lemma put16_zero: "n + 2 \<le> m \<Longrightarrow> put16 (length a + n) 0 (a @ replicate m 0) = Some (a @ replicate m 0)"
  using put_zeros [of n 2 m a] by (simp add: put16_def)

lemma targetInfoEncoder_encode_eq:
  assumes "ti_InfoMap i MsvAvFlags = None" "ti_Info i = avs_bytes (t @ [(MsvAvEOL, [])])"
  shows "targetInfoEncoder_encode i (replicate (targetInfoEncoder_size i + 4) 0) = Some (avs_bytes (client_avs t (ti_SPN i)))"
proof -
  let ?a = "avs_bytes t" and ?s = "ti_SPN i" and ?z = "\<lambda>n. replicate n 0 :: bytes"
  let ?k = "if ?s = [] then 0 else 4 + length ?s"
  let ?n = "length ?a"
  let ?f = "?a @ av_bytes (MsvAvFlags, [2, 0, 0, 0])"
  let ?c = "?f @ av_bytes (MsvAvChannelBindings, ?z 16)"
  let ?d = "?c @ (if ?s = [] then [] else av_bytes (MsvAvTargetName, ?s))"
  have N: "targetInfoEncoder_size i + 4 = ?n + (8 + (20 + (?k + 8)))"
    using assms by (simp add: targetInfoEncoder_size_def)
  have a: "copy_from 0 ?a (?z (targetInfoEncoder_size i + 4)) = Some (?a @ ?z (8 + (20 + (?k + 8))))"
    unfolding N using put_prefix [of "[]" 0 ?a "8 + (20 + (?k + 8))"] by (simp add: copy_from_def)
  have f: "writes [put16 ?n MsvAvFlags, put16 (?n + 2) 4, put32 (?n + 4) 2] (?a @ ?z (8 + (20 + (?k + 8)))) =
      Some (?f @ ?z (20 + (?k + 8)))"
    using put_av(1) [of ?a ?n MsvAvFlags "[2, 0, 0, 0]" "20 + (?k + 8)"] by (simp add: put32_def le_of_2)
  have c: "writes [put16 (?n + 8) MsvAvChannelBindings, put16 (?n + 8 + 2) 16] (?f @ ?z (20 + (?k + 8))) =
      Some (?c @ ?z (?k + 8))"
    using put_av_zeros [of ?f "?n + 8" MsvAvChannelBindings 16 "?k + 8"] by simp
  have d: "when_w (length ?s \<noteq> 0) (writes [put16 (?n + 8 + 20) MsvAvTargetName,
      put16 (?n + 8 + 22) (of_nat (length ?s)), copy_from (?n + 8 + 24) ?s]) (?c @ ?z (?k + 8)) = Some (?d @ ?z 8)"
    using put_av(2) [of ?c "?n + 8 + 20" MsvAvTargetName ?s 8] by (simp add: when_w_def)
  have e: "writes [put16 (?n + 28 + ?k) 0, put16 (?n + 28 + ?k + 2) 0] (?d @ ?z 8) = Some (?d @ ?z 8)"
    using put16_zero [of 0 8 ?d] put16_zero [of 2 8 ?d] by (cases "?s = []") (simp_all add: ac_simps)
  have "targetInfoEncoder_encode i (?z (targetInfoEncoder_size i + 4)) =
      writes ([copy_from 0 ?a, writes [put16 ?n MsvAvFlags, put16 (?n + 2) 4, put32 (?n + 4) 2]] @
        [put16 (?n + 8) MsvAvChannelBindings, put16 (?n + 8 + 2) 16] @
        [when_w (length ?s \<noteq> 0) (writes [put16 (?n + 8 + 20) MsvAvTargetName,
          put16 (?n + 8 + 22) (of_nat (length ?s)), copy_from (?n + 8 + 24) ?s])] @
        [put16 (?n + 28 + ?k) 0, put16 (?n + 28 + ?k + 2) 0]) (?z (targetInfoEncoder_size i + 4))"
    using assms N by (cases "?s = []") (simp_all add: targetInfoEncoder_encode_def targetInfoEncoder_patch_def Let_def
        when_w_def ac_simps cong: option.case_cong)
  also have "\<dots> = Some (?d @ ?z 8)"
    unfolding writes_append using a f c d e by simp
  finally show ?thesis by (simp add: client_avs_def flip: replicate_add)
qed

lemma targetInfoEncoder_size_eq:
  assumes "ti_InfoMap i MsvAvFlags = None" "ti_Info i = avs_bytes (t @ [(MsvAvEOL, [])])"
  shows "length (avs_bytes (client_avs t (ti_SPN i))) = targetInfoEncoder_size i + 4"
  using assms by (simp add: targetInfoEncoder_size_def client_avs_def)

section \<open>The authenticate message\<close>

text \<open>Signature, type, domain and user as the server reads them; behind the names and in the place of
  the integrity code there are zeros.\<close>

definition names_ok :: "bytes \<Rightarrow> bytes \<Rightarrow> bytes \<Rightarrow> bytes \<Rightarrow> bool" where
  "names_ok domain user ws p \<longleftrightarrow>
     (let d = length domain; u = length user; off = 88 + d + u + length ws in
      off \<le> length p \<and> rd 0 8 p = ntlm_signature \<and> rd 8 4 p = le_of_word 4 NtLmAuthenticate \<and>
      rd 28 8 p = field_bytes d 88 \<and> rd 88 d p = domain \<and>
      rd 36 8 p = field_bytes u (88 + d) \<and> rd (88 + d) u p = user \<and>
      rd 52 36 p = replicate 36 0 \<and> rd off (length p - off) p = replicate (length p - off) 0)"

lemma client_names_ok:
  assumes "88 + length domain + length user + length ws \<le> N" "user \<noteq> []"
  shows "\<exists>p. client_names domain user ws (replicate N 0) = Some p \<and> length p = N \<and> names_ok domain user ws p"
proof -
  let ?d = "length domain" and ?u = "length user" and ?w = "length ws"
  define p1 where "p1 = upd 28 (field_bytes ?d 88) (upd 88 domain (upd 8 (le_of_word 4 NtLmAuthenticate)
    (upd 0 ntlm_signature (replicate N 0))))"
  define p2 where "p2 = upd 36 (field_bytes ?u (88 + ?d)) (upd (88 + ?d) user p1)"
  define p where "p = (if ws = [] then p2 else upd 44 (field_bytes ?w (88 + ?d + ?u)) (upd (88 + ?d + ?u) ws p2))"
  have len: "length p1 = N" "length p2 = N" "length p = N" by (simp_all add: p1_def p2_def p_def)
  have "client_names domain user ws (replicate N 0) = Some p"
    using assms len unfolding p_def p2_def p1_def
    by (simp add: client_names_def put_field_eq copy_slice_def copy_from_def put32_def put_def when_w_def cong: option.case_cong)
  moreover have "rd 0 8 p = ntlm_signature" "rd 8 4 p = le_of_word 4 NtLmAuthenticate" "rd 28 8 p = field_bytes ?d 88"
    "rd 88 ?d p = domain" "rd 36 8 p = field_bytes ?u (88 + ?d)" "rd (88 + ?d) ?u p = user" "rd 52 36 p = replicate 36 0"
    "rd (88 + ?d + ?u + ?w) (N - (88 + ?d + ?u + ?w)) p = replicate (N - (88 + ?d + ?u + ?w)) 0"
    using assms len by (simp_all add: p_def p2_def p1_def go_buf rd_replicate)
  ultimately show ?thesis using len assms by (auto simp: names_ok_def)
qed

lemma on_slice_zeros:
  assumes "rd a k p = replicate k 0" "a + k \<le> length p" "w (replicate k 0) = Some q" "length q = k"
  shows "on_slice a (a + k) w p = Some (upd a q p)"
  using assms by (simp add: on_slice_def rd_def upd_def add.commute)

lemma on_slice_same:
  assumes "a \<le> b" "b \<le> length p" "\<And>x. w x = Some x"
  shows "on_slice a b w p = Some p"
proof -
  have "take a p @ take (b - a) (drop a p) @ drop b p = p"
    using assms(1) append_take_drop_id [of "b - a" "drop a p"] by (simp add: append_take_drop_id)
  then show ?thesis using assms by (simp add: on_slice_def)
qed

lemma flags_default: "defaultFlags AND NTLMSSP_NEGOTIATE_KEY_EXCH \<noteq> 0" "defaultFlags AND NTLMSSP_NEGOTIATE_VERSION \<noteq> 0"
  "defaultFlags AND NTLMSSP_REQUEST_TARGET \<noteq> 0" "defaultFlags AND NTLMSSP_NEGOTIATE_TARGET_INFO \<noteq> 0"
  "defaultFlags AND NTLMSSP_NEGOTIATE_EXTENDED_SESSIONSECURITY \<noteq> 0" "defaultFlags AND NTLMSSP_NEGOTIATE_128 \<noteq> 0"
  by (simp_all add: defaultFlags_def)

lemma ntlm_handles_default: "\<exists>h. ntlm_handles C defaultFlags key = Some (Inr h)"
  by (simp add: ntlm_handles_def sealKey_def flags_default rc4_NewCipher_def)

text \<open>What the second half of the client's \<open>Authenticate\<close> adds to the names, for the flags both sides
  negotiate by default.\<close>

definition nt_response :: "ntlm_crypto \<Rightarrow> bytes \<Rightarrow> bytes \<Rightarrow> bytes \<Rightarrow> bytes \<Rightarrow> bytes \<Rightarrow> bytes" where
  "nt_response C key sc ts cc ti = hmac_md5 C key (sc @ ntlm_blob ts cc ti) @ ntlm_blob ts cc ti"

lemma length_nt_response [simp]:
  "length (nt_response C key sc ts cc ti) = 28 + length ts + length cc + length ti"
  by (simp add: nt_response_def)

definition response_reads :: "ntlm_crypto \<Rightarrow> bytes \<Rightarrow> bytes \<Rightarrow> bytes \<Rightarrow> nat \<Rightarrow> bytes \<Rightarrow> bytes \<Rightarrow> bytes \<Rightarrow> bytes \<Rightarrow> bool" where
  "response_reads C nmsg cmsg key off nt rkey amsg0 amsg \<longleftrightarrow>
     (let n = length amsg; kek = hmac_md5 C key (take 16 nt) in
      n = off + 24 + length nt + 16 \<and>
      (\<forall>m k. m + k \<le> 12 \<or> 28 \<le> m \<and> m + k \<le> 52 \<or> 88 \<le> m \<and> m + k \<le> off \<longrightarrow> rd m k amsg = rd m k amsg0) \<and>
      rd 20 8 amsg = field_bytes (length nt) (off + 24) \<and> rd (off + 24) (length nt) amsg = nt \<and>
      rd 52 8 amsg = field_bytes 16 (n - 16) \<and>
      rd (n - 16) 16 amsg = fst (rc4_XORKeyStream C rkey (kek, 0)) \<and>
      rd 60 4 amsg = le_of_word 4 defaultFlags \<and>
      rd 72 16 amsg = hmac_md5 C rkey (nmsg @ cmsg @ upd 72 (replicate 16 0) amsg))"

lemma client_respond_reads:
  assumes key: "client_response_key C c domain = Some key" and sc: "32 \<le> length cmsg"
    and enc: "targetInfoEncoder_encode info (replicate k 0) = Some ti" "length ti = k"
    and ts: "client_timestamp now info = ts" "length ts = 8" and rnd: "length cc = 8" "length rkey = 16"
    and p: "length amsg0 = off + 24 + (44 + k) + 16" "88 \<le> off" "rd 52 36 amsg0 = replicate 36 0"
      "rd off (length amsg0 - off) amsg0 = replicate (length amsg0 - off) 0"
  shows "\<exists>amsg sess. client_respond C now cc rkey c cmsg defaultFlags domain info off amsg0 = Some (Inr (amsg, sess)) \<and>
    response_reads C (ntc_nmsg c) cmsg key off (nt_response C key (rd 24 8 cmsg) ts cc ti) rkey amsg0 amsg \<and>
    ns_exportedSessionKey sess = rkey"
proof -
  let ?nt = "nt_response C key (rd 24 8 cmsg) ts cc ti" and ?n = "off + 24 + (44 + k) + 16"
  let ?kek = "hmac_md5 C key (take 16 ?nt)"
  let ?ek = "fst (rc4_XORKeyStream C rkey (?kek, 0))"
  have nt: "length ?nt = 44 + k" using enc(2) ts(2) rnd(1) by simp
  have ek: "length ?ek = 16" using rnd(2) by (simp add: rc4_XORKeyStream_def)
  define p1 where "p1 = upd 12 (field_bytes 24 off) amsg0"
  define p2 where "p2 = upd (off + 24) ?nt p1"
  define p3 where "p3 = upd 20 (field_bytes (44 + k) (off + 24)) p2"
  define p4 where "p4 = upd 52 (field_bytes 16 (off + 24 + (44 + k))) (upd (off + 24 + (44 + k)) ?ek p3)"
  define p5 where "p5 = upd 64 ntlm_version (upd 60 (le_of_word 4 defaultFlags) p4)"
  define p6 where "p6 = upd 72 (hmac_md5 C rkey (ntc_nmsg c @ cmsg @ p5)) p5"
  have len: "length p1 = ?n" "length p2 = ?n" "length p3 = ?n" "length p4 = ?n" "length p5 = ?n" "length p6 = ?n"
    using p(1) by (simp_all add: p1_def p2_def p3_def p4_def p5_def p6_def)
  have "rd (off + 24) (44 + k) p1 = replicate (44 + k) 0"
    using p rd_zeros_sub [OF p(4), of "off + 24" "44 + k"] by (simp add: p1_def go_buf)
  then have s: "on_slice (off + 24) (off + 24 + (44 + k))
      (encodeNtlmv2Response (hmac_md5 C key) (rd 24 8 cmsg) cc ts (targetInfoEncoder_encode info)) p1 = Some p2"
    unfolding p2_def using enc ts rnd nt len
    by (intro on_slice_zeros) (simp_all add: encodeNtlmv2Response_eq nt_response_def)
  have nt': "go_slice p2 (off + 24) (off + 24 + (44 + k)) = Some ?nt"
    using len nt by (simp add: go_slice_eq_rd p2_def go_buf)
  obtain ch sh where h: "ntlm_handles C defaultFlags rkey = Some (Inr (ch, sh))"
    using ntlm_handles_default [of C rkey] by auto
  have z5: "upd 72 (replicate 16 0) p6 = p5"
  proof -
    have "rd 72 16 p5 = replicate 16 0"
      using p rd_zeros_sub [OF p(3), of 72 16] by (simp add: p5_def p4_def p3_def p2_def p1_def go_buf)
    then show ?thesis using len p(2) upd_zeros [of 72 16 p5] upd_upd_cover [of _ "replicate 16 0" 72 p5] by (simp add: p6_def)
  qed
  have f: "put_field 12 24 off amsg0 = Some p1" "put_field 20 (44 + k) (off + 24) p2 = Some p3"
    "put_field 52 16 (off + 24 + (44 + k)) (upd (off + 24 + (44 + k)) ?ek p3) = Some p4"
    "writes [put32 60 defaultFlags, copy_from 64 ntlm_version] p4 = Some p5"
    using len p(1,2) by (simp_all add: put_field_eq p1_def p3_def p4_def p5_def put32_def put_def copy_from_def)
  have "\<exists>sess. client_respond C now cc rkey c cmsg defaultFlags domain info off amsg0 = Some (Inr (p6, sess)) \<and>
      ns_exportedSessionKey sess = rkey"
    using key sc f s nt nt' h ts(1) p(1) ek len
    by (simp add: client_respond_def Let_def go_slice_eq_rd [of cmsg] flags_default rc4_NewCipher_def put_def
        and_then_def p6_def del: length_nt_response)
  moreover have "response_reads C (ntc_nmsg c) cmsg key off ?nt rkey amsg0 p6"
    using len ek p(2) unfolding response_reads_def Let_def z5
    by (auto simp: nt p6_def p5_def p4_def p3_def p2_def p1_def go_buf simp del: length_nt_response)
  ultimately show ?thesis by blast
qed

section \<open>The server accepts what the client sends\<close>

lemma rc4_decrypts:
  assumes "length m = n"
  shows "fst (rc4_XORKeyStream C (fst (rc4_XORKeyStream C m (k, 0))) (k, 0)) = m"
proof -
  have "length (map (nc_rc4 C k) [0..<length m]) = length m" by simp
  then show ?thesis using assms by (simp add: rc4_XORKeyStream_def xor_bytes_cancel)
qed

lemma server_session_key_decrypts:
  assumes "length rkey = 16" "kek = hmac_md5 C k m"
  shows "server_session_key C defaultFlags kek (fst (rc4_XORKeyStream C rkey (kek, 0))) = Some (Inr rkey)"
  using assms rc4_decrypts [OF assms(1)]
  by (simp add: server_session_key_def flags_default rc4_NewCipher_def upd_0_all) (simp add: rc4_XORKeyStream_def)

lemma u32_at_flags: "u32_at [2, 0, 0, 0] 0 = Some 2"
  using word_of_le_of_word [of 4 "2 :: u32"] unfolding le_of_2 by (simp add: un_at_eqs rd_def)

lemma server_check_mic_accepts:
  assumes "parseAvPairs ti = Some im" "im MsvAvFlags = Some (pos, [2, 0, 0, 0])" "88 \<le> length amsg"
    "rd 72 16 amsg = hmac_md5 C key (nmsg @ cmsg @ upd 72 (replicate 16 0) amsg)"
  shows "server_check_mic C defaultFlags key nmsg cmsg amsg ti = Some (Inr ())"
  using assms by (simp add: server_check_mic_def u32_at_flags flags_default go_slice_eq_rd copy_slice_def put_def)

lemma ntlm_login_accepts:
  assumes u: "wf_string user" "nts_accounts s user = Some pw" and key: "key = account_key C s user domain"
    and len: "length ts = 8" "length cc = 8" "length rkey = 16" "32 \<le> length (nts_cmsg s)" "88 \<le> length amsg"
    and nt: "nt = nt_response C key (rd 24 8 (nts_cmsg s)) ts cc ti"
    and ek: "ek = fst (rc4_XORKeyStream C rkey (hmac_md5 C key (take 16 nt), 0))"
    and ti: "parseAvPairs ti = Some im" "im MsvAvFlags = Some (pos, [2, 0, 0, 0])"
    and mic: "rd 72 16 amsg = hmac_md5 C rkey (nts_nmsg s @ nts_cmsg s @ upd 72 (replicate 16 0) amsg)"
  shows "\<exists>sess. ntlm_login C s amsg defaultFlags nt domain (utf16_bytes user) ek = Some (Inr sess) \<and>
    ns_exportedSessionKey sess = rkey \<and> ns_user sess = user"
proof -
  let ?h = "hmac_md5 C key" and ?b = "ntlm_blob ts cc ti"
  have b: "rd 8 8 ?b = ts" "rd 16 8 ?b = cc" "drop 28 ?b = ti" "drop 16 nt = ?b"
    using len nt by (simp_all add: ntlm_blob_def nt_response_def rd_def)
  have n: "length nt = 44 + length ti" using nt len by simp
  have e: "encodeNtlmv2Response ?h (rd 24 8 (nts_cmsg s)) cc ts (bytesEncoder_encode ti) (replicate (44 + length ti) 0) = Some nt"
    using encodeNtlmv2Response_eq [of ts cc "bytesEncoder_encode ti" "length ti" ti ?h "rd 24 8 (nts_cmsg s)"] len nt
    by (simp add: bytesEncoder_encode_def copy_from_def put_def upd_0_all nt_response_def)
  have k: "ntowfv2 C (utf16_bytes (nc_ToUpper C user)) (utf16_bytes pw) domain = key"
    using key u by (simp add: account_key_def)
  obtain ch sh where h: "ntlm_handles C defaultFlags rkey = Some (Inr (ch, sh))"
    using ntlm_handles_default [of C rkey] by auto
  have "server_session_key C defaultFlags (?h (take 16 nt)) ek = Some (Inr rkey)"
    unfolding ek using len(3) by (rule server_session_key_decrypts) simp
  moreover have "server_check_mic C defaultFlags rkey (nts_nmsg s) (nts_cmsg s) amsg ti = Some (Inr ())"
    using ti len(5) mic by (rule server_check_mic_accepts)
  ultimately show ?thesis
    using u len(1,2,4) e h n b k
    by (simp add: ntlm_login_def DecodeToString_wf EncodeStringToBytes_eq go_slice_from_def go_slice_eq_rd Let_def and_then_def)
qed

lemma utf16_bytes_Nil: "utf16_bytes s = [] \<longleftrightarrow> s = []"
proof -
  have "runes s = [] \<longleftrightarrow> s = []" by (cases s) (auto split: prod.split)
  moreover have "le16s ws = [] \<longleftrightarrow> ws = []" for ws by (cases ws) (simp_all flip: length_0_conv)
  ultimately show ?thesis by (simp add: utf16_Encode_Nil_iff)
qed

text \<open>The client's answer to a challenge that carries the default flags and target info without the
  flags pair.\<close>

lemma client_Authenticate_reads:
  assumes c: "ntc_User c \<noteq> []" "u32_at (ntc_nmsg c) 12 = Some defaultFlags"
    and hd: "48 \<le> length cmsg" "take 8 cmsg = ntlm_signature" "u32_at cmsg 8 = Some NtLmChallenge"
      "u32_at cmsg 20 = Some defaultFlags" "ntlm_field cmsg 12 = Some (Inr name)"
    and ti: "ntlm_field cmsg 40 = Some (Inr (avs_bytes (t @ [(MsvAvEOL, [])])))" "u32_at cmsg 44 = Some o4"
      "unat o4 + TargetInfo_Size (t @ [(MsvAvEOL, [])]) \<le> length cmsg"
    and av: "avs_ok (t @ [(MsvAvEOL, [])])" "MsvAvFlags \<notin> fst ` set t"
      "map_of (rev (t @ [(MsvAvEOL, [])])) MsvAvTimestamp = Some ts" "length ts = 8"
    and rnd: "length cc = 8" "length rkey = 16"
    and dom: "domain = (if ntc_Domain c = [] then name else utf16_bytes (ntc_Domain c))"
    and key: "client_response_key C c domain = Some key"
  shows "\<exists>amsg0 amsg sess. ntlm_client_Authenticate C now cc rkey c cmsg = Some (Inr (amsg, c\<lparr>ntc_session := Some sess\<rparr>)) \<and>
    names_ok domain (utf16_bytes (ntc_User c)) (utf16_bytes (ntc_Workstation c)) amsg0 \<and>
    response_reads C (ntc_nmsg c) cmsg key
      (88 + length domain + length (utf16_bytes (ntc_User c)) + length (utf16_bytes (ntc_Workstation c)))
      (nt_response C key (rd 24 8 cmsg) ts cc (avs_bytes (client_avs t (utf16_bytes (ntc_TargetSPN c))))) rkey amsg0 amsg \<and>
    ns_exportedSessionKey sess = rkey"
proof -
  let ?u = "utf16_bytes (ntc_User c)" and ?w = "utf16_bytes (ntc_Workstation c)" and ?s = "utf16_bytes (ntc_TargetSPN c)"
  let ?t = "t @ [(MsvAvEOL, [])]" and ?off = "88 + length domain + length ?u + length ?w"
  define i where "i = \<lparr>ti_Info = avs_bytes ?t, ti_SPN = ?s, ti_InfoMap = av_map_of 0 (\<lambda>_. None) ?t\<rparr>"
  let ?k = "targetInfoEncoder_size i + 4"
  have f: "ti_InfoMap i MsvAvFlags = None" using av(2) av_map_None [of MsvAvFlags ?t] by (simp add: i_def)
  obtain pos where "av_map_of 0 (\<lambda>_. None) ?t MsvAvTimestamp = Some (pos, ts)" using av(3) by (rule av_map_Some)
  then have ts: "client_timestamp now i = ts" by (simp add: client_timestamp_def i_def)
  have new: "newTargetInfoEncoder (avs_bytes ?t) ?s = Some i"
    using parseAvPairs_avs [OF av(1)] by (simp add: newTargetInfoEncoder_def i_def)
  have enc: "targetInfoEncoder_encode i (replicate ?k 0) = Some (avs_bytes (client_avs t ?s))"
    using targetInfoEncoder_encode_eq [OF f, of t] by (simp add: i_def)
  have k: "length (avs_bytes (client_avs t ?s)) = ?k"
    using targetInfoEncoder_size_eq [OF f, of t] by (simp add: i_def)
  have "?u \<noteq> []" using c(1) utf16_bytes_Nil by blast
  then obtain amsg0 where n: "client_names domain ?u ?w (replicate (?off + 24 + (44 + ?k) + 16) 0) = Some amsg0"
    "length amsg0 = ?off + 24 + (44 + ?k) + 16" "names_ok domain ?u ?w amsg0"
    using client_names_ok [of domain ?u ?w "?off + 24 + (44 + ?k) + 16"] by auto
  have z: "32 \<le> length cmsg" "88 \<le> ?off" "rd 52 36 amsg0 = replicate 36 0"
    "rd ?off (length amsg0 - ?off) amsg0 = replicate (length amsg0 - ?off) 0"
    using hd(1) n(3) by (simp_all add: names_ok_def Let_def)
  obtain amsg sess where r: "client_respond C now cc rkey c cmsg defaultFlags domain i ?off amsg0 = Some (Inr (amsg, sess))"
    "response_reads C (ntc_nmsg c) cmsg key ?off (nt_response C key (rd 24 8 cmsg) ts cc (avs_bytes (client_avs t ?s))) rkey amsg0 amsg"
    "ns_exportedSessionKey sess = rkey"
    using client_respond_reads [OF key z(1) enc k ts av(4) rnd n(2) z(2-4)] by blast
  have "on_slice (unat o4) (unat o4 + length (avs_bytes ?t)) (targetInfoEncoder_patch i) cmsg = Some cmsg"
    using ti(3) f by (intro on_slice_same) (simp_all add: targetInfoEncoder_patch_def length_avs_bytes del: avs_bytes_simps)
  moreover have "(if utf16_bytes (ntc_Domain c) = [] then name else utf16_bytes (ntc_Domain c)) = domain"
    unfolding dom utf16_bytes_Nil by (rule refl)
  ultimately have "ntlm_client_Authenticate C now cc rkey c cmsg = Some (Inr (amsg, c\<lparr>ntc_session := Some sess\<rparr>))"
    using hd ti c new n(1) r(1)
    by (simp add: ntlm_client_Authenticate_def flags_default and_then_def EncodeStringToBytes_eq client_credentials_def Let_def)
  then show ?thesis using n(3) r(2,3) by blast
qed

text \<open>The server on a message with these parts.\<close>

lemma server_Authenticate_accepts:
  assumes u: "wf_string user" "nts_accounts s user = Some pw" and key: "key = account_key C s user domain"
    and n: "names_ok domain (utf16_bytes user) ws amsg0"
    and r: "response_reads C (nts_nmsg s) (nts_cmsg s) key (88 + length domain + length (utf16_bytes user) + length ws) nt rkey amsg0 amsg"
    and nt: "nt = nt_response C key (rd 24 8 (nts_cmsg s)) ts cc ti" "length nt < 65536"
    and len: "length ts = 8" "length cc = 8" "length rkey = 16" "32 \<le> length (nts_cmsg s)"
      "length domain < 65536" "length (utf16_bytes user) < 65536" "length amsg < 4294967296"
    and ti: "parseAvPairs ti = Some im" "im MsvAvFlags = Some (pos, [2, 0, 0, 0])"
  shows "\<exists>sess. ntlm_Authenticate C s amsg = Some (None, s\<lparr>nts_session := Some sess\<rparr>) \<and>
    ns_exportedSessionKey sess = rkey \<and> ns_user sess = user"
proof -
  let ?d = "length domain" and ?u = "utf16_bytes user"
  let ?off = "88 + ?d + length ?u + length ws" and ?ek = "fst (rc4_XORKeyStream C rkey (hmac_md5 C key (take 16 nt), 0))"
  have N: "length amsg = ?off + 24 + length nt + 16"
    and keep: "\<And>m k. m + k \<le> 12 \<or> 28 \<le> m \<and> m + k \<le> 52 \<or> 88 \<le> m \<and> m + k \<le> ?off \<Longrightarrow> rd m k amsg = rd m k amsg0"
    and f: "rd 20 8 amsg = field_bytes (length nt) (?off + 24)" "rd (?off + 24) (length nt) amsg = nt"
      "rd 52 8 amsg = field_bytes 16 (length amsg - 16)" "rd (length amsg - 16) 16 amsg = ?ek"
      "rd 60 4 amsg = le_of_word 4 defaultFlags"
    and mic: "rd 72 16 amsg = hmac_md5 C rkey (nts_nmsg s @ nts_cmsg s @ upd 72 (replicate 16 0) amsg)"
    using r by (auto simp: response_reads_def Let_def)
  have k: "rd 0 8 amsg = ntlm_signature" "rd 8 4 amsg = le_of_word 4 NtLmAuthenticate" "rd 28 8 amsg = field_bytes ?d 88"
    "rd 88 ?d amsg = domain" "rd 36 8 amsg = field_bytes (length ?u) (88 + ?d)" "rd (88 + ?d) (length ?u) amsg = ?u"
    using n keep by (simp_all add: names_ok_def Let_def)
  have fields: "ntlm_field amsg 20 = Some (Inr nt)" "ntlm_field amsg 28 = Some (Inr domain)"
    "ntlm_field amsg 36 = Some (Inr ?u)" "ntlm_field amsg 52 = Some (Inr ?ek)"
    using ntlm_field_eq [OF f(1)] ntlm_field_eq [OF f(3)] ntlm_field_eq [OF k(3)] ntlm_field_eq [OF k(5)] N len nt(2) f k
    by simp_all
  have hd: "take 8 amsg = ntlm_signature" "u32_at amsg 8 = Some NtLmAuthenticate" "u32_at amsg 60 = Some defaultFlags"
    using k(1,2) f(5) N by (simp_all add: rd_def [of 0] un_at_eqs)
  obtain sess where "ntlm_login C s amsg defaultFlags nt domain ?u ?ek = Some (Inr sess)"
    "ns_exportedSessionKey sess = rkey" "ns_user sess = user"
    using ntlm_login_accepts [OF u key len(1-4) _ nt(1) refl ti mic] N by auto
  moreover have "length nt \<noteq> 0" using nt(1) by simp
  ultimately show ?thesis
    using fields hd N by (intro exI [of _ sess]) (simp add: ntlm_Authenticate_def and_then_def)
qed

section \<open>The whole handshake\<close>

text \<open>The four calls in their order, as \<open>spnego\<close> makes them on the two sides: what both ends hold at
  the end.\<close>

definition ntlm_handshake :: "ntlm_crypto \<Rightarrow> u64 \<Rightarrow> u64 \<Rightarrow> bytes \<Rightarrow> bytes \<Rightarrow> bytes \<Rightarrow> ntlm_client \<Rightarrow> ntlm_server \<Rightarrow>
    (ntlm_client \<times> ntlm_error option \<times> ntlm_server) option" where
  "ntlm_handshake C now now' rnd cc rkey c s = do {
     (nmsg, c) \<leftarrow> ntlm_Negotiate c;
     (r, s) \<leftarrow> ntlm_Challenge now (Some rnd) s nmsg;
     case r of Inl e \<Rightarrow> Some (c, Some e, s) | Inr cmsg \<Rightarrow> do {
       r \<leftarrow> ntlm_client_Authenticate C now' cc rkey c cmsg;
       case r of Inl e \<Rightarrow> Some (c, Some e, s) | Inr (amsg, c) \<Rightarrow> do {
         (e, s) \<leftarrow> ntlm_Authenticate C s amsg;
         Some (c, e, s) } } }"

definition names_short :: "ntlm_client \<Rightarrow> ntlm_server \<Rightarrow> bool" where
  "names_short c s \<longleftrightarrow> list_all (\<lambda>n. length (utf16_bytes n) < 4096)
     [ntc_User c, ntc_Domain c, ntc_Workstation c, ntc_TargetSPN c,
      nts_targetName s, nts_nbName s, nts_nbDomain s, nts_dnsName s, nts_dnsDomain s]"

lemma ntlm_Negotiate_eq:
  obtains nmsg where "ntlm_Negotiate c = Some (nmsg, c\<lparr>ntc_nmsg := nmsg\<rparr>)" "length nmsg = 40" "take 8 nmsg = ntlm_signature"
    "u32_at nmsg 8 = Some NtLmNegotiate" "u32_at nmsg 12 = Some defaultFlags"
proof -
  define m where "m = upd 32 ntlm_version (upd 12 (le_of_word 4 defaultFlags) (upd 8 (le_of_word 4 NtLmNegotiate)
    (upd 0 ntlm_signature (replicate 40 0))))"
  have "ntlm_Negotiate c = Some (m, c\<lparr>ntc_nmsg := m\<rparr>)"
    by (simp add: ntlm_Negotiate_def m_def copy_slice_def copy_from_def put32_def put_def)
  moreover have "rd 0 8 m = ntlm_signature" "rd 8 4 m = le_of_word 4 NtLmNegotiate" "rd 12 4 m = le_of_word 4 defaultFlags"
    by (simp_all add: m_def go_buf)
  then have "take 8 m = ntlm_signature" "u32_at m 8 = Some NtLmNegotiate" "u32_at m 12 = Some defaultFlags"
    by (simp_all add: rd_def [of 0] un_at_eqs m_def)
  ultimately show ?thesis using that by (simp add: m_def)
qed

lemma server_avs_bounds:
  assumes "names_short c s"
  shows "avs_ok (server_avs s now @ [(MsvAvEOL, [])])" "TargetInfo_Size (server_avs s now @ [(MsvAvEOL, [])]) < 16500"
  using assms by (auto simp: names_short_def avs_ok_def server_avs_def opt_av_def TargetInfo_Size_def)

lemma client_avs_parse:
  assumes "avs_ok (t @ [(MsvAvEOL, [])])" "length spn < 65536"
  obtains im pos where "parseAvPairs (avs_bytes (client_avs t spn)) = Some im" "im MsvAvFlags = Some (pos, [2, 0, 0, 0])"
proof -
  define u where "u = t @ [(MsvAvFlags, [2, 0, 0, 0]), (MsvAvChannelBindings, replicate 16 0)] @
    (if spn = [] then [] else [(MsvAvTargetName, spn)]) @ [(MsvAvEOL, [])]"
  have u: "client_avs t spn = u @ [(MsvAvEOL, [])]" by (simp add: client_avs_def u_def)
  have "avs_ok (u @ [(MsvAvEOL, [])])" using assms by (simp add: avs_ok_def u_def)
  moreover obtain pos where "av_map_of 0 (\<lambda>_. None) (u @ [(MsvAvEOL, [])]) MsvAvFlags = Some (pos, [2, 0, 0, 0])"
    by (rule av_map_Some [of "u @ [(MsvAvEOL, [])]" MsvAvFlags "[2, 0, 0, 0]" 0]) (simp_all add: u_def)
  ultimately show ?thesis using that parseAvPairs_avs [of u] unfolding u by blast
qed

text \<open>The four messages of a successful exchange, with bounds on their length.\<close>

lemma ntlm_exchange_ok:
  assumes c: "ntc_User c \<noteq> []" "wf_string (ntc_User c)" "ntc_Hash c = None"
    and s: "nts_accounts s (ntc_User c) = Some (ntc_Password c)" and short: "names_short c s"
    and rnd: "length rnd = 8" "length cc = 8" "length rkey = 16"
  obtains nmsg cmsg amsg kc ks where
    "ntlm_Negotiate c = Some (nmsg, c\<lparr>ntc_nmsg := nmsg\<rparr>)" "length nmsg = 40" "take 8 nmsg = ntlm_signature"
    "ntlm_Challenge now (Some rnd) s nmsg = Some (Inr cmsg, s\<lparr>nts_nmsg := nmsg, nts_cmsg := cmsg\<rparr>)"
    "length cmsg < 65000" "48 \<le> length cmsg" "take 8 cmsg = ntlm_signature"
    "ntlm_client_Authenticate C now' cc rkey (c\<lparr>ntc_nmsg := nmsg\<rparr>) cmsg =
      Some (Inr (amsg, c\<lparr>ntc_nmsg := nmsg, ntc_session := Some kc\<rparr>))" "length amsg < 65000" "take 8 amsg = ntlm_signature"
    "ntlm_Authenticate C (s\<lparr>nts_nmsg := nmsg, nts_cmsg := cmsg\<rparr>) amsg =
      Some (None, s\<lparr>nts_nmsg := nmsg, nts_cmsg := cmsg, nts_session := Some ks\<rparr>)"
    "ns_exportedSessionKey kc = rkey" "ns_exportedSessionKey ks = rkey" "ns_user ks = ntc_User c"
proof -
  let ?av = "server_avs s now" and ?tn = "utf16_bytes (nts_targetName s)" and ?u = "utf16_bytes (ntc_User c)"
  let ?t = "?av @ [(MsvAvEOL, [])]" and ?spn = "utf16_bytes (ntc_TargetSPN c)"
  have av: "avs_ok ?t" "TargetInfo_Size ?t < 16500" using server_avs_bounds [OF short] by auto
  have l: "length ?tn < 4096" "length ?u < 4096" "length (utf16_bytes (ntc_Domain c)) < 4096"
    "length (utf16_bytes (ntc_Workstation c)) < 4096" "length ?spn < 4096" using short by (simp_all add: names_short_def)
  obtain nmsg where n: "ntlm_Negotiate c = Some (nmsg, c\<lparr>ntc_nmsg := nmsg\<rparr>)" "length nmsg = 40" "take 8 nmsg = ntlm_signature"
    "u32_at nmsg 8 = Some NtLmNegotiate" "u32_at nmsg 12 = Some defaultFlags" by (rule ntlm_Negotiate_eq)
  have tn: "length ?tn < 65536" "TargetInfo_Size ?t < 65536" using l(1) av(2) by linarith+
  obtain cmsg name where m: "challenge_message defaultFlags ?tn ?t rnd = Some cmsg"
    "length cmsg = 60 + TargetInfo_Size ?t + length ?tn" "take 8 cmsg = ntlm_signature" "u32_at cmsg 8 = Some NtLmChallenge"
    "u32_at cmsg 20 = Some defaultFlags" "rd 24 8 cmsg = rnd" "ntlm_field cmsg 12 = Some (Inr name)"
    "length name = length ?tn" "ntlm_field cmsg 40 = Some (Inr (avs_bytes ?t))" "u32_at cmsg 44 = Some (of_nat (56 + length ?tn))"
    by (rule challenge_message_reads [OF rnd(1) tn])
  define c1 s1 where "c1 = c\<lparr>ntc_nmsg := nmsg\<rparr>" and "s1 = s\<lparr>nts_nmsg := nmsg, nts_cmsg := cmsg\<rparr>"
  define domain where "domain = (if ntc_Domain c = [] then name else utf16_bytes (ntc_Domain c))"
  define key where "key = account_key C s1 (ntc_User c) domain"
  have ch: "ntlm_Challenge now (Some rnd) s nmsg = Some (Inr cmsg, s1)"
    using n m(1) server_target_info_eq [of "s\<lparr>nts_nmsg := nmsg\<rparr>" now]
    by (simp add: ntlm_Challenge_def Let_def EncodeStringToBytes_eq s1_def server_avs_def defaultFlags_def)
  have key': "client_response_key C c1 domain = Some key"
    using c(3) s by (simp add: client_response_key_def key_def account_key_def c1_def s1_def EncodeStringToBytes_eq)
  have o4: "unat (of_nat (56 + length ?tn) :: u32) + TargetInfo_Size ?t \<le> length cmsg"
    using l(1) m(2) by (simp add: unat_of_nat take_bit_nat_eq_self del: of_nat_add)
  have c1: "ntc_User c1 \<noteq> []" "u32_at (ntc_nmsg c1) 12 = Some defaultFlags"
    "domain = (if ntc_Domain c1 = [] then name else utf16_bytes (ntc_Domain c1))"
    "ntc_User c1 = ntc_User c" "ntc_Workstation c1 = ntc_Workstation c" "ntc_TargetSPN c1 = ntc_TargetSPN c" "ntc_nmsg c1 = nmsg"
    and cm: "48 \<le> length cmsg" using c n m(2) by (simp_all add: c1_def domain_def)
  obtain amsg0 amsg kc where a: "ntlm_client_Authenticate C now' cc rkey c1 cmsg = Some (Inr (amsg, c1\<lparr>ntc_session := Some kc\<rparr>))"
    "names_ok domain ?u (utf16_bytes (ntc_Workstation c)) amsg0"
    "response_reads C nmsg cmsg key (88 + length domain + length ?u + length (utf16_bytes (ntc_Workstation c)))
      (nt_response C key (rd 24 8 cmsg) (filetime_bytes (NsecToFiletime now)) cc (avs_bytes (client_avs ?av ?spn))) rkey amsg0 amsg"
    "ns_exportedSessionKey kc = rkey"
    using client_Authenticate_reads [OF c1(1,2) cm m(3,4,5,7,9,10) o4 av(1) server_avs_ids length_filetime_bytes rnd(2,3) c1(3) key',
        of now'] unfolding c1(4-7) by blast
  obtain im pos where im: "parseAvPairs (avs_bytes (client_avs ?av ?spn)) = Some im" "im MsvAvFlags = Some (pos, [2, 0, 0, 0])"
    using client_avs_parse [OF av(1), of ?spn] l(5) by auto
  have s1: "nts_accounts s1 (ntc_User c) = Some (ntc_Password c)" "nts_nmsg s1 = nmsg" "nts_cmsg s1 = cmsg"
    using s by (simp_all add: s1_def)
  have d: "length domain < 4096" using l m(8) by (simp add: domain_def)
  have ti: "length (avs_bytes (client_avs ?av ?spn)) < 30000"
    using av(2) l(5) by (simp add: client_avs_def length_avs_bytes TargetInfo_Size_def)
  then have nt: "length (nt_response C key (rd 24 8 (nts_cmsg s1)) (filetime_bytes (NsecToFiletime now)) cc
      (avs_bytes (client_avs ?av ?spn))) < 65536" using rnd(2) by simp
  have N: "length amsg < 65000"
    using a(3) rnd(2) d l(2,4) ti by (simp add: response_reads_def Let_def)
  obtain ks where ks: "ntlm_Authenticate C s1 amsg = Some (None, s1\<lparr>nts_session := Some ks\<rparr>)"
    "ns_exportedSessionKey ks = rkey" "ns_user ks = ntc_User c"
    using server_Authenticate_accepts [OF c(2) s1(1) key_def a(2) a(3) [folded s1(2,3)] refl nt length_filetime_bytes rnd(2,3)
        _ _ _ _ im] d l(2) cm N by (auto simp: s1(3))
  have "length cmsg < 65000" using m(2) av(2) l(1) by linarith
  moreover have "rd 0 8 amsg = rd 0 8 amsg0" using a(3) by (simp add: response_reads_def Let_def)
  then have "take 8 amsg = ntlm_signature" using a(2) by (simp add: names_ok_def Let_def rd_def)
  ultimately show ?thesis
    using that [of nmsg cmsg amsg kc ks] n(1-3) ch cm m(3) a(1,4) N ks unfolding c1_def s1_def by simp
qed

lemma ntlm_handshake_ok:
  assumes c: "ntc_User c \<noteq> []" "wf_string (ntc_User c)" "ntc_Hash c = None"
    and s: "nts_accounts s (ntc_User c) = Some (ntc_Password c)" and short: "names_short c s"
    and rnd: "length rnd = 8" "length cc = 8" "length rkey = 16"
  obtains c' s' kc ks where "ntlm_handshake C now now' rnd cc rkey c s = Some (c', None, s')"
    "ntc_session c' = Some kc" "nts_session s' = Some ks" "ns_exportedSessionKey kc = rkey" "ns_exportedSessionKey ks = rkey"
    "ns_user ks = ntc_User c"
proof (rule ntlm_exchange_ok [OF assms, of now C now'])
  fix nmsg cmsg amsg kc ks
  assume "ntlm_Negotiate c = Some (nmsg, c\<lparr>ntc_nmsg := nmsg\<rparr>)"
    "ntlm_Challenge now (Some rnd) s nmsg = Some (Inr cmsg, s\<lparr>nts_nmsg := nmsg, nts_cmsg := cmsg\<rparr>)"
    "ntlm_client_Authenticate C now' cc rkey (c\<lparr>ntc_nmsg := nmsg\<rparr>) cmsg =
      Some (Inr (amsg, c\<lparr>ntc_nmsg := nmsg, ntc_session := Some kc\<rparr>))"
    "ntlm_Authenticate C (s\<lparr>nts_nmsg := nmsg, nts_cmsg := cmsg\<rparr>) amsg =
      Some (None, s\<lparr>nts_nmsg := nmsg, nts_cmsg := cmsg, nts_session := Some ks\<rparr>)"
  then have "ntlm_handshake C now now' rnd cc rkey c s = Some (c\<lparr>ntc_nmsg := nmsg, ntc_session := Some kc\<rparr>, None,
      s\<lparr>nts_nmsg := nmsg, nts_cmsg := cmsg, nts_session := Some ks\<rparr>)" by (simp add: ntlm_handshake_def)
  moreover assume "ns_exportedSessionKey kc = rkey" "ns_exportedSessionKey ks = rkey" "ns_user ks = ntc_User c"
  ultimately show thesis
    using that [of "c\<lparr>ntc_nmsg := nmsg, ntc_session := Some kc\<rparr>" "s\<lparr>nts_nmsg := nmsg, nts_cmsg := cmsg, nts_session := Some ks\<rparr>" kc ks]
    by simp
qed

lemma ntlm_handshake_last:
  assumes "ntlm_handshake C now now' rnd cc rkey c s = Some (c', None, s')"
  obtains s1 amsg where "ntlm_Authenticate C s1 amsg = Some (None, s')" "nts_accounts s1 = nts_accounts s"
    "nts_allowGuest s1 = nts_allowGuest s"
  using assms
  by (auto simp: ntlm_handshake_def ntlm_Challenge_def Let_def
      split: Option.bind_splits sum.splits prod.splits if_splits intro: that)

section \<open>Messages that end the process\<close>

text \<open>The bounds check of a field adds offset and length modulo \<open>2^32\<close>.\<close>

lemma ntlm_field_wrap:
  assumes "u16_at msg k = Some len" "u16_at msg (k + 2) = Some mx" "len \<le> mx" "u32_at msg (k + 4) = Some off"
    and "unat (off + ucast len) < unat off" "unat (off + ucast len) \<le> length msg"
  shows "ntlm_field msg k = None"
  using assms by (simp add: ntlm_field_def go_slice_def)

lemma ntlm_login_short_response:
  assumes "DecodeToString userName = Some user" "nts_accounts s user \<noteq> None \<or> nts_allowGuest s" "length ntResp < 16"
  shows "ntlm_login C s amsg flags ntResp domain userName encKey = None"
  using assms by (auto simp: ntlm_login_def go_slice_from_def)

section \<open>Properties\<close>

text \<open>Sample library functions, client and server for the witnesses.\<close>

definition sample_crypto :: ntlm_crypto where
  "sample_crypto = \<lparr>nc_md4 = rev, nc_md5 = (\<lambda>m. m), nc_hmac_md5 = (\<lambda>k m. k @ m), nc_rc4 = (\<lambda>k i. of_nat i), nc_crc32 = (\<lambda>_. 0),
     nc_ToUpper = (\<lambda>s. s)\<rparr>"

definition sample_client :: ntlm_client where
  "sample_client = \<lparr>ntc_User = [0x61], ntc_Password = [0x62], ntc_Hash = None, ntc_Domain = [], ntc_Workstation = [],
     ntc_TargetSPN = [], ntc_nmsg = [], ntc_session = None\<rparr>"

definition sample_server :: ntlm_server where
  "sample_server = ntlm_AddAccount [0x61] [0x62] (ntlm_NewServer [] [] [] [] [])"

lemma sample_handshake:
  "ntc_User sample_client \<noteq> []" "wf_string (ntc_User sample_client)" "ntc_Hash sample_client = None"
  "nts_accounts sample_server (ntc_User sample_client) = Some (ntc_Password sample_client)" "names_short sample_client sample_server"
proof -
  have r: "runes [0x61] = [0x61]" by (simp add: decodeRune.simps)
  then show "wf_string (ntc_User sample_client)"
    by (simp add: sample_client_def wf_string_def string_of_runes_def scalar_def encodeRune_def)
  show "names_short sample_client sample_server"
    using r by (simp add: names_short_def sample_client_def sample_server_def ntlm_AddAccount_def ntlm_NewServer_def
        utf16_Encode_def length_utf16_units)
qed (simp_all add: sample_client_def sample_server_def ntlm_AddAccount_def ntlm_NewServer_def)

text \<open>C10. For an account the server has, a client with that account's password completes the NTLMv2
  handshake against it: the four messages pass without fault or error, whatever the hash functions, the
  clocks and the randomness, and both ends hold the same exported session key.\<close>

theorem ntlm_handshake_completes:
  assumes "ntc_User c \<noteq> []" "wf_string (ntc_User c)" "ntc_Hash c = None"
    and "nts_accounts s (ntc_User c) = Some (ntc_Password c)" "names_short c s"
    and "length rnd = 8" "length cc = 8" "length rkey = 16"
  shows "\<exists>c' s' kc ks. ntlm_handshake C now now' rnd cc rkey c s = Some (c', None, s') \<and>
    ntc_session c' = Some kc \<and> nts_session s' = Some ks \<and> ns_exportedSessionKey kc = rkey \<and>
    ns_exportedSessionKey ks = rkey \<and> ns_user ks = ntc_User c"
  by (rule ntlm_handshake_ok [OF assms]) blast

theorem ntlm_handshake_completes_witness:
  "\<exists>c' s' kc ks. ntlm_handshake sample_crypto 0 0 (replicate 8 1) (replicate 8 2) (replicate 16 3) sample_client sample_server =
     Some (c', None, s') \<and> ntc_session c' = Some kc \<and> nts_session s' = Some ks \<and>
     ns_exportedSessionKey kc = replicate 16 3 \<and> ns_exportedSessionKey ks = replicate 16 3 \<and> ns_user ks = ntc_User sample_client"
  by (rule ntlm_handshake_completes [OF sample_handshake]) simp_all

text \<open>C11. The server accepts an authenticate message only for an account it has (or a guest, where
  guests are allowed), and only with the keyed code of its own challenge and the rest of the response
  under the key made of that account's password.\<close>

theorem ntlm_authenticate_needs_proof:
  assumes "ntlm_Authenticate C s amsg = Some (None, s')"
  shows "\<exists>sess ntResp domain. nts_session s' = Some sess \<and>
    (nts_accounts s (ns_user sess) \<noteq> None \<or> nts_allowGuest s) \<and>
    ntlm_field amsg 20 = Some (Inr ntResp) \<and> ntlm_field amsg 28 = Some (Inr domain) \<and>
    take 16 ntResp = hmac_md5 C (account_key C s (ns_user sess) domain) (rd 24 8 (nts_cmsg s) @ drop 16 ntResp)"
  by (rule ntlm_Authenticate_sound [OF assms]) blast

theorem ntlm_authenticate_needs_proof_witness:
  "\<exists>s amsg s' sess. ntlm_Authenticate sample_crypto s amsg = Some (None, s') \<and> nts_session s' = Some sess \<and>
     nts_accounts s (ns_user sess) \<noteq> None"
proof -
  obtain c' s' where h: "ntlm_handshake sample_crypto 0 0 (replicate 8 1) (replicate 8 2) (replicate 16 3) sample_client sample_server =
      Some (c', None, s')"
    by (rule ntlm_handshake_ok [OF sample_handshake, of "replicate 8 1" "replicate 8 2" "replicate 16 3" sample_crypto 0 0]) auto
  obtain s1 amsg where a: "ntlm_Authenticate sample_crypto s1 amsg = Some (None, s')" "nts_allowGuest s1 = nts_allowGuest sample_server"
    using ntlm_handshake_last [OF h] by metis
  have "\<not> nts_allowGuest s1" by (simp add: a(2) sample_server_def ntlm_AddAccount_def ntlm_NewServer_def)
  then show ?thesis using ntlm_authenticate_needs_proof [OF a(1)] a(1) by blast
qed

text \<open>C37. The bounds check of a message field can be passed with an offset near \<open>2^32\<close>: a message
  with such an NT response field makes the server slice out of range and ends the process, before any
  account is looked up.\<close>

theorem ntlm_offset_wrap_panics:
  assumes "64 \<le> length amsg" "take 8 amsg = ntlm_signature" "u32_at amsg 8 = Some NtLmAuthenticate"
    and "u16_at amsg 20 = Some len" "u16_at amsg 22 = Some mx" "len \<le> mx" "u32_at amsg 24 = Some off"
    and "unat (off + ucast len) < unat off" "unat (off + ucast len) \<le> length amsg"
  shows "ntlm_Authenticate C s amsg = None"
proof -
  obtain flags where "u32_at amsg 60 = Some flags" using assms(1) by (simp add: u32_at_eq)
  moreover have "ntlm_field amsg 20 = None" using assms by (intro ntlm_field_wrap [of _ _ len mx off]) simp_all
  ultimately show ?thesis using assms(1-3) by (simp add: ntlm_Authenticate_def and_then_def)
qed

theorem ntlm_offset_wrap_panics_witness:
  "ntlm_Authenticate sample_crypto sample_server (ntlm_signature @ le_of_word 4 NtLmAuthenticate @ replicate 8 0 @
     le_of_word 2 (1 :: u16) @ le_of_word 2 (1 :: u16) @ le_of_word 4 (0xFFFFFFFF :: u32) @ replicate 36 0) = None"
  by (rule ntlm_offset_wrap_panics [of _ 1 1 "0xFFFFFFFF"]) (simp_all add: un_at_eqs go_buf rd_le_of_word)

text \<open>C38. An NT response shorter than its proof makes the server slice out of range as soon as the
  user is known (any user where guests are allowed).\<close>

theorem ntlm_short_response_panics:
  assumes "64 \<le> length amsg" "take 8 amsg = ntlm_signature" "u32_at amsg 8 = Some NtLmAuthenticate"
    and "ntlm_field amsg 20 = Some (Inr ntResp)" "ntlm_field amsg 28 = Some (Inr domain)" "ntlm_field amsg 36 = Some (Inr userName)"
      "ntlm_field amsg 52 = Some (Inr encKey)" "userName \<noteq> []" "length ntResp < 16"
    and "DecodeToString userName = Some user" "nts_accounts s user \<noteq> None \<or> nts_allowGuest s"
  shows "ntlm_Authenticate C s amsg = None"
proof -
  obtain flags where "u32_at amsg 60 = Some flags" using assms(1) by (simp add: u32_at_eq)
  then show ?thesis
    using assms ntlm_login_short_response [OF assms(10,11,9)] by (simp add: ntlm_Authenticate_def and_then_def)
qed

theorem ntlm_short_response_panics_witness:
  "ntlm_Authenticate sample_crypto sample_server (ntlm_signature @ le_of_word 4 NtLmAuthenticate @ replicate 24 0 @
     field_bytes 2 64 @ replicate 20 0 @ utf16_bytes [0x61]) = None"
proof -
  let ?u = "utf16_bytes [0x61]"
  let ?m = "ntlm_signature @ le_of_word 4 NtLmAuthenticate @ replicate 24 0 @ field_bytes 2 64 @ replicate 20 0 @ ?u"
  have u: "length ?u = 2" by (simp add: decodeRune.simps utf16_Encode_def length_utf16_units)
  have d: "DecodeToString ?u = Some [0x61]"
    using DecodeToString_wf [OF sample_handshake(2)] unfolding sample_client_def by simp
  have f: "rd 20 8 ?m = field_bytes 0 0" "rd 28 8 ?m = field_bytes 0 0" "rd 36 8 ?m = field_bytes 2 64" "rd 52 8 ?m = field_bytes 0 0"
    "rd 64 2 ?m = ?u"
    using u by (simp_all add: go_buf rd_replicate) (simp_all add: rd_def)
  have e: "ntlm_field ?m 20 = Some (Inr [])" "ntlm_field ?m 28 = Some (Inr [])" "ntlm_field ?m 36 = Some (Inr ?u)"
    "ntlm_field ?m 52 = Some (Inr [])"
    using ntlm_field_eq [OF f(1)] ntlm_field_eq [OF f(2)] ntlm_field_eq [OF f(3)] ntlm_field_eq [OF f(4)] f(5) u
    by (simp_all add: rd_def)
  have h: "64 \<le> length ?m" "take 8 ?m = ntlm_signature" "u32_at ?m 8 = Some NtLmAuthenticate"
    using u by (simp_all add: un_at_eqs go_buf rd_le_of_word)
  have "?u \<noteq> []" unfolding utf16_bytes_Nil by simp
  then show ?thesis
    by (rule ntlm_short_response_panics [OF h e _ _ d]) (simp_all add: sample_server_def ntlm_AddAccount_def)
qed

end
