(* ===== verification/Spnego.thy ===== *)
theory Spnego
  imports Ntlm_Handshake
begin

text \<open>
  \<open>internal/spnego/spnego.go\<close>, \<open>server/authenticator.go\<close> and \<open>server/spnego.go\<close>: the SPNEGO tokens, the NTLM
  authenticator and the server side of the negotiation. \<open>asn1.Marshal\<close> of the standard library is modelled on the
  shapes used here: definite lengths, object identifiers, octet strings, one-byte enumerated values, and tagged fields, of which
  those with a zero value are left out when they are optional. (The option \<open>explict\<close> of the outer fields is not one the
  library knows, so their tags are implicit; the fields are slices, whose elements then stand where an explicit tag would put one.)
  The decoder \<open>ber\<close> is third-party code and an argument: \<open>ber_init\<close> and \<open>ber_resp\<close> give the decoded value or
  \<open>None\<close> for an error. An authenticator is a pointer, and the mechanisms of every negotiation share the one of the server, so
  the operations take the list of authenticators and return it.
\<close>

section \<open>DER\<close>

type_synonym oid = "nat list"

fun be_min :: "nat \<Rightarrow> bytes" where
  "be_min n = (if n < 256 then [of_nat n] else be_min (n div 256) @ [of_nat (n mod 256)])"

declare be_min.simps [simp del]

definition der_len :: "nat \<Rightarrow> bytes" where
  "der_len n = (if n < 128 then [of_nat n] else (0x80 OR of_nat (length (be_min n))) # be_min n)"

definition der :: "u8 \<Rightarrow> bytes \<Rightarrow> bytes" where
  "der tag body = tag # der_len (length body) @ body"

fun base128_high :: "nat \<Rightarrow> bytes" where
  "base128_high n = (if n = 0 then [] else base128_high (n div 128) @ [0x80 OR of_nat (n mod 128)])"

declare base128_high.simps [simp del]

definition base128 :: "nat \<Rightarrow> bytes" where
  "base128 n = base128_high (n div 128) @ [of_nat (n mod 128)]"

text \<open>An identifier the library refuses is \<open>None\<close>.\<close>

definition der_oid :: "oid \<Rightarrow> bytes option" where
  "der_oid o' = (case o' of
       a # b # r \<Rightarrow> if 2 < a \<or> a < 2 \<and> 40 \<le> b then None else Some (der 0x06 (base128 (a * 40 + b) @ concat (map base128 r)))
     | _ \<Rightarrow> None)"

definition SpnegoOid :: oid where "SpnegoOid = [1, 3, 6, 1, 5, 5, 2]"
definition MsKerberosOid :: oid where "MsKerberosOid = [1, 2, 840, 48018, 1, 2, 2]"
definition KerberosOid :: oid where "KerberosOid = [1, 2, 840, 113554, 1, 2, 2]"
definition NlmpOid :: oid where "NlmpOid = [1, 3, 6, 1, 4, 1, 311, 2, 2, 10]"

section \<open>Tokens\<close>

text \<open>Byte fields are \<open>None\<close> where the Go slice is nil.\<close>

record NegTokenInit =
  NegTokenInit_MechTypes :: "oid list"
  NegTokenInit_MechToken :: "bytes option"
  NegTokenInit_MechListMIC :: "bytes option"

record NegTokenResp =
  NegTokenResp_NegState :: u8
  NegTokenResp_SupportedMech :: oid
  NegTokenResp_ResponseToken :: "bytes option"
  NegTokenResp_MechListMIC :: "bytes option"

definition der_octets :: "u8 \<Rightarrow> bytes option \<Rightarrow> bytes" where
  "der_octets tag b = (case b of None \<Rightarrow> [] | Some b \<Rightarrow> der tag (der 0x04 b))"

text \<open>The list of mechanisms is made with \<open>make\<close>, so it is not nil.\<close>

definition EncodeNegTokenInit :: "oid list \<Rightarrow> bytes option \<Rightarrow> bytes option" where
  "EncodeNegTokenInit types token = do {
     spnego \<leftarrow> der_oid SpnegoOid;
     ts \<leftarrow> those (map der_oid types);
     let init = der 0x30 (der 0xa0 (der 0x30 (concat ts)) @ der_octets 0xa2 token);
     Some ((der 0x30 (spnego @ der 0xa0 init)) [0 := 0x60]) }"

definition negHints :: bytes where
  "negHints = [0xa3, 0x2a, 0x30, 0x28, 0xa0, 0x26, 0x1b, 0x24, 0x6e, 0x6f, 0x74, 0x5f, 0x64, 0x65, 0x66, 0x69, 0x6e, 0x65, 0x64, 0x5f,
     0x69, 0x6e, 0x5f, 0x52, 0x46, 0x43, 0x34, 0x31, 0x37, 0x38, 0x40, 0x70, 0x6c, 0x65, 0x61, 0x73,
     0x65, 0x5f, 0x69, 0x67, 0x6e, 0x6f, 0x72, 0x65]"

definition EncodeNegTokenInit2 :: "oid list \<Rightarrow> bytes option" where
  "EncodeNegTokenInit2 types = do {
     spnego \<leftarrow> der_oid SpnegoOid;
     ts \<leftarrow> those (map der_oid types);
     let init = der 0x30 (der 0xa0 (der 0x30 (concat ts)) @ negHints);
     Some ((der 0x30 (spnego @ der 0xa0 init)) [0 := 0x60]) }"

text \<open>The header of the outer sequence is cut off by its own length byte.\<close>

definition strip_sequence :: "bytes \<Rightarrow> bytes option" where
  "strip_sequence bs = do {
     b \<leftarrow> u8_at bs 1;
     go_slice_from bs (if b < 128 then 2 else 1 + (unat b - 128) + 1) }"

definition neg_resp_der :: "u8 \<Rightarrow> oid \<Rightarrow> bytes option \<Rightarrow> bytes option \<Rightarrow> bytes option" where
  "neg_resp_der state typ token mic = do {
     t \<leftarrow> if typ = [] then Some [] else map_option (der 0xa1) (der_oid typ);
     Some (der 0xa1 (der 0x30 ((if state = 0 then [] else der 0xa0 (der 0x0a [state])) @ t @
       der_octets 0xa2 token @ der_octets 0xa3 mic))) }"

definition EncodeNegTokenResp :: "u8 \<Rightarrow> oid \<Rightarrow> bytes option \<Rightarrow> bytes option \<Rightarrow> bytes option option" where
  "EncodeNegTokenResp state typ token mic =
     (case neg_resp_der state typ token mic of
        None \<Rightarrow> Some None
      | Some r \<Rightarrow> map_option Some (strip_sequence (der 0x30 r)))"

definition neg_state_der :: "u8 \<Rightarrow> bytes" where
  "neg_state_der state = der 0xa1 (der 0x30 (der 0xa0 (der 0x0a [state])))"

definition EncodeNegTokenAccepted :: "bytes option" where
  "EncodeNegTokenAccepted = strip_sequence (der 0x30 (neg_state_der 0))"

definition EncodeNegTokenRejected :: "bytes option" where
  "EncodeNegTokenRejected = strip_sequence (der 0x30 (neg_state_der 2))"

text \<open>The first element of the decoded list, which need not exist.\<close>

definition DecodeNegTokenInit :: "(bytes \<Rightarrow> NegTokenInit list option) \<Rightarrow> bytes \<Rightarrow> NegTokenInit option option" where
  "DecodeNegTokenInit ber_init bs =
     (case ber_init bs of None \<Rightarrow> Some None | Some [] \<Rightarrow> None | Some (t # _) \<Rightarrow> Some (Some t))"

definition DecodeNegTokenResp :: "(bytes \<Rightarrow> NegTokenResp option) \<Rightarrow> bytes \<Rightarrow> NegTokenResp option" where
  "DecodeNegTokenResp ber_resp bs = ber_resp bs"

section \<open>The authenticator\<close>

record NTLMAuthenticator =
  auth_UserPassword :: "(go_string \<times> go_string) list"
  auth_TargetSPN :: go_string
  auth_NbDomain :: go_string
  auth_NbName :: go_string
  auth_DnsName :: go_string
  auth_DnsDomain :: go_string
  auth_AllowGuest :: bool
  auth_ntlm :: "ntlm_server option"
  auth_seqNum :: u32

definition NTLMAuthenticator_oid :: "NTLMAuthenticator \<Rightarrow> oid" where
  "NTLMAuthenticator_oid i = NlmpOid"

definition auth_server :: "NTLMAuthenticator \<Rightarrow> ntlm_server" where
  "auth_server i =
     (let s = ntlm_NewServer (auth_TargetSPN i) (auth_NbName i) (auth_NbDomain i) (auth_DnsName i) (auth_DnsDomain i);
          s = fold (\<lambda>(u, p). ntlm_AddAccount u p) (auth_UserPassword i) s
      in if auth_AllowGuest i then ntlm_AllowGuest s else s)"

definition NTLMAuthenticator_challenge :: "u64 \<Rightarrow> bytes option \<Rightarrow> NTLMAuthenticator \<Rightarrow> bytes \<Rightarrow>
    ((ntlm_error + bytes) \<times> NTLMAuthenticator) option" where
  "NTLMAuthenticator_challenge now rnd i sc = do {
     (r, s) \<leftarrow> ntlm_Challenge now rnd (auth_server i) sc;
     Some (r, i\<lparr>auth_ntlm := Some s\<rparr>) }"

text \<open>Without a challenge the server is nil: the checks of the message still run, the first look at an account panics. A server
  without accounts answers that very look with \<open>NE_user\<close>.\<close>

definition NTLMAuthenticator_authenticate :: "ntlm_crypto \<Rightarrow> NTLMAuthenticator \<Rightarrow> bytes \<Rightarrow>
    ((ntlm_error + go_string) \<times> NTLMAuthenticator) option" where
  "NTLMAuthenticator_authenticate C i sc =
     (case auth_ntlm i of
        None \<Rightarrow> do {
          (e, _) \<leftarrow> ntlm_Authenticate C (ntlm_NewServer [] [] [] [] []) sc;
          case e of None \<Rightarrow> None | Some e \<Rightarrow> if e = NE_user then None else Some (Inl e, i) }
      | Some s \<Rightarrow> do {
          (e, s) \<leftarrow> ntlm_Authenticate C s sc;
          let i = i\<lparr>auth_ntlm := Some s\<rparr>;
          case e of Some e \<Rightarrow> Some (Inl e, i)
          | None \<Rightarrow> do { sess \<leftarrow> nts_session s; Some (Inr (ns_user sess), i) } })"

definition NTLMAuthenticator_sessionKey :: "NTLMAuthenticator \<Rightarrow> bytes option" where
  "NTLMAuthenticator_sessionKey i = do {
     s \<leftarrow> auth_ntlm i;
     sess \<leftarrow> nts_session s;
     Some (ns_exportedSessionKey sess) }"

definition NTLMAuthenticator_sum :: "ntlm_crypto \<Rightarrow> NTLMAuthenticator \<Rightarrow> bytes \<Rightarrow> (bytes option \<times> NTLMAuthenticator) option" where
  "NTLMAuthenticator_sum C i bs = do {
     s \<leftarrow> auth_ntlm i;
     sess \<leftarrow> nts_session s;
     let (mic, _, sess) = ntlm_Sum C sess bs (auth_seqNum i);
     Some (mic, i\<lparr>auth_ntlm := Some (s\<lparr>nts_session := Some sess\<rparr>)\<rparr>) }"

section \<open>The negotiation\<close>

datatype spnego_error = SE_ntlm ntlm_error | SE_ber | SE_asn1 | SE_mech

text \<open>The selected mechanism is an index into the mechanisms.\<close>

record spnegoServer =
  sp_mechTypes :: "oid list"
  sp_selectedMech :: "nat option"

definition newSpnegoServer :: "NTLMAuthenticator list \<Rightarrow> spnegoServer" where
  "newSpnegoServer mechs = \<lparr>sp_mechTypes = map NTLMAuthenticator_oid mechs, sp_selectedMech = None\<rparr>"

definition spnegoServer_initSecContext :: "spnegoServer \<Rightarrow> bytes option" where
  "spnegoServer_initSecContext c = EncodeNegTokenInit (sp_mechTypes c) None"

text \<open>\<open>strings.HasPrefix(string(token), "NTLMSSP")\<close>: a token that is an NTLM message by itself.\<close>

definition raw_ntlm :: "bytes \<Rightarrow> bool" where
  "raw_ntlm b \<longleftrightarrow> take 7 b = [0x4e, 0x54, 0x4c, 0x4d, 0x53, 0x53, 0x50]"

text \<open>The first mechanism with a given type, and the last one with a type in the client's list.\<close>

definition find_mech :: "(oid \<Rightarrow> bool) \<Rightarrow> oid list \<Rightarrow> nat option" where
  "find_mech P ts = (case filter (\<lambda>i. P (ts ! i)) [0..<length ts] of [] \<Rightarrow> None | i # _ \<Rightarrow> Some i)"

definition find_last_mech :: "(oid \<Rightarrow> bool) \<Rightarrow> oid list \<Rightarrow> nat option" where
  "find_last_mech P ts = (case rev (filter (\<lambda>i. P (ts ! i)) [0..<length ts]) of [] \<Rightarrow> None | i # _ \<Rightarrow> Some i)"

definition select_mech :: "nat option \<Rightarrow> spnegoServer \<Rightarrow> spnegoServer" where
  "select_mech m c = (case m of None \<Rightarrow> c | Some i \<Rightarrow> c\<lparr>sp_selectedMech := Some i\<rparr>)"

definition spnegoServer_challenge :: "(bytes \<Rightarrow> NegTokenInit list option) \<Rightarrow> u64 \<Rightarrow> bytes option \<Rightarrow> NTLMAuthenticator list \<Rightarrow> spnegoServer \<Rightarrow>
    bytes \<Rightarrow> ((spnego_error + bytes) \<times> NTLMAuthenticator list \<times> spnegoServer) option" where
  "spnegoServer_challenge ber_init now rnd mechs c req =
     (if raw_ntlm req then
        (let c = select_mech (find_mech (\<lambda>t. t = NlmpOid) (sp_mechTypes c)) c in
         case sp_selectedMech c of
           None \<Rightarrow> Some (Inl SE_mech, mechs, c)
         | Some i \<Rightarrow> do {
             (r, a) \<leftarrow> NTLMAuthenticator_challenge now rnd (mechs ! i) req;
             Some (map_sum SE_ntlm id r, mechs[i := a], c) })
      else do {
        t \<leftarrow> DecodeNegTokenInit ber_init req;
        case t of
          None \<Rightarrow> Some (Inl SE_ber, mechs, c)
        | Some t \<Rightarrow>
            let c = select_mech (find_last_mech (\<lambda>m. m \<in> set (NegTokenInit_MechTypes t)) (sp_mechTypes c)) c in
            (case sp_selectedMech c of
               None \<Rightarrow> Some (Inl SE_mech, mechs, c)
             | Some i \<Rightarrow> do {
                 (r, a) \<leftarrow> NTLMAuthenticator_challenge now rnd (mechs ! i) (case NegTokenInit_MechToken t of None \<Rightarrow> [] | Some b \<Rightarrow> b);
                 case r of
                   Inl e \<Rightarrow> Some (Inl (SE_ntlm e), mechs[i := a], c)
                 | Inr tok \<Rightarrow> do {
                     b \<leftarrow> EncodeNegTokenResp 1 (NTLMAuthenticator_oid a) (Some tok) None;
                     Some (case b of None \<Rightarrow> Inl SE_asn1 | Some b \<Rightarrow> Inr b, mechs[i := a], c) } }) })"

text \<open>A nil mechanism is called without a check.\<close>

definition spnegoServer_authenticate :: "ntlm_crypto \<Rightarrow> (bytes \<Rightarrow> NegTokenResp option) \<Rightarrow> NTLMAuthenticator list \<Rightarrow> spnegoServer \<Rightarrow>
    bytes \<Rightarrow> ((spnego_error + bytes option \<times> go_string) \<times> NTLMAuthenticator list \<times> spnegoServer) option" where
  "spnegoServer_authenticate C ber_resp mechs c tok =
     (if raw_ntlm tok then do {
        i \<leftarrow> sp_selectedMech c;
        (r, a) \<leftarrow> NTLMAuthenticator_authenticate C (mechs ! i) tok;
        Some (map_sum SE_ntlm (\<lambda>u. (None, u)) r, mechs[i := a], c) }
      else (case DecodeNegTokenResp ber_resp tok of
          None \<Rightarrow> Some (Inl SE_ber, mechs, c)
        | Some t \<Rightarrow> do {
            let c = select_mech (find_mech (\<lambda>m. m = NegTokenResp_SupportedMech t) (sp_mechTypes c)) c;
            i \<leftarrow> sp_selectedMech c;
            (r, a) \<leftarrow> NTLMAuthenticator_authenticate C (mechs ! i) (case NegTokenResp_ResponseToken t of None \<Rightarrow> [] | Some b \<Rightarrow> b);
            case r of
              Inl e \<Rightarrow> Some (Inl (SE_ntlm e), mechs[i := a], c)
            | Inr u \<Rightarrow> do { b \<leftarrow> EncodeNegTokenAccepted; Some (Inr (Some b, u), mechs[i := a], c) } }))"

definition spnegoServer_sessionKey :: "NTLMAuthenticator list \<Rightarrow> spnegoServer \<Rightarrow> bytes option" where
  "spnegoServer_sessionKey mechs c = do { i \<leftarrow> sp_selectedMech c; NTLMAuthenticator_sessionKey (mechs ! i) }"

definition spnegoServer_sum :: "ntlm_crypto \<Rightarrow> NTLMAuthenticator list \<Rightarrow> spnegoServer \<Rightarrow> bytes \<Rightarrow> (bytes option \<times> NTLMAuthenticator list) option" where
  "spnegoServer_sum C mechs c bs = do {
     i \<leftarrow> sp_selectedMech c;
     (m, a) \<leftarrow> NTLMAuthenticator_sum C (mechs ! i) bs;
     Some (m, mechs[i := a]) }"

section \<open>Reading DER back\<close>

text \<open>A reader of definite-length encodings, as a client has one: tag, contents and rest of the first element; all elements of a
  sequence; the contents of the first element with a tag.\<close>

definition be_nat :: "bytes \<Rightarrow> nat" where
  "be_nat bs = foldl (\<lambda>n b. n * 256 + unat b) 0 bs"

definition der_read :: "bytes \<Rightarrow> (u8 \<times> bytes \<times> bytes) option" where
  "der_read bs =
     (case bs of
        tag # b # r \<Rightarrow>
          (let k = (if b < 128 then 0 else unat b - 128);
               n = (if b < 128 then unat b else be_nat (take k r));
               r = drop k r
           in if n \<le> length r then Some (tag, take n r, drop n r) else None)
      | _ \<Rightarrow> None)"

lemma der_read_shorter: "der_read bs = Some (t, b, r) \<Longrightarrow> length r < length bs"
  by (auto simp: der_read_def Let_def split: list.splits if_splits)

function der_fields :: "bytes \<Rightarrow> (u8 \<times> bytes) list option" where
  "der_fields bs = (if bs = [] then Some []
     else case der_read bs of None \<Rightarrow> None | Some (t, b, r) \<Rightarrow> map_option (Cons (t, b)) (der_fields r))"
  by auto
termination
  by (relation "measure length") (auto dest: der_read_shorter)

declare der_fields.simps [simp del]

definition der_sub :: "u8 \<Rightarrow> bytes \<Rightarrow> bytes option" where
  "der_sub tag bs = do { fs \<leftarrow> der_fields bs; map_of fs tag }"

lemma be_nat_append: "be_nat (xs @ [b]) = be_nat xs * 256 + unat b"
  by (simp add: be_nat_def)

lemma unat_u8: "n < 256 \<Longrightarrow> unat (of_nat n :: u8) = n"
  by (simp add: unat_of_nat take_bit_nat_eq_self)

lemma be_nat_be_min: "be_nat (be_min n) = n"
proof (induction n rule: be_min.induct)
  case (1 n)
  show ?case
  proof (cases "n < 256")
    case True
    then show ?thesis using be_nat_append [of "[]" "of_nat n"] by (simp add: be_min.simps [of n] unat_u8 be_nat_def)
  next
    case False
    then show ?thesis using 1 by (simp add: be_min.simps [of n] be_nat_append unat_u8)
  qed
qed

lemma length_be_min: "n < 256 ^ Suc k \<Longrightarrow> 0 < length (be_min n) \<and> length (be_min n) \<le> Suc k"
proof (induction k arbitrary: n)
  case (Suc k)
  show ?case
  proof (cases "n < 256")
    case False
    have "n div 256 < 256 ^ Suc k" using Suc.prems by (intro less_mult_imp_div_less) (simp add: mult.commute)
    then show ?thesis using Suc.IH [of "n div 256"] False by (simp add: be_min.simps [of n])
  qed (simp add: be_min.simps [of n])
qed (simp add: be_min.simps)

text \<open>Contents of a Go slice: fewer than \<open>2^63\<close> bytes.\<close>

abbreviation "go_len \<equiv> (2 :: nat) ^ 63"

lemma der_len_byte:
  assumes "n < go_len" "128 \<le> n"
  shows "unat (0x80 OR of_nat (length (be_min n)) :: u8) = 128 + length (be_min n)"
proof -
  have "n < 256 ^ Suc 7" using assms(1) by simp
  then have l: "length (be_min n) < 16" using length_be_min [of n 7] by simp
  have "unat (0x80 OR of_nat k :: u8) = 128 + k" if "k < 16" for k
  proof -
    have "k \<in> set [0..<16]" using that by simp
    then show ?thesis by (auto simp: upt_rec)
  qed
  then show ?thesis using l by blast
qed

lemma der_read_der:
  assumes "length b < go_len"
  shows "der_read (der t b @ r) = Some (t, b, r)"
proof (cases "length b < 128")
  case True
  then have "(of_nat (length b) :: u8) < 128" by (simp add: word_less_nat_alt unat_u8)
  then show ?thesis using True by (simp add: der_read_def der_def der_len_def unat_u8)
next
  case False
  have k: "unat (0x80 OR of_nat (length (be_min (length b))) :: u8) = 128 + length (be_min (length b))"
    using assms False by (intro der_len_byte) simp_all
  then have "\<not> (0x80 OR of_nat (length (be_min (length b))) :: u8) < 128" by (simp add: word_less_nat_alt)
  then show ?thesis using False k by (simp add: der_read_def der_def der_len_def be_nat_be_min)
qed

lemma der_not_Nil [simp]: "der t b \<noteq> []"
  by (simp add: der_def)

lemma der_fields_Nil [simp]: "der_fields [] = Some []"
  by (simp add: der_fields.simps)

lemma der_fields_der: "length b < go_len \<Longrightarrow> der_fields (der t b @ r) = map_option (Cons (t, b)) (der_fields r)"
  by (simp add: der_fields.simps [of "der t b @ r"] der_read_der)

lemma der_fields_single: "length b < go_len \<Longrightarrow> der_fields (der t b) = Some [(t, b)]"
  using der_fields_der [of b t "[]"] by simp

lemma strip_sequence_der:
  assumes "length b < go_len"
  shows "strip_sequence (der t b) = Some b"
proof (cases "length b < 128")
  case True
  then have "(of_nat (length b) :: u8) < 128" by (simp add: word_less_nat_alt unat_u8)
  then show ?thesis using True by (simp add: strip_sequence_def der_def der_len_def u8_at_def index_at_def go_slice_from_def)
next
  case False
  have k: "unat (0x80 OR of_nat (length (be_min (length b))) :: u8) = 128 + length (be_min (length b))"
    using assms False by (intro der_len_byte) simp_all
  then have "\<not> (0x80 OR of_nat (length (be_min (length b))) :: u8) < 128" by (simp add: word_less_nat_alt)
  then show ?thesis using False k
    by (simp add: strip_sequence_def der_def der_len_def u8_at_def index_at_def go_slice_from_def)
qed

lemma der_oid_not_Nil: "der_oid typ = Some d \<Longrightarrow> typ \<noteq> []"
  by (auto simp: der_oid_def)

lemma length_der: "length b \<le> length (der t b)"
  by (simp add: der_def)

lemma length_der_le: "length b < go_len \<Longrightarrow> length (der t b) \<le> length b + 10"
  using length_be_min [of "length b" 7] by (simp add: der_def der_len_def)

text \<open>C30. The token that carries the challenge. For every state, mechanism and message, what \<open>EncodeNegTokenResp\<close> returns
  after cutting off the sequence header is one element that a reader of DER takes apart again: under tag 1 and a sequence it finds the
  message in the octet string under tag 2 and the mechanism under tag 1. The short and the long form of the length are both covered.\<close>

theorem neg_token_resp_read:
  assumes "der_oid typ = Some d" "neg_resp_der state typ (Some token) None = Some r" "length r < go_len"
  shows "EncodeNegTokenResp state typ (Some token) None = Some (Some r) \<and>
    do { a \<leftarrow> der_sub 0xa1 r; b \<leftarrow> der_sub 0x30 a; c \<leftarrow> der_sub 0xa2 b; der_sub 0x04 c } = Some token \<and>
    do { a \<leftarrow> der_sub 0xa1 r; b \<leftarrow> der_sub 0x30 a; der_sub 0xa1 b } = Some d"
proof -
  let ?s = "if state = 0 then [] else der 0xa0 (der 0x0a [state])"
  define c where "c = der 0x04 token"
  define b where "b = ?s @ der 0xa1 d @ der 0xa2 c"
  define a where "a = der 0x30 b"
  have r: "r = der 0xa1 a"
    using assms(1,2) der_oid_not_Nil [OF assms(1)] by (simp add: neg_resp_der_def der_octets_def a_def b_def c_def)
  have l: "length a < go_len" "length b < go_len" "length c < go_len" "length d < go_len" "length token < go_len"
    using assms(3) length_der [of a "0xa1"] length_der [of b "0x30"] length_der [of c "0xa2"] length_der [of d "0xa1"]
      length_der [of token 4] by (simp_all add: r a_def b_def c_def)
  have e: "length (der 0x0a [state]) < go_len" by (simp add: der_def der_len_def)
  have "der_fields b = Some ((if state = 0 then [] else [(0xa0, der 0x0a [state])]) @ [(0xa1, d), (0xa2, c)])"
    using l(3,4) e unfolding b_def by (simp add: der_fields_der der_fields_single)
  moreover have "der_fields r = Some [(0xa1, a)]" "der_fields a = Some [(0x30, b)]" "der_fields c = Some [(4, token)]"
    using l by (simp_all add: r a_def c_def der_fields_single)
  ultimately show ?thesis
    using assms(2,3) strip_sequence_der [of r] by (simp add: EncodeNegTokenResp_def der_sub_def)
qed

theorem neg_token_resp_read_witness:
  "\<exists>r. EncodeNegTokenResp 1 NlmpOid (Some (replicate 200 7)) None = Some (Some r) \<and>
    do { a \<leftarrow> der_sub 0xa1 r; b \<leftarrow> der_sub 0x30 a; c \<leftarrow> der_sub 0xa2 b; der_sub 0x04 c } = Some (replicate 200 7)"
proof -
  obtain d where d: "der_oid NlmpOid = Some d" "length d < 100"
    by (auto simp: der_oid_def NlmpOid_def der_def der_len_def base128_def base128_high.simps be_min.simps)
  let ?b = "der 0xa0 (der 0x0a [1]) @ der 0xa1 d @ der 0xa2 (der 0x04 (replicate 200 7))"
  have r: "neg_resp_der 1 NlmpOid (Some (replicate 200 7)) None = Some (der 0xa1 (der 0x30 ?b))"
    using d der_oid_not_Nil [OF d(1)] by (simp add: neg_resp_der_def der_octets_def)
  have "length ?b < 500"
    using length_der_le [of "der 0x0a [1]" "0xa0"] length_der_le [of "[1]" "0x0a"] length_der_le [of d "0xa1"] d(2)
      length_der_le [of "replicate 200 7" 4] length_der_le [of "der 0x04 (replicate 200 7)" "0xa2"] by simp
  then have "length (der 0xa1 (der 0x30 ?b)) < go_len"
    using length_der_le [of ?b "0x30"] length_der_le [of "der 0x30 ?b" "0xa1"] by simp
  then show ?thesis using neg_token_resp_read [OF d(1) r(1)] by auto
qed

end
