(* ===== verification/Acl.thy ===== *)
theory Acl
  imports Vfs
begin

text \<open>
  \<open>server/acl.go\<close>: security identifiers, access control lists and security descriptors, their
  encoders and decoders, and the search for the mode entry that \<open>setSecInfo\<close> of
  \<open>server/file_tree.go\<close> makes in a list a client sends. What \<open>queryInfoSec\<close> emits, \<open>setSecInfo\<close>
  reads back.
\<close>

abbreviation (input) "WORLD_SID_AUTHORITY \<equiv> ([0, 0, 0, 0, 0, 1] :: bytes)"
abbreviation (input) "SECURITY_NT_AUTHORITY \<equiv> ([0, 0, 0, 0, 0, 5] :: bytes)"
abbreviation (input) "ACCESS_ALLOWED_ACE_TYPE \<equiv> (0 :: u8)"
abbreviation (input) "ACCESS_DENIED_ACE_TYPE \<equiv> (1 :: u8)"
abbreviation (input) "ACL_REVISION \<equiv> (2 :: u8)"

section \<open>Encoders\<close>

record SID =
  SID_IdentifierAuthority :: bytes
  SID_SubAuthority :: "u32 list"

definition SIDFromUid :: "u32 \<Rightarrow> SID" where
  "SIDFromUid uid = \<lparr>SID_IdentifierAuthority = SECURITY_NT_AUTHORITY, SID_SubAuthority = [88, 1, uid]\<rparr>"

definition SIDFromGid :: "u32 \<Rightarrow> SID" where
  "SIDFromGid gid = \<lparr>SID_IdentifierAuthority = SECURITY_NT_AUTHORITY, SID_SubAuthority = [88, 2, gid]\<rparr>"

definition SIDFromMode :: "u32 \<Rightarrow> SID" where
  "SIDFromMode mode = \<lparr>SID_IdentifierAuthority = SECURITY_NT_AUTHORITY, SID_SubAuthority = [88, 3, mode]\<rparr>"

definition SID_Size :: "SID \<Rightarrow> nat" where
  "SID_Size s = 8 + length (SID_SubAuthority s) * 4"

definition SID_Encode :: "SID \<Rightarrow> writer" where
  "SID_Encode s = writes [
     put8 0 1,
     put8 1 (of_nat (length (SID_SubAuthority s))),
     copy_from 2 (SID_IdentifierAuthority s),
     writes (map (\<lambda>(i, sa). put32 (8 + 4 * i) sa) (enumerate 0 (SID_SubAuthority s)))]"

record ACE =
  ACE_Sid :: SID
  ACE_Type :: u8
  ACE_Mask :: u32

definition ACE_Size :: "ACE \<Rightarrow> nat" where
  "ACE_Size a = 8 + SID_Size (ACE_Sid a)"

definition ACE_Encode :: "ACE \<Rightarrow> writer" where
  "ACE_Encode a = writes [
     put8 0 (ACE_Type a),
     put8 1 0,
     put16 2 (of_nat (ACE_Size a)),
     put32 4 (ACE_Mask a),
     on_from 8 (SID_Encode (ACE_Sid a))]"

type_synonym ACL = "ACE list"

definition ACL_Size :: "ACL \<Rightarrow> nat" where
  "ACL_Size a = 8 + sum_list (map ACE_Size a)"

fun ACL_Encode_loop :: "nat \<Rightarrow> ACL \<Rightarrow> writer" where
  "ACL_Encode_loop off [] = Some"
| "ACL_Encode_loop off (ace # a) = writes [on_from off (ACE_Encode ace), ACL_Encode_loop (off + ACE_Size ace) a]"

definition ACL_Encode :: "ACL \<Rightarrow> writer" where
  "ACL_Encode a = writes [
     put8 0 ACL_REVISION,
     put16 2 (of_nat (ACL_Size a)),
     put16 4 (of_nat (length a)),
     ACL_Encode_loop 8 a]"

record SecurityDescriptor =
  SecurityDescriptor_OwnerSid :: "SID option"
  SecurityDescriptor_GroupSid :: "SID option"
  SecurityDescriptor_Sacl :: "ACL option"
  SecurityDescriptor_Dacl :: "ACL option"

definition opt_Size :: "('a \<Rightarrow> nat) \<Rightarrow> 'a option \<Rightarrow> nat" where
  "opt_Size f x = (case x of None \<Rightarrow> 0 | Some y \<Rightarrow> f y)"

definition SecurityDescriptor_Size :: "SecurityDescriptor \<Rightarrow> nat" where
  "SecurityDescriptor_Size d =
     Align (20 + opt_Size SID_Size (SecurityDescriptor_OwnerSid d) + opt_Size SID_Size (SecurityDescriptor_GroupSid d) +
       opt_Size ACL_Size (SecurityDescriptor_Sacl d) + opt_Size ACL_Size (SecurityDescriptor_Dacl d)) 8"

text \<open>One of the four parts: its offset into the header at \<open>k\<close>, the part at \<open>offset\<close>.\<close>

definition sd_part :: "nat \<Rightarrow> nat \<Rightarrow> ('a \<Rightarrow> writer) \<Rightarrow> 'a option \<Rightarrow> writer" where
  "sd_part k offset enc x =
     (case x of None \<Rightarrow> Some | Some y \<Rightarrow> writes [put32 k (of_nat offset), on_from offset (enc y)])"

definition SecurityDescriptor_Encode :: "SecurityDescriptor \<Rightarrow> writer" where
  "SecurityDescriptor_Encode d =
     (let control = (0x8000 :: u16) OR (if SecurityDescriptor_Sacl d \<noteq> None then 0x10 else 0) OR
            (if SecurityDescriptor_Dacl d \<noteq> None then 4 else 0);
          o1 = 20 + opt_Size SID_Size (SecurityDescriptor_OwnerSid d);
          o2 = o1 + opt_Size SID_Size (SecurityDescriptor_GroupSid d);
          o3 = o2 + opt_Size ACL_Size (SecurityDescriptor_Sacl d)
      in writes [
        put8 0 1,
        put16 2 control,
        sd_part 4 20 SID_Encode (SecurityDescriptor_OwnerSid d),
        sd_part 8 o1 SID_Encode (SecurityDescriptor_GroupSid d),
        sd_part 12 o2 ACL_Encode (SecurityDescriptor_Sacl d),
        sd_part 16 o3 ACL_Encode (SecurityDescriptor_Dacl d)])"

definition UnixModeToAceMask :: "u8 \<Rightarrow> u32" where
  "UnixModeToAceMask mode =
     (if mode AND 1 \<noteq> 0 then FILE_EXECUTE OR FILE_READ_ATTRIBUTES OR SYNCHRONIZE OR READ_CONTROL else 0) OR
     (if mode AND 2 \<noteq> 0 then FILE_WRITE_DATA OR FILE_WRITE_ATTRIBUTES OR FILE_WRITE_EA OR WRITE_DAC OR DELETE OR READ_CONTROL else 0) OR
     (if mode AND 4 \<noteq> 0 then FILE_READ_DATA OR FILE_READ_ATTRIBUTES OR FILE_READ_EA OR READ_CONTROL else 0)"

section \<open>Decoders\<close>

definition SecurityDescriptorDecoder_Revision :: "bytes \<Rightarrow> u8 option" where
  "SecurityDescriptorDecoder_Revision sd = u8_at sd 0"

definition SecurityDescriptorDecoder_Control :: "bytes \<Rightarrow> u16 option" where
  "SecurityDescriptorDecoder_Control sd = u16_at sd 2"

definition SecurityDescriptorDecoder_OffsetOwner :: "bytes \<Rightarrow> u32 option" where
  "SecurityDescriptorDecoder_OffsetOwner sd = u32_at sd 4"

definition SecurityDescriptorDecoder_OffsetGroup :: "bytes \<Rightarrow> u32 option" where
  "SecurityDescriptorDecoder_OffsetGroup sd = u32_at sd 8"

definition SecurityDescriptorDecoder_OffsetSacl :: "bytes \<Rightarrow> u32 option" where
  "SecurityDescriptorDecoder_OffsetSacl sd = u32_at sd 12"

definition SecurityDescriptorDecoder_OffsetDacl :: "bytes \<Rightarrow> u32 option" where
  "SecurityDescriptorDecoder_OffsetDacl sd = u32_at sd 16"

text \<open>The slice from an offset, nil for offset 0.\<close>

definition sd_slice :: "bytes \<Rightarrow> u32 \<Rightarrow> bytes option option" where
  "sd_slice sd off = (if off = 0 then Some None else map_option Some (go_slice_from sd (unat off)))"

definition SecurityDescriptorDecoder_OwnerSid :: "bytes \<Rightarrow> bytes option option" where
  "SecurityDescriptorDecoder_OwnerSid sd = do { off \<leftarrow> SecurityDescriptorDecoder_OffsetOwner sd; sd_slice sd off }"

definition SecurityDescriptorDecoder_GroupSid :: "bytes \<Rightarrow> bytes option option" where
  "SecurityDescriptorDecoder_GroupSid sd = do { off \<leftarrow> SecurityDescriptorDecoder_OffsetGroup sd; sd_slice sd off }"

definition SecurityDescriptorDecoder_Sacl :: "bytes \<Rightarrow> bytes option option" where
  "SecurityDescriptorDecoder_Sacl sd = do { off \<leftarrow> SecurityDescriptorDecoder_OffsetSacl sd; sd_slice sd off }"

definition SecurityDescriptorDecoder_Dacl :: "bytes \<Rightarrow> bytes option option" where
  "SecurityDescriptorDecoder_Dacl sd = do { off \<leftarrow> SecurityDescriptorDecoder_OffsetDacl sd; sd_slice sd off }"

definition AclDecoder_Revision :: "bytes \<Rightarrow> u8 option" where
  "AclDecoder_Revision a = u8_at a 0"

definition AclDecoder_AclSize :: "bytes \<Rightarrow> u16 option" where
  "AclDecoder_AclSize a = u16_at a 2"

definition AclDecoder_AceCount :: "bytes \<Rightarrow> u16 option" where
  "AclDecoder_AceCount a = u16_at a 4"

definition AclDecoder_Aces :: "bytes \<Rightarrow> bytes option" where
  "AclDecoder_Aces a = go_slice_from a 8"

definition AceDecoder_Type :: "bytes \<Rightarrow> u8 option" where
  "AceDecoder_Type a = u8_at a 0"

definition AceDecoder_Flags :: "bytes \<Rightarrow> u8 option" where
  "AceDecoder_Flags a = u8_at a 1"

definition AceDecoder_Size :: "bytes \<Rightarrow> u16 option" where
  "AceDecoder_Size a = u16_at a 2"

definition AceDecoder_Mask :: "bytes \<Rightarrow> u32 option" where
  "AceDecoder_Mask a = u32_at a 4"

definition AceDecoder_Sid :: "bytes \<Rightarrow> bytes option" where
  "AceDecoder_Sid a = go_slice_from a 8"

text \<open>The loop of \<open>setSecInfo\<close> over the entries: the mode of the first NFS mode identifier.\<close>

fun acl_mode_loop :: "nat \<Rightarrow> bytes \<Rightarrow> u32 option option" where
  "acl_mode_loop 0 aceBuf = Some None"
| "acl_mode_loop (Suc n) aceBuf = do {
     sid \<leftarrow> AceDecoder_Sid aceBuf;
     count \<leftarrow> SidDecoder_SubAuthorityCount sid;
     sa \<leftarrow> (if count = 3 then SidDecoder_SubAuthority sid else Some []);
     if count = 3 \<and> sa ! 0 = 88 \<and> sa ! 1 = 3 then Some (Some (sa ! 2))
     else do {
       sz \<leftarrow> AceDecoder_Size aceBuf;
       aceBuf \<leftarrow> go_slice_from aceBuf (unat sz);
       acl_mode_loop n aceBuf } }"

definition acl_mode :: "bytes \<Rightarrow> u32 option option" where
  "acl_mode dacl = do {
     aces \<leftarrow> AclDecoder_Aces dacl;
     count \<leftarrow> AclDecoder_AceCount dacl;
     acl_mode_loop (unat count) aces }"

section \<open>What the encoders write\<close>

definition SID_ok :: "SID \<Rightarrow> bool" where
  "SID_ok s \<longleftrightarrow> length (SID_IdentifierAuthority s) = 6 \<and> length (SID_SubAuthority s) < 256"

definition SID_bytes :: "SID \<Rightarrow> bytes" where
  "SID_bytes s = [1, of_nat (length (SID_SubAuthority s))] @ SID_IdentifierAuthority s @ le32s (SID_SubAuthority s)"

definition ACE_bytes :: "ACE \<Rightarrow> bytes" where
  "ACE_bytes a = [ACE_Type a, 0] @ le_of_word 2 (of_nat (ACE_Size a) :: u16) @ le_of_word 4 (ACE_Mask a) @ SID_bytes (ACE_Sid a)"

definition ACL_bytes :: "ACL \<Rightarrow> bytes" where
  "ACL_bytes a = [ACL_REVISION, 0] @ le_of_word 2 (of_nat (ACL_Size a) :: u16) @ le_of_word 2 (of_nat (length a) :: u16) @
     [0, 0] @ concat (map ACE_bytes a)"

definition ACL_ok :: "ACL \<Rightarrow> bool" where
  "ACL_ok a \<longleftrightarrow> list_all (\<lambda>e. SID_ok (ACE_Sid e)) a \<and> ACL_Size a < 65536"

lemma length_SID_bytes [simp]: "SID_ok s \<Longrightarrow> length (SID_bytes s) = SID_Size s"
  by (simp add: SID_bytes_def SID_Size_def SID_ok_def)

lemma length_ACE_bytes [simp]: "SID_ok (ACE_Sid a) \<Longrightarrow> length (ACE_bytes a) = ACE_Size a"
  by (simp add: ACE_bytes_def ACE_Size_def)

lemma length_ACEs_bytes:
  "list_all (\<lambda>e. SID_ok (ACE_Sid e)) a \<Longrightarrow> length (concat (map ACE_bytes a)) = sum_list (map ACE_Size a)"
  by (induction a) simp_all

lemma length_ACL_bytes [simp]: "ACL_ok a \<Longrightarrow> length (ACL_bytes a) = ACL_Size a"
  by (simp add: ACL_bytes_def ACL_Size_def ACL_ok_def length_ACEs_bytes)

lemma SID_Encode_eq:
  assumes "SID_ok s" "SID_Size s \<le> length p"
  shows "SID_Encode s p = Some (upd 0 (SID_bytes s) p)"
proof -
  have w: "writes (map (\<lambda>(i, u). put32 (8 + 4 * i) u) (enumerate 0 us)) q = Some (upd 8 (le32s us) q)"
    if "8 + 4 * length us \<le> length q" for us and q :: bytes
    using that writes_enumerate [of "le_of_word 4" 4 8 us q] by (simp add: put32_def le32s_def)
  then show ?thesis
    using assms by (simp add: SID_Encode_def SID_Size_def SID_ok_def SID_bytes_def put8_def put_def copy_from_def upd_merge)
qed

lemma on_from_upd: "a \<le> length p \<Longrightarrow> w (drop a p) = Some (upd 0 bs (drop a p)) \<Longrightarrow> a + length bs \<le> length p \<Longrightarrow>
    on_from a w p = Some (upd a bs p)"
  by (simp add: on_from_def upd_def add.commute)

lemma ACE_Encode_eq:
  assumes "SID_ok (ACE_Sid a)" "ACE_Size a \<le> length p"
  shows "ACE_Encode a p = Some (upd 0 (ACE_bytes a) p)"
proof -
  have "on_from 8 (SID_Encode (ACE_Sid a)) q = Some (upd 8 (SID_bytes (ACE_Sid a)) q)" if "length q = length p" for q
    using assms that by (intro on_from_upd SID_Encode_eq) (simp_all add: ACE_Size_def)
  then show ?thesis
    using assms by (simp add: ACE_Encode_def ACE_bytes_def ACE_Size_def go_run_defs(1-5) upd_merge)
qed

lemma ACL_Encode_loop_eq:
  assumes "list_all (\<lambda>e. SID_ok (ACE_Sid e)) a" "off + sum_list (map ACE_Size a) \<le> length p"
  shows "ACL_Encode_loop off a p = Some (upd off (concat (map ACE_bytes a)) p)"
  using assms
proof (induction off a arbitrary: p rule: ACL_Encode_loop.induct)
  case (2 off e a)
  have e: "on_from off (ACE_Encode e) p = Some (upd off (ACE_bytes e) p)"
    using 2(2,3) by (intro on_from_upd ACE_Encode_eq) simp_all
  moreover have "ACL_Encode_loop (off + ACE_Size e) a (upd off (ACE_bytes e) p) =
      Some (upd (off + ACE_Size e) (concat (map ACE_bytes a)) (upd off (ACE_bytes e) p))"
    using 2 by (intro 2(1)) simp_all
  ultimately show ?case
    using 2(2,3) by (simp add: upd_merge length_ACEs_bytes)
qed simp

lemma ACL_Encode_eq:
  assumes "ACL_ok a" "ACL_Size a \<le> length p"
  shows "ACL_Encode a p = Some (upd 8 (concat (map ACE_bytes a)) (upd 4 (le_of_word 2 (of_nat (length a) :: u16))
    (upd 2 (le_of_word 2 (of_nat (ACL_Size a) :: u16)) (upd 0 [ACL_REVISION] p))))"
  using assms by (simp add: ACL_Encode_def go_run_defs(1-5) ACL_Encode_loop_eq ACL_ok_def ACL_Size_def)

lemma safe_SID_Encode [go_safe]: "SID_ok s \<Longrightarrow> SID_Size s \<le> k \<Longrightarrow> safe_w k (SID_Encode s)"
  by (rule safe_wI) (simp add: SID_Encode_eq)

lemma safe_ACL_Encode [go_safe]: "ACL_ok a \<Longrightarrow> ACL_Size a \<le> k \<Longrightarrow> safe_w k (ACL_Encode a)"
  by (rule safe_wI) (simp add: ACL_Encode_eq)

definition SD_ok :: "SecurityDescriptor \<Rightarrow> bool" where
  "SD_ok d \<longleftrightarrow> pred_option SID_ok (SecurityDescriptor_OwnerSid d) \<and> pred_option SID_ok (SecurityDescriptor_GroupSid d) \<and>
     pred_option ACL_ok (SecurityDescriptor_Sacl d) \<and> pred_option ACL_ok (SecurityDescriptor_Dacl d)"

lemma safe_sd_part:
  assumes "pred_option ok x" "k + 4 \<le> n" "off + opt_Size sz x \<le> n"
    and "\<And>y m. ok y \<Longrightarrow> sz y \<le> m \<Longrightarrow> safe_w m (enc y)"
  shows "safe_w n (sd_part k off enc x)"
  using assms unfolding sd_part_def opt_Size_def
  by (cases x) (auto intro!: go_safe simp: le_diff_conv2)

lemma SD_Encode_safe:
  assumes "SD_ok d"
  shows "safe_w (SecurityDescriptor_Size d) (SecurityDescriptor_Encode d)"
proof -
  have "20 + opt_Size SID_Size (SecurityDescriptor_OwnerSid d) + opt_Size SID_Size (SecurityDescriptor_GroupSid d) +
      opt_Size ACL_Size (SecurityDescriptor_Sacl d) + opt_Size ACL_Size (SecurityDescriptor_Dacl d) \<le> SecurityDescriptor_Size d"
    unfolding SecurityDescriptor_Size_def Align_eq_Roundup by (rule Roundup_8_ge)
  then show ?thesis
    using assms unfolding SecurityDescriptor_Encode_def Let_def SD_ok_def
    by (intro go_safe safe_sd_part [where ok = SID_ok and sz = SID_Size] safe_sd_part [where ok = ACL_ok and sz = ACL_Size])
      (auto intro: go_safe)
qed

section \<open>Finding the mode\<close>

definition mode_sid :: "SID \<Rightarrow> bool" where
  "mode_sid s \<longleftrightarrow> length (SID_SubAuthority s) = 3 \<and> SID_SubAuthority s ! 0 = 88 \<and> SID_SubAuthority s ! 1 = 3"

lemma SidDecoder_SID_bytes:
  assumes "SID_ok s"
  shows "SidDecoder_SubAuthorityCount (SID_bytes s @ r) = Some (of_nat (length (SID_SubAuthority s)))"
    "SidDecoder_SubAuthority (SID_bytes s @ r) = Some (SID_SubAuthority s)"
proof -
  let ?n = "length (SID_SubAuthority s)"
  show c: "SidDecoder_SubAuthorityCount (SID_bytes s @ r) = Some (of_nat ?n)"
    by (simp add: SidDecoder_SubAuthorityCount_def SID_bytes_def u8_at_def index_at_def)
  have a: "length (SID_IdentifierAuthority s) = 6" and n: "?n < 256" using assms by (simp_all add: SID_ok_def)
  have "u32_at (SID_bytes s @ r) (8 + 4 * i) = Some (SID_SubAuthority s ! i)" if "i < ?n" for i
    using that a rd_concat [of "le_of_word 4" 4 i "SID_SubAuthority s" r]
      rd_append_right [of "[1, of_nat ?n] @ SID_IdentifierAuthority s" "8 + 4 * i" 4 "le32s (SID_SubAuthority s) @ r"]
    by (simp add: u32_at_eq SID_bytes_def le32s_def) (simp add: le32s_def flip: le32s_def)
  then have "those (map (\<lambda>i. u32_at (SID_bytes s @ r) (8 + 4 * i)) [0..<?n]) = Some (map ((!) (SID_SubAuthority s)) [0..<?n])"
    by (intro those_map_Some) simp
  then show "SidDecoder_SubAuthority (SID_bytes s @ r) = Some (SID_SubAuthority s)"
    using n c by (simp add: SidDecoder_SubAuthority_def unat_of_nat_u8 map_nth)
qed

lemma acl_mode_loop_bytes:
  assumes "list_all (\<lambda>e. SID_ok (ACE_Sid e)) a" "list_all (\<lambda>e. ACE_Size e < 65536) a"
  shows "acl_mode_loop (length a) (concat (map ACE_bytes a) @ r) =
    Some (map_option (\<lambda>e. SID_SubAuthority (ACE_Sid e) ! 2) (find (\<lambda>e. mode_sid (ACE_Sid e)) a))"
  using assms
proof (induction a)
  case (Cons e a)
  let ?s = "ACE_Sid e" and ?b = "concat (map ACE_bytes (e # a)) @ r"
  have ok: "SID_ok ?s" "ACE_Size e < 65536" using Cons.prems by simp_all
  have sid: "AceDecoder_Sid ?b = Some (SID_bytes ?s @ concat (map ACE_bytes a) @ r)"
    by (simp add: AceDecoder_Sid_def go_slice_from_def ACE_bytes_def)
  have sz: "AceDecoder_Size ?b = Some (of_nat (ACE_Size e))"
    by (simp add: AceDecoder_Size_def u16_at_eq ACE_bytes_def rd_def)
  have nx: "go_slice_from ?b (ACE_Size e) = Some (concat (map ACE_bytes a) @ r)"
    using ok by (simp add: go_slice_from_def)
  have n3: "(of_nat (length (SID_SubAuthority ?s)) :: u8) = 3 \<longleftrightarrow> length (SID_SubAuthority ?s) = 3"
    using ok(1) unat_of_nat_u8 [of "length (SID_SubAuthority ?s)"] by (auto simp: SID_ok_def dest: arg_cong [where f = unat])
  show ?case
    using Cons SidDecoder_SID_bytes [OF ok(1)] ok(2) sid sz nx n3
    by (cases "mode_sid ?s") (auto simp: mode_sid_def unat_of_nat_u16)
qed simp

section \<open>Descriptors the server sends and receives\<close>

text \<open>The descriptor \<open>queryInfoSec\<close> builds from the attributes of a file; only the list needs the file type.\<close>

definition query_dacl :: "Attributes \<Rightarrow> ACL option" where
  "query_dacl attrs = do {
     let uid = fst (Attributes_GetUID attrs);
     let gid = fst (Attributes_GetGID attrs);
     let mode = fst (Attributes_GetUnixMode attrs);
     t \<leftarrow> Attributes_GetFileType attrs;
     let mode = (case t of FileTypeDirectory \<Rightarrow> mode OR 0x4000 | FileTypeSymlink \<Rightarrow> mode OR 0xA000 | _ \<Rightarrow> mode OR 0x8000);
     Some [
       \<lparr>ACE_Sid = SIDFromUid uid, ACE_Type = ACCESS_ALLOWED_ACE_TYPE, ACE_Mask = UnixModeToAceMask (ucast (drop_bit 6 (mode AND 0x1C0)))\<rparr>,
       \<lparr>ACE_Sid = SIDFromGid gid, ACE_Type = ACCESS_ALLOWED_ACE_TYPE, ACE_Mask = UnixModeToAceMask (ucast (drop_bit 3 (mode AND 0x38)))\<rparr>,
       \<lparr>ACE_Sid = \<lparr>SID_IdentifierAuthority = WORLD_SID_AUTHORITY, SID_SubAuthority = [0]\<rparr>, ACE_Type = ACCESS_ALLOWED_ACE_TYPE,
        ACE_Mask = UnixModeToAceMask (ucast (mode AND 7))\<rparr>,
       \<lparr>ACE_Sid = SIDFromMode mode, ACE_Type = ACCESS_DENIED_ACE_TYPE, ACE_Mask = 0\<rparr>] }"

definition query_sd :: "u32 \<Rightarrow> Attributes \<Rightarrow> SecurityDescriptor option" where
  "query_sd addl attrs = do {
     dacl \<leftarrow> if addl AND 4 \<noteq> 0 then map_option Some (query_dacl attrs) else Some None;
     Some \<lparr>SecurityDescriptor_OwnerSid = (if addl AND 1 \<noteq> 0 then Some (SIDFromUid (fst (Attributes_GetUID attrs))) else None),
      SecurityDescriptor_GroupSid = (if addl AND 2 \<noteq> 0 then Some (SIDFromGid (fst (Attributes_GetGID attrs))) else None),
      SecurityDescriptor_Sacl = None, SecurityDescriptor_Dacl = dacl\<rparr> }"

text \<open>What \<open>setSecInfo\<close> looks for in a descriptor: \<open>None\<close> inside where there is no list or no mode.\<close>

definition sd_mode :: "bytes \<Rightarrow> u32 option option" where
  "sd_mode sd = do {
     d \<leftarrow> SecurityDescriptorDecoder_Dacl sd;
     case d of None \<Rightarrow> Some None | Some dacl \<Rightarrow> acl_mode dacl }"

lemma SID_ok_make [simp]: "SID_ok (SIDFromUid u)" "SID_ok (SIDFromGid u)" "SID_ok (SIDFromMode u)"
  by (simp_all add: SID_ok_def SIDFromUid_def SIDFromGid_def SIDFromMode_def)

lemma mode_sid_at: "SID_SubAuthority (SIDFromMode m) ! 2 = m"
  by (simp add: SIDFromMode_def)

lemma query_dacl_ok: "query_dacl attrs = Some a \<Longrightarrow> ACL_ok a \<and> ACL_Size a < 1000"
  by (auto simp: ACL_ok_def query_dacl_def Let_def ACL_Size_def ACE_Size_def SID_Size_def SID_ok_def SIDFromUid_def SIDFromGid_def
      SIDFromMode_def split: bind_splits)

lemma query_sd_ok:
  assumes "query_sd addl attrs = Some d"
  shows "SD_ok d \<and> SecurityDescriptor_Size d < 4294967296"
proof -
  have r: "Align x 8 \<le> x + 8" for x :: nat unfolding Align_eq_Roundup using Roundup_8_lt [of x] by simp
  define dacl where "dacl = SecurityDescriptor_Dacl d"
  have "pred_option (\<lambda>a. ACL_ok a \<and> ACL_Size a < 1000) dacl"
    using assms query_dacl_ok [of attrs] by (cases "query_dacl attrs") (auto simp: query_sd_def dacl_def split: if_splits)
  moreover have "SecurityDescriptor_Sacl d = None" "SecurityDescriptor_OwnerSid d \<in> {None, Some (SIDFromUid (fst (Attributes_GetUID attrs)))}"
    "SecurityDescriptor_GroupSid d \<in> {None, Some (SIDFromGid (fst (Attributes_GetGID attrs)))}"
    using assms by (auto simp: query_sd_def split: bind_splits if_splits)
  ultimately have *: "pred_option (\<lambda>a. ACL_ok a \<and> ACL_Size a < 1000) dacl" "SecurityDescriptor_Dacl d = dacl"
    "SecurityDescriptor_Sacl d = None" "SecurityDescriptor_OwnerSid d \<in> {None, Some (SIDFromUid (fst (Attributes_GetUID attrs)))}"
    "SecurityDescriptor_GroupSid d \<in> {None, Some (SIDFromGid (fst (Attributes_GetGID attrs)))}"
    by (simp_all add: dacl_def)
  then have "opt_Size ACL_Size dacl < 1000" by (cases dacl) (simp_all add: opt_Size_def)
  moreover have "opt_Size SID_Size (SecurityDescriptor_OwnerSid d) < 100" "opt_Size SID_Size (SecurityDescriptor_GroupSid d) < 100"
    using * by (auto simp: opt_Size_def SID_Size_def SIDFromUid_def SIDFromGid_def)
  ultimately have "SecurityDescriptor_Size d < 4294967296"
    using * r [of "20 + opt_Size SID_Size (SecurityDescriptor_OwnerSid d) + opt_Size SID_Size (SecurityDescriptor_GroupSid d) +
      opt_Size ACL_Size dacl"] by (simp add: SecurityDescriptor_Size_def opt_Size_def)
  then show ?thesis using * by (cases dacl) (auto simp: SD_ok_def)
qed

lemma ACE_size_bound: "ACL_ok a \<Longrightarrow> list_all (\<lambda>e. ACE_Size e < 65536) a"
proof -
  have "e \<in> set a \<Longrightarrow> ACE_Size e \<le> sum_list (map ACE_Size a)" for e by (simp add: member_le_sum_list)
  then show "ACL_ok a \<Longrightarrow> ?thesis" by (fastforce simp: ACL_ok_def ACL_Size_def list_all_iff)
qed

lemma acl_mode_bytes:
  assumes "ACL_ok a" "ACL_Size a \<le> length p" "ACL_Encode a p = Some q"
  shows "acl_mode q = Some (map_option (\<lambda>e. SID_SubAuthority (ACE_Sid e) ! 2) (find (\<lambda>e. mode_sid (ACE_Sid e)) a))"
proof -
  let ?A = "concat (map ACE_bytes a)"
  define q1 where "q1 = upd 4 (le_of_word 2 (of_nat (length a) :: u16)) (upd 2 (le_of_word 2 (of_nat (ACL_Size a) :: u16)) (upd 0 [ACL_REVISION] p))"
  have q: "q = upd 8 ?A q1" using assms by (simp add: ACL_Encode_eq q1_def)
  have l: "length ?A = ACL_Size a - 8" "8 \<le> ACL_Size a" "length q1 = length p"
    using assms(1) by (simp_all add: ACL_ok_def length_ACEs_bytes ACL_Size_def q1_def)
  have n: "length a < 65536"
  proof -
    have "length a \<le> sum_list (map ACE_Size a)" by (induction a) (simp_all add: ACE_Size_def)
    then show ?thesis using assms(1) by (simp add: ACL_ok_def ACL_Size_def)
  qed
  have "rd 4 2 q = le_of_word 2 (of_nat (length a) :: u16)"
    using l assms(2) by (simp add: q q1_def go_buf)
  then have "AclDecoder_AceCount q = Some (of_nat (length a))"
    using l assms(2) by (simp add: AclDecoder_AceCount_def u16_at_eq q)
  moreover have "AclDecoder_Aces q = Some (?A @ drop (ACL_Size a) p)"
    using l assms(2) by (simp add: AclDecoder_Aces_def go_slice_from_def q upd_def) (simp add: q1_def drop_upd)
  ultimately show ?thesis
    using n acl_mode_loop_bytes [of a "drop (ACL_Size a) p"] assms(1) ACE_size_bound [OF assms(1)]
    by (simp add: acl_mode_def unat_of_nat_u16 ACL_ok_def)
qed

lemma sd_mode_encoded:
  assumes "SD_ok d" "SecurityDescriptor_Dacl d = Some a" "SecurityDescriptor_Size d < 4294967296"
  obtains q where "SecurityDescriptor_Encode d (replicate (SecurityDescriptor_Size d) 0) = Some q"
    "sd_mode q = Some (map_option (\<lambda>e. SID_SubAuthority (ACE_Sid e) ! 2) (find (\<lambda>e. mode_sid (ACE_Sid e)) a))"
proof -
  let ?n = "SecurityDescriptor_Size d"
  define o3 where "o3 = 20 + opt_Size SID_Size (SecurityDescriptor_OwnerSid d) + opt_Size SID_Size (SecurityDescriptor_GroupSid d) +
    opt_Size ACL_Size (SecurityDescriptor_Sacl d)"
  have o3: "o3 + ACL_Size a \<le> ?n" "20 \<le> o3"
    using assms(2) Roundup_8_ge [of "o3 + ACL_Size a"] by (simp_all add: SecurityDescriptor_Size_def Align_eq_Roundup o3_def opt_Size_def)
  obtain q where q: "SecurityDescriptor_Encode d (replicate ?n 0) = Some q" "length q = ?n"
    using SD_Encode_safe [OF assms(1)] by (rule safe_wE [where p = "replicate ?n 0"]) auto
  define ws where "ws = [put8 0 1, put16 2 ((0x8000 :: u16) OR (if SecurityDescriptor_Sacl d \<noteq> None then 0x10 else 0) OR 4),
    sd_part 4 20 SID_Encode (SecurityDescriptor_OwnerSid d),
    sd_part 8 (20 + opt_Size SID_Size (SecurityDescriptor_OwnerSid d)) SID_Encode (SecurityDescriptor_GroupSid d),
    sd_part 12 (20 + opt_Size SID_Size (SecurityDescriptor_OwnerSid d) + opt_Size SID_Size (SecurityDescriptor_GroupSid d)) ACL_Encode
      (SecurityDescriptor_Sacl d)]"
  have "SecurityDescriptor_Encode d = writes (ws @ [sd_part 16 o3 ACL_Encode (Some a)])"
    unfolding SecurityDescriptor_Encode_def ws_def o3_def Let_def assms(2) by (simp only: append_Cons append_Nil option.distinct if_True
      not_False_eq_True HOL.simp_thms)
  moreover have "safe_w ?n (writes ws)"
    using assms(1) o3 unfolding ws_def SD_ok_def o3_def
    by (intro go_safe safe_sd_part [where ok = SID_ok and sz = SID_Size] safe_sd_part [where ok = ACL_ok and sz = ACL_Size])
      (auto intro: go_safe)
  then obtain p where lr: "length p = ?n" and p: "writes ws (replicate ?n 0) = Some p"
    by (rule safe_wE [where p = "replicate ?n 0"]) auto
  ultimately have "sd_part 16 o3 ACL_Encode (Some a) p = Some q"
    using q(1) by (simp add: writes_append split: option.splits)
  then obtain r where r: "o3 \<le> length p" "ACL_Encode a (drop o3 (upd 16 (le_of_word 4 (of_nat o3 :: u32)) p)) = Some r"
    "q = take o3 (upd 16 (le_of_word 4 (of_nat o3 :: u32)) p) @ r"
    by (auto simp: sd_part_def put32_def put_def on_from_def split: if_splits option.splits bind_splits)
  have ok: "ACL_ok a" using assms(1,2) by (simp add: SD_ok_def)
  have "rd 16 4 q = le_of_word 4 (of_nat o3 :: u32)" using r o3(2) by (simp add: go_buf)
  then have "SecurityDescriptorDecoder_OffsetDacl q = Some (of_nat o3)"
    using q(2) o3 by (simp add: SecurityDescriptorDecoder_OffsetDacl_def u32_at_eq)
  moreover have u: "unat (of_nat o3 :: u32) = o3" "of_nat o3 \<noteq> (0 :: u32)"
    using o3 assms(3) unat_of_nat_u32 [of o3] by auto
  ultimately have "SecurityDescriptorDecoder_Dacl q = Some (Some r)"
    using r lr by (simp add: SecurityDescriptorDecoder_Dacl_def sd_slice_def go_slice_from_def)
  then have "sd_mode q = acl_mode r" by (simp add: sd_mode_def)
  moreover have "ACL_Size a \<le> length (drop o3 (upd 16 (le_of_word 4 (of_nat o3 :: u32)) p))" using o3 lr by simp
  ultimately show ?thesis using that [OF q(1)] acl_mode_bytes [OF ok _ r(2)] by simp
qed

text \<open>C24. The access list the server reports for a file carries its permission bits: whatever else is asked for with it and
  whoever owns the file, when the descriptor that \<open>queryInfoSec\<close> builds for a file is encoded and handed to \<open>setSecInfo\<close> for any
  other file, the encoding does not panic, the special identifier is found in it, and the mode then set on the other file is the mode of
  the first (its twelve permission bits) with read and write for the owner added.\<close>

theorem security_descriptor_carries_mode:
  assumes "addl AND 4 \<noteq> 0" "Attributes_GetFileType attrs = Some t"
  shows "\<exists>d q m. query_sd addl attrs = Some d \<and> SecurityDescriptor_Encode d (replicate (SecurityDescriptor_Size d) 0) = Some q \<and>
    sd_mode q = Some (Some m) \<and>
    fst (Attributes_GetUnixMode (Attributes_SetUnixMode (m OR 0x180) b)) = (fst (Attributes_GetUnixMode attrs) AND 0xFFF) OR 0x180"
proof -
  define m where "m = (case t of FileTypeDirectory \<Rightarrow> Attributes_unixMode attrs OR 0x4000
    | FileTypeSymlink \<Rightarrow> Attributes_unixMode attrs OR 0xA000 | _ \<Rightarrow> Attributes_unixMode attrs OR 0x8000)"
  obtain d a where d: "query_sd addl attrs = Some d" "SecurityDescriptor_Dacl d = Some a" "query_dacl attrs = Some a"
    using assms by (simp add: query_sd_def query_dacl_def Let_def)
  have f: "find (\<lambda>e. mode_sid (ACE_Sid e)) a = Some \<lparr>ACE_Sid = SIDFromMode m, ACE_Type = ACCESS_DENIED_ACE_TYPE, ACE_Mask = 0\<rparr>"
    using d(3) assms(2)
    by (auto simp: query_dacl_def Let_def m_def Attributes_get_defs mode_sid_def SIDFromUid_def SIDFromGid_def SIDFromMode_def)
  obtain q where q: "SecurityDescriptor_Encode d (replicate (SecurityDescriptor_Size d) 0) = Some q" "sd_mode q = Some (Some m)"
    using sd_mode_encoded [OF _ d(2)] query_sd_ok [OF d(1)] unfolding f
    by (metis (no_types, lifting) ACE.select_convs(1) mode_sid_at option.map(2))
  have "(m OR 0x180) AND 0xFFF = (Attributes_unixMode attrs AND 0xFFF) OR 0x180"
    by (simp add: m_def bit.conj_disj_distrib2 split: FileType.split)
  then show ?thesis using d(1) q by (auto simp: Attributes_get_defs Attributes_set_defs)
qed

theorem security_descriptor_carries_mode_witness:
  "\<exists>d q m. query_sd 7 (Attributes_SetFileType FileTypeDirectory (Attributes_SetUnixMode 0x1ED Attributes_new)) = Some d \<and>
    SecurityDescriptor_Encode d (replicate (SecurityDescriptor_Size d) 0) = Some q \<and> sd_mode q = Some (Some m) \<and>
    fst (Attributes_GetUnixMode (Attributes_SetUnixMode (m OR 0x180) Attributes_new)) = 0x1ED"
  using security_descriptor_carries_mode [of 7 "Attributes_SetFileType FileTypeDirectory (Attributes_SetUnixMode 0x1ED Attributes_new)"
      FileTypeDirectory Attributes_new]
  by (simp add: Attributes_get_defs Attributes_set_defs Attributes_new_def Attributes_has_def)

end
