(* ===== verification/Server.thy ===== *)
theory Server
  imports Opens Spnego Acl
begin

text \<open>
  \<open>server/server.go\<close>: the shared state of the server, negotiation, session setup and tree connections. The state is seen
  from one connection: the server record, which all connections share, and the connection with its trees. The trees are Go objects
  reached through two maps, so they live in a list and the maps hold indices. Hash functions, ciphers, the DER decoder and
  \<open>strings.ToUpper\<close> are library code and fields of \<open>env\<close>, cut to their fixed output length; what a step draws from the
  clock, the random generator and the network is a record \<open>inp\<close>. Each share has a file system of its own, referred to by number.
\<close>

section \<open>State\<close>

record env =
  env_sha512 :: "bytes \<Rightarrow> bytes"
  env_hmac_sha256 :: "bytes \<Rightarrow> bytes \<Rightarrow> bytes"
  env_aes :: "bytes \<Rightarrow> block_fn"
  env_gcm :: "bytes \<Rightarrow> aead"
  env_ToUpper :: "go_string \<Rightarrow> go_string"
  env_ntlm :: ntlm_crypto
  env_ber_init :: "bytes \<Rightarrow> NegTokenInit list option"
  env_ber_resp :: "bytes \<Rightarrow> NegTokenResp option"

record inp =
  in_now :: u64
  in_filetime :: u64
  in_rand32 :: u32
  in_rand64 :: u64
  in_salt :: "bytes option"
  in_challenge :: "bytes option"
  in_nonce :: bytes
  in_io :: send_io

record ServerNegotiator =
  neg_RequireMessageSigning :: bool
  neg_SpecifiedDialect :: u16
  neg_Spnego :: "spnegoServer option"

record 'f server =
  srv_negotiator :: ServerNegotiator
  srv_authenticator :: NTLMAuthenticator
  srv_serverGuid :: bytes
  srv_shares :: "(go_string \<times> nat) list"
  srv_origShares :: "(go_string \<times> nat) list"
  srv_table :: open_table
  srv_allowGuest :: bool
  srv_maxIOReads :: int
  srv_maxIOWrites :: int
  srv_xattrs :: bool
  srv_ignoreSetAttrErr :: bool
  srv_enableSMB3PosixExtensions :: bool
  srv_acceptSingleConn :: bool
  srv_fs :: "nat \<Rightarrow> 'f"

datatype tree_kind = Tree_ipc "go_string list" | Tree_file nat

record tree =
  tree_tc :: treeConn
  tree_session :: "session option"
  tree_kind :: tree_kind
  tree_aapl :: bool
  tree_dceReq :: "bytes option"

record 'f world =
  w_srv :: "'f server"
  w_conn :: conn
  w_trees :: "tree list"
  w_byName :: "(go_string \<times> nat) list"
  w_byId :: "(u32 \<times> nat) list"

record ServerConfig =
  cfg_AllowGuest :: bool
  cfg_MaxIOReads :: int
  cfg_MaxIOWrites :: int
  cfg_Xatrrs :: bool
  cfg_IgnoreSetAttrErr :: bool
  cfg_AcceptSingleConn :: bool
  cfg_EnableSMB3PosixExtensions :: bool

definition NewServer :: "env \<Rightarrow> ServerConfig \<Rightarrow> NTLMAuthenticator \<Rightarrow> (go_string \<times> nat) list \<Rightarrow> (nat \<Rightarrow> 'f) \<Rightarrow> 'f server" where
  "NewServer E cfg a shares fs =
     \<lparr>srv_negotiator = \<lparr>neg_RequireMessageSigning = False, neg_SpecifiedDialect = 0, neg_Spnego = None\<rparr>,
      srv_authenticator = a, srv_serverGuid = replicate 16 0,
      srv_shares = fold (\<lambda>(n, v). AList.update (env_ToUpper E n) v) shares [], srv_origShares = shares,
      srv_table = new_table, srv_allowGuest = cfg_AllowGuest cfg, srv_maxIOReads = cfg_MaxIOReads cfg,
      srv_maxIOWrites = cfg_MaxIOWrites cfg, srv_xattrs = cfg_Xatrrs cfg, srv_ignoreSetAttrErr = cfg_IgnoreSetAttrErr cfg,
      srv_enableSMB3PosixExtensions = cfg_EnableSMB3PosixExtensions cfg, srv_acceptSingleConn = cfg_AcceptSingleConn cfg,
      srv_fs = fs\<rparr>"

definition new_world :: "'f server \<Rightarrow> account \<Rightarrow> 'f world" where
  "new_world s a = \<lparr>w_srv = s, w_conn = new_conn a, w_trees = [], w_byName = [], w_byId = []\<rparr>"

section \<open>Shares\<close>

text \<open>\<open>strings.TrimSpace\<close> on the ASCII spaces.\<close>

definition is_space :: "u8 \<Rightarrow> bool" where
  "is_space b \<longleftrightarrow> b \<in> {9, 10, 11, 12, 13, 32}"

definition TrimSpace :: "go_string \<Rightarrow> go_string" where
  "TrimSpace s = rev (dropWhile is_space (rev (dropWhile is_space s)))"

datatype share_error = SHE_name | SHE_fs | SHE_exists | SHE_missing

definition Server_AddShare :: "env \<Rightarrow> go_string \<Rightarrow> nat option \<Rightarrow> 'f server \<Rightarrow> share_error option \<times> 'f server" where
  "Server_AddShare E name fs d =
     (let name = TrimSpace name in
      if name = [] then (Some SHE_name, d)
      else case fs of
        None \<Rightarrow> (Some SHE_fs, d)
      | Some fs \<Rightarrow>
          let upperName = env_ToUpper E name in
          if map_of (srv_shares d) upperName \<noteq> None then (Some SHE_exists, d)
          else (None, d\<lparr>srv_shares := AList.update upperName fs (srv_shares d),
                        srv_origShares := AList.update name fs (srv_origShares d)\<rparr>))"

text \<open>\<open>strings.EqualFold\<close> compares case-insensitively; the first match of the enumeration is removed.\<close>

definition Server_RemoveShare :: "env \<Rightarrow> (go_string \<Rightarrow> go_string \<Rightarrow> bool) \<Rightarrow> go_string \<Rightarrow> 'f server \<Rightarrow> share_error option \<times> 'f server" where
  "Server_RemoveShare E EqualFold name d =
     (let name = TrimSpace name in
      if name = [] then (Some SHE_name, d)
      else let upperName = env_ToUpper E name in
        if map_of (srv_shares d) upperName = None then (Some SHE_missing, d)
        else (None, d\<lparr>srv_shares := AList.delete upperName (srv_shares d),
               srv_origShares := (case find (\<lambda>e. EqualFold e name) (map fst (srv_origShares d)) of
                   None \<Rightarrow> srv_origShares d | Some e \<Rightarrow> AList.delete e (srv_origShares d))\<rparr>))"

definition Server_Shares :: "'f server \<Rightarrow> go_string list" where
  "Server_Shares d = map fst (srv_origShares d)"

section \<open>Sending\<close>

definition send_packet :: "env \<Rightarrow> inp \<Rightarrow> packet \<Rightarrow> treeConn option \<Rightarrow> compoundContext option \<Rightarrow> 'f world \<Rightarrow>
    ('f world \<times> compoundContext option \<times> conn_error option) option" where
  "send_packet E I p tc ctx w = do {
     (c, ctx, e) \<leftarrow> conn_sendPacket (env_sha512 E) (in_io I) (in_nonce I) (w_conn w) p tc ctx;
     Some (w\<lparr>w_conn := c\<rparr>, ctx, e) }"

text \<open>A response outside a compound.\<close>

definition send_alone :: "env \<Rightarrow> inp \<Rightarrow> packet \<Rightarrow> treeConn option \<Rightarrow> 'f world \<Rightarrow> ('f world \<times> conn_error option) option" where
  "send_alone E I p tc w = do { (w, _, e) \<leftarrow> send_packet E I p tc None w; Some (w, e) }"

definition error_response :: "PacketHeader \<Rightarrow> ErrorResponse" where
  "error_response h = \<lparr>ErrorResponse_Header = h, ErrorResponse_ErrorData = None\<rparr>"

text \<open>The header fields that the handlers of \<open>conn\<close> fill in by hand.\<close>

definition plain_header :: "bytes \<Rightarrow> PacketHeader option" where
  "plain_header pkt = do {
     cr \<leftarrow> PacketCodec_CreditRequest pkt;
     m \<leftarrow> PacketCodec_MessageId pkt;
     Some (zero_header\<lparr>hdr_CreditRequestResponse := cr, hdr_MessageId := m, hdr_Flags := 1\<rparr>) }"

definition conn_echo :: "env \<Rightarrow> inp \<Rightarrow> bytes \<Rightarrow> 'f world \<Rightarrow> ('f world \<times> conn_error option) option" where
  "conn_echo E I pkt w = do {
     h \<leftarrow> plain_header pkt;
     sid \<leftarrow> PacketCodec_SessionId pkt;
     send_alone E I (EchoResponse_packet \<lparr>EchoResponse_Header = h\<lparr>hdr_SessionId := sid\<rparr>\<rparr>) None w }"

definition conn_logoff :: "env \<Rightarrow> inp \<Rightarrow> bytes \<Rightarrow> 'f world \<Rightarrow> ('f world \<times> conn_error option) option" where
  "conn_logoff E I pkt w = do {
     h \<leftarrow> plain_header pkt;
     send_alone E I (LogoffResponse_packet \<lparr>LogoffResponse_Header = h\<rparr>) None w }"

section \<open>Negotiation\<close>

abbreviation (input) "SMB2_dialect \<equiv> (0x2FF :: u16)"
abbreviation (input) "SMB2_NEGOTIATE_SIGNING_ENABLED \<equiv> (1 :: u16)"
abbreviation (input) "SMB2_NEGOTIATE_SIGNING_REQUIRED \<equiv> (2 :: u16)"
abbreviation (input) "serverCapabilities \<equiv> (0x55 :: u32)"
abbreviation (input) "serverMaxSize \<equiv> (0x800000 :: u32)"

definition hash_encoder :: "u16 list \<Rightarrow> bytes \<Rightarrow> encoder" where
  "hash_encoder algs salt = (let c = \<lparr>HashContext_HashAlgorithms = algs, HashContext_HashSalt = salt\<rparr>
     in \<lparr>enc_Size = HashContext_Size c, enc_Encode = HashContext_Encode c\<rparr>)"

definition cipher_encoder :: "u16 list \<Rightarrow> encoder" where
  "cipher_encoder cs = (let c = \<lparr>CipherContext_Ciphers = cs\<rparr> in \<lparr>enc_Size = CipherContext_Size c, enc_Encode = CipherContext_Encode c\<rparr>)"

definition posix_encoder :: encoder where
  "posix_encoder = \<lparr>enc_Size = PosixContext_Size, enc_Encode = PosixContext_Encode\<rparr>"

text \<open>\<open>None\<close> is the nil response that comes with an error.\<close>

definition ServerNegotiator_makeResponse :: "inp \<Rightarrow> 'f server \<Rightarrow> conn \<Rightarrow> NegotiateResponse option" where
  "ServerNegotiator_makeResponse I d c =
     (let n = srv_negotiator d;
          dialect = neg_SpecifiedDialect n;
          rsp = \<lparr>NegotiateResponse_Header = zero_header\<lparr>hdr_Flags := 1\<rparr>,
            NegotiateResponse_SecurityMode =
              (if neg_RequireMessageSigning n then SMB2_NEGOTIATE_SIGNING_REQUIRED else SMB2_NEGOTIATE_SIGNING_ENABLED),
            NegotiateResponse_DialectRevision = (if dialect \<noteq> 0 then dialect else SMB311),
            NegotiateResponse_ServerGuid = srv_serverGuid d, NegotiateResponse_Capabilities = serverCapabilities,
            NegotiateResponse_MaxTransactSize = serverMaxSize, NegotiateResponse_MaxReadSize = serverMaxSize,
            NegotiateResponse_MaxWriteSize = serverMaxSize, NegotiateResponse_SystemTime = Some (NsecToFiletime (in_now I)),
            NegotiateResponse_ServerStartTime = Some \<lparr>Filetime_LowDateTime = 0, Filetime_HighDateTime = 0\<rparr>,
            NegotiateResponse_SecurityBuffer = [], NegotiateResponse_Contexts = []\<rparr>
      in if dialect = 0 then
           map_option (\<lambda>salt. rsp\<lparr>NegotiateResponse_Contexts := [hash_encoder [SHA512] salt, cipher_encoder [AES128GCM, AES128CCM]]\<rparr>) (in_salt I)
         else if dialect = SMB2_dialect \<or> dialect = SMB202 \<or> dialect = SMB210 \<or> dialect = SMB300 \<or> dialect = SMB302 then Some rsp
         else if dialect = SMB311 then
           map_option (\<lambda>salt. rsp\<lparr>NegotiateResponse_Contexts := [hash_encoder [conn_hashId c] salt, cipher_encoder [conn_cipherId c]] @
             (if conn_posixExtensions c then [posix_encoder] else [])\<rparr>) (in_salt I)
         else None)"

definition negotiate_dialect :: "u16 list \<Rightarrow> u16" where
  "negotiate_dialect ds =
     (let d = fold (\<lambda>d cur. if cur < d \<and> d \<le> SMB311 then d else cur) ds SMB2_dialect
      in if d = SMB2_dialect then SMB210 else d)"

text \<open>One negotiate context of a 3.1.1 client.\<close>

definition negotiate_context :: "env \<Rightarrow> bool \<Rightarrow> bytes \<Rightarrow> bytes \<Rightarrow> conn \<Rightarrow> (conn_error + conn) option" where
  "negotiate_context E posix pkt ctx c = do {
     t \<leftarrow> NegotiateContextDecoder_ContextType ctx;
     if t = SMB2_PREAUTH_INTEGRITY_CAPABILITIES then do {
       d \<leftarrow> NegotiateContextDecoder_Data ctx;
       inv \<leftarrow> HashContextDataDecoder_IsInvalid d;
       if inv then Some (Inl InvalidResponseError)
       else do {
         algs \<leftarrow> HashContextDataDecoder_HashAlgorithms d;
         if length algs \<noteq> 1 then Some (Inl InvalidResponseError)
         else Some (Inr (conn_calcPreauthHash (env_sha512 E) pkt (c\<lparr>conn_preauthIntegrityHashId := hd algs\<rparr>))) } }
     else if t = SMB2_ENCRYPTION_CAPABILITIES then do {
       d \<leftarrow> NegotiateContextDecoder_Data ctx;
       inv \<leftarrow> CipherContextDataDecoder_IsInvalid d;
       if inv then Some (Inl InvalidResponseError)
       else do {
         cs \<leftarrow> CipherContextDataDecoder_Ciphers d;
         let c = (case find (\<lambda>x. x = AES128CCM \<or> x = AES128GCM) cs of None \<Rightarrow> c | Some x \<Rightarrow> c\<lparr>conn_cipherId := x\<rparr>);
         if conn_cipherId c = AES128CCM \<or> conn_cipherId c = AES128GCM then Some (Inr c) else Some (Inl InvalidResponseError) } }
     else if t = SMB3_POSIX_EXTENSIONS_AVAILABLE then do {
       p \<leftarrow> (if posix then NegotiateContextDecoder_IsSMB3Posix ctx else Some False);
       Some (Inr (if p then c\<lparr>conn_posixExtensions := True\<rparr> else c)) }
     else Some (Inr c) }"

fun negotiate_contexts :: "env \<Rightarrow> bool \<Rightarrow> bytes \<Rightarrow> nat \<Rightarrow> bytes \<Rightarrow> conn \<Rightarrow> (conn_error option \<times> conn) option" where
  "negotiate_contexts E posix pkt 0 lst c = Some (None, c)"
| "negotiate_contexts E posix pkt (Suc n) lst c = do {
     inv \<leftarrow> NegotiateContextDecoder_IsInvalid lst;
     if inv then Some (Some InvalidResponseError, c)
     else do {
       r \<leftarrow> negotiate_context E posix pkt lst c;
       case r of
         Inl e \<Rightarrow> Some (Some e, c)
       | Inr c \<Rightarrow> do {
           off \<leftarrow> NegotiateContextDecoder_Next lst;
           negotiate_contexts E posix pkt n (if length lst < off then [] else drop off lst) c } } }"

text \<open>The end of \<open>negotiate\<close>: the response with the security token, for which a nil response is dereferenced.\<close>

definition negotiate_respond :: "env \<Rightarrow> inp \<Rightarrow> bytes \<Rightarrow> bytes \<Rightarrow> 'f world \<Rightarrow> ('f world \<times> conn_error option) option" where
  "negotiate_respond E I pkt token w = do {
     rsp \<leftarrow> ServerNegotiator_makeResponse I (w_srv w) (w_conn w);
     h \<leftarrow> PrepareResponse (NegotiateResponse_Header rsp) pkt 0;
     send_alone E I (NegotiateResponse_packet (rsp\<lparr>NegotiateResponse_Header := h, NegotiateResponse_SecurityBuffer := token\<rparr>)) None w }"

text \<open>What the request sets in the connection before the contexts.\<close>

definition negotiate_conn :: "bool \<Rightarrow> u16 \<Rightarrow> u16 \<Rightarrow> u32 \<Rightarrow> conn \<Rightarrow> conn" where
  "negotiate_conn require dialect mode caps c = c\<lparr>
     conn_requireSigning := (require \<or> mode AND SMB2_NEGOTIATE_SIGNING_REQUIRED \<noteq> 0),
     conn_capabilities := serverCapabilities AND caps, conn_dialect := dialect,
     conn_maxTransactSize := serverMaxSize, conn_maxReadSize := serverMaxSize, conn_maxWriteSize := serverMaxSize,
     conn_sequenceWindow := 1\<rparr>"

definition set_negotiator :: "(ServerNegotiator \<Rightarrow> ServerNegotiator) \<Rightarrow> 'f world \<Rightarrow> 'f world" where
  "set_negotiator f w = w\<lparr>w_srv := (w_srv w)\<lparr>srv_negotiator := f (srv_negotiator (w_srv w))\<rparr>\<rparr>"

definition ServerNegotiator_negotiate :: "env \<Rightarrow> inp \<Rightarrow> bytes \<Rightarrow> 'f world \<Rightarrow> ('f world \<times> conn_error option) option" where
  "ServerNegotiator_negotiate E I pkt w =
     (if PacketCodec_IsSmb1 pkt then do {
        let w = set_negotiator (\<lambda>n. n\<lparr>neg_SpecifiedDialect := SMB2_dialect\<rparr>) w;
        rsp \<leftarrow> ServerNegotiator_makeResponse I (w_srv w) (w_conn w);
        send_alone E I (NegotiateResponse_packet rsp) None w }
      else do {
        (res, e) \<leftarrow> accept SMB2_NEGOTIATE pkt;
        case e of Some e \<Rightarrow> Some (w, Some e) | None \<Rightarrow> do {
        r \<leftarrow> res;
        inv \<leftarrow> NegotiateRequestDecoder_IsInvalid r;
        if inv then Some (w, Some InvalidResponseError)
        else do {
          ds \<leftarrow> NegotiateRequestDecoder_Dialects r;
          let dialect = negotiate_dialect ds;
          let w = set_negotiator (\<lambda>n. n\<lparr>neg_SpecifiedDialect := dialect\<rparr>) w;
          mode \<leftarrow> NegotiateRequestDecoder_SecurityMode r;
          caps \<leftarrow> NegotiateRequestDecoder_Capabilities r;
          let w = w\<lparr>w_conn := negotiate_conn (neg_RequireMessageSigning (srv_negotiator (w_srv w))) dialect mode caps (w_conn w)\<rparr>;
          let sp = newSpnegoServer [srv_authenticator (w_srv w)];
          let w = set_negotiator (\<lambda>n. n\<lparr>neg_Spnego := Some sp\<rparr>) w;
          let token = (case spnegoServer_initSecContext sp of None \<Rightarrow> [] | Some t \<Rightarrow> t);
          if dialect \<noteq> SMB311 then negotiate_respond E I pkt token w
          else do {
            lst \<leftarrow> NegotiateRequestDecoder_NegotiateContextList r;
            n \<leftarrow> NegotiateRequestDecoder_NegotiateContextCount r;
            (e, c) \<leftarrow> negotiate_contexts E (srv_enableSMB3PosixExtensions (w_srv w)) pkt (unat n) lst (w_conn w);
            let w = w\<lparr>w_conn := c\<rparr>;
            case e of Some e \<Rightarrow> Some (w, Some e) | None \<Rightarrow> negotiate_respond E I pkt token w } } } })"

definition reset_world :: "'f world \<Rightarrow> 'f world" where
  "reset_world w = w\<lparr>w_conn := (w_conn w)\<lparr>conn_session := None, conn_useSession := False, conn_serverState := STATE_NEGOTIATE\<rparr>\<rparr>"

definition conn_negotiate :: "env \<Rightarrow> inp \<Rightarrow> bytes \<Rightarrow> 'f world \<Rightarrow> ('f world \<times> conn_error option) option" where
  "conn_negotiate E I pkt w =
     (let w = (if conn_serverState (w_conn w) \<noteq> STATE_NEGOTIATE \<and> conn_useSession (w_conn w) then reset_world w else w)
      in ServerNegotiator_negotiate E I pkt w)"

section \<open>Session setup\<close>

text \<open>The calls on \<open>negotiator.Spnego\<close>, which is nil before the first negotiation. The mechanism list is that of the server's
  one authenticator.\<close>

definition spnego_challenge :: "env \<Rightarrow> inp \<Rightarrow> bytes \<Rightarrow> 'f server \<Rightarrow> ((spnego_error + bytes) \<times> 'f server) option" where
  "spnego_challenge E I tok d =
     (case neg_Spnego (srv_negotiator d) of
        None \<Rightarrow>
          if raw_ntlm tok then None
          else do {
            t \<leftarrow> DecodeNegTokenInit (env_ber_init E) tok;
            case t of None \<Rightarrow> Some (Inl SE_ber, d) | Some _ \<Rightarrow> None }
      | Some sp \<Rightarrow> do {
          (r, mechs, sp) \<leftarrow> spnegoServer_challenge (env_ber_init E) (in_filetime I) (in_challenge I) [srv_authenticator d] sp tok;
          Some (r, d\<lparr>srv_authenticator := mechs ! 0, srv_negotiator := (srv_negotiator d)\<lparr>neg_Spnego := Some sp\<rparr>\<rparr>) })"

definition spnego_authenticate :: "env \<Rightarrow> bytes \<Rightarrow> 'f server \<Rightarrow> ((spnego_error + bytes option \<times> go_string) \<times> 'f server) option" where
  "spnego_authenticate E tok d =
     (case neg_Spnego (srv_negotiator d) of
        None \<Rightarrow>
          if raw_ntlm tok then None
          else (case DecodeNegTokenResp (env_ber_resp E) tok of None \<Rightarrow> Some (Inl SE_ber, d) | Some _ \<Rightarrow> None)
      | Some sp \<Rightarrow> do {
          (r, mechs, sp) \<leftarrow> spnegoServer_authenticate (env_ntlm E) (env_ber_resp E) [srv_authenticator d] sp tok;
          Some (r, d\<lparr>srv_authenticator := mechs ! 0, srv_negotiator := (srv_negotiator d)\<lparr>neg_Spnego := Some sp\<rparr>\<rparr>) })"

definition conn_sessionServerSetup :: "env \<Rightarrow> inp \<Rightarrow> bytes \<Rightarrow> 'f world \<Rightarrow> ('f world \<times> conn_error option) option" where
  "conn_sessionServerSetup E I pkt w = do {
     (res, e) \<leftarrow> accept SMB2_SESSION_SETUP pkt;
     case e of Some e \<Rightarrow> Some (w, Some e) | None \<Rightarrow> do {
     r \<leftarrow> res;
     let w = w\<lparr>w_conn := conn_calcPreauthHash (env_sha512 E) pkt (w_conn w)\<rparr>;
     inv \<leftarrow> SessionSetupRequestDecoder_IsInvalid r;
     if inv then Some (w, Some InvalidRequestError)
     else do {
       tok \<leftarrow> SessionSetupRequestDecoder_SecurityBuffer r;
       (out, d) \<leftarrow> spnego_challenge E I tok (w_srv w);
       let w = w\<lparr>w_srv := d\<rparr>;
       case out of
         Inl _ \<Rightarrow> Some (w, Some InvalidRequestError)
       | Inr out \<Rightarrow> do {
           h \<leftarrow> plain_header pkt;
           let w = w\<lparr>w_conn := (w_conn w)\<lparr>conn_serverState := STATE_SESSION_SETUP_CHALLENGE\<rparr>\<rparr>;
           send_alone E I (SessionSetupResponse_packet \<lparr>
             SessionSetupResponse_Header = h\<lparr>hdr_Status := STATUS_MORE_PROCESSING_REQUIRED, hdr_SessionId := in_rand64 I\<rparr>,
             SessionSetupResponse_SessionFlags = 0, SessionSetupResponse_SecurityBuffer = out\<rparr>) None w } } } }"

text \<open>The keys of a session, by dialect. HMAC-SHA256 gives 32 bytes, of which \<open>kdf\<close> takes 16, a valid AES key.\<close>

definition hmac256 :: "env \<Rightarrow> bytes \<Rightarrow> bytes \<Rightarrow> bytes" where
  "hmac256 E k m = take 32 (env_hmac_sha256 E k m @ replicate 32 0)"

definition mac_fn :: "cmac \<Rightarrow> bytes \<Rightarrow> bytes" where
  "mac_fn d m = fst (cmac_Sum [] (cmac_Write m (cmac_Reset d)))"

definition cmac_fn :: "env \<Rightarrow> bytes \<Rightarrow> (bytes \<Rightarrow> bytes) option" where
  "cmac_fn E key = map_option mac_fn (cmac_New 16 (env_aes E key))"

definition ccm_aead :: "env \<Rightarrow> bytes \<Rightarrow> aead option" where
  "ccm_aead E key = (case NewCCMWithNonceAndTagSizes (env_aes E key) 16 11 16 of Inl _ \<Rightarrow> None | Inr c \<Rightarrow> Some (aead_of_ccm c))"

definition session_keys_300 :: "env \<Rightarrow> bytes \<Rightarrow> session \<Rightarrow> session option" where
  "session_keys_300 E key s = do {
     signingKey \<leftarrow> kdf (hmac256 E) key (ascii ''SMB2AESCMAC'' @ [0]) (ascii ''SmbSign'' @ [0]);
     encryptionKey \<leftarrow> kdf (hmac256 E) key (ascii ''SMB2AESCCM'' @ [0]) (ascii ''ServerIn '' @ [0]);
     decryptionKey \<leftarrow> kdf (hmac256 E) key (ascii ''SMB2AESCCM'' @ [0]) (ascii ''ServerOut'' @ [0]);
     Some (s\<lparr>session_signer := cmac_fn E signingKey, session_verifier := cmac_fn E signingKey,
             session_encrypter := ccm_aead E encryptionKey, session_decrypter := ccm_aead E decryptionKey\<rparr>) }"

definition session_keys_311 :: "env \<Rightarrow> bytes \<Rightarrow> bytes \<Rightarrow> u16 \<Rightarrow> session \<Rightarrow> session option" where
  "session_keys_311 E key preauth cipherId s = do {
     signingKey \<leftarrow> kdf (hmac256 E) key (ascii ''SMBSigningKey'' @ [0]) preauth;
     encryptionKey \<leftarrow> kdf (hmac256 E) key (ascii ''SMBC2CCipherKey'' @ [0]) preauth;
     decryptionKey \<leftarrow> kdf (hmac256 E) key (ascii ''SMBS2SCipherKey'' @ [0]) preauth;
     let s = s\<lparr>session_preauth := preauth, session_signer := cmac_fn E signingKey, session_verifier := cmac_fn E signingKey\<rparr>;
     Some (if cipherId = AES128CCM
           then s\<lparr>session_encrypter := ccm_aead E encryptionKey, session_decrypter := ccm_aead E decryptionKey\<rparr>
           else if cipherId = AES128GCM
           then s\<lparr>session_encrypter := Some (env_gcm E encryptionKey), session_decrypter := Some (env_gcm E decryptionKey)\<rparr>
           else s) }"

definition session_keys :: "env \<Rightarrow> conn \<Rightarrow> bytes \<Rightarrow> session \<Rightarrow> session option" where
  "session_keys E c key s =
     (if conn_dialect c = SMB202 \<or> conn_dialect c = SMB210
      then Some (s\<lparr>session_signer := Some (hmac256 E key), session_verifier := Some (hmac256 E key)\<rparr>)
      else if conn_dialect c = SMB300 \<or> conn_dialect c = SMB302 then session_keys_300 E key s
      else if conn_dialect c = SMB311 then session_keys_311 E key (conn_preauthIntegrityHashValue c) (conn_cipherId c) s
      else Some s)"

definition new_session :: "bool \<Rightarrow> u64 \<Rightarrow> session" where
  "new_session guest sid = \<lparr>session_flags = (if guest then SMB2_SESSION_FLAG_IS_GUEST else 0), session_id = sid,
     session_preauth = replicate 64 0, session_trees = (\<lambda>_. None), session_signer = None, session_verifier = None,
     session_encrypter = None, session_decrypter = None\<rparr>"

text \<open>The end of a successful login: the session is registered before the response is sent and used by the receiver after.\<close>

definition session_activate :: "env \<Rightarrow> inp \<Rightarrow> PacketHeader \<Rightarrow> bytes \<Rightarrow> session \<Rightarrow> 'f world \<Rightarrow> ('f world \<times> conn_error option) option" where
  "session_activate E I h out s w = do {
     let w = w\<lparr>w_conn := (conn_registerSession s (w_conn w))\<lparr>conn_serverState := STATE_SESSION_ACTIVE\<rparr>\<rparr>;
     (w, e) \<leftarrow> send_alone E I (SessionSetupResponse_packet \<lparr>SessionSetupResponse_Header = h\<lparr>hdr_SessionId := session_id s\<rparr>,
        SessionSetupResponse_SessionFlags = session_flags s, SessionSetupResponse_SecurityBuffer = out\<rparr>) None w;
     Some (if e = None then w\<lparr>w_conn := (w_conn w)\<lparr>conn_useSession := True\<rparr>\<rparr> else w, e) }"

definition conn_sessionServerSetupChallenge :: "env \<Rightarrow> inp \<Rightarrow> bytes \<Rightarrow> 'f world \<Rightarrow> ('f world \<times> conn_error option) option" where
  "conn_sessionServerSetupChallenge E I pkt w = do {
     (res, e) \<leftarrow> accept SMB2_SESSION_SETUP pkt;
     case e of Some e \<Rightarrow> Some (w, Some e) | None \<Rightarrow> do {
     r \<leftarrow> res;
     inv \<leftarrow> SessionSetupRequestDecoder_IsInvalid r;
     if inv then Some (w, Some InvalidResponseError)
     else do {
       let w = w\<lparr>w_conn := conn_calcPreauthHash (env_sha512 E) pkt (w_conn w)\<rparr>;
       tok \<leftarrow> SessionSetupRequestDecoder_SecurityBuffer r;
       (out, d) \<leftarrow> spnego_authenticate E tok (w_srv w);
       let w = w\<lparr>w_srv := d\<rparr>;
       case out of
         Inl _ \<Rightarrow> do {
           h \<leftarrow> PrepareResponse zero_header pkt STATUS_ACCESS_DENIED;
           (w, _) \<leftarrow> send_alone E I (ErrorResponse_packet (error_response h)) None w;
           Some (w, Some InvalidRequestError) }
       | Inr (out, user) \<Rightarrow> do {
           sid \<leftarrow> PacketCodec_SessionId pkt;
           let s = new_session (srv_allowGuest (w_srv w)) sid;
           h \<leftarrow> plain_header pkt;
           s \<leftarrow> (if session_anonymous s then Some s
                 else do {
                   sp \<leftarrow> neg_Spnego (srv_negotiator (w_srv w));
                   key \<leftarrow> spnegoServer_sessionKey [srv_authenticator (w_srv w)] sp;
                   session_keys E (w_conn w) key s });
           session_activate E I h (case out of None \<Rightarrow> [] | Some b \<Rightarrow> b) s w } } } }"

definition conn_sessionSetup :: "env \<Rightarrow> inp \<Rightarrow> bytes \<Rightarrow> 'f world \<Rightarrow> ('f world \<times> conn_error option) option" where
  "conn_sessionSetup E I pkt w =
     (let w = (if conn_useSession (w_conn w) then reset_world w else w) in
      case conn_serverState (w_conn w) of
        STATE_NEGOTIATE \<Rightarrow> conn_sessionServerSetup E I pkt w
      | STATE_SESSION_SETUP \<Rightarrow> conn_sessionServerSetupChallenge E I pkt w
      | STATE_SESSION_SETUP_CHALLENGE \<Rightarrow> conn_sessionServerSetupChallenge E I pkt w
      | STATE_SESSION_ACTIVE \<Rightarrow> Some (w, Some InvalidRequestError))"

section \<open>Tree connections\<close>

abbreviation (input) "SMB2_SHARE_TYPE_DISK \<equiv> (1 :: u8)"
abbreviation (input) "SMB2_SHARE_TYPE_PIPE \<equiv> (2 :: u8)"

definition ipc_name :: go_string where
  "ipc_name = 0x5c # ascii ''IPC$''"

definition has_suffix :: "go_string \<Rightarrow> go_string \<Rightarrow> bool" where
  "has_suffix s suf \<longleftrightarrow> length suf \<le> length s \<and> drop (length s - length suf) s = suf"

text \<open>A known name takes another reference to its tree, a new one makes a tree under a random id.\<close>

definition tree_connect :: "env \<Rightarrow> inp \<Rightarrow> bytes \<Rightarrow> go_string \<Rightarrow> u8 \<Rightarrow> u32 \<Rightarrow> tree_kind \<Rightarrow> 'f world \<Rightarrow>
    ('f world \<times> conn_error option) option" where
  "tree_connect E I pkt name shareType access kind w = do {
     h \<leftarrow> plain_header pkt;
     let rsp = (\<lambda>tid. TreeConnectResponse_packet \<lparr>TreeConnectResponse_Header = h\<lparr>hdr_TreeId := tid\<rparr>,
        TreeConnectResponse_ShareType = shareType, TreeConnectResponse_ShareFlags = 0, TreeConnectResponse_Capabilities = 0,
        TreeConnectResponse_MaximalAccess = access\<rparr>);
     case map_of (w_byName w) name of
       Some i \<Rightarrow>
         (let t = w_trees w ! i;
              tc = (tree_tc t)\<lparr>tc_refCount := tc_refCount (tree_tc t) + 1\<rparr>
          in send_alone E I (rsp (tc_treeId tc)) (Some tc) (w\<lparr>w_trees := (w_trees w)[i := t\<lparr>tree_tc := tc\<rparr>]\<rparr>))
     | None \<Rightarrow>
         (let tc = \<lparr>tc_treeId = in_rand32 I, tc_shareFlags = 0, tc_path = name, tc_refCount = 1\<rparr>;
              t = \<lparr>tree_tc = tc, tree_session = conn_session (w_conn w), tree_kind = kind, tree_aapl = False, tree_dceReq = None\<rparr>;
              i = length (w_trees w)
          in send_alone E I (rsp 0) (Some tc) (w\<lparr>w_trees := w_trees w @ [t], w_byName := AList.update name i (w_byName w),
               w_byId := AList.update (in_rand32 I) i (w_byId w)\<rparr>)) }"

definition ipc_access :: u32 where
  "ipc_access = SYNCHRONIZE OR WRITE_OWNER OR WRITE_DAC OR READ_CONTROL OR DELETE OR FILE_READ_ATTRIBUTES OR FILE_WRITE_ATTRIBUTES OR
     FILE_EXECUTE OR FILE_READ_EA OR FILE_WRITE_EA OR FILE_READ_DATA OR FILE_WRITE_DATA OR FILE_DELETE_CHILD"

definition disk_access :: u32 where
  "disk_access = SYNCHRONIZE OR WRITE_OWNER OR WRITE_DAC OR READ_CONTROL OR DELETE OR FILE_READ_ATTRIBUTES OR FILE_EXECUTE OR
     FILE_READ_EA OR FILE_READ_DATA"

text \<open>The file system of a share path: by the last component, or with \<open>$\<close> behind it.\<close>

definition find_share :: "env \<Rightarrow> 'f server \<Rightarrow> go_string \<Rightarrow> nat option" where
  "find_share E d path =
     (case map_of (srv_shares d) (env_ToUpper E path) of
        Some fs \<Rightarrow> Some fs
      | None \<Rightarrow> map_of (srv_shares d) (env_ToUpper E path @ [0x24]))"

definition conn_treeConnect :: "env \<Rightarrow> inp \<Rightarrow> bytes \<Rightarrow> 'f world \<Rightarrow> ('f world \<times> conn_error option) option" where
  "conn_treeConnect E I pkt w = do {
     (res, e) \<leftarrow> accept SMB2_TREE_CONNECT pkt;
     case e of Some e \<Rightarrow> Some (w, Some e) | None \<Rightarrow> do {
     r \<leftarrow> res;
     inv \<leftarrow> TreeConnectRequestDecoder_IsInvalid r;
     if inv then Some (w, Some InvalidResponseError)
     else do {
       p \<leftarrow> TreeConnectRequestDecoder_Path r;
       if has_suffix p ipc_name
       then tree_connect E I pkt ipc_name SMB2_SHARE_TYPE_PIPE ipc_access (Tree_ipc (Server_Shares (w_srv w))) w
       else do {
         let path = last (split_byte 0x5c p);
         case find_share E (w_srv w) path of
           None \<Rightarrow> do {
             h \<leftarrow> plain_header pkt;
             send_alone E I (TreeConnectResponse_packet \<lparr>TreeConnectResponse_Header = h\<lparr>hdr_Status := STATUS_BAD_NETWORK_NAME\<rparr>,
               TreeConnectResponse_ShareType = 0, TreeConnectResponse_ShareFlags = 0, TreeConnectResponse_Capabilities = 0,
               TreeConnectResponse_MaximalAccess = 0\<rparr>) None w }
         | Some fs \<Rightarrow> tree_connect E I pkt path SMB2_SHARE_TYPE_DISK disk_access (Tree_file fs) w } } } }"

definition conn_treeDisconnect :: "env \<Rightarrow> inp \<Rightarrow> bytes \<Rightarrow> 'f world \<Rightarrow> ('f world \<times> conn_error option) option" where
  "conn_treeDisconnect E I pkt w = do {
     tid \<leftarrow> PacketCodec_TreeId pkt;
     let (tc, w) = (case map_of (w_byId w) tid of
         None \<Rightarrow> (None, w)
       | Some i \<Rightarrow>
           let t = w_trees w ! i;
               tc = (tree_tc t)\<lparr>tc_refCount := tc_refCount (tree_tc t) - 1\<rparr>;
               w = w\<lparr>w_trees := (w_trees w)[i := t\<lparr>tree_tc := tc\<rparr>]\<rparr>
           in (Some tc, if tc_refCount tc = 0
                then w\<lparr>w_byName := AList.delete (tc_path tc) (w_byName w), w_byId := AList.delete (tc_treeId tc) (w_byId w)\<rparr>
                else w));
     h \<leftarrow> plain_header pkt;
     send_alone E I (TreeDisconnectResponse_packet \<lparr>TreeDisconnectResponse_Header = h\<rparr>) tc w }"

end
