(* ===== verification/Info_Fs.thy ===== *)
theory Info_Fs
  imports Acl Smb2_Response
begin

text \<open>
  \<open>server/info_fs.go\<close>: the structures that answer queries on files, directories and file systems, and the decoders of the
  structures that set information. An \<open>int64\<close> is kept as its 64 bits. The lists of entries of a directory, of streams and of
  extended attributes are chained by \<open>NextEntryOffset\<close>.
\<close>

section \<open>Information on files\<close>

record FileAccessInformationInfo =
  FileAccessInformationInfo_AccessFlags :: u32

definition FileAccessInformationInfo_Size :: "FileAccessInformationInfo \<Rightarrow> nat" where
  "FileAccessInformationInfo_Size i = 4"

definition FileAccessInformationInfo_Encode :: "FileAccessInformationInfo \<Rightarrow> writer" where
  "FileAccessInformationInfo_Encode i = writes [
     put32 0 (FileAccessInformationInfo_AccessFlags i)]"

record FileAlignmentInformationInfo =
  FileAlignmentInformationInfo_AlignmentRequirement :: u32

definition FileAlignmentInformationInfo_Size :: "FileAlignmentInformationInfo \<Rightarrow> nat" where
  "FileAlignmentInformationInfo_Size i = 4"

definition FileAlignmentInformationInfo_Encode :: "FileAlignmentInformationInfo \<Rightarrow> writer" where
  "FileAlignmentInformationInfo_Encode i = writes [
     put32 0 (FileAlignmentInformationInfo_AlignmentRequirement i)]"

record FileAlternateNameInformationInfo =
  FileAlternateNameInformationInfo_FileName :: go_string

definition FileAlternateNameInformationInfo_Size :: "FileAlternateNameInformationInfo \<Rightarrow> nat" where
  "FileAlternateNameInformationInfo_Size i = EncodedStringLen (FileAlternateNameInformationInfo_FileName i) + 4"

definition FileAlternateNameInformationInfo_Encode :: "FileAlternateNameInformationInfo \<Rightarrow> writer" where
  "FileAlternateNameInformationInfo_Encode i = writes [
     put32 0 (of_nat (EncodedStringLen (FileAlternateNameInformationInfo_FileName i))),
     on_from 4 (EncodeString (FileAlternateNameInformationInfo_FileName i))]"

record FileAttributeTagInformationInfo =
  FileAttributeTagInformationInfo_FileAttributes :: u32
  FileAttributeTagInformationInfo_ReparseTag :: u32

definition FileAttributeTagInformationInfo_Size :: "FileAttributeTagInformationInfo \<Rightarrow> nat" where
  "FileAttributeTagInformationInfo_Size i = 8"

definition FileAttributeTagInformationInfo_Encode :: "FileAttributeTagInformationInfo \<Rightarrow> writer" where
  "FileAttributeTagInformationInfo_Encode i = writes [
     put32 0 (FileAttributeTagInformationInfo_FileAttributes i),
     put32 4 (FileAttributeTagInformationInfo_ReparseTag i)]"

record FileBasicInformationInfo =
  FileBasicInformationInfo_CreationTime :: Filetime
  FileBasicInformationInfo_LastAccessTime :: Filetime
  FileBasicInformationInfo_LastWriteTime :: Filetime
  FileBasicInformationInfo_ChangeTime :: Filetime
  FileBasicInformationInfo_FileAttributes :: u32
  FileBasicInformationInfo_Pad :: u32

definition FileBasicInformationInfo_Size :: "FileBasicInformationInfo \<Rightarrow> nat" where
  "FileBasicInformationInfo_Size i = 40"

definition FileBasicInformationInfo_Encode :: "FileBasicInformationInfo \<Rightarrow> writer" where
  "FileBasicInformationInfo_Encode i = writes [
     on_from 0 (Filetime_Encode (FileBasicInformationInfo_CreationTime i)),
     on_from 8 (Filetime_Encode (FileBasicInformationInfo_LastAccessTime i)),
     on_from 16 (Filetime_Encode (FileBasicInformationInfo_LastWriteTime i)),
     on_from 24 (Filetime_Encode (FileBasicInformationInfo_ChangeTime i)),
     put32 32 (FileBasicInformationInfo_FileAttributes i)]"

definition FileBasicInformationInfoDecoder_CreationTime :: "bytes \<Rightarrow> Filetime option" where
  "FileBasicInformationInfoDecoder_CreationTime f = do { b \<leftarrow> go_slice f 0 8; FiletimeDecoder_Decode b }"

definition FileBasicInformationInfoDecoder_LastAccessTime :: "bytes \<Rightarrow> Filetime option" where
  "FileBasicInformationInfoDecoder_LastAccessTime f = do { b \<leftarrow> go_slice f 8 16; FiletimeDecoder_Decode b }"

definition FileBasicInformationInfoDecoder_LastWriteTime :: "bytes \<Rightarrow> Filetime option" where
  "FileBasicInformationInfoDecoder_LastWriteTime f = do { b \<leftarrow> go_slice f 16 24; FiletimeDecoder_Decode b }"

definition FileBasicInformationInfoDecoder_ChangeTime :: "bytes \<Rightarrow> Filetime option" where
  "FileBasicInformationInfoDecoder_ChangeTime f = do { b \<leftarrow> go_slice f 24 32; FiletimeDecoder_Decode b }"

definition FileBasicInformationInfoDecoder_FileAttributes :: "bytes \<Rightarrow> u32 option" where
  "FileBasicInformationInfoDecoder_FileAttributes f = do { b \<leftarrow> go_slice f 32 36; u32_at b 0 }"

record FileCompressionInformationInfo =
  FileCompressionInformationInfo_CompressedFileSize :: u64
  FileCompressionInformationInfo_CompressionFormat :: u16
  FileCompressionInformationInfo_CompressionUnitShift :: u8
  FileCompressionInformationInfo_ChunkShift :: u8
  FileCompressionInformationInfo_ClusterShift :: u8
  FileCompressionInformationInfo_Reserved :: bytes

definition FileCompressionInformationInfo_Size :: "FileCompressionInformationInfo \<Rightarrow> nat" where
  "FileCompressionInformationInfo_Size i = 16"

definition FileCompressionInformationInfo_Encode :: "FileCompressionInformationInfo \<Rightarrow> writer" where
  "FileCompressionInformationInfo_Encode i = writes [
     put64 0 (FileCompressionInformationInfo_CompressedFileSize i),
     put16 8 (FileCompressionInformationInfo_CompressionFormat i),
     put8 10 (FileCompressionInformationInfo_CompressionUnitShift i),
     put8 11 (FileCompressionInformationInfo_ChunkShift i),
     put8 12 (FileCompressionInformationInfo_ClusterShift i),
     copy_slice 13 16 (FileCompressionInformationInfo_Reserved i)]"

record FileEaInformationInfo =
  FileEaInformationInfo_EaSize :: u32

definition FileEaInformationInfo_Size :: "FileEaInformationInfo \<Rightarrow> nat" where
  "FileEaInformationInfo_Size i = 4"

definition FileEaInformationInfo_Encode :: "FileEaInformationInfo \<Rightarrow> writer" where
  "FileEaInformationInfo_Encode i = writes [
     put32 0 (FileEaInformationInfo_EaSize i)]"

record FileFullEaInformationInfo =
  FileFullEaInformationInfo_NextEntryOffset :: u32
  FileFullEaInformationInfo_Flags :: u8
  FileFullEaInformationInfo_EaNameLength :: u8
  FileFullEaInformationInfo_EaValueLength :: u16
  FileFullEaInformationInfo_EaName :: go_string

text \<open>The space one entry takes; the value itself is never written.\<close>

definition ea_size :: "FileFullEaInformationInfo \<Rightarrow> nat" where
  "ea_size item = Align (8 + length (FileFullEaInformationInfo_EaName item) + 1 + unat (FileFullEaInformationInfo_EaValueLength item)) 4"

definition FileFullEaInformationInfoItems_Size :: "FileFullEaInformationInfo list \<Rightarrow> nat" where
  "FileFullEaInformationInfoItems_Size i = sum_list (map ea_size i)"

fun FileFullEaInformationInfoItems_Encode_loop :: "nat \<Rightarrow> FileFullEaInformationInfo list \<Rightarrow> writer" where
  "FileFullEaInformationInfoItems_Encode_loop off [] = Some"
| "FileFullEaInformationInfoItems_Encode_loop off (item # items) =
     (let size = ea_size item; nxt = (if items \<noteq> [] then of_nat size else FileFullEaInformationInfo_NextEntryOffset item) in
      writes [
        put32 off nxt,
        put8 (off + 4) (FileFullEaInformationInfo_Flags item),
        put8 (off + 5) (of_nat (length (FileFullEaInformationInfo_EaName item))),
        put16 (off + 6) (FileFullEaInformationInfo_EaValueLength item),
        copy_from (off + 8) (FileFullEaInformationInfo_EaName item),
        FileFullEaInformationInfoItems_Encode_loop (off + size) items])"

definition FileFullEaInformationInfoItems_Encode :: "FileFullEaInformationInfo list \<Rightarrow> writer" where
  "FileFullEaInformationInfoItems_Encode i = FileFullEaInformationInfoItems_Encode_loop 0 i"

record FileIdInformationInfo =
  FileIdInformationInfo_VolumeSerialNumber :: u64
  FileIdInformationInfo_FileId :: FileId

definition FileIdInformationInfo_Size :: "FileIdInformationInfo \<Rightarrow> nat" where
  "FileIdInformationInfo_Size i = 24"

definition FileIdInformationInfo_Encode :: "FileIdInformationInfo \<Rightarrow> writer" where
  "FileIdInformationInfo_Encode i = writes [
     put64 0 (FileIdInformationInfo_VolumeSerialNumber i),
     on_from 8 (FileId_Encode (Some (FileIdInformationInfo_FileId i)))]"

record FileInternalInformationInfo =
  FileInternalInformationInfo_IndexNumber :: u64

definition FileInternalInformationInfo_Size :: "FileInternalInformationInfo \<Rightarrow> nat" where
  "FileInternalInformationInfo_Size i = 8"

definition FileInternalInformationInfo_Encode :: "FileInternalInformationInfo \<Rightarrow> writer" where
  "FileInternalInformationInfo_Encode i = writes [
     put64 0 (FileInternalInformationInfo_IndexNumber i)]"

record FileModeInformationInfo =
  FileModeInformationInfo_Mode :: u32

definition FileModeInformationInfo_Size :: "FileModeInformationInfo \<Rightarrow> nat" where
  "FileModeInformationInfo_Size i = 4"

definition FileModeInformationInfo_Encode :: "FileModeInformationInfo \<Rightarrow> writer" where
  "FileModeInformationInfo_Encode i = writes [
     put32 0 (FileModeInformationInfo_Mode i)]"

record FileNetworkOpenInformationInfo =
  FileNetworkOpenInformationInfo_CreationTime :: Filetime
  FileNetworkOpenInformationInfo_LastAccessTime :: Filetime
  FileNetworkOpenInformationInfo_LastWriteTime :: Filetime
  FileNetworkOpenInformationInfo_ChangeTime :: Filetime
  FileNetworkOpenInformationInfo_AllocationSize :: u64
  FileNetworkOpenInformationInfo_EndOfFile :: u64
  FileNetworkOpenInformationInfo_FileAttributes :: u32

definition FileNetworkOpenInformationInfo_Size :: "FileNetworkOpenInformationInfo \<Rightarrow> nat" where
  "FileNetworkOpenInformationInfo_Size i = 56"

definition FileNetworkOpenInformationInfo_Encode :: "FileNetworkOpenInformationInfo \<Rightarrow> writer" where
  "FileNetworkOpenInformationInfo_Encode i = writes [
     on_from 0 (Filetime_Encode (FileNetworkOpenInformationInfo_CreationTime i)),
     on_from 8 (Filetime_Encode (FileNetworkOpenInformationInfo_LastAccessTime i)),
     on_from 16 (Filetime_Encode (FileNetworkOpenInformationInfo_LastWriteTime i)),
     on_from 24 (Filetime_Encode (FileNetworkOpenInformationInfo_ChangeTime i)),
     put64 32 (FileNetworkOpenInformationInfo_AllocationSize i),
     put64 40 (FileNetworkOpenInformationInfo_EndOfFile i),
     put32 48 (FileNetworkOpenInformationInfo_FileAttributes i)]"

record FilePositionInformationInfo =
  FilePositionInformationInfo_CurrentByteOffset :: u64

definition FilePositionInformationInfo_Size :: "FilePositionInformationInfo \<Rightarrow> nat" where
  "FilePositionInformationInfo_Size i = 8"

definition FilePositionInformationInfo_Encode :: "FilePositionInformationInfo \<Rightarrow> writer" where
  "FilePositionInformationInfo_Encode i = writes [
     put64 0 (FilePositionInformationInfo_CurrentByteOffset i)]"

record FileNamesInformationInfo =
  FileNamesInformationInfo_NextEntryOffset :: u32
  FileNamesInformationInfo_FileIndex :: u32
  FileNamesInformationInfo_FileName :: go_string

definition FileNamesInformationInfo_Size :: "FileNamesInformationInfo \<Rightarrow> nat" where
  "FileNamesInformationInfo_Size i = Align (12 + EncodedStringLen (FileNamesInformationInfo_FileName i)) 8"

definition FileNamesInformationInfo_Encode :: "FileNamesInformationInfo \<Rightarrow> writer" where
  "FileNamesInformationInfo_Encode i = writes [
     put32 0 (FileNamesInformationInfo_NextEntryOffset i),
     put64 4 (ucast (FileNamesInformationInfo_FileIndex i)),
     put32 8 (of_nat (EncodedStringLen (FileNamesInformationInfo_FileName i))),
     on_from 12 (EncodeString (FileNamesInformationInfo_FileName i))]"

record FileStandardInformationInfo =
  FileStandardInformationInfo_AllocationSize :: u64
  FileStandardInformationInfo_EndOfFile :: u64
  FileStandardInformationInfo_NumberOfLinks :: u32
  FileStandardInformationInfo_DeletePending :: u8
  FileStandardInformationInfo_Directory :: u8
  FileStandardInformationInfo_Pad :: bytes

definition FileStandardInformationInfo_Size :: "FileStandardInformationInfo \<Rightarrow> nat" where
  "FileStandardInformationInfo_Size i = 24"

definition FileStandardInformationInfo_Encode :: "FileStandardInformationInfo \<Rightarrow> writer" where
  "FileStandardInformationInfo_Encode i = writes [
     put64 0 (FileStandardInformationInfo_AllocationSize i),
     put64 8 (FileStandardInformationInfo_EndOfFile i),
     put32 16 (FileStandardInformationInfo_NumberOfLinks i),
     put8 20 (FileStandardInformationInfo_DeletePending i),
     put8 21 (FileStandardInformationInfo_Directory i)]"

record FileAllInformationInfo =
  FileAllInformationInfo_BasicInformation :: FileBasicInformationInfo
  FileAllInformationInfo_StandardInformation :: FileStandardInformationInfo
  FileAllInformationInfo_Internal :: FileInternalInformationInfo
  FileAllInformationInfo_EaInformation :: FileEaInformationInfo
  FileAllInformationInfo_AccessInformation :: FileAccessInformationInfo
  FileAllInformationInfo_PositionInformation :: FilePositionInformationInfo
  FileAllInformationInfo_ModeInformation :: FileModeInformationInfo
  FileAllInformationInfo_AlignmentInformation :: FileAlignmentInformationInfo
  FileAllInformationInfo_NameInformation :: FileAlternateNameInformationInfo

definition FileAllInformationInfo_Size :: "FileAllInformationInfo \<Rightarrow> nat" where
  "FileAllInformationInfo_Size i =
     FileBasicInformationInfo_Size (FileAllInformationInfo_BasicInformation i) +
     FileStandardInformationInfo_Size (FileAllInformationInfo_StandardInformation i) +
     FileInternalInformationInfo_Size (FileAllInformationInfo_Internal i) +
     FileEaInformationInfo_Size (FileAllInformationInfo_EaInformation i) +
     FileAccessInformationInfo_Size (FileAllInformationInfo_AccessInformation i) +
     FilePositionInformationInfo_Size (FileAllInformationInfo_PositionInformation i) +
     FileModeInformationInfo_Size (FileAllInformationInfo_ModeInformation i) +
     FileAlignmentInformationInfo_Size (FileAllInformationInfo_AlignmentInformation i) +
     FileAlternateNameInformationInfo_Size (FileAllInformationInfo_NameInformation i)"

text \<open>Parts behind one another, each in the rest of the buffer.\<close>

fun parts_Encode :: "nat \<Rightarrow> (nat \<times> writer) list \<Rightarrow> writer" where
  "parts_Encode off [] = Some"
| "parts_Encode off ((n, w) # ps) = writes [on_from off w, parts_Encode (off + n) ps]"

definition FileAllInformationInfo_Encode :: "FileAllInformationInfo \<Rightarrow> writer" where
  "FileAllInformationInfo_Encode i = parts_Encode 0 [
     (FileBasicInformationInfo_Size (FileAllInformationInfo_BasicInformation i), FileBasicInformationInfo_Encode (FileAllInformationInfo_BasicInformation i)),
     (FileStandardInformationInfo_Size (FileAllInformationInfo_StandardInformation i), FileStandardInformationInfo_Encode (FileAllInformationInfo_StandardInformation i)),
     (FileInternalInformationInfo_Size (FileAllInformationInfo_Internal i), FileInternalInformationInfo_Encode (FileAllInformationInfo_Internal i)),
     (FileEaInformationInfo_Size (FileAllInformationInfo_EaInformation i), FileEaInformationInfo_Encode (FileAllInformationInfo_EaInformation i)),
     (FileAccessInformationInfo_Size (FileAllInformationInfo_AccessInformation i), FileAccessInformationInfo_Encode (FileAllInformationInfo_AccessInformation i)),
     (FilePositionInformationInfo_Size (FileAllInformationInfo_PositionInformation i), FilePositionInformationInfo_Encode (FileAllInformationInfo_PositionInformation i)),
     (FileModeInformationInfo_Size (FileAllInformationInfo_ModeInformation i), FileModeInformationInfo_Encode (FileAllInformationInfo_ModeInformation i)),
     (FileAlignmentInformationInfo_Size (FileAllInformationInfo_AlignmentInformation i), FileAlignmentInformationInfo_Encode (FileAllInformationInfo_AlignmentInformation i)),
     (FileAlternateNameInformationInfo_Size (FileAllInformationInfo_NameInformation i), FileAlternateNameInformationInfo_Encode (FileAllInformationInfo_NameInformation i))]"

record FileStreamInformationInfo =
  FileStreamInformationInfo_NextEntryOffset :: u32
  FileStreamInformationInfo_StreamSize :: u64
  FileStreamInformationInfo_StreamAllocationSize :: u64
  FileStreamInformationInfo_StreamName :: go_string

definition FileStreamInformationInfo_Size :: "FileStreamInformationInfo \<Rightarrow> nat" where
  "FileStreamInformationInfo_Size i = Roundup (24 + EncodedStringLen (FileStreamInformationInfo_StreamName i)) 8"

definition FileStreamInformationInfo_Encode :: "FileStreamInformationInfo \<Rightarrow> writer" where
  "FileStreamInformationInfo_Encode i = writes [
     put32 0 (FileStreamInformationInfo_NextEntryOffset i),
     put32 4 (of_nat (EncodedStringLen (FileStreamInformationInfo_StreamName i))),
     put64 8 (FileStreamInformationInfo_StreamSize i),
     put64 16 (FileStreamInformationInfo_StreamAllocationSize i),
     on_from 24 (EncodeString (FileStreamInformationInfo_StreamName i))]"

definition FileStreamInformationInfoItems_Size :: "FileStreamInformationInfo list \<Rightarrow> nat" where
  "FileStreamInformationInfoItems_Size i = sum_list (map FileStreamInformationInfo_Size i)"

text \<open>The offset advances by the \<open>uint32\<close> written into the entry.\<close>

fun FileStreamInformationInfoItems_Encode_loop :: "u32 \<Rightarrow> FileStreamInformationInfo list \<Rightarrow> writer" where
  "FileStreamInformationInfoItems_Encode_loop off [] = Some"
| "FileStreamInformationInfoItems_Encode_loop off (item # items) =
     (let item = (if items \<noteq> [] then item\<lparr>FileStreamInformationInfo_NextEntryOffset := of_nat (FileStreamInformationInfo_Size item)\<rparr> else item)
      in writes [on_from (unat off) (FileStreamInformationInfo_Encode item),
        FileStreamInformationInfoItems_Encode_loop (off + FileStreamInformationInfo_NextEntryOffset item) items])"

definition FileStreamInformationInfoItems_Encode :: "FileStreamInformationInfo list \<Rightarrow> writer" where
  "FileStreamInformationInfoItems_Encode i = FileStreamInformationInfoItems_Encode_loop 0 i"

section \<open>Information on file systems\<close>

record FileFsAttributeInformationInfo =
  FileFsAttributeInformationInfo_FileSystemAttributes :: u32
  FileFsAttributeInformationInfo_MaximumComponentNameLength :: u32
  FileFsAttributeInformationInfo_FileSystemName :: go_string

definition FileFsAttributeInformationInfo_Size :: "FileFsAttributeInformationInfo \<Rightarrow> nat" where
  "FileFsAttributeInformationInfo_Size i = Align (12 + EncodedStringLen (FileFsAttributeInformationInfo_FileSystemName i)) 8"

definition FileFsAttributeInformationInfo_Encode :: "FileFsAttributeInformationInfo \<Rightarrow> writer" where
  "FileFsAttributeInformationInfo_Encode i = writes [
     put32 0 (FileFsAttributeInformationInfo_FileSystemAttributes i),
     put32 4 (FileFsAttributeInformationInfo_MaximumComponentNameLength i),
     put32 8 (of_nat (EncodedStringLen (FileFsAttributeInformationInfo_FileSystemName i))),
     on_from 12 (EncodeString (FileFsAttributeInformationInfo_FileSystemName i))]"

record FileFsDeviceInformationInfo =
  FileFsDeviceInformationInfo_DeviceType :: u32
  FileFsDeviceInformationInfo_Characteristics :: u32

definition FileFsDeviceInformationInfo_Size :: "FileFsDeviceInformationInfo \<Rightarrow> nat" where
  "FileFsDeviceInformationInfo_Size i = 8"

definition FileFsDeviceInformationInfo_Encode :: "FileFsDeviceInformationInfo \<Rightarrow> writer" where
  "FileFsDeviceInformationInfo_Encode i = writes [
     put32 0 (FileFsDeviceInformationInfo_DeviceType i),
     put32 4 (FileFsDeviceInformationInfo_Characteristics i)]"

record FileFsFullSizeInformationInfo =
  FileFsFullSizeInformationInfo_TotalAllocationUnits :: u64
  FileFsFullSizeInformationInfo_CallerAvailableAllocationUnits :: u64
  FileFsFullSizeInformationInfo_ActualAvailableAllocationUnits :: u64
  FileFsFullSizeInformationInfo_SectorsPerAllocationUnit :: u32
  FileFsFullSizeInformationInfo_BytesPerSector :: u32

definition FileFsFullSizeInformationInfo_Size :: "FileFsFullSizeInformationInfo \<Rightarrow> nat" where
  "FileFsFullSizeInformationInfo_Size i = 32"

definition FileFsFullSizeInformationInfo_Encode :: "FileFsFullSizeInformationInfo \<Rightarrow> writer" where
  "FileFsFullSizeInformationInfo_Encode i = writes [
     put64 0 (FileFsFullSizeInformationInfo_TotalAllocationUnits i),
     put64 8 (FileFsFullSizeInformationInfo_CallerAvailableAllocationUnits i),
     put64 18 (FileFsFullSizeInformationInfo_ActualAvailableAllocationUnits i),
     put32 24 (FileFsFullSizeInformationInfo_SectorsPerAllocationUnit i),
     put32 28 (FileFsFullSizeInformationInfo_BytesPerSector i)]"

record FileFsSectorSizeInformationInfo =
  FileFsSectorSizeInformationInfo_LogicalBytesPerSector :: u32
  FileFsSectorSizeInformationInfo_PhysicalBytesPerSectorForAtomicity :: u32
  FileFsSectorSizeInformationInfo_PhysicalBytesPerSectorForPerformance :: u32
  FileFsSectorSizeInformationInfo_FileSystemEffectivePhysicalBytesPerSectorForAtomicity :: u32
  FileFsSectorSizeInformationInfo_Flags :: u32
  FileFsSectorSizeInformationInfo_ByteOffsetForSectorAlignment :: u32
  FileFsSectorSizeInformationInfo_ByteOffsetForPartitionAlignment :: u32

definition FileFsSectorSizeInformationInfo_Size :: "FileFsSectorSizeInformationInfo \<Rightarrow> nat" where
  "FileFsSectorSizeInformationInfo_Size i = 28"

definition FileFsSectorSizeInformationInfo_Encode :: "FileFsSectorSizeInformationInfo \<Rightarrow> writer" where
  "FileFsSectorSizeInformationInfo_Encode i = writes [
     put32 0 (FileFsSectorSizeInformationInfo_LogicalBytesPerSector i),
     put32 4 (FileFsSectorSizeInformationInfo_PhysicalBytesPerSectorForAtomicity i),
     put32 8 (FileFsSectorSizeInformationInfo_PhysicalBytesPerSectorForPerformance i),
     put32 12 (FileFsSectorSizeInformationInfo_FileSystemEffectivePhysicalBytesPerSectorForAtomicity i),
     put32 16 (FileFsSectorSizeInformationInfo_Flags i),
     put32 20 (FileFsSectorSizeInformationInfo_ByteOffsetForSectorAlignment i),
     put32 24 (FileFsSectorSizeInformationInfo_ByteOffsetForPartitionAlignment i)]"

record FileFsSizeInformationInfo =
  FileFsSizeInformationInfo_TotalAllocationUnits :: u64
  FileFsSizeInformationInfo_AvailableAllocationUnits :: u64
  FileFsSizeInformationInfo_SectorsPerAllocationUnit :: u32
  FileFsSizeInformationInfo_BytesPerSector :: u32

definition FileFsSizeInformationInfo_Size :: "FileFsSizeInformationInfo \<Rightarrow> nat" where
  "FileFsSizeInformationInfo_Size i = 24"

definition FileFsSizeInformationInfo_Encode :: "FileFsSizeInformationInfo \<Rightarrow> writer" where
  "FileFsSizeInformationInfo_Encode i = writes [
     put64 0 (FileFsSizeInformationInfo_TotalAllocationUnits i),
     put64 8 (FileFsSizeInformationInfo_AvailableAllocationUnits i),
     put32 16 (FileFsSizeInformationInfo_SectorsPerAllocationUnit i),
     put32 20 (FileFsSizeInformationInfo_BytesPerSector i)]"

record FileFsVolumeInformationInfo =
  FileFsVolumeInformationInfo_VolumeCreationTime :: Filetime
  FileFsVolumeInformationInfo_VolumeSerialNumber :: u32
  FileFsVolumeInformationInfo_SupportsObjects :: bool
  FileFsVolumeInformationInfo_VolumeLabel :: go_string

definition FileFsVolumeInformationInfo_Size :: "FileFsVolumeInformationInfo \<Rightarrow> nat" where
  "FileFsVolumeInformationInfo_Size i = Align (18 + EncodedStringLen (FileFsVolumeInformationInfo_VolumeLabel i)) 8"

definition FileFsVolumeInformationInfo_Encode :: "FileFsVolumeInformationInfo \<Rightarrow> writer" where
  "FileFsVolumeInformationInfo_Encode i = writes [
     on_from 0 (Filetime_Encode (FileFsVolumeInformationInfo_VolumeCreationTime i)),
     put32 8 (FileFsVolumeInformationInfo_VolumeSerialNumber i),
     put32 12 (of_nat (EncodedStringLen (FileFsVolumeInformationInfo_VolumeLabel i))),
     on_from 18 (EncodeString (FileFsVolumeInformationInfo_VolumeLabel i))]"

record FileFsPosixInformationInfo =
  FileFsPosixInformationInfo_OptimalTransferSize :: u32
  FileFsPosixInformationInfo_BlockSize :: u32
  FileFsPosixInformationInfo_TotalBlocks :: u64
  FileFsPosixInformationInfo_BlocksAvailable :: u64
  FileFsPosixInformationInfo_UserBlocksAvailable :: u64
  FileFsPosixInformationInfo_TotalFileNodes :: u64
  FileFsPosixInformationInfo_FreeFileNodes :: u64
  FileFsPosixInformationInfo_FsIdentifier :: u64

definition FileFsPosixInformationInfo_Size :: "FileFsPosixInformationInfo \<Rightarrow> nat" where
  "FileFsPosixInformationInfo_Size i = 56"

definition FileFsPosixInformationInfo_Encode :: "FileFsPosixInformationInfo \<Rightarrow> writer" where
  "FileFsPosixInformationInfo_Encode i = writes [
     put32 0 (FileFsPosixInformationInfo_OptimalTransferSize i),
     put32 4 (FileFsPosixInformationInfo_BlockSize i),
     put64 8 (FileFsPosixInformationInfo_TotalBlocks i),
     put64 16 (FileFsPosixInformationInfo_BlocksAvailable i),
     put64 24 (FileFsPosixInformationInfo_UserBlocksAvailable i),
     put64 32 (FileFsPosixInformationInfo_TotalFileNodes i),
     put64 40 (FileFsPosixInformationInfo_FreeFileNodes i),
     put64 48 (FileFsPosixInformationInfo_FsIdentifier i)]"

record NetworkInterfaceInfo =
  NetworkInterfaceInfo_Next :: u32
  NetworkInterfaceInfo_IfIndex :: u32
  NetworkInterfaceInfo_Capability :: u32
  NetworkInterfaceInfo_LinkSpeed :: u64
  NetworkInterfaceInfo_IPv4 :: bytes

definition NetworkInterfaceInfo_Size :: nat where
  "NetworkInterfaceInfo_Size = 152"

definition NetworkInterfaceInfo_Encode :: "NetworkInterfaceInfo \<Rightarrow> writer" where
  "NetworkInterfaceInfo_Encode i = writes [
     put32 0 (NetworkInterfaceInfo_Next i),
     put32 4 (NetworkInterfaceInfo_IfIndex i),
     put32 8 (NetworkInterfaceInfo_Capability i),
     put64 16 (NetworkInterfaceInfo_LinkSpeed i),
     on_slice 24 152 (writes [
       put16 0 2,
       put 2 (be_of_word 2 (445 :: u16)),
       copy_slice 4 8 (NetworkInterfaceInfo_IPv4 i)])]"

definition NetworkInterfaceInfoList_Size :: "NetworkInterfaceInfo list \<Rightarrow> nat" where
  "NetworkInterfaceInfoList_Size l = length l * NetworkInterfaceInfo_Size"

fun NetworkInterfaceInfoList_Encode_loop :: "nat \<Rightarrow> NetworkInterfaceInfo list \<Rightarrow> writer" where
  "NetworkInterfaceInfoList_Encode_loop off [] = Some"
| "NetworkInterfaceInfoList_Encode_loop off (item # items) =
     writes [on_from off (NetworkInterfaceInfo_Encode
         (if items \<noteq> [] then item\<lparr>NetworkInterfaceInfo_Next := of_nat NetworkInterfaceInfo_Size\<rparr> else item)),
       NetworkInterfaceInfoList_Encode_loop (off + NetworkInterfaceInfo_Size) items]"

definition NetworkInterfaceInfoList_Encode :: "NetworkInterfaceInfo list \<Rightarrow> writer" where
  "NetworkInterfaceInfoList_Encode l = NetworkInterfaceInfoList_Encode_loop 0 l"

section \<open>Entries of a directory\<close>

record FileDirectoryInformationInfo =
  FileDirectoryInformationInfo_NextEntryOffset :: u32
  FileDirectoryInformationInfo_FileIndex :: u32
  FileDirectoryInformationInfo_CreationTime :: Filetime
  FileDirectoryInformationInfo_LastAccessTime :: Filetime
  FileDirectoryInformationInfo_LastWriteTime :: Filetime
  FileDirectoryInformationInfo_ChangeTime :: Filetime
  FileDirectoryInformationInfo_EndOfFile :: u64
  FileDirectoryInformationInfo_AllocationSize :: u64
  FileDirectoryInformationInfo_FileAttributes :: u32
  FileDirectoryInformationInfo_FileName :: go_string

definition FileDirectoryInformationInfo_Size :: "FileDirectoryInformationInfo \<Rightarrow> nat" where
  "FileDirectoryInformationInfo_Size i = Align (64 + EncodedStringLen (FileDirectoryInformationInfo_FileName i)) 8"

definition FileDirectoryInformationInfo_Encode :: "FileDirectoryInformationInfo \<Rightarrow> writer" where
  "FileDirectoryInformationInfo_Encode i = writes [
     put32 0 (FileDirectoryInformationInfo_NextEntryOffset i),
     put32 4 (FileDirectoryInformationInfo_FileIndex i),
     on_from 8 (Filetime_Encode (FileDirectoryInformationInfo_CreationTime i)),
     on_from 16 (Filetime_Encode (FileDirectoryInformationInfo_LastAccessTime i)),
     on_from 24 (Filetime_Encode (FileDirectoryInformationInfo_LastWriteTime i)),
     on_from 32 (Filetime_Encode (FileDirectoryInformationInfo_ChangeTime i)),
     put64 40 (FileDirectoryInformationInfo_EndOfFile i),
     put64 48 (FileDirectoryInformationInfo_AllocationSize i),
     put32 56 (FileDirectoryInformationInfo_FileAttributes i),
     put32 60 (of_nat (EncodedStringLen (FileDirectoryInformationInfo_FileName i))),
     on_from 64 (EncodeString (FileDirectoryInformationInfo_FileName i))]"

record FileFullDirectoryInformationInfo =
  FileFullDirectoryInformationInfo_NextEntryOffset :: u32
  FileFullDirectoryInformationInfo_FileIndex :: u32
  FileFullDirectoryInformationInfo_CreationTime :: Filetime
  FileFullDirectoryInformationInfo_LastAccessTime :: Filetime
  FileFullDirectoryInformationInfo_LastWriteTime :: Filetime
  FileFullDirectoryInformationInfo_ChangeTime :: Filetime
  FileFullDirectoryInformationInfo_EndOfFile :: u64
  FileFullDirectoryInformationInfo_AllocationSize :: u64
  FileFullDirectoryInformationInfo_FileAttributes :: u32
  FileFullDirectoryInformationInfo_EaSize :: u32
  FileFullDirectoryInformationInfo_FileName :: go_string

definition FileFullDirectoryInformationInfo_Size :: "FileFullDirectoryInformationInfo \<Rightarrow> nat" where
  "FileFullDirectoryInformationInfo_Size i = Align (68 + EncodedStringLen (FileFullDirectoryInformationInfo_FileName i)) 8"

definition FileFullDirectoryInformationInfo_Encode :: "FileFullDirectoryInformationInfo \<Rightarrow> writer" where
  "FileFullDirectoryInformationInfo_Encode i = writes [
     put32 0 (FileFullDirectoryInformationInfo_NextEntryOffset i),
     put32 4 (FileFullDirectoryInformationInfo_FileIndex i),
     on_from 8 (Filetime_Encode (FileFullDirectoryInformationInfo_CreationTime i)),
     on_from 16 (Filetime_Encode (FileFullDirectoryInformationInfo_LastAccessTime i)),
     on_from 24 (Filetime_Encode (FileFullDirectoryInformationInfo_LastWriteTime i)),
     on_from 32 (Filetime_Encode (FileFullDirectoryInformationInfo_ChangeTime i)),
     put64 40 (FileFullDirectoryInformationInfo_EndOfFile i),
     put64 48 (FileFullDirectoryInformationInfo_AllocationSize i),
     put32 56 (FileFullDirectoryInformationInfo_FileAttributes i),
     put32 60 (of_nat (EncodedStringLen (FileFullDirectoryInformationInfo_FileName i))),
     put32 64 (FileFullDirectoryInformationInfo_EaSize i),
     on_from 68 (EncodeString (FileFullDirectoryInformationInfo_FileName i))]"

record FileBothDirectoryInformationInfo =
  FileBothDirectoryInformationInfo_NextEntryOffset :: u32
  FileBothDirectoryInformationInfo_FileIndex :: u32
  FileBothDirectoryInformationInfo_CreationTime :: Filetime
  FileBothDirectoryInformationInfo_LastAccessTime :: Filetime
  FileBothDirectoryInformationInfo_LastWriteTime :: Filetime
  FileBothDirectoryInformationInfo_ChangeTime :: Filetime
  FileBothDirectoryInformationInfo_EndOfFile :: u64
  FileBothDirectoryInformationInfo_AllocationSize :: u64
  FileBothDirectoryInformationInfo_FileAttributes :: u32
  FileBothDirectoryInformationInfo_EaSize :: u32
  FileBothDirectoryInformationInfo_ShortNameLength :: u8
  FileBothDirectoryInformationInfo_Pad :: u8
  FileBothDirectoryInformationInfo_ShortName :: bytes
  FileBothDirectoryInformationInfo_FileName :: go_string

definition FileBothDirectoryInformationInfo_Size :: "FileBothDirectoryInformationInfo \<Rightarrow> nat" where
  "FileBothDirectoryInformationInfo_Size i = Align (94 + EncodedStringLen (FileBothDirectoryInformationInfo_FileName i)) 8"

definition FileBothDirectoryInformationInfo_Encode :: "FileBothDirectoryInformationInfo \<Rightarrow> writer" where
  "FileBothDirectoryInformationInfo_Encode i = writes [
     put32 0 (FileBothDirectoryInformationInfo_NextEntryOffset i),
     put32 4 (FileBothDirectoryInformationInfo_FileIndex i),
     on_from 8 (Filetime_Encode (FileBothDirectoryInformationInfo_CreationTime i)),
     on_from 16 (Filetime_Encode (FileBothDirectoryInformationInfo_LastAccessTime i)),
     on_from 24 (Filetime_Encode (FileBothDirectoryInformationInfo_LastWriteTime i)),
     on_from 32 (Filetime_Encode (FileBothDirectoryInformationInfo_ChangeTime i)),
     put64 40 (FileBothDirectoryInformationInfo_EndOfFile i),
     put64 48 (FileBothDirectoryInformationInfo_AllocationSize i),
     put32 56 (FileBothDirectoryInformationInfo_FileAttributes i),
     put32 60 (of_nat (EncodedStringLen (FileBothDirectoryInformationInfo_FileName i))),
     put32 64 (FileBothDirectoryInformationInfo_EaSize i),
     put8 68 (FileBothDirectoryInformationInfo_ShortNameLength i),
     on_from 94 (EncodeString (FileBothDirectoryInformationInfo_FileName i))]"

record FileIdBothDirectoryInformationInfo =
  FileIdBothDirectoryInformationInfo_NextEntryOffset :: u32
  FileIdBothDirectoryInformationInfo_FileIndex :: u32
  FileIdBothDirectoryInformationInfo_CreationTime :: Filetime
  FileIdBothDirectoryInformationInfo_LastAccessTime :: Filetime
  FileIdBothDirectoryInformationInfo_LastWriteTime :: Filetime
  FileIdBothDirectoryInformationInfo_ChangeTime :: Filetime
  FileIdBothDirectoryInformationInfo_EndOfFile :: u64
  FileIdBothDirectoryInformationInfo_AllocationSize :: u64
  FileIdBothDirectoryInformationInfo_FileAttributes :: u32
  FileIdBothDirectoryInformationInfo_EaSize :: u32
  FileIdBothDirectoryInformationInfo_ShortNameLength :: u8
  FileIdBothDirectoryInformationInfo_Pad :: u8
  FileIdBothDirectoryInformationInfo_ShortName :: bytes
  FileIdBothDirectoryInformationInfo_Pad2 :: u16
  FileIdBothDirectoryInformationInfo_FileId :: u64
  FileIdBothDirectoryInformationInfo_FileName :: go_string

definition FileIdBothDirectoryInformationInfo_Size :: "FileIdBothDirectoryInformationInfo \<Rightarrow> nat" where
  "FileIdBothDirectoryInformationInfo_Size i = Align (104 + EncodedStringLen (FileIdBothDirectoryInformationInfo_FileName i)) 8"

definition FileIdBothDirectoryInformationInfo_Encode :: "FileIdBothDirectoryInformationInfo \<Rightarrow> writer" where
  "FileIdBothDirectoryInformationInfo_Encode i = writes [
     put32 0 (FileIdBothDirectoryInformationInfo_NextEntryOffset i),
     put32 4 (FileIdBothDirectoryInformationInfo_FileIndex i),
     on_from 8 (Filetime_Encode (FileIdBothDirectoryInformationInfo_CreationTime i)),
     on_from 16 (Filetime_Encode (FileIdBothDirectoryInformationInfo_LastAccessTime i)),
     on_from 24 (Filetime_Encode (FileIdBothDirectoryInformationInfo_LastWriteTime i)),
     on_from 32 (Filetime_Encode (FileIdBothDirectoryInformationInfo_ChangeTime i)),
     put64 40 (FileIdBothDirectoryInformationInfo_EndOfFile i),
     put64 48 (FileIdBothDirectoryInformationInfo_AllocationSize i),
     put32 56 (FileIdBothDirectoryInformationInfo_FileAttributes i),
     put32 60 (of_nat (EncodedStringLen (FileIdBothDirectoryInformationInfo_FileName i))),
     put32 64 (FileIdBothDirectoryInformationInfo_EaSize i),
     put64 96 (FileIdBothDirectoryInformationInfo_FileId i),
     on_from 104 (EncodeString (FileIdBothDirectoryInformationInfo_FileName i))]"

record FileIdBothDirectoryInformationInfo2 =
  FileIdBothDirectoryInformationInfo2_NextEntryOffset :: u32
  FileIdBothDirectoryInformationInfo2_FileIndex :: u32
  FileIdBothDirectoryInformationInfo2_CreationTime :: Filetime
  FileIdBothDirectoryInformationInfo2_LastAccessTime :: Filetime
  FileIdBothDirectoryInformationInfo2_LastWriteTime :: Filetime
  FileIdBothDirectoryInformationInfo2_ChangeTime :: Filetime
  FileIdBothDirectoryInformationInfo2_EndOfFile :: u64
  FileIdBothDirectoryInformationInfo2_AllocationSize :: u64
  FileIdBothDirectoryInformationInfo2_FileAttributes :: u32
  FileIdBothDirectoryInformationInfo2_MaxAccess :: u32
  FileIdBothDirectoryInformationInfo2_ShortNameLength :: u8
  FileIdBothDirectoryInformationInfo2_Pad :: u8
  FileIdBothDirectoryInformationInfo2_RsrcForkLen :: u64
  FileIdBothDirectoryInformationInfo2_CompressedFinderInfo :: bytes
  FileIdBothDirectoryInformationInfo2_UnixMode :: u16
  FileIdBothDirectoryInformationInfo2_FileId :: u64
  FileIdBothDirectoryInformationInfo2_FileName :: go_string

definition FileIdBothDirectoryInformationInfo2_Size :: "FileIdBothDirectoryInformationInfo2 \<Rightarrow> nat" where
  "FileIdBothDirectoryInformationInfo2_Size i = Align (104 + EncodedStringLen (FileIdBothDirectoryInformationInfo2_FileName i)) 8"

definition FileIdBothDirectoryInformationInfo2_Encode :: "FileIdBothDirectoryInformationInfo2 \<Rightarrow> writer" where
  "FileIdBothDirectoryInformationInfo2_Encode i = writes [
     put32 0 (FileIdBothDirectoryInformationInfo2_NextEntryOffset i),
     put32 4 (FileIdBothDirectoryInformationInfo2_FileIndex i),
     on_from 8 (Filetime_Encode (FileIdBothDirectoryInformationInfo2_CreationTime i)),
     on_from 16 (Filetime_Encode (FileIdBothDirectoryInformationInfo2_LastAccessTime i)),
     on_from 24 (Filetime_Encode (FileIdBothDirectoryInformationInfo2_LastWriteTime i)),
     on_from 32 (Filetime_Encode (FileIdBothDirectoryInformationInfo2_ChangeTime i)),
     put64 40 (FileIdBothDirectoryInformationInfo2_EndOfFile i),
     put64 48 (FileIdBothDirectoryInformationInfo2_AllocationSize i),
     put32 56 (FileIdBothDirectoryInformationInfo2_FileAttributes i),
     put32 60 (of_nat (EncodedStringLen (FileIdBothDirectoryInformationInfo2_FileName i))),
     put32 64 (FileIdBothDirectoryInformationInfo2_MaxAccess i),
     put8 68 (FileIdBothDirectoryInformationInfo2_ShortNameLength i),
     put64 70 (FileIdBothDirectoryInformationInfo2_RsrcForkLen i),
     copy_from 78 (FileIdBothDirectoryInformationInfo2_CompressedFinderInfo i),
     put16 94 (FileIdBothDirectoryInformationInfo2_UnixMode i),
     put64 96 (FileIdBothDirectoryInformationInfo2_FileId i),
     on_from 104 (EncodeString (FileIdBothDirectoryInformationInfo2_FileName i))]"

record FileIdFullDirectoryInformationInfo =
  FileIdFullDirectoryInformationInfo_NextEntryOffset :: u32
  FileIdFullDirectoryInformationInfo_FileIndex :: u32
  FileIdFullDirectoryInformationInfo_CreationTime :: Filetime
  FileIdFullDirectoryInformationInfo_LastAccessTime :: Filetime
  FileIdFullDirectoryInformationInfo_LastWriteTime :: Filetime
  FileIdFullDirectoryInformationInfo_ChangeTime :: Filetime
  FileIdFullDirectoryInformationInfo_EndOfFile :: u64
  FileIdFullDirectoryInformationInfo_AllocationSize :: u64
  FileIdFullDirectoryInformationInfo_FileAttributes :: u32
  FileIdFullDirectoryInformationInfo_EaSize :: u32
  FileIdFullDirectoryInformationInfo_Pad2 :: u32
  FileIdFullDirectoryInformationInfo_FileId :: u64
  FileIdFullDirectoryInformationInfo_FileName :: go_string

definition FileIdFullDirectoryInformationInfo_Size :: "FileIdFullDirectoryInformationInfo \<Rightarrow> nat" where
  "FileIdFullDirectoryInformationInfo_Size i = Align (80 + EncodedStringLen (FileIdFullDirectoryInformationInfo_FileName i)) 8"

definition FileIdFullDirectoryInformationInfo_Encode :: "FileIdFullDirectoryInformationInfo \<Rightarrow> writer" where
  "FileIdFullDirectoryInformationInfo_Encode i = writes [
     put32 0 (FileIdFullDirectoryInformationInfo_NextEntryOffset i),
     put32 4 (FileIdFullDirectoryInformationInfo_FileIndex i),
     on_from 8 (Filetime_Encode (FileIdFullDirectoryInformationInfo_CreationTime i)),
     on_from 16 (Filetime_Encode (FileIdFullDirectoryInformationInfo_LastAccessTime i)),
     on_from 24 (Filetime_Encode (FileIdFullDirectoryInformationInfo_LastWriteTime i)),
     on_from 32 (Filetime_Encode (FileIdFullDirectoryInformationInfo_ChangeTime i)),
     put64 40 (FileIdFullDirectoryInformationInfo_EndOfFile i),
     put64 48 (FileIdFullDirectoryInformationInfo_AllocationSize i),
     put32 56 (FileIdFullDirectoryInformationInfo_FileAttributes i),
     put32 60 (of_nat (EncodedStringLen (FileIdFullDirectoryInformationInfo_FileName i))),
     put32 64 (FileIdFullDirectoryInformationInfo_EaSize i),
     put64 72 (FileIdFullDirectoryInformationInfo_FileId i),
     on_from 80 (EncodeString (FileIdFullDirectoryInformationInfo_FileName i))]"

record FileIdAllExtdBothDirectoryInformationInfo =
  FileIdAllExtdBothDirectoryInformationInfo_NextEntryOffset :: u32
  FileIdAllExtdBothDirectoryInformationInfo_FileIndex :: u32
  FileIdAllExtdBothDirectoryInformationInfo_CreationTime :: Filetime
  FileIdAllExtdBothDirectoryInformationInfo_LastAccessTime :: Filetime
  FileIdAllExtdBothDirectoryInformationInfo_LastWriteTime :: Filetime
  FileIdAllExtdBothDirectoryInformationInfo_ChangeTime :: Filetime
  FileIdAllExtdBothDirectoryInformationInfo_EndOfFile :: u64
  FileIdAllExtdBothDirectoryInformationInfo_AllocationSize :: u64
  FileIdAllExtdBothDirectoryInformationInfo_FileAttributes :: u32
  FileIdAllExtdBothDirectoryInformationInfo_EaSize :: u32
  FileIdAllExtdBothDirectoryInformationInfo_ReparsePointTag :: u32
  FileIdAllExtdBothDirectoryInformationInfo_FileId :: u64
  FileIdAllExtdBothDirectoryInformationInfo_FileId128 :: u64
  FileIdAllExtdBothDirectoryInformationInfo_FileId128_2 :: u64
  FileIdAllExtdBothDirectoryInformationInfo_ShortNameLength :: u8
  FileIdAllExtdBothDirectoryInformationInfo_Pad :: u8
  FileIdAllExtdBothDirectoryInformationInfo_ShortName :: bytes
  FileIdAllExtdBothDirectoryInformationInfo_FileName :: go_string

definition FileIdAllExtdBothDirectoryInformationInfo_Size :: "FileIdAllExtdBothDirectoryInformationInfo \<Rightarrow> nat" where
  "FileIdAllExtdBothDirectoryInformationInfo_Size i = Align (122 + EncodedStringLen (FileIdAllExtdBothDirectoryInformationInfo_FileName i)) 8"

definition FileIdAllExtdBothDirectoryInformationInfo_Encode :: "FileIdAllExtdBothDirectoryInformationInfo \<Rightarrow> writer" where
  "FileIdAllExtdBothDirectoryInformationInfo_Encode i = writes [
     put32 0 (FileIdAllExtdBothDirectoryInformationInfo_NextEntryOffset i),
     put32 4 (FileIdAllExtdBothDirectoryInformationInfo_FileIndex i),
     on_from 8 (Filetime_Encode (FileIdAllExtdBothDirectoryInformationInfo_CreationTime i)),
     on_from 16 (Filetime_Encode (FileIdAllExtdBothDirectoryInformationInfo_LastAccessTime i)),
     on_from 24 (Filetime_Encode (FileIdAllExtdBothDirectoryInformationInfo_LastWriteTime i)),
     on_from 32 (Filetime_Encode (FileIdAllExtdBothDirectoryInformationInfo_ChangeTime i)),
     put64 40 (FileIdAllExtdBothDirectoryInformationInfo_EndOfFile i),
     put64 48 (FileIdAllExtdBothDirectoryInformationInfo_AllocationSize i),
     put32 56 (FileIdAllExtdBothDirectoryInformationInfo_FileAttributes i),
     put32 60 (of_nat (EncodedStringLen (FileIdAllExtdBothDirectoryInformationInfo_FileName i))),
     put32 64 (FileIdAllExtdBothDirectoryInformationInfo_EaSize i),
     put32 68 (FileIdAllExtdBothDirectoryInformationInfo_ReparsePointTag i),
     put64 72 (FileIdAllExtdBothDirectoryInformationInfo_FileId i),
     put64 80 (FileIdAllExtdBothDirectoryInformationInfo_FileId128 i),
     put64 88 (FileIdAllExtdBothDirectoryInformationInfo_FileId128_2 i),
     put8 96 (FileIdAllExtdBothDirectoryInformationInfo_ShortNameLength i),
     put8 97 (FileIdAllExtdBothDirectoryInformationInfo_Pad i),
     copy_slice 98 122 (FileIdAllExtdBothDirectoryInformationInfo_ShortName i),
     on_from 122 (EncodeString (FileIdAllExtdBothDirectoryInformationInfo_FileName i))]"

record FilePosixInformationInfo =
  FilePosixInformationInfo_CreationTime :: Filetime
  FilePosixInformationInfo_LastAccessTime :: Filetime
  FilePosixInformationInfo_LastWriteTime :: Filetime
  FilePosixInformationInfo_ChangeTime :: Filetime
  FilePosixInformationInfo_EndOfFile :: u64
  FilePosixInformationInfo_AllocationSize :: u64
  FilePosixInformationInfo_FileAttributes :: u32
  FilePosixInformationInfo_Inode :: u64
  FilePosixInformationInfo_Device :: u32
  FilePosixInformationInfo_Reserved :: u32
  FilePosixInformationInfo_NumberOfLinks :: u32
  FilePosixInformationInfo_ReparseTag :: u32
  FilePosixInformationInfo_PosixMode :: u32
  FilePosixInformationInfo_OwnerSID :: SID
  FilePosixInformationInfo_GroupSID :: SID
  FilePosixInformationInfo_FileName :: go_string

definition FilePosixInformationInfo_Size :: "FilePosixInformationInfo \<Rightarrow> nat" where
  "FilePosixInformationInfo_Size i = Align (80 + SID_Size (FilePosixInformationInfo_OwnerSID i) + SID_Size (FilePosixInformationInfo_GroupSID i) +
     4 + EncodedStringLen (FilePosixInformationInfo_FileName i)) 8"

definition FilePosixInformationInfo_Encode :: "FilePosixInformationInfo \<Rightarrow> writer" where
  "FilePosixInformationInfo_Encode i =
     (let own = 80 + SID_Size (FilePosixInformationInfo_OwnerSID i); off = own + SID_Size (FilePosixInformationInfo_GroupSID i) in
      writes [
        on_from 0 (Filetime_Encode (FilePosixInformationInfo_CreationTime i)),
        on_from 8 (Filetime_Encode (FilePosixInformationInfo_LastAccessTime i)),
        on_from 16 (Filetime_Encode (FilePosixInformationInfo_LastWriteTime i)),
        on_from 24 (Filetime_Encode (FilePosixInformationInfo_ChangeTime i)),
        put64 32 (FilePosixInformationInfo_EndOfFile i),
        put64 40 (FilePosixInformationInfo_AllocationSize i),
        put32 48 (FilePosixInformationInfo_FileAttributes i),
        put64 52 (FilePosixInformationInfo_Inode i),
        put32 60 (FilePosixInformationInfo_Device i),
        put32 64 (FilePosixInformationInfo_Reserved i),
        put32 68 (FilePosixInformationInfo_NumberOfLinks i),
        put32 72 (FilePosixInformationInfo_ReparseTag i),
        put32 76 (FilePosixInformationInfo_PosixMode i),
        on_from 80 (SID_Encode (FilePosixInformationInfo_OwnerSID i)),
        on_from own (SID_Encode (FilePosixInformationInfo_GroupSID i)),
        put32 off (of_nat (EncodedStringLen (FilePosixInformationInfo_FileName i))),
        on_from (off + 4) (EncodeString (FilePosixInformationInfo_FileName i))])"

record FilePosixDirectoryInformationInfo =
  FilePosixDirectoryInformationInfo_NextEntryOffset :: u32
  FilePosixDirectoryInformationInfo_FileIndex :: u32
  FilePosixDirectoryInformationInfo_Info :: FilePosixInformationInfo
  FilePosixDirectoryInformationInfo_FileName :: go_string

definition FilePosixDirectoryInformationInfo_Size :: "FilePosixDirectoryInformationInfo \<Rightarrow> nat" where
  "FilePosixDirectoryInformationInfo_Size i = Align (8 + FilePosixInformationInfo_Size (FilePosixDirectoryInformationInfo_Info i)) 8"

definition FilePosixDirectoryInformationInfo_Encode :: "FilePosixDirectoryInformationInfo \<Rightarrow> writer" where
  "FilePosixDirectoryInformationInfo_Encode i = writes [
     put32 0 (FilePosixDirectoryInformationInfo_NextEntryOffset i),
     put32 4 (FilePosixDirectoryInformationInfo_FileIndex i),
     on_from 8 (FilePosixInformationInfo_Encode (FilePosixDirectoryInformationInfo_Info i))]"

record PosixCreateContextResponse =
  PosixCreateContextResponse_NumberOfLinks :: u32
  PosixCreateContextResponse_ReparseTag :: u32
  PosixCreateContextResponse_PosixPerms :: u32
  PosixCreateContextResponse_OwnerSID :: SID
  PosixCreateContextResponse_GroupSID :: SID

definition PosixCreateContextResponse_Size :: "PosixCreateContextResponse \<Rightarrow> nat" where
  "PosixCreateContextResponse_Size r =
     12 + SID_Size (PosixCreateContextResponse_OwnerSID r) + SID_Size (PosixCreateContextResponse_GroupSID r)"

definition PosixCreateContextResponse_Encode :: "PosixCreateContextResponse \<Rightarrow> writer" where
  "PosixCreateContextResponse_Encode r = writes [
     put32 0 (PosixCreateContextResponse_NumberOfLinks r),
     put32 4 (PosixCreateContextResponse_ReparseTag r),
     put32 8 (PosixCreateContextResponse_PosixPerms r),
     on_from 12 (SID_Encode (PosixCreateContextResponse_OwnerSID r)),
     on_from (12 + SID_Size (PosixCreateContextResponse_OwnerSID r)) (SID_Encode (PosixCreateContextResponse_GroupSID r))]"

section \<open>A listing\<close>

text \<open>\<open>FileInformationInfoResponse\<close>: the items are of any class; the link is written over the first field of each.\<close>

definition FileInformationInfoResponse_Size :: "encoder list \<Rightarrow> nat" where
  "FileInformationInfoResponse_Size items = sum_list (map enc_Size items)"

fun FileInformationInfoResponse_Encode_loop :: "nat \<Rightarrow> encoder list \<Rightarrow> writer" where
  "FileInformationInfoResponse_Encode_loop off [] = Some"
| "FileInformationInfoResponse_Encode_loop off (info # items) = writes [
     on_from off (enc_Encode info),
     put32 off (if items \<noteq> [] then of_nat (enc_Size info) else 0),
     FileInformationInfoResponse_Encode_loop (off + enc_Size info) items]"

definition FileInformationInfoResponse_Encode :: "encoder list \<Rightarrow> writer" where
  "FileInformationInfoResponse_Encode items = FileInformationInfoResponse_Encode_loop 0 items"

section \<open>Information that is set\<close>

definition FileEndOfFileInformationInfoDecoder_EndOfFile :: "bytes \<Rightarrow> u64 option" where
  "FileEndOfFileInformationInfoDecoder_EndOfFile f = do { b \<leftarrow> go_slice f 0 8; u64_at b 0 }"

definition FileDispositionInformationInfoDecoder_DeletePending :: "bytes \<Rightarrow> u8 option" where
  "FileDispositionInformationInfoDecoder_DeletePending f = index_at f 0"

definition FileRenameInformationInfoDecoder_ReplaceIfExists :: "bytes \<Rightarrow> u8 option" where
  "FileRenameInformationInfoDecoder_ReplaceIfExists f = index_at f 0"

definition FileRenameInformationInfoDecoder_RootDirectory :: "bytes \<Rightarrow> u64 option" where
  "FileRenameInformationInfoDecoder_RootDirectory f = do { b \<leftarrow> go_slice f 8 16; u64_at b 0 }"

definition FileRenameInformationInfoDecoder_FileNameLength :: "bytes \<Rightarrow> u32 option" where
  "FileRenameInformationInfoDecoder_FileNameLength f = do { b \<leftarrow> go_slice f 16 20; u32_at b 0 }"

text \<open>\<open>f[20 : 20+f.FileNameLength()]\<close>, the end computed in \<open>uint32\<close>.\<close>

definition FileRenameInformationInfoDecoder_FileName :: "bytes \<Rightarrow> go_string option" where
  "FileRenameInformationInfoDecoder_FileName f = do {
     n \<leftarrow> FileRenameInformationInfoDecoder_FileNameLength f;
     b \<leftarrow> go_slice f 20 (unat (20 + n));
     DecodeToString b }"

section \<open>Notifications, Finder information and object ids\<close>

record FileNotifyInformationInfo =
  FileNotifyInformationInfo_NextEntryOffset :: u32
  FileNotifyInformationInfo_Action :: u32
  FileNotifyInformationInfo_FileName :: go_string

definition FileNotifyInformationInfo_Size :: "FileNotifyInformationInfo \<Rightarrow> nat" where
  "FileNotifyInformationInfo_Size i = 12 + EncodedStringLen (FileNotifyInformationInfo_FileName i)"

definition FileNotifyInformationInfo_Encode :: "FileNotifyInformationInfo \<Rightarrow> writer" where
  "FileNotifyInformationInfo_Encode i = writes [
     put32 0 (FileNotifyInformationInfo_NextEntryOffset i),
     put32 4 (FileNotifyInformationInfo_Action i),
     put32 8 (of_nat (EncodedStringLen (FileNotifyInformationInfo_FileName i))),
     on_from 12 (EncodeString (FileNotifyInformationInfo_FileName i))]"

record AfpInfo =
  AfpInfo_Signature :: bytes
  AfpInfo_Version :: bytes
  AfpInfo_FileBitmap :: bytes
  AfpInfo_Reserved1 :: bytes
  AfpInfo_FinderInfo :: bytes
  AfpInfo_ProDOSInfo :: bytes
  AfpInfo_Reserved2 :: bytes

definition AfpInfo_Size :: "AfpInfo \<Rightarrow> nat" where
  "AfpInfo_Size i = 60"

definition AfpInfo_Encode :: "AfpInfo \<Rightarrow> writer" where
  "AfpInfo_Encode i = writes [
     copy_from 0 (AfpInfo_Signature i),
     copy_from 4 (AfpInfo_Version i),
     copy_from 8 (AfpInfo_FileBitmap i),
     copy_from 12 (AfpInfo_FinderInfo i),
     copy_from 44 (AfpInfo_ProDOSInfo i)]"

record FileObjectId1 =
  FileObjectId1_ObjectId :: FileId
  FileObjectId1_BirthVolumeId :: FileId
  FileObjectId1_BirthObjectId :: FileId
  FileObjectId1_DomainId :: FileId

definition FileObjectId1_Size :: "FileObjectId1 \<Rightarrow> nat" where
  "FileObjectId1_Size i = 64"

definition FileObjectId1_Encode :: "FileObjectId1 \<Rightarrow> writer" where
  "FileObjectId1_Encode i = writes [
     on_from 0 (FileId_Encode (Some (FileObjectId1_ObjectId i))),
     on_from 16 (FileId_Encode (Some (FileObjectId1_BirthVolumeId i))),
     on_from 32 (FileId_Encode (Some (FileObjectId1_BirthObjectId i))),
     on_from 48 (FileId_Encode (Some (FileObjectId1_DomainId i)))]"

record FileFsObjectIdInfo =
  FileFsObjectIdInfo_ObjectId :: FileId
  FileFsObjectIdInfo_ExtendedInfo :: bytes

definition FileFsObjectIdInfo_Size :: "FileFsObjectIdInfo \<Rightarrow> nat" where
  "FileFsObjectIdInfo_Size i = 64"

definition FileFsObjectIdInfo_Encode :: "FileFsObjectIdInfo \<Rightarrow> writer" where
  "FileFsObjectIdInfo_Encode i = writes [
     on_from 0 (FileId_Encode (Some (FileFsObjectIdInfo_ObjectId i)))]"

end
