(* ===== verification/Fscc.thy ===== *)
theory Fscc
  imports Smb2_Response
begin

text \<open>
  \<open>internal/smb2/fscc.go\<close>: the structures of MS-FSCC that the protocol package itself knows, the reparse buffer of a symbolic
  link, the copy-chunk request, and the decoders of the file information classes. What a decoder slices with \<open>len\<close> arithmetic in
  \<open>uint16\<close> or \<open>uint32\<close> wraps here as it does in the code.
\<close>

section \<open>Symbolic links\<close>

definition IO_REPARSE_TAG_SYMLINK :: u32 where
  "IO_REPARSE_TAG_SYMLINK = 0xA000000C"

record SymbolicLinkReparseDataBuffer =
  SymbolicLinkReparseDataBuffer_Flags :: u32
  SymbolicLinkReparseDataBuffer_SubstituteName :: go_string
  SymbolicLinkReparseDataBuffer_PrintName :: go_string

definition SymbolicLinkReparseDataBuffer_Size :: "SymbolicLinkReparseDataBuffer \<Rightarrow> nat" where
  "SymbolicLinkReparseDataBuffer_Size c = 20 + EncodedStringLen (SymbolicLinkReparseDataBuffer_SubstituteName c) +
     EncodedStringLen (SymbolicLinkReparseDataBuffer_PrintName c)"

text \<open>\<open>EncodeString\<close> returns the number of bytes it wrote, which is \<open>EncodedStringLen\<close>; \<open>len(p)\<close> is the whole buffer.\<close>

definition SymbolicLinkReparseDataBuffer_Encode :: "SymbolicLinkReparseDataBuffer \<Rightarrow> writer" where
  "SymbolicLinkReparseDataBuffer_Encode c p =
     (let slen = EncodeString_n (SymbolicLinkReparseDataBuffer_SubstituteName c);
          plen = EncodeString_n (SymbolicLinkReparseDataBuffer_PrintName c) in
      writes [
        on_from 20 (EncodeString (SymbolicLinkReparseDataBuffer_SubstituteName c)),
        on_from (20 + slen) (EncodeString (SymbolicLinkReparseDataBuffer_PrintName c)),
        put32 0 IO_REPARSE_TAG_SYMLINK,
        put16 4 (of_nat (length p) - 8),
        put16 8 0,
        put16 10 (of_nat slen),
        put16 14 (of_nat plen),
        put16 12 (of_nat slen),
        put32 16 (SymbolicLinkReparseDataBuffer_Flags c)] p)"

definition SymbolicLinkReparseDataBufferDecoder_ReparseTag :: "bytes \<Rightarrow> u32 option" where
  "SymbolicLinkReparseDataBufferDecoder_ReparseTag c = u32_at c 0"

definition SymbolicLinkReparseDataBufferDecoder_ReparseDataLength :: "bytes \<Rightarrow> u16 option" where
  "SymbolicLinkReparseDataBufferDecoder_ReparseDataLength c = u16_at c 4"

definition SymbolicLinkReparseDataBufferDecoder_SubstituteNameOffset :: "bytes \<Rightarrow> u16 option" where
  "SymbolicLinkReparseDataBufferDecoder_SubstituteNameOffset c = u16_at c 8"

definition SymbolicLinkReparseDataBufferDecoder_SubstituteNameLength :: "bytes \<Rightarrow> u16 option" where
  "SymbolicLinkReparseDataBufferDecoder_SubstituteNameLength c = u16_at c 10"

definition SymbolicLinkReparseDataBufferDecoder_PrintNameOffset :: "bytes \<Rightarrow> u16 option" where
  "SymbolicLinkReparseDataBufferDecoder_PrintNameOffset c = u16_at c 12"

definition SymbolicLinkReparseDataBufferDecoder_PrintNameLength :: "bytes \<Rightarrow> u16 option" where
  "SymbolicLinkReparseDataBufferDecoder_PrintNameLength c = u16_at c 14"

definition SymbolicLinkReparseDataBufferDecoder_Flags :: "bytes \<Rightarrow> u32 option" where
  "SymbolicLinkReparseDataBufferDecoder_Flags c = u32_at c 16"

definition SymbolicLinkReparseDataBufferDecoder_PathBuffer :: "bytes \<Rightarrow> bytes option" where
  "SymbolicLinkReparseDataBufferDecoder_PathBuffer c = go_slice c 20 (length c)"

definition SymbolicLinkReparseDataBufferDecoder_IsInvalid :: "bytes \<Rightarrow> bool option" where
  "SymbolicLinkReparseDataBufferDecoder_IsInvalid c =
     (if length c < 20 then Some True
      else do {
        tag \<leftarrow> SymbolicLinkReparseDataBufferDecoder_ReparseTag c;
        if tag \<noteq> IO_REPARSE_TAG_SYMLINK then Some True
        else do {
          rlen \<leftarrow> SymbolicLinkReparseDataBufferDecoder_ReparseDataLength c;
          soff \<leftarrow> SymbolicLinkReparseDataBufferDecoder_SubstituteNameOffset c;
          slen \<leftarrow> SymbolicLinkReparseDataBufferDecoder_SubstituteNameLength c;
          poff \<leftarrow> SymbolicLinkReparseDataBufferDecoder_PrintNameOffset c;
          plen \<leftarrow> SymbolicLinkReparseDataBufferDecoder_PrintNameLength c;
          if odd (unat soff) \<or> odd (unat poff) then Some True
          else if length c < 8 + unat rlen then Some True
          else Some (unat rlen < 12 + unat soff + unat slen \<or> unat rlen < 12 + unat poff + unat plen) } })"

definition SymbolicLinkReparseDataBufferDecoder_SubstituteName :: "bytes \<Rightarrow> go_string option" where
  "SymbolicLinkReparseDataBufferDecoder_SubstituteName c = do {
     off \<leftarrow> SymbolicLinkReparseDataBufferDecoder_SubstituteNameOffset c;
     n \<leftarrow> SymbolicLinkReparseDataBufferDecoder_SubstituteNameLength c;
     b \<leftarrow> SymbolicLinkReparseDataBufferDecoder_PathBuffer c;
     s \<leftarrow> go_slice b (unat off) (unat (off + n));
     DecodeToString s }"

definition SymbolicLinkReparseDataBufferDecoder_PrintName :: "bytes \<Rightarrow> go_string option" where
  "SymbolicLinkReparseDataBufferDecoder_PrintName c = do {
     off \<leftarrow> SymbolicLinkReparseDataBufferDecoder_PrintNameOffset c;
     n \<leftarrow> SymbolicLinkReparseDataBufferDecoder_PrintNameLength c;
     b \<leftarrow> SymbolicLinkReparseDataBufferDecoder_PathBuffer c;
     s \<leftarrow> go_slice b (unat off) (unat (off + n));
     DecodeToString s }"

section \<open>Server-side copy\<close>

definition SrvRequestResumeKeyResponseDecoder_ResumeKey :: "bytes \<Rightarrow> bytes option" where
  "SrvRequestResumeKeyResponseDecoder_ResumeKey c = go_slice c 0 24"

definition SrvRequestResumeKeyResponseDecoder_ContextLength :: "bytes \<Rightarrow> u32 option" where
  "SrvRequestResumeKeyResponseDecoder_ContextLength c = u32_at c 24"

definition SrvRequestResumeKeyResponseDecoder_Context :: "bytes \<Rightarrow> bytes option" where
  "SrvRequestResumeKeyResponseDecoder_Context c = do {
     n \<leftarrow> SrvRequestResumeKeyResponseDecoder_ContextLength c;
     go_slice c 28 (unat (28 + n)) }"

definition SrvRequestResumeKeyResponseDecoder_IsInvalid :: "bytes \<Rightarrow> bool option" where
  "SrvRequestResumeKeyResponseDecoder_IsInvalid c = do {
     n \<leftarrow> SrvRequestResumeKeyResponseDecoder_ContextLength c;
     Some (length c < unat (28 + n)) }"

record SrvCopychunk =
  SrvCopychunk_SourceOffset :: u64
  SrvCopychunk_TargetOffset :: u64
  SrvCopychunk_Length :: u32

definition SrvCopychunk_Size :: "SrvCopychunk \<Rightarrow> nat" where
  "SrvCopychunk_Size c = 24"

definition SrvCopychunk_Encode :: "SrvCopychunk \<Rightarrow> writer" where
  "SrvCopychunk_Encode c = writes [
     put64 0 (SrvCopychunk_SourceOffset c),
     put64 8 (SrvCopychunk_TargetOffset c),
     put32 16 (SrvCopychunk_Length c)]"

record SrvCopychunkCopy =
  SrvCopychunkCopy_SourceKey :: bytes
  SrvCopychunkCopy_Chunks :: "SrvCopychunk list"

definition SrvCopychunkCopy_Size :: "SrvCopychunkCopy \<Rightarrow> nat" where
  "SrvCopychunkCopy_Size c = 32 + length (SrvCopychunkCopy_Chunks c) * 24"

definition SrvCopychunkCopy_Encode :: "SrvCopychunkCopy \<Rightarrow> writer" where
  "SrvCopychunkCopy_Encode c = writes ([
     copy_slice 0 24 (SrvCopychunkCopy_SourceKey c),
     put32 24 (of_nat (length (SrvCopychunkCopy_Chunks c)))] @
     map (\<lambda>(i, chunk). on_slice (32 + i * 24) (32 + i * 24 + 24) (SrvCopychunk_Encode chunk))
       (enumerate 0 (SrvCopychunkCopy_Chunks c)))"

definition SrvCopychunkResponseDecoder_IsInvalid :: "bytes \<Rightarrow> bool" where
  "SrvCopychunkResponseDecoder_IsInvalid c \<longleftrightarrow> length c < 12"

definition SrvCopychunkResponseDecoder_ChunksWritten :: "bytes \<Rightarrow> u32 option" where
  "SrvCopychunkResponseDecoder_ChunksWritten c = u32_at c 0"

definition SrvCopychunkResponseDecoder_ChunksBytesWritten :: "bytes \<Rightarrow> u32 option" where
  "SrvCopychunkResponseDecoder_ChunksBytesWritten c = u32_at c 4"

definition SrvCopychunkResponseDecoder_TotalBytesWritten :: "bytes \<Rightarrow> u32 option" where
  "SrvCopychunkResponseDecoder_TotalBytesWritten c = u32_at c 8"

section \<open>Entries of a directory\<close>

definition FileDirectoryInformationDecoder_NextEntryOffset :: "bytes \<Rightarrow> u32 option" where
  "FileDirectoryInformationDecoder_NextEntryOffset c = u32_at c 0"

definition FileDirectoryInformationDecoder_FileIndex :: "bytes \<Rightarrow> u32 option" where
  "FileDirectoryInformationDecoder_FileIndex c = u32_at c 4"

definition FileDirectoryInformationDecoder_CreationTime :: "bytes \<Rightarrow> bytes option" where
  "FileDirectoryInformationDecoder_CreationTime c = go_slice c 8 16"

definition FileDirectoryInformationDecoder_LastAccessTime :: "bytes \<Rightarrow> bytes option" where
  "FileDirectoryInformationDecoder_LastAccessTime c = go_slice c 16 24"

definition FileDirectoryInformationDecoder_LastWriteTime :: "bytes \<Rightarrow> bytes option" where
  "FileDirectoryInformationDecoder_LastWriteTime c = go_slice c 24 32"

definition FileDirectoryInformationDecoder_ChangeTime :: "bytes \<Rightarrow> bytes option" where
  "FileDirectoryInformationDecoder_ChangeTime c = go_slice c 32 40"

definition FileDirectoryInformationDecoder_EndOfFile :: "bytes \<Rightarrow> u64 option" where
  "FileDirectoryInformationDecoder_EndOfFile c = u64_at c 40"

definition FileDirectoryInformationDecoder_AllocationSize :: "bytes \<Rightarrow> u64 option" where
  "FileDirectoryInformationDecoder_AllocationSize c = u64_at c 48"

definition FileDirectoryInformationDecoder_FileAttributes :: "bytes \<Rightarrow> u32 option" where
  "FileDirectoryInformationDecoder_FileAttributes c = u32_at c 56"

definition FileDirectoryInformationDecoder_FileNameLength :: "bytes \<Rightarrow> u32 option" where
  "FileDirectoryInformationDecoder_FileNameLength c = u32_at c 60"

definition FileDirectoryInformationDecoder_FileName :: "bytes \<Rightarrow> go_string option" where
  "FileDirectoryInformationDecoder_FileName c = do {
     n \<leftarrow> FileDirectoryInformationDecoder_FileNameLength c;
     b \<leftarrow> go_slice c 64 (unat (64 + n));
     DecodeToString b }"

definition FileDirectoryInformationDecoder_IsInvalid :: "bytes \<Rightarrow> bool option" where
  "FileDirectoryInformationDecoder_IsInvalid c = do {
     n \<leftarrow> FileDirectoryInformationDecoder_FileNameLength c;
     Some (length c < unat (64 + n)) }"

section \<open>Information that is set\<close>

record FileRenameInformationType2Encoder =
  FileRenameInformationType2Encoder_ReplaceIfExists :: u8
  FileRenameInformationType2Encoder_RootDirectory :: u64
  FileRenameInformationType2Encoder_FileName :: go_string

definition FileRenameInformationType2Encoder_Size :: "FileRenameInformationType2Encoder \<Rightarrow> nat" where
  "FileRenameInformationType2Encoder_Size c = 20 + EncodedStringLen (FileRenameInformationType2Encoder_FileName c)"

definition FileRenameInformationType2Encoder_Encode :: "FileRenameInformationType2Encoder \<Rightarrow> writer" where
  "FileRenameInformationType2Encoder_Encode c = writes [
     on_from 20 (EncodeString (FileRenameInformationType2Encoder_FileName c)),
     put8 0 (FileRenameInformationType2Encoder_ReplaceIfExists c),
     put64 8 (FileRenameInformationType2Encoder_RootDirectory c),
     put32 16 (of_nat (EncodeString_n (FileRenameInformationType2Encoder_FileName c)))]"

record FileLinkInformationType2Encoder =
  FileLinkInformationType2Encoder_ReplaceIfExists :: u8
  FileLinkInformationType2Encoder_RootDirectory :: u64
  FileLinkInformationType2Encoder_FileName :: go_string

definition FileLinkInformationType2Encoder_Size :: "FileLinkInformationType2Encoder \<Rightarrow> nat" where
  "FileLinkInformationType2Encoder_Size c = 20 + EncodedStringLen (FileLinkInformationType2Encoder_FileName c)"

definition FileLinkInformationType2Encoder_Encode :: "FileLinkInformationType2Encoder \<Rightarrow> writer" where
  "FileLinkInformationType2Encoder_Encode c = writes [
     on_from 20 (EncodeString (FileLinkInformationType2Encoder_FileName c)),
     put8 0 (FileLinkInformationType2Encoder_ReplaceIfExists c),
     put64 8 (FileLinkInformationType2Encoder_RootDirectory c),
     put32 16 (of_nat (EncodeString_n (FileLinkInformationType2Encoder_FileName c)))]"

record FileDispositionInformationEncoder =
  FileDispositionInformationEncoder_DeletePending :: u8

definition FileDispositionInformationEncoder_Size :: "FileDispositionInformationEncoder \<Rightarrow> nat" where
  "FileDispositionInformationEncoder_Size c = 4"

definition FileDispositionInformationEncoder_Encode :: "FileDispositionInformationEncoder \<Rightarrow> writer" where
  "FileDispositionInformationEncoder_Encode c = put8 0 (FileDispositionInformationEncoder_DeletePending c)"

record FilePositionInformationEncoder =
  FilePositionInformationEncoder_CurrentByteOffset :: u64

definition FilePositionInformationEncoder_Size :: "FilePositionInformationEncoder \<Rightarrow> nat" where
  "FilePositionInformationEncoder_Size c = 8"

definition FilePositionInformationEncoder_Encode :: "FilePositionInformationEncoder \<Rightarrow> writer" where
  "FilePositionInformationEncoder_Encode c = put64 0 (FilePositionInformationEncoder_CurrentByteOffset c)"

record FileEndOfFileInformationEncoder =
  FileEndOfFileInformationEncoder_EndOfFile :: u64

definition FileEndOfFileInformationEncoder_Size :: "FileEndOfFileInformationEncoder \<Rightarrow> nat" where
  "FileEndOfFileInformationEncoder_Size c = 8"

definition FileEndOfFileInformationEncoder_Encode :: "FileEndOfFileInformationEncoder \<Rightarrow> writer" where
  "FileEndOfFileInformationEncoder_Encode c = put64 0 (FileEndOfFileInformationEncoder_EndOfFile c)"

definition FileEndOfFileInformationDecoder_IsInvalid :: "bytes \<Rightarrow> bool" where
  "FileEndOfFileInformationDecoder_IsInvalid c \<longleftrightarrow> length c < 8"

definition FileEndOfFileInformationDecoder_EndOfFile :: "bytes \<Rightarrow> u64 option" where
  "FileEndOfFileInformationDecoder_EndOfFile c = u64_at c 0"

record FileBasicInformationEncoder =
  FileBasicInformationEncoder_CreationTime :: "Filetime option"
  FileBasicInformationEncoder_LastAccessTime :: "Filetime option"
  FileBasicInformationEncoder_LastWriteTime :: "Filetime option"
  FileBasicInformationEncoder_ChangeTime :: "Filetime option"
  FileBasicInformationEncoder_FileAttributes :: u32

definition FileBasicInformationEncoder_Size :: "FileBasicInformationEncoder \<Rightarrow> nat" where
  "FileBasicInformationEncoder_Size c = 40"

definition FileBasicInformationEncoder_Encode :: "FileBasicInformationEncoder \<Rightarrow> writer" where
  "FileBasicInformationEncoder_Encode c = writes [
     opt_time 0 (FileBasicInformationEncoder_CreationTime c),
     opt_time 8 (FileBasicInformationEncoder_LastAccessTime c),
     opt_time 16 (FileBasicInformationEncoder_LastWriteTime c),
     opt_time 24 (FileBasicInformationEncoder_ChangeTime c),
     put32 32 (FileBasicInformationEncoder_FileAttributes c)]"

section \<open>Information on files and file systems\<close>

definition FileFsFullSizeInformationDecoder_IsInvalid :: "bytes \<Rightarrow> bool" where
  "FileFsFullSizeInformationDecoder_IsInvalid c \<longleftrightarrow> length c < 32"

definition FileFsFullSizeInformationDecoder_TotalAllocationUnits :: "bytes \<Rightarrow> u64 option" where
  "FileFsFullSizeInformationDecoder_TotalAllocationUnits c = u64_at c 0"

definition FileFsFullSizeInformationDecoder_CallerAvailableAllocationUnits :: "bytes \<Rightarrow> u64 option" where
  "FileFsFullSizeInformationDecoder_CallerAvailableAllocationUnits c = u64_at c 8"

definition FileFsFullSizeInformationDecoder_ActualAvailableAllocationUnits :: "bytes \<Rightarrow> u64 option" where
  "FileFsFullSizeInformationDecoder_ActualAvailableAllocationUnits c = u64_at c 16"

definition FileFsFullSizeInformationDecoder_SectorsPerAllocationUnit :: "bytes \<Rightarrow> u32 option" where
  "FileFsFullSizeInformationDecoder_SectorsPerAllocationUnit c = u32_at c 24"

definition FileFsFullSizeInformationDecoder_BytesPerSector :: "bytes \<Rightarrow> u32 option" where
  "FileFsFullSizeInformationDecoder_BytesPerSector c = u32_at c 28"

definition FileQuotaInformationDecoder_NextEntryOffset :: "bytes \<Rightarrow> u32 option" where
  "FileQuotaInformationDecoder_NextEntryOffset c = u32_at c 0"

definition FileQuotaInformationDecoder_SidLength :: "bytes \<Rightarrow> u32 option" where
  "FileQuotaInformationDecoder_SidLength c = u32_at c 4"

definition FileQuotaInformationDecoder_ChangeTime :: "bytes \<Rightarrow> bytes option" where
  "FileQuotaInformationDecoder_ChangeTime c = go_slice c 8 16"

definition FileQuotaInformationDecoder_QuotaUsed :: "bytes \<Rightarrow> u64 option" where
  "FileQuotaInformationDecoder_QuotaUsed c = u64_at c 16"

definition FileQuotaInformationDecoder_QuotaThreshold :: "bytes \<Rightarrow> u64 option" where
  "FileQuotaInformationDecoder_QuotaThreshold c = u64_at c 24"

definition FileQuotaInformationDecoder_QuotaLimit :: "bytes \<Rightarrow> u64 option" where
  "FileQuotaInformationDecoder_QuotaLimit c = u64_at c 32"

definition FileQuotaInformationDecoder_Sid :: "bytes \<Rightarrow> bytes option" where
  "FileQuotaInformationDecoder_Sid c = do {
     n \<leftarrow> FileQuotaInformationDecoder_SidLength c;
     go_slice c 40 (unat (40 + n)) }"

definition FileQuotaInformationDecoder_IsInvalid :: "bytes \<Rightarrow> bool option" where
  "FileQuotaInformationDecoder_IsInvalid c = do {
     n \<leftarrow> FileQuotaInformationDecoder_SidLength c;
     Some (length c < unat (40 + n)) }"

definition FileBasicInformationDecoder_IsInvalid :: "bytes \<Rightarrow> bool" where
  "FileBasicInformationDecoder_IsInvalid c \<longleftrightarrow> length c < 40"

definition FileBasicInformationDecoder_CreationTime :: "bytes \<Rightarrow> bytes option" where
  "FileBasicInformationDecoder_CreationTime c = go_slice c 0 8"

definition FileBasicInformationDecoder_LastAccessTime :: "bytes \<Rightarrow> bytes option" where
  "FileBasicInformationDecoder_LastAccessTime c = go_slice c 8 16"

definition FileBasicInformationDecoder_LastWriteTime :: "bytes \<Rightarrow> bytes option" where
  "FileBasicInformationDecoder_LastWriteTime c = go_slice c 16 24"

definition FileBasicInformationDecoder_ChangeTime :: "bytes \<Rightarrow> bytes option" where
  "FileBasicInformationDecoder_ChangeTime c = go_slice c 24 32"

definition FileBasicInformationDecoder_FileAttributes :: "bytes \<Rightarrow> u32 option" where
  "FileBasicInformationDecoder_FileAttributes c = u32_at c 32"

definition FileStandardInformationDecoder_IsInvalid :: "bytes \<Rightarrow> bool" where
  "FileStandardInformationDecoder_IsInvalid c \<longleftrightarrow> length c < 24"

definition FileStandardInformationDecoder_AllocationSize :: "bytes \<Rightarrow> u64 option" where
  "FileStandardInformationDecoder_AllocationSize c = u64_at c 0"

definition FileStandardInformationDecoder_EndOfFile :: "bytes \<Rightarrow> u64 option" where
  "FileStandardInformationDecoder_EndOfFile c = u64_at c 8"

definition FileStandardInformationDecoder_NumberOfLinks :: "bytes \<Rightarrow> u32 option" where
  "FileStandardInformationDecoder_NumberOfLinks c = u32_at c 16"

definition FileStandardInformationDecoder_DeletePending :: "bytes \<Rightarrow> u8 option" where
  "FileStandardInformationDecoder_DeletePending c = u8_at c 20"

definition FileStandardInformationDecoder_Directory :: "bytes \<Rightarrow> u8 option" where
  "FileStandardInformationDecoder_Directory c = u8_at c 21"

definition FileInternalInformationDecoder_IsInvalid :: "bytes \<Rightarrow> bool" where
  "FileInternalInformationDecoder_IsInvalid c \<longleftrightarrow> length c < 8"

definition FileInternalInformationDecoder_IndexNumber :: "bytes \<Rightarrow> u64 option" where
  "FileInternalInformationDecoder_IndexNumber c = u64_at c 0"

definition FileEaInformationDecoder_IsInvalid :: "bytes \<Rightarrow> bool" where
  "FileEaInformationDecoder_IsInvalid c \<longleftrightarrow> length c < 4"

definition FileEaInformationDecoder_EaSize :: "bytes \<Rightarrow> u32 option" where
  "FileEaInformationDecoder_EaSize c = u32_at c 0"

definition FileAccessInformationDecoder_IsInvalid :: "bytes \<Rightarrow> bool" where
  "FileAccessInformationDecoder_IsInvalid c \<longleftrightarrow> length c < 4"

definition FileAccessInformationDecoder_AccessFlags :: "bytes \<Rightarrow> u32 option" where
  "FileAccessInformationDecoder_AccessFlags c = u32_at c 0"

definition FilePositionInformationDecoder_IsInvalid :: "bytes \<Rightarrow> bool" where
  "FilePositionInformationDecoder_IsInvalid c \<longleftrightarrow> length c < 8"

definition FilePositionInformationDecoder_CurrentByteOffset :: "bytes \<Rightarrow> u64 option" where
  "FilePositionInformationDecoder_CurrentByteOffset c = u64_at c 0"

definition FileModeInformationDecoder_IsInvalid :: "bytes \<Rightarrow> bool" where
  "FileModeInformationDecoder_IsInvalid c \<longleftrightarrow> length c < 4"

definition FileModeInformationDecoder_Mode :: "bytes \<Rightarrow> u32 option" where
  "FileModeInformationDecoder_Mode c = u32_at c 0"

definition FileAlignmentInformationDecoder_IsInvalid :: "bytes \<Rightarrow> bool" where
  "FileAlignmentInformationDecoder_IsInvalid c \<longleftrightarrow> length c < 4"

definition FileAlignmentInformationDecoder_AlignmentRequirement :: "bytes \<Rightarrow> u32 option" where
  "FileAlignmentInformationDecoder_AlignmentRequirement c = u32_at c 0"

definition FileNameInformationDecoder_FileNameLength :: "bytes \<Rightarrow> u32 option" where
  "FileNameInformationDecoder_FileNameLength c = u32_at c 0"

definition FileNameInformationDecoder_FileName :: "bytes \<Rightarrow> go_string option" where
  "FileNameInformationDecoder_FileName c = do {
     n \<leftarrow> FileNameInformationDecoder_FileNameLength c;
     b \<leftarrow> go_slice c 4 (unat (4 + n));
     DecodeToString b }"

definition FileNameInformationDecoder_IsInvalid :: "bytes \<Rightarrow> bool option" where
  "FileNameInformationDecoder_IsInvalid c =
     (if length c < 4 then Some True
      else do {
        n \<leftarrow> FileNameInformationDecoder_FileNameLength c;
        Some (length c < unat (4 + n)) })"

definition FileAllInformationDecoder_IsInvalid :: "bytes \<Rightarrow> bool" where
  "FileAllInformationDecoder_IsInvalid c \<longleftrightarrow> length c < 96"

definition FileAllInformationDecoder_BasicInformation :: "bytes \<Rightarrow> bytes option" where
  "FileAllInformationDecoder_BasicInformation c = go_slice c 0 40"

definition FileAllInformationDecoder_StandardInformation :: "bytes \<Rightarrow> bytes option" where
  "FileAllInformationDecoder_StandardInformation c = go_slice c 40 64"

definition FileAllInformationDecoder_InternalInformation :: "bytes \<Rightarrow> bytes option" where
  "FileAllInformationDecoder_InternalInformation c = go_slice c 64 72"

definition FileAllInformationDecoder_EaInformation :: "bytes \<Rightarrow> bytes option" where
  "FileAllInformationDecoder_EaInformation c = go_slice c 72 76"

definition FileAllInformationDecoder_AccessInformation :: "bytes \<Rightarrow> bytes option" where
  "FileAllInformationDecoder_AccessInformation c = go_slice c 76 80"

definition FileAllInformationDecoder_PositionInformation :: "bytes \<Rightarrow> bytes option" where
  "FileAllInformationDecoder_PositionInformation c = go_slice c 80 88"

definition FileAllInformationDecoder_ModeInformation :: "bytes \<Rightarrow> bytes option" where
  "FileAllInformationDecoder_ModeInformation c = go_slice c 88 92"

definition FileAllInformationDecoder_AlignmentInformation :: "bytes \<Rightarrow> bytes option" where
  "FileAllInformationDecoder_AlignmentInformation c = go_slice c 92 96"

definition FileAllInformationDecoder_NameInformation :: "bytes \<Rightarrow> bytes option" where
  "FileAllInformationDecoder_NameInformation c = go_slice c 96 (length c)"

end
