(* ===== verification/Info_Codec.thy ===== *)
theory Info_Codec
  imports Info_Fs Fscc Smb2_Response_Codec
begin

text \<open>
  The information structures of \<open>server/info_fs.go\<close> as encoders: each writes within its \<open>Size()\<close> and its bytes depend on
  nothing behind it, so that structures can be put behind one another. A directory listing can be walked by the offsets it stores, and
  the decoders of \<open>internal/smb2/fscc.go\<close> read back every entry. The one exception among the file-system structures is shown last: a
  field of \<open>FileFsFullSizeInformationInfo\<close> is written two bytes behind the place its decoder reads.
\<close>

section \<open>Writers that stay within their size\<close>

named_theorems go_fits

definition fits_w :: "nat \<Rightarrow> writer \<Rightarrow> bool" where
  "fits_w n w \<longleftrightarrow> (\<forall>p. n \<le> length p \<longrightarrow> (\<exists>q. w (take n p) = Some q \<and> length q = n \<and> w p = Some (q @ drop n p)))"

lemma fits_wI:
  "(\<And>p. n \<le> length p \<Longrightarrow> \<exists>q. w (take n p) = Some q \<and> length q = n \<and> w p = Some (q @ drop n p)) \<Longrightarrow> fits_w n w"
  by (simp add: fits_w_def)

lemma fits_wE:
  assumes "fits_w n w" "n \<le> length p"
  obtains q where "w (take n p) = Some q" "length q = n" "w p = Some (q @ drop n p)"
  using assms by (auto simp: fits_w_def)

lemma fits_safe: "fits_w n w \<Longrightarrow> safe_w n w"
  by (auto simp: fits_w_def safe_w_def)

lemma fits_mono: "fits_w m w \<Longrightarrow> m \<le> n \<Longrightarrow> fits_w n w"
proof (rule fits_wI)
  fix p :: bytes
  assume w: "fits_w m w" and m: "m \<le> n" and p: "n \<le> length p"
  obtain q where q: "w (take m p) = Some q" "length q = m" "w p = Some (q @ drop m p)"
    using fits_wE [OF w, of p] m p by auto
  obtain r where r: "w (take m (take n p)) = Some r" "w (take n p) = Some (r @ drop m (take n p))"
    using fits_wE [OF w, of "take n p"] m p by auto
  have "q @ drop m (take n p) @ drop n p = q @ drop m p"
    using m p append_take_drop_id [of "n - m" "drop m p"] by (simp add: drop_take)
  moreover have "r = q" using q(1) r(1) m by simp
  ultimately show "\<exists>q. w (take n p) = Some q \<and> length q = n \<and> w p = Some (q @ drop n p)"
    using q r(2) m p by simp
qed

lemma fits_Some [go_fits]: "fits_w n Some"
  by (simp add: fits_w_def)

lemma fits_put [go_fits]: "a + length bs \<le> n \<Longrightarrow> fits_w n (put a bs)"
proof (rule fits_wI)
  fix p :: bytes
  assume a: "a + length bs \<le> n" and p: "n \<le> length p"
  have "drop (a + length bs) (take n p) @ drop n p = drop (a + length bs) p"
    using a append_take_drop_id [of "n - (a + length bs)" "drop (a + length bs) p"] by (simp add: drop_take)
  then show "\<exists>q. put a bs (take n p) = Some q \<and> length q = n \<and> put a bs p = Some (q @ drop n p)"
    using a p by (auto simp: put_def upd_def min_def)
qed

lemma fits_put8 [go_fits]: "a + 1 \<le> n \<Longrightarrow> fits_w n (put8 a w)"
  and fits_put16 [go_fits]: "a + 2 \<le> n \<Longrightarrow> fits_w n (put16 a x)"
  and fits_put32 [go_fits]: "a + 4 \<le> n \<Longrightarrow> fits_w n (put32 a y)"
  and fits_put64 [go_fits]: "a + 8 \<le> n \<Longrightarrow> fits_w n (put64 a z)"
  by (simp_all add: put8_def put16_def put32_def put64_def fits_put)

lemma fits_copy_slice [go_fits]: "a \<le> b \<Longrightarrow> b \<le> n \<Longrightarrow> fits_w n (copy_slice a b src)"
proof (rule fits_wI)
  fix p :: bytes
  assume "a \<le> b" "b \<le> n" "n \<le> length p"
  then show "\<exists>q. copy_slice a b src (take n p) = Some q \<and> length q = n \<and> copy_slice a b src p = Some (q @ drop n p)"
    using fits_put [of a "take (b - a) src" n] fits_wE [of n "put a (take (b - a) src)" p]
    by (auto simp: copy_slice_def)
qed

lemma fits_copy_from [go_fits]: "a + length src \<le> n \<Longrightarrow> fits_w n (copy_from a src)"
proof (rule fits_wI)
  fix p :: bytes
  assume "a + length src \<le> n" "n \<le> length p"
  then show "\<exists>q. copy_from a src (take n p) = Some q \<and> length q = n \<and> copy_from a src p = Some (q @ drop n p)"
    using fits_put [of a src n] fits_wE [of n "put a src" p] by (auto simp: copy_from_def)
qed

lemma fits_writes_Nil [go_fits]: "fits_w n (writes [])"
  by (simp add: fits_w_def)

lemma fits_writes_Cons [go_fits]: "fits_w n w \<Longrightarrow> fits_w n (writes ws) \<Longrightarrow> fits_w n (writes (w # ws))"
proof (rule fits_wI)
  fix p :: bytes
  assume w: "fits_w n w" and ws: "fits_w n (writes ws)" and p: "n \<le> length p"
  obtain q where q: "w (take n p) = Some q" "length q = n" "w p = Some (q @ drop n p)"
    using w p by (rule fits_wE)
  obtain r where "writes ws q = Some r" "length r = n" "writes ws (q @ drop n p) = Some (r @ drop n p)"
    using fits_wE [OF ws, of "q @ drop n p"] q(2) by auto
  then show "\<exists>q. writes (w # ws) (take n p) = Some q \<and> length q = n \<and> writes (w # ws) p = Some (q @ drop n p)"
    using q by simp
qed

lemma fits_on_from [go_fits]: "a \<le> n \<Longrightarrow> fits_w (n - a) w \<Longrightarrow> fits_w n (on_from a w)"
proof (rule fits_wI)
  fix p :: bytes
  assume a: "a \<le> n" and w: "fits_w (n - a) w" and p: "n \<le> length p"
  have "n - a \<le> length (drop a p)" using p by simp
  then obtain q where "w (take (n - a) (drop a p)) = Some q" "length q = n - a" "w (drop a p) = Some (q @ drop (n - a) (drop a p))"
    by (rule fits_wE [OF w])
  then show "\<exists>q. on_from a w (take n p) = Some q \<and> length q = n \<and> on_from a w p = Some (q @ drop n p)"
    using a p by (simp add: on_from_def drop_take min_def)
qed

lemma fits_on_slice [go_fits]: "a \<le> b \<Longrightarrow> b \<le> n \<Longrightarrow> safe_w (b - a) w \<Longrightarrow> fits_w n (on_slice a b w)"
proof (rule fits_wI)
  fix p :: bytes
  assume a: "a \<le> b" "b \<le> n" and w: "safe_w (b - a) w" and p: "n \<le> length p"
  obtain q where "w (take (b - a) (drop a p)) = Some q" "length q = length (take (b - a) (drop a p))"
    using safe_wE [OF w, of "take (b - a) (drop a p)"] a p by auto
  moreover have "drop b (take n p) @ drop n p = drop b p"
    using a p append_take_drop_id [of "n - b" "drop b p"] by (simp add: drop_take)
  moreover have "take (b - a) (drop a (take n p)) = take (b - a) (drop a p)"
    using a by (simp add: drop_take min_absorb1)
  ultimately show "\<exists>q. on_slice a b w (take n p) = Some q \<and> length q = n \<and> on_slice a b w p = Some (q @ drop n p)"
    using a p by (simp add: on_slice_def min_absorb1)
qed

text \<open>A writer that is one update of the buffer.\<close>

lemma fits_upd:
  assumes "\<And>p. length bs \<le> length p \<Longrightarrow> w p = Some (upd 0 bs p)" "length bs \<le> n"
  shows "fits_w n w"
proof (rule fits_mono [OF _ assms(2)], rule fits_wI)
  fix p :: bytes
  assume "length bs \<le> length p"
  then show "\<exists>q. w (take (length bs) p) = Some q \<and> length q = length bs \<and> w p = Some (q @ drop (length bs) p)"
    using assms(1) [of p] assms(1) [of "take (length bs) p"] by (simp add: upd_def)
qed

lemma fits_EncodeString [go_fits]: "EncodedStringLen s \<le> n \<Longrightarrow> fits_w n (EncodeString s)"
  by (rule fits_upd [of "le16s (utf16_Encode (runes s))"])
    (simp_all add: EncodeString_eq EncodedStringLen_eq EncodeString_n_def)

lemma fits_Filetime_Encode [go_fits]: "8 \<le> n \<Longrightarrow> fits_w n (Filetime_Encode ft)"
  by (rule fits_upd [of "filetime_bytes ft"]) (simp_all add: Filetime_Encode_eq)

lemma fits_SID_Encode [go_fits]: "SID_ok s \<Longrightarrow> SID_Size s \<le> n \<Longrightarrow> fits_w n (SID_Encode s)"
  by (rule fits_upd [of "SID_bytes s"]) (simp_all add: SID_Encode_eq)

lemma fits_FileId_Encode [go_fits]: "fileid_ok fd \<Longrightarrow> 16 \<le> n \<Longrightarrow> fits_w n (FileId_Encode (Some fd))"
  by (auto simp: FileId_Encode_def intro!: go_fits)

lemma Align_8_bounds: "x \<le> Align x 8" "Align x 8 < x + 8" "8 dvd Align x 8"
  by (simp_all add: Align_eq_Roundup Roundup_8_ge Roundup_8_lt Roundup_8_dvd)

lemma fits_Align: "fits_w n w \<Longrightarrow> fits_w (Align n 8) w" and fits_Roundup: "fits_w n w \<Longrightarrow> fits_w (Roundup n 8) w"
  by (auto elim: fits_mono simp: Align_8_bounds Roundup_8_ge)

section \<open>The structures\<close>

locale information =
  fixes info_Size :: "'i \<Rightarrow> nat" and info_Encode :: "'i \<Rightarrow> writer" and info_ok :: "'i \<Rightarrow> bool"
  assumes fits: "info_ok i \<Longrightarrow> fits_w (info_Size i) (info_Encode i)"
begin

lemma fits_at: "info_ok i \<Longrightarrow> info_Size i \<le> n \<Longrightarrow> fits_w n (info_Encode i)"
  by (blast intro: fits_mono fits)

lemma is_encoder: "info_ok i \<Longrightarrow> encoder_ok \<lparr>enc_Size = info_Size i, enc_Encode = info_Encode i\<rparr>"
  by (simp add: encoder_ok_def fits fits_safe)

lemma encoded: "info_ok i \<Longrightarrow> \<exists>q. info_Encode i (replicate (info_Size i) 0) = Some q \<and> length q = info_Size i"
  using safe_wD [OF fits_safe [OF fits], of i "replicate (info_Size i) 0"] by simp

end

interpretation FileAccessInformationInfo: information FileAccessInformationInfo_Size FileAccessInformationInfo_Encode "\<lambda>_. True"
  by unfold_locales (auto simp: FileAccessInformationInfo_Size_def FileAccessInformationInfo_Encode_def intro!: go_fits)

interpretation FileAlignmentInformationInfo: information FileAlignmentInformationInfo_Size FileAlignmentInformationInfo_Encode "\<lambda>_. True"
  by unfold_locales (auto simp: FileAlignmentInformationInfo_Size_def FileAlignmentInformationInfo_Encode_def intro!: go_fits)

interpretation FileAlternateNameInformationInfo: information FileAlternateNameInformationInfo_Size FileAlternateNameInformationInfo_Encode "\<lambda>_. True"
  by unfold_locales (auto simp: FileAlternateNameInformationInfo_Size_def FileAlternateNameInformationInfo_Encode_def intro!: go_fits)

interpretation FileAttributeTagInformationInfo: information FileAttributeTagInformationInfo_Size FileAttributeTagInformationInfo_Encode "\<lambda>_. True"
  by unfold_locales (auto simp: FileAttributeTagInformationInfo_Size_def FileAttributeTagInformationInfo_Encode_def intro!: go_fits)

interpretation FileBasicInformationInfo: information FileBasicInformationInfo_Size FileBasicInformationInfo_Encode "\<lambda>_. True"
  by unfold_locales (auto simp: FileBasicInformationInfo_Size_def FileBasicInformationInfo_Encode_def intro!: go_fits)

interpretation FileCompressionInformationInfo: information FileCompressionInformationInfo_Size FileCompressionInformationInfo_Encode "\<lambda>_. True"
  by unfold_locales (auto simp: FileCompressionInformationInfo_Size_def FileCompressionInformationInfo_Encode_def intro!: go_fits)

interpretation FileEaInformationInfo: information FileEaInformationInfo_Size FileEaInformationInfo_Encode "\<lambda>_. True"
  by unfold_locales (auto simp: FileEaInformationInfo_Size_def FileEaInformationInfo_Encode_def intro!: go_fits)

interpretation FileIdInformationInfo: information FileIdInformationInfo_Size FileIdInformationInfo_Encode "\<lambda>i. fileid_ok (FileIdInformationInfo_FileId i)"
  by unfold_locales (auto simp: FileIdInformationInfo_Size_def FileIdInformationInfo_Encode_def intro!: go_fits)

interpretation FileInternalInformationInfo: information FileInternalInformationInfo_Size FileInternalInformationInfo_Encode "\<lambda>_. True"
  by unfold_locales (auto simp: FileInternalInformationInfo_Size_def FileInternalInformationInfo_Encode_def intro!: go_fits)

interpretation FileModeInformationInfo: information FileModeInformationInfo_Size FileModeInformationInfo_Encode "\<lambda>_. True"
  by unfold_locales (auto simp: FileModeInformationInfo_Size_def FileModeInformationInfo_Encode_def intro!: go_fits)

interpretation FileNetworkOpenInformationInfo: information FileNetworkOpenInformationInfo_Size FileNetworkOpenInformationInfo_Encode "\<lambda>_. True"
  by unfold_locales (auto simp: FileNetworkOpenInformationInfo_Size_def FileNetworkOpenInformationInfo_Encode_def intro!: go_fits)

interpretation FilePositionInformationInfo: information FilePositionInformationInfo_Size FilePositionInformationInfo_Encode "\<lambda>_. True"
  by unfold_locales (auto simp: FilePositionInformationInfo_Size_def FilePositionInformationInfo_Encode_def intro!: go_fits)

interpretation FileNamesInformationInfo: information FileNamesInformationInfo_Size FileNamesInformationInfo_Encode "\<lambda>_. True"
  by (unfold_locales, unfold FileNamesInformationInfo_Size_def FileNamesInformationInfo_Encode_def, rule fits_Align) (auto intro!: go_fits)

interpretation FileStandardInformationInfo: information FileStandardInformationInfo_Size FileStandardInformationInfo_Encode "\<lambda>_. True"
  by unfold_locales (auto simp: FileStandardInformationInfo_Size_def FileStandardInformationInfo_Encode_def intro!: go_fits)

interpretation FileStreamInformationInfo: information FileStreamInformationInfo_Size FileStreamInformationInfo_Encode "\<lambda>_. True"
  by (unfold_locales, unfold FileStreamInformationInfo_Size_def FileStreamInformationInfo_Encode_def, rule fits_Roundup) (auto intro!: go_fits)

interpretation FileFsAttributeInformationInfo: information FileFsAttributeInformationInfo_Size FileFsAttributeInformationInfo_Encode "\<lambda>_. True"
  by (unfold_locales, unfold FileFsAttributeInformationInfo_Size_def FileFsAttributeInformationInfo_Encode_def, rule fits_Align) (auto intro!: go_fits)

interpretation FileFsDeviceInformationInfo: information FileFsDeviceInformationInfo_Size FileFsDeviceInformationInfo_Encode "\<lambda>_. True"
  by unfold_locales (auto simp: FileFsDeviceInformationInfo_Size_def FileFsDeviceInformationInfo_Encode_def intro!: go_fits)

interpretation FileFsFullSizeInformationInfo: information FileFsFullSizeInformationInfo_Size FileFsFullSizeInformationInfo_Encode "\<lambda>_. True"
  by unfold_locales (auto simp: FileFsFullSizeInformationInfo_Size_def FileFsFullSizeInformationInfo_Encode_def intro!: go_fits)

interpretation FileFsSectorSizeInformationInfo: information FileFsSectorSizeInformationInfo_Size FileFsSectorSizeInformationInfo_Encode "\<lambda>_. True"
  by unfold_locales (auto simp: FileFsSectorSizeInformationInfo_Size_def FileFsSectorSizeInformationInfo_Encode_def intro!: go_fits)

interpretation FileFsSizeInformationInfo: information FileFsSizeInformationInfo_Size FileFsSizeInformationInfo_Encode "\<lambda>_. True"
  by unfold_locales (auto simp: FileFsSizeInformationInfo_Size_def FileFsSizeInformationInfo_Encode_def intro!: go_fits)

interpretation FileFsVolumeInformationInfo: information FileFsVolumeInformationInfo_Size FileFsVolumeInformationInfo_Encode "\<lambda>_. True"
  by (unfold_locales, unfold FileFsVolumeInformationInfo_Size_def FileFsVolumeInformationInfo_Encode_def, rule fits_Align) (auto intro!: go_fits)

interpretation FileFsPosixInformationInfo: information FileFsPosixInformationInfo_Size FileFsPosixInformationInfo_Encode "\<lambda>_. True"
  by unfold_locales (auto simp: FileFsPosixInformationInfo_Size_def FileFsPosixInformationInfo_Encode_def intro!: go_fits)

section \<open>Entries of a directory\<close>

interpretation FileDirectoryInformationInfo: information FileDirectoryInformationInfo_Size FileDirectoryInformationInfo_Encode "\<lambda>_. True"
  by (unfold_locales, unfold FileDirectoryInformationInfo_Size_def FileDirectoryInformationInfo_Encode_def, rule fits_Align) (auto intro!: go_fits)

interpretation FileFullDirectoryInformationInfo: information FileFullDirectoryInformationInfo_Size FileFullDirectoryInformationInfo_Encode "\<lambda>_. True"
  by (unfold_locales, unfold FileFullDirectoryInformationInfo_Size_def FileFullDirectoryInformationInfo_Encode_def, rule fits_Align) (auto intro!: go_fits)

interpretation FileBothDirectoryInformationInfo: information FileBothDirectoryInformationInfo_Size FileBothDirectoryInformationInfo_Encode "\<lambda>_. True"
  by (unfold_locales, unfold FileBothDirectoryInformationInfo_Size_def FileBothDirectoryInformationInfo_Encode_def, rule fits_Align) (auto intro!: go_fits)

interpretation FileIdBothDirectoryInformationInfo: information FileIdBothDirectoryInformationInfo_Size FileIdBothDirectoryInformationInfo_Encode "\<lambda>_. True"
  by (unfold_locales, unfold FileIdBothDirectoryInformationInfo_Size_def FileIdBothDirectoryInformationInfo_Encode_def, rule fits_Align) (auto intro!: go_fits)

interpretation FileIdBothDirectoryInformationInfo2: information FileIdBothDirectoryInformationInfo2_Size FileIdBothDirectoryInformationInfo2_Encode "\<lambda>i. length (FileIdBothDirectoryInformationInfo2_CompressedFinderInfo i) = 16"
  by (unfold_locales, unfold FileIdBothDirectoryInformationInfo2_Size_def FileIdBothDirectoryInformationInfo2_Encode_def, rule fits_Align) (auto intro!: go_fits)

interpretation FileIdFullDirectoryInformationInfo: information FileIdFullDirectoryInformationInfo_Size FileIdFullDirectoryInformationInfo_Encode "\<lambda>_. True"
  by (unfold_locales, unfold FileIdFullDirectoryInformationInfo_Size_def FileIdFullDirectoryInformationInfo_Encode_def, rule fits_Align) (auto intro!: go_fits)

interpretation FileIdAllExtdBothDirectoryInformationInfo: information FileIdAllExtdBothDirectoryInformationInfo_Size FileIdAllExtdBothDirectoryInformationInfo_Encode "\<lambda>_. True"
  by (unfold_locales, unfold FileIdAllExtdBothDirectoryInformationInfo_Size_def FileIdAllExtdBothDirectoryInformationInfo_Encode_def, rule fits_Align) (auto intro!: go_fits)

interpretation FileNotifyInformationInfo: information FileNotifyInformationInfo_Size FileNotifyInformationInfo_Encode "\<lambda>_. True"
  by unfold_locales (auto simp: FileNotifyInformationInfo_Size_def FileNotifyInformationInfo_Encode_def intro!: go_fits)

interpretation FilePosixInformationInfo: information FilePosixInformationInfo_Size FilePosixInformationInfo_Encode "\<lambda>i. SID_ok (FilePosixInformationInfo_OwnerSID i) \<and> SID_ok (FilePosixInformationInfo_GroupSID i)"
  by (unfold_locales, unfold FilePosixInformationInfo_Size_def FilePosixInformationInfo_Encode_def, rule fits_Align) (auto simp: Let_def intro!: go_fits)

interpretation FilePosixDirectoryInformationInfo: information FilePosixDirectoryInformationInfo_Size FilePosixDirectoryInformationInfo_Encode "\<lambda>i. SID_ok (FilePosixInformationInfo_OwnerSID (FilePosixDirectoryInformationInfo_Info i)) \<and>
    SID_ok (FilePosixInformationInfo_GroupSID (FilePosixDirectoryInformationInfo_Info i))"
  by (unfold_locales, unfold FilePosixDirectoryInformationInfo_Size_def FilePosixDirectoryInformationInfo_Encode_def, rule fits_Align) (auto intro!: go_fits FilePosixInformationInfo.fits)

section \<open>Contexts, Finder information and object ids\<close>

interpretation PosixCreateContextResponse: information PosixCreateContextResponse_Size PosixCreateContextResponse_Encode "\<lambda>i. SID_ok (PosixCreateContextResponse_OwnerSID i) \<and> SID_ok (PosixCreateContextResponse_GroupSID i)"
  by unfold_locales (auto simp: PosixCreateContextResponse_Size_def PosixCreateContextResponse_Encode_def intro!: go_fits)

interpretation AfpInfo: information AfpInfo_Size AfpInfo_Encode "\<lambda>i. length (AfpInfo_Signature i) = 4 \<and> length (AfpInfo_Version i) = 4 \<and> length (AfpInfo_FileBitmap i) = 4 \<and>
    length (AfpInfo_FinderInfo i) = 32 \<and> length (AfpInfo_ProDOSInfo i) = 6"
  by unfold_locales (auto simp: AfpInfo_Size_def AfpInfo_Encode_def intro!: go_fits)

interpretation FileObjectId1: information FileObjectId1_Size FileObjectId1_Encode "\<lambda>i. fileid_ok (FileObjectId1_ObjectId i) \<and> fileid_ok (FileObjectId1_BirthVolumeId i) \<and>
    fileid_ok (FileObjectId1_BirthObjectId i) \<and> fileid_ok (FileObjectId1_DomainId i)"
  by unfold_locales (auto simp: FileObjectId1_Size_def FileObjectId1_Encode_def intro!: go_fits)

interpretation FileFsObjectIdInfo: information FileFsObjectIdInfo_Size FileFsObjectIdInfo_Encode "\<lambda>i. fileid_ok (FileFsObjectIdInfo_ObjectId i)"
  by unfold_locales (auto simp: FileFsObjectIdInfo_Size_def FileFsObjectIdInfo_Encode_def intro!: go_fits)

section \<open>Structures behind one another\<close>

lemma fits_parts_Encode:
  "list_all (\<lambda>(n, w). fits_w n w) ps \<Longrightarrow> off + sum_list (map fst ps) \<le> n \<Longrightarrow> fits_w n (parts_Encode off ps)"
proof (induction off ps rule: parts_Encode.induct)
  case (2 off k w ps)
  have "fits_w (n - off) w" using 2(2,3) by (auto intro: fits_mono)
  moreover have "fits_w n (parts_Encode (off + k) ps)" using 2 by simp
  ultimately show ?case
    unfolding parts_Encode.simps using 2(3) by (intro go_fits) simp_all
qed (simp add: go_fits)

interpretation FileAllInformationInfo: information FileAllInformationInfo_Size FileAllInformationInfo_Encode "\<lambda>_. True"
  by (unfold_locales, unfold FileAllInformationInfo_Encode_def, rule fits_parts_Encode)
    (simp_all add: FileAllInformationInfo_Size_def FileBasicInformationInfo.fits FileStandardInformationInfo.fits
      FileInternalInformationInfo.fits FileEaInformationInfo.fits FileAccessInformationInfo.fits FilePositionInformationInfo.fits
      FileModeInformationInfo.fits FileAlignmentInformationInfo.fits FileAlternateNameInformationInfo.fits)

lemma fits_NetworkInterfaceInfo_Encode [go_fits]: "152 \<le> n \<Longrightarrow> fits_w n (NetworkInterfaceInfo_Encode i)"
  by (auto simp: NetworkInterfaceInfo_Encode_def be_of_word_def intro!: go_fits go_safe)

lemma fits_NetworkInterfaceInfoList_Encode_loop:
  "off + 152 * length l \<le> n \<Longrightarrow> fits_w n (NetworkInterfaceInfoList_Encode_loop off l)"
proof (induction off l rule: NetworkInterfaceInfoList_Encode_loop.induct)
  case (2 off item items)
  then show ?case
    unfolding NetworkInterfaceInfoList_Encode_loop.simps by (intro go_fits) (simp_all add: NetworkInterfaceInfo_Size_def)
qed (simp add: go_fits)

interpretation NetworkInterfaceInfoList: information NetworkInterfaceInfoList_Size NetworkInterfaceInfoList_Encode "\<lambda>_. True"
  by unfold_locales (auto simp: NetworkInterfaceInfoList_Size_def NetworkInterfaceInfoList_Encode_def NetworkInterfaceInfo_Size_def
      intro!: fits_NetworkInterfaceInfoList_Encode_loop)

lemma Align_4_ge: "x \<le> Align x 4"
proof -
  have "Align x 4 = (x + 3) div 4 * 4"
    using and_not_mask_int [of "int x + 3" 2] by (simp add: Align_def nat_mult_distrib nat_div_distrib ac_simps)
  then show ?thesis by linarith
qed

lemma fits_FileFullEaInformationInfoItems_Encode_loop:
  "off + sum_list (map ea_size l) \<le> n \<Longrightarrow> fits_w n (FileFullEaInformationInfoItems_Encode_loop off l)"
proof (induction off l rule: FileFullEaInformationInfoItems_Encode_loop.induct)
  case (2 off item items)
  have "8 + length (FileFullEaInformationInfo_EaName item) + 1 \<le> ea_size item"
    using Align_4_ge [of "8 + length (FileFullEaInformationInfo_EaName item) + 1 + unat (FileFullEaInformationInfo_EaValueLength item)"]
    by (simp add: ea_size_def)
  then show ?case
    unfolding FileFullEaInformationInfoItems_Encode_loop.simps Let_def using 2 by (intro go_fits) simp_all
qed (simp add: go_fits)

interpretation FileFullEaInformationInfoItems: information FileFullEaInformationInfoItems_Size FileFullEaInformationInfoItems_Encode "\<lambda>_. True"
  by unfold_locales (auto simp: FileFullEaInformationInfoItems_Size_def FileFullEaInformationInfoItems_Encode_def
      intro!: fits_FileFullEaInformationInfoItems_Encode_loop)

lemma FileStreamInformationInfo_Size_upd [simp]:
  "FileStreamInformationInfo_Size (i\<lparr>FileStreamInformationInfo_NextEntryOffset := x\<rparr>) = FileStreamInformationInfo_Size i"
  by (simp add: FileStreamInformationInfo_Size_def)

lemma fits_FileStreamInformationInfoItems_Encode_loop:
  "unat off + sum_list (map FileStreamInformationInfo_Size l) \<le> n \<Longrightarrow> n < 4294967296 \<Longrightarrow>
     fits_w n (FileStreamInformationInfoItems_Encode_loop off l)"
proof (induction off l rule: FileStreamInformationInfoItems_Encode_loop.induct)
  case (2 off item items)
  let ?s = "FileStreamInformationInfo_Size item"
  have u: "unat (off + of_nat ?s) = unat off + ?s"
    using 2(2,3) by (simp add: unat_word_ariths unat_of_nat_u32)
  define it where "it = (if items \<noteq> [] then item\<lparr>FileStreamInformationInfo_NextEntryOffset := of_nat ?s\<rparr> else item)"
  have s: "FileStreamInformationInfo_Size it = ?s" by (simp add: it_def)
  have l: "fits_w n (FileStreamInformationInfoItems_Encode_loop (off + FileStreamInformationInfo_NextEntryOffset it) items)"
    using 2 u by (cases "items = []") (simp_all add: it_def fits_Some)
  show ?case
    unfolding FileStreamInformationInfoItems_Encode_loop.simps Let_def it_def [symmetric]
    using 2(2) s l by (intro go_fits FileStreamInformationInfo.fits_at) simp_all
qed (simp add: go_fits)

interpretation FileStreamInformationInfoItems: information FileStreamInformationInfoItems_Size FileStreamInformationInfoItems_Encode
  "\<lambda>l. FileStreamInformationInfoItems_Size l < 4294967296"
  by unfold_locales (auto simp: FileStreamInformationInfoItems_Size_def FileStreamInformationInfoItems_Encode_def
      intro!: fits_FileStreamInformationInfoItems_Encode_loop)

section \<open>A listing\<close>

text \<open>
  A client walks a listing from its first byte: the first field of an entry is the distance to the next one, and 0 in the last entry.
  The walk ends on every input, because a link of an entry that has another one behind it is at least 1.
\<close>

function entries :: "bytes \<Rightarrow> bytes list option" where
  "entries p =
     (case u32_at p 0 of
        None \<Rightarrow> None
      | Some n \<Rightarrow>
          if n = 0 then Some [p]
          else if length p < unat n then None
          else map_option ((#) (take (unat n) p)) (entries (drop (unat n) p)))"
  by auto
termination
  by (relation "measure length") (auto simp: un_at_eqs unat_gt_0 split: if_splits intro!: diff_less)

declare entries.simps [simp del]

text \<open>The bytes of the entries: each as its encoder writes it alone, with the link over its first field.\<close>

definition linked :: "nat \<Rightarrow> bytes \<Rightarrow> bytes" where
  "linked n r = upd 0 (le_of_word 4 (of_nat n :: u32)) r"

fun listed :: "encoder list \<Rightarrow> bytes list option" where
  "listed [] = Some []"
| "listed (e # es) = do {
     r \<leftarrow> enc_Encode e (replicate (enc_Size e) 0);
     rs \<leftarrow> listed es;
     Some (linked (if es \<noteq> [] then enc_Size e else 0) r # rs) }"

definition entry_ok :: "encoder \<Rightarrow> bool" where
  "entry_ok e \<longleftrightarrow> fits_w (enc_Size e) (enc_Encode e) \<and> 4 \<le> enc_Size e \<and> enc_Size e < 4294967296"

lemma length_linked [simp]: "length (linked n r) = length r"
  by (simp add: linked_def)

lemma entry_okE:
  assumes "entry_ok e"
  obtains r where "enc_Encode e (replicate (enc_Size e) 0) = Some r" "length r = enc_Size e"
    "\<And>s. enc_Encode e (replicate (enc_Size e) 0 @ s) = Some (r @ s)"
proof -
  have f: "fits_w (enc_Size e) (enc_Encode e)" using assms by (simp add: entry_ok_def)
  obtain r where r: "enc_Encode e (replicate (enc_Size e) 0) = Some r" "length r = enc_Size e"
    using fits_wE [OF f, of "replicate (enc_Size e) 0"] by auto
  moreover have "enc_Encode e (replicate (enc_Size e) 0 @ s) = Some (r @ s)" for s
    using fits_wE [OF f, of "replicate (enc_Size e) 0 @ s"] r(1) by auto
  ultimately show thesis using that by blast
qed

lemma listed_defined:
  "list_all entry_ok es \<Longrightarrow> \<exists>rs. listed es = Some rs \<and> map length rs = map enc_Size es"
proof (induction es)
  case (Cons e es)
  obtain r where "enc_Encode e (replicate (enc_Size e) 0) = Some r" "length r = enc_Size e"
    using Cons.prems by (auto elim: entry_okE)
  then show ?case using Cons by auto
qed simp

lemma put32_linked:
  "4 \<le> length r \<Longrightarrow> put32 (length h) (of_nat n) (h @ r @ s) = Some (h @ linked n r @ s)"
  by (simp add: put32_def put_def linked_def upd_def)

lemma FileInformationInfoResponse_Encode_loop_eq:
  assumes "list_all entry_ok es" "listed es = Some rs"
  shows "FileInformationInfoResponse_Encode_loop (length h) es (h @ replicate (FileInformationInfoResponse_Size es) 0) =
    Some (h @ concat rs)"
  using assms
proof (induction es arbitrary: h rs)
  case Nil
  then show ?case by (simp add: FileInformationInfoResponse_Size_def)
next
  case (Cons e es)
  let ?z = "replicate (FileInformationInfoResponse_Size es) (0 :: u8)"
  obtain r where r: "enc_Encode e (replicate (enc_Size e) 0) = Some r" "length r = enc_Size e"
      "enc_Encode e (replicate (enc_Size e) 0 @ ?z) = Some (r @ ?z)"
    using Cons.prems by (auto elim: entry_okE)
  obtain qs where qs: "listed es = Some qs" "rs = linked (if es \<noteq> [] then enc_Size e else 0) r # qs"
    using Cons.prems r by (auto split: bind_splits)
  let ?l = "linked (if es \<noteq> [] then enc_Size e else 0) r"
  have z: "replicate (FileInformationInfoResponse_Size (e # es)) 0 = replicate (enc_Size e) 0 @ ?z"
    by (simp add: FileInformationInfoResponse_Size_def replicate_add)
  have "on_from (length h) (enc_Encode e) (h @ replicate (enc_Size e) 0 @ ?z) = Some (h @ r @ ?z)"
    by (simp add: on_from_def r(3))
  moreover have "put32 (length h) (if es \<noteq> [] then of_nat (enc_Size e) else 0) (h @ r @ ?z) = Some (h @ ?l @ ?z)"
    using put32_linked [of r h "enc_Size e" ?z] put32_linked [of r h 0 ?z] r(2) Cons.prems(1)
    by (auto simp: entry_ok_def)
  moreover have "FileInformationInfoResponse_Encode_loop (length (h @ ?l)) es ((h @ ?l) @ ?z) = Some ((h @ ?l) @ concat qs)"
    using Cons.prems qs(1) by (intro Cons.IH) simp_all
  ultimately show ?case
    using r(2) by (simp add: z qs(2))
qed

lemma entries_listed:
  assumes "list_all entry_ok es" "es \<noteq> []" "listed es = Some rs"
  shows "entries (concat rs) = Some rs"
  using assms
proof (induction es arbitrary: rs)
  case (Cons e es)
  obtain r where r: "enc_Encode e (replicate (enc_Size e) 0) = Some r" "length r = enc_Size e"
    using Cons.prems by (auto elim: entry_okE)
  obtain qs where qs: "listed es = Some qs" "rs = linked (if es \<noteq> [] then enc_Size e else 0) r # qs"
    using Cons.prems r by (auto split: bind_splits)
  have e: "4 \<le> enc_Size e" "enc_Size e < 4294967296" using Cons.prems by (simp_all add: entry_ok_def)
  have u: "u32_at (linked n r @ s) 0 = Some (of_nat n)" for n s
    using e r(2) by (simp add: linked_def un_at_eqs rd_append_left go_buf)
  show ?case
  proof (cases "es = []")
    case True
    then show ?thesis using qs u [of 0 "[]"] by (simp add: entries.simps)
  next
    case False
    have "(of_nat (enc_Size e) :: u32) \<noteq> 0"
      using e unat_of_nat_u32 [of "enc_Size e"] by (metis not_numeral_le_zero unat_0)
    then show ?thesis
      using False qs u e r(2) Cons.IH [of qs] Cons.prems
      by (subst entries.simps) (simp add: unat_of_nat_u32)
  qed
qed simp

section \<open>A directory read back\<close>

definition FileDirectoryInformationInfo_enc :: "FileDirectoryInformationInfo \<Rightarrow> encoder" where
  "FileDirectoryInformationInfo_enc i = \<lparr>enc_Size = FileDirectoryInformationInfo_Size i, enc_Encode = FileDirectoryInformationInfo_Encode i\<rparr>"

definition directory_entry_read :: "FileDirectoryInformationInfo \<Rightarrow> bytes \<Rightarrow> bool" where
  "directory_entry_read i e \<longleftrightarrow>
     FileDirectoryInformationDecoder_IsInvalid e = Some False \<and>
     FileDirectoryInformationDecoder_FileIndex e = Some (FileDirectoryInformationInfo_FileIndex i) \<and>
     FileDirectoryInformationDecoder_CreationTime e \<bind> FiletimeDecoder_Decode = Some (FileDirectoryInformationInfo_CreationTime i) \<and>
     FileDirectoryInformationDecoder_LastAccessTime e \<bind> FiletimeDecoder_Decode = Some (FileDirectoryInformationInfo_LastAccessTime i) \<and>
     FileDirectoryInformationDecoder_LastWriteTime e \<bind> FiletimeDecoder_Decode = Some (FileDirectoryInformationInfo_LastWriteTime i) \<and>
     FileDirectoryInformationDecoder_ChangeTime e \<bind> FiletimeDecoder_Decode = Some (FileDirectoryInformationInfo_ChangeTime i) \<and>
     FileDirectoryInformationDecoder_EndOfFile e = Some (FileDirectoryInformationInfo_EndOfFile i) \<and>
     FileDirectoryInformationDecoder_AllocationSize e = Some (FileDirectoryInformationInfo_AllocationSize i) \<and>
     FileDirectoryInformationDecoder_FileAttributes e = Some (FileDirectoryInformationInfo_FileAttributes i) \<and>
     FileDirectoryInformationDecoder_FileName e = Some (FileDirectoryInformationInfo_FileName i)"

definition directory_entry_ok :: "FileDirectoryInformationInfo \<Rightarrow> bool" where
  "directory_entry_ok i \<longleftrightarrow> wf_string (FileDirectoryInformationInfo_FileName i) \<and>
     EncodedStringLen (FileDirectoryInformationInfo_FileName i) < 65536"

lemma directory_entry_ok: "directory_entry_ok i \<Longrightarrow> entry_ok (FileDirectoryInformationInfo_enc i)"
  using Align_8_bounds [of "64 + EncodedStringLen (FileDirectoryInformationInfo_FileName i)"]
    FileDirectoryInformationInfo.fits [of i]
  by (simp add: entry_ok_def FileDirectoryInformationInfo_enc_def directory_entry_ok_def FileDirectoryInformationInfo_Size_def)

lemma on_from_Filetime: "a + 8 \<le> length p \<Longrightarrow> on_from a (Filetime_Encode ft) p = Some (upd a (filetime_bytes ft) p)"
  by (intro on_from_upd Filetime_Encode_eq) simp_all

lemma FiletimeDecoder_Decode_all: "FiletimeDecoder_Decode (filetime_bytes ft) = Some ft"
  using FiletimeDecoder_Decode_bytes [of ft "[]"] by simp

lemma directory_entry_decodes:
  assumes i: "directory_entry_ok i"
    and r: "FileDirectoryInformationInfo_Encode i (replicate (FileDirectoryInformationInfo_Size i) 0) = Some r"
  shows "directory_entry_read i (linked n r)"
proof -
  let ?s = "FileDirectoryInformationInfo_FileName i"
  define b where "b = utf16_bytes ?s"
  have b: "EncodedStringLen ?s = length b" by (simp add: b_def EncodedStringLen_eq EncodeString_n_eq)
  have l: "64 + length b \<le> FileDirectoryInformationInfo_Size i" "length b < 65536"
    using i Align_8_bounds(1) [of "64 + length b"] b
    by (simp_all add: FileDirectoryInformationInfo_Size_def directory_entry_ok_def)
  have e: "64 + length b \<le> length p \<Longrightarrow> on_from 64 (EncodeString ?s) p = Some (upd 64 b p)" for p
    unfolding b_def by (rule on_from_EncodeString)
  have d: "DecodeToString b = Some ?s"
    using i by (simp add: b_def directory_entry_ok_def DecodeToString_wf)
  show ?thesis
    unfolding directory_entry_read_def FileDirectoryInformationDecoder_IsInvalid_def FileDirectoryInformationDecoder_FileIndex_def
      FileDirectoryInformationDecoder_CreationTime_def FileDirectoryInformationDecoder_LastAccessTime_def
      FileDirectoryInformationDecoder_LastWriteTime_def FileDirectoryInformationDecoder_ChangeTime_def
      FileDirectoryInformationDecoder_EndOfFile_def FileDirectoryInformationDecoder_AllocationSize_def
      FileDirectoryInformationDecoder_FileAttributes_def FileDirectoryInformationDecoder_FileName_def
      FileDirectoryInformationDecoder_FileNameLength_def linked_def
    using r l e d unfolding FileDirectoryInformationInfo_Encode_def b
    by (auto simp: put32_def put64_def put_def on_from_Filetime un_at_eqs go_slice_eq_rd go_buf
        FiletimeDecoder_Decode_all num_of_nat)
qed

lemma directory_entries_read:
  assumes "list_all directory_entry_ok is" "listed (map FileDirectoryInformationInfo_enc is) = Some rs"
  shows "list_all2 directory_entry_read is rs"
  using assms
  by (induction "is" arbitrary: rs)
    (auto simp: FileDirectoryInformationInfo_enc_def directory_entry_decodes split: bind_splits)

text \<open>C23. A directory listing is read back by walking it. For a non-empty list of directory entries with well-formed names of fewer than 65536
  encoded bytes, encoding the listing into a zeroed buffer of its \<open>Size()\<close> does not panic, the walk from the first byte along the
  stored offsets ends and yields exactly one piece per entry in order, of the entry's own size, and on each piece the decoder of
  \<open>fscc.go\<close> accepts and returns the index, the four times, both sizes, the attributes and the name of the entry.
\<close>

theorem directory_listing_read:
  assumes "is \<noteq> []" "list_all directory_entry_ok is"
  defines "es \<equiv> map FileDirectoryInformationInfo_enc is"
  shows "\<exists>q rs. FileInformationInfoResponse_Encode es (replicate (FileInformationInfoResponse_Size es) 0) = Some q \<and>
    length q = FileInformationInfoResponse_Size es \<and> entries q = Some rs \<and>
    map length rs = map FileDirectoryInformationInfo_Size is \<and> list_all2 directory_entry_read is rs"
proof -
  have ok: "list_all entry_ok es"
    using assms(2) by (auto simp: es_def list_all_iff directory_entry_ok)
  obtain rs where rs: "listed es = Some rs" "map length rs = map enc_Size es"
    using listed_defined [OF ok] by blast
  have sz: "map enc_Size es = map FileDirectoryInformationInfo_Size is"
    by (simp add: es_def FileDirectoryInformationInfo_enc_def)
  have "FileInformationInfoResponse_Encode es (replicate (FileInformationInfoResponse_Size es) 0) = Some (concat rs)"
    using FileInformationInfoResponse_Encode_loop_eq [OF ok rs(1), of "[]"] by (simp add: FileInformationInfoResponse_Encode_def)
  moreover have "length (concat rs) = FileInformationInfoResponse_Size es"
    by (simp add: length_concat rs(2) FileInformationInfoResponse_Size_def)
  moreover have "entries (concat rs) = Some rs"
    using entries_listed [OF ok _ rs(1)] assms(1) by (simp add: es_def)
  moreover have "list_all2 directory_entry_read is rs"
    using assms(2) rs(1) by (simp add: es_def directory_entries_read)
  ultimately show ?thesis using rs(2) sz by auto
qed

definition sample_entry :: "go_string \<Rightarrow> FileDirectoryInformationInfo" where
  "sample_entry name = \<lparr>FileDirectoryInformationInfo_NextEntryOffset = 0, FileDirectoryInformationInfo_FileIndex = 7,
     FileDirectoryInformationInfo_CreationTime = NsecToFiletime 0, FileDirectoryInformationInfo_LastAccessTime = NsecToFiletime 0,
     FileDirectoryInformationInfo_LastWriteTime = NsecToFiletime 0, FileDirectoryInformationInfo_ChangeTime = NsecToFiletime 0,
     FileDirectoryInformationInfo_EndOfFile = 12, FileDirectoryInformationInfo_AllocationSize = 4096,
     FileDirectoryInformationInfo_FileAttributes = 0x80, FileDirectoryInformationInfo_FileName = name\<rparr>"

theorem directory_listing_read_witness:
  "list_all directory_entry_ok [sample_entry [97, 46, 98], sample_entry [99]] \<and>
   (\<exists>q rs. FileInformationInfoResponse_Encode (map FileDirectoryInformationInfo_enc [sample_entry [97, 46, 98], sample_entry [99]])
       (replicate (FileInformationInfoResponse_Size (map FileDirectoryInformationInfo_enc [sample_entry [97, 46, 98], sample_entry [99]])) 0) = Some q \<and>
     entries q = Some rs \<and> list_all2 directory_entry_read [sample_entry [97, 46, 98], sample_entry [99]] rs)"
proof -
  have "list_all directory_entry_ok [sample_entry [97, 46, 98], sample_entry [99]]"
    by (simp add: directory_entry_ok_def sample_entry_def ascii_wf EncodedStringLen_ascii ascii_string_def)
  then show ?thesis
    using directory_listing_read [of "[sample_entry [97, 46, 98], sample_entry [99]]"] by blast
qed

section \<open>The size of a file system\<close>

lemma shifted_units:
  "(word_of_le ([0, 0] @ take 6 (le_of_word 8 w)) :: u64) = push_bit 16 w" for w :: u64
proof -
  have "bit (word_of_le (take 6 (le_of_word 8 w)) :: u64) k \<longleftrightarrow> bit w k" if "k < 48" for k
    using that by (simp add: bit_word_of_le bit_le_of_word less_mult_imp_div_less)
  then have "push_bit 16 (word_of_le (take 6 (le_of_word 8 w)) :: u64) = push_bit 16 w"
    by (intro bit_word_eqI) (auto simp: bit_simps)
  then show ?thesis by simp
qed

text \<open>C40. The structure of class \<open>FileFsFullSizeInformation\<close> is not read back as it was built: its encoder writes the units actually available at
  offset 18 instead of 16. The encoder never panics and the decoder returns every other field, but the units actually available come back
  shifted left by 16 bits.
\<close>

theorem full_size_misread:
  "\<exists>q. FileFsFullSizeInformationInfo_Encode i (replicate (FileFsFullSizeInformationInfo_Size i) 0) = Some q \<and>
    FileFsFullSizeInformationDecoder_IsInvalid q = False \<and>
    FileFsFullSizeInformationDecoder_TotalAllocationUnits q = Some (FileFsFullSizeInformationInfo_TotalAllocationUnits i) \<and>
    FileFsFullSizeInformationDecoder_CallerAvailableAllocationUnits q = Some (FileFsFullSizeInformationInfo_CallerAvailableAllocationUnits i) \<and>
    FileFsFullSizeInformationDecoder_ActualAvailableAllocationUnits q =
      Some (push_bit 16 (FileFsFullSizeInformationInfo_ActualAvailableAllocationUnits i)) \<and>
    FileFsFullSizeInformationDecoder_SectorsPerAllocationUnit q = Some (FileFsFullSizeInformationInfo_SectorsPerAllocationUnit i) \<and>
    FileFsFullSizeInformationDecoder_BytesPerSector q = Some (FileFsFullSizeInformationInfo_BytesPerSector i)"
proof -
  obtain q where q: "FileFsFullSizeInformationInfo_Encode i (replicate (FileFsFullSizeInformationInfo_Size i) 0) = Some q"
      "length q = 32"
    using FileFsFullSizeInformationInfo.encoded [of i] by (auto simp: FileFsFullSizeInformationInfo_Size_def)
  have "rd 16 8 q = rd 16 2 q @ rd 18 6 q"
    by (simp add: rd_def take_add [of 2 6, simplified] del: take_append)
  also have "rd 16 2 q = [0, 0]"
    using q by (auto simp: FileFsFullSizeInformationInfo_Encode_def FileFsFullSizeInformationInfo_Size_def put32_def put64_def put_def
        go_buf rd_replicate numeral_2_eq_2)
  also have "rd 18 6 q = take 6 (le_of_word 8 (FileFsFullSizeInformationInfo_ActualAvailableAllocationUnits i))"
    using q by (auto simp: FileFsFullSizeInformationInfo_Encode_def FileFsFullSizeInformationInfo_Size_def put32_def put64_def put_def
        rd_upd_before rd_upd_within rd_def [of 0])
  finally have "FileFsFullSizeInformationDecoder_ActualAvailableAllocationUnits q =
      Some (push_bit 16 (FileFsFullSizeInformationInfo_ActualAvailableAllocationUnits i))"
    using q(2) by (simp add: FileFsFullSizeInformationDecoder_ActualAvailableAllocationUnits_def un_at_eqs shifted_units del: append_Cons)
  then show ?thesis
    using q by (auto simp: FileFsFullSizeInformationInfo_Encode_def FileFsFullSizeInformationInfo_Size_def put32_def put64_def put_def
        go_buf un_at_eqs FileFsFullSizeInformationDecoder_IsInvalid_def FileFsFullSizeInformationDecoder_TotalAllocationUnits_def
        FileFsFullSizeInformationDecoder_CallerAvailableAllocationUnits_def
        FileFsFullSizeInformationDecoder_SectorsPerAllocationUnit_def FileFsFullSizeInformationDecoder_BytesPerSector_def)
qed

end
