(* ===== verification/File_Tree.thy ===== *)
theory File_Tree
  imports Server Info_Codec
begin

text \<open>
  \<open>server/file_tree.go\<close>, first part: opening and closing files, flushing, reading and writing, locks, controls, oplock and lease
  acknowledgements and change notification. A handler works on the connection's world; the file system of the share is an argument. A
  handler first reaches its connection through \<open>t.session\<close>, which is nil for a tree that was connected before the login. What a
  handler starts with \<open>go\<close> is a \<open>file_task\<close>, run by a step of its own. The flags of \<open>os.OpenFile\<close> have their Linux values.
\<close>

section \<open>The environment of a handler\<close>

record 'f tree_env =
  te_env :: env
  te_inp :: inp
  te_vfs :: "'f vfs"
  te_regexp :: "go_string \<Rightarrow> go_string \<Rightarrow> bool option"
  te_conn :: nat
  te_tree :: nat
  te_fs :: nat

abbreviation (input) "STATUS_PENDING \<equiv> (0x103 :: u32)"
abbreviation (input) "STATUS_OBJECT_NAME_EXISTS \<equiv> (0x40000000 :: u32)"
abbreviation (input) "STATUS_NO_MORE_FILES \<equiv> (0x80000006 :: u32)"
abbreviation (input) "STATUS_UNSUCCESSFUL \<equiv> (0xC0000001 :: u32)"
abbreviation (input) "STATUS_INVALID_HANDLE \<equiv> (0xC0000008 :: u32)"
abbreviation (input) "STATUS_INVALID_PARAMETER \<equiv> (0xC000000D :: u32)"
abbreviation (input) "STATUS_NO_SUCH_FILE \<equiv> (0xC000000F :: u32)"
abbreviation (input) "STATUS_END_OF_FILE \<equiv> (0xC0000011 :: u32)"
abbreviation (input) "STATUS_BUFFER_TOO_SMALL \<equiv> (0xC0000023 :: u32)"
abbreviation (input) "STATUS_DELETE_PENDING \<equiv> (0xC0000056 :: u32)"
abbreviation (input) "STATUS_DISK_FULL \<equiv> (0xC000007F :: u32)"
abbreviation (input) "STATUS_NOT_SUPPORTED \<equiv> (0xC00000BB :: u32)"
abbreviation (input) "STATUS_DIRECTORY_NOT_EMPTY \<equiv> (0xC0000101 :: u32)"
abbreviation (input) "STATUS_NOT_A_DIRECTORY \<equiv> (0xC0000103 :: u32)"
abbreviation (input) "STATUS_FILE_CLOSED \<equiv> (0xC0000128 :: u32)"
abbreviation (input) "STATUS_OPEN_FAILED \<equiv> (0xC0000136 :: u32)"
abbreviation (input) "STATUS_INVALID_DEVICE_STATE \<equiv> (0xC0000184 :: u32)"
abbreviation (input) "STATUS_IO_DEVICE_ERROR \<equiv> (0xC0000185 :: u32)"
abbreviation (input) "STATUS_NOT_FOUND \<equiv> (0xC0000225 :: u32)"

type_synonym 'f handled = "('f world \<times> compoundContext option \<times> conn_error option) option"

definition tree_of :: "'f tree_env \<Rightarrow> 'f world \<Rightarrow> tree" where
  "tree_of X w = w_trees w ! te_tree X"

text \<open>A call of the file system of the share.\<close>

definition fs_call :: "'f tree_env \<Rightarrow> ('f vfs \<Rightarrow> 'f \<Rightarrow> 'r \<times> 'f) \<Rightarrow> 'f world \<Rightarrow> 'r \<times> 'f world" where
  "fs_call X op w =
     (let d = w_srv w; (r, s) = op (te_vfs X) (srv_fs d (te_fs X)) in (r, w\<lparr>w_srv := d\<lparr>srv_fs := (srv_fs d)(te_fs X := s)\<rparr>\<rparr>))"

definition on_table :: "(open_table \<Rightarrow> open_table) \<Rightarrow> 'f world \<Rightarrow> 'f world" where
  "on_table f w = w\<lparr>w_srv := (w_srv w)\<lparr>srv_table := f (srv_table (w_srv w))\<rparr>\<rparr>"

definition get_open :: "u64 \<Rightarrow> 'f world \<Rightarrow> Open option" where
  "get_open h w = Server_getOpen h (srv_table (w_srv w))"

text \<open>\<open>c.sendPacket(rsp, &t.treeConn, ctx)\<close>\<close>

definition reply :: "'f tree_env \<Rightarrow> packet \<Rightarrow> compoundContext option \<Rightarrow> 'f world \<Rightarrow> 'f handled" where
  "reply X p ctx w = send_packet (te_env X) (te_inp X) p (Some (tree_tc (tree_of X w))) ctx w"

definition reply_error :: "'f tree_env \<Rightarrow> bytes \<Rightarrow> u32 \<Rightarrow> compoundContext option \<Rightarrow> 'f world \<Rightarrow> 'f handled" where
  "reply_error X pkt status ctx w = do {
     h \<leftarrow> PrepareResponse zero_header pkt status;
     reply X (ErrorResponse_packet (error_response h)) ctx w }"

definition reply_async_error :: "'f tree_env \<Rightarrow> bytes \<Rightarrow> u64 \<Rightarrow> u32 \<Rightarrow> compoundContext option \<Rightarrow> 'f world \<Rightarrow> 'f handled" where
  "reply_async_error X pkt asyncId status ctx w = do {
     h \<leftarrow> PrepareAsyncResponse zero_header pkt asyncId status;
     reply X (ErrorResponse_packet (error_response h)) ctx w }"

text \<open>\<open>res, _ := accept(cmd, pkt)\<close>: the error is dropped and a nil slice has no bytes.\<close>

definition accepted :: "u16 \<Rightarrow> bytes \<Rightarrow> bytes option" where
  "accepted cmd pkt = do { (res, _) \<leftarrow> accept cmd pkt; Some (case res of None \<Rightarrow> [] | Some r \<Rightarrow> r) }"

text \<open>The file id of the request, or the one an earlier part of the compound opened.\<close>

definition ctx_fileId :: "compoundContext option \<Rightarrow> FileId \<Rightarrow> FileId" where
  "ctx_fileId ctx f = (case ctx of None \<Rightarrow> f | Some c \<Rightarrow> (case comp_fileId c of None \<Rightarrow> f | Some g \<Rightarrow> g))"

definition request_fileId :: "compoundContext option \<Rightarrow> bytes option \<Rightarrow> FileId option" where
  "request_fileId ctx d = do { b \<leftarrow> d; f \<leftarrow> FileIdDecoder_Decode b; Some (ctx_fileId ctx f) }"

fun statusFromVFSError :: "vfs_error option \<Rightarrow> u32" where
  "statusFromVFSError None = STATUS_SUCCESS"
| "statusFromVFSError (Some VE_NoSpace) = STATUS_DISK_FULL"
| "statusFromVFSError (Some VE_NotExist) = STATUS_OBJECT_NAME_NOT_FOUND"
| "statusFromVFSError (Some VE_Exist) = STATUS_OBJECT_NAME_COLLISION"
| "statusFromVFSError (Some VE_Permission) = STATUS_ACCESS_DENIED"
| "statusFromVFSError (Some VE_BadHandle) = STATUS_INVALID_HANDLE"
| "statusFromVFSError (Some VE_EOF) = STATUS_IO_DEVICE_ERROR"
| "statusFromVFSError (Some VE_Other) = STATUS_IO_DEVICE_ERROR"

definition SetInfo_ok :: "'f tree_env \<Rightarrow> bytes \<Rightarrow> compoundContext option \<Rightarrow> 'f world \<Rightarrow> 'f handled" where
  "SetInfo_ok X pkt ctx w = do {
     h \<leftarrow> PrepareResponse zero_header pkt 0;
     reply X (SetInfoResponse_packet \<lparr>SetInfoResponse_Header = h\<rparr>) ctx w }"

section \<open>Create contexts\<close>

definition create_context :: "go_string \<Rightarrow> encoder \<Rightarrow> encoder" where
  "create_context name d =
     (let c = \<lparr>CreateContext_Name = name, CreateContext_Data = d\<rparr> in \<lparr>enc_Size = CreateContext_Size c, enc_Encode = CreateContext_Encode c\<rparr>)"

definition posixPermsFromVfs :: "Attributes \<Rightarrow> u32" where
  "posixPermsFromVfs a =
     (case Attributes_GetUnixMode a of (mode, ok) \<Rightarrow>
        if ok then mode AND 0xFFF
        else (case Attributes_GetPermissions a of (p, ok) \<Rightarrow> if ok then Permissions_ToMode p else 0x1FF))"

definition posixModeFromVfs :: "Attributes \<Rightarrow> u32 option" where
  "posixModeFromVfs a = do {
     let mode = posixPermsFromVfs a;
     t \<leftarrow> Attributes_GetFileType a;
     Some (case t of FileTypeDirectory \<Rightarrow> mode OR 0x4000 | FileTypeRegularFile \<Rightarrow> mode OR 0x8000 | FileTypeSymlink \<Rightarrow> mode OR 0xA000
       | FileTypeBlockDevice \<Rightarrow> mode OR 0x6000 | FileTypeCharacterDevice \<Rightarrow> mode OR 0x2000 | FileTypeFIFO \<Rightarrow> mode OR 0x1000
       | FileTypeSocket \<Rightarrow> mode OR 0xC000 | _ \<Rightarrow> mode) }"

definition reparseTagFromVfs :: "Attributes \<Rightarrow> u32 option" where
  "reparseTagFromVfs a = do { t \<leftarrow> Attributes_GetFileType a; Some (if t = FileTypeSymlink then IO_REPARSE_TAG_SYMLINK else 0) }"

definition newPosixCreateContextResponse :: "Attributes \<Rightarrow> PosixCreateContextResponse option" where
  "newPosixCreateContextResponse a = do {
     n \<leftarrow> Attributes_GetLinkCount a;
     tag \<leftarrow> reparseTagFromVfs a;
     perms \<leftarrow> posixModeFromVfs a;
     Some \<lparr>PosixCreateContextResponse_NumberOfLinks = n, PosixCreateContextResponse_ReparseTag = tag,
       PosixCreateContextResponse_PosixPerms = perms, PosixCreateContextResponse_OwnerSID = SIDFromUid (fst (Attributes_GetUID a)),
       PosixCreateContextResponse_GroupSID = SIDFromGid (fst (Attributes_GetGID a))\<rparr> }"

definition fileTree_handlePosixCC :: "Attributes \<Rightarrow> encoder option" where
  "fileTree_handlePosixCC a = do {
     r \<leftarrow> newPosixCreateContextResponse a;
     Some (create_context SMB3PosixExtensionsTag
       \<lparr>enc_Size = PosixCreateContextResponse_Size r, enc_Encode = PosixCreateContextResponse_Encode r\<rparr>) }"

text \<open>\<open>attrRoot, _ := t.fs.GetAttr(0)\<close>: where the call fails the attributes are nil and the getter panics.\<close>

definition root_inode :: "'f tree_env \<Rightarrow> 'f world \<Rightarrow> (u64 \<times> 'f world) option" where
  "root_inode X w = do {
     let (r, w) = fs_call X (\<lambda>v. vfs_GetAttr v 0) w;
     i \<leftarrow> (case r of Inl _ \<Rightarrow> None | Inr a \<Rightarrow> Attributes_GetInodeNumber a);
     Some (i, w) }"

definition fileTree_handleQFid :: "'f tree_env \<Rightarrow> Open \<Rightarrow> 'f world \<Rightarrow> (encoder \<times> 'f world) option" where
  "fileTree_handleQFid X o' w = do {
     (i, w) \<leftarrow> root_inode X w;
     let r = \<lparr>DiskIdResponse_DiskFileId = Open_durableFileId o', DiskIdResponse_VolumeId = i\<rparr>;
     Some (create_context (ascii ''QFid'') \<lparr>enc_Size = DiskIdResponse_Size r, enc_Encode = DiskIdResponse_Encode r\<rparr>, w) }"

abbreviation (input) "serverDurableHandleTimeout \<equiv> (60000 :: u32)"
abbreviation (input) "SMB2_DHANDLE_FLAG_PERSISTENT \<equiv> (2 :: u32)"

definition fileTree_handleDH2Q :: "bytes \<Rightarrow> Open \<Rightarrow> (encoder \<times> Open) option" where
  "fileTree_handleDH2Q pkt o' = do {
     t \<leftarrow> DurableHandleRequest2Decoder_Timeout pkt;
     let timeout = (if t = 0 then serverDurableHandleTimeout else t);
     fl \<leftarrow> DurableHandleRequest2Decoder_Flags pkt;
     g \<leftarrow> DurableHandleRequest2Decoder_CreateGuid pkt;
     let p = (fl AND SMB2_DHANDLE_FLAG_PERSISTENT \<noteq> 0);
     let r = \<lparr>DurableHandleResponse2_Timeout = timeout, DurableHandleResponse2_Flags = fl\<rparr>;
     Some (create_context (ascii ''DH2Q'') \<lparr>enc_Size = DurableHandleResponse2_Size r, enc_Encode = DurableHandleResponse2_Encode r\<rparr>,
       o'\<lparr>Open_isPersistent := p, Open_isDurable := p, Open_durableOpenTimeout := timeout,
          Open_createGuid := go_copy (Open_createGuid o') g\<rparr>) }"

definition fileTree_handleRqLs :: "bytes \<Rightarrow> Open \<Rightarrow> (encoder \<times> Open) option" where
  "fileTree_handleRqLs pkt o' =
     (if length pkt = 32 then do {
        key \<leftarrow> LeaseRequestDecoder_LeaseKey pkt;
        st \<leftarrow> LeaseRequestDecoder_LeaseState pkt;
        fl \<leftarrow> LeaseRequestDecoder_LeaseFlags pkt;
        du \<leftarrow> LeaseRequestDecoder_LeaseDuration pkt;
        let r = \<lparr>LeaseResponse_LeaseKey = key, LeaseResponse_LeaseState = st, LeaseResponse_LeaseFlags = fl, LeaseResponse_LeaseDuration = du\<rparr>;
        Some (create_context (ascii ''RqLs'') \<lparr>enc_Size = LeaseResponse_Size r, enc_Encode = LeaseResponse_Encode r\<rparr>,
          o'\<lparr>Open_lease := Some \<lparr>Lease_LeaseKey = key, Lease_LeaseState = st, Lease_LeaseFlags = fl, Lease_LeaseDuration = du,
            Lease_ParentLeaseKey = replicate 16 0, Lease_Epoch = 0, Lease_Version = 1, Lease_Breaking = False, Lease_BreakToState = 0\<rparr>\<rparr>) }
      else do {
        key \<leftarrow> LeaseRequest2Decoder_LeaseKey pkt;
        st \<leftarrow> LeaseRequest2Decoder_LeaseState pkt;
        fl \<leftarrow> LeaseRequest2Decoder_LeaseFlags pkt;
        du \<leftarrow> LeaseRequest2Decoder_LeaseDuration pkt;
        parent \<leftarrow> LeaseRequest2Decoder_ParentLeaseKey pkt;
        epoch \<leftarrow> LeaseRequest2Decoder_Epoch pkt;
        let r = \<lparr>LeaseResponse2_LeaseResponse = \<lparr>LeaseResponse_LeaseKey = key, LeaseResponse_LeaseState = st, LeaseResponse_LeaseFlags = fl,
            LeaseResponse_LeaseDuration = du\<rparr>, LeaseResponse2_ParentLeaseKey = parent, LeaseResponse2_Epoch = 1\<rparr>;
        Some (create_context (ascii ''RqLs'') \<lparr>enc_Size = LeaseResponse2_Size r, enc_Encode = LeaseResponse2_Encode r\<rparr>,
          o'\<lparr>Open_lease := Some \<lparr>Lease_LeaseKey = key, Lease_LeaseState = st, Lease_LeaseFlags = fl, Lease_LeaseDuration = du,
            Lease_ParentLeaseKey = parent, Lease_Epoch = epoch, Lease_Version = 2, Lease_Breaking = False, Lease_BreakToState = 0\<rparr>\<rparr>) })"

abbreviation (input) "AAPL_SERVER_QUERY \<equiv> (1 :: u32)"

text \<open>\<open>Some None\<close> is the error return: the context is left out of the response.\<close>

definition fileTree_handleAAPLCC :: "bytes \<Rightarrow> encoder option option" where
  "fileTree_handleAAPLCC pkt = do {
     cmd \<leftarrow> AAPLServerQueryRequestDecoder_CommandCode pkt;
     if cmd = AAPL_SERVER_QUERY then do {
       let r = \<lparr>AAPLServerQueryResponse_CommandCode = AAPL_SERVER_QUERY, AAPLServerQueryResponse_Reserved = 0,
         AAPLServerQueryResponse_ReplyBitmap = 7, AAPLServerQueryResponse_ServerCaps = 0xD, AAPLServerQueryResponse_VolumeCaps = 4,
         AAPLServerQueryResponse_ModelString = ascii ''CloudMachine''\<rparr>;
       Some (Some (create_context (ascii ''AAPL'')
         \<lparr>enc_Size = AAPLServerQueryResponse_Size r, enc_Encode = AAPLServerQueryResponse_Encode r\<rparr>)) }
     else Some None }"

definition fileTree_handleMaxAccessCC :: "Attributes \<Rightarrow> encoder" where
  "fileTree_handleMaxAccessCC a =
     (let r = \<lparr>CreateContextMaximalAccessResponse_QueryStatus = 0, CreateContextMaximalAccessResponse_MaximalAccess = MaxAccessFromVfs a\<rparr> in
      create_context (ascii ''MxAc'')
        \<lparr>enc_Size = CreateContextMaximalAccessResponse_Size r, enc_Encode = CreateContextMaximalAccessResponse_Encode r\<rparr>)"

section \<open>Create\<close>

abbreviation (input) "FILE_SUPERSEDE \<equiv> (0 :: u32)"
abbreviation (input) "FILE_OPEN \<equiv> (1 :: u32)"
abbreviation (input) "FILE_CREATE \<equiv> (2 :: u32)"
abbreviation (input) "FILE_OPEN_IF \<equiv> (3 :: u32)"
abbreviation (input) "FILE_OVERWRITE \<equiv> (4 :: u32)"
abbreviation (input) "FILE_OVERWRITE_IF \<equiv> (5 :: u32)"

abbreviation (input) "FILE_SUPERSEDED \<equiv> (0 :: u32)"
abbreviation (input) "FILE_OPENED \<equiv> (1 :: u32)"
abbreviation (input) "FILE_CREATED \<equiv> (2 :: u32)"
abbreviation (input) "FILE_OVERWRITTEN \<equiv> (3 :: u32)"

abbreviation (input) "FILE_DIRECTORY_FILE \<equiv> (0x1 :: u32)"
abbreviation (input) "FILE_DELETE_ON_CLOSE \<equiv> (0x1000 :: u32)"
abbreviation (input) "FILE_OPEN_REPARSE_POINT \<equiv> (0x200000 :: u32)"

abbreviation (input) "O_RDWR \<equiv> (0x2 :: u32)"
abbreviation (input) "O_SHLOCK \<equiv> (0x10 :: u32)"
abbreviation (input) "O_EXLOCK \<equiv> (0x20 :: u32)"
abbreviation (input) "O_CREATE \<equiv> (0x40 :: u32)"
abbreviation (input) "O_EXCL \<equiv> (0x80 :: u32)"
abbreviation (input) "O_TRUNC \<equiv> (0x200 :: u32)"
abbreviation (input) "O_SYMLINK \<equiv> (0x200000 :: u32)"

text \<open>\<open>decodeCreatePosixPerms\<close>: the first POSIX context decides; a context whose link is 0 is the last one.\<close>

function posix_perms_loop :: "bytes \<Rightarrow> (u32 \<times> bool) option" where
  "posix_perms_loop cc =
     (if cc = [] then Some (0, False)
      else do {
        name \<leftarrow> CreateContextDecoder_Name cc;
        if name = SMB3PosixExtensionsTag then do {
          buf \<leftarrow> CreateContextDecoder_Buffer cc;
          if 4 \<le> length buf then do { p \<leftarrow> u32_at buf 0; Some (p AND 0xFFF, True) } else Some (0, False) }
        else do {
          nxt \<leftarrow> CreateContextDecoder_Next cc;
          if nxt = 0 then Some (0, False)
          else do { cc' \<leftarrow> go_slice_from cc (unat nxt); posix_perms_loop cc' } } })"
  by auto
termination
  by (relation "measure length") (auto simp: go_slice_from_def unat_gt_0 split: if_splits intro!: diff_less)

declare posix_perms_loop.simps [simp del]

definition fileTree_decodeCreatePosixPerms :: "bool \<Rightarrow> bytes \<Rightarrow> (u32 \<times> bool) option" where
  "fileTree_decodeCreatePosixPerms posix r =
     (if \<not> posix then Some (0, False) else do { cc \<leftarrow> CreateRequestDecoder_CreateContexts r; posix_perms_loop cc })"

text \<open>The switch on the disposition: a status to refuse with, or the action, the flags and whether the directory is made.\<close>

definition create_disposition :: "u32 \<Rightarrow> bool \<Rightarrow> bool \<Rightarrow> u32 + u32 \<times> u32 \<times> bool" where
  "create_disposition d fileExists createDir =
     (if d = FILE_OPEN_IF then Inr (if fileExists then FILE_OPENED else FILE_CREATED, O_CREATE, \<not> fileExists \<and> createDir)
      else if d = FILE_OPEN then (if \<not> fileExists then Inl STATUS_NO_SUCH_FILE else Inr (FILE_OPENED, 0, False))
      else if d = FILE_CREATE then
        (if fileExists then Inl STATUS_OBJECT_NAME_COLLISION else Inr (FILE_CREATED, O_CREATE OR O_EXCL, createDir))
      else if d = FILE_OVERWRITE then
        (if \<not> fileExists then Inl STATUS_NO_SUCH_FILE else Inr (FILE_OVERWRITTEN, O_CREATE OR O_TRUNC, False))
      else if d = FILE_OVERWRITE_IF then Inr (if fileExists then FILE_OVERWRITTEN else FILE_CREATED, O_CREATE OR O_TRUNC, False)
      else if d = FILE_SUPERSEDE then Inr (if fileExists then FILE_SUPERSEDED else FILE_CREATED, O_CREATE, False)
      else Inr (FILE_OPENED, 0, False))"

definition create_oplock :: "u8 \<Rightarrow> u8 \<times> OpLockState \<times> u32" where
  "create_oplock level =
     (if level = SMB2_OPLOCK_LEVEL_II then (level, LOCKSTATE_HELD, O_SHLOCK)
      else if level = SMB2_OPLOCK_LEVEL_EXCLUSIVE then (level, LOCKSTATE_HELD, O_EXLOCK)
      else if level = SMB2_OPLOCK_LEVEL_LEASE then (level, LOCKSTATE_HELD, 0)
      else (0, LOCKSTATE_NONE, 0))"

definition open_status :: "vfs_error \<Rightarrow> u32" where
  "open_status e = (if e = VE_NotExist then STATUS_OBJECT_PATH_NOT_FOUND else STATUS_ACCESS_DENIED)"

definition has_xattr :: "'f tree_env \<Rightarrow> u64 \<Rightarrow> go_string \<Rightarrow> 'f world \<Rightarrow> vfs_error option \<times> 'f world" where
  "has_xattr X h key w = (let ((_, e), w) = fs_call X (\<lambda>v. vfs_Getxattr v h key None) w in (e, w))"

definition set_xattr :: "'f tree_env \<Rightarrow> u64 \<Rightarrow> go_string \<Rightarrow> bytes \<Rightarrow> 'f world \<Rightarrow> vfs_error option \<times> 'f world" where
  "set_xattr X h key val w = fs_call X (\<lambda>v. vfs_Setxattr v h key val) w"

text \<open>The status of a failed open of an attribute; \<open>None\<close> where \<open>err\<close> is nil. The status found for a missing attribute
  is overwritten when the overwriting call succeeds.\<close>

definition fileTree_handleCreateEA :: "'f tree_env \<Rightarrow> u32 \<Rightarrow> u64 \<Rightarrow> go_string \<Rightarrow> 'f world \<Rightarrow> u32 option \<times> 'f world" where
  "fileTree_handleCreateEA X disp h key w =
     (if disp = FILE_OPEN_IF then
        (let (e, w) = has_xattr X h key w in
         if e = None then (None, w)
         else let (e, w) = set_xattr X h key [] w in (if e = None then None else Some STATUS_OPEN_FAILED, w))
      else if disp = FILE_OPEN then
        (let (e, w) = has_xattr X h key w in (if e = None then None else Some STATUS_OBJECT_NAME_NOT_FOUND, w))
      else if disp = FILE_CREATE then
        (let (e, w) = has_xattr X h key w in
         if e = None then (Some STATUS_OBJECT_NAME_EXISTS, w)
         else let (e, w) = set_xattr X h key [] w in (if e = None then None else Some STATUS_OPEN_FAILED, w))
      else if disp = FILE_OVERWRITE then
        (let (_, w) = has_xattr X h key w; (e, w) = set_xattr X h key [] w in (if e = None then None else Some STATUS_OPEN_FAILED, w))
      else if disp = FILE_SUPERSEDE \<or> disp = FILE_OVERWRITE_IF then
        (let (e, w) = set_xattr X h key [] w in (if e = None then None else Some STATUS_OPEN_FAILED, w))
      else (None, w))"

text \<open>One create context: what it adds to the response and does to the open and the tree.\<close>

definition create_context_step :: "'f tree_env \<Rightarrow> Attributes \<Rightarrow> bytes \<Rightarrow> encoder list \<times> Open \<times> 'f world \<Rightarrow> (encoder list \<times> Open \<times> 'f world) option" where
  "create_context_step X attrs cc st = do {
     let (encs, o', w) = st;
     name \<leftarrow> CreateContextDecoder_Name cc;
     if name = ascii ''MxAc'' then Some (encs @ [fileTree_handleMaxAccessCC attrs], o', w)
     else if name = ascii ''AAPL'' then do {
       let w = w\<lparr>w_trees := (w_trees w)[te_tree X := (tree_of X w)\<lparr>tree_aapl := True\<rparr>]\<rparr>;
       buf \<leftarrow> CreateContextDecoder_Buffer cc;
       e \<leftarrow> fileTree_handleAAPLCC buf;
       Some (case e of None \<Rightarrow> (encs, o', w) | Some e \<Rightarrow> (encs @ [e], o', w)) }
     else if name = SMB3PosixExtensionsTag then
       (if conn_posixExtensions (w_conn w) then do { e \<leftarrow> fileTree_handlePosixCC attrs; Some (encs @ [e], o', w) } else Some (encs, o', w))
     else if name = ascii ''DH2Q'' then do {
       buf \<leftarrow> CreateContextDecoder_Buffer cc;
       (e, o') \<leftarrow> fileTree_handleDH2Q buf o';
       Some (encs @ [e], o', w) }
     else if name = ascii ''RqLs'' then do {
       buf \<leftarrow> CreateContextDecoder_Buffer cc;
       (e, o') \<leftarrow> fileTree_handleRqLs buf o';
       Some (encs @ [e], o', w) }
     else if name = ascii ''QFid'' then do {
       _ \<leftarrow> CreateContextDecoder_Buffer cc;
       (e, w) \<leftarrow> fileTree_handleQFid X o' w;
       Some (encs @ [e], o', w) }
     else Some (encs, o', w) }"

function create_contexts :: "'f tree_env \<Rightarrow> Attributes \<Rightarrow> bytes \<Rightarrow> encoder list \<times> Open \<times> 'f world \<Rightarrow> (encoder list \<times> Open \<times> 'f world) option" where
  "create_contexts X attrs cc st =
     (if cc = [] then Some st
      else do {
        st \<leftarrow> create_context_step X attrs cc st;
        nxt \<leftarrow> CreateContextDecoder_Next cc;
        cc' \<leftarrow> go_slice_from cc (unat nxt);
        if nxt = 0 then Some st else create_contexts X attrs cc' st })"
  by auto
termination
  by (relation "measure (\<lambda>(_, _, cc, _). length cc)") (auto simp: go_slice_from_def unat_gt_0 split: if_splits intro!: diff_less)

declare create_contexts.simps [simp del]

text \<open>What \<open>create\<close> keeps of the request; the contexts are sliced only when they are needed, and that may panic.\<close>

record create_req =
  cr_name :: go_string
  cr_isEA :: bool
  cr_eaKey :: go_string
  cr_options :: u32
  cr_disposition :: u32
  cr_access :: u32
  cr_oplock :: u8
  cr_contexts :: "bytes option"
  cr_mode :: "u32 option"

definition create_request :: "bool \<Rightarrow> bytes \<Rightarrow> create_req option" where
  "create_request posix r = do {
     name \<leftarrow> CreateRequestDecoder_Name r;
     opts \<leftarrow> CreateRequestDecoder_CreateOptions r;
     d \<leftarrow> CreateRequestDecoder_CreateDisposition r;
     let name = (if name = [] then [SLASH] else replace_byte 0x5C [SLASH] name);
     let ea = IsEA name;
     (name, key) \<leftarrow> (if ea then SplitEA name else Some (name, []));
     _ \<leftarrow> CreateRequestDecoder_SmbCreateFlags r;
     (perms, has) \<leftarrow> fileTree_decodeCreatePosixPerms posix r;
     lvl \<leftarrow> CreateRequestDecoder_RequestedOplockLevel r;
     acc \<leftarrow> CreateRequestDecoder_DesiredAccess r;
     Some \<lparr>cr_name = name, cr_isEA = ea, cr_eaKey = key, cr_options = opts, cr_disposition = d, cr_access = acc, cr_oplock = lvl,
       cr_contexts = CreateRequestDecoder_CreateContexts r, cr_mode = (if has \<and> d \<noteq> FILE_OPEN \<and> perms AND 0xFFF \<noteq> 0 then Some (perms AND 0xFFF) else None)\<rparr> }"

text \<open>Opening the file or directory and reading its attributes.\<close>

definition create_flags :: "create_req \<Rightarrow> u32 \<Rightarrow> FileType option \<Rightarrow> u32" where
  "create_flags q flags ft =
     (let flags = flags OR snd (snd (create_oplock (cr_oplock q)));
          flags = (if cr_access q AND (FILE_WRITE_DATA OR FILE_APPEND_DATA OR GENERIC_WRITE) \<noteq> 0 then flags OR O_RDWR else flags);
          flags = (if cr_isEA q then 0 else flags)
      in if ft = Some FileTypeSymlink \<and> cr_options q AND FILE_OPEN_REPARSE_POINT \<noteq> 0 then flags OR O_SYMLINK else flags)"

definition create_open :: "'f tree_env \<Rightarrow> create_req \<Rightarrow> bool \<Rightarrow> u32 \<Rightarrow> FileType option \<Rightarrow> 'f world \<Rightarrow> (vfs_error + u64 \<times> Attributes) \<times> 'f world" where
  "create_open X q isDir flags ft w =
     (let (h, w) = (if isDir then fs_call X (\<lambda>v. vfs_OpenDir v (cr_name q)) w
        else fs_call X (\<lambda>v. vfs_Open v (cr_name q) (create_flags q flags ft) (case cr_mode q of None \<Rightarrow> 0x1A4 | Some m \<Rightarrow> m)) w) in
      case h of
        Inl e \<Rightarrow> (Inl e, w)
      | Inr h \<Rightarrow> (let (a, w) = fs_call X (\<lambda>v. vfs_GetAttr v h) w in
          (case a of Inl e \<Rightarrow> Inl e | Inr a \<Rightarrow> Inr (h, a), w)))"

text \<open>The size reported for an attribute is its length.\<close>

definition create_sizes :: "'f tree_env \<Rightarrow> create_req \<Rightarrow> u64 \<Rightarrow> Attributes \<Rightarrow> 'f world \<Rightarrow> (u64 \<times> u64) \<times> 'f world" where
  "create_sizes X q h a w =
     (if \<not> cr_isEA q then ((SizeFromVfs a, DiskSizeFromVfs a), w)
      else let (((n, _), _), w) = fs_call X (\<lambda>v. vfs_Getxattr v h (cr_eaKey q) None) w in ((of_nat n, of_nat n), w))"

text \<open>The end of \<open>create\<close>: the open, its contexts, its place in the table and in the compound, and the response.\<close>

definition create_finish :: "'f tree_env \<Rightarrow> bytes \<Rightarrow> create_req \<Rightarrow> u32 \<Rightarrow> bool \<Rightarrow> u64 \<Rightarrow> Attributes \<Rightarrow> compoundContext option \<Rightarrow> 'f world \<Rightarrow> 'f handled" where
  "create_finish X pkt q act isSymlink h a ctx w = do {
     node \<leftarrow> Attributes_GetInodeNumber a;
     perms \<leftarrow> PermissionsFromVfs a (cr_name q);
     hdr \<leftarrow> PrepareResponse zero_header pkt 0;
     let ((eof, alloc), w) = create_sizes X q h a w;
     let (lvl, st, _) = create_oplock (cr_oplock q);
     let fid = FileId_SetNodeId node (FileId_SetHandleId h FileId_zero);
     let o' = \<lparr>Open_fileId = FileId_HandleId fid, Open_durableFileId = FileId_NodeId fid, Open_conn = Some (te_conn X),
       Open_treeId = tc_treeId (tree_tc (tree_of X w)), Open_grantedAccess = cr_access q, Open_oplockLevel = lvl, Open_oplockState = st,
       Open_isDurable = False, Open_durableOpenTimeout = 0, Open_pathName = cr_name q, Open_fileName = [], Open_createOptions = cr_options q,
       Open_deleteOnClose = (cr_options q AND FILE_DELETE_ON_CLOSE \<noteq> 0), Open_createDisposition = cr_disposition q,
       Open_fileAttributes = perms, Open_lease = None, Open_notifyReq = None, Open_notifyReqAsyncId = 0, Open_queryDirectoryPending = [],
       Open_queryDirectorySingleName = [], Open_queryDirectorySingleDone = False, Open_isEa = cr_isEA q, Open_eaKey = cr_eaKey q,
       Open_isSymlink = isSymlink, Open_posixSemantics = conn_posixExtensions (w_conn w), Open_createGuid = replicate 16 0,
       Open_isPersistent = False\<rparr>;
     cc \<leftarrow> cr_contexts q;
     (encs, o', w) \<leftarrow> create_contexts X a cc ([], o', w);
     let ctx = map_option (\<lambda>c. c\<lparr>comp_fileId := Some fid\<rparr>) ctx;
     t \<leftarrow> Server_addOpen o' (srv_table (w_srv w));
     reply X (CreateResponse_packet \<lparr>CreateResponse_Header = hdr, CreateResponse_OplockLevel = lvl, CreateResponse_RspFlags = 0,
       CreateResponse_CreateAction = act, CreateResponse_CreationTime = Some (BirthTimeFromVfs a),
       CreateResponse_LastAccessTime = Some (AccessTimeFromVfs a), CreateResponse_LastWriteTime = Some (ModifiedTimeFromVfs a),
       CreateResponse_ChangeTime = Some (ChangeTimeFromVfs a), CreateResponse_AllocationSize = alloc, CreateResponse_EndofFile = eof,
       CreateResponse_FileAttributes = perms, CreateResponse_FileId = Some fid, CreateResponse_Contexts = encs\<rparr>) ctx
       (on_table (\<lambda>_. t) w) }"

text \<open>The part of \<open>create\<close> from the switch on the disposition on.\<close>

definition create_run :: "'f tree_env \<Rightarrow> bytes \<Rightarrow> create_req \<Rightarrow> FileType option \<Rightarrow> compoundContext option \<Rightarrow> 'f world \<Rightarrow> 'f handled" where
  "create_run X pkt q ft ctx w =
     (case create_disposition (cr_disposition q) (ft \<noteq> None) (cr_options q AND FILE_DIRECTORY_FILE \<noteq> 0) of
        Inl status \<Rightarrow> reply_error X pkt status ctx w
      | Inr (act, flags, mkdir) \<Rightarrow>
          let (e, w) = (if mkdir then fs_call X (\<lambda>v. vfs_Mkdir v (cr_name q) (case cr_mode q of None \<Rightarrow> 0x1FF | Some m \<Rightarrow> m)) w
                else (Inr Attributes_new, w));
              isDir = (ft = Some FileTypeDirectory \<or> mkdir) in
          case e of
            Inl e \<Rightarrow> reply_error X pkt (open_status e) ctx w
          | Inr _ \<Rightarrow> (let (r, w) = create_open X q isDir flags ft w in
              case r of
                Inl e \<Rightarrow> reply_error X pkt (open_status e) ctx w
              | Inr (h, a) \<Rightarrow>
                  let (st, w) = (if cr_isEA q then fileTree_handleCreateEA X (cr_disposition q) h (cr_eaKey q) w else (None, w)) in
                  case st of
                    Some st \<Rightarrow> (let (_, w) = fs_call X (\<lambda>v. vfs_Close v h) w in reply_error X pkt st ctx w)
                  | None \<Rightarrow> create_finish X pkt q act
                      (ft = Some FileTypeSymlink \<and> cr_options q AND FILE_OPEN_REPARSE_POINT = 0) h a ctx w))"

definition fileTree_create :: "'f tree_env \<Rightarrow> compoundContext option \<Rightarrow> bytes \<Rightarrow> 'f world \<Rightarrow> 'f handled" where
  "fileTree_create X ctx pkt w = do {
     _ \<leftarrow> tree_session (tree_of X w);
     (res, e) \<leftarrow> accept SMB2_CREATE pkt;
     case e of Some e \<Rightarrow> Some (w, ctx, Some e) | None \<Rightarrow> do {
     r \<leftarrow> res;
     inv \<leftarrow> CreateRequestDecoder_IsInvalid r;
     if inv then Some (w, ctx, Some InvalidRequestError)
     else do {
       q \<leftarrow> create_request (conn_posixExtensions (w_conn w)) r;
       let (attrs, w) = fs_call X (\<lambda>v. vfs_Lookup v 0 (cr_name q)) w;
       (ft, pending) \<leftarrow> (case attrs of
           Inl _ \<Rightarrow> Some (None, False)
         | Inr a \<Rightarrow> do {
             t \<leftarrow> Attributes_GetFileType a;
             node \<leftarrow> Attributes_GetInodeNumber a;
             Some (Some t, Server_isDeletePending node (srv_table (w_srv w))) });
       if pending then reply_error X pkt STATUS_DELETE_PENDING ctx w
       else if ft \<noteq> None \<and> ft \<noteq> Some FileTypeDirectory \<and> cr_options q AND FILE_DIRECTORY_FILE \<noteq> 0
       then reply_error X pkt (if cr_disposition q \<noteq> FILE_CREATE then STATUS_NOT_A_DIRECTORY else STATUS_OBJECT_NAME_COLLISION) ctx w
       else if cr_isEA q \<and> ft = None then reply_error X pkt STATUS_NO_SUCH_FILE ctx w
       else create_run X pkt q ft ctx w } } }"

section \<open>Close and flush\<close>

abbreviation (input) "SMB2_CLOSE_FLAG_POSTQUERY_ATTRIB \<equiv> (1 :: u16)"

definition closePostQueryAttrsAllowed :: "u16 \<Rightarrow> Open option \<Rightarrow> bool" where
  "closePostQueryAttrsAllowed flags o' =
     (if flags AND SMB2_CLOSE_FLAG_POSTQUERY_ATTRIB = 0 then False
      else (case o' of None \<Rightarrow> True | Some o' \<Rightarrow> \<not> Open_posixSemantics o'))"

definition fileTree_applyPosixDelete :: "'f tree_env \<Rightarrow> FileId \<Rightarrow> Open \<Rightarrow> 'f world \<Rightarrow> vfs_error option \<times> 'f world" where
  "fileTree_applyPosixDelete X f o' w =
     (let (e, w) = fs_call X (\<lambda>v. vfs_Unlink v (FileId_HandleId f)) w in
      case e of Some e \<Rightarrow> (Some e, w) | None \<Rightarrow> (None, on_table (Server_setDeletePending (Open_durableFileId o') False) w))"

definition fileTree_applyPosixDeleteOnClose :: "'f tree_env \<Rightarrow> FileId \<Rightarrow> Open option \<Rightarrow> 'f world \<Rightarrow> vfs_error option \<times> Open option \<times> 'f world" where
  "fileTree_applyPosixDeleteOnClose X f o' w =
     (case o' of
        None \<Rightarrow> (None, None, w)
      | Some o' \<Rightarrow>
          if \<not> Open_deleteOnClose o' \<or> \<not> Open_posixSemantics o' then (None, Some o', w)
          else let (e, w) = fileTree_applyPosixDelete X f o' w in
               case e of
                 Some e \<Rightarrow> (Some e, Some o', w)
               | None \<Rightarrow> (let o' = o'\<lparr>Open_deleteOnClose := False\<rparr> in (None, Some o', on_table (set_open o') w)))"

text \<open>The attributes that a close returns when the client asked for them.\<close>

definition close_attributes :: "'f tree_env \<Rightarrow> FileId \<Rightarrow> Open option \<Rightarrow> CloseResponse \<Rightarrow> 'f world \<Rightarrow> (CloseResponse \<times> 'f world) option" where
  "close_attributes X f o' rsp w =
     (let (a, w) = fs_call X (\<lambda>v. vfs_GetAttr v (FileId_HandleId f)) w in
      case a of
        Inl _ \<Rightarrow> Some (rsp, w)
      | Inr a \<Rightarrow> (case o' of
          None \<Rightarrow> Some (rsp, w)
        | Some o' \<Rightarrow> do {
            perms \<leftarrow> PermissionsFromVfs a (Open_pathName o');
            Some (rsp\<lparr>CloseResponse_CloseFlags := SMB2_CLOSE_FLAG_POSTQUERY_ATTRIB, CloseResponse_CreationTime := Some (BirthTimeFromVfs a),
              CloseResponse_LastAccessTime := Some (AccessTimeFromVfs a), CloseResponse_LastWriteTime := Some (ModifiedTimeFromVfs a),
              CloseResponse_ChangeTime := Some (ChangeTimeFromVfs a), CloseResponse_EndofFile := SizeFromVfs a,
              CloseResponse_AllocationSize := DiskSizeFromVfs a, CloseResponse_FileAttributes := perms\<rparr>, w) }))"

text \<open>From the label \<open>send\<close> to the call of \<open>sendPacket\<close>: the open leaves the table, the file goes if it was the last open of a
  file marked for deletion, and the handle is closed; the status of the response is that of the first failure.\<close>

definition close_handle :: "'f tree_env \<Rightarrow> FileId \<Rightarrow> Open option \<Rightarrow> u32 \<Rightarrow> 'f world \<Rightarrow> u32 \<times> 'f world" where
  "close_handle X f o' status w =
     (let (_, o', w) = fileTree_applyPosixDeleteOnClose X f o' w;
          (del, w) = (case o' of None \<Rightarrow> (False, w)
            | Some o' \<Rightarrow> let (del, t) = Server_closeOpen o' (srv_table (w_srv w)) in (del, on_table (\<lambda>_. t) w));
          (status, w) = (if del
            then let (e, w) = fs_call X (\<lambda>v. vfs_Unlink v (FileId_HandleId f)) w in
                 (case e of None \<Rightarrow> status | Some e \<Rightarrow> statusFromVFSError (Some e), w)
            else (status, w));
          (e, w) = fs_call X (\<lambda>v. vfs_Close v (FileId_HandleId f)) w
      in (if e \<noteq> None \<and> status = 0 then statusFromVFSError e else status, w))"

definition fileTree_close :: "'f tree_env \<Rightarrow> compoundContext option \<Rightarrow> bytes \<Rightarrow> 'f world \<Rightarrow> 'f handled" where
  "fileTree_close X ctx pkt w = do {
     _ \<leftarrow> tree_session (tree_of X w);
     (res, e) \<leftarrow> accept SMB2_CLOSE pkt;
     case e of Some e \<Rightarrow> Some (w, ctx, Some e) | None \<Rightarrow> do {
     r \<leftarrow> res;
     inv \<leftarrow> CloseRequestDecoder_IsInvalid r;
     if inv then Some (w, ctx, Some InvalidRequestError)
     else do {
       f \<leftarrow> request_fileId ctx (CloseRequestDecoder_FileId r);
       let status = (case ctx of None \<Rightarrow> 0 | Some c \<Rightarrow> if comp_fileId c \<noteq> None then comp_lastStatus c else 0);
       if IsInvalidFileId (Some f) then reply_error X pkt STATUS_INVALID_HANDLE ctx w
       else do {
         h \<leftarrow> PrepareResponse zero_header pkt 0;
         let o' = get_open (FileId_HandleId f) w;
         fl \<leftarrow> CloseRequestDecoder_Flags r;
         let rsp = \<lparr>CloseResponse_Header = h, CloseResponse_CloseFlags = 0, CloseResponse_CreationTime = None,
           CloseResponse_LastAccessTime = None, CloseResponse_LastWriteTime = None, CloseResponse_ChangeTime = None,
           CloseResponse_AllocationSize = 0, CloseResponse_EndofFile = 0, CloseResponse_FileAttributes = 0\<rparr>;
         (rsp, w) \<leftarrow> (if closePostQueryAttrsAllowed fl o' then close_attributes X f o' rsp w else Some (rsp, w));
         let (status, w) = close_handle X f o' status w;
         (w, ctx, _) \<leftarrow> reply X (CloseResponse_packet (rsp\<lparr>CloseResponse_Header := h\<lparr>hdr_Status := status\<rparr>\<rparr>)) ctx w;
         _ \<leftarrow> (case o' of None \<Rightarrow> Some zero_header | Some o' \<Rightarrow> (case Open_notifyReq o' of None \<Rightarrow> Some zero_header
           | Some q \<Rightarrow> PrepareAsyncResponse zero_header q (Open_notifyReqAsyncId o') STATUS_ACCESS_DENIED));
         Some (w, ctx, None) } } } }"

definition fileTree_flush :: "'f tree_env \<Rightarrow> compoundContext option \<Rightarrow> bytes \<Rightarrow> 'f world \<Rightarrow> 'f handled" where
  "fileTree_flush X ctx pkt w = do {
     _ \<leftarrow> tree_session (tree_of X w);
     r \<leftarrow> accepted SMB2_FLUSH pkt;
     f \<leftarrow> request_fileId ctx (FlushRequestDecoder_FileId r);
     if IsInvalidFileId (Some f) then reply_error X pkt STATUS_INVALID_HANDLE ctx w
     else do {
       let (e, w) = fs_call X (\<lambda>v. vfs_Flush v (FileId_HandleId f)) w;
       if e \<noteq> None then reply_error X pkt (statusFromVFSError e) ctx w
       else do {
         h \<leftarrow> PrepareResponse zero_header pkt 0;
         reply X (FlushResponse_packet \<lparr>FlushResponse_Header = h\<rparr>) ctx w } } }"

section \<open>Read and write\<close>

text \<open>What a handler leaves to a goroutine: reads and writes outside a compound, and the completion of a change notification.\<close>

datatype file_task =
  Task_read bytes FileId Open u64
| Task_write bytes FileId Open u64
| Task_notify bytes u64

type_synonym 'f started = "(('f world \<times> compoundContext option \<times> conn_error option) \<times> file_task option) option"

definition no_task :: "'f handled \<Rightarrow> 'f started" where
  "no_task r = map_option (\<lambda>x. (x, None)) r"

abbreviation (input) "AFP_AfpInfo \<equiv> ascii ''AFP_AfpInfo''"

definition empty_AfpInfo :: AfpInfo where
  "empty_AfpInfo = \<lparr>AfpInfo_Signature = ascii ''AFP_'', AfpInfo_Version = replicate 4 0, AfpInfo_FileBitmap = replicate 2 0,
     AfpInfo_Reserved1 = replicate 2 0, AfpInfo_FinderInfo = replicate 32 0, AfpInfo_ProDOSInfo = replicate 6 0,
     AfpInfo_Reserved2 = replicate 10 0\<rparr>"

text \<open>\<open>buf\<close> is zeroed; \<open>Getxattr\<close> writes into it and reports a length, by which it is then cut.\<close>

definition fileTree_readEA :: "'f tree_env \<Rightarrow> compoundContext option \<Rightarrow> FileId \<Rightarrow> Open \<Rightarrow> nat \<Rightarrow> bytes \<Rightarrow> 'f world \<Rightarrow> 'f handled" where
  "fileTree_readEA X ctx f o' len pkt w = do {
     _ \<leftarrow> tree_session (tree_of X w);
     let (((n, d), e), w) = fs_call X (\<lambda>v. vfs_Getxattr v (FileId_HandleId f) (Open_eaKey o') (Some len)) w;
     let buf = go_copy (replicate len 0) d;
     let status = (if e \<noteq> None then STATUS_ACCESS_DENIED else if n = 0 then STATUS_END_OF_FILE else 0);
     if status \<noteq> 0 \<and> \<not> (Open_eaKey o' = AFP_AfpInfo \<and> len = 60) then reply_error X pkt status ctx w
     else do {
       (buf, n) \<leftarrow> (if status \<noteq> 0 then do { b \<leftarrow> AfpInfo_Encode empty_AfpInfo buf; Some (b, 60) } else Some (buf, n));
       h \<leftarrow> PrepareResponse zero_header pkt 0;
       d \<leftarrow> go_slice buf 0 n;
       reply X (ReadResponse_packet \<lparr>ReadResponse_Header = h, ReadResponse_Data = d, ReadResponse_DataRemaining = 0\<rparr>) ctx w } }"

definition fileTree_readImpl :: "'f tree_env \<Rightarrow> compoundContext option \<Rightarrow> bytes \<Rightarrow> FileId \<Rightarrow> Open \<Rightarrow> u64 \<Rightarrow> 'f world \<Rightarrow> 'f handled" where
  "fileTree_readImpl X ctx pkt f o' asyncId w = do {
     _ \<leftarrow> tree_session (tree_of X w);
     r \<leftarrow> accepted SMB2_READ pkt;
     len \<leftarrow> ReadRequestDecoder_Length r;
     if Open_isEa o' then fileTree_readEA X ctx f o' (unat len) pkt w
     else do {
       off \<leftarrow> ReadRequestDecoder_Offset r;
       let ((d, e), w) = fs_call X (\<lambda>v. vfs_Read v (FileId_HandleId f) (unat len) off) w;
       if e \<noteq> None \<and> d = []
       then reply_async_error X pkt asyncId (if e = Some VE_EOF then STATUS_END_OF_FILE else statusFromVFSError e) ctx w
       else do {
         h \<leftarrow> PrepareAsyncResponse zero_header pkt asyncId 0;
         _ \<leftarrow> go_slice (replicate (unat len) (0 :: u8)) 0 (length d);
         reply X (ReadResponse_packet \<lparr>ReadResponse_Header = h, ReadResponse_Data = d, ReadResponse_DataRemaining = 0\<rparr>) ctx w } } }"

definition fileTree_read :: "'f tree_env \<Rightarrow> compoundContext option \<Rightarrow> bytes \<Rightarrow> 'f world \<Rightarrow> 'f started" where
  "fileTree_read X ctx pkt w = do {
     _ \<leftarrow> tree_session (tree_of X w);
     r \<leftarrow> accepted SMB2_READ pkt;
     f \<leftarrow> request_fileId ctx (ReadRequestDecoder_FileId r);
     if IsInvalidFileId (Some f) then no_task (reply_error X pkt STATUS_INVALID_HANDLE ctx w)
     else (case get_open (FileId_HandleId f) w of
         None \<Rightarrow> no_task (reply_error X pkt STATUS_INVALID_HANDLE ctx w)
       | Some o' \<Rightarrow>
           if ctx \<noteq> None \<or> Open_isEa o' then no_task (fileTree_readImpl X ctx pkt f o' 0 w)
           else Some ((w, ctx, None), Some (Task_read pkt f o' (in_rand64 (te_inp X))))) }"

definition fileTree_writeImpl :: "'f tree_env \<Rightarrow> compoundContext option \<Rightarrow> bytes \<Rightarrow> FileId \<Rightarrow> Open \<Rightarrow> u64 \<Rightarrow> 'f world \<Rightarrow> 'f handled" where
  "fileTree_writeImpl X ctx pkt f o' asyncId w = do {
     _ \<leftarrow> tree_session (tree_of X w);
     r \<leftarrow> accepted SMB2_WRITE pkt;
     d \<leftarrow> WriteRequestDecoder_Data r;
     off \<leftarrow> WriteRequestDecoder_Offset r;
     fl \<leftarrow> WriteRequestDecoder_Flags r;
     let ((n, e), w) =
       (if Open_isEa o'
        then let (e, w) = fs_call X (\<lambda>v. vfs_Setxattr v (FileId_HandleId f) (Open_eaKey o') d) w in ((if e = None then length d else 0, e), w)
        else fs_call X (\<lambda>v. vfs_Write v (FileId_HandleId f) d off fl) w);
     if e \<noteq> None \<or> n = 0 then reply_async_error X pkt asyncId (statusFromVFSError e) ctx w
     else do {
       h \<leftarrow> PrepareAsyncResponse zero_header pkt asyncId 0;
       reply X (WriteResponse_packet \<lparr>WriteResponse_Header = h, WriteResponse_Count = of_nat n, WriteResponse_Remaining = 0\<rparr>) ctx w } }"

definition fileTree_write :: "'f tree_env \<Rightarrow> compoundContext option \<Rightarrow> bytes \<Rightarrow> 'f world \<Rightarrow> 'f started" where
  "fileTree_write X ctx pkt w = do {
     _ \<leftarrow> tree_session (tree_of X w);
     r \<leftarrow> accepted SMB2_WRITE pkt;
     f \<leftarrow> request_fileId ctx (WriteRequestDecoder_FileId r);
     if IsInvalidFileId (Some f) then no_task (reply_error X pkt STATUS_INVALID_HANDLE ctx w)
     else (case get_open (FileId_HandleId f) w of
         None \<Rightarrow> no_task (reply_error X pkt STATUS_INVALID_HANDLE ctx w)
       | Some o' \<Rightarrow>
           if ctx \<noteq> None \<or> Open_isEa o' then no_task (fileTree_writeImpl X ctx pkt f o' 0 w)
           else Some ((w, ctx, None), Some (Task_write pkt f o' (in_rand64 (te_inp X))))) }"

section \<open>Lock, cancel and controls\<close>

definition fileTree_lock :: "'f tree_env \<Rightarrow> compoundContext option \<Rightarrow> bytes \<Rightarrow> 'f world \<Rightarrow> 'f handled" where
  "fileTree_lock X ctx pkt w = do {
     _ \<leftarrow> tree_session (tree_of X w);
     h \<leftarrow> PrepareResponse zero_header pkt 0;
     reply X (LockResponse_packet \<lparr>LockResponse_Header = h\<rparr>) ctx w }"

definition fileTree_cancel :: "'f tree_env \<Rightarrow> compoundContext option \<Rightarrow> bytes \<Rightarrow> 'f world \<Rightarrow> 'f handled" where
  "fileTree_cancel X ctx pkt w = do { _ \<leftarrow> tree_session (tree_of X w); reply_error X pkt STATUS_NOT_SUPPORTED ctx w }"

abbreviation (input) "FSCTL_SET_REPARSE_POINT \<equiv> (0x900A4 :: u32)"
abbreviation (input) "FSCTL_GET_REPARSE_POINT \<equiv> (0x900A8 :: u32)"
abbreviation (input) "FSCTL_DELETE_REPARSE_POINT \<equiv> (0x900AC :: u32)"
abbreviation (input) "FSCTL_CREATE_OR_GET_OBJECT_ID \<equiv> (0x900C0 :: u32)"
abbreviation (input) "FSCTL_QUERY_NETWORK_INTERFACE_INFO \<equiv> (0x1401FC :: u32)"
abbreviation (input) "SYMLINK_FLAG_RELATIVE \<equiv> (1 :: u32)"

definition ioctl_reply :: "'f tree_env \<Rightarrow> bytes \<Rightarrow> u32 \<Rightarrow> FileId \<Rightarrow> encoder option \<Rightarrow> compoundContext option \<Rightarrow> 'f world \<Rightarrow> 'f handled" where
  "ioctl_reply X pkt code f out ctx w = do {
     h \<leftarrow> PrepareResponse zero_header pkt 0;
     reply X (IoctlResponse_packet \<lparr>IoctlResponse_Header = h, IoctlResponse_CtlCode = code, IoctlResponse_FileId = Some f,
       IoctlResponse_Flags2 = 0, IoctlResponse_Input = None, IoctlResponse_Output = out\<rparr>) ctx w }"

definition fileTree_handleReparsePointReq :: "'f tree_env \<Rightarrow> compoundContext option \<Rightarrow> bytes \<Rightarrow> 'f world \<Rightarrow> 'f handled" where
  "fileTree_handleReparsePointReq X ctx pkt w = do {
     _ \<leftarrow> tree_session (tree_of X w);
     r \<leftarrow> accepted SMB2_IOCTL pkt;
     rd' \<leftarrow> IoctlRequestDecoder_Data r;
     inv \<leftarrow> SymbolicLinkReparseDataBufferDecoder_IsInvalid rd';
     if inv then do { _ \<leftarrow> SymbolicLinkReparseDataBufferDecoder_ReparseTag rd'; reply_error X pkt STATUS_NOT_SUPPORTED ctx w }
     else do {
       f \<leftarrow> request_fileId ctx (IoctlRequestDecoder_FileId r);
       if IsInvalidFileId (Some f) then reply_error X pkt STATUS_INVALID_HANDLE ctx w
       else do {
         name \<leftarrow> SymbolicLinkReparseDataBufferDecoder_SubstituteName rd';
         fl \<leftarrow> SymbolicLinkReparseDataBufferDecoder_Flags rd';
         let (a, w) = fs_call X (\<lambda>v. vfs_Symlink v (FileId_HandleId f) (replace_byte 0x5C [SLASH] name) fl) w;
         case a of
           Inl _ \<Rightarrow> reply_error X pkt STATUS_ACCESS_DENIED ctx w
         | Inr _ \<Rightarrow> ioctl_reply X pkt FSCTL_SET_REPARSE_POINT f None ctx w } } }"

text \<open>\<open>path.IsAbs\<close> looks at the target after its separators have been replaced.\<close>

definition path_IsAbs :: "go_string \<Rightarrow> bool" where
  "path_IsAbs p \<longleftrightarrow> p \<noteq> [] \<and> hd p = SLASH"

definition reparse_data :: "go_string \<Rightarrow> SymbolicLinkReparseDataBuffer" where
  "reparse_data l =
     (let l = replace_byte SLASH [0x5C] l in
      \<lparr>SymbolicLinkReparseDataBuffer_Flags = (if \<not> path_IsAbs l then SYMLINK_FLAG_RELATIVE else 0),
       SymbolicLinkReparseDataBuffer_SubstituteName = l, SymbolicLinkReparseDataBuffer_PrintName = l\<rparr>)"

definition fileTree_handleGetReparsePointReq :: "'f tree_env \<Rightarrow> compoundContext option \<Rightarrow> bytes \<Rightarrow> 'f world \<Rightarrow> 'f handled" where
  "fileTree_handleGetReparsePointReq X ctx pkt w = do {
     _ \<leftarrow> tree_session (tree_of X w);
     r \<leftarrow> accepted SMB2_IOCTL pkt;
     f \<leftarrow> request_fileId ctx (IoctlRequestDecoder_FileId r);
     if IsInvalidFileId (Some f) then reply_error X pkt STATUS_INVALID_HANDLE ctx w
     else do {
       let (l, w) = fs_call X (\<lambda>v. vfs_Readlink v (FileId_HandleId f)) w;
       case l of
         Inl _ \<Rightarrow> reply_error X pkt STATUS_ACCESS_DENIED ctx w
       | Inr l \<Rightarrow> (let d = reparse_data l in
           ioctl_reply X pkt FSCTL_GET_REPARSE_POINT f
             (Some \<lparr>enc_Size = SymbolicLinkReparseDataBuffer_Size d, enc_Encode = SymbolicLinkReparseDataBuffer_Encode d\<rparr>) ctx w) } }"

text \<open>The response carries the code of the request for reading, not for deleting.\<close>

definition fileTree_handleDeleteReparsePointReq :: "'f tree_env \<Rightarrow> compoundContext option \<Rightarrow> bytes \<Rightarrow> 'f world \<Rightarrow> 'f handled" where
  "fileTree_handleDeleteReparsePointReq X ctx pkt w = do {
     _ \<leftarrow> tree_session (tree_of X w);
     r \<leftarrow> accepted SMB2_IOCTL pkt;
     f \<leftarrow> request_fileId ctx (IoctlRequestDecoder_FileId r);
     if IsInvalidFileId (Some f) then reply_error X pkt STATUS_INVALID_HANDLE ctx w
     else do {
       let (e, w) = fs_call X (\<lambda>v. vfs_Unlink v (FileId_HandleId f)) w;
       if e \<noteq> None then reply_error X pkt STATUS_ACCESS_DENIED ctx w
       else ioctl_reply X pkt FSCTL_GET_REPARSE_POINT f None ctx w } }"

definition fileTree_handleCreateOrGetObjectId :: "'f tree_env \<Rightarrow> compoundContext option \<Rightarrow> bytes \<Rightarrow> 'f world \<Rightarrow> 'f handled" where
  "fileTree_handleCreateOrGetObjectId X ctx pkt w = do {
     _ \<leftarrow> tree_session (tree_of X w);
     r \<leftarrow> accepted SMB2_IOCTL pkt;
     f \<leftarrow> request_fileId ctx (IoctlRequestDecoder_FileId r);
     if IsInvalidFileId (Some f) then reply_error X pkt STATUS_INVALID_HANDLE ctx w
     else do {
       (node, w) \<leftarrow> root_inode X w;
       let i = \<lparr>FileObjectId1_ObjectId = FileId_zero\<lparr>FileId_Persistent := FileId_Persistent f\<rparr>,
         FileObjectId1_BirthVolumeId = FileId_zero\<lparr>FileId_Persistent := le_of_word 8 node\<rparr>,
         FileObjectId1_BirthObjectId = FileId_zero\<lparr>FileId_Persistent := FileId_Persistent f\<rparr>, FileObjectId1_DomainId = FileId_zero\<rparr>;
       ioctl_reply X pkt FSCTL_CREATE_OR_GET_OBJECT_ID f (Some \<lparr>enc_Size = FileObjectId1_Size i, enc_Encode = FileObjectId1_Encode i\<rparr>) ctx w } }"

definition network_interfaces :: "NetworkInterfaceInfo list" where
  "network_interfaces = [\<lparr>NetworkInterfaceInfo_Next = 0, NetworkInterfaceInfo_IfIndex = 1, NetworkInterfaceInfo_Capability = 0,
     NetworkInterfaceInfo_LinkSpeed = 1000000000, NetworkInterfaceInfo_IPv4 = [127, 0, 0, 1]\<rparr>]"

definition fileTree_handleQueryNetworkInterfaceInfo :: "'f tree_env \<Rightarrow> compoundContext option \<Rightarrow> bytes \<Rightarrow> 'f world \<Rightarrow> 'f handled" where
  "fileTree_handleQueryNetworkInterfaceInfo X ctx pkt w = do {
     _ \<leftarrow> tree_session (tree_of X w);
     r \<leftarrow> accepted SMB2_IOCTL pkt;
     f \<leftarrow> request_fileId None (IoctlRequestDecoder_FileId r);
     ioctl_reply X pkt FSCTL_QUERY_NETWORK_INTERFACE_INFO f
       (Some \<lparr>enc_Size = NetworkInterfaceInfoList_Size network_interfaces, enc_Encode = NetworkInterfaceInfoList_Encode network_interfaces\<rparr>)
       ctx w }"

definition fileTree_ioctl :: "'f tree_env \<Rightarrow> compoundContext option \<Rightarrow> bytes \<Rightarrow> 'f world \<Rightarrow> 'f handled" where
  "fileTree_ioctl X ctx pkt w = do {
     _ \<leftarrow> tree_session (tree_of X w);
     r \<leftarrow> accepted SMB2_IOCTL pkt;
     code \<leftarrow> IoctlRequestDecoder_CtlCode r;
     if code = FSCTL_SET_REPARSE_POINT then fileTree_handleReparsePointReq X ctx pkt w
     else if code = FSCTL_GET_REPARSE_POINT then fileTree_handleGetReparsePointReq X ctx pkt w
     else if code = FSCTL_DELETE_REPARSE_POINT then fileTree_handleDeleteReparsePointReq X ctx pkt w
     else if code = FSCTL_CREATE_OR_GET_OBJECT_ID then fileTree_handleCreateOrGetObjectId X ctx pkt w
     else if code = FSCTL_QUERY_NETWORK_INTERFACE_INFO then fileTree_handleQueryNetworkInterfaceInfo X ctx pkt w
     else reply_error X pkt STATUS_NOT_SUPPORTED ctx w }"

section \<open>Change notification\<close>

definition fileTree_changeNotify :: "'f tree_env \<Rightarrow> compoundContext option \<Rightarrow> bytes \<Rightarrow> 'f world \<Rightarrow> 'f started" where
  "fileTree_changeNotify X ctx pkt w = do {
     _ \<leftarrow> tree_session (tree_of X w);
     r \<leftarrow> accepted SMB2_CHANGE_NOTIFY pkt;
     f \<leftarrow> request_fileId ctx (ChangeNotifyRequestDecoder_FileId r);
     if IsInvalidFileId (Some f) then no_task (reply_error X pkt STATUS_ACCESS_DENIED ctx w)
     else (case get_open (FileId_HandleId f) w of
         None \<Rightarrow> no_task (reply_error X pkt STATUS_INVALID_HANDLE ctx w)
       | Some o' \<Rightarrow> do {
           let asyncId = in_rand64 (te_inp X);
           (w, ctx, e) \<leftarrow> reply_async_error X pkt asyncId STATUS_PENDING ctx w;
           case e of
             Some e \<Rightarrow> Some ((w, ctx, Some e), None)
           | None \<Rightarrow> Some ((on_table (set_open (o'\<lparr>Open_notifyReqAsyncId := asyncId, Open_notifyReq := Some pkt\<rparr>)) w, ctx, None),
               Some (Task_notify pkt (FileId_HandleId f))) }) }"

text \<open>The goroutines. A waiting notification refers to its open by the handle: a handle is taken not to be given out again within the
  five seconds. A read or a write first announces that it is pending; what it then returns goes nowhere.\<close>

definition fileTree_pending :: "'f tree_env \<Rightarrow> file_task \<Rightarrow> 'f world \<Rightarrow> 'f handled" where
  "fileTree_pending X t w =
     (case t of
        Task_read pkt f o' asyncId \<Rightarrow> reply_async_error X pkt asyncId STATUS_PENDING None w
      | Task_write pkt f o' asyncId \<Rightarrow> reply_async_error X pkt asyncId STATUS_PENDING None w
      | Task_notify pkt h \<Rightarrow> Some (w, None, None))"

definition fileTree_task :: "'f tree_env \<Rightarrow> file_task \<Rightarrow> compoundContext option \<Rightarrow> 'f world \<Rightarrow> 'f handled" where
  "fileTree_task X t ctx w =
     (case t of
        Task_read pkt f o' asyncId \<Rightarrow> fileTree_readImpl X None pkt f o' asyncId w
      | Task_write pkt f o' asyncId \<Rightarrow> fileTree_writeImpl X None pkt f o' asyncId w
      | Task_notify pkt h \<Rightarrow>
          (case get_open h w of
             None \<Rightarrow> Some (w, ctx, None)
           | Some o' \<Rightarrow> reply_async_error X pkt (Open_notifyReqAsyncId o') STATUS_ACCESS_DENIED ctx
               (on_table (set_open (o'\<lparr>Open_notifyReq := None\<rparr>)) w)))"

section \<open>Acknowledging a break\<close>

abbreviation (input) "SMB2_OPLOCK_BREAK_ACK_SIZE \<equiv> (24 :: u16)"
abbreviation (input) "SMB2_LEASE_BREAK_ACK_SIZE \<equiv> (36 :: u16)"

text \<open>The iteration over the map of opens stops at the first open with the key; the order of a map is not fixed, so \<open>pick\<close> says
  which of them comes first.\<close>

definition find_lease :: "nat \<Rightarrow> bytes \<Rightarrow> open_table \<Rightarrow> (Open \<times> Lease) option" where
  "find_lease pick key t =
     (let os = List.map_filter (\<lambda>(_, o'). case Open_lease o' of None \<Rightarrow> None
            | Some l \<Rightarrow> if Lease_LeaseKey l = key then Some (o', l) else None) (tab_opens t)
      in if os = [] then None else Some (os ! (pick mod length os)))"

definition oplock_break_ack :: "'f tree_env \<Rightarrow> compoundContext option \<Rightarrow> bytes \<Rightarrow> bytes \<Rightarrow> 'f world \<Rightarrow> 'f handled" where
  "oplock_break_ack X ctx pkt r w = do {
     inv \<leftarrow> OplockBreakAcknowledgmentDecoder_IsInvalid r;
     if inv then Some (w, ctx, Some InvalidRequestError)
     else do {
       f \<leftarrow> request_fileId None (OplockBreakAcknowledgmentDecoder_FileId r);
       let o' = get_open (FileId_HandleId f) w;
       case o' of
         None \<Rightarrow> reply_error X pkt STATUS_FILE_CLOSED ctx w
       | Some o' \<Rightarrow>
           if Open_durableFileId o' \<noteq> FileId_NodeId f then reply_error X pkt STATUS_FILE_CLOSED ctx w
           else if Open_oplockState o' \<noteq> LOCKSTATE_BREAKING then reply_error X pkt STATUS_INVALID_DEVICE_STATE ctx w
           else do {
             lvl \<leftarrow> OplockBreakAcknowledgmentDecoder_OplockLevel r;
             h \<leftarrow> PrepareResponse zero_header pkt 0;
             reply X (OplockBreakResponse_packet \<lparr>OplockBreakResponse_Header = h, OplockBreakResponse_OplockLevel = lvl,
               OplockBreakResponse_FileId = Some f\<rparr>) ctx (on_table (set_open (oplock_ack lvl o')) w) } } }"

definition lease_break_ack :: "'f tree_env \<Rightarrow> nat \<Rightarrow> compoundContext option \<Rightarrow> bytes \<Rightarrow> bytes \<Rightarrow> 'f world \<Rightarrow> 'f handled" where
  "lease_break_ack X pick ctx pkt r w = do {
     inv \<leftarrow> LeaseBreakAcknowledgmentDecoder_IsInvalid r;
     if inv then Some (w, ctx, Some InvalidRequestError)
     else do {
       key \<leftarrow> LeaseBreakAcknowledgmentDecoder_LeaseKey r;
       case find_lease pick key (srv_table (w_srv w)) of
         None \<Rightarrow> reply_error X pkt STATUS_OBJECT_NAME_NOT_FOUND ctx w
       | Some (o', l) \<Rightarrow>
           if \<not> Lease_Breaking l then reply_error X pkt STATUS_UNSUCCESSFUL ctx w
           else do {
             state \<leftarrow> LeaseBreakAcknowledgmentDecoder_LeaseState r;
             h \<leftarrow> PrepareResponse zero_header pkt 0;
             reply X (LeaseBreakResponse_packet \<lparr>LeaseBreakResponse_Header = h, LeaseBreakResponse_LeaseKey = Lease_LeaseKey l,
               LeaseBreakResponse_LeaseState = state, LeaseBreakResponse_LeaseDuration = 0\<rparr>) ctx
               (on_table (set_open (lease_ack state l o')) w) } } }"

definition fileTree_oplockBreak :: "'f tree_env \<Rightarrow> nat \<Rightarrow> compoundContext option \<Rightarrow> bytes \<Rightarrow> 'f world \<Rightarrow> 'f handled" where
  "fileTree_oplockBreak X pick ctx pkt w = do {
     _ \<leftarrow> tree_session (tree_of X w);
     (res, e) \<leftarrow> accept SMB2_OPLOCK_BREAK pkt;
     case e of Some e \<Rightarrow> Some (w, ctx, Some e) | None \<Rightarrow> do {
     r \<leftarrow> res;
     n \<leftarrow> u16_at r 0;
     if n = SMB2_OPLOCK_BREAK_ACK_SIZE then oplock_break_ack X ctx pkt r w
     else if n = SMB2_LEASE_BREAK_ACK_SIZE then lease_break_ack X pick ctx pkt r w
     else reply_error X pkt STATUS_NOT_SUPPORTED ctx w } }"

end
