(* ===== verification/Server_Session.thy ===== *)
theory Server_Session
  imports Server Smb2_Request_Codec
begin

text \<open>
  What the handlers of \<open>Server\<close> do for a client: the dialect a negotiation ends with, the login over two session setup
  requests with the keys both ends hold after it, the references of tree connections, and the requests that end the process.
\<close>

section \<open>Requests and responses on the wire\<close>

text \<open>A request as a handler sees it: a complete header that is not marked as a response, and the body behind it.\<close>

definition is_request :: "u16 \<Rightarrow> PacketHeader \<Rightarrow> bytes \<Rightarrow> bool" where
  "is_request cmd h pkt \<longleftrightarrow> 64 \<le> length pkt \<and> header_reads (h\<lparr>hdr_Command := cmd\<rparr>) pkt \<and>
     hdr_Flags h AND SMB2_FLAGS_SERVER_TO_REDIR = 0"

lemma is_request_accept: "is_request cmd h pkt \<Longrightarrow> accept cmd pkt = Some (Some (drop 64 pkt), None)"
  by (simp add: is_request_def header_reads_def accept_def PacketCodec_Data_def go_slice_from_def)

lemma is_request_header:
  assumes "is_request cmd h pkt"
  shows "plain_header pkt = Some (zero_header\<lparr>hdr_CreditRequestResponse := hdr_CreditRequestResponse h, hdr_MessageId := hdr_MessageId h,
      hdr_Flags := 1\<rparr>)" "PacketCodec_SessionId pkt = Some (hdr_SessionId h)"
  using assms by (simp_all add: is_request_def header_reads_def plain_header_def)

text \<open>A response that reached the writer, for which signing leaves status, command and body alone.\<close>

lemma wire_of_reads:
  assumes "wire_of q p" "header_reads h q" "64 \<le> length q"
  shows "PacketCodec_Command p = Some (hdr_Command h)" "PacketCodec_Status p = PacketCodec_Status q"
    "PacketCodec_SessionId p = Some (hdr_SessionId h)" "PacketCodec_Data p = Some (drop 64 q)" "PacketCodec_Flags p \<noteq> None"
proof -
  have l: "64 \<le> length p" using assms by (simp add: wire_of_def)
  have t: "rd m k p = rd m k q" if "m + k \<le> 16" for m k
  proof -
    have "rd m k (take 16 p) = rd m k (take 16 q)" using assms(1) by (simp add: wire_of_def)
    then show ?thesis using that by (simp add: rd_def take_drop min_def)
  qed
  have "drop 20 (rd 20 28 p) = drop 20 (rd 20 28 q)" using assms(1) by (simp add: wire_of_def)
  then have s: "rd 40 8 p = rd 40 8 q" by (simp add: rd_def drop_take)
  have m: "take 4 p = MAGIC" "take 4 q = MAGIC" using t [of 0 4] assms(2) by (simp_all add: header_reads_def rd_def)
  then have n: "\<not> PacketCodec_IsSmb1 p" "\<not> PacketCodec_IsSmb1 q" by (simp_all add: PacketCodec_IsSmb1_iff rd_def MAGIC_def)
  show "PacketCodec_Command p = Some (hdr_Command h)" "PacketCodec_Status p = PacketCodec_Status q"
    "PacketCodec_SessionId p = Some (hdr_SessionId h)" "PacketCodec_Flags p \<noteq> None"
    using assms(2,3) l n t s
    by (simp_all add: header_reads_def PacketCodec_Command_def PacketCodec_getters un_at_eqs)
  show "PacketCodec_Data p = Some (drop 64 q)"
    using assms(1) l by (simp add: PacketCodec_Data_def go_slice_from_def wire_of_def)
qed

lemma accept_response:
  assumes "wire_of q p" "header_reads h q" "64 \<le> length q" "hdr_Command h = SMB2_SESSION_SETUP"
    and "hdr_ChannelSequence h = 0" "hdr_Status h = 0 \<or> hdr_Status h = STATUS_MORE_PROCESSING_REQUIRED"
  shows "accept SMB2_SESSION_SETUP p = Some (Some (drop 64 q), None)"
proof -
  have "PacketCodec_Status q = Some (hdr_Status h)" using assms(2,5) by (simp add: header_reads_def)
  then show ?thesis using wire_of_reads [OF assms(1-3)] assms(4,6) by (auto simp: accept_def)
qed

text \<open>The connection after a packet has left it.\<close>

definition sent_conn :: "env \<Rightarrow> conn \<Rightarrow> u64 \<Rightarrow> account \<Rightarrow> bytes \<Rightarrow> conn" where
  "sent_conn E c n a p =
     (let c = c\<lparr>conn_sequenceWindow := n, conn_account := a\<rparr>;
          c = (if conn_serverState c = STATE_SESSION_ACTIVE then c else conn_calcPreauthHash (env_sha512 E) p c)
      in c\<lparr>conn_out := conn_out c @ [p]\<rparr>)"

lemma send_alone_sent:
  assumes "packet_ok req" "sends_plain (w_conn w) tc" "in_io I = Sent"
  obtains p q hdr n a where
    "encodePacket_hdr (w_conn w) req tc = (hdr, (w_conn w)\<lparr>conn_sequenceWindow := n, conn_account := a\<rparr>)"
    "pkt_Encode req hdr (replicate (pkt_Size req) 0) = Some q" "length q = pkt_Size req" "64 \<le> length q" "wire_of q p"
    "send_alone E I req tc w = Some (w\<lparr>w_conn := sent_conn E (w_conn w) n a p\<rparr>, None)"
  by (rule sendPacket_single [OF assms(1,2), of "env_sha512 E" "in_io I" "in_nonce I"])
    (rule that, assumption+, simp add: send_alone_def send_packet_def send_result_def assms(3) sent_conn_def Let_def)

section \<open>The dialect\<close>

lemma negotiate_dialect_fold:
  fixes b :: u16
  defines "best \<equiv> fold (\<lambda>d cur. if cur < d \<and> d \<le> b then d else cur)"
  shows "(best ds m = m \<or> best ds m \<in> set ds \<and> m < best ds m \<and> best ds m \<le> b) \<and> m \<le> best ds m \<and>
    (\<forall>d \<in> set ds. d \<le> b \<longrightarrow> d \<le> best ds m)"
  unfolding best_def
proof (induction ds arbitrary: m)
  case (Cons d ds)
  show ?case using Cons.IH [of d] Cons.IH [of m] by auto
qed simp

section \<open>The first session setup\<close>

definition setup_message :: "PacketHeader \<Rightarrow> bytes \<Rightarrow> SessionSetupRequest" where
  "setup_message h tok = \<lparr>SessionSetupRequest_Header = h, SessionSetupRequest_Flags = 0, SessionSetupRequest_SecurityMode = 1,
     SessionSetupRequest_Capabilities = 0, SessionSetupRequest_Channel = 0, SessionSetupRequest_SecurityBuffer = tok,
     SessionSetupRequest_PreviousSessionId = 0\<rparr>"

definition setup_packet :: "PacketHeader \<Rightarrow> bytes \<Rightarrow> bytes option" where
  "setup_packet h tok =
     SessionSetupRequest_Encode (setup_message h tok) (replicate (SessionSetupRequest_Size (setup_message h tok)) 0)"

lemma setup_packet_ok:
  assumes "length tok < 65448" "hdr_Flags h AND SMB2_FLAGS_SERVER_TO_REDIR = 0"
  obtains pkt where "setup_packet h tok = Some pkt" "is_request SMB2_SESSION_SETUP h pkt"
    "SessionSetupRequestDecoder_IsInvalid (drop 64 pkt) = Some False"
    "SessionSetupRequestDecoder_SecurityBuffer (drop 64 pkt) = Some tok"
proof -
  let ?m = "setup_message h tok" and ?n = "SessionSetupRequest_Size (setup_message h tok)"
  obtain pkt where p: "setup_packet h tok = Some pkt" "length pkt = ?n" "header_reads (h\<lparr>hdr_Command := SMB2_SESSION_SETUP\<rparr>) pkt"
    "SessionSetupRequest_body ?m (replicate (?n - 64) 0) = Some (drop 64 pkt)"
    using SessionSetupRequest.encode_frame [of ?m ?n] by (auto simp: setup_packet_def setup_message_def)
  have "24 + length (SessionSetupRequest_SecurityBuffer ?m) \<le> length (replicate (?n - 64) (0 :: byte))"
    by (simp add: SessionSetupRequest_Size_def)
  from SessionSetupRequest_body_reads (1,7) [OF this p(4)] assms show ?thesis
    using p by (intro that [of pkt]) (simp_all add: is_request_def setup_message_def SessionSetupRequest_Size_def)
qed

text \<open>The hash over the messages of the exchange that SMB 3.1.1 keeps.\<close>

definition transcript :: "env \<Rightarrow> conn \<Rightarrow> bytes list \<Rightarrow> bytes" where
  "transcript E c pkts =
     (if conn_dialect c = SMB311 \<and> conn_preauthIntegrityHashId c = SHA512
      then foldl (\<lambda>v p. env_sha512 E (v @ p)) (conn_preauthIntegrityHashValue c) pkts
      else conn_preauthIntegrityHashValue c)"

text \<open>Connections that agree on what the keys of a session depend on, the first having seen more messages.\<close>

definition heard :: "env \<Rightarrow> conn \<Rightarrow> bytes list \<Rightarrow> conn \<Rightarrow> bool" where
  "heard E c pkts c' \<longleftrightarrow> conn_dialect c' = conn_dialect c \<and> conn_cipherId c' = conn_cipherId c \<and>
     conn_preauthIntegrityHashId c' = conn_preauthIntegrityHashId c \<and> conn_useSession c' = conn_useSession c \<and>
     conn_sessions c' = conn_sessions c \<and> conn_preauthIntegrityHashValue c' = transcript E c pkts"

lemma heard_refl: "heard E c [] c"
  by (simp add: heard_def transcript_def)

lemma heard_calc: "heard E c ps c' \<Longrightarrow> heard E c (ps @ [p]) (conn_calcPreauthHash (env_sha512 E) p c')"
  by (auto simp: heard_def transcript_def conn_calcPreauthHash_def)

lemma heard_update:
  "heard E c ps (c'\<lparr>conn_serverState := st\<rparr>) = heard E c ps c'" "heard E c ps (c'\<lparr>conn_out := x\<rparr>) = heard E c ps c'"
  "heard E c ps (c'\<lparr>conn_sequenceWindow := n\<rparr>) = heard E c ps c'" "heard E c ps (c'\<lparr>conn_account := a\<rparr>) = heard E c ps c'"
  "heard E c ps (c'\<lparr>conn_session := s\<rparr>) = heard E c ps c'"
  by (simp_all add: heard_def)

lemma calcPreauthHash_same [simp]:
  "conn_session (conn_calcPreauthHash f p c) = conn_session c" "conn_serverState (conn_calcPreauthHash f p c) = conn_serverState c"
  "conn_out (conn_calcPreauthHash f p c) = conn_out c" "conn_useSession (conn_calcPreauthHash f p c) = conn_useSession c"
  by (simp_all add: conn_calcPreauthHash_def)

lemma heard_trans: "heard E c ps c' \<Longrightarrow> heard E c' qs c'' \<Longrightarrow> heard E c (ps @ qs) c''"
  by (auto simp: heard_def transcript_def)

lemma heard_sent:
  assumes "heard E c ps c'"
  shows "heard E c (if conn_serverState c' = STATE_SESSION_ACTIVE then ps else ps @ [p]) (sent_conn E c' n a p)"
  using assms heard_calc [of E c ps "c'\<lparr>conn_sequenceWindow := n, conn_account := a\<rparr>" p]
  by (simp add: sent_conn_def Let_def heard_update)

lemma session_keys_heard:
  assumes "heard E c ps c'"
  shows "session_keys E c' key s = session_keys E (c\<lparr>conn_preauthIntegrityHashValue := transcript E c ps\<rparr>) key s"
  using assms by (simp add: heard_def session_keys_def)

lemma encodePacket_hdr_plain:
  assumes "encodePacket_hdr c req tc = (hdr, c')" "\<not> conn_useSession c"
  shows "hdr = (pkt_Header req)\<lparr>hdr_CreditRequestResponse := hdr_CreditRequestResponse hdr\<rparr>"
  using assms by (auto simp: encodePacket_hdr_def Let_def split: if_splits prod.splits option.splits intro!: PacketHeader.equality)

text \<open>A session setup response as the client reads it.\<close>

lemma setup_response_sent:
  assumes "sends_plain (w_conn w) None" "in_io I = Sent" "\<not> conn_useSession (w_conn w)" "length out < 65464"
    and "hdr_ChannelSequence h = 0" "hdr_Status h = 0 \<or> hdr_Status h = STATUS_MORE_PROCESSING_REQUIRED"
  obtains f body n a where
    "send_alone E I (SessionSetupResponse_packet \<lparr>SessionSetupResponse_Header = h, SessionSetupResponse_SessionFlags = fl,
       SessionSetupResponse_SecurityBuffer = out\<rparr>) None w = Some (w\<lparr>w_conn := sent_conn E (w_conn w) n a f\<rparr>, None)"
    "accept SMB2_SESSION_SETUP f = Some (Some body, None)" "SessionSetupResponseDecoder_SecurityBuffer body = Some out"
    "PacketCodec_SessionId f = Some (hdr_SessionId h)"
proof -
  define m where "m = (\<lambda>h. \<lparr>SessionSetupResponse_Header = h, SessionSetupResponse_SessionFlags = fl, SessionSetupResponse_SecurityBuffer = out\<rparr>)"
  have "packet_ok (SessionSetupResponse_packet (m h))" by (rule SessionSetupResponse_pkt.packet_of_ok) simp
  then obtain p q hdr n a where
    p: "encodePacket_hdr (w_conn w) (SessionSetupResponse_packet (m h)) None = (hdr, (w_conn w)\<lparr>conn_sequenceWindow := n, conn_account := a\<rparr>)"
      "pkt_Encode (SessionSetupResponse_packet (m h)) hdr (replicate (pkt_Size (SessionSetupResponse_packet (m h))) 0) = Some q"
      "64 \<le> length q" "wire_of q p"
      "send_alone E I (SessionSetupResponse_packet (m h)) None w = Some (w\<lparr>w_conn := sent_conn E (w_conn w) n a p\<rparr>, None)"
    using send_alone_sent [OF _ assms(1,2), of "SessionSetupResponse_packet (m h)" E] by metis
  have hd: "hdr = h\<lparr>hdr_CreditRequestResponse := hdr_CreditRequestResponse hdr\<rparr>"
    using encodePacket_hdr_plain [OF p(1) assms(3)] by (simp add: packet_of_def m_def)
  then have hf: "hdr_Status hdr = hdr_Status h" "hdr_ChannelSequence hdr = 0" "hdr_SessionId hdr = hdr_SessionId h"
    using assms(5) by (metis PacketHeader.select_convs PacketHeader.update_convs PacketHeader.surjective)+
  let ?n = "SessionSetupResponse_Size (m hdr)"
  have sz: "pkt_Size (SessionSetupResponse_packet (m h)) = ?n" by (simp add: packet_of_def m_def SessionSetupResponse_Size_def)
  have q: "SessionSetupResponse_Encode (m hdr) (replicate ?n 0) = Some q" using p(2) sz by (simp add: packet_of_def m_def)
  then have r: "header_reads (hdr\<lparr>hdr_Command := SMB2_SESSION_SETUP\<rparr>) q"
    "SessionSetupResponse_body (m hdr) (replicate (?n - 64) 0) = Some (drop 64 q)"
    using SessionSetupResponse.encode_frame [of "m hdr" ?n] by (auto simp: m_def)
  have b: "8 + length (SessionSetupResponse_SecurityBuffer (m hdr)) \<le> length (replicate (?n - 64) (0 :: byte))"
    "rd 4 4 (replicate (?n - 64) (0 :: byte)) = replicate 4 0"
    by (simp_all add: SessionSetupResponse_Size_def m_def rd_replicate)
  have "SessionSetupResponseDecoder_SecurityBuffer (drop 64 q) = Some out"
    using SessionSetupResponse_body_reads(3) [OF b r(2)] assms(4) by (simp add: m_def)
  moreover have "accept SMB2_SESSION_SETUP p = Some (Some (drop 64 q), None)"
    by (rule accept_response [OF p(4) r(1) p(3)]) (use hf assms(6) in simp_all)
  moreover have "PacketCodec_SessionId p = Some (hdr_SessionId h)" using wire_of_reads(3) [OF p(4) r(1) p(3)] hf by simp
  ultimately show ?thesis using that p(5) by (simp add: m_def)
qed

lemma sends_plain_none: "conn_session c = None \<Longrightarrow> sends_plain c None"
  by (simp add: sends_plain_def)

text \<open>What a server has agreed on with a client that has sent its first token: the mechanism and the challenge.\<close>

definition challenged :: "ntlm_server \<Rightarrow> 'f server \<Rightarrow> 'f server" where
  "challenged s d = d\<lparr>srv_authenticator := (srv_authenticator d)\<lparr>auth_ntlm := Some s\<rparr>,
     srv_negotiator := (srv_negotiator d)\<lparr>neg_Spnego := Some \<lparr>sp_mechTypes = [NlmpOid], sp_selectedMech = Some 0\<rparr>\<rparr>\<rparr>"

lemma spnego_challenge_ntlm:
  assumes "neg_Spnego (srv_negotiator d) = Some sp" "sp_mechTypes sp = [NlmpOid]" "raw_ntlm tok"
    and "ntlm_Challenge (in_filetime I) (in_challenge I) (auth_server (srv_authenticator d)) tok = Some (Inr cmsg, s)"
  shows "spnego_challenge E I tok d = Some (Inr cmsg, challenged s d)"
proof -
  have "sp\<lparr>sp_selectedMech := Some 0\<rparr> = \<lparr>sp_mechTypes = [NlmpOid], sp_selectedMech = Some 0\<rparr>" using assms(2) by simp
  then show ?thesis
    using assms by (simp add: spnego_challenge_def spnegoServer_challenge_def select_mech_def find_mech_def
        NTLMAuthenticator_challenge_def challenged_def Let_def)
qed

lemma session_setup_first:
  assumes c: "\<not> conn_useSession (w_conn w)" "conn_serverState (w_conn w) = STATE_NEGOTIATE" "conn_session (w_conn w) = None"
    and sp: "neg_Spnego (srv_negotiator (w_srv w)) = Some sp" "sp_mechTypes sp = [NlmpOid]"
    and pkt: "is_request SMB2_SESSION_SETUP h pkt" "SessionSetupRequestDecoder_IsInvalid (drop 64 pkt) = Some False"
      "SessionSetupRequestDecoder_SecurityBuffer (drop 64 pkt) = Some nmsg" "raw_ntlm nmsg"
    and ch: "ntlm_Challenge (in_filetime I) (in_challenge I) (auth_server (srv_authenticator (w_srv w))) nmsg = Some (Inr cmsg, s)"
      "length cmsg < 65464" and io: "in_io I = Sent"
  obtains f body w' where "conn_sessionSetup E I pkt w = Some (w', None)" "conn_out (w_conn w') = conn_out (w_conn w) @ [f]"
    "accept SMB2_SESSION_SETUP f = Some (Some body, None)" "SessionSetupResponseDecoder_SecurityBuffer body = Some cmsg"
    "PacketCodec_SessionId f = Some (in_rand64 I)" "heard E (w_conn w) [pkt, f] (w_conn w')"
    "conn_serverState (w_conn w') = STATE_SESSION_SETUP_CHALLENGE" "conn_session (w_conn w') = None" "w_srv w' = challenged s (w_srv w)"
proof -
  define c1 where "c1 = (conn_calcPreauthHash (env_sha512 E) pkt (w_conn w))\<lparr>conn_serverState := STATE_SESSION_SETUP_CHALLENGE\<rparr>"
  define w1 where "w1 = w\<lparr>w_srv := challenged s (w_srv w), w_conn := c1\<rparr>"
  let ?h = "zero_header\<lparr>hdr_CreditRequestResponse := hdr_CreditRequestResponse h, hdr_MessageId := hdr_MessageId h, hdr_Flags := 1,
    hdr_Status := STATUS_MORE_PROCESSING_REQUIRED, hdr_SessionId := in_rand64 I\<rparr>"
  have w1: "sends_plain (w_conn w1) None" "\<not> conn_useSession (w_conn w1)" "w_conn w1 = c1"
    using c by (simp_all add: w1_def c1_def sends_plain_none)
  have h: "hdr_ChannelSequence ?h = 0" "hdr_Status ?h = 0 \<or> hdr_Status ?h = STATUS_MORE_PROCESSING_REQUIRED"
    by (simp_all add: zero_header_def)
  obtain f body n a where f: "send_alone E I (SessionSetupResponse_packet \<lparr>SessionSetupResponse_Header = ?h,
      SessionSetupResponse_SessionFlags = 0, SessionSetupResponse_SecurityBuffer = cmsg\<rparr>) None w1 =
        Some (w1\<lparr>w_conn := sent_conn E c1 n a f\<rparr>, None)"
    "accept SMB2_SESSION_SETUP f = Some (Some body, None)" "SessionSetupResponseDecoder_SecurityBuffer body = Some cmsg"
    "PacketCodec_SessionId f = Some (in_rand64 I)"
    by (rule setup_response_sent [OF w1(1) io w1(2) ch(2) h, where E = E and fl = 0])
      (rule that, simp_all add: w1(3))
  have "conn_sessionSetup E I pkt w = Some (w1\<lparr>w_conn := sent_conn E c1 n a f\<rparr>, None)"
    using c is_request_accept [OF pkt(1)] is_request_header(1) [OF pkt(1)] pkt(2,3) spnego_challenge_ntlm [OF sp pkt(4) ch(1)] f(1)
    by (simp add: conn_sessionSetup_def conn_sessionServerSetup_def Let_def w1_def c1_def)
  moreover have "heard E (w_conn w) [pkt] c1"
    using heard_calc [OF heard_refl, of E "w_conn w" pkt] by (simp add: c1_def heard_update)
  from heard_sent [OF this, of f n a] have "heard E (w_conn w) [pkt, f] (sent_conn E c1 n a f)" by (simp add: c1_def)
  ultimately show ?thesis
    using that [of "w1\<lparr>w_conn := sent_conn E c1 n a f\<rparr>" f body] f(2-4) c(3)
    by (simp add: sent_conn_def Let_def w1_def c1_def)
qed

section \<open>The second session setup\<close>

definition known_dialect :: "u16 \<Rightarrow> bool" where
  "known_dialect d \<longleftrightarrow> d = SMB202 \<or> d = SMB210 \<or> d = SMB300 \<or> d = SMB302 \<or> d = SMB311"

lemma kdf_hmac256: "kdf (hmac256 E) k l x = Some (take 16 (hmac256 E k ([0, 0, 0, 1] @ l @ [0] @ x @ [0, 0, 0, 0x80])))"
  by (simp add: kdf_def go_slice_def hmac256_def)

lemma session_keys_signer:
  assumes "known_dialect (conn_dialect c)"
  obtains s' m where "session_keys E c key s = Some s'" "session_signer s' = Some m" "session_verifier s' = Some m"
    "session_id s' = session_id s" "session_flags s' = session_flags s"
proof -
  have c: "\<exists>m. cmac_fn E k = Some m" for k by (simp add: cmac_fn_def cmac_New_def Let_def)
  then have "\<exists>s' m. session_keys_300 E key s = Some s' \<and> session_signer s' = Some m \<and> session_verifier s' = Some m \<and>
      session_id s' = session_id s \<and> session_flags s' = session_flags s"
    by (simp add: session_keys_300_def kdf_hmac256)
  moreover have "\<exists>s' m. session_keys_311 E key (conn_preauthIntegrityHashValue c) (conn_cipherId c) s = Some s' \<and> session_signer s' = Some m \<and> session_verifier s' = Some m \<and>
      session_id s' = session_id s \<and> session_flags s' = session_flags s"
    using c by (simp add: session_keys_311_def kdf_hmac256 Let_def)
  ultimately show ?thesis
    using assms that by (auto simp: session_keys_def known_dialect_def)
qed

lemma world_conn_inj: "w\<lparr>w_conn := x\<rparr> = w\<lparr>w_conn := y\<rparr> \<Longrightarrow> y = x"
  by (metis world.select_convs(2) world.surjective world.update_convs(2))

lemma sent_is_encoded:
  assumes "conn_encodePacket (w_conn w) (in_nonce I) req tc = Some (p, hdr, c')"
    and "send_alone E I req tc w = Some (w\<lparr>w_conn := sent_conn E (w_conn w) n a f\<rparr>, None)" "in_io I = Sent"
  shows "f = p"
proof -
  have "conn_out c' = conn_out (w_conn w)"
    using assms(1) encodePacket_hdr_frame(5) [of "w_conn w" req tc] by (auto simp: conn_encodePacket_def same_conn_def split: prod.splits Option.bind_splits)
  moreover have "sent_conn E (w_conn w) n a f = (let c = if conn_serverState c' = STATE_SESSION_ACTIVE then c'
      else conn_calcPreauthHash (env_sha512 E) p c' in c\<lparr>conn_out := conn_out c @ [p]\<rparr>)"
    using assms
    by (auto simp: send_alone_def send_packet_def conn_sendPacket_def sendPacket_prepare_def send_result_def Let_def
        dest!: world_conn_inj)
  ultimately have "conn_out (sent_conn E (w_conn w) n a f) = conn_out (w_conn w) @ [p]" by (simp add: Let_def)
  then show ?thesis by (simp add: sent_conn_def Let_def split: if_splits)
qed

lemma spnego_authenticate_ntlm:
  assumes "raw_ntlm tok" "ntlm_Authenticate (env_ntlm E) s tok = Some (None, s')" "nts_session s' = Some ks"
  shows "spnego_authenticate E tok (challenged s d) = Some (Inr (None, ns_user ks), challenged s' d)"
  using assms by (simp add: spnego_authenticate_def spnegoServer_authenticate_def challenged_def NTLMAuthenticator_authenticate_def)

lemma new_session_plain: "\<not> session_anonymous (new_session False sid)" "session_flags (new_session False sid) = 0" "session_id (new_session g sid) = sid"
  by (simp_all add: new_session_def session_anonymous_def)

text \<open>Registering the session and answering: the answer is signed with the new key.\<close>

lemma session_activate_signed:
  assumes "session_flags s = 0" "session_signer s = Some m" "\<not> conn_useSession (w_conn w)" "in_io I = Sent" "length out < 65464"
    and "hdr_ChannelSequence h = 0" "hdr_Status h = 0"
  obtains f body w' where "session_activate E I h out s w = Some (w', None)" "conn_out (w_conn w') = conn_out (w_conn w) @ [f]"
    "accept SMB2_SESSION_SETUP f = Some (Some body, None)" "SessionSetupResponseDecoder_SecurityBuffer body = Some out"
    "PacketCodec_SessionId f = Some (session_id s)"
    "\<forall>peer. session_verifier peer = Some m \<and> \<not> session_anonymous peer \<longrightarrow> (\<exists>q. session_verify peer f = Some (True, q))"
    "conn_session (w_conn w') = Some s" "conn_sessions (w_conn w') = (conn_sessions (w_conn w))(session_id s \<mapsto> s)"
    "conn_useSession (w_conn w')" "conn_serverState (w_conn w') = STATE_SESSION_ACTIVE" "w_srv w' = w_srv w"
proof -
  define w1 where "w1 = w\<lparr>w_conn := (conn_registerSession s (w_conn w))\<lparr>conn_serverState := STATE_SESSION_ACTIVE\<rparr>\<rparr>"
  let ?h = "h\<lparr>hdr_SessionId := session_id s\<rparr>"
  let ?r = "SessionSetupResponse_packet \<lparr>SessionSetupResponse_Header = ?h, SessionSetupResponse_SessionFlags = session_flags s,
    SessionSetupResponse_SecurityBuffer = out\<rparr>"
  have a: "\<not> session_anonymous s" using assms(1) by (simp add: session_anonymous_def)
  have w1: "sends_plain (w_conn w1) None" "\<not> conn_useSession (w_conn w1)" "conn_session (w_conn w1) = Some s"
    using assms(1-3) by (simp_all add: w1_def conn_registerSession_def sends_plain_def)
  have h: "hdr_ChannelSequence ?h = 0" "hdr_Status ?h = 0 \<or> hdr_Status ?h = STATUS_MORE_PROCESSING_REQUIRED" using assms(6,7) by simp_all
  obtain f body n acc where f: "send_alone E I ?r None w1 = Some (w1\<lparr>w_conn := sent_conn E (w_conn w1) n acc f\<rparr>, None)"
    "accept SMB2_SESSION_SETUP f = Some (Some body, None)" "SessionSetupResponseDecoder_SecurityBuffer body = Some out"
    "PacketCodec_SessionId f = Some (session_id s)"
    by (rule setup_response_sent [OF w1(1) assms(4) w1(2) assms(5) h, where E = E and fl = "session_flags s"]) (rule that, simp_all)
  have "\<exists>q. session_verify peer f = Some (True, q)" if v: "session_verifier peer = Some m" "\<not> session_anonymous peer" for peer
  proof -
    have "packet_ok ?r" by (rule SessionSetupResponse_pkt.packet_of_ok) simp
    moreover have "encodePacket_session (w_conn w1) ?r = Some s" using w1(3) by (simp add: encodePacket_session_def packet_of_def)
    ultimately obtain p hdr c' q where "conn_encodePacket (w_conn w1) (in_nonce I) ?r None = Some (p, hdr, c')" "session_verify peer p = Some (True, q)"
      using encodePacket_signed [OF _ _ _ _ _ a assms(2) v, of ?r "w_conn w1" None "in_nonce I"] assms(1) by (auto simp: packet_of_def)
    then show ?thesis using sent_is_encoded [OF _ f(1) assms(4)] by blast
  qed
  moreover have "session_activate E I h out s w = Some (w1\<lparr>w_conn := (sent_conn E (w_conn w1) n acc f)\<lparr>conn_useSession := True\<rparr>\<rparr>, None)"
    using f(1) by (simp add: session_activate_def w1_def)
  ultimately show ?thesis
    using that [of "w1\<lparr>w_conn := (sent_conn E (w_conn w1) n acc f)\<lparr>conn_useSession := True\<rparr>\<rparr>" f body] f(2-4)
    by (simp add: w1_def conn_registerSession_def sent_conn_def Let_def)
qed

lemma session_setup_second:
  assumes c: "\<not> conn_useSession (w_conn w)" "conn_serverState (w_conn w) = STATE_SESSION_SETUP_CHALLENGE" "known_dialect (conn_dialect (w_conn w))"
    and d: "w_srv w = challenged s d" "\<not> srv_allowGuest d"
    and pkt: "is_request SMB2_SESSION_SETUP h pkt" "SessionSetupRequestDecoder_IsInvalid (drop 64 pkt) = Some False"
      "SessionSetupRequestDecoder_SecurityBuffer (drop 64 pkt) = Some amsg" "raw_ntlm amsg"
    and auth: "ntlm_Authenticate (env_ntlm E) s amsg = Some (None, s')" "nts_session s' = Some ks"
    and io: "in_io I = Sent"
  obtains f body w' sess m where "conn_sessionSetup E I pkt w = Some (w', None)" "conn_out (w_conn w') = conn_out (w_conn w) @ [f]"
    "accept SMB2_SESSION_SETUP f = Some (Some body, None)"
    "session_keys E ((w_conn w)\<lparr>conn_preauthIntegrityHashValue := transcript E (w_conn w) [pkt]\<rparr>) (ns_exportedSessionKey ks)
       (new_session False (hdr_SessionId h)) = Some sess" "session_signer sess = Some m" "session_verifier sess = Some m" "session_id sess = hdr_SessionId h"
    "\<not> session_anonymous sess"
    "\<forall>peer. session_verifier peer = Some m \<and> \<not> session_anonymous peer \<longrightarrow> (\<exists>q. session_verify peer f = Some (True, q))"
    "conn_session (w_conn w') = Some sess" "conn_sessions (w_conn w') = (conn_sessions (w_conn w))(hdr_SessionId h \<mapsto> sess)"
    "conn_useSession (w_conn w')" "conn_serverState (w_conn w') = STATE_SESSION_ACTIVE"
proof -
  define w1 where "w1 = w\<lparr>w_conn := conn_calcPreauthHash (env_sha512 E) pkt (w_conn w), w_srv := challenged s' d\<rparr>"
  define hd where "hd = zero_header\<lparr>hdr_CreditRequestResponse := hdr_CreditRequestResponse h, hdr_MessageId := hdr_MessageId h, hdr_Flags := 1\<rparr>"
  have hear: "heard E (w_conn w) [pkt] (w_conn w1)" using heard_calc [OF heard_refl, of E "w_conn w" pkt] by (simp add: w1_def)
  then have "known_dialect (conn_dialect (w_conn w1))" using c(3) by (simp add: heard_def)
  then obtain sess m where k: "session_keys E (w_conn w1) (ns_exportedSessionKey ks) (new_session False (hdr_SessionId h)) = Some sess"
    "session_signer sess = Some m" "session_verifier sess = Some m" "session_id sess = hdr_SessionId h" "session_flags sess = 0"
    by (rule session_keys_signer [of "w_conn w1" E "ns_exportedSessionKey ks" "new_session False (hdr_SessionId h)"])
      (rule that, simp_all add: new_session_plain)
  have w1: "\<not> conn_useSession (w_conn w1)" "length ([] :: bytes) < 65464" "hdr_ChannelSequence hd = 0" "hdr_Status hd = 0"
    using c(1) by (simp_all add: w1_def hd_def zero_header_def)
  obtain f body w' where f: "session_activate E I hd [] sess w1 = Some (w', None)" "conn_out (w_conn w') = conn_out (w_conn w1) @ [f]"
    "accept SMB2_SESSION_SETUP f = Some (Some body, None)"
    "\<forall>peer. session_verifier peer = Some m \<and> \<not> session_anonymous peer \<longrightarrow> (\<exists>q. session_verify peer f = Some (True, q))"
    "conn_session (w_conn w') = Some sess" "conn_sessions (w_conn w') = (conn_sessions (w_conn w1))(session_id sess \<mapsto> sess)"
    "conn_useSession (w_conn w')" "conn_serverState (w_conn w') = STATE_SESSION_ACTIVE"
    by (rule session_activate_signed [OF k(5,2) w1(1) io w1(2-4), where E = E]) (rule that)
  have "srv_allowGuest (challenged s' d) = False" using d(2) by (simp add: challenged_def)
  moreover have "neg_Spnego (srv_negotiator (challenged s' d)) = Some \<lparr>sp_mechTypes = [NlmpOid], sp_selectedMech = Some 0\<rparr>"
    "spnegoServer_sessionKey [srv_authenticator (challenged s' d)] \<lparr>sp_mechTypes = [NlmpOid], sp_selectedMech = Some 0\<rparr> = Some (ns_exportedSessionKey ks)"
    using auth(2) by (simp_all add: challenged_def spnegoServer_sessionKey_def NTLMAuthenticator_sessionKey_def)
  ultimately have "conn_sessionSetup E I pkt w = Some (w', None)"
    using c(1,2) is_request_accept [OF pkt(1)] is_request_header [OF pkt(1)] pkt(2,3) spnego_authenticate_ntlm [OF pkt(4) auth, of d]
      f(1) k(1) d(1)
    by (simp add: conn_sessionSetup_def conn_sessionServerSetupChallenge_def Let_def w1_def hd_def new_session_plain)
  then show ?thesis
    using that [of w' f body sess m] f(2-) k session_keys_heard [OF hear] hear by (simp add: w1_def heard_def session_anonymous_def)
qed

section \<open>A login\<close>

text \<open>A client that logs in with NTLM messages as tokens: it reads the challenge and the session id from the last packet it got.\<close>

definition login :: "env \<Rightarrow> inp \<Rightarrow> inp \<Rightarrow> PacketHeader \<Rightarrow> PacketHeader \<Rightarrow> u64 \<Rightarrow> bytes \<Rightarrow> bytes \<Rightarrow> ntlm_client \<Rightarrow> 'f world \<Rightarrow>
    ('f world \<times> conn_error option \<times> ntlm_client \<times> bytes list) option" where
  "login E I1 I2 h1 h2 now cc rkey c w = do {
     (nmsg, c) \<leftarrow> ntlm_Negotiate c;
     p1 \<leftarrow> setup_packet h1 nmsg;
     (w, _) \<leftarrow> conn_sessionSetup E I1 p1 w;
     let f1 = last (conn_out (w_conn w));
     (res, _) \<leftarrow> accept SMB2_SESSION_SETUP f1;
     r \<leftarrow> res;
     cmsg \<leftarrow> SessionSetupResponseDecoder_SecurityBuffer r;
     sid \<leftarrow> PacketCodec_SessionId f1;
     a \<leftarrow> ntlm_client_Authenticate (env_ntlm E) now cc rkey c cmsg;
     case a of
       Inl _ \<Rightarrow> None
     | Inr (amsg, c) \<Rightarrow> do {
         p2 \<leftarrow> setup_packet (h2\<lparr>hdr_SessionId := sid\<rparr>) amsg;
         (w, e) \<leftarrow> conn_sessionSetup E I2 p2 w;
         Some (w, e, c, [p1, f1, p2]) } }"

text \<open>The state a negotiation leaves.\<close>

definition negotiated :: "'f world \<Rightarrow> bool" where
  "negotiated w \<longleftrightarrow> \<not> conn_useSession (w_conn w) \<and> conn_serverState (w_conn w) = STATE_NEGOTIATE \<and> conn_session (w_conn w) = None \<and>
     known_dialect (conn_dialect (w_conn w)) \<and>
     (case neg_Spnego (srv_negotiator (w_srv w)) of None \<Rightarrow> False | Some sp \<Rightarrow> sp_mechTypes sp = [NlmpOid])"

lemma raw_ntlm_signature: "take 8 m = ntlm_signature \<Longrightarrow> raw_ntlm m"
proof -
  assume "take 8 m = ntlm_signature"
  then have "take 7 (take 8 m) = take 7 ntlm_signature" by simp
  then show ?thesis by (simp add: raw_ntlm_def ntlm_signature_def ascii_def min_def)
qed

lemma session_keys_trans:
  assumes "heard E c ps c'"
  shows "session_keys E (c'\<lparr>conn_preauthIntegrityHashValue := transcript E c' qs\<rparr>) k s =
    session_keys E (c\<lparr>conn_preauthIntegrityHashValue := transcript E c (ps @ qs)\<rparr>) k s"
  using assms by (auto simp: heard_def session_keys_def transcript_def)

lemma login_ok:
  assumes c: "ntc_User c \<noteq> []" "wf_string (ntc_User c)" "ntc_Hash c = None"
    and s: "nts_accounts (auth_server (srv_authenticator (w_srv w))) (ntc_User c) = Some (ntc_Password c)"
      "names_short c (auth_server (srv_authenticator (w_srv w)))"
    and rnd: "in_challenge I1 = Some rnd" "length rnd = 8" "length cc = 8" "length rkey = 16"
    and w: "negotiated w" "\<not> srv_allowGuest (w_srv w)" and io: "in_io I1 = Sent" "in_io I2 = Sent"
    and h: "hdr_Flags h1 AND SMB2_FLAGS_SERVER_TO_REDIR = 0" "hdr_Flags h2 AND SMB2_FLAGS_SERVER_TO_REDIR = 0"
  shows "\<exists>w' c' ps kc s m f q. login E I1 I2 h1 h2 now cc rkey c w = Some (w', None, c', ps) \<and>
    ntc_session c' = Some kc \<and> ns_exportedSessionKey kc = rkey \<and>
    session_keys E ((w_conn w)\<lparr>conn_preauthIntegrityHashValue := transcript E (w_conn w) ps\<rparr>) rkey (new_session False (in_rand64 I1)) = Some s \<and>
    conn_session (w_conn w') = Some s \<and> conn_lookupSession (in_rand64 I1) (w_conn w') = Some s \<and> conn_useSession (w_conn w') \<and>
    conn_serverState (w_conn w') = STATE_SESSION_ACTIVE \<and> session_signer s = Some m \<and>
    conn_out (w_conn w') = conn_out (w_conn w) @ [ps ! 1, f] \<and> session_verify s f = Some (True, q)"
proof -
  let ?a = "auth_server (srv_authenticator (w_srv w))"
  obtain nmsg cmsg amsg kc ks where n: "ntlm_Negotiate c = Some (nmsg, c\<lparr>ntc_nmsg := nmsg\<rparr>)" "length nmsg = 40" "take 8 nmsg = ntlm_signature"
    and ch: "ntlm_Challenge (in_filetime I1) (Some rnd) ?a nmsg = Some (Inr cmsg, ?a\<lparr>nts_nmsg := nmsg, nts_cmsg := cmsg\<rparr>)" "length cmsg < 65000"
    and a: "ntlm_client_Authenticate (env_ntlm E) now cc rkey (c\<lparr>ntc_nmsg := nmsg\<rparr>) cmsg =
      Some (Inr (amsg, c\<lparr>ntc_nmsg := nmsg, ntc_session := Some kc\<rparr>))" "length amsg < 65000" "take 8 amsg = ntlm_signature"
    and b: "ntlm_Authenticate (env_ntlm E) (?a\<lparr>nts_nmsg := nmsg, nts_cmsg := cmsg\<rparr>) amsg =
      Some (None, ?a\<lparr>nts_nmsg := nmsg, nts_cmsg := cmsg, nts_session := Some ks\<rparr>)"
    and k: "ns_exportedSessionKey kc = rkey" "ns_exportedSessionKey ks = rkey"
    by (rule ntlm_exchange_ok [OF c s rnd(2-4), where now = "in_filetime I1" and C = "env_ntlm E" and now' = now])
  obtain sp where w': "\<not> conn_useSession (w_conn w)" "conn_serverState (w_conn w) = STATE_NEGOTIATE" "conn_session (w_conn w) = None"
    "neg_Spnego (srv_negotiator (w_srv w)) = Some sp" "sp_mechTypes sp = [NlmpOid]" "known_dialect (conn_dialect (w_conn w))"
    using w(1) by (auto simp: negotiated_def split: option.splits)
  have l: "length nmsg < 65448" "length cmsg < 65464" "length amsg < 65448" using n(2) ch(2) a(2) by simp_all
  obtain p1 where p1: "setup_packet h1 nmsg = Some p1" "is_request SMB2_SESSION_SETUP h1 p1"
    "SessionSetupRequestDecoder_IsInvalid (drop 64 p1) = Some False" "SessionSetupRequestDecoder_SecurityBuffer (drop 64 p1) = Some nmsg"
    using l(1) h(1) by (rule setup_packet_ok)
  obtain f1 body w1 where f1: "conn_sessionSetup E I1 p1 w = Some (w1, None)" "conn_out (w_conn w1) = conn_out (w_conn w) @ [f1]"
    "accept SMB2_SESSION_SETUP f1 = Some (Some body, None)" "SessionSetupResponseDecoder_SecurityBuffer body = Some cmsg"
    "PacketCodec_SessionId f1 = Some (in_rand64 I1)" "heard E (w_conn w) [p1, f1] (w_conn w1)"
    "conn_serverState (w_conn w1) = STATE_SESSION_SETUP_CHALLENGE" "conn_session (w_conn w1) = None"
    "w_srv w1 = challenged (?a\<lparr>nts_nmsg := nmsg, nts_cmsg := cmsg\<rparr>) (w_srv w)"
    by (rule session_setup_first [OF w'(1-5) p1(2-4) raw_ntlm_signature [OF n(3)] ch(1) [folded rnd(1)] l(2) io(1), where E = E])
  let ?h = "h2\<lparr>hdr_SessionId := in_rand64 I1\<rparr>"
  have h': "hdr_Flags ?h AND SMB2_FLAGS_SERVER_TO_REDIR = 0" using h(2) by simp
  obtain p2 where p2: "setup_packet ?h amsg = Some p2" "is_request SMB2_SESSION_SETUP ?h p2"
    "SessionSetupRequestDecoder_IsInvalid (drop 64 p2) = Some False" "SessionSetupRequestDecoder_SecurityBuffer (drop 64 p2) = Some amsg"
    using l(3) h' by (rule setup_packet_ok)
  have ks: "nts_session (?a\<lparr>nts_nmsg := nmsg, nts_cmsg := cmsg, nts_session := Some ks\<rparr>) = Some ks" by simp
  have w1: "\<not> conn_useSession (w_conn w1)" "known_dialect (conn_dialect (w_conn w1))" using f1(6) w' by (simp_all add: heard_def)
  obtain f2 w2 sess m where f2: "conn_sessionSetup E I2 p2 w1 = Some (w2, None)" "conn_out (w_conn w2) = conn_out (w_conn w1) @ [f2]"
    "session_keys E ((w_conn w1)\<lparr>conn_preauthIntegrityHashValue := transcript E (w_conn w1) [p2]\<rparr>) rkey
       (new_session False (in_rand64 I1)) = Some sess" "session_signer sess = Some m" "session_verifier sess = Some m" "session_id sess = in_rand64 I1"
    "\<not> session_anonymous sess"
    "\<forall>peer. session_verifier peer = Some m \<and> \<not> session_anonymous peer \<longrightarrow> (\<exists>q. session_verify peer f2 = Some (True, q))"
    "conn_session (w_conn w2) = Some sess" "conn_useSession (w_conn w2)" "conn_serverState (w_conn w2) = STATE_SESSION_ACTIVE"
    by (rule session_setup_second [OF w1(1) f1(7) w1(2) f1(9) w(2) p2(2-4) raw_ntlm_signature [OF a(3)] b ks io(2)])
      (rule that, simp_all add: k(2))
  have keys: "session_keys E ((w_conn w)\<lparr>conn_preauthIntegrityHashValue := transcript E (w_conn w) [p1, f1, p2]\<rparr>) rkey
      (new_session False (in_rand64 I1)) = Some sess"
    using session_keys_trans [OF f1(6), of "[p2]"] f2(3) by simp
  obtain q where "session_verify sess f2 = Some (True, q)" using f2(5,7,8) by blast
  moreover have "login E I1 I2 h1 h2 now cc rkey c w = Some (w2, None, c\<lparr>ntc_nmsg := nmsg, ntc_session := Some kc\<rparr>, [p1, f1, p2])"
    using n(1) p1(1) f1(1-5) a(1) p2(1) f2(1) by (simp add: login_def Let_def)
  ultimately show ?thesis
    using keys f1(2) f2 k(1) by (auto simp: conn_lookupSession_def)
qed

section \<open>Negotiation\<close>

definition best_dialect :: "u16 list \<Rightarrow> u16" where
  "best_dialect ds = (let S = {d \<in> set ds. SMB2_dialect < d \<and> d \<le> SMB311} in if S = {} then SMB210 else Max S)"

lemma negotiate_dialect_best: "negotiate_dialect ds = best_dialect ds"
proof -
  let ?S = "{d \<in> set ds. SMB2_dialect < d \<and> d \<le> SMB311}"
  define r where "r = fold (\<lambda>d cur. if cur < d \<and> d \<le> SMB311 then d else cur) ds SMB2_dialect"
  have f: "r = SMB2_dialect \<or> r \<in> ?S" "\<And>d. d \<in> ?S \<Longrightarrow> d \<le> r"
    using negotiate_dialect_fold [of SMB311 ds SMB2_dialect] unfolding r_def by auto
  have n: "negotiate_dialect ds = (if r = SMB2_dialect then SMB210 else r)" by (simp add: negotiate_dialect_def r_def Let_def)
  show ?thesis
  proof (cases "r = SMB2_dialect")
    case True
    then have "?S = {}" using f(2) by force
    then show ?thesis using True n by (simp add: best_dialect_def)
  next
    case False
    then have "r \<in> ?S" using f(1) by blast
    moreover from this have "Max ?S = r" using f(2) by (intro Max_eqI) auto
    ultimately show ?thesis using False n unfolding best_dialect_def Let_def by auto
  qed
qed

text \<open>What sending leaves alone.\<close>

definition same_login :: "'f world \<Rightarrow> 'f world \<Rightarrow> bool" where
  "same_login w w' \<longleftrightarrow> w_srv w' = w_srv w \<and> w_trees w' = w_trees w \<and> w_byName w' = w_byName w \<and> w_byId w' = w_byId w \<and>
     conn_session (w_conn w') = conn_session (w_conn w) \<and> conn_sessions (w_conn w') = conn_sessions (w_conn w) \<and>
     conn_useSession (w_conn w') = conn_useSession (w_conn w) \<and> conn_serverState (w_conn w') = conn_serverState (w_conn w) \<and>
     conn_dialect (w_conn w') = conn_dialect (w_conn w)"

lemma send_alone_same:
  assumes "send_alone E I req tc w = Some (w', e)"
  shows "same_login w w'"
proof -
  obtain hdr c' where h: "encodePacket_hdr (w_conn w) req tc = (hdr, c')" by fastforce
  obtain n a where "c' = (w_conn w)\<lparr>conn_sequenceWindow := n, conn_account := a\<rparr>" using h by (rule encodePacket_hdr_conn)
  then show ?thesis
    using assms h
    by (auto simp: send_alone_def send_packet_def conn_sendPacket_def sendPacket_prepare_def conn_encodePacket_def Let_def send_result_def
        conn_calcPreauthHash_def same_login_def split: prod.splits Option.bind_splits send_io.splits if_splits)
qed

lemma negotiate_context_same:
  assumes "negotiate_context E x pkt ctx c = Some (Inr c')"
  shows "conn_session c' = conn_session c \<and> conn_useSession c' = conn_useSession c \<and> conn_serverState c' = conn_serverState c \<and>
    conn_dialect c' = conn_dialect c \<and> conn_sessions c' = conn_sessions c"
  using assms
  by (auto simp: negotiate_context_def Let_def conn_calcPreauthHash_def split: Option.bind_splits if_splits option.splits)

lemma negotiate_contexts_same:
  "negotiate_contexts E x pkt n lst c = Some (e, c') \<Longrightarrow>
     conn_session c' = conn_session c \<and> conn_useSession c' = conn_useSession c \<and> conn_serverState c' = conn_serverState c \<and>
     conn_dialect c' = conn_dialect c \<and> conn_sessions c' = conn_sessions c"
proof (induction n arbitrary: lst c)
  case (Suc n)
  from Suc.prems show ?case
    by (auto split: Option.bind_splits if_splits sum.splits dest!: Suc.IH dest: negotiate_context_same)
qed simp

text \<open>A connection that has not authenticated, with a client that offers dialects.\<close>

definition fresh :: "'f world \<Rightarrow> bool" where
  "fresh w \<longleftrightarrow> \<not> conn_useSession (w_conn w) \<and> conn_serverState (w_conn w) = STATE_NEGOTIATE \<and> conn_session (w_conn w) = None"

definition offers :: "PacketHeader \<Rightarrow> bytes \<Rightarrow> u16 list \<Rightarrow> bool" where
  "offers h pkt ds \<longleftrightarrow> is_request SMB2_NEGOTIATE h pkt \<and> NegotiateRequestDecoder_IsInvalid (drop 64 pkt) = Some False \<and>
     NegotiateRequestDecoder_Dialects (drop 64 pkt) = Some ds"

text \<open>The world once the dialect is chosen, before any context is read.\<close>

definition chosen :: "u16 \<Rightarrow> u16 \<Rightarrow> u32 \<Rightarrow> 'f world \<Rightarrow> 'f world" where
  "chosen d mode caps w = set_negotiator
     (\<lambda>n. n\<lparr>neg_SpecifiedDialect := d, neg_Spnego := Some (newSpnegoServer [srv_authenticator (w_srv w)])\<rparr>)
     (w\<lparr>w_conn := negotiate_conn (neg_RequireMessageSigning (srv_negotiator (w_srv w))) d mode caps (w_conn w)\<rparr>)"

lemma chosen_negotiated:
  assumes "fresh w" "known_dialect d" "same_login (chosen d mode caps w) w'"
  shows "negotiated w'" "conn_dialect (w_conn w') = d"
  using assms
  by (simp_all add: negotiated_def same_login_def chosen_def set_negotiator_def negotiate_conn_def fresh_def newSpnegoServer_def
      NTLMAuthenticator_oid_def)

lemma negotiate_unfold:
  assumes "offers h pkt ds" "fresh w"
  obtains mode caps token where
    "conn_negotiate E I pkt w = (let w = chosen (best_dialect ds) mode caps w in
       if best_dialect ds \<noteq> SMB311 then negotiate_respond E I pkt token w
       else do {
         lst \<leftarrow> NegotiateRequestDecoder_NegotiateContextList (drop 64 pkt);
         n \<leftarrow> NegotiateRequestDecoder_NegotiateContextCount (drop 64 pkt);
         (e, c) \<leftarrow> negotiate_contexts E (srv_enableSMB3PosixExtensions (w_srv w)) pkt (unat n) lst (w_conn w);
         case e of Some e \<Rightarrow> Some (w\<lparr>w_conn := c\<rparr>, Some e) | None \<Rightarrow> negotiate_respond E I pkt token (w\<lparr>w_conn := c\<rparr>) })"
proof -
  have r: "is_request SMB2_NEGOTIATE h pkt" "NegotiateRequestDecoder_IsInvalid (drop 64 pkt) = Some False"
    "NegotiateRequestDecoder_Dialects (drop 64 pkt) = Some ds" using assms(1) by (simp_all add: offers_def)
  then have l: "36 \<le> length (drop 64 pkt)" by (auto simp: NegotiateRequestDecoder_IsInvalid_def split: if_splits)
  then obtain mode caps where m: "NegotiateRequestDecoder_SecurityMode (drop 64 pkt) = Some mode"
    "NegotiateRequestDecoder_Capabilities (drop 64 pkt) = Some caps" by (auto simp: NegotiateRequestDecoder_defs un_at_eqs)
  have smb: "\<not> PacketCodec_IsSmb1 pkt"
    using r(1) by (simp add: is_request_def header_reads_def PacketCodec_IsSmb1_iff rd_def MAGIC_def)
  show ?thesis
    by (rule that [of mode caps "case spnegoServer_initSecContext (newSpnegoServer [srv_authenticator (w_srv w)]) of None \<Rightarrow> [] | Some t \<Rightarrow> t"])
      (use assms(2) r is_request_accept [OF r(1)] m smb in
        \<open>simp add: conn_negotiate_def ServerNegotiator_negotiate_def fresh_def negotiate_dialect_best chosen_def set_negotiator_def Let_def
          cong: option.case_cong\<close>)
qed

lemma negotiate_respond_same:
  assumes "negotiate_respond E I pkt token w = Some (w', e)"
  shows "same_login w w'" "neg_SpecifiedDialect (srv_negotiator (w_srv w)) \<in> {0, SMB2_dialect, SMB202, SMB210, SMB300, SMB302, SMB311}"
  using assms send_alone_same [of E I]
  by (auto simp: negotiate_respond_def ServerNegotiator_makeResponse_def Let_def split: Option.bind_splits if_splits)

lemma best_dialect_range: "best_dialect ds = SMB210 \<or> SMB2_dialect < best_dialect ds"
proof -
  let ?S = "{d \<in> set ds. SMB2_dialect < d \<and> d \<le> SMB311}"
  have "?S \<noteq> {} \<Longrightarrow> Max ?S \<in> ?S" by (rule Max_in) simp_all
  then show ?thesis unfolding best_dialect_def Let_def by auto
qed

lemma negotiate_respond_ok:
  assumes "is_request SMB2_NEGOTIATE h pkt" "sends_plain (w_conn w) None" "in_io I = Sent"
    and "neg_SpecifiedDialect (srv_negotiator (w_srv w)) \<in> {SMB210, SMB300, SMB302}"
  shows "\<exists>w'. negotiate_respond E I pkt token w = Some (w', None)"
proof -
  obtain rsp where rsp: "ServerNegotiator_makeResponse I (w_srv w) (w_conn w) = Some rsp" "NegotiateResponse_Contexts rsp = []"
    "NegotiateResponse_SystemTime rsp \<noteq> None" "NegotiateResponse_ServerStartTime rsp \<noteq> None"
    using assms(4) by (auto simp: ServerNegotiator_makeResponse_def Let_def)
  obtain h' where h': "PrepareResponse (NegotiateResponse_Header rsp) pkt 0 = Some h'"
    using assms(1) by (simp add: PrepareResponse_def is_request_def header_reads_def)
  let ?p = "NegotiateResponse_packet (rsp\<lparr>NegotiateResponse_Header := h', NegotiateResponse_SecurityBuffer := token\<rparr>)"
  have "packet_ok ?p" by (rule NegotiateResponse_pkt.packet_of_ok) (use rsp in simp)
  then show ?thesis
    using send_alone_sent [OF _ assms(2,3), of ?p E] rsp(1) h' by (simp add: negotiate_respond_def) metis
qed

lemma negotiate_chosen:
  assumes "offers h pkt ds" "fresh w" "conn_negotiate E I pkt w = Some (w', None)"
  obtains mode caps where "same_login (chosen (best_dialect ds) mode caps w) w'" "known_dialect (best_dialect ds)"
proof -
  let ?d = "best_dialect ds"
  obtain mode caps token where u: "conn_negotiate E I pkt w = (let w = chosen ?d mode caps w in
       if ?d \<noteq> SMB311 then negotiate_respond E I pkt token w
       else do {
         lst \<leftarrow> NegotiateRequestDecoder_NegotiateContextList (drop 64 pkt);
         n \<leftarrow> NegotiateRequestDecoder_NegotiateContextCount (drop 64 pkt);
         (e, c) \<leftarrow> negotiate_contexts E (srv_enableSMB3PosixExtensions (w_srv w)) pkt (unat n) lst (w_conn w);
         case e of Some e \<Rightarrow> Some (w\<lparr>w_conn := c\<rparr>, Some e) | None \<Rightarrow> negotiate_respond E I pkt token (w\<lparr>w_conn := c\<rparr>) })"
    using assms(1,2) by (rule negotiate_unfold)
  have sd: "neg_SpecifiedDialect (srv_negotiator (w_srv (chosen ?d mode caps w))) = ?d" by (simp add: chosen_def set_negotiator_def)
  show ?thesis
  proof (cases "?d = SMB311")
    case False
    then have "negotiate_respond E I pkt token (chosen ?d mode caps w) = Some (w', None)" using u assms(3) by (simp add: Let_def)
    from negotiate_respond_same [OF this] show ?thesis
      using best_dialect_range [of ds] by (intro that) (auto simp: sd known_dialect_def)
  next
    case True
    then obtain n lst c where c: "negotiate_contexts E (srv_enableSMB3PosixExtensions (w_srv (chosen ?d mode caps w))) pkt n lst
        (w_conn (chosen ?d mode caps w)) = Some (None, c)"
      "negotiate_respond E I pkt token ((chosen ?d mode caps w)\<lparr>w_conn := c\<rparr>) = Some (w', None)"
      using u assms(3) by (auto simp: Let_def split: Option.bind_splits option.splits)
    show ?thesis
      using negotiate_contexts_same [OF c(1)] negotiate_respond_same(1) [OF c(2)] True
      by (intro that) (auto simp: same_login_def known_dialect_def)
  qed
qed

lemma negotiate_best:
  assumes "offers h pkt ds" "fresh w" "conn_negotiate E I pkt w = Some (w', None)"
  shows "negotiated w'" "conn_dialect (w_conn w') = best_dialect ds"
  using negotiate_chosen [OF assms] chosen_negotiated [OF assms(2)] by metis+

lemma negotiate_before_311:
  assumes "offers h pkt ds" "fresh w" "best_dialect ds \<noteq> SMB311"
  obtains mode caps token where
    "conn_negotiate E I pkt w = negotiate_respond E I pkt token (chosen (best_dialect ds) mode caps w)"
  by (rule negotiate_unfold [OF assms(1,2), of E I]) (rule that, simp add: Let_def assms(3))

lemma negotiate_unknown:
  assumes "offers h pkt ds" "fresh w" "\<not> known_dialect (best_dialect ds)"
  shows "conn_negotiate E I pkt w = None"
proof -
  obtain mode caps token where "conn_negotiate E I pkt w = negotiate_respond E I pkt token (chosen (best_dialect ds) mode caps w)"
    by (rule negotiate_before_311 [OF assms(1,2), of E I]) (use assms(3) in \<open>simp add: known_dialect_def\<close>)
  moreover have "negotiate_respond E I pkt token (chosen (best_dialect ds) mode caps w) = None"
    using negotiate_respond_same(2) [of E I pkt token "chosen (best_dialect ds) mode caps w"] assms(3) best_dialect_range [of ds]
    by (cases "negotiate_respond E I pkt token (chosen (best_dialect ds) mode caps w)")
      (auto simp: chosen_def set_negotiator_def known_dialect_def)
  ultimately show ?thesis by simp
qed

lemma negotiate_progress:
  assumes "offers h pkt ds" "fresh w" "best_dialect ds \<in> {SMB210, SMB300, SMB302}" "in_io I = Sent"
  shows "\<exists>w'. conn_negotiate E I pkt w = Some (w', None)"
proof -
  obtain mode caps token where u: "conn_negotiate E I pkt w = negotiate_respond E I pkt token (chosen (best_dialect ds) mode caps w)"
    by (rule negotiate_before_311 [OF assms(1,2), of E I]) (use assms(3) in auto)
  show ?thesis unfolding u
    by (rule negotiate_respond_ok [OF _ _ assms(4)])
      (use assms in \<open>auto simp: offers_def fresh_def chosen_def set_negotiator_def negotiate_conn_def intro!: sends_plain_none\<close>)
qed

section \<open>Properties of negotiation and login\<close>

text \<open>C20. Negotiation. Let a client on a connection without a session offer a list of dialects. A negotiation that succeeds leaves the
  connection with the highest offered dialect in the range 0x300 to 0x311, or 2.1 when there is none, and in the state the session setup
  starts from. It succeeds whenever that dialect is 2.1, 3.0 or 3.0.2 (3.1.1 also depends on the contexts of the client); with any
  other number in the range, which no version of the protocol uses, the response is nil and the server panics.\<close>

theorem negotiation_outcome:
  assumes "offers h pkt ds" "fresh w" "in_io I = Sent"
  shows "(\<forall>w'. conn_negotiate E I pkt w = Some (w', None) \<longrightarrow>
      negotiated w' \<and> conn_dialect (w_conn w') =
        (let S = {d \<in> set ds. SMB2_dialect < d \<and> d \<le> SMB311} in if S = {} then SMB210 else Max S)) \<and>
    (best_dialect ds \<in> {SMB210, SMB300, SMB302} \<longrightarrow> (\<exists>w'. conn_negotiate E I pkt w = Some (w', None))) \<and>
    (\<not> known_dialect (best_dialect ds) \<longrightarrow> conn_negotiate E I pkt w = None)"
  using negotiate_best [OF assms(1,2)] negotiate_unknown [OF assms(1,2)] negotiate_progress [OF assms(1,2) _ assms(3)]
  unfolding best_dialect_def by blast

text \<open>Samples: library functions, a server with one account, a client and its first request.\<close>

definition sample_env :: env where
  "sample_env = \<lparr>env_sha512 = (\<lambda>m. take 64 (m @ replicate 64 0)), env_hmac_sha256 = (\<lambda>k m. k @ m), env_aes = (\<lambda>k b. b),
     env_gcm = (\<lambda>k. \<lparr>aead_NonceSize = 12, aead_Seal = (\<lambda>_ _ _ _. None), aead_Open = (\<lambda>_ _ _. None)\<rparr>), env_ToUpper = (\<lambda>s. s),
     env_ntlm = sample_crypto, env_ber_init = (\<lambda>_. None), env_ber_resp = (\<lambda>_. None)\<rparr>"

definition sample_inp :: inp where
  "sample_inp = \<lparr>in_now = 0, in_filetime = 0, in_rand32 = 7, in_rand64 = 77, in_salt = Some (replicate 32 0),
     in_challenge = Some (replicate 8 1), in_nonce = replicate 12 0, in_io = Sent\<rparr>"

definition sample_auth :: NTLMAuthenticator where
  "sample_auth = \<lparr>auth_UserPassword = [([0x61], [0x62])], auth_TargetSPN = [], auth_NbDomain = [], auth_NbName = [], auth_DnsName = [],
     auth_DnsDomain = [], auth_AllowGuest = False, auth_ntlm = None, auth_seqNum = 0\<rparr>"

definition sample_config :: ServerConfig where
  "sample_config = \<lparr>cfg_AllowGuest = False, cfg_MaxIOReads = 0, cfg_MaxIOWrites = 0, cfg_Xatrrs = False, cfg_IgnoreSetAttrErr = False,
     cfg_AcceptSingleConn = False, cfg_EnableSMB3PosixExtensions = False\<rparr>"

definition sample_world :: "unit world" where
  "sample_world = new_world (NewServer sample_env sample_config sample_auth [([0x44], 0)] (\<lambda>_. ()))
     \<lparr>account_cap = 128, account_balance = 1, account_opening = 0\<rparr>"

definition negotiate_message :: "PacketHeader \<Rightarrow> u16 list \<Rightarrow> NegotiateRequest" where
  "negotiate_message h ds = \<lparr>NegotiateRequest_Header = h, NegotiateRequest_SecurityMode = 1, NegotiateRequest_Capabilities = 0,
     NegotiateRequest_ClientGuid = replicate 16 0, NegotiateRequest_Dialects = ds, NegotiateRequest_Contexts = []\<rparr>"

lemma negotiate_message_offers:
  assumes "length ds < 32750" "hdr_Flags h AND SMB2_FLAGS_SERVER_TO_REDIR = 0"
  obtains pkt where "offers h pkt ds"
proof -
  let ?m = "negotiate_message h ds" and ?n = "36 + length ds * 2"
  obtain q where q: "length q = 64 + ?n" "header_reads (h\<lparr>hdr_Command := SMB2_NEGOTIATE\<rparr>) q"
    "NegotiateRequest_body ?m (replicate ?n 0) = Some (drop 64 q)"
    using NegotiateRequest.encode_frame [of ?m "NegotiateRequest_Size ?m"] by (auto simp: negotiate_message_def NegotiateRequest_Size_def)
  have b: "NegotiateRequestDecoder_StructureSize (drop 64 q) = Some 36" "NegotiateRequestDecoder_Dialects (drop 64 q) = Some ds"
    using NegotiateRequest_body_reads(1,5) [OF _ q(3)] assms(1) by (simp_all add: negotiate_message_def)
  have "NegotiateRequestDecoder_NegotiateContextOffset r = Some 0" if "NegotiateRequest_body ?m (replicate ?n 0) = Some r" for r
    using that by (auto simp: NegotiateRequest_body_def negotiate_message_def on_from_put16s put16_def put32_def copy_slice_def put_def
        NegotiateRequestDecoder_defs un_at_eqs go_buf rd_replicate split: if_splits)
  then have "NegotiateRequestDecoder_IsInvalid (drop 64 q) = Some False"
    using b(1) q(1,3) by (simp add: NegotiateRequestDecoder_IsInvalid_def)
  then show ?thesis using that [of q] q b(2) assms(2) by (simp add: offers_def is_request_def)
qed

lemma sample_world_fresh: "fresh sample_world"
  by (simp add: fresh_def sample_world_def new_world_def new_conn_def)

lemma sample_best: "{d \<in> set [SMB202, SMB300, SMB302]. SMB2_dialect < d \<and> d \<le> SMB311} = {SMB300, SMB302}"
  by (auto simp del: word_less_no word_le_no)

theorem negotiation_outcome_witness:
  "\<exists>pkt w'. offers zero_header pkt [SMB202, SMB300, SMB302] \<and> conn_negotiate sample_env sample_inp pkt sample_world = Some (w', None) \<and>
     negotiated w' \<and> conn_dialect (w_conn w') = SMB302"
proof -
  have "hdr_Flags zero_header AND SMB2_FLAGS_SERVER_TO_REDIR = 0" by (simp add: zero_header_def)
  then obtain pkt where pkt: "offers zero_header pkt [SMB202, SMB300, SMB302]"
    using negotiate_message_offers [of "[SMB202, SMB300, SMB302]" zero_header] by auto
  have "in_io sample_inp = Sent" by (simp add: sample_inp_def)
  from negotiation_outcome [OF pkt sample_world_fresh this, of sample_env] show ?thesis
    using pkt unfolding best_dialect_def sample_best by auto
qed


definition sample_negotiated :: "unit world" where
  "sample_negotiated = chosen SMB311 1 0 sample_world"


section \<open>One negotiator for all connections\<close>

text \<open>A session setup request with an NTLM message as its token.\<close>

definition ntlm_setup :: "PacketHeader \<Rightarrow> bytes \<Rightarrow> bool" where
  "ntlm_setup h pkt \<longleftrightarrow> is_request SMB2_SESSION_SETUP h pkt \<and> SessionSetupRequestDecoder_IsInvalid (drop 64 pkt) = Some False \<and>
     (\<exists>tok. SessionSetupRequestDecoder_SecurityBuffer (drop 64 pkt) = Some tok \<and> raw_ntlm tok)"

lemma ntlm_setup_sample: "\<exists>pkt. ntlm_setup zero_header pkt"
proof -
  have "length ntlm_signature < 65448" "hdr_Flags zero_header AND SMB2_FLAGS_SERVER_TO_REDIR = 0"
    by (simp_all add: ntlm_signature_def ascii_def zero_header_def)
  then obtain pkt where "is_request SMB2_SESSION_SETUP zero_header pkt" "SessionSetupRequestDecoder_IsInvalid (drop 64 pkt) = Some False"
    "SessionSetupRequestDecoder_SecurityBuffer (drop 64 pkt) = Some ntlm_signature" by (rule setup_packet_ok)
  moreover have "raw_ntlm ntlm_signature" by (simp add: raw_ntlm_def ntlm_signature_def ascii_def)
  ultimately show ?thesis unfolding ntlm_setup_def by blast
qed

text \<open>C33. The negotiation state belongs to the server, not to the connection. While one client is between its two session setup
  requests, any other client that negotiates replaces the selected mechanism by none; the second request of the first client then calls
  a nil mechanism and the server panics. A session setup request before any negotiation panics as well.\<close>

theorem negotiation_state_is_shared:
  assumes "ntlm_setup h pkt" "\<not> conn_useSession (w_conn w)"
    and "offers h' pkt' ds" "fresh other" "w_srv other = w_srv w" "conn_negotiate E I' pkt' other = Some (other', None)"
  shows "(conn_serverState (w_conn w) = STATE_SESSION_SETUP_CHALLENGE \<longrightarrow>
      conn_sessionSetup E I pkt (w\<lparr>w_srv := w_srv other'\<rparr>) = None) \<and>
    (conn_serverState (w_conn w) = STATE_NEGOTIATE \<and> neg_Spnego (srv_negotiator (w_srv w)) = None \<longrightarrow> conn_sessionSetup E I pkt w = None)"
proof (intro conjI impI)
  obtain tok where t: "is_request SMB2_SESSION_SETUP h pkt" "SessionSetupRequestDecoder_IsInvalid (drop 64 pkt) = Some False"
    "SessionSetupRequestDecoder_SecurityBuffer (drop 64 pkt) = Some tok" "raw_ntlm tok" using assms(1) by (auto simp: ntlm_setup_def)
  assume st: "conn_serverState (w_conn w) = STATE_SESSION_SETUP_CHALLENGE"
  obtain mode caps where "same_login (chosen (best_dialect ds) mode caps other) other'"
    using negotiate_chosen [OF assms(3,4,6)] by metis
  then have "neg_Spnego (srv_negotiator (w_srv other')) = Some (newSpnegoServer [srv_authenticator (w_srv other)])"
    by (simp add: same_login_def chosen_def set_negotiator_def)
  then show "conn_sessionSetup E I pkt (w\<lparr>w_srv := w_srv other'\<rparr>) = None"
    using st assms(2) is_request_accept [OF t(1)] t(2-4)
    by (simp add: conn_sessionSetup_def conn_sessionServerSetupChallenge_def spnego_authenticate_def spnegoServer_authenticate_def
        newSpnegoServer_def Let_def)
next
  obtain tok where t: "is_request SMB2_SESSION_SETUP h pkt" "SessionSetupRequestDecoder_IsInvalid (drop 64 pkt) = Some False"
    "SessionSetupRequestDecoder_SecurityBuffer (drop 64 pkt) = Some tok" "raw_ntlm tok" using assms(1) by (auto simp: ntlm_setup_def)
  assume "conn_serverState (w_conn w) = STATE_NEGOTIATE \<and> neg_Spnego (srv_negotiator (w_srv w)) = None"
  then show "conn_sessionSetup E I pkt w = None"
    using assms(2) is_request_accept [OF t(1)] t(2-4)
    by (simp add: conn_sessionSetup_def conn_sessionServerSetup_def spnego_challenge_def Let_def)
qed

theorem negotiation_state_is_shared_witness:
  "\<exists>pkt pkt' other'. conn_negotiate sample_env sample_inp pkt' sample_world = Some (other', None) \<and>
     conn_sessionSetup sample_env sample_inp pkt (sample_world\<lparr>w_conn := (new_conn \<lparr>account_cap = 128, account_balance = 1, account_opening = 0\<rparr>)
       \<lparr>conn_serverState := STATE_SESSION_SETUP_CHALLENGE\<rparr>, w_srv := w_srv other'\<rparr>) = None"
proof -
  let ?w = "sample_world\<lparr>w_conn := (new_conn \<lparr>account_cap = 128, account_balance = 1, account_opening = 0\<rparr>)
       \<lparr>conn_serverState := STATE_SESSION_SETUP_CHALLENGE\<rparr>\<rparr>"
  obtain pkt where p: "ntlm_setup zero_header pkt" using ntlm_setup_sample by blast
  have "hdr_Flags zero_header AND SMB2_FLAGS_SERVER_TO_REDIR = 0" by (simp add: zero_header_def)
  then obtain pkt' where o': "offers zero_header pkt' [SMB202, SMB300, SMB302]"
    using negotiate_message_offers [of "[SMB202, SMB300, SMB302]" zero_header] by auto
  have "best_dialect [SMB202, SMB300, SMB302] \<in> {SMB210, SMB300, SMB302}" unfolding best_dialect_def sample_best by simp
  then obtain other' where n: "conn_negotiate sample_env sample_inp pkt' sample_world = Some (other', None)"
    using negotiate_progress [OF o' sample_world_fresh, of sample_inp sample_env] by (auto simp: sample_inp_def)
  have "\<not> conn_useSession (w_conn ?w)" "w_srv sample_world = w_srv ?w" by (simp_all add: new_conn_def)
  from negotiation_state_is_shared [OF p this(1) o' sample_world_fresh this(2) n, of sample_inp] show ?thesis
    using n by (intro exI conjI) (assumption, simp)
qed

end
