(* ===== verification/File_Dir.thy ===== *)
theory File_Dir
  imports File_Tree Server_Session
begin

text \<open>
  \<open>server/file_tree.go\<close>, second part: directory listings. A listing is built from the entries the file system streams, one structure
  per entry, until the client's buffer is full; what did not fit is kept in the open for the next request. The loop over the stream
  ends only if the stream does, so it is a partial function: \<open>None\<close> where it does not return, and inside, \<open>None\<close> for a panic.
\<close>

section \<open>The structure of an entry\<close>

definition newFileDirectoryInformationInfo :: "DirInfo \<Rightarrow> FileDirectoryInformationInfo option" where
  "newFileDirectoryInformationInfo d = do {
     let a = DirInfo_Attributes d;
     perms \<leftarrow> PermissionsFromVfs a (DirInfo_Name d);
     Some \<lparr>FileDirectoryInformationInfo_NextEntryOffset = 0, FileDirectoryInformationInfo_FileIndex = 0,
       FileDirectoryInformationInfo_CreationTime = BirthTimeFromVfs a, FileDirectoryInformationInfo_LastAccessTime = AccessTimeFromVfs a,
       FileDirectoryInformationInfo_LastWriteTime = ModifiedTimeFromVfs a, FileDirectoryInformationInfo_ChangeTime = ChangeTimeFromVfs a,
       FileDirectoryInformationInfo_EndOfFile = SizeFromVfs a, FileDirectoryInformationInfo_AllocationSize = DiskSizeFromVfs a,
       FileDirectoryInformationInfo_FileAttributes = perms,
       FileDirectoryInformationInfo_FileName = DirInfo_Name d\<rparr> }"

definition newFileFullDirectoryInformationInfo :: "DirInfo \<Rightarrow> FileFullDirectoryInformationInfo option" where
  "newFileFullDirectoryInformationInfo d = do {
     let a = DirInfo_Attributes d;
     perms \<leftarrow> PermissionsFromVfs a (DirInfo_Name d);
     Some \<lparr>FileFullDirectoryInformationInfo_NextEntryOffset = 0, FileFullDirectoryInformationInfo_FileIndex = 0,
       FileFullDirectoryInformationInfo_CreationTime = BirthTimeFromVfs a, FileFullDirectoryInformationInfo_LastAccessTime = AccessTimeFromVfs a,
       FileFullDirectoryInformationInfo_LastWriteTime = ModifiedTimeFromVfs a, FileFullDirectoryInformationInfo_ChangeTime = ChangeTimeFromVfs a,
       FileFullDirectoryInformationInfo_EndOfFile = SizeFromVfs a, FileFullDirectoryInformationInfo_AllocationSize = DiskSizeFromVfs a,
       FileFullDirectoryInformationInfo_FileAttributes = perms,
       FileFullDirectoryInformationInfo_EaSize = (if perms AND FILE_ATTRIBUTE_REPARSE_POINT \<noteq> 0 then IO_REPARSE_TAG_SYMLINK else 0),
       FileFullDirectoryInformationInfo_FileName = DirInfo_Name d\<rparr> }"

definition newFileIdFullDirectoryInformationInfo :: "DirInfo \<Rightarrow> FileIdFullDirectoryInformationInfo option" where
  "newFileIdFullDirectoryInformationInfo d = do {
     let a = DirInfo_Attributes d;
     perms \<leftarrow> PermissionsFromVfs a (DirInfo_Name d);
     Some \<lparr>FileIdFullDirectoryInformationInfo_NextEntryOffset = 0, FileIdFullDirectoryInformationInfo_FileIndex = 0,
       FileIdFullDirectoryInformationInfo_CreationTime = BirthTimeFromVfs a, FileIdFullDirectoryInformationInfo_LastAccessTime = AccessTimeFromVfs a,
       FileIdFullDirectoryInformationInfo_LastWriteTime = ModifiedTimeFromVfs a, FileIdFullDirectoryInformationInfo_ChangeTime = ChangeTimeFromVfs a,
       FileIdFullDirectoryInformationInfo_EndOfFile = SizeFromVfs a, FileIdFullDirectoryInformationInfo_AllocationSize = DiskSizeFromVfs a,
       FileIdFullDirectoryInformationInfo_FileAttributes = perms,
       FileIdFullDirectoryInformationInfo_EaSize = (if perms AND FILE_ATTRIBUTE_REPARSE_POINT \<noteq> 0 then IO_REPARSE_TAG_SYMLINK else 0),
       FileIdFullDirectoryInformationInfo_Pad2 = 0,
       FileIdFullDirectoryInformationInfo_FileId = 0,
       FileIdFullDirectoryInformationInfo_FileName = DirInfo_Name d\<rparr> }"

definition newFileIdBothDirectoryInformationInfo :: "DirInfo \<Rightarrow> FileIdBothDirectoryInformationInfo option" where
  "newFileIdBothDirectoryInformationInfo d = do {
     let a = DirInfo_Attributes d;
     node \<leftarrow> Attributes_GetInodeNumber a;
     perms \<leftarrow> PermissionsFromVfs a (DirInfo_Name d);
     Some \<lparr>FileIdBothDirectoryInformationInfo_NextEntryOffset = 0, FileIdBothDirectoryInformationInfo_FileIndex = 0,
       FileIdBothDirectoryInformationInfo_CreationTime = BirthTimeFromVfs a, FileIdBothDirectoryInformationInfo_LastAccessTime = AccessTimeFromVfs a,
       FileIdBothDirectoryInformationInfo_LastWriteTime = ModifiedTimeFromVfs a, FileIdBothDirectoryInformationInfo_ChangeTime = ChangeTimeFromVfs a,
       FileIdBothDirectoryInformationInfo_EndOfFile = SizeFromVfs a, FileIdBothDirectoryInformationInfo_AllocationSize = DiskSizeFromVfs a,
       FileIdBothDirectoryInformationInfo_FileAttributes = perms,
       FileIdBothDirectoryInformationInfo_EaSize = (if perms AND FILE_ATTRIBUTE_REPARSE_POINT \<noteq> 0 then IO_REPARSE_TAG_SYMLINK else 0),
       FileIdBothDirectoryInformationInfo_ShortNameLength = 0,
       FileIdBothDirectoryInformationInfo_Pad = 0,
       FileIdBothDirectoryInformationInfo_ShortName = replicate 24 0,
       FileIdBothDirectoryInformationInfo_Pad2 = 0,
       FileIdBothDirectoryInformationInfo_FileId = node,
       FileIdBothDirectoryInformationInfo_FileName = DirInfo_Name d\<rparr> }"

definition newFileBothDirectoryInformationInfo :: "DirInfo \<Rightarrow> FileBothDirectoryInformationInfo option" where
  "newFileBothDirectoryInformationInfo d = do {
     let a = DirInfo_Attributes d;
     perms \<leftarrow> PermissionsFromVfs a (DirInfo_Name d);
     Some \<lparr>FileBothDirectoryInformationInfo_NextEntryOffset = 0, FileBothDirectoryInformationInfo_FileIndex = 0,
       FileBothDirectoryInformationInfo_CreationTime = BirthTimeFromVfs a, FileBothDirectoryInformationInfo_LastAccessTime = AccessTimeFromVfs a,
       FileBothDirectoryInformationInfo_LastWriteTime = ModifiedTimeFromVfs a, FileBothDirectoryInformationInfo_ChangeTime = ChangeTimeFromVfs a,
       FileBothDirectoryInformationInfo_EndOfFile = SizeFromVfs a, FileBothDirectoryInformationInfo_AllocationSize = DiskSizeFromVfs a,
       FileBothDirectoryInformationInfo_FileAttributes = perms,
       FileBothDirectoryInformationInfo_EaSize = (if perms AND FILE_ATTRIBUTE_REPARSE_POINT \<noteq> 0 then IO_REPARSE_TAG_SYMLINK else 0),
       FileBothDirectoryInformationInfo_ShortNameLength = 0,
       FileBothDirectoryInformationInfo_Pad = 0,
       FileBothDirectoryInformationInfo_ShortName = replicate 24 0,
       FileBothDirectoryInformationInfo_FileName = DirInfo_Name d\<rparr> }"

definition newFileIdAllExtdBothDirectoryInformationInfo :: "DirInfo \<Rightarrow> FileIdAllExtdBothDirectoryInformationInfo option" where
  "newFileIdAllExtdBothDirectoryInformationInfo d = do {
     let a = DirInfo_Attributes d;
     node \<leftarrow> Attributes_GetInodeNumber a;
     perms \<leftarrow> PermissionsFromVfs a (DirInfo_Name d);
     Some \<lparr>FileIdAllExtdBothDirectoryInformationInfo_NextEntryOffset = 0, FileIdAllExtdBothDirectoryInformationInfo_FileIndex = 0,
       FileIdAllExtdBothDirectoryInformationInfo_CreationTime = BirthTimeFromVfs a, FileIdAllExtdBothDirectoryInformationInfo_LastAccessTime = AccessTimeFromVfs a,
       FileIdAllExtdBothDirectoryInformationInfo_LastWriteTime = ModifiedTimeFromVfs a, FileIdAllExtdBothDirectoryInformationInfo_ChangeTime = ChangeTimeFromVfs a,
       FileIdAllExtdBothDirectoryInformationInfo_EndOfFile = SizeFromVfs a, FileIdAllExtdBothDirectoryInformationInfo_AllocationSize = DiskSizeFromVfs a,
       FileIdAllExtdBothDirectoryInformationInfo_FileAttributes = perms,
       FileIdAllExtdBothDirectoryInformationInfo_EaSize = (if perms AND FILE_ATTRIBUTE_REPARSE_POINT \<noteq> 0 then IO_REPARSE_TAG_SYMLINK else 0),
       FileIdAllExtdBothDirectoryInformationInfo_ReparsePointTag = 0,
       FileIdAllExtdBothDirectoryInformationInfo_FileId = node,
       FileIdAllExtdBothDirectoryInformationInfo_FileId128 = 0,
       FileIdAllExtdBothDirectoryInformationInfo_FileId128_2 = 0,
       FileIdAllExtdBothDirectoryInformationInfo_ShortNameLength = 0,
       FileIdAllExtdBothDirectoryInformationInfo_Pad = 0,
       FileIdAllExtdBothDirectoryInformationInfo_ShortName = replicate 24 0,
       FileIdAllExtdBothDirectoryInformationInfo_FileName = DirInfo_Name d\<rparr> }"

definition newFilePosixInformationInfo :: "DirInfo \<Rightarrow> FilePosixInformationInfo option" where
  "newFilePosixInformationInfo d = do {
     let a = DirInfo_Attributes d;
     perms \<leftarrow> PermissionsFromVfs a (DirInfo_Name d);
     node \<leftarrow> Attributes_GetInodeNumber a;
     links \<leftarrow> Attributes_GetLinkCount a;
     tag \<leftarrow> reparseTagFromVfs a;
     mode \<leftarrow> posixModeFromVfs a;
     Some \<lparr>FilePosixInformationInfo_CreationTime = BirthTimeFromVfs a, FilePosixInformationInfo_LastAccessTime = AccessTimeFromVfs a,
       FilePosixInformationInfo_LastWriteTime = ModifiedTimeFromVfs a, FilePosixInformationInfo_ChangeTime = ChangeTimeFromVfs a,
       FilePosixInformationInfo_EndOfFile = SizeFromVfs a, FilePosixInformationInfo_AllocationSize = DiskSizeFromVfs a,
       FilePosixInformationInfo_FileAttributes = perms,
       FilePosixInformationInfo_Inode = node, FilePosixInformationInfo_Device = ucast (fst (Attributes_GetDeviceNumber a)), FilePosixInformationInfo_Reserved = 0,
       FilePosixInformationInfo_NumberOfLinks = links, FilePosixInformationInfo_ReparseTag = tag, FilePosixInformationInfo_PosixMode = mode,
       FilePosixInformationInfo_OwnerSID = SIDFromUid (fst (Attributes_GetUID a)), FilePosixInformationInfo_GroupSID = SIDFromGid (fst (Attributes_GetGID a)),
       FilePosixInformationInfo_FileName = DirInfo_Name d\<rparr> }"

definition newFilePosixDirectoryInformationInfo :: "DirInfo \<Rightarrow> FilePosixDirectoryInformationInfo option" where
  "newFilePosixDirectoryInformationInfo d = do {
     i \<leftarrow> newFilePosixInformationInfo d;
     Some \<lparr>FilePosixDirectoryInformationInfo_NextEntryOffset = 0, FilePosixDirectoryInformationInfo_FileIndex = 0,
       FilePosixDirectoryInformationInfo_Info = i, FilePosixDirectoryInformationInfo_FileName = DirInfo_Name d\<rparr> }"

definition newFileNamesInformationInfo :: "DirInfo \<Rightarrow> FileNamesInformationInfo" where
  "newFileNamesInformationInfo d = \<lparr>FileNamesInformationInfo_NextEntryOffset = 0, FileNamesInformationInfo_FileIndex = 0,
     FileNamesInformationInfo_FileName = DirInfo_Name d\<rparr>"

text \<open>\<open>path.Join\<close> of two non-empty elements: \<open>path.Clean\<close> of them with a slash between.\<close>

fun clean_parts :: "bool \<Rightarrow> go_string list \<Rightarrow> go_string list \<Rightarrow> go_string list" where
  "clean_parts rooted out [] = rev out"
| "clean_parts rooted out (p # ps) =
     (if p = [] \<or> p = [DOT] then clean_parts rooted out ps
      else if p = [DOT, DOT] then
        (if out \<noteq> [] \<and> hd out \<noteq> [DOT, DOT] then clean_parts rooted (tl out) ps
         else if rooted then clean_parts rooted out ps
         else clean_parts rooted (p # out) ps)
      else clean_parts rooted (p # out) ps)"

definition path_Clean :: "go_string \<Rightarrow> go_string" where
  "path_Clean p =
     (if p = [] then [DOT]
      else let rooted = (hd p = SLASH);
               q = (if rooted then [SLASH] else []) @ strings_Join (clean_parts rooted [] (split_byte SLASH p)) [SLASH]
           in if q = [] then [DOT] else q)"

definition path_Join2 :: "go_string \<Rightarrow> go_string \<Rightarrow> go_string" where
  "path_Join2 a b = (if a = [] \<and> b = [] then [] else if a = [] then path_Clean b else if b = [] then path_Clean a
     else path_Clean (a @ [SLASH] @ b))"

text \<open>The Finder information of an entry, from the extended attribute of the file behind it.\<close>

definition finder_info :: "'f tree_env \<Rightarrow> DirInfo \<Rightarrow> Open \<Rightarrow> 'f world \<Rightarrow> (bytes \<times> 'f world) option" where
  "finder_info X d parent w =
     (if \<not> srv_xattrs (w_srv w) \<or> DirInfo_Name d = [DOT, DOT] \<or> DirInfo_Name d = [DOT] then Some (replicate 16 0, w)
      else do {
        let p = (if Open_pathName parent \<noteq> [] \<and> Open_pathName parent \<noteq> [SLASH] then path_Join2 (Open_pathName parent) (DirInfo_Name d)
          else DirInfo_Name d);
        t \<leftarrow> Attributes_GetFileType (DirInfo_Attributes d);
        let (h, w) = (if t = FileTypeDirectory then fs_call X (\<lambda>v. vfs_OpenDir v p) w
          else if t = FileTypeRegularFile then fs_call X (\<lambda>v. vfs_Open v p 0 0) w
          else (Inr 0, w));
        case h of
          Inl _ \<Rightarrow> Some (replicate 16 0, w)
        | Inr h \<Rightarrow>
            if h = 0 then Some (replicate 16 0, w)
            else let (((n, b), e), w) = fs_call X (\<lambda>v. vfs_Getxattr v h AFP_AfpInfo (Some 60)) w;
                     info = (if e = None \<and> 16 \<le> n then go_copy (replicate 16 0) (drop 16 (go_copy (replicate 60 0) b)) else replicate 16 0);
                     (_, w) = fs_call X (\<lambda>v. vfs_Close v h) w
                 in Some (info, w) })"

definition fileTree_newFileIdBothDirectoryInformationInfo2 :: "'f tree_env \<Rightarrow> DirInfo \<Rightarrow> Open \<Rightarrow> 'f world \<Rightarrow>
    (FileIdBothDirectoryInformationInfo2 \<times> 'f world) option" where
  "fileTree_newFileIdBothDirectoryInformationInfo2 X d parent w = do {
     let a = DirInfo_Attributes d;
     node \<leftarrow> Attributes_GetInodeNumber a;
     mode \<leftarrow> UnixModeFromVfs a;
     perms \<leftarrow> PermissionsFromVfs a (DirInfo_Name d);
     (info, w) \<leftarrow> finder_info X d parent w;
     Some (\<lparr>FileIdBothDirectoryInformationInfo2_NextEntryOffset = 0, FileIdBothDirectoryInformationInfo2_FileIndex = 0,
       FileIdBothDirectoryInformationInfo2_CreationTime = BirthTimeFromVfs a, FileIdBothDirectoryInformationInfo2_LastAccessTime = AccessTimeFromVfs a,
       FileIdBothDirectoryInformationInfo2_LastWriteTime = ModifiedTimeFromVfs a, FileIdBothDirectoryInformationInfo2_ChangeTime = ChangeTimeFromVfs a,
       FileIdBothDirectoryInformationInfo2_EndOfFile = SizeFromVfs a, FileIdBothDirectoryInformationInfo2_AllocationSize = DiskSizeFromVfs a,
       FileIdBothDirectoryInformationInfo2_FileAttributes = perms,
       FileIdBothDirectoryInformationInfo2_MaxAccess = (if perms AND FILE_ATTRIBUTE_REPARSE_POINT \<noteq> 0 then IO_REPARSE_TAG_SYMLINK
         else MaxAccessFromVfs a),
       FileIdBothDirectoryInformationInfo2_ShortNameLength = 0, FileIdBothDirectoryInformationInfo2_Pad = 0, FileIdBothDirectoryInformationInfo2_RsrcForkLen = 0,
       FileIdBothDirectoryInformationInfo2_CompressedFinderInfo = info, FileIdBothDirectoryInformationInfo2_UnixMode = mode,
       FileIdBothDirectoryInformationInfo2_FileId = node, FileIdBothDirectoryInformationInfo2_FileName = DirInfo_Name d\<rparr>, w) }"

section \<open>Filling the response\<close>

definition info_encoder :: "('i \<Rightarrow> nat) \<Rightarrow> ('i \<Rightarrow> writer) \<Rightarrow> 'i \<Rightarrow> encoder" where
  "info_encoder sz en i = \<lparr>enc_Size = sz i, enc_Encode = en i\<rparr>"

abbreviation (input) "FileDirectoryInformation \<equiv> (1 :: u8)"
abbreviation (input) "FileFullDirectoryInformation \<equiv> (2 :: u8)"
abbreviation (input) "FileBothDirectoryInformation \<equiv> (3 :: u8)"
abbreviation (input) "FileNamesInformation \<equiv> (12 :: u8)"
abbreviation (input) "FileIdBothDirectoryInformation \<equiv> (37 :: u8)"
abbreviation (input) "FileIdFullDirectoryInformation \<equiv> (38 :: u8)"
abbreviation (input) "FileIdAllExtdBothDirectoryInformation \<equiv> (81 :: u8)"
abbreviation (input) "FilePosixInformation \<equiv> (0x64 :: u8)"

definition plain_item :: "u8 \<Rightarrow> DirInfo \<Rightarrow> encoder option" where
  "plain_item class d =
     (if class = FileBothDirectoryInformation then map_option (info_encoder FileBothDirectoryInformationInfo_Size FileBothDirectoryInformationInfo_Encode)
        (newFileBothDirectoryInformationInfo d)
      else if class = FileNamesInformation then Some (info_encoder FileNamesInformationInfo_Size FileNamesInformationInfo_Encode
        (newFileNamesInformationInfo d))
      else if class = FileIdBothDirectoryInformation then map_option (info_encoder FileIdBothDirectoryInformationInfo_Size
        FileIdBothDirectoryInformationInfo_Encode) (newFileIdBothDirectoryInformationInfo d)
      else if class = FileDirectoryInformation then map_option (info_encoder FileDirectoryInformationInfo_Size FileDirectoryInformationInfo_Encode)
        (newFileDirectoryInformationInfo d)
      else if class = FileFullDirectoryInformation then map_option (info_encoder FileFullDirectoryInformationInfo_Size
        FileFullDirectoryInformationInfo_Encode) (newFileFullDirectoryInformationInfo d)
      else if class = FileIdFullDirectoryInformation then map_option (info_encoder FileIdFullDirectoryInformationInfo_Size
        FileIdFullDirectoryInformationInfo_Encode) (newFileIdFullDirectoryInformationInfo d)
      else if class = FileIdAllExtdBothDirectoryInformation then map_option (info_encoder FileIdAllExtdBothDirectoryInformationInfo_Size
        FileIdAllExtdBothDirectoryInformationInfo_Encode) (newFileIdAllExtdBothDirectoryInformationInfo d)
      else if class = FilePosixInformation then map_option (info_encoder FilePosixDirectoryInformationInfo_Size
        FilePosixDirectoryInformationInfo_Encode) (newFilePosixDirectoryInformationInfo d)
      else None)"

text \<open>\<open>makeItem\<close>; for a class it does not know the item is nil and its first use panics.\<close>

definition fileTree_makeItem :: "'f tree_env \<Rightarrow> u8 \<Rightarrow> DirInfo \<Rightarrow> Open \<Rightarrow> 'f world \<Rightarrow> (encoder \<times> 'f world) option" where
  "fileTree_makeItem X class d parent w =
     (if class = FileIdBothDirectoryInformation \<and> tree_aapl (tree_of X w)
      then map_option (\<lambda>(i, w). (info_encoder FileIdBothDirectoryInformationInfo2_Size FileIdBothDirectoryInformationInfo2_Encode i, w))
        (fileTree_newFileIdBothDirectoryInformationInfo2 X d parent w)
      else map_option (\<lambda>i. (i, w)) (plain_item class d))"

abbreviation (input) "queryDirectoryReadBatchSize \<equiv> (128 :: nat)"
abbreviation (input) "RESTART_SCANS \<equiv> (1 :: u8)"
abbreviation (input) "RETURN_SINGLE_ENTRY \<equiv> (2 :: u8)"
abbreviation (input) "REOPEN \<equiv> (0x10 :: u8)"

definition appendDirectoryInfo :: "encoder list \<Rightarrow> encoder \<Rightarrow> nat \<Rightarrow> encoder list option" where
  "appendDirectoryInfo out item maxSize =
     (if maxSize < enc_Size item \<or> maxSize < FileInformationInfoResponse_Size out + enc_Size item then None else Some (out @ [item]))"

text \<open>What the loop over a batch leaves: the items, the entries put back, whether it stopped and whether for lack of space.\<close>

type_synonym 'f appended = "(encoder list \<times> DirInfo list \<times> bool \<times> bool \<times> 'f world) option"

fun fileTree_appendDirectoryEntries :: "'f tree_env \<Rightarrow> encoder list \<Rightarrow> DirInfo list \<Rightarrow> go_string \<Rightarrow> u8 \<Rightarrow> Open \<Rightarrow> nat \<Rightarrow> bool \<Rightarrow> 'f world \<Rightarrow> 'f appended" where
  "fileTree_appendDirectoryEntries X out [] pattern class o' maxSize single w = Some (out, Open_queryDirectoryPending o', False, False, w)"
| "fileTree_appendDirectoryEntries X out (d # ds) pattern class o' maxSize single w =
     (if \<not> MatchWildcard (te_regexp X) (DirInfo_Name d) pattern
      then fileTree_appendDirectoryEntries X out ds pattern class o' maxSize single w
      else do {
        (info, w) \<leftarrow> fileTree_makeItem X class d o' w;
        case appendDirectoryInfo out info maxSize of
          None \<Rightarrow> Some (out, Open_queryDirectoryPending o' @ d # ds, True, True, w)
        | Some out \<Rightarrow>
            if single \<or> maxSize \<le> FileInformationInfoResponse_Size out
            then Some (out, Open_queryDirectoryPending o' @ ds, True, False, w)
            else fileTree_appendDirectoryEntries X out ds pattern class o' maxSize single w })"

definition queryDirectoryAppendStatus :: "encoder list \<Rightarrow> bool \<Rightarrow> u32 \<times> bool" where
  "queryDirectoryAppendStatus out full =
     (if out \<noteq> [] then (0, True) else if full then (STATUS_BUFFER_TOO_SMALL, True) else (0, False))"

type_synonym 'f listed_to = "(u32 \<times> encoder list \<times> Open \<times> 'f world) option"

partial_function (option) query_loop :: "'f tree_env \<Rightarrow> encoder list \<Rightarrow> Open \<Rightarrow> u64 \<Rightarrow> go_string \<Rightarrow> u8 \<Rightarrow> bool \<Rightarrow> nat \<Rightarrow> nat \<Rightarrow> 'f world \<Rightarrow> 'f listed_to option" where
  "query_loop X out o' h pattern class single maxSize flags w =
     (case fs_call X (\<lambda>v. vfs_ReadDir v h flags (if single then 1 else queryDirectoryReadBatchSize)) w of (r, w) \<Rightarrow>
      case r of
        Inl e \<Rightarrow> Some (Some (if out \<noteq> [] then 0 else if e = VE_EOF then STATUS_NO_MORE_FILES else STATUS_ACCESS_DENIED, out, o', w))
      | Inr dir \<Rightarrow>
          if dir = [] then Some (Some (if out \<noteq> [] then 0 else STATUS_NO_MORE_FILES, out, o', w))
          else case fileTree_appendDirectoryEntries X out dir pattern class o' maxSize single w of
              None \<Rightarrow> Some None
            | Some (out, pending, stopped, full, w) \<Rightarrow>
                let o' = o'\<lparr>Open_queryDirectoryPending := pending\<rparr>; (status, done) = queryDirectoryAppendStatus out full in
                if done then Some (Some (status, out, o', w))
                else if stopped then Some (Some (STATUS_NO_SUCH_FILE, out, o', w))
                else query_loop X out o' h pattern class single maxSize ReadDirContinue w)"

definition fileTree_queryDirectoryWildcard :: "'f tree_env \<Rightarrow> Open \<Rightarrow> u64 \<Rightarrow> go_string \<Rightarrow> u8 \<Rightarrow> u8 \<Rightarrow> nat \<Rightarrow> nat \<Rightarrow> 'f world \<Rightarrow> 'f listed_to option" where
  "fileTree_queryDirectoryWildcard X o' h pattern class flags maxSize readDirFlags w =
     (let single = (flags AND RETURN_SINGLE_ENTRY \<noteq> 0); pending = Open_queryDirectoryPending o' in
      if pending = [] then query_loop X [] o' h pattern class single maxSize readDirFlags w
      else let o' = o'\<lparr>Open_queryDirectoryPending := []\<rparr> in
        case fileTree_appendDirectoryEntries X [] pending pattern class o' maxSize single w of
          None \<Rightarrow> Some None
        | Some (out, pending, _, full, w) \<Rightarrow>
            let o' = o'\<lparr>Open_queryDirectoryPending := pending\<rparr>; (status, done) = queryDirectoryAppendStatus out full in
            if done then Some (Some (status, out, o', w))
            else query_loop X out o' h pattern class single maxSize readDirFlags w)"

section \<open>The handler\<close>

definition directory_class :: "u8 \<Rightarrow> bool" where
  "directory_class class \<longleftrightarrow> class \<in> {FileIdBothDirectoryInformation, FileFullDirectoryInformation, FileNamesInformation, FileDirectoryInformation,
     FileIdFullDirectoryInformation, FileBothDirectoryInformation, FileIdAllExtdBothDirectoryInformation, FilePosixInformation}"

text \<open>A name without wildcards is looked up, once per scan.\<close>

definition query_single :: "'f tree_env \<Rightarrow> Open \<Rightarrow> u64 \<Rightarrow> go_string \<Rightarrow> u8 \<Rightarrow> nat \<Rightarrow> 'f world \<Rightarrow> 'f listed_to" where
  "query_single X o' h name class maxSize w =
     (if Open_queryDirectorySingleDone o' \<and> Open_queryDirectorySingleName o' = name then Some (STATUS_NO_MORE_FILES, [], o', w)
      else let (a, w) = fs_call X (\<lambda>v. vfs_Lookup v h name) w in
        case a of
          Inl _ \<Rightarrow> Some (STATUS_NO_SUCH_FILE, [], o', w)
        | Inr a \<Rightarrow> do {
            (info, w) \<leftarrow> fileTree_makeItem X class \<lparr>DirInfo_Name = name, DirInfo_Attributes = a\<rparr> o' w;
            Some (case appendDirectoryInfo [] info maxSize of
                None \<Rightarrow> (STATUS_BUFFER_TOO_SMALL, [], o', w)
              | Some out \<Rightarrow> (0, out, o'\<lparr>Open_queryDirectorySingleName := name, Open_queryDirectorySingleDone := True\<rparr>, w)) })"

text \<open>The part of \<open>queryDirectory\<close> between finding the open and sending the response.\<close>

definition query_run :: "'f tree_env \<Rightarrow> compoundContext option \<Rightarrow> Open \<Rightarrow> u64 \<Rightarrow> go_string \<Rightarrow> u8 \<Rightarrow> u8 \<Rightarrow> nat \<Rightarrow> 'f world \<Rightarrow> 'f listed_to option" where
  "query_run X ctx o' h name class flags maxSize w =
     (let restart = (flags AND (RESTART_SCANS OR REOPEN) \<noteq> 0);
          o' = (if restart then o'\<lparr>Open_queryDirectoryPending := [], Open_queryDirectorySingleName := [], Open_queryDirectorySingleDone := False\<rparr>
                else o');
          status = (case ctx of None \<Rightarrow> 0 | Some c \<Rightarrow> comp_lastStatus c);
          status = (if maxSize = 0 then STATUS_BUFFER_TOO_SMALL else status) in
      if status \<noteq> 0 then Some (Some (status, [], o', w))
      else if \<not> ContainsWildcard name then Some (query_single X o' h name class maxSize w)
      else fileTree_queryDirectoryWildcard X o' h name class flags maxSize (if restart then ReadDirRestart else ReadDirContinue) w)"

definition listing_encoder :: "encoder list \<Rightarrow> encoder" where
  "listing_encoder = info_encoder FileInformationInfoResponse_Size FileInformationInfoResponse_Encode"

text \<open>\<open>None\<close> where the handler does not return.\<close>

definition fileTree_queryDirectory :: "'f tree_env \<Rightarrow> compoundContext option \<Rightarrow> bytes \<Rightarrow> 'f world \<Rightarrow> 'f handled option" where
  "fileTree_queryDirectory X ctx pkt w =
     (case do {
        _ \<leftarrow> tree_session (tree_of X w);
        r \<leftarrow> accepted SMB2_QUERY_DIRECTORY pkt;
        class \<leftarrow> QueryDirectoryRequestDecoder_FileInfoClass r;
        if \<not> directory_class class then Some (Inl STATUS_INVALID_PARAMETER)
        else do {
          name \<leftarrow> QueryDirectoryRequestDecoder_FileName r;
          f \<leftarrow> request_fileId ctx (QueryDirectoryRequestDecoder_FileId r);
          if IsInvalidFileId (Some f) then Some (Inl STATUS_INVALID_HANDLE)
          else do {
            len \<leftarrow> QueryDirectoryRequestDecoder_OutputBufferLength r;
            flags \<leftarrow> QueryDirectoryRequestDecoder_Flags r;
            Some (case get_open (FileId_HandleId f) w of
                None \<Rightarrow> Inl STATUS_INVALID_HANDLE
              | Some o' \<Rightarrow> Inr (o', FileId_HandleId f, name, class, flags, unat len)) } } } of
        None \<Rightarrow> Some None
      | Some (Inl status) \<Rightarrow> Some (reply_error X pkt status ctx w)
      | Some (Inr (o', h, name, class, flags, maxSize)) \<Rightarrow>
          map_option (\<lambda>r. do {
            (status, out, o', w) \<leftarrow> r;
            let w = on_table (set_open o') w;
            if status \<noteq> 0 then reply_error X pkt status ctx w
            else do {
              hd' \<leftarrow> PrepareResponse zero_header pkt status;
              reply X (QueryDirectoryResponse_packet \<lparr>QueryDirectoryResponse_Header = hd',
                QueryDirectoryResponse_Output = Some (listing_encoder out)\<rparr>) ctx w } })
          (query_run X ctx o' h name class flags maxSize w))"

section \<open>The size of a listing\<close>

definition listing_size :: "encoder list \<Rightarrow> nat" where
  "listing_size out = FileInformationInfoResponse_Size out"

lemma listing_size_simps [simp]: "listing_size [] = 0" "listing_size (out @ [i]) = listing_size out + enc_Size i"
  by (simp_all add: listing_size_def FileInformationInfoResponse_Size_def)

lemma appendDirectoryInfo_Some:
  "appendDirectoryInfo out i m = Some out' \<longleftrightarrow> out' = out @ [i] \<and> listing_size out' \<le> m"
  by (auto simp: appendDirectoryInfo_def listing_size_def FileInformationInfoResponse_Size_def)

lemma appendDirectoryInfo_None: "appendDirectoryInfo out i m = None \<longleftrightarrow> m < listing_size out + enc_Size i"
  by (auto simp: appendDirectoryInfo_def listing_size_def)

lemma append_bound:
  "fileTree_appendDirectoryEntries X out ds pattern class o' m single w = Some (out', r) \<Longrightarrow> listing_size out \<le> m \<Longrightarrow> listing_size out' \<le> m"
proof (induction ds arbitrary: out w)
  case (Cons d ds)
  then show ?case
    by (auto simp: appendDirectoryInfo_Some split: if_splits bind_splits option.splits)
qed simp

lemma query_loop_bound:
  assumes "query_loop X out o' h pattern class single m flags w = Some r"
  shows "listing_size out \<le> m \<longrightarrow> (case r of None \<Rightarrow> True | Some (st, out', o2, w2) \<Rightarrow> listing_size out' \<le> m)"
proof (rule query_loop.raw_induct [OF _ assms])
  fix loop :: "'f tree_env \<Rightarrow> encoder list \<Rightarrow> Open \<Rightarrow> u64 \<Rightarrow> go_string \<Rightarrow> u8 \<Rightarrow> bool \<Rightarrow> nat \<Rightarrow> nat \<Rightarrow> 'f world \<Rightarrow> 'f listed_to option"
    and X :: "'f tree_env" and out o' h pattern cls single m flags and w :: "'f world" and r
  let ?Q = "\<lambda>out m r. listing_size out \<le> m \<longrightarrow> (case r of None \<Rightarrow> True | Some (st, out', o2, w2) \<Rightarrow> listing_size out' \<le> m)"
  assume IH: "\<And>X out o' h pattern cls single m flags w r.
      loop X out o' h pattern cls single m flags w = Some r \<Longrightarrow> ?Q out m r"
    and "(case fs_call X (\<lambda>v. vfs_ReadDir v h flags (if single then 1 else queryDirectoryReadBatchSize)) w of (r, w) \<Rightarrow>
      case r of
        Inl e \<Rightarrow> Some (Some (if out \<noteq> [] then 0 else if e = VE_EOF then STATUS_NO_MORE_FILES else STATUS_ACCESS_DENIED, out, o', w))
      | Inr dir \<Rightarrow>
          if dir = [] then Some (Some (if out \<noteq> [] then 0 else STATUS_NO_MORE_FILES, out, o', w))
          else case fileTree_appendDirectoryEntries X out dir pattern cls o' m single w of
              None \<Rightarrow> Some None
            | Some (out, pending, stopped, full, w) \<Rightarrow>
                let o' = o'\<lparr>Open_queryDirectoryPending := pending\<rparr>; (status, done) = queryDirectoryAppendStatus out full in
                if done then Some (Some (status, out, o', w))
                else if stopped then Some (Some (STATUS_NO_SUCH_FILE, out, o', w))
                else loop X out o' h pattern cls single m ReadDirContinue w) = Some r"
  then show "?Q out m r"
    by (auto simp: Let_def split: prod.splits sum.splits if_splits option.splits dest!: IH append_bound)
qed

lemma query_run_bound:
  assumes "query_run X ctx o' h name cls flags m w = Some (Some (st, out, o2, w2))"
  shows "listing_size out \<le> m"
  using assms
  by (auto simp: query_run_def query_single_def fileTree_queryDirectoryWildcard_def Let_def appendDirectoryInfo_Some
      split: if_splits option.splits prod.splits sum.splits bind_splits dest!: query_loop_bound dest: append_bound)

section \<open>What a scan lists\<close>

text \<open>What the handler relies on: \<open>ReadDir\<close> hands out the entries that remain for a call with the given flags from the front, none only
  when none remain, and after an error other than the end they all remain. \<open>rest\<close> are the entries that remain.\<close>

definition streams :: "'f vfs \<Rightarrow> u64 \<Rightarrow> (nat \<Rightarrow> 'f \<Rightarrow> DirInfo list) \<Rightarrow> bool" where
  "streams v h rest \<longleftrightarrow> (\<forall>flags n s. 0 < n \<longrightarrow> (case vfs_ReadDir v h flags n s of (r, s') \<Rightarrow>
     case r of
       Inl e \<Rightarrow> (e = VE_EOF \<longrightarrow> rest flags s = []) \<and> rest ReadDirContinue s' = rest flags s
     | Inr xs \<Rightarrow> rest flags s = xs @ rest ReadDirContinue s' \<and> (xs = [] \<longrightarrow> rest flags s = [])))"

definition fs_state :: "'f tree_env \<Rightarrow> 'f world \<Rightarrow> 'f" where
  "fs_state X w = srv_fs (w_srv w) (te_fs X)"

lemma fs_call_state:
  "fs_call X op w = (r, w') \<Longrightarrow> op (te_vfs X) (fs_state X w) = (r, fs_state X w') \<and> tree_of X w' = tree_of X w"
  by (auto simp: fs_call_def fs_state_def tree_of_def Let_def split: prod.splits)

text \<open>A class whose entries are built without asking the file system.\<close>

definition plain_class :: "'f tree_env \<Rightarrow> u8 \<Rightarrow> 'f world \<Rightarrow> bool" where
  "plain_class X cls w \<longleftrightarrow> \<not> (cls = FileIdBothDirectoryInformation \<and> tree_aapl (tree_of X w))"

definition wanted :: "'f tree_env \<Rightarrow> go_string \<Rightarrow> DirInfo \<Rightarrow> bool" where
  "wanted X pattern d \<longleftrightarrow> MatchWildcard (te_regexp X) (DirInfo_Name d) pattern"

text \<open>The items of a list of entries.\<close>

definition items_of :: "'f tree_env \<Rightarrow> go_string \<Rightarrow> u8 \<Rightarrow> DirInfo list \<Rightarrow> encoder list option" where
  "items_of X pattern cls ds = those (map (plain_item cls) (filter (wanted X pattern) ds))"

lemma items_of_simps [simp]:
  "items_of X pattern cls [] = Some []"
  "items_of X pattern cls (d # ds) = (if wanted X pattern d
     then do { i \<leftarrow> plain_item cls d; is \<leftarrow> items_of X pattern cls ds; Some (i # is) } else items_of X pattern cls ds)"
  by (auto simp: items_of_def split: option.splits bind_splits)

lemma items_of_append:
  "items_of X pattern cls (ds @ es) = do { is \<leftarrow> items_of X pattern cls ds; js \<leftarrow> items_of X pattern cls es; Some (is @ js) }"
  by (induction ds) (auto split: bind_splits option.splits)

text \<open>The entry that a full response stopped at.\<close>

definition too_big :: "'f tree_env \<Rightarrow> go_string \<Rightarrow> u8 \<Rightarrow> nat \<Rightarrow> encoder list \<Rightarrow> DirInfo list \<Rightarrow> bool" where
  "too_big X pattern cls m out todo \<longleftrightarrow>
     (case todo of [] \<Rightarrow> False | d # _ \<Rightarrow> wanted X pattern d \<and> (\<exists>i. plain_item cls d = Some i \<and> m < listing_size out + enc_Size i))"

lemma append_entries:
  assumes "plain_class X cls w" "items_of X pattern cls ds = Some is"
  shows "\<exists>js pre post stopped full. ds = pre @ post \<and> items_of X pattern cls pre = Some js \<and>
    fileTree_appendDirectoryEntries X out ds pattern cls o' m single w =
      Some (out @ js, Open_queryDirectoryPending o' @ post, stopped, full, w) \<and>
    (\<not> stopped \<longrightarrow> post = [] \<and> \<not> full) \<and> (stopped \<and> \<not> full \<longrightarrow> js \<noteq> []) \<and> (full \<longrightarrow> too_big X pattern cls m (out @ js) post)"
  using assms
proof (induction ds arbitrary: out "is")
  case Nil
  show ?case by (intro exI [of _ "[]"] exI [of _ False]) simp
next
  case (Cons d ds)
  show ?case
  proof (cases "wanted X pattern d")
    case False
    then obtain js pre post stopped full where "ds = pre @ post" "items_of X pattern cls pre = Some js"
        "fileTree_appendDirectoryEntries X out ds pattern cls o' m single w =
          Some (out @ js, Open_queryDirectoryPending o' @ post, stopped, full, w)"
        "\<not> stopped \<longrightarrow> post = [] \<and> \<not> full" "stopped \<and> \<not> full \<longrightarrow> js \<noteq> []" "full \<longrightarrow> too_big X pattern cls m (out @ js) post"
      using Cons.IH [OF Cons.prems(1), of "is" out] Cons.prems(2) by simp blast
    then show ?thesis
      using False by (intro exI [of _ js] exI [of _ "d # pre"] exI [of _ post] exI [of _ stopped] exI [of _ full]) (simp add: wanted_def)
  next
    case True
    then obtain i is' where i: "plain_item cls d = Some i" "items_of X pattern cls ds = Some is'"
      using Cons.prems(2) by (auto split: bind_splits)
    have mk: "fileTree_makeItem X cls d o' w = Some (i, w)"
      using Cons.prems(1) i(1) by (auto simp: fileTree_makeItem_def plain_class_def)
    show ?thesis
    proof (cases "appendDirectoryInfo out i m")
      case None
      moreover have "m < listing_size out + enc_Size i" using None by (simp add: appendDirectoryInfo_None)
      ultimately show ?thesis
        using True i(1) mk
        by - (rule exI [of _ "[]"], rule exI [of _ "[]"], rule exI [of _ "d # ds"], rule exI [of _ True], rule exI [of _ True],
            simp add: wanted_def too_big_def)
    next
      case (Some out')
      then have out': "out' = out @ [i]" by (simp add: appendDirectoryInfo_Some)
      show ?thesis
      proof (cases "single \<or> m \<le> FileInformationInfoResponse_Size out'")
        case True': True
        show ?thesis
          using True True' i(1) mk Some out'
          by (intro exI [of _ "[i]"] exI [of _ "[d]"] exI [of _ ds] exI [of _ True] exI [of _ False]) (simp add: wanted_def)
      next
        case False
        obtain js pre post stopped full where IH: "ds = pre @ post" "items_of X pattern cls pre = Some js"
            "fileTree_appendDirectoryEntries X out' ds pattern cls o' m single w =
              Some (out' @ js, Open_queryDirectoryPending o' @ post, stopped, full, w)"
            "\<not> stopped \<longrightarrow> post = [] \<and> \<not> full" "full \<longrightarrow> too_big X pattern cls m (out' @ js) post"
          using Cons.IH [OF Cons.prems(1) i(2), of out'] by blast
        then show ?thesis
          using True False i(1) mk Some out'
          by (intro exI [of _ "i # js"] exI [of _ "d # pre"] exI [of _ post] exI [of _ stopped] exI [of _ full]) (simp add: wanted_def)
      qed
    qed
  qed
qed

text \<open>What one request leaves: the items it lists are those of the entries it has taken, in order; the others are kept back or remain.\<close>

definition reliable :: "'f vfs \<Rightarrow> u64 \<Rightarrow> bool" where
  "reliable v h \<longleftrightarrow> (\<forall>flags n s e. fst (vfs_ReadDir v h flags n s) = Inl e \<longrightarrow> e = VE_EOF)"

definition listing_left :: "'f tree_env \<Rightarrow> u64 \<Rightarrow> (nat \<Rightarrow> 'f \<Rightarrow> DirInfo list) \<Rightarrow> go_string \<Rightarrow> u8 \<Rightarrow> nat \<Rightarrow> DirInfo list \<Rightarrow>
    u32 \<times> encoder list \<times> Open \<times> 'f world \<Rightarrow> bool" where
  "listing_left X h rest pattern cls m todo r \<longleftrightarrow>
     (case r of (st, out, o', w) \<Rightarrow>
      let todo' = Open_queryDirectoryPending o' @ rest ReadDirContinue (fs_state X w) in
      (\<exists>taken. todo = taken @ todo' \<and> items_of X pattern cls taken = Some out) \<and>
      (st = 0 \<longleftrightarrow> out \<noteq> []) \<and>
      (st \<noteq> 0 \<longrightarrow> st = STATUS_NO_MORE_FILES \<and> todo' = [] \<or> st = STATUS_BUFFER_TOO_SMALL \<and> too_big X pattern cls m [] todo' \<or>
         st = STATUS_ACCESS_DENIED \<and> \<not> reliable (te_vfs X) h))"

lemma streamsD:
  assumes "streams v h rest" "vfs_ReadDir v h flags n s = (r, s')" "0 < n"
  shows "case r of
       Inl e \<Rightarrow> (e = VE_EOF \<longrightarrow> rest flags s = []) \<and> rest ReadDirContinue s' = rest flags s
     | Inr xs \<Rightarrow> rest flags s = xs @ rest ReadDirContinue s' \<and> (xs = [] \<longrightarrow> rest flags s = [])"
proof -
  have "case vfs_ReadDir v h flags n s of (r, s') \<Rightarrow> (case r of
       Inl e \<Rightarrow> (e = VE_EOF \<longrightarrow> rest flags s = []) \<and> rest ReadDirContinue s' = rest flags s
     | Inr xs \<Rightarrow> rest flags s = xs @ rest ReadDirContinue s' \<and> (xs = [] \<longrightarrow> rest flags s = []))"
    by (rule assms(1) [unfolded streams_def, rule_format, OF assms(3)])
  then show ?thesis using assms(2) by simp
qed

lemma listing_left_skip:
  assumes "listing_left X h rest pattern cls m todo r" "items_of X pattern cls ds = Some []"
  shows "listing_left X h rest pattern cls m (ds @ todo) r"
proof -
  obtain st out o' w where r: "r = (st, out, o', w)" by (cases r)
  obtain taken where "todo = taken @ Open_queryDirectoryPending o' @ rest ReadDirContinue (fs_state X w)" "items_of X pattern cls taken = Some out"
    using assms(1) by (auto simp: r listing_left_def Let_def)
  then have "\<exists>taken. ds @ todo = taken @ Open_queryDirectoryPending o' @ rest ReadDirContinue (fs_state X w) \<and> items_of X pattern cls taken = Some out"
    by (intro exI [of _ "ds @ taken"]) (simp add: items_of_append assms(2))
  then show ?thesis
    using assms(1) by (simp add: r listing_left_def Let_def)
qed

lemma query_loop_end:
  "fs_call X (\<lambda>v. vfs_ReadDir v h flags (if single then 1 else queryDirectoryReadBatchSize)) w = (Inl e, w') \<Longrightarrow>
    query_loop X [] o' h pattern cls single m flags w =
      Some (Some (if e = VE_EOF then STATUS_NO_MORE_FILES else STATUS_ACCESS_DENIED, [], o', w'))"
  "fs_call X (\<lambda>v. vfs_ReadDir v h flags (if single then 1 else queryDirectoryReadBatchSize)) w = (Inr [], w') \<Longrightarrow>
    query_loop X [] o' h pattern cls single m flags w = Some (Some (STATUS_NO_MORE_FILES, [], o', w'))"
  by (subst query_loop.simps, simp)+

lemma query_loop_batch:
  assumes "fs_call X (\<lambda>v. vfs_ReadDir v h flags (if single then 1 else queryDirectoryReadBatchSize)) w = (Inr xs, w')" "xs \<noteq> []"
    "fileTree_appendDirectoryEntries X [] xs pattern cls o' m single w' = Some (js, post, stopped, full, w2)"
  shows "js \<noteq> [] \<or> full \<Longrightarrow> query_loop X [] o' h pattern cls single m flags w =
      Some (Some (if js \<noteq> [] then 0 else STATUS_BUFFER_TOO_SMALL, js, o'\<lparr>Open_queryDirectoryPending := post\<rparr>, w2))"
    and "js = [] \<Longrightarrow> \<not> full \<Longrightarrow> \<not> stopped \<Longrightarrow> query_loop X [] o' h pattern cls single m flags w =
      query_loop X [] (o'\<lparr>Open_queryDirectoryPending := post\<rparr>) h pattern cls single m ReadDirContinue w2"
  using assms by (subst query_loop.simps, auto simp: queryDirectoryAppendStatus_def)+

lemma too_big_mono: "too_big X pattern cls m [] todo \<Longrightarrow> too_big X pattern cls m [] (todo @ ds)"
  by (auto simp: too_big_def split: list.splits)

lemma query_loop_lists:
  assumes "streams (te_vfs X) h rest" "plain_class X cls w" "Open_queryDirectoryPending o' = []"
    "items_of X pattern cls (rest flags (fs_state X w)) = Some is"
  shows "\<exists>r. query_loop X [] o' h pattern cls single m flags w = Some (Some r) \<and> listing_left X h rest pattern cls m (rest flags (fs_state X w)) r \<and>
    tree_of X (snd (snd (snd r))) = tree_of X w"
  using assms(2-)
proof (induction "length (rest flags (fs_state X w))" arbitrary: o' flags w "is" rule: less_induct)
  case less
  let ?n = "if single then 1 else queryDirectoryReadBatchSize"
  obtain d w' where rd: "fs_call X (\<lambda>v. vfs_ReadDir v h flags ?n) w = (d, w')" by fastforce
  have st: "vfs_ReadDir (te_vfs X) h flags ?n (fs_state X w) = (d, fs_state X w')" "tree_of X w' = tree_of X w"
    using fs_call_state [OF rd] by simp_all
  have law: "case d of
       Inl e \<Rightarrow> (e = VE_EOF \<longrightarrow> rest flags (fs_state X w) = []) \<and> rest ReadDirContinue (fs_state X w') = rest flags (fs_state X w)
     | Inr xs \<Rightarrow> rest flags (fs_state X w) = xs @ rest ReadDirContinue (fs_state X w') \<and> (xs = [] \<longrightarrow> rest flags (fs_state X w) = [])"
    using streamsD [OF assms(1) st(1)] by simp
  show ?case
  proof (cases d)
    case (Inl e)
    then have "e = VE_EOF \<or> \<not> reliable (te_vfs X) h"
      using st(1) unfolding reliable_def by (metis fst_conv)
    then show ?thesis
      using Inl law less.prems(2) st(2) rd by (auto simp: query_loop_end listing_left_def Let_def)
  next
    case (Inr xs)
    show ?thesis
    proof (cases "xs = []")
      case True
      then show ?thesis
        using law Inr less.prems(2) st(2) rd by (auto simp: query_loop_end listing_left_def Let_def)
    next
      case False
      have todo: "rest flags (fs_state X w) = xs @ rest ReadDirContinue (fs_state X w')" using law Inr by simp
      obtain js ks where items: "items_of X pattern cls xs = Some js" "items_of X pattern cls (rest ReadDirContinue (fs_state X w')) = Some ks"
        using less.prems(3) by (auto simp: todo items_of_append split: bind_splits)
      have pl: "plain_class X cls w'" using less.prems(1) st(2) by (simp add: plain_class_def)
      obtain js pre post stopped full where ap: "xs = pre @ post" "items_of X pattern cls pre = Some js"
          "fileTree_appendDirectoryEntries X [] xs pattern cls o' m single w' = Some (js, post, stopped, full, w')"
          "\<not> stopped \<longrightarrow> post = [] \<and> \<not> full" "stopped \<and> \<not> full \<longrightarrow> js \<noteq> []" "full \<longrightarrow> too_big X pattern cls m js post"
        using append_entries [OF pl items(1), of "[]" o' m single] unfolding less.prems(2) append_Nil by blast
      show ?thesis
      proof (cases "js \<noteq> [] \<or> full")
        case True
        then show ?thesis
          using query_loop_batch(1) [OF rd [unfolded Inr] False ap(3)] ap(1,2,6) st(2) todo
          by (auto simp: listing_left_def Let_def intro!: too_big_mono)
      next
        case False': False
        then have np: "js = []" "\<not> stopped" "post = []" "\<not> full" using ap by auto
        have "\<exists>r. query_loop X [] (o'\<lparr>Open_queryDirectoryPending := []\<rparr>) h pattern cls single m ReadDirContinue w' = Some (Some r) \<and>
            listing_left X h rest pattern cls m (rest ReadDirContinue (fs_state X w')) r \<and> tree_of X (snd (snd (snd r))) = tree_of X w'"
          using False todo pl items(2) by (intro less.hyps) auto
        then obtain r where r: "query_loop X [] (o'\<lparr>Open_queryDirectoryPending := []\<rparr>) h pattern cls single m ReadDirContinue w' = Some (Some r)"
            "listing_left X h rest pattern cls m (rest ReadDirContinue (fs_state X w')) r" "tree_of X (snd (snd (snd r))) = tree_of X w'" by blast
        have "listing_left X h rest pattern cls m (rest flags (fs_state X w)) r"
          using listing_left_skip [OF r(2), of xs] ap(1,2) np todo by simp
        then show ?thesis
          using query_loop_batch(2) [OF rd [unfolded Inr] False ap(3)] np r st(2) by auto
      qed
    qed
  qed
qed

lemma queryDirectoryWildcard_lists:
  assumes "streams (te_vfs X) h rest" "plain_class X cls w" "Open_queryDirectoryPending o' = [] \<or> flags' = ReadDirContinue"
    and items: "items_of X pattern cls (Open_queryDirectoryPending o' @ rest flags' (fs_state X w)) = Some is"
  shows "\<exists>r. fileTree_queryDirectoryWildcard X o' h pattern cls flags m flags' w = Some (Some r) \<and>
    listing_left X h rest pattern cls m (Open_queryDirectoryPending o' @ rest flags' (fs_state X w)) r \<and> tree_of X (snd (snd (snd r))) = tree_of X w"
proof (cases "Open_queryDirectoryPending o' = []")
  case True
  then show ?thesis
    using query_loop_lists [OF assms(1,2) True, of pattern flags' "is"] items by (simp add: fileTree_queryDirectoryWildcard_def Let_def)
next
  case False
  let ?p = "Open_queryDirectoryPending o'" and ?o = "o'\<lparr>Open_queryDirectoryPending := []\<rparr>" and ?s = "flags AND RETURN_SINGLE_ENTRY \<noteq> 0"
  have fl: "flags' = ReadDirContinue" using False assms(3) by simp
  obtain is1 is2 where it: "items_of X pattern cls ?p = Some is1" "items_of X pattern cls (rest flags' (fs_state X w)) = Some is2"
    using items by (auto simp: items_of_append split: bind_splits)
  obtain js pre post stopped full where ap: "?p = pre @ post" "items_of X pattern cls pre = Some js"
      "fileTree_appendDirectoryEntries X [] ?p pattern cls ?o m ?s w = Some ([] @ js, Open_queryDirectoryPending ?o @ post, stopped, full, w)"
      "\<not> stopped \<longrightarrow> post = [] \<and> \<not> full" "stopped \<and> \<not> full \<longrightarrow> js \<noteq> []" "full \<longrightarrow> too_big X pattern cls m ([] @ js) post"
    using append_entries [OF assms(2) it(1), of "[]" ?o m ?s] by blast
  show ?thesis
  proof (cases "js \<noteq> [] \<or> full")
    case True
    then show ?thesis
      using False ap fl
      by (auto simp: fileTree_queryDirectoryWildcard_def Let_def queryDirectoryAppendStatus_def listing_left_def intro!: too_big_mono)
  next
    case False': False
    then have np: "js = []" "\<not> full" "post = []" using ap by auto
    have "Open_queryDirectoryPending ?o = []" by simp
    from query_loop_lists [OF assms(1,2) this it(2), of ?s m] obtain r where
      r: "query_loop X [] ?o h pattern cls ?s m flags' w = Some (Some r)" "listing_left X h rest pattern cls m (rest flags' (fs_state X w)) r"
        "tree_of X (snd (snd (snd r))) = tree_of X w" by blast
    have "listing_left X h rest pattern cls m (?p @ rest flags' (fs_state X w)) r"
      using listing_left_skip [OF r(2), of ?p] ap(1,2) np by simp
    then show ?thesis
      using False ap np r by (auto simp: fileTree_queryDirectoryWildcard_def Let_def queryDirectoryAppendStatus_def)
  qed
qed

text \<open>The entries a request has before it: those that remain from the start of the directory if it restarts the scan, otherwise those kept
  back and those that remain.\<close>

definition restarts :: "u8 \<Rightarrow> bool" where
  "restarts flags \<longleftrightarrow> flags AND (RESTART_SCANS OR REOPEN) \<noteq> 0"

definition entries_before :: "'f tree_env \<Rightarrow> (nat \<Rightarrow> 'f \<Rightarrow> DirInfo list) \<Rightarrow> u8 \<Rightarrow> Open \<Rightarrow> 'f world \<Rightarrow> DirInfo list" where
  "entries_before X rest flags o' w =
     (if restarts flags then rest ReadDirRestart (fs_state X w)
      else Open_queryDirectoryPending o' @ rest ReadDirContinue (fs_state X w))"

lemma query_run_lists:
  assumes "streams (te_vfs X) h rest" "plain_class X cls w" "ContainsWildcard name" "0 < m"
    "items_of X name cls (entries_before X rest flags o' w) = Some is"
  shows "\<exists>r. query_run X None o' h name cls flags m w = Some (Some r) \<and> listing_left X h rest name cls m (entries_before X rest flags o' w) r \<and>
    tree_of X (snd (snd (snd r))) = tree_of X w"
proof (cases "restarts flags")
  case True
  let ?o = "o'\<lparr>Open_queryDirectoryPending := [], Open_queryDirectorySingleName := [], Open_queryDirectorySingleDone := False\<rparr>"
  have "Open_queryDirectoryPending ?o = [] \<or> ReadDirRestart = ReadDirContinue" by simp
  from queryDirectoryWildcard_lists [OF assms(1,2) this, of name "is" flags m] show ?thesis
    using True assms(3-) by (simp add: query_run_def restarts_def entries_before_def Let_def)
next
  case False
  have "Open_queryDirectoryPending o' = [] \<or> ReadDirContinue = ReadDirContinue" by simp
  from queryDirectoryWildcard_lists [OF assms(1,2) this, of name "is" flags m] show ?thesis
    using False assms(3-) by (simp add: query_run_def restarts_def entries_before_def Let_def)
qed

text \<open>A client that asks until the status is not success, with the flags that restart the scan only on the first request.\<close>

fun scan :: "nat \<Rightarrow> 'f tree_env \<Rightarrow> Open \<Rightarrow> u64 \<Rightarrow> go_string \<Rightarrow> u8 \<Rightarrow> u8 \<Rightarrow> nat \<Rightarrow> 'f world \<Rightarrow> (u32 \<times> encoder list list) option" where
  "scan 0 X o' h name cls flags m w = None"
| "scan (Suc n) X o' h name cls flags m w =
     (case query_run X None o' h name cls flags m w of
        Some (Some (st, out, o', w)) \<Rightarrow>
          if st \<noteq> 0 then Some (st, [])
          else do { (st, outs) \<leftarrow> scan n X o' h name cls (flags AND RETURN_SINGLE_ENTRY) m w; Some (st, out # outs) }
      | _ \<Rightarrow> None)"

lemma not_restarts_single: "\<not> restarts (flags AND RETURN_SINGLE_ENTRY)"
  by (simp add: restarts_def and.assoc)

lemma too_big_items: "too_big X name cls m [] todo \<Longrightarrow> items_of X name cls todo = Some is \<Longrightarrow> \<exists>i\<in>set is. m < enc_Size i"
  by (cases todo) (auto simp: too_big_def split: bind_splits)

lemma items_of_append_Some:
  "items_of X name cls (ds @ es) = Some is \<Longrightarrow> items_of X name cls ds = Some js \<Longrightarrow> \<exists>ks. items_of X name cls es = Some ks \<and> is = js @ ks"
  by (auto simp: items_of_append split: bind_splits)

lemma scan_all:
  assumes "streams (te_vfs X) h rest" "reliable (te_vfs X) h" "plain_class X cls w" "ContainsWildcard name" "0 < m"
    "items_of X name cls (entries_before X rest flags o' w) = Some is" "\<forall>i\<in>set is. enc_Size i \<le> m" "length is < n"
  shows "\<exists>outs. scan n X o' h name cls flags m w = Some (STATUS_NO_MORE_FILES, outs) \<and> concat outs = is"
  using assms(3,6-)
proof (induction n arbitrary: o' flags w "is")
  case (Suc n)
  from query_run_lists [OF assms(1) Suc.prems(1) assms(4,5) Suc.prems(2)]
  obtain st out o2 w2 where q: "query_run X None o' h name cls flags m w = Some (Some (st, out, o2, w2))"
      "listing_left X h rest name cls m (entries_before X rest flags o' w) (st, out, o2, w2)" "tree_of X w2 = tree_of X w"
    by (auto simp: split_paired_Ex)
  define todo' where "todo' = Open_queryDirectoryPending o2 @ rest ReadDirContinue (fs_state X w2)"
  obtain taken where tk: "entries_before X rest flags o' w = taken @ todo'" "items_of X name cls taken = Some out"
    using q(2) by (auto simp: listing_left_def todo'_def Let_def)
  have st: "st = 0 \<longleftrightarrow> out \<noteq> []" "st \<noteq> 0 \<longrightarrow> st = STATUS_NO_MORE_FILES \<and> todo' = [] \<or> too_big X name cls m [] todo'"
    using q(2) assms(2) by (auto simp: listing_left_def todo'_def Let_def)
  obtain ks where ks: "items_of X name cls todo' = Some ks" "is = out @ ks"
    using items_of_append_Some [OF Suc.prems(2) [unfolded tk(1)] tk(2)] by blast
  show ?case
  proof (cases "st = 0")
    case True
    have "items_of X name cls (entries_before X rest (flags AND RETURN_SINGLE_ENTRY) o2 w2) = Some ks"
      using ks(1) not_restarts_single by (simp add: entries_before_def todo'_def)
    moreover have "plain_class X cls w2" using Suc.prems(1) q(3) by (simp add: plain_class_def)
    moreover have "length ks < n" using Suc.prems(4) ks(2) st(1) True by (cases out) auto
    ultimately obtain outs where "scan n X o2 h name cls (flags AND RETURN_SINGLE_ENTRY) m w2 = Some (STATUS_NO_MORE_FILES, outs)" "concat outs = ks"
      using Suc.IH [of w2 "flags AND RETURN_SINGLE_ENTRY" o2 ks] Suc.prems(3) ks(2) by auto
    then show ?thesis using True q(1) ks(2) by simp
  next
    case False
    have "\<not> too_big X name cls m [] todo'"
      using too_big_items [OF _ ks(1), of m] Suc.prems(3) ks(2) by (auto simp: not_le [symmetric])
    then have "st = STATUS_NO_MORE_FILES" "todo' = []" "out = []" using False st by auto
    then show ?thesis using q(1) ks by simp
  qed
qed simp

lemma append_world:
  "plain_class X cls w \<Longrightarrow> fileTree_appendDirectoryEntries X out ds pattern cls o' m single w = Some (out', pending, stopped, full, w') \<Longrightarrow> w' = w"
  by (induction ds arbitrary: out)
    (auto simp: fileTree_makeItem_def plain_class_def split: if_splits option.splits bind_splits)

lemma query_loop_returns:
  assumes "streams (te_vfs X) h rest" "plain_class X cls w"
  shows "\<exists>r. query_loop X out o' h pattern cls single m flags w = Some r"
  using assms(2)
proof (induction "length (rest flags (fs_state X w))" arbitrary: out o' flags w rule: less_induct)
  case less
  obtain d w' where rd: "fs_call X (\<lambda>v. vfs_ReadDir v h flags (if single then 1 else queryDirectoryReadBatchSize)) w = (d, w')" by fastforce
  note st = fs_call_state [OF rd]
  have law: "d = Inr xs \<Longrightarrow> xs \<noteq> [] \<Longrightarrow> length (rest ReadDirContinue (fs_state X w')) < length (rest flags (fs_state X w))" for xs
    using streamsD [OF assms(1) conjunct1 [OF st]] by auto
  have pl: "plain_class X cls w'" using less.prems st by (simp add: plain_class_def)
  show ?case
    using less.hyps [OF law pl]
    by (subst query_loop.simps) (auto simp: rd Let_def split: sum.split option.split prod.split dest!: append_world [OF pl])
qed

section \<open>Properties\<close>

text \<open>C15. A directory query always returns. On a tree without the Apple extensions, if the file system hands out the entries of every handle from
  the front and none only when none remain, then the loop over the directory ends for every request, whatever the pattern matches: the
  handler sends a response, fails or panics, but it does not run on.
\<close>

theorem query_directory_returns:
  assumes "\<And>h. \<exists>rest. streams (te_vfs X) h rest" "\<not> tree_aapl (tree_of X w)"
  shows "\<exists>r. fileTree_queryDirectory X ctx pkt w = Some r"
proof -
  have pl: "plain_class X cls w" for cls using assms(2) by (simp add: plain_class_def)
  have loop: "\<exists>r. query_loop X out o' h pattern cls single m flags w = Some r" for out o' h pattern cls single m flags
    using assms(1) query_loop_returns pl by blast
  have wild: "\<exists>r. fileTree_queryDirectoryWildcard X o' h pattern cls flags m flags' w = Some r" for o' h pattern cls flags m flags'
    using loop by (auto simp: fileTree_queryDirectoryWildcard_def Let_def split: option.split prod.split dest!: append_world [OF pl])
  have "\<exists>r. query_run X ctx o' h name cls flags m w = Some r" for o' h name cls flags m
    using wild by (simp add: query_run_def Let_def)
  then show ?thesis
    unfolding fileTree_queryDirectory_def by (auto split: option.splits sum.splits prod.splits)
qed

text \<open>A file system that is one directory; its state are the entries still to be read.\<close>

definition list_vfs :: "DirInfo list \<Rightarrow> DirInfo list vfs" where
  "list_vfs all = \<lparr>vfs_GetAttr = (\<lambda>_ s. (Inl VE_Other, s)), vfs_SetAttr = (\<lambda>_ _ s. (Inl VE_Other, s)), vfs_StatFS = (\<lambda>_ s. (Inl VE_Other, s)),
     vfs_Flush = (\<lambda>_ s. (None, s)), vfs_Open = (\<lambda>_ _ _ s. (Inl VE_Other, s)), vfs_Close = (\<lambda>_ s. (None, s)),
     vfs_Lookup = (\<lambda>_ _ s. (Inl VE_NotExist, s)), vfs_Mkdir = (\<lambda>_ _ s. (Inl VE_Other, s)), vfs_Read = (\<lambda>_ _ _ s. (([], Some VE_EOF), s)),
     vfs_Write = (\<lambda>_ _ _ _ s. ((0, Some VE_Other), s)), vfs_OpenDir = (\<lambda>_ s. (Inr 1, s)),
     vfs_ReadDir = (\<lambda>_ flags n s. let t = (if flags = ReadDirRestart then all else s) in (if t = [] then Inl VE_EOF else Inr (take n t), drop n t)),
     vfs_Readlink = (\<lambda>_ s. (Inl VE_Other, s)), vfs_Unlink = (\<lambda>_ s. (None, s)), vfs_Truncate = (\<lambda>_ _ s. (None, s)),
     vfs_Rename = (\<lambda>_ _ _ s. (Some None, s)), vfs_Symlink = (\<lambda>_ _ _ s. (Inl VE_Other, s)), vfs_Listxattr = (\<lambda>_ s. (Inr [], s)),
     vfs_Getxattr = (\<lambda>_ _ _ s. (((0, []), Some VE_Other), s)), vfs_Setxattr = (\<lambda>_ _ _ s. (None, s)), vfs_Removexattr = (\<lambda>_ _ s. (None, s))\<rparr>"

definition list_rest :: "DirInfo list \<Rightarrow> nat \<Rightarrow> DirInfo list \<Rightarrow> DirInfo list" where
  "list_rest all flags s = (if flags = ReadDirRestart then all else s)"

lemma list_vfs_streams: "streams (list_vfs all) h (list_rest all)"
  by (auto simp: streams_def list_vfs_def list_rest_def Let_def)

lemma list_vfs_reliable: "reliable (list_vfs all) h"
  by (auto simp: reliable_def list_vfs_def Let_def split: if_splits)

definition sample_dir :: "DirInfo list" where
  "sample_dir = [\<lparr>DirInfo_Name = [0x61], DirInfo_Attributes = Attributes_new\<rparr>, \<lparr>DirInfo_Name = [0x62], DirInfo_Attributes = Attributes_new\<rparr>]"

definition dir_env :: "DirInfo list tree_env" where
  "dir_env = \<lparr>te_env = sample_env, te_inp = sample_inp, te_vfs = list_vfs sample_dir, te_regexp = (\<lambda>_ _. Some True), te_conn = 0, te_tree = 0, te_fs = 0\<rparr>"

definition dir_tree :: tree where
  "dir_tree = \<lparr>tree_tc = \<lparr>tc_treeId = 5, tc_shareFlags = 0, tc_path = [0x44], tc_refCount = 1\<rparr>, tree_session = Some (new_session False 7),
     tree_kind = Tree_file 0, tree_aapl = False, tree_dceReq = None\<rparr>"

definition dir_world :: "DirInfo list world" where
  "dir_world = (new_world (NewServer sample_env sample_config sample_auth [([0x44], 0)] (\<lambda>_. []))
     \<lparr>account_cap = 128, account_balance = 1, account_opening = 0\<rparr>)\<lparr>w_trees := [dir_tree]\<rparr>"

lemma dir_env_sel [simp]: "te_vfs dir_env = list_vfs sample_dir" "te_regexp dir_env = (\<lambda>_ _. Some True)"
    "tree_of dir_env dir_world = dir_tree" "tree_aapl dir_tree = False" "fs_state dir_env dir_world = []"
  by (simp_all add: dir_env_def dir_world_def tree_of_def dir_tree_def fs_state_def new_world_def NewServer_def)

theorem query_directory_returns_witness:
  "\<not> tree_aapl (tree_of dir_env dir_world) \<and> streams (te_vfs dir_env) 1 (list_rest sample_dir) \<and>
   (\<exists>r. fileTree_queryDirectory dir_env None (replicate 128 0) dir_world = Some r)"
proof -
  have "\<exists>rest. streams (te_vfs dir_env) h rest" for h using list_vfs_streams by auto
  from query_directory_returns [OF this, of dir_world] show ?thesis by (simp add: list_vfs_streams)
qed

text \<open>C16. A listing never exceeds the buffer of the client. Whatever the file system returns, the items of a response to a directory query,
  with or without the Apple extensions, take together at most the number of bytes the client offered.
\<close>

theorem listing_fits:
  assumes "query_run X ctx o' h name cls flags m w = Some (Some (st, out, o2, w2))"
  shows "FileInformationInfoResponse_Size out \<le> m"
  using query_run_bound [OF assms] by (simp add: listing_size_def)

definition sample_dir_open :: Open where
  "sample_dir_open = sample_open\<lparr>Open_queryDirectoryPending := []\<rparr>"

lemma sample_dir_items:
  "items_of dir_env [0x2A] FileNamesInformation (entries_before dir_env (list_rest sample_dir) RESTART_SCANS sample_dir_open dir_world) =
     Some (map (\<lambda>d. info_encoder FileNamesInformationInfo_Size FileNamesInformationInfo_Encode (newFileNamesInformationInfo d)) sample_dir)"
  by (simp add: entries_before_def restarts_def list_rest_def sample_dir_def wanted_def MatchWildcard_def plain_item_def)

theorem listing_fits_witness:
  "\<exists>st out o2 w2. query_run dir_env None sample_dir_open 1 [0x2A] FileNamesInformation RESTART_SCANS 20 dir_world = Some (Some (st, out, o2, w2)) \<and>
     FileInformationInfoResponse_Size out \<le> 20"
proof -
  have "streams (te_vfs dir_env) 1 (list_rest sample_dir)" "plain_class dir_env FileNamesInformation dir_world" "ContainsWildcard [0x2A]"
    by (simp_all add: list_vfs_streams plain_class_def ContainsWildcard_def)
  from query_run_lists [OF this _ sample_dir_items, of 20] show ?thesis
    using listing_fits by (auto simp: split_paired_Ex) blast
qed

text \<open>C3. A scan lists the directory exactly. Let a client repeat a wildcard query with one buffer size until the status is not success. If the
  file system hands out its entries from the front and fails only at the end, every matching entry has a structure of the requested class
  and each of these fits the buffer alone, then no more requests than matching entries are needed before the one that reports the end,
  and the responses together hold the structures of exactly the matching entries, in directory order, none lost and none twice; entries that
  did not fit one response come first in the next.
\<close>

theorem directory_scan_complete:
  assumes "streams (te_vfs X) h rest" "reliable (te_vfs X) h" "plain_class X cls w" "ContainsWildcard name" "0 < m"
    and "items_of X name cls (entries_before X rest flags o' w) = Some is" "\<forall>i\<in>set is. enc_Size i \<le> m"
  shows "\<exists>outs. scan (Suc (length is)) X o' h name cls flags m w = Some (STATUS_NO_MORE_FILES, outs) \<and> concat outs = is"
  using scan_all [OF assms lessI] .

theorem directory_scan_complete_witness:
  "\<exists>outs. scan 3 dir_env sample_dir_open 1 [0x2A] FileNamesInformation RESTART_SCANS 20 dir_world = Some (STATUS_NO_MORE_FILES, outs) \<and>
     length (concat outs) = 2"
proof -
  have a: "streams (te_vfs dir_env) 1 (list_rest sample_dir)" "reliable (te_vfs dir_env) 1" "plain_class dir_env FileNamesInformation dir_world"
      "ContainsWildcard [0x2A]" "0 < (20 :: nat)"
    by (simp_all add: list_vfs_streams list_vfs_reliable plain_class_def ContainsWildcard_def)
  have "\<forall>i \<in> set (map (\<lambda>d. info_encoder FileNamesInformationInfo_Size FileNamesInformationInfo_Encode (newFileNamesInformationInfo d)) sample_dir). enc_Size i \<le> 20"
    by (simp add: sample_dir_def info_encoder_def FileNamesInformationInfo_Size_def newFileNamesInformationInfo_def EncodedStringLen_ascii
        ascii_string_def Align_def)
  from directory_scan_complete [OF a sample_dir_items this] show ?thesis
    by (auto simp: sample_dir_def numeral_3_eq_3)
qed

end
