(* ===== verification/File_Query.thy ===== *)
theory File_Query
  imports File_Dir
begin

text \<open>
  \<open>server/file_tree.go\<close>, third part: querying and setting information on files, file systems and security. The structures are those of
  \<open>Info_Fs\<close> and \<open>Acl\<close>; every handler ends in one response.
\<close>

section \<open>Information on a file system\<close>

abbreviation (input) "FileFsVolumeInformation \<equiv> (1 :: u8)"
abbreviation (input) "FileFsSizeInformation \<equiv> (3 :: u8)"
abbreviation (input) "FileFsDeviceInformation \<equiv> (4 :: u8)"
abbreviation (input) "FileFsAttributeInformation \<equiv> (5 :: u8)"
abbreviation (input) "FileFsFullSizeInformation \<equiv> (7 :: u8)"
abbreviation (input) "FileFsObjectIdInformation \<equiv> (8 :: u8)"
abbreviation (input) "FileFsSectorSizeInformation \<equiv> (11 :: u8)"

abbreviation (input) "FILE_CASE_PRESERVED_NAMES \<equiv> (0x2 :: u32)"
abbreviation (input) "FILE_UNICODE_ON_DISK \<equiv> (0x4 :: u32)"
abbreviation (input) "FILE_PERSISTENT_ACLS \<equiv> (0x8 :: u32)"
abbreviation (input) "FILE_SUPPORTS_SPARSE_FILES \<equiv> (0x40 :: u32)"
abbreviation (input) "FILE_SUPPORTS_REPARSE_POINTS \<equiv> (0x80 :: u32)"
abbreviation (input) "FILE_SUPPORTS_OBJECT_IDS \<equiv> (0x10000 :: u32)"
abbreviation (input) "FILE_NAMED_STREAMS \<equiv> (0x40000 :: u32)"
abbreviation (input) "FILE_SUPPORTS_HARD_LINKS \<equiv> (0x400000 :: u32)"
abbreviation (input) "FILE_SUPPORTS_EXTENDED_ATTRIBUTES \<equiv> (0x800000 :: u32)"
abbreviation (input) "FILE_SUPPORTS_OPEN_BY_FILE_ID \<equiv> (0x1000000 :: u32)"
abbreviation (input) "FILE_DEVICE_DISK \<equiv> (7 :: u32)"

definition query_reply :: "'f tree_env \<Rightarrow> bytes \<Rightarrow> encoder \<Rightarrow> compoundContext option \<Rightarrow> 'f world \<Rightarrow> 'f handled" where
  "query_reply X pkt info ctx w = do {
     h \<leftarrow> PrepareResponse zero_header pkt 0;
     reply X (QueryInfoResponse_packet \<lparr>QueryInfoResponse_Header = h, QueryInfoResponse_Output = Some info\<rparr>) ctx w }"

definition queryFSAttributes :: "'f tree_env \<Rightarrow> 'f world \<Rightarrow> (u32 + FSAttributes) \<times> 'f world" where
  "queryFSAttributes X w =
     (let (a, w) = fs_call X (\<lambda>v. vfs_StatFS v 0) w in
      (case a of Inl e \<Rightarrow> Inl (statusFromVFSError (Some e)) | Inr None \<Rightarrow> Inl STATUS_IO_DEVICE_ERROR | Inr (Some a) \<Rightarrow> Inr a, w))"

definition file_system_flags :: "bool \<Rightarrow> u32" where
  "file_system_flags xattrs =
     FILE_SUPPORTS_OPEN_BY_FILE_ID OR FILE_SUPPORTS_OBJECT_IDS OR FILE_CASE_PRESERVED_NAMES OR FILE_PERSISTENT_ACLS OR
     FILE_SUPPORTS_SPARSE_FILES OR FILE_UNICODE_ON_DISK OR FILE_SUPPORTS_HARD_LINKS OR FILE_SUPPORTS_REPARSE_POINTS OR
     (if xattrs then FILE_SUPPORTS_EXTENDED_ATTRIBUTES OR FILE_NAMED_STREAMS else 0)"

text \<open>The object id that the volume and the control request report.\<close>

definition object_id :: "FileId \<Rightarrow> u64 \<Rightarrow> FileObjectId1" where
  "object_id f node = \<lparr>FileObjectId1_ObjectId = FileId_zero\<lparr>FileId_Persistent := FileId_Persistent f\<rparr>,
     FileObjectId1_BirthVolumeId = FileId_zero\<lparr>FileId_Persistent := le_of_word 8 node\<rparr>,
     FileObjectId1_BirthObjectId = FileId_zero\<lparr>FileId_Persistent := FileId_Persistent f\<rparr>, FileObjectId1_DomainId = FileId_zero\<rparr>"

text \<open>A missing count is -1; the counts are \<open>int64\<close>. \<open>Inl\<close> where the class is not supported.\<close>

definition fs_information :: "'f tree_env \<Rightarrow> compoundContext option \<Rightarrow> bytes \<Rightarrow> u8 \<Rightarrow> FSAttributes \<Rightarrow> 'f world \<Rightarrow> ((unit + encoder) \<times> 'f world) option" where
  "fs_information X ctx r class s w = do {
     let bs = (case FSAttributes_GetBlockSize s of (b, ok) \<Rightarrow> if ok then ucast b else (512 :: u32));
     let phys = (if bs < 512 then 512 else bs);
     let au = (case FSAttributes_GetAvailableBlocks s of (v, ok) \<Rightarrow> if ok then v else - 1);
     let ta = (case FSAttributes_GetBlocks s of (v, ok) \<Rightarrow> if ok then v else - 1);
     if class = FileFsVolumeInformation then
       Some (Inr (info_encoder FileFsVolumeInformationInfo_Size FileFsVolumeInformationInfo_Encode
         \<lparr>FileFsVolumeInformationInfo_VolumeCreationTime = \<lparr>Filetime_LowDateTime = 0, Filetime_HighDateTime = 0\<rparr>,
          FileFsVolumeInformationInfo_VolumeSerialNumber = 0, FileFsVolumeInformationInfo_SupportsObjects = False,
          FileFsVolumeInformationInfo_VolumeLabel = tc_path (tree_tc (tree_of X w))\<rparr>), w)
     else if class = FileFsSizeInformation then
       Some (Inr (info_encoder FileFsSizeInformationInfo_Size FileFsSizeInformationInfo_Encode
         \<lparr>FileFsSizeInformationInfo_TotalAllocationUnits = ta, FileFsSizeInformationInfo_AvailableAllocationUnits = au,
          FileFsSizeInformationInfo_SectorsPerAllocationUnit = bs div 512, FileFsSizeInformationInfo_BytesPerSector = 512\<rparr>), w)
     else if class = FileFsDeviceInformation then
       Some (Inr (info_encoder FileFsDeviceInformationInfo_Size FileFsDeviceInformationInfo_Encode
         \<lparr>FileFsDeviceInformationInfo_DeviceType = FILE_DEVICE_DISK, FileFsDeviceInformationInfo_Characteristics = 0\<rparr>), w)
     else if class = FileFsAttributeInformation then
       Some (Inr (info_encoder FileFsAttributeInformationInfo_Size FileFsAttributeInformationInfo_Encode
         \<lparr>FileFsAttributeInformationInfo_FileSystemAttributes = file_system_flags (srv_xattrs (w_srv w)),
          FileFsAttributeInformationInfo_MaximumComponentNameLength = 255, FileFsAttributeInformationInfo_FileSystemName = ascii ''APFS''\<rparr>), w)
     else if class = FileFsFullSizeInformation then
       Some (Inr (info_encoder FileFsFullSizeInformationInfo_Size FileFsFullSizeInformationInfo_Encode
         \<lparr>FileFsFullSizeInformationInfo_TotalAllocationUnits = ta, FileFsFullSizeInformationInfo_CallerAvailableAllocationUnits = au,
          FileFsFullSizeInformationInfo_ActualAvailableAllocationUnits = au,
          FileFsFullSizeInformationInfo_SectorsPerAllocationUnit = bs div 512, FileFsFullSizeInformationInfo_BytesPerSector = 512\<rparr>), w)
     else if class = FileFsSectorSizeInformation then
       Some (Inr (info_encoder FileFsSectorSizeInformationInfo_Size FileFsSectorSizeInformationInfo_Encode
         \<lparr>FileFsSectorSizeInformationInfo_LogicalBytesPerSector = 512, FileFsSectorSizeInformationInfo_PhysicalBytesPerSectorForAtomicity = phys,
          FileFsSectorSizeInformationInfo_PhysicalBytesPerSectorForPerformance = phys,
          FileFsSectorSizeInformationInfo_FileSystemEffectivePhysicalBytesPerSectorForAtomicity = phys,
          FileFsSectorSizeInformationInfo_Flags = 7, FileFsSectorSizeInformationInfo_ByteOffsetForSectorAlignment = 0,
          FileFsSectorSizeInformationInfo_ByteOffsetForPartitionAlignment = 0\<rparr>), w)
     else if class = FileFsObjectIdInformation then do {
       f \<leftarrow> request_fileId ctx (QueryInfoRequestDecoder_FileId r);
       (node, w) \<leftarrow> root_inode X w;
       Some (Inr (info_encoder FileObjectId1_Size FileObjectId1_Encode (object_id f node)), w) }
     else if class = FilePosixInformation then do {
       (node, w) \<leftarrow> root_inode X w;
       Some (Inr (info_encoder FileFsPosixInformationInfo_Size FileFsPosixInformationInfo_Encode
         \<lparr>FileFsPosixInformationInfo_OptimalTransferSize = bs, FileFsPosixInformationInfo_BlockSize = bs,
          FileFsPosixInformationInfo_TotalBlocks = (if 0 \<le> sint ta then ta else 0),
          FileFsPosixInformationInfo_BlocksAvailable = (if 0 \<le> sint au then au else 0),
          FileFsPosixInformationInfo_UserBlocksAvailable = (if 0 \<le> sint au then au else 0),
          FileFsPosixInformationInfo_TotalFileNodes = (case FSAttributes_GetFiles s of (v, ok) \<Rightarrow> if ok then v else 0),
          FileFsPosixInformationInfo_FreeFileNodes = (case FSAttributes_GetFreeFiles s of (v, ok) \<Rightarrow> if ok then v else 0),
          FileFsPosixInformationInfo_FsIdentifier = node\<rparr>), w) }
     else Some (Inl (), w) }"

definition fileTree_queryInfoFileSystem :: "'f tree_env \<Rightarrow> compoundContext option \<Rightarrow> bytes \<Rightarrow> 'f world \<Rightarrow> 'f handled" where
  "fileTree_queryInfoFileSystem X ctx pkt w = do {
     _ \<leftarrow> tree_session (tree_of X w);
     r \<leftarrow> accepted SMB2_QUERY_INFO pkt;
     class \<leftarrow> QueryInfoRequestDecoder_FileInfoClass r;
     let (s, w) = queryFSAttributes X w;
     case s of
       Inl status \<Rightarrow> reply_error X pkt status ctx w
     | Inr s \<Rightarrow> do {
         (info, w) \<leftarrow> fs_information X ctx r class s w;
         case info of Inl _ \<Rightarrow> Some (w, ctx, Some InvalidRequestError) | Inr info \<Rightarrow> query_reply X pkt info ctx w } }"

section \<open>Information on a file\<close>

abbreviation (input) "FileBasicInformation \<equiv> (4 :: u8)"
abbreviation (input) "FileStandardInformation \<equiv> (5 :: u8)"
abbreviation (input) "FileInternalInformation \<equiv> (6 :: u8)"
abbreviation (input) "FileEaInformation \<equiv> (7 :: u8)"
abbreviation (input) "FileAccessInformation \<equiv> (8 :: u8)"
abbreviation (input) "FileNameInformation \<equiv> (9 :: u8)"
abbreviation (input) "FileRenameInformation \<equiv> (10 :: u8)"
abbreviation (input) "FileDispositionInformation \<equiv> (13 :: u8)"
abbreviation (input) "FilePositionInformation \<equiv> (14 :: u8)"
abbreviation (input) "FileFullEaInformation \<equiv> (15 :: u8)"
abbreviation (input) "FileModeInformation \<equiv> (16 :: u8)"
abbreviation (input) "FileAlignmentInformation \<equiv> (17 :: u8)"
abbreviation (input) "FileAllInformation \<equiv> (18 :: u8)"
abbreviation (input) "FileAllocationInformation \<equiv> (19 :: u8)"
abbreviation (input) "FileEndOfFileInformation \<equiv> (20 :: u8)"
abbreviation (input) "FileStreamInformation \<equiv> (22 :: u8)"
abbreviation (input) "FileCompressionInformation \<equiv> (28 :: u8)"
abbreviation (input) "FileNetworkOpenInformation \<equiv> (34 :: u8)"
abbreviation (input) "FileAttributeTagInformation \<equiv> (35 :: u8)"
abbreviation (input) "FileNormalizedNameInformation \<equiv> (48 :: u8)"
abbreviation (input) "FileIdInformation \<equiv> (59 :: u8)"
abbreviation (input) "FILE_SYNCHRONOUS_IO_ALERT \<equiv> (0x10 :: u32)"

definition basic_information :: "Attributes \<Rightarrow> go_string \<Rightarrow> FileBasicInformationInfo option" where
  "basic_information a name = do {
     perms \<leftarrow> PermissionsFromVfs a name;
     Some \<lparr>FileBasicInformationInfo_CreationTime = BirthTimeFromVfs a, FileBasicInformationInfo_LastAccessTime = AccessTimeFromVfs a,
       FileBasicInformationInfo_LastWriteTime = ModifiedTimeFromVfs a, FileBasicInformationInfo_ChangeTime = ChangeTimeFromVfs a,
       FileBasicInformationInfo_FileAttributes = perms, FileBasicInformationInfo_Pad = 0\<rparr> }"

definition standard_information :: "Attributes \<Rightarrow> bool \<Rightarrow> bool \<Rightarrow> FileStandardInformationInfo" where
  "standard_information a deletePending isDir =
     \<lparr>FileStandardInformationInfo_AllocationSize = DiskSizeFromVfs a, FileStandardInformationInfo_EndOfFile = SizeFromVfs a,
      FileStandardInformationInfo_NumberOfLinks = 1, FileStandardInformationInfo_DeletePending = (if deletePending then 1 else 0),
      FileStandardInformationInfo_Directory = (if isDir then 1 else 0), FileStandardInformationInfo_Pad = replicate 2 0\<rparr>"

definition all_information :: "Attributes \<Rightarrow> go_string \<Rightarrow> bool \<Rightarrow> bool \<Rightarrow> FileAllInformationInfo option" where
  "all_information a name deletePending isDir = do {
     b \<leftarrow> basic_information a name;
     node \<leftarrow> Attributes_GetInodeNumber a;
     Some \<lparr>FileAllInformationInfo_BasicInformation = b, FileAllInformationInfo_StandardInformation = standard_information a deletePending isDir,
       FileAllInformationInfo_Internal = \<lparr>FileInternalInformationInfo_IndexNumber = node\<rparr>,
       FileAllInformationInfo_EaInformation = \<lparr>FileEaInformationInfo_EaSize = 0\<rparr>,
       FileAllInformationInfo_AccessInformation = \<lparr>FileAccessInformationInfo_AccessFlags = MaxAccessFromVfs a\<rparr>,
       FileAllInformationInfo_PositionInformation = \<lparr>FilePositionInformationInfo_CurrentByteOffset = 0\<rparr>,
       FileAllInformationInfo_ModeInformation = \<lparr>FileModeInformationInfo_Mode = FILE_SYNCHRONOUS_IO_ALERT\<rparr>,
       FileAllInformationInfo_AlignmentInformation = \<lparr>FileAlignmentInformationInfo_AlignmentRequirement = 0\<rparr>,
       FileAllInformationInfo_NameInformation = \<lparr>FileAlternateNameInformationInfo_FileName = replace_byte SLASH [0x5C] name\<rparr>\<rparr> }"

text \<open>The attributes that can be read become streams.\<close>

fun xattr_streams :: "'f tree_env \<Rightarrow> u64 \<Rightarrow> go_string list \<Rightarrow> 'f world \<Rightarrow> FileStreamInformationInfo list \<times> 'f world" where
  "xattr_streams X h [] w = ([], w)"
| "xattr_streams X h (ea # eas) w =
     (let (((n, _), e), w) = fs_call X (\<lambda>v. vfs_Getxattr v h ea None) w;
          item = \<lparr>FileStreamInformationInfo_NextEntryOffset = 0, FileStreamInformationInfo_StreamSize = of_nat n,
            FileStreamInformationInfo_StreamAllocationSize = of_nat n, FileStreamInformationInfo_StreamName = [COLON] @ ea @ ascii '':$DATA''\<rparr>;
          (items, w) = xattr_streams X h eas w
      in (if e = None then item # items else items, w))"

definition stream_information :: "'f tree_env \<Rightarrow> u64 \<Rightarrow> Attributes \<Rightarrow> bool \<Rightarrow> 'f world \<Rightarrow> FileStreamInformationInfo list \<times> 'f world" where
  "stream_information X h a isDir w =
     (let (l, w) = fs_call X (\<lambda>v. vfs_Listxattr v h) w;
          data = (if isDir then [] else [\<lparr>FileStreamInformationInfo_NextEntryOffset = 0, FileStreamInformationInfo_StreamSize = SizeFromVfs a,
            FileStreamInformationInfo_StreamAllocationSize = DiskSizeFromVfs a, FileStreamInformationInfo_StreamName = ascii ''::$DATA''\<rparr>])
      in case l of
           Inl _ \<Rightarrow> (data, w)
         | Inr eas \<Rightarrow> if srv_xattrs (w_srv w) then let (items, w) = xattr_streams X h eas w in (data @ items, w) else (data, w))"

definition network_information :: "'f tree_env \<Rightarrow> u64 \<Rightarrow> Open \<Rightarrow> Attributes \<Rightarrow> 'f world \<Rightarrow> (FileNetworkOpenInformationInfo \<times> 'f world) option" where
  "network_information X h o' a w = do {
     let (((n, _), _), w') = fs_call X (\<lambda>v. vfs_Getxattr v h (Open_eaKey o') None) w;
     perms \<leftarrow> (if Open_isEa o' then Some 0 else PermissionsFromVfs a (Open_pathName o'));
     Some (\<lparr>FileNetworkOpenInformationInfo_CreationTime = BirthTimeFromVfs a, FileNetworkOpenInformationInfo_LastAccessTime = AccessTimeFromVfs a,
       FileNetworkOpenInformationInfo_LastWriteTime = ModifiedTimeFromVfs a, FileNetworkOpenInformationInfo_ChangeTime = ChangeTimeFromVfs a,
       FileNetworkOpenInformationInfo_AllocationSize = (if Open_isEa o' then of_nat n else DiskSizeFromVfs a),
       FileNetworkOpenInformationInfo_EndOfFile = (if Open_isEa o' then of_nat n else SizeFromVfs a),
       FileNetworkOpenInformationInfo_FileAttributes = perms\<rparr>, if Open_isEa o' then w' else w) }"

text \<open>What a class returns: an error returned to the caller, an error response, or the structure.\<close>

datatype file_info = FI_Invalid | FI_Status u32 | FI_Info encoder

definition file_information :: "'f tree_env \<Rightarrow> u64 \<Rightarrow> u8 \<Rightarrow> Open \<Rightarrow> Attributes \<Rightarrow> bool \<Rightarrow> bool \<Rightarrow> 'f world \<Rightarrow> (file_info \<times> 'f world) option" where
  "file_information X h class o' a deletePending isDir w =
     (let name = Open_pathName o' in
      if class = FileBasicInformation then do {
        i \<leftarrow> basic_information a name; Some (FI_Info (info_encoder FileBasicInformationInfo_Size FileBasicInformationInfo_Encode i), w) }
      else if class = FileAccessInformation then
        Some (FI_Info (info_encoder FileAccessInformationInfo_Size FileAccessInformationInfo_Encode
          \<lparr>FileAccessInformationInfo_AccessFlags = MaxAccessFromVfs a\<rparr>), w)
      else if class = FileNameInformation then
        Some (FI_Info (info_encoder FileAlternateNameInformationInfo_Size FileAlternateNameInformationInfo_Encode
          \<lparr>FileAlternateNameInformationInfo_FileName = replace_byte SLASH [0x5C] name\<rparr>), w)
      else if class = FileAllInformation then do {
        i \<leftarrow> all_information a name deletePending isDir; Some (FI_Info (info_encoder FileAllInformationInfo_Size FileAllInformationInfo_Encode i), w) }
      else if class = FileStandardInformation then
        Some (FI_Info (info_encoder FileStandardInformationInfo_Size FileStandardInformationInfo_Encode (standard_information a deletePending isDir)), w)
      else if class = FileEaInformation then
        Some (FI_Info (info_encoder FileEaInformationInfo_Size FileEaInformationInfo_Encode \<lparr>FileEaInformationInfo_EaSize = 0\<rparr>), w)
      else if class = FileFullEaInformation then
        Some (FI_Info (info_encoder FileFullEaInformationInfoItems_Size FileFullEaInformationInfoItems_Encode []), w)
      else if class = FilePositionInformation then
        Some (FI_Info (info_encoder FilePositionInformationInfo_Size FilePositionInformationInfo_Encode
          \<lparr>FilePositionInformationInfo_CurrentByteOffset = 0\<rparr>), w)
      else if class = FileModeInformation then
        Some (FI_Info (info_encoder FileModeInformationInfo_Size FileModeInformationInfo_Encode
          \<lparr>FileModeInformationInfo_Mode = FILE_SYNCHRONOUS_IO_ALERT\<rparr>), w)
      else if class = FileAlignmentInformation then
        Some (FI_Info (info_encoder FileAlignmentInformationInfo_Size FileAlignmentInformationInfo_Encode
          \<lparr>FileAlignmentInformationInfo_AlignmentRequirement = 0\<rparr>), w)
      else if class = FileStreamInformation then
        (let (items, w) = stream_information X h a isDir w in
         Some (FI_Info (info_encoder FileStreamInformationInfoItems_Size FileStreamInformationInfoItems_Encode items), w))
      else if class = FileNetworkOpenInformation then do {
        (i, w) \<leftarrow> network_information X h o' a w;
        Some (FI_Info (info_encoder FileNetworkOpenInformationInfo_Size FileNetworkOpenInformationInfo_Encode i), w) }
      else if class = FileCompressionInformation then
        Some (FI_Info (info_encoder FileCompressionInformationInfo_Size FileCompressionInformationInfo_Encode
          \<lparr>FileCompressionInformationInfo_CompressedFileSize = DiskSizeFromVfs a, FileCompressionInformationInfo_CompressionFormat = 0,
           FileCompressionInformationInfo_CompressionUnitShift = 0, FileCompressionInformationInfo_ChunkShift = 0,
           FileCompressionInformationInfo_ClusterShift = 0, FileCompressionInformationInfo_Reserved = replicate 3 0\<rparr>), w)
      else if class = FileNormalizedNameInformation then Some (FI_Status STATUS_NOT_SUPPORTED, w)
      else if class = FileAttributeTagInformation then do {
        perms \<leftarrow> PermissionsFromVfs a name;
        Some (FI_Info (info_encoder FileAttributeTagInformationInfo_Size FileAttributeTagInformationInfo_Encode
          \<lparr>FileAttributeTagInformationInfo_FileAttributes = perms, FileAttributeTagInformationInfo_ReparseTag = 0\<rparr>), w) }
      else if class = FileInternalInformation then do {
        node \<leftarrow> Attributes_GetInodeNumber a;
        Some (FI_Info (info_encoder FileInternalInformationInfo_Size FileInternalInformationInfo_Encode
          \<lparr>FileInternalInformationInfo_IndexNumber = node\<rparr>), w) }
      else if class = FileIdInformation then do {
        node \<leftarrow> Attributes_GetInodeNumber a;
        let (ra, w) = fs_call X (\<lambda>v. vfs_GetAttr v 0) w;
        case ra of
          Inl _ \<Rightarrow> Some (FI_Status STATUS_INVALID_HANDLE, w)
        | Inr ra \<Rightarrow> do {
            vol \<leftarrow> Attributes_GetInodeNumber ra;
            Some (FI_Info (info_encoder FileIdInformationInfo_Size FileIdInformationInfo_Encode
              \<lparr>FileIdInformationInfo_VolumeSerialNumber = vol, FileIdInformationInfo_FileId = FileId_SetNodeId node FileId_zero\<rparr>), w) } }
      else if class = FilePosixInformation then do {
        i \<leftarrow> newFilePosixInformationInfo \<lparr>DirInfo_Name = name, DirInfo_Attributes = a\<rparr>;
        Some (FI_Info (info_encoder FilePosixInformationInfo_Size FilePosixInformationInfo_Encode i), w) }
      else Some (FI_Invalid, w))"

definition fileTree_queryInfoFile :: "'f tree_env \<Rightarrow> compoundContext option \<Rightarrow> bytes \<Rightarrow> 'f world \<Rightarrow> 'f handled" where
  "fileTree_queryInfoFile X ctx pkt w = do {
     _ \<leftarrow> tree_session (tree_of X w);
     r \<leftarrow> accepted SMB2_QUERY_INFO pkt;
     class \<leftarrow> QueryInfoRequestDecoder_FileInfoClass r;
     f \<leftarrow> request_fileId ctx (QueryInfoRequestDecoder_FileId r);
     if IsInvalidFileId (Some f) then reply_error X pkt STATUS_INVALID_HANDLE ctx w
     else (case get_open (FileId_HandleId f) w of
         None \<Rightarrow> reply_error X pkt STATUS_INVALID_HANDLE ctx w
       | Some o' \<Rightarrow> do {
           let (a, w) = fs_call X (\<lambda>v. vfs_GetAttr v (FileId_HandleId f)) w;
           case a of
             Inl _ \<Rightarrow> reply_error X pkt STATUS_INVALID_HANDLE ctx w
           | Inr a \<Rightarrow> do {
               t \<leftarrow> Attributes_GetFileType a;
               (info, w) \<leftarrow> file_information X (FileId_HandleId f) class o' a
                 (Server_isDeletePending (Open_durableFileId o') (srv_table (w_srv w))) (t = FileTypeDirectory) w;
               case info of
                 FI_Invalid \<Rightarrow> Some (w, ctx, Some InvalidRequestError)
               | FI_Status st \<Rightarrow> reply_error X pkt st ctx w
               | FI_Info info \<Rightarrow> query_reply X pkt info ctx w } }) }"

section \<open>Information on security, and the dispatch\<close>

definition fileTree_queryInfoSec :: "'f tree_env \<Rightarrow> compoundContext option \<Rightarrow> bytes \<Rightarrow> 'f world \<Rightarrow> 'f handled" where
  "fileTree_queryInfoSec X ctx pkt w = do {
     _ \<leftarrow> tree_session (tree_of X w);
     r \<leftarrow> accepted SMB2_QUERY_INFO pkt;
     f \<leftarrow> request_fileId ctx (QueryInfoRequestDecoder_FileId r);
     if IsInvalidFileId (Some f) then reply_error X pkt STATUS_INVALID_HANDLE ctx w
     else do {
       let (a, w) = fs_call X (\<lambda>v. vfs_GetAttr v (FileId_HandleId f)) w;
       case a of
         Inl _ \<Rightarrow> reply_error X pkt STATUS_INVALID_HANDLE ctx w
       | Inr a \<Rightarrow> do {
           addl \<leftarrow> QueryInfoRequestDecoder_AdditionalInformation r;
           sd \<leftarrow> query_sd addl a;
           query_reply X pkt (info_encoder SecurityDescriptor_Size SecurityDescriptor_Encode sd) ctx w } } }"

abbreviation (input) "SMB2_0_INFO_FILE \<equiv> (1 :: u8)"
abbreviation (input) "SMB2_0_INFO_FILESYSTEM \<equiv> (2 :: u8)"
abbreviation (input) "SMB2_0_INFO_SECURITY \<equiv> (3 :: u8)"
abbreviation (input) "SMB2_0_INFO_QUOTA \<equiv> (4 :: u8)"

text \<open>A type outside the list is not answered at all.\<close>

definition fileTree_queryInfo :: "'f tree_env \<Rightarrow> compoundContext option \<Rightarrow> bytes \<Rightarrow> 'f world \<Rightarrow> 'f handled" where
  "fileTree_queryInfo X ctx pkt w = do {
     _ \<leftarrow> tree_session (tree_of X w);
     (res, e) \<leftarrow> accept SMB2_QUERY_INFO pkt;
     case e of Some e \<Rightarrow> Some (w, ctx, Some e) | None \<Rightarrow> do {
     r \<leftarrow> res;
     inv \<leftarrow> QueryInfoRequestDecoder_IsInvalid r;
     if inv then Some (w, ctx, Some InvalidRequestError)
     else do {
       t \<leftarrow> QueryInfoRequestDecoder_InfoType r;
       if t = SMB2_0_INFO_FILE then fileTree_queryInfoFile X ctx pkt w
       else if t = SMB2_0_INFO_FILESYSTEM then fileTree_queryInfoFileSystem X ctx pkt w
       else if t = SMB2_0_INFO_SECURITY then fileTree_queryInfoSec X ctx pkt w
       else if t = SMB2_0_INFO_QUOTA then reply_error X pkt STATUS_NOT_SUPPORTED ctx w
       else Some (w, ctx, None) } } }"

end
