(* ===== verification/File_Set.thy ===== *)
theory File_Set
  imports File_Query
begin

text \<open>
  \<open>server/file_tree.go\<close>, fourth part: setting information - times and mode, the end of file, deletion, renaming and security. An open of an
  extended attribute has its own handlers.
\<close>

section \<open>Basic information and the end of file\<close>

definition unixModeWithFileAttributes :: "u32 \<Rightarrow> u32 \<Rightarrow> u32" where
  "unixModeWithFileAttributes mode fileAttrs =
     (if fileAttrs AND FILE_ATTRIBUTE_READONLY \<noteq> 0 then mode AND NOT 0x92 else mode OR 0x80)"

text \<open>\<open>time.Unix(ns / 1e9, ns % 1e9)\<close> is the time of \<open>ns\<close> nanoseconds; a time of 0 is not set.\<close>

definition set_time :: "(gotime \<Rightarrow> Attributes \<Rightarrow> Attributes) \<Rightarrow> Filetime \<Rightarrow> Attributes \<Rightarrow> Attributes" where
  "set_time f ft a = (let ns = Filetime_Nanoseconds ft in if ns \<noteq> 0 then f ns a else a)"

definition basic_attributes :: "'f tree_env \<Rightarrow> u64 \<Rightarrow> bytes \<Rightarrow> 'f world \<Rightarrow> (Attributes \<times> 'f world) option" where
  "basic_attributes X h info w = do {
     fa \<leftarrow> FileBasicInformationInfoDecoder_FileAttributes info;
     let (a, w) = (if fa \<noteq> 0 then
         (let (old, w) = fs_call X (\<lambda>v. vfs_GetAttr v h) w in
          (case old of Inl _ \<Rightarrow> Attributes_new
           | Inr old \<Rightarrow> (case Attributes_GetUnixMode old of (mode, ok) \<Rightarrow>
               if ok then Attributes_SetUnixMode (unixModeWithFileAttributes mode fa) Attributes_new else Attributes_new), w))
         else (Attributes_new, w));
     at \<leftarrow> FileBasicInformationInfoDecoder_LastAccessTime info;
     wt \<leftarrow> FileBasicInformationInfoDecoder_LastWriteTime info;
     ct \<leftarrow> FileBasicInformationInfoDecoder_ChangeTime info;
     bt \<leftarrow> FileBasicInformationInfoDecoder_CreationTime info;
     Some (set_time Attributes_SetBirthTime bt (set_time Attributes_SetLastStatusChangeTime ct
       (set_time Attributes_SetLastDataModificationTime wt (set_time Attributes_SetAccessTime at a))), w) }"

definition fileTree_setBasicInfo :: "'f tree_env \<Rightarrow> compoundContext option \<Rightarrow> FileId \<Rightarrow> Open \<Rightarrow> bytes \<Rightarrow> 'f world \<Rightarrow> 'f handled" where
  "fileTree_setBasicInfo X ctx f o' pkt w = do {
     _ \<leftarrow> tree_session (tree_of X w);
     r \<leftarrow> accepted SMB2_SET_INFO pkt;
     info \<leftarrow> SetInfoRequestDecoder_Buffer r;
     (a, w) \<leftarrow> basic_attributes X (FileId_HandleId f) info w;
     let (e, w) = (if Open_isEa o' then (None, w)
       else let (e, w) = fs_call X (\<lambda>v. vfs_SetAttr v (FileId_HandleId f) a) w in (case e of Inl e \<Rightarrow> Some e | Inr _ \<Rightarrow> None, w));
     if e \<noteq> None \<and> \<not> srv_ignoreSetAttrErr (w_srv w) then reply_error X pkt STATUS_NOT_SUPPORTED ctx w
     else SetInfo_ok X pkt ctx w }"

text \<open>The end of a call of the file system whose error becomes the status.\<close>

definition set_result :: "'f tree_env \<Rightarrow> bytes \<Rightarrow> vfs_error option \<Rightarrow> compoundContext option \<Rightarrow> 'f world \<Rightarrow> 'f handled" where
  "set_result X pkt e ctx w = (if e \<noteq> None then reply_error X pkt (statusFromVFSError e) ctx w else SetInfo_ok X pkt ctx w)"

definition fileTree_setEndOfFileInfo :: "'f tree_env \<Rightarrow> compoundContext option \<Rightarrow> FileId \<Rightarrow> bytes \<Rightarrow> 'f world \<Rightarrow> 'f handled" where
  "fileTree_setEndOfFileInfo X ctx f pkt w = do {
     _ \<leftarrow> tree_session (tree_of X w);
     r \<leftarrow> accepted SMB2_SET_INFO pkt;
     info \<leftarrow> SetInfoRequestDecoder_Buffer r;
     n \<leftarrow> FileEndOfFileInformationDecoder_EndOfFile info;
     let (e, w) = fs_call X (\<lambda>v. vfs_Truncate v (FileId_HandleId f) n) w;
     set_result X pkt e ctx w }"

text \<open>\<open>make([]byte, n)\<close> panics for a negative length.\<close>

definition fileTree_setEndOfFileInfoEa :: "'f tree_env \<Rightarrow> compoundContext option \<Rightarrow> FileId \<Rightarrow> go_string \<Rightarrow> bytes \<Rightarrow> 'f world \<Rightarrow> 'f handled" where
  "fileTree_setEndOfFileInfoEa X ctx f eaKey pkt w = do {
     _ \<leftarrow> tree_session (tree_of X w);
     r \<leftarrow> accepted SMB2_SET_INFO pkt;
     info \<leftarrow> SetInfoRequestDecoder_Buffer r;
     n \<leftarrow> FileEndOfFileInformationDecoder_EndOfFile info;
     if sint n < 0 then None
     else do {
       let (e, w) = fs_call X (\<lambda>v. vfs_Setxattr v (FileId_HandleId f) eaKey (replicate (unat n) 0)) w;
       set_result X pkt e ctx w } }"

section \<open>Deletion\<close>

definition dispositionDeletePending :: "bytes \<Rightarrow> bool option" where
  "dispositionDeletePending pkt = do {
     r \<leftarrow> accepted SMB2_SET_INFO pkt;
     buf \<leftarrow> SetInfoRequestDecoder_Buffer r;
     if buf = [] then Some False else do { d \<leftarrow> FileDispositionInformationInfoDecoder_DeletePending buf; Some (d \<noteq> 0) } }"

text \<open>A directory is not deleted while the file system lists an entry in it other than the two links.\<close>

definition fileTree_applyDeleteDisposition :: "'f tree_env \<Rightarrow> FileId \<Rightarrow> Open \<Rightarrow> 'f world \<Rightarrow> (u32 \<times> 'f world) option" where
  "fileTree_applyDeleteDisposition X f o' w = do {
     let (a, w) = fs_call X (\<lambda>v. vfs_GetAttr v (FileId_HandleId f)) w;
     case a of
       Inl _ \<Rightarrow> Some (STATUS_ACCESS_DENIED, w)
     | Inr a \<Rightarrow> do {
         t \<leftarrow> Attributes_GetFileType a;
         let (dir, w) = (if t = FileTypeDirectory then fs_call X (\<lambda>v. vfs_ReadDir v (FileId_HandleId f) ReadDirContinue 1000) w else (Inr [], w));
         if (case dir of Inl _ \<Rightarrow> False | Inr dir \<Rightarrow> list_ex (\<lambda>d. DirInfo_Name d \<noteq> [DOT] \<and> DirInfo_Name d \<noteq> [DOT, DOT]) dir)
         then Some (STATUS_DIRECTORY_NOT_EMPTY, w)
         else if Open_posixSemantics o' then
           (let (e, w) = fileTree_applyPosixDelete X f o' w in
            Some (case e of None \<Rightarrow> 0 | Some e \<Rightarrow> if e = VE_NotExist then STATUS_OBJECT_NAME_NOT_FOUND else STATUS_ACCESS_DENIED, w))
         else Some (0, on_table (Server_setDeletePending (Open_durableFileId o') True) w) } }"

definition fileTree_setDispositionInfo :: "'f tree_env \<Rightarrow> compoundContext option \<Rightarrow> FileId \<Rightarrow> Open \<Rightarrow> bytes \<Rightarrow> 'f world \<Rightarrow> 'f handled" where
  "fileTree_setDispositionInfo X ctx f o' pkt w = do {
     _ \<leftarrow> tree_session (tree_of X w);
     d \<leftarrow> dispositionDeletePending pkt;
     if \<not> d then SetInfo_ok X pkt ctx (on_table (Server_setDeletePending (Open_durableFileId o') False) w)
     else if Open_grantedAccess o' AND DELETE = 0 then reply_error X pkt STATUS_ACCESS_DENIED ctx w
     else do {
       (status, w) \<leftarrow> fileTree_applyDeleteDisposition X f o' w;
       if status \<noteq> 0 then reply_error X pkt status ctx w else SetInfo_ok X pkt ctx w } }"

definition fileTree_setDispositionInfoEa :: "'f tree_env \<Rightarrow> compoundContext option \<Rightarrow> FileId \<Rightarrow> go_string \<Rightarrow> bytes \<Rightarrow> 'f world \<Rightarrow> 'f handled" where
  "fileTree_setDispositionInfoEa X ctx f eaKey pkt w = do {
     _ \<leftarrow> tree_session (tree_of X w);
     d \<leftarrow> dispositionDeletePending pkt;
     let (e, w) = (if d then fs_call X (\<lambda>v. vfs_Removexattr v (FileId_HandleId f) eaKey) w else (None, w));
     if e \<noteq> None then reply_error X pkt STATUS_NOT_FOUND ctx w else SetInfo_ok X pkt ctx w }"

section \<open>Renaming and security\<close>

definition fileTree_setRename :: "'f tree_env \<Rightarrow> compoundContext option \<Rightarrow> FileId \<Rightarrow> bytes \<Rightarrow> 'f world \<Rightarrow> 'f handled" where
  "fileTree_setRename X ctx f pkt w = do {
     _ \<leftarrow> tree_session (tree_of X w);
     r \<leftarrow> accepted SMB2_SET_INFO pkt;
     info \<leftarrow> SetInfoRequestDecoder_Buffer r;
     name \<leftarrow> FileRenameInformationInfoDecoder_FileName info;
     _ \<leftarrow> FileRenameInformationInfoDecoder_RootDirectory info;
     let to = replace_byte 0x5C [SLASH] name;
     repl \<leftarrow> FileRenameInformationInfoDecoder_ReplaceIfExists info;
     let (e, w) = fs_call X (\<lambda>v. vfs_Rename v (FileId_HandleId f) to repl) w;
     e \<leftarrow> e;
     let w = (if e \<noteq> None then w else (case get_open (FileId_HandleId f) w of None \<Rightarrow> w
       | Some o' \<Rightarrow> on_table (set_open (o'\<lparr>Open_pathName := to, Open_fileName := filepath_Base to\<rparr>)) w));
     set_result X pkt e ctx w }"

definition fileTree_setSecInfo :: "'f tree_env \<Rightarrow> compoundContext option \<Rightarrow> FileId \<Rightarrow> bytes \<Rightarrow> 'f world \<Rightarrow> 'f handled" where
  "fileTree_setSecInfo X ctx f pkt w = do {
     _ \<leftarrow> tree_session (tree_of X w);
     r \<leftarrow> accepted SMB2_SET_INFO pkt;
     sd \<leftarrow> SetInfoRequestDecoder_Buffer r;
     mode \<leftarrow> sd_mode sd;
     case mode of
       None \<Rightarrow> reply_error X pkt STATUS_NOT_SUPPORTED ctx w
     | Some mode \<Rightarrow> do {
         let (e, w) = fs_call X (\<lambda>v. vfs_SetAttr v (FileId_HandleId f) (Attributes_SetUnixMode (mode OR 0x180) Attributes_new)) w;
         case e of Inl _ \<Rightarrow> reply_error X pkt STATUS_ACCESS_DENIED ctx w | Inr _ \<Rightarrow> SetInfo_ok X pkt ctx w } }"

definition fileTree_setInfo :: "'f tree_env \<Rightarrow> compoundContext option \<Rightarrow> bytes \<Rightarrow> 'f world \<Rightarrow> 'f handled" where
  "fileTree_setInfo X ctx pkt w = do {
     _ \<leftarrow> tree_session (tree_of X w);
     r \<leftarrow> accepted SMB2_SET_INFO pkt;
     f \<leftarrow> request_fileId ctx (SetInfoRequestDecoder_FileId r);
     if IsInvalidFileId (Some f) then reply_error X pkt STATUS_INVALID_HANDLE ctx w
     else (case get_open (FileId_HandleId f) w of
         None \<Rightarrow> reply_error X pkt STATUS_INVALID_HANDLE ctx w
       | Some o' \<Rightarrow> do {
           class \<leftarrow> SetInfoRequestDecoder_FileInfoClass r;
           t \<leftarrow> SetInfoRequestDecoder_InfoType r;
           if t = SMB2_0_INFO_SECURITY then fileTree_setSecInfo X ctx f pkt w
           else if class = FileBasicInformation then fileTree_setBasicInfo X ctx f o' pkt w
           else if class = FileEndOfFileInformation then
             (if Open_isEa o' then fileTree_setEndOfFileInfoEa X ctx f (Open_eaKey o') pkt w else fileTree_setEndOfFileInfo X ctx f pkt w)
           else if class = FileDispositionInformation then
             (if Open_isEa o' then fileTree_setDispositionInfoEa X ctx f (Open_eaKey o') pkt w else fileTree_setDispositionInfo X ctx f o' pkt w)
           else if class = FileRenameInformation \<and> \<not> Open_isEa o' then fileTree_setRename X ctx f pkt w
           else if class = FileAllocationInformation then SetInfo_ok X pkt ctx w
           else reply_error X pkt STATUS_NOT_SUPPORTED ctx w }) }"

end
