(* ===== verification/Dcerpc.thy ===== *)
theory Dcerpc
  imports Info_Codec Ntlm
begin

text \<open>
  \<open>internal/smb2/dcerpc.go\<close>: the DCE/RPC messages of the server service pipe. The package keeps a counter of referent ids that every pointer
  written takes from; an encoder gets the value of the counter as an argument and writes the ids from there on.
\<close>

section \<open>Requests\<close>

abbreviation (input) "PacketTypeRequest \<equiv> (0 :: u8)"
abbreviation (input) "PacketTypeResponse \<equiv> (2 :: u8)"
abbreviation (input) "PacketTypeBind \<equiv> (11 :: u8)"
abbreviation (input) "PacketTypeBindAck \<equiv> (12 :: u8)"
abbreviation (input) "OpNetShareEnumAll \<equiv> (15 :: u16)"
abbreviation (input) "OpNetShareGetInfo \<equiv> (16 :: u16)"
abbreviation (input) "StypeDisktree \<equiv> (0 :: u32)"

definition SRVSVC_UUID :: bytes where
  "SRVSVC_UUID = [0xc8, 0x4f, 0x32, 0x4b, 0x70, 0x16, 0xd3, 0x01, 0x12, 0x78, 0x5a, 0x47, 0xbf, 0x6e, 0xe1, 0x88]"

definition NDR_UUID :: bytes where
  "NDR_UUID = [0x04, 0x5d, 0x88, 0x8a, 0xeb, 0x1c, 0xc9, 0x11, 0x9f, 0xe8, 0x08, 0x00, 0x2b, 0x10, 0x48, 0x60]"

record DCEHeader =
  DCEHeader_Version :: u8
  DCEHeader_VersionMinor :: u8
  DCEHeader_PacketType :: u8
  DCEHeader_PacketFlags :: u8
  DCEHeader_DataRepresentation :: bytes
  DCEHeader_FragLength :: u16
  DCEHeader_AuthLength :: u16
  DCEHeader_CallID :: u32

definition DCERequestDecoder_IsInvalid :: "bytes \<Rightarrow> bool" where
  "DCERequestDecoder_IsInvalid r \<longleftrightarrow> length r < 16"

definition DCERequestDecoder_Header :: "bytes \<Rightarrow> DCEHeader option" where
  "DCERequestDecoder_Header r = do {
     v \<leftarrow> index_at r 0;
     m \<leftarrow> index_at r 1;
     t \<leftarrow> index_at r 2;
     fl \<leftarrow> index_at r 3;
     d \<leftarrow> go_slice_from r 4;
     n \<leftarrow> u16_at r 8;
     a \<leftarrow> u16_at r 10;
     c \<leftarrow> u32_at r 12;
     Some \<lparr>DCEHeader_Version = v, DCEHeader_VersionMinor = m, DCEHeader_PacketType = t, DCEHeader_PacketFlags = fl,
       DCEHeader_DataRepresentation = go_copy (replicate 4 0) d, DCEHeader_FragLength = n, DCEHeader_AuthLength = a, DCEHeader_CallID = c\<rparr> }"

record TransferSyntax =
  TransferSyntax_SyntaxUUID :: bytes
  TransferSyntax_VersionMajor :: u16
  TransferSyntax_VersionMinor :: u16

record ContextRequestItem =
  ContextRequestItem_ContextID :: u16
  ContextRequestItem_TransferSyntaxCount :: u8
  ContextRequestItem_InterfaceUUID :: bytes
  ContextRequestItem_VersionMajor :: u16
  ContextRequestItem_VersionMinor :: u16
  ContextRequestItem_TransferSyntaxes :: "TransferSyntax list"

definition DCEBindRequestDecoder_MaxSendFragSize :: "bytes \<Rightarrow> u16 option" where
  "DCEBindRequestDecoder_MaxSendFragSize r = u16_at r 16"

definition DCEBindRequestDecoder_MaxRecvFragSize :: "bytes \<Rightarrow> u16 option" where
  "DCEBindRequestDecoder_MaxRecvFragSize r = u16_at r 18"

definition DCEBindRequestDecoder_AssocGroupID :: "bytes \<Rightarrow> u32 option" where
  "DCEBindRequestDecoder_AssocGroupID r = u32_at r 20"

definition DCEBindRequestDecoder_NumCtxItems :: "bytes \<Rightarrow> u8 option" where
  "DCEBindRequestDecoder_NumCtxItems r = index_at r 24"

text \<open>The inner and the outer loop of \<open>CtxItems\<close>: the number of rounds left and the offset.\<close>

fun transfer_syntaxes :: "bytes \<Rightarrow> nat \<Rightarrow> nat \<Rightarrow> (TransferSyntax list \<times> nat) option" where
  "transfer_syntaxes r 0 off = Some ([], off)"
| "transfer_syntaxes r (Suc n) off = do {
     u \<leftarrow> go_slice_from r off;
     ma \<leftarrow> u16_at r (off + 16);
     mi \<leftarrow> u16_at r (off + 18);
     (ts, off) \<leftarrow> transfer_syntaxes r n (off + 20);
     Some (\<lparr>TransferSyntax_SyntaxUUID = go_copy (replicate 16 0) u, TransferSyntax_VersionMajor = ma, TransferSyntax_VersionMinor = mi\<rparr> # ts, off) }"

fun ctx_items :: "bytes \<Rightarrow> nat \<Rightarrow> nat \<Rightarrow> ContextRequestItem list option" where
  "ctx_items r 0 off = Some []"
| "ctx_items r (Suc n) off = do {
     i \<leftarrow> u16_at r off;
     c \<leftarrow> index_at r (off + 2);
     u \<leftarrow> go_slice_from r (off + 4);
     ma \<leftarrow> u16_at r (off + 20);
     mi \<leftarrow> u16_at r (off + 22);
     (ts, off) \<leftarrow> transfer_syntaxes r (unat c) (off + 24);
     items \<leftarrow> ctx_items r n off;
     Some (\<lparr>ContextRequestItem_ContextID = i, ContextRequestItem_TransferSyntaxCount = c,
       ContextRequestItem_InterfaceUUID = go_copy (replicate 16 0) u, ContextRequestItem_VersionMajor = ma,
       ContextRequestItem_VersionMinor = mi, ContextRequestItem_TransferSyntaxes = ts\<rparr> # items) }"

definition DCEBindRequestDecoder_CtxItems :: "bytes \<Rightarrow> ContextRequestItem list option" where
  "DCEBindRequestDecoder_CtxItems r = do { n \<leftarrow> DCEBindRequestDecoder_NumCtxItems r; ctx_items r (unat n) 28 }"

definition DCERequestReqDecoder_AllocHint :: "bytes \<Rightarrow> u32 option" where
  "DCERequestReqDecoder_AllocHint r = u32_at r 16"

definition DCERequestReqDecoder_ContextId :: "bytes \<Rightarrow> u16 option" where
  "DCERequestReqDecoder_ContextId r = u16_at r 20"

definition DCERequestReqDecoder_Opnum :: "bytes \<Rightarrow> u16 option" where
  "DCERequestReqDecoder_Opnum r = u16_at r 22"

definition DCERequestReqDecoder_Data :: "bytes \<Rightarrow> bytes option" where
  "DCERequestReqDecoder_Data r = go_slice_from r 24"

definition UUIDIsEqual :: "bytes \<Rightarrow> bytes \<Rightarrow> bool" where
  "UUIDIsEqual a b \<longleftrightarrow> a = b"

text \<open>The offset of the share name is computed from the length of the server name in bytes of UTF-8.\<close>

definition NetShareGetInfoRequestDecoder_ServerName :: "bytes \<Rightarrow> go_string option" where
  "NetShareGetInfoRequestDecoder_ServerName r = do {
     n \<leftarrow> u32_at r 12;
     let len1 = unat n;
     if length r < 16 + len1 * 2 then Some []
     else do { b \<leftarrow> go_slice r 16 (16 + len1 * 2); DecodeToString b } }"

definition NetShareGetInfoRequestDecoder_ShareName :: "bytes \<Rightarrow> go_string option" where
  "NetShareGetInfoRequestDecoder_ShareName r = do {
     server \<leftarrow> NetShareGetInfoRequestDecoder_ServerName r;
     let off = 16 + Align (length server) 2 * 2;
     n \<leftarrow> u32_at r (off + 8);
     let len1 = unat n;
     if length r < off + off + 12 + len1 * 2 then Some []
     else do { b \<leftarrow> go_slice r (off + 12) (off + 12 + len1 * 2); DecodeToString b } }"

definition NetShareGetInfoRequestDecoder_Level :: "bytes \<Rightarrow> u32 option" where
  "NetShareGetInfoRequestDecoder_Level r = do {
     server \<leftarrow> NetShareGetInfoRequestDecoder_ServerName r;
     share \<leftarrow> NetShareGetInfoRequestDecoder_ShareName r;
     let off = 28 + Align (length server) 2 * 2 + Align (length share) 2 * 2;
     if length r < off then Some 0 else u32_at r off }"

section \<open>Responses\<close>

definition DCEHeader_encodeHeader :: "DCEHeader \<Rightarrow> writer" where
  "DCEHeader_encodeHeader h = writes [
     put8 0 (DCEHeader_Version h),
     put8 1 (DCEHeader_VersionMinor h),
     put8 2 (DCEHeader_PacketType h),
     put8 3 (DCEHeader_PacketFlags h),
     copy_from 4 (DCEHeader_DataRepresentation h),
     put16 8 (DCEHeader_FragLength h),
     put16 10 (DCEHeader_AuthLength h),
     put32 12 (DCEHeader_CallID h)]"

text \<open>The header both responses set before they write it.\<close>

definition response_header :: "u8 \<Rightarrow> nat \<Rightarrow> u32 \<Rightarrow> DCEHeader" where
  "response_header t sz callId = \<lparr>DCEHeader_Version = 5, DCEHeader_VersionMinor = 0, DCEHeader_PacketType = t, DCEHeader_PacketFlags = 3,
     DCEHeader_DataRepresentation = [0x10, 0, 0, 0], DCEHeader_FragLength = of_nat sz, DCEHeader_AuthLength = 0, DCEHeader_CallID = callId\<rparr>"

record ContextResponseItem =
  ContextResponseItem_Result :: u32
  ContextResponseItem_TransferUUID :: bytes
  ContextResponseItem_TransferVersion :: u32

record DCEBindAck =
  DCEBindAck_CallID :: u32
  DCEBindAck_MaxSendFragSize :: u16
  DCEBindAck_MaxRecvFragSize :: u16
  DCEBindAck_AssocGroupID :: u32
  DCEBindAck_SecAddrLen :: u16
  DCEBindAck_SecAddr :: bytes
  DCEBindAck_CtxCount :: u8
  DCEBindAck_CtxItems :: "ContextResponseItem list"

definition DCEBindAck_Size :: "DCEBindAck \<Rightarrow> nat" where
  "DCEBindAck_Size r = Align (30 + unat (DCEBindAck_SecAddrLen r)) 2 + unat (DCEBindAck_CtxCount r) * 24"

fun DCEBindAck_Encode_loop :: "nat \<Rightarrow> ContextResponseItem list \<Rightarrow> writer" where
  "DCEBindAck_Encode_loop off [] = Some"
| "DCEBindAck_Encode_loop off (item # items) = writes [
     put32 off (ContextResponseItem_Result item),
     copy_from (off + 4) (ContextResponseItem_TransferUUID item),
     put32 (off + 20) (ContextResponseItem_TransferVersion item),
     DCEBindAck_Encode_loop (off + 24) items]"

definition DCEBindAck_Encode :: "DCEBindAck \<Rightarrow> writer" where
  "DCEBindAck_Encode r =
     (let rsz = (if DCEBindAck_MaxRecvFragSize r = 0 then 5840 else DCEBindAck_MaxRecvFragSize r);
          ssz = (if DCEBindAck_MaxSendFragSize r = 0 then 5840 else DCEBindAck_MaxSendFragSize r) in
      writes [
        DCEHeader_encodeHeader (response_header PacketTypeBindAck (DCEBindAck_Size r) (DCEBindAck_CallID r)),
        put16 16 ssz,
        put16 18 rsz,
        put32 20 (DCEBindAck_AssocGroupID r),
        put16 24 (DCEBindAck_SecAddrLen r),
        copy_from 26 (DCEBindAck_SecAddr r),
        put8 39 0,
        put8 40 (DCEBindAck_CtxCount r),
        DCEBindAck_Encode_loop 44 (DCEBindAck_CtxItems r)])"

record DCERequestRes =
  DCERequestRes_CallID :: u32
  DCERequestRes_AllocHint :: u32
  DCERequestRes_ContextId :: u16
  DCERequestRes_CancelCount :: u8
  DCERequestRes_Data :: "encoder option"

definition DCERequestRes_Size :: "DCERequestRes \<Rightarrow> nat" where
  "DCERequestRes_Size r = (case DCERequestRes_Data r of None \<Rightarrow> 24 | Some d \<Rightarrow> 24 + enc_Size d)"

definition DCERequestRes_Encode :: "DCERequestRes \<Rightarrow> writer" where
  "DCERequestRes_Encode r = writes [
     DCEHeader_encodeHeader (response_header PacketTypeResponse (DCERequestRes_Size r) (DCERequestRes_CallID r)),
     put32 16 (DCERequestRes_AllocHint r),
     put16 20 (DCERequestRes_ContextId r),
     put8 22 (DCERequestRes_CancelCount r),
     (case DCERequestRes_Data r of None \<Rightarrow> Some | Some d \<Rightarrow> on_from 24 (enc_Encode d))]"

section \<open>Lists of shares\<close>

record UnicodeStr =
  UnicodeStr_MaxCount :: u32
  UnicodeStr_Offset :: u32
  UnicodeStr_ActualCount :: u32
  UnicodeStr_EncodedString :: bytes

text \<open>The counts are the length of the string in bytes, not in UTF-16 units.\<close>

definition makeUnicodeStr :: "go_string \<Rightarrow> UnicodeStr" where
  "makeUnicodeStr s = (let str = s @ [0] in
     \<lparr>UnicodeStr_MaxCount = of_nat (length str), UnicodeStr_Offset = 0, UnicodeStr_ActualCount = of_nat (length str),
      UnicodeStr_EncodedString = utf16_bytes str\<rparr>)"

definition UnicodeStr_Size :: "UnicodeStr \<Rightarrow> nat" where
  "UnicodeStr_Size s = 12 + Align (unat (UnicodeStr_ActualCount s * 2)) 4"

definition UnicodeStr_Encode :: "UnicodeStr \<Rightarrow> writer" where
  "UnicodeStr_Encode s = writes [
     put32 0 (UnicodeStr_MaxCount s),
     put32 4 (UnicodeStr_Offset s),
     put32 8 (UnicodeStr_ActualCount s),
     copy_from 12 (UnicodeStr_EncodedString s)]"

record ShareInfo1 =
  ShareInfo1_Name :: UnicodeStr
  ShareInfo1_Type :: u32
  ShareInfo1_Comment :: UnicodeStr

record NetShareInfo1 =
  NetShareInfo1_Count :: u32
  NetShareInfo1_Pointer :: "ShareInfo1 list"

definition share_size :: "ShareInfo1 \<Rightarrow> nat" where
  "share_size i = UnicodeStr_Size (ShareInfo1_Comment i) + UnicodeStr_Size (ShareInfo1_Name i) + 12"

definition NetShareInfo1_Size :: "NetShareInfo1 \<Rightarrow> nat" where
  "NetShareInfo1_Size n = 4 + sum_list (map share_size (NetShareInfo1_Pointer n))"

text \<open>The two loops of \<open>Encode\<close>: first the referents, then the strings.\<close>

fun referents_Encode :: "u32 \<Rightarrow> nat \<Rightarrow> ShareInfo1 list \<Rightarrow> writer" where
  "referents_Encode ref off [] = Some"
| "referents_Encode ref off (i # is) = writes [
     put32 off ref,
     put32 (off + 4) (ShareInfo1_Type i),
     put32 (off + 8) (ref + 1),
     referents_Encode (ref + 2) (off + 12) is]"

fun strings_Encode :: "nat \<Rightarrow> ShareInfo1 list \<Rightarrow> writer" where
  "strings_Encode off [] = Some"
| "strings_Encode off (i # is) = writes [
     on_from off (UnicodeStr_Encode (ShareInfo1_Name i)),
     on_from (off + UnicodeStr_Size (ShareInfo1_Name i)) (UnicodeStr_Encode (ShareInfo1_Comment i)),
     strings_Encode (off + UnicodeStr_Size (ShareInfo1_Name i) + UnicodeStr_Size (ShareInfo1_Comment i)) is]"

definition NetShareInfo1_Encode :: "u32 \<Rightarrow> NetShareInfo1 \<Rightarrow> writer" where
  "NetShareInfo1_Encode ref n = writes [
     put32 0 (NetShareInfo1_Count n),
     referents_Encode ref 4 (NetShareInfo1_Pointer n),
     strings_Encode (4 + 12 * length (NetShareInfo1_Pointer n)) (NetShareInfo1_Pointer n)]"

record NetShareCtr1 =
  NetShareCtr1_Count :: u32
  NetShareCtr1_Info :: NetShareInfo1

definition NetShareCtr1_Size :: "NetShareCtr1 \<Rightarrow> nat" where
  "NetShareCtr1_Size n = NetShareInfo1_Size (NetShareCtr1_Info n) + 8"

definition NetShareCtr1_Encode :: "u32 \<Rightarrow> NetShareCtr1 \<Rightarrow> writer" where
  "NetShareCtr1_Encode ref n = writes [
     put32 0 (NetShareCtr1_Count n),
     put32 4 ref,
     on_from 8 (NetShareInfo1_Encode (ref + 1) (NetShareCtr1_Info n))]"

record NetShareCtr =
  NetShareCtr_Ctr :: u32
  NetShareCtr_Pointer :: NetShareCtr1

definition NetShareCtr_Size :: "NetShareCtr \<Rightarrow> nat" where
  "NetShareCtr_Size n = (if NetShareCtr_Ctr n = 1 then 8 + NetShareCtr1_Size (NetShareCtr_Pointer n) else 0)"

definition NetShareCtr_Encode :: "u32 \<Rightarrow> NetShareCtr \<Rightarrow> writer" where
  "NetShareCtr_Encode ref n = writes [
     put32 0 (NetShareCtr_Ctr n),
     put32 4 ref,
     on_from 8 (NetShareCtr1_Encode (ref + 1) (NetShareCtr_Pointer n))]"

record NetShareEnumAllResponse =
  NetShareEnumAllResponse_Level :: u32
  NetShareEnumAllResponse_Ctr :: NetShareCtr
  NetShareEnumAllResponse_TotalEntries :: u32
  NetShareEnumAllResponse_Resume :: u32
  NetShareEnumAllResponse_WindowsError :: u32

definition NetShareEnumAllResponse_Size :: "NetShareEnumAllResponse \<Rightarrow> nat" where
  "NetShareEnumAllResponse_Size r = 20 + NetShareCtr_Size (NetShareEnumAllResponse_Ctr r)"

definition NetShareEnumAllResponse_Encode :: "u32 \<Rightarrow> NetShareEnumAllResponse \<Rightarrow> writer" where
  "NetShareEnumAllResponse_Encode ref r =
     (let off = 4 + NetShareCtr_Size (NetShareEnumAllResponse_Ctr r);
          n = length (NetShareInfo1_Pointer (NetShareCtr1_Info (NetShareCtr_Pointer (NetShareEnumAllResponse_Ctr r)))) in
      writes [
        put32 0 (NetShareEnumAllResponse_Level r),
        on_from 4 (NetShareCtr_Encode ref (NetShareEnumAllResponse_Ctr r)),
        put32 off (NetShareEnumAllResponse_TotalEntries r),
        put32 (off + 4) (ref + 2 + 2 * of_nat n),
        put32 (off + 8) (NetShareEnumAllResponse_Resume r),
        put32 (off + 12) (NetShareEnumAllResponse_WindowsError r)])"

definition MakeNetShareEnumAllResponse :: "go_string list \<Rightarrow> NetShareEnumAllResponse" where
  "MakeNetShareEnumAllResponse shares =
     \<lparr>NetShareEnumAllResponse_Level = 1,
      NetShareEnumAllResponse_Ctr = \<lparr>NetShareCtr_Ctr = 1, NetShareCtr_Pointer = \<lparr>NetShareCtr1_Count = of_nat (length shares),
        NetShareCtr1_Info = \<lparr>NetShareInfo1_Count = of_nat (length shares), NetShareInfo1_Pointer =
          map (\<lambda>s. \<lparr>ShareInfo1_Name = makeUnicodeStr s, ShareInfo1_Type = StypeDisktree, ShareInfo1_Comment = makeUnicodeStr []\<rparr>) shares\<rparr>\<rparr>\<rparr>,
      NetShareEnumAllResponse_TotalEntries = of_nat (length shares), NetShareEnumAllResponse_Resume = 0,
      NetShareEnumAllResponse_WindowsError = 0\<rparr>"

record NetShareGetInfoResponse =
  NetShareGetInfoResponse_Level :: u32
  NetShareGetInfoResponse_Pointer :: ShareInfo1
  NetShareGetInfoResponse_WindowsError :: u32

definition NetShareGetInfo1_Encode :: "u32 \<Rightarrow> ShareInfo1 \<Rightarrow> writer" where
  "NetShareGetInfo1_Encode ref n = writes [
     put32 0 ref,
     put32 4 (ShareInfo1_Type n),
     put32 8 (ref + 1),
     on_from 12 (UnicodeStr_Encode (ShareInfo1_Name n)),
     on_from (12 + UnicodeStr_Size (ShareInfo1_Name n)) (UnicodeStr_Encode (ShareInfo1_Comment n))]"

definition NetShareGetInfoResponse_Size :: "NetShareGetInfoResponse \<Rightarrow> nat" where
  "NetShareGetInfoResponse_Size n = share_size (NetShareGetInfoResponse_Pointer n) + 12"

definition NetShareGetInfoResponse_Encode :: "u32 \<Rightarrow> NetShareGetInfoResponse \<Rightarrow> writer" where
  "NetShareGetInfoResponse_Encode ref n = writes [
     put32 0 (NetShareGetInfoResponse_Level n),
     put32 4 ref,
     on_from 8 (NetShareGetInfo1_Encode (ref + 1) (NetShareGetInfoResponse_Pointer n)),
     put32 (8 + share_size (NetShareGetInfoResponse_Pointer n)) (NetShareGetInfoResponse_WindowsError n)]"

definition MakeGetInfoShareResponse :: "go_string \<Rightarrow> NetShareGetInfoResponse" where
  "MakeGetInfoShareResponse share =
     \<lparr>NetShareGetInfoResponse_Level = 1, NetShareGetInfoResponse_Pointer = \<lparr>ShareInfo1_Name = makeUnicodeStr share,
       ShareInfo1_Type = StypeDisktree, ShareInfo1_Comment = makeUnicodeStr (ascii ''comment'')\<rparr>,
      NetShareGetInfoResponse_WindowsError = 0\<rparr>"

section \<open>Encoding never leaves the buffer\<close>

lemma utf16_units_length: "length (utf16_units r) \<le> 2" "r < 0x10000 \<Longrightarrow> length (utf16_units r) = 1"
  by (simp_all add: utf16_units_def Let_def)

lemma decodeRune_units: "decodeRune b s = (r, s') \<Longrightarrow> length (utf16_units r) + length s' \<le> Suc (length s)"
  using utf16_units_length(1) [of r]
  by (auto simp: decodeRune.simps Let_def RuneError_def utf16_units_length(2) split: if_splits list.splits)

lemma utf16_length_le: "length (utf16_Encode (runes s)) \<le> length s"
proof (induction s rule: runes.induct)
  case (2 b s)
  obtain r s' where d: "decodeRune b s = (r, s')" by fastforce
  have "length (utf16_Encode (runes s')) \<le> length s'" using 2 d by simp
  then show ?case
    using decodeRune_units [OF d] d by (simp add: utf16_Encode_def)
qed (simp add: utf16_Encode_def)

definition string_ok :: "go_string \<Rightarrow> bool" where
  "string_ok s \<longleftrightarrow> length s < 2 ^ 31 - 1"

lemma UnicodeStr_fits:
  assumes "string_ok s"
  shows "fits_w (UnicodeStr_Size (makeUnicodeStr s)) (UnicodeStr_Encode (makeUnicodeStr s))"
proof -
  let ?n = "length (s @ [0])"
  have "(of_nat ?n :: u32) * 2 = of_nat (2 * ?n)" by simp
  then have "unat ((of_nat ?n :: u32) * 2) = 2 * ?n"
    using assms unat_of_nat_u32 [of "2 * ?n"] by (simp only: string_ok_def) simp
  then have sz: "UnicodeStr_Size (makeUnicodeStr s) = 12 + Align (2 * ?n) 4"
    by (simp only: UnicodeStr_Size_def makeUnicodeStr_def Let_def UnicodeStr.simps)
  have "length (utf16_bytes (s @ [0])) \<le> 2 * ?n"
    using utf16_length_le [of "s @ [0]"] by simp
  then have "12 + length (utf16_bytes (s @ [0])) \<le> 12 + Align (2 * ?n) 4"
    using Align_4_ge [of "2 * ?n"] by linarith
  then show ?thesis
    unfolding sz UnicodeStr_Encode_def by (intro go_fits) (simp_all add: makeUnicodeStr_def Let_def)
qed

definition share_ok :: "ShareInfo1 \<Rightarrow> bool" where
  "share_ok i \<longleftrightarrow> (\<exists>n c. ShareInfo1_Name i = makeUnicodeStr n \<and> ShareInfo1_Comment i = makeUnicodeStr c \<and> string_ok n \<and> string_ok c)"

lemma share_fits:
  assumes "share_ok i"
  shows "fits_w (UnicodeStr_Size (ShareInfo1_Name i)) (UnicodeStr_Encode (ShareInfo1_Name i))"
    "fits_w (UnicodeStr_Size (ShareInfo1_Comment i)) (UnicodeStr_Encode (ShareInfo1_Comment i))"
  using assms UnicodeStr_fits by (auto simp: share_ok_def)

lemma referents_fits: "off + 12 * length is \<le> n \<Longrightarrow> fits_w n (referents_Encode ref off is)"
proof (induction "is" arbitrary: ref off)
  case (Cons i "is")
  then show ?case
    unfolding referents_Encode.simps by (intro go_fits Cons.IH) simp_all
qed (simp add: go_fits)

lemma strings_fits:
  "list_all share_ok is \<Longrightarrow> off + sum_list (map share_size is) \<le> n + 12 * length is \<Longrightarrow> fits_w n (strings_Encode off is)"
proof (induction "is" arbitrary: off)
  case (Cons i "is")
  have s: "share_ok i" using Cons.prems(1) by simp
  have le: "off + UnicodeStr_Size (ShareInfo1_Name i) + UnicodeStr_Size (ShareInfo1_Comment i) + sum_list (map share_size is) \<le> n + 12 * length is"
    using Cons.prems(2) by (simp add: share_size_def [of i])
  have "12 * length is \<le> sum_list (map share_size is)"
    by (induction "is") (simp_all add: share_size_def)
  then have "off + UnicodeStr_Size (ShareInfo1_Name i) + UnicodeStr_Size (ShareInfo1_Comment i) \<le> n" using le by linarith
  then show ?case
    unfolding strings_Encode.simps using Cons.prems(1) le
    by (intro go_fits Cons.IH fits_mono [OF share_fits(1) [OF s]] fits_mono [OF share_fits(2) [OF s]]) simp_all
qed (simp add: go_fits)

lemma shares_fits:
  assumes "list_all share_ok (NetShareInfo1_Pointer n)"
  shows "fits_w (NetShareInfo1_Size n) (NetShareInfo1_Encode ref n)"
proof -
  have "12 * length is \<le> sum_list (map share_size is)" for "is"
    by (induction "is") (simp_all add: share_size_def)
  then show ?thesis
    unfolding NetShareInfo1_Encode_def NetShareInfo1_Size_def
    using assms by (intro go_fits referents_fits strings_fits) (simp_all)
qed

text \<open>Both answers of the service, as structures that never panic when encoded into a buffer of their size.\<close>

definition enum_ok :: "NetShareEnumAllResponse \<Rightarrow> bool" where
  "enum_ok r \<longleftrightarrow> NetShareCtr_Ctr (NetShareEnumAllResponse_Ctr r) = 1 \<and>
     list_all share_ok (NetShareInfo1_Pointer (NetShareCtr1_Info (NetShareCtr_Pointer (NetShareEnumAllResponse_Ctr r))))"

interpretation NetShareEnumAllResponse: information NetShareEnumAllResponse_Size "NetShareEnumAllResponse_Encode ref" enum_ok for ref
  by unfold_locales
    (auto simp: enum_ok_def NetShareEnumAllResponse_Size_def NetShareEnumAllResponse_Encode_def NetShareCtr_Size_def NetShareCtr_Encode_def
      NetShareCtr1_Size_def NetShareCtr1_Encode_def Let_def intro!: go_fits fits_mono [OF shares_fits])

interpretation NetShareGetInfoResponse: information NetShareGetInfoResponse_Size "NetShareGetInfoResponse_Encode ref"
    "\<lambda>r. share_ok (NetShareGetInfoResponse_Pointer r)" for ref
  by unfold_locales
    (auto simp: NetShareGetInfoResponse_Size_def NetShareGetInfoResponse_Encode_def NetShareGetInfo1_Encode_def share_size_def
      intro!: go_fits fits_mono [OF share_fits(1)] fits_mono [OF share_fits(2)])

definition ack_ok :: "DCEBindAck \<Rightarrow> bool" where
  "ack_ok r \<longleftrightarrow> DCEBindAck_SecAddrLen r = 13 \<and> length (DCEBindAck_SecAddr r) = 13 \<and> unat (DCEBindAck_CtxCount r) = length (DCEBindAck_CtxItems r) \<and>
     list_all (\<lambda>i. length (ContextResponseItem_TransferUUID i) \<le> 16) (DCEBindAck_CtxItems r)"

lemma bind_ack_loop_fits:
  "list_all (\<lambda>i. length (ContextResponseItem_TransferUUID i) \<le> 16) is \<Longrightarrow> off + 24 * length is \<le> n \<Longrightarrow> fits_w n (DCEBindAck_Encode_loop off is)"
proof (induction "is" arbitrary: off)
  case (Cons i "is")
  then show ?case
    unfolding DCEBindAck_Encode_loop.simps by (intro go_fits Cons.IH) simp_all
qed (simp add: go_fits)

lemma header_fits [go_fits]: "16 \<le> n \<Longrightarrow> fits_w n (DCEHeader_encodeHeader (response_header t sz c))"
  by (auto simp: DCEHeader_encodeHeader_def response_header_def intro!: go_fits)

interpretation DCEBindAck: information DCEBindAck_Size DCEBindAck_Encode ack_ok
proof unfold_locales
  fix r assume "ack_ok r"
  moreover have "Align 43 2 = 44" by (simp add: Align_def)
  ultimately show "fits_w (DCEBindAck_Size r) (DCEBindAck_Encode r)"
    unfolding DCEBindAck_Encode_def Let_def
    by (intro go_fits bind_ack_loop_fits) (auto simp: ack_ok_def DCEBindAck_Size_def)
qed

definition rpc_response_ok :: "DCERequestRes \<Rightarrow> bool" where
  "rpc_response_ok r \<longleftrightarrow> (case DCERequestRes_Data r of None \<Rightarrow> True | Some d \<Rightarrow> fits_w (enc_Size d) (enc_Encode d))"

interpretation DCERequestRes: information DCERequestRes_Size DCERequestRes_Encode rpc_response_ok
  by unfold_locales
    (auto simp: rpc_response_ok_def DCERequestRes_Size_def DCERequestRes_Encode_def intro!: go_fits split: option.split)

lemma string_ok_short: "length s \<le> 1000 \<Longrightarrow> string_ok s"
  by (simp add: string_ok_def)

lemma enum_all_ok: "list_all string_ok shares \<Longrightarrow> enum_ok (MakeNetShareEnumAllResponse shares)"
  using string_ok_short [of "[]"]
  by (induction shares) (auto simp: enum_ok_def MakeNetShareEnumAllResponse_def share_ok_def)

lemma get_info_ok: "string_ok share \<Longrightarrow> share_ok (NetShareGetInfoResponse_Pointer (MakeGetInfoShareResponse share))"
  using string_ok_short [of "ascii ''comment''"]
  by (auto simp: MakeGetInfoShareResponse_def share_ok_def ascii_def)

end
