(* ===== verification/Ipc_Tree.thy ===== *)
theory Ipc_Tree
  imports File_Dir Dcerpc
begin

text \<open>
  \<open>server/ipc_tree.go\<close>: the pipe share, which answers the requests of the server service. The file id of the pipe is drawn when the server
  starts and the counter of referent ids belongs to the package: both are arguments. What a client writes to the pipe waits in the tree for the
  read that answers it.
\<close>

section \<open>Handlers\<close>

abbreviation (input) "STATUS_DATA_ERROR \<equiv> (0xC000003E :: u32)"
abbreviation (input) "STATUS_FS_DRIVER_REQUIRED \<equiv> (0xC000019C :: u32)"
abbreviation (input) "FSCTL_PIPE_TRANSCEIVE \<equiv> (0x11C017 :: u32)"
abbreviation (input) "FSCTL_DFS_GET_REFERRALS \<equiv> (0x60194 :: u32)"

definition zero_filetime :: Filetime where
  "zero_filetime = \<lparr>Filetime_LowDateTime = 0, Filetime_HighDateTime = 0\<rparr>"

definition ipcTree_create :: "'f tree_env \<Rightarrow> FileId \<Rightarrow> compoundContext option \<Rightarrow> bytes \<Rightarrow> 'f world \<Rightarrow> 'f handled" where
  "ipcTree_create X pipe ctx pkt w = do {
     _ \<leftarrow> tree_session (tree_of X w);
     (res, e) \<leftarrow> accept SMB2_CREATE pkt;
     case e of Some e \<Rightarrow> Some (w, ctx, Some e) | None \<Rightarrow> do {
     r \<leftarrow> res;
     inv \<leftarrow> CreateRequestDecoder_IsInvalid r;
     if inv then Some (w, ctx, Some InvalidRequestError)
     else do {
       name \<leftarrow> CreateRequestDecoder_Name r;
       h \<leftarrow> PrepareResponse zero_header pkt 0;
       let srvsvc = (name = ascii ''srvsvc'');
       reply X (CreateResponse_packet \<lparr>CreateResponse_Header = (if srvsvc then h else h\<lparr>hdr_Status := STATUS_NOT_SUPPORTED\<rparr>),
         CreateResponse_OplockLevel = 0, CreateResponse_RspFlags = 0, CreateResponse_CreateAction = 1,
         CreateResponse_CreationTime = Some zero_filetime, CreateResponse_LastAccessTime = Some zero_filetime,
         CreateResponse_LastWriteTime = Some zero_filetime, CreateResponse_ChangeTime = Some zero_filetime,
         CreateResponse_AllocationSize = 0, CreateResponse_EndofFile = 0, CreateResponse_FileAttributes = FILE_ATTRIBUTE_NORMAL,
         CreateResponse_FileId = (if srvsvc then Some pipe else None), CreateResponse_Contexts = []\<rparr>) ctx w } } }"

definition ipcTree_close :: "'f tree_env \<Rightarrow> FileId \<Rightarrow> compoundContext option \<Rightarrow> bytes \<Rightarrow> 'f world \<Rightarrow> 'f handled" where
  "ipcTree_close X pipe ctx pkt w = do {
     _ \<leftarrow> tree_session (tree_of X w);
     (res, e) \<leftarrow> accept SMB2_CLOSE pkt;
     case e of Some e \<Rightarrow> Some (w, ctx, Some e) | None \<Rightarrow> do {
     r \<leftarrow> res;
     inv \<leftarrow> CloseRequestDecoder_IsInvalid r;
     if inv then Some (w, ctx, Some InvalidRequestError)
     else do {
       b \<leftarrow> CloseRequestDecoder_FileId r;
       p \<leftarrow> FileIdDecoder_Persistent b;
       if p \<noteq> FileId_Persistent pipe then Some (w, ctx, Some InvalidRequestError)
       else do {
         h \<leftarrow> PrepareResponse zero_header pkt 0;
         reply X (CloseResponse_packet \<lparr>CloseResponse_Header = h, CloseResponse_CloseFlags = 0, CloseResponse_CreationTime = Some zero_filetime,
           CloseResponse_LastAccessTime = Some zero_filetime, CloseResponse_LastWriteTime = Some zero_filetime,
           CloseResponse_ChangeTime = Some zero_filetime, CloseResponse_AllocationSize = 0, CloseResponse_EndofFile = 0,
           CloseResponse_FileAttributes = FILE_ATTRIBUTE_NORMAL\<rparr>) ctx w } } } }"

text \<open>\<open>flush\<close>, \<open>cancel\<close>, \<open>queryDirectory\<close>, \<open>changeNotify\<close>, \<open>setInfo\<close>, \<open>lock\<close> and \<open>oplockBreak\<close> return an error, which ends the connection.\<close>

definition ipcTree_refuse :: "compoundContext option \<Rightarrow> 'f world \<Rightarrow> 'f handled" where
  "ipcTree_refuse ctx w = Some (w, ctx, Some InvalidRequestError)"

definition ipcTree_queryInfo :: "'f tree_env \<Rightarrow> compoundContext option \<Rightarrow> bytes \<Rightarrow> 'f world \<Rightarrow> 'f handled" where
  "ipcTree_queryInfo X ctx pkt w = do { _ \<leftarrow> tree_session (tree_of X w); reply_error X pkt STATUS_NOT_SUPPORTED ctx w }"

definition set_dceReq :: "'f tree_env \<Rightarrow> bytes option \<Rightarrow> 'f world \<Rightarrow> 'f world" where
  "set_dceReq X d w = w\<lparr>w_trees := (w_trees w)[te_tree X := (tree_of X w)\<lparr>tree_dceReq := d\<rparr>]\<rparr>"

definition ipcTree_write :: "'f tree_env \<Rightarrow> compoundContext option \<Rightarrow> bytes \<Rightarrow> 'f world \<Rightarrow> 'f handled" where
  "ipcTree_write X ctx pkt w = do {
     _ \<leftarrow> tree_session (tree_of X w);
     r \<leftarrow> accepted SMB2_WRITE pkt;
     d \<leftarrow> WriteRequestDecoder_Data r;
     h \<leftarrow> PrepareResponse zero_header pkt 0;
     reply X (WriteResponse_packet \<lparr>WriteResponse_Header = h, WriteResponse_Count = of_nat (length d), WriteResponse_Remaining = 0\<rparr>) ctx
       (set_dceReq X (Some d) w) }"

text \<open>One context of a bind request. The first transfer syntax is read whatever their number.\<close>

definition bind_item :: "ContextRequestItem \<Rightarrow> ContextResponseItem option" where
  "bind_item item = do {
     let ts = ContextRequestItem_TransferSyntaxes item;
     let res = (if \<not> UUIDIsEqual (ContextRequestItem_InterfaceUUID item) SRVSVC_UUID then 1 else (0 :: u32));
     let res = (if length ts \<noteq> 1 then 2 else res);
     t \<leftarrow> index_at ts 0;
     let res = (if \<not> UUIDIsEqual (TransferSyntax_SyntaxUUID t) NDR_UUID then 2 else res);
     Some (if res = 0 then \<lparr>ContextResponseItem_Result = 0, ContextResponseItem_TransferUUID = TransferSyntax_SyntaxUUID t,
         ContextResponseItem_TransferVersion = push_bit 16 (ucast (TransferSyntax_VersionMinor t)) OR ucast (TransferSyntax_VersionMajor t)\<rparr>
       else \<lparr>ContextResponseItem_Result = res, ContextResponseItem_TransferUUID = [], ContextResponseItem_TransferVersion = 0\<rparr>) }"

definition ipcTree_ipcTreeBindReq :: "bytes \<Rightarrow> DCEBindAck option" where
  "ipcTree_ipcTreeBindReq pkt = do {
     items \<leftarrow> DCEBindRequestDecoder_CtxItems pkt;
     rsp \<leftarrow> those (map bind_item items);
     r \<leftarrow> DCEBindRequestDecoder_MaxRecvFragSize pkt;
     s \<leftarrow> DCEBindRequestDecoder_MaxSendFragSize pkt;
     h \<leftarrow> DCERequestDecoder_Header pkt;
     Some \<lparr>DCEBindAck_CallID = DCEHeader_CallID h, DCEBindAck_MaxSendFragSize = s, DCEBindAck_MaxRecvFragSize = r,
       DCEBindAck_AssocGroupID = 0xcc21, DCEBindAck_SecAddrLen = 13, DCEBindAck_SecAddr = ascii [CHR 0x5C] @ ascii ''pipe'' @ ascii [CHR 0x5C] @ ascii ''srvsvc'' @ [0],
       DCEBindAck_CtxCount = of_nat (length rsp), DCEBindAck_CtxItems = rsp\<rparr> }"

text \<open>\<open>None\<close> inside where the operation is not supported.\<close>

definition ipcTree_ipcTreeReq :: "go_string list \<Rightarrow> u32 \<Rightarrow> bytes \<Rightarrow> DCERequestRes option option" where
  "ipcTree_ipcTreeReq shares ref pkt = do {
     op \<leftarrow> DCERequestReqDecoder_Opnum pkt;
     data \<leftarrow> (if op = OpNetShareEnumAll
         then Some (Some (info_encoder NetShareEnumAllResponse_Size (NetShareEnumAllResponse_Encode ref) (MakeNetShareEnumAllResponse shares)))
       else if op = OpNetShareGetInfo then do {
         d \<leftarrow> DCERequestReqDecoder_Data pkt;
         name \<leftarrow> NetShareGetInfoRequestDecoder_ShareName d;
         Some (Some (info_encoder NetShareGetInfoResponse_Size (NetShareGetInfoResponse_Encode ref) (MakeGetInfoShareResponse name))) }
       else Some None);
     case data of
       None \<Rightarrow> Some None
     | Some e \<Rightarrow> do {
         h \<leftarrow> DCERequestDecoder_Header pkt;
         Some (Some \<lparr>DCERequestRes_CallID = DCEHeader_CallID h, DCERequestRes_AllocHint = 0, DCERequestRes_ContextId = 0,
           DCERequestRes_CancelCount = 0, DCERequestRes_Data = Some e\<rparr>) } }"

text \<open>The switch on the packet type that \<open>read\<close> and \<open>ioctl\<close> share: the answer, \<open>RPC_Type\<close> for another type, \<open>RPC_Error\<close> for an operation
  that is not supported.\<close>

datatype rpc_result = RPC_Type | RPC_Error | RPC_Answer encoder

definition pipe_answer :: "go_string list \<Rightarrow> u32 \<Rightarrow> bytes \<Rightarrow> rpc_result option" where
  "pipe_answer shares ref d = do {
     h \<leftarrow> DCERequestDecoder_Header d;
     if DCEHeader_PacketType h = PacketTypeBind then do {
       a \<leftarrow> ipcTree_ipcTreeBindReq d; Some (RPC_Answer (info_encoder DCEBindAck_Size DCEBindAck_Encode a)) }
     else if DCEHeader_PacketType h = PacketTypeRequest then do {
       r \<leftarrow> ipcTree_ipcTreeReq shares ref d;
       Some (case r of None \<Rightarrow> RPC_Error | Some r \<Rightarrow> RPC_Answer (info_encoder DCERequestRes_Size DCERequestRes_Encode r)) }
     else Some RPC_Type }"

definition ipcTree_read :: "'f tree_env \<Rightarrow> go_string list \<Rightarrow> u32 \<Rightarrow> compoundContext option \<Rightarrow> bytes \<Rightarrow> 'f world \<Rightarrow> 'f handled" where
  "ipcTree_read X shares ref ctx pkt w = do {
     _ \<leftarrow> tree_session (tree_of X w);
     h \<leftarrow> PrepareResponse zero_header pkt 0;
     case tree_dceReq (tree_of X w) of
       None \<Rightarrow> reply X (ReadResponse_packet \<lparr>ReadResponse_Header = h, ReadResponse_Data = [], ReadResponse_DataRemaining = 0\<rparr>) ctx w
     | Some d \<Rightarrow>
         if DCERequestDecoder_IsInvalid d then reply_error X pkt 0 ctx w
         else do {
           a \<leftarrow> pipe_answer shares ref d;
           case a of
             RPC_Answer e \<Rightarrow> do {
               let w = set_dceReq X None w;
               b \<leftarrow> enc_Encode e (replicate (enc_Size e) 0);
               reply X (ReadResponse_packet \<lparr>ReadResponse_Header = h, ReadResponse_Data = b, ReadResponse_DataRemaining = 0\<rparr>) ctx w }
           | _ \<Rightarrow> reply_error X pkt STATUS_DATA_ERROR ctx w } }"

definition ipcTree_ioctl :: "'f tree_env \<Rightarrow> FileId \<Rightarrow> go_string list \<Rightarrow> u32 \<Rightarrow> compoundContext option \<Rightarrow> bytes \<Rightarrow> 'f world \<Rightarrow> 'f handled" where
  "ipcTree_ioctl X pipe shares ref ctx pkt w = do {
     _ \<leftarrow> tree_session (tree_of X w);
     (res, e) \<leftarrow> accept SMB2_IOCTL pkt;
     case e of Some e \<Rightarrow> Some (w, ctx, Some e) | None \<Rightarrow> do {
     r \<leftarrow> res;
     inv \<leftarrow> IoctlRequestDecoder_IsInvalid r;
     if inv then Some (w, ctx, Some InvalidRequestError)
     else do {
       code \<leftarrow> IoctlRequestDecoder_CtlCode r;
       if code = FSCTL_DFS_GET_REFERRALS then reply_error X pkt STATUS_FS_DRIVER_REQUIRED ctx w
       else if code \<noteq> FSCTL_PIPE_TRANSCEIVE then Some (w, ctx, Some InvalidRequestError)
       else do {
         b \<leftarrow> IoctlRequestDecoder_FileId r;
         p \<leftarrow> FileIdDecoder_Persistent b;
         v \<leftarrow> FileIdDecoder_Volatile b;
         if p \<noteq> FileId_Persistent pipe \<or> v \<noteq> FileId_Volatile pipe then Some (w, ctx, Some InvalidRequestError)
         else do {
           d \<leftarrow> IoctlRequestDecoder_Data r;
           a \<leftarrow> pipe_answer shares ref d;
           case a of
             RPC_Type \<Rightarrow> Some (w, ctx, Some InvalidRequestError)
           | RPC_Error \<Rightarrow> reply_error X pkt STATUS_ACCESS_DENIED ctx w
           | RPC_Answer e \<Rightarrow> ioctl_reply X pkt FSCTL_PIPE_TRANSCEIVE pipe (Some e) ctx w } } } } }"

section \<open>Properties\<close>

lemma those_Some: "those (map f xs) = Some ys \<Longrightarrow> length ys = length xs \<and> (\<forall>y\<in>set ys. \<exists>x\<in>set xs. f x = Some y)"
  by (induction xs arbitrary: ys) (fastforce split: option.splits)+

lemma ctx_items_length: "ctx_items r n off = Some items \<Longrightarrow> length items = n"
  by (induction n arbitrary: off items) (auto split: bind_splits)

lemma those_None: "x \<in> set xs \<Longrightarrow> f x = None \<Longrightarrow> those (map f xs) = None"
  by (induction xs) (auto split: option.splits)

lemma bind_item_UUID:
  "bind_item item = Some r \<Longrightarrow> length (ContextResponseItem_TransferUUID r) \<le> 16"
  by (auto simp: bind_item_def Let_def UUIDIsEqual_def NDR_UUID_def split: bind_splits if_splits)

lemma bind_ack_ok:
  assumes "ipcTree_ipcTreeBindReq d = Some a"
  shows "ack_ok a"
proof -
  obtain n items rsp where n: "DCEBindRequestDecoder_NumCtxItems d = Some n" "ctx_items d (unat n) 28 = Some items"
      and rsp: "those (map bind_item items) = Some rsp"
      and a: "DCEBindAck_CtxItems a = rsp" "DCEBindAck_CtxCount a = of_nat (length rsp)" "DCEBindAck_SecAddrLen a = 13"
        "length (DCEBindAck_SecAddr a) = 13"
    using assms by (auto simp: ipcTree_ipcTreeBindReq_def DCEBindRequestDecoder_CtxItems_def ascii_def split: bind_splits)
  have "length rsp < 256"
    using those_Some [OF rsp] ctx_items_length [OF n(2)] unsigned_less [where ?'a = nat, of n] by simp
  then have "unat (DCEBindAck_CtxCount a) = length rsp" by (simp add: a unat_of_nat_u8)
  moreover have "list_all (\<lambda>i. length (ContextResponseItem_TransferUUID i) \<le> 16) rsp"
    using those_Some [OF rsp] bind_item_UUID by (fastforce simp: list_all_iff)
  ultimately show ?thesis using a by (simp add: ack_ok_def)
qed

lemma request_ok:
  assumes "ipcTree_ipcTreeReq shares ref d = Some (Some r)" "list_all string_ok shares"
    "\<And>name. NetShareGetInfoRequestDecoder_ShareName (drop 24 d) = Some name \<Longrightarrow> string_ok name"
  shows "rpc_response_ok r"
proof -
  have "fits_w (NetShareEnumAllResponse_Size (MakeNetShareEnumAllResponse shares)) (NetShareEnumAllResponse_Encode ref (MakeNetShareEnumAllResponse shares))"
    using NetShareEnumAllResponse.fits enum_all_ok [OF assms(2)] .
  moreover have "fits_w (NetShareGetInfoResponse_Size (MakeGetInfoShareResponse name)) (NetShareGetInfoResponse_Encode ref (MakeGetInfoShareResponse name))"
    if "DCERequestReqDecoder_Data d = Some b" "NetShareGetInfoRequestDecoder_ShareName b = Some name" for b name
    using NetShareGetInfoResponse.fits get_info_ok assms(3) that by (auto simp: DCERequestReqDecoder_Data_def go_slice_from_def split: if_splits)
  ultimately show ?thesis
    using assms(1) by (auto simp: ipcTree_ipcTreeReq_def rpc_response_ok_def info_encoder_def split: bind_splits if_splits option.splits)
qed


definition sample_enum :: bytes where
  "sample_enum = [5, 0, 0, 3, 0x10, 0, 0, 0, 24, 0, 0, 0, 7, 0, 0, 0, 0, 0, 0, 0, 0, 0, 15, 0]"


text \<open>C39. A bind request can stop the server. If a context of a bind request offers no transfer syntax, handling the message panics: the count
  of syntaxes is compared with 1, but the first one is read even when there is none. Nothing recovers the panic.
\<close>

theorem bind_without_syntax_panics:
  assumes "DCEBindRequestDecoder_CtxItems d = Some items" "item \<in> set items" "ContextRequestItem_TransferSyntaxes item = []"
    and "DCERequestDecoder_Header d = Some h" "DCEHeader_PacketType h = PacketTypeBind"
  shows "pipe_answer shares ref d = None"
proof -
  have "bind_item item = None" using assms(3) by (simp add: bind_item_def index_at_def)
  then have "those (map bind_item items) = None" using those_None [OF assms(2)] by blast
  then show ?thesis using assms(1,4,5) by (simp add: pipe_answer_def ipcTree_ipcTreeBindReq_def)
qed

definition sample_bind :: bytes where
  "sample_bind = [5, 0, 11, 3, 0x10, 0, 0, 0, 52, 0, 0, 0, 1, 0, 0, 0] @ [0xD0, 0x16, 0xD0, 0x16, 0, 0, 0, 0, 1, 0, 0, 0] @ replicate 24 0"

theorem bind_without_syntax_panics_witness: "pipe_answer [] 0 sample_bind = None"
proof -
  obtain item where i: "ctx_items sample_bind 1 28 = Some [item]" "ContextRequestItem_TransferSyntaxes item = []"
    by (simp add: sample_bind_def un_at_eqs index_at_def go_slice_from_def rd_def)
  have c: "DCEBindRequestDecoder_CtxItems sample_bind = Some [item]"
    using i(1) by (simp add: DCEBindRequestDecoder_CtxItems_def DCEBindRequestDecoder_NumCtxItems_def sample_bind_def index_at_def)
  have "\<exists>h. DCERequestDecoder_Header sample_bind = Some h \<and> DCEHeader_PacketType h = PacketTypeBind"
    by (simp add: DCERequestDecoder_Header_def sample_bind_def un_at_eqs index_at_def go_slice_from_def)
  then show ?thesis using bind_without_syntax_panics [OF c _ i(2)] by auto
qed

end
