(* ===== verification/Server_Trees.thy ===== *)
theory Server_Trees
  imports Server_Session
begin

text \<open>
  The trees of a connection (\<open>treeConnect\<close> and \<open>treeDisconnect\<close> of \<open>server/server.go\<close>): two maps into the same objects
  with a reference count. The abstract view is a count of connects minus disconnects per name; every reachable state of the maps
  implements it.
\<close>

section \<open>The invariant of the two maps\<close>

definition tree_at :: "'f world \<Rightarrow> nat \<Rightarrow> treeConn" where
  "tree_at w i = tree_tc (w_trees w ! i)"

definition trees_ok :: "'f world \<Rightarrow> bool" where
  "trees_ok w \<longleftrightarrow>
     (\<forall>name i. map_of (w_byName w) name = Some i \<longrightarrow> i < length (w_trees w) \<and> tc_path (tree_at w i) = name \<and>
        0 < tc_refCount (tree_at w i) \<and> map_of (w_byId w) (tc_treeId (tree_at w i)) = Some i) \<and>
     (\<forall>tid i. map_of (w_byId w) tid = Some i \<longrightarrow> tc_treeId (tree_at w i) = tid \<and> map_of (w_byName w) (tc_path (tree_at w i)) = Some i)"

text \<open>The references a name has.\<close>

definition tree_refs :: "'f world \<Rightarrow> go_string \<Rightarrow> nat" where
  "tree_refs w name = (case map_of (w_byName w) name of None \<Rightarrow> 0 | Some i \<Rightarrow> nat (tc_refCount (tree_at w i)))"

text \<open>Both depend on the trees and the maps only.\<close>

lemma same_login_trees:
  assumes "same_login w w'"
  shows "trees_ok w' = trees_ok w" "tree_refs w' = tree_refs w"
proof -
  have "tree_at w' = tree_at w" using assms by (simp add: same_login_def tree_at_def fun_eq_iff)
  then show "trees_ok w' = trees_ok w" "tree_refs w' = tree_refs w"
    using assms by (auto simp: same_login_def trees_ok_def tree_refs_def split: option.splits intro!: ext)
qed

lemma trees_okD:
  assumes "trees_ok w"
  shows "map_of (w_byName w) name = Some i \<Longrightarrow> i < length (w_trees w)" "map_of (w_byName w) name = Some i \<Longrightarrow> tc_path (tree_at w i) = name"
    "map_of (w_byName w) name = Some i \<Longrightarrow> 0 < tc_refCount (tree_at w i)"
    "map_of (w_byName w) name = Some i \<Longrightarrow> map_of (w_byId w) (tc_treeId (tree_at w i)) = Some i"
    "map_of (w_byId w) tid = Some i \<Longrightarrow> tc_treeId (tree_at w i) = tid"
    "map_of (w_byId w) tid = Some i \<Longrightarrow> map_of (w_byName w) (tc_path (tree_at w i)) = Some i"
  using assms by (auto simp: trees_ok_def)

section \<open>The operations on the maps\<close>

definition add_tree :: "u32 \<Rightarrow> go_string \<Rightarrow> tree_kind \<Rightarrow> 'f world \<Rightarrow> 'f world" where
  "add_tree tid name kind w = w\<lparr>w_trees := w_trees w @ [\<lparr>tree_tc = \<lparr>tc_treeId = tid, tc_shareFlags = 0, tc_path = name, tc_refCount = 1\<rparr>,
       tree_session = conn_session (w_conn w), tree_kind = kind, tree_aapl = False, tree_dceReq = None\<rparr>],
     w_byName := AList.update name (length (w_trees w)) (w_byName w), w_byId := AList.update tid (length (w_trees w)) (w_byId w)\<rparr>"

definition ref_tree :: "nat \<Rightarrow> int \<Rightarrow> 'f world \<Rightarrow> 'f world" where
  "ref_tree i k w = w\<lparr>w_trees := (w_trees w)[i := (w_trees w ! i)\<lparr>tree_tc := (tree_at w i)\<lparr>tc_refCount := tc_refCount (tree_at w i) + k\<rparr>\<rparr>]\<rparr>"

definition drop_tree :: "nat \<Rightarrow> 'f world \<Rightarrow> 'f world" where
  "drop_tree i w = w\<lparr>w_byName := AList.delete (tc_path (tree_at w i)) (w_byName w), w_byId := AList.delete (tc_treeId (tree_at w i)) (w_byId w)\<rparr>"

lemma tree_connect_maps:
  assumes "tree_connect E I pkt name st acc kind w = Some (w', e)"
  shows "same_login (case map_of (w_byName w) name of None \<Rightarrow> add_tree (in_rand32 I) name kind w | Some i \<Rightarrow> ref_tree i 1 w) w'"
  using assms by (auto simp: tree_connect_def Let_def add_tree_def ref_tree_def tree_at_def split: Option.bind_splits option.splits
      dest!: send_alone_same)

lemma treeDisconnect_maps:
  assumes "conn_treeDisconnect E I pkt w = Some (w', e)" "PacketCodec_TreeId pkt = Some tid"
  shows "same_login (case map_of (w_byId w) tid of None \<Rightarrow> w
     | Some i \<Rightarrow> if tc_refCount (tree_at w i) = 1 then ref_tree i (- 1) (drop_tree i w) else ref_tree i (- 1) w) w'"
  using assms by (auto simp: conn_treeDisconnect_def Let_def drop_tree_def ref_tree_def tree_at_def same_login_def
      split: Option.bind_splits option.splits if_splits prod.splits dest!: send_alone_same)

lemma tree_at_upd:
  "tree_at (add_tree tid name kind w) i = (if i < length (w_trees w) then tree_at w i
     else if i = length (w_trees w) then \<lparr>tc_treeId = tid, tc_shareFlags = 0, tc_path = name, tc_refCount = 1\<rparr>
     else tree_at (add_tree tid name kind w) i)"
  "j < length (w_trees w) \<Longrightarrow> tree_at (ref_tree j k w) i =
     (if i = j then (tree_at w j)\<lparr>tc_refCount := tc_refCount (tree_at w j) + k\<rparr> else tree_at w i)"
  "tree_at (drop_tree j w) i = tree_at w i"
  by (simp_all add: tree_at_def add_tree_def ref_tree_def drop_tree_def nth_append)

lemma tree_maps_upd [simp]:
  "map_of (w_byName (add_tree tid name kind w)) = (map_of (w_byName w))(name \<mapsto> length (w_trees w))"
  "map_of (w_byId (add_tree tid name kind w)) = (map_of (w_byId w))(tid \<mapsto> length (w_trees w))"
  "map_of (w_byName (drop_tree j w)) = (map_of (w_byName w))(tc_path (tree_at w j) := None)"
  "map_of (w_byId (drop_tree j w)) = (map_of (w_byId w))(tc_treeId (tree_at w j) := None)"
  "w_byName (ref_tree j k w) = w_byName w" "w_byId (ref_tree j k w) = w_byId w"
  "length (w_trees (add_tree tid name kind w)) = Suc (length (w_trees w))" "length (w_trees (ref_tree j k w)) = length (w_trees w)"
  "w_trees (drop_tree j w) = w_trees w"
  by (simp_all add: add_tree_def ref_tree_def drop_tree_def update_conv' delete_conv')

lemma add_tree_ok:
  assumes "trees_ok w" "map_of (w_byName w) name = None" "map_of (w_byId w) tid = None"
  shows "trees_ok (add_tree tid name kind w)" "tree_refs (add_tree tid name kind w) = (tree_refs w)(name := 1)"
proof -
  have old: "tree_at (add_tree tid name kind w) i = tree_at w i" if "i < length (w_trees w)" for i
    using that by (simp add: tree_at_upd(1))
  have new: "tree_at (add_tree tid name kind w) (length (w_trees w)) = \<lparr>tc_treeId = tid, tc_shareFlags = 0, tc_path = name, tc_refCount = 1\<rparr>"
    by (subst tree_at_upd(1)) simp
  note d = trees_okD [OF assms(1)]
  have b: "i < length (w_trees w)" if "map_of (w_byId w) x = Some i" for x i using d(1) [OF d(6) [OF that]] .
  show "trees_ok (add_tree tid name kind w)"
    unfolding trees_ok_def
    using d assms(2,3) by (auto simp: old new b dest: d(1) split: if_splits)
  show "tree_refs (add_tree tid name kind w) = (tree_refs w)(name := 1)"
    by (auto simp: fun_eq_iff tree_refs_def old new dest: d(1) split: option.splits)
qed

lemma ref_tree_ok:
  assumes "trees_ok w" "map_of (w_byName w) name = Some j" "0 < tc_refCount (tree_at w j) + k"
  shows "trees_ok (ref_tree j k w)" "tree_refs (ref_tree j k w) = (tree_refs w)(name := nat (tc_refCount (tree_at w j) + k))"
proof -
  note d = trees_okD [OF assms(1)]
  have j: "j < length (w_trees w)" "tc_path (tree_at w j) = name" using d(1,2) [OF assms(2)] .
  show "trees_ok (ref_tree j k w)"
    unfolding trees_ok_def using d assms(3) by (auto simp: tree_at_upd(2) [OF j(1)] split: if_splits)
  show "tree_refs (ref_tree j k w) = (tree_refs w)(name := nat (tc_refCount (tree_at w j) + k))"
    using assms(2) d(2) j(2) by (auto simp: fun_eq_iff tree_refs_def tree_at_upd(2) [OF j(1)] split: option.splits)
qed

lemma drop_tree_ok:
  assumes "trees_ok w" "map_of (w_byName w) name = Some j"
  shows "trees_ok (ref_tree j k (drop_tree j w))" "tree_refs (ref_tree j k (drop_tree j w)) = (tree_refs w)(name := 0)"
proof -
  note d = trees_okD [OF assms(1)]
  have j: "j < length (w_trees (drop_tree j w))" "tc_path (tree_at w j) = name" using d(1,2) [OF assms(2)] by simp_all
  have ne: "i \<noteq> j" if "map_of (w_byName w) n = Some i" "n \<noteq> name" for i n using d(2) [OF that(1)] that(2) j(2) by auto
  have ni: "i \<noteq> j" if "map_of (w_byId w) n = Some i" "n \<noteq> tc_treeId (tree_at w j)" for i n using d(5) [OF that(1)] that(2) by auto
  show "trees_ok (ref_tree j k (drop_tree j w))"
    unfolding trees_ok_def using d ne ni assms(2) j(2)
    by (auto simp: tree_at_upd(3) tree_at_upd(2) [OF j(1)] split: if_splits) (metis)+
  show "tree_refs (ref_tree j k (drop_tree j w)) = (tree_refs w)(name := 0)"
  proof
    fix n
    show "tree_refs (ref_tree j k (drop_tree j w)) n = ((tree_refs w)(name := 0)) n"
      using ne [of n] j(2) by (auto simp: tree_refs_def tree_at_upd(3) tree_at_upd(2) [OF j(1)] split: option.splits)
  qed
qed

section \<open>Reachable trees\<close>

text \<open>The name a request connects to: the share of a known path, or none when the share does not exist.\<close>

definition requested :: "env \<Rightarrow> 'f server \<Rightarrow> go_string \<Rightarrow> go_string option" where
  "requested E d p = (if has_suffix p ipc_name then Some ipc_name
     else if find_share E d (last (split_byte 0x5c p)) = None then None else Some (last (split_byte 0x5c p)))"

text \<open>Connects and disconnects in any order, with anything else in between that leaves the trees alone. The counts are the abstract state.
  A new tree gets an id that no other tree of the connection has.\<close>

inductive tree_reach :: "env \<Rightarrow> 'f world \<Rightarrow> (go_string \<Rightarrow> nat) \<Rightarrow> bool" for E :: env where
  start: "w_trees w = [] \<Longrightarrow> w_byName w = [] \<Longrightarrow> w_byId w = [] \<Longrightarrow> tree_reach E w (\<lambda>_. 0)"
| connect: "tree_reach E w cnt \<Longrightarrow> is_request SMB2_TREE_CONNECT h pkt \<Longrightarrow> TreeConnectRequestDecoder_IsInvalid (drop 64 pkt) = Some False \<Longrightarrow>
    TreeConnectRequestDecoder_Path (drop 64 pkt) = Some p \<Longrightarrow> map_of (w_byId w) (in_rand32 I) = None \<Longrightarrow>
    conn_treeConnect E I pkt w = Some (w', e) \<Longrightarrow>
    tree_reach E w' (case requested E (w_srv w) p of None \<Rightarrow> cnt | Some name \<Rightarrow> cnt(name := cnt name + 1))"
| disconnect: "tree_reach E w cnt \<Longrightarrow> PacketCodec_TreeId pkt = Some tid \<Longrightarrow> conn_treeDisconnect E I pkt w = Some (w', e) \<Longrightarrow>
    tree_reach E w' (case map_of (w_byId w) tid of None \<Rightarrow> cnt
      | Some i \<Rightarrow> cnt(tc_path (tree_at w i) := cnt (tc_path (tree_at w i)) - 1))"
| other: "tree_reach E w cnt \<Longrightarrow> w_trees w' = w_trees w \<Longrightarrow> w_byName w' = w_byName w \<Longrightarrow> w_byId w' = w_byId w \<Longrightarrow> tree_reach E w' cnt"

lemma treeConnect_maps:
  assumes "is_request SMB2_TREE_CONNECT h pkt" "TreeConnectRequestDecoder_IsInvalid (drop 64 pkt) = Some False"
    "TreeConnectRequestDecoder_Path (drop 64 pkt) = Some p" "conn_treeConnect E I pkt w = Some (w', e)"
  obtains kind where "same_login (case requested E (w_srv w) p of None \<Rightarrow> w
    | Some name \<Rightarrow> (case map_of (w_byName w) name of None \<Rightarrow> add_tree (in_rand32 I) name kind w | Some i \<Rightarrow> ref_tree i 1 w)) w'"
proof (cases "requested E (w_srv w) p")
  case None
  then have "same_login w w'"
    using assms is_request_accept [OF assms(1)]
    by (auto simp: conn_treeConnect_def requested_def Let_def split: Option.bind_splits if_splits dest!: send_alone_same)
  then show ?thesis using that None by simp
next
  case (Some name)
  then obtain st acc kind where "tree_connect E I pkt name st acc kind w = Some (w', e)"
    using assms is_request_accept [OF assms(1)]
    by (auto simp: conn_treeConnect_def requested_def Let_def split: if_splits)
  from tree_connect_maps [OF this] show ?thesis using that Some by simp
qed

lemma connect_refs:
  assumes "trees_ok w" "is_request SMB2_TREE_CONNECT h pkt" "TreeConnectRequestDecoder_IsInvalid (drop 64 pkt) = Some False"
    "TreeConnectRequestDecoder_Path (drop 64 pkt) = Some p" "map_of (w_byId w) (in_rand32 I) = None"
    "conn_treeConnect E I pkt w = Some (w', e)"
  shows "trees_ok w' \<and> tree_refs w' = (case requested E (w_srv w) p of None \<Rightarrow> tree_refs w
    | Some name \<Rightarrow> (tree_refs w)(name := tree_refs w name + 1))"
proof -
  obtain kind where k: "same_login (case requested E (w_srv w) p of None \<Rightarrow> w
    | Some name \<Rightarrow> (case map_of (w_byName w) name of None \<Rightarrow> add_tree (in_rand32 I) name kind w | Some i \<Rightarrow> ref_tree i 1 w)) w'"
    using assms(2-4,6) by (rule treeConnect_maps)
  show ?thesis
  proof (cases "requested E (w_srv w) p")
    case None
    then show ?thesis using k same_login_trees assms(1) by fastforce
  next
    case (Some name)
    show ?thesis
    proof (cases "map_of (w_byName w) name")
      case None
      then have "tree_refs w name = 0" by (simp add: tree_refs_def)
      then show ?thesis using k Some None add_tree_ok [OF assms(1) None assms(5), of kind] same_login_trees by fastforce
    next
      case s: (Some i)
      then show ?thesis
        using k Some trees_okD(3) [OF assms(1) s] ref_tree_ok [OF assms(1) s, of 1] same_login_trees [of "ref_tree i 1 w" w']
        by (simp add: nat_add_distrib tree_refs_def)
    qed
  qed
qed

lemma disconnect_refs:
  assumes "trees_ok w" "PacketCodec_TreeId pkt = Some tid" "conn_treeDisconnect E I pkt w = Some (w', e)"
  shows "trees_ok w' \<and> tree_refs w' = (case map_of (w_byId w) tid of None \<Rightarrow> tree_refs w
      | Some i \<Rightarrow> (tree_refs w)(tc_path (tree_at w i) := tree_refs w (tc_path (tree_at w i)) - 1))"
proof (cases "map_of (w_byId w) tid")
  case None
  then show ?thesis using treeDisconnect_maps [OF assms(3,2)] same_login_trees assms(1) by fastforce
next
  case (Some i)
  have n: "map_of (w_byName w) (tc_path (tree_at w i)) = Some i" using trees_okD(6) [OF assms(1) Some] .
  note c = trees_okD(3) [OF assms(1) n] and m = treeDisconnect_maps [OF assms(3,2)]
  have r: "tree_refs w (tc_path (tree_at w i)) = nat (tc_refCount (tree_at w i))" using n by (simp add: tree_refs_def)
  show ?thesis
  proof (cases "tc_refCount (tree_at w i) = 1")
    case True
    then show ?thesis
      using m Some r drop_tree_ok [OF assms(1) n, of "- 1"] same_login_trees [of "ref_tree i (- 1) (drop_tree i w)" w'] by simp
  next
    case False
    then show ?thesis
      using m Some r c ref_tree_ok [OF assms(1) n, of "- 1"] same_login_trees [of "ref_tree i (- 1) w" w'] by (simp add: nat_diff_distrib)
  qed
qed

lemma tree_reach_refs: "tree_reach E w cnt \<Longrightarrow> trees_ok w \<and> tree_refs w = cnt"
proof (induction rule: tree_reach.induct)
  case (start w)
  then show ?case by (simp add: trees_ok_def tree_refs_def fun_eq_iff)
next
  case (connect w cnt h pkt p I w' e)
  then show ?case using connect_refs [OF _ connect(2-6)] by auto
next
  case (disconnect w cnt pkt tid I w' e)
  then show ?case using disconnect_refs [OF _ disconnect(2,3)] by auto
next
  case (other w cnt w')
  then have "tree_at w' = tree_at w" by (simp add: tree_at_def fun_eq_iff)
  then have "trees_ok w' = trees_ok w" "tree_refs w' = tree_refs w"
    using other(2-4) by (auto simp: trees_ok_def tree_refs_def split: option.splits intro!: ext)
  then show ?case using other.IH by simp
qed

section \<open>Connecting succeeds\<close>

lemma tree_connect_ok:
  assumes "is_request cmd h pkt" "sends_plain (w_conn w) None" "in_io I = Sent"
    and "\<forall>i. map_of (w_byName w) name = Some i \<longrightarrow> tc_shareFlags (tree_at w i) = 0"
  shows "\<exists>w'. tree_connect E I pkt name st acc kind w = Some (w', None)"
proof -
  have ok: "packet_ok (TreeConnectResponse_packet m)" for m by (rule TreeConnectResponse_pkt.packet_of_ok) simp
  have sp: "sends_plain c (Some tc)" if "tc_shareFlags tc = 0" "c = w_conn w" for tc c using that assms(2) by (simp add: sends_plain_def)
  have s: "\<exists>w'. send_alone E I (TreeConnectResponse_packet m) (Some tc) u = Some (w', None)"
    if "tc_shareFlags tc = 0" "w_conn u = w_conn w" for m tc u
    using send_alone_sent [OF ok sp [OF that] assms(3), of m E] that(2) by metis
  show ?thesis
  proof (cases "map_of (w_byName w) name")
    case None
    then show ?thesis using is_request_header(1) [OF assms(1)] by (simp add: tree_connect_def Let_def s)
  next
    case (Some i)
    then show ?thesis using is_request_header(1) [OF assms(1)] assms(4) by (simp add: tree_connect_def Let_def s tree_at_def)
  qed
qed

definition tree_message :: "PacketHeader \<Rightarrow> go_string \<Rightarrow> TreeConnectRequest" where
  "tree_message h p = \<lparr>TreeConnectRequest_Header = h, TreeConnectRequest_Flags = 0, TreeConnectRequest_Path = p\<rparr>"

lemma tree_message_ok:
  assumes "p \<noteq> []" "wf_string p" "length (utf16_bytes p) < 65464" "hdr_Flags h AND SMB2_FLAGS_SERVER_TO_REDIR = 0"
  obtains pkt where "is_request SMB2_TREE_CONNECT h pkt" "TreeConnectRequestDecoder_IsInvalid (drop 64 pkt) = Some False"
    "TreeConnectRequestDecoder_Path (drop 64 pkt) = Some p"
proof -
  let ?m = "tree_message h p" and ?n = "TreeConnectRequest_Size (tree_message h p)"
  obtain q where q: "length q = ?n" "header_reads (h\<lparr>hdr_Command := SMB2_TREE_CONNECT\<rparr>) q"
    "TreeConnectRequest_body ?m (replicate (?n - 64) 0) = Some (drop 64 q)"
    using TreeConnectRequest.encode_frame [of ?m ?n] by (auto simp: tree_message_def)
  have "8 + length (utf16_bytes (TreeConnectRequest_Path ?m)) \<le> length (replicate (?n - 64) (0 :: byte))"
    using assms(1) by (simp add: TreeConnectRequest_Size_def tree_message_def EncodedStringLen_eq EncodeString_n_eq)
  from TreeConnectRequest_body_reads(1,3) [OF this q(3)] assms show ?thesis
    using q that [of q] by (simp add: tree_message_def is_request_def TreeConnectRequest_Size_def)
qed

section \<open>Property\<close>



end
