(* ===== verification/Server_Run.thy ===== *)
theory Server_Run
  imports File_Set Ipc_Tree Server_Trees
begin

text \<open>
  \<open>conn.Run\<close> of \<open>server/server.go\<close>: each request goes to a handler of the connection or to the tree its header names, and an error of a
  handler ends the connection. The theory also holds what every handler of a tree leaves alone: the other shares, the other trees and the
  maps of the connection.
\<close>

section \<open>Dispatch\<close>

record 'f run_env =
  re_env :: env
  re_inp :: inp
  re_vfs :: "nat \<Rightarrow> 'f vfs"
  re_regexp :: "go_string \<Rightarrow> go_string \<Rightarrow> bool option"
  re_conn :: nat
  re_pipe :: FileId
  re_ref :: u32
  re_pick :: nat

definition tree_env_of :: "'f run_env \<Rightarrow> nat \<Rightarrow> nat \<Rightarrow> 'f tree_env" where
  "tree_env_of R i n = \<lparr>te_env = re_env R, te_inp = re_inp R, te_vfs = re_vfs R n, te_regexp = re_regexp R, te_conn = re_conn R,
     te_tree = i, te_fs = n\<rparr>"

text \<open>The inner switch for a file tree. \<open>None\<close> where the handler does not return; a command that is not listed is not answered.\<close>

definition file_dispatch :: "'f tree_env \<Rightarrow> nat \<Rightarrow> u16 \<Rightarrow> compoundContext option \<Rightarrow> bytes \<Rightarrow> 'f world \<Rightarrow> 'f started option" where
  "file_dispatch X pick cmd ctx pkt w =
     (if cmd = SMB2_CREATE then Some (no_task (fileTree_create X ctx pkt w))
      else if cmd = SMB2_CLOSE then Some (no_task (fileTree_close X ctx pkt w))
      else if cmd = SMB2_FLUSH then Some (no_task (fileTree_flush X ctx pkt w))
      else if cmd = SMB2_READ then Some (fileTree_read X ctx pkt w)
      else if cmd = SMB2_WRITE then Some (fileTree_write X ctx pkt w)
      else if cmd = SMB2_LOCK then Some (no_task (fileTree_lock X ctx pkt w))
      else if cmd = SMB2_IOCTL then Some (no_task (fileTree_ioctl X ctx pkt w))
      else if cmd = SMB2_CANCEL then Some (no_task (fileTree_cancel X ctx pkt w))
      else if cmd = SMB2_QUERY_DIRECTORY then map_option no_task (fileTree_queryDirectory X ctx pkt w)
      else if cmd = SMB2_CHANGE_NOTIFY then Some (fileTree_changeNotify X ctx pkt w)
      else if cmd = SMB2_QUERY_INFO then Some (no_task (fileTree_queryInfo X ctx pkt w))
      else if cmd = SMB2_SET_INFO then Some (no_task (fileTree_setInfo X ctx pkt w))
      else if cmd = SMB2_OPLOCK_BREAK then Some (no_task (fileTree_oplockBreak X pick ctx pkt w))
      else Some (Some ((w, ctx, None), None)))"

definition ipc_dispatch :: "'f tree_env \<Rightarrow> FileId \<Rightarrow> go_string list \<Rightarrow> u32 \<Rightarrow> u16 \<Rightarrow> compoundContext option \<Rightarrow> bytes \<Rightarrow> 'f world \<Rightarrow> 'f handled" where
  "ipc_dispatch X pipe shares ref cmd ctx pkt w =
     (if cmd = SMB2_CREATE then ipcTree_create X pipe ctx pkt w
      else if cmd = SMB2_CLOSE then ipcTree_close X pipe ctx pkt w
      else if cmd = SMB2_READ then ipcTree_read X shares ref ctx pkt w
      else if cmd = SMB2_WRITE then ipcTree_write X ctx pkt w
      else if cmd = SMB2_IOCTL then ipcTree_ioctl X pipe shares ref ctx pkt w
      else if cmd = SMB2_QUERY_INFO then ipcTree_queryInfo X ctx pkt w
      else if cmd \<in> {SMB2_FLUSH, SMB2_LOCK, SMB2_CANCEL, SMB2_QUERY_DIRECTORY, SMB2_CHANGE_NOTIFY, SMB2_SET_INFO, SMB2_OPLOCK_BREAK}
      then ipcTree_refuse ctx w
      else Some (w, ctx, None))"

text \<open>A request for a tree. After a failed part of a compound the request is not forwarded, and that response's own error is dropped.\<close>

definition tree_request :: "'f run_env \<Rightarrow> u16 \<Rightarrow> u32 \<Rightarrow> compoundContext option \<Rightarrow> bytes \<Rightarrow> 'f world \<Rightarrow> 'f started option" where
  "tree_request R cmd tid ctx pkt w =
     (case map_of (w_byId w) tid of
        None \<Rightarrow> Some (Some ((w, ctx, Some InvalidRequestError), None))
      | Some i \<Rightarrow>
          let t = w_trees w ! i;
              X = tree_env_of R i (case tree_kind t of Tree_file n \<Rightarrow> n | Tree_ipc _ \<Rightarrow> 0) in
          case ctx of
            Some c \<Rightarrow>
              if comp_lastStatus c \<noteq> 0
              then Some (no_task (map_option (\<lambda>(w, ctx, _). (w, ctx, None)) (reply_error X pkt (comp_lastStatus c) ctx w)))
              else (case tree_kind t of
                  Tree_file _ \<Rightarrow> file_dispatch X (re_pick R) cmd ctx pkt w
                | Tree_ipc shares \<Rightarrow> Some (no_task (ipc_dispatch X (re_pipe R) shares (re_ref R) cmd ctx pkt w)))
          | None \<Rightarrow> (case tree_kind t of
                Tree_file _ \<Rightarrow> file_dispatch X (re_pick R) cmd ctx pkt w
              | Tree_ipc shares \<Rightarrow> Some (no_task (ipc_dispatch X (re_pipe R) shares (re_ref R) cmd ctx pkt w))))"

definition without_ctx :: "compoundContext option \<Rightarrow> ('f world \<times> conn_error option) option \<Rightarrow> 'f started" where
  "without_ctx ctx r = map_option (\<lambda>(w, e). ((w, ctx, e), None)) r"

text \<open>One round of the loop: the request, the session it was verified or decrypted with and its compound.\<close>

definition conn_Run_round :: "'f run_env \<Rightarrow> session option \<Rightarrow> compoundContext option \<Rightarrow> bytes \<Rightarrow> 'f world \<Rightarrow> 'f started option" where
  "conn_Run_round R reqSession ctx pkt w =
     (case do {
        cmd \<leftarrow> PacketCodec_Command pkt;
        _ \<leftarrow> PacketCodec_MessageId pkt;
        _ \<leftarrow> PacketCodec_SessionId pkt;
        tid \<leftarrow> PacketCodec_TreeId pkt;
        _ \<leftarrow> PacketCodec_Flags pkt;
        Some (cmd, tid) } of
        None \<Rightarrow> Some None
      | Some (cmd, tid) \<Rightarrow>
          let w = (case reqSession of None \<Rightarrow> w | Some s \<Rightarrow> w\<lparr>w_conn := (w_conn w)\<lparr>conn_session := Some s\<rparr>\<rparr>);
              E = re_env R; I = re_inp R in
          if cmd = SMB2_NEGOTIATE \<or> cmd = SMB_COM_NEGOTIATE then Some (without_ctx ctx (conn_negotiate E I pkt w))
          else if cmd = SMB2_SESSION_SETUP then Some (without_ctx ctx (conn_sessionSetup E I pkt w))
          else if cmd = SMB2_LOGOFF then Some (without_ctx ctx (conn_logoff E I pkt w))
          else if cmd = SMB2_TREE_CONNECT then Some (without_ctx ctx (conn_treeConnect E I pkt w))
          else if cmd = SMB2_TREE_DISCONNECT then Some (without_ctx ctx (conn_treeDisconnect E I pkt w))
          else if cmd = SMB2_ECHO then Some (without_ctx ctx (conn_echo E I pkt w))
          else if cmd = SMB2_CANCEL then Some (Some ((w, ctx, None), None))
          else tree_request R cmd tid ctx pkt w)"

section \<open>What a handler of a tree leaves alone\<close>

text \<open>The file systems of the other shares, the other trees, the maps and the configuration; and the table of opens stays well formed.\<close>

definition keeps :: "'f tree_env \<Rightarrow> 'f world \<Rightarrow> 'f world \<Rightarrow> bool" where
  "keeps X w w' \<longleftrightarrow>
     (\<forall>j. j \<noteq> te_fs X \<longrightarrow> srv_fs (w_srv w') j = srv_fs (w_srv w) j) \<and>
     (table_ok (srv_table (w_srv w)) \<longrightarrow> table_ok (srv_table (w_srv w'))) \<and>
     length (w_trees w') = length (w_trees w) \<and> (\<forall>i. i \<noteq> te_tree X \<longrightarrow> w_trees w' ! i = w_trees w ! i) \<and>
     tree_tc (tree_of X w') = tree_tc (tree_of X w) \<and> tree_session (tree_of X w') = tree_session (tree_of X w) \<and>
     tree_kind (tree_of X w') = tree_kind (tree_of X w) \<and>
     w_byId w' = w_byId w \<and> w_byName w' = w_byName w \<and>
     srv_shares (w_srv w') = srv_shares (w_srv w) \<and> srv_authenticator (w_srv w') = srv_authenticator (w_srv w)"

lemma keeps_refl [simp]: "keeps X w w"
  by (simp add: keeps_def)

lemma keeps_trans: "keeps X w w' \<Longrightarrow> keeps X w' w'' \<Longrightarrow> keeps X w w''"
  by (simp add: keeps_def)

definition kept :: "'f tree_env \<Rightarrow> 'f world \<Rightarrow> 'f handled \<Rightarrow> bool" where
  "kept X w r \<longleftrightarrow> (\<forall>w' ctx e. r = Some (w', ctx, e) \<longrightarrow> keeps X w w')"

named_theorems kept_intros

lemma kept_None [kept_intros]: "kept X w None"
  by (simp add: kept_def)

lemma kept_Some [kept_intros]: "keeps X w w' \<Longrightarrow> kept X w (Some (w', ctx, e))"
  by (simp add: kept_def)

lemma kept_bind [kept_intros]: "(\<And>x. m = Some x \<Longrightarrow> kept X w (f x)) \<Longrightarrow> kept X w (m \<bind> f)"
  by (cases m) (auto simp: kept_None)

lemma kept_if [kept_intros]: "kept X w a \<Longrightarrow> kept X w b \<Longrightarrow> kept X w (if c then a else b)"
  by simp

lemma kept_option [kept_intros]: "kept X w a \<Longrightarrow> (\<And>y. x = Some y \<Longrightarrow> kept X w (f y)) \<Longrightarrow> kept X w (case x of None \<Rightarrow> a | Some y \<Rightarrow> f y)"
  by (cases x) auto

lemma kept_sum [kept_intros]: "(\<And>y. kept X w (f y)) \<Longrightarrow> (\<And>y. kept X w (g y)) \<Longrightarrow> kept X w (case x of Inl y \<Rightarrow> f y | Inr y \<Rightarrow> g y)"
  by (cases x) auto

lemma kept_prod [kept_intros]: "(\<And>a b. x = (a, b) \<Longrightarrow> kept X w (f a b)) \<Longrightarrow> kept X w (case x of (a, b) \<Rightarrow> f a b)"
  by (cases x) auto

lemma fs_call_keeps: "fs_call X op w = (r, w') \<Longrightarrow> keeps X w w'"
  by (auto simp: fs_call_def keeps_def tree_of_def Let_def split: prod.splits)

lemma reply_keeps: "reply X p ctx w = Some (w', ctx', e) \<Longrightarrow> keeps X w w'"
  by (auto simp: reply_def send_packet_def keeps_def tree_of_def split: bind_splits)

lemma kept_reply [kept_intros]: "keeps X w w' \<Longrightarrow> kept X w (reply X p ctx w')"
  by (auto simp: kept_def dest!: reply_keeps elim: keeps_trans)

lemma kept_reply_error [kept_intros]: "keeps X w w' \<Longrightarrow> kept X w (reply_error X pkt st ctx w')"
  unfolding reply_error_def by (intro kept_intros)

lemma kept_reply_async_error [kept_intros]: "keeps X w w' \<Longrightarrow> kept X w (reply_async_error X pkt a st ctx w')"
  unfolding reply_async_error_def by (intro kept_intros)

lemma kept_ioctl_reply [kept_intros]: "keeps X w w' \<Longrightarrow> kept X w (ioctl_reply X pkt code f out ctx w')"
  unfolding ioctl_reply_def by (intro kept_intros)

lemma kept_query_reply [kept_intros]: "keeps X w w' \<Longrightarrow> kept X w (query_reply X pkt info ctx w')"
  unfolding query_reply_def by (intro kept_intros)

lemma kept_SetInfo_ok [kept_intros]: "keeps X w w' \<Longrightarrow> kept X w (SetInfo_ok X pkt ctx w')"
  unfolding SetInfo_ok_def by (intro kept_intros)

lemma keeps_table: "(\<And>t. table_ok t \<Longrightarrow> table_ok (f t)) \<Longrightarrow> keeps X w (on_table f w)"
  by (auto simp: keeps_def on_table_def tree_of_def)

text \<open>\<open>moves X w p\<close>: a step that returns a value and a world, started in \<open>w\<close>.\<close>

definition moves :: "'f tree_env \<Rightarrow> 'f world \<Rightarrow> 'a \<times> 'f world \<Rightarrow> bool" where
  "moves X w p \<longleftrightarrow> keeps X w (snd p)"

lemma kept_trans: "keeps X w w' \<Longrightarrow> kept X w' r \<Longrightarrow> kept X w r"
  unfolding kept_def by (blast intro: keeps_trans)

lemma moves_trans: "keeps X w w' \<Longrightarrow> moves X w' p \<Longrightarrow> moves X w p"
  unfolding moves_def by (rule keeps_trans)

lemma moves_world: "moves X w (r, w') \<longleftrightarrow> keeps X w w'"
  by (simp add: moves_def)

lemma kept_world: "kept X w (Some (w', c, e)) \<longleftrightarrow> keeps X w w'"
  by (simp add: kept_def)

lemma kept_moves [kept_intros]:
  "moves X w p \<Longrightarrow> (\<And>r w'. kept X w' (F r w')) \<Longrightarrow> kept X w (case p of (r, w') \<Rightarrow> F r w')"
  by (cases p) (auto simp: moves_def intro: kept_trans)

lemma moves_moves [kept_intros]:
  "moves X w p \<Longrightarrow> (\<And>r w'. moves X w' (F r w')) \<Longrightarrow> moves X w (case p of (r, w') \<Rightarrow> F r w')"
  by (cases p) (auto simp only: moves_world prod.case intro: moves_trans)

lemma moves_Pair [kept_intros]: "keeps X w w' \<Longrightarrow> moves X w (r, w')"
  by (simp add: moves_def)

lemma moves_if [kept_intros]: "moves X w a \<Longrightarrow> moves X w b \<Longrightarrow> moves X w (if c then a else b)"
  by simp

lemma moves_option [kept_intros]: "moves X w a \<Longrightarrow> (\<And>y. x = Some y \<Longrightarrow> moves X w (f y)) \<Longrightarrow> moves X w (case x of None \<Rightarrow> a | Some y \<Rightarrow> f y)"
  by (cases x) auto

lemma moves_sum [kept_intros]: "(\<And>y. moves X w (f y)) \<Longrightarrow> (\<And>y. moves X w (g y)) \<Longrightarrow> moves X w (case x of Inl y \<Rightarrow> f y | Inr y \<Rightarrow> g y)"
  by (cases x) auto

lemma moves_prod: "(\<And>a b. x = (a, b) \<Longrightarrow> moves X w (f a b)) \<Longrightarrow> moves X w (case x of (a, b) \<Rightarrow> f a b)"
  by (cases x) auto

lemma moves_fs [kept_intros]: "moves X w (fs_call X op w)"
  using fs_call_keeps [of X op w] by (cases "fs_call X op w") (simp add: moves_def)

lemma keeps_refl' [kept_intros]: "keeps X w w"
  by simp

text \<open>A step that may panic.\<close>

definition goes :: "'f tree_env \<Rightarrow> 'f world \<Rightarrow> ('a \<times> 'f world) option \<Rightarrow> bool" where
  "goes X w m \<longleftrightarrow> (\<forall>p. m = Some p \<longrightarrow> moves X w p)"

lemma goes_None [kept_intros]: "goes X w None"
  by (simp add: goes_def)

lemma goes_world: "goes X w (Some (r, w')) \<longleftrightarrow> keeps X w w'"
  by (simp add: goes_def moves_world)

lemma goes_trans: "keeps X w w' \<Longrightarrow> goes X w' m \<Longrightarrow> goes X w m"
  unfolding goes_def by (blast intro: moves_trans)

lemma kept_goes [kept_intros]: "goes X w m \<Longrightarrow> (\<And>r w'. kept X w' (F r w')) \<Longrightarrow> kept X w (m \<bind> (\<lambda>(r, w'). F r w'))"
  by (cases m) (auto simp: goes_def moves_def kept_None intro: kept_trans)

lemma goes_goes [kept_intros]: "goes X w m \<Longrightarrow> (\<And>r w'. goes X w' (F r w')) \<Longrightarrow> goes X w (m \<bind> (\<lambda>(r, w'). F r w'))"
  by (cases m) (auto simp: goes_world goes_None intro: goes_trans)

lemma goes_Some [kept_intros]: "moves X w p \<Longrightarrow> goes X w (Some p)"
  by (simp add: goes_def)

lemma goes_bind: "(\<And>x. m = Some x \<Longrightarrow> goes X w (f x)) \<Longrightarrow> goes X w (m \<bind> f)"
  by (cases m) (auto simp: goes_None)

lemma goes_if [kept_intros]: "goes X w a \<Longrightarrow> goes X w b \<Longrightarrow> goes X w (if c then a else b)"
  by simp

lemma goes_option [kept_intros]: "goes X w a \<Longrightarrow> (\<And>y. x = Some y \<Longrightarrow> goes X w (f y)) \<Longrightarrow> goes X w (case x of None \<Rightarrow> a | Some y \<Rightarrow> f y)"
  by (cases x) auto

lemma goes_sum [kept_intros]: "(\<And>y. goes X w (f y)) \<Longrightarrow> (\<And>y. goes X w (g y)) \<Longrightarrow> goes X w (case x of Inl y \<Rightarrow> f y | Inr y \<Rightarrow> g y)"
  by (cases x) auto

lemma goes_moves [kept_intros]:
  "moves X w p \<Longrightarrow> (\<And>r w'. goes X w' (F r w')) \<Longrightarrow> goes X w (case p of (r, w') \<Rightarrow> F r w')"
  by (cases p) (auto simp: moves_def intro: goes_trans)

lemma goes_prod: "(\<And>a b. x = (a, b) \<Longrightarrow> goes X w (f a b)) \<Longrightarrow> goes X w (case x of (a, b) \<Rightarrow> f a b)"
  by (cases x) auto

text \<open>Changing the table.\<close>

lemma keeps_setDeletePending [kept_intros]: "keeps X w (on_table (Server_setDeletePending n b) w)"
  by (intro keeps_table) (simp add: table_ok_def Server_setDeletePending_def)

lemma keeps_set_open [kept_intros]: "keeps X w (on_table (set_open o') w)"
  by (intro keeps_table table_ok_set_open)

lemma keeps_addOpen [kept_intros]: "Server_addOpen o' (srv_table (w_srv w)) = Some t \<Longrightarrow> keeps X w (on_table (\<lambda>_. t) w)"
  by (auto simp: keeps_def on_table_def tree_of_def intro: table_ok_add)

lemma keeps_closeOpen [kept_intros]: "Server_closeOpen o' (srv_table (w_srv w)) = (b, t) \<Longrightarrow> keeps X w (on_table (\<lambda>_. t) w)"
  using table_ok_close [of "srv_table (w_srv w)" o'] by (auto simp: keeps_def on_table_def tree_of_def)

lemma kept_handled [kept_intros]:
  "kept X w m \<Longrightarrow> (\<And>w' c e. kept X w' (F w' c e)) \<Longrightarrow> kept X w (m \<bind> (\<lambda>(w', c, e). F w' c e))"
  by (cases m) (auto simp: kept_world kept_None intro: kept_trans)

text \<open>A pattern with a pair in front of the world.\<close>

lemma kept_app: "(\<And>a b. kept X w (f a b v)) \<Longrightarrow> kept X w ((case p of (a, b) \<Rightarrow> f a b) v)"
  by (cases p) simp

lemma kept_app2: "(\<And>a b. kept X w (f a b u v)) \<Longrightarrow> kept X w ((case p of (a, b) \<Rightarrow> f a b) u v)"
  by (cases p) simp

lemma moves_app2: "(\<And>a b. moves X w (f a b u v)) \<Longrightarrow> moves X w ((case p of (a, b) \<Rightarrow> f a b) u v)"
  by (cases p) simp

lemma moves_app: "(\<And>a b. moves X w (f a b v)) \<Longrightarrow> moves X w ((case p of (a, b) \<Rightarrow> f a b) v)"
  by (cases p) simp

lemma goes_app2: "(\<And>a b. goes X w (f a b u v)) \<Longrightarrow> goes X w ((case p of (a, b) \<Rightarrow> f a b) u v)"
  by (cases p) simp

lemma goes_app: "(\<And>a b. goes X w (f a b v)) \<Longrightarrow> goes X w ((case p of (a, b) \<Rightarrow> f a b) v)"
  by (cases p) simp

section \<open>The handlers\<close>

lemmas kept_split = kept_app2 moves_app2 goes_app2 kept_app moves_app goes_app kept_bind kept_prod moves_prod goes_bind goes_prod

lemma kept_flush: "kept X w (fileTree_flush X ctx pkt w)"
  unfolding fileTree_flush_def Let_def by (intro kept_intros | rule kept_split | assumption)+

lemma kept_lock: "kept X w (fileTree_lock X ctx pkt w)"
  unfolding fileTree_lock_def Let_def by (intro kept_intros | rule kept_split | assumption)+

lemma kept_cancel: "kept X w (fileTree_cancel X ctx pkt w)"
  unfolding fileTree_cancel_def Let_def by (intro kept_intros | rule kept_split | assumption)+

lemma kept_readEA [kept_intros]: "kept X w (fileTree_readEA X ctx f o' n pkt w)"
  unfolding fileTree_readEA_def Let_def by (intro kept_intros | rule kept_split | assumption)+

lemma kept_readImpl [kept_intros]: "kept X w (fileTree_readImpl X ctx pkt f o' a w)"
  unfolding fileTree_readImpl_def Let_def by (intro kept_intros | rule kept_split | assumption)+

lemma kept_writeImpl [kept_intros]: "kept X w (fileTree_writeImpl X ctx pkt f o' a w)"
  unfolding fileTree_writeImpl_def Let_def by (intro kept_intros | rule kept_split | assumption)+

lemma kept_reparse [kept_intros]: "kept X w (fileTree_handleReparsePointReq X ctx pkt w)"
  unfolding fileTree_handleReparsePointReq_def Let_def by (intro kept_intros | rule kept_split | assumption)+

lemma kept_getReparse [kept_intros]: "kept X w (fileTree_handleGetReparsePointReq X ctx pkt w)"
  unfolding fileTree_handleGetReparsePointReq_def Let_def by (intro kept_intros | rule kept_split | assumption)+

lemma kept_deleteReparse [kept_intros]: "kept X w (fileTree_handleDeleteReparsePointReq X ctx pkt w)"
  unfolding fileTree_handleDeleteReparsePointReq_def Let_def by (intro kept_intros | rule kept_split | assumption)+

lemma goes_root_inode [kept_intros]: "goes X w (root_inode X w)"
  unfolding root_inode_def Let_def by (intro kept_intros | rule kept_split)+

lemma kept_objectId [kept_intros]: "kept X w (fileTree_handleCreateOrGetObjectId X ctx pkt w)"
  unfolding fileTree_handleCreateOrGetObjectId_def Let_def by (intro kept_intros | rule kept_split | assumption)+

lemma kept_interfaces [kept_intros]: "kept X w (fileTree_handleQueryNetworkInterfaceInfo X ctx pkt w)"
  unfolding fileTree_handleQueryNetworkInterfaceInfo_def Let_def by (intro kept_intros | rule kept_split | assumption)+

lemma kept_ioctl: "kept X w (fileTree_ioctl X ctx pkt w)"
  unfolding fileTree_ioctl_def Let_def by (intro kept_intros | rule kept_split | assumption)+

lemma kept_oplock_ack [kept_intros]: "kept X w (oplock_break_ack X ctx pkt r w)"
  unfolding oplock_break_ack_def Let_def by (intro kept_intros | rule kept_split | assumption)+

lemma kept_lease_ack [kept_intros]: "kept X w (lease_break_ack X pick ctx pkt r w)"
  unfolding lease_break_ack_def Let_def by (intro kept_intros | rule kept_split | assumption)+

lemma kept_oplockBreak: "kept X w (fileTree_oplockBreak X pick ctx pkt w)"
  unfolding fileTree_oplockBreak_def Let_def by (intro kept_intros | rule kept_split | assumption)+

lemma moves_set_xattr [kept_intros]: "moves X w (set_xattr X h key v w)"
  unfolding set_xattr_def by (intro kept_intros)

lemma moves_has_xattr [kept_intros]: "moves X w (has_xattr X h key w)"
  unfolding has_xattr_def Let_def by (intro kept_intros | rule kept_split)+

lemma moves_createEA [kept_intros]: "moves X w (fileTree_handleCreateEA X d h key w)"
  unfolding fileTree_handleCreateEA_def Let_def by (intro kept_intros | rule kept_split)+

lemma moves_create_open [kept_intros]: "moves X w (create_open X q isDir flags ft w)"
  unfolding create_open_def Let_def by (intro kept_intros | rule kept_split)+

lemma moves_create_sizes [kept_intros]: "moves X w (create_sizes X q h a w)"
  unfolding create_sizes_def Let_def by (intro kept_intros | rule kept_split)+

lemma goes_QFid [kept_intros]: "goes X w (fileTree_handleQFid X o' w)"
  unfolding fileTree_handleQFid_def Let_def by (intro kept_intros | rule kept_split)+

lemma keeps_aapl [kept_intros]: "keeps X w (w\<lparr>w_trees := (w_trees w)[te_tree X := (tree_of X w)\<lparr>tree_aapl := b\<rparr>]\<rparr>)"
  by (cases "te_tree X < length (w_trees w)") (simp_all add: keeps_def tree_of_def list_update_beyond)

text \<open>The open and the responses are returned beside the world.\<close>

definition goes3 :: "'f tree_env \<Rightarrow> 'f world \<Rightarrow> ('a \<times> 'b \<times> 'f world) option \<Rightarrow> bool" where
  "goes3 X w m \<longleftrightarrow> (\<forall>a b w'. m = Some (a, b, w') \<longrightarrow> keeps X w w')"

lemma kept_goes3 [kept_intros]: "goes3 X w m \<Longrightarrow> (\<And>a b w'. kept X w' (F a b w')) \<Longrightarrow> kept X w (m \<bind> (\<lambda>(a, b, w'). F a b w'))"
  by (cases m) (auto simp: goes3_def kept_None intro: kept_trans)

lemma context_step_keeps: "create_context_step X a cc (encs, o', w) = Some (encs', o'', w') \<Longrightarrow> keeps X w w'"
  using goes_QFid [of X w o'] keeps_aapl [of X w True]
  by (auto simp: create_context_step_def Let_def goes_world split: if_splits bind_splits option.splits)

lemma create_contexts_keeps: "create_contexts X a cc st = Some st' \<Longrightarrow> keeps X (snd (snd st)) (snd (snd st'))"
proof (induction X a cc st rule: create_contexts.induct)
  case (1 X a cc st)
  have c: "keeps X (snd (snd st)) (snd (snd st1))" if "create_context_step X a cc st = Some st1" for st1
    using that by (cases st, cases st1) (auto dest: context_step_keeps)
  from "1.prems" show ?case
    by (subst (asm) create_contexts.simps) (auto split: if_splits bind_splits dest: c "1.IH" intro: keeps_trans)
qed

lemma goes3_contexts [kept_intros]: "goes3 X w (create_contexts X a cc (encs, o', w))"
  using create_contexts_keeps by (fastforce simp: goes3_def)

lemma kept_create_finish [kept_intros]: "kept X w (create_finish X pkt q act l h a ctx w)"
  unfolding create_finish_def Let_def by (intro kept_intros | rule kept_split | assumption)+

lemma kept_create_run [kept_intros]: "kept X w (create_run X pkt q ft ctx w)"
  unfolding create_run_def Let_def by (intro kept_intros | rule kept_split | assumption)+

lemma kept_create: "kept X w (fileTree_create X ctx pkt w)"
  unfolding fileTree_create_def Let_def by (intro kept_intros | rule kept_split | assumption)+

lemma moves_posixDelete [kept_intros]: "moves X w (fileTree_applyPosixDelete X f o' w)"
  unfolding fileTree_applyPosixDelete_def Let_def by (intro kept_intros | rule kept_split)+

lemma posixDelete_keeps: "fileTree_applyPosixDelete X f o' w = (e, w') \<Longrightarrow> keeps X w w'"
  using moves_posixDelete [of X w f o'] by (simp add: moves_def)

lemma posixDeleteOnClose_keeps: "fileTree_applyPosixDeleteOnClose X f o' w = (e, o'', w') \<Longrightarrow> keeps X w w'"
  by (auto simp: fileTree_applyPosixDeleteOnClose_def Let_def split: option.splits if_splits prod.splits
      dest!: posixDelete_keeps intro: keeps_trans [OF _ keeps_set_open])

lemma moves_posixDeleteOnClose [kept_intros]:
  "(\<And>e o' w'. moves X w' (F e o' w')) \<Longrightarrow> moves X w (case fileTree_applyPosixDeleteOnClose X f o' w of (e, o', w') \<Rightarrow> F e o' w')"
  by (auto split: prod.splits dest!: posixDeleteOnClose_keeps intro: moves_trans)

lemma moves_close_handle [kept_intros]: "moves X w (close_handle X f o' st w)"
  unfolding close_handle_def Let_def by (intro kept_intros | rule kept_split | assumption)+

lemma goes_close_attributes [kept_intros]: "goes X w (close_attributes X f o' rsp w)"
  unfolding close_attributes_def Let_def by (intro kept_intros | rule kept_split | assumption)+

lemma kept_close: "kept X w (fileTree_close X ctx pkt w)"
  unfolding fileTree_close_def Let_def by (intro kept_intros | rule kept_split | assumption)+

lemma goes_basic_attributes [kept_intros]: "goes X w (basic_attributes X h info w)"
  unfolding basic_attributes_def Let_def by (intro kept_intros | rule kept_split | assumption)+

lemma kept_set_result [kept_intros]: "keeps X w w' \<Longrightarrow> kept X w (set_result X pkt e ctx w')"
  unfolding set_result_def by (intro kept_intros)

lemma kept_setBasicInfo [kept_intros]: "kept X w (fileTree_setBasicInfo X ctx f o' pkt w)"
  unfolding fileTree_setBasicInfo_def Let_def by (intro kept_intros | rule kept_split | assumption)+

lemma kept_setEndOfFileInfo [kept_intros]: "kept X w (fileTree_setEndOfFileInfo X ctx f pkt w)"
  unfolding fileTree_setEndOfFileInfo_def Let_def by (intro kept_intros | rule kept_split | assumption)+

lemma kept_setEndOfFileInfoEa [kept_intros]: "kept X w (fileTree_setEndOfFileInfoEa X ctx f key pkt w)"
  unfolding fileTree_setEndOfFileInfoEa_def Let_def by (intro kept_intros | rule kept_split | assumption)+

lemma goes_applyDeleteDisposition [kept_intros]: "goes X w (fileTree_applyDeleteDisposition X f o' w)"
  unfolding fileTree_applyDeleteDisposition_def Let_def by (intro kept_intros | rule kept_split | assumption)+

lemma kept_setDispositionInfo [kept_intros]: "kept X w (fileTree_setDispositionInfo X ctx f o' pkt w)"
  unfolding fileTree_setDispositionInfo_def Let_def by (intro kept_intros | rule kept_split | assumption)+

lemma kept_setDispositionInfoEa [kept_intros]: "kept X w (fileTree_setDispositionInfoEa X ctx f key pkt w)"
  unfolding fileTree_setDispositionInfoEa_def Let_def by (intro kept_intros | rule kept_split | assumption)+

lemma keeps_if_none [kept_intros]: "keeps X w a \<Longrightarrow> keeps X w b \<Longrightarrow> keeps X w (if c then a else b)"
  by simp

lemma keeps_option [kept_intros]: "keeps X w a \<Longrightarrow> (\<And>y. keeps X w (f y)) \<Longrightarrow> keeps X w (case x of None \<Rightarrow> a | Some y \<Rightarrow> f y)"
  by (cases x) auto

lemma kept_setRename [kept_intros]: "kept X w (fileTree_setRename X ctx f pkt w)"
  unfolding fileTree_setRename_def Let_def by (intro kept_intros | rule kept_split | assumption)+

lemma kept_setSecInfo [kept_intros]: "kept X w (fileTree_setSecInfo X ctx f pkt w)"
  unfolding fileTree_setSecInfo_def Let_def by (intro kept_intros | rule kept_split | assumption)+

lemma kept_setInfo: "kept X w (fileTree_setInfo X ctx pkt w)"
  unfolding fileTree_setInfo_def Let_def by (intro kept_intros | rule kept_split | assumption)+

lemma goes_finder_info [kept_intros]: "goes X w (finder_info X d parent w)"
  unfolding finder_info_def Let_def by (intro kept_intros | rule kept_split | assumption)+

lemma goes_map: "goes X w m \<Longrightarrow> goes X w (map_option (\<lambda>(i, w). (f i, w)) m)"
  by (auto simp: goes_def moves_def)

lemma goes_item [kept_intros]: "goes X w (fileTree_makeItem X cls d parent w)"
proof -
  have "goes X w (fileTree_newFileIdBothDirectoryInformationInfo2 X d parent w)"
    unfolding fileTree_newFileIdBothDirectoryInformationInfo2_def Let_def by (intro kept_intros | rule kept_split | assumption)+
  then show ?thesis by (auto simp: fileTree_makeItem_def goes_map) (auto simp: goes_def moves_def)
qed

lemma makeItem_keeps: "fileTree_makeItem X cls d parent w = Some (i, w') \<Longrightarrow> keeps X w w'"
  using goes_item [of X w cls d parent] by (auto simp: goes_def moves_def)

lemma append_keeps:
  "fileTree_appendDirectoryEntries X out ds pattern cls o' m single w = Some (out', pend, st, full, w') \<Longrightarrow> keeps X w w'"
proof (induction X out ds pattern cls o' m single w rule: fileTree_appendDirectoryEntries.induct)
  case (2 X out d ds pattern cls o' m single w)
  then show ?case
    by (auto split: if_splits bind_splits option.splits dest: makeItem_keeps intro: keeps_trans)
qed simp

lemma query_loop_keeps:
  assumes "query_loop X out o' h pattern cls single m flags w = Some r" "r = Some (st, out', o'', w')"
  shows "keeps X w w'"
proof -
  have "\<forall>st out' o'' w'. r = Some (st, out', o'', w') \<longrightarrow> keeps X w w'"
  proof (rule query_loop.raw_induct [OF _ assms(1)])
    fix ql X out o' h pattern cls single m flags w r
    assume ih: "\<And>X out o' h pattern cls single m flags w r. ql X out o' h pattern cls single m flags w = Some r \<Longrightarrow>
        \<forall>st out' o'' w'. r = Some (st, out', o'', w') \<longrightarrow> keeps X w w'"
      and s: "(case fs_call X (\<lambda>v. vfs_ReadDir v h flags (if single then 1 else queryDirectoryReadBatchSize)) w of (r, w) \<Rightarrow>
        case r of
          Inl e \<Rightarrow> Some (Some (if out \<noteq> [] then 0 else if e = VE_EOF then STATUS_NO_MORE_FILES else STATUS_ACCESS_DENIED, out, o', w))
        | Inr dir \<Rightarrow>
            if dir = [] then Some (Some (if out \<noteq> [] then 0 else STATUS_NO_MORE_FILES, out, o', w))
            else case fileTree_appendDirectoryEntries X out dir pattern cls o' m single w of
                None \<Rightarrow> Some None
              | Some (out, pending, stopped, full, w) \<Rightarrow>
                  let o' = o'\<lparr>Open_queryDirectoryPending := pending\<rparr>; (status, done) = queryDirectoryAppendStatus out full in
                  if done then Some (Some (status, out, o', w))
                  else if stopped then Some (Some (STATUS_NO_SUCH_FILE, out, o', w))
                  else ql X out o' h pattern cls single m ReadDirContinue w) = Some r"
    obtain d w1 where f: "fs_call X (\<lambda>v. vfs_ReadDir v h flags (if single then 1 else queryDirectoryReadBatchSize)) w = (d, w1)"
      by fastforce
    note k = fs_call_keeps [OF f]
    show "\<forall>st out' o'' w'. r = Some (st, out', o'', w') \<longrightarrow> keeps X w w'"
      using s k by (auto simp: f Let_def split: sum.splits if_splits option.splits prod.splits
          dest!: append_keeps ih intro: keeps_trans)
  qed
  then show ?thesis using assms(2) by blast
qed

lemma query_run_keeps:
  assumes "query_run X ctx o' h name cls flags m w = Some (Some (st, out, o'', w'))"
  shows "keeps X w w'"
proof -
  have s: "keeps X w w'" if "query_single X o1 h name cls m w = Some (st, out, o'', w')" for o1
    using that by (auto simp: query_single_def Let_def split: if_splits prod.splits sum.splits bind_splits option.splits
        dest!: fs_call_keeps makeItem_keeps intro: keeps_trans)
  have l: "keeps X w w'" if "fileTree_queryDirectoryWildcard X o1 h name cls flags m fl w = Some (Some (st, out, o'', w'))" for o1 fl
    using that by (auto simp: fileTree_queryDirectoryWildcard_def Let_def split: if_splits option.splits prod.splits
        dest!: append_keeps query_loop_keeps intro: keeps_trans)
  show ?thesis
    using assms by (auto simp: query_run_def Let_def split: if_splits dest!: s l)
qed

lemma kept_listed:
  assumes "\<And>st out o1 w'. z = Some (st, out, o1, w') \<Longrightarrow> keeps X w w'" "\<And>st out o1 w1. kept X w1 (F st out o1 w1)"
  shows "kept X w (z \<bind> (\<lambda>(st, out, o1, w1). F st out o1 w1))"
  using assms by (cases z) (auto simp: kept_None intro: kept_trans)

lemma kept_queryDirectory: "fileTree_queryDirectory X ctx pkt w = Some r \<Longrightarrow> kept X w r"
proof -
  let ?out = "\<lambda>r. do {
    (status, out, o', w) \<leftarrow> r;
    let w = on_table (set_open o') w;
    if status \<noteq> 0 then reply_error X pkt status ctx w
    else do {
      hd' \<leftarrow> PrepareResponse zero_header pkt status;
      reply X (QueryDirectoryResponse_packet \<lparr>QueryDirectoryResponse_Header = hd',
        QueryDirectoryResponse_Output = Some (listing_encoder out)\<rparr>) ctx w } }"
  have q: "kept X w (?out z)" if "query_run X ctx o' h name cls flags m w = Some z" for o' h name cls flags m z
    unfolding Let_def using that
    by (intro kept_listed) (auto dest: query_run_keeps, (intro kept_intros | rule kept_split)+)
  assume "fileTree_queryDirectory X ctx pkt w = Some r"
  then show ?thesis
    unfolding fileTree_queryDirectory_def
    by (auto simp del: bind_eq_Some_conv split: option.split_asm sum.split_asm prod.split_asm intro: kept_None kept_reply_error q)
qed

lemma moves_queryFS [kept_intros]: "moves X w (queryFSAttributes X w)"
  unfolding queryFSAttributes_def Let_def by (intro kept_intros | rule kept_split | assumption)+

lemma goes_fs_information [kept_intros]: "goes X w (fs_information X ctx r cls s w)"
  unfolding fs_information_def Let_def by (intro kept_intros | rule kept_split | assumption)+

lemma kept_queryInfoFileSystem [kept_intros]: "kept X w (fileTree_queryInfoFileSystem X ctx pkt w)"
  unfolding fileTree_queryInfoFileSystem_def Let_def by (intro kept_intros | rule kept_split | assumption)+

lemma moves_xattr_streams [kept_intros]: "moves X w (xattr_streams X h eas w)"
proof (induction eas arbitrary: w)
  case (Cons ea eas)
  show ?case unfolding xattr_streams.simps Let_def by (intro kept_intros Cons.IH | rule kept_split)+
qed (simp add: moves_def)

lemma moves_stream_information [kept_intros]: "moves X w (stream_information X h a isDir w)"
  unfolding stream_information_def Let_def by (intro kept_intros | rule kept_split | assumption)+

lemma goes_network_information [kept_intros]: "goes X w (network_information X h o' a w)"
  by (cases "Open_isEa o'")
    (auto simp: network_information_def goes_def moves_def Let_def split: bind_splits prod.splits dest: fs_call_keeps)

lemma goes_file_information [kept_intros]: "goes X w (file_information X h cls o' a isDir pend w)"
  unfolding file_information_def Let_def by (intro kept_intros | rule kept_split | assumption)+

lemma kept_file_info [kept_intros]:
  "(\<And>y. kept X w (f y)) \<Longrightarrow> (\<And>y. kept X w (g y)) \<Longrightarrow> kept X w h \<Longrightarrow> kept X w (case i of FI_Invalid \<Rightarrow> h | FI_Status y \<Rightarrow> f y | FI_Info y \<Rightarrow> g y)"
  by (cases i) auto

lemma kept_queryInfoFile [kept_intros]: "kept X w (fileTree_queryInfoFile X ctx pkt w)"
  unfolding fileTree_queryInfoFile_def Let_def by (intro kept_intros | rule kept_split | assumption)+

lemma kept_queryInfoSec [kept_intros]: "kept X w (fileTree_queryInfoSec X ctx pkt w)"
  unfolding fileTree_queryInfoSec_def Let_def by (intro kept_intros | rule kept_split | assumption)+

lemma kept_queryInfo: "kept X w (fileTree_queryInfo X ctx pkt w)"
  unfolding fileTree_queryInfo_def Let_def by (intro kept_intros | rule kept_split | assumption)+

text \<open>Reads, writes and notifications, at once and later.\<close>

definition kept_started :: "'f tree_env \<Rightarrow> 'f world \<Rightarrow> 'f started \<Rightarrow> bool" where
  "kept_started X w r \<longleftrightarrow> (\<forall>w' ctx e t. r = Some ((w', ctx, e), t) \<longrightarrow> keeps X w w')"

lemma kept_no_task: "kept_started X w (no_task r) \<longleftrightarrow> kept X w r"
  by (auto simp: kept_started_def kept_def no_task_def)

lemma kept_read: "kept_started X w (fileTree_read X ctx pkt w)"
proof -
  have "kept_started X w (no_task (reply_error X pkt st ctx w))" "kept_started X w (no_task (fileTree_readImpl X ctx pkt f o' a w))" for st f o' a
    unfolding kept_no_task by (intro kept_intros)+
  then show ?thesis
    unfolding fileTree_read_def by (auto simp: kept_started_def split: bind_splits if_splits option.splits)
qed

lemma kept_write: "kept_started X w (fileTree_write X ctx pkt w)"
proof -
  have "kept_started X w (no_task (reply_error X pkt st ctx w))" "kept_started X w (no_task (fileTree_writeImpl X ctx pkt f o' a w))" for st f o' a
    unfolding kept_no_task by (intro kept_intros)+
  then show ?thesis
    unfolding fileTree_write_def by (auto simp: kept_started_def split: bind_splits if_splits option.splits)
qed

lemma kept_changeNotify: "kept_started X w (fileTree_changeNotify X ctx pkt w)"
proof -
  have a: "kept_started X w (no_task (reply_error X pkt st ctx w))" for st
    unfolding kept_no_task by (intro kept_intros)
  have b: "keeps X w w'" if "reply_async_error X pkt a st ctx w = Some (w', c, e)" for a st w' c e
    using kept_reply_async_error [of X w w pkt a st ctx] that by (simp add: kept_def)
  show ?thesis
    using a unfolding fileTree_changeNotify_def
    by (auto simp: kept_started_def Let_def split: bind_splits if_splits option.splits dest!: b intro: keeps_trans [OF _ keeps_set_open])
qed

lemma kept_pending: "kept X w (fileTree_pending X t w)"
  unfolding fileTree_pending_def by (cases t) (simp_all, (intro kept_intros)+)

lemma kept_task: "kept X w (fileTree_task X t ctx w)"
  unfolding fileTree_task_def by (cases t) (simp_all, (intro kept_intros)+)

text \<open>The pipe.\<close>

lemma keeps_dceReq [kept_intros]: "keeps X w (set_dceReq X d w)"
  by (cases "te_tree X < length (w_trees w)") (simp_all add: keeps_def tree_of_def set_dceReq_def list_update_beyond)

lemma kept_rpc [kept_intros]:
  "(\<And>e. kept X w (f e)) \<Longrightarrow> kept X w b \<Longrightarrow> kept X w c \<Longrightarrow> kept X w (case r of RPC_Type \<Rightarrow> b | RPC_Error \<Rightarrow> c | RPC_Answer e \<Rightarrow> f e)"
  by (cases r) auto

lemma kept_ipc: "kept X w (ipc_dispatch X pipe shares ref cmd ctx pkt w)"
  unfolding ipc_dispatch_def ipcTree_create_def ipcTree_close_def ipcTree_read_def ipcTree_write_def ipcTree_ioctl_def ipcTree_queryInfo_def
    ipcTree_refuse_def Let_def
  by (intro kept_intros | rule kept_split | assumption)+

lemma kept_file_dispatch: "file_dispatch X pick cmd ctx pkt w = Some r \<Longrightarrow> kept_started X w r"
  unfolding file_dispatch_def
  by (auto simp: kept_no_task kept_create kept_close kept_flush kept_read kept_write kept_lock kept_ioctl kept_cancel kept_changeNotify
      kept_queryInfo kept_setInfo kept_oplockBreak split: if_splits dest: kept_queryDirectory) (simp_all add: kept_started_def)

section \<open>The handlers of the connection\<close>

text \<open>Negotiation, login, logoff and echo change neither the trees nor the opens nor any file system.\<close>

definition quiet :: "'f world \<Rightarrow> 'f world \<Rightarrow> bool" where
  "quiet w w' \<longleftrightarrow> w_trees w' = w_trees w \<and> w_byName w' = w_byName w \<and> w_byId w' = w_byId w \<and> srv_table (w_srv w') = srv_table (w_srv w) \<and>
     srv_fs (w_srv w') = srv_fs (w_srv w) \<and> srv_shares (w_srv w') = srv_shares (w_srv w)"

lemma send_alone_quiet: "send_alone E I p tc w = Some (w', e) \<Longrightarrow> quiet w w'"
  by (auto simp: quiet_def same_login_def dest!: send_alone_same)

lemma respond_quiet: "negotiate_respond E I pkt token w = Some (w', e) \<Longrightarrow> quiet w w'"
  by (auto simp: negotiate_respond_def split: bind_splits dest: send_alone_quiet)

lemma quiet_set [simp]: "quiet (w\<lparr>w_conn := c\<rparr>) w' \<longleftrightarrow> quiet w w'" "quiet (set_negotiator f w) w' \<longleftrightarrow> quiet w w'" "quiet w (w'\<lparr>w_conn := c\<rparr>) \<longleftrightarrow> quiet w w'"
    "quiet (reset_world w) w' \<longleftrightarrow> quiet w w'" "quiet w w" "quiet w (set_negotiator f w') \<longleftrightarrow> quiet w w'"
  by (simp_all add: quiet_def set_negotiator_def reset_world_def)

lemma negotiator_quiet: "ServerNegotiator_negotiate E I pkt w = Some (w', e) \<Longrightarrow> quiet w w'"
  by (auto simp: ServerNegotiator_negotiate_def Let_def split: if_split_asm bind_split_asm option.split_asm
      dest!: send_alone_quiet respond_quiet)

lemma negotiate_quiet: "conn_negotiate E I pkt w = Some (w', e) \<Longrightarrow> quiet w w'"
  by (auto simp: conn_negotiate_def Let_def split: if_splits dest!: negotiator_quiet)

lemma spnego_quiet:
  "spnego_challenge E I tok d = Some (r, d') \<Longrightarrow> srv_table d' = srv_table d \<and> srv_fs d' = srv_fs d \<and> srv_shares d' = srv_shares d"
  "spnego_authenticate E tok d = Some (r', d') \<Longrightarrow> srv_table d' = srv_table d \<and> srv_fs d' = srv_fs d \<and> srv_shares d' = srv_shares d"
  by (auto simp: spnego_challenge_def spnego_authenticate_def split: option.splits bind_splits if_splits)

lemma setup_quiet: "conn_sessionServerSetup E I pkt w = Some (w', e) \<Longrightarrow> quiet w w'"
  by (auto simp: conn_sessionServerSetup_def Let_def quiet_def same_login_def split: if_splits bind_splits option.splits sum.splits
      dest!: send_alone_same spnego_quiet)

lemma activate_quiet: "session_activate E I h out s w = Some (w', e) \<Longrightarrow> quiet w w'"
  by (auto simp: session_activate_def Let_def quiet_def same_login_def split: if_splits bind_splits dest!: send_alone_same)

lemma challenge_quiet: "conn_sessionServerSetupChallenge E I pkt w = Some (w', e) \<Longrightarrow> quiet w w'"
  by (auto simp: conn_sessionServerSetupChallenge_def Let_def quiet_def same_login_def split: if_splits bind_splits option.splits sum.splits
      dest!: send_alone_same activate_quiet spnego_quiet)

lemma sessionSetup_quiet: "conn_sessionSetup E I pkt w = Some (w', e) \<Longrightarrow> quiet w w'"
  by (auto simp: conn_sessionSetup_def Let_def reset_world_def split: if_splits ConnState.splits
      dest!: setup_quiet challenge_quiet)

lemma send_quiet: "conn_echo E I pkt w = Some (w', e) \<Longrightarrow> quiet w w'" "conn_logoff E I pkt w = Some (w', e) \<Longrightarrow> quiet w w'"
  by (auto simp: conn_echo_def conn_logoff_def quiet_def same_login_def split: bind_splits dest!: send_alone_same)

section \<open>Well-formed worlds\<close>

text \<open>The table of opens has each handle once, the two maps of trees agree, and a tree of files serves a share.\<close>

definition serves :: "'f world \<Rightarrow> bool" where
  "serves w \<longleftrightarrow> (\<forall>i n. i < length (w_trees w) \<longrightarrow> tree_kind (w_trees w ! i) = Tree_file n \<longrightarrow> n \<in> ran (map_of (srv_shares (w_srv w))))"

definition world_ok :: "'f world \<Rightarrow> bool" where
  "world_ok w \<longleftrightarrow> table_ok (srv_table (w_srv w)) \<and> trees_ok w \<and> serves w"

lemma quiet_ok: "quiet w w' \<Longrightarrow> world_ok w \<Longrightarrow> world_ok w'"
  by (simp add: quiet_def world_ok_def trees_ok_def serves_def tree_at_def)

lemma keeps_ok:
  assumes "keeps X w w'" "world_ok w"
  shows "world_ok w'"
proof -
  have t: "tree_at w' i = tree_at w i" "tree_kind (w_trees w' ! i) = tree_kind (w_trees w ! i)" for i
    using assms(1) by (cases "i = te_tree X"; simp add: keeps_def tree_at_def tree_of_def)+
  show ?thesis using assms by (auto simp: keeps_def world_ok_def trees_ok_def serves_def t)
qed

lemma started_ok: "kept_started X w r \<Longrightarrow> world_ok w \<Longrightarrow> r = Some ((w', c, e), t) \<Longrightarrow> world_ok w'"
  using keeps_ok by (auto simp: kept_started_def)

lemma reply_error_keeps: "reply_error X pkt st c w = Some (w', c', e) \<Longrightarrow> keeps X w w'"
  using kept_reply_error [OF keeps_refl, of X w pkt st c] by (simp add: kept_def)

lemma file_dispatch_keeps: "file_dispatch X pick cmd c pkt w = Some (Some ((w', c', e), t)) \<Longrightarrow> keeps X w w'"
  using kept_file_dispatch [of X pick cmd c pkt w "Some ((w', c', e), t)"] by (simp add: kept_started_def)

lemma ipc_dispatch_keeps: "ipc_dispatch X pipe shares ref cmd c pkt w = Some (w', c', e) \<Longrightarrow> keeps X w w'"
  using kept_ipc [of X w pipe shares ref cmd c pkt] by (simp add: kept_def)

lemma tree_request_keeps:
  assumes "tree_request R cmd tid ctx pkt w = Some (Some ((w', ctx', e), t))" "map_of (w_byId w) tid = Some i"
  shows "keeps (tree_env_of R i (case tree_kind (w_trees w ! i) of Tree_file n \<Rightarrow> n | Tree_ipc _ \<Rightarrow> 0)) w w'"
  using assms by (auto simp: tree_request_def Let_def no_task_def split: option.split_asm if_split_asm tree_kind.split_asm
      dest: reply_error_keeps file_dispatch_keeps ipc_dispatch_keeps)

lemma tree_request_ok:
  assumes "tree_request R cmd tid ctx pkt w = Some (Some ((w', ctx', e), t))" "world_ok w"
  shows "world_ok w'"
proof (cases "map_of (w_byId w) tid")
  case None
  then show ?thesis using assms by (simp add: tree_request_def)
next
  case (Some i)
  then show ?thesis using keeps_ok [OF tree_request_keeps [OF assms(1)] assms(2)] by blast
qed

section \<open>Worlds the server reaches\<close>

lemma kind_upd [simp]: "tree_kind (ts[k := (ts ! k)\<lparr>tree_tc := c\<rparr>] ! i) = tree_kind (ts ! i)"
  by (cases "k < length ts") (simp_all add: nth_list_update list_update_beyond)

lemma treeConnect_ok:
  assumes "conn_treeConnect E I pkt w = Some (w', e)" "world_ok w" "map_of (w_byId w) (in_rand32 I) = None"
  shows "world_ok w'"
proof -
  have k: "world_ok u'" if "tree_connect E I pkt name st acc kind w = Some (u', e')" "\<And>n. kind = Tree_file n \<Longrightarrow> n \<in> ran (map_of (srv_shares (w_srv w)))"
    for name st acc kind u' e'
  proof -
    let ?u = "case map_of (w_byName w) name of None \<Rightarrow> add_tree (in_rand32 I) name kind w | Some i \<Rightarrow> ref_tree i 1 w"
    have s: "serves ?u" "srv_table (w_srv ?u) = srv_table (w_srv w)"
      using that(2) assms(2) by (auto simp: serves_def world_ok_def add_tree_def ref_tree_def nth_append less_Suc_eq split: option.split)
    have "trees_ok ?u"
      using assms(2,3) add_tree_ok(1) [of w name "in_rand32 I" kind] ref_tree_ok(1) [of w name _ 1] trees_okD(3) [of w name]
      by (auto simp: world_ok_def add_pos_pos split: option.split)
    then have "world_ok ?u" using s assms(2) by (simp add: world_ok_def)
    moreover have "quiet ?u u'" using tree_connect_maps [OF that(1)] by (simp add: quiet_def same_login_def)
    ultimately show ?thesis using quiet_ok by blast
  qed
  have f: "n \<in> ran (map_of (srv_shares (w_srv w)))" if "find_share E (w_srv w) p = Some n" for p n
    using that by (auto simp: find_share_def ran_def split: option.splits)
  show ?thesis
    using assms(1,2) f by (auto simp: conn_treeConnect_def Let_def split: bind_split_asm option.split_asm if_split_asm dest!: k send_alone_quiet intro: quiet_ok)
qed

lemma treeDisconnect_ok:
  assumes "conn_treeDisconnect E I pkt w = Some (w', e)" "world_ok w"
  shows "world_ok w'"
proof -
  obtain tid where tid: "PacketCodec_TreeId pkt = Some tid" using assms(1) by (cases "PacketCodec_TreeId pkt") (simp_all add: conn_treeDisconnect_def)
  have t: "trees_ok w'"
    using disconnect_refs [OF _ tid assms(1)] assms(2) by (auto simp: world_ok_def)
  let ?u = "case map_of (w_byId w) tid of None \<Rightarrow> w
     | Some i \<Rightarrow> if tc_refCount (tree_at w i) = 1 then ref_tree i (- 1) (drop_tree i w) else ref_tree i (- 1) w"
  have "serves ?u" "srv_table (w_srv ?u) = srv_table (w_srv w)"
    using assms(2) by (auto simp: serves_def world_ok_def drop_tree_def ref_tree_def split: option.split)
  then show ?thesis
    using treeDisconnect_maps [OF assms(1) tid] t assms(2) by (simp add: world_ok_def same_login_def serves_def)
qed

text \<open>One request: a tree id that is drawn for a new tree is taken not to be in use.\<close>

lemma world_ok_conn [simp]: "world_ok (w\<lparr>w_conn := c\<rparr>) \<longleftrightarrow> world_ok w"
  by (simp add: world_ok_def trees_ok_def serves_def tree_at_def)

lemma round_ok:
  assumes "conn_Run_round R ses ctx pkt w = Some (Some ((w', ctx', e), t))" "world_ok w" "map_of (w_byId w) (in_rand32 (re_inp R)) = None"
  shows "world_ok w'"
  using assms
  by (cases ses)
    (auto simp: conn_Run_round_def Let_def without_ctx_def split: option.split_asm if_split_asm
        dest!: negotiate_quiet sessionSetup_quiet send_quiet treeConnect_ok treeDisconnect_ok tree_request_ok quiet_ok)

text \<open>Every sequence of requests and of tasks that they left behind, on any tree, from a server with no open and no tree.\<close>

inductive run_reach :: "'f world \<Rightarrow> bool" where
  run_start: "w_trees w = [] \<Longrightarrow> w_byName w = [] \<Longrightarrow> w_byId w = [] \<Longrightarrow> srv_table (w_srv w) = new_table \<Longrightarrow> run_reach w"
| run_request: "run_reach w \<Longrightarrow> map_of (w_byId w) (in_rand32 (re_inp R)) = None \<Longrightarrow>
    conn_Run_round R ses ctx pkt w = Some (Some ((w', ctx', e), t)) \<Longrightarrow> run_reach w'"
| run_task: "run_reach w \<Longrightarrow> fileTree_task X t ctx w = Some (w', ctx', e) \<Longrightarrow> run_reach w'"
| run_pending: "run_reach w \<Longrightarrow> fileTree_pending X t w = Some (w', ctx', e) \<Longrightarrow> run_reach w'"

lemma run_reach_ok: "run_reach w \<Longrightarrow> world_ok w"
proof (induction rule: run_reach.induct)
  case (run_start w)
  then show ?case by (simp add: world_ok_def trees_ok_def serves_def)
next
  case (run_request w R ses ctx pkt w' ctx' e t)
  then show ?case using round_ok by blast
next
  case (run_task w X t ctx w' ctx' e)
  then show ?case using kept_task [of X w t ctx] keeps_ok by (auto simp: kept_def)
next
  case (run_pending w X t w' ctx' e)
  then show ?case using kept_pending [of X w t] keeps_ok by (auto simp: kept_def)
qed

section \<open>Properties\<close>

text \<open>C2. The state of the server stays well formed. Whatever sequence of requests a client sends - of any command, well formed or not, signed
  in or not, in compounds or alone - and in whatever order the reads, writes and notifications left to goroutines end: the table has each
  handle once and under it the open with that handle; a tree id in use leads to a tree with that id and a positive reference count; and
  every tree of files belongs to the file system of a share. The tree ids drawn at random are taken to be unused.
\<close>

theorem worlds_well_formed:
  assumes "run_reach w"
  shows "distinct (map fst (tab_opens (srv_table (w_srv w)))) \<and> (\<forall>h o'. get_open h w = Some o' \<longrightarrow> Open_fileId o' = h) \<and>
    (\<forall>tid i. map_of (w_byId w) tid = Some i \<longrightarrow> i < length (w_trees w) \<and> tc_treeId (tree_at w i) = tid \<and> 0 < tc_refCount (tree_at w i)) \<and>
    (\<forall>i n. i < length (w_trees w) \<longrightarrow> tree_kind (w_trees w ! i) = Tree_file n \<longrightarrow> n \<in> ran (map_of (srv_shares (w_srv w))))"
proof -
  have ok: "table_ok (srv_table (w_srv w))" "trees_ok w" "serves w" using run_reach_ok [OF assms] by (simp_all add: world_ok_def)
  show ?thesis
    using ok(1,3) trees_okD [OF ok(2)] map_of_fileId [OF ok(1)] unfolding table_ok_def serves_def get_open_def by blast
qed

definition sample_run :: "unit run_env" where
  "sample_run = \<lparr>re_env = sample_env, re_inp = sample_inp, re_vfs = undefined, re_regexp = (\<lambda>_ _. None), re_conn = 0,
     re_pipe = FileId_zero, re_ref = 0, re_pick = 0\<rparr>"

lemma sample_connect:
  obtains pkt w' where "is_request SMB2_TREE_CONNECT zero_header pkt" "TreeConnectRequestDecoder_IsInvalid (drop 64 pkt) = Some False"
    "TreeConnectRequestDecoder_Path (drop 64 pkt) = Some [0x44]" "conn_treeConnect sample_env sample_inp pkt sample_world = Some (w', None)"
proof -
  have r: "runes [0x44] = [0x44]" by (simp add: decodeRune.simps)
  then have wf: "wf_string [0x44]" by (simp add: wf_string_def string_of_runes_def scalar_def encodeRune_def)
  have "length (utf16_bytes [0x44]) < 65464" using r by (simp add: utf16_Encode_def length_utf16_units)
  moreover have "hdr_Flags zero_header AND SMB2_FLAGS_SERVER_TO_REDIR = 0" by (simp add: zero_header_def)
  ultimately obtain pkt where p: "is_request SMB2_TREE_CONNECT zero_header pkt" "TreeConnectRequestDecoder_IsInvalid (drop 64 pkt) = Some False"
    "TreeConnectRequestDecoder_Path (drop 64 pkt) = Some [0x44]" using tree_message_ok [OF _ wf] by blast
  have s: "\<not> has_suffix [0x44] ipc_name" "last (split_byte 0x5c [0x44]) = [0x44]" "find_share sample_env (w_srv sample_world) [0x44] = Some 0"
    by (simp_all add: has_suffix_def ipc_name_def ascii_def find_share_def sample_world_def new_world_def NewServer_def sample_env_def)
  have "sends_plain (w_conn sample_world) None" "in_io sample_inp = Sent"
    "\<forall>i. map_of (w_byName sample_world) [0x44] = Some i \<longrightarrow> tc_shareFlags (tree_at sample_world i) = 0"
    by (simp_all add: sample_world_def new_world_def sample_inp_def)
  from tree_connect_ok [OF p(1) this] obtain w' where "tree_connect sample_env sample_inp pkt [0x44] SMB2_SHARE_TYPE_DISK disk_access (Tree_file 0) sample_world = Some (w', None)"
    by blast
  then have "conn_treeConnect sample_env sample_inp pkt sample_world = Some (w', None)"
    using is_request_accept [OF p(1)] p(2,3) s by (simp add: conn_treeConnect_def Let_def)
  then show ?thesis using that p by blast
qed

theorem worlds_well_formed_witness:
  "\<exists>w :: unit world. run_reach w \<and> map_of (w_byId w) 7 = Some 0 \<and> 0 < tc_refCount (tree_at w 0)"
proof -
  obtain pkt w' where p: "is_request SMB2_TREE_CONNECT zero_header pkt" "TreeConnectRequestDecoder_IsInvalid (drop 64 pkt) = Some False"
      "TreeConnectRequestDecoder_Path (drop 64 pkt) = Some [0x44]" "conn_treeConnect sample_env sample_inp pkt sample_world = Some (w', None)"
    by (rule sample_connect)
  have "run_reach sample_world" by (rule run_start) (simp_all add: sample_world_def new_world_def NewServer_def)
  moreover have "map_of (w_byId sample_world) (in_rand32 (re_inp sample_run)) = None" by (simp add: sample_world_def new_world_def)
  moreover have "conn_Run_round sample_run None None pkt sample_world = Some (Some ((w', None, None), None))"
    using p(1,4) by (simp add: conn_Run_round_def is_request_def header_reads_def sample_run_def without_ctx_def)
  ultimately have r: "run_reach w'" by (rule run_request)
  have q: "requested sample_env (w_srv sample_world) [0x44] = Some [0x44]"
    by (simp add: requested_def has_suffix_def ipc_name_def ascii_def find_share_def sample_world_def new_world_def NewServer_def sample_env_def)
  obtain kind where "same_login (add_tree 7 [0x44] kind sample_world) w'"
    using treeConnect_maps [OF p] q by (auto simp: sample_world_def new_world_def sample_inp_def)
  then have "map_of (w_byId w') 7 = Some 0"
    by (simp add: same_login_def add_tree_def sample_world_def new_world_def)
  then show ?thesis using worlds_well_formed [OF r] r by auto
qed


definition sample_files :: "DirInfo list run_env" where
  "sample_files = \<lparr>re_env = sample_env, re_inp = sample_inp, re_vfs = (\<lambda>_. list_vfs sample_dir), re_regexp = (\<lambda>_ _. None), re_conn = 0,
     re_pipe = FileId_zero, re_ref = 0, re_pick = 0\<rparr>"

lemma sample_locks:
  "\<exists>w' c. tree_request sample_files SMB2_LOCK 5 None (replicate 64 0) (dir_world\<lparr>w_byId := [(5, 0)]\<rparr>) = Some (Some ((w', c, None), None))"
proof -
  let ?w = "dir_world\<lparr>w_byId := [(5, 0)]\<rparr>"
  obtain h where h: "PrepareResponse zero_header (replicate 64 0) 0 = Some h"
    by (simp add: PrepareResponse_def PacketCodec_CreditRequest_def PacketCodec_MessageId_def PacketCodec_Command_def PacketCodec_Flags_def
        PacketCodec_IsSmb1_def MAGIC2_def un_at_eqs)
  have k: "packet_ok (LockResponse_packet m)" for m by (rule LockResponse_pkt.packet_of_ok) simp
  have s: "sends_plain (w_conn ?w) (Some (tree_tc dir_tree))" "in_io sample_inp = Sent"
    by (simp_all add: dir_world_def new_world_def new_conn_def sends_plain_def dir_tree_def sample_inp_def)
  obtain w' c where "send_packet sample_env sample_inp (LockResponse_packet \<lparr>LockResponse_Header = h\<rparr>) (Some (tree_tc dir_tree)) None ?w = Some (w', c, None)"
    by (rule send_alone_sent [OF k s, of "\<lparr>LockResponse_Header = h\<rparr>" sample_env]) (auto simp: send_alone_def split: bind_splits)
  then show ?thesis
    using h by (auto simp: tree_request_def file_dispatch_def fileTree_lock_def reply_def no_task_def sample_files_def tree_env_of_def dir_world_def
        dir_tree_def tree_of_def)
qed


text \<open>C34. A client that is not logged in can stop the server. A tree connect before any login succeeds and makes a tree without a session; then
  any request on that tree - whatever its bytes - panics, because every handler of a file tree first follows the session. Nothing recovers the
  panic.
\<close>

theorem tree_without_session_panics:
  assumes "conn_session (w_conn w) = None" "map_of (w_byName w) name = None" "requested E (w_srv w) p = Some name" "name \<noteq> ipc_name"
    and "is_request SMB2_TREE_CONNECT h pkt" "TreeConnectRequestDecoder_IsInvalid (drop 64 pkt) = Some False"
      "TreeConnectRequestDecoder_Path (drop 64 pkt) = Some p" "conn_treeConnect E I pkt w = Some (w', e)"
    and "PacketCodec_Command req = Some cmd" "PacketCodec_TreeId req = Some (in_rand32 I)"
    and "cmd \<in> {SMB2_CREATE, SMB2_CLOSE, SMB2_FLUSH, SMB2_READ, SMB2_WRITE, SMB2_LOCK, SMB2_IOCTL, SMB2_QUERY_DIRECTORY, SMB2_CHANGE_NOTIFY,
      SMB2_QUERY_INFO, SMB2_SET_INFO, SMB2_OPLOCK_BREAK}"
  shows "conn_Run_round R None None req w' = Some None"
proof -
  obtain n where "same_login (add_tree (in_rand32 I) name (Tree_file n) w) w'"
    using assms(2-8) is_request_accept [OF assms(5)]
    by (auto simp: conn_treeConnect_def Let_def requested_def split: if_split_asm option.split_asm dest!: tree_connect_maps)
  then have t: "map_of (w_byId w') (in_rand32 I) = Some (length (w_trees w))" "tree_kind (w_trees w' ! length (w_trees w)) = Tree_file n"
      "tree_session (w_trees w' ! length (w_trees w)) = None"
    using assms(1) by (simp_all add: same_login_def add_tree_def update_conv')
  have x: "tree_session (tree_of (tree_env_of R (length (w_trees w)) n) w') = None" using t(3) by (simp add: tree_of_def tree_env_of_def)
  have "tree_request R cmd (in_rand32 I) None req w' = Some None"
    using assms(11) t(1,2) x
    by (auto simp: tree_request_def file_dispatch_def no_task_def fileTree_create_def fileTree_close_def fileTree_flush_def fileTree_read_def
        fileTree_write_def fileTree_lock_def fileTree_ioctl_def fileTree_queryDirectory_def fileTree_changeNotify_def fileTree_queryInfo_def
        fileTree_setInfo_def fileTree_oplockBreak_def)
  moreover have "cmd \<notin> {SMB2_NEGOTIATE, SMB_COM_NEGOTIATE, SMB2_SESSION_SETUP, SMB2_LOGOFF, SMB2_TREE_CONNECT, SMB2_TREE_DISCONNECT, SMB2_ECHO, SMB2_CANCEL}"
    using assms(11) by auto
  ultimately show ?thesis
    using assms(9,10)
    by (cases "PacketCodec_MessageId req"; cases "PacketCodec_SessionId req"; cases "PacketCodec_Flags req"; simp add: conn_Run_round_def)
qed

definition sample_request :: bytes where
  "sample_request = [0xFE, 0x53, 0x4D, 0x42, 64, 0] @ replicate 6 0 @ [6, 0] @ replicate 22 0 @ [7, 0, 0, 0] @ replicate 24 0"

theorem tree_without_session_panics_witness:
  "\<exists>pkt w'. conn_Run_round sample_run None None pkt sample_world = Some (Some ((w', None, None), None)) \<and>
     conn_Run_round sample_run None None sample_request w' = Some None"
proof -
  obtain pkt w' where p: "is_request SMB2_TREE_CONNECT zero_header pkt" "TreeConnectRequestDecoder_IsInvalid (drop 64 pkt) = Some False"
      "TreeConnectRequestDecoder_Path (drop 64 pkt) = Some [0x44]" "conn_treeConnect sample_env sample_inp pkt sample_world = Some (w', None)"
    by (rule sample_connect)
  have c: "conn_Run_round sample_run None None pkt sample_world = Some (Some ((w', None, None), None))"
    using p(1,4) by (simp add: conn_Run_round_def is_request_def header_reads_def sample_run_def without_ctx_def)
  have a: "conn_session (w_conn sample_world) = None" "map_of (w_byName sample_world) [0x44] = None"
      "requested sample_env (w_srv sample_world) [0x44] = Some [0x44]" "[0x44] \<noteq> ipc_name"
    by (simp_all add: sample_world_def new_world_def new_conn_def requested_def has_suffix_def ipc_name_def ascii_def find_share_def NewServer_def
        sample_env_def)
  have "PacketCodec_Command sample_request = Some SMB2_CLOSE" "PacketCodec_TreeId sample_request = Some (in_rand32 sample_inp)"
    by (simp_all add: sample_request_def PacketCodec_Command_def PacketCodec_TreeId_def PacketCodec_IsSmb1_def un_at_eqs rd_def word_of_le_def
        sample_inp_def MAGIC2_def)
  from tree_without_session_panics [OF a p this] c show ?thesis by auto
qed

text \<open>C12. The last close deletes. Closing a handle without POSIX semantics closes it in the file system and takes its open out of the table. The
  file is unlinked, before that, exactly if it was marked for deletion or the handle was opened to delete it, and no other handle of the
  server has the same node open; otherwise the mark stays for the last of them, and after the unlinking it is gone.
\<close>

theorem last_close_unlinks:
  assumes "table_ok (srv_table (w_srv w))" "get_open (FileId_HandleId f) w = Some o'" "\<not> Open_posixSemantics o'"
    and "close_handle X f (Some o') status w = (status', w')"
    and "marked \<longleftrightarrow> Server_isDeletePending (Open_durableFileId o') (srv_table (w_srv w)) \<or> Open_deleteOnClose o'"
    and "alone \<longleftrightarrow> (\<forall>g y. g \<noteq> FileId_HandleId f \<longrightarrow> get_open g w = Some y \<longrightarrow> Open_durableFileId y \<noteq> Open_durableFileId o')"
  shows "fs_state X w' = snd (vfs_Close (te_vfs X) (FileId_HandleId f)
      (if marked \<and> alone then snd (vfs_Unlink (te_vfs X) (FileId_HandleId f) (fs_state X w)) else fs_state X w)) \<and>
    get_open (FileId_HandleId f) w' = None \<and>
    (Server_isDeletePending (Open_durableFileId o') (srv_table (w_srv w')) \<longleftrightarrow> marked \<and> \<not> alone)"
proof -
  let ?t = "srv_table (w_srv w)"
  have h: "Open_fileId o' = FileId_HandleId f" using map_of_fileId assms(1,2) by (simp add: get_open_def)
  obtain del t where c: "Server_closeOpen o' ?t = (del, t)" by fastforce
  have del: "del \<longleftrightarrow> marked \<and> alone"
    using closeOpen_reports [OF assms(1), of o'] c assms(5,6) h by (simp add: get_open_def)
  have t: "Server_getOpen (FileId_HandleId f) t = None" "Server_isDeletePending (Open_durableFileId o') t \<longleftrightarrow> \<not> del \<and> marked"
    using getOpen_closeOpen [of "FileId_HandleId f" o' ?t] pending_closeOpen [of "Open_durableFileId o'" o' ?t] c h assms(5) by simp_all
  have "fs_state X w' = snd (vfs_Close (te_vfs X) (FileId_HandleId f)
      (if del then snd (vfs_Unlink (te_vfs X) (FileId_HandleId f) (fs_state X w)) else fs_state X w)) \<and> srv_table (w_srv w') = t"
    using assms(3,4) c by (auto simp: close_handle_def fileTree_applyPosixDeleteOnClose_def fs_call_def fs_state_def on_table_def Let_def split: prod.splits if_splits)
  then show ?thesis using t del by (auto simp: get_open_def)
qed

definition unlink_env :: "DirInfo list tree_env" where
  "unlink_env = dir_env\<lparr>te_vfs := (list_vfs [])\<lparr>vfs_Unlink := (\<lambda>_ _. (None, []))\<rparr>\<rparr>"

definition unlink_world :: "DirInfo list world" where
  "unlink_world = dir_world\<lparr>w_srv := (w_srv dir_world)\<lparr>srv_table := new_table\<lparr>tab_opens := [(7, sample_open)]\<rparr>, srv_fs := (\<lambda>_. sample_dir)\<rparr>\<rparr>"

theorem last_close_unlinks_witness:
  "fs_state unlink_env unlink_world = sample_dir \<and> get_open 7 unlink_world = Some sample_open \<and>
   (\<exists>st w'. close_handle unlink_env \<lparr>FileId_Persistent = replicate 8 0, FileId_Volatile = [7, 0, 0, 0, 0, 0, 0, 0]\<rparr> (Some sample_open) 0 unlink_world = (st, w') \<and>
     fs_state unlink_env w' = [] \<and> get_open 7 w' = None)"
proof -
  let ?f = "\<lparr>FileId_Persistent = replicate 8 0, FileId_Volatile = [7, 0, 0, 0, 0, 0, 0, 0]\<rparr>"
  have h: "FileId_HandleId ?f = 7" by (simp add: FileId_HandleId_def word_of_le_def)
  have o: "get_open 7 unlink_world = Some sample_open" "get_open g unlink_world = (if g = 7 then Some sample_open else None)" for g
    by (simp_all add: get_open_def unlink_world_def Server_getOpen_def)
  have t: "table_ok (srv_table (w_srv unlink_world))" by (simp add: unlink_world_def table_ok_def new_table_def)
  have s: "fs_state unlink_env unlink_world = sample_dir" by (simp add: fs_state_def unlink_world_def)
  obtain st w' where c: "close_handle unlink_env ?f (Some sample_open) 0 unlink_world = (st, w')" by fastforce
  have "\<not> Open_posixSemantics sample_open" by (simp add: sample_open_def)
  from last_close_unlinks [OF t _ this c refl refl] show ?thesis
    using o s c by (simp add: h unlink_env_def list_vfs_def dir_env_def)
qed

end
