(* ===== verification/Host_Os.thy ===== *)
theory Host_Os
  imports File_Dir
begin

text \<open>
  What the back end of the server calls outside the repository: the packages \<open>os\<close>, \<open>syscall\<close> and \<open>xattr\<close>, as one record of
  operations on a host state that the theories using it leave open. A query leaves the state alone. The theory also holds the
  functions on slash-separated paths of the standard library that the back end uses.
\<close>

section \<open>The host\<close>

text \<open>\<open>vfs.Stat\<close>, which \<open>vfs.CompatStat\<close> makes of the system's part of an \<open>os.FileInfo\<close>, if it knows it.\<close>

record Stat =
  Stat_Ino :: u64
  Stat_Dev :: u64
  Stat_Blocks :: u64
  Stat_BlkSize :: u32
  Stat_Nlink :: u32
  Stat_UID :: u32
  Stat_GID :: u32
  Stat_Mtime :: gotime
  Stat_Atime :: gotime
  Stat_Ctime :: gotime
  Stat_Btime :: gotime

record FileInfo =
  FileInfo_Size :: u64
  FileInfo_Mode :: u32
  FileInfo_ModTime :: gotime
  FileInfo_Sys :: "Stat option"

abbreviation (input) "ModeDir \<equiv> (0x80000000 :: u32)"
abbreviation (input) "ModeSymlink \<equiv> (0x8000000 :: u32)"
abbreviation (input) "ModeType \<equiv> (0x8F280000 :: u32)"

definition FileInfo_IsDir :: "FileInfo \<Rightarrow> bool" where
  "FileInfo_IsDir i \<longleftrightarrow> FileInfo_Mode i AND ModeDir \<noteq> 0"

definition FileInfo_IsSymlink :: "FileInfo \<Rightarrow> bool" where
  "FileInfo_IsSymlink i \<longleftrightarrow> FileInfo_Mode i AND ModeSymlink \<noteq> 0"

definition FileInfo_IsRegular :: "FileInfo \<Rightarrow> bool" where
  "FileInfo_IsRegular i \<longleftrightarrow> FileInfo_Mode i AND ModeType = 0"

record Statfs =
  Statfs_Bavail :: u64
  Statfs_Bsize :: u64
  Statfs_Files :: u64
  Statfs_Bfree :: u64
  Statfs_Ffree :: u64

type_synonym fd = nat

datatype xattr_error = XE_NoAttr | XE_Other vfs_error

type_synonym dir_entry = "go_string \<times> (vfs_error + FileInfo)"

record 'o host =
  os_Stat :: "go_string \<Rightarrow> 'o \<Rightarrow> vfs_error + FileInfo"
  os_Lstat :: "go_string \<Rightarrow> 'o \<Rightarrow> vfs_error + FileInfo"
  os_ReadFile :: "go_string \<Rightarrow> 'o \<Rightarrow> vfs_error + bytes"
  os_Readlink :: "go_string \<Rightarrow> 'o \<Rightarrow> vfs_error + go_string"
  os_OpenFile :: "go_string \<Rightarrow> u32 \<Rightarrow> u32 \<Rightarrow> 'o \<Rightarrow> (vfs_error + fd) \<times> 'o"
  sys_Open :: "go_string \<Rightarrow> u32 \<Rightarrow> 'o \<Rightarrow> (vfs_error + fd) \<times> 'o"
  os_Mkdir :: "go_string \<Rightarrow> u32 \<Rightarrow> 'o \<Rightarrow> vfs_error option \<times> 'o"
  os_MkdirAll :: "go_string \<Rightarrow> u32 \<Rightarrow> 'o \<Rightarrow> vfs_error option \<times> 'o"
  os_Remove :: "go_string \<Rightarrow> 'o \<Rightarrow> vfs_error option \<times> 'o"
  os_Rename :: "go_string \<Rightarrow> go_string \<Rightarrow> 'o \<Rightarrow> vfs_error option \<times> 'o"
  os_Symlink :: "go_string \<Rightarrow> go_string \<Rightarrow> 'o \<Rightarrow> vfs_error option \<times> 'o"
  os_Truncate :: "go_string \<Rightarrow> u64 \<Rightarrow> 'o \<Rightarrow> vfs_error option \<times> 'o"
  os_Chmod :: "go_string \<Rightarrow> u32 \<Rightarrow> 'o \<Rightarrow> vfs_error option \<times> 'o"
  os_Chtimes :: "go_string \<Rightarrow> gotime \<Rightarrow> gotime \<Rightarrow> 'o \<Rightarrow> vfs_error option \<times> 'o"
  f_Stat :: "fd \<Rightarrow> 'o \<Rightarrow> vfs_error + FileInfo"
  f_Close :: "fd \<Rightarrow> 'o \<Rightarrow> vfs_error option \<times> 'o"
  f_Sync :: "fd \<Rightarrow> 'o \<Rightarrow> vfs_error option \<times> 'o"
  f_ReadAt :: "fd \<Rightarrow> nat \<Rightarrow> u64 \<Rightarrow> 'o \<Rightarrow> bytes \<times> vfs_error option"
  f_WriteAt :: "fd \<Rightarrow> bytes \<Rightarrow> u64 \<Rightarrow> 'o \<Rightarrow> (nat \<times> vfs_error option) \<times> 'o"
  f_Write :: "fd \<Rightarrow> bytes \<Rightarrow> 'o \<Rightarrow> vfs_error option \<times> 'o"
  f_Rewind :: "fd \<Rightarrow> 'o \<Rightarrow> 'o"
  f_ReadDir :: "fd \<Rightarrow> nat \<Rightarrow> 'o \<Rightarrow> (dir_entry list \<times> vfs_error option) \<times> 'o"
  sys_Statfs :: "go_string \<Rightarrow> 'o \<Rightarrow> vfs_error + Statfs"
  xattr_FGet :: "fd \<Rightarrow> go_string \<Rightarrow> 'o \<Rightarrow> vfs_error + bytes"
  xattr_FList :: "fd \<Rightarrow> 'o \<Rightarrow> vfs_error + go_string list"
  xattr_FSet :: "fd \<Rightarrow> go_string \<Rightarrow> bytes \<Rightarrow> 'o \<Rightarrow> vfs_error option \<times> 'o"
  xattr_FRemove :: "fd \<Rightarrow> go_string \<Rightarrow> 'o \<Rightarrow> vfs_error option \<times> 'o"
  xattr_Set :: "go_string \<Rightarrow> go_string \<Rightarrow> bytes \<Rightarrow> 'o \<Rightarrow> vfs_error option \<times> 'o"
  xattr_Remove :: "go_string \<Rightarrow> go_string \<Rightarrow> 'o \<Rightarrow> xattr_error option \<times> 'o"
  rand_uint64 :: "'o \<Rightarrow> u64 \<times> 'o"

section \<open>Paths\<close>

text \<open>The components of a path. A rooted path starts with a slash.\<close>

definition path_comps :: "go_string \<Rightarrow> go_string list" where
  "path_comps p = filter (\<lambda>c. c \<noteq> []) (split_byte SLASH p)"

definition path_rooted :: "go_string \<Rightarrow> bool" where
  "path_rooted p \<longleftrightarrow> p \<noteq> [] \<and> hd p = SLASH"

text \<open>\<open>filepath.Dir\<close>: the path up to and with the last slash, cleaned.\<close>

definition filepath_Dir :: "go_string \<Rightarrow> go_string" where
  "filepath_Dir p = path_Clean (if SLASH \<in> set p then strings_Join (butlast (split_byte SLASH p)) [SLASH] @ [SLASH] else [])"

fun strip_common :: "'a list \<Rightarrow> 'a list \<Rightarrow> 'a list \<times> 'a list" where
  "strip_common (a # as) (b # bs) = (if a = b then strip_common as bs else (a # as, b # bs))"
| "strip_common as bs = (as, bs)"

text \<open>\<open>filepath.Rel\<close>: up from the base as far as needed, then down to the target; \<open>None\<close> where no such path can be given.\<close>

definition filepath_Rel :: "go_string \<Rightarrow> go_string \<Rightarrow> go_string option" where
  "filepath_Rel basepath targpath =
     (let base = path_Clean basepath; targ = path_Clean targpath in
      if targ = base then Some [DOT]
      else let base = (if base = [DOT] then [] else base) in
        if path_rooted base \<noteq> path_rooted targ then None
        else let (bs, ts) = strip_common (path_comps base) (path_comps targ) in
          if bs \<noteq> [] \<and> hd bs = [DOT, DOT] then None
          else Some (strings_Join (replicate (length bs) [DOT, DOT] @ ts) [SLASH]))"

definition has_prefix :: "go_string \<Rightarrow> go_string \<Rightarrow> bool" where
  "has_prefix s p \<longleftrightarrow> take (length p) s = p"

section \<open>Cleaned paths\<close>

text \<open>A component that \<open>Clean\<close> leaves as it is.\<close>

definition plain_comp :: "go_string \<Rightarrow> bool" where
  "plain_comp c \<longleftrightarrow> c \<noteq> [] \<and> c \<noteq> [DOT] \<and> c \<noteq> [DOT, DOT] \<and> SLASH \<notin> set c"

lemma split_byte_ne [simp]: "split_byte b s \<noteq> []"
  by (cases s) (auto split: list.splits)

lemma split_byte_notin: "c \<in> set (split_byte b s) \<Longrightarrow> b \<notin> set c"
  by (induction s arbitrary: c) (auto split: if_splits list.splits)

lemma split_byte_plain: "b \<notin> set s \<Longrightarrow> split_byte b s = [s]"
  by (induction s) auto

lemma split_byte_append: "b \<notin> set s \<Longrightarrow> split_byte b (s @ b # t) = s # split_byte b t"
  by (induction s) auto

lemma split_byte_app: "split_byte b (s @ b # t) = split_byte b s @ split_byte b t"
  by (induction s) (auto split: list.splits)

lemma split_join: "\<forall>c\<in>set cs. b \<notin> set c \<Longrightarrow> cs \<noteq> [] \<Longrightarrow> split_byte b (strings_Join cs [b]) = cs"
  by (induction cs "[b]" rule: strings_Join.induct) (auto simp: split_byte_plain split_byte_append)

lemma clean_parts_plain:
  "list_all plain_comp out \<Longrightarrow> \<forall>p\<in>set ps. SLASH \<notin> set p \<Longrightarrow> list_all plain_comp (clean_parts True out ps)"
proof (induction ps arbitrary: out)
  case (Cons p ps)
  have "list_all plain_comp (tl out)" using Cons.prems(1) by (cases out) auto
  moreover have "plain_comp p" if "p \<noteq> []" "p \<noteq> [DOT]" "p \<noteq> [DOT, DOT]" using Cons.prems(2) that by (simp add: plain_comp_def)
  ultimately show ?case using Cons by auto
qed (simp add: list_all_iff)

lemma clean_parts_app: "clean_parts True out (ps @ qs) = clean_parts True (rev (clean_parts True out ps)) qs"
  by (induction ps arbitrary: out) auto

lemma clean_parts_id: "list_all plain_comp ps \<Longrightarrow> clean_parts True out ps = rev out @ ps"
  by (induction ps arbitrary: out) (auto simp: plain_comp_def)

lemma clean_parts_up: "list_all plain_comp out \<Longrightarrow> clean_parts True out (replicate n [DOT, DOT] @ ps) = clean_parts True (drop n out) ps"
proof (induction n arbitrary: out)
  case (Suc n)
  then show ?case by (cases out) (auto simp: plain_comp_def)
qed simp

lemma clean_rooted:
  assumes "path_rooted p"
  shows "path_Clean p = SLASH # strings_Join (clean_parts True [] (split_byte SLASH p)) [SLASH]"
  using assms by (auto simp: path_rooted_def path_Clean_def)

lemma comps_rooted:
  assumes "list_all plain_comp cs"
  shows "path_comps (SLASH # strings_Join cs [SLASH]) = cs"
proof (cases "cs = []")
  case False
  have "\<forall>c\<in>set cs. SLASH \<notin> set c" using assms by (auto simp: list_all_iff plain_comp_def)
  moreover have "filter (\<lambda>c. c \<noteq> []) cs = cs" using assms by (auto simp: filter_id_conv list_all_iff plain_comp_def)
  ultimately show ?thesis using split_join [of cs SLASH] False by (simp add: path_comps_def)
qed (simp add: path_comps_def)

lemma comps_clean:
  assumes "path_rooted p"
  shows "path_comps (path_Clean p) = clean_parts True [] (split_byte SLASH p)" "list_all plain_comp (path_comps (path_Clean p))"
    "path_rooted (path_Clean p)"
proof -
  have "list_all plain_comp (clean_parts True [] (split_byte SLASH p))"
    by (intro clean_parts_plain) (auto dest: split_byte_notin)
  then show "path_comps (path_Clean p) = clean_parts True [] (split_byte SLASH p)" "list_all plain_comp (path_comps (path_Clean p))"
    using comps_rooted by (simp_all add: clean_rooted [OF assms])
  show "path_rooted (path_Clean p)" by (simp add: clean_rooted [OF assms] path_rooted_def)
qed

lemma clean_clean:
  assumes "path_rooted p"
  shows "path_Clean (path_Clean p) = path_Clean p"
proof -
  let ?cs = "path_comps (path_Clean p)"
  have p: "path_Clean p = SLASH # strings_Join ?cs [SLASH]" using clean_rooted [OF assms] comps_clean(1) [OF assms] by simp
  have "clean_parts True [] (split_byte SLASH (path_Clean p)) = ?cs"
  proof (cases "?cs = []")
    case True
    then show ?thesis by (subst p) simp
  next
    case False
    have "\<forall>c\<in>set ?cs. SLASH \<notin> set c" using comps_clean(2) [OF assms] by (auto simp: list_all_iff plain_comp_def)
    then have "split_byte SLASH (path_Clean p) = [] # ?cs" using split_join [of ?cs SLASH] False by (subst p) simp
    then show ?thesis using clean_parts_id [OF comps_clean(2) [OF assms], of "[]"] by simp
  qed
  then show ?thesis using clean_rooted [OF comps_clean(3) [OF assms]] p by simp
qed

end
