(* ===== verification/Xattrstore.thy ===== *)
theory Xattrstore
  imports Host_Os "HOL-Library.List_Lexorder"
begin

text \<open>
  \<open>internal/xattrstore/xattrstore.go\<close>: names of extended attributes as the client sees them and as the host stores them. On Linux they
  live under a private prefix. \<open>linux\<close> stands for \<open>runtime.GOOS == "linux"\<close>.
\<close>

abbreviation (input) "linuxPrefix \<equiv> ascii ''user.smbrelay.''"
abbreviation (input) "linuxMaxNameLen \<equiv> (255 :: nat)"

definition nativeNameForOS :: "bool \<Rightarrow> go_string \<Rightarrow> go_string option" where
  "nativeNameForOS linux name =
     (if name = [] then None
      else if 0 \<in> set name then None
      else if \<not> linux then Some name
      else let native = linuxPrefix @ name in if linuxMaxNameLen < length native then None else Some native)"

definition logicalNameForOS :: "bool \<Rightarrow> go_string \<Rightarrow> go_string \<times> bool" where
  "logicalNameForOS linux native =
     (if \<not> linux then (native, True)
      else if \<not> has_prefix native linuxPrefix then ([], False)
      else let logical = drop (length linuxPrefix) native in (logical, logical \<noteq> []))"

text \<open>The loop keeps the first of equal names. Strings are compared bytewise.\<close>

fun logical_loop :: "bool \<Rightarrow> go_string list \<Rightarrow> go_string list \<Rightarrow> go_string list" where
  "logical_loop linux seen [] = []"
| "logical_loop linux seen (n # ns) =
     (let (name, visible) = logicalNameForOS linux n in
      if \<not> visible \<or> name \<in> set seen then logical_loop linux seen ns else name # logical_loop linux (name # seen) ns)"

definition logicalNames :: "bool \<Rightarrow> go_string list \<Rightarrow> go_string list" where
  "logicalNames linux native = sort (logical_loop linux [] native)"

definition FGet :: "'o host \<Rightarrow> bool \<Rightarrow> fd \<Rightarrow> go_string \<Rightarrow> 'o \<Rightarrow> vfs_error + bytes" where
  "FGet H linux f name s = (case nativeNameForOS linux name of None \<Rightarrow> Inl VE_Other | Some n \<Rightarrow> xattr_FGet H f n s)"

definition FSet :: "'o host \<Rightarrow> bool \<Rightarrow> fd \<Rightarrow> go_string \<Rightarrow> bytes \<Rightarrow> 'o \<Rightarrow> vfs_error option \<times> 'o" where
  "FSet H linux f name val s = (case nativeNameForOS linux name of None \<Rightarrow> (Some VE_Other, s) | Some n \<Rightarrow> xattr_FSet H f n val s)"

definition FRemove :: "'o host \<Rightarrow> bool \<Rightarrow> fd \<Rightarrow> go_string \<Rightarrow> 'o \<Rightarrow> vfs_error option \<times> 'o" where
  "FRemove H linux f name s = (case nativeNameForOS linux name of None \<Rightarrow> (Some VE_Other, s) | Some n \<Rightarrow> xattr_FRemove H f n s)"

definition FList :: "'o host \<Rightarrow> bool \<Rightarrow> fd \<Rightarrow> 'o \<Rightarrow> vfs_error + go_string list" where
  "FList H linux f s = (case xattr_FList H f s of Inl e \<Rightarrow> Inl e | Inr ns \<Rightarrow> Inr (logicalNames linux ns))"

definition xattrstore_Set :: "'o host \<Rightarrow> bool \<Rightarrow> go_string \<Rightarrow> go_string \<Rightarrow> bytes \<Rightarrow> 'o \<Rightarrow> vfs_error option \<times> 'o" where
  "xattrstore_Set H linux p name val s = (case nativeNameForOS linux name of None \<Rightarrow> (Some VE_Other, s) | Some n \<Rightarrow> xattr_Set H p n val s)"

definition xattrstore_Remove :: "'o host \<Rightarrow> bool \<Rightarrow> go_string \<Rightarrow> go_string \<Rightarrow> 'o \<Rightarrow> xattr_error option \<times> 'o" where
  "xattrstore_Remove H linux p name s =
     (case nativeNameForOS linux name of None \<Rightarrow> (Some (XE_Other VE_Other), s) | Some n \<Rightarrow> xattr_Remove H p n s)"

text \<open>A stored name is listed under the name it was stored with, and only names that were stored by the server are listed.\<close>

lemma native_logical: "nativeNameForOS linux name = Some n \<Longrightarrow> logicalNameForOS linux n = (name, True)"
  by (auto simp: nativeNameForOS_def logicalNameForOS_def has_prefix_def Let_def split: if_splits)

lemma logical_loop_set:
  "set (logical_loop linux seen ns) = {name. (name, True) \<in> set (map (logicalNameForOS linux) ns)} - set seen \<and>
    distinct (logical_loop linux seen ns)"
proof (induction ns arbitrary: seen)
  case (Cons n ns)
  then show ?case by (cases "logicalNameForOS linux n") auto
qed simp

lemma logicalNames_spec:
  "set (logicalNames linux ns) = {name. (name, True) \<in> set (map (logicalNameForOS linux) ns)}" "distinct (logicalNames linux ns)"
  "sorted (logicalNames linux ns)"
  using logical_loop_set [of linux "[]" ns] by (simp_all add: logicalNames_def)

end
