(* ===== verification/Bulk.thy ===== *)
theory Bulk
  imports Xattrstore
begin

text \<open>
  \<open>bulk/protocol.go\<close> and \<open>bulk/backend.go\<close>: journals that a relay uploads as one file and the server applies to the share. The hash
  and the JSON encoding are arguments; errors are those of the host, and \<open>VE_Other\<close> for those the package makes itself.
\<close>

section \<open>Data\<close>

record Operation =
  Operation_Seq :: u64
  Operation_Type :: go_string
  Operation_Path :: go_string
  Operation_Target :: go_string
  Operation_Name :: go_string
  Operation_Offset :: u64
  Operation_Length :: u64
  Operation_Mode :: u32
  Operation_ATime :: u64
  Operation_MTime :: u64
  Operation_Data :: bytes

record Batch =
  Batch_RelayID :: go_string
  Batch_BatchID :: go_string
  Batch_FirstSeq :: u64
  Batch_LastSeq :: u64
  Batch_Operations :: "Operation list"

record Capabilities =
  Capabilities_Protocol :: go_string
  Capabilities_MaxBatchBytes :: int

record Receipt =
  Receipt_Protocol :: go_string
  Receipt_RelayID :: go_string
  Receipt_BatchID :: go_string
  Receipt_LastSeq :: u64
  Receipt_Hash :: go_string

record applyProgress =
  applyProgress_Version :: int
  applyProgress_RelayID :: go_string
  applyProgress_BatchID :: go_string
  applyProgress_Hash :: go_string
  applyProgress_NextOperation :: int

text \<open>\<open>wireOperation\<close>: an operation without its data, and where these are in the payload.\<close>

record wireOperation =
  wire_op :: Operation
  wire_DataOffset :: u64
  wire_DataLength :: u64

record manifest =
  manifest_RelayID :: go_string
  manifest_BatchID :: go_string
  manifest_FirstSeq :: u64
  manifest_LastSeq :: u64
  manifest_Operations :: "wireOperation list"

record bulk_env =
  be_linux :: bool
  be_sha256 :: "bytes \<Rightarrow> bytes"
  be_manifest :: "manifest \<Rightarrow> bytes option"
  be_unmanifest :: "bytes \<Rightarrow> manifest option"
  be_progress :: "applyProgress \<Rightarrow> bytes option"
  be_unprogress :: "bytes \<Rightarrow> applyProgress option"
  be_capabilities :: "Capabilities \<Rightarrow> bytes"
  be_receipt :: "Receipt \<Rightarrow> bytes"
  be_unreceipt :: "bytes \<Rightarrow> Receipt option"

section \<open>The package format\<close>

abbreviation (input) "bulk_Protocol \<equiv> ascii ''smbrelay-bulk-journal-v2''"
abbreviation (input) "bulk_Directory \<equiv> ascii ''.smbrelay-bulk-v2''"

definition bulk_magic :: bytes where
  "bulk_magic = ascii ''SMBRBLK2''"

definition hex_digit :: "u8 \<Rightarrow> u8" where
  "hex_digit d = (if d < 10 then 0x30 + d else 0x57 + d)"

definition hex_EncodeToString :: "bytes \<Rightarrow> go_string" where
  "hex_EncodeToString bs = concat (map (\<lambda>b. [hex_digit (drop_bit 4 b), hex_digit (b AND 15)]) bs)"

text \<open>The loop over the operations: their wire form and the payload.\<close>

fun encode_ops :: "bytes \<Rightarrow> Operation list \<Rightarrow> wireOperation list \<times> bytes" where
  "encode_ops payload [] = ([], payload)"
| "encode_ops payload (op # ops) =
     (let d = Operation_Data op;
          wire = \<lparr>wire_op = op\<lparr>Operation_Data := []\<rparr>, wire_DataOffset = (if d \<noteq> [] then of_nat (length payload) else 0),
            wire_DataLength = (if d \<noteq> [] then of_nat (length d) else 0)\<rparr>;
          (ws, payload) = encode_ops (payload @ d) ops
      in (wire # ws, payload))"

definition bulk_Encode :: "bulk_env \<Rightarrow> Batch \<Rightarrow> vfs_error + bytes \<times> go_string" where
  "bulk_Encode B b =
     (let (ws, payload) = encode_ops [] (Batch_Operations b) in
      case be_manifest B \<lparr>manifest_RelayID = Batch_RelayID b, manifest_BatchID = Batch_BatchID b, manifest_FirstSeq = Batch_FirstSeq b,
        manifest_LastSeq = Batch_LastSeq b, manifest_Operations = ws\<rparr> of
        None \<Rightarrow> Inl VE_Other
      | Some mb \<Rightarrow>
          if 2 ^ 32 - 1 < length mb then Inl VE_Other
          else let body = mb @ payload; sum = be_sha256 B body in
            Inr (bulk_magic @ be_of_word 4 (of_nat (length mb) :: u32) @ be_of_word 8 (of_nat (length payload) :: u64) @ sum @ body,
              hex_EncodeToString sum))"

text \<open>\<open>None\<close> inside where the data of an operation lie outside the payload.\<close>

definition decode_op :: "bytes \<Rightarrow> wireOperation \<Rightarrow> Operation option" where
  "decode_op payload wire =
     (if wire_DataLength wire = 0 then Some ((wire_op wire)\<lparr>Operation_Data := []\<rparr>)
      else let stop = wire_DataOffset wire + wire_DataLength wire in
        if stop < wire_DataOffset wire \<or> of_nat (length payload) < stop then None
        else Some ((wire_op wire)\<lparr>Operation_Data := rd (unat (wire_DataOffset wire)) (unat (wire_DataLength wire)) payload\<rparr>))"

text \<open>The lengths are added modulo \<open>2 ^ 64\<close>, and the manifest is then sliced out by its own length.\<close>

definition bulk_Decode :: "bulk_env \<Rightarrow> bytes \<Rightarrow> (vfs_error + Batch \<times> go_string) option" where
  "bulk_Decode B data =
     (if length data < 52 \<or> take 8 data \<noteq> bulk_magic then Some (Inl VE_Other)
      else let ml = word_of_be (rd 8 4 data) :: u32; pl = word_of_be (rd 12 8 data) :: u64; body = drop 52 data in
        if of_nat (length body) \<noteq> (ucast ml :: u64) + pl then Some (Inl VE_Other)
        else let sum = be_sha256 B body in
          if sum \<noteq> rd 20 32 data then Some (Inl VE_Other)
          else do {
            mb \<leftarrow> go_slice body 0 (unat ml);
            Some (case be_unmanifest B mb of
                None \<Rightarrow> Inl VE_Other
              | Some m \<Rightarrow> (case those (map (decode_op (drop (unat ml) body)) (manifest_Operations m)) of
                  None \<Rightarrow> Inl VE_Other
                | Some ops \<Rightarrow> Inr (\<lparr>Batch_RelayID = manifest_RelayID m, Batch_BatchID = manifest_BatchID m, Batch_FirstSeq = manifest_FirstSeq m,
                    Batch_LastSeq = manifest_LastSeq m, Batch_Operations = ops\<rparr>, hex_EncodeToString sum))) })"

definition ReceiptPath :: "bulk_env \<Rightarrow> go_string \<Rightarrow> go_string" where
  "ReceiptPath B relayID = bulk_Directory @ ascii ''/receipts/'' @ hex_EncodeToString (take 16 (be_sha256 B relayID)) @ ascii ''.json''"

definition ReadyPath :: "bulk_env \<Rightarrow> go_string \<Rightarrow> go_string" where
  "ReadyPath B batchID = bulk_Directory @ ascii ''/inbox/'' @ hex_EncodeToString (take 16 (be_sha256 B batchID)) @ ascii ''.ready''"

section \<open>Checking a batch\<close>

fun ops_in_order :: "u64 \<Rightarrow> u64 \<Rightarrow> u64 option \<Rightarrow> Operation list \<Rightarrow> bool" where
  "ops_in_order first last' previous [] = True"
| "ops_in_order first last' previous (op # ops) \<longleftrightarrow>
     \<not> (Operation_Seq op < first \<or> last' < Operation_Seq op \<or> (case previous of None \<Rightarrow> False | Some p \<Rightarrow> Operation_Seq op < p)) \<and>
     (Operation_Type op = ascii ''write'' \<longrightarrow> of_nat (length (Operation_Data op)) = Operation_Length op) \<and>
     ops_in_order first last' (Some (Operation_Seq op)) ops"

definition validateBatch :: "Batch \<Rightarrow> bool" where
  "validateBatch b \<longleftrightarrow> Batch_RelayID b \<noteq> [] \<and> Batch_BatchID b \<noteq> [] \<and> Batch_Operations b \<noteq> [] \<and>
     Batch_FirstSeq b \<noteq> 0 \<and> Batch_FirstSeq b \<le> Batch_LastSeq b \<and>
     ops_in_order (Batch_FirstSeq b) (Batch_LastSeq b) None (Batch_Operations b)"

definition resolve :: "go_string \<Rightarrow> go_string \<Rightarrow> go_string option" where
  "resolve root name =
     (let clean = path_Clean (path_Join2 root (replace_byte 0x5C [SLASH] name)) in
      case filepath_Rel root clean of
        None \<Rightarrow> None
      | Some rel \<Rightarrow> if rel = [DOT, DOT] \<or> has_prefix rel [DOT, DOT, SLASH] then None else Some clean)"

section \<open>Applying a batch\<close>

text \<open>A step on the host that may fail.\<close>

type_synonym ('o, 'a) io = "'o \<Rightarrow> (vfs_error + 'a) \<times> 'o"

definition io_bind :: "('o, 'a) io \<Rightarrow> ('a \<Rightarrow> ('o, 'b) io) \<Rightarrow> ('o, 'b) io" where
  "io_bind m f s = (case m s of (Inl e, s) \<Rightarrow> (Inl e, s) | (Inr a, s) \<Rightarrow> f a s)"

definition io_ok :: "'a \<Rightarrow> ('o, 'a) io" where
  "io_ok a s = (Inr a, s)"

definition io_err :: "vfs_error \<Rightarrow> ('o, 'a) io" where
  "io_err e s = (Inl e, s)"

definition io_of :: "('o \<Rightarrow> vfs_error option \<times> 'o) \<Rightarrow> ('o, unit) io" where
  "io_of m s = (case m s of (None, s) \<Rightarrow> (Inr (), s) | (Some e, s) \<Rightarrow> (Inl e, s))"

definition io_query :: "('o \<Rightarrow> vfs_error + 'a) \<Rightarrow> ('o, 'a) io" where
  "io_query m s = (m s, s)"

text \<open>\<open>syncFile\<close> and \<open>syncDirectory\<close> are the same calls.\<close>

definition syncFile :: "'o host \<Rightarrow> go_string \<Rightarrow> ('o, unit) io" where
  "syncFile H p = io_bind (os_OpenFile H p 0 0) (\<lambda>f s.
     let (e, s) = f_Sync H f s; (e', s) = f_Close H f s in
     (case (if e = None then e' else e) of None \<Rightarrow> Inr () | Some e \<Rightarrow> Inl e, s))"

definition syncDirectory :: "'o host \<Rightarrow> go_string \<Rightarrow> ('o, unit) io" where
  "syncDirectory H p = io_bind (os_OpenFile H p 0 0) (\<lambda>f s.
     let (e, s) = f_Sync H f s; (e', s) = f_Close H f s in
     (case (if e = None then e' else e) of None \<Rightarrow> Inr () | Some e \<Rightarrow> Inl e, s))"

definition writeAtomic :: "'o host \<Rightarrow> go_string \<Rightarrow> bytes \<Rightarrow> ('o, unit) io" where
  "writeAtomic H p data = io_bind (io_of (os_MkdirAll H (filepath_Dir p) 0x1C0)) (\<lambda>_.
     let tmp = p @ ascii ''.tmp'' in
     io_bind (os_OpenFile H tmp (O_CREATE OR O_TRUNC OR 1) 0x180) (\<lambda>f.
     io_bind (\<lambda>s.
       let (e, s) = f_Write H f data s;
           (e, s) = (if e = None then f_Sync H f s else (e, s));
           (e', s) = f_Close H f s
       in (case (if e = None then e' else e) of None \<Rightarrow> Inr () | Some e \<Rightarrow> Inl e, s)) (\<lambda>_.
     io_bind (io_of (os_Rename H tmp p)) (\<lambda>_. syncDirectory H (filepath_Dir p)))))"

definition laterSymlinkReplaces :: "Operation list \<Rightarrow> go_string \<Rightarrow> bool" where
  "laterSymlinkReplaces ops name =
     (case filter (\<lambda>op. Operation_Path op = name) ops of [] \<Rightarrow> False | op # _ \<Rightarrow> Operation_Type op = ascii ''symlink'')"

text \<open>The writes to one file, in order; the file is opened and synced once.\<close>

fun write_ops :: "'o host \<Rightarrow> fd \<Rightarrow> Operation list \<Rightarrow> ('o, unit) io" where
  "write_ops H f [] s = (Inr (), s)"
| "write_ops H f (op # ops) s =
     (let ((n, e), s) = f_WriteAt H f (Operation_Data op) (Operation_Offset op) s;
          e = (if e = None \<and> n \<noteq> length (Operation_Data op) then Some VE_Other else e) in
      case e of
        Some e \<Rightarrow> let (_, s) = f_Close H f s in (Inl e, s)
      | None \<Rightarrow> write_ops H f ops s)"

definition write_file :: "'o host \<Rightarrow> go_string \<Rightarrow> Operation list \<Rightarrow> ('o, unit) io" where
  "write_file H p ops = io_bind (os_OpenFile H p O_RDWR 0x180) (\<lambda>f.
     io_bind (write_ops H f ops) (\<lambda>_ s.
       let (e, s) = f_Sync H f s in
       case e of
         Some e \<Rightarrow> let (_, s) = f_Close H f s in (Inl e, s)
       | None \<Rightarrow> io_of (f_Close H f) s))"

text \<open>\<open>order\<close> and \<open>byPath\<close>: the paths in the order of their first write, each with its writes.\<close>

fun group_add :: "go_string \<Rightarrow> Operation \<Rightarrow> (go_string \<times> Operation list) list \<Rightarrow> (go_string \<times> Operation list) list" where
  "group_add p op [] = [(p, [op])]"
| "group_add p op ((q, ops) # gs) = (if p = q then (q, ops @ [op]) # gs else (q, ops) # group_add p op gs)"

fun group_ops :: "go_string \<Rightarrow> (go_string \<times> Operation list) list \<Rightarrow> Operation list \<Rightarrow> (go_string \<times> Operation list) list option" where
  "group_ops root gs [] = Some gs"
| "group_ops root gs (op # ops) =
     (case resolve root (Operation_Path op) of None \<Rightarrow> None | Some p \<Rightarrow> group_ops root (group_add p op gs) ops)"

fun write_groups :: "'o host \<Rightarrow> (go_string \<times> Operation list) list \<Rightarrow> ('o, unit) io" where
  "write_groups H [] = io_ok ()"
| "write_groups H ((p, ops) # gs) = io_bind (write_file H p ops) (\<lambda>_. write_groups H gs)"

definition applyWriteRun :: "'o host \<Rightarrow> go_string \<Rightarrow> Operation list \<Rightarrow> ('o, unit) io" where
  "applyWriteRun H root ops = (case group_ops root [] ops of None \<Rightarrow> io_err VE_Other | Some gs \<Rightarrow> write_groups H gs)"

definition if_not_symlink :: "'o host \<Rightarrow> go_string \<Rightarrow> ('o, unit) io \<Rightarrow> ('o, unit) io" where
  "if_not_symlink H p m = io_bind (io_query (os_Lstat H p)) (\<lambda>i. if FileInfo_IsSymlink i then io_ok () else m)"

definition create_op :: "'o host \<Rightarrow> go_string \<Rightarrow> Operation \<Rightarrow> Operation list \<Rightarrow> ('o, unit) io" where
  "create_op H p op later s =
     (let (r, s) = os_OpenFile H p (O_CREATE OR O_EXCL OR O_RDWR) (Operation_Mode op) s;
          (e, s) = (case r of
            Inr f \<Rightarrow>
              let (e, s) = f_Sync H f s; (e', s) = f_Close H f s in (if e = None then e' else e, s)
          | Inl e \<Rightarrow>
              if e = VE_Exist \<and> (case os_Lstat H p s of Inl _ \<Rightarrow> False
                | Inr i \<Rightarrow> FileInfo_IsRegular i \<or> FileInfo_IsSymlink i \<and> laterSymlinkReplaces later (Operation_Path op))
              then (None, s) else (Some e, s))
      in case e of Some e \<Rightarrow> (Inl e, s) | None \<Rightarrow> syncDirectory H (filepath_Dir p) s)"

definition rename_op :: "'o host \<Rightarrow> go_string \<Rightarrow> go_string \<Rightarrow> Operation \<Rightarrow> ('o, unit) io" where
  "rename_op H root p op s =
     (case resolve root (Operation_Target op) of
        None \<Rightarrow> (Inl VE_Other, s)
      | Some target \<Rightarrow>
          let (e, s) = os_Rename H p target s in
          if e \<noteq> None \<and> (os_Lstat H p s \<noteq> Inl VE_NotExist \<or> (case os_Lstat H target s of Inl _ \<Rightarrow> True | Inr _ \<Rightarrow> False))
          then (Inl (the e), s)
          else io_bind (syncDirectory H (filepath_Dir p))
            (\<lambda>_. if filepath_Dir target \<noteq> filepath_Dir p then syncDirectory H (filepath_Dir target) else io_ok ()) s)"

definition apply_op :: "'o host \<Rightarrow> bulk_env \<Rightarrow> go_string \<Rightarrow> Operation \<Rightarrow> Operation list \<Rightarrow> ('o, unit) io" where
  "apply_op H B root op later =
     (case resolve root (Operation_Path op) of
        None \<Rightarrow> io_err VE_Other
      | Some p \<Rightarrow>
          let t = Operation_Type op in
          if t = ascii ''create'' then create_op H p op later
          else if t = ascii ''mkdir'' then
            (\<lambda>s. let (e, s) = os_Mkdir H p (Operation_Mode op) s in
              case e of
                None \<Rightarrow> syncDirectory H (filepath_Dir p) s
              | Some e \<Rightarrow>
                  if e \<noteq> VE_Exist then (Inl e, s)
                  else (case os_Stat H p s of
                      Inl _ \<Rightarrow> (Inl e, s)
                    | Inr i \<Rightarrow> if \<not> FileInfo_IsDir i then (Inl e, s) else syncDirectory H (filepath_Dir p) s))
          else if t = ascii ''truncate'' then io_bind (io_of (os_Truncate H p (Operation_Length op))) (\<lambda>_. syncFile H p)
          else if t = ascii ''setattr'' then
            if_not_symlink H p (io_bind (io_of (os_Chmod H p (Operation_Mode op))) (\<lambda>_.
              io_bind (io_of (os_Chtimes H p (Operation_ATime op) (Operation_MTime op))) (\<lambda>_. syncFile H p)))
          else if t = ascii ''rename'' then rename_op H root p op
          else if t = ascii ''remove'' then
            (\<lambda>s. let (e, s) = os_Remove H p s in
              case e of
                Some e \<Rightarrow> if e \<noteq> VE_NotExist then (Inl e, s) else syncDirectory H (filepath_Dir p) s
              | None \<Rightarrow> syncDirectory H (filepath_Dir p) s)
          else if t = ascii ''symlink'' then
            (\<lambda>s. let (_, s) = os_Remove H p s in
              io_bind (io_of (os_Symlink H (Operation_Target op) p)) (\<lambda>_. syncDirectory H (filepath_Dir p)) s)
          else if t = ascii ''setxattr'' then
            if_not_symlink H p (io_bind (io_of (xattrstore_Set H (be_linux B) p (Operation_Name op) (Operation_Data op))) (\<lambda>_. syncFile H p))
          else if t = ascii ''removexattr'' then
            if_not_symlink H p (\<lambda>s. let (e, s) = xattrstore_Remove H (be_linux B) p (Operation_Name op) s in
              case e of Some (XE_Other e) \<Rightarrow> (Inl e, s) | _ \<Rightarrow> syncFile H p s)
          else io_err VE_Other)"

text \<open>The loop from operation \<open>i\<close> on: a run of writes at once, any other operation alone, and a checkpoint after each.\<close>

abbreviation (input) "is_write op \<equiv> Operation_Type op = ascii ''write''"

function bulk_apply :: "'o host \<Rightarrow> bulk_env \<Rightarrow> go_string \<Rightarrow> (nat \<Rightarrow> ('o, unit) io) \<Rightarrow> nat \<Rightarrow> Operation list \<Rightarrow> ('o, unit) io" where
  "bulk_apply H B root checkpoint i [] = io_ok ()"
| "bulk_apply H B root checkpoint i (op # ops) =
     (if is_write op then
        let run = op # takeWhile is_write ops in
        io_bind (applyWriteRun H root run) (\<lambda>_. io_bind (checkpoint (i + length run)) (\<lambda>_.
          bulk_apply H B root checkpoint (i + length run) (dropWhile is_write ops)))
      else io_bind (apply_op H B root op ops) (\<lambda>_. io_bind (checkpoint (Suc i)) (\<lambda>_. bulk_apply H B root checkpoint (Suc i) ops)))"
  by pat_completeness auto
termination
  by (relation "measure (\<lambda>(_, _, _, _, _, ops). length ops)") (auto simp: less_Suc_eq_le length_dropWhile_le)

declare bulk_apply.simps [simp del]

section \<open>Committing\<close>

definition readApplyProgress :: "'o host \<Rightarrow> bulk_env \<Rightarrow> go_string \<Rightarrow> Batch \<Rightarrow> go_string \<Rightarrow> 'o \<Rightarrow> vfs_error + nat" where
  "readApplyProgress H B p b hash s =
     (case os_ReadFile H p s of
        Inl e \<Rightarrow> if e = VE_NotExist then Inr 0 else Inl e
      | Inr d \<Rightarrow> (case be_unprogress B d of
          None \<Rightarrow> Inl VE_Other
        | Some g \<Rightarrow>
            if applyProgress_Version g \<noteq> 1 \<or> applyProgress_RelayID g \<noteq> Batch_RelayID b \<or> applyProgress_BatchID g \<noteq> Batch_BatchID b \<or>
              applyProgress_Hash g \<noteq> hash \<or> applyProgress_NextOperation g < 0 \<or>
              int (length (Batch_Operations b)) < applyProgress_NextOperation g
            then Inl VE_Other else Inr (nat (applyProgress_NextOperation g))))"

definition removeApplyArtifacts :: "'o host \<Rightarrow> go_string list \<Rightarrow> 'o \<Rightarrow> 'o" where
  "removeApplyArtifacts H paths s =
     (let s = fold (\<lambda>p s. snd (os_Remove H p s)) paths s in
      if paths \<noteq> [] then snd (syncDirectory H (filepath_Dir (hd paths)) s) else s)"

definition readReceipt :: "'o host \<Rightarrow> bulk_env \<Rightarrow> go_string \<Rightarrow> 'o \<Rightarrow> Receipt option" where
  "readReceipt H B p s = (case os_ReadFile H p s of Inl _ \<Rightarrow> None | Inr d \<Rightarrow> be_unreceipt B d)"

definition bulk_checkpoint :: "'o host \<Rightarrow> bulk_env \<Rightarrow> go_string \<Rightarrow> Batch \<Rightarrow> go_string \<Rightarrow> nat \<Rightarrow> ('o, unit) io" where
  "bulk_checkpoint H B p b hash nxt =
     (case be_progress B \<lparr>applyProgress_Version = 1, applyProgress_RelayID = Batch_RelayID b, applyProgress_BatchID = Batch_BatchID b,
        applyProgress_Hash = hash, applyProgress_NextOperation = int nxt\<rparr> of
        None \<Rightarrow> io_err VE_Other
      | Some d \<Rightarrow> writeAtomic H p d)"

definition commit_apply :: "'o host \<Rightarrow> bulk_env \<Rightarrow> go_string \<Rightarrow> go_string \<Rightarrow> go_string \<Rightarrow> go_string \<Rightarrow> Batch \<Rightarrow> go_string \<Rightarrow> ('o, Receipt) io" where
  "commit_apply H B root readyPath progressPath receiptPath b hash =
     io_bind (io_query (readApplyProgress H B progressPath b hash)) (\<lambda>nxt.
     io_bind (bulk_apply H B root (bulk_checkpoint H B progressPath b hash) nxt (drop nxt (Batch_Operations b))) (\<lambda>_.
     let receipt = \<lparr>Receipt_Protocol = bulk_Protocol, Receipt_RelayID = Batch_RelayID b, Receipt_BatchID = Batch_BatchID b,
        Receipt_LastSeq = Batch_LastSeq b, Receipt_Hash = hash\<rparr> in
     io_bind (writeAtomic H receiptPath (be_receipt B receipt)) (\<lambda>_ s. (Inr receipt, removeApplyArtifacts H [readyPath, progressPath] s))))"

text \<open>A decoded batch, from the receipt of the relay on.\<close>

definition commit_batch :: "'o host \<Rightarrow> bulk_env \<Rightarrow> go_string \<Rightarrow> go_string \<Rightarrow> Batch \<Rightarrow> go_string \<Rightarrow> ('o, Receipt) io" where
  "commit_batch H B root readyPath b hash s =
     (let receiptPath = path_Join2 root (ReceiptPath B (Batch_RelayID b));
          progressPath = readyPath @ ascii ''.progress'';
          previous = readReceipt H B receiptPath s in
      case previous of
        Some r \<Rightarrow>
          if Receipt_Protocol r \<noteq> bulk_Protocol \<or> Receipt_RelayID r \<noteq> Batch_RelayID b then (Inl VE_Other, s)
          else if Batch_LastSeq b \<le> Receipt_LastSeq r then (Inr r, removeApplyArtifacts H [readyPath, progressPath] s)
          else if Receipt_LastSeq r + 1 < Batch_FirstSeq b then (Inl VE_Other, s)
          else commit_apply H B root readyPath progressPath receiptPath b hash s
      | None \<Rightarrow> commit_apply H B root readyPath progressPath receiptPath b hash s)"

text \<open>\<open>None\<close> where decoding panics.\<close>

definition CommitReady :: "'o host \<Rightarrow> bulk_env \<Rightarrow> go_string \<Rightarrow> go_string \<Rightarrow> int \<Rightarrow> 'o \<Rightarrow> ((vfs_error + Receipt) \<times> 'o) option" where
  "CommitReady H B root readyPath maxBatchBytes s =
     (case os_Stat H readyPath s of
        Inl e \<Rightarrow> Some (Inl e, s)
      | Inr info \<Rightarrow>
          if 0 < maxBatchBytes \<and> maxBatchBytes < sint (FileInfo_Size info) then Some (Inl VE_Other, s)
          else (case syncDirectory H (filepath_Dir readyPath) s of
              (Inl e, s) \<Rightarrow> Some (Inl e, s)
            | (Inr _, s) \<Rightarrow> (case os_ReadFile H readyPath s of
                Inl e \<Rightarrow> Some (Inl e, s)
              | Inr data \<Rightarrow> do {
                  r \<leftarrow> bulk_Decode B data;
                  Some (case r of
                      Inl e \<Rightarrow> (Inl e, s)
                    | Inr (b, hash) \<Rightarrow> if \<not> validateBatch b then (Inl VE_Other, s) else commit_batch H B root readyPath b hash s) })))"

definition bulk_Initialize :: "'o host \<Rightarrow> bulk_env \<Rightarrow> go_string \<Rightarrow> int \<Rightarrow> ('o, unit) io" where
  "bulk_Initialize H B root maxBatchBytes =
     io_bind (io_of (os_MkdirAll H (path_Join2 root bulk_Directory) 0x1C0)) (\<lambda>_.
     io_bind (io_of (os_MkdirAll H (path_Join2 root (bulk_Directory @ ascii ''/inbox'')) 0x1C0)) (\<lambda>_.
     io_bind (io_of (os_MkdirAll H (path_Join2 root (bulk_Directory @ ascii ''/receipts'')) 0x1C0)) (\<lambda>_.
     writeAtomic H (path_Join2 root (bulk_Directory @ ascii ''/capabilities.json''))
       (be_capabilities B \<lparr>Capabilities_Protocol = bulk_Protocol, Capabilities_MaxBatchBytes = maxBatchBytes\<rparr>))))"

section \<open>Encoding and decoding\<close>

lemma encode_ops_extends: "\<exists>d. snd (encode_ops payload ops) = payload @ d"
proof (induction ops arbitrary: payload)
  case (Cons op ops)
  obtain d where "snd (encode_ops (payload @ Operation_Data op) ops) = (payload @ Operation_Data op) @ d" using Cons.IH by blast
  then show ?case by (auto simp: Let_def split: prod.splits)
qed simp

lemma decode_encode_ops:
  assumes "length (snd (encode_ops payload ops)) < 2 ^ 64"
  shows "those (map (decode_op (snd (encode_ops payload ops))) (fst (encode_ops payload ops))) = Some ops"
  using assms
proof (induction ops arbitrary: payload)
  case (Cons op ops)
  let ?d = "Operation_Data op"
  obtain ws q where e: "encode_ops (payload @ ?d) ops = (ws, q)" by (cases "encode_ops (payload @ ?d) ops")
  obtain r where q: "q = payload @ ?d @ r" using encode_ops_extends [of "payload @ ?d" ops] e by auto
  have l: "length payload + length ?d \<le> length q" "length q < 2 ^ 64" using Cons.prems e q by (simp_all add: Let_def)
  have n: "unat (of_nat n :: u64) = n" if "n \<le> length q" for n using that l(2) by (simp add: unat_of_nat)
  have "decode_op q \<lparr>wire_op = op\<lparr>Operation_Data := []\<rparr>, wire_DataOffset = of_nat (length payload), wire_DataLength = of_nat (length ?d)\<rparr> = Some op"
    if "?d \<noteq> []"
  proof -
    have "(of_nat (length ?d) :: u64) \<noteq> 0" using n [of "length ?d"] l that by (metis add_leD2 length_0_conv unat_0)
    moreover have s: "(of_nat (length payload) + of_nat (length ?d) :: u64) = of_nat (length payload + length ?d)" by simp
    moreover have "\<not> (of_nat (length payload + length ?d) :: u64) < of_nat (length payload)"
      "\<not> (of_nat (length q) :: u64) < of_nat (length payload + length ?d)"
      unfolding word_less_nat_alt using n l by (simp_all del: of_nat_add)
    moreover have "rd (length payload) (length ?d) q = ?d" unfolding q by (simp add: rd_def)
    ultimately show ?thesis using n [of "length payload"] n [of "length ?d"] l unfolding decode_op_def Let_def by simp
  qed
  moreover have "decode_op q \<lparr>wire_op = op\<lparr>Operation_Data := []\<rparr>, wire_DataOffset = 0, wire_DataLength = 0\<rparr> = Some op" if "?d = []"
    using that by (simp add: decode_op_def)
  moreover have "those (map (decode_op q) ws) = Some ops" using Cons.IH [of "payload @ ?d"] e l by simp
  ultimately show ?case using e by (cases "?d = []") (simp_all add: Let_def)
qed simp

text \<open>What an encoded batch decodes to, for a checksum of its length and a JSON package that reads back what it writes.\<close>

lemma bulk_round_trip:
  assumes sha: "\<And>d. length (be_sha256 B d) = 32" and json: "\<And>m mb. be_manifest B m = Some mb \<Longrightarrow> be_unmanifest B mb = Some m"
    and enc: "bulk_Encode B b = Inr (data, hash)" and len: "length data < 2 ^ 64"
  shows "bulk_Decode B data = Some (Inr (b, hash))"
proof -
  obtain ws payload where e: "encode_ops [] (Batch_Operations b) = (ws, payload)" by (cases "encode_ops [] (Batch_Operations b)")
  let ?m = "\<lparr>manifest_RelayID = Batch_RelayID b, manifest_BatchID = Batch_BatchID b, manifest_FirstSeq = Batch_FirstSeq b,
        manifest_LastSeq = Batch_LastSeq b, manifest_Operations = ws\<rparr>"
  obtain mb where m: "be_manifest B ?m = Some mb" "length mb < 2 ^ 32"
    and data: "data = bulk_magic @ be_of_word 4 (of_nat (length mb) :: u32) @ be_of_word 8 (of_nat (length payload) :: u64) @
      be_sha256 B (mb @ payload) @ mb @ payload" and hash: "hash = hex_EncodeToString (be_sha256 B (mb @ payload))"
    using enc e by (auto simp: bulk_Encode_def Let_def split: option.splits if_splits)
  have l: "length mb + length payload < 2 ^ 64" using len data by simp
  have mag: "length bulk_magic = 8" by (simp add: bulk_magic_def ascii_def)
  have parts: "take 8 data = bulk_magic" "rd 8 4 data = be_of_word 4 (of_nat (length mb) :: u32)"
    "rd 12 8 data = be_of_word 8 (of_nat (length payload) :: u64)" "rd 20 32 data = be_sha256 B (mb @ payload)" "drop 52 data = mb @ payload"
    "\<not> length data < 52"
    unfolding data by (simp_all add: rd_def mag sha)
  have u: "unat (of_nat (length mb) :: u32) = length mb" using m by (simp add: unat_of_nat)
  have w: "(of_nat (length (mb @ payload)) :: u64) = ucast (of_nat (length mb) :: u32) + of_nat (length payload)"
    using of_nat_unat [of "of_nat (length mb) :: u32"] u by (metis length_append of_nat_add)
  have ops: "those (map (decode_op payload) ws) = Some (Batch_Operations b)" using decode_encode_ops [of "[]" "Batch_Operations b"] e l by simp
  have "go_slice (mb @ payload) 0 (length mb) = Some mb" by (simp add: go_slice_def)
  then show ?thesis using parts u w ops json [OF m(1)] hash by (simp add: bulk_Decode_def Let_def)
qed

section \<open>Confinement\<close>

lemma strip_common_prefix: "strip_common as bs = ([], ts) \<Longrightarrow> bs = as @ ts"
  by (induction as bs rule: strip_common.induct) (auto split: if_splits)

text \<open>A resolved path lies below the root, component by component.\<close>

lemma resolve_confined:
  assumes r: "path_rooted root" and p: "resolve root name = Some p"
  obtains ts where "path_comps p = path_comps (path_Clean root) @ ts" "path_rooted p"
proof -
  let ?j = "path_Join2 root (replace_byte 0x5C [SLASH] name)"
  have "path_rooted (root @ [SLASH] @ x)" for x using r by (simp add: path_rooted_def)
  then have j: "path_rooted ?j" "path_Clean ?j = ?j"
    using comps_clean(3) clean_clean r by (auto simp: path_Join2_def path_rooted_def)
  obtain rel where rel: "filepath_Rel root ?j = Some rel" "\<not> (rel = [DOT, DOT] \<or> has_prefix rel [DOT, DOT, SLASH])" "p = ?j"
    using p j by (auto simp: resolve_def Let_def split: option.splits if_splits)
  show ?thesis
  proof (cases "?j = path_Clean root")
    case True
    then show ?thesis using that [of "[]"] j rel by simp
  next
    case False
    have "path_Clean root \<noteq> [DOT]" using comps_clean(3) [OF r] by (auto simp: path_rooted_def)
    moreover obtain bs ts where bt: "strip_common (path_comps (path_Clean root)) (path_comps ?j) = (bs, ts)" by fastforce
    ultimately have "rel = strings_Join (replicate (length bs) [DOT, DOT] @ ts) [SLASH]"
      using rel(1) False j by (auto simp: filepath_Rel_def Let_def split: if_splits)
    then have "bs = []" using rel(2)
      by (cases bs; cases "replicate (length (tl bs)) [DOT, DOT] @ ts") (auto simp: has_prefix_def)
    then show ?thesis using that strip_common_prefix bt rel(3) j by blast
  qed
qed

section \<open>Runs of writes\<close>

text \<open>The contents of a file after a write; a gap before it is filled with zeros.\<close>

definition splice_at :: "u64 \<Rightarrow> bytes \<Rightarrow> bytes \<Rightarrow> bytes" where
  "splice_at off d c = take (unat off) (c @ replicate (unat off - length c) 0) @ d @ drop (unat off + length d) c"

abbreviation (input) "wr op \<equiv> splice_at (Operation_Offset op) (Operation_Data op)"

text \<open>
  What the host promises of files opened for writing: \<open>content\<close> gives the bytes behind a path and \<open>name\<close> the path behind a
  descriptor. Opening a file that exists succeeds, a write goes to the file it names and to no other, and neither \<open>Sync\<close> nor \<open>Close\<close>
  fails or changes a file.
\<close>

definition host_writes :: "'o host \<Rightarrow> ('o \<Rightarrow> go_string \<Rightarrow> bytes option) \<Rightarrow> ('o \<Rightarrow> fd \<Rightarrow> go_string option) \<Rightarrow> bool" where
  "host_writes H content name \<longleftrightarrow>
     (\<forall>p s. content s p \<noteq> None \<longrightarrow>
        (\<exists>f s'. os_OpenFile H p O_RDWR 0x180 s = (Inr f, s') \<and> content s' = content s \<and> name s' f = Some p)) \<and>
     (\<forall>f p d off s. name s f = Some p \<longrightarrow> content s p \<noteq> None \<longrightarrow> off < 0x8000000000000000 \<longrightarrow>
        (\<exists>s'. f_WriteAt H f d off s = ((length d, None), s') \<and>
           content s' = (content s)(p := map_option (splice_at off d) (content s p)) \<and> name s' = name s)) \<and>
     (\<forall>f s. name s f \<noteq> None \<longrightarrow> (\<exists>s'. f_Sync H f s = (None, s') \<and> content s' = content s \<and> name s' = name s)) \<and>
     (\<forall>f s. name s f \<noteq> None \<longrightarrow> (\<exists>s'. f_Close H f s = (None, s') \<and> content s' = content s))"

lemma host_writesD:
  assumes "host_writes H content name"
  shows "content s p \<noteq> None \<Longrightarrow> \<exists>f s'. os_OpenFile H p O_RDWR 0x180 s = (Inr f, s') \<and> content s' = content s \<and> name s' f = Some p"
    "name s f = Some p \<Longrightarrow> content s p \<noteq> None \<Longrightarrow> off < 0x8000000000000000 \<Longrightarrow> \<exists>s'. f_WriteAt H f d off s = ((length d, None), s') \<and>
       content s' = (content s)(p := map_option (splice_at off d) (content s p)) \<and> name s' = name s"
    "name s f = Some p \<Longrightarrow> \<exists>s'. f_Sync H f s = (None, s') \<and> content s' = content s \<and> name s' = name s"
    "name s f = Some p \<Longrightarrow> \<exists>s'. f_Close H f s = (None, s') \<and> content s' = content s"
proof -
  note H = assms [unfolded host_writes_def]
  show "content s p \<noteq> None \<Longrightarrow> \<exists>f s'. os_OpenFile H p O_RDWR 0x180 s = (Inr f, s') \<and> content s' = content s \<and> name s' f = Some p"
    using conjunct1 [OF H] by blast
  show "name s f = Some p \<Longrightarrow> content s p \<noteq> None \<Longrightarrow> off < 0x8000000000000000 \<Longrightarrow> \<exists>s'. f_WriteAt H f d off s = ((length d, None), s') \<and>
       content s' = (content s)(p := map_option (splice_at off d) (content s p)) \<and> name s' = name s"
    using conjunct1 [OF conjunct2 [OF H]] by blast
  show "name s f = Some p \<Longrightarrow> \<exists>s'. f_Sync H f s = (None, s') \<and> content s' = content s \<and> name s' = name s"
    using conjunct1 [OF conjunct2 [OF conjunct2 [OF H]]] by simp
  show "name s f = Some p \<Longrightarrow> \<exists>s'. f_Close H f s = (None, s') \<and> content s' = content s"
    using conjunct2 [OF conjunct2 [OF conjunct2 [OF H]]] by simp
qed

lemma write_ops_content:
  assumes H: "host_writes H content name"
  shows "name s f = Some p \<Longrightarrow> content s p \<noteq> None \<Longrightarrow> \<forall>op\<in>set ops. Operation_Offset op < 0x8000000000000000 \<Longrightarrow>
    \<exists>s'. write_ops H f ops s = (Inr (), s') \<and> content s' = (content s)(p := map_option (fold wr ops) (content s p)) \<and> name s' = name s"
proof (induction ops arbitrary: s)
  case (Cons op ops)
  obtain s1 where s1: "f_WriteAt H f (Operation_Data op) (Operation_Offset op) s = ((length (Operation_Data op), None), s1)"
    "content s1 = (content s)(p := map_option (wr op) (content s p))" "name s1 = name s"
    using host_writesD(2) [OF H Cons.prems(1,2), of "Operation_Offset op" "Operation_Data op"] Cons.prems(3) by auto
  have "name s1 f = Some p" "content s1 p \<noteq> None" using s1 Cons.prems by simp_all
  then obtain s' where "write_ops H f ops s1 = (Inr (), s')" "content s' = (content s1)(p := map_option (fold wr ops) (content s1 p))"
    "name s' = name s1" using Cons.IH [of s1] Cons.prems(3) unfolding list.set ball_simps by blast
  then show ?case using s1 by (auto simp: option.map_comp comp_def)
qed (auto simp: option.map_ident)

definition write_group :: "go_string \<times> Operation list \<Rightarrow> (go_string \<Rightarrow> bytes option) \<Rightarrow> go_string \<Rightarrow> bytes option" where
  "write_group g c = c(fst g := map_option (fold wr (snd g)) (c (fst g)))"

lemma write_file_content:
  assumes H: "host_writes H content name" and s: "content s p \<noteq> None" "\<forall>op\<in>set ops. Operation_Offset op < 0x8000000000000000"
  obtains s' where "write_file H p ops s = (Inr (), s')" "content s' = write_group (p, ops) (content s)"
proof -
  obtain f s1 where s1: "os_OpenFile H p O_RDWR 0x180 s = (Inr f, s1)" "content s1 = content s" "name s1 f = Some p"
    using host_writesD(1) [OF H s(1)] by blast
  obtain s2 where s2: "write_ops H f ops s1 = (Inr (), s2)" "content s2 = write_group (p, ops) (content s)" "name s2 = name s1"
    using write_ops_content [OF H, of s1 f p ops] s1 s by (auto simp: write_group_def)
  obtain s3 where s3: "f_Sync H f s2 = (None, s3)" "content s3 = content s2" "name s3 = name s2"
    using host_writesD(3) [OF H, of s2 f p] s1(3) s2(3) by auto
  obtain s4 where "f_Close H f s3 = (None, s4)" "content s4 = content s3"
    using host_writesD(4) [OF H, of s3 f p] s1(3) s2(3) s3(3) by auto
  then show ?thesis using that s1 s2 s3 by (simp add: write_file_def io_bind_def io_of_def)
qed

lemma write_group_dom: "dom (write_group g c) = dom c"
  by (auto simp: write_group_def dom_def split: if_splits)

lemma write_groups_content:
  assumes H: "host_writes H content name"
  shows "\<forall>(p, ops)\<in>set gs. content s p \<noteq> None \<and> (\<forall>op\<in>set ops. Operation_Offset op < 0x8000000000000000) \<Longrightarrow>
    \<exists>s'. write_groups H gs s = (Inr (), s') \<and> content s' = fold write_group gs (content s)"
proof (induction gs arbitrary: s)
  case (Cons g gs)
  obtain p ops where g: "g = (p, ops)" by (cases g)
  obtain s1 where s1: "write_file H p ops s = (Inr (), s1)" "content s1 = write_group (p, ops) (content s)"
    using write_file_content [OF H, of s p ops] Cons.prems g by auto
  have "dom (content s1) = dom (content s)" by (simp add: s1 write_group_dom)
  then have "content s1 q = None \<longleftrightarrow> content s q = None" for q by (metis domIff)
  then show ?case using Cons.IH [of s1] Cons.prems s1 g by (auto simp: io_bind_def)
qed (simp add: io_ok_def)

lemma write_group_commute: "fst g \<noteq> fst h \<Longrightarrow> write_group g (write_group h c) = write_group h (write_group g c)"
  by (auto simp: write_group_def fun_upd_twist)

lemma write_group_past: "fst g \<notin> fst ` set gs \<Longrightarrow> fold write_group gs (write_group g c) = write_group g (fold write_group gs c)"
proof (induction gs arbitrary: c)
  case (Cons h gs)
  then have "write_group h (write_group g c) = write_group g (write_group h c)" by (intro write_group_commute) auto
  then show ?case using Cons by simp
qed simp

text \<open>Adding a write to its group is the same as doing it after all the groups.\<close>

lemma group_add_last:
  "distinct (map fst gs) \<Longrightarrow> fold write_group (group_add p op gs) c = write_group (p, [op]) (fold write_group gs c)"
proof (induction gs arbitrary: c)
  case (Cons g gs)
  obtain q ops where g: "g = (q, ops)" by (cases g)
  have "write_group (q, ops @ [op]) c = write_group (q, [op]) (write_group (q, ops) c)"
    by (auto simp: write_group_def option.map_comp comp_def)
  then show ?case using Cons g write_group_past [of "(q, [op])" gs] by auto
qed simp

lemma group_add_fst: "fst ` set (group_add p op gs) = insert p (fst ` set gs)"
  by (induction p op gs rule: group_add.induct) (simp_all add: insert_commute)

lemma group_add_distinct: "distinct (map fst gs) \<Longrightarrow> distinct (map fst (group_add p op gs))"
  by (induction p op gs rule: group_add.induct) (simp_all add: group_add_fst)

lemma group_add_all:
  "\<forall>(q, ops)\<in>set gs. Q q \<and> (\<forall>op\<in>set ops. R op) \<Longrightarrow> Q p \<Longrightarrow> R op \<Longrightarrow> \<forall>(q, ops)\<in>set (group_add p op gs). Q q \<and> (\<forall>op\<in>set ops. R op)"
  by (induction p op gs rule: group_add.induct) auto

definition journal_write :: "go_string \<Rightarrow> Operation \<Rightarrow> (go_string \<Rightarrow> bytes option) \<Rightarrow> go_string \<Rightarrow> bytes option" where
  "journal_write root op c = (case resolve root (Operation_Path op) of None \<Rightarrow> c | Some p \<Rightarrow> c(p := map_option (wr op) (c p)))"

lemma group_ops_spec:
  assumes "distinct (map fst gs)" "\<forall>(q, ops)\<in>set gs. Q q \<and> (\<forall>op\<in>set ops. R op)"
    and "\<forall>op\<in>set ops. R op \<and> (\<exists>p. resolve root (Operation_Path op) = Some p \<and> Q p)"
  shows "\<exists>gs'. group_ops root gs ops = Some gs' \<and> (\<forall>(q, ops)\<in>set gs'. Q q \<and> (\<forall>op\<in>set ops. R op)) \<and>
    fold write_group gs' c = fold (journal_write root) ops (fold write_group gs c)"
  using assms
proof (induction ops arbitrary: gs)
  case (Cons op ops)
  obtain p where p: "resolve root (Operation_Path op) = Some p" "Q p" using Cons.prems(3) by auto
  have "fold write_group (group_add p op gs) c = journal_write root op (fold write_group gs c)"
    using group_add_last [OF Cons.prems(1)] p by (simp add: journal_write_def write_group_def)
  then show ?case
    using Cons.IH [of "group_add p op gs"] group_add_distinct [OF Cons.prems(1)] group_add_all [OF Cons.prems(2), of p op] Cons.prems(3) p
    by simp
qed simp

text \<open>A host that refuses everything, and one whose state is its files and the paths behind its descriptors, in the order they were
  opened.\<close>

definition idle_host :: "'o host" where
  "idle_host = \<lparr>os_Stat = \<lambda>p s. Inl VE_NotExist, os_Lstat = \<lambda>p s. Inl VE_NotExist, os_ReadFile = \<lambda>p s. Inl VE_NotExist,
     os_Readlink = \<lambda>p s. Inl VE_NotExist, os_OpenFile = \<lambda>p fl m s. (Inl VE_NotExist, s),
     sys_Open = \<lambda>p fl s. (Inl VE_NotExist, s), os_Mkdir = \<lambda>p m s. (Some VE_Other, s), os_MkdirAll = \<lambda>p m s. (Some VE_Other, s),
     os_Remove = \<lambda>p s. (Some VE_NotExist, s), os_Rename = \<lambda>p q s. (Some VE_Other, s),
     os_Symlink = \<lambda>p q s. (Some VE_Other, s), os_Truncate = \<lambda>p n s. (Some VE_Other, s), os_Chmod = \<lambda>p m s. (None, s),
     os_Chtimes = \<lambda>p a m s. (None, s), f_Stat = \<lambda>f s. Inl VE_NotExist, f_Close = \<lambda>f s. (None, s), f_Sync = \<lambda>f s. (None, s),
     f_ReadAt = \<lambda>f n off s. ([], None), f_WriteAt = \<lambda>f d off s. ((0, Some VE_Other), s),
     f_Write = \<lambda>f d s. (Some VE_Other, s), f_Rewind = \<lambda>f s. s, f_ReadDir = \<lambda>f n s. (([], Some VE_EOF), s),
     sys_Statfs = \<lambda>p s. Inl VE_NotExist, xattr_FGet = \<lambda>f n s. Inl VE_NotExist, xattr_FList = \<lambda>f s. Inr [],
     xattr_FSet = \<lambda>f n d s. (Some VE_Other, s), xattr_FRemove = \<lambda>f n s. (Some VE_Other, s),
     xattr_Set = \<lambda>p n d s. (Some VE_Other, s), xattr_Remove = \<lambda>p n s. (Some XE_NoAttr, s), rand_uint64 = \<lambda>s. (0, s)\<rparr>"

definition store_host :: "((go_string \<Rightarrow> bytes option) \<times> go_string list) host" where
  "store_host = idle_host
     \<lparr>os_OpenFile := \<lambda>p fl m s. if fst s p = None then (Inl VE_NotExist, s) else (Inr (length (snd s)), (fst s, snd s @ [p])),
      f_WriteAt := \<lambda>f d off s. if f < length (snd s)
        then ((length d, None), ((fst s)(snd s ! f := map_option (splice_at off d) (fst s (snd s ! f))), snd s)) else ((0, Some VE_Other), s)\<rparr>"

definition store_name :: "(go_string \<Rightarrow> bytes option) \<times> go_string list \<Rightarrow> fd \<Rightarrow> go_string option" where
  "store_name s f = (if f < length (snd s) then Some (snd s ! f) else None)"

lemma store_host_writes: "host_writes store_host fst store_name"
  by (auto simp: host_writes_def store_host_def idle_host_def store_name_def)

text \<open>C13. A run of writes of a journal leaves every file as the writes do one after the other, in the order of the journal,
  although the code sorts them by file and opens and syncs each file once. All writes go to files that exist, at offsets that
  are not negative as \<open>int64\<close>; the host keeps what is written and distinct paths are distinct files.\<close>

theorem write_run_in_order:
  assumes "host_writes H content name"
    and "\<forall>op\<in>set ops. Operation_Offset op < 0x8000000000000000 \<and>
      (\<exists>p. resolve root (Operation_Path op) = Some p \<and> content s p \<noteq> None)"
  shows "\<exists>s'. applyWriteRun H root ops s = (Inr (), s') \<and> content s' = fold (journal_write root) ops (content s)"
  using group_ops_spec [of "[]" "\<lambda>p. content s p \<noteq> None" "\<lambda>op. Operation_Offset op < 0x8000000000000000" ops root "content s"]
    write_groups_content [OF assms(1), of _ s] assms(2)
  by (fastforce simp: applyWriteRun_def)

definition sample_write :: "go_string \<Rightarrow> u64 \<Rightarrow> bytes \<Rightarrow> Operation" where
  "sample_write p off d = \<lparr>Operation_Seq = 1, Operation_Type = ascii ''write'', Operation_Path = p, Operation_Target = [], Operation_Name = [],
     Operation_Offset = off, Operation_Length = of_nat (length d), Operation_Mode = 0, Operation_ATime = 0, Operation_MTime = 0,
     Operation_Data = d\<rparr>"

theorem write_run_in_order_witness:
  "\<exists>s'. applyWriteRun store_host (ascii ''/srv'')
      [sample_write (ascii ''a'') 0 [1, 2, 3], sample_write (ascii ''b'') 1 [9], sample_write (ascii ''a'') 1 [7]]
      ([ascii ''/srv/a'' \<mapsto> [], ascii ''/srv/b'' \<mapsto> [5]], []) = (Inr (), s') \<and>
    fst s' = fold (journal_write (ascii ''/srv''))
      [sample_write (ascii ''a'') 0 [1, 2, 3], sample_write (ascii ''b'') 1 [9], sample_write (ascii ''a'') 1 [7]]
      [ascii ''/srv/a'' \<mapsto> [], ascii ''/srv/b'' \<mapsto> [5]] \<and>
    fst s' (ascii ''/srv/a'') = Some [1, 7, 3] \<and> fst s' (ascii ''/srv/b'') = Some [5, 9]"
proof -
  have r: "resolve (ascii ''/srv'') (ascii ''a'') = Some (ascii ''/srv/a'')" "resolve (ascii ''/srv'') (ascii ''b'') = Some (ascii ''/srv/b'')"
    by code_simp+
  have d: "ascii ''/srv/a'' \<noteq> ascii ''/srv/b''" by code_simp
  show ?thesis
    using write_run_in_order [OF store_host_writes, of
        "[sample_write (ascii ''a'') 0 [1, 2, 3], sample_write (ascii ''b'') 1 [9], sample_write (ascii ''a'') 1 [7]]" "ascii ''/srv''"
        "([ascii ''/srv/a'' \<mapsto> [], ascii ''/srv/b'' \<mapsto> [5]], [])"] r d d [symmetric]
    by (auto simp: sample_write_def journal_write_def splice_at_def)
qed

end
