(* ===== verification/Passthrough.thy ===== *)
theory Passthrough
  imports Bulk
begin

text \<open>
  \<open>fs_impl.go\<close> and \<open>fs_impl_unix.go\<close>: the file system the server exports, a directory of the host. Each open file has a random handle
  and the path it was opened by. The counters of package \<open>stats\<close> and the watchers of \<open>fsnotify\<close>, which the server does not ask for, are
  left out; an error the file makes itself is \<open>VE_Other\<close>.
\<close>

section \<open>State\<close>

record OpenFile =
  OpenFile_path :: go_string
  OpenFile_isDir :: bool
  OpenFile_f :: fd
  OpenFile_dirPos :: nat

record 'o PassthroughFS =
  PassthroughFS_rootPath :: go_string
  PassthroughFS_openFiles :: "u64 \<Rightarrow> OpenFile option"
  PassthroughFS_bulkMaxBytes :: int
  PassthroughFS_host :: 'o

abbreviation (input) "load h s \<equiv> PassthroughFS_openFiles s h"

definition store :: "u64 \<Rightarrow> OpenFile \<Rightarrow> 'o PassthroughFS \<Rightarrow> 'o PassthroughFS" where
  "store h open s = s\<lparr>PassthroughFS_openFiles := (PassthroughFS_openFiles s)(h := Some open)\<rparr>"

text \<open>A call of the host on its part of the state.\<close>

definition on_host :: "('o \<Rightarrow> 'r \<times> 'o) \<Rightarrow> 'o PassthroughFS \<Rightarrow> 'r \<times> 'o PassthroughFS" where
  "on_host m s = (let (r, o') = m (PassthroughFS_host s) in (r, s\<lparr>PassthroughFS_host := o'\<rparr>))"

definition NewPassthroughFS :: "'o host \<Rightarrow> bulk_env \<Rightarrow> go_string \<Rightarrow> 'o \<Rightarrow> 'o PassthroughFS" where
  "NewPassthroughFS H B rootPath o' =
     snd (on_host (bulk_Initialize H B rootPath (256 * 2 ^ 20))
       \<lparr>PassthroughFS_rootPath = rootPath, PassthroughFS_openFiles = (\<lambda>_. None), PassthroughFS_bulkMaxBytes = 256 * 2 ^ 20,
         PassthroughFS_host = o'\<rparr>)"

section \<open>Attributes\<close>

definition fileInfoToAttr :: "FileInfo \<Rightarrow> vfs_error + Attributes" where
  "fileInfoToAttr stat =
     (case FileInfo_Sys stat of
        None \<Rightarrow> Inl VE_Other
      | Some sys \<Rightarrow>
          let a = Attributes_SetDeviceNumber (Stat_Dev sys) Attributes_new;
              a = Attributes_SetInodeNumber (Stat_Ino sys) a;
              a = Attributes_SetLinkCount (Stat_Nlink sys) a;
              a = Attributes_SetSizeBytes (FileInfo_Size stat) a;
              a = Attributes_SetDiskSizeBytes (Stat_Blocks sys * 512) a;
              a = Attributes_SetUnixMode (FileInfo_Mode stat) a;
              a = Attributes_SetPermissions (NewPermissionsFromMode (FileInfo_Mode stat AND 0x1FF)) a;
              a = Attributes_SetUID (Stat_UID sys) a;
              a = Attributes_SetGID (Stat_GID sys) a;
              a = Attributes_SetAccessTime (Stat_Atime sys) a;
              a = Attributes_SetLastDataModificationTime (FileInfo_ModTime stat) a;
              a = Attributes_SetBirthTime (Stat_Btime sys) a;
              a = Attributes_SetLastStatusChangeTime (Stat_Ctime sys) a
          in Inr (Attributes_SetFileType (if FileInfo_IsDir stat then FileTypeDirectory
               else if FileInfo_IsSymlink stat then FileTypeSymlink else FileTypeRegularFile) a))"

definition attr_of :: "vfs_error + FileInfo \<Rightarrow> vfs_error + Attributes" where
  "attr_of r = (case r of Inl e \<Rightarrow> Inl e | Inr info \<Rightarrow> fileInfoToAttr info)"

definition passthrough_GetAttr :: "'o host \<Rightarrow> u64 \<Rightarrow> 'o PassthroughFS \<Rightarrow> vfs_error + Attributes" where
  "passthrough_GetAttr H handle s =
     (if handle \<noteq> 0 then (case load handle s of None \<Rightarrow> Inl VE_Other | Some open \<Rightarrow> attr_of (f_Stat H (OpenFile_f open) (PassthroughFS_host s)))
      else attr_of (os_Lstat H (PassthroughFS_rootPath s) (PassthroughFS_host s)))"

text \<open>\<open>SetAttr\<close> returns no attributes, and drops the errors of the host.\<close>

definition passthrough_SetAttr :: "'o host \<Rightarrow> u64 \<Rightarrow> Attributes \<Rightarrow> 'o PassthroughFS \<Rightarrow> vfs_error option \<times> 'o PassthroughFS" where
  "passthrough_SetAttr H handle a s =
     (if handle = 0 then (Some VE_Other, s)
      else (case load handle s of
          None \<Rightarrow> (Some VE_Other, s)
        | Some open \<Rightarrow> (case passthrough_GetAttr H handle s of
            Inl _ \<Rightarrow> (Some VE_Other, s)
          | Inr old \<Rightarrow>
              let (atime, atimeSet) = Attributes_GetAccessTime a;
                  atime = (if atimeSet then atime else fst (Attributes_GetAccessTime old));
                  (mtime, mtimeSet) = Attributes_GetLastDataModificationTime a;
                  mtime = (if mtimeSet then mtime else fst (Attributes_GetLastDataModificationTime old));
                  s = (if atimeSet \<or> mtimeSet then snd (on_host (os_Chtimes H (OpenFile_path open) atime mtime) s) else s);
                  (mode, mSet) = Attributes_GetUnixMode a
              in (None, if mSet then snd (on_host (os_Chmod H (OpenFile_path open) mode) s) else s))))"

definition statFS :: "'o host \<Rightarrow> go_string \<Rightarrow> 'o \<Rightarrow> vfs_error + FSAttributes" where
  "statFS H rootPath o' =
     (case sys_Statfs H rootPath o' of
        Inl e \<Rightarrow> Inl e
      | Inr st \<Rightarrow>
          let a = \<lparr>FSAttributes_fieldsPresent = 0, FSAttributes_bsize = 0, FSAttributes_iosize = 0, FSAttributes_blocks = 0,
                FSAttributes_bfree = 0, FSAttributes_bavail = 0, FSAttributes_files = 0, FSAttributes_ffree = 0\<rparr>;
              a = FSAttributes_SetAvailableBlocks (Statfs_Bavail st) a;
              a = FSAttributes_SetBlockSize (Statfs_Bsize st) a;
              a = FSAttributes_SetBlocks (Statfs_Bavail st) a;
              a = FSAttributes_SetFiles (Statfs_Files st) a;
              a = FSAttributes_SetFreeBlocks (Statfs_Bfree st) a;
              a = FSAttributes_SetFreeFiles (Statfs_Ffree st) a
          in Inr (FSAttributes_SetIOSize (Statfs_Bsize st) a))"

definition passthrough_StatFS :: "'o host \<Rightarrow> u64 \<Rightarrow> 'o PassthroughFS \<Rightarrow> vfs_error + FSAttributes" where
  "passthrough_StatFS H handle s = statFS H (PassthroughFS_rootPath s) (PassthroughFS_host s)"

section \<open>Opening and closing\<close>

definition openSymlink :: "'o host \<Rightarrow> go_string \<Rightarrow> 'o \<Rightarrow> (vfs_error + fd) \<times> 'o" where
  "openSymlink H p = sys_Open H p 0x200000"

text \<open>A new handle for an open file.\<close>

definition new_handle :: "'o host \<Rightarrow> go_string \<Rightarrow> bool \<Rightarrow> fd \<Rightarrow> 'o PassthroughFS \<Rightarrow> u64 \<times> 'o PassthroughFS" where
  "new_handle H p isDir f s =
     (let (h, s) = on_host (rand_uint64 H) s in
      (h, store h \<lparr>OpenFile_path = p, OpenFile_isDir = isDir, OpenFile_f = f, OpenFile_dirPos = 0\<rparr> s))"

definition passthrough_Open :: "'o host \<Rightarrow> go_string \<Rightarrow> u32 \<Rightarrow> u32 \<Rightarrow> 'o PassthroughFS \<Rightarrow> (vfs_error + u64) \<times> 'o PassthroughFS" where
  "passthrough_Open H p flags mode s =
     (let p = path_Join2 (PassthroughFS_rootPath s) p;
          (r, s) = on_host (if flags AND 0x200000 \<noteq> 0 then openSymlink H p else os_OpenFile H p flags mode) s in
      case r of
        Inl e \<Rightarrow> (Inl e, s)
      | Inr f \<Rightarrow> let (h, s) = new_handle H p False f s in (Inr h, s))"

definition passthrough_OpenDir :: "'o host \<Rightarrow> go_string \<Rightarrow> 'o PassthroughFS \<Rightarrow> (vfs_error + u64) \<times> 'o PassthroughFS" where
  "passthrough_OpenDir H p s =
     (let p = path_Join2 (PassthroughFS_rootPath s) p; (r, s) = on_host (os_OpenFile H p 0 0) s in
      case r of
        Inl e \<Rightarrow> (Inl e, s)
      | Inr f \<Rightarrow> let (h, s) = new_handle H p True f s in (Inr h, s))"

definition passthrough_Close :: "'o host \<Rightarrow> u64 \<Rightarrow> 'o PassthroughFS \<Rightarrow> vfs_error option \<times> 'o PassthroughFS" where
  "passthrough_Close H handle s =
     (case load handle s of
        None \<Rightarrow> (Some VE_Other, s)
      | Some open \<Rightarrow> let (_, s) = on_host (f_Close H (OpenFile_f open)) s in
          (None, s\<lparr>PassthroughFS_openFiles := (PassthroughFS_openFiles s)(handle := None)\<rparr>))"

definition passthrough_Lookup :: "'o host \<Rightarrow> u64 \<Rightarrow> go_string \<Rightarrow> 'o PassthroughFS \<Rightarrow> vfs_error + Attributes" where
  "passthrough_Lookup H handle name s =
     (case (if handle \<noteq> 0 then map_option OpenFile_path (load handle s) else Some (PassthroughFS_rootPath s)) of
        None \<Rightarrow> Inl VE_Other
      | Some p \<Rightarrow> attr_of (os_Lstat H (path_Join2 p name) (PassthroughFS_host s)))"

definition passthrough_Mkdir :: "'o host \<Rightarrow> go_string \<Rightarrow> u32 \<Rightarrow> 'o PassthroughFS \<Rightarrow> (vfs_error + Attributes) \<times> 'o PassthroughFS" where
  "passthrough_Mkdir H p mode s =
     (let p = path_Join2 (PassthroughFS_rootPath s) p; (e, s) = on_host (os_Mkdir H p mode) s in
      case e of
        Some e \<Rightarrow> (Inl e, s)
      | None \<Rightarrow> (attr_of (os_Stat H p (PassthroughFS_host s)), s))"

section \<open>Open files\<close>

text \<open>The operations that take a handle first look it up; handle 0 is refused.\<close>

definition with_open :: "u64 \<Rightarrow> 'o PassthroughFS \<Rightarrow> 'r \<Rightarrow> (OpenFile \<Rightarrow> 'r) \<Rightarrow> 'r" where
  "with_open handle s bad k = (if handle = 0 then bad else case load handle s of None \<Rightarrow> bad | Some open \<Rightarrow> k open)"

definition passthrough_FSync :: "'o host \<Rightarrow> u64 \<Rightarrow> 'o PassthroughFS \<Rightarrow> vfs_error option \<times> 'o PassthroughFS" where
  "passthrough_FSync H handle s = with_open handle s (Some VE_Other, s) (\<lambda>open. on_host (f_Sync H (OpenFile_f open)) s)"

definition passthrough_Flush :: "u64 \<Rightarrow> 'o PassthroughFS \<Rightarrow> vfs_error option \<times> 'o PassthroughFS" where
  "passthrough_Flush handle s = (None, s)"

definition passthrough_Read :: "'o host \<Rightarrow> u64 \<Rightarrow> nat \<Rightarrow> u64 \<Rightarrow> 'o PassthroughFS \<Rightarrow> bytes \<times> vfs_error option" where
  "passthrough_Read H handle n offset s =
     with_open handle s ([], Some VE_Other) (\<lambda>open. f_ReadAt H (OpenFile_f open) n offset (PassthroughFS_host s))"

definition passthrough_Write :: "'o host \<Rightarrow> u64 \<Rightarrow> bytes \<Rightarrow> u64 \<Rightarrow> u32 \<Rightarrow> 'o PassthroughFS \<Rightarrow> (nat \<times> vfs_error option) \<times> 'o PassthroughFS" where
  "passthrough_Write H handle buf offset flags s =
     with_open handle s ((0, Some VE_Other), s) (\<lambda>open. on_host (f_WriteAt H (OpenFile_f open) buf offset) s)"

definition passthrough_Readlink :: "'o host \<Rightarrow> u64 \<Rightarrow> 'o PassthroughFS \<Rightarrow> vfs_error + go_string" where
  "passthrough_Readlink H handle s = with_open handle s (Inl VE_Other) (\<lambda>open. os_Readlink H (OpenFile_path open) (PassthroughFS_host s))"

definition passthrough_Unlink :: "'o host \<Rightarrow> u64 \<Rightarrow> 'o PassthroughFS \<Rightarrow> vfs_error option \<times> 'o PassthroughFS" where
  "passthrough_Unlink H handle s = with_open handle s (Some VE_Other, s) (\<lambda>open. on_host (os_Remove H (OpenFile_path open)) s)"

text \<open>\<open>Truncate\<close> does not treat handle 0 apart.\<close>

definition passthrough_Truncate :: "'o host \<Rightarrow> u64 \<Rightarrow> u64 \<Rightarrow> 'o PassthroughFS \<Rightarrow> vfs_error option \<times> 'o PassthroughFS" where
  "passthrough_Truncate H handle n s =
     (case load handle s of None \<Rightarrow> (Some VE_Other, s) | Some open \<Rightarrow> on_host (os_Truncate H (OpenFile_path open) n) s)"

text \<open>A renamed file keeps its handle. A package that arrives in the inbox is committed, and \<open>None\<close> is the panic of its decoder.\<close>

definition passthrough_Rename :: "'o host \<Rightarrow> bulk_env \<Rightarrow> u64 \<Rightarrow> go_string \<Rightarrow> u8 \<Rightarrow> 'o PassthroughFS \<Rightarrow> vfs_error option option \<times> 'o PassthroughFS" where
  "passthrough_Rename H B from' to' flags s = with_open from' s (Some (Some VE_Other), s) (\<lambda>open.
     let root = PassthroughFS_rootPath s; target = path_Join2 root to' in
     if flags = 0 \<and> (case os_Stat H target (PassthroughFS_host s) of Inl _ \<Rightarrow> False | Inr _ \<Rightarrow> True) then (Some (Some VE_Other), s)
     else let (e, s) = on_host (os_Rename H (OpenFile_path open) target) s in
       if e \<noteq> None then (Some e, s)
       else let s = store from' (open\<lparr>OpenFile_path := target\<rparr>) s in
         if (case filepath_Rel root target of None \<Rightarrow> False
            | Some rel \<Rightarrow> has_prefix rel (bulk_Directory @ ascii ''/inbox/'') \<and> has_prefix (rev rel) (rev (ascii ''.ready'')))
         then (case CommitReady H B root target (PassthroughFS_bulkMaxBytes s) (PassthroughFS_host s) of
             None \<Rightarrow> (None, s)
           | Some (r, o') \<Rightarrow> (Some (case r of Inl e \<Rightarrow> Some e | Inr _ \<Rightarrow> None), s\<lparr>PassthroughFS_host := o'\<rparr>))
         else (Some None, s))"

text \<open>The open file becomes a link: its placeholder is closed and removed, and the handle then stands for the link.\<close>

definition passthrough_Symlink :: "'o host \<Rightarrow> u64 \<Rightarrow> go_string \<Rightarrow> 'o PassthroughFS \<Rightarrow> (vfs_error + Attributes) \<times> 'o PassthroughFS" where
  "passthrough_Symlink H handle source s =
     (case load handle s of
        None \<Rightarrow> (Inl VE_Other, s)
      | Some open \<Rightarrow>
          let target = OpenFile_path open; targetDir = filepath_Dir target;
              sourceDir = filepath_Dir (path_Clean (path_Join2 targetDir source)) in
          if targetDir = sourceDir \<and> target = source then (Inl VE_Other, s)
          else let (r, s) = on_host
              (io_bind (io_of (f_Close H (OpenFile_f open))) (\<lambda>_.
               io_bind (\<lambda>o'. case os_Remove H target o' of
                   (None, o') \<Rightarrow> (Inr (), o')
                 | (Some e, o') \<Rightarrow> (if e = VE_NotExist then Inr () else Inl e, o')) (\<lambda>_.
               io_bind (io_of (os_Symlink H source target)) (\<lambda>_. openSymlink H target)))) s in
            case r of
              Inl e \<Rightarrow> (Inl e, s)
            | Inr f \<Rightarrow> let s = store handle (open\<lparr>OpenFile_f := f\<rparr>) s in (attr_of (f_Stat H f (PassthroughFS_host s)), s))"

section \<open>Extended attributes\<close>

definition passthrough_Listxattr :: "'o host \<Rightarrow> bulk_env \<Rightarrow> u64 \<Rightarrow> 'o PassthroughFS \<Rightarrow> vfs_error + go_string list" where
  "passthrough_Listxattr H B handle s = with_open handle s (Inl VE_Other) (\<lambda>open. FList H (be_linux B) (OpenFile_f open) (PassthroughFS_host s))"

definition passthrough_Getxattr :: "'o host \<Rightarrow> bulk_env \<Rightarrow> u64 \<Rightarrow> go_string \<Rightarrow> nat option \<Rightarrow> 'o PassthroughFS \<Rightarrow> (nat \<times> bytes) \<times> vfs_error option" where
  "passthrough_Getxattr H B handle key val s = with_open handle s ((0, []), Some VE_Other) (\<lambda>open.
     case FGet H (be_linux B) (OpenFile_f open) key (PassthroughFS_host s) of
       Inl e \<Rightarrow> ((0, []), Some e)
     | Inr v \<Rightarrow> (case val of None \<Rightarrow> ((length v, []), None) | Some n \<Rightarrow> ((min n (length v), take n v), None)))"

definition passthrough_Setxattr :: "'o host \<Rightarrow> bulk_env \<Rightarrow> u64 \<Rightarrow> go_string \<Rightarrow> bytes \<Rightarrow> 'o PassthroughFS \<Rightarrow> vfs_error option \<times> 'o PassthroughFS" where
  "passthrough_Setxattr H B handle key val s =
     with_open handle s (Some VE_Other, s) (\<lambda>open. on_host (FSet H (be_linux B) (OpenFile_f open) key val) s)"

definition passthrough_Removexattr :: "'o host \<Rightarrow> bulk_env \<Rightarrow> u64 \<Rightarrow> go_string \<Rightarrow> 'o PassthroughFS \<Rightarrow> vfs_error option \<times> 'o PassthroughFS" where
  "passthrough_Removexattr H B handle key s =
     with_open handle s (Some VE_Other, s) (\<lambda>open. on_host (FRemove H (be_linux B) (OpenFile_f open) key) s)"

section \<open>Directories\<close>

definition getExtendedFileInfo :: "dir_entry \<Rightarrow> vfs_error + DirInfo" where
  "getExtendedFileInfo entry =
     (case attr_of (snd entry) of Inl e \<Rightarrow> Inl e | Inr a \<Rightarrow> Inr \<lparr>DirInfo_Name = fst entry, DirInfo_Attributes = a\<rparr>)"

fun dir_infos :: "dir_entry list \<Rightarrow> vfs_error + DirInfo list" where
  "dir_infos [] = Inr []"
| "dir_infos (d # ds) =
     (case getExtendedFileInfo d of
        Inl e \<Rightarrow> Inl e
      | Inr i \<Rightarrow> (case dir_infos ds of Inl e \<Rightarrow> Inl e | Inr is \<Rightarrow> Inr (i # is)))"

definition dot_entries :: "Attributes \<Rightarrow> DirInfo list" where
  "dot_entries a = [\<lparr>DirInfo_Name = [DOT], DirInfo_Attributes = a\<rparr>, \<lparr>DirInfo_Name = [DOT, DOT], DirInfo_Attributes = a\<rparr>]"

definition readDir :: "'o host \<Rightarrow> u64 \<Rightarrow> OpenFile \<Rightarrow> nat \<Rightarrow> nat \<Rightarrow> 'o PassthroughFS \<Rightarrow> (vfs_error + DirInfo list) \<times> 'o PassthroughFS" where
  "readDir H handle open flags maxEntries s =
     (let (open, s) = (if odd flags
            then (open\<lparr>OpenFile_dirPos := 0\<rparr>, store handle (open\<lparr>OpenFile_dirPos := 0\<rparr>)
              (s\<lparr>PassthroughFS_host := f_Rewind H (OpenFile_f open) (PassthroughFS_host s)\<rparr>))
            else (open, s)) in
      case (if OpenFile_dirPos open = 0
            then (case passthrough_GetAttr H handle s of Inl e \<Rightarrow> Inl e | Inr a \<Rightarrow> Inr (dot_entries a)) else Inr []) of
        Inl e \<Rightarrow> (Inl e, s)
      | Inr dots \<Rightarrow>
          let ((entries, e), s) = on_host (f_ReadDir H (OpenFile_f open) maxEntries) s in
          if e \<noteq> None \<and> (e \<noteq> Some VE_EOF \<or> OpenFile_dirPos open \<noteq> 0) then (Inl (the e), s)
          else (case dir_infos entries of
              Inl e \<Rightarrow> (Inl e, s)
            | Inr infos \<Rightarrow> (Inr (dots @ infos), store handle (open\<lparr>OpenFile_dirPos := 1\<rparr>) s)))"

definition passthrough_ReadDir :: "'o host \<Rightarrow> u64 \<Rightarrow> nat \<Rightarrow> nat \<Rightarrow> 'o PassthroughFS \<Rightarrow> (vfs_error + DirInfo list) \<times> 'o PassthroughFS" where
  "passthrough_ReadDir H handle flags maxEntries s =
     (if handle = 0 then (Inr [], s)
      else (case load handle s of None \<Rightarrow> (Inl VE_Other, s) | Some open \<Rightarrow> readDir H handle open flags maxEntries s))"

section \<open>The file system as the server sees it\<close>

text \<open>The attributes \<open>SetAttr\<close> returns are nil; no caller reads them.\<close>

definition query :: "('s \<Rightarrow> 'r) \<Rightarrow> 's \<Rightarrow> 'r \<times> 's" where
  "query m s = (m s, s)"

definition passthrough_vfs :: "'o host \<Rightarrow> bulk_env \<Rightarrow> 'o PassthroughFS vfs" where
  "passthrough_vfs H B = \<lparr>vfs_GetAttr = \<lambda>h. query (passthrough_GetAttr H h),
     vfs_SetAttr = \<lambda>h a s. let (e, s) = passthrough_SetAttr H h a s in (case e of None \<Rightarrow> Inr Attributes_new | Some e \<Rightarrow> Inl e, s),
     vfs_StatFS = \<lambda>h. query (\<lambda>s. map_sum id Some (passthrough_StatFS H h s)), vfs_Flush = passthrough_Flush,
     vfs_Open = passthrough_Open H, vfs_Close = passthrough_Close H, vfs_Lookup = \<lambda>h n. query (passthrough_Lookup H h n),
     vfs_Mkdir = passthrough_Mkdir H, vfs_Read = \<lambda>h n off. query (passthrough_Read H h n off), vfs_Write = passthrough_Write H,
     vfs_OpenDir = passthrough_OpenDir H, vfs_ReadDir = passthrough_ReadDir H, vfs_Readlink = \<lambda>h. query (passthrough_Readlink H h),
     vfs_Unlink = passthrough_Unlink H, vfs_Truncate = passthrough_Truncate H, vfs_Rename = passthrough_Rename H B,
     vfs_Symlink = \<lambda>h source flag. passthrough_Symlink H h source, vfs_Listxattr = \<lambda>h. query (passthrough_Listxattr H B h),
     vfs_Getxattr = \<lambda>h k n. query (passthrough_Getxattr H B h k n), vfs_Setxattr = passthrough_Setxattr H B,
     vfs_Removexattr = passthrough_Removexattr H B\<rparr>"

section \<open>Leaving the root\<close>

lemma replace_byte_notin: "b \<notin> set c \<Longrightarrow> replace_byte b r c = c"
  by (induction c) (auto simp: replace_byte_def)

lemma replace_byte_app: "replace_byte b r (c @ d) = replace_byte b r c @ replace_byte b r d"
  by (simp add: replace_byte_def)

lemma replace_backslash_join:
  "\<forall>c\<in>set cs. 0x5C \<notin> set c \<Longrightarrow> replace_byte 0x5C [SLASH] (strings_Join cs [0x5C]) = strings_Join cs [SLASH]"
  by (induction cs "[0x5C :: u8]" rule: strings_Join.induct) (simp_all add: replace_byte_app replace_byte_notin, simp add: replace_byte_def)

lemma join_nonempty: "list_all (\<lambda>c. c \<noteq> []) cs \<Longrightarrow> cs \<noteq> [] \<Longrightarrow> strings_Join cs sep \<noteq> []"
  by (induction cs sep rule: strings_Join.induct) auto

lemma join_escapes:
  assumes r: "path_rooted root" and ts: "list_all plain_comp ts" "ts \<noteq> []" and n: "length (path_comps (path_Clean root)) \<le> n"
  shows "path_Join2 root (strings_Join (replicate n [DOT, DOT] @ ts) [SLASH]) = SLASH # strings_Join ts [SLASH]"
proof -
  let ?cs = "replicate n [DOT, DOT] @ ts" and ?p = "root @ [SLASH] @ strings_Join (replicate n [DOT, DOT] @ ts) [SLASH]"
  have plain: "SLASH \<notin> set c \<and> c \<noteq> []" if "c \<in> set ts" for c using ts(1) that by (simp add: list_all_iff plain_comp_def)
  have cs: "SLASH \<notin> set c \<and> c \<noteq> []" if "c \<in> set ?cs" for c
    using that plain by (cases "c \<in> set ts") simp_all
  then have "\<forall>c\<in>set ?cs. SLASH \<notin> set c" by blast
  then have "split_byte SLASH (strings_Join ?cs [SLASH]) = ?cs" by (rule split_join) (simp add: ts(2))
  then have s: "split_byte SLASH ?p = split_byte SLASH root @ ?cs" using split_byte_app [of SLASH root "strings_Join ?cs [SLASH]"] by simp
  have c: "clean_parts True [] (split_byte SLASH root) = path_comps (path_Clean root)" using comps_clean(1) [OF r] by simp
  have "list_all plain_comp (rev (path_comps (path_Clean root)))" using comps_clean(2) [OF r] by (simp add: list_all_iff)
  then have "clean_parts True [] (split_byte SLASH ?p) = ts"
    using clean_parts_up n clean_parts_id [OF ts(1), of "[]"] unfolding s clean_parts_app [of _ "split_byte SLASH root"] c by simp
  moreover have "path_rooted ?p" using r by (simp add: path_rooted_def)
  moreover have "strings_Join ?cs [SLASH] \<noteq> []" "root \<noteq> []"
    using join_nonempty [of ?cs] cs ts(2) r by (simp_all add: path_rooted_def list_all_iff)
  ultimately show ?thesis using clean_rooted by (simp add: path_Join2_def)
qed

text \<open>C32. The name of a file to open is not confined to the share. For a share at an absolute path, a name of at least as many
  parent components as the path of the share has components, followed by the components of any path of the host, and separated by
  backslashes as a client sends it, opens that path of the host. \<open>create\<close> replaces the backslashes and passes the name on.\<close>

theorem open_escapes_root:
  assumes "path_rooted (PassthroughFS_rootPath s)" and "length (path_comps (path_Clean (PassthroughFS_rootPath s))) \<le> n"
    and "list_all plain_comp ts" "ts \<noteq> []" "\<forall>c\<in>set ts. 0x5C \<notin> set c"
    and "flags AND 0x200000 = 0" "os_OpenFile H (SLASH # strings_Join ts [SLASH]) flags mode (PassthroughFS_host s) = (Inr f, o')"
  shows "\<exists>h s'. passthrough_Open H (replace_byte 0x5C [SLASH] (strings_Join (replicate n [DOT, DOT] @ ts) [0x5C])) flags mode s = (Inr h, s') \<and>
    PassthroughFS_openFiles s' h =
      Some \<lparr>OpenFile_path = SLASH # strings_Join ts [SLASH], OpenFile_isDir = False, OpenFile_f = f, OpenFile_dirPos = 0\<rparr>"
proof -
  have "\<forall>c\<in>set (replicate n [DOT, DOT] @ ts). 0x5C \<notin> set c" using assms(5) by auto
  then show ?thesis using join_escapes [OF assms(1,3,4,2)] replace_backslash_join assms(6,7)
    by (auto simp: passthrough_Open_def on_host_def new_handle_def store_def Let_def split: prod.splits)
qed

definition sample_fs :: "((go_string \<Rightarrow> bytes option) \<times> go_string list) PassthroughFS" where
  "sample_fs = \<lparr>PassthroughFS_rootPath = ascii ''/srv/share'', PassthroughFS_openFiles = (\<lambda>_. None), PassthroughFS_bulkMaxBytes = 0,
     PassthroughFS_host = ([ascii ''/etc/passwd'' \<mapsto> [1]], [])\<rparr>"

theorem open_escapes_root_witness:
  "\<exists>h s'. passthrough_Open store_host (ascii ''../../etc/passwd'') 0 0 sample_fs = (Inr h, s') \<and>
     PassthroughFS_openFiles s' h = Some \<lparr>OpenFile_path = ascii ''/etc/passwd'', OpenFile_isDir = False, OpenFile_f = 0, OpenFile_dirPos = 0\<rparr>"
proof -
  have "path_rooted (ascii ''/srv/share'')" "length (path_comps (path_Clean (ascii ''/srv/share''))) \<le> 2"
    "list_all plain_comp [ascii ''etc'', ascii ''passwd'']" "\<forall>c\<in>set [ascii ''etc'', ascii ''passwd'']. 0x5C \<notin> set c"
    and p: "SLASH # strings_Join [ascii ''etc'', ascii ''passwd''] [SLASH] = ascii ''/etc/passwd''"
    "replace_byte 0x5C [SLASH] (strings_Join (replicate 2 [DOT, DOT] @ [ascii ''etc'', ascii ''passwd'']) [0x5C]) = ascii ''../../etc/passwd''"
    by code_simp+
  with open_escapes_root [of sample_fs 2 "[ascii ''etc'', ascii ''passwd'']" 0 store_host 0 0 "([ascii ''/etc/passwd'' \<mapsto> [1]], [ascii ''/etc/passwd''])"]
  show ?thesis unfolding p by (simp add: sample_fs_def store_host_def)
qed

section \<open>Directory streams\<close>

text \<open>
  What the host promises of a directory it reads: \<open>left\<close> are the entries a descriptor has not handed out. A read hands out some of them
  from the front, reports the end when none are left, and after another error nothing has changed. Every entry can be examined.
\<close>

definition host_lists :: "'o host \<Rightarrow> (fd \<Rightarrow> 'o \<Rightarrow> dir_entry list) \<Rightarrow> bool" where
  "host_lists H left \<longleftrightarrow>
     (\<forall>f n o'. 0 < n \<longrightarrow> (case f_ReadDir H f n o' of ((ds, e), o'') \<Rightarrow>
        (e = None \<longrightarrow> left f o' = ds @ left f o'' \<and> ds \<noteq> []) \<and>
        (e = Some VE_EOF \<longrightarrow> ds = [] \<and> left f o' = [] \<and> left f o'' = []) \<and>
        (e \<noteq> None \<and> e \<noteq> Some VE_EOF \<longrightarrow> o'' = o'))) \<and>
     (\<forall>f o'. \<forall>d\<in>set (left f o'). case getExtendedFileInfo d of Inl _ \<Rightarrow> False | Inr _ \<Rightarrow> True)"

definition entry_infos :: "dir_entry list \<Rightarrow> DirInfo list" where
  "entry_infos ds = map (\<lambda>d. projr (getExtendedFileInfo d)) ds"

lemma dir_infos_ok: "\<forall>d\<in>set ds. case getExtendedFileInfo d of Inl _ \<Rightarrow> False | Inr _ \<Rightarrow> True \<Longrightarrow> dir_infos ds = Inr (entry_infos ds)"
  by (induction ds) (auto simp: entry_infos_def split: sum.splits)

text \<open>The entries a handle has not handed out, for a call with the given flags: the dots come first.\<close>

definition restarted :: "'o host \<Rightarrow> u64 \<Rightarrow> OpenFile \<Rightarrow> nat \<Rightarrow> 'o PassthroughFS \<Rightarrow> OpenFile \<times> 'o PassthroughFS" where
  "restarted H handle open flags s = (if odd flags
     then (open\<lparr>OpenFile_dirPos := 0\<rparr>, store handle (open\<lparr>OpenFile_dirPos := 0\<rparr>)
       (s\<lparr>PassthroughFS_host := f_Rewind H (OpenFile_f open) (PassthroughFS_host s)\<rparr>))
     else (open, s))"

definition entries_left :: "'o host \<Rightarrow> (fd \<Rightarrow> 'o \<Rightarrow> dir_entry list) \<Rightarrow> u64 \<Rightarrow> OpenFile \<times> 'o PassthroughFS \<Rightarrow> DirInfo list" where
  "entries_left H left h r = (case r of (open, s) \<Rightarrow>
     let ds = entry_infos (left (OpenFile_f open) (PassthroughFS_host s)) in
     if OpenFile_dirPos open = 0 then (case passthrough_GetAttr H h s of Inl _ \<Rightarrow> [] | Inr a \<Rightarrow> dot_entries a @ ds) else ds)"

definition passthrough_rest :: "'o host \<Rightarrow> (fd \<Rightarrow> 'o \<Rightarrow> dir_entry list) \<Rightarrow> u64 \<Rightarrow> nat \<Rightarrow> 'o PassthroughFS \<Rightarrow> DirInfo list" where
  "passthrough_rest H left h flags s =
     (if h = 0 then [] else case load h s of None \<Rightarrow> [] | Some open \<Rightarrow> entries_left H left h (restarted H h open flags s))"

lemma restarted_load: "load h s = Some open \<Longrightarrow> restarted H h open flags s = (open', s') \<Longrightarrow> load h s' = Some open'"
  by (auto simp: restarted_def store_def split: if_splits)

lemma restarted_continue: "restarted H h open ReadDirContinue s = (open, s)"
  by (simp add: restarted_def)

lemma readDir_eq:
  "readDir H h open flags n s = (let (open, s) = restarted H h open flags s in
     case (if OpenFile_dirPos open = 0
           then (case passthrough_GetAttr H h s of Inl e \<Rightarrow> Inl e | Inr a \<Rightarrow> Inr (dot_entries a)) else Inr []) of
       Inl e \<Rightarrow> (Inl e, s)
     | Inr dots \<Rightarrow>
         let ((entries, e), s) = on_host (f_ReadDir H (OpenFile_f open) n) s in
         if e \<noteq> None \<and> (e \<noteq> Some VE_EOF \<or> OpenFile_dirPos open \<noteq> 0) then (Inl (the e), s)
         else (case dir_infos entries of
             Inl e \<Rightarrow> (Inl e, s)
           | Inr infos \<Rightarrow> (Inr (dots @ infos), store h (open\<lparr>OpenFile_dirPos := 1\<rparr>) s)))"
  by (simp add: readDir_def restarted_def)

lemma readDir_streams:
  assumes H: "host_lists H left" and n: "0 < n" and l: "h \<noteq> 0" "load h s = Some open"
  shows "case readDir H h open flags n s of (r, s') \<Rightarrow> case r of
       Inl e \<Rightarrow> (e = VE_EOF \<longrightarrow> passthrough_rest H left h flags s = []) \<and>
         passthrough_rest H left h ReadDirContinue s' = passthrough_rest H left h flags s
     | Inr xs \<Rightarrow> passthrough_rest H left h flags s = xs @ passthrough_rest H left h ReadDirContinue s' \<and>
         (xs = [] \<longrightarrow> passthrough_rest H left h flags s = [])"
proof -
  obtain o1 s1 where r: "restarted H h open flags s = (o1, s1)" by fastforce
  have l1: "load h s1 = Some o1" by (rule restarted_load [OF l(2) r])
  obtain ds e h2 where rd: "f_ReadDir H (OpenFile_f o1) n (PassthroughFS_host s1) = ((ds, e), h2)" by (metis surj_pair)
  let ?left = "left (OpenFile_f o1)" and ?h1 = "PassthroughFS_host s1"
  have ok: "\<forall>d\<in>set (?left ?h1). case getExtendedFileInfo d of Inl _ \<Rightarrow> False | Inr _ \<Rightarrow> True"
    using conjunct2 [OF H [unfolded host_lists_def]] by blast
  have law: "(e = None \<longrightarrow> ?left ?h1 = ds @ ?left h2 \<and> ds \<noteq> []) \<and> (e = Some VE_EOF \<longrightarrow> ds = [] \<and> ?left ?h1 = [] \<and> ?left h2 = []) \<and>
      (e \<noteq> None \<and> e \<noteq> Some VE_EOF \<longrightarrow> h2 = ?h1)"
    using conjunct1 [OF H [unfolded host_lists_def], rule_format, OF n, of "OpenFile_f o1" ?h1] rd by simp
  have "set ds \<subseteq> set (?left ?h1)" if "e = None \<or> e = Some VE_EOF" using that law by auto
  then have di: "dir_infos ds = Inr (entry_infos ds)" if "e = None \<or> e = Some VE_EOF" using that ok dir_infos_ok [of ds] by blast
  have rest: "passthrough_rest H left h flags s = entries_left H left h (o1, s1)" using l r by (simp add: passthrough_rest_def)
  have same: "passthrough_rest H left h ReadDirContinue s1 = entries_left H left h (o1, s1)"
    using l(1) l1 by (simp add: passthrough_rest_def restarted_def)
  have failed: "passthrough_rest H left h ReadDirContinue (s1\<lparr>PassthroughFS_host := h2\<rparr>) = entries_left H left h (o1, s1)" if "e = Some e'" "e' \<noteq> VE_EOF \<or> OpenFile_dirPos o1 \<noteq> 0" for e'
  proof (cases "e' = VE_EOF")
    case True
    then show ?thesis using that law l(1) l1 by (auto simp: passthrough_rest_def restarted_def entries_left_def entry_infos_def)
  next
    case False
    then show ?thesis using that law same by simp
  qed
  have done': "passthrough_rest H left h ReadDirContinue (store h (o1\<lparr>OpenFile_dirPos := 1\<rparr>) (s1\<lparr>PassthroughFS_host := h2\<rparr>)) = entry_infos (?left h2)"
    using l(1) by (simp add: passthrough_rest_def restarted_def entries_left_def store_def)
  have app: "entry_infos (?left ?h1) = entry_infos ds @ entry_infos (?left h2)" "?left ?h1 = [] \<longleftrightarrow> ds = []" if "e = None \<or> e = Some VE_EOF"
    using that law by (auto simp: entry_infos_def)
  let ?dots = "if OpenFile_dirPos o1 = 0 then (case passthrough_GetAttr H h s1 of Inl e \<Rightarrow> Inl e | Inr a \<Rightarrow> Inr (dot_entries a)) else Inr []"
  note eq = readDir_eq [of H h "open" flags n s, unfolded r prod.case Let_def]
  show ?thesis
  proof (cases ?dots)
    case (Inl e0)
    then have "entries_left H left h (o1, s1) = []" by (auto simp: entries_left_def split: if_splits sum.splits)
    then show ?thesis using Inl same by (simp add: eq rest)
  next
    case (Inr dots)
    then have el: "entries_left H left h (o1, s1) = dots @ entry_infos (?left ?h1)"
      by (auto simp: entries_left_def split: if_splits sum.splits)
    have hd: "dots = [] \<longleftrightarrow> OpenFile_dirPos o1 \<noteq> 0" using Inr by (auto simp: dot_entries_def split: if_splits sum.splits)
    note rh = on_host_def [of "f_ReadDir H (OpenFile_f o1) n" s1, unfolded rd Let_def prod.case]
    show ?thesis
    proof (cases "e \<noteq> None \<and> (e \<noteq> Some VE_EOF \<or> OpenFile_dirPos o1 \<noteq> 0)")
      case True
      then obtain e' where e: "e = Some e'" "e' \<noteq> VE_EOF \<or> OpenFile_dirPos o1 \<noteq> 0" by auto
      have "entries_left H left h (o1, s1) = []" if "e' = VE_EOF" using that e hd el law by (simp add: entry_infos_def)
      then show ?thesis using Inr True e failed [OF e] by (simp add: eq rest rh)
    next
      case False
      then have e: "e = None \<or> e = Some VE_EOF" by auto
      have "dots @ entry_infos ds \<noteq> []" using False hd law by (auto simp: entry_infos_def)
      then show ?thesis using Inr False di [OF e] app(1) [OF e] done' el by (auto simp: eq rest rh)
    qed
  qed
qed


definition sample_info :: FileInfo where
  "sample_info = \<lparr>FileInfo_Size = 3, FileInfo_Mode = 0x1A4, FileInfo_ModTime = 0, FileInfo_Sys = Some \<lparr>Stat_Ino = 7, Stat_Dev = 1,
     Stat_Blocks = 8, Stat_BlkSize = 512, Stat_Nlink = 1, Stat_UID = 0, Stat_GID = 0, Stat_Mtime = 0, Stat_Atime = 0, Stat_Ctime = 0,
     Stat_Btime = 0\<rparr>\<rparr>"

text \<open>A host with one directory; its state is the number of entries already read.\<close>

definition dir_host :: "nat host" where
  "dir_host = idle_host\<lparr>f_Stat := \<lambda>f s. Inr sample_info, f_Rewind := \<lambda>f s. 0,
     f_ReadDir := \<lambda>f n s. let ds = drop s [(ascii ''a'', Inr sample_info), (ascii ''b'', Inr sample_info)] in
       if ds = [] then (([], Some VE_EOF), s) else ((take n ds, None), s + n)\<rparr>"

definition dir_left :: "fd \<Rightarrow> nat \<Rightarrow> dir_entry list" where
  "dir_left f s = drop s [(ascii ''a'', Inr sample_info), (ascii ''b'', Inr sample_info)]"

lemma dir_host_lists: "host_lists dir_host dir_left"
proof -
  have "case getExtendedFileInfo d of Inl _ \<Rightarrow> False | Inr _ \<Rightarrow> True" if "d \<in> set (dir_left f s)" for d f s
    using in_set_dropD [OF that [unfolded dir_left_def]]
    by (auto simp: getExtendedFileInfo_def attr_of_def fileInfoToAttr_def sample_info_def Let_def)
  moreover have "drop s xs = take n (drop s xs) @ drop (s + n) xs" for s n :: nat and xs :: "dir_entry list"
    using append_take_drop_id [of n "drop s xs"] by (simp add: add.commute)
  ultimately show ?thesis unfolding host_lists_def by (auto simp: dir_host_def dir_left_def Let_def)
qed

definition sample_bulk :: bulk_env where
  "sample_bulk = \<lparr>be_linux = True, be_sha256 = \<lambda>_. replicate 32 0, be_manifest = \<lambda>_. None, be_unmanifest = \<lambda>_. None,
     be_progress = \<lambda>_. None, be_unprogress = \<lambda>_. None, be_capabilities = \<lambda>_. [], be_receipt = \<lambda>_. [], be_unreceipt = \<lambda>_. None\<rparr>"

definition sample_dir_fs :: "nat PassthroughFS" where
  "sample_dir_fs = \<lparr>PassthroughFS_rootPath = ascii ''/srv'',
     PassthroughFS_openFiles = [5 \<mapsto> \<lparr>OpenFile_path = ascii ''/srv'', OpenFile_isDir = True, OpenFile_f = 3, OpenFile_dirPos = 1\<rparr>],
     PassthroughFS_bulkMaxBytes = 0, PassthroughFS_host = 2\<rparr>"


end
