(* ===== verification/Spec2Isabelle.thy ===== *)
theory Spec2Isabelle
  imports Server_Run Passthrough
begin

text \<open>
  A verification development for \<open>go-smb2\<close>, an SMB 2 and 3 file server in Go. File names are relative to the root of the sources.

  \<^bold>\<open>The program.\<close> A connection (\<open>server/conn.go\<close>) reads frames from a transport, decrypts and verifies them with the keys of its
  session and splits compounds into requests. A loop (\<open>conn.Run\<close>, \<open>server/server.go\<close>) hands each request to a handler of the connection
  (negotiation, login, trees) or of the tree its header names: a share of files (\<open>server/file_tree.go\<close>) or the pipe share
  (\<open>server/ipc_tree.go\<close>). Handlers decode requests and encode responses with \<open>internal/smb2\<close>, keep a table of opens that all connections
  share, and call a file system through the interface of \<open>vfs/vfs.go\<close>. The main program exports a directory of the host
  (\<open>fs_impl.go\<close>), which also applies journals that a relay uploads (\<open>bulk\<close>).

  \<^bold>\<open>The model.\<close> It is a shallow embedding. A byte slice is a list of bytes and a Go string its UTF-8 bytes; fixed-width integers are words, so
  that sums wrap where the code's do. A run-time panic is \<open>None\<close>: the server has no \<open>recover\<close>, so a panic ends the process. Errors are values of a
  sum type. A struct is a record and a method a function that returns the changed record; state that several objects reach through
  pointers lives in a list or a table and the pointers are indices. Slices fault at their length, not at their capacity. Code outside the
  repository is an argument: hash functions, ciphers, JSON and DER decoders, regular expressions, the file system behind the interface, the
  operating system behind the exported directory, the clock and random numbers.

  \<^bold>\<open>Foundations.\<close>
  \<^item> \<open>Go_Prelude\<close>: slices with bounds checks, \<open>encoding/binary\<close>, \<open>copy\<close>, in-place writers and their algebra, nested encoders.
  \<^item> \<open>Utf16le\<close>: \<open>internal/utf16le\<close>, with the UTF-8 decoding of the language written out.
  \<^item> \<open>Path\<close>, \<open>Host_Os\<close>: \<open>server/path.go\<close>; the host's operations and the path functions of the standard library.

  \<^bold>\<open>Messages.\<close>
  \<^item> \<open>Smb2_Packet\<close>, \<open>Smb2_Types\<close>: \<open>packet.go\<close>, \<open>smb2.go\<close>, \<open>dtyp.go\<close> and \<open>util.go\<close> of \<open>internal/smb2\<close>.
  \<^item> \<open>Smb2_Message\<close>: the contract of a message (locales \<open>smb2_message\<close> and \<open>smb2_command\<close>), interpreted for every request and response in
    \<open>Smb2_Request_Codec\<close> and \<open>Smb2_Response_Codec\<close>, whose definitions are in \<open>Smb2_Request\<close> and \<open>Smb2_Response\<close> (\<open>request.go\<close>,
    \<open>response.go\<close>, \<open>oplock.go\<close>). The lemmas show that no encoder leaves a buffer of its size, what decoders read back, and which accessors
    panic on a message that passed its check.
  \<^item> \<open>Fscc\<close>, \<open>Info_Fs\<close>, \<open>Info_Codec\<close>: \<open>fscc.go\<close> and \<open>server/info_fs.go\<close>, with the contract \<open>information\<close> interpreted for every class.
  \<^item> \<open>Acl\<close>: \<open>server/acl.go\<close>. \<open>Dcerpc\<close>: \<open>internal/smb2/dcerpc.go\<close>.

  \<^bold>\<open>Security.\<close>
  \<^item> \<open>Block_Cipher\<close>, \<open>Ccm\<close>, \<open>Cmac\<close>: \<open>internal/crypto\<close>, compared with the NIST definitions over whole blocks.
  \<^item> \<open>Session\<close>: \<open>server/session.go\<close> and \<open>kdf.go\<close>; the contract \<open>aead_scheme\<close> is interpreted on CCM.
  \<^item> \<open>Ntlm\<close>, \<open>Ntlm_Handshake\<close>: \<open>internal/ntlm\<close>, both sides, and the four-message exchange.
  \<^item> \<open>Spnego\<close>: \<open>internal/spnego\<close>, \<open>server/spnego.go\<close>, \<open>server/authenticator.go\<close>.

  \<^bold>\<open>Connection and server.\<close>
  \<^item> \<open>Transport\<close>, \<open>Credit\<close>, \<open>Compound\<close>: frames, the credit account as a step relation over its goroutines, collected responses.
  \<^item> \<open>Conn\<close>, \<open>Conn_Send\<close>: \<open>runReciever\<close> from a frame to requests, \<open>sendPacket\<close> from a response to a frame.
  \<^item> \<open>Opens\<close>: the open table with its delete marks (contract \<open>delete_table\<close>) and the oplock and lease breaks.
  \<^item> \<open>Server\<close>, \<open>Server_Session\<close>, \<open>Server_Trees\<close>: negotiation, session setup, trees; the login as a whole and the reference counts.
  \<^item> \<open>File_Tree\<close>, \<open>File_Dir\<close>, \<open>File_Query\<close>, \<open>File_Set\<close>: the handlers of \<open>server/file_tree.go\<close> in its order. \<open>Ipc_Tree\<close>: the pipe share.
  \<^item> \<open>Server_Run\<close>: one round of \<open>conn.Run\<close> with every command, what each handler leaves alone, and the worlds reachable by any requests.

  \<^bold>\<open>File system.\<close>
  \<^item> \<open>Vfs\<close>: the interface as a record of operations, attributes and permissions (\<open>vfs\<close>).
  \<^item> \<open>Xattrstore\<close>, \<open>Bulk\<close>, \<open>Passthrough\<close>: \<open>internal/xattrstore\<close>, \<open>bulk\<close>, \<open>fs_impl.go\<close> and \<open>fs_impl_unix.go\<close> over the operations of the host.

  \<^bold>\<open>What is shown.\<close> The properties are numbered C1 to C40, each stated before its theorem. They say that a client with a password logs in and
  both ends hold the same keys (C1, C10, C11); that every sequence of requests keeps the tables well formed and the shares apart (C2, C5, C12,
  C17 to C19); that compounds, signatures and encryption survive the way from one end to the other (C4, C6 to C9); that directory listings are
  complete, bounded and end (C3, C14 to C16, C23); that codecs and codes meet their definitions (C21, C22, C24 to C31); that journals are applied in
  order (C13); and which inputs end the process or leave the share (C32 to C40). Hypotheses on code outside the repository are named where they
  are used, such as \<open>streams\<close> for directory streams, \<open>host_writes\<close> and \<open>host_lists\<close> for the host, and each has a witness. \<open>Bulk\<close> also has the round trip of
  the package format (\<open>bulk_round_trip\<close>) and the confinement of the paths of a journal to the root (\<open>resolve_confined\<close>).

  \<^bold>\<open>Loops and bounds.\<close> Loops over data are structural recursions; those that skip ahead (create contexts, negotiate contexts, links between
  entries, runs of writes) are functions with a measure on what remains. The loop over a directory runs as long as the file system hands out
  entries, so \<open>query_loop\<close> is a partial function and C15 shows that it returns; the client's scan in C3 has as fuel the number of matching entries
  plus one, which the theorem shows to be enough. What a handler starts in a goroutine is a task, and a step of its own runs it.

  \<^bold>\<open>Not modelled.\<close> Goroutine scheduling within a handler, channels between receiver and loop, timeouts and shutdown of connections; the client side
  of outstanding requests; AES-GCM, AES and the hash functions themselves; reading of DER; the watchers of \<open>fsnotify\<close>, which the server does not call; the tables of
  constants (\<open>internal/erref\<close>, \<open>const.go\<close>); \<open>internal/msrpc\<close>, which nothing imports; \<open>stats\<close>, \<open>bonjour\<close>, \<open>config\<close>, logging and the main program, which are counters
  and input and output; the code for Windows.
\<close>

text \<open>C29. Decoding the UTF-16LE bytes of a well-formed string (the UTF-8 of a list of Unicode
  scalar values) that does not end in NUL gives the string back.\<close>

theorem string_utf16_round_trip:
  assumes "list_all scalar rs" and "rs \<noteq> [] \<longrightarrow> last rs \<noteq> 0"
  shows "EncodeStringToBytes (string_of_runes rs) \<bind> DecodeToString = Some (string_of_runes rs)"
  using assms by (rule DecodeToString_EncodeStringToBytes)

theorem string_utf16_round_trip_witness:
  "EncodeStringToBytes (string_of_runes [0x41, 0x20AC, 0x1F600]) \<bind> DecodeToString
     = Some (string_of_runes [0x41, 0x20AC, 0x1F600])"
  by (rule string_utf16_round_trip) (simp_all add: scalar_def)

section \<open>Sample values\<close>

text \<open>Concrete headers, packets and connections at which the properties are exhibited.\<close>

definition sample_packet :: "u32 \<Rightarrow> u32 \<Rightarrow> u64 \<Rightarrow> bytes" where
  "sample_packet flags nxt msgId =
     MAGIC @ [64, 0] @ replicate 10 0 @ le_of_word 4 flags @ le_of_word 4 nxt @ le_of_word 8 msgId @ replicate 32 0"

definition sample_header :: "u32 \<Rightarrow> u64 \<Rightarrow> PacketHeader" where
  "sample_header flags msgId = \<lparr>hdr_CreditCharge = 1, hdr_ChannelSequence = 0, hdr_Status = 0, hdr_Command = 0,
     hdr_CreditRequestResponse = 1, hdr_Flags = flags, hdr_NextCommand = 0, hdr_MessageId = msgId, hdr_AsyncId = 0,
     hdr_TreeId = 0, hdr_SessionId = 0\<rparr>"

definition sample_account :: account where
  "sample_account = \<lparr>account_cap = 128, account_balance = 1, account_opening = 0\<rparr>"

definition sample_conn :: "session option \<Rightarrow> conn" where
  "sample_conn s = \<lparr>conn_session = s, conn_sessions = (\<lambda>_. None), conn_useSession = False, conn_sequenceWindow = 1,
     conn_dialect = SMB210, conn_maxTransactSize = 0, conn_maxReadSize = 0, conn_maxWriteSize = 0,
     conn_requireSigning = False, conn_capabilities = 0, conn_preauthIntegrityHashId = 0,
     conn_preauthIntegrityHashValue = replicate 64 0, conn_cipherId = 0, conn_hashId = 0, conn_posixExtensions = False,
     conn_account = sample_account, conn_serverState = STATE_SESSION_ACTIVE, conn_out = []\<rparr>"

definition sample_session :: "(bytes \<Rightarrow> bytes) option \<Rightarrow> aead option \<Rightarrow> session" where
  "sample_session mac a = \<lparr>session_flags = 0, session_id = 7, session_preauth = [], session_trees = (\<lambda>_. None),
     session_signer = mac, session_verifier = mac, session_encrypter = a, session_decrypter = a\<rparr>"

definition sample_comp :: "u64 \<Rightarrow> compoundContext" where
  "sample_comp m = \<lparr>comp_treeId = 0, comp_sessionId = 0, comp_fileId = None, comp_lastStatus = 0, comp_lastMsgId = m,
     comp_rsp = []\<rparr>"

lemma sample_part: "comp_part (flags AND 4 \<noteq> 0) (unat nxt) (sample_packet flags nxt msgId)"
  by (simp add: comp_part_def sample_packet_def rd_def MAGIC_def)

section \<open>Frames\<close>



text \<open>C6. The responses to a compound request, sent one after the other, leave as one frame, which a
  receiver of this protocol splits into as many packets with the same message ids in the same order.
  The responses may be unsigned or signed by the session; they are not encrypted.\<close>

theorem compound_response_received:
  assumes "response_ids (comp_lastMsgId ctx) reqs" "list_all (response_ok c) reqs" "2 \<le> length reqs" "comp_rsp ctx = []"
  shows "\<exists>c' ctx' frame rs cs. send_responses sha512 nonce c reqs ctx = Some (c', ctx') \<and>
    conn_out c' = conn_out c @ [frame] \<and> recv_loop peer False s e None [] frame = Some (Recv_next, rs, cs) \<and>
    map req_msgId rs = map (\<lambda>r. hdr_MessageId (pkt_Header (fst r))) reqs"
  using assms by (rule send_responses_received)

definition sample_logoff :: "u64 \<Rightarrow> packet" where
  "sample_logoff msgId = LogoffResponse_packet \<lparr>LogoffResponse_Header = sample_header 1 msgId\<rparr>"

lemma sample_logoff_ok: "packet_ok (sample_logoff msgId)"
  unfolding sample_logoff_def by (rule LogoffResponse_pkt.packet_of_ok) simp

theorem compound_response_received_witness:
  "\<exists>c' ctx' frame rs cs. send_responses id [] (sample_conn (Some (sample_session (Some id) None)))
      [(sample_logoff 1, None), (sample_logoff 2, None)] (sample_comp 2) = Some (c', ctx') \<and>
    conn_out c' = [frame] \<and> recv_loop (sample_conn None) False None False None [] frame = Some (Recv_next, rs, cs) \<and>
    map req_msgId rs = [1, 2]"
  using compound_response_received [of "sample_comp 2" "[(sample_logoff 1, None), (sample_logoff 2, None)]"
      "sample_conn (Some (sample_session (Some id) None))" id "[]" "sample_conn None" None False]
    sample_logoff_ok
  by (simp add: sample_comp_def response_ok_def sends_plain_def sample_conn_def sample_session_def session_anonymous_def
      sample_logoff_def packet_of_def sample_header_def LogoffResponse_Size_def)

section \<open>Signing and encryption\<close>

text \<open>C7. What a connection with an authenticated session encodes is a packet whose signature the
  other side accepts under the same key, for every message authentication code, every message and
  every state of the connection that does not ask for encryption.\<close>

theorem signed_response_verifies:
  assumes "packet_ok req" "encodePacket_session c req = Some s" "pkt_kind req \<noteq> PK_SessionSetupRequest"
    and "session_flags s AND SMB2_SESSION_FLAG_ENCRYPT_DATA = 0"
    and "\<forall>t. tc = Some t \<longrightarrow> tc_shareFlags t AND SMB2_SHAREFLAG_ENCRYPT_DATA = 0"
    and "\<not> session_anonymous s" "session_signer s = Some h"
    and "session_verifier peer = Some h" "\<not> session_anonymous peer"
  shows "\<exists>p hdr c' q. conn_encodePacket c nonce req tc = Some (p, hdr, c') \<and> session_verify peer p = Some (True, q)"
  using assms by (rule encodePacket_signed)

theorem signed_response_verifies_witness:
  "\<exists>p hdr c' q. conn_encodePacket (sample_conn (Some (sample_session (Some rev) None))) [] (sample_logoff 3) None =
      Some (p, hdr, c') \<and> session_verify (sample_session (Some rev) None) p = Some (True, q)"
  by (rule signed_response_verifies [where s = "sample_session (Some rev) None" and h = rev, OF sample_logoff_ok])
    (simp_all add: encodePacket_session_def sample_logoff_def packet_of_def sample_conn_def sample_session_def
      session_anonymous_def)

text \<open>C8. Decrypting what a session encrypted under AES-CCM as the server sets it up gives the packet
  back, and the transform header carries the session id; for every block cipher and every packet of
  1 to \<open>2^32 - 1\<close> bytes.\<close>

theorem encrypted_packet_decrypts:
  assumes "session_encrypter s = Some (aead_of_ccm (server_ccm ciph))" "session_decrypter t = Some (aead_of_ccm (server_ccm ciph))"
    and "length nonce = 11" "ccm_fits pkt"
  shows "\<exists>c. session_encrypt s nonce pkt = Some c \<and> \<not> TransformCodec_IsInvalid c \<and> length c = 52 + length pkt \<and>
    TransformCodec_Flags c = Some Encrypted \<and> TransformCodec_SessionId c = Some (session_id s) \<and>
    session_decrypt t c = Some (Inr pkt)"
  using assms by (intro ccm.decrypt_encrypt) (simp_all add: aead_of_ccm_def server_ccm_def)

theorem encrypted_packet_decrypts_witness:
  "\<exists>c. session_encrypt (sample_session None (Some (aead_of_ccm (server_ccm rev)))) (replicate 11 5) [1, 2, 3] = Some c \<and>
    session_decrypt (sample_session None (Some (aead_of_ccm (server_ccm rev)))) c = Some (Inr [1, 2, 3])"
  using encrypted_packet_decrypts [of "sample_session None (Some (aead_of_ccm (server_ccm rev)))" rev
      "sample_session None (Some (aead_of_ccm (server_ccm rev)))" "replicate 11 5" "[1, 2, 3]"]
  by (auto simp: sample_session_def ccm_fits_def)

text \<open>C9. A transform packet decrypts to a packet only if it carries the ciphertext and the tag that
  sealing that packet under its own nonce and authenticated header bytes gives: no bit of the
  authenticated header, of the ciphertext or of the tag can be changed.\<close>

theorem decrypted_packet_authentic:
  assumes "session_decrypter t = Some (aead_of_ccm (server_ccm ciph))" "\<not> TransformCodec_IsInvalid c"
    and "session_decrypt t c = Some (Inr pkt)"
  shows "ccm_fits pkt \<and> drop 52 c @ rd 4 16 c = ccm_sealed (server_ccm ciph) (rd 20 11 c) pkt (rd 20 32 c)"
proof -
  have n: "length (rd 20 11 c) = 11" using assms(2) by (simp add: TransformCodec_valid_iff)
  have "ccm_fits pkt \<and> (\<exists>ret. ccm_Seal (server_ccm ciph) [] (rd 20 11 c) pkt (rd 20 32 c) = Some (drop 52 c @ rd 4 16 c, ret))"
    using ccm.decrypt_authentic [OF assms, of "[]"] by (simp add: aead_of_ccm_def server_ccm_def)
  then show ?thesis using ccm_Seal_server(1) [OF n, of pkt ciph "[]" "rd 20 32 c"] by (auto simp: ccm_fits_def)
qed

lemma sample_decrypts:
  "\<exists>c. \<not> TransformCodec_IsInvalid c \<and>
     session_decrypt (sample_session None (Some (aead_of_ccm (server_ccm rev)))) c = Some (Inr [1, 2, 3])"
  using ccm.decrypt_encrypt [of "sample_session None (Some (aead_of_ccm (server_ccm rev)))" rev
      "sample_session None (Some (aead_of_ccm (server_ccm rev)))" "replicate 11 5" "[1, 2, 3]"]
  by (auto simp: sample_session_def ccm_fits_def aead_of_ccm_def server_ccm_def)

theorem decrypted_packet_authentic_witness:
  "\<exists>c. drop 52 c @ rd 4 16 c = ccm_sealed (server_ccm rev) (rd 20 11 c) [1, 2, 3] (rd 20 32 c)"
proof -
  obtain c where "\<not> TransformCodec_IsInvalid c"
    "session_decrypt (sample_session None (Some (aead_of_ccm (server_ccm rev)))) c = Some (Inr [1, 2, 3])"
    using sample_decrypts by blast
  from decrypted_packet_authentic [OF _ this] show ?thesis by (auto simp: sample_session_def)
qed

text \<open>C22. \<open>Open\<close> of AES-CCM accepts exactly the non-empty sealed payloads: for every nonce of the
  right length and all associated data, opening succeeds if and only if the input is what sealing the
  returned payload gives.\<close>

theorem ccm_open_exact:
  assumes "NewCCMWithNonceAndTagSizes ciph bsz n t = Inr ccm" "length nonce = n"
  shows "ccm_Open ccm dst nonce ct data = Some (Inr out) \<longleftrightarrow>
    (\<exists>P. P \<noteq> [] \<and> of_nat (length P) \<le> maxUvarint (15 - n) \<and> ct = ccm_sealed ccm nonce P data \<and> out = dst @ P)"
proof -
  have "ccm_nonceSize ccm = n" using assms(1) by (auto simp: NewCCMWithNonceAndTagSizes_def split: if_splits)
  then show ?thesis using ccm_Open_iff [OF NewCCM_wf [OF assms(1)]] assms(2) by simp
qed

theorem ccm_open_exact_witness:
  "ccm_Open (server_ccm rev) [] (replicate 11 0) (ccm_sealed (server_ccm rev) (replicate 11 0) [7] []) [] = Some (Inr [7])"
  by (subst ccm_open_exact [OF server_ccm_New]) (auto simp: maxUvarint_def intro!: exI [of _ "[7]"])

text \<open>C21. A CMAC object computes the code of NIST SP 800-38B of the bytes written since the last
  reset, for every message, whatever the object absorbed before; its subkeys are the encrypted zero
  block doubled once and twice in the field with 128 bits.\<close>

theorem cmac_is_sp800_38b:
  assumes "cmac_New 16 ciph = Some d0" "d = fold cmac_Write earlier d0"
  shows "fst (cmac_Sum [] (cmac_Write M (cmac_Reset d))) = cmac_spec 16 ciph (cmac_k1 d) (cmac_k2 d) M \<and>
    (word_of_be (cmac_k1 d) :: 128 word) = gf_double 0x87 (word_of_be (Encrypt 16 ciph (replicate 16 0))) \<and>
    (word_of_be (cmac_k2 d) :: 128 word) = gf_double 0x87 (word_of_be (cmac_k1 d))"
proof -
  note w = cmac_fold_Write [OF cmac_New_wf [OF assms(1)], of earlier, folded assms(2)]
  show ?thesis using cmac_Sum_Write_Reset [OF w(1), of M] cmac_New_keys [OF assms(1)] w by simp
qed

theorem cmac_is_sp800_38b_witness:
  "\<exists>d. cmac_New 16 rev = Some d \<and> fst (cmac_Sum [] (cmac_Write [1, 2] (cmac_Reset (fold cmac_Write [[9]] d)))) =
     cmac_spec 16 rev (cmac_k1 (fold cmac_Write [[9]] d)) (cmac_k2 (fold cmac_Write [[9]] d)) [1, 2]"
proof -
  obtain d where d: "cmac_New 16 rev = Some d" by (simp add: cmac_New_def Let_def)
  from cmac_is_sp800_38b [OF d refl, of "[1, 2]" "[[9]]"] d show ?thesis by blast
qed

section \<open>Messages\<close>


definition sample_create :: CreateRequest where
  "sample_create = \<lparr>CreateRequest_Header = sample_header 0 5, CreateRequest_SecurityFlags = 0,
     CreateRequest_RequestedOplockLevel = 0, CreateRequest_ImpersonationLevel = 2, CreateRequest_SmbCreateFlags = 0,
     CreateRequest_DesiredAccess = 3, CreateRequest_FileAttributes = 0, CreateRequest_ShareAccess = 7,
     CreateRequest_CreateDisposition = 1, CreateRequest_CreateOptions = 0, CreateRequest_Name = [0x61],
     CreateRequest_Contexts = []\<rparr>"


section \<open>Transport and credits\<close>

text \<open>C28. The packets written on one end of a connection are the packets read on the other, in
  order and none lost or merged, as long as each has 1 to \<open>2^24 - 1\<close> bytes.\<close>

theorem frames_round_trip:
  assumes "list_all frame_ok ps" "sum_list (map (\<lambda>p. length p + 4) ps) \<le> tcp_room c"
    and "tcp_out c = []" "tcp_in peer = tcp_out (write_frames ps c)"
  shows "read_frames peer = ps"
proof -
  have "read_frames peer = ps @ read_frames (peer\<lparr>tcp_in := []\<rparr>)"
    using assms write_frames_out [OF assms(1,2)] by (intro read_frames_frames) simp_all
  moreover have "read_frames (peer\<lparr>tcp_in := []\<rparr>) = []"
    by (subst read_frames.simps) (simp add: read_frame_def directTCP_ReadSize_def io_ReadFull_def)
  ultimately show ?thesis by simp
qed

theorem frames_round_trip_witness:
  "read_frames \<lparr>tcp_in = tcp_out (write_frames [[1, 2], [3]] \<lparr>tcp_in = [], tcp_out = [], tcp_room = 100\<rparr>), tcp_out = [],
     tcp_room = 0\<rparr> = [[1, 2], [3]]"
  by (rule frames_round_trip [where c = "\<lparr>tcp_in = [], tcp_out = [], tcp_room = 100\<rparr>"])
    (simp_all add: frame_ok_def maxDirectTCPSize_def)



section \<open>Paths\<close>

text \<open>C31. Normalising a path is idempotent, and a normalised path has no slash, is not \<open>.\<close> and does
  not start with a current-directory component.\<close>

theorem normalised_paths:
  "normPath (normPath p) = normPath p \<and> SLASH \<notin> set (normPath p) \<and> normPath p \<noteq> [DOT] \<and>
     take 2 (normPath p) \<noteq> [DOT, BSLASH]"
  using normPath_idem normPath_no_slash normPath_not_relative by blast

text \<open>For a path made of a directory part, one or more separators, a last component and
  any number of trailing separators, \<open>base\<close> is the last component and \<open>dir\<close> the directory part (the root
  when that is empty).\<close>

theorem base_and_dir:
  assumes "b \<noteq> []" "BSLASH \<notin> set b" "0 < n" "d \<noteq> [] \<longrightarrow> last d \<noteq> BSLASH"
  shows "path_base (path_parts d n b t) = b \<and> path_dir (path_parts d n b t) = (if d = [] then [BSLASH] else d)"
  using assms path_base_parts [of b n d t] path_dir_parts [of b n d t] by simp

theorem base_and_dir_witness:
  "path_base (path_parts [0x61] 2 [0x62] 1) = [0x62] \<and> path_dir (path_parts [0x61] 2 [0x62] 1) = [0x61]"
  using base_and_dir [of "[0x62]" 2 "[0x61]" 1] by simp

section \<open>Frames that end the process\<close>

text \<open>C35. A single packet that carries the related-operations flag makes the receiver dereference a
  nil compound context: the server process ends, whatever the rest of the packet.\<close>

theorem related_packet_alone_panics:
  assumes "comp_part True 0 p"
  shows "recv_loop c h s e None comps p = None"
  using assms by (rule recv_loop_related_alone)

theorem related_packet_alone_panics_witness:
  "recv_loop (sample_conn None) False None False None [] (sample_packet 4 0 9) = None"
  using related_packet_alone_panics [of "sample_packet 4 0 9"] sample_part [of 4 0 9] by simp



end
